(* ===== verification/GoStrings.thy ===== *)
theory GoStrings
  imports Main "HOL-Library.Code_Target_Nat" "HOL-Library.List_Lexorder" "HOL-Library.Char_ord" "HOL-Library.Sublist"
begin

text \<open>
  The part of Go's standard library on strings and paths that the modelled packages call.

  A Go string is a sequence of bytes and so is an Isabelle \<^typ>\<open>string\<close>: a character here is
  a byte (\<open>of_char c < 256\<close>), \<open>len(s)\<close> is \<open>length s\<close>, \<open>s[i]\<close> is \<open>s ! i\<close>, \<open>s[i:j]\<close> is
  \<open>take (j - i) (drop i s)\<close>, and \<open><\<close> is the bytewise lexicographic order
  (\<open>List_Lexorder\<close> over \<open>Char_ord\<close>). White space is Go's \<open>unicode.IsSpace\<close>, written out on the
  UTF-8 encodings of the white space code points. Case mapping (\<open>strings.ToLower\<close>,
  \<open>strings.EqualFold\<close>) is the ASCII one: bytes from 0x80 on are left alone.
\<close>

named_theorems go_strings \<open>facts about the string library that the component proofs rewrite with\<close>

section \<open>Prefixes, suffixes and cutting\<close>

definition has_prefix :: "string \<Rightarrow> string \<Rightarrow> bool" where
  "has_prefix s p \<longleftrightarrow> take (length p) s = p"

definition has_suffix :: "string \<Rightarrow> string \<Rightarrow> bool" where
  "has_suffix s p \<longleftrightarrow> length p \<le> length s \<and> drop (length s - length p) s = p"

definition trim_prefix :: "string \<Rightarrow> string \<Rightarrow> string" where
  "trim_prefix s p = (if has_prefix s p then drop (length p) s else s)"

definition trim_suffix :: "string \<Rightarrow> string \<Rightarrow> string" where
  "trim_suffix s p = (if has_suffix s p then take (length s - length p) s else s)"

definition cut_prefix :: "string \<Rightarrow> string \<Rightarrow> string option" where
  "cut_prefix s p = (if has_prefix s p then Some (drop (length p) s) else None)"

lemma has_prefix_append [simp, go_strings]: "has_prefix (p @ s) p"
  by (simp add: has_prefix_def)

lemma has_prefix_Nil [simp, go_strings]: "has_prefix s []"
  by (simp add: has_prefix_def)

lemma has_prefix_Cons_Cons [simp, go_strings]:
  "has_prefix (c # s) (d # p) \<longleftrightarrow> c = d \<and> has_prefix s p"
  by (auto simp: has_prefix_def)

lemma has_prefix_Nil_Cons [simp, go_strings]: "\<not> has_prefix [] (d # p)"
  by (simp add: has_prefix_def)

lemma has_prefix_iff: "has_prefix s p \<longleftrightarrow> (\<exists>t. s = p @ t)"
  by (metis append_eq_conv_conj has_prefix_def)

lemma has_prefix_length: "has_prefix s p \<Longrightarrow> length p \<le> length s"
  by (auto simp: has_prefix_iff)

text \<open>\<open>strings.Index\<close>: the first offset at which the second string occurs, \<open>None\<close> for -1.\<close>

fun str_index :: "string \<Rightarrow> string \<Rightarrow> nat option" where
  "str_index [] p = (if p = [] then Some 0 else None)"
| "str_index (c # s) p =
     (if has_prefix (c # s) p then Some 0 else map_option Suc (str_index s p))"

definition str_contains :: "string \<Rightarrow> string \<Rightarrow> bool" where
  "str_contains s p \<longleftrightarrow> str_index s p \<noteq> None"

text \<open>\<open>strings.ContainsAny\<close> on a set of ASCII characters.\<close>

definition contains_any :: "string \<Rightarrow> string \<Rightarrow> bool" where
  "contains_any s cs \<longleftrightarrow> list_ex (\<lambda>c. c \<in> set cs) s"

text \<open>\<open>strings.Cut\<close> with the separator found or not.\<close>

definition str_cut :: "string \<Rightarrow> string \<Rightarrow> string \<times> string \<times> bool" where
  "str_cut s sep =
     (case str_index s sep of
        Some i \<Rightarrow> (take i s, drop (i + length sep) s, True)
      | None \<Rightarrow> (s, [], False))"

lemma str_index_Some_prefix: "str_index s p = Some i \<Longrightarrow> has_prefix (drop i s) p"
  by (induction s arbitrary: i) (auto split: if_splits)

lemma str_index_bound: "str_index s p = Some i \<Longrightarrow> i + length p \<le> length s"
proof (induction s arbitrary: i)
  case Nil
  then show ?case by (auto split: if_splits)
next
  case (Cons c s)
  then show ?case
    by (auto split: if_splits dest: has_prefix_length)
qed

lemma str_index_split:
  "str_index s p = Some i \<Longrightarrow> s = take i s @ p @ drop (i + length p) s"
  by (metis append_take_drop_id drop_drop has_prefix_def str_index_Some_prefix add.commute)

lemma str_index_first:
  "str_index s p = Some i \<Longrightarrow> j < i \<Longrightarrow> \<not> has_prefix (drop j s) p"
proof (induction s arbitrary: i j)
  case Nil
  then show ?case by (auto split: if_splits)
next
  case (Cons c s)
  then show ?case
    by (cases j) (auto split: if_splits)
qed

lemma str_index_None:
  "str_index s p = None \<longleftrightarrow> (\<forall>j \<le> length s. \<not> has_prefix (drop j s) p)"
proof (induction s)
  case Nil
  then show ?case by (cases p) auto
next
  case (Cons c s)
  have "(\<forall>j \<le> length (c # s). \<not> has_prefix (drop j (c # s)) p) \<longleftrightarrow>
        \<not> has_prefix (c # s) p \<and> (\<forall>j \<le> length s. \<not> has_prefix (drop j s) p)"
    by (metis (no_types, lifting) Suc_le_mono drop0 drop_Suc_Cons length_Cons not0_implies_Suc zero_le)
  then show ?case using Cons.IH by auto
qed

lemma str_contains_iff: "str_contains s p \<longleftrightarrow> (\<exists>u v. s = u @ p @ v)"
proof
  assume "str_contains s p"
  then obtain i where "str_index s p = Some i" by (auto simp: str_contains_def)
  then show "\<exists>u v. s = u @ p @ v" by (metis str_index_split)
next
  assume "\<exists>u v. s = u @ p @ v"
  then obtain u v where s: "s = u @ p @ v" by blast
  then have "has_prefix (drop (length u) s) p" by simp
  moreover have "length u \<le> length s" by (simp add: s)
  ultimately show "str_contains s p"
    unfolding str_contains_def using str_index_None by blast
qed

section \<open>Joining, splitting and replacing\<close>

fun str_join :: "string \<Rightarrow> string list \<Rightarrow> string" where
  "str_join sep [] = []"
| "str_join sep [x] = x"
| "str_join sep (x # y # ys) = x @ sep @ str_join sep (y # ys)"

text \<open>\<open>strings.Split\<close> on a one-byte separator.\<close>

fun split_on :: "char \<Rightarrow> string \<Rightarrow> string list" where
  "split_on d [] = [[]]"
| "split_on d (c # s) =
     (if c = d then [] # split_on d s
      else case split_on d s of [] \<Rightarrow> [[c]] | w # ws \<Rightarrow> (c # w) # ws)"

text \<open>\<open>strings.ReplaceAll\<close> with a non-empty old string, and \<open>strings.Replace(_, _, _, 1)\<close>.\<close>

function replace_all :: "string \<Rightarrow> string \<Rightarrow> string \<Rightarrow> string" where
  "replace_all old new s =
     (if old = [] then s
      else case str_index s old of
             None \<Rightarrow> s
           | Some i \<Rightarrow> take i s @ new @ replace_all old new (drop (i + length old) s))"
  by pat_completeness auto
termination
proof (relation "measure (\<lambda>(old, new, s). length s)", goal_cases)
  case 1
  then show ?case by simp
next
  case (2 old new s i)
  then have "i + length old \<le> length s" "old \<noteq> []"
    by (auto dest: str_index_bound)
  then show ?case by (cases old) auto
qed

declare replace_all.simps [simp del]

definition replace_first :: "string \<Rightarrow> string \<Rightarrow> string \<Rightarrow> string" where
  "replace_first s old new =
     (case str_index s old of
        None \<Rightarrow> s
      | Some i \<Rightarrow> take i s @ new @ drop (i + length old) s)"

lemma split_on_not_Nil [simp, go_strings]: "split_on d s \<noteq> []"
  by (induction s) (auto split: list.split)

lemma join_split_on [simp, go_strings]: "str_join [d] (split_on d s) = s"
proof (induction s)
  case Nil
  then show ?case by simp
next
  case (Cons c s)
  then show ?case
    by (cases "split_on d s" rule: list.exhaust; cases "tl (split_on d s)")
       (auto split: list.split)
qed

lemma split_on_parts: "w \<in> set (split_on d s) \<Longrightarrow> d \<notin> set w"
  by (induction s arbitrary: w) (auto split: if_splits list.splits)

lemma split_on_append_sep:
  "d \<notin> set x \<Longrightarrow> split_on d (x @ d # s) = x # split_on d s"
  by (induction x) auto

lemma split_on_no_sep: "d \<notin> set x \<Longrightarrow> split_on d x = [x]"
  by (induction x) auto

lemma split_join_on:
  "xs \<noteq> [] \<Longrightarrow> (\<And>x. x \<in> set xs \<Longrightarrow> d \<notin> set x) \<Longrightarrow> split_on d (str_join [d] xs) = xs"
proof (induction "[d]" xs rule: str_join.induct)
  case 1
  then show ?case by simp
next
  case (2 x)
  then show ?case by (simp add: split_on_no_sep)
next
  case (3 x y ys)
  then show ?case by (simp add: split_on_append_sep)
qed

lemma has_prefix_single [simp, go_strings]: "has_prefix (c # s) [d] \<longleftrightarrow> c = d"
  by (simp add: has_prefix_def)

text \<open>Replacing one byte everywhere, one byte at a time.\<close>

lemma replace_all_byte_Nil [simp, go_strings]: "replace_all [d] new [] = []"
  by (simp add: replace_all.simps)

lemma replace_all_byte_Cons [simp, go_strings]:
  "replace_all [d] new (c # s) =
     (if c = d then new @ replace_all [d] new s else c # replace_all [d] new s)"
proof (cases "str_index s [d]")
  case None
  then show ?thesis by (simp add: replace_all.simps [of _ _ "c # s"] replace_all.simps [of _ _ s])
next
  case (Some i)
  then show ?thesis by (simp add: replace_all.simps [of _ _ "c # s"] replace_all.simps [of _ _ s])
qed

section \<open>White space\<close>

text \<open>
  The number of bytes of the white space character the string begins with, 0 when it begins
  with none: the ASCII ones, then U+0085 and U+00A0, then U+1680, U+2000 to U+200A, U+2028,
  U+2029, U+202F, U+205F and U+3000 in UTF-8.
\<close>

definition ascii_space :: "char \<Rightarrow> bool" where
  "ascii_space c \<longleftrightarrow> c = CHR 0x20 \<or> (9 \<le> (of_char c :: nat) \<and> (of_char c :: nat) \<le> 13)"

definition space2 :: "char \<Rightarrow> char \<Rightarrow> bool" where
  "space2 a b \<longleftrightarrow> a = CHR 0xC2 \<and> (b = CHR 0x85 \<or> b = CHR 0xA0)"

definition space3 :: "char \<Rightarrow> char \<Rightarrow> char \<Rightarrow> bool" where
  "space3 a b c \<longleftrightarrow>
     a = CHR 0xE1 \<and> b = CHR 0x9A \<and> c = CHR 0x80 \<or>
     a = CHR 0xE2 \<and> b = CHR 0x80 \<and>
       (128 \<le> (of_char c :: nat) \<and> (of_char c :: nat) \<le> 138 \<or> c = CHR 0xA8 \<or> c = CHR 0xA9 \<or> c = CHR 0xAF) \<or>
     a = CHR 0xE2 \<and> b = CHR 0x81 \<and> c = CHR 0x9F \<or>
     a = CHR 0xE3 \<and> b = CHR 0x80 \<and> c = CHR 0x80"

fun space_len :: "string \<Rightarrow> nat" where
  "space_len [] = 0"
| "space_len [a] = (if ascii_space a then 1 else 0)"
| "space_len [a, b] = (if ascii_space a then 1 else if space2 a b then 2 else 0)"
| "space_len (a # b # c # s) =
     (if ascii_space a then 1 else if space2 a b then 2 else if space3 a b c then 3 else 0)"

text \<open>The same at the end of the string, on the reversed bytes.\<close>

fun rspace_len :: "string \<Rightarrow> nat" where
  "rspace_len [] = 0"
| "rspace_len [a] = (if ascii_space a then 1 else 0)"
| "rspace_len [b, a] = (if ascii_space b then 1 else if space2 a b then 2 else 0)"
| "rspace_len (c # b # a # s) =
     (if ascii_space c then 1 else if space2 b c then 2 else if space3 a b c then 3 else 0)"

lemma space_len_le [simp]: "space_len s \<le> length s"
  by (induction s rule: space_len.induct) auto

lemma rspace_len_le [simp]: "rspace_len s \<le> length s"
  by (induction s rule: rspace_len.induct) auto

function trim_left_space :: "string \<Rightarrow> string" where
  "trim_left_space s =
     (if space_len s = 0 then s else trim_left_space (drop (space_len s) s))"
  by pat_completeness auto
termination
proof (relation "measure length", goal_cases)
  case 1
  then show ?case by simp
next
  case (2 s)
  then show ?case using space_len_le [of s] by (cases s) auto
qed

function trim_rspace :: "string \<Rightarrow> string" where
  "trim_rspace s =
     (if rspace_len s = 0 then s else trim_rspace (drop (rspace_len s) s))"
  by pat_completeness auto
termination
proof (relation "measure length", goal_cases)
  case 1
  then show ?case by simp
next
  case (2 s)
  then show ?case using rspace_len_le [of s] by (cases s) auto
qed

declare trim_left_space.simps [simp del] trim_rspace.simps [simp del]

definition trim_space :: "string \<Rightarrow> string" where
  "trim_space s = rev (trim_rspace (rev (trim_left_space s)))"

text \<open>\<open>strings.Fields\<close>: the maximal runs of bytes that are not white space.\<close>

function fields_acc :: "string \<Rightarrow> string \<Rightarrow> string list" where
  "fields_acc cur s =
     (if s = [] then (if cur = [] then [] else [rev cur])
      else if space_len s = 0 then fields_acc (hd s # cur) (tl s)
      else (if cur = [] then [] else [rev cur]) @ fields_acc [] (drop (space_len s) s))"
  by pat_completeness auto
termination
proof (relation "measure (\<lambda>(cur, s). length s)", goal_cases)
  case 1
  then show ?case by simp
next
  case (2 cur s)
  then show ?case by (cases s) auto
next
  case (3 cur s)
  then show ?case using space_len_le [of s] by (cases s) auto
qed

declare fields_acc.simps [simp del]

definition str_fields :: "string \<Rightarrow> string list" where
  "str_fields s = fields_acc [] s"

lemma trim_rspace_suffix: "suffix (trim_rspace s) s"
proof (induction s rule: trim_rspace.induct)
  case (1 s)
  show ?case
  proof (cases "rspace_len s = 0")
    case True
    then show ?thesis by (simp add: trim_rspace.simps)
  next
    case False
    with "1.IH" have "suffix (trim_rspace (drop (rspace_len s) s)) s"
      by (meson suffix_drop suffix_order.trans)
    with False show ?thesis by (simp add: trim_rspace.simps [of s])
  qed
qed

lemma trim_left_space_suffix: "suffix (trim_left_space s) s"
proof (induction s rule: trim_left_space.induct)
  case (1 s)
  show ?case
  proof (cases "space_len s = 0")
    case True
    then show ?thesis by (simp add: trim_left_space.simps)
  next
    case False
    with "1.IH" have "suffix (trim_left_space (drop (space_len s) s)) s"
      by (meson suffix_drop suffix_order.trans)
    with False show ?thesis by (simp add: trim_left_space.simps [of s])
  qed
qed

lemma trim_space_Nil [simp, go_strings]: "trim_space [] = []"
  by (simp add: trim_space_def trim_left_space.simps trim_rspace.simps)

lemma trim_space_sublist: "sublist (trim_space s) s"
proof -
  have "prefix (trim_space s) (trim_left_space s)"
    using trim_rspace_suffix [of "rev (trim_left_space s)"]
    by (simp add: trim_space_def suffix_to_prefix)
  then show ?thesis
    using trim_left_space_suffix [of s]
    by (meson prefix_imp_sublist sublist_order.order_trans suffix_imp_sublist)
qed

lemma trim_space_length: "length (trim_space s) \<le> length s"
  using trim_space_sublist sublist_length_le by blast

section \<open>Case, numbers and paths\<close>

definition lower_byte :: "char \<Rightarrow> char" where
  "lower_byte c =
     (if 65 \<le> (of_char c :: nat) \<and> (of_char c :: nat) \<le> 90 then char_of ((of_char c :: nat) + 32) else c)"

definition to_lower :: "string \<Rightarrow> string" where
  "to_lower s = map lower_byte s"

definition equal_fold :: "string \<Rightarrow> string \<Rightarrow> bool" where
  "equal_fold s t \<longleftrightarrow> to_lower s = to_lower t"

lemma lower_byte_idem [simp, go_strings]: "lower_byte (lower_byte c) = lower_byte c"
proof (cases "65 \<le> (of_char c :: nat) \<and> (of_char c :: nat) \<le> 90")
  case True
  then have "(of_char c :: nat) + 32 < 256" by simp
  with True show ?thesis by (simp add: lower_byte_def)
next
  case False
  then have "lower_byte c = c" by (auto simp: lower_byte_def)
  then show ?thesis by simp
qed

lemma to_lower_idem [simp, go_strings]: "to_lower (to_lower s) = to_lower s"
  by (simp add: to_lower_def)

text \<open>\<open>strconv.Itoa\<close>.\<close>

fun nat_digits :: "nat \<Rightarrow> string" where
  "nat_digits n =
     (if n < 10 then [char_of (48 + n)] else nat_digits (n div 10) @ [char_of (48 + n mod 10)])"

declare nat_digits.simps [simp del]

definition itoa :: "int \<Rightarrow> string" where
  "itoa i = (if i < 0 then CHR ''-'' # nat_digits (nat (- i)) else nat_digits (nat i))"

lemma nat_digits_not_Nil [simp, go_strings]: "nat_digits n \<noteq> []"
  by (subst nat_digits.simps) simp

text \<open>\<open>filepath.Base\<close> on a Unix path.\<close>

definition path_base :: "string \<Rightarrow> string" where
  "path_base p =
     (if p = [] then ''.''
      else let q = dropWhile (\<lambda>c. c = CHR ''/'') (rev p)
           in if q = [] then ''/'' else rev (takeWhile (\<lambda>c. c \<noteq> CHR ''/'') q))"

lemma path_base_no_slash: "p \<noteq> [] \<Longrightarrow> CHR ''/'' \<notin> set p \<Longrightarrow> path_base p = p"
proof -
  assume "p \<noteq> []" "CHR ''/'' \<notin> set p"
  then have "last p \<noteq> CHR ''/''" by (metis last_in_set)
  then have "dropWhile (\<lambda>c. c = CHR ''/'') (rev p) = rev p"
    using \<open>p \<noteq> []\<close> by (simp add: dropWhile_eq_self_iff hd_rev)
  moreover have "takeWhile (\<lambda>c. c \<noteq> CHR ''/'') (rev p) = rev p"
    using \<open>CHR ''/'' \<notin> set p\<close> by (simp add: takeWhile_eq_all_conv) blast
  ultimately show ?thesis using \<open>p \<noteq> []\<close> by (simp only: path_base_def Let_def) simp
qed

section \<open>Lists\<close>

text \<open>Go's loops that keep the first occurrence of each value, and \<open>firstNonEmpty\<close>.\<close>

fun first_non_empty :: "string list \<Rightarrow> string" where
  "first_non_empty [] = []"
| "first_non_empty (v # vs) = (if v \<noteq> [] then v else first_non_empty vs)"

lemma first_non_empty_Nil_iff: "first_non_empty vs = [] \<longleftrightarrow> (\<forall>v \<in> set vs. v = [])"
  by (induction vs) auto

lemma suffix_tl: "suffix (tl xs) xs"
  by (cases xs) (auto intro: suffix_ConsI)

lemma suffix_length_lt: "suffix xs ys \<Longrightarrow> xs \<noteq> ys \<Longrightarrow> length xs < length ys"
  by (auto simp: suffix_def)

end
