(* ===== verification/Diagnostics.thy ===== *)
theory Diagnostics
  imports GoStrings
begin

text \<open>
  \<open>go/diagnostics\<close>: the diagnostic record that every tool's output is normalised to
  (\<open>diagnostic.go\<close>) and the merging of duplicates (\<open>dedupe.go\<close>). The datatype \<open>any\<close> stands for
  Go's \<open>map[string]any\<close> values as far as the modelled code tells them apart; a \<open>float64\<close> is
  represented by its conversion \<open>int(f)\<close>, the only thing the code does with one.
\<close>

section \<open>Untyped values\<close>

datatype any =
    AString string
  | AStrings "string list"
  | AList "any list"
  | AMap "(string \<times> any) list"
  | AMaps "(string \<times> any) list list"
  | ABool bool
  | AInt int
  | AFloat int
  | ANil

text \<open>A Go map with string keys, as the association list of its entries (first match).\<close>

type_synonym any_map = "(string \<times> any) list"

text \<open>Setting a key, as \<open>m[k] = v\<close> does.\<close>

fun map_set :: "'k \<Rightarrow> 'v \<Rightarrow> ('k \<times> 'v) list \<Rightarrow> ('k \<times> 'v) list" where
  "map_set k v [] = [(k, v)]"
| "map_set k v ((k', v') # m) = (if k = k' then (k, v) # m else (k', v') # map_set k v m)"

lemma map_of_map_set [simp]: "map_of (map_set k v m) = (map_of m)(k \<mapsto> v)"
  by (induction m) auto

section \<open>The record\<close>

record related_location =
  loc_file :: string
  loc_symbol_name :: string
  loc_symbol_kind :: string
  loc_message :: string
  loc_line :: int

record diagnostic =
  diag_metadata :: any_map
  diag_advice :: string
  diag_confidence :: string
  diag_code :: string
  diag_detail :: string
  diag_file :: string
  diag_function :: string
  diag_group :: string
  diag_meaning :: string
  diag_message :: string
  diag_policy_id :: string
  diag_severity :: string
  diag_skill_id :: string
  diag_tool :: string
  diag_advice_steps :: "string list"
  diag_principle_ids :: "string list"
  diag_related_locations :: "related_location list"
  diag_rerun :: "string list"
  diag_tags :: "string list"
  diag_column :: int
  diag_line :: int

definition empty_diagnostic :: diagnostic where
  "empty_diagnostic =
     \<lparr>diag_metadata = [], diag_advice = [], diag_confidence = [], diag_code = [],
      diag_detail = [], diag_file = [], diag_function = [], diag_group = [], diag_meaning = [],
      diag_message = [], diag_policy_id = [], diag_severity = [], diag_skill_id = [],
      diag_tool = [], diag_advice_steps = [], diag_principle_ids = [],
      diag_related_locations = [], diag_rerun = [], diag_tags = [], diag_column = 0,
      diag_line = 0\<rparr>"

section \<open>Merging two reports of one problem\<close>

definition dedupe_key :: "diagnostic \<Rightarrow> string" where
  "dedupe_key item =
     (let file = trim_space (diag_file item)
      in if file = [] then []
         else
           let class1 = trim_space (diag_policy_id item);
               class2 = (if class1 = []
                         then trim_space (diag_tool item) @ '':'' @ trim_space (diag_code item)
                         else class1);
               class3 = (if class2 = '':'' \<or> class2 = [] then trim_space (diag_message item)
                         else class2)
           in if class3 = [] then []
              else
                let location1 = (if 0 < diag_line item
                                 then file @ '':'' @ itoa (diag_line item) else file);
                    location2 = (if 0 < diag_column item
                                 then location1 @ '':'' @ itoa (diag_column item) else location1)
                in to_lower (class3 @ ''|'' @ location2))"

definition fill_string :: "string \<Rightarrow> string \<Rightarrow> string" where
  "fill_string target v = (if target = [] \<and> v \<noteq> [] then v else target)"

fun append_unique :: "string list \<Rightarrow> string list \<Rightarrow> string list" where
  "append_unique values [] = values"
| "append_unique values (v # extra) =
     (let t = trim_space v
      in if t = [] \<or> t \<in> set values then append_unique values extra
         else append_unique (values @ [t]) extra)"

definition merge_diagnostic_scalars :: "diagnostic \<Rightarrow> diagnostic \<Rightarrow> diagnostic" where
  "merge_diagnostic_scalars primary duplicate = primary\<lparr>
     diag_policy_id := fill_string (diag_policy_id primary) (diag_policy_id duplicate),
     diag_skill_id := fill_string (diag_skill_id primary) (diag_skill_id duplicate),
     diag_advice := fill_string (diag_advice primary) (diag_advice duplicate),
     diag_meaning := fill_string (diag_meaning primary) (diag_meaning duplicate),
     diag_confidence := fill_string (diag_confidence primary) (diag_confidence duplicate),
     diag_code := fill_string (diag_code primary) (diag_code duplicate),
     diag_severity := fill_string (diag_severity primary) (diag_severity duplicate)\<rparr>"

definition merged_diagnostic_detail :: "diagnostic \<Rightarrow> diagnostic \<Rightarrow> string" where
  "merged_diagnostic_detail primary duplicate =
     (let parts = (if trim_space (diag_detail primary) \<noteq> [] then [diag_detail primary] else []);
          also_by = (if diag_code duplicate \<noteq> []
                     then diag_tool duplicate @ '':'' @ diag_code duplicate
                     else diag_tool duplicate);
          parts' = (if also_by \<noteq> [] \<and> \<not> str_contains (str_join '' '' parts) also_by
                    then parts @ [''also reported by '' @ also_by] else parts)
      in str_join ''; '' parts')"

definition merge_diagnostic :: "diagnostic \<Rightarrow> diagnostic \<Rightarrow> diagnostic" where
  "merge_diagnostic primary duplicate =
     (let p = merge_diagnostic_scalars primary duplicate;
          p1 = p\<lparr>diag_principle_ids :=
                  append_unique (diag_principle_ids p) (diag_principle_ids duplicate),
                 diag_advice_steps :=
                  append_unique (diag_advice_steps p) (diag_advice_steps duplicate),
                 diag_rerun := append_unique (diag_rerun p) (diag_rerun duplicate),
                 diag_tags := append_unique (diag_tags p) (diag_tags duplicate)\<rparr>
      in p1\<lparr>diag_detail := merged_diagnostic_detail p1 duplicate\<rparr>)"

section \<open>The loop\<close>

fun dedupe_loop ::
  "diagnostic list \<Rightarrow> diagnostic list \<Rightarrow> (string \<Rightarrow> nat option) \<Rightarrow> diagnostic list" where
  "dedupe_loop [] deduped seen = deduped"
| "dedupe_loop (item # items) deduped seen =
     (let key = dedupe_key item
      in if key = [] then dedupe_loop items (deduped @ [item]) seen
         else case seen key of
                None \<Rightarrow> dedupe_loop items (deduped @ [item]) (seen(key \<mapsto> length deduped))
              | Some index \<Rightarrow>
                  dedupe_loop items
                    (deduped[index := merge_diagnostic (deduped ! index) item]) seen)"

definition Dedupe :: "diagnostic list \<Rightarrow> diagnostic list" where
  "Dedupe items = (if length items < 2 then items else dedupe_loop items [] Map.empty)"

section \<open>What the loop computes\<close>

text \<open>
  The specification: the first report of each problem stays at its place and takes in the later
  reports with its key, in their order; reports without a key are kept as they are.
\<close>

function dedupe_spec :: "diagnostic list \<Rightarrow> diagnostic list" where
  "dedupe_spec [] = []"
| "dedupe_spec (x # xs) =
     (if dedupe_key x = [] then x # dedupe_spec xs
      else foldl merge_diagnostic x (filter (\<lambda>y. dedupe_key y = dedupe_key x) xs) #
           dedupe_spec (filter (\<lambda>y. dedupe_key y \<noteq> dedupe_key x) xs))"
  by pat_completeness auto
termination by (relation "measure length") (auto simp: le_imp_less_Suc)

text \<open>
  The invariant of the loop, with the key of each entry of the output beside it: the table holds
  the position of every key that has been stored.
\<close>

definition seen_at :: "string list \<Rightarrow> (string \<Rightarrow> nat option) \<Rightarrow> bool" where
  "seen_at ks seen \<longleftrightarrow>
     (\<forall>k. k \<noteq> [] \<longrightarrow> (\<forall>i. seen k = Some i \<longleftrightarrow> i < length ks \<and> ks ! i = k))"

definition absorb :: "diagnostic list \<Rightarrow> string \<times> diagnostic \<Rightarrow> diagnostic" where
  "absorb items kd =
     foldl merge_diagnostic (snd kd)
       (if fst kd = [] then [] else filter (\<lambda>y. dedupe_key y = fst kd) items)"

lemma seen_at_snoc_plain: "seen_at ks seen \<Longrightarrow> seen_at (ks @ [[]]) seen"
  by (auto simp: seen_at_def nth_append)

lemma seen_at_in:
  assumes "seen_at ks seen" and "k \<noteq> []"
  shows "k \<in> set ks \<longleftrightarrow> seen k \<noteq> None"
proof -
  from assms have "seen k = Some i \<longleftrightarrow> i < length ks \<and> ks ! i = k" for i
    unfolding seen_at_def by blast
  then show ?thesis by (auto simp: in_set_conv_nth)
qed

lemma seen_at_snoc_key:
  assumes "seen_at ks seen" and "k \<noteq> []" and "seen k = None"
  shows "seen_at (ks @ [k]) (seen(k \<mapsto> length ks))"
proof -
  have "k \<notin> set ks" using seen_at_in [OF assms(1,2)] assms(3) by simp
  then have "\<And>i. i < length ks \<Longrightarrow> ks ! i \<noteq> k" by auto
  with assms(1) show ?thesis
    by (auto simp: seen_at_def nth_append less_Suc_eq split: if_splits)
qed

lemma absorb_other:
  "k \<noteq> dedupe_key x \<or> k = [] \<Longrightarrow> absorb (x # xs) (k, d) = absorb xs (k, d)"
  by (auto simp: absorb_def)

lemma absorb_same:
  "k = dedupe_key x \<Longrightarrow> k \<noteq> [] \<Longrightarrow> absorb (x # xs) (k, d) = absorb xs (k, merge_diagnostic d x)"
  by (simp add: absorb_def)

lemma dedupe_loop_spec:
  assumes "seen_at ks seen" and "length ks = length deduped"
  shows "dedupe_loop xs deduped seen =
    map (absorb xs) (zip ks deduped) @
    dedupe_spec (filter (\<lambda>y. dedupe_key y = [] \<or> dedupe_key y \<notin> set ks) xs)"
  using assms
proof (induction xs arbitrary: ks deduped seen)
  case Nil
  have "map (absorb []) (zip ks deduped) = map snd (zip ks deduped)"
    by (rule map_cong) (auto simp: absorb_def)
  with Nil show ?case by simp
next
  case (Cons x xs)
  let ?k = "dedupe_key x"
  let ?new = "\<lambda>ks. filter (\<lambda>y. dedupe_key y = [] \<or> dedupe_key y \<notin> set ks)"
  show ?case
  proof (cases "?k = []")
    case True
    have "map (absorb (x # xs)) (zip ks deduped) = map (absorb xs) (zip ks deduped)"
      using True by (auto simp: absorb_other)
    moreover have "dedupe_loop (x # xs) deduped seen = dedupe_loop xs (deduped @ [x]) seen"
      using True by simp
    moreover have "?new (ks @ [[]]) xs = ?new ks xs" by (rule filter_cong) auto
    ultimately show ?thesis
      using Cons.IH [OF seen_at_snoc_plain [OF Cons.prems(1)], of "deduped @ [x]"] Cons.prems(2) True
      by (simp add: absorb_def)
  next
    case key: False
    show ?thesis
    proof (cases "seen ?k")
      case None
      then have fresh: "?k \<notin> set ks" using seen_at_in [OF Cons.prems(1) key] by simp
      have old: "map (absorb (x # xs)) (zip ks deduped) = map (absorb xs) (zip ks deduped)"
        using fresh by (auto intro!: absorb_other dest: set_zip_leftD)
      have "filter (\<lambda>y. dedupe_key y \<noteq> ?k) (?new ks xs) = ?new (ks @ [?k]) xs"
        using key by (auto intro: filter_cong)
      moreover have "filter (\<lambda>y. dedupe_key y = ?k) (?new ks xs) = filter (\<lambda>y. dedupe_key y = ?k) xs"
        using fresh by (auto intro: filter_cong)
      ultimately have spec: "dedupe_spec (?new ks (x # xs)) =
          absorb xs (?k, x) # dedupe_spec (?new (ks @ [?k]) xs)"
        using fresh key by (simp add: absorb_def del: filter_filter)
      have "dedupe_loop (x # xs) deduped seen =
          dedupe_loop xs (deduped @ [x]) (seen(?k \<mapsto> length ks))"
        using key None Cons.prems(2) by simp
      also have "\<dots> = map (absorb xs) (zip (ks @ [?k]) (deduped @ [x])) @
          dedupe_spec (?new (ks @ [?k]) xs)"
        by (rule Cons.IH [OF seen_at_snoc_key [OF Cons.prems(1) key None]]) (simp add: Cons.prems(2))
      also have "\<dots> = map (absorb xs) (zip ks deduped) @ dedupe_spec (?new ks (x # xs))"
        using Cons.prems(2) by (simp only: spec) simp
      finally show ?thesis by (simp only: old)
    next
      case (Some i)
      then have i: "i < length ks" "ks ! i = ?k"
        using Cons.prems(1) key by (auto simp: seen_at_def)
      let ?d = "deduped[i := merge_diagnostic (deduped ! i) x]"
      have uniq: "j = i" if "j < length ks" "ks ! j = ?k" for j
        using Cons.prems(1) key Some that unfolding seen_at_def by (metis option.inject)
      have "map (absorb (x # xs)) (zip ks deduped) = map (absorb xs) (zip ks ?d)"
      proof (rule nth_equalityI)
        fix j assume "j < length (map (absorb (x # xs)) (zip ks deduped))"
        then have j: "j < length ks" "j < length deduped" by simp_all
        show "map (absorb (x # xs)) (zip ks deduped) ! j = map (absorb xs) (zip ks ?d) ! j"
        proof (cases "j = i")
          case True
          with i key j absorb_same [of "ks ! i" x xs "deduped ! i"] show ?thesis by simp
        next
          case False
          with uniq [of j] j have "ks ! j \<noteq> ?k" by blast
          with False j absorb_other [of "ks ! j" x xs "deduped ! j"] show ?thesis by simp
        qed
      qed (use Cons.prems(2) in simp)
      moreover have "dedupe_loop (x # xs) deduped seen = dedupe_loop xs ?d seen"
        using key Some by simp
      moreover have "?k \<in> set ks" using i by (metis nth_mem)
      ultimately show ?thesis
        using Cons.IH [OF Cons.prems(1), of ?d] Cons.prems(2) key by simp
    qed
  qed
qed

lemma Dedupe_eq_spec: "Dedupe items = dedupe_spec items"
proof (cases "length items < 2")
  case True
  then have "items = [] \<or> (\<exists>x. items = [x])"
    by (cases items; cases "tl items") auto
  then show ?thesis by (auto simp: Dedupe_def)
next
  case False
  have "seen_at [] Map.empty" by (simp add: seen_at_def)
  from dedupe_loop_spec [OF this, of "[]" items] False show ?thesis
    by (simp add: Dedupe_def)
qed

text \<open>
  Fact. The one-pass loop over a table of positions does what it is meant to do: every
  problem is reported once, at the place of its first report, which has taken in all later
  reports of the same problem in their order, and reports without a location are left alone.
\<close>

theorem Dedupe_refines_grouping: "Dedupe items = dedupe_spec items"
  by (rule Dedupe_eq_spec)

section \<open>Nothing is lost\<close>

lemma append_unique_keeps: "\<exists>ext. append_unique vs extra = vs @ ext"
proof (induction extra arbitrary: vs)
  case Nil
  then show ?case by simp
next
  case (Cons v extra)
  then show ?case
    using Cons.IH [of vs] Cons.IH [of "vs @ [trim_space v]"]
    by (auto simp: Let_def simp del: append_assoc) (metis append.assoc)
qed

lemma append_unique_set:
  "set (append_unique vs extra) = set vs \<union> (trim_space ` set extra - {[]})"
  by (induction extra arbitrary: vs) (auto simp: Let_def)

lemma append_unique_distinct: "distinct vs \<Longrightarrow> distinct (append_unique vs extra)"
  by (induction extra arbitrary: vs) (auto simp: Let_def)

lemma merge_diagnostic_principles:
  "set (diag_principle_ids (merge_diagnostic p d)) =
     set (diag_principle_ids p) \<union> (trim_space ` set (diag_principle_ids d) - {[]})"
  by (simp add: merge_diagnostic_def merge_diagnostic_scalars_def append_unique_set Let_def)

lemma foldl_merge_principles:
  "set (diag_principle_ids (foldl merge_diagnostic p ds)) =
     set (diag_principle_ids p) \<union>
     (trim_space ` (\<Union>d \<in> set ds. set (diag_principle_ids d)) - {[]})"
  by (induction ds arbitrary: p) (auto simp: merge_diagnostic_principles)

lemma dedupe_spec_principles:
  "d \<in> set items \<Longrightarrow> i \<in> set (diag_principle_ids d) \<Longrightarrow>
   \<exists>r \<in> set (dedupe_spec items).
     i \<in> set (diag_principle_ids r) \<or> trim_space i \<in> set (diag_principle_ids r) \<or> trim_space i = []"
proof (induction items rule: dedupe_spec.induct)
  case 1
  then show ?case by simp
next
  case (2 x xs)
  show ?case
  proof (cases "d = x \<or> dedupe_key x = []")
    case True
    then show ?thesis
    proof (cases "dedupe_key x = []")
      case True
      with 2 show ?thesis by auto
    next
      case False
      with \<open>d = x \<or> dedupe_key x = []\<close> "2.prems" show ?thesis
        by (auto simp: foldl_merge_principles)
    qed
  next
    case False
    then show ?thesis
    proof (cases "dedupe_key d = dedupe_key x")
      case True
      with False "2.prems" show ?thesis by (auto simp: foldl_merge_principles)
    next
      case other: False
      with False "2.prems" have "d \<in> set (filter (\<lambda>y. dedupe_key y \<noteq> dedupe_key x) xs)" by simp
      with "2.IH"(2) False "2.prems"(2) show ?thesis by auto
    qed
  qed
qed

text \<open>
  Fact. Merging duplicates loses no engineering principle: every principle id that some
  report carries is still carried by a report of the result, up to surrounding white space.
\<close>

theorem Dedupe_keeps_principles:
  assumes "d \<in> set items" and "i \<in> set (diag_principle_ids d)" and "trim_space i \<noteq> []"
  shows "\<exists>r \<in> set (Dedupe items).
    i \<in> set (diag_principle_ids r) \<or> trim_space i \<in> set (diag_principle_ids r)"
  using dedupe_spec_principles [OF assms(1,2)] assms(3) by (auto simp: Dedupe_eq_spec)

lemma trim_space_p1: "trim_space ''p1'' = ''p1''"
  by (simp add: trim_space_def trim_left_space.simps trim_rspace.simps ascii_space_def space2_def)

theorem Dedupe_keeps_principles_witness:
  "\<exists>r \<in> set (Dedupe [empty_diagnostic\<lparr>diag_principle_ids := [''p1'']\<rparr>]).
    ''p1'' \<in> set (diag_principle_ids r) \<or> trim_space ''p1'' \<in> set (diag_principle_ids r)"
  by (rule Dedupe_keeps_principles [of "empty_diagnostic\<lparr>diag_principle_ids := [''p1'']\<rparr>"])
     (simp_all add: trim_space_p1)

lemma dedupe_spec_count:
  "length (dedupe_spec items) =
     length (filter (\<lambda>x. dedupe_key x = []) items) + card (dedupe_key ` set items - {[]})"
proof (induction items rule: dedupe_spec.induct)
  case 1
  then show ?case by simp
next
  case (2 x xs)
  show ?case
  proof (cases "dedupe_key x = []")
    case True
    with "2.IH"(1) show ?thesis by (simp add: insert_absorb)
  next
    case False
    let ?ys = "filter (\<lambda>y. dedupe_key y \<noteq> dedupe_key x) xs"
    have "dedupe_key ` set (x # xs) - {[]} = insert (dedupe_key x) (dedupe_key ` set ?ys - {[]})"
      using False by auto
    moreover have "dedupe_key x \<notin> dedupe_key ` set ?ys - {[]}" by auto
    moreover have "filter (\<lambda>x. dedupe_key x = []) ?ys = filter (\<lambda>x. dedupe_key x = []) xs"
      using False by (auto intro: filter_cong)
    ultimately show ?thesis
      using "2.IH"(2) False by (simp del: filter_filter)
  qed
qed

text \<open>
  Fact. The result has one entry for each distinct key and one for each report without a
  key: nothing with a fresh key is dropped and no key appears twice.
\<close>

theorem Dedupe_length:
  "length (Dedupe items) =
     length (filter (\<lambda>x. dedupe_key x = []) items) + card (dedupe_key ` set items - {[]})"
  by (simp only: Dedupe_eq_spec dedupe_spec_count)

end
