(* ===== verification/Policy.thy ===== *)
theory Policy
  imports Diagnostics
begin

text \<open>
  \<open>go/internal/policy\<close>: the compiled policy bundle as far as the runtimes read it (\<open>bundle.go\<close>),
  the decision record with its evidence accessors (\<open>decision.go\<close>), and the interface through
  which the Git wrapper, the agent hooks and the linter read a verdict from a list of decisions.
  Evaluators are looked up in a registry that the runtimes receive as an argument
  (\<open>evaluators/registry.go\<close>, \<open>evaluators/context.go\<close>).
\<close>

section \<open>The bundle\<close>

record source_ref =
  source_file :: string
  source_path :: string

record evaluator_spec =
  eval_options :: any_map
  eval_kind :: string
  eval_name :: string

record policy =
  pol_source :: source_ref
  pol_category :: string
  pol_default_severity :: string
  pol_id :: string
  pol_message :: string
  pol_suggestion :: string
  pol_evaluators :: "evaluator_spec list"
  pol_principle_ids :: "string list"

record hook_dispatch_entry =
  entry_policy_id :: string
  entry_mode :: string
  entry_command_patterns :: "string list"
  entry_path_patterns :: "string list"

record git_operation_dispatch =
  dispatch_pre :: "string list"
  dispatch_post :: "string list"

text \<open>
  Go maps are association lists: a lookup takes the first entry, and code that ranges over a map
  ranges over the list, in whatever order it has.
\<close>

record policy_bundle =
  bundle_hooks :: "(string \<times> (string \<times> hook_dispatch_entry list) list) list"
  bundle_linter :: "(string \<times> string list) list"
  bundle_git :: "(string \<times> git_operation_dispatch) list"
  bundle_policies :: "(string \<times> policy) list"

section \<open>Decisions\<close>

record decision =
  dec_evidence :: any_map
  dec_decision :: string
  dec_message :: string
  dec_policy_id :: string
  dec_severity :: string
  dec_suggestion :: string
  dec_diagnostics :: "diagnostic list"
  dec_principle_ids :: "string list"

definition NewDecision :: "string \<Rightarrow> policy \<Rightarrow> decision" where
  "NewDecision d pol =
     \<lparr>dec_evidence = [], dec_decision = d, dec_message = pol_message pol,
      dec_policy_id = pol_id pol, dec_severity = pol_default_severity pol,
      dec_suggestion = pol_suggestion pol, dec_diagnostics = [],
      dec_principle_ids = pol_principle_ids pol\<rparr>"

subsection \<open>Reading the evidence\<close>

definition normalized_evidence_strings :: "string list \<Rightarrow> string list" where
  "normalized_evidence_strings values = filter (\<lambda>t. t \<noteq> []) (map trim_space values)"

fun any_string :: "any \<Rightarrow> string option" where
  "any_string (AString s) = Some s"
| "any_string v = None"

fun any_map_of :: "any \<Rightarrow> any_map option" where
  "any_map_of (AMap m) = Some m"
| "any_map_of v = None"

definition evidence_string_list :: "any_map \<Rightarrow> string \<Rightarrow> string list" where
  "evidence_string_list evidence key =
     (case map_of evidence key of
        Some (AStrings typed) \<Rightarrow> normalized_evidence_strings typed
      | Some (AList typed) \<Rightarrow> normalized_evidence_strings (List.map_filter any_string typed)
      | _ \<Rightarrow> [])"

definition evidence_string :: "any_map \<Rightarrow> string \<Rightarrow> string" where
  "evidence_string evidence key =
     (case map_of evidence key of
        Some (AString typed) \<Rightarrow> trim_space typed
      | Some (AStrings typed) \<Rightarrow> str_join '' '' (normalized_evidence_strings typed)
      | Some (AList typed) \<Rightarrow>
          str_join '' '' (normalized_evidence_strings (List.map_filter any_string typed))
      | _ \<Rightarrow> [])"

fun first_evidence_string_list :: "any_map \<Rightarrow> string list \<Rightarrow> string list" where
  "first_evidence_string_list evidence [] = []"
| "first_evidence_string_list evidence (key # keys) =
     (let v = evidence_string evidence key
      in if v \<noteq> [] then [v] else first_evidence_string_list evidence keys)"

definition shell_command_of_map :: "any_map \<Rightarrow> string option" where
  "shell_command_of_map item =
     (let argv = evidence_string_list item ''argv''
      in if argv \<noteq> [] then Some (str_join '' '' argv)
         else let name = evidence_string item ''name''
              in if name \<noteq> [] then Some name else None)"

definition shell_command_evidence_from_maps :: "any_map list \<Rightarrow> string list" where
  "shell_command_evidence_from_maps items =
     normalized_evidence_strings (List.map_filter shell_command_of_map items)"

definition shell_command_evidence :: "any_map \<Rightarrow> string list" where
  "shell_command_evidence evidence =
     (case map_of evidence ''shell_commands'' of
        Some (AMaps items) \<Rightarrow> shell_command_evidence_from_maps items
      | Some (AList raw) \<Rightarrow>
          shell_command_evidence_from_maps (List.map_filter any_map_of raw)
      | _ \<Rightarrow> [])"

definition EvidenceString :: "decision \<Rightarrow> string \<Rightarrow> string" where
  "EvidenceString d key = evidence_string (dec_evidence d) key"

definition EvidenceFiles :: "decision \<Rightarrow> string list" where
  "EvidenceFiles d =
     (let files = evidence_string_list (dec_evidence d) ''files''
      in if files \<noteq> [] then files
         else let staged = evidence_string_list (dec_evidence d) ''staged_files''
              in if staged \<noteq> [] then staged
                 else first_evidence_string_list (dec_evidence d)
                        [''file'', ''path'', ''target_path''])"

definition EvidenceCommands :: "decision \<Rightarrow> string list" where
  "EvidenceCommands d =
     (let commands = evidence_string_list (dec_evidence d) ''commands''
      in if commands \<noteq> [] then commands
         else let command = EvidenceString d ''command''
              in if command \<noteq> [] then [command]
                 else let argv = evidence_string_list (dec_evidence d) ''argv''
                      in if argv \<noteq> [] then [str_join '' '' argv]
                         else shell_command_evidence (dec_evidence d))"

definition EvidenceCommand :: "decision \<Rightarrow> string" where
  "EvidenceCommand d = (case EvidenceCommands d of [] \<Rightarrow> [] | c # _ \<Rightarrow> c)"

subsection \<open>The diagnostics of a decision\<close>

definition append_evidence_diagnostic_detail :: "string \<Rightarrow> string \<Rightarrow> string" where
  "append_evidence_diagnostic_detail detail v =
     (if trim_space v = [] \<or> str_contains detail v then detail
      else if trim_space detail = [] then v
      else detail @ ''; '' @ v)"

definition evidence_diagnostic :: "decision \<Rightarrow> diagnostic \<Rightarrow> diagnostic" where
  "evidence_diagnostic d item =
     (let files = EvidenceFiles d;
          item1 = (if diag_file item = []
                   then case files of
                          [] \<Rightarrow> item
                        | [f] \<Rightarrow> item\<lparr>diag_file := f\<rparr>
                        | _ \<Rightarrow> item\<lparr>diag_detail :=
                            append_evidence_diagnostic_detail (diag_detail item)
                              (''files='' @ str_join '','' files)\<rparr>
                   else item)
      in item1\<lparr>
           diag_tool := first_non_empty
             [diag_tool item1, EvidenceString d ''tool'', ''policy''],
           diag_policy_id := first_non_empty [diag_policy_id item1, dec_policy_id d],
           diag_severity := first_non_empty [diag_severity item1, dec_severity d],
           diag_skill_id := first_non_empty [diag_skill_id item1, EvidenceString d ''skill_id''],
           diag_message := first_non_empty [diag_message item1, dec_message d],
           diag_advice := first_non_empty [diag_advice item1, dec_suggestion d],
           diag_principle_ids := (if diag_principle_ids item1 = [] then dec_principle_ids d
                                  else diag_principle_ids item1)\<rparr>)"

definition EvidenceDiagnostics :: "decision \<Rightarrow> diagnostic list" where
  "EvidenceDiagnostics d = map (evidence_diagnostic d) (dec_diagnostics d)"

section \<open>Evaluation\<close>

text \<open>
  The evaluation context, without the fields that none of the modelled runtimes sets. A registry
  maps the name of an evaluator to its function, which may fail.
\<close>

record eval_context =
  ctx_options :: any_map
  ctx_event_name :: string
  ctx_old_content :: string
  ctx_cwd :: string
  ctx_transcript_path :: string
  ctx_event_matcher :: string
  ctx_event_source :: string
  ctx_provider :: string
  ctx_scope :: string
  ctx_session_id :: string
  ctx_strategic_intent :: string
  ctx_active_todo :: string
  ctx_tool :: string
  ctx_content :: string
  ctx_command :: string
  ctx_tool_response_keys :: "string list"
  ctx_tool_input_keys :: "string list"
  ctx_files :: "string list"
  ctx_changed_files :: "string list"
  ctx_staged_files :: "string list"
  ctx_argv :: "string list"
  ctx_stdin :: string
  ctx_return_code :: int
  ctx_has_tool_response :: bool
  ctx_admin_approved :: bool
  ctx_read_only_inspection :: bool
  ctx_has_tool_input :: bool
  ctx_has_return_code :: bool

definition empty_context :: eval_context where
  "empty_context =
     \<lparr>ctx_options = [], ctx_event_name = [], ctx_old_content = [], ctx_cwd = [],
      ctx_transcript_path = [], ctx_event_matcher = [], ctx_event_source = [],
      ctx_provider = [], ctx_scope = [], ctx_session_id = [], ctx_strategic_intent = [],
      ctx_active_todo = [], ctx_tool = [], ctx_content = [], ctx_command = [],
      ctx_tool_response_keys = [], ctx_tool_input_keys = [], ctx_files = [],
      ctx_changed_files = [], ctx_staged_files = [], ctx_argv = [], ctx_stdin = [],
      ctx_return_code = 0, ctx_has_tool_response = False, ctx_admin_approved = False,
      ctx_read_only_inspection = False, ctx_has_tool_input = False,
      ctx_has_return_code = False\<rparr>"

type_synonym evaluator = "policy \<Rightarrow> eval_context \<Rightarrow> string + decision list"
type_synonym registry = "string \<Rightarrow> evaluator option"

section \<open>Verdicts\<close>

text \<open>
  What the runtimes promise of their \<open>resultStatus\<close>: a list of decisions is blocked exactly when
  one of them blocks, by its decision or by its severity. A decision that blocks stays decisive
  whatever is appended later.
\<close>

definition decision_blocks :: "decision \<Rightarrow> bool" where
  "decision_blocks d \<longleftrightarrow> dec_decision d = ''block'' \<or> dec_severity d = ''block''"

locale verdict =
  fixes status :: "decision list \<Rightarrow> string"
    and blocked :: string
  assumes status_blocked: "status ds = blocked \<longleftrightarrow> (\<exists>d \<in> set ds. decision_blocks d)"
begin

lemma not_blocked_Nil: "status [] \<noteq> blocked"
  by (simp add: status_blocked)

lemma blocked_append: "status (ds @ es) = blocked \<longleftrightarrow> status ds = blocked \<or> status es = blocked"
  by (auto simp: status_blocked)

lemma blocked_mono: "status ds = blocked \<Longrightarrow> set ds \<subseteq> set es \<Longrightarrow> status es = blocked"
  by (auto simp: status_blocked)

lemma blocked_single: "status [d] = blocked \<longleftrightarrow> decision_blocks d"
  by (simp add: status_blocked)

lemma blocked_concat: "status (concat dss) = blocked \<longleftrightarrow> (\<exists>ds \<in> set dss. status ds = blocked)"
  by (auto simp: status_blocked)

end

section \<open>What the evidence accessors return\<close>

lemma normalized_evidence_strings_nonempty [simp]: "[] \<notin> set (normalized_evidence_strings vs)"
  by (auto simp: normalized_evidence_strings_def)

lemma evidence_string_list_nonempty [simp]: "[] \<notin> set (evidence_string_list ev key)"
  by (auto simp: evidence_string_list_def split: option.splits any.splits)

lemma first_evidence_string_list_nonempty [simp]:
  "[] \<notin> set (first_evidence_string_list ev keys)"
  by (induction keys) (auto simp: Let_def)

lemma EvidenceFiles_nonempty [simp]: "[] \<notin> set (EvidenceFiles d)"
  unfolding EvidenceFiles_def Let_def
  by (simp only: evidence_string_list_nonempty first_evidence_string_list_nonempty
      split: if_split) simp

lemma first_non_empty_default: "v \<noteq> [] \<Longrightarrow> first_non_empty [a, b, v] \<noteq> []"
  by simp

lemma evidence_diagnostic_fields:
  "diag_tool (evidence_diagnostic d item) \<noteq> []"
  "dec_policy_id d \<noteq> [] \<Longrightarrow> diag_policy_id (evidence_diagnostic d item) \<noteq> []"
  "dec_severity d \<noteq> [] \<Longrightarrow> diag_severity (evidence_diagnostic d item) \<noteq> []"
  "dec_message d \<noteq> [] \<Longrightarrow> diag_message (evidence_diagnostic d item) \<noteq> []"
  "dec_principle_ids d \<noteq> [] \<Longrightarrow> diag_principle_ids (evidence_diagnostic d item) \<noteq> []"
  by (simp_all add: evidence_diagnostic_def Let_def)

lemma evidence_diagnostic_position:
  "diag_line (evidence_diagnostic d item) = diag_line item"
  "diag_column (evidence_diagnostic d item) = diag_column item"
  "diag_code (evidence_diagnostic d item) = diag_code item"
  by (simp_all add: evidence_diagnostic_def Let_def split: list.split)

lemma evidence_diagnostic_file:
  assumes "length (EvidenceFiles d) = 1"
  shows "diag_file (evidence_diagnostic d item) \<noteq> []"
proof -
  from assms obtain f where "EvidenceFiles d = [f]"
    by (metis One_nat_def length_0_conv length_Suc_conv)
  moreover with EvidenceFiles_nonempty [of d] have "f \<noteq> []" by auto
  ultimately show ?thesis by (simp add: evidence_diagnostic_def Let_def)
qed

text \<open>
  Fact. Every diagnostic a decision hands on names its tool, and carries a policy id, a
  severity, a message, principles and (when the evidence names exactly one file) a file whenever
  the decision has them, while the position and the code it came with are unchanged.
\<close>

theorem EvidenceDiagnostics_complete:
  assumes "i < length (dec_diagnostics d)"
  shows "diag_tool (EvidenceDiagnostics d ! i) \<noteq> [] \<and>
    (dec_policy_id d \<noteq> [] \<longrightarrow> diag_policy_id (EvidenceDiagnostics d ! i) \<noteq> []) \<and>
    (dec_severity d \<noteq> [] \<longrightarrow> diag_severity (EvidenceDiagnostics d ! i) \<noteq> []) \<and>
    (dec_message d \<noteq> [] \<longrightarrow> diag_message (EvidenceDiagnostics d ! i) \<noteq> []) \<and>
    (dec_principle_ids d \<noteq> [] \<longrightarrow> diag_principle_ids (EvidenceDiagnostics d ! i) \<noteq> []) \<and>
    (length (EvidenceFiles d) = 1 \<longrightarrow> diag_file (EvidenceDiagnostics d ! i) \<noteq> []) \<and>
    diag_line (EvidenceDiagnostics d ! i) = diag_line (dec_diagnostics d ! i) \<and>
    diag_column (EvidenceDiagnostics d ! i) = diag_column (dec_diagnostics d ! i) \<and>
    diag_code (EvidenceDiagnostics d ! i) = diag_code (dec_diagnostics d ! i)"
  using assms
  by (simp add: EvidenceDiagnostics_def evidence_diagnostic_fields evidence_diagnostic_position
      evidence_diagnostic_file)

theorem EvidenceDiagnostics_complete_witness:
  "diag_tool (EvidenceDiagnostics
     (NewDecision ''block'' \<lparr>pol_source = \<lparr>source_file = [], source_path = []\<rparr>,
        pol_category = [], pol_default_severity = ''block'', pol_id = ''p'', pol_message = ''m'',
        pol_suggestion = [], pol_evaluators = [], pol_principle_ids = []\<rparr>
      \<lparr>dec_diagnostics := [empty_diagnostic]\<rparr>) ! 0) \<noteq> []"
  by (rule EvidenceDiagnostics_complete [THEN conjunct1]) simp

end
