(* ===== verification/Shellparse.thy ===== *)
theory Shellparse
  imports GoStrings
begin

text \<open>
  \<open>go/internal/shellparse/shellparse.go\<close>: the flattening of a bash syntax tree into the simple
  commands and the control fields that the policies inspect, and the decoding of ANSI-C quotes.

  The parser itself is the package \<open>mvdan.cc/sh/v3/syntax\<close>, which is not part of the
  repository. Its tree is the datatype below, with the constructors the code distinguishes; every
  node carries an opaque handle of type \<open>'n\<close>, and what the code asks the package about a node
  (its printed text, the nodes \<open>syntax.Walk\<close> visits, its position) and the parser are the fields
  of the parameter \<open>'n bash\<close>.
\<close>

section \<open>The syntax tree and the parser interface\<close>

datatype 'n word_part =
    Lit string
  | SglQuoted bool string
  | DblQuoted "'n word_part list"
  | ParamExp 'n
  | CmdSubst 'n
  | ProcSubst 'n
  | OtherPart 'n

datatype 'n shell_word = Word (word_node: 'n) (word_parts: "'n word_part list")

datatype 'n assign =
  Assign (assign_node: 'n) (assign_name: "string option") (assign_naked: bool)
    (assign_value: "'n shell_word option")

datatype 'n redirect =
  Redirect (redirect_n: "string option") (redirect_op: string)
    (redirect_word: "'n shell_word option") (redirect_hdoc: "'n shell_word option")

datatype 'n stmt = Stmt 'n "'n shell_cmd" "'n redirect list" bool
and 'n shell_cmd =
    BinaryCmd "'n stmt" string "'n stmt"
  | CallExpr 'n "'n assign list" "'n shell_word list"
  | FuncDecl 'n "string option" "'n stmt"
  | Block "'n stmt list"
  | Subshell "'n stmt list"
  | OtherCmd 'n
  | NoCmd

datatype node_kind = KCmdSubst | KProcSubst | KParamExp | KSubshell | KFuncDecl | KOtherNode

datatype parse_error = SyntaxError nat nat | OtherParseError

record 'n bash =
  bash_parse :: "string \<Rightarrow> parse_error + 'n stmt list"
  bash_print :: "'n \<Rightarrow> string option"  \<comment> \<open>the printer's output, \<open>None\<close> when it fails\<close>
  bash_walk :: "'n \<Rightarrow> node_kind list"
  bash_pos :: "'n \<Rightarrow> (nat \<times> nat) option"  \<comment> \<open>line and column, \<open>None\<close> when invalid\<close>

record shell_command =
  cmd_command :: string
  cmd_name :: string
  cmd_argv :: "string list"
  cmd_assignments :: "string list"
  cmd_redirects :: "string list"
  cmd_column :: nat
  cmd_line :: nat
  cmd_background :: bool
  cmd_command_substitution :: bool
  cmd_dynamic_expansion :: bool
  cmd_heredoc :: bool
  cmd_process_substitution :: bool
  cmd_subshell :: bool
  cmd_function_declaration :: bool

definition empty_command :: shell_command where
  "empty_command =
     \<lparr>cmd_command = [], cmd_name = [], cmd_argv = [], cmd_assignments = [], cmd_redirects = [],
      cmd_column = 0, cmd_line = 0, cmd_background = False, cmd_command_substitution = False,
      cmd_dynamic_expansion = False, cmd_heredoc = False, cmd_process_substitution = False,
      cmd_subshell = False, cmd_function_declaration = False\<rparr>"

definition line_number :: "'n bash \<Rightarrow> 'n \<Rightarrow> nat" where
  "line_number B n = (case bash_pos B n of None \<Rightarrow> 0 | Some (l, c) \<Rightarrow> l)"

definition column_number :: "'n bash \<Rightarrow> 'n \<Rightarrow> nat" where
  "column_number B n = (case bash_pos B n of None \<Rightarrow> 0 | Some (l, c) \<Rightarrow> c)"

definition render_node :: "'n bash \<Rightarrow> 'n \<Rightarrow> string" where
  "render_node B n = (case bash_print B n of None \<Rightarrow> [] | Some s \<Rightarrow> trim_space s)"

section \<open>ANSI-C quotes\<close>

definition is_octal_digit :: "char \<Rightarrow> bool" where
  "is_octal_digit c \<longleftrightarrow> c \<in> set ''01234567''"

definition is_hex_digit :: "char \<Rightarrow> bool" where
  "is_hex_digit c \<longleftrightarrow> c \<in> set ''0123456789abcdefABCDEF''"

definition valid_escape_digit :: "nat \<Rightarrow> char \<Rightarrow> bool" where
  "valid_escape_digit base c = (if base = 8 then is_octal_digit c else is_hex_digit c)"

text \<open>\<open>strconv.ParseUint(s, base, 32)\<close>; the digits above 9 are letters in either case.\<close>

definition digit_value :: "char \<Rightarrow> nat option" where
  "digit_value c =
     (let n = (of_char c :: nat) in
      if 48 \<le> n \<and> n \<le> 57 then Some (n - 48)
      else if 97 \<le> n \<and> n \<le> 122 then Some (n - 87)
      else if 65 \<le> n \<and> n \<le> 90 then Some (n - 55)
      else None)"

fun parse_uint_acc :: "nat \<Rightarrow> nat \<Rightarrow> string \<Rightarrow> nat option" where
  "parse_uint_acc base acc [] = Some acc"
| "parse_uint_acc base acc (c # s) =
     (case digit_value c of
        None \<Rightarrow> None
      | Some d \<Rightarrow>
          if base \<le> d then None
          else if 4294967295 < acc * base + d then None
          else parse_uint_acc base (acc * base + d) s)"

definition parse_uint32 :: "nat \<Rightarrow> string \<Rightarrow> nat option" where
  "parse_uint32 base s = (if s = [] then None else parse_uint_acc base 0 s)"

text \<open>The conversion \<open>string(rune)\<close>: UTF-8.\<close>

definition utf8_encode :: "nat \<Rightarrow> string" where
  "utf8_encode r =
     (if r < 128 then [char_of r]
      else if r < 2048 then [char_of (192 + r div 64), char_of (128 + r mod 64)]
      else if r < 65536 then
        [char_of (224 + r div 4096), char_of (128 + r div 64 mod 64), char_of (128 + r mod 64)]
      else
        [char_of (240 + r div 262144), char_of (128 + r div 4096 mod 64),
         char_of (128 + r div 64 mod 64), char_of (128 + r mod 64)])"

definition decode_numeric_escape :: "string \<Rightarrow> nat \<Rightarrow> nat \<Rightarrow> nat \<Rightarrow> (string \<times> nat) option" where
  "decode_numeric_escape value start stop base =
     (case parse_uint32 base (take (stop - start) (drop start value)) of
        None \<Rightarrow> None
      | Some parsed \<Rightarrow>
          if base \<noteq> 8 \<and> 2 < stop - start then
            if 1114111 < parsed then None
            else if 55296 \<le> parsed \<and> parsed \<le> 57343 then None
            else Some (utf8_encode parsed, stop - 1)
          else if 255 < parsed then None
          else Some ([char_of parsed], stop - 1))"

definition decode_fixed_width_escape ::
  "string \<Rightarrow> nat \<Rightarrow> nat \<Rightarrow> nat \<Rightarrow> (string \<times> nat) option" where
  "decode_fixed_width_escape value start width base =
     (if length value < start + width then None
      else decode_numeric_escape value start (start + width) base)"

definition decode_variable_width_escape ::
  "string \<Rightarrow> nat \<Rightarrow> nat \<Rightarrow> nat \<Rightarrow> (string \<times> nat) option" where
  "decode_variable_width_escape value start max_width base =
     (let stop = start +
        length (takeWhile (valid_escape_digit base) (take max_width (drop start value)))
      in if stop = start then None else decode_numeric_escape value start stop base)"

definition simple_ansi_escape :: "char \<Rightarrow> string option" where
  "simple_ansi_escape c =
     (if c = CHR ''e'' \<or> c = CHR ''E'' then Some [CHR 0x1B]
      else if c = CHR 0x5C then Some [CHR 0x5C]
      else if c = CHR 0x27 then Some [CHR 0x27]
      else if c = CHR 0x22 then Some [CHR 0x22]
      else if c = CHR ''a'' then Some [CHR 0x07]
      else if c = CHR ''b'' then Some [CHR 0x08]
      else if c = CHR ''f'' then Some [CHR 0x0C]
      else if c = CHR ''n'' then Some [CHR 0x0A]
      else if c = CHR ''r'' then Some [CHR 0x0D]
      else if c = CHR ''t'' then Some [CHR 0x09]
      else if c = CHR ''v'' then Some [CHR 0x0B]
      else None)"

definition decode_ansi_escape :: "string \<Rightarrow> nat \<Rightarrow> (string \<times> nat) option" where
  "decode_ansi_escape value index =
     (case simple_ansi_escape (value ! index) of
        Some decoded \<Rightarrow> Some (decoded, index)
      | None \<Rightarrow>
          if value ! index = CHR ''x'' then decode_variable_width_escape value (index + 1) 2 16
          else if value ! index = CHR ''u'' then decode_fixed_width_escape value (index + 1) 4 16
          else if value ! index = CHR ''U'' then decode_fixed_width_escape value (index + 1) 8 16
          else if is_octal_digit (value ! index) then decode_variable_width_escape value index 3 8
          else None)"

lemma decode_numeric_escape_next:
  "decode_numeric_escape value start stop base = Some (d, n) \<Longrightarrow> n = stop - 1"
  by (auto simp: decode_numeric_escape_def split: option.splits if_splits)

lemma decode_variable_width_escape_next:
  assumes "decode_variable_width_escape value start w base = Some (d, n)"
  shows "start \<le> n"
proof -
  let ?w = "takeWhile (valid_escape_digit base) (take w (drop start value))"
  from assms have "?w \<noteq> []" and "n = start + length ?w - 1"
    by (auto simp: decode_variable_width_escape_def Let_def split: if_splits
        dest: decode_numeric_escape_next)
  then show ?thesis by (cases ?w) auto
qed

text \<open>A decoded escape ends at or after the character it was asked about: the loop advances.\<close>

lemma decode_ansi_escape_next:
  assumes "decode_ansi_escape value index = Some (d, n)"
  shows "index \<le> n"
  using assms
  by (auto simp: decode_ansi_escape_def decode_fixed_width_escape_def split: option.splits if_splits
      dest!: decode_numeric_escape_next decode_variable_width_escape_next)

function decode_ansi_from :: "string \<Rightarrow> nat \<Rightarrow> string" where
  "decode_ansi_from value index =
     (if length value \<le> index then []
      else if value ! index \<noteq> CHR 0x5C \<or> length value \<le> index + 1 then
        value ! index # decode_ansi_from value (index + 1)
      else case decode_ansi_escape value (index + 1) of
             None \<Rightarrow> value ! index # decode_ansi_from value (index + 1)
           | Some (decoded, next_index) \<Rightarrow> decoded @ decode_ansi_from value (next_index + 1))"
  by pat_completeness auto
termination
proof (relation "measure (\<lambda>(value, index). length value - index)", goal_cases)
  case (4 v index x d k)
  then show ?case using decode_ansi_escape_next [of v "index + 1" d k] by auto
qed auto

declare decode_ansi_from.simps [simp del]

definition decode_ansi_c_quoted :: "string \<Rightarrow> string" where
  "decode_ansi_c_quoted value = decode_ansi_from value 0"

section \<open>Words\<close>

record word_info =
  info_text :: string
  info_command_substitution :: bool
  info_dynamic_expansion :: bool
  info_process_substitution :: bool

definition empty_info :: word_info where
  "empty_info = \<lparr>info_text = [], info_command_substitution = False,
     info_dynamic_expansion = False, info_process_substitution = False\<rparr>"

text \<open>One turn of the loops of \<open>wordInfoFor\<close> and \<open>doubleQuotedWordInfo\<close>.\<close>

definition add_part :: "word_info \<Rightarrow> word_info \<Rightarrow> word_info" where
  "add_part info part =
     \<lparr>info_text = info_text info @ info_text part,
      info_command_substitution =
        (info_command_substitution info \<or> info_command_substitution part),
      info_dynamic_expansion = (info_dynamic_expansion info \<or> info_dynamic_expansion part),
      info_process_substitution =
        (info_process_substitution info \<or> info_process_substitution part)\<rparr>"

fun word_part_info :: "'n bash \<Rightarrow> 'n word_part \<Rightarrow> word_info option"
and double_quoted_info :: "'n bash \<Rightarrow> word_info \<Rightarrow> 'n word_part list \<Rightarrow> word_info option" where
  "word_part_info B (Lit v) = Some (empty_info\<lparr>info_text := v\<rparr>)"
| "word_part_info B (SglQuoted dollar v) =
     Some (empty_info\<lparr>info_text := (if dollar then decode_ansi_c_quoted v else v)\<rparr>)"
| "word_part_info B (DblQuoted parts) = double_quoted_info B empty_info parts"
| "word_part_info B (ParamExp n) =
     Some (empty_info\<lparr>info_text := render_node B n, info_dynamic_expansion := True\<rparr>)"
| "word_part_info B (CmdSubst n) =
     Some (empty_info\<lparr>info_text := render_node B n, info_command_substitution := True,
       info_dynamic_expansion := True\<rparr>)"
| "word_part_info B (ProcSubst n) =
     Some (empty_info\<lparr>info_text := render_node B n, info_dynamic_expansion := True,
       info_process_substitution := True\<rparr>)"
| "word_part_info B (OtherPart n) = None"
| "double_quoted_info B info [] = Some info"
| "double_quoted_info B info (p # ps) =
     (case word_part_info B p of
        None \<Rightarrow> None
      | Some part \<Rightarrow> double_quoted_info B (add_part info part) ps)"

fun word_info_parts :: "'n bash \<Rightarrow> 'n \<Rightarrow> word_info \<Rightarrow> 'n word_part list \<Rightarrow> word_info" where
  "word_info_parts B n info [] = info"
| "word_info_parts B n info (p # ps) =
     (case word_part_info B p of
        None \<Rightarrow> info\<lparr>info_text := render_node B n, info_dynamic_expansion := True\<rparr>
      | Some part \<Rightarrow> word_info_parts B n (add_part info part) ps)"

definition word_info_for :: "'n bash \<Rightarrow> 'n shell_word \<Rightarrow> word_info" where
  "word_info_for B w = word_info_parts B (word_node w) empty_info (word_parts w)"

definition word_string :: "'n bash \<Rightarrow> 'n shell_word \<Rightarrow> string" where
  "word_string B w = info_text (word_info_for B w)"

definition assignment_string :: "'n bash \<Rightarrow> 'n assign \<Rightarrow> string" where
  "assignment_string B a =
     (case assign_name a of
        None \<Rightarrow> render_node B (assign_node a)
      | Some name \<Rightarrow>
          if assign_naked a then name
          else case assign_value a of
                 None \<Rightarrow> name @ ''=''
               | Some w \<Rightarrow> name @ ''='' @ word_string B w)"

definition redirect_string :: "'n bash \<Rightarrow> 'n redirect \<Rightarrow> string" where
  "redirect_string B r =
     (case redirect_n r of None \<Rightarrow> [] | Some n \<Rightarrow> n) @ redirect_op r @
     (case redirect_word r of None \<Rightarrow> [] | Some w \<Rightarrow> word_string B w)"

section \<open>Commands\<close>

definition command_name :: "string \<Rightarrow> string" where
  "command_name s = (case str_fields s of [] \<Rightarrow> [] | f # _ \<Rightarrow> f)"

definition merge_word_info :: "shell_command \<Rightarrow> word_info \<Rightarrow> shell_command" where
  "merge_word_info c info =
     c\<lparr>cmd_command_substitution := (cmd_command_substitution c \<or> info_command_substitution info),
       cmd_dynamic_expansion := (cmd_dynamic_expansion c \<or> info_dynamic_expansion info),
       cmd_process_substitution :=
         (cmd_process_substitution c \<or> info_process_substitution info)\<rparr>"

fun apply_node_kind :: "node_kind \<Rightarrow> shell_command \<Rightarrow> shell_command" where
  "apply_node_kind KCmdSubst c =
     c\<lparr>cmd_command_substitution := True, cmd_dynamic_expansion := True\<rparr>"
| "apply_node_kind KProcSubst c =
     c\<lparr>cmd_process_substitution := True, cmd_dynamic_expansion := True\<rparr>"
| "apply_node_kind KParamExp c = c\<lparr>cmd_dynamic_expansion := True\<rparr>"
| "apply_node_kind KSubshell c = c\<lparr>cmd_subshell := True\<rparr>"
| "apply_node_kind KFuncDecl c = c\<lparr>cmd_function_declaration := True\<rparr>"
| "apply_node_kind KOtherNode c = c"

definition apply_node_flags :: "'n bash \<Rightarrow> 'n \<Rightarrow> shell_command \<Rightarrow> shell_command" where
  "apply_node_flags B n c = fold apply_node_kind (bash_walk B n) c"

definition add_assignment :: "'n bash \<Rightarrow> 'n assign \<Rightarrow> shell_command \<Rightarrow> shell_command" where
  "add_assignment B a c =
     (let rendered = assignment_string B a;
          c1 = (if rendered \<noteq> []
                then c\<lparr>cmd_assignments := cmd_assignments c @ [rendered]\<rparr> else c)
      in case assign_value a of
           None \<Rightarrow> c1
         | Some w \<Rightarrow> merge_word_info c1 (word_info_for B w))"

definition add_argument :: "'n bash \<Rightarrow> 'n shell_word \<Rightarrow> shell_command \<Rightarrow> shell_command" where
  "add_argument B w c =
     (let info = word_info_for B w
      in merge_word_info (c\<lparr>cmd_argv := cmd_argv c @ [info_text info]\<rparr>) info)"

definition command_from_call ::
  "'n bash \<Rightarrow> 'n \<Rightarrow> 'n assign list \<Rightarrow> 'n shell_word list \<Rightarrow> shell_command" where
  "command_from_call B n assigns args =
     (let c0 = empty_command\<lparr>cmd_line := line_number B n, cmd_column := column_number B n\<rparr>;
          c1 = fold (add_assignment B) assigns c0;
          c2 = fold (add_argument B) args c1;
          c3 = (case cmd_argv c2 of
                  [] \<Rightarrow> c2
                | a # _ \<Rightarrow> c2\<lparr>cmd_name := command_name a,
                               cmd_command := str_join '' '' (cmd_argv c2)\<rparr>)
      in apply_node_flags B n c3)"

definition command_from_func_decl ::
  "'n bash \<Rightarrow> 'n \<Rightarrow> string option \<Rightarrow> shell_command" where
  "command_from_func_decl B n name =
     (let rendered = render_node B n
      in apply_node_flags B n
           (empty_command\<lparr>cmd_argv := [rendered], cmd_command := rendered,
              cmd_function_declaration := True,
              cmd_line := line_number B n, cmd_column := column_number B n,
              cmd_name := (case name of None \<Rightarrow> [] | Some v \<Rightarrow> v)\<rparr>))"

section \<open>Walking the statements\<close>

type_synonym walk_state = "shell_command list \<times> string list"

definition update_last :: "(shell_command \<Rightarrow> shell_command) \<Rightarrow> shell_command list \<Rightarrow> shell_command list" where
  "update_last f cs = (if cs = [] then cs else butlast cs @ [f (last cs)])"

definition append_redirect :: "'n bash \<Rightarrow> 'n redirect \<Rightarrow> walk_state \<Rightarrow> walk_state" where
  "append_redirect B r st =
     (let rendered = redirect_string B r
      in if rendered = [] then st
         else (update_last
                 (\<lambda>c. c\<lparr>cmd_redirects := cmd_redirects c @ [rendered],
                        cmd_heredoc := (cmd_heredoc c \<or> redirect_hdoc r \<noteq> None)\<rparr>) (fst st),
               snd st @ [rendered]))"

definition append_redirects :: "'n bash \<Rightarrow> 'n redirect list \<Rightarrow> walk_state \<Rightarrow> walk_state" where
  "append_redirects B rs st = fold (append_redirect B) rs st"

definition mark_background :: "bool \<Rightarrow> walk_state \<Rightarrow> walk_state" where
  "mark_background bg st =
     (if bg then (update_last (\<lambda>c. c\<lparr>cmd_background := True\<rparr>) (fst st), snd st @ [''&''])
      else st)"

text \<open>
  \<open>walk_statements\<close> takes the loop's \<open>index > 0\<close> as its flag: every statement but the first is
  preceded by a semicolon. \<open>parse\<close> runs the same loop over the statements of the file.
\<close>

primrec walk_statement :: "'n stmt \<Rightarrow> 'n bash \<Rightarrow> walk_state \<Rightarrow> walk_state"
and walk_command :: "'n shell_cmd \<Rightarrow> 'n bash \<Rightarrow> 'n \<Rightarrow> walk_state \<Rightarrow> walk_state"
and walk_statements :: "'n stmt list \<Rightarrow> 'n bash \<Rightarrow> bool \<Rightarrow> walk_state \<Rightarrow> walk_state" where
  "walk_statement (Stmt n cmd redirs bg) B st =
     mark_background bg (append_redirects B redirs (walk_command cmd B n st))"
| "walk_command (BinaryCmd x op y) B n st =
     (let st1 = walk_statement x B st
      in walk_statement y B (fst st1, snd st1 @ [op]))"
| "walk_command (CallExpr m assigns args) B n st =
     (let c = command_from_call B m assigns args
      in (fst st @ [c], snd st @ cmd_assignments c @ cmd_argv c))"
| "walk_command (FuncDecl m name body) B n st =
     (let c = command_from_func_decl B m name
      in walk_statement body B
           (fst st @ [c], if cmd_command c \<noteq> [] then snd st @ [cmd_command c] else snd st))"
| "walk_command (Block stmts) B n st = walk_statements stmts B True st"
| "walk_command (Subshell stmts) B n st = walk_statements stmts B True st"
| "walk_command (OtherCmd m) B n st =
     (let rendered = render_node B m
      in if rendered = [] then st
         else (fst st @ [apply_node_flags B m
                 (empty_command\<lparr>cmd_argv := [rendered], cmd_command := rendered,
                    cmd_name := command_name rendered,
                    cmd_line := line_number B n, cmd_column := column_number B n\<rparr>)],
               snd st @ [rendered]))"
| "walk_command NoCmd B n st = st"
| "walk_statements [] B first st = st"
| "walk_statements (s # ss) B first st =
     walk_statements ss B False
       (walk_statement s B (fst st, if first then snd st else snd st @ ['';'']))"

definition parse :: "'n bash \<Rightarrow> string \<Rightarrow> parse_error + walk_state" where
  "parse B command =
     (case bash_parse B command of
        Inl e \<Rightarrow> Inl e
      | Inr stmts \<Rightarrow> Inr (walk_statements stmts B True ([], [])))"

fun fields_from_commands :: "bool \<Rightarrow> shell_command list \<Rightarrow> string list" where
  "fields_from_commands first [] = []"
| "fields_from_commands first (c # cs) =
     (if first then [] else ['';'']) @ cmd_assignments c @ cmd_argv c @ cmd_redirects c @
     (if cmd_background c then [''&''] else []) @ fields_from_commands False cs"

definition ControlFields :: "'n bash \<Rightarrow> string \<Rightarrow> parse_error + string list" where
  "ControlFields B command =
     (case parse B command of
        Inl e \<Rightarrow> Inl e
      | Inr (commands, tokens) \<Rightarrow>
          Inr (if tokens \<noteq> [] then tokens else fields_from_commands True commands))"

definition is_control_token :: "string \<Rightarrow> bool" where
  "is_control_token t \<longleftrightarrow> t \<in> {''&&'', ''||'', '';'', ''|'', ''|&'', ''&''}"

definition Fields :: "'n bash \<Rightarrow> string \<Rightarrow> parse_error + string list" where
  "Fields B command =
     (case ControlFields B command of
        Inl e \<Rightarrow> Inl e
      | Inr tokens \<Rightarrow> Inr (filter (\<lambda>t. \<not> is_control_token t) tokens))"

definition Commands :: "'n bash \<Rightarrow> string \<Rightarrow> parse_error + shell_command list" where
  "Commands B command = map_sum id fst (parse B command)"

section \<open>A message given through a here-document\<close>

fun is_bare_cat_call :: "'n bash \<Rightarrow> 'n shell_cmd \<Rightarrow> bool" where
  "is_bare_cat_call B (CallExpr n assigns [w]) = (word_string B w = ''cat'')"
| "is_bare_cat_call B c = False"

definition is_heredoc_redirect :: "'n redirect \<Rightarrow> bool" where
  "is_heredoc_redirect r \<longleftrightarrow> redirect_hdoc r \<noteq> None \<and> str_contains (redirect_op r) ''<<''"

fun single_cat_heredoc :: "'n bash \<Rightarrow> 'n stmt list \<Rightarrow> string option" where
  "single_cat_heredoc B [Stmt n cmd redirs bg] =
     (if \<not> is_bare_cat_call B cmd then None
      else case find is_heredoc_redirect redirs of
             None \<Rightarrow> None
           | Some r \<Rightarrow> map_option (word_string B) (redirect_hdoc r))"
| "single_cat_heredoc B stmts = None"

definition CatHeredocCommandSubstitution :: "'n bash \<Rightarrow> string \<Rightarrow> string option" where
  "CatHeredocCommandSubstitution B value =
     (let trimmed = trim_space value
      in if \<not> has_prefix trimmed ''$('' \<or> \<not> has_suffix trimmed '')'' then None
         else case bash_parse B
                  (trim_space (trim_suffix (trim_prefix trimmed ''$('') '')'')) of
                Inl e \<Rightarrow> None
              | Inr stmts \<Rightarrow> single_cat_heredoc B stmts)"

section \<open>The decoder of ANSI-C quotes\<close>

lemma takeWhile_take_bound: "length (takeWhile P (take w (drop start xs))) \<le> min w (length xs - start)"
  using length_takeWhile_le [of P "take w (drop start xs)"] by simp

lemma utf8_encode_length: "length (utf8_encode r) \<le> 4"
  by (simp add: utf8_encode_def)

lemma decode_variable_width_escape_length:
  assumes "decode_variable_width_escape value start w base = Some (d, n)" and "base = 8 \<or> w \<le> 2"
  shows "length d = 1 \<and> n < length value"
proof -
  let ?w = "takeWhile (valid_escape_digit base) (take w (drop start value))"
  have b: "length ?w \<le> w" "length ?w \<le> length value - start"
    using takeWhile_take_bound [of "valid_escape_digit base" w start "value"] by simp_all
  from assms(1) have ne: "?w \<noteq> []" and dec: "decode_numeric_escape value start (start + length ?w) base = Some (d, n)"
    by (auto simp: decode_variable_width_escape_def Let_def split: if_splits)
  from ne have "0 < length ?w" by simp
  with b have "start + length ?w \<le> length value" by linarith
  moreover note \<open>0 < length ?w\<close>
  moreover from dec have "n = start + length ?w - 1" by (rule decode_numeric_escape_next)
  moreover from dec assms(2) b(1) have "length d = 1"
    by (auto simp: decode_numeric_escape_def split: option.splits if_splits)
  ultimately show ?thesis by linarith
qed

lemma decode_fixed_width_escape_length:
  assumes "decode_fixed_width_escape value start w base = Some (d, n)" and "0 < w"
  shows "length d \<le> 4 \<and> n = start + w - 1 \<and> n < length value"
proof -
  from assms have dec: "decode_numeric_escape value start (start + w) base = Some (d, n)"
    and "start + w \<le> length value"
    by (auto simp: decode_fixed_width_escape_def split: if_splits)
  moreover from dec have "length d \<le> 4"
    using utf8_encode_length by (auto simp: decode_numeric_escape_def split: option.splits if_splits)
  moreover from dec have "n = start + w - 1" by (rule decode_numeric_escape_next)
  ultimately show ?thesis using assms(2) by simp
qed

lemma simple_ansi_escape_length: "simple_ansi_escape c = Some d \<Longrightarrow> length d = 1"
  by (auto simp: simple_ansi_escape_def split: if_splits)

lemma decode_ansi_escape_length:
  assumes "decode_ansi_escape value index = Some (d, n)" and "index < length value"
  shows "n < length value \<and> length d \<le> n + 1 - index"
proof (cases "simple_ansi_escape (value ! index)")
  case (Some e)
  with assms show ?thesis
    using simple_ansi_escape_length [OF Some] by (simp add: decode_ansi_escape_def)
next
  case None
  note next_le = decode_ansi_escape_next [OF assms(1)]
  consider "decode_variable_width_escape value (index + 1) 2 16 = Some (d, n)"
    | "decode_variable_width_escape value index 3 8 = Some (d, n)"
    | w where "w = 4 \<or> w = 8" "decode_fixed_width_escape value (index + 1) w 16 = Some (d, n)"
    using assms(1) None by (auto simp: decode_ansi_escape_def split: if_splits)
  then show ?thesis
  proof cases
    case 1
    then show ?thesis using decode_variable_width_escape_length [OF 1] next_le by simp
  next
    case 2
    then show ?thesis using decode_variable_width_escape_length [OF 2] next_le by simp
  next
    case 3
    then show ?thesis using decode_fixed_width_escape_length [OF 3(2)] by auto
  qed
qed

lemma decode_ansi_from_length: "length (decode_ansi_from value index) \<le> length value - index"
proof (induction "value" index rule: decode_ansi_from.induct)
  case (1 v index)
  let ?plain = "v ! index \<noteq> CHR 0x5C \<or> length v \<le> index + 1"
  consider "length v \<le> index" | "\<not> length v \<le> index" "?plain"
    | "\<not> length v \<le> index" "\<not> ?plain" "decode_ansi_escape v (index + 1) = None"
    | d k where "\<not> length v \<le> index" "\<not> ?plain" "decode_ansi_escape v (index + 1) = Some (d, k)"
    by (metis option.exhaust surj_pair)
  then show ?case
  proof cases
    case 1
    then show ?thesis by (simp add: decode_ansi_from.simps)
  next
    case 2
    then show ?thesis using "1.IH"(1) by (simp add: decode_ansi_from.simps [of v index])
  next
    case 3
    then show ?thesis using "1.IH"(2) by (auto simp: decode_ansi_from.simps [of v index])
  next
    case 4
    then have "length (decode_ansi_from v (k + 1)) \<le> length v - (k + 1)"
      using "1.IH"(3) by simp
    moreover have "k < length v \<and> length d \<le> k + 1 - (index + 1)"
      using decode_ansi_escape_length [OF 4(3)] 4 by simp
    moreover have "index + 1 \<le> k" using decode_ansi_escape_next [OF 4(3)] .
    ultimately show ?thesis using 4 by (auto simp: decode_ansi_from.simps [of v index])
  qed
qed

text \<open>
  Fact. Decoding a \<open>$'...'\<close> quote never makes the text longer, whatever escapes it holds
  (a four or eight digit Unicode escape yields at most four bytes).
\<close>

theorem decode_ansi_c_quoted_never_longer:
  "length (decode_ansi_c_quoted v) \<le> length v"
  using decode_ansi_from_length [of v 0] by (simp add: decode_ansi_c_quoted_def)

lemma decode_ansi_from_plain:
  "CHR 0x5C \<notin> set v \<Longrightarrow> decode_ansi_from v index = drop index v"
proof (induction v index rule: decode_ansi_from.induct)
  case (1 v index)
  show ?case
  proof (cases "length v \<le> index")
    case True
    then show ?thesis by (simp add: decode_ansi_from.simps)
  next
    case False
    with "1.prems" have "v ! index \<noteq> CHR 0x5C" by (metis not_le nth_mem)
    with False "1.IH"(1) "1.prems" show ?thesis
      by (simp add: decode_ansi_from.simps [of v index] Cons_nth_drop_Suc)
  qed
qed

text \<open>The two-digit hexadecimal escape of every byte, the form an obfuscated command uses.\<close>

definition hex_digit :: "nat \<Rightarrow> char" where
  "hex_digit n = (if n < 10 then char_of (48 + n) else char_of (87 + n))"

definition hex_escape :: "char \<Rightarrow> string" where
  "hex_escape c =
     [CHR 0x5C, CHR ''x'', hex_digit ((of_char c :: nat) div 16), hex_digit ((of_char c :: nat) mod 16)]"

lemma hex_digit_facts:
  assumes "n < 16"
  shows "is_hex_digit (hex_digit n) \<and> digit_value (hex_digit n) = Some n"
proof -
  have "\<forall>n \<in> set [0..<16]. is_hex_digit (hex_digit n) \<and> digit_value (hex_digit n) = Some n"
    by code_simp
  with assms show ?thesis by simp
qed

lemma byte_div_16: "(of_char c :: nat) div 16 < 16"
  using less_mult_imp_div_less [of "of_char c" 16 16] by simp

lemma parse_hex_digits:
  "a < 16 \<Longrightarrow> b < 16 \<Longrightarrow> parse_uint32 16 [hex_digit a, hex_digit b] = Some (a * 16 + b)"
  using hex_digit_facts [of a] hex_digit_facts [of b] by (simp add: parse_uint32_def)

lemma parse_hex_byte:
  "parse_uint32 16 [hex_digit ((of_char c :: nat) div 16), hex_digit ((of_char c :: nat) mod 16)] =
     Some (of_char c)"
  using parse_hex_digits [OF byte_div_16 [of c], of "(of_char c :: nat) mod 16"] by simp

lemma decode_hex_escape:
  assumes "value = pre @ hex_escape c @ rest"
  shows "decode_ansi_escape value (length pre + 1) = Some ([c], length pre + 3)"
proof -
  let ?h = "hex_digit ((of_char c :: nat) div 16)" and ?l = "hex_digit ((of_char c :: nat) mod 16)"
  have hex: "is_hex_digit ?h" "is_hex_digit ?l"
    using hex_digit_facts [OF byte_div_16 [of c]] hex_digit_facts [of "(of_char c :: nat) mod 16"] by auto
  have x: "value ! (length pre + 1) = CHR ''x''"
    by (simp add: assms hex_escape_def nth_append)
  have digits: "take 2 (drop (length pre + 2) value) = [?h, ?l]"
    by (simp add: assms hex_escape_def numeral_2_eq_2)
  have "simple_ansi_escape (CHR ''x'') = None" by (simp add: simple_ansi_escape_def)
  with x have "decode_ansi_escape value (length pre + 1) =
      decode_variable_width_escape value (length pre + 2) 2 16"
    by (simp add: decode_ansi_escape_def)
  also have "\<dots> = decode_numeric_escape value (length pre + 2) (length pre + 2 + 2) 16"
  proof -
    have "takeWhile (valid_escape_digit 16) (take 2 (drop (length pre + 2) value)) = [?h, ?l]"
      using hex unfolding digits by (simp add: valid_escape_digit_def)
    then show ?thesis by (simp add: decode_variable_width_escape_def)
  qed
  also have "\<dots> = Some ([c], length pre + 3)"
  proof -
    have "take (length pre + 2 + 2 - (length pre + 2)) (drop (length pre + 2) value) = [?h, ?l]"
      using digits by simp
    moreover have "\<not> 255 < (of_char c :: nat)"
    proof -
      have "(of_char c :: nat) < 256" by simp
      then show ?thesis by linarith
    qed
    ultimately show ?thesis
      unfolding decode_numeric_escape_def by (simp only: parse_hex_byte) simp
  qed
  finally show ?thesis .
qed

lemma decode_hex_from:
  "decode_ansi_from (pre @ concat (map hex_escape bs)) (length pre) = bs"
proof (induction bs arbitrary: pre)
  case Nil
  then show ?case by (simp add: decode_ansi_from.simps)
next
  case (Cons c bs)
  let ?v = "pre @ hex_escape c @ concat (map hex_escape bs)"
  have "length (pre @ hex_escape c) = length pre + 4"
    by (simp add: hex_escape_def)
  then have "decode_ansi_from ?v (length pre + 4) = bs"
    using Cons.IH [of "pre @ hex_escape c"] by (metis append.assoc)
  moreover have "?v ! length pre = CHR 0x5C" "\<not> length ?v \<le> length pre + 1"
    by (simp_all add: hex_escape_def nth_append)
  ultimately show ?case
    using decode_hex_escape [of ?v pre c "concat (map hex_escape bs)"]
    by (simp add: decode_ansi_from.simps [of ?v "length pre"] add.commute) (simp add: hex_escape_def)
qed

text \<open>
  Fact. Writing each byte of a text as its hexadecimal escape and decoding the quote gives
  the text back, for every sequence of bytes: a command cannot be hidden from the policies by
  spelling it in escapes.
\<close>

theorem decode_hex_escapes_roundtrip:
  "decode_ansi_c_quoted (concat (map hex_escape bs)) = bs"
  using decode_hex_from [of "[]" bs] by (simp add: decode_ansi_c_quoted_def)

section \<open>What the walk collects\<close>

text \<open>
  The fields a tree contributes, and the argument vectors of its commands, as functions of the
  tree alone: the specification of the accumulating walk.
\<close>

definition redirect_fields :: "'n bash \<Rightarrow> 'n redirect list \<Rightarrow> string list" where
  "redirect_fields B rs = filter (\<lambda>r. r \<noteq> []) (map (redirect_string B) rs)"

primrec stmt_fields :: "'n stmt \<Rightarrow> 'n bash \<Rightarrow> string list"
and cmd_fields :: "'n shell_cmd \<Rightarrow> 'n bash \<Rightarrow> string list"
and stmts_fields :: "'n stmt list \<Rightarrow> 'n bash \<Rightarrow> bool \<Rightarrow> string list" where
  "stmt_fields (Stmt n cmd redirs bg) B =
     cmd_fields cmd B @ redirect_fields B redirs @ (if bg then [''&''] else [])"
| "cmd_fields (BinaryCmd x op y) B = stmt_fields x B @ [op] @ stmt_fields y B"
| "cmd_fields (CallExpr m assigns args) B =
     (let c = command_from_call B m assigns args in cmd_assignments c @ cmd_argv c)"
| "cmd_fields (FuncDecl m name body) B =
     (let c = command_from_func_decl B m name
      in (if cmd_command c \<noteq> [] then [cmd_command c] else []) @ stmt_fields body B)"
| "cmd_fields (Block stmts) B = stmts_fields stmts B True"
| "cmd_fields (Subshell stmts) B = stmts_fields stmts B True"
| "cmd_fields (OtherCmd m) B = (if render_node B m = [] then [] else [render_node B m])"
| "cmd_fields NoCmd B = []"
| "stmts_fields [] B first = []"
| "stmts_fields (s # ss) B first =
     (if first then [] else ['';'']) @ stmt_fields s B @ stmts_fields ss B False"

text \<open>
  What the walk makes of a tree, by the structure of the tree: a control statement (\<open>OtherCmd\<close>) is one
  entry with its printed text, and a function declaration is an entry in front of its body. How this
  relates to the simple commands of the tree is the subject of \<open>ShellReading\<close>.
\<close>

primrec stmt_argvs :: "'n stmt \<Rightarrow> 'n bash \<Rightarrow> string list list"
and cmd_argvs :: "'n shell_cmd \<Rightarrow> 'n bash \<Rightarrow> string list list"
and stmts_argvs :: "'n stmt list \<Rightarrow> 'n bash \<Rightarrow> string list list" where
  "stmt_argvs (Stmt n cmd redirs bg) B = cmd_argvs cmd B"
| "cmd_argvs (BinaryCmd x op y) B = stmt_argvs x B @ stmt_argvs y B"
| "cmd_argvs (CallExpr m assigns args) B = [map (word_string B) args]"
| "cmd_argvs (FuncDecl m name body) B = [render_node B m] # stmt_argvs body B"
| "cmd_argvs (Block stmts) B = stmts_argvs stmts B"
| "cmd_argvs (Subshell stmts) B = stmts_argvs stmts B"
| "cmd_argvs (OtherCmd m) B = (if render_node B m = [] then [] else [[render_node B m]])"
| "cmd_argvs NoCmd B = []"
| "stmts_argvs [] B = []"
| "stmts_argvs (s # ss) B = stmt_argvs s B @ stmts_argvs ss B"

lemma append_redirects_fields:
  "snd (append_redirects B rs st) = snd st @ redirect_fields B rs"
  by (induction rs arbitrary: st)
     (auto simp: append_redirects_def append_redirect_def redirect_fields_def Let_def)

lemma update_last_argvs:
  "(\<And>c. cmd_argv (f c) = cmd_argv c) \<Longrightarrow> map cmd_argv (update_last f cs) = map cmd_argv cs"
  by (cases cs rule: rev_cases) (auto simp: update_last_def)

lemma append_redirects_argvs:
  "map cmd_argv (fst (append_redirects B rs st)) = map cmd_argv (fst st)"
  by (induction rs arbitrary: st)
     (auto simp: append_redirects_def append_redirect_def Let_def update_last_argvs)

lemma mark_background_facts:
  "snd (mark_background bg st) = snd st @ (if bg then [''&''] else [])"
  "map cmd_argv (fst (mark_background bg st)) = map cmd_argv (fst st)"
  by (auto simp: mark_background_def update_last_argvs)

lemma apply_node_flags_argv:
  "cmd_argv (apply_node_flags B n c) = cmd_argv c"
  "cmd_assignments (apply_node_flags B n c) = cmd_assignments c"
proof -
  have "cmd_argv (fold apply_node_kind ks c) = cmd_argv c \<and>
        cmd_assignments (fold apply_node_kind ks c) = cmd_assignments c" for ks
  proof (induction ks arbitrary: c)
    case Nil
    then show ?case by simp
  next
    case (Cons k ks)
    then show ?case by (cases k) simp_all
  qed
  then show "cmd_argv (apply_node_flags B n c) = cmd_argv c"
    "cmd_assignments (apply_node_flags B n c) = cmd_assignments c"
    by (simp_all add: apply_node_flags_def)
qed

lemma fold_add_assignment_argv: "cmd_argv (fold (add_assignment B) as c) = cmd_argv c"
  by (induction as arbitrary: c)
     (auto simp: add_assignment_def merge_word_info_def Let_def split: option.split)

lemma fold_add_argument_argv:
  "cmd_argv (fold (add_argument B) ws c) = cmd_argv c @ map (word_string B) ws"
  by (induction ws arbitrary: c)
     (auto simp: add_argument_def merge_word_info_def word_string_def Let_def)

lemma command_from_call_argv:
  "cmd_argv (command_from_call B n as ws) = map (word_string B) ws"
proof -
  let ?c0 = "empty_command\<lparr>cmd_line := line_number B n, cmd_column := column_number B n\<rparr>"
  have "cmd_argv (fold (add_argument B) ws (fold (add_assignment B) as ?c0)) =
      map (word_string B) ws"
    by (simp add: fold_add_argument_argv fold_add_assignment_argv empty_command_def)
  then show ?thesis
    by (auto simp: command_from_call_def apply_node_flags_argv Let_def split: list.split)
qed

lemma command_from_func_decl_argv:
  "cmd_argv (command_from_func_decl B n name) = [render_node B n]"
  by (simp add: command_from_func_decl_def apply_node_flags_argv Let_def)

text \<open>The loop over a statement list, from the facts about its statements.\<close>

lemma walk_statements_fields:
  assumes "\<And>s st. s \<in> set ss \<Longrightarrow> snd (walk_statement s B st) = snd st @ stmt_fields s B"
  shows "snd (walk_statements ss B first st) = snd st @ stmts_fields ss B first"
  using assms by (induction ss arbitrary: first st) simp_all

lemma walk_statements_argvs:
  assumes "\<And>s st. s \<in> set ss \<Longrightarrow>
    map cmd_argv (fst (walk_statement s B st)) = map cmd_argv (fst st) @ stmt_argvs s B"
  shows "map cmd_argv (fst (walk_statements ss B first st)) = map cmd_argv (fst st) @ stmts_argvs ss B"
  using assms by (induction ss arbitrary: first st) simp_all

lemma walk_fields:
  "snd (walk_statement s B st) = snd st @ stmt_fields s B"
  "snd (walk_command cmd B n st) = snd st @ cmd_fields cmd B"
proof (induction s and cmd arbitrary: st and n st rule: stmt.induct shell_cmd.induct)
  case (Block ss)
  then show ?case by (simp add: walk_statements_fields)
next
  case (Subshell ss)
  then show ?case by (simp add: walk_statements_fields)
qed (simp_all add: append_redirects_fields mark_background_facts Let_def)

lemma walk_argvs:
  "map cmd_argv (fst (walk_statement s B st)) = map cmd_argv (fst st) @ stmt_argvs s B"
  "map cmd_argv (fst (walk_command cmd B n st)) = map cmd_argv (fst st) @ cmd_argvs cmd B"
proof (induction s and cmd arbitrary: st and n st rule: stmt.induct shell_cmd.induct)
  case (Block ss)
  then show ?case by (simp add: walk_statements_argvs)
next
  case (Subshell ss)
  then show ?case by (simp add: walk_statements_argvs)
qed (simp_all add: append_redirects_argvs mark_background_facts apply_node_flags_argv
      command_from_call_argv command_from_func_decl_argv Let_def)

text \<open>
  The control fields of a text are the fields of its tree: assignments and words of
  each command, then its redirections, then an ampersand for a background statement, operators
  between the sides, and a semicolon before every statement but the first.
\<close>

lemma parse_fields: "parse B text = Inr (cs, fs) \<Longrightarrow> bash_parse B text = Inr ss \<Longrightarrow>
    fs = stmts_fields ss B True"
  using walk_statements_fields [where st = "([], [])" and B = B and first = True, OF walk_fields(1)]
  by (simp add: parse_def) (metis snd_conv)

section \<open>Which words count as dynamic\<close>

text \<open>
  A part whose value the shell computes: an expansion or substitution, at any depth of double
  quotes, or a part the code does not read itself.
\<close>

primrec part_dynamic :: "'n word_part \<Rightarrow> bool" where
  "part_dynamic (Lit v) = False"
| "part_dynamic (SglQuoted d v) = False"
| "part_dynamic (DblQuoted ps) = list_ex id (map part_dynamic ps)"
| "part_dynamic (ParamExp n) = True"
| "part_dynamic (CmdSubst n) = True"
| "part_dynamic (ProcSubst n) = True"
| "part_dynamic (OtherPart n) = True"

definition word_dynamic :: "'n shell_word \<Rightarrow> bool" where
  "word_dynamic w \<longleftrightarrow> list_ex part_dynamic (word_parts w)"

lemma word_part_info_dynamic:
  "(case word_part_info B p of
      None \<Rightarrow> part_dynamic p
    | Some part \<Rightarrow> info_dynamic_expansion part = part_dynamic p)"
  "(case double_quoted_info B info ps of
      None \<Rightarrow> list_ex part_dynamic ps
    | Some part \<Rightarrow>
        info_dynamic_expansion part = (info_dynamic_expansion info \<or> list_ex part_dynamic ps))"
  by (induction B p and B info ps rule: word_part_info_double_quoted_info.induct)
     (auto simp: empty_info_def add_part_def list_ex_iff split: option.splits)

lemma word_info_parts_dynamic:
  "info_dynamic_expansion (word_info_parts B n info ps) =
     (info_dynamic_expansion info \<or> list_ex part_dynamic ps)"
proof (induction ps arbitrary: info)
  case Nil
  then show ?case by simp
next
  case (Cons p ps)
  then show ?case
    using word_part_info_dynamic(1) [of p B] by (auto simp: add_part_def split: option.splits)
qed

lemma word_info_for_dynamic: "info_dynamic_expansion (word_info_for B w) = word_dynamic w"
  by (simp add: word_info_for_def word_dynamic_def word_info_parts_dynamic empty_info_def)

definition assign_dynamic :: "'n assign \<Rightarrow> bool" where
  "assign_dynamic a = (case assign_value a of None \<Rightarrow> False | Some w \<Rightarrow> word_dynamic w)"

lemma fold_add_assignment_dynamic:
  "cmd_dynamic_expansion (fold (add_assignment B) as c) =
     (cmd_dynamic_expansion c \<or> list_ex assign_dynamic as)"
  by (induction as arbitrary: c)
     (auto simp: add_assignment_def merge_word_info_def assign_dynamic_def word_info_for_dynamic
        Let_def split: option.split)

lemma fold_add_argument_dynamic:
  "cmd_dynamic_expansion (fold (add_argument B) ws c) =
     (cmd_dynamic_expansion c \<or> list_ex word_dynamic ws)"
  by (induction ws arbitrary: c)
     (auto simp: add_argument_def merge_word_info_def word_info_for_dynamic Let_def)

lemma apply_node_flags_dynamic:
  "cmd_dynamic_expansion (apply_node_flags B n c) =
     (cmd_dynamic_expansion c \<or> set (bash_walk B n) \<inter> {KCmdSubst, KProcSubst, KParamExp} \<noteq> {})"
proof -
  have "cmd_dynamic_expansion (fold apply_node_kind ks c) =
      (cmd_dynamic_expansion c \<or> set ks \<inter> {KCmdSubst, KProcSubst, KParamExp} \<noteq> {})" for ks
  proof (induction ks arbitrary: c)
    case Nil
    then show ?case by simp
  next
    case (Cons k ks)
    then show ?case by (cases k) auto
  qed
  then show ?thesis by (simp add: apply_node_flags_def)
qed

text \<open>
  Fact. A simple command is marked as having a dynamic expansion exactly when the value of
  one of its words or assignments is computed by the shell, at any depth of quoting, or the walk
  over its nodes meets a substitution: a policy that trusts the flag trusts only literal text.
\<close>

theorem command_dynamic_iff:
  "cmd_dynamic_expansion (command_from_call B n as ws) \<longleftrightarrow>
     list_ex assign_dynamic as \<or> list_ex word_dynamic ws \<or>
     list_ex (\<lambda>k. k \<in> {KCmdSubst, KProcSubst, KParamExp}) (bash_walk B n)"
proof -
  let ?c0 = "empty_command\<lparr>cmd_line := line_number B n, cmd_column := column_number B n\<rparr>"
  have "cmd_dynamic_expansion (fold (add_argument B) ws (fold (add_assignment B) as ?c0)) \<longleftrightarrow>
      list_ex assign_dynamic as \<or> list_ex word_dynamic ws"
    by (simp add: fold_add_argument_dynamic fold_add_assignment_dynamic empty_command_def)
  then show ?thesis
    by (auto simp: command_from_call_def apply_node_flags_dynamic list_ex_iff Let_def split: list.split)
qed

section \<open>Invariants of the collected commands\<close>

text \<open>
  What the walk promises about every command it collects: a property of freshly built commands
  that later redirections and a later ampersand leave alone holds of all of them.
\<close>

locale command_invariant =
  fixes B :: "'n bash" and P :: "shell_command \<Rightarrow> bool"
  assumes inv_call: "P (command_from_call B n as ws)"
    and inv_decl: "P (command_from_func_decl B n name)"
    and inv_other: "rendered \<noteq> [] \<Longrightarrow>
      P (apply_node_flags B m
           (empty_command\<lparr>cmd_argv := [rendered], cmd_command := rendered,
              cmd_name := command_name rendered, cmd_line := l, cmd_column := k\<rparr>))"
    and inv_redirect: "P c \<Longrightarrow> P (c\<lparr>cmd_redirects := rs, cmd_heredoc := h\<rparr>)"
    and inv_background: "P c \<Longrightarrow> P (c\<lparr>cmd_background := True\<rparr>)"
begin

lemma update_last_all:
  "list_all P cs \<Longrightarrow> (\<And>c. P c \<Longrightarrow> P (f c)) \<Longrightarrow> list_all P (update_last f cs)"
  by (cases cs rule: rev_cases) (auto simp: update_last_def)

lemma append_redirects_all:
  "list_all P (fst st) \<Longrightarrow> list_all P (fst (append_redirects B rs st))"
  by (induction rs arbitrary: st)
     (auto simp: append_redirects_def append_redirect_def Let_def update_last_all inv_redirect)

lemma mark_background_all:
  "list_all P (fst st) \<Longrightarrow> list_all P (fst (mark_background bg st))"
  by (simp add: mark_background_def update_last_all inv_background)

lemma walk_statements_all:
  assumes "\<And>s st. s \<in> set ss \<Longrightarrow> list_all P (fst st) \<Longrightarrow> list_all P (fst (walk_statement s B st))"
    and "list_all P (fst st)"
  shows "list_all P (fst (walk_statements ss B first st))"
  using assms by (induction ss arbitrary: first st) simp_all

lemma walk_all:
  "list_all P (fst st) \<Longrightarrow> list_all P (fst (walk_statement s B st))"
  "list_all P (fst st) \<Longrightarrow> list_all P (fst (walk_command cmd B n st))"
proof (induction s and cmd arbitrary: st and n st rule: stmt.induct shell_cmd.induct)
  case (Block ss)
  then show ?case by (simp add: walk_statements_all)
next
  case (Subshell ss)
  then show ?case by (simp add: walk_statements_all)
qed (simp_all add: append_redirects_all mark_background_all inv_call inv_decl inv_other Let_def)

lemma Commands_all:
  assumes "Commands B text = Inr cs"
  shows "list_all P cs"
proof (cases "bash_parse B text")
  case (Inl e)
  with assms show ?thesis by (simp add: Commands_def parse_def)
next
  case (Inr ss)
  have "list_all P (fst (walk_statements ss B True ([], [])))"
    by (rule walk_statements_all) (auto intro: walk_all)
  with Inr assms show ?thesis by (simp add: Commands_def parse_def)
qed

end

text \<open>
  The first instance: a command with a name has words, so the slice \<open>command.Argv[1:]\<close> that the
  routes take behind a test of the name cannot panic.
\<close>

definition argv_named :: "shell_command \<Rightarrow> bool" where
  "argv_named c = (if cmd_argv c = [] then cmd_name c = [] else True)"

lemma apply_node_flags_name: "cmd_name (apply_node_flags B n c) = cmd_name c"
proof -
  have "cmd_name (fold apply_node_kind ks c) = cmd_name c" for ks
  proof (induction ks arbitrary: c)
    case Nil
    then show ?case by simp
  next
    case (Cons k ks)
    then show ?case by (cases k) simp_all
  qed
  then show ?thesis by (simp add: apply_node_flags_def)
qed

lemma fold_add_assignment_name: "cmd_name (fold (add_assignment B) as c) = cmd_name c"
  by (induction as arbitrary: c)
     (auto simp: add_assignment_def merge_word_info_def Let_def split: option.split)

lemma fold_add_argument_name: "cmd_name (fold (add_argument B) ws c) = cmd_name c"
  by (induction ws arbitrary: c) (auto simp: add_argument_def merge_word_info_def Let_def)

lemma command_from_call_name:
  "cmd_name (command_from_call B n as ws) =
     (case ws of [] \<Rightarrow> [] | w # _ \<Rightarrow> command_name (word_string B w))"
proof -
  let ?c0 = "empty_command\<lparr>cmd_line := line_number B n, cmd_column := column_number B n\<rparr>"
  let ?c2 = "fold (add_argument B) ws (fold (add_assignment B) as ?c0)"
  have "cmd_argv ?c2 = map (word_string B) ws"
    by (simp add: fold_add_argument_argv fold_add_assignment_argv empty_command_def)
  moreover have "cmd_name ?c2 = []"
    by (simp add: fold_add_argument_name fold_add_assignment_name empty_command_def)
  ultimately show ?thesis
    by (cases ws) (simp_all add: command_from_call_def apply_node_flags_name Let_def)
qed

interpretation named: command_invariant B argv_named for B
  by unfold_locales
     (auto simp: argv_named_def command_from_call_argv command_from_call_name
        command_from_func_decl_argv apply_node_flags_argv apply_node_flags_name split: list.splits)

text \<open>
  Fact. Every command the walk collects from any text that has a name has at least one
  word, so slicing off its first word never fails.
\<close>

theorem named_commands_have_words:
  "case Commands B text of Inl e \<Rightarrow> True | Inr cs \<Rightarrow> list_all argv_named cs"
  by (auto split: sum.split intro: named.Commands_all)

section \<open>Literal trees\<close>

text \<open>
  Trees of literal words and a parser that returns one tree: the concrete inputs on which the
  properties about parsed text are evaluated.
\<close>

definition lit_word :: "string \<Rightarrow> nat shell_word" where
  "lit_word s = Word 0 [Lit s]"

definition lit_call :: "string list \<Rightarrow> nat shell_cmd" where
  "lit_call ws = CallExpr 0 [] (map lit_word ws)"

definition lit_stmt :: "nat shell_cmd \<Rightarrow> bool \<Rightarrow> nat stmt" where
  "lit_stmt c background = Stmt 0 c [] background"

definition sample_bash :: "nat stmt list \<Rightarrow> nat bash" where
  "sample_bash stmts =
     \<lparr>bash_parse = \<lambda>_. Inr stmts, bash_print = \<lambda>_. None, bash_walk = \<lambda>_. [],
      bash_pos = \<lambda>_. None\<rparr>"

end
