(* ===== verification/HookEvent.thy ===== *)
theory HookEvent
  imports Policy Shellparse
begin

text \<open>
  \<open>go/internal/hooks/event.go\<close>: the event an agent sends to a hook and what the policies read
  from it. The environment (\<open>os.Getenv\<close>) is an argument, empty for an unset variable.
\<close>

section \<open>The event\<close>

record event =
  ev_tool_input :: "any_map option"
  ev_tool_response :: "any_map option"
  ev_contract_version :: string
  ev_correlation_id :: string
  ev_provider_hint :: string
  ev_cwd :: string
  ev_hook_event_name :: string
  ev_matcher :: string
  ev_model :: string
  ev_session_id :: string
  ev_source :: string
  ev_tool_name :: string
  ev_transcript_path :: string
  ev_context_window_tokens :: int

type_synonym environment = "string \<Rightarrow> string"

definition empty_event :: event where
  "empty_event =
     \<lparr>ev_tool_input = None, ev_tool_response = None, ev_contract_version = [],
      ev_correlation_id = [], ev_provider_hint = [], ev_cwd = [], ev_hook_event_name = [],
      ev_matcher = [], ev_model = [], ev_session_id = [], ev_source = [], ev_tool_name = [],
      ev_transcript_path = [], ev_context_window_tokens = 0\<rparr>"

abbreviation "claude \<equiv> ''claude''"
abbreviation "codex \<equiv> ''codex''"
abbreviation "coding_ethos \<equiv> ''coding-ethos''"
abbreviation "gemini \<equiv> ''gemini''"
abbreviation "kimi \<equiv> ''kimi''"

definition provider_from_environment :: "environment \<Rightarrow> string" where
  "provider_from_environment env =
     (if trim_space (env ''CODEX_THREAD_ID'') \<noteq> [] \<or> trim_space (env ''CODEX_CI'') \<noteq> [] \<or>
         trim_space (env ''CODEX_MANAGED_BY_NPM'') \<noteq> [] then codex
      else if trim_space (env ''GEMINI_CLI'') \<noteq> [] then gemini
      else if trim_space (env ''KIMI_CODE_HOME'') \<noteq> [] then kimi
      else if trim_space (env ''CLAUDECODE'') \<noteq> [] \<or>
              trim_space (env ''CLAUDE_CODE_ENTRYPOINT'') \<noteq> [] then claude
      else [])"

definition provider_in :: "string \<Rightarrow> string option" where
  "provider_in text =
     (if str_contains text coding_ethos then Some coding_ethos
      else if str_contains text kimi then Some kimi
      else if str_contains text gemini then Some gemini
      else if str_contains text codex then Some codex
      else if str_contains text claude then Some claude
      else None)"

definition Provider :: "environment \<Rightarrow> event \<Rightarrow> string" where
  "Provider env e =
     (case provider_in (to_lower (trim_space (ev_provider_hint e))) of
        Some p \<Rightarrow> p
      | None \<Rightarrow>
          (case provider_in (to_lower (trim_space (ev_source e))) of
             Some p \<Rightarrow> p
           | None \<Rightarrow> provider_from_environment env))"

section \<open>The tool input\<close>

text \<open>\<open>m[key].(string)\<close>, on a map that may be nil.\<close>

definition input_string :: "any_map option \<Rightarrow> string \<Rightarrow> string option" where
  "input_string m key =
     (case m of None \<Rightarrow> None | Some kvs \<Rightarrow> Option.bind (map_of kvs key) any_string)"

definition Command :: "event \<Rightarrow> string" where
  "Command e = (case input_string (ev_tool_input e) ''command'' of None \<Rightarrow> [] | Some c \<Rightarrow> c)"

fun first_trimmed :: "any_map option \<Rightarrow> string list \<Rightarrow> string" where
  "first_trimmed m [] = []"
| "first_trimmed m (key # keys) =
     (case input_string m key of
        Some v \<Rightarrow> if trim_space v \<noteq> [] then trim_space v else first_trimmed m keys
      | None \<Rightarrow> first_trimmed m keys)"

definition StrategicIntent :: "event \<Rightarrow> string" where
  "StrategicIntent e =
     first_trimmed (ev_tool_input e) [''strategic_intent'', ''update_topic'', ''intent'']"

definition string_map_value :: "any_map \<Rightarrow> string \<Rightarrow> string" where
  "string_map_value m key =
     (case input_string (Some m) key of None \<Rightarrow> [] | Some v \<Rightarrow> v)"

fun active_todo_loop :: "any list \<Rightarrow> string \<Rightarrow> string" where
  "active_todo_loop [] first_todo = first_todo"
| "active_todo_loop (item # items) first_todo =
     (case any_map_of item of
        None \<Rightarrow> active_todo_loop items first_todo
      | Some todo \<Rightarrow>
          (let content = trim_space (string_map_value todo ''content'')
           in if content = [] then active_todo_loop items first_todo
              else if equal_fold (string_map_value todo ''status'') ''in_progress'' then content
              else active_todo_loop items (if first_todo = [] then content else first_todo)))"

definition ActiveTodo :: "event \<Rightarrow> string" where
  "ActiveTodo e =
     (case Option.bind (ev_tool_input e) (\<lambda>m. map_of m ''todos'') of
        Some (AList todos) \<Rightarrow> active_todo_loop todos []
      | _ \<Rightarrow> [])"

definition append_non_empty_file :: "string list \<Rightarrow> string \<Rightarrow> string list" where
  "append_non_empty_file files candidate =
     (let path = trim_space candidate in if path = [] then files else files @ [path])"

definition any_string_list :: "any option \<Rightarrow> string list" where
  "any_string_list v =
     (case v of
        Some (AStrings typed) \<Rightarrow> typed
      | Some (AList typed) \<Rightarrow> filter (\<lambda>t. t \<noteq> []) (List.map_filter any_string typed)
      | Some (AString typed) \<Rightarrow> if typed = [] then [] else [typed]
      | _ \<Rightarrow> [])"

text \<open>\<open>dedupeStrings\<close>, with the set of keys seen so far.\<close>

fun dedupe_strings_loop :: "string list \<Rightarrow> string set \<Rightarrow> string list \<Rightarrow> string list" where
  "dedupe_strings_loop [] seen deduped = deduped"
| "dedupe_strings_loop (key # values) seen deduped =
     (if key = [] \<or> key \<in> seen then dedupe_strings_loop values seen deduped
      else dedupe_strings_loop values (insert key seen) (deduped @ [key]))"

definition dedupe_strings :: "string list \<Rightarrow> string list" where
  "dedupe_strings values = dedupe_strings_loop values {} []"

definition Files :: "event \<Rightarrow> string list" where
  "Files e =
     (case ev_tool_input e of
        None \<Rightarrow> []
      | Some m \<Rightarrow>
          (let single = fold (\<lambda>key files.
                 case input_string (Some m) key of
                   None \<Rightarrow> files
                 | Some file \<Rightarrow> append_non_empty_file files file)
                 [''file_path'', ''path'', ''notebook_path''] [];
               all_files = fold (\<lambda>key files.
                 fold (\<lambda>file fs. append_non_empty_file fs file) (any_string_list (map_of m key)) files)
                 [''files'', ''paths''] single
           in dedupe_strings all_files))"

definition Content :: "event \<Rightarrow> string" where
  "Content e =
     str_join [CHR 0x0A]
       (List.map_filter (input_string (ev_tool_input e))
          [''content'', ''new_string'', ''prompt'', ''text'', ''title'', ''body'', ''description''])"

definition OldContent :: "event \<Rightarrow> string" where
  "OldContent e =
     (case List.map_filter (input_string (ev_tool_input e))
             [''old_string'', ''old_content'', ''before''] of
        [] \<Rightarrow> []
      | c # _ \<Rightarrow> c)"

definition any_map_keys :: "any_map option \<Rightarrow> string list" where
  "any_map_keys m =
     (case m of None \<Rightarrow> [] | Some kvs \<Rightarrow> sort (filter (\<lambda>k. k \<noteq> []) (remdups (map fst kvs))))"

section \<open>The tool response\<close>

fun first_string_value :: "any_map option \<Rightarrow> string list \<Rightarrow> string" where
  "first_string_value m [] = []"
| "first_string_value m (key # keys) =
     (case input_string m key of
        Some v \<Rightarrow> if v \<noteq> [] then v else first_string_value m keys
      | None \<Rightarrow> first_string_value m keys)"

definition ToolOutput :: "event \<Rightarrow> string" where
  "ToolOutput e =
     (let output = first_string_value (ev_tool_response e)
            [''stdout'', ''output'', ''result'', ''text'', ''content''];
          stderr = first_string_value (ev_tool_response e) [''stderr'']
      in if output \<noteq> [] \<and> stderr \<noteq> [] then output @ [CHR 0x0A] @ stderr
         else if output \<noteq> [] then output else stderr)"

definition return_code_keys :: "string list" where
  "return_code_keys = [''return_code'', ''returnCode'', ''exitCode'', ''exit_code'', ''code'']"

definition response_status_failed :: "any_map \<Rightarrow> bool" where
  "response_status_failed m \<longleftrightarrow>
     list_ex (\<lambda>key. case input_string (Some m) key of
                      None \<Rightarrow> False
                    | Some v \<Rightarrow> to_lower (trim_space v) \<in>
                        {''blocked'', ''error'', ''failed'', ''failure''})
       [''status'', ''state'', ''outcome'']"

fun return_code_loop :: "any_map \<Rightarrow> string list \<Rightarrow> int" where
  "return_code_loop m [] = (if response_status_failed m then 1 else 0)"
| "return_code_loop m (key # keys) =
     (case map_of m key of
        Some (AInt typed) \<Rightarrow> typed
      | Some (AFloat typed) \<Rightarrow> typed
      | Some (AString typed) \<Rightarrow> if typed = [] \<or> typed = ''0'' then 0 else 1
      | _ \<Rightarrow> return_code_loop m keys)"

definition ReturnCode :: "event \<Rightarrow> int" where
  "ReturnCode e =
     (case ev_tool_response e of None \<Rightarrow> 0 | Some m \<Rightarrow> return_code_loop m return_code_keys)"

definition HasReturnCode :: "event \<Rightarrow> bool" where
  "HasReturnCode e =
     (case ev_tool_response e of
        None \<Rightarrow> False
      | Some m \<Rightarrow> list_ex (\<lambda>key. map_of m key \<noteq> None) return_code_keys \<or> response_status_failed m)"

section \<open>Facts\<close>

lemma dedupe_strings_loop_facts:
  assumes "distinct deduped" and "set deduped = seen" and "[] \<notin> seen"
  shows "distinct (dedupe_strings_loop vs seen deduped) \<and>
         set (dedupe_strings_loop vs seen deduped) = seen \<union> (set vs - {[]})"
  using assms
proof (induction vs arbitrary: seen deduped)
  case Nil
  then show ?case by simp
next
  case (Cons v vs)
  show ?case
  proof (cases "v = [] \<or> v \<in> seen")
    case True
    with Cons.IH [OF Cons.prems] show ?thesis by auto
  next
    case False
    with Cons.IH [of "deduped @ [v]" "insert v seen"] Cons.prems show ?thesis by auto
  qed
qed

lemma dedupe_strings_set: "set (dedupe_strings vs) = set vs - {[]}"
  using dedupe_strings_loop_facts [of "[]" "{}" vs] by (simp add: dedupe_strings_def)

lemma dedupe_strings_distinct: "distinct (dedupe_strings vs)"
  using dedupe_strings_loop_facts [of "[]" "{}" vs] by (simp add: dedupe_strings_def)

lemma provider_in_known: "provider_in t = Some p \<Longrightarrow> p \<in> {claude, codex, coding_ethos, gemini, kimi}"
  by (auto simp: provider_in_def split: if_splits)

lemma provider_from_environment_known:
  "provider_from_environment env \<in> {claude, codex, gemini, kimi, []}"
  by (simp add: provider_from_environment_def)

lemma Provider_cases: "Provider env e \<in> {claude, codex, coding_ethos, gemini, kimi, []}"
proof (cases "provider_in (to_lower (trim_space (ev_provider_hint e)))")
  case (Some p)
  then show ?thesis using provider_in_known [OF Some] by (auto simp: Provider_def)
next
  case hint: None
  show ?thesis
  proof (cases "provider_in (to_lower (trim_space (ev_source e)))")
    case (Some p)
    then show ?thesis using hint provider_in_known [OF Some] by (auto simp: Provider_def)
  next
    case None
    then show ?thesis
      using hint provider_from_environment_known [of env] by (auto simp: Provider_def)
  qed
qed

lemma return_code_loop_without_code:
  "(\<And>k. k \<in> set keys \<Longrightarrow> map_of m k = None) \<Longrightarrow>
   return_code_loop m keys = (if response_status_failed m then 1 else 0)"
  by (induction keys) auto

text \<open>
  Fact. A response for which the event says that it has no return code counts as
  successful: the return code is 0, never the one of a failed status.
\<close>

theorem ReturnCode_without_code:
  assumes "\<not> HasReturnCode e"
  shows "ReturnCode e = 0"
proof (cases "ev_tool_response e")
  case None
  then show ?thesis by (simp add: ReturnCode_def)
next
  case (Some m)
  with assms have "\<not> response_status_failed m"
    and "\<And>k. k \<in> set return_code_keys \<Longrightarrow> map_of m k = None"
    by (auto simp: HasReturnCode_def list_ex_iff)
  with Some show ?thesis
    using return_code_loop_without_code [of return_code_keys m] by (simp add: ReturnCode_def)
qed

theorem ReturnCode_without_code_witness:
  "ReturnCode (empty_event\<lparr>ev_tool_response := Some [(''status'', AString ''ok'')]\<rparr>) = 0"
  by (rule ReturnCode_without_code)
     (simp add: HasReturnCode_def return_code_keys_def response_status_failed_def input_string_def
        to_lower_def lower_byte_def trim_space_def trim_left_space.simps trim_rspace.simps
        ascii_space_def space2_def)

end
