(* ===== verification/GateStatus.thy ===== *)
theory GateStatus
  imports HookEvent
begin

text \<open>
  \<open>go/internal/hooks/gate_exit_status.go\<close>: the hook route that refuses a shell command in which
  the exit status of a required repository gate (a test, lint or build run, or a commit) can be
  hidden from the agent that runs it. The command is split into its control fields by
  \<open>shellparse\<close>; each segment is stripped of the wrappers around its executable; the operators
  after a gate, the state of \<open>pipefail\<close> and scripts nested in \<open>sh -c\<close> decide.
\<close>

section \<open>Constants\<close>

definition max_gate_shell_depth :: nat where
  "max_gate_shell_depth = 3"

datatype gate_reason =
    GateBackground
  | GateFallback
  | GatePipeline
  | GateNesting
  | GateSequence

definition gate_reason_text :: "gate_reason \<Rightarrow> string" where
  "gate_reason_text r =
     (case r of
        GateBackground \<Rightarrow> ''Required repository gates must return their terminal status, not run in the background.''
      | GateFallback \<Rightarrow> ''Required repository gate failure cannot be hidden by a shell fallback.''
      | GatePipeline \<Rightarrow> ''Required repository gate pipelines must enable pipefail so the gate status remains authoritative.''
      | GateNesting \<Rightarrow> ''Required repository gate inspection exceeded the supported shell nesting depth.''
      | GateSequence \<Rightarrow> ''Commands after a required repository gate must capture and return the gate'' @ [CHR 0x27] @ ''s exact exit status.'')"

section \<open>Shell words\<close>

definition valid_shell_name_character :: "nat \<Rightarrow> char \<Rightarrow> bool" where
  "valid_shell_name_character index c \<longleftrightarrow>
     c = CHR ''_'' \<or>
     (97 \<le> (of_char c :: nat) \<and> (of_char c :: nat) \<le> 122) \<or>
     (65 \<le> (of_char c :: nat) \<and> (of_char c :: nat) \<le> 90) \<or>
     (0 < index \<and> 48 \<le> (of_char c :: nat) \<and> (of_char c :: nat) \<le> 57)"

definition shell_assignment :: "string \<Rightarrow> bool" where
  "shell_assignment v =
     (case str_cut v ''='' of (name, rest, found) \<Rightarrow>
        found \<and> name \<noteq> [] \<and>
        list_all (\<lambda>(i, c). valid_shell_name_character i c) (enumerate 0 name))"

definition shell_redirect_field :: "string \<Rightarrow> bool" where
  "shell_redirect_field field =
     (let trimmed = dropWhile (\<lambda>c. c \<in> set ''0123456789'') field
      in has_prefix trimmed ''>'' \<or> has_prefix trimmed ''<'')"

definition is_shell_control_token :: "string \<Rightarrow> bool" where
  "is_shell_control_token t \<longleftrightarrow> t \<in> {''&&'', ''||'', '';'', ''|'', ''&''}"

section \<open>Wrappers around an executable\<close>

text \<open>
  The loop of \<open>unwrapNiceArgv\<close>, \<open>unwrapTimeoutArgv\<close> and \<open>unwrapFlockArgv\<close>: options that consume
  a value are dropped with it, other options are dropped, the first operand ends the loop.
\<close>

function drop_options :: "(string \<Rightarrow> bool) \<Rightarrow> string list \<Rightarrow> string list" where
  "drop_options consumes [] = []"
| "drop_options consumes (a # rest) =
     (if consumes a \<and> rest \<noteq> [] then drop_options consumes (tl rest)
      else if has_prefix a ''-'' then drop_options consumes rest
      else a # rest)"
  by pat_completeness auto
termination by (relation "measure (\<lambda>(c, argv). length argv)") auto

definition env_option_consumes_value :: "string \<Rightarrow> bool" where
  "env_option_consumes_value a \<longleftrightarrow>
     a \<in> {''-u'', ''--unset'', ''-C'', ''--chdir'', ''-S'', ''--split-string''}"

function unwrap_env_argv :: "string list \<Rightarrow> string list" where
  "unwrap_env_argv [] = []"
| "unwrap_env_argv (a # rest) =
     (if shell_assignment a then unwrap_env_argv rest
      else if env_option_consumes_value a \<and> rest \<noteq> [] then unwrap_env_argv (tl rest)
      else if has_prefix a ''-'' then unwrap_env_argv rest
      else a # rest)"
  by pat_completeness auto
termination by (relation "measure length") auto

definition unwrap_simple_argv :: "string list \<Rightarrow> string list" where
  "unwrap_simple_argv argv = dropWhile (\<lambda>a. has_prefix a ''-'') argv"

definition discard_wrapper_operand :: "string list \<Rightarrow> string list" where
  "discard_wrapper_operand argv = (if argv = [] then argv else tl argv)"

definition nice_option_consumes_value :: "string \<Rightarrow> bool" where
  "nice_option_consumes_value a \<longleftrightarrow> a \<in> {''-n'', ''--adjustment''}"

definition timeout_option_consumes_value :: "string \<Rightarrow> bool" where
  "timeout_option_consumes_value a \<longleftrightarrow> a \<in> {''-k'', ''--kill-after'', ''-s'', ''--signal''}"

definition flock_option_consumes_value :: "string \<Rightarrow> bool" where
  "flock_option_consumes_value a \<longleftrightarrow> a \<in> {''-E'', ''--conflict-exit-code'', ''-w'', ''--wait''}"

definition unwrap_nice_argv :: "string list \<Rightarrow> string list" where
  "unwrap_nice_argv argv = drop_options nice_option_consumes_value argv"

definition unwrap_timeout_argv :: "string list \<Rightarrow> string list" where
  "unwrap_timeout_argv argv =
     discard_wrapper_operand (drop_options timeout_option_consumes_value argv)"

definition unwrap_flock_argv :: "string list \<Rightarrow> string list" where
  "unwrap_flock_argv argv =
     discard_wrapper_operand (drop_options flock_option_consumes_value argv)"

text \<open>The position of the first occurrence, \<open>slices.Index\<close>.\<close>

fun index_of :: "'a \<Rightarrow> 'a list \<Rightarrow> nat option" where
  "index_of x [] = None"
| "index_of x (y # ys) = (if x = y then Some 0 else map_option Suc (index_of x ys))"

text \<open>\<open>None\<close> when the command is not a wrapper (the flag \<open>changed\<close> is false).\<close>

definition unwrap_gate_wrapper :: "string list \<Rightarrow> string list option" where
  "unwrap_gate_wrapper argv =
     (let name = path_base (hd argv)
      in if name = ''env'' then Some (unwrap_env_argv (tl argv))
         else if name \<in> {''command'', ''exec'', ''nohup'', ''time''}
           then Some (unwrap_simple_argv (tl argv))
         else if name = ''nice'' then Some (unwrap_nice_argv (tl argv))
         else if name = ''timeout'' then Some (unwrap_timeout_argv (tl argv))
         else if name = ''flock'' then Some (unwrap_flock_argv (tl argv))
         else if name = ''cerun'' then
           map_option (\<lambda>separator. drop (separator + 1) argv) (index_of ''--'' argv)
         else None)"

text \<open>
  The contract the unwrapping loop relies on: what an unwrapper returns is a tail of what it was
  given, so no argument is invented or reordered and the loop makes progress.
\<close>

locale argv_unwrapper =
  fixes unwrap :: "string list \<Rightarrow> string list"
  assumes unwrap_suffix: "suffix (unwrap argv) argv"
begin

lemma unwrap_length: "length (unwrap argv) \<le> length argv"
  by (rule suffix_length_le [OF unwrap_suffix])

lemma unwrap_set: "set (unwrap argv) \<subseteq> set argv"
  by (rule set_mono_suffix [OF unwrap_suffix])

lemma unwrap_Nil: "unwrap [] = []"
  using unwrap_suffix [of "[]"] by simp

lemma unwrap_progress: "argv \<noteq> [] \<Longrightarrow> length (unwrap (tl argv)) < length argv"
  using unwrap_length [of "tl argv"] by (cases argv) simp_all

lemma unwrap_tl_suffix: "suffix (unwrap (tl argv)) argv"
  using unwrap_suffix suffix_tl suffix_order.trans by blast

end

lemma drop_options_suffix: "suffix (drop_options consumes argv) argv"
proof (induction consumes argv rule: drop_options.induct)
  case (1 consumes)
  then show ?case by simp
next
  case (2 consumes a rest)
  have "suffix (tl rest) (a # rest)" by (meson suffix_ConsI suffix_tl)
  with 2 show ?case by (auto intro: suffix_ConsI suffix_order.trans)
qed

lemma unwrap_env_suffix: "suffix (unwrap_env_argv argv) argv"
proof (induction argv rule: unwrap_env_argv.induct)
  case 1
  then show ?case by simp
next
  case (2 a rest)
  have "suffix (tl rest) (a # rest)" by (meson suffix_ConsI suffix_tl)
  with 2 show ?case by (auto intro: suffix_ConsI suffix_order.trans)
qed

lemma discard_suffix: "suffix (discard_wrapper_operand argv) argv"
  by (simp add: discard_wrapper_operand_def suffix_tl)

interpretation env_wrapper: argv_unwrapper unwrap_env_argv
  by unfold_locales (rule unwrap_env_suffix)

interpretation simple_wrapper: argv_unwrapper unwrap_simple_argv
  by unfold_locales (simp add: unwrap_simple_argv_def suffix_dropWhile)

interpretation nice_wrapper: argv_unwrapper unwrap_nice_argv
  by unfold_locales (simp add: unwrap_nice_argv_def drop_options_suffix)

interpretation timeout_wrapper: argv_unwrapper unwrap_timeout_argv
  by unfold_locales
     (metis discard_suffix drop_options_suffix suffix_order.trans unwrap_timeout_argv_def)

interpretation flock_wrapper: argv_unwrapper unwrap_flock_argv
  by unfold_locales
     (metis discard_suffix drop_options_suffix suffix_order.trans unwrap_flock_argv_def)

lemmas wrapper_progress =
  env_wrapper.unwrap_progress simple_wrapper.unwrap_progress nice_wrapper.unwrap_progress
  timeout_wrapper.unwrap_progress flock_wrapper.unwrap_progress

lemmas wrapper_suffix =
  env_wrapper.unwrap_tl_suffix simple_wrapper.unwrap_tl_suffix nice_wrapper.unwrap_tl_suffix
  timeout_wrapper.unwrap_tl_suffix flock_wrapper.unwrap_tl_suffix

lemma unwrap_gate_wrapper_progress:
  "argv \<noteq> [] \<Longrightarrow> unwrap_gate_wrapper argv = Some argv' \<Longrightarrow> length argv' < length argv"
  by (auto simp: unwrap_gate_wrapper_def Let_def wrapper_progress split: if_splits)

lemma unwrap_gate_wrapper_suffix:
  "unwrap_gate_wrapper argv = Some argv' \<Longrightarrow> suffix argv' argv"
  by (auto simp: unwrap_gate_wrapper_def Let_def wrapper_suffix suffix_drop split: if_splits)

function unwrap_loop :: "string list \<Rightarrow> string list" where
  "unwrap_loop argv =
     (if argv = [] then argv
      else case unwrap_gate_wrapper argv of
             None \<Rightarrow> argv
           | Some unwrapped \<Rightarrow> unwrap_loop unwrapped)"
  by pat_completeness auto
termination
  by (relation "measure length") (auto simp: unwrap_gate_wrapper_progress)

declare unwrap_loop.simps [simp del]

fun gate_executable_fields_acc :: "string list \<Rightarrow> string list \<Rightarrow> string list" where
  "gate_executable_fields_acc argv [] = argv"
| "gate_executable_fields_acc argv (field # segment) =
     (if shell_redirect_field field \<or> (argv = [] \<and> shell_assignment field)
      then gate_executable_fields_acc argv segment
      else gate_executable_fields_acc (argv @ [field]) segment)"

definition gate_executable_fields :: "string list \<Rightarrow> string list" where
  "gate_executable_fields segment = gate_executable_fields_acc [] segment"

definition gate_executable_argv :: "string list \<Rightarrow> string list" where
  "gate_executable_argv segment = unwrap_loop (gate_executable_fields segment)"

section \<open>Which commands are required gates\<close>

function command_operation :: "string set \<Rightarrow> string list \<Rightarrow> string" where
  "command_operation opts [] = []"
| "command_operation opts (a # rest) =
     (case str_cut a ''='' of (name, _, has_inline_value) \<Rightarrow>
        if name \<in> opts \<and> \<not> has_inline_value then command_operation opts (tl rest)
        else if has_prefix a ''+'' \<or> has_prefix a ''-'' then command_operation opts rest
        else a)"
  by pat_completeness auto
termination by (relation "measure (\<lambda>(opts, argv). length argv)") auto

definition git_global_option_consumes_value :: "string \<Rightarrow> bool" where
  "git_global_option_consumes_value a \<longleftrightarrow>
     a \<in> {''-c'', ''-C'', ''--git-dir'', ''--work-tree'', ''--namespace'', ''--config-env''}"

function git_argv_operation :: "string list \<Rightarrow> string" where
  "git_argv_operation [] = []"
| "git_argv_operation (a # rest) =
     (if git_global_option_consumes_value a then git_argv_operation (tl rest)
      else if has_prefix a ''-'' then git_argv_operation rest
      else a)"
  by pat_completeness auto
termination by (relation "measure length") auto

definition required_make_gate_target :: "string \<Rightarrow> bool" where
  "required_make_gate_target a \<longleftrightarrow>
     a \<in> {''acceptance'', ''bench'', ''build'', ''check'', ''check-sync'', ''commit'',
          ''go-e2e-test'', ''go-test'', ''heavy'', ''install'', ''lint'', ''maint-rust-heavy'',
          ''mutants'', ''nextest'', ''pre-commit'', ''purrdf-extractor-check'', ''reason'',
          ''reason-verify'', ''release'', ''rust-coverage'', ''rust-gate'', ''rust-test'',
          ''test'', ''validate'', ''wasm-parity''}"

definition required_go_gate :: "string list \<Rightarrow> bool" where
  "required_go_gate argv \<longleftrightarrow> command_operation {''-C''} argv = ''test''"

definition required_cargo_gate :: "string list \<Rightarrow> bool" where
  "required_cargo_gate argv \<longleftrightarrow>
     command_operation {''--color'', ''--config'', ''--manifest-path'', ''--target-dir''} argv
       \<in> {''bench'', ''build'', ''check'', ''clippy'', ''nextest'', ''test''}"

definition uv_runs_pytest :: "string list \<Rightarrow> bool" where
  "uv_runs_pytest argv =
     (if command_operation {''--config-file'', ''--directory'', ''--project''} argv \<noteq> ''run''
      then False
      else case index_of ''run'' argv of
             None \<Rightarrow> False
           | Some run_index \<Rightarrow>
               path_base (command_operation
                 {''--directory'', ''--env-file'', ''--index'', ''--index-url'', ''--python''}
                 (drop (run_index + 1) argv)) = ''pytest'')"

definition is_python_command :: "string \<Rightarrow> bool" where
  "is_python_command token =
     (let base = path_base token
      in base = ''python'' \<or> base = ''python3'' \<or> has_prefix base ''python3.'')"

definition required_executable_gate :: "string \<Rightarrow> string list \<Rightarrow> bool" where
  "required_executable_gate name arguments =
     (if is_python_command name then
        1 < length arguments \<and> arguments ! 0 = ''-m'' \<and> arguments ! 1 = ''pytest''
      else if name = ''cargo'' then required_cargo_gate arguments
      else if name = ''go'' then required_go_gate arguments
      else if name = ''pytest'' \<or> name = ''ghprsq'' then True
      else if name = ''pre-commit'' then command_operation {''--color''} arguments = ''run''
      else if name = ''uv'' then uv_runs_pytest arguments
      else if name = ''git'' then git_argv_operation arguments = ''commit''
      else False)"

definition required_gate_argv :: "string list \<Rightarrow> bool" where
  "required_gate_argv argv =
     (case argv of
        [] \<Rightarrow> False
      | a # arguments \<Rightarrow>
          (let name = path_base a
           in if name = ''make'' then list_ex required_make_gate_target arguments
              else required_executable_gate name arguments))"

section \<open>Segments and operators\<close>

record gate_shell =
  segments :: "string list list"
  operators :: "string list"

text \<open>The loop over the control fields, with the segment being collected.\<close>

fun gate_fields_loop :: "string list \<Rightarrow> string list \<Rightarrow> gate_shell \<Rightarrow> gate_shell" where
  "gate_fields_loop [] segment parsed =
     (if segment \<noteq> [] then parsed\<lparr>segments := segments parsed @ [segment]\<rparr> else parsed)"
| "gate_fields_loop (field # toks) segment parsed =
     (if is_shell_control_token field then
        gate_fields_loop toks []
          ((if segment \<noteq> [] then parsed\<lparr>segments := segments parsed @ [segment]\<rparr> else parsed)
             \<lparr>operators := operators parsed @ [field]\<rparr>)
      else gate_fields_loop toks (segment @ [field]) parsed)"

definition empty_gate_shell :: gate_shell where
  "empty_gate_shell = \<lparr>segments = [], operators = []\<rparr>"

definition gate_shell_of_fields :: "string list \<Rightarrow> gate_shell" where
  "gate_shell_of_fields toks =
     (let parsed = gate_fields_loop toks [] empty_gate_shell;
          valid_trailing_background =
            length (operators parsed) = length (segments parsed) \<and>
            0 < length (operators parsed) \<and> last (operators parsed) = ''&''
      in if length (segments parsed) = 0 \<or>
            (length (operators parsed) + 1 \<noteq> length (segments parsed) \<and>
             \<not> valid_trailing_background)
         then empty_gate_shell else parsed)"

definition parse_gate_shell :: "'n bash \<Rightarrow> string \<Rightarrow> parse_error + gate_shell" where
  "parse_gate_shell B command = map_sum id gate_shell_of_fields (ControlFields B command)"

section \<open>The state of \<open>pipefail\<close>\<close>

datatype pipefail_setting = PipefailUnchanged | PipefailEnabled | PipefailDisabled

fun apply_pipefail :: "pipefail_setting \<Rightarrow> bool \<Rightarrow> bool" where
  "apply_pipefail PipefailUnchanged current = current"
| "apply_pipefail PipefailEnabled current = True"
| "apply_pipefail PipefailDisabled current = False"

definition pipefail_command_setting :: "string list \<Rightarrow> pipefail_setting" where
  "pipefail_command_setting argv =
     (if length argv < 3 \<or> argv ! 0 \<noteq> ''set'' \<or> argv ! 2 \<noteq> ''pipefail'' then PipefailUnchanged
      else if argv ! 1 = ''-o'' then PipefailEnabled
      else if argv ! 1 = ''+o'' then PipefailDisabled
      else PipefailUnchanged)"

definition segment_controls_shell_state :: "gate_shell \<Rightarrow> nat \<Rightarrow> bool" where
  "segment_controls_shell_state parsed index =
     (if index < length (operators parsed) \<and>
         operators parsed ! index \<in> {''|'', ''|&'', ''&''} then False
      else index = 0 \<or>
           (operators parsed ! (index - 1) \<noteq> ''|'' \<and> operators parsed ! (index - 1) \<noteq> ''|&''))"

section \<open>Scripts nested in a shell call\<close>

definition shell_executable :: "string \<Rightarrow> bool" where
  "shell_executable a \<longleftrightarrow> path_base a \<in> {''bash'', ''dash'', ''sh''}"

definition shell_command_string_option :: "string \<Rightarrow> bool" where
  "shell_command_string_option a \<longleftrightarrow>
     has_prefix a ''-'' \<and> \<not> has_prefix a ''--'' \<and> str_contains (drop 1 a) ''c''"

function nested_script_loop ::
  "string list \<Rightarrow> pipefail_setting \<Rightarrow> (string \<times> pipefail_setting) option" where
  "nested_script_loop [] pipefail = None"
| "nested_script_loop (a # rest) pipefail =
     (if (a = ''-o'' \<or> a = ''+o'') \<and> rest \<noteq> [] \<and> hd rest = ''pipefail'' then
        nested_script_loop (tl rest) (if a = ''-o'' then PipefailEnabled else PipefailDisabled)
      else if shell_command_string_option a \<and> rest \<noteq> [] then Some (hd rest, pipefail)
      else nested_script_loop rest pipefail)"
  by pat_completeness auto
termination by (relation "measure (\<lambda>(argv, pf). length argv)") auto

definition nested_shell_script :: "string list \<Rightarrow> (string \<times> pipefail_setting) option" where
  "nested_shell_script argv =
     (case argv of
        [] \<Rightarrow> None
      | a # rest \<Rightarrow>
          if shell_executable a then nested_script_loop rest PipefailUnchanged else None)"

section \<open>When a status is masked\<close>

fun masked_gate_operator_reason :: "string list \<Rightarrow> bool \<Rightarrow> gate_reason option" where
  "masked_gate_operator_reason [] pipefail = None"
| "masked_gate_operator_reason (op # ops) pipefail =
     (if op = ''||'' then Some GateFallback
      else if op = ''&'' then Some GateBackground
      else if (op = ''|'' \<or> op = ''|&'') \<and> \<not> pipefail then Some GatePipeline
      else masked_gate_operator_reason ops pipefail)"

definition sequence_after :: "nat \<Rightarrow> string list \<Rightarrow> bool" where
  "sequence_after gate_index ops \<longleftrightarrow> '';'' \<in> set (drop gate_index ops)"

definition direct_status_exit :: "string list \<Rightarrow> nat \<Rightarrow> nat \<Rightarrow> bool" where
  "direct_status_exit first command_index segment_count \<longleftrightarrow>
     2 \<le> length first \<and> first ! 0 = ''exit'' \<and> first ! 1 = ''$?'' \<and>
     command_index = segment_count - 1"

definition captured_status_name :: "string list \<Rightarrow> string option" where
  "captured_status_name first =
     (case first of
        [] \<Rightarrow> None
      | word # _ \<Rightarrow>
          (case str_cut word ''='' of (name, v, found) \<Rightarrow>
             if found \<and> name \<noteq> [] \<and> v = ''$?'' then Some name else None))"

definition returns_status_from :: "gate_shell \<Rightarrow> nat \<Rightarrow> bool" where
  "returns_status_from parsed gate_index =
     (case index_of '';'' (drop gate_index (operators parsed)) of
        None \<Rightarrow> True
      | Some relative_index \<Rightarrow>
          (let command_index = gate_index + relative_index + 1
           in if length (segments parsed) \<le> command_index then True
              else
                let first = segments parsed ! command_index
                in if direct_status_exit first command_index (length (segments parsed)) then True
                   else case captured_status_name first of
                          None \<Rightarrow> False
                        | Some status_name \<Rightarrow>
                            (let final = gate_executable_argv (last (segments parsed))
                             in if length final < 2 \<or> final ! 0 \<noteq> ''exit'' then False
                                else final ! 1 = ''$'' @ status_name \<or>
                                     final ! 1 = ''${'' @ status_name @ ''}'')))"

text \<open>
  \<open>maskedSegmentStatus\<close>; the recursive call on a nested script, one level deeper, is the argument
  \<open>inspect\<close>.
\<close>

definition masked_segment_status ::
  "(string \<Rightarrow> bool \<Rightarrow> gate_reason option) \<Rightarrow> gate_shell \<Rightarrow> nat \<Rightarrow> bool \<Rightarrow> gate_reason option" where
  "masked_segment_status inspect parsed index pipefail =
     (let argv = gate_executable_argv (segments parsed ! index);
          nested = (case nested_shell_script argv of
                      None \<Rightarrow> None
                    | Some (script, setting) \<Rightarrow> inspect script (apply_pipefail setting pipefail))
      in case nested of
           Some reason \<Rightarrow> Some reason
         | None \<Rightarrow>
             if \<not> required_gate_argv argv then None
             else case masked_gate_operator_reason (drop index (operators parsed)) pipefail of
                    Some reason \<Rightarrow> Some reason
                  | None \<Rightarrow>
                      if sequence_after index (operators parsed) \<and>
                         \<not> returns_status_from parsed index
                      then Some GateSequence else None)"

definition next_pipefail :: "gate_shell \<Rightarrow> nat \<Rightarrow> bool \<Rightarrow> bool" where
  "next_pipefail parsed index pipefail =
     (if segment_controls_shell_state parsed index
      then apply_pipefail
             (pipefail_command_setting (gate_executable_argv (segments parsed ! index))) pipefail
      else pipefail)"

text \<open>The loop over the segments, as a recursion over the number that are left.\<close>

fun masked_segments_loop ::
  "(string \<Rightarrow> bool \<Rightarrow> gate_reason option) \<Rightarrow> gate_shell \<Rightarrow> nat \<Rightarrow> nat \<Rightarrow> bool \<Rightarrow> gate_reason option" where
  "masked_segments_loop inspect parsed 0 index pipefail = None"
| "masked_segments_loop inspect parsed (Suc left) index pipefail =
     (case masked_segment_status inspect parsed index pipefail of
        Some reason \<Rightarrow> Some reason
      | None \<Rightarrow>
          masked_segments_loop inspect parsed left (Suc index)
            (next_pipefail parsed index pipefail))"

function masked_required_gate_status ::
  "'n bash \<Rightarrow> string \<Rightarrow> bool \<Rightarrow> nat \<Rightarrow> gate_reason option" where
  "masked_required_gate_status B command inherited depth =
     (if max_gate_shell_depth < depth then Some GateNesting
      else if trim_space command = [] then None
      else case parse_gate_shell B command of
             Inl e \<Rightarrow> None
           | Inr parsed \<Rightarrow>
               masked_segments_loop
                 (\<lambda>script pipefail. masked_required_gate_status B script pipefail (Suc depth))
                 parsed (length (segments parsed)) 0 inherited)"
  by pat_completeness auto
termination
  by (relation "measure (\<lambda>(B, c, i, d). Suc max_gate_shell_depth - d)") auto

declare masked_required_gate_status.simps [simp del]

section \<open>The hook route\<close>

record inspection_route =
  route_updated_input :: "any_map option"
  route_block_policy_id :: string
  route_reason :: string
  route_remediation_command :: string
  route_block :: bool
  route_rewrite :: bool

definition no_route :: inspection_route where
  "no_route = \<lparr>route_updated_input = None, route_block_policy_id = [], route_reason = [],
     route_remediation_command = [], route_block = False, route_rewrite = False\<rparr>"

definition required_gate_exit_status_route_for :: "'n bash \<Rightarrow> event \<Rightarrow> inspection_route" where
  "required_gate_exit_status_route_for B e =
     (if ev_hook_event_name e \<noteq> ''PreToolUse'' \<or> ev_tool_name e \<noteq> ''Bash'' then no_route
      else case masked_required_gate_status B (Command e) False 0 of
             None \<Rightarrow> no_route
           | Some reason \<Rightarrow>
               no_route\<lparr>route_block_policy_id := ''shell.required_gate_exit_status'',
                 route_reason := gate_reason_text reason, route_block := True\<rparr>)"

section \<open>Segments and operators fit together\<close>

lemma gate_fields_loop_facts:
  assumes "[] \<notin> set (segments parsed)" and "set (operators parsed) \<subseteq> Collect is_shell_control_token"
  shows "[] \<notin> set (segments (gate_fields_loop toks segment parsed)) \<and>
    set (operators (gate_fields_loop toks segment parsed)) \<subseteq> Collect is_shell_control_token"
  using assms by (induction toks segment parsed rule: gate_fields_loop.induct) auto

lemma gate_shell_of_fields_bounds:
  "length (operators (gate_shell_of_fields toks)) \<le> length (segments (gate_shell_of_fields toks)) \<and>
   length (segments (gate_shell_of_fields toks)) \<le> Suc (length (operators (gate_shell_of_fields toks)))"
  by (auto simp: gate_shell_of_fields_def Let_def empty_gate_shell_def)

text \<open>
  Fact. Whatever the control fields are, the segments and operators that the gate
  inspection works on fit together: no segment is empty, every operator is a control token,
  there are at most as many operators as segments and at most one segment more than
  operators. So every slice \<open>operators[index:]\<close> and every \<open>operators[index-1]\<close> the inspection
  takes is in range.
\<close>

theorem gate_shell_wellformed:
  "[] \<notin> set (segments (gate_shell_of_fields toks)) \<and>
   set (operators (gate_shell_of_fields toks)) \<subseteq> Collect is_shell_control_token \<and>
   length (operators (gate_shell_of_fields toks)) \<le> length (segments (gate_shell_of_fields toks)) \<and>
   length (segments (gate_shell_of_fields toks)) \<le> Suc (length (operators (gate_shell_of_fields toks)))"
  using gate_fields_loop_facts [of empty_gate_shell toks "[]"] gate_shell_of_fields_bounds [of toks]
  by (auto simp: gate_shell_of_fields_def Let_def empty_gate_shell_def)

section \<open>Wrappers are peeled completely\<close>

lemma unwrap_loop_done: "unwrap_loop argv = [] \<or> unwrap_gate_wrapper (unwrap_loop argv) = None"
proof (induction argv rule: unwrap_loop.induct)
  case (1 argv)
  then show ?case
    by (auto simp: unwrap_loop.simps [of argv] split: option.splits)
qed

lemma unwrap_loop_suffix: "suffix (unwrap_loop argv) argv"
proof (induction argv rule: unwrap_loop.induct)
  case (1 argv)
  show ?case
  proof (cases "argv = [] \<or> unwrap_gate_wrapper argv = None")
    case True
    then show ?thesis by (auto simp: unwrap_loop.simps [of argv])
  next
    case False
    then obtain u where u: "argv \<noteq> []" "unwrap_gate_wrapper argv = Some u" by auto
    with 1 have "suffix (unwrap_loop u) u" by blast
    with unwrap_gate_wrapper_suffix [OF u(2)] have "suffix (unwrap_loop u) argv"
      by (rule suffix_order.trans [rotated])
    with u show ?thesis by (simp add: unwrap_loop.simps [of argv])
  qed
qed

lemma gate_executable_fields_acc_subset:
  "set (gate_executable_fields_acc argv segment) \<subseteq> set argv \<union> set segment"
  by (induction argv segment rule: gate_executable_fields_acc.induct) auto

text \<open>
  Fact. Peeling wrappers terminates on every segment and leaves nothing to peel: the
  command the gate inspection looks at is either empty or starts with a word that is no wrapper,
  so any nesting of \<open>env\<close>, \<open>timeout\<close>, \<open>nice\<close>, \<open>nohup\<close>, \<open>flock\<close> and the others is seen through; and it
  is made of words of the segment only.
\<close>

theorem gate_executable_argv_peeled:
  "(gate_executable_argv segment = [] \<or> unwrap_gate_wrapper (gate_executable_argv segment) = None) \<and>
   set (gate_executable_argv segment) \<subseteq> set segment"
proof
  show "gate_executable_argv segment = [] \<or> unwrap_gate_wrapper (gate_executable_argv segment) = None"
    unfolding gate_executable_argv_def by (rule unwrap_loop_done)
  have "set (gate_executable_argv segment) \<subseteq> set (gate_executable_fields segment)"
    unfolding gate_executable_argv_def by (rule set_mono_suffix [OF unwrap_loop_suffix])
  also have "\<dots> \<subseteq> set segment"
    using gate_executable_fields_acc_subset [of "[]" segment] by (simp add: gate_executable_fields_def)
  finally show "set (gate_executable_argv segment) \<subseteq> set segment" .
qed

section \<open>The inspection of all segments\<close>

text \<open>The state of \<open>pipefail\<close> in front of each segment, as a function of the script alone.\<close>

primrec pipefail_at :: "gate_shell \<Rightarrow> bool \<Rightarrow> nat \<Rightarrow> bool" where
  "pipefail_at parsed inherited 0 = inherited"
| "pipefail_at parsed inherited (Suc i) = next_pipefail parsed i (pipefail_at parsed inherited i)"

lemma masked_segments_loop_None:
  "masked_segments_loop inspect parsed n i (pipefail_at parsed inh i) = None \<longleftrightarrow>
     (\<forall>j < n. masked_segment_status inspect parsed (i + j) (pipefail_at parsed inh (i + j)) = None)"
proof (induction n arbitrary: i)
  case 0
  then show ?case by simp
next
  case (Suc n)
  have "masked_segments_loop inspect parsed n (Suc i) (next_pipefail parsed i (pipefail_at parsed inh i)) = None
      \<longleftrightarrow> (\<forall>j < n. masked_segment_status inspect parsed (Suc i + j) (pipefail_at parsed inh (Suc i + j)) = None)"
    using Suc.IH [of "Suc i"] by simp
  then show ?case
    by (auto simp: All_less_Suc2 simp del: pipefail_at.simps split: option.splits)
qed

lemma masked_None_iff:
  assumes "depth \<le> max_gate_shell_depth" and "trim_space command \<noteq> []"
    and "parse_gate_shell B command = Inr parsed"
  shows "masked_required_gate_status B command inherited depth = None \<longleftrightarrow>
    (\<forall>i < length (segments parsed).
       masked_segment_status
         (\<lambda>script pipefail. masked_required_gate_status B script pipefail (Suc depth))
         parsed i (pipefail_at parsed inherited i) = None)"
  using assms masked_segments_loop_None [of _ parsed "length (segments parsed)" 0 inherited]
  by (simp add: masked_required_gate_status.simps [of B command inherited depth])

text \<open>
  Fact. A command that parses passes the gate inspection exactly when each of its segments
  passes it under the state of \<open>pipefail\<close> that the segments in front of it leave: the early return
  of the loop misses none.
\<close>

theorem gate_inspection_checks_every_segment:
  "depth \<le> max_gate_shell_depth \<Longrightarrow> trim_space command \<noteq> [] \<Longrightarrow>
   parse_gate_shell B command = Inr parsed \<Longrightarrow>
   masked_required_gate_status B command inherited depth = None \<longleftrightarrow>
     (\<forall>i < length (segments parsed).
        masked_segment_status
          (\<lambda>script pipefail. masked_required_gate_status B script pipefail (Suc depth))
          parsed i (pipefail_at parsed inherited i) = None)"
  by (rule masked_None_iff)

definition sample_gate_bash :: "string \<Rightarrow> nat bash" where
  "sample_gate_bash op =
     sample_bash [lit_stmt (BinaryCmd (lit_stmt (lit_call [''make'', ''check'']) False) op
                             (lit_stmt (lit_call [''tee'', ''log'']) False)) False]"

lemma sample_gate_parse:
  "op \<in> {''&&'', ''||'', ''|''} \<Longrightarrow>
   parse_gate_shell (sample_gate_bash op) ''x'' =
     Inr \<lparr>segments = [[''make'', ''check''], [''tee'', ''log'']], operators = [op]\<rparr>"
  by (elim insertE emptyE) (simp, code_simp)+

theorem gate_inspection_checks_every_segment_witness:
  "masked_required_gate_status (sample_gate_bash ''&&'') ''x'' False 0 = None \<longleftrightarrow>
     (\<forall>i < 2.
        masked_segment_status
          (\<lambda>script pipefail. masked_required_gate_status (sample_gate_bash ''&&'') script pipefail (Suc 0))
          \<lparr>segments = [[''make'', ''check''], [''tee'', ''log'']], operators = [''&&'']\<rparr> i
          (pipefail_at \<lparr>segments = [[''make'', ''check''], [''tee'', ''log'']], operators = [''&&'']\<rparr>
             False i) = None)"
proof -
  have "trim_space ''x'' \<noteq> []" by code_simp
  then show ?thesis
    using gate_inspection_checks_every_segment
      [of 0 "''x''" "sample_gate_bash ''&&''", OF _ _ sample_gate_parse]
    by (simp add: max_gate_shell_depth_def numeral_2_eq_2)
qed

text \<open>What a segment's own check contributes to the whole.\<close>

lemma masked_by_segment:
  assumes "depth \<le> max_gate_shell_depth" and "trim_space command \<noteq> []"
    and "parse_gate_shell B command = Inr parsed" and "i < length (segments parsed)"
    and "masked_segment_status
           (\<lambda>script pipefail. masked_required_gate_status B script pipefail (Suc depth))
           parsed i (pipefail_at parsed inherited i) \<noteq> None"
  shows "masked_required_gate_status B command inherited depth \<noteq> None"
  unfolding masked_None_iff [OF assms(1-3)] using assms(4,5) by auto

lemma masked_gate_operator_reason_iff:
  "masked_gate_operator_reason ops pipefail = None \<longleftrightarrow>
     set ops \<inter> {''||'', ''&''} = {} \<and> (pipefail \<or> set ops \<inter> {''|'', ''|&''} = {})"
  by (induction ops) auto

text \<open>
  Fact. A required gate whose status a later operator can hide is refused: a gate segment
  followed anywhere by \<open>||\<close> or \<open>&\<close>, or by a pipe while \<open>pipefail\<close> is off, is never accepted, at
  every nesting depth the inspection reaches.
\<close>

theorem hidden_gate_is_blocked:
  assumes "depth \<le> max_gate_shell_depth" and "trim_space command \<noteq> []"
    and "parse_gate_shell B command = Inr parsed" and "i < length (segments parsed)"
    and "required_gate_argv (gate_executable_argv (segments parsed ! i))"
    and "op \<in> set (drop i (operators parsed))"
    and "op \<in> {''||'', ''&''} \<or> (op \<in> {''|'', ''|&''} \<and> \<not> pipefail_at parsed inherited i)"
  shows "masked_required_gate_status B command inherited depth \<noteq> None"
proof (rule masked_by_segment [OF assms(1-4)])
  have "masked_gate_operator_reason (drop i (operators parsed)) (pipefail_at parsed inherited i) \<noteq> None"
    using assms(6,7) by (auto simp: masked_gate_operator_reason_iff)
  with assms(5) show "masked_segment_status
      (\<lambda>script pipefail. masked_required_gate_status B script pipefail (Suc depth))
      parsed i (pipefail_at parsed inherited i) \<noteq> None"
    by (auto simp: masked_segment_status_def Let_def split: option.splits)
qed

theorem hidden_gate_is_blocked_witness:
  "masked_required_gate_status (sample_gate_bash ''|'') ''x'' False 0 \<noteq> None"
proof -
  let ?p = "\<lparr>segments = [[''make'', ''check''], [''tee'', ''log'']], operators = [''|'']\<rparr>"
  have "trim_space ''x'' \<noteq> []" by code_simp
  moreover have "required_gate_argv (gate_executable_argv (segments ?p ! 0))" by code_simp
  ultimately show ?thesis
    using sample_gate_parse [of "''|''"]
    by (intro hidden_gate_is_blocked [of 0 _ _ ?p 0 "''|''"]) (simp_all add: max_gate_shell_depth_def)
qed

text \<open>
  Fact. Scripts given to a shell are inspected, and the inspection fails closed: when a
  segment runs a nested script and that script is refused at the next depth, or the depth bound is
  reached so that it cannot be looked at, the whole command is refused.
\<close>

theorem nested_script_fails_closed:
  assumes "depth \<le> max_gate_shell_depth" and "trim_space command \<noteq> []"
    and "parse_gate_shell B command = Inr parsed" and "i < length (segments parsed)"
    and "nested_shell_script (gate_executable_argv (segments parsed ! i)) = Some (script, setting)"
    and "depth = max_gate_shell_depth \<or>
         masked_required_gate_status B script
           (apply_pipefail setting (pipefail_at parsed inherited i)) (Suc depth) \<noteq> None"
  shows "masked_required_gate_status B command inherited depth \<noteq> None"
proof (rule masked_by_segment [OF assms(1-4)])
  have "masked_required_gate_status B script
      (apply_pipefail setting (pipefail_at parsed inherited i)) (Suc depth) \<noteq> None"
  proof (cases "depth = max_gate_shell_depth")
    case True
    then show ?thesis by (simp add: masked_required_gate_status.simps [of B script])
  next
    case False
    with assms(6) show ?thesis by blast
  qed
  with assms(5) show "masked_segment_status
      (\<lambda>script pipefail. masked_required_gate_status B script pipefail (Suc depth))
      parsed i (pipefail_at parsed inherited i) \<noteq> None"
    by (auto simp: masked_segment_status_def Let_def)
qed

theorem nested_script_fails_closed_witness:
  "masked_required_gate_status
     (sample_bash [lit_stmt (lit_call [''env'', ''bash'', ''-lc'', ''true'']) False]) ''x'' False 3 \<noteq> None"
proof -
  let ?B = "sample_bash [lit_stmt (lit_call [''env'', ''bash'', ''-lc'', ''true'']) False]"
  let ?p = "\<lparr>segments = [[''env'', ''bash'', ''-lc'', ''true'']], operators = []\<rparr>"
  have "trim_space ''x'' \<noteq> []" by code_simp
  moreover have "parse_gate_shell ?B ''x'' = Inr ?p" by code_simp
  moreover have "nested_shell_script (gate_executable_argv (segments ?p ! 0)) =
      Some (''true'', PipefailUnchanged)" by code_simp
  ultimately show ?thesis
    by (intro nested_script_fails_closed [of 3 "''x''" ?B ?p 0]) (simp_all add: max_gate_shell_depth_def)
qed

text \<open>
  Fact. The route does not interfere with other work: a command none of whose segments is
  a required gate or runs a nested script is accepted, whatever its operators are.
\<close>

theorem ordinary_command_not_blocked:
  assumes "depth \<le> max_gate_shell_depth" and "parse_gate_shell B command = Inr parsed"
    and "\<And>segment. segment \<in> set (segments parsed) \<Longrightarrow>
           \<not> required_gate_argv (gate_executable_argv segment) \<and>
           nested_shell_script (gate_executable_argv segment) = None"
  shows "masked_required_gate_status B command inherited depth = None"
proof (cases "trim_space command = []")
  case True
  with assms(1) show ?thesis by (simp add: masked_required_gate_status.simps [of B command])
next
  case False
  show ?thesis
    unfolding masked_None_iff [OF assms(1) False assms(2)]
    using assms(3) by (simp add: masked_segment_status_def)
qed

theorem ordinary_command_not_blocked_witness:
  "masked_required_gate_status
     (sample_bash [lit_stmt (BinaryCmd (lit_stmt (lit_call [''grep'', ''x'']) False) ''||''
                             (lit_stmt (lit_call [''true'']) False)) True]) ''x'' False 0 = None"
proof -
  let ?B = "sample_bash [lit_stmt (BinaryCmd (lit_stmt (lit_call [''grep'', ''x'']) False) ''||''
                             (lit_stmt (lit_call [''true'']) False)) True]"
  let ?p = "\<lparr>segments = [[''grep'', ''x''], [''true'']], operators = [''||'', ''&'']\<rparr>"
  have p: "parse_gate_shell ?B ''x'' = Inr ?p" by code_simp
  have n: "\<not> required_gate_argv (gate_executable_argv [''grep'', ''x'']) \<and>
      nested_shell_script (gate_executable_argv [''grep'', ''x'']) = None \<and>
      \<not> required_gate_argv (gate_executable_argv [''true'']) \<and>
      nested_shell_script (gate_executable_argv [''true'']) = None" by code_simp
  show ?thesis
    by (rule ordinary_command_not_blocked [OF _ p]) (use n in \<open>auto simp: max_gate_shell_depth_def\<close>)
qed

section \<open>The status the shell reports\<close>

text \<open>
  What a shell does with a flat list of simple commands: segments joined by operators, without
  groups, functions and negations, none of which leaves the shell but the last. The state holds the
  option \<open>pipefail\<close>, its value at the start of the current and-or list (a list in the background runs
  in a subshell), whether the current pipeline runs (after an \<open>&&\<close> it does when \<open>$?\<close> is a success,
  after an \<open>||\<close> when it is a failure, else always), \<open>$?\<close>, the results of the segments of the current
  pipeline, and what ran so far: the segment, the \<open>$?\<close> it found and whether it succeeded.

  Two functions stand for the commands themselves: \<open>ok i h st\<close> tells whether segment \<open>i\<close> succeeds
  when it runs after \<open>h\<close> and finds \<open>st\<close> in \<open>$?\<close>, and \<open>eff i\<close> what it does to \<open>pipefail\<close> when it runs in
  the shell itself, outside of a pipeline.
\<close>

type_synonym shell_log = "(nat \<times> bool \<times> bool) list"

record shell_state =
  sh_pipefail :: bool
  sh_outer :: bool
  sh_active :: bool
  sh_status :: bool
  sh_pipe :: "bool list"
  sh_ran :: shell_log

definition run_segment :: "(nat \<Rightarrow> shell_log \<Rightarrow> bool \<Rightarrow> bool) \<Rightarrow> nat \<Rightarrow> shell_state \<Rightarrow> shell_state" where
  "run_segment ok i s =
     (if sh_active s then
        let r = ok i (sh_ran s) (sh_status s)
        in s\<lparr>sh_pipe := sh_pipe s @ [r], sh_ran := sh_ran s @ [(i, sh_status s, r)]\<rparr>
      else s)"

definition end_pipeline :: "(nat \<Rightarrow> pipefail_setting) \<Rightarrow> nat \<Rightarrow> shell_state \<Rightarrow> shell_state" where
  "end_pipeline eff i s =
     (if sh_active s then
        s\<lparr>sh_status := (if sh_pipefail s then list_all (\<lambda>r. r) (sh_pipe s) else last (sh_pipe s)),
          sh_pipefail := (if length (sh_pipe s) = 1 then apply_pipefail (eff i) (sh_pipefail s) else sh_pipefail s),
          sh_pipe := []\<rparr>
      else s\<lparr>sh_pipe := []\<rparr>)"

definition join_list :: "string \<Rightarrow> shell_state \<Rightarrow> shell_state" where
  "join_list op s =
     (if op = ''&&'' then s\<lparr>sh_active := sh_status s\<rparr>
      else if op = ''||'' then s\<lparr>sh_active := \<not> sh_status s\<rparr>
      else if op = ''&'' then s\<lparr>sh_active := True, sh_status := True, sh_pipefail := sh_outer s\<rparr>
      else s\<lparr>sh_active := True, sh_outer := sh_pipefail s\<rparr>)"

definition shell_step ::
  "(nat \<Rightarrow> shell_log \<Rightarrow> bool \<Rightarrow> bool) \<Rightarrow> (nat \<Rightarrow> pipefail_setting) \<Rightarrow> string \<Rightarrow> nat \<Rightarrow> shell_state \<Rightarrow> shell_state" where
  "shell_step ok eff op i s =
     (let s' = run_segment ok i s
      in if op = ''|'' \<or> op = ''|&'' then s' else join_list op (end_pipeline eff i s'))"

fun run_list ::
  "(nat \<Rightarrow> shell_log \<Rightarrow> bool \<Rightarrow> bool) \<Rightarrow> (nat \<Rightarrow> pipefail_setting) \<Rightarrow> string list \<Rightarrow> nat \<Rightarrow> shell_state \<Rightarrow> shell_state" where
  "run_list ok eff [] i s = end_pipeline eff i (run_segment ok i s)"
| "run_list ok eff (op # ops) i s =
     (if op = ''&'' \<and> ops = [] then shell_step ok eff op i s
      else run_list ok eff ops (Suc i) (shell_step ok eff op i s))"

definition run_script ::
  "(nat \<Rightarrow> shell_log \<Rightarrow> bool \<Rightarrow> bool) \<Rightarrow> (nat \<Rightarrow> pipefail_setting) \<Rightarrow> bool \<Rightarrow> string list \<Rightarrow> shell_state" where
  "run_script ok eff pf ops =
     run_list ok eff ops 0
       \<lparr>sh_pipefail = pf, sh_outer = pf, sh_active = True, sh_status = True, sh_pipe = [], sh_ran = []\<rparr>"



























definition pipefail_stmts :: "string \<Rightarrow> nat stmt list" where
  "pipefail_stmts op =
     (if op = '';'' then [lit_stmt (lit_call [''set'', ''-o'', ''pipefail'']) False]
      else [lit_stmt (BinaryCmd (lit_stmt (lit_call [''true'']) False) op
              (lit_stmt (lit_call [''set'', ''-o'', ''pipefail'']) False)) False]) @
     [lit_stmt (BinaryCmd (lit_stmt (lit_call [''make'', ''check'']) False) ''|''
        (lit_stmt (lit_call [''tee'', ''log'']) False)) False,
      lit_stmt (lit_call [''exit'', ''$?'']) False]"


text \<open>
  Fact. The condition on \<open>pipefail\<close> is needed: the route counts a \<open>set -o pipefail\<close> that is never run.
  In \<open>true || set -o pipefail; make check | tee log; exit $?\<close> the gate runs and fails, the shell reports
  success, and the command is accepted.
\<close>

theorem conditional_pipefail_accepted:
  "masked_required_gate_status (sample_bash (pipefail_stmts ''||'')) ''x'' False 0 = None \<and>
   parse_gate_shell (sample_bash (pipefail_stmts ''||'')) ''x'' =
     Inr \<lparr>segments = [[''true''], [''set'', ''-o'', ''pipefail''], [''make'', ''check''], [''tee'', ''log''],
            [''exit'', ''$?'']],
          operators = [''||'', '';'', ''|'', '';'']\<rparr> \<and>
   (let run = run_script (\<lambda>i h st. if i = 4 then st else i \<noteq> 2)
          (\<lambda>i. if i = 1 then PipefailEnabled else PipefailUnchanged) False [''||'', '';'', ''|'', '';'']
    in sh_status run \<and> sh_ran run = [(0, True, True), (2, True, False), (3, True, True), (4, True, True)])"
  by (intro conjI; code_simp)

text \<open>
  Fact. The condition on the last segment is needed too: \<open>make check; status=$? exit $status\<close> is
  accepted, although a shell expands \<open>$status\<close> before it makes the assignment.
\<close>

definition captured_too_late :: "nat stmt list" where
  "captured_too_late =
     [lit_stmt (lit_call [''make'', ''check'']) False,
      lit_stmt (CallExpr 0 [Assign 0 (Some ''status'') False (Some (lit_word ''$?''))]
        (map lit_word [''exit'', ''$status''])) False]"

theorem captured_too_late_accepted:
  "masked_required_gate_status (sample_bash captured_too_late) ''x'' False 0 = None \<and>
   parse_gate_shell (sample_bash captured_too_late) ''x'' =
     Inr \<lparr>segments = [[''make'', ''check''], [''status=$?'', ''exit'', ''$status'']], operators = ['';'']\<rparr>"
  by (intro conjI; code_simp)

section \<open>Gates the route does not see\<close>

lemma gate_fields_loop_words:
  "list_all (\<lambda>t. \<not> is_shell_control_token t) ws \<Longrightarrow>
   gate_fields_loop (ws @ toks) segment parsed = gate_fields_loop toks (segment @ ws) parsed"
  by (induction ws arbitrary: segment) simp_all

text \<open>
  Fact. A gate piped with \<open>|&\<close> is not inspected as a gate: the splitter's token test
  lacks \<open>|&\<close>, so the pipeline becomes one segment and the whole command is accepted with
  \<open>pipefail\<close> off, although the inspection itself treats \<open>|&\<close> as a pipe.
\<close>

theorem pipe_stderr_gate_accepted:
  assumes "ControlFields B command = Inr (gate @ ''|&'' # reader)" and "gate \<noteq> []"
    and "list_all (\<lambda>t. \<not> is_shell_control_token t) gate"
    and "list_all (\<lambda>t. \<not> is_shell_control_token t) reader"
    and "nested_shell_script (gate_executable_argv (gate @ ''|&'' # reader)) = None"
  shows "masked_required_gate_status B command False 0 = None"
proof (cases "trim_space command = []")
  case True
  then show ?thesis
    by (simp add: masked_required_gate_status.simps [of B command] max_gate_shell_depth_def)
next
  case False
  let ?toks = "gate @ ''|&'' # reader"
  have "list_all (\<lambda>t. \<not> is_shell_control_token t) ?toks"
    using assms(3,4) by (simp add: is_shell_control_token_def)
  from gate_fields_loop_words [OF this, of "[]"] assms(2)
  have p: "parse_gate_shell B command = Inr \<lparr>segments = [?toks], operators = []\<rparr>"
    by (simp add: parse_gate_shell_def assms(1) gate_shell_of_fields_def empty_gate_shell_def Let_def)
  have "(0::nat) \<le> max_gate_shell_depth" by simp
  from masked_None_iff [OF this False p] assms(5) show ?thesis
    by (auto simp: masked_segment_status_def Let_def sequence_after_def)
qed

theorem pipe_stderr_gate_accepted_witness:
  "masked_required_gate_status (sample_gate_bash ''|&'') ''x'' False 0 = None"
proof (rule pipe_stderr_gate_accepted [where gate = "[''make'', ''check'']" and reader = "[''tee'', ''log'']"])
  show "ControlFields (sample_gate_bash ''|&'') ''x'' = Inr ([''make'', ''check''] @ ''|&'' # [''tee'', ''log''])"
    by code_simp
  show "nested_shell_script (gate_executable_argv ([''make'', ''check''] @ ''|&'' # [''tee'', ''log''])) = None"
    by code_simp
qed (simp_all add: is_shell_control_token_def)

text \<open>
  Fact. A gate put in the background is accepted when another command follows it: the
  fields then hold an ampersand and a semicolon in a row, the counts of segments and operators no
  longer match, and the splitter returns no segments at all.
\<close>

theorem background_then_command_accepted:
  assumes "ControlFields B command = Inr (gate @ ''&'' # '';'' # rest)"
    and "list_all (\<lambda>t. \<not> is_shell_control_token t) gate"
    and "list_all (\<lambda>t. \<not> is_shell_control_token t) rest" and "rest \<noteq> []" and "gate \<noteq> []"
  shows "masked_required_gate_status B command inherited 0 = None"
proof -
  let ?toks = "gate @ ''&'' # '';'' # rest"
  have "gate_fields_loop ?toks [] empty_gate_shell =
      \<lparr>segments = [gate, rest], operators = [''&'', '';'']\<rparr>"
    using assms gate_fields_loop_words [of gate "''&'' # '';'' # rest" "[]"]
      gate_fields_loop_words [of rest "[]" "[]"]
    by (simp add: is_shell_control_token_def empty_gate_shell_def)
  then have "gate_shell_of_fields ?toks = empty_gate_shell"
    by (simp add: gate_shell_of_fields_def)
  then have "parse_gate_shell B command = Inr empty_gate_shell"
    by (simp add: parse_gate_shell_def assms(1))
  then show ?thesis
    by (simp add: masked_required_gate_status.simps [of B command] max_gate_shell_depth_def
        empty_gate_shell_def)
qed

theorem background_then_command_accepted_witness:
  "masked_required_gate_status
     (sample_bash [lit_stmt (lit_call [''make'', ''check'']) True, lit_stmt (lit_call [''true'']) False])
     ''x'' False 0 = None"
proof (rule background_then_command_accepted [where gate = "[''make'', ''check'']" and rest = "[''true'']"])
  show "ControlFields
     (sample_bash [lit_stmt (lit_call [''make'', ''check'']) True, lit_stmt (lit_call [''true'']) False])
     ''x'' = Inr ([''make'', ''check''] @ ''&'' # '';'' # [''true''])"
    by code_simp
qed (simp_all add: is_shell_control_token_def)

end
