(* ===== verification/Paths.thy ===== *)
theory Paths
  imports GoStrings
begin

text \<open>
  What the program uses of Go's \<open>path/filepath\<close> and \<open>unicode/utf8\<close> on a Unix system: the lexical
  \<open>Clean\<close>, the glob matcher \<open>Match\<close> and the decoding of one character. \<open>ToSlash\<close> is the identity
  there. Strings are byte strings.
\<close>

section \<open>Decoding a character\<close>

text \<open>\<open>utf8.DecodeRuneInString\<close>: the code point and its width, U+FFFD and 1 for a malformed byte.\<close>

definition in_range :: "nat \<Rightarrow> nat \<Rightarrow> char \<Rightarrow> bool" where
  "in_range lo hi c \<longleftrightarrow> lo \<le> (of_char c :: nat) \<and> (of_char c :: nat) \<le> hi"

definition cont_bits :: "char \<Rightarrow> nat" where
  "cont_bits c = (of_char c :: nat) mod 64"

definition rune_error :: nat where
  "rune_error = 65533"

definition decode_rune :: "string \<Rightarrow> nat \<times> nat" where
  "decode_rune s =
     (case s of
        [] \<Rightarrow> (rune_error, 0)
      | a # r \<Rightarrow>
          if in_range 0 127 a then (of_char a, 1)
          else if in_range 194 223 a then
            (case r of
               b # _ \<Rightarrow> if in_range 128 191 b
                         then (((of_char a :: nat) mod 32) * 64 + cont_bits b, 2)
                         else (rune_error, 1)
             | [] \<Rightarrow> (rune_error, 1))
          else if in_range 224 239 a then
            (case r of
               b # c # _ \<Rightarrow>
                 if in_range (if a = CHR 0xE0 then 160 else 128) (if a = CHR 0xED then 159 else 191) b \<and>
                    in_range 128 191 c
                 then (((of_char a :: nat) mod 16) * 4096 + cont_bits b * 64 + cont_bits c, 3)
                 else (rune_error, 1)
             | _ \<Rightarrow> (rune_error, 1))
          else if in_range 240 244 a then
            (case r of
               b # c # d # _ \<Rightarrow>
                 if in_range (if a = CHR 0xF0 then 144 else 128) (if a = CHR 0xF4 then 143 else 191) b \<and>
                    in_range 128 191 c \<and> in_range 128 191 d
                 then (((of_char a :: nat) mod 8) * 262144 + cont_bits b * 4096 + cont_bits c * 64 +
                         cont_bits d, 4)
                 else (rune_error, 1)
             | _ \<Rightarrow> (rune_error, 1))
          else (rune_error, 1))"

lemma decode_rune_width: "s \<noteq> [] \<Longrightarrow> 1 \<le> snd (decode_rune s)"
  by (auto simp: decode_rune_def split: list.split)

lemma decode_rune_ascii: "in_range 0 127 c \<Longrightarrow> decode_rune (c # s) = (of_char c, 1)"
  by (simp add: decode_rune_def)

section \<open>Matching a glob pattern\<close>

text \<open>
  \<open>filepath.Match\<close> with its parts \<open>scanChunk\<close>, \<open>matchChunk\<close> and \<open>getEsc\<close>; \<open>None\<close> is the error
  \<open>ErrBadPattern\<close>.
\<close>

definition get_esc :: "string \<Rightarrow> (nat \<times> string) option" where
  "get_esc chunk =
     (if chunk = [] \<or> hd chunk = CHR ''-'' \<or> hd chunk = CHR '']'' then None
      else let body = (if hd chunk = CHR 0x5C then tl chunk else chunk)
           in if body = [] then None
              else case decode_rune body of
                     (r, n) \<Rightarrow>
                       if r = rune_error \<and> n = 1 then None
                       else if drop n body = [] then None
                       else Some (r, drop n body))"

lemma get_esc_shorter: "get_esc chunk = Some (r, rest) \<Longrightarrow> length rest < length chunk"
  using decode_rune_width [of chunk] decode_rune_width [of "tl chunk"]
  by (cases chunk) (auto simp: get_esc_def Let_def split: if_splits prod.splits)

text \<open>The ranges of a class for the character \<open>r\<close>: whether one holds, and what follows the class.\<close>

function match_ranges :: "nat \<Rightarrow> bool \<Rightarrow> nat \<Rightarrow> string \<Rightarrow> (bool \<times> string) option" where
  "match_ranges r matched nrange chunk =
     (if chunk \<noteq> [] \<and> hd chunk = CHR '']'' \<and> 0 < nrange then Some (matched, tl chunk)
      else case get_esc chunk of
             None \<Rightarrow> None
           | Some (lo, chunk1) \<Rightarrow>
               if hd chunk1 = CHR ''-'' then
                 (case get_esc (tl chunk1) of
                    None \<Rightarrow> None
                  | Some (hi, chunk2) \<Rightarrow>
                      match_ranges r (matched \<or> (lo \<le> r \<and> r \<le> hi)) (Suc nrange) chunk2)
               else match_ranges r (matched \<or> r = lo) (Suc nrange) chunk1)"
  by pat_completeness auto
termination
proof (relation "measure (\<lambda>(r, m, n, chunk). length chunk)", goal_cases)
  case 1
  then show ?case by simp
next
  case (2 r matched nrange chunk p lo chunk1 q hi chunk2)
  then have "length chunk1 < length chunk" "length chunk2 < length (tl chunk1)"
    by (auto dest: get_esc_shorter)
  then show ?case by simp
next
  case (3 r matched nrange chunk p lo chunk1)
  then show ?case by (auto dest: get_esc_shorter)
qed

declare match_ranges.simps [simp del]

lemma match_ranges_shorter:
  "match_ranges r matched nrange chunk = Some (m, rest) \<Longrightarrow> length rest < length chunk"
proof (induction r matched nrange chunk rule: match_ranges.induct)
  case (1 r matched nrange chunk)
  show ?case
  proof (cases "chunk \<noteq> [] \<and> hd chunk = CHR '']'' \<and> 0 < nrange")
    case True
    then have "rest = tl chunk"
      using "1.prems" by (simp add: match_ranges.simps [of r matched nrange chunk])
    with True show ?thesis by simp
  next
    case False
    then obtain lo chunk1 where e: "get_esc chunk = Some (lo, chunk1)"
      using "1.prems" by (auto simp: match_ranges.simps [of r _ _ chunk] split: option.splits)
    show ?thesis
    proof (cases "hd chunk1 = CHR ''-''")
      case True
      then obtain hi chunk2 where e2: "get_esc (tl chunk1) = Some (hi, chunk2)"
        and "match_ranges r (matched \<or> (lo \<le> r \<and> r \<le> hi)) (Suc nrange) chunk2 = Some (m, rest)"
        using "1.prems" False e by (auto simp: match_ranges.simps [of r _ _ chunk] split: option.splits)
      then have "length rest < length chunk2"
        using "1.IH"(1) False e True by blast
      with get_esc_shorter [OF e] get_esc_shorter [OF e2] show ?thesis by simp
    next
      case no: False
      then have "match_ranges r (matched \<or> r = lo) (Suc nrange) chunk1 = Some (m, rest)"
        using "1.prems" False e by (auto simp: match_ranges.simps [of r _ _ chunk])
      then have "length rest < length chunk1"
        using "1.IH"(2) False e no by blast
      with get_esc_shorter [OF e] show ?thesis by simp
    qed
  qed
qed

text \<open>
  \<open>matchChunk\<close>: the text that is left, \<open>None\<close> in the text once the match has failed (the rest of the
  chunk is then only checked for its syntax).
\<close>

function match_chunk :: "string \<Rightarrow> string option \<Rightarrow> string option option" where
  "match_chunk chunk subject =
     (if chunk = [] then Some subject
      else
        let s = (if subject = Some [] then None else subject)
        in if hd chunk = CHR ''['' then
             (let r = (case s of None \<Rightarrow> 0 | Some t \<Rightarrow> fst (decode_rune t));
                  rest = map_option (\<lambda>t. drop (snd (decode_rune t)) t) s;
                  negated = (tl chunk \<noteq> [] \<and> hd (tl chunk) = CHR ''^'')
              in case match_ranges r False 0 (if negated then tl (tl chunk) else tl chunk) of
                   None \<Rightarrow> None
                 | Some (matched, chunk') \<Rightarrow>
                     match_chunk chunk' (if matched = negated then None else rest))
           else if hd chunk = CHR ''?'' then
             match_chunk (tl chunk)
               (case s of
                  None \<Rightarrow> None
                | Some t \<Rightarrow> if hd t = CHR ''/'' then None
                            else Some (drop (snd (decode_rune t)) t))
           else if hd chunk = CHR 0x5C \<and> tl chunk = [] then None
           else
             let lit = (if hd chunk = CHR 0x5C then tl chunk else chunk)
             in match_chunk (tl lit)
                  (case s of
                     None \<Rightarrow> None
                   | Some t \<Rightarrow> if hd lit \<noteq> hd t then None else Some (tl t)))"
  by pat_completeness auto
termination
proof (relation "measure (\<lambda>(chunk, subject). length chunk)", goal_cases)
  case 1
  then show ?case by simp
next
  case (2 chunk subject s r rest negated p matched chunk')
  then have "match_ranges r False 0 (if negated then tl (tl chunk) else tl chunk) = Some (matched, chunk')"
    by simp
  from match_ranges_shorter [OF this] 2(1) show ?case by (cases chunk) (auto split: if_splits)
next
  case (3 chunk subject s)
  then show ?case by simp
next
  case (4 chunk subject s lit)
  then show ?case by (cases chunk) (auto split: if_splits)
qed

declare match_chunk.simps [simp del]

text \<open>\<open>scanChunk\<close>: the length of the pattern up to the next star outside a class.\<close>

fun chunk_length :: "bool \<Rightarrow> string \<Rightarrow> nat" where
  "chunk_length inrange [] = 0"
| "chunk_length inrange (c # p) =
     (if c = CHR 0x5C then (case p of [] \<Rightarrow> 1 | _ # p' \<Rightarrow> Suc (Suc (chunk_length inrange p')))
      else if c = CHR ''['' then Suc (chunk_length True p)
      else if c = CHR '']'' then Suc (chunk_length False p)
      else if c = CHR ''*'' \<and> \<not> inrange then 0
      else Suc (chunk_length inrange p))"

definition scan_chunk :: "string \<Rightarrow> bool \<times> string \<times> string" where
  "scan_chunk pattern =
     (let p = dropWhile (\<lambda>c. c = CHR ''*'') pattern; n = chunk_length False p
      in (p \<noteq> pattern, take n p, drop n p))"

lemma scan_chunk_shorter:
  "pattern \<noteq> [] \<Longrightarrow> scan_chunk pattern = (star, chunk, rest) \<Longrightarrow> length rest < length pattern"
proof -
  assume ne: "pattern \<noteq> []" and "scan_chunk pattern = (star, chunk, rest)"
  then have r: "rest = drop (chunk_length False (dropWhile (\<lambda>c. c = CHR ''*'') pattern))
      (dropWhile (\<lambda>c. c = CHR ''*'') pattern)"
    by (simp add: scan_chunk_def Let_def)
  show "length rest < length pattern"
  proof (cases pattern)
    case Nil
    with ne show ?thesis by simp
  next
    case (Cons c p)
    show ?thesis
    proof (cases "c = CHR ''*''")
      case True
      have "length rest \<le> length (dropWhile (\<lambda>c. c = CHR ''*'') p)"
        using r Cons True by simp
      also have "\<dots> \<le> length p" by (rule length_dropWhile_le)
      finally show ?thesis using Cons by simp
    next
      case False
      then have "0 < chunk_length False (c # p)" by (simp split: list.split)
      then show ?thesis using r Cons False by simp
    qed
  qed
qed

text \<open>Whether the chunks that are left are well formed.\<close>

function valid_rest :: "string \<Rightarrow> bool" where
  "valid_rest pattern =
     (if pattern = [] then True
      else case scan_chunk pattern of
             (_, chunk, rest) \<Rightarrow> match_chunk chunk (Some []) \<noteq> None \<and> valid_rest rest)"
  by pat_completeness auto
termination
  by (relation "measure length") (auto dest: scan_chunk_shorter [OF _ sym])

declare valid_rest.simps [simp del]

text \<open>
  The search behind a star: \<open>skip\<close> is tried on the name from its next byte on, as long as no slash
  is passed. It yields the text left by the first position that fits, \<open>Some None\<close> when there is
  none.
\<close>

fun star_search :: "(string \<Rightarrow> string option option) \<Rightarrow> bool \<Rightarrow> string \<Rightarrow> string option option" where
  "star_search fit final [] = Some None"
| "star_search fit final (c # name) =
     (if c = CHR ''/'' then Some None
      else case fit name of
             None \<Rightarrow> None
           | Some (Some t) \<Rightarrow>
               if final \<and> t \<noteq> [] then star_search fit final name else Some (Some t)
           | Some None \<Rightarrow> star_search fit final name)"

function path_match :: "string \<Rightarrow> string \<Rightarrow> bool option" where
  "path_match pattern name =
     (if pattern = [] then Some (name = [])
      else case scan_chunk pattern of
             (star, chunk, rest) \<Rightarrow>
               if star \<and> chunk = [] then Some (CHR ''/'' \<notin> set name)
               else
                 let here = match_chunk chunk (Some name);
                     there = (case here of
                                None \<Rightarrow> None
                              | Some (Some t) \<Rightarrow>
                                  if t = [] \<or> rest \<noteq> [] then Some (Some t)
                                  else if star
                                    then star_search (\<lambda>n. match_chunk chunk (Some n)) (rest = []) name
                                    else Some None
                              | Some None \<Rightarrow>
                                  if star
                                    then star_search (\<lambda>n. match_chunk chunk (Some n)) (rest = []) name
                                    else Some None)
                 in case there of
                      None \<Rightarrow> None
                    | Some (Some t) \<Rightarrow> path_match rest t
                    | Some None \<Rightarrow> if valid_rest rest then Some False else None)"
  by pat_completeness auto
termination
  by (relation "measure (\<lambda>(pattern, name). length pattern)") (auto dest: scan_chunk_shorter [OF _ sym])

declare path_match.simps [simp del]

section \<open>Cleaning a path\<close>

text \<open>
  \<open>filepath.Clean\<close>: empty elements and dots are dropped, a double dot takes the element before
  it, or is dropped at the root, or is kept in front of a relative path. The elements kept so far
  are in reverse order.
\<close>

fun clean_elements :: "bool \<Rightarrow> string list \<Rightarrow> string list \<Rightarrow> string list" where
  "clean_elements rooted out [] = rev out"
| "clean_elements rooted out (e # es) =
     (if e = [] \<or> e = ''.'' then clean_elements rooted out es
      else if e = ''..'' then
        (case out of
           [] \<Rightarrow> clean_elements rooted (if rooted then [] else [''..'']) es
         | o1 # out' \<Rightarrow>
             if o1 = ''..'' then clean_elements rooted (''..'' # out) es
             else clean_elements rooted out' es)
      else clean_elements rooted (e # out) es)"

definition path_clean :: "string \<Rightarrow> string" where
  "path_clean p =
     (if p = [] then ''.''
      else
        let rooted = (hd p = CHR ''/'');
            elements = clean_elements rooted [] (split_on CHR ''/'' p)
        in if rooted then CHR ''/'' # str_join ''/'' elements
           else if elements = [] then ''.'' else str_join ''/'' elements)"

text \<open>\<open>filepath.IsAbs\<close> and \<open>filepath.Join\<close>: leading empty elements are ignored.\<close>

definition path_is_abs :: "string \<Rightarrow> bool" where
  "path_is_abs p \<longleftrightarrow> has_prefix p ''/''"

definition path_join :: "string list \<Rightarrow> string" where
  "path_join elems =
     (let es = dropWhile (\<lambda>e. e = []) elems
      in if es = [] then [] else path_clean (str_join ''/'' es))"

lemma clean_elements_shape:
  assumes "\<exists>k ws. out = ws @ replicate k ''..'' \<and> set ws \<inter> {[], ''.'', ''..''} = {} \<and> (rooted \<longrightarrow> k = 0)"
  shows "\<exists>k ws. clean_elements rooted out es = replicate k ''..'' @ ws \<and>
    set ws \<inter> {[], ''.'', ''..''} = {} \<and> (rooted \<longrightarrow> k = 0)"
  using assms
proof (induction rooted out es rule: clean_elements.induct)
  case (1 rooted out)
  then obtain k ws where "out = ws @ replicate k ''..''" "set ws \<inter> {[], ''.'', ''..''} = {}" "rooted \<longrightarrow> k = 0"
    by blast
  then have "clean_elements rooted out [] = replicate k ''..'' @ rev ws" "set (rev ws) \<inter> {[], ''.'', ''..''} = {}"
    by simp_all
  with \<open>rooted \<longrightarrow> k = 0\<close> show ?case by blast
next
  case (2 rooted out e es)
  from "2.prems" obtain k ws where o: "out = ws @ replicate k ''..''" "set ws \<inter> {[], ''.'', ''..''} = {}"
    "rooted \<longrightarrow> k = 0" by blast
  consider "e = [] \<or> e = ''.''" | "\<not> (e = [] \<or> e = ''.'')" "e = ''..''" | "e \<noteq> []" "e \<noteq> ''.''" "e \<noteq> ''..''"
    by blast
  then show ?case
  proof cases
    case 1
    with 2 show ?thesis by simp
  next
    case 3
    then have "\<exists>k ws'. e # out = ws' @ replicate k ''..'' \<and> set ws' \<inter> {[], ''.'', ''..''} = {} \<and> (rooted \<longrightarrow> k = 0)"
      using o by (intro exI [of _ k] exI [of _ "e # ws"]) simp
    with "2.IH"(5) 3 show ?thesis by simp
  next
    case dots: 2
    show ?thesis
    proof (cases out)
      case Nil
      have "\<exists>k ws. (if rooted then [] else [''..'']) = ws @ replicate k ''..'' \<and>
          set ws \<inter> {[], ''.'', ''..''} = {} \<and> (rooted \<longrightarrow> k = 0)"
        by (intro exI [of _ "if rooted then 0 else 1"] exI [of _ "[]"]) simp
      with "2.IH"(2) dots Nil show ?thesis by simp
    next
      case (Cons o1 out')
      show ?thesis
      proof (cases "o1 = ''..''")
        case True
        have "ws = []"
          using o Cons True by (cases ws) auto
        then have "\<exists>k ws. ''..'' # out = ws @ replicate k ''..'' \<and> set ws \<inter> {[], ''.'', ''..''} = {} \<and> (rooted \<longrightarrow> k = 0)"
          using o Cons by (intro exI [of _ "Suc k"] exI [of _ "[]"]) auto
        with "2.IH"(3) dots Cons True show ?thesis by simp
      next
        case False
        then obtain w ws' where "ws = w # ws'" using o Cons by (cases ws; cases k) auto
        then have "\<exists>k ws. out' = ws @ replicate k ''..'' \<and> set ws \<inter> {[], ''.'', ''..''} = {} \<and> (rooted \<longrightarrow> k = 0)"
          using o Cons by (intro exI [of _ k] exI [of _ ws']) auto
        with "2.IH"(4) dots Cons False show ?thesis by simp
      qed
    qed
  qed
qed

section \<open>Literal patterns\<close>

text \<open>The bytes that mean something to the matcher.\<close>

definition glob_meta :: "char set" where
  "glob_meta = {CHR ''*'', CHR ''?'', CHR ''['', CHR 0x5C}"

lemma chunk_length_literal:
  "set p \<inter> glob_meta = {} \<Longrightarrow> chunk_length b p = length p"
  by (induction b p rule: chunk_length.induct) (auto simp: glob_meta_def split: list.splits)

lemma scan_chunk_literal:
  "set p \<inter> glob_meta = {} \<Longrightarrow> scan_chunk p = (False, p, [])"
proof -
  assume p: "set p \<inter> glob_meta = {}"
  then have "dropWhile (\<lambda>c. c = CHR ''*'') p = p"
    by (cases p) (auto simp: glob_meta_def)
  with chunk_length_literal [OF p] show ?thesis by (simp add: scan_chunk_def)
qed

lemma scan_chunk_star_literal:
  "set p \<inter> glob_meta = {} \<Longrightarrow> scan_chunk (CHR ''*'' # p) = (True, p, [])"
proof -
  assume p: "set p \<inter> glob_meta = {}"
  then have d: "dropWhile (\<lambda>c. c = CHR ''*'') p = p"
    by (cases p) (auto simp: glob_meta_def)
  have "CHR ''*'' # p \<noteq> p" by (metis not_Cons_self2)
  with d chunk_length_literal [OF p] show ?thesis by (simp add: scan_chunk_def)
qed

lemma match_chunk_literal_step:
  assumes "c \<notin> glob_meta"
  shows "match_chunk (c # p) subject =
    match_chunk p
      (case if subject = Some [] then None else subject of
         None \<Rightarrow> None
       | Some t \<Rightarrow> if c \<noteq> hd t then None else Some (tl t))"
proof -
  have "c \<noteq> CHR ''*''" "c \<noteq> CHR ''?''" "c \<noteq> CHR ''[''" "c \<noteq> CHR 0x5C"
    using assms by (auto simp: glob_meta_def)
  then show ?thesis by (simp add: match_chunk.simps [of "c # p"] Let_def cong: option.case_cong)
qed

lemma match_chunk_None_literal: "set p \<inter> glob_meta = {} \<Longrightarrow> match_chunk p None = Some None"
proof (induction p)
  case Nil
  then show ?case by (simp add: match_chunk.simps)
next
  case (Cons c p)
  then show ?case by (simp add: match_chunk_literal_step)
qed

lemma match_chunk_literal:
  "set p \<inter> glob_meta = {} \<Longrightarrow>
   match_chunk p (Some n) = Some (if has_prefix n p then Some (drop (length p) n) else None)"
proof (induction p arbitrary: n)
  case Nil
  then show ?case by (simp add: match_chunk.simps has_prefix_def)
next
  case (Cons c p)
  then have p: "set p \<inter> glob_meta = {}" "c \<notin> glob_meta" by auto
  then show ?case
    using match_chunk_None_literal [OF p(1)] Cons.IH [OF p(1), of "tl n"]
    by (cases n) (auto simp: match_chunk_literal_step)
qed

text \<open>
  Fact. A pattern without metacharacters matches exactly itself: the dispatch patterns that
  are plain paths select that path and nothing else.
\<close>

theorem path_match_literal:
  assumes "set p \<inter> glob_meta = {}"
  shows "path_match p n = Some (n = p)"
proof (cases "p = []")
  case True
  then show ?thesis by (simp add: path_match.simps)
next
  case False
  have nil: "path_match [] t = Some (t = [])" for t by (simp add: path_match.simps)
  have v: "valid_rest []" by (simp add: valid_rest.simps)
  have iff: "n = p \<longleftrightarrow> has_prefix n p \<and> drop (length p) n = []"
    by (auto simp: has_prefix_iff)
  show ?thesis
    using False scan_chunk_literal [OF assms] match_chunk_literal [OF assms, of n]
    by (auto simp: path_match.simps [of p n] nil v iff Let_def)
qed

theorem path_match_literal_witness:
  "path_match ''src/a.go'' ''src/b.go'' = Some False"
  using path_match_literal [of "''src/a.go''" "''src/b.go''"] by (simp add: glob_meta_def)

lemma has_suffix_iff_append: "has_suffix s p \<longleftrightarrow> (\<exists>t. s = t @ p)"
  by (auto simp: has_suffix_def) (metis append_take_drop_id)

lemma star_search_literal:
  assumes "set p \<inter> glob_meta = {}"
  shows "star_search (\<lambda>n. match_chunk p (Some n)) True name =
    Some (if \<exists>stem. stem \<noteq> [] \<and> name = stem @ p \<and> CHR ''/'' \<notin> set stem then Some [] else None)"
proof (induction name)
  case Nil
  then show ?case by simp
next
  case (Cons c name)
  let ?rest = "\<exists>stem. stem \<noteq> [] \<and> name = stem @ p \<and> CHR ''/'' \<notin> set stem"
  have step: "(\<exists>stem. stem \<noteq> [] \<and> c # name = stem @ p \<and> CHR ''/'' \<notin> set stem) \<longleftrightarrow>
      c \<noteq> CHR ''/'' \<and> (name = p \<or> ?rest)"
  proof
    assume "\<exists>stem. stem \<noteq> [] \<and> c # name = stem @ p \<and> CHR ''/'' \<notin> set stem"
    then obtain stem where s: "stem \<noteq> []" "c # name = stem @ p" "CHR ''/'' \<notin> set stem" by blast
    then obtain t where "stem = c # t" "name = t @ p" by (cases stem) simp_all
    then show "c \<noteq> CHR ''/'' \<and> (name = p \<or> ?rest)" using s(3) by (cases "t = []") auto
  next
    assume c: "c \<noteq> CHR ''/'' \<and> (name = p \<or> ?rest)"
    then obtain t where "name = t @ p" "CHR ''/'' \<notin> set t" by force
    then show "\<exists>stem. stem \<noteq> [] \<and> c # name = stem @ p \<and> CHR ''/'' \<notin> set stem"
      using c by (intro exI [of _ "c # t"]) simp
  qed
  have "has_prefix name p \<Longrightarrow> drop (length p) name = [] \<longleftrightarrow> name = p"
    by (auto simp: has_prefix_iff)
  moreover have "has_prefix p p" by (simp add: has_prefix_def)
  ultimately show ?case
    unfolding step using Cons.IH match_chunk_literal [OF assms, of name]
    by (cases "c = CHR ''/''"; cases "has_prefix name p"; cases "name = p") simp_all
qed

text \<open>
  Fact. A star followed by literal text, the common form of a dispatch pattern, matches the
  names that end with the text and have no slash in front of it.
\<close>

theorem path_match_star_literal:
  assumes "set p \<inter> glob_meta = {}"
  shows "path_match (CHR ''*'' # p) n = Some (\<exists>stem. n = stem @ p \<and> CHR ''/'' \<notin> set stem)"
proof (cases "p = []")
  case True
  have "scan_chunk ''*'' = (True, [], [])" by (simp add: scan_chunk_def)
  with True show ?thesis by (simp add: path_match.simps [of "''*''"])
next
  case False
  let ?P = "CHR ''*'' # p"
  have nil: "path_match [] t = Some (t = [])" for t by (simp add: path_match.simps)
  have v: "valid_rest []" by (simp add: valid_rest.simps)
  have split: "(\<exists>stem. n = stem @ p \<and> CHR ''/'' \<notin> set stem) \<longleftrightarrow>
      n = p \<or> (\<exists>stem. stem \<noteq> [] \<and> n = stem @ p \<and> CHR ''/'' \<notin> set stem)"
    by auto
  have iff: "n = p \<longleftrightarrow> has_prefix n p \<and> drop (length p) n = []"
    by (auto simp: has_prefix_iff)
  show ?thesis
    unfolding split
    using False scan_chunk_star_literal [OF assms] match_chunk_literal [OF assms, of n]
      star_search_literal [OF assms, of n]
    by (auto simp: path_match.simps [of ?P n] nil v iff Let_def)
qed

theorem path_match_star_literal_witness:
  "path_match ''*.go'' ''cmd/main.go'' = Some False"
proof -
  have "\<nexists>stem. ''cmd/main.go'' = stem @ ''.go'' \<and> CHR ''/'' \<notin> set stem"
    by (auto simp: append_eq_Cons_conv Cons_eq_append_conv)
  then show ?thesis
    using path_match_star_literal [of "''.go''" "''cmd/main.go''"] by (simp add: glob_meta_def)
qed

section \<open>Clean paths\<close>

lemma path_clean_elements:
  "\<exists>k ws. clean_elements rooted [] es = replicate k ''..'' @ ws \<and>
    set ws \<inter> {[], ''.'', ''..''} = {} \<and> (rooted \<longrightarrow> k = 0)"
  by (rule clean_elements_shape) (intro exI [of _ 0] exI [of _ "[]"], simp)

lemma clean_elements_subset: "set (clean_elements rooted out es) \<subseteq> set out \<union> set es \<union> {''..''}"
  by (induction rooted out es rule: clean_elements.induct) (auto split: list.splits)

lemma clean_elements_no_slash:
  "w \<in> set (clean_elements rooted [] (split_on CHR ''/'' p)) \<Longrightarrow> CHR ''/'' \<notin> set w"
  using clean_elements_subset [of rooted "[]" "split_on CHR ''/'' p"] split_on_parts by fastforce

text \<open>
  The parts of a clean relative path are its elements: double dots at most in front, no empty
  element and no dot.
\<close>

lemma path_clean_parts:
  assumes "split_on CHR ''/'' (path_clean p) = parts" and "hd parts \<noteq> []"
  shows "parts = [''.''] \<or>
    (\<exists>k ws. parts = replicate k ''..'' @ ws \<and> set ws \<inter> {[], ''.'', ''..''} = {})"
proof (cases "p = []")
  case True
  with assms show ?thesis by (simp add: path_clean_def)
next
  case False
  let ?es = "clean_elements (hd p = CHR ''/'') [] (split_on CHR ''/'' p)"
  show ?thesis
  proof (cases "hd p = CHR ''/''")
    case True
    with False assms show ?thesis by (auto simp: path_clean_def Let_def)
  next
    case rel: False
    show ?thesis
    proof (cases "?es = []")
      case True
      with False rel assms show ?thesis by (simp add: path_clean_def)
    next
      case nonempty: False
      have "split_on CHR ''/'' (str_join ''/'' ?es) = ?es"
        by (rule split_join_on [OF nonempty]) (rule clean_elements_no_slash)
      with False rel nonempty assms(1) have "parts = ?es" by (simp add: path_clean_def)
      with path_clean_elements [of "hd p = CHR ''/''" "split_on CHR ''/'' p"] show ?thesis by blast
    qed
  qed
qed

section \<open>Rooted paths\<close>

text \<open>\<open>filepath.Dir\<close>: what stands up to the last slash, cleaned.\<close>

definition path_dir :: "string \<Rightarrow> string" where
  "path_dir p = path_clean (rev (dropWhile (\<lambda>c. c \<noteq> CHR ''/'') (rev p)))"

text \<open>\<open>filepath.Abs\<close>, given what \<open>os.Getwd\<close> returns; \<open>None\<close> is its error.\<close>

definition path_abs :: "string option \<Rightarrow> string \<Rightarrow> string option" where
  "path_abs wd p =
     (if path_is_abs p then Some (path_clean p)
      else case wd of None \<Rightarrow> None | Some w \<Rightarrow> Some (path_join [w, p]))"

definition proper_names :: "string list \<Rightarrow> bool" where
  "proper_names es \<longleftrightarrow> list_all (\<lambda>e. e \<notin> {[], ''.'', ''..''} \<and> CHR ''/'' \<notin> set e) es"

definition rooted_path :: "string list \<Rightarrow> string" where
  "rooted_path es = CHR ''/'' # str_join ''/'' es"

lemma clean_elements_proper: "proper_names es \<Longrightarrow> clean_elements rooted out es = rev out @ es"
  by (induction es arbitrary: out) (auto simp: proper_names_def)

lemma split_on_join_proper:
  "proper_names es \<Longrightarrow> es \<noteq> [] \<Longrightarrow> split_on CHR ''/'' (str_join ''/'' es) = es"
  by (rule split_join_on) (auto simp: proper_names_def list_all_iff)

lemma path_clean_rooted: "proper_names es \<Longrightarrow> path_clean (rooted_path es) = rooted_path es"
  by (cases "es = []")
     (simp_all add: path_clean_def rooted_path_def split_on_join_proper clean_elements_proper)

lemma split_on_append_last:
  "d \<notin> set x \<Longrightarrow> split_on d (s @ d # x) = split_on d s @ [x]"
  by (induction s) (auto simp: split_on_no_sep split: list.splits)

lemma str_join_snoc: "str_join sep (es @ [e]) = (if es = [] then e else str_join sep es @ sep @ e)"
proof (induction es)
  case Nil
  then show ?case by simp
next
  case (Cons a es)
  then show ?case by (cases es) simp_all
qed

lemma rooted_path_snoc:
  "rooted_path (es @ [e]) = (if es = [] then ''/'' else rooted_path es @ ''/'') @ e"
  by (simp add: rooted_path_def str_join_snoc)

lemma clean_elements_proper_trailing:
  "proper_names es \<Longrightarrow> clean_elements rooted out (es @ [[]]) = rev out @ es"
  by (induction es arbitrary: out) (auto simp: proper_names_def)

lemma path_dir_rooted:
  assumes "proper_names (es @ [e])"
  shows "path_dir (rooted_path (es @ [e])) = rooted_path es"
proof -
  let ?front = "if es = [] then ''/'' else rooted_path es @ ''/''"
  have e: "CHR ''/'' \<notin> set e" and es: "proper_names es"
    using assms by (simp_all add: proper_names_def)
  have "rev (dropWhile (\<lambda>c. c \<noteq> CHR ''/'') (rev (?front @ e))) = ?front"
    using e by (auto simp: dropWhile_append2 dropWhile_append3)
  then have "path_dir (rooted_path (es @ [e])) = path_clean ?front"
    by (simp add: path_dir_def rooted_path_snoc)
  also have "\<dots> = rooted_path es"
  proof (cases "es = []")
    case True
    then show ?thesis by (simp add: path_clean_def rooted_path_def)
  next
    case False
    then have "split_on CHR ''/'' (rooted_path es @ ''/'') = [] # es @ [[]]"
      using split_on_append_last [of "CHR ''/''" "[]" "str_join ''/'' es"] es
      by (simp add: rooted_path_def split_on_join_proper)
    with False es show ?thesis
      by (simp add: path_clean_def rooted_path_def clean_elements_proper_trailing)
  qed
  finally show ?thesis .
qed

lemma path_dir_root: "path_dir (rooted_path []) = rooted_path []"
  by (simp add: path_dir_def rooted_path_def path_clean_def)

lemma rooted_path_shorter:
  assumes "proper_names (es @ [e])"
  shows "rooted_path es \<noteq> rooted_path (es @ [e])"
proof -
  have "e \<noteq> []" using assms by (simp add: proper_names_def)
  then have "length (rooted_path es) < length (rooted_path (es @ [e]))"
    by (simp add: rooted_path_snoc) (simp add: rooted_path_def)
  then show ?thesis by auto
qed

text \<open>Every absolute path is cleaned to a rooted path of proper names.\<close>

lemma path_clean_abs:
  assumes "path_is_abs p"
  obtains es where "proper_names es" "path_clean p = rooted_path es"
proof -
  let ?es = "clean_elements True [] (split_on CHR ''/'' p)"
  from assms have p: "p \<noteq> []" "hd p = CHR ''/''"
    by (cases p; simp add: path_is_abs_def has_prefix_def)+
  then have "path_clean p = rooted_path ?es" by (simp add: path_clean_def rooted_path_def)
  moreover have "proper_names ?es"
  proof -
    obtain ws where ws: "?es = ws" "set ws \<inter> {[], ''.'', ''..''} = {}"
      using path_clean_elements [of True "split_on CHR ''/'' p"] by auto
    then have "\<And>w. w \<in> set ?es \<Longrightarrow> w \<notin> {[], ''.'', ''..''}" by blast
    with clean_elements_no_slash [of _ True p] show ?thesis
      unfolding proper_names_def list_all_iff by blast
  qed
  ultimately show thesis using that by blast
qed

end
