(* ===== verification/Routes.thy ===== *)
theory Routes
  imports GateStatus Paths
begin

text \<open>
  The smaller routes of the hook runner and the fast path for read-only commands:
  \<open>go/internal/hooks/admin_readonly.go\<close>, \<open>parallel_tool_batch.go\<close>, \<open>malformed_shell.go\<close> and
  \<open>shell_file_tool_route.go\<close>. They look at the commands that \<open>shellparse\<close> finds in the text.
\<close>

section \<open>Read-only inspection\<close>

definition read_only_inspection_name :: "string \<Rightarrow> bool" where
  "read_only_inspection_name name \<longleftrightarrow>
     name \<in> {''cut'', ''file'', ''find'', ''grep'', ''head'', ''jq'', ''ls'', ''nl'', ''pwd'', ''rg'',
              ''sort'', ''stat'', ''tail'', ''tr'', ''uniq'', ''wc'', ''yq''}"

definition read_only_inspection_redirects :: "string list \<Rightarrow> bool" where
  "read_only_inspection_redirects redirects =
     list_all (\<lambda>redirect.
       let trimmed = trim_space redirect
       in has_prefix trimmed ''<'' \<or> trimmed = ''2>&1'' \<or> has_suffix trimmed ''/dev/null'') redirects"

definition mutating_inspection_arg :: "string \<Rightarrow> string \<Rightarrow> bool" where
  "mutating_inspection_arg name a =
     (if name = ''sed'' then has_prefix a ''-i'' \<or> has_prefix a ''--in-place''
      else if name = ''find'' then a \<in> {''-delete'', ''-exec'', ''-execdir'', ''-ok'', ''-okdir''}
      else False)"

definition read_only_inspection_args :: "shell_command \<Rightarrow> bool" where
  "read_only_inspection_args c =
     list_all (\<lambda>a. \<not> mutating_inspection_arg (cmd_name c) a) (tl (cmd_argv c))"

definition is_read_only_inspection_step :: "shell_command \<Rightarrow> bool" where
  "is_read_only_inspection_step c =
     (if cmd_name c = [] \<or> cmd_background c \<or> cmd_command_substitution c \<or>
         cmd_dynamic_expansion c \<or> cmd_heredoc c \<or> cmd_process_substitution c \<or>
         cmd_subshell c \<or> cmd_function_declaration c \<or>
         \<not> read_only_inspection_name (cmd_name c) \<or>
         \<not> read_only_inspection_redirects (cmd_redirects c)
      then False else read_only_inspection_args c)"

definition ReadOnlyInspectionCommand :: "'n bash \<Rightarrow> string \<Rightarrow> bool" where
  "ReadOnlyInspectionCommand B text =
     (case Commands B text of
        Inl e \<Rightarrow> False
      | Inr commands \<Rightarrow> commands \<noteq> [] \<and> list_all is_read_only_inspection_step commands)"

definition read_only_inspection_event :: "'n bash \<Rightarrow> environment \<Rightarrow> event \<Rightarrow> bool \<Rightarrow> bool" where
  "read_only_inspection_event B env e admin_approved =
     (if ev_hook_event_name e \<noteq> ''PreToolUse'' \<or> ev_tool_name e \<noteq> ''Bash'' \<or> \<not> admin_approved
      then False
      else
        let provider = Provider env e
        in if provider \<noteq> [] \<and> provider \<noteq> codex then False
           else ReadOnlyInspectionCommand B (Command e))"

section \<open>Batches and malformed text\<close>

text \<open>A key of the tool input, \<open>None\<close> when the input is nil or lacks the key.\<close>

definition tool_input_field :: "event \<Rightarrow> string \<Rightarrow> any option" where
  "tool_input_field e key =
     (case ev_tool_input e of None \<Rightarrow> None | Some m \<Rightarrow> map_of m key)"

definition any_slice :: "any option \<Rightarrow> any list" where
  "any_slice v = (case v of Some (AList xs) \<Rightarrow> xs | _ \<Rightarrow> [])"

definition parallel_tool_batch_route_for :: "event \<Rightarrow> inspection_route" where
  "parallel_tool_batch_route_for e =
     (if ev_hook_event_name e \<noteq> ''PreToolUse'' \<or> ev_tool_input e = None then no_route
      else case tool_input_field e ''__coding_ethos_parallel_batch'' of
             Some (ABool marked) \<Rightarrow>
               if \<not> marked \<or> length (any_slice (tool_input_field e ''tool_uses'')) \<le> 1 then no_route
               else no_route\<lparr>route_block_policy_id := ''hook.parallel_tool_batch_unsupported'',
                      route_reason := ''Parallel tool batches with multiple actions are blocked until '' @
                        ''each action can be evaluated independently.'',
                      route_block := True\<rparr>
           | _ \<Rightarrow> no_route)"

definition malformed_shell_route_for :: "'n bash \<Rightarrow> event \<Rightarrow> inspection_route" where
  "malformed_shell_route_for B e =
     (if ev_hook_event_name e \<noteq> ''PreToolUse'' \<or> ev_tool_name e \<noteq> ''Bash'' then no_route
      else
        let command = trim_space (Command e)
        in if command = [] then no_route
           else case Commands B command of
                  Inr cs \<Rightarrow> no_route
                | Inl err \<Rightarrow>
                    no_route\<lparr>route_block_policy_id := ''shell.malformed_command'',
                      route_reason := ''Malformed shell command text is ambiguous and forbidden.'',
                      route_block := True\<rparr>)"

section \<open>Shell commands that stand in for a file tool\<close>

definition shell_option_or_empty :: "string \<Rightarrow> bool" where
  "shell_option_or_empty a \<longleftrightarrow> a = [] \<or> has_prefix a ''-''"

fun file_operands_loop :: "bool \<Rightarrow> string list \<Rightarrow> string list" where
  "file_operands_loop operands_only [] = []"
| "file_operands_loop operands_only (a # rest) =
     (if a = ''--'' then file_operands_loop True rest
      else if (\<not> operands_only \<and> shell_option_or_empty a) \<or> a = ''-''
        then file_operands_loop operands_only rest
      else a # file_operands_loop operands_only rest)"

definition file_operands :: "string list \<Rightarrow> string list" where
  "file_operands args = file_operands_loop False args"

fun command_has_file_operand_loop :: "bool \<Rightarrow> string list \<Rightarrow> bool" where
  "command_has_file_operand_loop operands_only [] = False"
| "command_has_file_operand_loop operands_only (a # rest) =
     (if a = ''--'' then command_has_file_operand_loop True rest
      else if (\<not> operands_only \<and> shell_option_or_empty a) \<or> a = ''-''
        then command_has_file_operand_loop operands_only rest
      else True)"

definition command_has_file_operand :: "string list \<Rightarrow> bool" where
  "command_has_file_operand args = command_has_file_operand_loop False args"

definition sed_expression_option_fused :: "string \<Rightarrow> bool" where
  "sed_expression_option_fused a \<longleftrightarrow>
     (has_prefix a ''-e'' \<and> a \<noteq> ''-e'') \<or> has_prefix a ''--expression=''"

definition sed_expression_option :: "string \<Rightarrow> bool" where
  "sed_expression_option a \<longleftrightarrow>
     a = ''-e'' \<or> a = ''--expression'' \<or> sed_expression_option_fused a"

definition sed_file_option :: "string \<Rightarrow> bool" where
  "sed_file_option a \<longleftrightarrow>
     a = ''-f'' \<or> a = ''--file'' \<or> has_prefix a ''-f'' \<or> has_prefix a ''--file=''"

text \<open>
  The option and the arguments behind it; the result says whether the next argument is consumed,
  whether a script was seen and whether a file is read.
\<close>

definition consume_sed_option_value :: "string \<Rightarrow> string list \<Rightarrow> bool \<times> bool \<times> bool" where
  "consume_sed_option_value a rest =
     (if sed_file_option a \<and> rest \<noteq> [] then (True, False, hd rest \<noteq> ''-'')
      else if sed_expression_option a \<and> rest \<noteq> [] then (True, True, False)
      else (False, False, False))"

function sed_reads_loop :: "bool \<Rightarrow> bool \<Rightarrow> string list \<Rightarrow> bool" where
  "sed_reads_loop script_seen operands_only [] = False"
| "sed_reads_loop script_seen operands_only (a # rest) =
     (if a = ''--'' then sed_reads_loop script_seen True rest
      else if \<not> operands_only \<and> sed_file_option a then True
      else if \<not> operands_only \<and> sed_expression_option_fused a
        then sed_reads_loop True operands_only rest
      else if \<not> operands_only \<and> shell_option_or_empty a then
        (case consume_sed_option_value a rest of
           (consumed, seen, reads) \<Rightarrow>
             if reads then True
             else sed_reads_loop (script_seen \<or> seen) operands_only
                    (if consumed then tl rest else rest))
      else if \<not> script_seen then sed_reads_loop True operands_only rest
      else a \<noteq> ''-'')"
  by pat_completeness auto
termination by (relation "measure (\<lambda>(s, oo, args). length args)") auto

definition sed_reads_file_operand :: "string list \<Rightarrow> bool" where
  "sed_reads_file_operand args = sed_reads_loop False False args"

function sed_operands_loop :: "bool \<Rightarrow> bool \<Rightarrow> string list \<Rightarrow> string list" where
  "sed_operands_loop script_seen operands_only [] = []"
| "sed_operands_loop script_seen operands_only (a # rest) =
     (if a = ''--'' then sed_operands_loop script_seen True rest
      else if \<not> operands_only \<and> sed_expression_option_fused a
        then sed_operands_loop True operands_only rest
      else if \<not> operands_only \<and> shell_option_or_empty a then
        (case consume_sed_option_value a rest of
           (consumed, seen, reads) \<Rightarrow>
             (if reads then [hd rest] else []) @
             sed_operands_loop (script_seen \<or> seen) operands_only
               (if consumed then tl rest else rest))
      else if \<not> script_seen then sed_operands_loop True operands_only rest
      else (if a \<noteq> ''-'' then [a] else []) @ sed_operands_loop script_seen operands_only rest)"
  by pat_completeness auto
termination by (relation "measure (\<lambda>(s, oo, args). length args)") auto

definition sed_file_operands :: "string list \<Rightarrow> string list" where
  "sed_file_operands args = sed_operands_loop False False args"

definition awk_file_option :: "string \<Rightarrow> bool" where
  "awk_file_option a \<longleftrightarrow>
     a = ''-f'' \<or> a = ''--file'' \<or> has_prefix a ''-f'' \<or> has_prefix a ''--file=''"

definition awk_program_option :: "string \<Rightarrow> bool" where
  "awk_program_option a \<longleftrightarrow>
     a = ''-e'' \<or> a = ''--source'' \<or> has_prefix a ''-e'' \<or> has_prefix a ''--source=''"

definition awk_option_takes_value :: "string \<Rightarrow> bool" where
  "awk_option_takes_value a \<longleftrightarrow>
     a = ''-F'' \<or> a = ''-v'' \<or> a = ''--assign'' \<or> has_prefix a ''-F'' \<or> has_prefix a ''-v'' \<or>
     has_prefix a ''--assign='' \<or> awk_program_option a"

definition awk_option_value_fused :: "string \<Rightarrow> bool" where
  "awk_option_value_fused a \<longleftrightarrow>
     (has_prefix a ''-F'' \<and> a \<noteq> ''-F'') \<or> (has_prefix a ''-v'' \<and> a \<noteq> ''-v'') \<or>
     has_prefix a ''--assign='' \<or> (has_prefix a ''-e'' \<and> a \<noteq> ''-e'') \<or> has_prefix a ''--source=''"

definition consume_awk_option_value :: "string \<Rightarrow> string list \<Rightarrow> bool \<Rightarrow> bool \<times> bool" where
  "consume_awk_option_value a rest program_seen =
     (if \<not> awk_option_takes_value a \<or> rest = [] then (False, program_seen)
      else (True, program_seen \<or> awk_program_option a))"

function awk_reads_loop :: "bool \<Rightarrow> bool \<Rightarrow> string list \<Rightarrow> bool" where
  "awk_reads_loop program_seen operands_only [] = False"
| "awk_reads_loop program_seen operands_only (a # rest) =
     (if a = ''--'' then awk_reads_loop program_seen True rest
      else if \<not> operands_only \<and> awk_file_option a then True
      else if \<not> operands_only \<and> awk_option_takes_value a \<and> awk_option_value_fused a
        then awk_reads_loop (program_seen \<or> awk_program_option a) operands_only rest
      else if \<not> operands_only \<and> shell_option_or_empty a then
        (case consume_awk_option_value a rest program_seen of
           (consumed, seen) \<Rightarrow>
             awk_reads_loop seen operands_only (if consumed then tl rest else rest))
      else if \<not> program_seen then awk_reads_loop True operands_only rest
      else a \<noteq> ''-'')"
  by pat_completeness auto
termination by (relation "measure (\<lambda>(s, oo, args). length args)") auto

definition awk_reads_file_operand :: "string list \<Rightarrow> bool" where
  "awk_reads_file_operand args = awk_reads_loop False False args"

definition redirects_write_file :: "string list \<Rightarrow> bool" where
  "redirects_write_file redirects =
     list_ex (\<lambda>r. \<not> str_contains r ''<<'' \<and> \<not> (str_contains r ''>&'' \<or> str_contains r ''<&'') \<and>
       str_contains r ''>'') redirects"

definition redirects_read_file :: "string list \<Rightarrow> bool" where
  "redirects_read_file redirects =
     list_ex (\<lambda>r. \<not> str_contains r ''<<'' \<and> \<not> (str_contains r ''<&'' \<or> str_contains r ''>&'') \<and>
       str_contains r ''<'') redirects"

definition allowed_agent_instruction_file :: "string \<Rightarrow> bool" where
  "allowed_agent_instruction_file path =
     (let parts = split_on CHR ''/'' (path_clean path)
      in if length parts \<noteq> 4 \<or> parts ! 3 \<noteq> ''SKILL.md'' then False
         else (parts ! 0 = ''.agents'' \<or> parts ! 0 = ''.codex'') \<and> parts ! 1 = ''skills'' \<and>
              parts ! 2 \<noteq> ''.'' \<and> parts ! 2 \<noteq> [])"

definition allowed_agent_instruction_file_operands :: "string list \<Rightarrow> bool" where
  "allowed_agent_instruction_file_operands args =
     (let operands = file_operands args
      in operands \<noteq> [] \<and> list_all allowed_agent_instruction_file operands)"

definition shell_command_emulates_file_tool :: "shell_command \<Rightarrow> bool" where
  "shell_command_emulates_file_tool c =
     (let name = path_base (cmd_name c); args = tl (cmd_argv c)
      in if redirects_read_file (cmd_redirects c) then True
         else if name = ''cat'' then command_has_file_operand args
         else if name = ''sed'' then sed_reads_file_operand args
         else if name = ''awk'' then awk_reads_file_operand args
         else if name = ''tee'' then command_has_file_operand args
         else if name \<in> {''echo'', ''printf''} then redirects_write_file (cmd_redirects c)
         else False)"

definition shell_command_reads_allowed_agent_instruction :: "shell_command \<Rightarrow> bool" where
  "shell_command_reads_allowed_agent_instruction c =
     (if 0 < length (cmd_redirects c) \<or> redirects_read_file (cmd_redirects c) then False
      else
        let name = path_base (cmd_name c)
        in if name = ''cat'' then allowed_agent_instruction_file_operands (tl (cmd_argv c))
           else if name = ''sed'' then
             allowed_agent_instruction_file_operands (sed_file_operands (tl (cmd_argv c)))
           else False)"

definition shell_command_emulates_disallowed_file_tool :: "shell_command \<Rightarrow> bool" where
  "shell_command_emulates_disallowed_file_tool c =
     (if \<not> shell_command_emulates_file_tool c then False
      else \<not> shell_command_reads_allowed_agent_instruction c)"

definition provider_supports_shell_file_tool_replacement :: "string \<Rightarrow> bool" where
  "provider_supports_shell_file_tool_replacement provider \<longleftrightarrow> provider \<in> {claude, gemini}"

definition shell_file_tool_route_for :: "'n bash \<Rightarrow> environment \<Rightarrow> event \<Rightarrow> inspection_route" where
  "shell_file_tool_route_for B env e =
     (if ev_hook_event_name e \<noteq> ''PreToolUse'' \<or> ev_tool_name e \<noteq> ''Bash'' then no_route
      else if \<not> provider_supports_shell_file_tool_replacement (Provider env e) then no_route
      else
        let command = trim_space (Command e)
        in if command = [] then no_route
           else case Commands B command of
                  Inl err \<Rightarrow> no_route
                | Inr commands \<Rightarrow>
                    if list_ex shell_command_emulates_disallowed_file_tool commands then
                      no_route\<lparr>route_block := True,
                        route_block_policy_id := ''shell.file_tool_emulation'',
                        route_reason := ''Shell file access must use provider file tools instead of '' @
                          ''Bash file-tool emulation.''\<rparr>
                    else no_route)"

section \<open>What the read-only fast path accepts\<close>

text \<open>
  The name of a collected command is the first field of its first word, unless it declares a
  function.
\<close>

definition named_by_word :: "shell_command \<Rightarrow> bool" where
  "named_by_word c =
     (cmd_function_declaration c \<or>
      cmd_name c = (case cmd_argv c of [] \<Rightarrow> [] | w # _ \<Rightarrow> command_name w))"

lemma apply_node_flags_decl:
  "cmd_function_declaration c \<Longrightarrow> cmd_function_declaration (apply_node_flags B n c)"
proof -
  have "cmd_function_declaration c \<Longrightarrow> cmd_function_declaration (fold apply_node_kind ks c)" for ks
  proof (induction ks arbitrary: c)
    case Nil
    then show ?case by simp
  next
    case (Cons k ks)
    then show ?case by (cases k) simp_all
  qed
  then show "cmd_function_declaration c \<Longrightarrow> cmd_function_declaration (apply_node_flags B n c)"
    by (simp add: apply_node_flags_def)
qed

interpretation worded: command_invariant B named_by_word for B
  by unfold_locales
     (auto simp: named_by_word_def command_from_call_argv command_from_call_name
        command_from_func_decl_def apply_node_flags_argv apply_node_flags_name
        apply_node_flags_decl Let_def split: list.splits)

lemma Commands_argvs:
  assumes "bash_parse B text = Inr ss"
  shows "\<exists>cs. Commands B text = Inr cs \<and> map cmd_argv cs = stmts_argvs ss B"
  using assms walk_statements_argvs [where st = "([], [])" and B = B and first = True, OF walk_argvs(1)]
  by (auto simp: Commands_def parse_def)

text \<open>
  Fact. The fast path that skips all policies is taken only for inspections: every command
  of the accepted text, in whatever block, operator or subshell it stands, starts with a program
  of the read-only list, and a \<open>find\<close> has none of its options that delete or execute.
\<close>

theorem read_only_command_reads:
  assumes "ReadOnlyInspectionCommand B text" and "bash_parse B text = Inr ss"
    and "argv \<in> set (stmts_argvs ss B)"
  shows "\<exists>w args. argv = w # args \<and> read_only_inspection_name (command_name w) \<and>
    (command_name w = ''find'' \<longrightarrow>
       set args \<inter> {''-delete'', ''-exec'', ''-execdir'', ''-ok'', ''-okdir''} = {})"
proof -
  obtain cs where cs: "Commands B text = Inr cs" "map cmd_argv cs = stmts_argvs ss B"
    using Commands_argvs [OF assms(2)] by blast
  then obtain c where c: "c \<in> set cs" "argv = cmd_argv c"
    using assms(3) by (metis (no_types, lifting) image_iff image_set)
  have step: "is_read_only_inspection_step c"
    using assms(1) cs(1) c(1) by (simp add: ReadOnlyInspectionCommand_def list_all_iff)
  moreover have "named_by_word c"
    using worded.Commands_all [OF cs(1)] c(1) by (simp add: list_all_iff)
  ultimately have name: "cmd_name c = (case argv of [] \<Rightarrow> [] | w # _ \<Rightarrow> command_name w)"
    using c(2) by (auto simp: named_by_word_def is_read_only_inspection_step_def split: if_splits)
  show ?thesis
  proof (cases argv)
    case Nil
    with name step show ?thesis by (simp add: is_read_only_inspection_step_def)
  next
    case (Cons w args)
    with name have n: "cmd_name c = command_name w" by simp
    from step n have "read_only_inspection_name (command_name w)"
      by (auto simp: is_read_only_inspection_step_def split: if_splits)
    moreover from step n Cons c(2)
    have "list_all (\<lambda>a. \<not> mutating_inspection_arg (command_name w) a) args"
      by (auto simp: is_read_only_inspection_step_def read_only_inspection_args_def split: if_splits)
    ultimately show ?thesis
      using Cons by (auto simp: mutating_inspection_arg_def list_all_iff)
  qed
qed

theorem read_only_command_reads_witness:
  "\<exists>w args. [''find'', ''.''] = w # args \<and> read_only_inspection_name (command_name w) \<and>
    (command_name w = ''find'' \<longrightarrow>
       set args \<inter> {''-delete'', ''-exec'', ''-execdir'', ''-ok'', ''-okdir''} = {})"
proof (rule read_only_command_reads)
  let ?ss = "[lit_stmt (lit_call [''find'', ''.'']) False]"
  show "ReadOnlyInspectionCommand (sample_bash ?ss) ''x''" by code_simp
  show "bash_parse (sample_bash ?ss) ''x'' = Inr ?ss" by (simp add: sample_bash_def)
  show "[''find'', ''.''] \<in> set (stmts_argvs ?ss (sample_bash ?ss))" by code_simp
qed

text \<open>Calls of literal words.\<close>

lemma word_string_lit: "word_string B (lit_word s) = s"
  by (simp add: word_string_def word_info_for_def lit_word_def add_part_def empty_info_def)

lemma lit_call_flags:
  assumes "bash_walk B 0 = []"
  shows "\<not> cmd_background (command_from_call B 0 [] (map lit_word ws)) \<and>
    \<not> cmd_command_substitution (command_from_call B 0 [] (map lit_word ws)) \<and>
    \<not> cmd_dynamic_expansion (command_from_call B 0 [] (map lit_word ws)) \<and>
    \<not> cmd_heredoc (command_from_call B 0 [] (map lit_word ws)) \<and>
    \<not> cmd_process_substitution (command_from_call B 0 [] (map lit_word ws)) \<and>
    \<not> cmd_subshell (command_from_call B 0 [] (map lit_word ws)) \<and>
    \<not> cmd_function_declaration (command_from_call B 0 [] (map lit_word ws)) \<and>
    cmd_redirects (command_from_call B 0 [] (map lit_word ws)) = []"
proof -
  let ?ok = "\<lambda>c. \<not> cmd_background c \<and> \<not> cmd_command_substitution c \<and> \<not> cmd_dynamic_expansion c \<and>
    \<not> cmd_heredoc c \<and> \<not> cmd_process_substitution c \<and> \<not> cmd_subshell c \<and>
    \<not> cmd_function_declaration c \<and> cmd_redirects c = []"
  have "?ok c \<Longrightarrow> ?ok (fold (add_argument B) (map lit_word ws) c)" for c
    by (induction ws arbitrary: c)
       (auto simp: add_argument_def merge_word_info_def word_info_for_def lit_word_def add_part_def
          empty_info_def Let_def)
  then show ?thesis
    using assms
    by (auto simp: command_from_call_def apply_node_flags_def empty_command_def Let_def
        split: list.split)
qed

text \<open>
  Fact. The list holds programs that can write: any call of \<open>yq\<close> or \<open>sort\<close> with literal
  words is taken for a read-only inspection, so \<open>yq -i\<close> and \<open>sort -o\<close> change files without any
  policy being consulted.
\<close>

theorem in_place_tools_accepted:
  assumes "bash_parse B text = Inr [lit_stmt (lit_call (name # args)) False]"
    and "name \<in> {''yq'', ''sort''}" and "bash_walk B 0 = []"
  shows "ReadOnlyInspectionCommand B text"
proof -
  let ?c = "command_from_call B 0 [] (map lit_word (name # args))"
  have "Commands B text = Inr [?c]"
    using assms(1) by (simp add: Commands_def parse_def lit_stmt_def lit_call_def
        mark_background_def append_redirects_def Let_def)
  moreover have name: "cmd_name ?c = name"
  proof -
    have "command_name ''yq'' = ''yq''" "command_name ''sort'' = ''sort''" by code_simp+
    with assms(2) show ?thesis by (auto simp: command_from_call_name word_string_lit)
  qed
  moreover have "is_read_only_inspection_step ?c"
    using lit_call_flags [OF assms(3), of "name # args"] name assms(2)
    by (auto simp: is_read_only_inspection_step_def read_only_inspection_args_def
        read_only_inspection_redirects_def mutating_inspection_arg_def
        read_only_inspection_name_def list_all_iff)
  ultimately show ?thesis by (simp add: ReadOnlyInspectionCommand_def)
qed

theorem in_place_tools_accepted_witness:
  "ReadOnlyInspectionCommand
     (sample_bash [lit_stmt (lit_call [''yq'', ''-i'', ''.a = 1'', ''config.yaml'']) False]) ''x''"
  by (rule in_place_tools_accepted [where name = "''yq''" and args = "[''-i'', ''.a = 1'', ''config.yaml'']"])
     (simp_all add: sample_bash_def)

section \<open>What the file tool route recognises\<close>

lemma file_operand_loops:
  "command_has_file_operand_loop oo args \<longleftrightarrow> file_operands_loop oo args \<noteq> []"
  by (induction oo args rule: file_operands_loop.induct) auto

text \<open>
  Fact. The detector that refuses a \<open>cat\<close> and the collector that decides which of them are
  allowed agree on what a file operand is: one is refused exactly when the list of the other is
  not empty.
\<close>

theorem file_operand_detector_agrees:
  "command_has_file_operand args \<longleftrightarrow> file_operands args \<noteq> []"
  by (simp add: command_has_file_operand_def file_operands_def file_operand_loops)

text \<open>
  Fact. A file that may be read from the shell is exactly a skill document: the cleaned path
  is \<open>.agents/skills/<name>/SKILL.md\<close> or the same under \<open>.codex\<close>, with one proper name in the
  middle, however the path was written. Double dots cannot smuggle in another directory.
\<close>

theorem allowed_instruction_file_is_skill:
  "allowed_agent_instruction_file path \<longleftrightarrow>
     (\<exists>root name. path_clean path = root @ ''/skills/'' @ name @ ''/SKILL.md'' \<and>
        root \<in> {''.agents'', ''.codex''} \<and> CHR ''/'' \<notin> set name \<and> name \<notin> {[], ''.'', ''..''})"
  (is "?L \<longleftrightarrow> ?R")
proof
  assume ?L
  define parts where "parts = split_on CHR ''/'' (path_clean path)"
  from \<open>?L\<close> have p: "length parts = 4" "parts ! 3 = ''SKILL.md''" "parts ! 0 \<in> {''.agents'', ''.codex''}"
    "parts ! 1 = ''skills''" "parts ! 2 \<noteq> ''.''" "parts ! 2 \<noteq> []"
    by (auto simp: allowed_agent_instruction_file_def parts_def Let_def split: if_splits)
  then obtain root name where parts: "parts = [root, ''skills'', name, ''SKILL.md'']"
    by (auto simp: numeral_eq_Suc length_Suc_conv)
  have "hd parts \<noteq> []" using p(3) parts by auto
  with path_clean_parts [OF parts_def [symmetric]] parts
  obtain k ws where kw: "parts = replicate k ''..'' @ ws" "set ws \<inter> {[], ''.'', ''..''} = {}"
    by auto
  have "k = 0" using kw(1) p(3) parts by (cases k) auto
  with kw parts have "name \<notin> {[], ''.'', ''..''}" by auto
  moreover have "CHR ''/'' \<notin> set name"
    using split_on_parts [of name "CHR ''/''" "path_clean path"] parts parts_def by simp
  moreover have "path_clean path = str_join ''/'' parts"
    by (simp add: parts_def)
  ultimately show ?R using parts p(3) by (intro exI [of _ root] exI [of _ name]) auto
next
  assume ?R
  then obtain root name where r: "path_clean path = root @ ''/skills/'' @ name @ ''/SKILL.md''"
    "root \<in> {''.agents'', ''.codex''}" "CHR ''/'' \<notin> set name" "name \<notin> {[], ''.'', ''..''}" by blast
  have "CHR ''/'' \<notin> set root" using r(2) by auto
  then have "split_on CHR ''/'' (path_clean path) = [root, ''skills'', name, ''SKILL.md'']"
    using split_on_append_sep [of "CHR ''/''" root "''skills/'' @ name @ ''/SKILL.md''"]
      split_on_append_sep [of "CHR ''/''" name "''SKILL.md''"] r(1,3) by simp
  with r(2,4) show ?L by (auto simp: allowed_agent_instruction_file_def)
qed

text \<open>
  Fact. The detectors for \<open>sed\<close> and \<open>awk\<close> stop at the first operand: when a double dash makes
  the standard input that operand, the files behind it are read without being noticed, although
  the collector of operands lists them.
\<close>

theorem stdin_first_hides_files:
  assumes "file \<noteq> ''-''" and "script \<noteq> ''--''" and "file \<noteq> ''--''"
  shows "\<not> sed_reads_file_operand [''--'', script, ''-'', file] \<and>
    \<not> awk_reads_file_operand [''--'', script, ''-'', file] \<and>
    sed_file_operands [''--'', script, ''-'', file] = [file]"
  using assms
  by (simp add: sed_reads_file_operand_def awk_reads_file_operand_def sed_file_operands_def)

theorem stdin_first_hides_files_witness:
  "\<not> sed_reads_file_operand [''--'', ''p'', ''-'', ''secret.txt'']"
  using stdin_first_hides_files [of "''secret.txt''" "''p''"] by simp

end
