(* ===== verification/Shellquote.thy ===== *)
theory Shellquote
  imports GoStrings
begin

text \<open>
  \<open>go/internal/shellquote/shellquote.go\<close>: the quoting of one argument and of an argument list
  for commands shown to a user or rewritten into a hook answer. The specification beside it,
  \<open>sh_words\<close>, is a POSIX reader for the words of a simple command: blanks separate words,
  single quotes and backslashes quote, and any other active character makes the text something
  else than a list of plain words (\<open>None\<close>). What a shell does with the first words of a command
  (assignments, reserved words) is in \<open>ShellReading\<close>.
\<close>

section \<open>The quoting functions\<close>

definition shell_special :: string where
  "shell_special = [CHR '' '', CHR 0x09, CHR 0x0A, CHR 0x27, CHR 0x22, CHR 0x5C] @
     ''$`!*?[]{}();<>|&''"

definition Arg :: "string \<Rightarrow> string" where
  "Arg value =
     (if value = [] then [CHR 0x27, CHR 0x27]
      else if \<not> contains_any value shell_special then value
      else [CHR 0x27] @
           replace_all [CHR 0x27] [CHR 0x27, CHR 0x5C, CHR 0x27, CHR 0x27] value @ [CHR 0x27])"

definition Command_line :: "string list \<Rightarrow> string" where
  "Command_line argv = str_join '' '' (map Arg argv)"

section \<open>A POSIX word reader\<close>

definition sh_blank :: "char \<Rightarrow> bool" where
  "sh_blank c \<longleftrightarrow> c = CHR '' '' \<or> c = CHR 0x09"

text \<open>Characters that are not plain when they occur unquoted inside a word.\<close>

definition sh_active :: "char \<Rightarrow> bool" where
  "sh_active c \<longleftrightarrow> c = CHR 0x0A \<or> c = CHR 0x22 \<or> c \<in> set ''$`!*?[]{}();<>|&''"

text \<open>At the start of a word a hash begins a comment and a tilde is expanded.\<close>

definition sh_active_first :: "char \<Rightarrow> bool" where
  "sh_active_first c \<longleftrightarrow> sh_active c \<or> c = CHR ''#'' \<or> c = CHR ''~''"

datatype sh_mode = Between | In_word string | In_quote string

fun sh_scan :: "sh_mode \<Rightarrow> string \<Rightarrow> string list option" where
  "sh_scan Between [] = Some []"
| "sh_scan (In_word acc) [] = Some [rev acc]"
| "sh_scan (In_quote acc) [] = None"
| "sh_scan (In_quote acc) (c # s) =
     (if c = CHR 0x27 then sh_scan (In_word acc) s else sh_scan (In_quote (c # acc)) s)"
| "sh_scan Between (c # s) =
     (if sh_blank c then sh_scan Between s
      else if c = CHR 0x27 then sh_scan (In_quote []) s
      else if c = CHR 0x5C then
        (case s of [] \<Rightarrow> None | d # s' \<Rightarrow> if d = CHR 0x0A then None else sh_scan (In_word [d]) s')
      else if sh_active_first c then None
      else sh_scan (In_word [c]) s)"
| "sh_scan (In_word acc) (c # s) =
     (if sh_blank c then map_option ((#) (rev acc)) (sh_scan Between s)
      else if c = CHR 0x27 then sh_scan (In_quote acc) s
      else if c = CHR 0x5C then
        (case s of [] \<Rightarrow> None
                 | d # s' \<Rightarrow> if d = CHR 0x0A then None else sh_scan (In_word (d # acc)) s')
      else if sh_active c then None
      else sh_scan (In_word (c # acc)) s)"

definition sh_words :: "string \<Rightarrow> string list option" where
  "sh_words s = sh_scan Between s"

section \<open>Reading back what was quoted\<close>

lemma not_special_plain:
  "c \<notin> set shell_special \<Longrightarrow> \<not> sh_blank c \<and> c \<noteq> CHR 0x27 \<and> c \<noteq> CHR 0x5C \<and> \<not> sh_active c"
  by (auto simp: shell_special_def sh_blank_def sh_active_def)

lemma sh_scan_plain_word:
  "(\<And>c. c \<in> set v \<Longrightarrow> c \<notin> set shell_special) \<Longrightarrow>
   sh_scan (In_word acc) (v @ s) = sh_scan (In_word (rev v @ acc)) s"
  by (induction v arbitrary: acc) (simp_all add: not_special_plain)

lemma sh_scan_quoted:
  "sh_scan (In_quote acc)
     (replace_all [CHR 0x27] [CHR 0x27, CHR 0x5C, CHR 0x27, CHR 0x27] v @ CHR 0x27 # s) =
   sh_scan (In_word (rev v @ acc)) s"
  by (induction v arbitrary: acc) (simp_all add: sh_blank_def)

text \<open>The arguments the reader gets back: those that are quoted or start plainly.\<close>

definition starts_plain :: "string \<Rightarrow> bool" where
  "starts_plain v \<longleftrightarrow>
     v = [] \<or> contains_any v shell_special \<or> hd v \<noteq> CHR ''#'' \<and> hd v \<noteq> CHR ''~''"

lemma sh_scan_Arg:
  assumes "starts_plain v"
  shows "sh_scan Between (Arg v @ s) = sh_scan (In_word (rev v)) s"
proof (cases "v = [] \<or> contains_any v shell_special")
  case True
  then show ?thesis
    using sh_scan_quoted [of "[]" v s] by (auto simp: Arg_def sh_blank_def contains_any_def)
next
  case False
  then obtain c w where v: "v = c # w" by (cases v) auto
  from False have plain: "\<And>d. d \<in> set v \<Longrightarrow> d \<notin> set shell_special"
    by (auto simp: contains_any_def list_ex_iff)
  with assms False v have "\<not> sh_active_first c"
    by (simp add: starts_plain_def sh_active_first_def not_special_plain)
  with False v plain not_special_plain [of c] show ?thesis
    by (simp add: Arg_def sh_scan_plain_word)
qed

text \<open>A piece of text that the reader turns into one word, whatever follows it.\<close>

definition reads_as :: "string \<Rightarrow> string \<Rightarrow> bool" where
  "reads_as piece w \<longleftrightarrow> (\<forall>s. sh_scan Between (piece @ s) = sh_scan (In_word (rev w)) s)"

lemma reads_as_Arg: "starts_plain v \<Longrightarrow> reads_as (Arg v) v"
  by (simp add: reads_as_def sh_scan_Arg)

lemma reads_as_join:
  "list_all2 reads_as pieces ws \<Longrightarrow> sh_words (str_join '' '' pieces) = Some ws"
proof (induction rule: list_all2_induct)
  case Nil
  then show ?case by (simp add: sh_words_def)
next
  case (Cons p ps w ws)
  show ?case
  proof (cases ps)
    case Nil
    with Cons show ?thesis
      using spec [OF Cons.hyps(1) [unfolded reads_as_def], of "[]"] by (simp add: sh_words_def)
  next
    case (Cons q qs)
    then have "str_join '' '' (p # ps) = p @ CHR '' '' # str_join '' '' ps" by simp
    then show ?thesis
      using Cons.hyps(1) Cons.IH by (simp add: sh_words_def reads_as_def sh_blank_def)
  qed
qed

lemma sh_words_Command_line_aux:
  "(\<And>v. v \<in> set argv \<Longrightarrow> starts_plain v) \<Longrightarrow> sh_words (Command_line argv) = Some argv"
  unfolding Command_line_def
  by (rule reads_as_join) (simp add: list_all2_conv_all_nth reads_as_Arg)

text \<open>
  Fact. The condition \<open>starts_plain\<close> is needed: \<open>Arg\<close> leaves an argument that starts with a hash or with a
  tilde as it is, and the shell does not read that text back as the argument.
\<close>

theorem Arg_leaves_hash_and_tilde:
  "Arg ''#x'' = ''#x'' \<and> sh_words (Arg ''#x'') \<noteq> Some [''#x''] \<and>
   Arg ''~/x'' = ''~/x'' \<and> sh_words (Arg ''~/x'') \<noteq> Some [''~/x'']"
  by (simp add: Arg_def contains_any_def shell_special_def sh_words_def sh_blank_def
      sh_active_first_def sh_active_def)

end
