(* ===== verification/DebugFlag.thy ===== *)
theory DebugFlag
  imports Routes Shellquote
begin

text \<open>
  \<open>go/internal/hooks/debug_flag.go\<close>: the flag \<open>--coding-ethos-debug\<close> that an agent may put into a
  Bash command. It is stripped before the policies see the command, and the command that is run
  gets the debug variable exported in front. The debug log itself is not modelled.
\<close>

definition debug_flag :: string where
  "debug_flag = ''--coding-ethos-debug''"

definition debug_env_assignment :: string where
  "debug_env_assignment = ''CODE_ETHOS_HOOK_DEBUG=1''"

definition shell_command_requests_debug :: "shell_command \<Rightarrow> bool" where
  "shell_command_requests_debug c \<longleftrightarrow>
     debug_flag \<in> set (cmd_argv c) \<or> debug_env_assignment \<in> set (cmd_assignments c) \<or>
     (path_base (cmd_name c) = ''export'' \<and> debug_env_assignment \<in> set (cmd_argv c))"

definition command_requests_debug :: "'n bash \<Rightarrow> string \<Rightarrow> bool" where
  "command_requests_debug B command =
     (case Commands B command of
        Inl e \<Rightarrow> False
      | Inr commands \<Rightarrow> list_ex shell_command_requests_debug commands)"

definition shell_control_token :: "string \<Rightarrow> bool" where
  "shell_control_token t \<longleftrightarrow> t \<in> {'';'', ''&&'', ''||'', ''|'', ''|&'', ''&''}"

definition shell_assignment_token :: "string \<Rightarrow> bool" where
  "shell_assignment_token t =
     (if contains_any t [CHR ''/'', CHR 0x20, CHR 0x09] then False
      else case str_cut t ''='' of
             (name, v, found) \<Rightarrow> if \<not> found \<or> name = [] then False else path_base name = name)"

definition shell_command_from_tokens :: "string list \<Rightarrow> string" where
  "shell_command_from_tokens tokens =
     str_join '' ''
       (map (\<lambda>t. if shell_control_token t \<or> shell_assignment_token t then t else Arg t) tokens)"

definition strip_debug_flag_from_shell_command :: "'n bash \<Rightarrow> string \<Rightarrow> string \<times> bool" where
  "strip_debug_flag_from_shell_command B command =
     (case ControlFields B command of
        Inl e \<Rightarrow> (command, False)
      | Inr tokens \<Rightarrow>
          if debug_flag \<notin> set tokens then (command, False)
          else (shell_command_from_tokens (filter (\<lambda>t. t \<noteq> debug_flag) tokens), True))"

definition updated_bash_input :: "any_map option \<Rightarrow> string \<Rightarrow> any_map" where
  "updated_bash_input original command =
     map_set ''command'' (AString command) (case original of None \<Rightarrow> [] | Some m \<Rightarrow> m)"

definition event_without_debug_flag :: "'n bash \<Rightarrow> event \<Rightarrow> event \<times> bool" where
  "event_without_debug_flag B e =
     (if ev_tool_name e \<noteq> ''Bash'' then (e, False)
      else
        let command = trim_space (Command e)
        in if command = [] \<or> \<not> command_requests_debug B command then (e, False)
           else case strip_debug_flag_from_shell_command B command of
                  (rewritten, stripped) \<Rightarrow>
                    if \<not> stripped then (e, False)
                    else (e\<lparr>ev_tool_input := Some (updated_bash_input (ev_tool_input e) rewritten)\<rparr>,
                          True))"

definition route_command :: "event \<Rightarrow> inspection_route \<Rightarrow> string" where
  "route_command e route =
     (case input_string (route_updated_input route) ''command'' of
        Some command \<Rightarrow> command
      | None \<Rightarrow> Command e)"

definition rewrite_command_with_debug_env :: "'n bash \<Rightarrow> string \<Rightarrow> string" where
  "rewrite_command_with_debug_env B text =
     (let command = trim_space text
      in if command = [] then ''export '' @ debug_env_assignment
         else if command_requests_debug B command then command
         else ''export '' @ debug_env_assignment @ ''; '' @ command)"

definition route_with_debug_env :: "'n bash \<Rightarrow> event \<Rightarrow> inspection_route \<Rightarrow> inspection_route" where
  "route_with_debug_env B e route =
     (let rewritten = rewrite_command_with_debug_env B (route_command e route)
      in if route_block route then route
         else
           let updated = (case route_updated_input route of
                            None \<Rightarrow> updated_bash_input (ev_tool_input e) rewritten
                          | Some m \<Rightarrow> updated_bash_input (Some m) rewritten)
           in route\<lparr>route_updated_input := Some updated,
                route_reason := (if route_reason route = []
                                 then ''Captured coding-ethos debug flag.'' else route_reason route),
                route_rewrite := True\<rparr>)"

section \<open>What stripping does to a command\<close>

lemma updated_bash_input_command: "map_of (updated_bash_input m c) ''command'' = Some (AString c)"
  by (simp add: updated_bash_input_def)

lemma updated_bash_input_other:
  "key \<noteq> ''command'' \<Longrightarrow>
   map_of (updated_bash_input m c) key = (case m of None \<Rightarrow> None | Some kvs \<Rightarrow> map_of kvs key)"
  by (simp add: updated_bash_input_def split: option.split)

lemma Command_updated:
  "Command (e\<lparr>ev_tool_input := Some (updated_bash_input m c)\<rparr>) = c"
  by (simp add: Command_def input_string_def updated_bash_input_command)

lemma shell_command_from_words:
  assumes "\<And>t. t \<in> set tokens \<Longrightarrow> \<not> shell_control_token t \<and> \<not> shell_assignment_token t"
  shows "shell_command_from_tokens tokens = Command_line tokens"
proof -
  have "map (\<lambda>t. if shell_control_token t \<or> shell_assignment_token t then t else Arg t) tokens =
      map Arg tokens"
    using assms by simp
  then show ?thesis unfolding shell_command_from_tokens_def Command_line_def by (rule arg_cong)
qed

text \<open>
  Fact. What the policies inspect after the flag is stripped: when the command is a single
  one without assignments, its text is read by the shell as the fields of the original without
  the flag, each of them one plain word. That includes the fields that were redirections, such as
  \<open>>log\<close>: in the rewritten command they are ordinary arguments.
\<close>

theorem stripped_command_reads_back:
  assumes "ControlFields B command = Inr tokens" and "debug_flag \<in> set tokens"
    and "\<And>t. t \<in> set tokens \<Longrightarrow> \<not> shell_control_token t \<and> \<not> shell_assignment_token t \<and> starts_plain t"
  shows "snd (strip_debug_flag_from_shell_command B command) \<and>
    sh_words (fst (strip_debug_flag_from_shell_command B command)) =
      Some (filter (\<lambda>t. t \<noteq> debug_flag) tokens)"
proof -
  let ?ts = "filter (\<lambda>t. t \<noteq> debug_flag) tokens"
  have "shell_command_from_tokens ?ts = Command_line ?ts"
    using assms(3) by (intro shell_command_from_words) auto
  moreover have "sh_words (Command_line ?ts) = Some ?ts"
    using assms(3) by (intro sh_words_Command_line_aux) auto
  ultimately show ?thesis
    using assms(1,2) by (simp add: strip_debug_flag_from_shell_command_def)
qed

definition redirected_debug_bash :: "nat bash" where
  "redirected_debug_bash =
     sample_bash [Stmt 0 (lit_call [''echo'', ''x'', ''--coding-ethos-debug''])
                    [Redirect None ''>'' (Some (lit_word ''log'')) None] False]"

theorem stripped_command_reads_back_witness:
  "sh_words (fst (strip_debug_flag_from_shell_command redirected_debug_bash ''x'')) =
     Some [''echo'', ''x'', ''>log'']"
proof -
  let ?tokens = "[''echo'', ''x'', ''--coding-ethos-debug'', ''>log'']"
  have f: "ControlFields redirected_debug_bash ''x'' = Inr ?tokens" by code_simp
  have "list_all (\<lambda>t. \<not> shell_control_token t \<and> \<not> shell_assignment_token t \<and> starts_plain t) ?tokens"
    by code_simp
  then have "\<And>t. t \<in> set ?tokens \<Longrightarrow>
      \<not> shell_control_token t \<and> \<not> shell_assignment_token t \<and> starts_plain t"
    by (simp only: list_all_iff) blast
  from stripped_command_reads_back [OF f _ this] show ?thesis by (simp add: debug_flag_def)
qed

text \<open>
  Fact. Stripping changes nothing but the command: every other field of the tool input and
  the rest of the event are those the agent sent, and without the flag the event is unchanged.
\<close>

theorem strip_preserves_event:
  "case event_without_debug_flag B e of
     (e', requested) \<Rightarrow>
       (if requested
        then tool_input_field e' ''command'' = Some (AString (Command e')) \<and>
             ev_tool_name e' = ''Bash''
        else e' = e) \<and>
       e'\<lparr>ev_tool_input := ev_tool_input e\<rparr> = e \<and>
       map (tool_input_field e') (filter (\<lambda>k. k \<noteq> ''command'') keys) =
         map (tool_input_field e) (filter (\<lambda>k. k \<noteq> ''command'') keys)"
  by (auto simp: event_without_debug_flag_def Let_def tool_input_field_def updated_bash_input_command
      Command_updated updated_bash_input_other split: prod.split option.split)

text \<open>
  Fact. A route that does not block comes back as a rewrite whose command exports the debug
  variable in front of the command it had, or asks for debugging itself; its other fields of
  input are kept. A blocking route is returned as it is.
\<close>

theorem route_with_debug_env_effect:
  "if route_block route then route_with_debug_env B e route = route
   else route_rewrite (route_with_debug_env B e route) \<and>
     route_reason (route_with_debug_env B e route) \<noteq> [] \<and>
     input_string (route_updated_input (route_with_debug_env B e route)) ''command'' =
       Some (rewrite_command_with_debug_env B (route_command e route)) \<and>
     route_block_policy_id (route_with_debug_env B e route) = route_block_policy_id route"
  by (simp add: route_with_debug_env_def Let_def input_string_def updated_bash_input_command
      split: option.split)

end
