(* ===== verification/HookRunner.thy ===== *)
theory HookRunner
  imports DebugFlag
begin

text \<open>
  The hook runner: \<open>go/internal/hooks/inspection.go\<close> (the inspection context and the merging of
  policy decisions with a route), \<open>runner.go\<close> (dispatch, evaluation, result), \<open>result.go\<close>,
  \<open>provider_output.go\<close> and the effect of \<open>contract_v1.go\<close>. What other files decide (the routes for
  memory files, Git, lint tools and Python, the edit checks, the context outputs, trace ids and
  rendered messages) comes in as the record \<open>hook_env\<close>; times and logs are left out.
\<close>

section \<open>Data\<close>

record inspection_context =
  ic_provider :: string
  ic_event :: event
  ic_admin_approved :: bool
  ic_read_only_inspection :: bool

record inspection_decision =
  insp_status :: string
  insp_route :: inspection_route
  insp_policies :: "decision list"

record hook_specific_output =
  hso_updated_input :: "any_map option"
  hso_event_name :: string
  hso_additional_context :: string
  hso_permission_decision :: string
  hso_permission_reason :: string

definition empty_output :: hook_specific_output where
  "empty_output = \<lparr>hso_updated_input = None, hso_event_name = [], hso_additional_context = [],
     hso_permission_decision = [], hso_permission_reason = []\<rparr>"

record hook_result =
  res_output :: "hook_specific_output option"
  res_correlation_id :: string
  res_event :: string
  res_provider :: string
  res_status :: string
  res_tracking_id :: string
  res_tool :: string
  res_decisions :: "decision list"

datatype hook_error =
    UnknownHookPolicy string
  | UnregisteredEvaluator string string
  | EvaluatePolicyFailed string string

record 'n hook_env =
  he_bash :: "'n bash"
  he_environ :: environment
  he_admin_approved :: "string \<Rightarrow> bool"
  he_memory_provider :: "event \<Rightarrow> string"
  he_memory_route :: "event \<Rightarrow> inspection_route"
  he_git_route :: "event \<Rightarrow> inspection_route"
  he_lint_route :: "event \<Rightarrow> inspection_route"
  he_python_route :: "event \<Rightarrow> inspection_route"
  he_edit_decisions :: "policy_bundle \<Rightarrow> event \<Rightarrow> decision list"
  he_context_outputs :: "policy_bundle \<Rightarrow> event \<Rightarrow> hook_specific_output option list"
  he_enrichment_output :: "event \<Rightarrow> hook_specific_output option"
  he_post_bash_output :: "policy_bundle \<Rightarrow> event \<Rightarrow> hook_specific_output option"
  he_trace_id :: "event \<Rightarrow> hook_result \<Rightarrow> string"
  he_block_message :: "hook_result \<Rightarrow> string"
  he_codex_message :: "hook_specific_output \<Rightarrow> string"

section \<open>Verdicts and route decisions\<close>

definition result_status :: "decision list \<Rightarrow> string" where
  "result_status ds =
     (if list_ex (\<lambda>d. dec_decision d = ''block'' \<or> dec_severity d = ''block'') ds
      then ''blocked'' else ''allowed'')"

definition route_block_decision :: "policy_bundle \<Rightarrow> string \<Rightarrow> string \<Rightarrow> decision" where
  "route_block_decision bundle policy_id0 reason =
     (let policy_id = (if policy_id0 = [] then ''git.wrapper_required'' else policy_id0);
          policy_def =
            (case map_of (bundle_policies bundle) policy_id of
               Some p \<Rightarrow> p
             | None \<Rightarrow>
                 \<lparr>pol_source = \<lparr>source_file = [], source_path = []\<rparr>, pol_category = ''tooling'',
                  pol_default_severity = ''block'', pol_id = policy_id, pol_message = reason,
                  pol_suggestion = [], pol_evaluators = [], pol_principle_ids = []\<rparr>)
      in (NewDecision ''block'' policy_def)
           \<lparr>dec_severity := ''block'', dec_message := reason,
            dec_suggestion :=
              (if pol_suggestion policy_def \<noteq> [] then pol_suggestion policy_def
               else if policy_id = ''shell.file_tool_emulation'' then
                 ''Use the provider Read, Edit, Write, or equivalent file '' @
                 ''tool instead of Bash file access.''
               else ''Resubmit the command through the suggested '' @
                 ''cerun command so git operations stay inside the managed policy path.'')\<rparr>)"

definition provider_supports_updated_input :: "string \<Rightarrow> bool" where
  "provider_supports_updated_input provider \<longleftrightarrow> provider \<in> {claude, coding_ethos, gemini}"

definition unsupported_rewrite_decision :: "policy_bundle \<Rightarrow> inspection_route \<Rightarrow> decision" where
  "unsupported_rewrite_decision bundle route =
     (let policy_id = (if route_block_policy_id route = [] then ''hook.provider_required''
                       else route_block_policy_id route);
          d = route_block_decision bundle policy_id
                (''Hook rewrite cannot be applied by this agent provider; blocking '' @
                 ''the original command instead of allowing an unmanaged command to run.'')
      in if route_remediation_command route \<noteq> [] then
           d\<lparr>dec_message := str_join '' '' [dec_message d,
                ''Resubmit the command through: '' @ route_remediation_command route],
             dec_suggestion := ''Resubmit the command through: '' @ route_remediation_command route\<rparr>
         else d)"

definition DecideInspection ::
  "policy_bundle \<Rightarrow> inspection_context \<Rightarrow> decision list \<Rightarrow> inspection_route \<Rightarrow> inspection_decision" where
  "DecideInspection bundle ctx policy_decisions route =
     (let d0 = policy_decisions;
          d1 = (if route_rewrite route \<and> ic_provider ctx = [] \<and> result_status d0 \<noteq> ''blocked''
                then d0 @ [route_block_decision bundle ''hook.provider_required''
                  (''Hook rewrites require a known agent provider so the updated input '' @
                   ''can be emitted with the correct provider schema.'')]
                else d0);
          d2 = (if route_block route \<and> result_status d1 \<noteq> ''blocked''
                then d1 @ [route_block_decision bundle (route_block_policy_id route) (route_reason route)]
                else d1);
          d3 = (if route_rewrite route \<and> \<not> provider_supports_updated_input (ic_provider ctx) \<and>
                   result_status d2 \<noteq> ''blocked''
                then d2 @ [unsupported_rewrite_decision bundle route]
                else d2);
          status = result_status d3
      in \<lparr>insp_status = status,
          insp_route =
            (if status = ''blocked'' \<or>
                (route_rewrite route \<and> \<not> provider_supports_updated_input (ic_provider ctx))
             then no_route else route),
          insp_policies = d3\<rparr>)"

definition CollectInspectionContext :: "'n hook_env \<Rightarrow> event \<Rightarrow> inspection_context" where
  "CollectInspectionContext H e =
     (let approved = he_admin_approved H (ev_cwd e);
          memory_provider = he_memory_provider H e
      in \<lparr>ic_provider = (if provider_supports_updated_input memory_provider then memory_provider
                         else Provider (he_environ H) e),
          ic_event = e, ic_admin_approved = approved,
          ic_read_only_inspection =
            read_only_inspection_event (he_bash H) (he_environ H) e approved\<rparr>)"

definition allowed_result :: "inspection_context \<Rightarrow> hook_result" where
  "allowed_result ctx =
     \<lparr>res_output = None, res_correlation_id = ev_correlation_id (ic_event ctx),
      res_event = ev_hook_event_name (ic_event ctx), res_provider = ic_provider ctx,
      res_status = ''allowed'', res_tracking_id = [], res_tool = ev_tool_name (ic_event ctx),
      res_decisions = []\<rparr>"

section \<open>Routes\<close>

fun first_route :: "(event \<Rightarrow> inspection_route) list \<Rightarrow> event \<Rightarrow> inspection_route" where
  "first_route [] e = no_route"
| "first_route (r # rs) e =
     (if route_block (r e) \<or> route_rewrite (r e) then r e else first_route rs e)"

definition route_tool_use :: "'n hook_env \<Rightarrow> inspection_context \<Rightarrow> inspection_route" where
  "route_tool_use H ctx =
     first_route
       [parallel_tool_batch_route_for, he_memory_route H, malformed_shell_route_for (he_bash H),
        required_gate_exit_status_route_for (he_bash H),
        shell_file_tool_route_for (he_bash H) (he_environ H), he_git_route H, he_lint_route H,
        he_python_route H] (ic_event ctx)"

section \<open>Dispatch\<close>

definition matches_command_patterns :: "string \<Rightarrow> string list \<Rightarrow> bool" where
  "matches_command_patterns command patterns =
     (patterns = [] \<or> list_ex (\<lambda>p. p \<noteq> [] \<and> str_contains command p) patterns)"

definition matches_path_pattern :: "string \<Rightarrow> string \<Rightarrow> bool" where
  "matches_path_pattern file pattern =
     (let f = trim_prefix file ''./''; p = trim_prefix pattern ''./''
      in if p = [] then False
         else if p = f then True
         else case cut_prefix p ''**/'' of
                Some suf \<Rightarrow>
                  (case path_match suf (path_base f) of
                     None \<Rightarrow> False
                   | Some True \<Rightarrow> True
                   | Some False \<Rightarrow> has_suffix f (CHR ''/'' # suf))
              | None \<Rightarrow>
                  (case path_match p f of
                     None \<Rightarrow> False
                   | Some True \<Rightarrow> True
                   | Some False \<Rightarrow>
                       if str_contains p ''/'' then False
                       else path_match p (path_base f) = Some True))"

definition matches_path_patterns :: "string list \<Rightarrow> string list \<Rightarrow> bool" where
  "matches_path_patterns files patterns =
     (if patterns = [] then True
      else if files = [] then False
      else list_ex (\<lambda>f. list_ex (matches_path_pattern f) patterns) files)"

definition apply_dispatch_mode :: "decision list \<Rightarrow> string \<Rightarrow> decision list" where
  "apply_dispatch_mode ds mode =
     (if mode = [] \<or> mode = ''block'' then ds
      else map (\<lambda>d. d\<lparr>dec_decision := mode, dec_severity := mode\<rparr>) ds)"

definition command_argv :: "'n bash \<Rightarrow> string \<Rightarrow> string list" where
  "command_argv B command =
     (if command = [] then []
      else case Fields B command of Inl e \<Rightarrow> [] | Inr argv \<Rightarrow> argv)"

definition evaluator_context :: "'n hook_env \<Rightarrow> inspection_context \<Rightarrow> eval_context" where
  "evaluator_context H ctx =
     (let e = ic_event ctx
      in empty_context
           \<lparr>ctx_scope := ev_hook_event_name e, ctx_event_name := ev_hook_event_name e,
            ctx_event_matcher := ev_matcher e, ctx_event_source := ev_source e,
            ctx_provider := Provider (he_environ H) e, ctx_session_id := ev_session_id e,
            ctx_strategic_intent := StrategicIntent e, ctx_active_todo := ActiveTodo e,
            ctx_tool := ev_tool_name e,
            ctx_tool_input_keys := any_map_keys (ev_tool_input e),
            ctx_tool_response_keys := any_map_keys (ev_tool_response e),
            ctx_transcript_path := ev_transcript_path e, ctx_return_code := ReturnCode e,
            ctx_has_return_code := HasReturnCode e,
            ctx_has_tool_input := (ev_tool_input e \<noteq> None),
            ctx_has_tool_response := (ev_tool_response e \<noteq> None),
            ctx_argv := command_argv (he_bash H) (Command e), ctx_command := Command e,
            ctx_content := Content e, ctx_old_content := OldContent e, ctx_cwd := ev_cwd e,
            ctx_files := Files e, ctx_admin_approved := ic_admin_approved ctx,
            ctx_read_only_inspection := ic_read_only_inspection ctx\<rparr>)"

text \<open>
  The loop over the evaluators of a policy: \<open>None\<close> when none of them has a decision.
\<close>

fun evaluate_specs ::
  "registry \<Rightarrow> policy \<Rightarrow> eval_context \<Rightarrow> evaluator_spec list \<Rightarrow> hook_error + decision list option" where
  "evaluate_specs R p ctx [] = Inr None"
| "evaluate_specs R p ctx (s # specs) =
     (case R (eval_name s) of
        None \<Rightarrow> Inl (UnregisteredEvaluator (pol_id p) (eval_name s))
      | Some evaluate \<Rightarrow>
          (case evaluate p (ctx\<lparr>ctx_options := eval_options s\<rparr>) of
             Inl message \<Rightarrow> Inl (EvaluatePolicyFailed (pol_id p) message)
           | Inr ds \<Rightarrow>
               if ds \<noteq> [] then Inr (Some ds)
               else evaluate_specs R p (ctx\<lparr>ctx_options := eval_options s\<rparr>) specs))"

definition dispatch_note :: "policy \<Rightarrow> string \<Rightarrow> event \<Rightarrow> decision" where
  "dispatch_note p mode e =
     (NewDecision mode p)
       \<lparr>dec_severity := mode,
        dec_evidence :=
          (''event'', AString (ev_hook_event_name e)) # (''tool'', AString (ev_tool_name e)) #
          (if Command e \<noteq> [] then [(''command'', AString (Command e))] else [])\<rparr>"

definition evaluate_hook_policy ::
  "'n hook_env \<Rightarrow> registry \<Rightarrow> inspection_context \<Rightarrow> policy \<Rightarrow> hook_dispatch_entry \<Rightarrow>
   hook_error + decision list" where
  "evaluate_hook_policy H R ctx p entry =
     (let e = ic_event ctx
      in if \<not> matches_command_patterns (Command e) (entry_command_patterns entry) then Inr []
         else if \<not> matches_path_patterns (Files e) (entry_path_patterns entry) then Inr []
         else case evaluate_specs R p (evaluator_context H ctx) (pol_evaluators p) of
                Inl err \<Rightarrow> Inl err
              | Inr (Some ds) \<Rightarrow> Inr (apply_dispatch_mode ds (entry_mode entry))
              | Inr None \<Rightarrow>
                  if entry_mode entry \<in> {''advise'', ''record'', ''annotate''}
                  then Inr [dispatch_note p (entry_mode entry) e]
                  else Inr [])"

fun dispatch_loop ::
  "'n hook_env \<Rightarrow> registry \<Rightarrow> policy_bundle \<Rightarrow> inspection_context \<Rightarrow> hook_dispatch_entry list \<Rightarrow>
   decision list \<Rightarrow> hook_error + decision list" where
  "dispatch_loop H R bundle ctx [] ds = Inr ds"
| "dispatch_loop H R bundle ctx (entry # entries) ds =
     (case map_of (bundle_policies bundle) (entry_policy_id entry) of
        None \<Rightarrow> Inl (UnknownHookPolicy (entry_policy_id entry))
      | Some p \<Rightarrow>
          (case evaluate_hook_policy H R ctx p entry of
             Inl err \<Rightarrow> Inl err
           | Inr evaluated \<Rightarrow>
               if result_status (ds @ evaluated) = ''blocked'' then Inr (ds @ evaluated)
               else dispatch_loop H R bundle ctx entries (ds @ evaluated)))"

definition dispatch_entries :: "policy_bundle \<Rightarrow> event \<Rightarrow> hook_dispatch_entry list" where
  "dispatch_entries bundle e =
     (case map_of (bundle_hooks bundle) (ev_hook_event_name e) of
        None \<Rightarrow> []
      | Some tools \<Rightarrow>
          (case map_of tools (ev_tool_name e) of None \<Rightarrow> [] | Some entries \<Rightarrow> entries))"

definition evaluate_dispatched_policies ::
  "'n hook_env \<Rightarrow> registry \<Rightarrow> policy_bundle \<Rightarrow> inspection_context \<Rightarrow> hook_error + decision list" where
  "evaluate_dispatched_policies H R bundle ctx =
     dispatch_loop H R bundle ctx (dispatch_entries bundle (ic_event ctx))
       (he_edit_decisions H bundle (ic_event ctx))"

definition evaluate_inspection ::
  "'n hook_env \<Rightarrow> registry \<Rightarrow> policy_bundle \<Rightarrow> inspection_context \<Rightarrow> hook_error + inspection_decision" where
  "evaluate_inspection H R bundle ctx =
     (let route = route_tool_use H ctx
      in case evaluate_dispatched_policies H R bundle ctx of
           Inl err \<Rightarrow> Inl err
         | Inr ds \<Rightarrow> Inr (DecideInspection bundle ctx ds route))"

section \<open>Merging outputs\<close>

text \<open>\<open>maps.Copy\<close>: every entry of the source is set in the destination.\<close>

definition maps_copy :: "any_map \<Rightarrow> any_map \<Rightarrow> any_map" where
  "maps_copy dst src = foldr (\<lambda>(k, v) m. map_set k v m) src dst"

definition output_input :: "hook_specific_output \<Rightarrow> any_map" where
  "output_input out = (case hso_updated_input out of None \<Rightarrow> [] | Some m \<Rightarrow> m)"

definition clone_updated_input :: "any_map option \<Rightarrow> any_map option" where
  "clone_updated_input m = (case m of None \<Rightarrow> None | Some kvs \<Rightarrow> if kvs = [] then None else Some kvs)"

definition merge_hook_output_fields ::
  "hook_specific_output \<Rightarrow> hook_specific_output \<Rightarrow> hook_specific_output" where
  "merge_hook_output_fields merged out =
     merged
       \<lparr>hso_event_name := fill_string (hso_event_name merged) (hso_event_name out),
        hso_permission_decision :=
          fill_string (hso_permission_decision merged) (hso_permission_decision out),
        hso_permission_reason :=
          fill_string (hso_permission_reason merged) (hso_permission_reason out),
        hso_updated_input :=
          (if output_input out = [] then hso_updated_input merged
           else Some (maps_copy (output_input merged) (output_input out)))\<rparr>"

fun merge_outputs_loop ::
  "hook_specific_output option list \<Rightarrow> hook_specific_output option \<Rightarrow> string list \<Rightarrow>
   hook_specific_output option \<times> string list" where
  "merge_outputs_loop [] merged contexts = (merged, contexts)"
| "merge_outputs_loop (None # outs) merged contexts = merge_outputs_loop outs merged contexts"
| "merge_outputs_loop (Some out # outs) merged contexts =
     merge_outputs_loop outs
       (Some (case merged of
                None \<Rightarrow> \<lparr>hso_updated_input = clone_updated_input (hso_updated_input out),
                         hso_event_name = hso_event_name out, hso_additional_context = [],
                         hso_permission_decision = hso_permission_decision out,
                         hso_permission_reason = hso_permission_reason out\<rparr>
              | Some m \<Rightarrow> merge_hook_output_fields m out))
       (let context = trim_space (hso_additional_context out)
        in if context \<noteq> [] then contexts @ [context] else contexts)"

definition merge_hook_specific_outputs ::
  "hook_specific_output option list \<Rightarrow> hook_specific_output option" where
  "merge_hook_specific_outputs outs =
     (case merge_outputs_loop outs None [] of
        (merged, contexts) \<Rightarrow>
          map_option (\<lambda>m. m\<lparr>hso_additional_context := str_join [CHR 0x0A, CHR 0x0A] contexts\<rparr>) merged)"

definition hook_specific_output_for ::
  "'n hook_env \<Rightarrow> policy_bundle \<Rightarrow> event \<Rightarrow> inspection_route \<Rightarrow> hook_specific_output option" where
  "hook_specific_output_for H bundle e route =
     (if route_rewrite route then
        Some (empty_output
          \<lparr>hso_event_name := ev_hook_event_name e, hso_permission_decision := ''allow'',
           hso_permission_reason := route_reason route,
           hso_updated_input := route_updated_input route\<rparr>)
      else case merge_hook_specific_outputs (he_context_outputs H bundle e) of
             Some out \<Rightarrow> Some out
           | None \<Rightarrow>
               let enrichment =
                 (if ev_hook_event_name e = ''PostToolUse'' \<and> ev_tool_name e \<noteq> ''Bash''
                  then he_enrichment_output H e else None)
               in case enrichment of
                    Some out \<Rightarrow> Some out
                  | None \<Rightarrow>
                      if ev_hook_event_name e \<noteq> ''PostToolUse'' \<or> ev_tool_name e \<noteq> ''Bash'' then None
                      else he_post_bash_output H bundle e)"

section \<open>The result\<close>

definition result_blocked :: "hook_result \<Rightarrow> bool" where
  "result_blocked r \<longleftrightarrow> res_status r = ''blocked''"

definition blocked_hook_specific_output ::
  "'n hook_env \<Rightarrow> hook_result \<Rightarrow> hook_specific_output option" where
  "blocked_hook_specific_output H r =
     (if \<not> result_blocked r \<or> res_event r \<noteq> ''PreToolUse'' \<or> res_provider r \<noteq> [] then None
      else Some (empty_output
        \<lparr>hso_event_name := res_event r, hso_permission_decision := ''deny'',
         hso_permission_reason := he_block_message H r\<rparr>))"

definition new_denial_tracking_id :: "'n hook_env \<Rightarrow> event \<Rightarrow> decision list \<Rightarrow> string" where
  "new_denial_tracking_id H e ds =
     he_trace_id H e
       \<lparr>res_output = None, res_correlation_id = [], res_event = ev_hook_event_name e,
        res_provider = Provider (he_environ H) e, res_status = ''blocked'', res_tracking_id = [],
        res_tool = ev_tool_name e, res_decisions = ds\<rparr>"

definition build_result ::
  "'n hook_env \<Rightarrow> policy_bundle \<Rightarrow> event \<Rightarrow> inspection_decision \<Rightarrow> hook_result" where
  "build_result H bundle e d =
     (let r0 = \<lparr>res_output = hook_specific_output_for H bundle e (insp_route d),
                res_correlation_id = ev_correlation_id e, res_event = ev_hook_event_name e,
                res_provider = Provider (he_environ H) e, res_status = insp_status d,
                res_tracking_id = [], res_tool = ev_tool_name e, res_decisions = insp_policies d\<rparr>;
          r1 = (if result_blocked r0
                then r0\<lparr>res_tracking_id := new_denial_tracking_id H e (insp_policies d)\<rparr> else r0)
      in if res_output r1 = None then r1\<lparr>res_output := blocked_hook_specific_output H r1\<rparr> else r1)"

definition ensure_result_correlation_id :: "'n hook_env \<Rightarrow> event \<Rightarrow> hook_result \<Rightarrow> hook_result" where
  "ensure_result_correlation_id H e r =
     (if res_correlation_id r \<noteq> [] then r else r\<lparr>res_correlation_id := he_trace_id H e r\<rparr>)"

definition RunWithRegistry ::
  "'n hook_env \<Rightarrow> policy_bundle \<Rightarrow> event \<Rightarrow> registry \<Rightarrow> hook_error + hook_result" where
  "RunWithRegistry H bundle original R =
     (case event_without_debug_flag (he_bash H) original of
        (e, debug_requested) \<Rightarrow>
          let ctx = CollectInspectionContext H e
          in if ic_read_only_inspection ctx
             then Inr (ensure_result_correlation_id H e (allowed_result ctx))
             else case evaluate_inspection H R bundle ctx of
                    Inl err \<Rightarrow> Inl err
                  | Inr d \<Rightarrow>
                      let d' = (if debug_requested \<and> ev_hook_event_name e = ''PreToolUse''
                                then d\<lparr>insp_route := route_with_debug_env (he_bash H) e (insp_route d)\<rparr>
                                else d)
                      in Inr (ensure_result_correlation_id H e (build_result H bundle e d')))"

section \<open>Verdicts\<close>

interpretation runner_verdict: verdict result_status "''blocked''"
  by unfold_locales (auto simp: result_status_def decision_blocks_def list_ex_iff)

lemma result_status_cases: "result_status ds = ''blocked'' \<or> result_status ds = ''allowed''"
  by (simp add: result_status_def)

lemma result_status_allowed: "result_status ds \<noteq> ''blocked'' \<Longrightarrow> result_status ds = ''allowed''"
  using result_status_cases by blast

lemma route_block_decision_blocks: "decision_blocks (route_block_decision bundle policy_id reason)"
  by (simp add: route_block_decision_def decision_blocks_def Let_def)

lemma unsupported_rewrite_decision_blocks: "decision_blocks (unsupported_rewrite_decision bundle route)"
  by (simp add: unsupported_rewrite_decision_def decision_blocks_def route_block_decision_def Let_def)

lemma appended_block:
  "result_status (ds @ [route_block_decision b policy_id reason]) = ''blocked''"
  "result_status (ds @ [unsupported_rewrite_decision b route]) = ''blocked''"
  using route_block_decision_blocks unsupported_rewrite_decision_blocks
  by (simp_all add: runner_verdict.blocked_append runner_verdict.blocked_single)

lemma DecideInspection_outcome:
  "(let D = DecideInspection bundle ctx ds route;
        refused = (result_status ds = ''blocked'' \<or> route_block route \<or>
                   (route_rewrite route \<and> \<not> provider_supports_updated_input (ic_provider ctx)))
    in insp_status D = (if refused then ''blocked'' else ''allowed'') \<and>
       insp_route D = (if refused then no_route else route) \<and>
       (if refused then take (length ds) (insp_policies D) = ds else insp_policies D = ds))"
proof -
  have n: "provider_supports_updated_input (ic_provider ctx) \<Longrightarrow> ic_provider ctx \<noteq> []"
    by (auto simp: provider_supports_updated_input_def)
  consider "result_status ds = ''blocked''" | "result_status ds = ''allowed''"
    using result_status_cases by blast
  then show ?thesis
  proof cases
    case 1
    then show ?thesis by (simp add: DecideInspection_def)
  next
    case 2
    then show ?thesis
      using n
      by (cases "route_block route"; cases "route_rewrite route";
          cases "provider_supports_updated_input (ic_provider ctx)"; cases "ic_provider ctx = []")
         (simp_all add: DecideInspection_def appended_block)
  qed
qed

lemma DecideInspection_status:
  "insp_status (DecideInspection bundle ctx ds route) = ''blocked'' \<longleftrightarrow>
     result_status ds = ''blocked'' \<or> route_block route \<or>
     (route_rewrite route \<and> \<not> provider_supports_updated_input (ic_provider ctx))"
  using DecideInspection_outcome [of "bundle" ctx ds route] by (auto simp: Let_def split: if_splits)

text \<open>
  Property C12. Merging decisions with a route fails closed: the outcome is blocked exactly when a
  policy blocks, the route blocks, or the route wants to rewrite the command for a provider that
  cannot apply a rewrite. A blocked outcome carries no route, any other keeps the route and the
  decisions as they were.
\<close>

theorem DecideInspection_fails_closed:
  "(let D = DecideInspection bundle ctx ds route;
        refused = (result_status ds = ''blocked'' \<or> route_block route \<or>
                   (route_rewrite route \<and> \<not> provider_supports_updated_input (ic_provider ctx)))
    in insp_status D = (if refused then ''blocked'' else ''allowed'') \<and>
       insp_route D = (if refused then no_route else route) \<and>
       (if refused then take (length ds) (insp_policies D) = ds else insp_policies D = ds))"
  by (rule DecideInspection_outcome)

section \<open>Dispatch\<close>

text \<open>What one entry contributes, \<open>Inl\<close> when the entry or its evaluation fails.\<close>

definition entry_outcome ::
  "'n hook_env \<Rightarrow> registry \<Rightarrow> policy_bundle \<Rightarrow> inspection_context \<Rightarrow> hook_dispatch_entry \<Rightarrow>
   hook_error + decision list" where
  "entry_outcome H R bundle ctx entry =
     (case map_of (bundle_policies bundle) (entry_policy_id entry) of
        None \<Rightarrow> Inl (UnknownHookPolicy (entry_policy_id entry))
      | Some p \<Rightarrow> evaluate_hook_policy H R ctx p entry)"

lemma dispatch_loop_step:
  "dispatch_loop H R bundle ctx (entry # entries) ds =
     (case entry_outcome H R bundle ctx entry of
        Inl err \<Rightarrow> Inl err
      | Inr new \<Rightarrow> if result_status (ds @ new) = ''blocked'' then Inr (ds @ new)
                   else dispatch_loop H R bundle ctx entries (ds @ new))"
  by (simp add: entry_outcome_def split: option.split sum.split)

lemma dispatch_loop_ok:
  assumes "dispatch_loop H R bundle ctx entries ds = Inr out"
  shows "\<exists>outs. map (entry_outcome H R bundle ctx) (take (length outs) entries) = map Inr outs \<and>
    out = ds @ concat outs \<and>
    (length outs = length entries \<or> result_status out = ''blocked'')"
  using assms
proof (induction entries arbitrary: ds)
  case Nil
  then show ?case by (intro exI [of _ "[]"]) simp
next
  case (Cons entry entries)
  then obtain new where new: "entry_outcome H R bundle ctx entry = Inr new"
    by (auto simp only: dispatch_loop_step split: sum.splits)
  show ?case
  proof (cases "result_status (ds @ new) = ''blocked''")
    case True
    with Cons.prems new have "out = ds @ new" by (simp add: dispatch_loop_step del: dispatch_loop.simps)
    with True new show ?thesis by (intro exI [of _ "[new]"]) simp
  next
    case False
    with Cons.prems new have "dispatch_loop H R bundle ctx entries (ds @ new) = Inr out"
      by (simp add: dispatch_loop_step del: dispatch_loop.simps)
    from Cons.IH [OF this] obtain outs where
      "map (entry_outcome H R bundle ctx) (take (length outs) entries) = map Inr outs"
      "out = ds @ new @ concat outs" "length outs = length entries \<or> result_status out = ''blocked''"
      by auto
    with new show ?thesis by (intro exI [of _ "new # outs"]) simp
  qed
qed

lemma dispatch_loop_keeps_block:
  "dispatch_loop H R bundle ctx entries ds = Inr out \<Longrightarrow> result_status ds = ''blocked'' \<Longrightarrow>
   result_status out = ''blocked''"
  using dispatch_loop_ok [of H R "bundle" ctx entries ds out]
  by (auto simp: runner_verdict.blocked_append)

lemma dispatch_loop_blocks:
  assumes "dispatch_loop H R bundle ctx entries ds = Inr out" and "entry \<in> set entries"
    and "entry_outcome H R bundle ctx entry = Inr new" and "result_status new = ''blocked''"
  shows "result_status out = ''blocked''"
proof -
  obtain outs where o: "map (entry_outcome H R bundle ctx) (take (length outs) entries) = map Inr outs"
    "out = ds @ concat outs" "length outs = length entries \<or> result_status out = ''blocked''"
    using dispatch_loop_ok [OF assms(1)] by blast
  show ?thesis
  proof (cases "length outs = length entries")
    case True
    with o(1) have "map (entry_outcome H R bundle ctx) entries = map Inr outs" by simp
    moreover from assms(2) have "entry_outcome H R bundle ctx entry \<in>
        set (map (entry_outcome H R bundle ctx) entries)" by simp
    ultimately have "new \<in> set outs" using assms(3) by auto
    with assms(4) o(2) show ?thesis
      by (auto simp: runner_verdict.blocked_append runner_verdict.blocked_concat)
  next
    case False
    with o(3) show ?thesis by blast
  qed
qed

text \<open>
  Property C16. The dispatch of an event evaluates its entries in order and stops only at a block:
  when it succeeds, its decisions are the edit checks' followed by those of a leading part of the
  entries, which is all of them unless the outcome is blocked. An unknown policy or a failing
  evaluator in that part is never skipped.
\<close>

theorem dispatch_evaluates_until_block:
  assumes "evaluate_dispatched_policies H R bundle ctx = Inr out"
  shows "\<exists>outs. map (entry_outcome H R bundle ctx)
        (take (length outs) (dispatch_entries bundle (ic_event ctx))) = map Inr outs \<and>
      out = he_edit_decisions H bundle (ic_event ctx) @ concat outs \<and>
      (length outs = length (dispatch_entries bundle (ic_event ctx)) \<or>
       result_status out = ''blocked'')"
  using assms unfolding evaluate_dispatched_policies_def by (rule dispatch_loop_ok)

lemma apply_dispatch_mode_advisory:
  "mode \<noteq> [] \<Longrightarrow> mode \<noteq> ''block'' \<Longrightarrow> result_status (apply_dispatch_mode ds mode) \<noteq> ''blocked''"
  by (auto simp: apply_dispatch_mode_def result_status_def list_ex_iff)

text \<open>
  Fact. An entry whose mode is not to block never blocks, whatever its evaluators decide:
  their decisions are lowered to the mode of the entry, and the note for an entry without
  decisions has that mode too.
\<close>

theorem advisory_entry_never_blocks:
  assumes "evaluate_hook_policy H R ctx p entry = Inr ds"
    and "entry_mode entry \<noteq> []" and "entry_mode entry \<noteq> ''block''"
  shows "result_status ds = ''allowed''"
proof -
  have "result_status [dispatch_note p (entry_mode entry) (ic_event ctx)] \<noteq> ''blocked''"
    using assms(2,3) by (simp add: result_status_def dispatch_note_def NewDecision_def)
  moreover have "result_status [] \<noteq> ''blocked''" by (simp add: result_status_def)
  ultimately have "result_status ds \<noteq> ''blocked''"
    using assms apply_dispatch_mode_advisory [OF assms(2,3)]
    by (auto simp: evaluate_hook_policy_def Let_def split: if_splits sum.splits option.splits)
  then show ?thesis by (rule result_status_allowed)
qed

section \<open>The whole run\<close>

lemma RunWithRegistry_cases:
  assumes "RunWithRegistry H bundle original R = Inr r"
    and "event_without_debug_flag (he_bash H) original = (e, debug)"
    and "\<not> ic_read_only_inspection (CollectInspectionContext H e)"
  obtains ds where
    "evaluate_dispatched_policies H R bundle (CollectInspectionContext H e) = Inr ds"
    "res_status r = insp_status (DecideInspection bundle (CollectInspectionContext H e) ds
        (route_tool_use H (CollectInspectionContext H e)))"
    "res_provider r = Provider (he_environ H) e"
    "res_event r = ev_hook_event_name e"
    "debug \<Longrightarrow> ev_hook_event_name e = ''PreToolUse'' \<Longrightarrow>
       res_output r = hook_specific_output_for H bundle e (route_with_debug_env (he_bash H) e
         (insp_route (DecideInspection bundle (CollectInspectionContext H e) ds
            (route_tool_use H (CollectInspectionContext H e))))) \<or>
       res_output r = None \<or> hso_permission_decision (the (res_output r)) = ''deny''"
proof -
  let ?ctx = "CollectInspectionContext H e"
  have b: "res_status (build_result H bundle e d) = insp_status d"
    "res_provider (build_result H bundle e d) = Provider (he_environ H) e"
    "res_event (build_result H bundle e d) = ev_hook_event_name e"
    "res_output (build_result H bundle e d) = hook_specific_output_for H bundle e (insp_route d) \<or>
     res_output (build_result H bundle e d) = None \<or>
     hso_permission_decision (the (res_output (build_result H bundle e d))) = ''deny''" for d
    by (auto simp: build_result_def blocked_hook_specific_output_def empty_output_def Let_def)
  have c: "res_status (ensure_result_correlation_id H e r') = res_status r'"
    "res_provider (ensure_result_correlation_id H e r') = res_provider r'"
    "res_event (ensure_result_correlation_id H e r') = res_event r'"
    "res_output (ensure_result_correlation_id H e r') = res_output r'" for r'
    by (auto simp: ensure_result_correlation_id_def)
  from assms obtain ds where ds: "evaluate_dispatched_policies H R bundle ?ctx = Inr ds"
    by (auto simp: RunWithRegistry_def evaluate_inspection_def Let_def split: sum.splits)
  let ?D = "DecideInspection bundle ?ctx ds (route_tool_use H ?ctx)"
  let ?D' = "if debug \<and> ev_hook_event_name e = ''PreToolUse''
     then ?D\<lparr>insp_route := route_with_debug_env (he_bash H) e (insp_route ?D)\<rparr> else ?D"
  have r: "r = ensure_result_correlation_id H e (build_result H bundle e ?D')"
    using assms ds by (auto simp: RunWithRegistry_def evaluate_inspection_def Let_def)
  show thesis
  proof (rule that [OF ds])
    show "res_status r = insp_status ?D" "res_provider r = Provider (he_environ H) e"
      "res_event r = ev_hook_event_name e"
      unfolding r by (simp_all add: b c)
    assume "debug" "ev_hook_event_name e = ''PreToolUse''"
    then have d': "?D' = ?D\<lparr>insp_route := route_with_debug_env (he_bash H) e (insp_route ?D)\<rparr>" by simp
    show "res_output r = hook_specific_output_for H bundle e (route_with_debug_env (he_bash H) e (insp_route ?D)) \<or>
        res_output r = None \<or> hso_permission_decision (the (res_output r)) = ''deny''"
      using b(4) [of ?D'] unfolding r d' by (simp add: c)
  qed
qed

lemma run_of_dispatch:
  assumes "event_without_debug_flag (he_bash H) original = (e, debug)"
    and "\<not> ic_read_only_inspection (CollectInspectionContext H e)"
    and "evaluate_dispatched_policies H R bundle (CollectInspectionContext H e) = Inr ds"
  obtains r where "RunWithRegistry H bundle original R = Inr r"
    "result_blocked r \<longleftrightarrow> insp_status (DecideInspection bundle (CollectInspectionContext H e) ds
        (route_tool_use H (CollectInspectionContext H e))) = ''blocked''"
proof -
  obtain r where r: "RunWithRegistry H bundle original R = Inr r"
    using assms by (simp add: RunWithRegistry_def evaluate_inspection_def Let_def)
  obtain ds' where d: "evaluate_dispatched_policies H R bundle (CollectInspectionContext H e) = Inr ds'"
      "res_status r = insp_status (DecideInspection bundle (CollectInspectionContext H e) ds'
        (route_tool_use H (CollectInspectionContext H e)))"
    by (rule RunWithRegistry_cases [OF r assms(1,2)])
  have "ds' = ds" using d(1) assms(3) by simp
  with d(2) have "result_blocked r \<longleftrightarrow> insp_status (DecideInspection bundle (CollectInspectionContext H e) ds
      (route_tool_use H (CollectInspectionContext H e))) = ''blocked''"
    unfolding result_blocked_def by metis
  with r show thesis by (rule that)
qed

lemma blocking_policy_blocks_result_aux:
  assumes "RunWithRegistry H bundle original R = Inr r"
    and "event_without_debug_flag (he_bash H) original = (e, debug)"
    and "\<not> ic_read_only_inspection (CollectInspectionContext H e)"
    and "route_block (route_tool_use H (CollectInspectionContext H e)) \<or>
      (entry \<in> set (dispatch_entries bundle e) \<and>
       entry_outcome H R bundle (CollectInspectionContext H e) entry = Inr new \<and>
       result_status new = ''blocked'')"
  shows "result_blocked r"
proof -
  let ?ctx = "CollectInspectionContext H e"
  have ev: "ic_event ?ctx = e" by (simp add: CollectInspectionContext_def Let_def)
  obtain ds where ds: "evaluate_dispatched_policies H R bundle ?ctx = Inr ds"
      "res_status r = insp_status (DecideInspection bundle ?ctx ds (route_tool_use H ?ctx))"
    using RunWithRegistry_cases [OF assms(1-3)] by metis
  have "result_status ds = ''blocked'' \<or> route_block (route_tool_use H ?ctx)"
    using assms(4) dispatch_loop_blocks [OF ds(1) [unfolded evaluate_dispatched_policies_def ev]] by blast
  then show ?thesis using ds(2) by (auto simp: result_blocked_def DecideInspection_status)
qed

text \<open>
  Fact. From dispatch to verdict, nothing lets a block go: when the run of an event that is
  not a read-only inspection succeeds and some dispatched policy yields a blocking decision, or
  the first route that answers blocks, the result is blocked, whatever the other policies and
  routes say.
\<close>

theorem blocking_policy_blocks_result:
  assumes "RunWithRegistry H bundle original R = Inr r"
    and "event_without_debug_flag (he_bash H) original = (e, debug)"
    and "\<not> ic_read_only_inspection (CollectInspectionContext H e)"
    and "route_block (route_tool_use H (CollectInspectionContext H e)) \<or>
      (entry \<in> set (dispatch_entries bundle e) \<and>
       entry_outcome H R bundle (CollectInspectionContext H e) entry = Inr new \<and>
       result_status new = ''blocked'')"
  shows "result_blocked r"
  using assms by (rule blocking_policy_blocks_result_aux)

section \<open>Merged outputs\<close>

lemma maps_copy_map_of: "map_of (maps_copy dst src) = map_of dst ++ map_of src"
proof (induction src)
  case Nil
  then show ?case by (simp add: maps_copy_def)
next
  case (Cons kv src)
  then show ?case by (cases kv) (auto simp: maps_copy_def map_add_def fun_eq_iff)
qed

abbreviation "present outs \<equiv> map the (filter (\<lambda>x. x \<noteq> None) outs)"

definition output_context :: "hook_specific_output \<Rightarrow> string" where
  "output_context out = trim_space (hso_additional_context out)"

lemma first_non_empty_append:
  "first_non_empty (xs @ ys) =
     (if first_non_empty xs \<noteq> [] then first_non_empty xs else first_non_empty ys)"
  by (induction xs) auto

lemma fill_string_first: "fill_string (first_non_empty xs) v = first_non_empty (xs @ [v])"
  by (simp add: fill_string_def first_non_empty_append)

text \<open>The state of the loop after the outputs \<open>seen\<close>.\<close>

definition merged_state ::
  "hook_specific_output list \<Rightarrow> hook_specific_output option \<Rightarrow> string list \<Rightarrow> bool" where
  "merged_state seen merged contexts \<longleftrightarrow>
     contexts = filter (\<lambda>c. c \<noteq> []) (map output_context seen) \<and>
     (case merged of
        None \<Rightarrow> seen = []
      | Some m \<Rightarrow>
          seen \<noteq> [] \<and>
          hso_event_name m = first_non_empty (map hso_event_name seen) \<and>
          hso_permission_decision m = first_non_empty (map hso_permission_decision seen) \<and>
          hso_permission_reason m = first_non_empty (map hso_permission_reason seen) \<and>
          map_of (output_input m) = foldl (++) Map.empty (map (map_of \<circ> output_input) seen))"

lemma merged_state_step:
  assumes "merged_state seen merged contexts"
  shows "merged_state (seen @ [out])
    (Some (case merged of
             None \<Rightarrow> \<lparr>hso_updated_input = clone_updated_input (hso_updated_input out),
                      hso_event_name = hso_event_name out, hso_additional_context = [],
                      hso_permission_decision = hso_permission_decision out,
                      hso_permission_reason = hso_permission_reason out\<rparr>
           | Some m \<Rightarrow> merge_hook_output_fields m out))
    (let context = trim_space (hso_additional_context out)
     in if context \<noteq> [] then contexts @ [context] else contexts)"
proof (cases merged)
  case None
  with assms show ?thesis
    by (auto simp: merged_state_def output_context_def output_input_def clone_updated_input_def
        Let_def split: option.split)
next
  case (Some m)
  with assms show ?thesis
    by (auto simp: merged_state_def output_context_def merge_hook_output_fields_def fill_string_first
        maps_copy_map_of output_input_def Let_def split: option.split)
qed

lemma merge_outputs_loop_state:
  assumes "merged_state seen merged contexts"
  shows "merged_state (seen @ present outs) (fst (merge_outputs_loop outs merged contexts))
    (snd (merge_outputs_loop outs merged contexts))"
  using assms
proof (induction outs arbitrary: seen merged contexts)
  case Nil
  then show ?case by simp
next
  case (Cons x outs)
  show ?case
  proof (cases x)
    case None
    with Cons show ?thesis by simp
  next
    case (Some out)
    with Cons.IH [OF merged_state_step [OF Cons.prems, of out]] show ?thesis by simp
  qed
qed

text \<open>
  Fact. Merging the context outputs is none when there is none; otherwise each scalar field
  is the first one given, the updated input is the union of all maps with later ones winning, and
  the context is the non-blank contexts in order.
\<close>

theorem merge_outputs_fields:
  "case merge_hook_specific_outputs outs of
     None \<Rightarrow> present outs = []
   | Some m \<Rightarrow>
       present outs \<noteq> [] \<and>
       hso_event_name m = first_non_empty (map hso_event_name (present outs)) \<and>
       hso_permission_decision m = first_non_empty (map hso_permission_decision (present outs)) \<and>
       hso_permission_reason m = first_non_empty (map hso_permission_reason (present outs)) \<and>
       map_of (output_input m) =
         foldl (++) Map.empty (map (map_of \<circ> output_input) (present outs)) \<and>
       hso_additional_context m =
         str_join [CHR 0x0A, CHR 0x0A]
           (filter (\<lambda>c. c \<noteq> []) (map output_context (present outs)))"
proof -
  have "merged_state [] None []" by (simp add: merged_state_def)
  from merge_outputs_loop_state [OF this, of outs] show ?thesis
    by (cases "merge_outputs_loop outs None []"; cases "fst (merge_outputs_loop outs None [])")
       (auto simp: merged_state_def merge_hook_specific_outputs_def output_input_def)
qed

section \<open>A small instance\<close>

text \<open>
  An environment in which the unmodelled parts do nothing, a bundle with one policy dispatched for
  Bash commands, and a registry whose one evaluator blocks.
\<close>

definition sample_env :: "nat stmt list \<Rightarrow> string \<Rightarrow> nat hook_env" where
  "sample_env stmts provider =
     \<lparr>he_bash = sample_bash stmts, he_environ = (\<lambda>_. []),
      he_admin_approved = (\<lambda>_. False), he_memory_provider = (\<lambda>_. provider),
      he_memory_route = (\<lambda>_. no_route), he_git_route = (\<lambda>_. no_route),
      he_lint_route = (\<lambda>_. no_route), he_python_route = (\<lambda>_. no_route),
      he_edit_decisions = (\<lambda>_ _. []), he_context_outputs = (\<lambda>_ _. []),
      he_enrichment_output = (\<lambda>_. None), he_post_bash_output = (\<lambda>_ _. None),
      he_trace_id = (\<lambda>_ _. ''hook-1''), he_block_message = (\<lambda>_. ''blocked''),
      he_codex_message = (\<lambda>_. [])\<rparr>"

definition sample_policy :: policy where
  "sample_policy =
     \<lparr>pol_source = \<lparr>source_file = [], source_path = []\<rparr>, pol_category = [],
      pol_default_severity = ''block'', pol_id = ''p'', pol_message = ''m'', pol_suggestion = [],
      pol_evaluators = [\<lparr>eval_options = [], eval_kind = [], eval_name = ''check''\<rparr>],
      pol_principle_ids = []\<rparr>"

definition sample_entry :: "string \<Rightarrow> hook_dispatch_entry" where
  "sample_entry mode =
     \<lparr>entry_policy_id = ''p'', entry_mode = mode, entry_command_patterns = [], entry_path_patterns = []\<rparr>"

definition sample_bundle :: "string \<Rightarrow> policy_bundle" where
  "sample_bundle mode =
     \<lparr>bundle_hooks = [(''PreToolUse'', [(''Bash'', [sample_entry mode])])], bundle_linter = [],
      bundle_git = [], bundle_policies = [(''p'', sample_policy)]\<rparr>"

definition sample_registry :: registry where
  "sample_registry name =
     (if name = ''check'' then Some (\<lambda>p ctx. Inr [NewDecision ''block'' p]) else None)"

definition sample_event :: "string \<Rightarrow> string \<Rightarrow> event" where
  "sample_event provider command =
     empty_event\<lparr>ev_hook_event_name := ''PreToolUse'', ev_tool_name := ''Bash'',
       ev_provider_hint := provider, ev_tool_input := Some [(''command'', AString command)]\<rparr>"

abbreviation "ls_stmts \<equiv> [lit_stmt (lit_call [''touch'', ''x'']) False]"

theorem dispatch_evaluates_until_block_witness:
  "\<exists>outs. map (entry_outcome (sample_env ls_stmts []) sample_registry (sample_bundle ''block'')
        (CollectInspectionContext (sample_env ls_stmts []) (sample_event ''claude'' ''touch x'')))
        (take (length outs) (dispatch_entries (sample_bundle ''block'') (sample_event ''claude'' ''touch x''))) =
      map Inr outs \<and>
    [NewDecision ''block'' sample_policy] = [] @ concat outs \<and>
    (length outs = length (dispatch_entries (sample_bundle ''block'') (sample_event ''claude'' ''touch x'')) \<or>
     result_status [NewDecision ''block'' sample_policy] = ''blocked'')"
proof -
  let ?e = "sample_event ''claude'' ''touch x''"
  let ?H = "sample_env ls_stmts []"
  have "evaluate_dispatched_policies ?H sample_registry (sample_bundle ''block'')
      (CollectInspectionContext ?H ?e) = Inr [NewDecision ''block'' sample_policy]"
    by code_simp
  moreover have "ic_event (CollectInspectionContext ?H ?e) = ?e"
    by (simp add: CollectInspectionContext_def Let_def)
  moreover have "he_edit_decisions ?H (sample_bundle ''block'') ?e = []"
    by (simp add: sample_env_def)
  ultimately show ?thesis
    using dispatch_evaluates_until_block [of ?H sample_registry "sample_bundle ''block''"
        "CollectInspectionContext ?H ?e" "[NewDecision ''block'' sample_policy]"] by simp
qed

theorem advisory_entry_never_blocks_witness:
  "result_status [(NewDecision ''block'' sample_policy)\<lparr>dec_decision := ''advise'', dec_severity := ''advise''\<rparr>] =
     ''allowed''"
proof (rule advisory_entry_never_blocks [where entry = "sample_entry ''advise''"])
  show "evaluate_hook_policy (sample_env ls_stmts []) sample_registry
      (CollectInspectionContext (sample_env ls_stmts []) (sample_event ''claude'' ''touch x''))
      sample_policy (sample_entry ''advise'') =
    Inr [(NewDecision ''block'' sample_policy)\<lparr>dec_decision := ''advise'', dec_severity := ''advise''\<rparr>]"
    by code_simp
qed (simp_all add: sample_entry_def)

theorem blocking_policy_blocks_result_witness:
  "\<exists>r. RunWithRegistry (sample_env ls_stmts []) (sample_bundle ''block'')
      (sample_event ''claude'' ''touch x'') sample_registry = Inr r \<and> result_blocked r"
proof -
  let ?e = "sample_event ''claude'' ''touch x''" and ?H = "sample_env ls_stmts []"
  have e: "event_without_debug_flag (he_bash ?H) ?e = (?e, False)" by code_simp
  have ro: "\<not> ic_read_only_inspection (CollectInspectionContext ?H ?e)" by code_simp
  have "\<not> isl (evaluate_dispatched_policies ?H sample_registry (sample_bundle ''block'')
      (CollectInspectionContext ?H ?e))" by code_simp
  then obtain r where r: "RunWithRegistry ?H (sample_bundle ''block'') ?e sample_registry = Inr r"
    using run_of_dispatch [OF e ro] by (auto simp: isl_def) (metis sum.exhaust)
  note e ro
  moreover have "sample_entry ''block'' \<in> set (dispatch_entries (sample_bundle ''block'') ?e)" by code_simp
  moreover have "entry_outcome ?H sample_registry (sample_bundle ''block'')
      (CollectInspectionContext ?H ?e) (sample_entry ''block'') = Inr [NewDecision ''block'' sample_policy]"
    by code_simp
  moreover have "result_status [NewDecision ''block'' sample_policy] = ''blocked''" by code_simp
  ultimately have "result_blocked r" by (intro blocking_policy_blocks_result [OF r]) auto
  with r show ?thesis by blast
qed

section \<open>The debug flag and a blocked command\<close>

text \<open>
  Fact. The debug rewrite is applied after the verdict: when a Bash command carries the debug
  flag and the verdict is blocked, the result still holds an output that allows the call and
  gives the provider a rewritten command.
\<close>

theorem blocked_debug_result_allows:
  assumes "RunWithRegistry H bundle original R = Inr r"
    and "event_without_debug_flag (he_bash H) original = (e, True)"
    and "\<not> ic_read_only_inspection (CollectInspectionContext H e)"
    and "ev_hook_event_name e = ''PreToolUse''" and "result_blocked r"
  shows "\<exists>out. res_output r = Some out \<and> hso_permission_decision out = ''allow'' \<and>
    hso_updated_input out \<noteq> None"
proof -
  let ?ctx = "CollectInspectionContext H e"
  obtain ds where ds: "evaluate_dispatched_policies H R bundle ?ctx = Inr ds"
    using assms(1-3)
    by (auto simp: RunWithRegistry_def evaluate_inspection_def Let_def split: sum.splits)
  let ?D = "DecideInspection bundle ?ctx ds (route_tool_use H ?ctx)"
  let ?D' = "?D\<lparr>insp_route := route_with_debug_env (he_bash H) e (insp_route ?D)\<rparr>"
  have r: "r = ensure_result_correlation_id H e (build_result H bundle e ?D')"
    using assms(1-4) ds by (simp add: RunWithRegistry_def evaluate_inspection_def Let_def)
  have "insp_status ?D = ''blocked''"
    using assms(5) unfolding r
    by (auto simp: result_blocked_def ensure_result_correlation_id_def build_result_def Let_def
        split: if_splits)
  then have "insp_route ?D = no_route"
    using DecideInspection_outcome [of "bundle" ?ctx ds "route_tool_use H ?ctx"]
    by (auto simp: Let_def split: if_splits)
  then have "route_rewrite (insp_route ?D')" "route_updated_input (insp_route ?D') \<noteq> None"
    by (simp_all add: route_with_debug_env_def no_route_def Let_def)
  then show ?thesis
    unfolding r by (auto simp: ensure_result_correlation_id_def build_result_def
        hook_specific_output_for_def Let_def)
qed

definition debug_stmts :: "nat stmt list" where
  "debug_stmts = [lit_stmt (lit_call [''touch'', ''x'', ''--coding-ethos-debug'']) False]"

theorem blocked_debug_result_allows_witness:
  "\<exists>r out. RunWithRegistry (sample_env debug_stmts []) (sample_bundle ''block'')
      (sample_event ''claude'' ''touch x --coding-ethos-debug'') sample_registry = Inr r \<and>
    result_blocked r \<and> res_output r = Some out \<and> hso_permission_decision out = ''allow''"
proof -
  let ?e = "sample_event ''claude'' ''touch x --coding-ethos-debug''"
  let ?H = "sample_env debug_stmts []"
  let ?e' = "sample_event ''claude'' ''touch x''"
  let ?run = "RunWithRegistry ?H (sample_bundle ''block'') ?e sample_registry"
  have e: "event_without_debug_flag (he_bash ?H) ?e = (?e', True)" by code_simp
  have ro: "\<not> ic_read_only_inspection (CollectInspectionContext ?H ?e')" by code_simp
  have "case evaluate_dispatched_policies ?H sample_registry (sample_bundle ''block'')
      (CollectInspectionContext ?H ?e') of Inl _ \<Rightarrow> False | Inr ds \<Rightarrow> result_status ds = ''blocked''" by code_simp
  then obtain ds where ds: "evaluate_dispatched_policies ?H sample_registry (sample_bundle ''block'')
      (CollectInspectionContext ?H ?e') = Inr ds" "result_status ds = ''blocked''"
    by (auto split: sum.splits)
  obtain r where r: "?run = Inr r" "result_blocked r"
    by (rule run_of_dispatch [OF e ro ds(1)]) (use ds(2) in \<open>simp add: DecideInspection_status\<close>)
  have "ev_hook_event_name ?e' = ''PreToolUse''" by (simp add: sample_event_def)
  then show ?thesis
    using blocked_debug_result_allows [OF r(1) e ro _ r(2)] r by blast
qed

end
