(* ===== verification/ShellReading.thy ===== *)
theory ShellReading
  imports Shellparse Shellquote "HOL-Library.Sublist"
begin

text \<open>
  What \<open>shellparse\<close> and \<open>shellquote\<close> promise, against descriptions that do not follow their code: the
  calls that stand in a syntax tree, and a POSIX shell that reads a simple command. The calls inside
  of control statements, which the walk does not enter, are no part of the tree of this model.
\<close>

section \<open>The calls of a tree\<close>

text \<open>
  The simple commands that stand in a statement outside of the bodies of \<open>if\<close>, \<open>for\<close>, \<open>while\<close>,
  \<open>case\<close> and the like: in source order, with their assignments and words as the shell reads them.
\<close>

type_synonym call = "string list \<times> string list"

primrec stmt_calls :: "'n stmt \<Rightarrow> 'n bash \<Rightarrow> call list"
and cmd_calls :: "'n shell_cmd \<Rightarrow> 'n bash \<Rightarrow> call list"
and stmts_calls :: "'n stmt list \<Rightarrow> 'n bash \<Rightarrow> call list" where
  "stmt_calls (Stmt n cmd redirs bg) B = cmd_calls cmd B"
| "cmd_calls (BinaryCmd x op y) B = stmt_calls x B @ stmt_calls y B"
| "cmd_calls (CallExpr m assigns args) B =
     [(filter (\<lambda>a. a \<noteq> []) (map (assignment_string B) assigns), map (word_string B) args)]"
| "cmd_calls (FuncDecl m name body) B = stmt_calls body B"
| "cmd_calls (Block stmts) B = stmts_calls stmts B"
| "cmd_calls (Subshell stmts) B = stmts_calls stmts B"
| "cmd_calls (OtherCmd m) B = []"
| "cmd_calls NoCmd B = []"
| "stmts_calls [] B = []"
| "stmts_calls (s # ss) B = stmt_calls s B @ stmts_calls ss B"

text \<open>A tree without control statements and declarations of functions.\<close>

primrec stmt_plain :: "'n stmt \<Rightarrow> bool"
and cmd_plain :: "'n shell_cmd \<Rightarrow> bool"
and stmts_plain :: "'n stmt list \<Rightarrow> bool" where
  "stmt_plain (Stmt n cmd redirs bg) = cmd_plain cmd"
| "cmd_plain (BinaryCmd x op y) = (stmt_plain x \<and> stmt_plain y)"
| "cmd_plain (CallExpr m assigns args) = True"
| "cmd_plain (FuncDecl m name body) = False"
| "cmd_plain (Block stmts) = stmts_plain stmts"
| "cmd_plain (Subshell stmts) = stmts_plain stmts"
| "cmd_plain (OtherCmd m) = False"
| "cmd_plain NoCmd = True"
| "stmts_plain [] = True"
| "stmts_plain (s # ss) = (stmt_plain s \<and> stmts_plain ss)"

section \<open>What the walk collects\<close>

abbreviation call_of :: "shell_command \<Rightarrow> call" where
  "call_of c \<equiv> (cmd_assignments c, cmd_argv c)"

lemma update_last_calls:
  "(\<And>c. call_of (f c) = call_of c) \<Longrightarrow> map call_of (update_last f cs) = map call_of cs"
  by (cases cs rule: rev_cases) (auto simp: update_last_def)

lemma append_redirects_calls: "map call_of (fst (append_redirects B rs st)) = map call_of (fst st)"
  by (induction rs arbitrary: st)
     (auto simp: append_redirects_def append_redirect_def Let_def update_last_calls)

lemma mark_background_calls: "map call_of (fst (mark_background bg st)) = map call_of (fst st)"
  by (auto simp: mark_background_def update_last_calls)

lemma fold_add_assignment_calls:
  "cmd_assignments (fold (add_assignment B) as c) =
     cmd_assignments c @ filter (\<lambda>a. a \<noteq> []) (map (assignment_string B) as)"
  by (induction as arbitrary: c)
     (auto simp: add_assignment_def merge_word_info_def Let_def split: option.split)

lemma fold_add_argument_calls: "cmd_assignments (fold (add_argument B) ws c) = cmd_assignments c"
  by (induction ws arbitrary: c) (auto simp: add_argument_def merge_word_info_def Let_def)

lemma command_from_call_call:
  "call_of (command_from_call B n as ws) =
     (filter (\<lambda>a. a \<noteq> []) (map (assignment_string B) as), map (word_string B) ws)"
proof -
  let ?c0 = "empty_command\<lparr>cmd_line := line_number B n, cmd_column := column_number B n\<rparr>"
  have "cmd_assignments (fold (add_argument B) ws (fold (add_assignment B) as ?c0)) =
      filter (\<lambda>a. a \<noteq> []) (map (assignment_string B) as)"
    by (simp add: fold_add_argument_calls fold_add_assignment_calls empty_command_def)
  then have "cmd_assignments (command_from_call B n as ws) = filter (\<lambda>a. a \<noteq> []) (map (assignment_string B) as)"
    by (auto simp: command_from_call_def apply_node_flags_argv Let_def split: list.split)
  then show ?thesis by (simp add: command_from_call_argv)
qed

text \<open>What a walk adds to the commands: some list of calls of which the tree's own are a part.\<close>

definition adds_calls :: "walk_state \<Rightarrow> walk_state \<Rightarrow> call list \<Rightarrow> bool \<Rightarrow> bool" where
  "adds_calls st st' calls only \<longleftrightarrow>
     (\<exists>new. map call_of (fst st') = map call_of (fst st) @ new \<and> subseq calls new \<and> (only \<longrightarrow> new = calls))"

lemma adds_calls_trans:
  assumes "adds_calls st st1 xs p" and "adds_calls st2 st3 ys q" and "fst st1 = fst st2"
  shows "adds_calls st st3 (xs @ ys) (p \<and> q)"
proof -
  obtain new1 where 1: "map call_of (fst st1) = map call_of (fst st) @ new1" "subseq xs new1" "p \<longrightarrow> new1 = xs"
    using assms(1) by (auto simp: adds_calls_def)
  obtain new2 where 2: "map call_of (fst st3) = map call_of (fst st2) @ new2" "subseq ys new2" "q \<longrightarrow> new2 = ys"
    using assms(2) by (auto simp: adds_calls_def)
  have "map call_of (fst st3) = map call_of (fst st) @ new1 @ new2" using 1(1) 2(1) assms(3) by simp
  moreover have "subseq (xs @ ys) (new1 @ new2)" using 1(2) 2(2) by (rule list_emb_append_mono)
  ultimately show ?thesis using 1(3) 2(3) unfolding adds_calls_def by blast
qed

lemma adds_calls_frame:
  "adds_calls st st1 xs p \<Longrightarrow> map call_of (fst st2) = map call_of (fst st1) \<Longrightarrow> adds_calls st st2 xs p"
  by (simp add: adds_calls_def)

lemma adds_calls_start: "fst st1 = fst st \<Longrightarrow> adds_calls st1 st2 xs p \<Longrightarrow> adds_calls st st2 xs p"
  by (simp add: adds_calls_def)

lemma walk_statements_calls:
  assumes "\<And>s st. s \<in> set ss \<Longrightarrow> adds_calls st (walk_statement s B st) (stmt_calls s B) (stmt_plain s)"
  shows "adds_calls st (walk_statements ss B first st) (stmts_calls ss B) (stmts_plain ss)"
  using assms
proof (induction ss arbitrary: first st)
  case Nil
  then show ?case by (simp add: adds_calls_def)
next
  case (Cons s ss)
  let ?st = "(fst st, if first then snd st else snd st @ ['';''])"
  have "adds_calls ?st (walk_statement s B ?st) (stmt_calls s B) (stmt_plain s)" using Cons.prems by simp
  then have "adds_calls st (walk_statement s B ?st) (stmt_calls s B) (stmt_plain s)"
    by (rule adds_calls_start [rotated]) simp
  from adds_calls_trans [OF this Cons.IH [OF Cons.prems] refl] show ?case by simp
qed

lemma walk_calls:
  "adds_calls st (walk_statement s B st) (stmt_calls s B) (stmt_plain s)"
  "adds_calls st (walk_command cmd B n st) (cmd_calls cmd B) (cmd_plain cmd)"
proof (induction s and cmd arbitrary: st and n st rule: stmt.induct shell_cmd.induct)
  case (Stmt m cmd redirs bg)
  from adds_calls_frame [OF Stmt.IH [of st m]] show ?case
    by (simp add: mark_background_calls append_redirects_calls)
next
  case (BinaryCmd x op y)
  from adds_calls_trans [OF BinaryCmd.IH(1) [of st] BinaryCmd.IH(2) [of "(_, snd (walk_statement x B st) @ [op])"], of "fst (walk_statement x B st)"]
  show ?case by (simp add: Let_def)
next
  case (CallExpr m as ws)
  then show ?case using command_from_call_call [of B m as ws] by (simp add: adds_calls_def Let_def)
next
  case (FuncDecl m name body)
  let ?c = "command_from_func_decl B m name"
  let ?st = "(fst st @ [?c], if cmd_command ?c \<noteq> [] then snd st @ [cmd_command ?c] else snd st)"
  obtain new where "map call_of (fst (walk_statement body B ?st)) = map call_of (fst ?st) @ new"
      "subseq (stmt_calls body B) new"
    using FuncDecl.IH [of ?st] by (auto simp: adds_calls_def)
  then show ?case by (auto simp: adds_calls_def Let_def)
next
  case (Block ss)
  then show ?case by (simp add: walk_statements_calls)
next
  case (Subshell ss)
  then show ?case by (simp add: walk_statements_calls)
qed (auto simp: adds_calls_def Let_def)

lemma Commands_collects_the_calls_aux:
  assumes "bash_parse B text = Inr ss"
  shows "\<exists>cs. Commands B text = Inr cs \<and> subseq (stmts_calls ss B) (map call_of cs) \<and>
    (stmts_plain ss \<longrightarrow> map call_of cs = stmts_calls ss B)"
proof -
  have "adds_calls ([], []) (walk_statements ss B True ([], [])) (stmts_calls ss B) (stmts_plain ss)"
    by (rule walk_statements_calls) (rule walk_calls(1))
  then show ?thesis using assms by (simp add: Commands_def parse_def adds_calls_def)
qed




text \<open>
  The second instance of the invariants of a walk: a command of several words has the name of the
  first one, so the name tells what a call runs.
\<close>

definition named_by_argv :: "shell_command \<Rightarrow> bool" where
  "named_by_argv c \<longleftrightarrow> (1 < length (cmd_argv c) \<longrightarrow> cmd_name c = command_name (hd (cmd_argv c)))"

interpretation first_word: command_invariant B named_by_argv for B
  by unfold_locales
     (auto simp: named_by_argv_def command_from_call_argv command_from_call_name
        command_from_func_decl_argv apply_node_flags_argv apply_node_flags_name split: list.splits)

lemma stmts_calls_collected:
  assumes "bash_parse B text = Inr ss" and "Commands B text = Inr cs" and "(as, ws) \<in> set (stmts_calls ss B)"
  shows "\<exists>c \<in> set cs. cmd_argv c = ws \<and> (1 < length ws \<longrightarrow> cmd_name c = command_name (hd ws))"
proof -
  have "subseq (stmts_calls ss B) (map call_of cs)"
    using Commands_collects_the_calls_aux [OF assms(1)] assms(2) by auto
  then have "(as, ws) \<in> set (map call_of cs)" using assms(3) by (rule list_emb_set) simp
  then obtain c where c: "c \<in> set cs" "cmd_argv c = ws" by auto
  have "named_by_argv c" using first_word.Commands_all [OF assms(2)] c(1) by (simp add: list_all_iff)
  with c show ?thesis unfolding named_by_argv_def by blast
qed

lemma stmts_calls_in_fields:
  assumes "\<And>s. s \<in> set ss \<Longrightarrow> \<Union>(set ` snd ` set (stmt_calls s B)) \<subseteq> set (stmt_fields s B)"
  shows "\<Union>(set ` snd ` set (stmts_calls ss B)) \<subseteq> set (stmts_fields ss B first)"
  using assms
proof (induction ss arbitrary: first)
  case (Cons s ss)
  from Cons.IH [of False] Cons.prems show ?case by fastforce
qed simp

lemma calls_in_fields:
  "\<Union>(set ` snd ` set (stmt_calls s B)) \<subseteq> set (stmt_fields s B)"
  "\<Union>(set ` snd ` set (cmd_calls cmd B)) \<subseteq> set (cmd_fields cmd B)"
proof (induction s and cmd rule: stmt.induct shell_cmd.induct)
  case (Block ss)
  then show ?case using stmts_calls_in_fields [of ss B True] by simp
next
  case (Subshell ss)
  then show ?case using stmts_calls_in_fields [of ss B True] by simp
qed (auto simp: Let_def command_from_call_argv)

lemma call_words_in_fields:
  assumes "bash_parse B text = Inr ss" and "ControlFields B text = Inr tokens" and "(as, ws) \<in> set (stmts_calls ss B)"
  shows "set ws \<subseteq> set tokens"
proof -
  obtain cs fs where p: "parse B text = Inr (cs, fs)" using assms(1) by (simp add: parse_def) (metis surj_pair)
  then have "fs = stmts_fields ss B True" using parse_fields [OF p assms(1)] by simp
  then have "set ws \<subseteq> set fs"
    using stmts_calls_in_fields [of ss B True, OF calls_in_fields(1)] assms(3) by force
  then show ?thesis using assms(2) p by (auto simp: ControlFields_def split: if_splits)
qed

text \<open>
  Fact. A control statement is one command whose only word is its printed text: the commands
  in its body are not collected.
\<close>

theorem control_statement_is_opaque:
  assumes "bash_parse B text = Inr [Stmt n (OtherCmd m) [] False]" and "render_node B m \<noteq> []"
  shows "map_sum id (map cmd_argv) (Commands B text) = Inr [[render_node B m]]"
  using assms
  by (simp add: Commands_def parse_def append_redirects_def mark_background_def apply_node_flags_argv Let_def)

section \<open>A command line\<close>

text \<open>
  POSIX: the first word of a simple command must not be a reserved word or an assignment, as far as
  it is not quoted. Those of \<open>bash\<close> are counted as well.
\<close>

definition reserved_words :: "string list" where
  "reserved_words =
     [''if'', ''then'', ''else'', ''elif'', ''fi'', ''do'', ''done'', ''case'', ''esac'', ''while'', ''until'',
      ''for'', ''in'', ''select'', ''function'', ''time'', ''coproc'']"

definition shell_name_char :: "char \<Rightarrow> bool" where
  "shell_name_char c \<longleftrightarrow> c \<in> set ''_0123456789abcdefghijklmnopqrstuvwxyzABCDEFGHIJKLMNOPQRSTUVWXYZ''"

text \<open>An assignment: a name, perhaps a plus sign, and an equals sign, none of them quoted.\<close>

definition starts_assignment :: "string \<Rightarrow> bool" where
  "starts_assignment s =
     (takeWhile shell_name_char s \<noteq> [] \<and> \<not> hd s \<in> set ''0123456789'' \<and>
      (has_prefix (dropWhile shell_name_char s) ''='' \<or> has_prefix (dropWhile shell_name_char s) ''+=''))"

definition sh_simple_command :: "string \<Rightarrow> string list option" where
  "sh_simple_command s =
     (let start = dropWhile sh_blank s
      in if takeWhile (\<lambda>c. \<not> sh_blank c) start \<in> set reserved_words \<or> starts_assignment start then None
         else sh_words s)"

text \<open>What \<open>Arg\<close> leaves unquoted.\<close>

definition left_unquoted :: "string \<Rightarrow> bool" where
  "left_unquoted v \<longleftrightarrow> v \<noteq> [] \<and> (\<forall>c \<in> set v. c \<notin> set shell_special)"

lemma Arg_cases: "Arg v = (if left_unquoted v then v else Arg v) \<and> (\<not> left_unquoted v \<longrightarrow> (\<exists>s. Arg v = CHR 0x27 # s))"
  by (auto simp: Arg_def left_unquoted_def contains_any_def list_ex_iff)

lemma unquoted_no_blank: "left_unquoted v \<Longrightarrow> c \<in> set v \<Longrightarrow> \<not> sh_blank c"
  using not_special_plain by (auto simp: left_unquoted_def)

lemma starts_assignment_space:
  "v \<noteq> [] \<Longrightarrow> starts_assignment (v @ CHR '' '' # s) = starts_assignment v"
proof -
  assume "v \<noteq> []"
  have n: "\<not> shell_name_char CHR '' ''" by (simp add: shell_name_char_def)
  have t: "takeWhile shell_name_char (v @ CHR '' '' # s) = takeWhile shell_name_char v"
    using n by (induction v) simp_all
  show ?thesis
  proof (cases "\<forall>c \<in> set v. shell_name_char c")
    case True
    then have d: "dropWhile shell_name_char v = []" "dropWhile shell_name_char (v @ CHR '' '' # s) = CHR '' '' # s"
      using n by (simp_all add: dropWhile_append3)
    show ?thesis using \<open>v \<noteq> []\<close> unfolding starts_assignment_def t d by (simp add: has_prefix_def)
  next
    case False
    then obtain c where "c \<in> set v" "\<not> shell_name_char c" by blast
    then have d: "dropWhile shell_name_char (v @ CHR '' '' # s) = dropWhile shell_name_char v @ CHR '' '' # s"
      by (rule dropWhile_append1)
    from False have "dropWhile shell_name_char v \<noteq> []" by (simp add: dropWhile_eq_Nil_conv)
    then obtain d0 ds where "dropWhile shell_name_char v = d0 # ds" by (cases "dropWhile shell_name_char v") auto
    with d t \<open>v \<noteq> []\<close> show ?thesis by (cases ds) (auto simp: starts_assignment_def has_prefix_def)
  qed
qed

lemma reserved_no_quote: "w \<in> set reserved_words \<Longrightarrow> w = [] \<or> hd w \<noteq> CHR 0x27"
  by (auto simp: reserved_words_def)

lemma first_word_plain:
  assumes "left_unquoted v" and "s = [] \<or> hd s = CHR '' ''"
  shows "dropWhile sh_blank (v @ s) = v @ s \<and> takeWhile (\<lambda>c. \<not> sh_blank c) (v @ s) = v \<and>
    starts_assignment (v @ s) = starts_assignment v"
proof -
  have v: "v \<noteq> []" "\<And>c. c \<in> set v \<Longrightarrow> \<not> sh_blank c"
    using assms(1) unquoted_no_blank by (auto simp: left_unquoted_def)
  then have "dropWhile sh_blank (v @ s) = v @ s" by (cases v) auto
  moreover have "takeWhile (\<lambda>c. \<not> sh_blank c) (v @ s) = v"
    using v(2) assms(2) by (cases s) (auto simp: takeWhile_append sh_blank_def)
  moreover have "starts_assignment (v @ s) = starts_assignment v"
    using starts_assignment_space [OF v(1)] assms(2) by (cases s) auto
  ultimately show ?thesis by blast
qed

lemma first_word_quoted:
  "dropWhile sh_blank (CHR 0x27 # s) = CHR 0x27 # s"
  "takeWhile (\<lambda>c. \<not> sh_blank c) (CHR 0x27 # s) \<notin> set reserved_words" "\<not> starts_assignment (CHR 0x27 # s)"
proof -
  show "takeWhile (\<lambda>c. \<not> sh_blank c) (CHR 0x27 # s) \<notin> set reserved_words"
    using reserved_no_quote [of "takeWhile (\<lambda>c. \<not> sh_blank c) (CHR 0x27 # s)"] by (auto simp: sh_blank_def)
qed (simp_all add: sh_blank_def starts_assignment_def shell_name_char_def)

text \<open>
  Property C40. A command line is read back: when no word that is left unquoted starts with a hash or
  a tilde, and the first word, if it is left unquoted, is no reserved word and no assignment, then a
  POSIX shell reads the line of \<open>Command\<close> as one simple command with exactly the given words, whatever
  bytes they hold.
\<close>

theorem Command_line_is_read_back:
  assumes "\<And>v. v \<in> set argv \<Longrightarrow> left_unquoted v \<Longrightarrow> hd v \<noteq> CHR ''#'' \<and> hd v \<noteq> CHR ''~''"
    and "argv \<noteq> [] \<Longrightarrow> left_unquoted (hd argv) \<Longrightarrow>
      hd argv \<notin> set reserved_words \<and> \<not> starts_assignment (hd argv)"
  shows "sh_simple_command (Command_line argv) = Some argv"
proof -
  have words: "sh_words (Command_line argv) = Some argv"
    by (rule sh_words_Command_line_aux)
      (use assms(1) in \<open>auto simp: starts_plain_def left_unquoted_def contains_any_def list_ex_iff\<close>)
  show ?thesis
  proof (cases argv)
    case Nil
    then show ?thesis using words
      by (simp add: sh_simple_command_def Command_line_def starts_assignment_def reserved_words_def)
  next
    case (Cons v vs)
    obtain s where s: "Command_line argv = Arg v @ s" "s = [] \<or> hd s = CHR '' ''"
      by (cases vs) (auto simp: Command_line_def Cons)
    show ?thesis
    proof (cases "left_unquoted v")
      case True
      then have "Arg v = v" using Arg_cases [of v] by (auto simp: Arg_def left_unquoted_def contains_any_def list_ex_iff)
      with s first_word_plain [OF True s(2)] assms(2) True Cons words show ?thesis
        by (simp add: sh_simple_command_def Let_def)
    next
      case False
      then obtain q where "Arg v = CHR 0x27 # q" using Arg_cases by blast
      with s words first_word_quoted [of "q @ s"] show ?thesis by (simp add: sh_simple_command_def Let_def)
    qed
  qed
qed

theorem Command_line_is_read_back_witness:
  "sh_simple_command (Command_line [''git'', ''commit'', ''-m'', ''it'' @ [CHR 0x27] @ ''s $HOME'', []]) =
     Some [''git'', ''commit'', ''-m'', ''it'' @ [CHR 0x27] @ ''s $HOME'', []]"
proof (rule Command_line_is_read_back)
  show "\<And>v. v \<in> set [''git'', ''commit'', ''-m'', ''it'' @ [CHR 0x27] @ ''s $HOME'', []] \<Longrightarrow> left_unquoted v \<Longrightarrow>
      hd v \<noteq> CHR ''#'' \<and> hd v \<noteq> CHR ''~''" by (auto simp: left_unquoted_def)
  have "''git'' \<notin> set reserved_words \<and> \<not> starts_assignment ''git''" by code_simp
  then show "hd [''git'', ''commit'', ''-m'', ''it'' @ [CHR 0x27] @ ''s $HOME'', []] \<notin> set reserved_words \<and>
      \<not> starts_assignment (hd [''git'', ''commit'', ''-m'', ''it'' @ [CHR 0x27] @ ''s $HOME'', []])" by simp
qed

text \<open>
  Fact. The conditions on the first word are needed: a program whose name looks like an
  assignment or is a reserved word is left unquoted.
\<close>

theorem first_word_left_unquoted:
  "Command_line [''A=b'', ''x''] = ''A=b x'' \<and> sh_simple_command ''A=b x'' = None \<and>
   Command_line [''if'', ''x''] = ''if x'' \<and> sh_simple_command ''if x'' = None"
  by code_simp

end
