(* ===== verification/GitRoute.thy ===== *)
theory GitRoute
  imports HookRunner ShellReading
begin

text \<open>
  \<open>go/internal/hooks/git_wrapper_enforcement.go\<close>: the hook route that sends Git commands through the
  managed wrapper. The control fields of a command are grouped into segments; a segment that runs
  \<open>git\<close> is rewritten, a segment that hides Git makes the route refuse. The environment is an
  argument; finding the \<open>cerun\<close> program in the file system, which only fills the remediation text,
  is the argument \<open>cerun\<close>.
\<close>

section \<open>Quoting and redirections\<close>

definition shell_quote :: "string \<Rightarrow> string" where
  "shell_quote v =
     (if v = [] then [CHR 0x27, CHR 0x27]
      else [CHR 0x27] @ replace_all [CHR 0x27] [CHR 0x27, CHR 0x5C, CHR 0x27, CHR 0x27] v @ [CHR 0x27])"

definition token_without_leading_file_descriptor :: "string \<Rightarrow> string" where
  "token_without_leading_file_descriptor t =
     (let rest = dropWhile (\<lambda>c. c \<in> set ''0123456789'') t in if rest = [] then t else rest)"

definition is_shell_redirection_operator :: "string \<Rightarrow> bool" where
  "is_shell_redirection_operator t \<longleftrightarrow>
     token_without_leading_file_descriptor t
       \<in> {''<'', ''>'', ''<<'', ''>>'', ''<>'', ''<&'', ''>&'', ''&>'', ''&>>''}"

definition is_fused_shell_redirection :: "string \<Rightarrow> bool" where
  "is_fused_shell_redirection t =
     (let op = token_without_leading_file_descriptor t
      in has_prefix op ''<'' \<or> has_prefix op ''>'' \<or> has_prefix op ''&>'')"

definition is_shell_redirection_syntax :: "string \<Rightarrow> bool" where
  "is_shell_redirection_syntax t \<longleftrightarrow> is_shell_redirection_operator t \<or> is_fused_shell_redirection t"

text \<open>Arguments and redirections of a segment.\<close>

function split_shell_redirections :: "string list \<Rightarrow> string list \<times> string list" where
  "split_shell_redirections [] = ([], [])"
| "split_shell_redirections (t # ts) =
     (if is_shell_redirection_operator t \<and> ts \<noteq> [] then
        (case split_shell_redirections (tl ts) of
           (args, redirs) \<Rightarrow> (args, (t @ '' '' @ shell_quote (hd ts)) # redirs))
      else if is_shell_redirection_syntax t then
        (case split_shell_redirections ts of (args, redirs) \<Rightarrow> (args, t # redirs))
      else (case split_shell_redirections ts of (args, redirs) \<Rightarrow> (t # args, redirs)))"
  by pat_completeness auto
termination by (relation "measure length") auto

definition quoted_token :: "string \<Rightarrow> string" where
  "quoted_token t = (if is_shell_redirection_syntax t then t else shell_quote t)"

definition append_quoted_tokens :: "string list \<Rightarrow> string list \<Rightarrow> string list" where
  "append_quoted_tokens rewritten tokens = rewritten @ map quoted_token tokens"

section \<open>Trusted commands\<close>

definition is_shell_env_name_char :: "nat \<Rightarrow> char \<Rightarrow> bool" where
  "is_shell_env_name_char index c \<longleftrightarrow>
     c = CHR ''_'' \<or>
     (65 \<le> (of_char c :: nat) \<and> (of_char c :: nat) \<le> 90) \<or>
     (97 \<le> (of_char c :: nat) \<and> (of_char c :: nat) \<le> 122) \<or>
     (0 < index \<and> 48 \<le> (of_char c :: nat) \<and> (of_char c :: nat) \<le> 57)"

definition is_shell_env_assignment :: "string \<Rightarrow> bool" where
  "is_shell_env_assignment t =
     (if has_prefix t ''-'' then False
      else case str_cut t ''='' of
             (name, v, ok) \<Rightarrow>
               if \<not> ok \<or> name = [] \<or> v = [] then False
               else list_all (\<lambda>(i, c). is_shell_env_name_char i c) (enumerate 0 name))"

definition trim_leading_env_assignments :: "string list \<Rightarrow> string list" where
  "trim_leading_env_assignments segment = dropWhile is_shell_env_assignment segment"

definition trusted_runner_paths :: "environment \<Rightarrow> string list" where
  "trusted_runner_paths env =
     map path_clean
       (filter (\<lambda>c. c \<noteq> [])
          [env ''CODING_ETHOS_RUN_GO_HOOK'',
           path_join [env ''CODE_ETHOS_PRECOMMIT_ROOT'', ''..'', ''bin'', ''coding-ethos-run'']])"

definition is_trusted_runner_command :: "environment \<Rightarrow> string \<Rightarrow> bool" where
  "is_trusted_runner_command env command =
     (let cleaned = path_clean command
      in if cleaned = ''bin/coding-ethos-run'' then True
         else if path_is_abs command then cleaned \<in> set (trusted_runner_paths env)
         else if \<not> str_contains command ''/'' then False
         else
           let cwd = env ''INVOCATION_CWD''
           in if cwd = [] then False
              else path_join [cwd, command] \<in> set (trusted_runner_paths env))"

definition is_trusted_hook_binary_command :: "string \<Rightarrow> bool" where
  "is_trusted_hook_binary_command command =
     str_contains (path_clean command) ''.git/coding-ethos-hooks/bin/''"

definition managed_git_wrapper_impersonation :: "string \<Rightarrow> bool" where
  "managed_git_wrapper_impersonation command =
     (let base = path_base command
      in str_contains base ''coding-ethos-git'' \<or> str_contains base ''coding-ethos-run'')"

definition is_git_path :: "string \<Rightarrow> bool" where
  "is_git_path t \<longleftrightarrow>
     t \<in> {''/usr/bin/git'', ''/bin/git'', ''/usr/local/bin/git''} \<or> has_suffix t ''/git''"

definition segment_mentions_unmanaged_git :: "string list \<Rightarrow> bool" where
  "segment_mentions_unmanaged_git segment = list_ex (\<lambda>t. t = ''git'' \<or> is_git_path t) segment"

definition managed_git_segment :: "environment \<Rightarrow> string list \<Rightarrow> bool" where
  "managed_git_segment env segment0 =
     (case trim_leading_env_assignments segment0 of
        [] \<Rightarrow> False
      | command # rest \<Rightarrow>
          let base = path_base command
          in if base = ''coding-ethos-run'' then
               is_trusted_runner_command env command \<and> rest \<noteq> [] \<and> hd rest = ''policy-git''
             else if base = ''coding-ethos-git'' then is_trusted_hook_binary_command command
             else base = ''git'' \<and> is_trusted_hook_binary_command command)"

section \<open>Agent shell calls\<close>

text \<open>The loop of \<open>agentShellArgsHaveCommand\<close>.\<close>

fun agent_shell_args_have_command :: "string list \<Rightarrow> bool" where
  "agent_shell_args_have_command [] = False"
| "agent_shell_args_have_command (a # args) =
     (if a = ''--'' then args \<noteq> []
      else if a = ''--rewrite'' \<or> a = ''--no-rewrite'' \<or> a = ''--check''
        then agent_shell_args_have_command args
      else if a = ''--intent'' then
        (case args of
           [] \<Rightarrow> False
         | v # args' \<Rightarrow> if trim_space v = [] then False else agent_shell_args_have_command args')
      else if has_prefix a ''--intent='' then
        (if trim_space (trim_prefix a ''--intent='') = [] then False
         else agent_shell_args_have_command args)
      else False)"

definition cerun_agent_shell_segment :: "string list \<Rightarrow> bool" where
  "cerun_agent_shell_segment segment =
     (case tl segment of
        [] \<Rightarrow> False
      | a # rest \<Rightarrow>
          if a \<in> {''git'', ''python'', ''lint''} then 1 < length (a # rest)
          else if a \<in> {''--'', ''--rewrite'', ''--no-rewrite'', ''--check''}
            then agent_shell_args_have_command (a # rest)
          else has_prefix a ''--intent'' \<and> agent_shell_args_have_command (a # rest))"

definition coding_ethos_agent_shell_segment :: "environment \<Rightarrow> string list \<Rightarrow> bool" where
  "coding_ethos_agent_shell_segment env segment =
     (if \<not> is_trusted_runner_command env (segment ! 0) \<or> segment ! 1 \<noteq> ''agent-shell'' then False
      else agent_shell_args_have_command (drop 2 segment))"

definition agent_shell_segment :: "environment \<Rightarrow> string list \<Rightarrow> bool" where
  "agent_shell_segment env segment =
     (if length segment < 3 then False
      else if path_base (segment ! 0) = ''cerun'' then cerun_agent_shell_segment segment
      else if path_base (segment ! 0) = ''coding-ethos-run''
        then coding_ethos_agent_shell_segment env segment
      else False)"

section \<open>Rewriting\<close>

definition runner_command :: "environment \<Rightarrow> string" where
  "runner_command env =
     (let runner = trim_space (env ''CODING_ETHOS_RUN_GO_HOOK'')
      in if runner = [] then ''bin/coding-ethos-run'' else runner)"

definition wrapper_command :: "environment \<Rightarrow> string list \<Rightarrow> string" where
  "wrapper_command env args =
     str_join '' '' (shell_quote (runner_command env) # ''policy-git'' # map shell_quote args)"

definition rewrite_git_segment :: "environment \<Rightarrow> string list \<Rightarrow> string \<times> bool" where
  "rewrite_git_segment env segment =
     (if segment = [] then ([], True)
      else if managed_git_segment env segment then ([], True)
      else if agent_shell_segment env segment then ([], True)
      else
        let has_env_prelude = is_shell_env_assignment (hd segment)
        in case trim_leading_env_assignments segment of
             [] \<Rightarrow> ([], True)
           | command # rest \<Rightarrow>
               if agent_shell_segment env (command # rest) then ([], \<not> has_env_prelude)
               else if path_base command = ''coding-ethos-run''
                 then ([], is_trusted_runner_command env command)
               else if managed_git_wrapper_impersonation command then ([], False)
               else if command = ''git'' then
                 (case split_shell_redirections rest of
                    (args, redirs) \<Rightarrow>
                      (wrapper_command env args @
                         (if redirs \<noteq> [] then '' '' @ str_join '' '' redirs else []), True))
               else if segment_mentions_unmanaged_git (command # rest) then ([], False)
               else ([], True))"

text \<open>The control fields, grouped the way the loops over them do.\<close>

datatype chunk = Control string | Segment "string list"

function chunks :: "string list \<Rightarrow> chunk list" where
  "chunks [] = []"
| "chunks (t # ts) =
     (if is_shell_control_token t then Control t # chunks ts
      else Segment (takeWhile (\<lambda>x. \<not> is_shell_control_token x) (t # ts)) #
           chunks (dropWhile (\<lambda>x. \<not> is_shell_control_token x) ts))"
  by pat_completeness auto
termination
proof (relation "measure length", goal_cases)
  case (3 t ts)
  have "length (dropWhile (\<lambda>x. \<not> is_shell_control_token x) ts) \<le> length ts"
    by (rule length_dropWhile_le)
  then show ?case by simp
qed simp_all

text \<open>\<open>None\<close> is the third result being false.\<close>

fun rewrite_git_chunks ::
  "environment \<Rightarrow> chunk list \<Rightarrow> string list \<Rightarrow> bool \<Rightarrow> (string list \<times> bool) option" where
  "rewrite_git_chunks env [] rewritten rewrote = Some (rewritten, rewrote)"
| "rewrite_git_chunks env (Control t # cs) rewritten rewrote =
     rewrite_git_chunks env cs (rewritten @ [t]) rewrote"
| "rewrite_git_chunks env (Segment segment # cs) rewritten rewrote =
     (case rewrite_git_segment env segment of
        (text, ok) \<Rightarrow>
          if \<not> ok then None
          else if text \<noteq> [] then rewrite_git_chunks env cs (rewritten @ [text]) True
          else rewrite_git_chunks env cs (append_quoted_tokens rewritten segment) rewrote)"

definition rewrite_git_command_chain ::
  "'n bash \<Rightarrow> environment \<Rightarrow> string \<Rightarrow> string \<times> bool \<times> bool" where
  "rewrite_git_command_chain B env command =
     (case ControlFields B command of
        Inl e \<Rightarrow> ([], False, False)
      | Inr tokens \<Rightarrow>
          if tokens = [] then ([], False, True)
          else case rewrite_git_chunks env (chunks tokens) [] False of
                 None \<Rightarrow> ([], False, False)
               | Some (rewritten, rewrote) \<Rightarrow> (str_join '' '' rewritten, rewrote, True))"

definition chunk_segments :: "chunk list \<Rightarrow> string list list" where
  "chunk_segments cs = concat (map (\<lambda>c. case c of Control t \<Rightarrow> [] | Segment s \<Rightarrow> [s]) cs)"

definition managed_git_command_chain :: "'n bash \<Rightarrow> environment \<Rightarrow> string \<Rightarrow> bool" where
  "managed_git_command_chain B env command =
     (case ControlFields B command of
        Inl e \<Rightarrow> False
      | Inr tokens \<Rightarrow> list_ex (managed_git_segment env) (chunk_segments (chunks tokens)))"

definition managed_agent_shell_command :: "'n bash \<Rightarrow> environment \<Rightarrow> string \<Rightarrow> bool" where
  "managed_agent_shell_command B env command =
     (case ControlFields B command of
        Inl e \<Rightarrow> False
      | Inr tokens \<Rightarrow>
          if length tokens < 3 then False
          else if list_ex is_shell_control_token tokens then False
          else agent_shell_segment env tokens)"

fun agent_shell_chain_loop :: "environment \<Rightarrow> string list list \<Rightarrow> bool \<Rightarrow> bool" where
  "agent_shell_chain_loop env [] saw = saw"
| "agent_shell_chain_loop env (s # ss) saw =
     (if agent_shell_segment env s then agent_shell_chain_loop env ss True
      else if segment_mentions_unmanaged_git s then False
      else agent_shell_chain_loop env ss saw)"

definition managed_agent_shell_command_chain :: "'n bash \<Rightarrow> environment \<Rightarrow> string \<Rightarrow> bool" where
  "managed_agent_shell_command_chain B env command =
     (case ControlFields B command of
        Inl e \<Rightarrow> False
      | Inr tokens \<Rightarrow>
          if tokens = [] then False
          else agent_shell_chain_loop env (chunk_segments (chunks tokens)) False)"

definition managed_git_or_agent_shell_command :: "'n bash \<Rightarrow> environment \<Rightarrow> string \<Rightarrow> bool" where
  "managed_git_or_agent_shell_command B env command \<longleftrightarrow>
     managed_git_command_chain B env command \<or> managed_agent_shell_command B env command \<or>
     managed_agent_shell_command_chain B env command"

section \<open>Commands that hide Git\<close>

definition shell_command_name :: "shell_command \<Rightarrow> string" where
  "shell_command_name c =
     (if cmd_name c \<noteq> [] then path_base (cmd_name c)
      else case cmd_argv c of [] \<Rightarrow> [] | a # _ \<Rightarrow> path_base a)"

definition shell_command_is_git :: "shell_command \<Rightarrow> bool" where
  "shell_command_is_git c \<longleftrightarrow> shell_command_name c = ''git'' \<or> is_git_path (shell_command_name c)"

definition shell_command_wraps_tool :: "shell_command \<Rightarrow> string \<Rightarrow> bool" where
  "shell_command_wraps_tool c tool =
     (if length (cmd_argv c) < 2 then False
      else if shell_command_name c \<in> {''command'', ''env''} then
        (case dropWhile (\<lambda>a. str_contains a ''='' \<or> has_prefix a ''-'') (tl (cmd_argv c)) of
           [] \<Rightarrow> False
         | a # _ \<Rightarrow> path_base a = tool \<or> is_git_path a)
      else False)"

definition shell_command_uses_path_override :: "shell_command \<Rightarrow> bool" where
  "shell_command_uses_path_override c =
     (if list_ex (\<lambda>a. has_prefix a ''PATH='') (cmd_assignments c) then True
      else shell_command_name c = ''env'' \<and> list_ex (\<lambda>a. has_prefix a ''PATH='') (tl (cmd_argv c)))"

definition shell_command_arg_references_tool :: "shell_command \<Rightarrow> string \<Rightarrow> bool" where
  "shell_command_arg_references_tool c tool =
     list_ex (\<lambda>a. path_base a = tool \<or> is_git_path a) (cmd_argv c)"

definition shell_command_arg_mentions :: "shell_command \<Rightarrow> string \<Rightarrow> bool" where
  "shell_command_arg_mentions c needle =
     list_ex (\<lambda>a. str_contains (to_lower a) (to_lower needle)) (cmd_argv c)"

definition shell_token_is_git_tool :: "string \<Rightarrow> bool" where
  "shell_token_is_git_tool t \<longleftrightarrow> path_base t = ''git'' \<or> is_git_path t"

definition parsed_shell_references_git :: "'n bash \<Rightarrow> string \<Rightarrow> parse_error + bool" where
  "parsed_shell_references_git B command =
     (case Commands B command of
        Inl e \<Rightarrow> Inl e
      | Inr cs \<Rightarrow>
          Inr (list_ex (\<lambda>c. shell_command_is_git c \<or> shell_command_wraps_tool c ''git'' \<or>
                 shell_command_arg_references_tool c ''git'') cs))"

text \<open>The arguments that follow a \<open>-c\<close>.\<close>

fun exec_arguments :: "string list \<Rightarrow> string list" where
  "exec_arguments [] = []"
| "exec_arguments [a] = []"
| "exec_arguments (a # b # rest) =
     (if a = ''-c'' then b # exec_arguments (b # rest) else exec_arguments (b # rest))"

definition shell_exec_argument_references_git :: "'n bash \<Rightarrow> shell_command \<Rightarrow> bool" where
  "shell_exec_argument_references_git B c =
     list_ex (\<lambda>s. case parsed_shell_references_git B s of Inl e \<Rightarrow> True | Inr r \<Rightarrow> r)
       (exec_arguments (cmd_argv c))"

definition python_separator :: "char \<Rightarrow> bool" where
  "python_separator c \<longleftrightarrow>
     c \<in> {CHR 0x20, CHR 0x09, CHR 0x0A, CHR 0x0D, CHR 0x27, CHR 0x22} \<or> c \<in> set ''[](),;''"

text \<open>\<open>strings.FieldsFunc\<close> with that separator.\<close>

fun python_fields :: "string \<Rightarrow> string \<Rightarrow> string list" where
  "python_fields cur [] = (if cur = [] then [] else [rev cur])"
| "python_fields cur (c # s) =
     (if python_separator c then (if cur = [] then [] else [rev cur]) @ python_fields [] s
      else python_fields (c # cur) s)"

definition python_like_tokens :: "string \<Rightarrow> string list" where
  "python_like_tokens source = python_fields [] source"

definition python_exec_argument_references_tool :: "shell_command \<Rightarrow> string \<Rightarrow> bool" where
  "python_exec_argument_references_tool c tool =
     list_ex (\<lambda>s. list_ex (\<lambda>t. path_base t = tool \<or> is_git_path t) (python_like_tokens s))
       (exec_arguments (cmd_argv c))"

definition shell_command_mentions_git :: "'n bash \<Rightarrow> shell_command \<Rightarrow> bool" where
  "shell_command_mentions_git B c \<longleftrightarrow>
     shell_command_is_git c \<or> shell_command_wraps_tool c ''git'' \<or>
     shell_command_arg_references_tool c ''git'' \<or> shell_exec_argument_references_git B c \<or>
     python_exec_argument_references_tool c ''git''"

definition python_git_bypass_command :: "string \<Rightarrow> shell_command \<Rightarrow> bool" where
  "python_git_bypass_command name c =
     (if \<not> is_python_command name then False
      else python_exec_argument_references_tool c ''git'' \<or>
           shell_command_arg_mentions c ''subprocess'' \<or>
           shell_command_arg_mentions c ''os.system'' \<or> shell_command_arg_mentions c ''os.popen'')"

definition shell_command_is_evasive_git_invocation :: "'n bash \<Rightarrow> shell_command \<Rightarrow> bool" where
  "shell_command_is_evasive_git_invocation B c =
     (let name = shell_command_name c
      in if name \<in> {''bash'', ''sh'', ''zsh'', ''dash''} then shell_exec_argument_references_git B c
         else if name \<in> {''command'', ''env'', ''eval'', ''alias'', ''exec''} then True
         else python_git_bypass_command name c)"

definition shell_command_is_evasive_git_definition :: "shell_command \<Rightarrow> bool" where
  "shell_command_is_evasive_git_definition c \<longleftrightarrow>
     cmd_function_declaration c \<and> shell_token_is_git_tool (cmd_name c)"

definition shell_command_uses_evasive_shell_feature :: "shell_command \<Rightarrow> bool" where
  "shell_command_uses_evasive_shell_feature c \<longleftrightarrow>
     cmd_command_substitution c \<or> cmd_process_substitution c \<or> cmd_heredoc c \<or> cmd_subshell c \<or>
     shell_command_uses_path_override c"

definition evasive_git_shell :: "'n bash \<Rightarrow> string \<Rightarrow> bool" where
  "evasive_git_shell B command =
     (case Commands B command of
        Inl e \<Rightarrow> True
      | Inr cs \<Rightarrow>
          if \<not> list_ex (shell_command_mentions_git B) cs then False
          else list_ex (\<lambda>c. shell_command_is_evasive_git_definition c \<or>
                 shell_command_uses_evasive_shell_feature c \<or>
                 shell_command_is_evasive_git_invocation B c) cs)"

definition command_references_unmanaged_git :: "'n bash \<Rightarrow> string \<Rightarrow> bool" where
  "command_references_unmanaged_git B command =
     (case Commands B command of
        Inl e \<Rightarrow> True
      | Inr cs \<Rightarrow>
          list_ex (\<lambda>c. shell_command_is_git c \<or> shell_command_wraps_tool c ''git'' \<or>
            list_ex shell_token_is_git_tool (cmd_argv c)) cs)"

definition text_requests_git_work :: "string \<Rightarrow> bool" where
  "text_requests_git_work s =
     (let n = to_lower s
      in list_ex (str_contains n)
           [''commit'', ''push'', ''amend'', ''merge'', ''rebase'', ''checkout'', ''reset''] \<or>
         str_contains n ''git'')"

definition shell_command_is_agent_cli :: "shell_command \<Rightarrow> bool" where
  "shell_command_is_agent_cli c \<longleftrightarrow> shell_command_name c \<in> {''claude'', ''codex'', ''gemini''}"

definition shell_command_delegates_git_work_to_agent :: "shell_command \<Rightarrow> bool" where
  "shell_command_delegates_git_work_to_agent c =
     (if \<not> shell_command_is_agent_cli c then False
      else text_requests_git_work (str_join '' '' (tl (cmd_argv c))))"

definition command_delegates_git_work_to_agent :: "'n bash \<Rightarrow> string \<Rightarrow> bool" where
  "command_delegates_git_work_to_agent B command =
     (case Commands B command of
        Inl e \<Rightarrow> True
      | Inr cs \<Rightarrow> list_ex shell_command_delegates_git_work_to_agent cs)"

definition shell_parameter_expansion_byte :: "char \<Rightarrow> bool" where
  "shell_parameter_expansion_byte c \<longleftrightarrow>
     c \<in> set ''(_*@#?$!-'' \<or>
     (48 \<le> (of_char c :: nat) \<and> (of_char c :: nat) \<le> 57) \<or>
     (65 \<le> (of_char c :: nat) \<and> (of_char c :: nat) \<le> 90) \<or>
     (97 \<le> (of_char c :: nat) \<and> (of_char c :: nat) \<le> 122)"

fun shell_word_has_parameter_expansion :: "string \<Rightarrow> bool" where
  "shell_word_has_parameter_expansion [] = False"
| "shell_word_has_parameter_expansion [c] = False"
| "shell_word_has_parameter_expansion (c # d # s) =
     ((c = CHR ''$'' \<and> shell_parameter_expansion_byte d) \<or>
      shell_word_has_parameter_expansion (d # s))"

definition shell_word_has_expansion :: "string \<Rightarrow> bool" where
  "shell_word_has_expansion w \<longleftrightarrow> str_contains w ''${'' \<or> shell_word_has_parameter_expansion w"

definition shell_command_is_compound_keyword :: "shell_command \<Rightarrow> bool" where
  "shell_command_is_compound_keyword c \<longleftrightarrow>
     cmd_name c \<in> {''case'', ''for'', ''if'', ''select'', ''until'', ''while''}"

definition shell_command_has_dynamic_executable :: "shell_command \<Rightarrow> bool" where
  "shell_command_has_dynamic_executable c =
     (if \<not> cmd_dynamic_expansion c \<or> cmd_argv c = [] then False
      else if shell_command_is_compound_keyword c then False
      else shell_word_has_expansion (hd (cmd_argv c)))"

definition command_has_dynamic_executable :: "'n bash \<Rightarrow> string \<Rightarrow> bool" where
  "command_has_dynamic_executable B command =
     (case Commands B command of
        Inl e \<Rightarrow> True
      | Inr cs \<Rightarrow> list_ex shell_command_has_dynamic_executable cs)"

definition git_route_blocks_command :: "'n bash \<Rightarrow> string \<Rightarrow> bool \<Rightarrow> bool" where
  "git_route_blocks_command B command route_ok \<longleftrightarrow>
     \<not> route_ok \<or> command_delegates_git_work_to_agent B command \<or>
     command_has_dynamic_executable B command \<or> command_references_unmanaged_git B command \<or>
     evasive_git_shell B command"

section \<open>The route\<close>

definition cerun_remediation :: "string \<Rightarrow> string \<Rightarrow> string" where
  "cerun_remediation cerun_command command = cerun_command @ '' -- '' @ shell_quote command"

definition agent_shell_rewrite_command :: "environment \<Rightarrow> string \<Rightarrow> string" where
  "agent_shell_rewrite_command env command =
     str_join '' '' [shell_quote (runner_command env), ''agent-shell'', ''--'', shell_quote command]"

definition agent_shell_rewrite_inspection :: "event \<Rightarrow> bool" where
  "agent_shell_rewrite_inspection e =
     (case tool_input_field e ''agent_shell_rewrite'' of Some (ABool v) \<Rightarrow> v | _ \<Rightarrow> False)"

definition git_wrapper_rewrite_route ::
  "environment \<Rightarrow> (string \<Rightarrow> string) \<Rightarrow> event \<Rightarrow> string \<Rightarrow> string \<Rightarrow> inspection_route" where
  "git_wrapper_rewrite_route env cerun e original rewritten =
     (let updated = (if agent_shell_rewrite_inspection e then rewritten
                     else agent_shell_rewrite_command env original)
      in no_route
           \<lparr>route_updated_input := Some (updated_bash_input (ev_tool_input e) updated),
            route_block_policy_id := ''git.wrapper_required'',
            route_reason := ''Routed shell command through the approved runner path.'',
            route_remediation_command := cerun_remediation (cerun (ev_cwd e)) original,
            route_rewrite := True\<rparr>)"

definition git_wrapper_route_for ::
  "'n bash \<Rightarrow> environment \<Rightarrow> (string \<Rightarrow> string) \<Rightarrow> event \<Rightarrow> inspection_route" where
  "git_wrapper_route_for B env cerun e =
     (if ev_hook_event_name e \<noteq> ''PreToolUse'' \<or> ev_tool_name e \<noteq> ''Bash'' then no_route
      else
        let command = trim_space (Command e)
        in if command = [] then no_route
           else case rewrite_git_command_chain B env command of
                  (rewritten, rewrite, route_ok) \<Rightarrow>
                    if rewrite \<and> route_ok then git_wrapper_rewrite_route env cerun e command rewritten
                    else if route_ok \<and> managed_git_or_agent_shell_command B env command then no_route
                    else if git_route_blocks_command B command route_ok then
                      no_route\<lparr>route_reason := str_join '' ''
                          [''Direct git execution must use the approved '' @
                             ''coding-ethos git route for this agent provider.'',
                           ''Resubmit the command through the suggested '' @
                             ''cerun command so git operations stay inside the managed policy path.''],
                        route_block := True\<rparr>
                    else no_route)"

section \<open>What a rewrite hands to the shell\<close>

lemma reads_as_shell_quote: "reads_as (shell_quote v) v"
  using sh_scan_quoted [of "[]" v] by (simp add: reads_as_def shell_quote_def sh_blank_def)

lemma reads_as_agent_shell:
  "sh_simple_command (agent_shell_rewrite_command env command) =
     Some [runner_command env, ''agent-shell'', ''--'', command]"
proof -
  have words: "sh_words (agent_shell_rewrite_command env command) =
      Some [runner_command env, ''agent-shell'', ''--'', command]"
    unfolding agent_shell_rewrite_command_def
    by (rule reads_as_join)
       (simp add: reads_as_shell_quote, simp add: reads_as_def sh_blank_def sh_active_first_def sh_active_def)
  have "\<exists>q. shell_quote v = CHR 0x27 # q" for v by (simp add: shell_quote_def)
  then obtain q where "agent_shell_rewrite_command env command = CHR 0x27 # q"
    by (metis agent_shell_rewrite_command_def append_Cons str_join.simps(3))
  with words first_word_quoted [of q] show ?thesis by (simp add: sh_simple_command_def Let_def)
qed

lemma updated_bash_input_lookup:
  "map_of (updated_bash_input original command) k =
     (if k = ''command'' then Some (AString command) else Option.bind original (\<lambda>m. map_of m k))"
  by (auto simp: updated_bash_input_def split: option.split)

text \<open>
  Property C19. A rewrite hands the command on as a whole: the shell reads the new command as the runner,
  \<open>agent-shell\<close>, \<open>--\<close> and one last word which is the old command without the blanks around it, whatever
  quotes, separators or expansions it holds, so nothing of it is run by that shell. Only where the
  event asks for it (\<open>agent_shell_rewrite\<close>, the inspection of a command that the runner already
  has) the new command is the chain with its Git segments rewritten. Every other input stays.
\<close>

theorem rewrite_route_reads_back:
  assumes "route_rewrite (git_wrapper_route_for B env cerun e)"
  shows "\<exists>m new. route_updated_input (git_wrapper_route_for B env cerun e) = Some m \<and>
    map_of m ''command'' = Some (AString new) \<and>
    (if agent_shell_rewrite_inspection e
     then new = fst (rewrite_git_command_chain B env (trim_space (Command e)))
     else sh_simple_command new = Some [runner_command env, ''agent-shell'', ''--'', trim_space (Command e)]) \<and>
    (\<forall>k. k = ''command'' \<or> map_of m k = Option.bind (ev_tool_input e) (\<lambda>i. map_of i k))"
proof -
  obtain rewritten rewrite route_ok where c:
      "rewrite_git_command_chain B env (trim_space (Command e)) = (rewritten, rewrite, route_ok)"
    by (cases "rewrite_git_command_chain B env (trim_space (Command e))") auto
  have r: "git_wrapper_route_for B env cerun e =
      git_wrapper_rewrite_route env cerun e (trim_space (Command e)) rewritten"
    using assms(1) by (simp add: git_wrapper_route_for_def c no_route_def Let_def split: if_splits)
  let ?new = "if agent_shell_rewrite_inspection e then rewritten
    else agent_shell_rewrite_command env (trim_space (Command e))"
  have "route_updated_input (git_wrapper_route_for B env cerun e) =
      Some (updated_bash_input (ev_tool_input e) ?new)"
    by (simp add: r git_wrapper_rewrite_route_def Let_def)
  then show ?thesis
    by (intro exI [of _ "updated_bash_input (ev_tool_input e) ?new"] exI [of _ ?new])
      (simp add: updated_bash_input_lookup c reads_as_agent_shell)
qed

lemma split_shell_redirections_plain:
  "list_all (\<lambda>t. \<not> is_shell_redirection_syntax t) ts \<Longrightarrow> split_shell_redirections ts = (ts, [])"
  by (induction ts rule: split_shell_redirections.induct) (auto simp: is_shell_redirection_syntax_def)

lemma git_word_facts:
  "\<not> is_shell_env_assignment ''git''" "path_base ''git'' = ''git''"
  "\<not> is_trusted_hook_binary_command ''git''" "\<not> managed_git_wrapper_impersonation ''git''"
  by code_simp+

lemma rewrite_git_segment_git:
  "rewrite_git_segment env (''git'' # rest) =
     (case split_shell_redirections rest of
        (args, redirs) \<Rightarrow>
          (wrapper_command env args @ (if redirs \<noteq> [] then '' '' @ str_join '' '' redirs else []), True))"
  by (simp add: rewrite_git_segment_def trim_leading_env_assignments_def git_word_facts
      managed_git_segment_def agent_shell_segment_def Let_def)

lemma reads_as_policy_git: "reads_as ''policy-git'' ''policy-git''"
  by (simp add: reads_as_def sh_blank_def sh_active_first_def sh_active_def)

text \<open>
  Fact. A plain \<open>git\<close> call without redirections becomes, as the shell reads it, the runner
  with \<open>policy-git\<close> in front of exactly the arguments of the call.
\<close>

theorem wrapped_git_segment_reads_back:
  assumes "\<And>t. t \<in> set args \<Longrightarrow> \<not> is_shell_redirection_syntax t"
  shows "snd (rewrite_git_segment env (''git'' # args)) \<and>
    sh_words (fst (rewrite_git_segment env (''git'' # args))) =
      Some (runner_command env # ''policy-git'' # args)"
proof -
  have "split_shell_redirections args = (args, [])"
    using assms by (intro split_shell_redirections_plain) (simp add: list_all_iff)
  moreover have "sh_words (wrapper_command env args) = Some (runner_command env # ''policy-git'' # args)"
    unfolding wrapper_command_def
    by (rule reads_as_join)
       (simp add: reads_as_shell_quote reads_as_policy_git list_all2_map1 list_all2_same)
  ultimately show ?thesis by (simp add: rewrite_git_segment_git)
qed

theorem wrapped_git_segment_reads_back_witness:
  "sh_words (fst (rewrite_git_segment (\<lambda>_. []) [''git'', ''commit'', ''-m'', ''a; b $HOME''])) =
     Some [''bin/coding-ethos-run'', ''policy-git'', ''commit'', ''-m'', ''a; b $HOME'']"
proof -
  have "list_all (\<lambda>t. \<not> is_shell_redirection_syntax t) [''commit'', ''-m'', ''a; b $HOME'']"
    by code_simp
  then have "\<And>t. t \<in> set [''commit'', ''-m'', ''a; b $HOME''] \<Longrightarrow> \<not> is_shell_redirection_syntax t"
    by (simp only: list_all_iff) blast
  then have "sh_words (fst (rewrite_git_segment (\<lambda>_. []) [''git'', ''commit'', ''-m'', ''a; b $HOME''])) =
      Some (runner_command (\<lambda>_. []) # ''policy-git'' # [''commit'', ''-m'', ''a; b $HOME''])"
    by (rule wrapped_git_segment_reads_back [THEN conjunct2])
  moreover have "runner_command (\<lambda>_. []) = ''bin/coding-ethos-run''" by code_simp
  ultimately show ?thesis by simp
qed

section \<open>What a command let through can run\<close>

text \<open>
  A text in which no simple command outside of control statements has a word with the base name
  \<open>git\<close>.
\<close>

definition names_no_git :: "'n bash \<Rightarrow> string \<Rightarrow> bool" where
  "names_no_git B text =
     (case bash_parse B text of
        Inl e \<Rightarrow> False
      | Inr ss \<Rightarrow> list_all (\<lambda>(as, ws). list_all (\<lambda>w. path_base w \<noteq> ''git'') ws) (stmts_calls ss B))"

text \<open>The texts that a call of a shell is given by a word \<open>-c\<close> of its own.\<close>

definition shell_texts :: "string list \<Rightarrow> string set" where
  "shell_texts ws =
     (if ws \<noteq> [] \<and> command_name (hd ws) = hd ws \<and> path_base (hd ws) \<in> {''bash'', ''sh'', ''zsh'', ''dash''}
      then {ws ! Suc i |i. Suc i < length ws \<and> ws ! i = ''-c''} else {})"

lemma exec_arguments_nth: "Suc i < length ws \<Longrightarrow> ws ! i = ''-c'' \<Longrightarrow> ws ! Suc i \<in> set (exec_arguments ws)"
proof (induction ws arbitrary: i rule: exec_arguments.induct)
  case (3 a b rest)
  then show ?case by (cases i) auto
qed simp_all

lemma not_git_words:
  assumes "Commands B text = Inr cs" and "\<And>c. c \<in> set cs \<Longrightarrow> \<forall>w \<in> set (cmd_argv c). path_base w \<noteq> ''git''"
  shows "names_no_git B text"
proof -
  obtain ss where ss: "bash_parse B text = Inr ss"
    using assms(1) by (cases "bash_parse B text") (auto simp: Commands_def parse_def)
  have "path_base w \<noteq> ''git''" if "(as, ws) \<in> set (stmts_calls ss B)" "w \<in> set ws" for as ws w
    using stmts_calls_collected [OF ss assms(1) that(1)] assms(2) that(2) by blast
  then show ?thesis by (auto simp: names_no_git_def ss list_all_iff)
qed

lemma unrouted_command_names_no_git_aux:
  assumes "ev_hook_event_name e = ''PreToolUse''" and "ev_tool_name e = ''Bash''"
    and "trim_space (Command e) = command" and "command \<noteq> []"
    and "\<not> route_block (git_wrapper_route_for B env cerun e)"
    and "\<not> route_rewrite (git_wrapper_route_for B env cerun e)"
    and "\<not> managed_git_or_agent_shell_command B env command"
  shows "\<exists>ss. bash_parse B command = Inr ss \<and> names_no_git B command \<and>
    (\<forall>(as, ws) \<in> set (stmts_calls ss B). \<forall>text \<in> shell_texts ws. names_no_git B text)"
proof -
  have nb: "\<not> git_route_blocks_command B command (snd (snd (rewrite_git_command_chain B env command)))"
    using assms
    by (auto simp: git_wrapper_route_for_def git_wrapper_rewrite_route_def Let_def
        split: if_splits prod.splits)
  then obtain cs where cs: "Commands B command = Inr cs"
    "list_all (\<lambda>c. list_all (\<lambda>w. \<not> shell_token_is_git_tool w) (cmd_argv c)) cs"
    by (auto simp: git_route_blocks_command_def command_references_unmanaged_git_def list_ex_iff
        list_all_iff split: sum.splits)
  then obtain ss where ss: "bash_parse B command = Inr ss"
    by (cases "bash_parse B command") (auto simp: Commands_def parse_def)
  have quiet: "\<not> evasive_git_shell B command" using nb by (simp add: git_route_blocks_command_def)
  have "names_no_git B script" if call: "(as, ws) \<in> set (stmts_calls ss B)" and t: "script \<in> shell_texts ws" for as ws script
  proof -
    from t obtain i where i: "Suc i < length ws" "ws ! i = ''-c''" "script = ws ! Suc i"
      and sh: "command_name (hd ws) = hd ws" "path_base (hd ws) \<in> {''bash'', ''sh'', ''zsh'', ''dash''}"
      by (auto simp: shell_texts_def split: if_splits)
    from stmts_calls_collected [OF ss cs(1) call] i(1) obtain c where
      c: "c \<in> set cs" "cmd_argv c = ws" "cmd_name c = hd ws" using sh(1) by auto
    have "hd ws \<noteq> []" using sh(2) by (auto simp: path_base_def)
    then have name: "shell_command_name c \<in> {''bash'', ''sh'', ''zsh'', ''dash''}"
      using c(3) sh(2) by (simp add: shell_command_name_def)
    have "\<not> shell_exec_argument_references_git B c"
      using quiet cs(1) c(1) name
      by (auto simp: evasive_git_shell_def list_ex_iff shell_command_mentions_git_def
          shell_command_is_evasive_git_invocation_def Let_def split: if_splits)
    moreover have "script \<in> set (exec_arguments (cmd_argv c))" using exec_arguments_nth [OF i(1,2)] i(3) c(2) by simp
    ultimately have "parsed_shell_references_git B script = Inr False"
      by (cases "parsed_shell_references_git B script")
        (fastforce simp: shell_exec_argument_references_git_def list_ex_iff split: sum.splits)+
    then obtain cs' where "Commands B script = Inr cs'"
        "\<And>c. c \<in> set cs' \<Longrightarrow> \<forall>w \<in> set (cmd_argv c). path_base w \<noteq> ''git''"
      by (auto simp: parsed_shell_references_git_def list_ex_iff shell_command_arg_references_tool_def split: sum.splits)
    then show ?thesis by (rule not_git_words)
  qed
  moreover have "names_no_git B command"
    by (rule not_git_words [OF cs(1)]) (use cs(2) in \<open>auto simp: list_all_iff shell_token_is_git_tool_def\<close>)
  ultimately show ?thesis using ss by blast
qed

text \<open>A shell that reads two texts, for the examples.\<close>

definition two_texts_bash :: "nat stmt list \<Rightarrow> string \<Rightarrow> nat stmt list \<Rightarrow> nat bash" where
  "two_texts_bash stmts inner inner_stmts =
     (sample_bash stmts)\<lparr>bash_parse := \<lambda>t. Inr (if t = inner then inner_stmts else stmts)\<rparr>"

definition make_bash :: "nat bash" where
  "make_bash = sample_bash [lit_stmt (lit_call [''make'', ''check'']) False]"

theorem rewrite_route_reads_back_witness:
  "\<exists>m new. route_updated_input (git_wrapper_route_for (sample_bash [lit_stmt (lit_call [''git'', ''push'']) False]) (\<lambda>_. [])
        id (sample_event ''claude'' ''git push'')) = Some m \<and> map_of m ''command'' = Some (AString new) \<and>
      sh_simple_command new = Some [''bin/coding-ethos-run'', ''agent-shell'', ''--'', ''git push'']"
proof -
  let ?e = "sample_event ''claude'' ''git push''"
  let ?B = "sample_bash [lit_stmt (lit_call [''git'', ''push'']) False]"
  have "route_rewrite (git_wrapper_route_for ?B (\<lambda>_. []) id ?e)" by code_simp
  moreover have "\<not> agent_shell_rewrite_inspection ?e" by code_simp
  moreover have "trim_space (Command ?e) = ''git push''" by code_simp
  moreover have "runner_command (\<lambda>_. []) = ''bin/coding-ethos-run''" by code_simp
  ultimately show ?thesis using rewrite_route_reads_back [of ?B "\<lambda>_. []" id ?e] by auto
qed

text \<open>
  Fact. Git hidden in other ways is let through: in the text of an \<open>eval\<close> (which counts as an
  evasion only when some word names Git), in a text given by flags that are written together, as in
  \<open>bash -lc\<close>, and in the body of a control statement.
\<close>

definition if_bash :: "nat bash" where
  "if_bash = (sample_bash [Stmt 0 (OtherCmd 0) [] False])
     \<lparr>bash_print := (\<lambda>_. Some ''if true; then git push; fi'')\<rparr>"

theorem hidden_git_passes:
  "git_wrapper_route_for (sample_bash [lit_stmt (lit_call [''eval'', ''git push'']) False]) (\<lambda>_. []) id
     (sample_event ''claude'' ''x'') = no_route \<and>
   git_wrapper_route_for (two_texts_bash [lit_stmt (lit_call [''bash'', ''-lc'', ''git push'']) False] ''git push''
       [lit_stmt (lit_call [''git'', ''push'']) False]) (\<lambda>_. []) id (sample_event ''claude'' ''x'') = no_route \<and>
   git_wrapper_route_for if_bash (\<lambda>_. []) id (sample_event ''claude'' ''x'') = no_route"
  by code_simp

text \<open>
  Fact. One managed segment exempts the whole chain: when some segment counts as managed
  and no segment is rewritten, the route lets the command through without looking for evasions in
  the other segments. A \<open>git\<close> under any directory whose path holds
  \<open>.git/coding-ethos-hooks/bin/\<close> counts as managed.
\<close>

theorem managed_segment_exempts_chain:
  assumes "trim_space (Command e) = command"
    and "rewrite_git_command_chain B env command = (rewritten, False, True)"
    and "ControlFields B command = Inr tokens"
    and "segment \<in> set (chunk_segments (chunks tokens))" and "managed_git_segment env segment"
  shows "git_wrapper_route_for B env cerun e = no_route"
  using assms
  by (auto simp: git_wrapper_route_for_def managed_git_or_agent_shell_command_def
      managed_git_command_chain_def list_ex_iff Let_def)

definition decoy_words :: "string list" where
  "decoy_words = [''/tmp/.git/coding-ethos-hooks/bin/git'', ''status'']"

definition decoy_bash :: "nat bash" where
  "decoy_bash = two_texts_bash
     [lit_stmt (BinaryCmd (lit_stmt (lit_call decoy_words) False) ''&&''
        (lit_stmt (lit_call [''sh'', ''-c'', ''git push'']) False)) False]
     ''git push'' [lit_stmt (lit_call [''git'', ''push'']) False]"

theorem managed_segment_exempts_chain_witness:
  "git_wrapper_route_for decoy_bash (\<lambda>_. []) id (sample_event ''claude'' ''x'') = no_route \<and>
   evasive_git_shell decoy_bash ''x''"
proof
  show "git_wrapper_route_for decoy_bash (\<lambda>_. []) id (sample_event ''claude'' ''x'') = no_route"
  proof (rule managed_segment_exempts_chain)
    show "trim_space (Command (sample_event ''claude'' ''x'')) = ''x''" by code_simp
    show "rewrite_git_command_chain decoy_bash (\<lambda>_. []) ''x'' =
      (str_join '' '' (map shell_quote decoy_words @ ''&&'' # map shell_quote [''sh'', ''-c'', ''git push'']),
       False, True)" by code_simp
    show "ControlFields decoy_bash ''x'' = Inr (decoy_words @ [''&&'', ''sh'', ''-c'', ''git push''])"
      by code_simp
    show "decoy_words \<in> set (chunk_segments (chunks (decoy_words @ [''&&'', ''sh'', ''-c'', ''git push''])))"
      by code_simp
    show "managed_git_segment (\<lambda>_. []) decoy_words" by code_simp
  qed
  show "evasive_git_shell decoy_bash ''x''" by code_simp
qed

end
