(* ===== verification/ProviderOutput.thy ===== *)
theory ProviderOutput
  imports HookRunner
begin

text \<open>
  \<open>go/internal/hooks/provider_output.go\<close> and the effect of \<open>contract_v1.go\<close>: what each agent provider
  is told about a result. The rendered messages are fields of \<open>hook_env\<close>; the remediations
  (\<open>agentmsg.FromDecisions\<close>) are an argument.
\<close>

record 'r provider_hook_output =
  pho_output :: "hook_specific_output option"
  pho_decision :: string
  pho_message :: string
  pho_reason :: string
  pho_system_message :: string
  pho_trace_id :: string
  pho_tracking_id :: string
  pho_remediation :: "'r list"

definition empty_provider_output :: "'r provider_hook_output" where
  "empty_provider_output =
     \<lparr>pho_output = None, pho_decision = [], pho_message = [], pho_reason = [],
      pho_system_message = [], pho_trace_id = [], pho_tracking_id = [], pho_remediation = []\<rparr>"

definition provider_output_empty :: "'r provider_hook_output \<Rightarrow> bool" where
  "provider_output_empty out \<longleftrightarrow>
     pho_output out = None \<and> pho_decision out = [] \<and> pho_message out = [] \<and>
     pho_reason out = [] \<and> pho_system_message out = [] \<and> pho_trace_id out = [] \<and>
     pho_tracking_id out = [] \<and> length (pho_remediation out) = 0"

definition neutral_codex_pre_tool_output :: "hook_result \<Rightarrow> bool" where
  "neutral_codex_pre_tool_output r \<longleftrightarrow>
     res_provider r = codex \<and> res_event r = ''PreToolUse'' \<and> \<not> result_blocked r"

definition blocking_decisions :: "decision list \<Rightarrow> decision list" where
  "blocking_decisions ds =
     filter (\<lambda>d. dec_decision d = ''block'' \<or> dec_severity d = ''block'') ds"

definition deny_output :: "string \<Rightarrow> string \<Rightarrow> hook_specific_output" where
  "deny_output event_name message =
     empty_output\<lparr>hso_event_name := event_name, hso_permission_decision := ''deny'',
       hso_permission_reason := message\<rparr>"

definition kimi_allowed_output :: "hook_specific_output \<Rightarrow> 'r provider_hook_output" where
  "kimi_allowed_output out =
     (if hso_additional_context out = [] then empty_provider_output
      else if hso_event_name out = ''Stop'' then
        empty_provider_output
          \<lparr>pho_message := hso_additional_context out,
           pho_output := Some (deny_output (hso_event_name out) (hso_additional_context out))\<rparr>
      else empty_provider_output\<lparr>pho_message := hso_additional_context out\<rparr>)"

definition claude_allowed_output :: "hook_specific_output \<Rightarrow> 'r provider_hook_output" where
  "claude_allowed_output out =
     (if hso_additional_context out = [] then empty_provider_output\<lparr>pho_output := Some out\<rparr>
      else if hso_event_name out \<in> {''UserPromptSubmit'', ''PostToolUse'', ''PostToolBatch''}
        then empty_provider_output\<lparr>pho_output := Some out\<rparr>
      else empty_provider_output\<lparr>pho_system_message := hso_additional_context out\<rparr>)"

definition codex_allowed_output ::
  "'n hook_env \<Rightarrow> hook_specific_output \<Rightarrow> 'r provider_hook_output" where
  "codex_allowed_output H out =
     (if 0 < length (output_input out) then empty_provider_output\<lparr>pho_output := Some out\<rparr>
      else if hso_additional_context out = [] then empty_provider_output
      else
        let message = he_codex_message H out
        in if message = [] then empty_provider_output
           else if hso_event_name out \<in> {''SessionStart'', ''UserPromptSubmit'', ''PostToolUse''} then
             empty_provider_output
               \<lparr>pho_output := Some (empty_output
                  \<lparr>hso_event_name := hso_event_name out, hso_additional_context := message\<rparr>)\<rparr>
           else if hso_event_name out = ''Stop'' then
             empty_provider_output\<lparr>pho_system_message := message\<rparr>
           else empty_provider_output)"

definition provider_context_summary :: "string \<Rightarrow> string" where
  "provider_context_summary context =
     (if trim_space context = [] then [] else ''coding-ethos added hook context for this turn.'')"

definition gemini_allowed_output :: "hook_specific_output \<Rightarrow> 'r provider_hook_output" where
  "gemini_allowed_output out =
     (if 0 < length (output_input out) then
        empty_provider_output\<lparr>pho_decision := ''allow'', pho_output := Some out\<rparr>
      else if hso_additional_context out = [] then empty_provider_output\<lparr>pho_decision := ''allow''\<rparr>
      else empty_provider_output
        \<lparr>pho_decision := ''allow'', pho_output := Some out,
         pho_system_message := provider_context_summary (hso_additional_context out)\<rparr>)"

definition provider_blocked_output ::
  "'n hook_env \<Rightarrow> (decision list \<Rightarrow> string \<Rightarrow> 'r list) \<Rightarrow> hook_result \<Rightarrow> 'r provider_hook_output" where
  "provider_blocked_output H remediate r =
     (let message = he_block_message H r;
          base = empty_provider_output
            \<lparr>pho_reason := message, pho_trace_id := res_tracking_id r,
             pho_tracking_id := res_tracking_id r,
             pho_remediation := remediate (blocking_decisions (res_decisions r)) (res_tool r)\<rparr>
      in if res_provider r = ''gemini'' then
           base\<lparr>pho_decision := ''deny'', pho_system_message := message\<rparr>
         else if res_provider r = ''codex'' then
           base\<lparr>pho_decision := ''block'',
             pho_output := (if res_event r = ''PreToolUse''
                            then Some (deny_output (res_event r) message) else None)\<rparr>
         else if res_provider r = kimi then
           base\<lparr>pho_decision := ''deny'', pho_message := message,
             pho_output := Some (deny_output (res_event r) message)\<rparr>
         else
           base\<lparr>pho_decision := ''block'', pho_system_message := message,
             pho_output := Some (deny_output (res_event r) message)\<rparr>)"

definition provider_output ::
  "'n hook_env \<Rightarrow> (decision list \<Rightarrow> string \<Rightarrow> 'r list) \<Rightarrow> hook_result \<Rightarrow> 'r provider_hook_output" where
  "provider_output H remediate r =
     (if result_blocked r then provider_blocked_output H remediate r
      else case res_output r of
             None \<Rightarrow> empty_provider_output
           | Some out \<Rightarrow>
               if res_provider r = ''codex'' then codex_allowed_output H out
               else if res_provider r = ''gemini'' then gemini_allowed_output out
               else if res_provider r = kimi then kimi_allowed_output out
               else claude_allowed_output out)"

text \<open>\<open>EncodeProviderResult\<close>: what is written, \<open>None\<close> for nothing; the encoder is an argument.\<close>

definition EncodeProviderResult ::
  "'n hook_env \<Rightarrow> (decision list \<Rightarrow> string \<Rightarrow> 'r list) \<Rightarrow> ('r provider_hook_output \<Rightarrow> string) \<Rightarrow>
   hook_result \<Rightarrow> string option" where
  "EncodeProviderResult H remediate encode r =
     (let out = provider_output H remediate r
      in if provider_output_empty out then
           (if neutral_codex_pre_tool_output r then Some (''{}'' @ [CHR 0x0A]) else None)
         else Some (encode out))"

section \<open>The neutral contract\<close>

record neutral_hook_effect =
  eff_updated_input :: "any_map option"
  eff_action :: string
  eff_reason :: string
  eff_additional_context :: string

definition neutral_hook_effect_v1 :: "'n hook_env \<Rightarrow> hook_result \<Rightarrow> neutral_hook_effect" where
  "neutral_hook_effect_v1 H r =
     (let e0 = \<lparr>eff_updated_input = None, eff_action = ''allow'', eff_reason = [],
                eff_additional_context = []\<rparr>;
          e1 = (if result_blocked r
                then e0\<lparr>eff_reason := he_block_message H r,
                       eff_action := (if res_event r = ''Stop'' then ''continue'' else ''block'')\<rparr>
                else e0)
      in case res_output r of
           None \<Rightarrow> e1
         | Some out \<Rightarrow>
             let e2 = e1\<lparr>eff_additional_context := hso_additional_context out,
                        eff_updated_input := hso_updated_input out\<rparr>
             in if 0 < length (output_input out) \<and> \<not> result_blocked r
                then e2\<lparr>eff_action := ''rewrite''\<rparr> else e2)"

definition agent_hook_blocked_exit_code :: "string \<Rightarrow> int" where
  "agent_hook_blocked_exit_code provider = (if provider = kimi then 2 else 1)"

section \<open>What providers are told\<close>

text \<open>
  Fact. No provider is ever told to run a blocked call: for every result that is blocked the
  output denies or blocks, and the native output it may contain denies too and carries no
  rewritten input, whatever output the result itself holds.
\<close>

theorem blocked_result_never_allowed:
  assumes "result_blocked r"
  shows "pho_decision (provider_output H remediate r) \<in> {''deny'', ''block''} \<and>
    (case pho_output (provider_output H remediate r) of
       None \<Rightarrow> res_provider r = gemini \<or> (res_provider r = codex \<and> res_event r \<noteq> ''PreToolUse'')
     | Some out \<Rightarrow> hso_permission_decision out = ''deny'' \<and> hso_updated_input out = None)"
  using assms
  by (auto simp: provider_output_def provider_blocked_output_def deny_output_def empty_output_def
      empty_provider_output_def Let_def)

theorem blocked_result_never_allowed_witness:
  "pho_decision (provider_output (sample_env ls_stmts []) (\<lambda>_ _. [()])
     \<lparr>res_output = Some (empty_output\<lparr>hso_permission_decision := ''allow''\<rparr>),
      res_correlation_id = [], res_event = ''PreToolUse'', res_provider = ''claude'',
      res_status = ''blocked'', res_tracking_id = [], res_tool = ''Bash'', res_decisions = []\<rparr>)
   \<in> {''deny'', ''block''}"
  by (rule blocked_result_never_allowed [THEN conjunct1]) (simp add: result_blocked_def)

text \<open>
  Property C15. The whole path from an event to the provider: when a dispatched policy blocks, or the
  route that answers blocks, the provider is told to deny.
\<close>

theorem blocking_policy_reaches_provider:
  assumes "RunWithRegistry H bundle original R = Inr r"
    and "event_without_debug_flag (he_bash H) original = (e, debug)"
    and "\<not> ic_read_only_inspection (CollectInspectionContext H e)"
    and "entry \<in> set (dispatch_entries bundle e)"
    and "entry_outcome H R bundle (CollectInspectionContext H e) entry = Inr new"
    and "\<exists>d \<in> set new. dec_decision d = ''block'' \<or> dec_severity d = ''block''"
  shows "pho_decision (provider_output H remediate r) \<in> {''deny'', ''block''}"
proof -
  let ?ctx = "CollectInspectionContext H e"
  have ev: "ic_event ?ctx = e" by (simp add: CollectInspectionContext_def Let_def)
  obtain ds where ds: "evaluate_dispatched_policies H R bundle ?ctx = Inr ds"
    "res_status r = insp_status (DecideInspection bundle ?ctx ds (route_tool_use H ?ctx))"
    using RunWithRegistry_cases [OF assms(1-3)] by metis
  have "result_status new = ''blocked''"
    using assms(6) by (auto simp: result_status_def list_ex_iff)
  then have "result_status ds = ''blocked''"
    using dispatch_loop_blocks [OF ds(1) [unfolded evaluate_dispatched_policies_def ev] assms(4,5)] by blast
  with ds(2) have "result_blocked r" by (simp add: result_blocked_def DecideInspection_status)
  then show ?thesis
    by (auto simp: provider_output_def provider_blocked_output_def empty_provider_output_def Let_def)
qed

theorem blocking_policy_reaches_provider_witness:
  "\<exists>r. RunWithRegistry (sample_env ls_stmts []) (sample_bundle ''block'')
      (sample_event ''gemini'' ''touch x'') sample_registry = Inr r \<and>
    pho_decision (provider_output (sample_env ls_stmts []) (\<lambda>_ _. [()]) r) \<in> {''deny'', ''block''}"
proof -
  let ?e = "sample_event ''gemini'' ''touch x''" and ?H = "sample_env ls_stmts []"
  have e: "event_without_debug_flag (he_bash ?H) ?e = (?e, False)" by code_simp
  have ro: "\<not> ic_read_only_inspection (CollectInspectionContext ?H ?e)" by code_simp
  have "\<not> isl (evaluate_dispatched_policies ?H sample_registry (sample_bundle ''block'')
      (CollectInspectionContext ?H ?e))" by code_simp
  then obtain r where r: "RunWithRegistry ?H (sample_bundle ''block'') ?e sample_registry = Inr r"
    using run_of_dispatch [OF e ro] by (auto simp: isl_def) (metis sum.exhaust)
  note e ro
  moreover have "sample_entry ''block'' \<in> set (dispatch_entries (sample_bundle ''block'') ?e)" by code_simp
  moreover have "entry_outcome ?H sample_registry (sample_bundle ''block'')
      (CollectInspectionContext ?H ?e) (sample_entry ''block'') = Inr [NewDecision ''block'' sample_policy]"
    by code_simp
  moreover have "\<exists>d \<in> set [NewDecision ''block'' sample_policy].
      dec_decision d = ''block'' \<or> dec_severity d = ''block''" by code_simp
  ultimately have "pho_decision (provider_output ?H (\<lambda>_ _. [()]) r) \<in> {''deny'', ''block''}"
    by (rule blocking_policy_reaches_provider [OF r])
  with r show ?thesis by blast
qed

text \<open>
  Fact. The neutral contract does not share this: for a blocked result whose output holds a
  rewritten input, as the debug rewrite leaves it, the effect says to block and hands out the
  rewritten input all the same.
\<close>

theorem neutral_effect_keeps_rewrite_when_blocked:
  assumes "result_blocked r" and "res_output r = Some out" and "hso_updated_input out = Some m"
  shows "eff_action (neutral_hook_effect_v1 H r) \<in> {''block'', ''continue''} \<and>
    eff_updated_input (neutral_hook_effect_v1 H r) = Some m"
  using assms by (simp add: neutral_hook_effect_v1_def Let_def)

theorem neutral_effect_keeps_rewrite_when_blocked_witness:
  "eff_updated_input (neutral_hook_effect_v1 (sample_env ls_stmts [])
     \<lparr>res_output = Some (empty_output\<lparr>hso_updated_input := Some [(''command'', AString ''x'')]\<rparr>),
      res_correlation_id = [], res_event = ''PreToolUse'', res_provider = ''claude'',
      res_status = ''blocked'', res_tracking_id = [], res_tool = ''Bash'', res_decisions = []\<rparr>) =
   Some [(''command'', AString ''x'')]"
  by (rule neutral_effect_keeps_rewrite_when_blocked
        [where out = "empty_output\<lparr>hso_updated_input := Some [(''command'', AString ''x'')]\<rparr>", THEN conjunct2])
     (simp_all add: result_blocked_def)

text \<open>
  Fact. A rewrite is lost on the provider Kimi: an allowed result whose output only rewrites
  the input gives it nothing, so the command runs as the agent wrote it. With the debug flag that
  is a command the policies have not seen, since they inspect the stripped one.
\<close>

theorem kimi_drops_rewrite:
  assumes "\<not> result_blocked r" and "res_provider r = kimi"
    and "res_output r = Some out" and "hso_additional_context out = []"
  shows "EncodeProviderResult H remediate encode r = None"
  using assms
  by (simp add: EncodeProviderResult_def provider_output_def kimi_allowed_output_def
      provider_output_empty_def empty_provider_output_def neutral_codex_pre_tool_output_def)

theorem kimi_drops_rewrite_witness:
  "EncodeProviderResult (sample_env ls_stmts []) (\<lambda>_ _. [()]) (\<lambda>_. ''json'')
     \<lparr>res_output = Some (empty_output\<lparr>hso_updated_input := Some [(''command'', AString ''x'')]\<rparr>),
      res_correlation_id = [], res_event = ''PreToolUse'', res_provider = ''kimi'',
      res_status = ''allowed'', res_tracking_id = [], res_tool = ''Bash'', res_decisions = []\<rparr> = None"
  by (rule kimi_drops_rewrite [where out = "empty_output\<lparr>hso_updated_input := Some [(''command'', AString ''x'')]\<rparr>"])
     (simp_all add: result_blocked_def empty_output_def)

end
