(* ===== verification/GitWrap.thy ===== *)
theory GitWrap
  imports Policy
begin

text \<open>
  \<open>go/internal/gitwrap\<close>: the managed Git wrapper. \<open>argv.go\<close> finds the operation in a command line,
  \<open>check.go\<close> evaluates the policies dispatched for it, \<open>signing.go\<close> requires signed commits,
  \<open>execute.go\<close> runs Git and evaluates the policies after it, \<open>git_env.go\<close> and
  \<open>realgit.CleanGitLocalEnv\<close> prepare its environment. Git itself is the argument \<open>git\<close>: for a
  directory and arguments its output, \<open>None\<close> when it fails.
\<close>

section \<open>The command line\<close>

record parsed_argv =
  parsed_operation :: string
  parsed_args :: "string list"

definition is_git_executable :: "string \<Rightarrow> bool" where
  "is_git_executable command \<longleftrightarrow> path_base command = ''git''"

definition normalize_argv :: "string list \<Rightarrow> string list" where
  "normalize_argv argv =
     (case argv of
        [] \<Rightarrow> [''git'']
      | a # rest \<Rightarrow> if is_git_executable a then ''git'' # rest else ''git'' # argv)"

definition skip_next_git_global_arg :: "string \<Rightarrow> bool" where
  "skip_next_git_global_arg a \<longleftrightarrow>
     a \<in> {''-C'', ''-c'', ''--git-dir'', ''--work-tree'', ''--namespace'', ''--exec-path'', ''--config-env''}"

function git_operation_loop :: "string list \<Rightarrow> string" where
  "git_operation_loop [] = []"
| "git_operation_loop (a # rest) =
     (if a = ''--'' then []
      else if a = [] then git_operation_loop rest
      else if \<not> has_prefix a ''-'' then a
      else if skip_next_git_global_arg a \<and> rest \<noteq> [] then git_operation_loop (tl rest)
      else git_operation_loop rest)"
  by pat_completeness auto
termination by (relation "measure length") auto

definition git_operation :: "string list \<Rightarrow> string" where
  "git_operation argv =
     (if length argv < 2 \<or> hd argv \<noteq> ''git'' then [] else git_operation_loop (tl argv))"

definition ParseArgv :: "string list \<Rightarrow> parsed_argv" where
  "ParseArgv argv =
     (let normalized = normalize_argv argv
      in \<lparr>parsed_operation = git_operation normalized, parsed_args = normalized\<rparr>)"

section \<open>Signing\<close>

function git_operation_index_loop :: "nat \<Rightarrow> string list \<Rightarrow> nat option" where
  "git_operation_index_loop index [] = None"
| "git_operation_index_loop index (a # rest) =
     (if a = ''--'' then None
      else if a = [] then git_operation_index_loop (Suc index) rest
      else if \<not> has_prefix a ''-'' then Some index
      else if skip_next_git_global_arg a \<and> rest \<noteq> []
        then git_operation_index_loop (Suc (Suc index)) (tl rest)
      else git_operation_index_loop (Suc index) rest)"
  by pat_completeness auto
termination by (relation "measure (\<lambda>(i, argv). length argv)") auto

text \<open>\<open>None\<close> stands for the index -1.\<close>

definition git_operation_index :: "string list \<Rightarrow> nat option" where
  "git_operation_index argv =
     (if length argv < 2 \<or> hd argv \<noteq> ''git'' then None
      else git_operation_index_loop 1 (tl argv))"

definition git_commit_signing_arg_present :: "string list \<Rightarrow> bool" where
  "git_commit_signing_arg_present args =
     list_ex (\<lambda>a. a = ''-S'' \<or> has_prefix a ''-S'' \<or> a = ''--gpg-sign'' \<or>
       has_prefix a ''--gpg-sign='' \<or> a = ''--no-gpg-sign'') args"

definition insert_git_arg :: "string list \<Rightarrow> nat \<Rightarrow> string \<Rightarrow> string list" where
  "insert_git_arg argv index a = take index argv @ [a] @ drop index argv"

definition force_signed_git_args :: "string list \<Rightarrow> string list" where
  "force_signed_git_args argv =
     (case git_operation_index argv of
        None \<Rightarrow> argv
      | Some i \<Rightarrow>
          if argv ! i = ''commit'' then
            (if git_commit_signing_arg_present (drop (i + 1) argv) then argv
             else insert_git_arg argv (i + 1) ''-S'')
          else argv)"

definition git_bool_string :: "string \<Rightarrow> bool" where
  "git_bool_string v \<longleftrightarrow> to_lower (trim_space v) \<in> {''true'', ''yes'', ''on'', ''1''}"

definition git_config_assignment_disables_signing :: "string \<Rightarrow> string \<Rightarrow> bool" where
  "git_config_assignment_disables_signing assignment key =
     (case str_cut assignment ''='' of
        (name, v, ok) \<Rightarrow>
          if \<not> ok \<or> \<not> equal_fold (trim_space name) key then False else \<not> git_bool_string v)"

function config_override_loop :: "string \<Rightarrow> string list \<Rightarrow> bool" where
  "config_override_loop key [] = False"
| "config_override_loop key (a # rest) =
     (if a = ''-c'' \<and> rest \<noteq> [] then
        (if git_config_assignment_disables_signing (hd rest) key then True
         else config_override_loop key (tl rest))
      else if has_prefix a ''-c'' then
        (if git_config_assignment_disables_signing (trim_prefix a ''-c'') key then True
         else config_override_loop key rest)
      else config_override_loop key rest)"
  by pat_completeness auto
termination by (relation "measure (\<lambda>(key, argv). length argv)") auto

definition git_config_override_disables_signing :: "string list \<Rightarrow> string \<Rightarrow> bool" where
  "git_config_override_disables_signing argv key =
     config_override_loop key (tl (parsed_args (ParseArgv argv)))"

fun config_sets_false_loop :: "string \<Rightarrow> string list \<Rightarrow> bool" where
  "config_sets_false_loop key [] = False"
| "config_sets_false_loop key [a] = False"
| "config_sets_false_loop key (a # b # rest) =
     (if equal_fold a key then \<not> git_bool_string b else config_sets_false_loop key (b # rest))"

definition git_config_sets_signing_false :: "string list \<Rightarrow> string \<Rightarrow> bool" where
  "git_config_sets_signing_false argv key =
     (let parsed = ParseArgv argv
      in if parsed_operation parsed \<noteq> ''config'' then False
         else config_sets_false_loop key (parsed_args parsed))"

type_synonym git = "string \<Rightarrow> string list \<Rightarrow> string option"

record git_options =
  opt_cwd :: string
  opt_argv :: "string list"
  opt_stdin :: string
  opt_admin_approved :: bool

definition git_inside_work_tree :: "git \<Rightarrow> string \<Rightarrow> bool" where
  "git_inside_work_tree git cwd =
     (case git cwd [''rev-parse'', ''--is-inside-work-tree''] of
        None \<Rightarrow> False
      | Some out \<Rightarrow> trim_space out = ''true'')"

definition git_config_bool :: "git \<Rightarrow> string \<Rightarrow> string \<Rightarrow> string" where
  "git_config_bool git cwd key =
     (case git cwd [''config'', ''--type=bool'', ''--get'', key] of
        None \<Rightarrow> []
      | Some out \<Rightarrow> to_lower (trim_space out))"

definition git_config_value :: "git \<Rightarrow> string \<Rightarrow> string \<Rightarrow> string" where
  "git_config_value git cwd key =
     (case git cwd [''config'', ''--get'', key] of None \<Rightarrow> [] | Some out \<Rightarrow> trim_space out)"

definition git_signing_decision :: "string \<Rightarrow> string \<Rightarrow> decision" where
  "git_signing_decision message suggestion =
     \<lparr>dec_evidence = [(''commit_gpgsign'', ABool True)], dec_decision = ''block'',
      dec_message = message, dec_policy_id = ''git.signed_commits_required'',
      dec_severity = ''block'', dec_suggestion = suggestion, dec_diagnostics = [],
      dec_principle_ids = [''security-by-design'', ''one-path-for-critical-operations'']\<rparr>"

definition git_signing_config_decisions :: "git \<Rightarrow> git_options \<Rightarrow> decision list" where
  "git_signing_config_decisions git o1 =
     (if opt_cwd o1 = [] \<or> \<not> git_inside_work_tree git (opt_cwd o1) then []
      else
        let d = (if git_config_override_disables_signing (opt_argv o1) ''commit.gpgsign'' \<or>
                    git_config_sets_signing_false (opt_argv o1) ''commit.gpgsign''
                 then [git_signing_decision ''Git commit signing cannot be disabled.''
                   ''Remove the signing-disabling config update and keep commit.gpgsign=true.'']
                 else [])
        in if parsed_operation (ParseArgv (opt_argv o1)) = ''config'' then d
           else if git_config_bool git (opt_cwd o1) ''commit.gpgsign'' \<noteq> ''true'' \<or>
                   trim_space (git_config_value git (opt_cwd o1) ''user.signingkey'') = []
             then d @ [git_signing_decision ''Git commit signing is required for every git action.''
               (''Set commit.gpgsign=true and user.signingkey to the approved '' @
                ''signing key before running git.'')]
           else d)"

definition git_commit_signature_decisions :: "git_options \<Rightarrow> decision list" where
  "git_commit_signature_decisions o1 =
     (if list_ex (\<lambda>a. a = ''--no-gpg-sign'' \<or> a = ''--gpg-sign=false'')
           (parsed_args (ParseArgv (opt_argv o1)))
      then [git_signing_decision ''Git commit signing cannot be disabled.''
        ''Remove --no-gpg-sign and keep commit.gpgsign=true.'']
      else [])"

definition non_empty_lines :: "string \<Rightarrow> string list" where
  "non_empty_lines out =
     filter (\<lambda>l. l \<noteq> []) (map trim_space (split_on (CHR 0x0A) out))"

definition outgoing_commit_signature_statuses :: "git \<Rightarrow> string \<Rightarrow> string list" where
  "outgoing_commit_signature_statuses git cwd =
     (case git cwd [''log'', ''--pretty=%G?'', ''HEAD'', ''--not'', ''--remotes''] of
        None \<Rightarrow> [''?'']
      | Some out \<Rightarrow> non_empty_lines out)"

definition git_unsigned_outgoing_commit_decisions :: "git \<Rightarrow> git_options \<Rightarrow> decision list" where
  "git_unsigned_outgoing_commit_decisions git o1 =
     (if opt_cwd o1 = [] \<or> \<not> git_inside_work_tree git (opt_cwd o1) then []
      else if list_ex (\<lambda>s. s \<noteq> ''G'') (outgoing_commit_signature_statuses git (opt_cwd o1))
        then [git_signing_decision ''Push contains unsigned or unverifiable commits.''
          ''Recreate the outgoing commits with valid signatures before pushing.'']
      else [])"

definition git_head_signature_decisions :: "git \<Rightarrow> git_options \<Rightarrow> decision list" where
  "git_head_signature_decisions git o1 =
     (case git (opt_cwd o1) [''log'', ''-1'', ''--pretty=%G?''] of
        None \<Rightarrow> [git_signing_decision ''Latest commit signature could not be verified.''
          ''Recreate the commit with a valid signature before continuing.'']
      | Some out \<Rightarrow>
          if trim_space out \<noteq> ''G''
          then [git_signing_decision ''Latest commit is unsigned or unverifiable.''
            ''Recreate the commit with a valid signature before continuing.'']
          else [])"

definition git_signing_pre_decisions :: "git \<Rightarrow> git_options \<Rightarrow> string \<Rightarrow> decision list" where
  "git_signing_pre_decisions git o1 operation =
     (if operation = [] then []
      else git_signing_config_decisions git o1 @
        (if operation = ''commit'' then git_commit_signature_decisions o1 else []) @
        (if operation = ''push'' then git_unsigned_outgoing_commit_decisions git o1 else []))"

definition git_signing_post_decisions :: "git \<Rightarrow> git_options \<Rightarrow> string \<Rightarrow> decision list" where
  "git_signing_post_decisions git o1 operation =
     (if operation = [] then []
      else git_signing_config_decisions git o1 @
        (if operation = ''commit'' then git_head_signature_decisions git o1 else []))"

section \<open>Checking\<close>

record git_result =
  gr_operation :: string
  gr_status :: string
  gr_decisions :: "decision list"
  gr_argv :: "string list"

datatype git_check_error =
    UnknownGitPolicy string string
  | GitUnregisteredEvaluator string string
  | GitEvaluatePolicy string string

definition git_result_blocked :: "git_result \<Rightarrow> bool" where
  "git_result_blocked r \<longleftrightarrow> gr_status r = ''blocked''"

definition git_result_status :: "decision list \<Rightarrow> string" where
  "git_result_status ds =
     (if list_ex (\<lambda>d. dec_decision d = ''block'' \<or> dec_severity d = ''block'') ds
      then ''blocked'' else ''allowed'')"

fun dedupe_policy_ids_loop :: "string list \<Rightarrow> string set \<Rightarrow> string list" where
  "dedupe_policy_ids_loop [] seen = []"
| "dedupe_policy_ids_loop (p # ps) seen =
     (if p = [] \<or> p \<in> seen then dedupe_policy_ids_loop ps seen
      else p # dedupe_policy_ids_loop ps (insert p seen))"

definition dedupe_policy_ids :: "string list \<Rightarrow> string list" where
  "dedupe_policy_ids ps = dedupe_policy_ids_loop ps {}"

definition append_git_policy_ids ::
  "policy_bundle \<Rightarrow> string \<Rightarrow> (git_operation_dispatch \<Rightarrow> string list) \<Rightarrow> string list" where
  "append_git_policy_ids bundle operation select_ids =
     dedupe_policy_ids
       ((case map_of (bundle_git bundle) ''*'' of None \<Rightarrow> [] | Some d \<Rightarrow> select_ids d) @
        (case map_of (bundle_git bundle) operation of None \<Rightarrow> [] | Some d \<Rightarrow> select_ids d))"

definition git_pre_policy_ids :: "policy_bundle \<Rightarrow> string \<Rightarrow> string list" where
  "git_pre_policy_ids bundle operation = append_git_policy_ids bundle operation dispatch_pre"

definition git_post_policy_ids :: "policy_bundle \<Rightarrow> string \<Rightarrow> string list" where
  "git_post_policy_ids bundle operation = append_git_policy_ids bundle operation dispatch_post"

fun git_evaluate_specs ::
  "registry \<Rightarrow> policy \<Rightarrow> eval_context \<Rightarrow> evaluator_spec list \<Rightarrow> git_check_error + decision list" where
  "git_evaluate_specs R p ctx [] = Inr []"
| "git_evaluate_specs R p ctx (s # specs) =
     (case R (eval_name s) of
        None \<Rightarrow> Inl (GitUnregisteredEvaluator (pol_id p) (eval_name s))
      | Some evaluate \<Rightarrow>
          (case evaluate p (ctx\<lparr>ctx_options := eval_options s\<rparr>) of
             Inl message \<Rightarrow> Inl (GitEvaluatePolicy (pol_id p) message)
           | Inr ds \<Rightarrow>
               if ds \<noteq> [] then Inr ds
               else git_evaluate_specs R p (ctx\<lparr>ctx_options := eval_options s\<rparr>) specs))"

definition git_context :: "git_options \<Rightarrow> string list \<Rightarrow> string \<Rightarrow> eval_context" where
  "git_context o1 argv scope =
     (let c = empty_context
            \<lparr>ctx_admin_approved := opt_admin_approved o1, ctx_argv := argv, ctx_cwd := opt_cwd o1,
             ctx_event_name := ''git'', ctx_provider := ''gitwrap'', ctx_scope := scope,
             ctx_stdin := opt_stdin o1\<rparr>
      in if scope = ''PostToolUse''
         then c\<lparr>ctx_has_tool_response := True, ctx_has_return_code := True, ctx_return_code := 0\<rparr>
         else c)"

definition evaluate_git_policy ::
  "registry \<Rightarrow> git_options \<Rightarrow> string list \<Rightarrow> string \<Rightarrow> policy \<Rightarrow> git_check_error + decision list" where
  "evaluate_git_policy R o1 argv scope p =
     git_evaluate_specs R p (git_context o1 argv scope) (pol_evaluators p)"

fun git_policies_loop ::
  "registry \<Rightarrow> policy_bundle \<Rightarrow> git_options \<Rightarrow> string list \<Rightarrow> string \<Rightarrow> string \<Rightarrow> string list \<Rightarrow>
   decision list \<Rightarrow> git_check_error + decision list" where
  "git_policies_loop R bundle o1 argv operation scope [] ds = Inr ds"
| "git_policies_loop R bundle o1 argv operation scope (policy_id # ids) ds =
     (case map_of (bundle_policies bundle) policy_id of
        None \<Rightarrow> Inl (UnknownGitPolicy operation policy_id)
      | Some p \<Rightarrow>
          (case evaluate_git_policy R o1 argv scope p of
             Inl err \<Rightarrow> Inl err
           | Inr evaluated \<Rightarrow>
               git_policies_loop R bundle o1 argv operation scope ids (ds @ evaluated)))"

definition CheckWithRegistry ::
  "git \<Rightarrow> policy_bundle \<Rightarrow> git_options \<Rightarrow> registry \<Rightarrow> git_check_error + git_result" where
  "CheckWithRegistry git bundle o1 R =
     (let argv = parsed_args (ParseArgv (opt_argv o1));
          operation = parsed_operation (ParseArgv (opt_argv o1))
      in if operation = [] then
           Inr \<lparr>gr_operation = [], gr_status = ''allowed'', gr_decisions = [], gr_argv = argv\<rparr>
         else
           let ids = git_pre_policy_ids bundle operation
           in if ids = [] then
                let ds = git_signing_pre_decisions git o1 operation
                in Inr \<lparr>gr_operation = operation, gr_status = git_result_status ds,
                        gr_decisions = ds, gr_argv = argv\<rparr>
              else case git_policies_loop R bundle o1 argv operation [] ids [] of
                     Inl err \<Rightarrow> Inl err
                   | Inr ds0 \<Rightarrow>
                       let ds = ds0 @ git_signing_pre_decisions git o1 operation
                       in Inr \<lparr>gr_operation = operation, gr_status = git_result_status ds,
                               gr_decisions = ds, gr_argv = argv\<rparr>)"

definition evaluate_post_policies ::
  "git \<Rightarrow> policy_bundle \<Rightarrow> git_options \<Rightarrow> string \<Rightarrow> registry \<Rightarrow> git_check_error + git_result" where
  "evaluate_post_policies git bundle o1 scope R =
     (let argv = parsed_args (ParseArgv (opt_argv o1));
          operation = parsed_operation (ParseArgv (opt_argv o1))
      in if operation = [] then
           Inr \<lparr>gr_operation = [], gr_status = ''allowed'', gr_decisions = [], gr_argv = argv\<rparr>
         else
           let ds0 = (if scope = ''PostToolUse'' then git_signing_post_decisions git o1 operation else []);
               ids = git_post_policy_ids bundle operation
           in if ids = [] then
                Inr \<lparr>gr_operation = operation, gr_status = git_result_status ds0,
                     gr_decisions = ds0, gr_argv = argv\<rparr>
              else case git_policies_loop R bundle o1 argv operation scope ids ds0 of
                     Inl err \<Rightarrow> Inl err
                   | Inr ds \<Rightarrow>
                       Inr \<lparr>gr_operation = operation, gr_status = git_result_status ds,
                            gr_decisions = ds, gr_argv = argv\<rparr>)"

section \<open>The environment of Git\<close>

definition git_local_env_name :: "string \<Rightarrow> bool" where
  "git_local_env_name name \<longleftrightarrow>
     name \<in> {''GIT_ALTERNATE_OBJECT_DIRECTORIES'', ''GIT_COMMON_DIR'', ''GIT_CONFIG_COUNT'',
              ''GIT_CONFIG_PARAMETERS'', ''GIT_DIR'', ''GIT_INDEX_FILE'', ''GIT_NAMESPACE'',
              ''GIT_OBJECT_DIRECTORY'', ''GIT_PREFIX'', ''GIT_QUARANTINE_PATH'', ''GIT_WORK_TREE''} \<or>
     has_prefix name ''GIT_CONFIG_KEY_'' \<or> has_prefix name ''GIT_CONFIG_VALUE_''"

text \<open>The name of an environment item, \<open>None\<close> when it has no equals sign.\<close>

definition env_item_name :: "string \<Rightarrow> string option" where
  "env_item_name item =
     (case str_cut item ''='' of (name, v, found) \<Rightarrow> if found then Some name else None)"

definition clean_git_local_env :: "string list \<Rightarrow> string list" where
  "clean_git_local_env source =
     filter (\<lambda>item. case env_item_name item of
                      None \<Rightarrow> True
                    | Some name \<Rightarrow> \<not> git_local_env_name name) source
     @ [''GIT_OPTIONAL_LOCKS=0'']"

definition coding_ethos_execution_env_blocked :: "string \<Rightarrow> bool" where
  "coding_ethos_execution_env_blocked name \<longleftrightarrow>
     name \<in> {''CODING_ETHOS_EXEC_STACK'', ''DISPLAY'', ''CODE_ETHOS_GIT_WRAPPER_AUTHORIZED'',
              ''CODE_ETHOS_GIT_WRAPPER_PID'', ''WAYLAND_DISPLAY'', ''XAUTHORITY''}"

definition clean_coding_ethos_execution_env :: "string list \<Rightarrow> string list" where
  "clean_coding_ethos_execution_env source =
     filter (\<lambda>item. case env_item_name item of
                      None \<Rightarrow> True
                    | Some name \<Rightarrow> \<not> coding_ethos_execution_env_blocked name) source"

definition git_execution_env :: "string list \<Rightarrow> int \<Rightarrow> bool \<Rightarrow> string list" where
  "git_execution_env environ pid admin_approved =
     clean_coding_ethos_execution_env (clean_git_local_env environ) @
     [''CODE_ETHOS_GIT_WRAPPER_AUTHORIZED=1'', ''CODE_ETHOS_GIT_WRAPPER_PID='' @ itoa pid] @
     (if admin_approved then [''CODE_ETHOS_ADMIN_APPROVED=1''] else [])"

text \<open>The arguments \<open>Execute\<close> hands to Git.\<close>

definition Execute_args :: "git_options \<Rightarrow> string list" where
  "Execute_args o1 = tl (force_signed_git_args (normalize_argv (opt_argv o1)))"

section \<open>The operation and its position\<close>

lemma git_operation_index_loop_spec:
  "case git_operation_index_loop i argv of
     None \<Rightarrow> git_operation_loop argv = []
   | Some j \<Rightarrow> i \<le> j \<and> j - i < length argv \<and> git_operation_loop argv = argv ! (j - i) \<and>
       git_operation_loop argv \<noteq> []"
proof (induction i argv rule: git_operation_index_loop.induct)
  case (1 i)
  then show ?case by simp
next
  case (2 i a rest)
  consider "a = ''--''" | "a = []" | "a \<noteq> []" "\<not> has_prefix a ''-''"
    | "a \<noteq> []" "a \<noteq> ''--''" "has_prefix a ''-''" "skip_next_git_global_arg a \<and> rest \<noteq> []"
    | "a \<noteq> []" "a \<noteq> ''--''" "has_prefix a ''-''" "\<not> (skip_next_git_global_arg a \<and> rest \<noteq> [])"
    by blast
  then show ?case
  proof cases
    case 1
    then show ?thesis by simp
  next
    case a: 2
    with "2.IH"(1) show ?thesis by (auto split: option.splits simp: nth_Cons')
  next
    case 3
    then have "a \<noteq> ''--''" by (auto simp: has_prefix_def)
    with 3 show ?thesis by simp
  next
    case 4
    then obtain b rest' where r: "rest = b # rest'" by (cases rest) auto
    from "2.IH"(2) 4 r have "case git_operation_index_loop (Suc (Suc i)) rest' of
        None \<Rightarrow> git_operation_loop rest' = []
      | Some j \<Rightarrow> Suc (Suc i) \<le> j \<and> j - Suc (Suc i) < length rest' \<and>
          git_operation_loop rest' = rest' ! (j - Suc (Suc i)) \<and> git_operation_loop rest' \<noteq> []"
      by (auto split: option.splits)
    with 4 r show ?thesis
      by (auto split: option.splits simp: nth_Cons' numeral_2_eq_2)
  next
    case 5
    with "2.IH"(3) have "case git_operation_index_loop (Suc i) rest of
        None \<Rightarrow> git_operation_loop rest = []
      | Some j \<Rightarrow> Suc i \<le> j \<and> j - Suc i < length rest \<and>
          git_operation_loop rest = rest ! (j - Suc i) \<and> git_operation_loop rest \<noteq> []"
      by blast
    moreover from 5 have "git_operation_index_loop i (a # rest) = git_operation_index_loop (Suc i) rest"
      "git_operation_loop (a # rest) = git_operation_loop rest" by auto
    ultimately show ?thesis by (auto split: option.splits simp: nth_Cons')
  qed
qed

lemma git_operation_index_spec:
  "case git_operation_index argv of
     None \<Rightarrow> git_operation argv = []
   | Some j \<Rightarrow> 0 < j \<and> j < length argv \<and> git_operation argv = argv ! j \<and> argv ! j \<noteq> []"
proof (cases "length argv < 2 \<or> hd argv \<noteq> ''git''")
  case True
  then show ?thesis by (auto simp: git_operation_index_def git_operation_def)
next
  case False
  then obtain rest where r: "argv = ''git'' # rest" by (cases argv) auto
  from git_operation_index_loop_spec [where i = 1 and argv = rest] False r show ?thesis
    by (auto simp: git_operation_index_def git_operation_def nth_Cons' split: option.splits)
qed

lemma git_operation_index_word:
  "git_operation argv = (case git_operation_index argv of None \<Rightarrow> [] | Some i \<Rightarrow> argv ! i)"
  using git_operation_index_spec [of argv] by (auto split: option.splits)

text \<open>
  Fact. The two loops that look for the operation, the one that selects the policies and the
  one that decides where to insert the signing option, agree: the word at the index is the
  operation, and there is no index exactly when there is no operation.
\<close>

theorem git_operation_at_index:
  "git_operation argv = (case git_operation_index argv of None \<Rightarrow> [] | Some i \<Rightarrow> argv ! i)"
  by (rule git_operation_index_word)

text \<open>The index depends on the words up to it only.\<close>

lemma git_operation_index_loop_prefix:
  assumes "git_operation_index_loop i argv = Some j"
  shows "git_operation_index_loop i (take (Suc (j - i)) argv @ ys) = Some j"
  using assms
proof (induction i argv rule: git_operation_index_loop.induct)
  case (1 i)
  then show ?case by simp
next
  case (2 i a rest)
  note spec = git_operation_index_loop_spec
  consider "a = []" | "a \<noteq> []" "\<not> has_prefix a ''-''"
    | "a \<noteq> []" "a \<noteq> ''--''" "has_prefix a ''-''" "skip_next_git_global_arg a \<and> rest \<noteq> []"
    | "a \<noteq> []" "a \<noteq> ''--''" "has_prefix a ''-''" "\<not> (skip_next_git_global_arg a \<and> rest \<noteq> [])"
    using "2.prems" by (cases "a = ''--''") auto
  then show ?case
  proof cases
    case 1
    with "2.prems" have j: "git_operation_index_loop (Suc i) rest = Some j" by simp
    with spec [where i = "Suc i" and argv = rest] have "Suc i \<le> j" by simp
    then have "Suc (j - i) = Suc (Suc (j - Suc i))" by simp
    with "2.IH"(1) 1 j show ?thesis by simp
  next
    case 2
    then have "a \<noteq> ''--''" by (auto simp: has_prefix_def)
    with 2 "2.prems" show ?thesis by simp
  next
    case 3
    then obtain b rest' where r: "rest = b # rest'" by (cases rest) auto
    with 3 "2.prems" have j: "git_operation_index_loop (Suc (Suc i)) rest' = Some j" by simp
    with spec [where i = "Suc (Suc i)" and argv = rest'] have "Suc (Suc i) \<le> j" by simp
    then have "Suc (j - i) = Suc (Suc (Suc (j - Suc (Suc i))))" by simp
    with "2.IH"(2) 3 r j show ?thesis by simp
  next
    case 4
    with "2.prems" have j: "git_operation_index_loop (Suc i) rest = Some j" by auto
    with spec [where i = "Suc i" and argv = rest] have le: "Suc i \<le> j" "rest \<noteq> []" by auto
    then have "Suc (j - i) = Suc (Suc (j - Suc i))" by simp
    with "2.IH"(3) 4 j le show ?thesis by auto
  qed
qed

lemma git_operation_index_insert:
  assumes "git_operation_index argv = Some i"
  shows "git_operation_index (insert_git_arg argv (i + 1) a) = Some i"
proof -
  from assms obtain rest where r: "argv = ''git'' # rest" "git_operation_index_loop 1 rest = Some i"
    by (cases argv) (auto simp: git_operation_index_def split: if_splits)
  from git_operation_index_loop_spec [where i = 1 and argv = rest] r(2) have i: "1 \<le> i" "i - 1 < length rest" by auto
  then have t: "take (i + 1) argv = ''git'' # take (Suc (i - 1)) rest"
    using r(1) by (cases i) auto
  have "rest \<noteq> []" using i(2) by auto
  then have "1 \<le> length (take (Suc (i - 1)) rest)" by (cases rest) auto
  then show ?thesis
    using git_operation_index_loop_prefix [OF r(2), of "a # drop (i + 1) argv"] t
    by (auto simp: insert_git_arg_def git_operation_index_def)
qed

lemma nth_insert_git_arg: "i < length argv \<Longrightarrow> insert_git_arg argv (i + 1) a ! i = argv ! i"
  by (simp add: insert_git_arg_def nth_append)

lemma drop_insert_git_arg:
  "i < length argv \<Longrightarrow> drop (i + 1) (insert_git_arg argv (i + 1) a) = a # drop (i + 1) argv"
  by (simp add: insert_git_arg_def)

text \<open>
  Fact. Forcing signatures changes only commits and only by one option: the operation of the
  command is the same, forcing again changes nothing, and when the operation is \<open>commit\<close> an option
  about signing follows it; any other command is handed on as it is.
\<close>

theorem force_signed_spec:
  "git_operation (force_signed_git_args argv) = git_operation argv \<and>
   force_signed_git_args (force_signed_git_args argv) = force_signed_git_args argv \<and>
   (if git_operation argv = ''commit''
    then \<exists>i. git_operation_index (force_signed_git_args argv) = Some i \<and>
           git_commit_signing_arg_present (drop (i + 1) (force_signed_git_args argv)) \<and>
           force_signed_git_args argv \<in> {argv, insert_git_arg argv (i + 1) ''-S''}
    else force_signed_git_args argv = argv)"
proof (cases "git_operation_index argv")
  case None
  with git_operation_index_word [of argv] show ?thesis by (simp add: force_signed_git_args_def)
next
  case (Some i)
  with git_operation_index_spec [of argv] have i: "i < length argv" "git_operation argv = argv ! i"
    by simp_all
  let ?new = "insert_git_arg argv (i + 1) ''-S''"
  have idx: "git_operation_index ?new = Some i" by (rule git_operation_index_insert [OF Some])
  with git_operation_index_spec [of ?new] have op: "git_operation ?new = argv ! i"
    using nth_insert_git_arg [OF i(1), of "''-S''"] by simp
  have present: "git_commit_signing_arg_present (drop (i + 1) ?new)"
    unfolding drop_insert_git_arg [OF i(1)] by (simp add: git_commit_signing_arg_present_def)
  show ?thesis
  proof (cases "argv ! i = ''commit'' \<and> \<not> git_commit_signing_arg_present (drop (i + 1) argv)")
    case True
    then have f: "force_signed_git_args argv = ?new"
      using Some by (simp add: force_signed_git_args_def)
    have "force_signed_git_args ?new = ?new"
      using idx present True by (simp add: force_signed_git_args_def nth_insert_git_arg [OF i(1)])
    with f idx op present i(2) True show ?thesis by auto
  next
    case False
    then have "force_signed_git_args argv = argv"
      using Some by (auto simp: force_signed_git_args_def)
    with False Some i(2) show ?thesis by auto
  qed
qed

section \<open>Verdicts of the wrapper\<close>

interpretation git_verdict: verdict git_result_status "''blocked''"
  by unfold_locales (auto simp: git_result_status_def decision_blocks_def list_ex_iff)

lemma git_result_status_cases: "git_result_status ds = ''blocked'' \<or> git_result_status ds = ''allowed''"
  by (simp add: git_result_status_def)

lemma git_policies_loop_ok:
  assumes "git_policies_loop R bundle o1 argv operation scope ids ds = Inr out"
  shows "\<exists>outs. list_all2 (\<lambda>policy_id new. \<exists>p. map_of (bundle_policies bundle) policy_id = Some p \<and>
      evaluate_git_policy R o1 argv scope p = Inr new) ids outs \<and>
    out = ds @ concat outs"
  using assms
proof (induction ids arbitrary: ds)
  case Nil
  then show ?case by (intro exI [of _ "[]"]) simp
next
  case (Cons policy_id ids)
  then obtain p new where p: "map_of (bundle_policies bundle) policy_id = Some p"
    "evaluate_git_policy R o1 argv scope p = Inr new"
    "git_policies_loop R bundle o1 argv operation scope ids (ds @ new) = Inr out"
    by (auto split: option.splits sum.splits)
  from Cons.IH [OF p(3)] obtain outs where
    "list_all2 (\<lambda>policy_id new. \<exists>p. map_of (bundle_policies bundle) policy_id = Some p \<and>
      evaluate_git_policy R o1 argv scope p = Inr new) ids outs"
    "out = (ds @ new) @ concat outs" by blast
  with p(1,2) show ?case by (intro exI [of _ "new # outs"]) simp
qed

lemma git_policies_loop_blocks:
  assumes "git_policies_loop R bundle o1 argv operation scope ids ds = Inr out"
    and "policy_id \<in> set ids" and "map_of (bundle_policies bundle) policy_id = Some p"
    and "evaluate_git_policy R o1 argv scope p = Inr new" and "git_result_status new = ''blocked''"
  shows "git_result_status out = ''blocked''"
proof -
  obtain outs where o: "list_all2 (\<lambda>policy_id new. \<exists>p. map_of (bundle_policies bundle) policy_id = Some p \<and>
      evaluate_git_policy R o1 argv scope p = Inr new) ids outs" "out = ds @ concat outs"
    using git_policies_loop_ok [OF assms(1)] by blast
  obtain k where k: "k < length ids" "ids ! k = policy_id"
    using assms(2) by (auto simp: in_set_conv_nth)
  from list_all2_nthD [OF o(1) k(1)] k(2) assms(3,4) have "outs ! k = new" by auto
  moreover have "outs ! k \<in> set outs"
    using k(1) list_all2_lengthD [OF o(1)] by simp
  ultimately have "new \<in> set outs" by simp
  with assms(5) o(2) show ?thesis
    by (auto simp: git_verdict.blocked_append git_verdict.blocked_concat)
qed

text \<open>The decisions of a check that has an operation.\<close>

lemma CheckWithRegistry_decisions:
  assumes "CheckWithRegistry git bundle o1 R = Inr r"
    and "parsed_operation (ParseArgv (opt_argv o1)) \<noteq> []"
  obtains ds where
    "git_policies_loop R bundle o1 (parsed_args (ParseArgv (opt_argv o1)))
       (parsed_operation (ParseArgv (opt_argv o1))) []
       (git_pre_policy_ids bundle (parsed_operation (ParseArgv (opt_argv o1)))) [] = Inr ds"
    "gr_status r = git_result_status
       (ds @ git_signing_pre_decisions git o1 (parsed_operation (ParseArgv (opt_argv o1))))"
proof (cases "git_pre_policy_ids bundle (parsed_operation (ParseArgv (opt_argv o1)))")
  case Nil
  then show thesis using assms by (intro that [of "[]"]) (auto simp: CheckWithRegistry_def Let_def)
next
  case (Cons a as)
  then show thesis
    using assms that by (auto simp: CheckWithRegistry_def Let_def split: sum.splits)
qed

text \<open>
  Fact. No policy dispatched for a Git operation can be overruled: when the check succeeds
  and a policy selected for the operation, or for all operations, yields a blocking decision, the
  check is blocked, whatever the other policies and the signing checks say.
\<close>

theorem git_policy_blocks_check:
  assumes "CheckWithRegistry git bundle o1 R = Inr r"
    and "parsed_operation (ParseArgv (opt_argv o1)) = operation" and "operation \<noteq> []"
    and "policy_id \<in> set (git_pre_policy_ids bundle operation)"
    and "map_of (bundle_policies bundle) policy_id = Some p"
    and "evaluate_git_policy R o1 (parsed_args (ParseArgv (opt_argv o1))) [] p = Inr ds"
    and "d \<in> set ds" and "decision_blocks d"
  shows "git_result_blocked r"
proof -
  obtain out where out: "git_policies_loop R bundle o1 (parsed_args (ParseArgv (opt_argv o1)))
       operation [] (git_pre_policy_ids bundle operation) [] = Inr out"
    "gr_status r = git_result_status (out @ git_signing_pre_decisions git o1 operation)"
    using CheckWithRegistry_decisions [OF assms(1)] assms(2,3) by metis
  have "git_result_status ds = ''blocked''"
    using assms(7,8) by (auto simp: git_verdict.status_blocked)
  with git_policies_loop_blocks [OF out(1) assms(4-6)] out(2) show ?thesis
    by (simp add: git_result_blocked_def git_verdict.blocked_append)
qed

definition git_sample_policy :: policy where
  "git_sample_policy =
     \<lparr>pol_source = \<lparr>source_file = [], source_path = []\<rparr>, pol_category = [],
      pol_default_severity = ''block'', pol_id = ''p'', pol_message = ''m'', pol_suggestion = [],
      pol_evaluators = [\<lparr>eval_options = [], eval_kind = [], eval_name = ''check''\<rparr>],
      pol_principle_ids = []\<rparr>"

definition git_sample_bundle :: policy_bundle where
  "git_sample_bundle =
     \<lparr>bundle_hooks = [], bundle_linter = [],
      bundle_git = [(''commit'', \<lparr>dispatch_pre = [''p''], dispatch_post = []\<rparr>)],
      bundle_policies = [(''p'', git_sample_policy)]\<rparr>"

definition git_sample_registry :: registry where
  "git_sample_registry name =
     (if name = ''check'' then Some (\<lambda>p ctx. Inr [NewDecision ''block'' p]) else None)"

definition git_sample_options :: "string list \<Rightarrow> git_options" where
  "git_sample_options argv =
     \<lparr>opt_cwd = ''/repo'', opt_argv = argv, opt_stdin = [], opt_admin_approved = False\<rparr>"

text \<open>A Git whose repository requires signatures and whose outgoing commits are signed.\<close>

definition signing_git :: git where
  "signing_git cwd args =
     (if args = [''rev-parse'', ''--is-inside-work-tree''] then Some ''true''
      else if args = [''config'', ''--type=bool'', ''--get'', ''commit.gpgsign''] then Some ''true''
      else if args = [''config'', ''--get'', ''user.signingkey''] then Some ''KEY''
      else Some ''G'')"

theorem git_policy_blocks_check_witness:
  "\<exists>r. CheckWithRegistry signing_git git_sample_bundle
      (git_sample_options [''git'', ''commit'', ''-m'', ''x'']) git_sample_registry = Inr r \<and>
    git_result_blocked r"
proof -
  let ?o = "git_sample_options [''git'', ''commit'', ''-m'', ''x'']"
  let ?run = "CheckWithRegistry signing_git git_sample_bundle ?o git_sample_registry"
  have "\<not> isl ?run" by code_simp
  then obtain r where r: "?run = Inr r" by (auto simp: isl_def) (metis sum.exhaust)
  have "parsed_operation (ParseArgv (opt_argv ?o)) = ''commit''" by code_simp
  moreover have "''p'' \<in> set (git_pre_policy_ids git_sample_bundle ''commit'')" by code_simp
  moreover have "map_of (bundle_policies git_sample_bundle) ''p'' = Some git_sample_policy"
    by (simp add: git_sample_bundle_def)
  moreover have "evaluate_git_policy git_sample_registry ?o (parsed_args (ParseArgv (opt_argv ?o))) []
      git_sample_policy = Inr [NewDecision ''block'' git_sample_policy]" by code_simp
  moreover have "decision_blocks (NewDecision ''block'' git_sample_policy)" by code_simp
  ultimately have "git_result_blocked r"
    by (intro git_policy_blocks_check [OF r, where d = "NewDecision ''block'' git_sample_policy"]) auto
  with r show ?thesis by blast
qed

text \<open>The decisions of the check after the command.\<close>

lemma evaluate_post_policies_decisions:
  assumes "evaluate_post_policies git bundle o1 ''PostToolUse'' R = Inr r"
    and "parsed_operation (ParseArgv (opt_argv o1)) = operation" and "operation \<noteq> []"
  obtains ds where "gr_status r = git_result_status (git_signing_post_decisions git o1 operation @ ds)"
proof (cases "git_post_policy_ids bundle operation")
  case Nil
  then show thesis using assms by (intro that [of "[]"]) (auto simp: evaluate_post_policies_def Let_def)
next
  case (Cons a as)
  with assms obtain out where out:
    "git_policies_loop R bundle o1 (parsed_args (ParseArgv (opt_argv o1))) operation ''PostToolUse''
       (git_post_policy_ids bundle operation) (git_signing_post_decisions git o1 operation) = Inr out"
    "gr_status r = git_result_status out"
    by (auto simp: evaluate_post_policies_def Let_def split: sum.splits)
  from git_policies_loop_ok [OF out(1)] out(2) show thesis by (auto intro: that)
qed

lemma git_signing_blocks: "decision_blocks (git_signing_decision m s)"
  by (simp add: git_signing_decision_def decision_blocks_def)

lemma signing_decisions_block:
  assumes "d \<in> set (git_signing_pre_decisions git o1 operation) \<or> d \<in> set (git_signing_post_decisions git o1 operation)"
  shows "decision_blocks d"
  using assms git_signing_blocks
  by (auto simp: git_signing_pre_decisions_def git_signing_post_decisions_def git_signing_config_decisions_def
      git_commit_signature_decisions_def git_unsigned_outgoing_commit_decisions_def
      git_head_signature_decisions_def Let_def split: if_splits option.splits)

text \<open>A repository that signs: the option is on and a key is set.\<close>

definition repository_signs :: "git \<Rightarrow> string \<Rightarrow> bool" where
  "repository_signs git cwd \<longleftrightarrow>
     (case git cwd [''config'', ''--type=bool'', ''--get'', ''commit.gpgsign''] of
        None \<Rightarrow> False | Some out \<Rightarrow> to_lower (trim_space out) = ''true'') \<and>
     (case git cwd [''config'', ''--get'', ''user.signingkey''] of
        None \<Rightarrow> False | Some out \<Rightarrow> trim_space out \<noteq> [])"

lemma config_decisions_repository_signs:
  assumes "git_signing_config_decisions git o1 = []" and "parsed_operation (ParseArgv (opt_argv o1)) \<noteq> ''config''"
    and "opt_cwd o1 \<noteq> []" and "git_inside_work_tree git (opt_cwd o1)"
  shows "repository_signs git (opt_cwd o1)"
proof -
  have "git_config_bool git (opt_cwd o1) ''commit.gpgsign'' = ''true''"
    "trim_space (git_config_value git (opt_cwd o1) ''user.signingkey'') \<noteq> []"
    using assms by (auto simp: git_signing_config_decisions_def Let_def split: if_splits)
  moreover have "trim_space (trim_space out) \<noteq> [] \<Longrightarrow> trim_space out \<noteq> []" for out by auto
  ultimately show ?thesis
    by (auto simp: repository_signs_def git_config_bool_def git_config_value_def split: option.splits)
qed

lemma Execute_args_words:
  "set (Execute_args o1) \<subseteq> insert ''-S'' (set (parsed_args (ParseArgv (opt_argv o1))))"
proof -
  let ?argv = "normalize_argv (opt_argv o1)"
  have "set (insert_git_arg ?argv k a) \<subseteq> insert a (set ?argv)" for k a
    using set_take_subset [of k ?argv] set_drop_subset [of k ?argv] by (auto simp: insert_git_arg_def)
  then have "set (force_signed_git_args ?argv) \<subseteq> insert ''-S'' (set ?argv)"
    by (auto simp: force_signed_git_args_def split: option.splits)
  moreover have "set (tl xs) \<subseteq> set xs" for xs :: "string list" by (cases xs) auto
  ultimately show ?thesis by (auto simp: Execute_args_def ParseArgv_def Let_def)
qed

text \<open>
  Property C17. What holds around an operation other than \<open>config\<close> in a work tree that the check
  before it and the check after it both allow. Before and after, the repository has \<open>commit.gpgsign\<close>
  on and a signing key. For a commit, the command that runs has no \<open>--no-gpg-sign\<close>, and the last
  commit, as Git reports it afterwards, has a good signature. For a push, Git reported before it a
  good signature for every commit that is reachable from \<open>HEAD\<close> and from no remote branch. (That
  are not all the commits a push can add: see \<open>pushed_ref_not_checked\<close>.)
\<close>

theorem allowed_git_is_signed:
  assumes "CheckWithRegistry git bundle o1 R = Inr before" and "\<not> git_result_blocked before"
    and "evaluate_post_policies git' bundle o1 ''PostToolUse'' R' = Inr after" and "\<not> git_result_blocked after"
    and "parsed_operation (ParseArgv (opt_argv o1)) = operation" and "operation \<noteq> []" and "operation \<noteq> ''config''"
    and "opt_cwd o1 \<noteq> []" and "git_inside_work_tree git (opt_cwd o1)" and "git_inside_work_tree git' (opt_cwd o1)"
  shows "repository_signs git (opt_cwd o1) \<and> repository_signs git' (opt_cwd o1) \<and>
    (operation = ''commit'' \<longrightarrow>
       ''--no-gpg-sign'' \<notin> set (Execute_args o1) \<and>
       (\<exists>out. git' (opt_cwd o1) [''log'', ''-1'', ''--pretty=%G?''] = Some out \<and> trim_space out = ''G'')) \<and>
    (operation = ''push'' \<longrightarrow>
       (\<exists>out. git (opt_cwd o1) [''log'', ''--pretty=%G?'', ''HEAD'', ''--not'', ''--remotes''] = Some out \<and>
          (\<forall>line \<in> set (split_on CHR 0x0A out). trim_space line \<in> {[], ''G''})))"
proof -
  obtain ds where ds: "gr_status before = git_result_status (ds @ git_signing_pre_decisions git o1 operation)"
    using CheckWithRegistry_decisions [OF assms(1)] assms(5,6) by metis
  obtain ds' where ds': "gr_status after = git_result_status (git_signing_post_decisions git' o1 operation @ ds')"
    using evaluate_post_policies_decisions [OF assms(3,5,6)] by metis
  have pre: "git_signing_pre_decisions git o1 operation = []"
  proof (rule ccontr)
    assume "git_signing_pre_decisions git o1 operation \<noteq> []"
    then obtain d where "d \<in> set (git_signing_pre_decisions git o1 operation)" using hd_in_set by blast
    with signing_decisions_block [of d git o1 operation] ds assms(2) show False
      by (auto simp: git_result_blocked_def git_verdict.status_blocked)
  qed
  have post: "git_signing_post_decisions git' o1 operation = []"
  proof (rule ccontr)
    assume "git_signing_post_decisions git' o1 operation \<noteq> []"
    then obtain d where "d \<in> set (git_signing_post_decisions git' o1 operation)" using hd_in_set by blast
    with signing_decisions_block [of d git' o1 operation] ds' assms(4) show False
      by (auto simp: git_result_blocked_def git_verdict.status_blocked)
  qed
  from pre assms(6) have none: "git_signing_config_decisions git o1 = []"
    "operation = ''commit'' \<Longrightarrow> git_commit_signature_decisions o1 = []"
    "operation = ''push'' \<Longrightarrow> git_unsigned_outgoing_commit_decisions git o1 = []"
    by (auto simp: git_signing_pre_decisions_def)
  from post assms(6) have none': "git_signing_config_decisions git' o1 = []"
    "operation = ''commit'' \<Longrightarrow> git_head_signature_decisions git' o1 = []"
    by (auto simp: git_signing_post_decisions_def)
  have "repository_signs git (opt_cwd o1)" "repository_signs git' (opt_cwd o1)"
    using config_decisions_repository_signs [of git o1] config_decisions_repository_signs [of git' o1]
      none(1) none'(1) assms(5,7-10) by auto
  moreover have "''--no-gpg-sign'' \<notin> set (Execute_args o1)" if "operation = ''commit''"
    using none(2) [OF that] Execute_args_words [of o1]
    by (auto simp: git_commit_signature_decisions_def list_ex_iff split: if_splits)
  moreover have "\<exists>out. git' (opt_cwd o1) [''log'', ''-1'', ''--pretty=%G?''] = Some out \<and> trim_space out = ''G''"
    if "operation = ''commit''"
    using none'(2) [OF that] by (auto simp: git_head_signature_decisions_def split: option.splits if_splits)
  moreover have "\<exists>out. git (opt_cwd o1) [''log'', ''--pretty=%G?'', ''HEAD'', ''--not'', ''--remotes''] = Some out \<and>
      (\<forall>line \<in> set (split_on CHR 0x0A out). trim_space line \<in> {[], ''G''})" if "operation = ''push''"
  proof -
    have "list_all (\<lambda>s. s = ''G'') (outgoing_commit_signature_statuses git (opt_cwd o1))"
      using none(3) [OF that] assms(8,9)
      by (auto simp: git_unsigned_outgoing_commit_decisions_def list_ex_iff list_all_iff split: if_splits)
    then show ?thesis
      by (auto simp: outgoing_commit_signature_statuses_def non_empty_lines_def list_all_iff split: option.splits)
  qed
  ultimately show ?thesis by blast
qed

definition no_policy_bundle :: policy_bundle where
  "no_policy_bundle = git_sample_bundle\<lparr>bundle_git := []\<rparr>"

theorem allowed_git_is_signed_witness:
  "\<exists>out. signing_git ''/repo'' [''log'', ''-1'', ''--pretty=%G?''] = Some out \<and> trim_space out = ''G''"
proof -
  let ?o = "git_sample_options [''git'', ''commit'', ''-m'', ''x'']"
  let ?run = "CheckWithRegistry signing_git no_policy_bundle ?o git_sample_registry"
  let ?post = "evaluate_post_policies signing_git no_policy_bundle ?o ''PostToolUse'' git_sample_registry"
  have "case ?run of Inl _ \<Rightarrow> False | Inr r \<Rightarrow> \<not> git_result_blocked r" by code_simp
  then obtain r where r: "?run = Inr r" "\<not> git_result_blocked r" by (auto split: sum.splits)
  have "case ?post of Inl _ \<Rightarrow> False | Inr r \<Rightarrow> \<not> git_result_blocked r" by code_simp
  then obtain r' where r': "?post = Inr r'" "\<not> git_result_blocked r'" by (auto split: sum.splits)
  have "parsed_operation (ParseArgv (opt_argv ?o)) = ''commit''" by code_simp
  moreover have "git_inside_work_tree signing_git (opt_cwd ?o)" by code_simp
  moreover have "opt_cwd ?o = ''/repo''" by (simp add: git_sample_options_def)
  ultimately show ?thesis using allowed_git_is_signed [OF r r'] by simp
qed

text \<open>
  Fact. The check of a push does not look at what is pushed: in a repository whose branch \<open>other\<close>
  has a commit without a signature, pushing \<open>other\<close> is allowed as long as \<open>HEAD\<close> is signed.
\<close>

definition unsigned_branch_git :: git where
  "unsigned_branch_git cwd args =
     (if args = [''log'', ''--pretty=%G?'', ''other'', ''--not'', ''--remotes''] then Some ''N''
      else signing_git cwd args)"

definition check_allows :: "git \<Rightarrow> string list \<Rightarrow> bool" where
  "check_allows git argv =
     (case CheckWithRegistry git no_policy_bundle (git_sample_options argv) git_sample_registry of
        Inl _ \<Rightarrow> False | Inr r \<Rightarrow> \<not> git_result_blocked r)"

theorem pushed_ref_not_checked:
  "check_allows unsigned_branch_git [''git'', ''push'', ''origin'', ''other''] \<and>
   unsigned_branch_git ''/repo'' [''log'', ''--pretty=%G?'', ''other'', ''--not'', ''--remotes''] = Some ''N''"
  by (intro conjI; code_simp)

text \<open>
  Fact. Two ways to switch signing off that the check before the command does not see: the option
  \<open>--config-env\<close>, and \<open>--no-gpg-sign\<close> on an operation other than \<open>commit\<close>, after which the last commit is
  not verified either.
\<close>

theorem signing_switched_off_unseen:
  "check_allows signing_git [''git'', ''--config-env=commit.gpgsign=V'', ''commit'', ''-m'', ''x''] \<and>
   check_allows signing_git [''git'', ''merge'', ''--no-gpg-sign'', ''topic''] \<and>
   git_signing_post_decisions signing_git (git_sample_options [''git'', ''merge'', ''--no-gpg-sign'', ''topic'']) ''merge'' = []"
  by (intro conjI; code_simp)

lemma dedupe_policy_ids_loop_spec:
  "distinct (dedupe_policy_ids_loop ps seen) \<and> set (dedupe_policy_ids_loop ps seen) = set ps - {[]} - seen"
  by (induction ps arbitrary: seen) auto

text \<open>
  Fact. The policies for an operation are those of the wildcard entry and of the operation's
  own entry, each once, and no empty id.
\<close>

theorem git_policy_ids_spec:
  "distinct (append_git_policy_ids bundle operation select_ids) \<and>
   set (append_git_policy_ids bundle operation select_ids) =
     (\<Union>key \<in> {''*'', operation}.
        case map_of (bundle_git bundle) key of None \<Rightarrow> {} | Some d \<Rightarrow> set (select_ids d)) - {[]}"
  using dedupe_policy_ids_loop_spec
  by (auto simp: append_git_policy_ids_def dedupe_policy_ids_def split: option.splits)

section \<open>The environment and the evasions\<close>

lemma str_cut_name:
  assumes "d \<notin> set name"
  shows "str_cut (name @ d # v) [d] = (name, v, True)"
proof -
  have "str_index (name @ d # v) [d] = Some (length name)"
    using assms by (induction name) auto
  then show ?thesis by (simp add: str_cut_def)
qed

lemma env_item_name_assign: "CHR ''='' \<notin> set name \<Longrightarrow> env_item_name (name @ CHR ''='' # v) = Some name"
  by (simp add: env_item_name_def str_cut_name)

text \<open>
  Fact. Git runs with exactly one mark of the wrapper and one process id, both set by the
  wrapper: whatever the caller's environment claims under these names is dropped, and no variable
  that redirects Git to another repository is inherited.
\<close>

theorem git_execution_env_marks:
  "filter (\<lambda>item. env_item_name item = Some ''CODE_ETHOS_GIT_WRAPPER_AUTHORIZED'')
       (git_execution_env environ pid admin) = [''CODE_ETHOS_GIT_WRAPPER_AUTHORIZED=1''] \<and>
   filter (\<lambda>item. env_item_name item = Some ''CODE_ETHOS_GIT_WRAPPER_PID'')
       (git_execution_env environ pid admin) = [''CODE_ETHOS_GIT_WRAPPER_PID='' @ itoa pid] \<and>
   filter (\<lambda>item. env_item_name item = Some ''GIT_DIR'') (git_execution_env environ pid admin) = []"
proof -
  have n: "env_item_name ''CODE_ETHOS_GIT_WRAPPER_AUTHORIZED=1'' = Some ''CODE_ETHOS_GIT_WRAPPER_AUTHORIZED''"
    "env_item_name (''CODE_ETHOS_GIT_WRAPPER_PID='' @ itoa pid) = Some ''CODE_ETHOS_GIT_WRAPPER_PID''"
    "env_item_name ''CODE_ETHOS_ADMIN_APPROVED=1'' = Some ''CODE_ETHOS_ADMIN_APPROVED''"
    "env_item_name ''GIT_OPTIONAL_LOCKS=0'' = Some ''GIT_OPTIONAL_LOCKS''"
    using env_item_name_assign [of "''CODE_ETHOS_GIT_WRAPPER_AUTHORIZED''" "''1''"]
      env_item_name_assign [of "''CODE_ETHOS_GIT_WRAPPER_PID''" "itoa pid"]
      env_item_name_assign [of "''CODE_ETHOS_ADMIN_APPROVED''" "''1''"]
      env_item_name_assign [of "''GIT_OPTIONAL_LOCKS''" "''0''"] by simp_all
  have blocked: "filter (\<lambda>item. env_item_name item = Some name) (clean_coding_ethos_execution_env env) = []"
    if "coding_ethos_execution_env_blocked name" for name env
    using that by (auto simp: clean_coding_ethos_execution_env_def filter_empty_conv)
  have dir: "filter (\<lambda>item. env_item_name item = Some ''GIT_DIR'')
      (clean_coding_ethos_execution_env (clean_git_local_env environ)) = []"
    using n(4) by (auto simp: clean_coding_ethos_execution_env_def clean_git_local_env_def
        git_local_env_name_def filter_empty_conv)
  have b: "coding_ethos_execution_env_blocked ''CODE_ETHOS_GIT_WRAPPER_AUTHORIZED''"
    "coding_ethos_execution_env_blocked ''CODE_ETHOS_GIT_WRAPPER_PID''"
    by (simp_all add: coding_ethos_execution_env_blocked_def)
  show ?thesis
    unfolding git_execution_env_def filter_append
    using n blocked [OF b(1)] blocked [OF b(2)] dir by auto
qed

text \<open>
  Fact. The approval of an administrator is not protected the same way: a caller that has
  \<open>CODE_ETHOS_ADMIN_APPROVED=1\<close> in its environment hands it on to Git and its hooks even when the
  wrapper was not approved.
\<close>

theorem inherited_approval_survives:
  assumes "''CODE_ETHOS_ADMIN_APPROVED=1'' \<in> set environ"
  shows "''CODE_ETHOS_ADMIN_APPROVED=1'' \<in> set (git_execution_env environ pid False)"
proof -
  have "env_item_name ''CODE_ETHOS_ADMIN_APPROVED=1'' = Some ''CODE_ETHOS_ADMIN_APPROVED''"
    using env_item_name_assign [of "''CODE_ETHOS_ADMIN_APPROVED''" "''1''"] by simp
  then show ?thesis
    using assms
    by (auto simp: git_execution_env_def clean_coding_ethos_execution_env_def clean_git_local_env_def
        git_local_env_name_def coding_ethos_execution_env_blocked_def)
qed

theorem inherited_approval_survives_witness:
  "''CODE_ETHOS_ADMIN_APPROVED=1'' \<in>
     set (git_execution_env [''HOME=/root'', ''CODE_ETHOS_ADMIN_APPROVED=1''] 7 False)"
  by (rule inherited_approval_survives) simp

text \<open>
  Fact. The option table is incomplete: Git's global option \<open>--attr-source\<close> takes the next
  word as its value, but the wrapper takes that word for the operation, so the policies of the
  real operation behind it are never selected.
\<close>

theorem attr_source_hides_operation:
  assumes "tree \<noteq> []" and "\<not> has_prefix tree ''-''"
  shows "parsed_operation (ParseArgv (''git'' # ''--attr-source'' # tree # rest)) = tree"
proof -
  have "tree \<noteq> ''--''" using assms(2) by (auto simp: has_prefix_def)
  with assms show ?thesis
    by (simp add: ParseArgv_def normalize_argv_def is_git_executable_def path_base_no_slash
        git_operation_def skip_next_git_global_arg_def)
qed

theorem attr_source_hides_operation_witness:
  "parsed_operation (ParseArgv [''git'', ''--attr-source'', ''HEAD'', ''commit'', ''--no-verify'']) = ''HEAD''"
  using attr_source_hides_operation [of "''HEAD''" "[''commit'', ''--no-verify'']"]
  by (simp add: has_prefix_def)

end
