(* ===== verification/GoNumbers.thy ===== *)
theory GoNumbers
  imports GoStrings
begin

text \<open>
  Decimal numbers: \<open>strconv.Atoi\<close> on 64-bit integers, and how it reads back what \<open>strconv.Itoa\<close> prints.
\<close>

section \<open>Integers\<close>

text \<open>Addition and multiplication of the type \<open>int\<close>.\<close>

definition wrap64 :: "int \<Rightarrow> int" where
  "wrap64 i = (i + 2 ^ 63) mod 2 ^ 64 - 2 ^ 63"

lemma wrap64_id: "- (2 ^ 63) \<le> i \<Longrightarrow> i < 2 ^ 63 \<Longrightarrow> wrap64 i = i"
  by (simp add: wrap64_def)

section \<open>Numbers\<close>

definition is_digit :: "char \<Rightarrow> bool" where
  "is_digit c \<longleftrightarrow> 48 \<le> (of_char c :: nat) \<and> (of_char c :: nat) \<le> 57"

definition digits_value :: "string \<Rightarrow> nat" where
  "digits_value s = foldl (\<lambda>n c. n * 10 + ((of_char c :: nat) - 48)) 0 s"

text \<open>\<open>strconv.Atoi\<close>: \<open>None\<close> for a syntax or range error.\<close>

definition atoi :: "string \<Rightarrow> int option" where
  "atoi s =
     (let negative = (s \<noteq> [] \<and> hd s = CHR ''-'');
          digits = (if s \<noteq> [] \<and> (hd s = CHR ''-'' \<or> hd s = CHR ''+'') then tl s else s)
      in if digits = [] \<or> \<not> list_all is_digit digits then None
         else if negative then
           (if digits_value digits \<le> 2 ^ 63 then Some (- int (digits_value digits)) else None)
         else (if digits_value digits < 2 ^ 63 then Some (int (digits_value digits)) else None))"

lemma nat_digits_digits: "list_all is_digit (nat_digits n) \<and> digits_value (nat_digits n) = n"
proof (induction n rule: nat_digits.induct)
  case (1 n)
  have d: "(of_char (char_of (48 + k) :: char) :: nat) = 48 + k" if "k < 10" for k :: nat
    using that by simp
  show ?case
  proof (cases "n < 10")
    case True
    then show ?thesis using d [OF True] by (simp add: nat_digits.simps [of n] is_digit_def digits_value_def)
  next
    case False
    then have "nat_digits n = nat_digits (n div 10) @ [char_of (48 + n mod 10)]"
      by (simp add: nat_digits.simps [of n])
    with 1 False d [of "n mod 10"] show ?thesis
      by (simp add: is_digit_def digits_value_def)
  qed
qed

lemma atoi_itoa: "0 \<le> i \<Longrightarrow> i < 2 ^ 63 \<Longrightarrow> atoi (itoa i) = Some i"
proof -
  assume i: "0 \<le> i" "i < 2 ^ 63"
  have d: "list_all is_digit (nat_digits (nat i))" "digits_value (nat_digits (nat i)) = nat i"
    using nat_digits_digits by blast+
  have "nat_digits (nat i) \<noteq> []" by simp
  then have "is_digit (hd (nat_digits (nat i)))" using d(1) by (cases "nat_digits (nat i)") auto
  then have "hd (nat_digits (nat i)) \<noteq> CHR ''-''" "hd (nat_digits (nat i)) \<noteq> CHR ''+''"
    by (auto simp: is_digit_def)
  moreover have "nat i < 2 ^ 63" using i by (simp add: nat_less_iff)
  ultimately show ?thesis using i d by (simp add: atoi_def itoa_def)
qed

end
