(* ===== verification/AdminApproval.thy ===== *)
theory AdminApproval
  imports Paths GoNumbers
begin

text \<open>
  \<open>go/internal/gitwrap/admin_approval.go\<close>: administrator approval is granted to a process one of
  whose ancestors is listed in a file. The approved ids are parsed from the file's text, a parent
  id from the text of \<open>/proc/<pid>/stat\<close>; the walk up the ancestry takes the parent of a process as
  an argument and may not end, so it is a partial function, and so is the walk up the directories
  that looks for the markers of the repository. The file system and the process table are
  arguments: \<open>exists\<close> is \<open>os.Stat\<close> succeeding, \<open>wd\<close> the result of \<open>os.Getwd\<close>, \<open>read_stat\<close> and
  \<open>file\<close> the contents of the files read, \<open>None\<close> for one that cannot be. An \<open>int\<close> of Go has 64 bits.
\<close>

section \<open>The list of approved processes\<close>

datatype pid_error =
    OpenPidFile
  | ParsePid string
  | LineTooLong
  | ReadProcStat int
  | MalformedProcStat int
  | ParseParentPid int

text \<open>The longest line \<open>bufio.Scanner\<close> reads with its default buffer.\<close>

definition max_scan_line :: nat where
  "max_scan_line = 65535"

fun read_pid_lines :: "string list \<Rightarrow> int set \<Rightarrow> pid_error + int set" where
  "read_pid_lines [] approved = Inr approved"
| "read_pid_lines (l # ls) approved =
     (if max_scan_line < length l then Inl LineTooLong
      else
        let line = trim_space l
        in if line = [] then read_pid_lines ls approved
           else case atoi line of
                  None \<Rightarrow> Inl (ParsePid line)
                | Some pid \<Rightarrow> read_pid_lines ls (insert pid approved))"

definition ReadApprovedPIDs :: "string option \<Rightarrow> pid_error + int set" where
  "ReadApprovedPIDs file =
     (case file of
        None \<Rightarrow> Inl OpenPidFile
      | Some content \<Rightarrow> read_pid_lines (split_on (CHR 0x0A) content) {})"

section \<open>The parent of a process\<close>

text \<open>\<open>strings.LastIndex\<close> of one byte.\<close>

definition last_index_byte :: "char \<Rightarrow> string \<Rightarrow> nat option" where
  "last_index_byte d s =
     (if d \<in> set s then Some (length s - 1 - length (takeWhile (\<lambda>c. c \<noteq> d) (rev s))) else None)"

definition parent_pid :: "(int \<Rightarrow> string option) \<Rightarrow> int \<Rightarrow> pid_error + int" where
  "parent_pid read_stat pid =
     (case read_stat pid of
        None \<Rightarrow> Inl (ReadProcStat pid)
      | Some stat \<Rightarrow>
          (case last_index_byte (CHR '')'') stat of
             None \<Rightarrow> Inl (MalformedProcStat pid)
           | Some close_index \<Rightarrow>
               if length stat \<le> close_index + 2 then Inl (MalformedProcStat pid)
               else
                 let toks = str_fields (drop (close_index + 2) stat)
                 in if length toks < 2 then Inl (MalformedProcStat pid)
                    else case atoi (toks ! 1) of
                           None \<Rightarrow> Inl (ParseParentPid pid)
                         | Some parent \<Rightarrow> Inr parent))"

section \<open>The walk up the ancestry\<close>

text \<open>\<open>None\<close> is a walk that does not end.\<close>

partial_function (option) ancestry_walk ::
  "(int \<Rightarrow> pid_error + int) \<Rightarrow> (int \<Rightarrow> bool) \<Rightarrow> int \<Rightarrow> (pid_error + bool) option" where
  [code]: "ancestry_walk parent accept current =
     (if current \<le> 0 then Some (Inr False)
      else if accept current then Some (Inr True)
      else case parent current of
             Inl err \<Rightarrow> Some (Inl err)
           | Inr p \<Rightarrow> if p = current then Some (Inr False) else ancestry_walk parent accept p)"

definition ProcessAncestryApproved ::
  "(int \<Rightarrow> string option) \<Rightarrow> string option \<Rightarrow> int \<Rightarrow> (pid_error + bool) option" where
  "ProcessAncestryApproved read_stat file pid =
     (case ReadApprovedPIDs file of
        Inl err \<Rightarrow> Some (Inl err)
      | Inr approved \<Rightarrow> ancestry_walk (parent_pid read_stat) (\<lambda>p. p \<in> approved) pid)"

definition ProcessAncestryContains ::
  "(int \<Rightarrow> string option) \<Rightarrow> int \<Rightarrow> int \<Rightarrow> (pid_error + bool) option" where
  "ProcessAncestryContains read_stat pid ancestor_pid =
     ancestry_walk (parent_pid read_stat) (\<lambda>p. p = ancestor_pid) pid"

section \<open>The repository\<close>

definition coding_ethos_repo_marker :: "(string \<Rightarrow> bool) \<Rightarrow> string \<Rightarrow> bool" where
  "coding_ethos_repo_marker exists path =
     list_all (\<lambda>marker. exists (path_join [path, marker]))
       [''coding_ethos.yml'', ''config.yaml'', ''go/go.mod'', ''bin/coding-ethos-run'']"

definition runtime_scratch_path :: "string \<Rightarrow> bool" where
  "runtime_scratch_path path =
     (let clean = path_clean path; base = path_base clean
      in if base = ''sandbox-tmp'' \<or> base = ''.coding-ethos'' then True
         else path_base (path_dir clean) = ''.coding-ethos'' \<and> base = ''cache'')"

partial_function (option) repo_walk :: "(string \<Rightarrow> bool) \<Rightarrow> string \<Rightarrow> bool option" where
  [code]: "repo_walk exists current =
     (if runtime_scratch_path current then Some False
      else if coding_ethos_repo_marker exists current then Some True
      else
        let parent = path_dir current
        in if parent = current then Some False else repo_walk exists parent)"

definition IsCodingEthosRepo :: "(string \<Rightarrow> bool) \<Rightarrow> string option \<Rightarrow> string \<Rightarrow> bool option" where
  "IsCodingEthosRepo exists wd cwd =
     (if cwd = [] then Some False
      else case path_abs wd cwd of None \<Rightarrow> Some False | Some current \<Rightarrow> repo_walk exists current)"

datatype admin_error = AdminRepoRequired | AdminPidRequired | AdminPidError pid_error

text \<open>\<open>Some None\<close> is the \<open>nil\<close> error.\<close>

definition VerifyAdminApproved ::
  "(string \<Rightarrow> bool) \<Rightarrow> string option \<Rightarrow> (int \<Rightarrow> string option) \<Rightarrow> string option \<Rightarrow> int \<Rightarrow> string \<Rightarrow>
   admin_error option option" where
  "VerifyAdminApproved exists wd read_stat file pid cwd =
     (case IsCodingEthosRepo exists wd cwd of
        None \<Rightarrow> None
      | Some False \<Rightarrow> Some (Some AdminRepoRequired)
      | Some True \<Rightarrow>
          (case ProcessAncestryApproved read_stat file pid of
             None \<Rightarrow> None
           | Some (Inl err) \<Rightarrow> Some (Some (AdminPidError err))
           | Some (Inr approved) \<Rightarrow> Some (if approved then None else Some AdminPidRequired)))"

text \<open>The arguments of a process, from the text of its \<open>cmdline\<close> file.\<close>

definition ProcessCommandLine :: "string option \<Rightarrow> string list option" where
  "ProcessCommandLine payload =
     (case payload of
        None \<Rightarrow> None
      | Some text1 \<Rightarrow>
          Some (filter (\<lambda>part. part \<noteq> [])
            (split_on CHR 0x00 (rev (dropWhile (\<lambda>c. c = CHR 0x00) (rev text1))))))"

section \<open>Ancestors\<close>

text \<open>The processes on the way up from a process, itself included, as long as ids are positive.\<close>

inductive ancestor :: "(int \<Rightarrow> pid_error + int) \<Rightarrow> int \<Rightarrow> int \<Rightarrow> bool" for parent pid where
  self: "0 < pid \<Longrightarrow> ancestor parent pid pid"
| up: "ancestor parent pid q \<Longrightarrow> parent q = Inr r \<Longrightarrow> r \<noteq> q \<Longrightarrow> 0 < r \<Longrightarrow> ancestor parent pid r"

lemma ancestor_positive: "ancestor parent pid q \<Longrightarrow> 0 < pid \<and> 0 < q"
  by (induction rule: ancestor.induct) auto

lemma ancestor_step:
  "ancestor parent p q \<Longrightarrow> 0 < pid \<Longrightarrow> parent pid = Inr p \<Longrightarrow> p \<noteq> pid \<Longrightarrow> ancestor parent pid q"
proof (induction rule: ancestor.induct)
  case self
  then show ?case by (metis ancestor.self ancestor.up)
next
  case (up q r)
  then show ?case by (blast intro: ancestor.up)
qed

lemma ancestor_decomp:
  "ancestor parent pid q \<Longrightarrow>
   q = pid \<or> (\<exists>p. parent pid = Inr p \<and> p \<noteq> pid \<and> ancestor parent p q)"
proof (induction rule: ancestor.induct)
  case self
  then show ?case by simp
next
  case (up q r)
  from up.IH show ?case
  proof
    assume "q = pid"
    with up.hyps show ?thesis by (auto intro: ancestor.self)
  next
    assume "\<exists>p. parent pid = Inr p \<and> p \<noteq> pid \<and> ancestor parent p q"
    with up.hyps show ?thesis by (auto intro: ancestor.up)
  qed
qed

lemma ancestry_walk_result:
  assumes "ancestry_walk parent accept pid = Some r"
  shows "(r = Inr True \<longrightarrow> (\<exists>q. ancestor parent pid q \<and> accept q)) \<and>
    (r = Inr False \<longrightarrow> (\<forall>q. ancestor parent pid q \<longrightarrow> \<not> accept q))"
proof (rule ancestry_walk.raw_induct [OF _ assms, where P = "\<lambda>parent accept pid r.
    (r = Inr True \<longrightarrow> (\<exists>q. ancestor parent pid q \<and> accept q)) \<and>
    (r = Inr False \<longrightarrow> (\<forall>q. ancestor parent pid q \<longrightarrow> \<not> accept q))"], goal_cases)
  case (1 walk parent accept pid r)
  show ?case
  proof (cases "pid \<le> 0")
    case True
    with 1(2) show ?thesis by (auto dest: ancestor_positive)
  next
    case pos: False
    show ?thesis
    proof (cases "accept pid")
      case True
      with 1(2) pos ancestor.self [of pid parent] show ?thesis by auto
    next
      case no: False
      show ?thesis
      proof (cases "parent pid")
        case (Inl err)
        with 1(2) pos no show ?thesis by auto
      next
        case (Inr p)
        show ?thesis
        proof (cases "p = pid")
          case True
          with 1(2) pos no Inr show ?thesis by (auto dest: ancestor_decomp)
        next
          case False
          with 1(2) pos no Inr have "walk parent accept p = Some r" by simp
          from 1(1) [OF this] have rec:
            "(r = Inr True \<longrightarrow> (\<exists>q. ancestor parent p q \<and> accept q)) \<and>
             (r = Inr False \<longrightarrow> (\<forall>q. ancestor parent p q \<longrightarrow> \<not> accept q))" .
          have "ancestor parent pid q" if "ancestor parent p q" for q
            using ancestor_step [OF that] pos Inr False by simp
          moreover have "q = pid \<or> ancestor parent p q" if "ancestor parent pid q" for q
            using ancestor_decomp [OF that] Inr by auto
          ultimately show ?thesis using rec no by blast
        qed
      qed
    qed
  qed
qed

lemma ancestry_walk_false:
  assumes "ancestry_walk parent accept pid = Some (Inr verdict)"
  shows "verdict = (\<exists>q. ancestor parent pid q \<and> accept q)"
  using ancestry_walk_result [OF assms] by (cases verdict) auto

lemma ancestry_walk_reaches:
  "ancestor parent pid q \<Longrightarrow> ancestry_walk parent accept q = Some (Inr True) \<Longrightarrow>
   ancestry_walk parent accept pid = Some (Inr True)"
proof (induction rule: ancestor.induct)
  case self
  then show ?case by simp
next
  case (up q r)
  have "0 < q" using up.hyps(1) by (blast dest: ancestor_positive)
  with up.hyps(2,3) up.prems have "ancestry_walk parent accept q = Some (Inr True)"
    by (simp add: ancestry_walk.simps [of parent accept q])
  then show ?case by (rule up.IH)
qed

lemma ancestry_walk_true:
  "ancestry_walk parent accept pid = Some (Inr True) \<longleftrightarrow> (\<exists>q. ancestor parent pid q \<and> accept q)"
proof
  assume "ancestry_walk parent accept pid = Some (Inr True)"
  then show "\<exists>q. ancestor parent pid q \<and> accept q" using ancestry_walk_false by blast
next
  assume "\<exists>q. ancestor parent pid q \<and> accept q"
  then obtain q where q: "ancestor parent pid q" "accept q" by blast
  then have "ancestry_walk parent accept q = Some (Inr True)"
    by (auto simp: ancestry_walk.simps [of parent accept q] dest: ancestor_positive)
  with q(1) show "ancestry_walk parent accept pid = Some (Inr True)" by (rule ancestry_walk_reaches)
qed

lemma ancestry_walk_ends:
  assumes "\<And>p q. 0 < p \<Longrightarrow> parent p = Inr q \<Longrightarrow> q \<noteq> p \<Longrightarrow> (started q :: nat) < started p"
  shows "\<exists>r. ancestry_walk parent accept pid = Some r"
proof (induction "started pid" arbitrary: pid rule: less_induct)
  case less
  show ?case
  proof (cases "pid \<le> 0 \<or> accept pid")
    case True
    then show ?thesis by (auto simp: ancestry_walk.simps [of parent accept pid])
  next
    case open_walk: False
    show ?thesis
    proof (cases "parent pid")
      case (Inl err)
      with open_walk show ?thesis by (simp add: ancestry_walk.simps [of parent accept pid])
    next
      case (Inr p)
      show ?thesis
      proof (cases "p = pid")
        case True
        with Inr open_walk show ?thesis by (simp add: ancestry_walk.simps [of parent accept pid])
      next
        case False
        with assms [of pid p] Inr open_walk less show ?thesis
          by (simp add: ancestry_walk.simps [of parent accept pid])
      qed
    qed
  qed
qed

text \<open>
  Property C18. Who is approved: the verification succeeds exactly when the directory is inside the
  repository and some process on the way up from this one, itself included, is listed in the file,
  which parses. A process outside the approved families is never approved, and neither an error
  nor a missing file approves anyone.
\<close>

theorem VerifyAdminApproved_iff:
  "VerifyAdminApproved exists wd read_stat file pid cwd = Some None \<longleftrightarrow>
     IsCodingEthosRepo exists wd cwd = Some True \<and>
     (\<exists>approved q. ReadApprovedPIDs file = Inr approved \<and> q \<in> approved \<and>
        ancestor (parent_pid read_stat) pid q)"
proof -
  have "ProcessAncestryApproved read_stat file pid = Some (Inr True) \<longleftrightarrow>
      (\<exists>approved q. ReadApprovedPIDs file = Inr approved \<and> q \<in> approved \<and>
         ancestor (parent_pid read_stat) pid q)"
    by (auto simp: ProcessAncestryApproved_def ancestry_walk_true split: sum.split)
  then show ?thesis
    by (auto simp: VerifyAdminApproved_def split: option.splits bool.splits sum.splits if_splits)
qed

section \<open>The walk up the directories\<close>

definition repo_level :: "(string \<Rightarrow> bool) \<Rightarrow> string list \<Rightarrow> bool" where
  "repo_level exists es \<longleftrightarrow>
     (\<exists>k \<le> length es. coding_ethos_repo_marker exists (rooted_path (take k es)) \<and>
        (\<forall>j \<in> {k..length es}. \<not> runtime_scratch_path (rooted_path (take j es))))"

lemma repo_level_snoc:
  "repo_level exists (es @ [e]) \<longleftrightarrow>
     \<not> runtime_scratch_path (rooted_path (es @ [e])) \<and>
     (coding_ethos_repo_marker exists (rooted_path (es @ [e])) \<or> repo_level exists es)"
  (is "?L \<longleftrightarrow> ?R")
proof
  assume ?L
  then obtain k where k: "k \<le> Suc (length es)"
    "coding_ethos_repo_marker exists (rooted_path (take k (es @ [e])))"
    "\<And>j. k \<le> j \<Longrightarrow> j \<le> Suc (length es) \<Longrightarrow> \<not> runtime_scratch_path (rooted_path (take j (es @ [e])))"
    by (auto simp: repo_level_def)
  have "repo_level exists es" if "k \<noteq> Suc (length es)"
    unfolding repo_level_def
  proof (intro exI [of _ k] conjI ballI)
    show "k \<le> length es" using that k(1) by simp
    then show "coding_ethos_repo_marker exists (rooted_path (take k es))" using k(2) by simp
    show "\<not> runtime_scratch_path (rooted_path (take j es))" if "j \<in> {k..length es}" for j
      using k(3) [of j] that by simp
  qed
  with k(2) k(3) [of "Suc (length es)"] k(1) show ?R by (cases "k = Suc (length es)") auto
next
  assume R: ?R
  show ?L
  proof (cases "coding_ethos_repo_marker exists (rooted_path (es @ [e]))")
    case True
    with R show ?thesis
      unfolding repo_level_def by (intro exI [of _ "Suc (length es)"]) auto
  next
    case False
    with R obtain k where k: "k \<le> length es" "coding_ethos_repo_marker exists (rooted_path (take k es))"
      "\<forall>j \<in> {k..length es}. \<not> runtime_scratch_path (rooted_path (take j es))"
      by (auto simp: repo_level_def)
    have "\<not> runtime_scratch_path (rooted_path (take j (es @ [e])))" if "j \<in> {k..length (es @ [e])}" for j
      using that k(3) R by (cases "j = Suc (length es)") auto
    with k(1,2) show ?thesis
      unfolding repo_level_def by (intro exI [of _ k]) (auto simp: take_append)
  qed
qed

lemma repo_walk_level: "proper_names es \<Longrightarrow> repo_walk exists (rooted_path es) = Some (repo_level exists es)"
proof (induction es rule: rev_induct)
  case Nil
  then show ?case
    by (simp add: repo_walk.simps [of exists "rooted_path []"] path_dir_root repo_level_def)
next
  case (snoc e es)
  then have "repo_walk exists (rooted_path es) = Some (repo_level exists es)"
    by (simp add: proper_names_def)
  then show ?case
    using path_dir_rooted [OF snoc.prems] rooted_path_shorter [OF snoc.prems]
    by (simp add: repo_walk.simps [of exists "rooted_path (es @ [e])"] repo_level_snoc Let_def)
qed

lemma IsCodingEthosRepo_abs:
  assumes "path_is_abs cwd"
  obtains es where "proper_names es" "path_clean cwd = rooted_path es"
    "IsCodingEthosRepo exists wd cwd = Some (repo_level exists es)"
proof -
  obtain es where "proper_names es" "path_clean cwd = rooted_path es"
    using path_clean_abs [OF assms] .
  moreover have "cwd \<noteq> []" using assms by (auto simp: path_is_abs_def has_prefix_def)
  ultimately show thesis
    using assms that by (auto simp: IsCodingEthosRepo_def path_abs_def repo_walk_level)
qed

text \<open>
  Fact. For every absolute path the search for the repository ends, and it finds it exactly
  when some directory on the way up holds all the markers and no directory from the path up to
  that one is a scratch directory of the runtime.
\<close>

theorem IsCodingEthosRepo_absolute:
  assumes "path_is_abs cwd"
  shows "\<exists>es. proper_names es \<and> path_clean cwd = rooted_path es \<and>
    IsCodingEthosRepo exists wd cwd = Some (repo_level exists es)"
  using IsCodingEthosRepo_abs [OF assms] by metis

theorem IsCodingEthosRepo_absolute_witness:
  "\<exists>es. proper_names es \<and> path_clean ''/home/dev/../dev/repo'' = rooted_path es \<and>
    IsCodingEthosRepo (\<lambda>p. True) None ''/home/dev/../dev/repo'' = Some (repo_level (\<lambda>p. True) es)"
  by (rule IsCodingEthosRepo_absolute) (simp add: path_is_abs_def has_prefix_def)

section \<open>Reading a parent\<close>

lemma last_index_byte_append:
  "d \<notin> set s \<Longrightarrow> last_index_byte d (pre @ d # s) = Some (length pre)"
proof -
  assume d: "d \<notin> set s"
  have "takeWhile (\<lambda>c. c \<noteq> d) (rev s @ d # rev pre) = rev s"
    using d by (induction s rule: rev_induct) auto
  then show ?thesis by (simp add: last_index_byte_def)
qed

text \<open>Words of printable ASCII are what \<open>Fields\<close> separates.\<close>

definition plain_byte :: "char \<Rightarrow> bool" where
  "plain_byte c \<longleftrightarrow> 33 \<le> (of_char c :: nat) \<and> (of_char c :: nat) \<le> 126"

lemma space_len_plain: "plain_byte c \<Longrightarrow> space_len (c # s) = 0"
proof -
  assume "plain_byte c"
  then have "\<not> ascii_space c" "\<not> space2 c b" "\<not> space3 c b d" for b d
    by (auto simp: plain_byte_def ascii_space_def space2_def space3_def)
  then show ?thesis by (cases "c # s" rule: space_len.cases) auto
qed

lemma fields_acc_word:
  "list_all plain_byte w \<Longrightarrow> fields_acc cur (w @ s) = fields_acc (rev w @ cur) s"
proof (induction w arbitrary: cur)
  case Nil
  then show ?case by simp
next
  case (Cons c w)
  then show ?case by (simp add: fields_acc.simps [of cur "c # w @ s"] space_len_plain)
qed

lemma space_len_blank: "space_len (CHR 0x20 # s) = 1"
  by (cases "CHR 0x20 # s" rule: space_len.cases) (auto simp: ascii_space_def)

lemma str_fields_word:
  assumes "list_all plain_byte w" and "w \<noteq> []"
  shows "str_fields (w @ CHR 0x20 # s) = w # str_fields s"
  using fields_acc_word [OF assms(1), of "[]" "CHR 0x20 # s"] assms(2) space_len_blank [of s]
  by (simp add: str_fields_def fields_acc.simps [of "rev w" "CHR 0x20 # s"])

lemma plain_digits: "list_all plain_byte (nat_digits n)"
  using nat_digits_digits [of n] by (auto simp: list_all_iff is_digit_def plain_byte_def)

lemma parent_pid_stat:
  assumes "read_stat pid = Some (itoa pid @ '' ('' @ name @ '') '' @ state @ '' '' @ itoa parent @ '' '' @ rest)"
    and "state \<noteq> []" and "list_all plain_byte state" and "CHR '')'' \<notin> set state"
    and "CHR '')'' \<notin> set rest" and "0 \<le> parent" and "parent < 2 ^ 63"
  shows "parent_pid read_stat pid = Inr parent"
proof -
  let ?pre = "itoa pid @ '' ('' @ name" and ?tail = "state @ '' '' @ itoa parent @ '' '' @ rest"
  have digits: "itoa parent = nat_digits (nat parent)" using assms(6) by (simp add: itoa_def)
  have "CHR '')'' \<notin> set (itoa parent)"
    using nat_digits_digits [of "nat parent"] digits by (auto simp: list_all_iff is_digit_def)
  then have free: "CHR '')'' \<notin> set (CHR 0x20 # ?tail)" using assms(4,5) by auto
  have stat: "read_stat pid = Some (?pre @ CHR '')'' # CHR 0x20 # ?tail)"
    using assms(1) by simp
  have toks: "str_fields ?tail = state # itoa parent # str_fields rest"
    using str_fields_word [OF assms(3,2), of "itoa parent @ '' '' @ rest"]
      str_fields_word [of "itoa parent" rest] plain_digits [of "nat parent"] digits by simp
  have len: "\<not> length (?pre @ CHR '')'' # CHR 0x20 # ?tail) \<le> length ?pre + 2"
    using assms(2) by (cases state) auto
  have "drop (length (?pre @ [CHR '')'', CHR 0x20])) ((?pre @ [CHR '')'', CHR 0x20]) @ ?tail) = ?tail"
    by (subst append_eq_conv_conj [THEN iffD1, OF refl, THEN conjunct2, symmetric]) (rule refl)
  then have dropped: "drop (length ?pre + 2) (?pre @ CHR '')'' # CHR 0x20 # ?tail) = ?tail"
    by simp
  have "parent_pid read_stat pid =
      (let toks = str_fields ?tail
       in if length toks < 2 then Inl (MalformedProcStat pid)
          else case atoi (toks ! 1) of None \<Rightarrow> Inl (ParseParentPid pid) | Some p \<Rightarrow> Inr p)"
    unfolding parent_pid_def stat option.case last_index_byte_append [OF free, of ?pre] dropped
    using len by (simp only: if_False)
  also have "\<dots> = Inr parent"
    unfolding toks Let_def using atoi_itoa [OF assms(6,7)] by simp
  finally show ?thesis .
qed

text \<open>
  Fact. The parent of a process is read correctly whatever the process calls itself: its name
  stands in parentheses in the text and may contain blanks, digits and parentheses, but the
  parser looks behind the last closing one, so a name cannot forge a parent.
\<close>

theorem parent_pid_ignores_name:
  assumes "read_stat pid = Some (itoa pid @ '' ('' @ name @ '') '' @ state @ '' '' @ itoa parent @ '' '' @ rest)"
    and "state \<noteq> []" and "list_all plain_byte state" and "CHR '')'' \<notin> set state"
    and "CHR '')'' \<notin> set rest" and "0 \<le> parent" and "parent < 2 ^ 63"
  shows "parent_pid read_stat pid = Inr parent"
  using assms by (rule parent_pid_stat)

theorem parent_pid_ignores_name_witness:
  "parent_pid (\<lambda>_. Some (''40 (evil) R 1 (x) S 7 40 0'')) 40 = Inr 7"
proof (rule parent_pid_ignores_name [where name = "''evil) R 1 (x''" and state = "''S''" and rest = "''40 0''"])
  have "itoa 40 = ''40''" "itoa 7 = ''7''" by code_simp+
  then show "Some ''40 (evil) R 1 (x) S 7 40 0'' =
      Some (itoa 40 @ '' ('' @ ''evil) R 1 (x'' @ '') '' @ ''S'' @ '' '' @ itoa 7 @ '' '' @ ''40 0'')"
    by simp
qed (simp_all add: plain_byte_def)

section \<open>The check ends\<close>

text \<open>
  Fact. The approval check ends, with a verdict or an error, from every absolute path as
  long as parents precede their children in some order, as the start times of processes do.
\<close>

theorem VerifyAdminApproved_ends:
  assumes "path_is_abs cwd"
    and "\<And>p q. 0 < p \<Longrightarrow> parent_pid read_stat p = Inr q \<Longrightarrow> q \<noteq> p \<Longrightarrow> (started q :: nat) < started p"
  shows "\<exists>r. VerifyAdminApproved exists wd read_stat file pid cwd = Some r"
proof -
  obtain inside where "IsCodingEthosRepo exists wd cwd = Some inside"
    using IsCodingEthosRepo_abs [OF assms(1)] by metis
  moreover obtain r where "ProcessAncestryApproved read_stat file pid = Some r"
    using ancestry_walk_ends [of "parent_pid read_stat" started, OF assms(2)]
    by (cases "ReadApprovedPIDs file") (auto simp: ProcessAncestryApproved_def)
  ultimately show ?thesis
    by (cases inside; cases r) (auto simp: VerifyAdminApproved_def)
qed

definition sample_stat :: "int \<Rightarrow> string option" where
  "sample_stat pid = (if pid = 40 then Some ''40 (sh) S 7 0'' else None)"

theorem VerifyAdminApproved_ends_witness:
  "\<exists>r. VerifyAdminApproved (\<lambda>p. True) None sample_stat (Some ''7'') 40 ''/srv/coding-ethos'' = Some r"
proof (rule VerifyAdminApproved_ends [where started = nat])
  show "path_is_abs ''/srv/coding-ethos''" by (simp add: path_is_abs_def has_prefix_def)
  have digits: "itoa 40 = ''40''" "itoa 7 = ''7''" by code_simp+
  have "parent_pid sample_stat 40 = Inr 7"
    by (rule parent_pid_stat [where name = "''sh''" and state = "''S''" and rest = "''0''"])
       (simp_all add: sample_stat_def digits plain_byte_def)
  then show "nat q < nat p" if "0 < p" "parent_pid sample_stat p = Inr q" "q \<noteq> p" for p q
    using that(2) by (cases "p = 40") (simp_all add: parent_pid_def [of _ p] sample_stat_def)
qed

end
