(* ===== verification/GoLines.thy ===== *)
theory GoLines
  imports GoStrings
begin

text \<open>
  Lines and separators: how splitting, joining and containing fit together, shared by the theories
  that work on texts line by line.
\<close>

section \<open>Splitting and joining\<close>

lemma split_on_append: "split_on d (x @ d # s) = split_on d x @ split_on d s"
  by (induction x) (auto split: list.split)

lemma split_on_Cons_other: "c \<noteq> d \<Longrightarrow> split_on d (c # s) = (c # hd (split_on d s)) # tl (split_on d s)"
  by (auto split: list.split)

lemma str_join_append:
  "xs \<noteq> [] \<Longrightarrow> ys \<noteq> [] \<Longrightarrow> str_join sep (xs @ ys) = str_join sep xs @ sep @ str_join sep ys"
proof (induction sep xs rule: str_join.induct)
  case (2 sep x)
  then show ?case by (cases ys) simp_all
qed simp_all

lemma str_join_Cons: "ys \<noteq> [] \<Longrightarrow> str_join sep (x # ys) = x @ sep @ str_join sep ys"
  by (cases ys) simp_all

lemma split_on_eq_single: "split_on d s = [w] \<longleftrightarrow> d \<notin> set s \<and> w = s"
  by (metis join_split_on list.set_intros(1) split_on_no_sep split_on_parts str_join.simps(2))

lemma length_split_on: "length (split_on d s) = Suc (length (filter (\<lambda>c. c = d) s))"
  by (induction s) (auto split: list.split)

section \<open>The lines of a scanner\<close>

text \<open>
  \<open>bufio.Scanner\<close> with its default split function: lines end at a line feed, a carriage return
  before it is dropped, an empty rest after the last line feed is no line.
\<close>

definition raw_lines :: "string \<Rightarrow> string list" where
  "raw_lines content =
     (let ls = split_on (CHR 0x0A) content in if last ls = [] then butlast ls else ls)"

definition drop_cr :: "string \<Rightarrow> string" where
  "drop_cr l = (if l \<noteq> [] \<and> last l = CHR 0x0D then butlast l else l)"

section \<open>Components\<close>

text \<open>
  A component before a separator, in the way the program looks for directories in a path: at the
  front, or between separators.
\<close>

lemma component_iff:
  assumes "d \<notin> set w"
  shows "has_prefix s (w @ [d]) \<or> str_contains s (d # w @ [d]) \<longleftrightarrow> w \<in> set (butlast (split_on d s))"
proof
  assume "has_prefix s (w @ [d]) \<or> str_contains s (d # w @ [d])"
  then show "w \<in> set (butlast (split_on d s))"
  proof
    assume "has_prefix s (w @ [d])"
    then obtain r where "s = w @ d # r" by (auto simp: has_prefix_iff)
    with assms show ?thesis by (simp add: split_on_append_sep butlast_append)
  next
    assume "str_contains s (d # w @ [d])"
    then obtain u v where "s = u @ d # w @ d # v" by (auto simp: str_contains_iff)
    with assms show ?thesis by (simp add: split_on_append split_on_no_sep butlast_append)
  qed
next
  assume "w \<in> set (butlast (split_on d s))"
  then obtain ps qs where b: "butlast (split_on d s) = ps @ w # qs" by (auto simp: in_set_conv_decomp)
  define r where "r = qs @ [last (split_on d s)]"
  have parts: "split_on d s = ps @ w # r"
    using append_butlast_last_id [OF split_on_not_Nil, of d s] unfolding b r_def by simp
  have r: "r \<noteq> []" by (simp add: r_def)
  have s: "s = str_join [d] (ps @ w # r)"
    using join_split_on [of d s] unfolding parts by simp
  show "has_prefix s (w @ [d]) \<or> str_contains s (d # w @ [d])"
  proof (cases "ps = []")
    case True
    then have "s = (w @ [d]) @ str_join [d] r" using r by (simp add: s str_join_Cons)
    then show ?thesis by (metis has_prefix_append)
  next
    case False
    then have "s = str_join [d] ps @ (d # w @ [d]) @ str_join [d] r"
      using r by (simp add: s str_join_append str_join_Cons)
    then show ?thesis by (auto simp: str_contains_iff)
  qed
qed

section \<open>White space around a text\<close>

lemma trim_space_prefix: "prefix (trim_space s) (trim_left_space s)"
  using trim_rspace_suffix [of "rev (trim_left_space s)"]
  by (simp add: trim_space_def suffix_to_prefix)

lemma trim_space_head:
  assumes "space_len (c # s) = 0"
  shows "trim_space (c # s) = [] \<or> (\<exists>t. trim_space (c # s) = c # t)"
  using trim_space_prefix [of "c # s"] assms
  by (cases "trim_space (c # s)") (auto simp: trim_left_space.simps)

section \<open>Digits\<close>

lemma nat_digits_byte: "c \<in> set (nat_digits n) \<Longrightarrow> 48 \<le> (of_char c :: nat) \<and> (of_char c :: nat) < 58"
proof (induction n rule: nat_digits.induct)
  case (1 n)
  have digit: "(of_char (char_of (48 + k) :: char) :: nat) = 48 + k" if "k < 10" for k :: nat
    using that by (simp add: of_char_of)
  show ?case
  proof (cases "n < 10")
    case True
    then show ?thesis using 1(2) digit [of n] by (subst (asm) (1) nat_digits.simps) auto
  next
    case False
    then have "c \<in> set (nat_digits (n div 10)) \<or> c = char_of (48 + n mod 10)"
      using 1(2) by (subst (asm) (1) nat_digits.simps) auto
    then show ?thesis using 1(1) [OF False] digit [of "n mod 10"] by auto
  qed
qed

lemma itoa_no_newline: "CHR 0x0A \<notin> set (itoa i)"
  using nat_digits_byte [of "CHR 0x0A"] by (auto simp: itoa_def)

end
