(* ===== verification/TokenLedger.thy ===== *)
theory TokenLedger
  imports Paths GoLines "HOL-Library.Word"
begin

text \<open>
  \<open>go/internal/tokeneconomy/ledger.go\<close>: reading the token ledgers that the providers write. A ledger
  is a file of JSON lines; the decoder of a line is an argument of the model, everything after it is
  modelled: the usage counts as 64-bit words, the acceptance of a line, the loop over the lines and
  the checks around the file. The file system is an argument: what \<open>os.Stat\<close> says of a path, and the
  contents seen by the three times the file is opened (hash, parse, hash).
\<close>

section \<open>Usage counts\<close>

type_synonym int64 = "64 word"

record token_usage =
  input_tokens :: int64
  cached_input_tokens :: int64
  cache_creation_input_tokens :: int64
  cache_read_input_tokens :: int64
  output_tokens :: int64
  reasoning_output_tokens :: int64
  total_tokens :: int64

definition zero_usage :: token_usage where
  "zero_usage = \<lparr>input_tokens = 0, cached_input_tokens = 0, cache_creation_input_tokens = 0,
     cache_read_input_tokens = 0, output_tokens = 0, reasoning_output_tokens = 0, total_tokens = 0\<rparr>"

definition usage_values :: "token_usage \<Rightarrow> int64 list" where
  "usage_values u =
     [input_tokens u, cached_input_tokens u, cache_creation_input_tokens u,
      cache_read_input_tokens u, output_tokens u, reasoning_output_tokens u, total_tokens u]"

text \<open>\<open>True\<close> for a \<open>nil\<close> error.\<close>

definition validate_usage :: "token_usage \<Rightarrow> bool" where
  "validate_usage u = list_all (\<lambda>v. \<not> sint v < 0) (usage_values u)"

definition usage_decreased :: "token_usage \<Rightarrow> token_usage \<Rightarrow> bool" where
  "usage_decreased previous current \<longleftrightarrow>
     sint (input_tokens current) < sint (input_tokens previous) \<or>
     sint (cached_input_tokens current) < sint (cached_input_tokens previous) \<or>
     sint (cache_creation_input_tokens current) < sint (cache_creation_input_tokens previous) \<or>
     sint (cache_read_input_tokens current) < sint (cache_read_input_tokens previous) \<or>
     sint (output_tokens current) < sint (output_tokens previous) \<or>
     sint (reasoning_output_tokens current) < sint (reasoning_output_tokens previous) \<or>
     sint (total_tokens current) < sint (total_tokens previous)"

definition add_usage :: "token_usage \<Rightarrow> token_usage \<Rightarrow> token_usage" where
  "add_usage left right =
     \<lparr>input_tokens = input_tokens left + input_tokens right,
      cached_input_tokens = cached_input_tokens left + cached_input_tokens right,
      cache_creation_input_tokens =
        cache_creation_input_tokens left + cache_creation_input_tokens right,
      cache_read_input_tokens = cache_read_input_tokens left + cache_read_input_tokens right,
      output_tokens = output_tokens left + output_tokens right,
      reasoning_output_tokens = reasoning_output_tokens left + reasoning_output_tokens right,
      total_tokens = total_tokens left + total_tokens right\<rparr>"

section \<open>Ledgers\<close>

record usage_event =
  ue_message_id :: string
  ue_recorded_at :: string
  ue_kind :: string
  ue_ordinal :: nat
  ue_usage :: token_usage

record ledger =
  led_provider :: string
  led_session_id :: string
  led_model :: string
  led_source_path :: string
  led_source_sha256 :: string
  led_usage :: token_usage
  led_events :: "usage_event list"

definition empty_ledger :: ledger where
  "empty_ledger = \<lparr>led_provider = [], led_session_id = [], led_model = [], led_source_path = [],
     led_source_sha256 = [], led_usage = zero_usage, led_events = []\<rparr>"

datatype ledger_error =
    RelativePath
  | StatLedger
  | NotRegular
  | LedgerTooLarge
  | HashLedger
  | OpenLedger
  | UnsupportedProvider string
  | LedgerChanged
  | DecodeLine string
  | ScanLedger
  | NegativeTokens
  | UsageDecreased
  | ValueChanged string string string
  | ConflictingUsage string
  | SessionMissing
  | EventMissing

definition set_stable_ledger_value :: "string \<Rightarrow> string \<Rightarrow> string \<Rightarrow> ledger_error + string" where
  "set_stable_ledger_value target incoming0 field =
     (let incoming = trim_space incoming0
      in if incoming = [] then Inr target
         else if target = [] then Inr incoming
         else if target \<noteq> incoming then Inl (ValueChanged field target incoming)
         else Inr target)"

fun first_ledger_value :: "string list \<Rightarrow> string" where
  "first_ledger_value [] = []"
| "first_ledger_value (v # vs) = (if trim_space v \<noteq> [] then v else first_ledger_value vs)"

section \<open>The lines of a file\<close>

definition maximum_ledger_bytes :: int where
  "maximum_ledger_bytes = 536870912"

definition maximum_ledger_line :: nat where
  "maximum_ledger_line = 33554432"

text \<open>A line that fills the buffer stops the scan.\<close>

fun scan_ledger ::
  "('s \<Rightarrow> string \<Rightarrow> ledger_error + 's) \<Rightarrow> 's \<Rightarrow> string list \<Rightarrow> ledger_error + 's" where
  "scan_ledger accept st [] = Inr st"
| "scan_ledger accept st (l # ls) =
     (if maximum_ledger_line \<le> length l then Inl ScanLedger
      else case accept st (drop_cr l) of
             Inl err \<Rightarrow> Inl err
           | Inr st' \<Rightarrow> scan_ledger accept st' ls)"

section \<open>Codex ledgers\<close>

record codex_line =
  cx_timestamp :: string
  cx_type :: string
  cx_payload_id :: string
  cx_payload_session_id :: string
  cx_payload_type :: string
  cx_payload_model :: string
  cx_total_token_usage :: token_usage

definition accept_codex_line :: "ledger \<Rightarrow> codex_line \<Rightarrow> ledger_error + ledger" where
  "accept_codex_line L line =
     (if cx_type line = ''session_meta'' then
        map_sum id (\<lambda>v. L\<lparr>led_session_id := v\<rparr>)
          (set_stable_ledger_value (led_session_id L)
             (first_ledger_value [cx_payload_session_id line, cx_payload_id line])
             ''Codex session id'')
      else if cx_type line = ''turn_context'' then
        map_sum id (\<lambda>v. L\<lparr>led_model := v\<rparr>)
          (set_stable_ledger_value (led_model L) (cx_payload_model line) ''Codex model'')
      else if cx_type line = ''event_msg'' then
        (if cx_payload_type line \<noteq> ''token_count'' then Inr L
         else
           let usage = cx_total_token_usage line
           in if \<not> validate_usage usage then Inl NegativeTokens
              else if led_events L \<noteq> [] \<and> usage_decreased (ue_usage (last (led_events L))) usage
                then Inl UsageDecreased
              else Inr (L\<lparr>led_events := led_events L @
                     [\<lparr>ue_message_id = [], ue_recorded_at = cx_timestamp line,
                       ue_kind = ''cumulative'', ue_ordinal = length (led_events L),
                       ue_usage = usage\<rparr>]\<rparr>))
      else Inr L)"

definition accept_codex_text ::
  "(string \<Rightarrow> codex_line option) \<Rightarrow> ledger \<Rightarrow> string \<Rightarrow> ledger_error + ledger" where
  "accept_codex_text decode L l =
     (case decode l of None \<Rightarrow> Inl (DecodeLine l) | Some line \<Rightarrow> accept_codex_line L line)"

definition parse_codex_ledger ::
  "(string \<Rightarrow> codex_line option) \<Rightarrow> string \<Rightarrow> ledger_error + ledger" where
  "parse_codex_ledger decode content =
     (case scan_ledger (accept_codex_text decode) empty_ledger (raw_lines content) of
        Inl err \<Rightarrow> Inl err
      | Inr L \<Rightarrow>
          if led_session_id L = [] then Inl SessionMissing
          else if led_events L = [] then Inl EventMissing
          else Inr (L\<lparr>led_usage := ue_usage (last (led_events L))\<rparr>))"

section \<open>Claude ledgers\<close>

record claude_line =
  cd_type :: string
  cd_session_id :: string
  cd_timestamp :: string
  cd_message_id :: string
  cd_message_model :: string
  cd_input_tokens :: int64
  cd_cache_creation_input_tokens :: int64
  cd_cache_read_input_tokens :: int64
  cd_output_tokens :: int64

definition claude_usage :: "claude_line \<Rightarrow> token_usage" where
  "claude_usage line =
     zero_usage
       \<lparr>input_tokens := cd_input_tokens line,
        cache_creation_input_tokens := cd_cache_creation_input_tokens line,
        cache_read_input_tokens := cd_cache_read_input_tokens line,
        output_tokens := cd_output_tokens line,
        total_tokens := cd_input_tokens line + cd_cache_creation_input_tokens line +
          cd_cache_read_input_tokens line + cd_output_tokens line\<rparr>"

type_synonym claude_state = "ledger \<times> (string \<rightharpoonup> token_usage)"

definition accept_claude_usage :: "claude_state \<Rightarrow> claude_line \<Rightarrow> ledger_error + claude_state" where
  "accept_claude_usage st line =
     (case st of (L, seen) \<Rightarrow>
        let usage = claude_usage line
        in if \<not> validate_usage usage then Inl NegativeTokens
           else case seen (cd_message_id line) of
                  Some previous \<Rightarrow>
                    if previous \<noteq> usage then Inl (ConflictingUsage (cd_message_id line)) else Inr (L, seen)
                | None \<Rightarrow>
                    (case set_stable_ledger_value (led_model L) (cd_message_model line) ''Claude model'' of
                       Inl err \<Rightarrow> Inl err
                     | Inr model \<Rightarrow>
                         Inr (L\<lparr>led_model := model,
                                led_events := led_events L @
                                  [\<lparr>ue_message_id = cd_message_id line,
                                    ue_recorded_at = cd_timestamp line, ue_kind = ''incremental'',
                                    ue_ordinal = length (led_events L), ue_usage = usage\<rparr>],
                                led_usage := add_usage (led_usage L) usage\<rparr>,
                              seen(cd_message_id line \<mapsto> usage))))"

text \<open>The body of the loop of \<open>parseClaudeLedger\<close>.\<close>

definition accept_claude_line :: "claude_state \<Rightarrow> claude_line \<Rightarrow> ledger_error + claude_state" where
  "accept_claude_line st line =
     (case (if cd_session_id line \<noteq> [] then
              map_sum id (\<lambda>v. ((fst st)\<lparr>led_session_id := v\<rparr>, snd st))
                (set_stable_ledger_value (led_session_id (fst st)) (cd_session_id line)
                   ''Claude session id'')
            else Inr st) of
        Inl err \<Rightarrow> Inl err
      | Inr st1 \<Rightarrow>
          if cd_type line \<noteq> ''assistant'' \<or> cd_message_id line = [] \<or>
             cd_message_id line = ''<synthetic>'' \<or> cd_message_model line = ''<synthetic>''
          then Inr st1
          else accept_claude_usage st1 line)"

definition accept_claude_text ::
  "(string \<Rightarrow> claude_line option) \<Rightarrow> claude_state \<Rightarrow> string \<Rightarrow> ledger_error + claude_state" where
  "accept_claude_text decode st l =
     (case decode l of None \<Rightarrow> Inl (DecodeLine l) | Some line \<Rightarrow> accept_claude_line st line)"

definition parse_claude_ledger ::
  "(string \<Rightarrow> claude_line option) \<Rightarrow> string \<Rightarrow> ledger_error + ledger" where
  "parse_claude_ledger decode content =
     (case scan_ledger (accept_claude_text decode) (empty_ledger, Map.empty) (raw_lines content) of
        Inl err \<Rightarrow> Inl err
      | Inr (L, seen) \<Rightarrow>
          if led_session_id L = [] then Inl SessionMissing
          else if led_events L = [] then Inl EventMissing
          else Inr L)"

section \<open>The file\<close>

text \<open>What the file system answers: \<open>os.Stat\<close> as regularity and size, and the content at each read.\<close>

record ledger_files =
  lf_stat :: "string \<Rightarrow> (bool \<times> int) option"
  lf_before :: "string option"
  lf_content :: "string option"
  lf_after :: "string option"

definition canonical_ledger_path :: "ledger_files \<Rightarrow> string \<Rightarrow> ledger_error + string" where
  "canonical_ledger_path F path0 =
     (let path = trim_space path0
      in if \<not> path_is_abs path then Inl RelativePath
         else
           let clean = path_clean path
           in case lf_stat F clean of
                None \<Rightarrow> Inl StatLedger
              | Some (regular, bytes) \<Rightarrow>
                  if \<not> regular then Inl NotRegular
                  else if maximum_ledger_bytes < bytes then Inl LedgerTooLarge
                  else Inr clean)"

definition ParseLedger ::
  "(string \<Rightarrow> codex_line option) \<Rightarrow> (string \<Rightarrow> claude_line option) \<Rightarrow> (string \<Rightarrow> string) \<Rightarrow>
   ledger_files \<Rightarrow> string \<Rightarrow> string \<Rightarrow> ledger_error + ledger" where
  "ParseLedger decode_codex decode_claude sha256 F provider path =
     (case canonical_ledger_path F path of
        Inl err \<Rightarrow> Inl err
      | Inr canonical \<Rightarrow>
          (case lf_before F of
             None \<Rightarrow> Inl HashLedger
           | Some before \<Rightarrow>
               (case lf_content F of
                  None \<Rightarrow> Inl OpenLedger
                | Some content \<Rightarrow>
                    (case (if provider = ''codex'' then parse_codex_ledger decode_codex content
                           else if provider = ''claude'' then parse_claude_ledger decode_claude content
                           else Inl (UnsupportedProvider provider)) of
                       Inl err \<Rightarrow> Inl err
                     | Inr L \<Rightarrow>
                         (case lf_after F of
                            None \<Rightarrow> Inl HashLedger
                          | Some after \<Rightarrow>
                              if sha256 before \<noteq> sha256 after then Inl LedgerChanged
                              else Inr (L\<lparr>led_provider := provider, led_source_path := canonical,
                                     led_source_sha256 := sha256 before\<rparr>))))))"

section \<open>Scanning keeps an invariant\<close>

text \<open>
  The interface between the loop over the lines and the acceptance of one: an invariant that every
  accepted line keeps holds of whatever the whole scan returns.
\<close>

locale ledger_scan =
  fixes accept :: "'s \<Rightarrow> string \<Rightarrow> ledger_error + 's" and inv :: "'s \<Rightarrow> bool"
  assumes step: "inv st \<Longrightarrow> accept st l = Inr st' \<Longrightarrow> inv st'"
begin

lemma scan_keeps: "inv st \<Longrightarrow> scan_ledger accept st ls = Inr st' \<Longrightarrow> inv st'"
proof (induction ls arbitrary: st)
  case Nil
  then show ?case by simp
next
  case (Cons l ls)
  then show ?case by (auto split: if_splits sum.splits dest: step)
qed

end

section \<open>What a Codex ledger holds\<close>

definition usage_le :: "token_usage \<Rightarrow> token_usage \<Rightarrow> bool" where
  "usage_le a b = list_all2 (\<lambda>v w. sint v \<le> sint w) (usage_values a) (usage_values b)"

lemma usage_le_not_decreased: "usage_le a b \<longleftrightarrow> \<not> usage_decreased a b"
  by (auto simp: usage_le_def usage_decreased_def usage_values_def)

lemma usage_le_trans: "usage_le a b \<Longrightarrow> usage_le b c \<Longrightarrow> usage_le a c"
  by (auto simp: usage_le_def usage_values_def)

definition numbered_events :: "usage_event list \<Rightarrow> bool" where
  "numbered_events es \<longleftrightarrow> map ue_ordinal es = [0..<length es] \<and> list_all (validate_usage \<circ> ue_usage) es"

definition codex_inv :: "ledger \<Rightarrow> bool" where
  "codex_inv L \<longleftrightarrow>
     numbered_events (led_events L) \<and> sorted_wrt usage_le (map ue_usage (led_events L))"

lemma numbered_events_snoc:
  "numbered_events (es @ [x]) \<longleftrightarrow>
     numbered_events es \<and> ue_ordinal x = length es \<and> validate_usage (ue_usage x)"
  by (auto simp: numbered_events_def)

lemma sorted_usage_snoc:
  assumes "sorted_wrt usage_le us" and "us = [] \<or> usage_le (last us) u"
  shows "sorted_wrt usage_le (us @ [u])"
proof (cases us rule: rev_cases)
  case Nil
  then show ?thesis by simp
next
  case (snoc vs v)
  with assms show ?thesis by (auto simp: sorted_wrt_append dest: usage_le_trans)
qed

lemma accept_codex_line_keeps:
  assumes "codex_inv L" and "accept_codex_line L line = Inr L'"
  shows "codex_inv L'"
proof -
  consider "led_events L' = led_events L"
    | "validate_usage (cx_total_token_usage line)"
      "led_events L = [] \<or> usage_le (ue_usage (last (led_events L))) (cx_total_token_usage line)"
      "\<exists>t. led_events L' = led_events L @
         [\<lparr>ue_message_id = [], ue_recorded_at = t, ue_kind = ''cumulative'',
           ue_ordinal = length (led_events L), ue_usage = cx_total_token_usage line\<rparr>]"
    using assms(2)
    by (auto simp: accept_codex_line_def usage_le_not_decreased Let_def map_sum_def
        split: if_splits sum.splits)
  then show ?thesis
  proof cases
    case 1
    with assms(1) show ?thesis by (simp add: codex_inv_def)
  next
    case 2
    then have "map ue_usage (led_events L) = [] \<or>
        usage_le (last (map ue_usage (led_events L))) (cx_total_token_usage line)"
      by (cases "led_events L = []") (simp_all add: last_map)
    with assms(1) have "sorted_wrt usage_le (map ue_usage (led_events L) @ [cx_total_token_usage line])"
      by (intro sorted_usage_snoc) (auto simp: codex_inv_def)
    with 2(1,3) assms(1) show ?thesis
      by (auto simp: codex_inv_def numbered_events_snoc)
  qed
qed

interpretation codex_scan: ledger_scan "accept_codex_text decode" codex_inv for decode
  by unfold_locales
     (auto simp: accept_codex_text_def split: option.splits intro: accept_codex_line_keeps)

text \<open>
  Fact. A Codex ledger that is accepted belongs to a session, has at least one event, numbers
  its events in order, holds no negative count, and its cumulative counts never decrease from an
  event to a later one; the usage it reports is that of the last event.
\<close>

theorem codex_ledger_wellformed:
  "case parse_codex_ledger decode content of
     Inl err \<Rightarrow> True
   | Inr L \<Rightarrow>
       led_session_id L \<noteq> [] \<and> led_events L \<noteq> [] \<and>
       map ue_ordinal (led_events L) = [0..<length (led_events L)] \<and>
       list_all (\<lambda>ev. list_all (\<lambda>v. 0 \<le> sint v) (usage_values (ue_usage ev))) (led_events L) \<and>
       sorted_wrt (\<lambda>a b. list_all2 (\<lambda>v w. sint v \<le> sint w)
           (usage_values (ue_usage a)) (usage_values (ue_usage b))) (led_events L) \<and>
       led_usage L = ue_usage (last (led_events L))"
proof -
  have "codex_inv empty_ledger"
    by (simp add: codex_inv_def empty_ledger_def numbered_events_def)
  from codex_scan.scan_keeps [OF this] show ?thesis
    by (auto simp: parse_codex_ledger_def codex_inv_def numbered_events_def validate_usage_def
        sorted_wrt_map usage_le_def not_less comp_def split: sum.split)
qed

section \<open>What a Claude ledger holds\<close>

definition sum_usage :: "token_usage list \<Rightarrow> token_usage" where
  "sum_usage us = foldl add_usage zero_usage us"

definition claude_inv :: "claude_state \<Rightarrow> bool" where
  "claude_inv st =
     (case st of (L, seen) \<Rightarrow>
        numbered_events (led_events L) \<and>
        distinct (map ue_message_id (led_events L)) \<and>
        seen = map_of (map (\<lambda>ev. (ue_message_id ev, ue_usage ev)) (led_events L)) \<and>
        led_usage L = sum_usage (map ue_usage (led_events L)))"

lemma dom_seen:
  "map_of (map (\<lambda>ev. (ue_message_id ev, ue_usage ev)) es) k = None \<longleftrightarrow> k \<notin> set (map ue_message_id es)"
  by (simp add: map_of_eq_None_iff image_image)

lemma map_of_snoc:
  "k \<notin> fst ` set kvs \<Longrightarrow> map_of (kvs @ [(k, v)]) = (map_of kvs)(k \<mapsto> v)"
  by (induction kvs) (auto simp: fun_eq_iff)

lemma accept_claude_usage_keeps:
  assumes "claude_inv (L, seen)" and "accept_claude_usage (L, seen) line = Inr st'"
  shows "claude_inv st'"
proof (cases "seen (cd_message_id line)")
  case (Some previous)
  with assms show ?thesis by (auto simp: accept_claude_usage_def Let_def split: if_splits)
next
  case None
  let ?u = "claude_usage line"
  from None assms(2) obtain model t where v: "validate_usage ?u" and
    st': "st' = (L\<lparr>led_model := model, led_events := led_events L @
        [\<lparr>ue_message_id = cd_message_id line, ue_recorded_at = t, ue_kind = ''incremental'',
          ue_ordinal = length (led_events L), ue_usage = ?u\<rparr>],
        led_usage := add_usage (led_usage L) ?u\<rparr>, seen(cd_message_id line \<mapsto> ?u))"
    by (auto simp: accept_claude_usage_def Let_def split: if_splits sum.splits)
  from None assms(1) have new: "cd_message_id line \<notin> set (map ue_message_id (led_events L))"
    by (simp add: claude_inv_def dom_seen)
  have "map_of (map (\<lambda>ev. (ue_message_id ev, ue_usage ev)) (led_events L) @ [(cd_message_id line, ?u)]) =
      seen(cd_message_id line \<mapsto> ?u)"
    using assms(1) new by (subst map_of_snoc) (auto simp: claude_inv_def image_image)
  with assms(1) v new show ?thesis
    by (simp add: claude_inv_def st' numbered_events_snoc sum_usage_def)
qed

lemma accept_claude_line_keeps:
  assumes "claude_inv st" and "accept_claude_line st line = Inr st'"
  shows "claude_inv st'"
proof -
  obtain L seen where st: "st = (L, seen)" by (cases st)
  have "claude_inv (L\<lparr>led_session_id := v\<rparr>, seen)" for v
    using assms(1) st by (simp add: claude_inv_def)
  moreover have "L = L\<lparr>led_session_id := led_session_id L\<rparr>" by simp
  ultimately show ?thesis
    using assms st
    by (auto simp: accept_claude_line_def map_sum_def split: if_splits sum.splits
        intro: accept_claude_usage_keeps)
qed

interpretation claude_scan: ledger_scan "accept_claude_text decode" claude_inv for decode
  by unfold_locales
     (auto simp: accept_claude_text_def split: option.splits intro: accept_claude_line_keeps)

lemma parse_claude_inv:
  assumes "parse_claude_ledger decode content = Inr L"
  shows "claude_inv (L, map_of (map (\<lambda>ev. (ue_message_id ev, ue_usage ev)) (led_events L)))"
    "led_session_id L \<noteq> []" "led_events L \<noteq> []"
proof -
  have "claude_inv (empty_ledger, Map.empty)"
    by (simp add: claude_inv_def empty_ledger_def numbered_events_def sum_usage_def)
  from claude_scan.scan_keeps [OF this] assms
  show "claude_inv (L, map_of (map (\<lambda>ev. (ue_message_id ev, ue_usage ev)) (led_events L)))"
    "led_session_id L \<noteq> []" "led_events L \<noteq> []"
    by (fastforce simp: parse_claude_ledger_def claude_inv_def split: sum.splits if_splits)+
qed

text \<open>
  Fact. A Claude ledger that is accepted counts every message once: its events have pairwise
  different message ids and are numbered in order, no count is negative, and the usage it reports is
  the sum of the usages of its events, in 64-bit arithmetic.
\<close>

theorem claude_ledger_counts_once:
  "case parse_claude_ledger decode content of
     Inl err \<Rightarrow> True
   | Inr L \<Rightarrow>
       led_session_id L \<noteq> [] \<and> led_events L \<noteq> [] \<and>
       distinct (map ue_message_id (led_events L)) \<and>
       map ue_ordinal (led_events L) = [0..<length (led_events L)] \<and>
       list_all (\<lambda>ev. list_all (\<lambda>v. 0 \<le> sint v) (usage_values (ue_usage ev))) (led_events L) \<and>
       led_usage L = foldl add_usage zero_usage (map ue_usage (led_events L))"
  using parse_claude_inv [of decode content]
  by (auto simp: claude_inv_def numbered_events_def validate_usage_def not_less sum_usage_def
      comp_def split: sum.split)

section \<open>Sums that fit\<close>

lemma usage_values_add:
  "i < 7 \<Longrightarrow> usage_values (add_usage a b) ! i = usage_values a ! i + usage_values b ! i"
  by (auto simp: usage_values_def add_usage_def less_Suc_eq numeral_eq_Suc)

lemma sint_add_fits:
  fixes a b :: int64
  assumes "0 \<le> sint a" and "0 \<le> sint b" and "sint a + sint b < 2 ^ 63"
  shows "sint (a + b) = sint a + sint b"
proof -
  have "signed_take_bit 63 (sint a + sint b) = sint a + sint b"
    by (rule signed_take_bit_int_eq_self) (use assms in simp_all)
  then show ?thesis by (simp add: sint_word_ariths)
qed

lemma sum_usage_fits:
  assumes "i < 7" and "list_all validate_usage us"
    and "sum_list (map (\<lambda>u. sint (usage_values u ! i)) us) < 2 ^ 63"
  shows "sint (usage_values (sum_usage us) ! i) = sum_list (map (\<lambda>u. sint (usage_values u ! i)) us)"
  using assms(2,3)
proof (induction us rule: rev_induct)
  case Nil
  have "usage_values zero_usage ! i = 0"
    using assms(1) by (auto simp: usage_values_def zero_usage_def less_Suc_eq numeral_eq_Suc)
  then show ?case by (simp add: sum_usage_def)
next
  case (snoc u us)
  let ?s = "\<lambda>us. sum_list (map (\<lambda>u. sint (usage_values u ! i)) us)"
  have "length (usage_values u) = 7" for u by (simp add: usage_values_def)
  then have nonneg: "validate_usage u \<Longrightarrow> 0 \<le> sint (usage_values u ! i)" for u
    using assms(1) by (auto simp: validate_usage_def list_all_length not_less)
  have u: "0 \<le> sint (usage_values u ! i)" using snoc.prems(1) nonneg by simp
  have "0 \<le> ?s us"
    using snoc.prems(1) nonneg by (intro sum_list_nonneg) (auto simp: list_all_iff)
  moreover have IH: "sint (usage_values (sum_usage us) ! i) = ?s us"
    using snoc u by simp
  ultimately show ?case
    using sint_add_fits [of "usage_values (sum_usage us) ! i" "usage_values u ! i"] u snoc.prems(2)
    by (simp add: sum_usage_def usage_values_add [OF assms(1)])
qed

text \<open>
  Fact. The totals of a Claude ledger are exact as long as they fit: for each of the seven
  counts, when the mathematical sum over the events is below two to the 63rd, the count reported is
  that sum.
\<close>

theorem claude_totals_exact:
  assumes "parse_claude_ledger decode content = Inr L" and "i < 7"
    and "(\<Sum>ev\<leftarrow>led_events L. sint (usage_values (ue_usage ev) ! i)) < 2 ^ 63"
  shows "sint (usage_values (led_usage L) ! i) =
    (\<Sum>ev\<leftarrow>led_events L. sint (usage_values (ue_usage ev) ! i))"
proof -
  have "led_usage L = sum_usage (map ue_usage (led_events L))"
    "list_all validate_usage (map ue_usage (led_events L))"
    using parse_claude_inv(1) [OF assms(1)]
    by (simp_all add: claude_inv_def numbered_events_def list.pred_map)
  with sum_usage_fits [OF assms(2), of "map ue_usage (led_events L)"] assms(3)
  show ?thesis by (simp add: comp_def)
qed

definition claude_text_line :: "int64 \<Rightarrow> int64 \<Rightarrow> int64 \<Rightarrow> string \<Rightarrow> claude_line option" where
  "claude_text_line a b c l =
     (if l = [] then None
      else Some \<lparr>cd_type = ''assistant'', cd_session_id = ''s'', cd_timestamp = [],
             cd_message_id = l, cd_message_model = ''m'', cd_input_tokens = a,
             cd_cache_creation_input_tokens = b, cd_cache_read_input_tokens = c,
             cd_output_tokens = 0\<rparr>)"

lemma claude_text_lines:
  "raw_lines [CHR ''a'', CHR 0x0A, CHR ''b''] = [''a'', ''b'']" "raw_lines ''a'' = [''a'']"
  "drop_cr ''a'' = ''a''" "drop_cr ''b'' = ''b''" "trim_space ''s'' = ''s''" "trim_space ''m'' = ''m''"
  by code_simp+

lemmas claude_text_simps =
  claude_text_lines parse_claude_ledger_def accept_claude_text_def accept_claude_line_def
  accept_claude_usage_def claude_text_line_def claude_usage_def validate_usage_def usage_values_def
  zero_usage_def set_stable_ledger_value_def empty_ledger_def maximum_ledger_line_def add_usage_def Let_def

lemma claude_example_parse:
  "\<exists>L. parse_claude_ledger (claude_text_line 5 2 1) [CHR ''a'', CHR 0x0A, CHR ''b''] = Inr L \<and>
     map ue_usage (led_events L) =
       replicate 2 (zero_usage\<lparr>input_tokens := 5, cache_creation_input_tokens := 2,
           cache_read_input_tokens := 1, total_tokens := 8\<rparr>)"
  by (simp add: claude_text_simps numeral_2_eq_2)

theorem claude_totals_exact_witness:
  "case parse_claude_ledger (claude_text_line 5 2 1) [CHR ''a'', CHR 0x0A, CHR ''b''] of
     Inl err \<Rightarrow> False | Inr L \<Rightarrow> sint (usage_values (led_usage L) ! 6) = 16"
proof -
  obtain L where L: "parse_claude_ledger (claude_text_line 5 2 1) [CHR ''a'', CHR 0x0A, CHR ''b''] = Inr L"
    and us: "map ue_usage (led_events L) =
       replicate 2 (zero_usage\<lparr>input_tokens := 5, cache_creation_input_tokens := 2,
           cache_read_input_tokens := 1, total_tokens := 8\<rparr>)"
    using claude_example_parse by blast
  have "map (\<lambda>ev. sint (usage_values (ue_usage ev) ! 6)) (led_events L) =
      map (\<lambda>u. sint (usage_values u ! 6)) (map ue_usage (led_events L))" by simp
  also have "\<dots> = [8, 8]" unfolding us by (simp add: usage_values_def zero_usage_def numeral_eq_Suc)
  finally have "map (\<lambda>ev. sint (usage_values (ue_usage ev) ! 6)) (led_events L) = [8, 8]" .
  with claude_totals_exact [OF L, of 6] L show ?thesis by simp
qed

text \<open>
  Fact. The total of one message is a 64-bit sum of counts that are only checked for their
  sign afterwards, so counts that wrap around past zero are accepted: a message can claim two to the
  63rd tokens in two counts and be recorded with a total of none.
\<close>

theorem claude_total_wraps:
  "case parse_claude_ledger (claude_text_line 9223372036854775807 9223372036854775807 2) ''a'' of
     Inl err \<Rightarrow> False
   | Inr L \<Rightarrow>
       sint (input_tokens (led_usage L)) = 9223372036854775807 \<and> total_tokens (led_usage L) = 0"
  by (simp add: claude_text_simps)

section \<open>Messages that are sent again\<close>

lemma validate_usage_claude: "claude_inv (L, seen) \<Longrightarrow> seen k = Some u \<Longrightarrow> validate_usage u"
  by (auto simp: claude_inv_def numbered_events_def list_all_iff dest!: map_of_SomeD)

text \<open>
  Fact. A message that is repeated in the ledger changes nothing, and a repetition that
  disagrees with the first one is an error.
\<close>

theorem repeated_message_counted_once:
  assumes "accept_claude_usage st line = Inr st'"
  shows "accept_claude_usage st' line2 =
    (if cd_message_id line2 = cd_message_id line
     then if \<not> validate_usage (claude_usage line2) then Inl NegativeTokens
          else if claude_usage line2 = claude_usage line then Inr st'
          else Inl (ConflictingUsage (cd_message_id line))
     else accept_claude_usage st' line2)"
  using assms
  by (cases st) (auto simp: accept_claude_usage_def Let_def split: if_splits option.splits sum.splits)

theorem repeated_message_counted_once_witness:
  "accept_claude_usage (projr (accept_claude_usage (empty_ledger, Map.empty)
      (the (claude_text_line 5 2 1 ''a'')))) (the (claude_text_line 7 2 1 ''a'')) =
    Inl (ConflictingUsage ''a'')"
proof -
  let ?a = "the (claude_text_line 5 2 1 ''a'')" and ?b = "the (claude_text_line 7 2 1 ''a'')"
  have "\<not> isl (accept_claude_usage (empty_ledger, Map.empty) ?a)" by (simp add: claude_text_simps)
  then obtain st' where st': "accept_claude_usage (empty_ledger, Map.empty) ?a = Inr st'"
    by (cases "accept_claude_usage (empty_ledger, Map.empty) ?a") auto
  have "validate_usage (claude_usage ?b)" "claude_usage ?b \<noteq> claude_usage ?a"
    "cd_message_id ?b = ''a''" "cd_message_id ?a = ''a''" by (simp_all add: claude_text_simps)
  with repeated_message_counted_once [OF st', of ?b] show ?thesis by (simp add: st')
qed

section \<open>The file\<close>

text \<open>
  Fact. A ledger is returned only for an absolute path to a regular file within the size
  limit whose content had the same digest before and after it was parsed, for a known provider, with
  a session and at least one event; every other outcome is an error.
\<close>

theorem ParseLedger_checks:
  "case ParseLedger decode_codex decode_claude sha256 F provider path of
     Inl err \<Rightarrow> True
   | Inr L \<Rightarrow>
       path_is_abs (trim_space path) \<and> led_source_path L = path_clean (trim_space path) \<and>
       (\<exists>bytes. lf_stat F (led_source_path L) = Some (True, bytes) \<and> bytes \<le> maximum_ledger_bytes) \<and>
       map_option sha256 (lf_before F) = Some (led_source_sha256 L) \<and>
       map_option sha256 (lf_after F) = Some (led_source_sha256 L) \<and>
       led_provider L = provider \<and> provider \<in> {''codex'', ''claude''} \<and>
       led_session_id L \<noteq> [] \<and> led_events L \<noteq> []"
proof -
  have codex: "led_session_id L \<noteq> [] \<and> led_events L \<noteq> []"
    if "parse_codex_ledger decode_codex content = Inr L" for content L
    using that by (auto simp: parse_codex_ledger_def split: sum.splits if_splits)
  have claude: "led_session_id L \<noteq> [] \<and> led_events L \<noteq> []"
    if "parse_claude_ledger decode_claude content = Inr L" for content L
    using parse_claude_inv(2,3) [OF that] by simp
  show ?thesis
    by (auto simp: ParseLedger_def canonical_ledger_path_def Let_def
        dest: codex claude split: sum.splits option.splits if_splits)
qed

end
