(* ===== verification/Regexp.thy ===== *)
theory Regexp
  imports Paths
begin

text \<open>
  The part of Go's \<open>regexp\<close> that the modelled packages use. An expression maps a text to the texts
  that may remain behind a match at its start, the preferred ones first: the leftmost-first match that
  \<open>FindString\<close> reports consumes up to the first of them. Character classes are predicates on
  bytes; case folding is the ASCII one (Go folds the long s and the Kelvin sign, too).
\<close>

section \<open>Character classes\<close>

definition regexp_space :: "char \<Rightarrow> bool" where
  "regexp_space c \<longleftrightarrow> c \<in> {CHR 0x09, CHR 0x0A, CHR 0x0C, CHR 0x0D, CHR '' ''}"

definition lower_char :: "char \<Rightarrow> bool" where
  "lower_char c \<longleftrightarrow> in_range 97 122 c"

definition digit_char :: "char \<Rightarrow> bool" where
  "digit_char c \<longleftrightarrow> in_range 48 57 c"

definition upper_char :: "char \<Rightarrow> bool" where
  "upper_char c \<longleftrightarrow> in_range 65 90 c"

definition alnum_char :: "char \<Rightarrow> bool" where
  "alnum_char c \<longleftrightarrow> digit_char c \<or> upper_char c \<or> in_range 97 122 c"

definition word_char :: "char \<Rightarrow> bool" where
  "word_char c \<longleftrightarrow> alnum_char c \<or> c = CHR ''_''"

section \<open>Expressions\<close>

type_synonym regex = "string \<Rightarrow> string list"

definition re_fold :: "string \<Rightarrow> regex" where
  "re_fold w s =
     (if length w \<le> length s \<and> to_lower (take (length w) s) = to_lower w then [drop (length w) s] else [])"

definition re_literal :: "string \<Rightarrow> regex" where
  "re_literal w s = (case cut_prefix s w of None \<Rightarrow> [] | Some t \<Rightarrow> [t])"

definition re_opt :: "regex \<Rightarrow> regex" where
  "re_opt r s = r s @ [s]"

fun re_many :: "(char \<Rightarrow> bool) \<Rightarrow> regex" where
  "re_many cls [] = [[]]"
| "re_many cls (c # s) = (if cls c then re_many cls s else []) @ [c # s]"

fun re_some :: "(char \<Rightarrow> bool) \<Rightarrow> regex" where
  "re_some cls [] = []"
| "re_some cls (c # s) = (if cls c then re_many cls s else [])"

definition re_alt :: "regex list \<Rightarrow> regex" where
  "re_alt rs s = concat (map (\<lambda>r. r s) rs)"

fun re_seq :: "regex list \<Rightarrow> regex" where
  "re_seq [] s = [s]"
| "re_seq (r # rs) s = concat (map (re_seq rs) (r s))"

fun find_string :: "regex \<Rightarrow> string \<Rightarrow> string option" where
  "find_string r [] = (case r [] of [] \<Rightarrow> None | rest # _ \<Rightarrow> Some [])"
| "find_string r (c # s) =
     (case r (c # s) of
        [] \<Rightarrow> find_string r s
      | rest # _ \<Rightarrow> Some (take (length (c # s) - length rest) (c # s)))"

section \<open>Matching\<close>

lemma re_many_all: "s \<in> set (re_many cls s)"
  by (cases s) auto

lemma re_many_suffix: "list_all cls u \<Longrightarrow> t \<in> set (re_many cls (u @ t))"
  by (induction u) (auto simp: re_many_all)

lemma re_fold_match: "to_lower x = to_lower w \<Longrightarrow> re_fold w (x @ t) = [t]"
  by (metis append_eq_conv_conj append_take_drop_id le_add1 length_append length_map re_fold_def to_lower_def)

lemma re_seq_Cons: "t \<in> set (r s) \<Longrightarrow> u \<in> set (re_seq rs t) \<Longrightarrow> u \<in> set (re_seq (r # rs) s)"
  by auto

lemma find_string_found: "r t \<noteq> [] \<Longrightarrow> find_string r (pre @ t) \<noteq> None"
proof (induction pre)
  case Nil
  then show ?case by (cases t) (auto split: list.split)
next
  case (Cons c pre)
  then show ?case by (auto split: list.split)
qed

text \<open>Expressions whose matches consume something.\<close>

definition shrinks :: "regex \<Rightarrow> bool" where
  "shrinks r \<longleftrightarrow> (\<forall>s. \<forall>t \<in> set (r s). length t \<le> length s)"

definition consumes :: "regex \<Rightarrow> bool" where
  "consumes r \<longleftrightarrow> (\<forall>s. \<forall>t \<in> set (r s). length t < length s)"

lemma consumes_shrinks: "consumes r \<Longrightarrow> shrinks r"
  by (auto simp: consumes_def shrinks_def less_imp_le)

lemma consumes_fold [simp]: "w \<noteq> [] \<Longrightarrow> consumes (re_fold w)"
  by (cases w) (auto simp: consumes_def re_fold_def)

lemma consumes_literal [simp]: "w \<noteq> [] \<Longrightarrow> consumes (re_literal w)"
  by (cases w) (auto simp: consumes_def re_literal_def cut_prefix_def has_prefix_iff split: option.splits)

lemmas shrinks_basic [simp] = consumes_shrinks [OF consumes_fold] consumes_shrinks [OF consumes_literal]

lemma shrinks_many [simp]: "shrinks (re_many cls)"
proof -
  have "t \<in> set (re_many cls s) \<Longrightarrow> length t \<le> length s" for s t
    by (induction s) (auto split: if_splits)
  then show ?thesis by (simp add: shrinks_def)
qed

lemma consumes_some [simp]: "consumes (re_some cls)"
proof -
  have "t \<in> set (re_some cls s) \<Longrightarrow> length t < length s" for s t
    using shrinks_many [of cls] by (cases s) (auto simp: shrinks_def less_Suc_eq_le split: if_splits)
  then show ?thesis by (simp add: consumes_def)
qed

lemma shrinks_opt [simp]: "shrinks r \<Longrightarrow> shrinks (re_opt r)"
  by (auto simp: shrinks_def re_opt_def)

lemma consumes_alt [simp]: "list_all consumes rs \<Longrightarrow> consumes (re_alt rs)"
  by (auto simp: consumes_def re_alt_def list_all_iff)

lemma shrinks_seq [simp]: "list_all shrinks rs \<Longrightarrow> shrinks (re_seq rs)"
proof -
  have "list_all shrinks rs \<Longrightarrow> t \<in> set (re_seq rs s) \<Longrightarrow> length t \<le> length s" for s t
    by (induction rs arbitrary: s) (fastforce simp: shrinks_def dest: order_trans)+
  then show "list_all shrinks rs \<Longrightarrow> shrinks (re_seq rs)" by (simp add: shrinks_def)
qed

lemma consumes_seq: "consumes r \<Longrightarrow> list_all shrinks rs \<Longrightarrow> consumes (re_seq (r # rs))"
  using shrinks_seq [of rs] by (fastforce simp: consumes_def shrinks_def)

lemma find_string_nonempty:
  assumes "consumes r" and "find_string r s = Some m"
  shows "m \<noteq> []"
  using assms(2)
proof (induction s)
  case Nil
  then obtain t where "t \<in> set (r [])" by (cases "r []") auto
  moreover from this assms(1) have "length t < length ([] :: string)" unfolding consumes_def by blast
  ultimately show ?case by simp
next
  case (Cons c s)
  show ?case
  proof (cases "r (c # s)")
    case Nil
    with Cons show ?thesis by simp
  next
    case (Cons rest others)
    then have "rest \<in> set (r (c # s))" by simp
    then have "length rest < length (c # s)" using assms(1) unfolding consumes_def by blast
    with Cons \<open>find_string r (c # s) = Some m\<close> show ?thesis by auto
  qed
qed

end
