(* ===== verification/ProxyEvents.thy ===== *)
theory ProxyEvents
  imports Dlp
begin

text \<open>
  \<open>go/internal/agentproxy\<close>: the records of the agent proxy (\<open>events.go\<close>, \<open>adapter_contract.go\<close>,
  \<open>policy_eval.go\<close>) and the events built from what an adapter says of a request or a response.
  Go maps of strings are maps, a \<open>nil\<close> map and an empty one being the same for every use. A time
  is the text it is formatted as.
\<close>

section \<open>Records\<close>

type_synonym metadata = "string \<rightharpoonup> string"

record proxy_tool_call =
  tc_name :: string
  tc_args_hash :: string

record proxy_message =
  msg_role :: string
  msg_content :: string
  msg_name :: string

record tool_definition =
  td_name :: string
  td_schema_hash :: string

record proxy_usage =
  pu_input_tokens :: int
  pu_output_tokens :: int
  pu_total_tokens :: int

definition zero_proxy_usage :: proxy_usage where
  "zero_proxy_usage = \<lparr>pu_input_tokens = 0, pu_output_tokens = 0, pu_total_tokens = 0\<rparr>"

record payload_measurement =
  pm_bytes :: nat
  pm_lines :: nat

record policy_evidence =
  pe_policy_id :: string
  pe_skill_id :: string
  pe_decision :: string
  pe_reason :: string
  pe_evidence_id :: string
  pe_mcp_tool :: string
  pe_principle_ids :: "string list"

definition empty_evidence :: policy_evidence where
  "empty_evidence = \<lparr>pe_policy_id = [], pe_skill_id = [], pe_decision = [], pe_reason = [],
     pe_evidence_id = [], pe_mcp_tool = [], pe_principle_ids = []\<rparr>"

text \<open>Without the transform records, which no modelled code sets.\<close>

record provider_event =
  ev_recorded_at :: string
  ev_metadata :: metadata
  ev_work_dir :: string
  ev_input_hash :: string
  ev_tool :: string
  ev_model :: string
  ev_kind :: string
  ev_repo_root :: string
  ev_id :: string
  ev_provider :: string
  ev_output_hash :: string
  ev_target_path :: string
  ev_policy_id :: string
  ev_decision :: string
  ev_session :: string
  ev_trace_id :: string
  ev_tracking_id :: string
  ev_direction :: string
  ev_payload_kind :: string
  ev_cache_key :: string
  ev_policy :: policy_evidence
  ev_dlp_facts :: "dlp_fact list"
  ev_token_usage :: proxy_usage
  ev_payload :: payload_measurement

definition empty_provider_event :: provider_event where
  "empty_provider_event =
     \<lparr>ev_recorded_at = [], ev_metadata = Map.empty, ev_work_dir = [], ev_input_hash = [], ev_tool = [],
      ev_model = [], ev_kind = [], ev_repo_root = [], ev_id = [], ev_provider = [],
      ev_output_hash = [], ev_target_path = [], ev_policy_id = [], ev_decision = [], ev_session = [],
      ev_trace_id = [], ev_tracking_id = [], ev_direction = [], ev_payload_kind = [],
      ev_cache_key = [], ev_policy = empty_evidence, ev_dlp_facts = [],
      ev_token_usage = zero_proxy_usage, ev_payload = \<lparr>pm_bytes = 0, pm_lines = 0\<rparr>\<rparr>"

record request_context =
  rc_method :: string
  rc_host :: string
  rc_path :: string
  rc_content_type :: string

record response_context =
  rs_content_type :: string
  rs_status_code :: nat

record request_normalization =
  rn_metadata :: metadata
  rn_model :: string
  rn_body_hash :: string
  rn_messages :: "proxy_message list"
  rn_tool_definitions :: "tool_definition list"
  rn_measurement :: payload_measurement
  rn_stream :: bool

record response_normalization =
  sn_metadata :: metadata
  sn_model :: string
  sn_body_hash :: string
  sn_messages :: "proxy_message list"
  sn_tool_calls :: "proxy_tool_call list"
  sn_usage :: proxy_usage
  sn_measurement :: payload_measurement
  sn_streamed :: bool

definition empty_response_normalization :: response_normalization where
  "empty_response_normalization =
     \<lparr>sn_metadata = Map.empty, sn_model = [], sn_body_hash = [], sn_messages = [], sn_tool_calls = [],
      sn_usage = zero_proxy_usage, sn_measurement = \<lparr>pm_bytes = 0, pm_lines = 0\<rparr>,
      sn_streamed = False\<rparr>"

record event_identity =
  id_recorded_at :: string
  id_id :: string
  id_session :: string
  id_provider :: string
  id_repo_root :: string
  id_work_dir :: string
  id_trace_id :: string
  id_tracking_id :: string

record match_result =
  mr_specificity :: int
  mr_matched :: bool

text \<open>The operations of an adapter; \<open>None\<close> is an error of a parser.\<close>

record adapter =
  ad_detect :: "request_context \<Rightarrow> match_result"
  ad_normalize_request :: "string \<Rightarrow> request_context \<Rightarrow> request_normalization option"
  ad_normalize_response :: "string \<Rightarrow> response_context \<Rightarrow> response_normalization option"

record proxy_decision_input =
  pi_metadata :: metadata
  pi_target_path :: string
  pi_direction :: string
  pi_event_id :: string
  pi_session :: string
  pi_provider :: string
  pi_model :: string
  pi_payload_kind :: string
  pi_input_hash :: string
  pi_tool :: string
  pi_output_hash :: string
  pi_kind :: string
  pi_dlp_facts :: "dlp_fact list"
  pi_tool_calls :: "proxy_tool_call list"
  pi_token_usage :: proxy_usage
  pi_payload :: payload_measurement

record proxy_decision =
  pd_metadata :: metadata
  pd_policy_id :: string
  pd_reason :: string
  pd_severity :: string
  pd_message :: string
  pd_suggestion :: string
  pd_evidence_id :: string
  pd_skill_id :: string
  pd_principle_ids :: "string list"
  pd_allowed :: bool

definition allow_decision :: proxy_decision where
  "allow_decision = \<lparr>pd_metadata = Map.empty, pd_policy_id = [], pd_reason = [], pd_severity = [],
     pd_message = [], pd_suggestion = [], pd_evidence_id = [], pd_skill_id = [],
     pd_principle_ids = [], pd_allowed = True\<rparr>"

section \<open>The registry\<close>

text \<open>\<open>Registry.Match\<close>: the winner so far with its specificity.\<close>

fun match_candidates ::
  "request_context \<Rightarrow> adapter list \<Rightarrow> (adapter \<times> int) option \<Rightarrow> (adapter \<times> int) option" where
  "match_candidates ctx [] best = best"
| "match_candidates ctx (candidate # rest) best =
     (let result = ad_detect candidate ctx
      in if \<not> mr_matched result then match_candidates ctx rest best
         else if (case best of None \<Rightarrow> True | Some (_, best_spec) \<Rightarrow> best_spec < mr_specificity result)
           then match_candidates ctx rest (Some (candidate, mr_specificity result))
         else match_candidates ctx rest best)"

definition registry_match :: "adapter list \<Rightarrow> request_context \<Rightarrow> adapter option" where
  "registry_match adapters ctx = map_option fst (match_candidates ctx adapters None)"

section \<open>Measuring\<close>

definition line_count :: "string \<Rightarrow> nat" where
  "line_count body = (if body = [] then 0 else 1 + length (filter (\<lambda>c. c = CHR 0x0A) body))"

definition Measure :: "string \<Rightarrow> payload_measurement" where
  "Measure body = \<lparr>pm_bytes = length body, pm_lines = line_count body\<rparr>"

section \<open>Events\<close>

definition tool_call_names :: "proxy_tool_call list \<Rightarrow> string" where
  "tool_call_names calls =
     (if calls = [] then [] else str_join '','' (filter (\<lambda>n. n \<noteq> []) (map tc_name calls)))"

definition OutboundEvent :: "event_identity \<Rightarrow> request_normalization \<Rightarrow> provider_event" where
  "OutboundEvent identity norm =
     (let m0 = (rn_metadata norm)
            (''payload_body_retained'' \<mapsto> ''false'',
             ''message_count'' \<mapsto> itoa (int (length (rn_messages norm))),
             ''tool_definition_count'' \<mapsto> itoa (int (length (rn_tool_definitions norm))));
          m = (if rn_stream norm then m0(''stream_requested'' \<mapsto> ''true'') else m0)
      in empty_provider_event
           \<lparr>ev_recorded_at := id_recorded_at identity, ev_metadata := m,
            ev_work_dir := id_work_dir identity, ev_input_hash := rn_body_hash norm,
            ev_model := rn_model norm, ev_kind := ''provider_call'',
            ev_repo_root := id_repo_root identity, ev_id := id_id identity,
            ev_provider := id_provider identity, ev_policy_id := ''proxy.provider_adapter'',
            ev_session := id_session identity, ev_trace_id := id_trace_id identity,
            ev_tracking_id := id_tracking_id identity, ev_direction := ''outbound'',
            ev_payload_kind := ''prompt'', ev_payload := rn_measurement norm\<rparr>)"

definition InboundEvent :: "event_identity \<Rightarrow> response_normalization \<Rightarrow> provider_event" where
  "InboundEvent identity norm =
     (let m0 = (sn_metadata norm)
            (''payload_body_retained'' \<mapsto> ''false'',
             ''message_count'' \<mapsto> itoa (int (length (sn_messages norm))),
             ''tool_call_count'' \<mapsto> itoa (int (length (sn_tool_calls norm))));
          m1 = (if sn_streamed norm then m0(''streaming_not_normalized'' \<mapsto> ''true'') else m0);
          names = tool_call_names (sn_tool_calls norm);
          m2 = (if names \<noteq> [] then m1(''tool_call_names'' \<mapsto> names) else m1)
      in empty_provider_event
           \<lparr>ev_recorded_at := id_recorded_at identity, ev_metadata := m2,
            ev_work_dir := id_work_dir identity, ev_output_hash := sn_body_hash norm,
            ev_model := sn_model norm, ev_kind := ''provider_response'',
            ev_repo_root := id_repo_root identity, ev_id := id_id identity,
            ev_provider := id_provider identity, ev_policy_id := ''proxy.provider_adapter'',
            ev_session := id_session identity, ev_trace_id := id_trace_id identity,
            ev_tracking_id := id_tracking_id identity, ev_direction := ''inbound'',
            ev_payload_kind := ''response'', ev_token_usage := sn_usage norm,
            ev_payload := sn_measurement norm\<rparr>)"

text \<open>A text that ends with a line feed counts one line more than it has.\<close>

lemma line_count_terminated: "s \<noteq> [] \<Longrightarrow> line_count (s @ [CHR 0x0A]) = line_count s + 1"
  by (simp add: line_count_def)

end
