(* ===== verification/ProxyPolicy.thy ===== *)
theory ProxyPolicy
  imports ProxyEvents Policy "HOL-Library.Multiset"
begin

text \<open>
  \<open>go/internal/proxypolicy\<close>: the policies that decide the requests and responses of the agent proxy.
  The bundle's policies come in whatever order the Go map has, here the order of a list. Validating
  and evaluating a CEL expression is the business of the CEL library: \<open>validate\<close> answers the error of
  a rejected expression, \<open>cel\<close> a failure or the decisions of a policy. \<open>cancelled\<close> tells for each of
  the checks of the context whether it was cancelled by then.
\<close>

section \<open>Selecting the policies\<close>

record selected_policy =
  sel_evaluator :: evaluator_spec
  sel_policy :: policy

record proxy_evaluator_state =
  pev_inbound :: "selected_policy list"
  pev_outbound :: "selected_policy list"

datatype proxy_policy_error =
    EmptyProxyWhen string
  | InvalidProxyWhen string string
  | UnsupportedProxyDirection string string
  | EvaluationCanceled
  | EvaluateProxyPolicy string string

definition string_option :: "any_map \<Rightarrow> string \<Rightarrow> string" where
  "string_option options key = (case map_of options key of Some (AString s) \<Rightarrow> s | _ \<Rightarrow> [])"

definition proxy_evaluator :: "policy \<Rightarrow> evaluator_spec option" where
  "proxy_evaluator p =
     find (\<lambda>ev. eval_kind ev = ''cel'' \<and> eval_name ev = ''cel.expression'' \<and>
             string_option (eval_options ev) ''scope'' = ''proxy'') (pol_evaluators p)"

definition outbound_direction :: "string \<Rightarrow> bool" where
  "outbound_direction direction \<longleftrightarrow> direction = ''outbound'' \<or> direction = ''both''"

definition inbound_direction :: "string \<Rightarrow> bool" where
  "inbound_direction direction \<longleftrightarrow> direction = ''inbound'' \<or> direction = ''both''"

definition sort_policies :: "selected_policy list \<Rightarrow> selected_policy list" where
  "sort_policies = sort_key (\<lambda>s. pol_id (sel_policy s))"

fun select_policies ::
  "(string \<Rightarrow> string \<Rightarrow> string option) \<Rightarrow> policy list \<Rightarrow> selected_policy list \<Rightarrow> selected_policy list \<Rightarrow>
   proxy_policy_error + selected_policy list \<times> selected_policy list" where
  "select_policies validate [] inbound outbound = Inr (inbound, outbound)"
| "select_policies validate (p # ps) inbound outbound =
     (case proxy_evaluator p of
        None \<Rightarrow> select_policies validate ps inbound outbound
      | Some ev \<Rightarrow>
          let condition = string_option (eval_options ev) ''when''
          in if condition = [] then Inl (EmptyProxyWhen (pol_id p))
             else case validate (pol_id p) condition of
                    Some err \<Rightarrow> Inl (InvalidProxyWhen (pol_id p) err)
                  | None \<Rightarrow>
                      let selected = \<lparr>sel_evaluator = ev, sel_policy = p\<rparr>;
                          direction = string_option (eval_options ev) ''proxy_direction'';
                          selects_outbound = outbound_direction direction;
                          selects_inbound = inbound_direction direction
                      in if \<not> selects_outbound \<and> \<not> selects_inbound
                         then Inl (UnsupportedProxyDirection (pol_id p) direction)
                         else select_policies validate ps
                                (if selects_inbound then inbound @ [selected] else inbound)
                                (if selects_outbound then outbound @ [selected] else outbound))"

definition new_evaluator ::
  "(string \<Rightarrow> string \<Rightarrow> string option) \<Rightarrow> policy list \<Rightarrow> proxy_policy_error + proxy_evaluator_state" where
  "new_evaluator validate ps =
     (case select_policies validate ps [] [] of
        Inl err \<Rightarrow> Inl err
      | Inr (inbound, outbound) \<Rightarrow>
          Inr \<lparr>pev_inbound = sort_policies inbound, pev_outbound = sort_policies outbound\<rparr>)"

section \<open>The input of an expression\<close>

record cel_proxy_input =
  cpi_event_id :: string
  cpi_session :: string
  cpi_kind :: string
  cpi_provider :: string
  cpi_model :: string
  cpi_tool :: string
  cpi_direction :: string
  cpi_payload_kind :: string
  cpi_target_path :: string
  cpi_input_hash :: string
  cpi_output_hash :: string
  cpi_tool_calls :: "proxy_tool_call list"
  cpi_dlp_facts :: "dlp_fact list"
  cpi_has_dlp_facts :: bool
  cpi_input_tokens :: int
  cpi_output_tokens :: int
  cpi_total_tokens :: int
  cpi_payload_bytes :: int

definition cel_tool_call_name :: "string \<Rightarrow> string" where
  "cel_tool_call_name name =
     (let normalized = replace_all ''-'' ''_'' (to_lower (trim_space name))
      in if normalized \<in> {''runcommand'', ''run_command''} then ''run_command''
         else if normalized \<in> {''applypatch'', ''apply_patch''} then ''apply_patch''
         else if normalized \<in> {''write'', ''writefile'', ''edit'', ''multiedit'', ''write_file''}
           then ''write_file''
         else if normalized \<in> {''deletefile'', ''delete_file''} then ''delete_file''
         else if normalized \<in> {''removefile'', ''remove_file''} then ''remove_file''
         else normalized)"

definition cel_tool_calls :: "proxy_tool_call list \<Rightarrow> proxy_tool_call list" where
  "cel_tool_calls calls = map (\<lambda>c. c\<lparr>tc_name := cel_tool_call_name (tc_name c)\<rparr>) calls"

text \<open>\<open>celDLPFacts\<close> copies every field.\<close>

definition to_cel_proxy_input :: "proxy_decision_input \<Rightarrow> cel_proxy_input" where
  "to_cel_proxy_input i =
     \<lparr>cpi_event_id = pi_event_id i, cpi_session = pi_session i, cpi_kind = pi_kind i,
      cpi_provider = pi_provider i, cpi_model = pi_model i, cpi_tool = pi_tool i,
      cpi_direction = pi_direction i, cpi_payload_kind = pi_payload_kind i,
      cpi_target_path = pi_target_path i, cpi_input_hash = pi_input_hash i,
      cpi_output_hash = pi_output_hash i, cpi_tool_calls = cel_tool_calls (pi_tool_calls i),
      cpi_dlp_facts = pi_dlp_facts i, cpi_has_dlp_facts = (0 < length (pi_dlp_facts i)),
      cpi_input_tokens = pu_input_tokens (pi_token_usage i),
      cpi_output_tokens = pu_output_tokens (pi_token_usage i),
      cpi_total_tokens = pu_total_tokens (pi_token_usage i),
      cpi_payload_bytes = int (pm_bytes (pi_payload i))\<rparr>"

definition proxy_sarif_metadata :: "proxy_decision_input \<Rightarrow> metadata" where
  "proxy_sarif_metadata i =
     (let m0 = [''proxy_event_id'' \<mapsto> pi_event_id i, ''proxy_session_id'' \<mapsto> pi_session i,
                ''proxy_event_kind'' \<mapsto> pi_kind i, ''proxy_provider'' \<mapsto> pi_provider i,
                ''proxy_direction'' \<mapsto> pi_direction i, ''proxy_payload_kind'' \<mapsto> pi_payload_kind i];
          copy = (\<lambda>key m. case pi_metadata i key of
                    None \<Rightarrow> m | Some v \<Rightarrow> if v \<noteq> [] then m(key \<mapsto> v) else m)
      in copy ''proxy_tracking_id'' (copy ''proxy_trace_id'' m0))"

section \<open>Deciding\<close>

definition is_denial :: "string \<Rightarrow> bool" where
  "is_denial d \<longleftrightarrow> d = ''block'' \<or> d = ''deny''"

definition EvidenceSkillID :: "decision \<Rightarrow> string" where
  "EvidenceSkillID d = EvidenceString d ''skill_id''"

definition denied_decision :: "policy \<Rightarrow> decision \<Rightarrow> proxy_decision_input \<Rightarrow> proxy_decision" where
  "denied_decision p d i =
     \<lparr>pd_metadata = proxy_sarif_metadata i, pd_policy_id = pol_id p, pd_reason = dec_message d,
      pd_severity = dec_severity d, pd_message = dec_message d, pd_suggestion = dec_suggestion d,
      pd_evidence_id = pi_event_id i, pd_skill_id = EvidenceSkillID d,
      pd_principle_ids = pol_principle_ids p, pd_allowed = False\<rparr>"

text \<open>The loop of \<open>evaluate\<close>; the number counts the checks of the context.\<close>

type_synonym cel_evaluator = "policy \<Rightarrow> any_map \<Rightarrow> cel_proxy_input \<Rightarrow> string + decision list"

fun evaluate_selected ::
  "cel_evaluator \<Rightarrow> (nat \<Rightarrow> bool) \<Rightarrow> proxy_decision_input \<Rightarrow> nat \<Rightarrow> selected_policy list \<Rightarrow>
   proxy_policy_error + proxy_decision" where
  "evaluate_selected cel cancelled i k [] = Inr allow_decision"
| "evaluate_selected cel cancelled i k (s # ss) =
     (if cancelled k then Inl EvaluationCanceled
      else case cel (sel_policy s) (eval_options (sel_evaluator s)) (to_cel_proxy_input i) of
             Inl err \<Rightarrow> Inl (EvaluateProxyPolicy (pol_id (sel_policy s)) err)
           | Inr ds \<Rightarrow>
               (case find (\<lambda>d. is_denial (dec_decision d)) ds of
                  Some d \<Rightarrow> Inr (denied_decision (sel_policy s) d i)
                | None \<Rightarrow> evaluate_selected cel cancelled i (Suc k) ss))"

definition evaluate_proxy ::
  "cel_evaluator \<Rightarrow> (nat \<Rightarrow> bool) \<Rightarrow> proxy_decision_input \<Rightarrow> selected_policy list \<Rightarrow>
   proxy_policy_error + proxy_decision" where
  "evaluate_proxy cel cancelled i policies =
     (if cancelled 0 then Inl EvaluationCanceled else evaluate_selected cel cancelled i 1 policies)"

definition EvaluateOutbound ::
  "cel_evaluator \<Rightarrow> (nat \<Rightarrow> bool) \<Rightarrow> proxy_evaluator_state \<Rightarrow> proxy_decision_input \<Rightarrow>
   proxy_policy_error + proxy_decision" where
  "EvaluateOutbound cel cancelled ev i = evaluate_proxy cel cancelled i (pev_outbound ev)"

definition EvaluateInbound ::
  "cel_evaluator \<Rightarrow> (nat \<Rightarrow> bool) \<Rightarrow> proxy_evaluator_state \<Rightarrow> proxy_decision_input \<Rightarrow>
   proxy_policy_error + proxy_decision" where
  "EvaluateInbound cel cancelled ev i = evaluate_proxy cel cancelled i (pev_inbound ev)"

section \<open>What New selects\<close>

text \<open>
  The specification of the loop: a policy is acceptable when it is no proxy policy or has a valid
  condition and a known direction; the selection for a direction is the proxy policies of it.
\<close>

definition acceptable_policy :: "(string \<Rightarrow> string \<Rightarrow> string option) \<Rightarrow> policy \<Rightarrow> bool" where
  "acceptable_policy validate p =
     (case proxy_evaluator p of
        None \<Rightarrow> True
      | Some ev \<Rightarrow>
          string_option (eval_options ev) ''when'' \<noteq> [] \<and>
          validate (pol_id p) (string_option (eval_options ev) ''when'') = None \<and>
          string_option (eval_options ev) ''proxy_direction'' \<in> {''outbound'', ''inbound'', ''both''})"

definition selection :: "(string \<Rightarrow> bool) \<Rightarrow> policy list \<Rightarrow> selected_policy list" where
  "selection direction ps =
     concat (map (\<lambda>p. case proxy_evaluator p of
                        None \<Rightarrow> []
                      | Some ev \<Rightarrow> if direction (string_option (eval_options ev) ''proxy_direction'')
                          then [\<lparr>sel_evaluator = ev, sel_policy = p\<rparr>] else []) ps)"

lemma selection_simps [simp]:
  "selection direction [] = []"
  "selection direction (p # ps) =
     (case proxy_evaluator p of
        None \<Rightarrow> []
      | Some ev \<Rightarrow> if direction (string_option (eval_options ev) ''proxy_direction'')
          then [\<lparr>sel_evaluator = ev, sel_policy = p\<rparr>] else []) @ selection direction ps"
  by (simp_all add: selection_def)

lemma select_policies_Inr:
  "select_policies validate ps inbound outbound = Inr r \<longleftrightarrow>
     list_all (acceptable_policy validate) ps \<and>
     r = (inbound @ selection inbound_direction ps, outbound @ selection outbound_direction ps)"
proof (induction ps arbitrary: inbound outbound)
  case (Cons p ps)
  show ?case
  proof (cases "proxy_evaluator p")
    case None
    then show ?thesis by (simp add: acceptable_policy_def Cons.IH)
  next
    case (Some ev)
    then show ?thesis
      by (auto simp: acceptable_policy_def Let_def inbound_direction_def outbound_direction_def Cons.IH
          split: option.split)
  qed
qed auto

lemma new_evaluator_Inr:
  "new_evaluator validate ps = Inr ev \<longleftrightarrow>
     list_all (acceptable_policy validate) ps \<and>
     ev = \<lparr>pev_inbound = sort_policies (selection inbound_direction ps),
           pev_outbound = sort_policies (selection outbound_direction ps)\<rparr>"
proof (cases "select_policies validate ps [] []")
  case (Inl err)
  then have "\<not> list_all (acceptable_policy validate) ps"
    using select_policies_Inr [of validate ps "[]" "[]" "(selection inbound_direction ps, selection outbound_direction ps)"]
    by auto
  with Inl show ?thesis by (simp add: new_evaluator_def)
next
  case (Inr r)
  then have "list_all (acceptable_policy validate) ps"
    "r = (selection inbound_direction ps, selection outbound_direction ps)"
    using select_policies_Inr [of validate ps "[]" "[]" r] by auto
  with Inr show ?thesis by (auto simp: new_evaluator_def)
qed

lemma selection_member:
  "s \<in> set (selection direction ps) \<longleftrightarrow>
     sel_policy s \<in> set ps \<and> proxy_evaluator (sel_policy s) = Some (sel_evaluator s) \<and>
     direction (string_option (eval_options (sel_evaluator s)) ''proxy_direction'')"
  by (cases s) (force simp: selection_def split: option.splits if_splits)

lemma selection_mset:
  assumes "mset ps = mset qs"
  shows "mset (selection direction ps) = mset (selection direction qs)"
proof -
  have "mset (selection direction xs) =
      (\<Sum>p\<in>#mset xs. case proxy_evaluator p of
          None \<Rightarrow> {#}
        | Some ev \<Rightarrow> if direction (string_option (eval_options ev) ''proxy_direction'')
            then {#\<lparr>sel_evaluator = ev, sel_policy = p\<rparr>#} else {#})" for xs
    by (induction xs) (auto split: option.split)
  with assms show ?thesis by simp
qed

lemma selection_ids:
  assumes "distinct (map pol_id ps)"
  shows "inj_on (\<lambda>s. pol_id (sel_policy s)) (set (selection direction ps))"
proof (rule inj_onI)
  fix s t
  assume "s \<in> set (selection direction ps)" "t \<in> set (selection direction ps)"
    "pol_id (sel_policy s) = pol_id (sel_policy t)"
  then have "sel_policy s = sel_policy t" "proxy_evaluator (sel_policy s) = Some (sel_evaluator s)"
    "proxy_evaluator (sel_policy t) = Some (sel_evaluator t)"
    using assms by (auto simp: selection_member distinct_map dest: inj_onD)
  then show "s = t" by (cases s, cases t) simp
qed

lemma sort_policies_unique:
  assumes "mset xs = mset ys" "inj_on (\<lambda>s. pol_id (sel_policy s)) (set xs)"
  shows "sort_policies xs = sort_policies ys"
  unfolding sort_policies_def
  by (rule sort_key_inj_key_eq) (use assms in simp_all)

text \<open>
  Property C23. The evaluator does not depend on the order in which the bundle's map yields its
  policies: policies with ids of their own give, in every order, the same evaluator, so that the
  policy that wins is the same in every run.
\<close>

theorem new_evaluator_order_independent:
  assumes "new_evaluator validate ps = Inr ev" and "mset qs = mset ps" and "distinct (map pol_id ps)"
  shows "new_evaluator validate qs = Inr ev"
proof -
  have "set qs = set ps" using assms(2) by (metis set_mset_mset)
  then have "list_all (acceptable_policy validate) qs"
    using assms(1) by (simp add: new_evaluator_Inr list_all_iff)
  moreover have "sort_policies (selection d qs) = sort_policies (selection d ps)" for d
    using sort_policies_unique [OF selection_mset selection_ids, OF assms(2)[symmetric] assms(3)] by simp
  ultimately show ?thesis using assms(1) by (simp add: new_evaluator_Inr)
qed

definition sample_proxy_spec :: "string \<Rightarrow> evaluator_spec" where
  "sample_proxy_spec direction =
     \<lparr>eval_options = [(''scope'', AString ''proxy''), (''when'', AString ''true''),
        (''proxy_direction'', AString direction)], eval_kind = ''cel'', eval_name = ''cel.expression''\<rparr>"

definition sample_proxy_policy :: "string \<Rightarrow> string \<Rightarrow> policy" where
  "sample_proxy_policy name direction =
     \<lparr>pol_source = \<lparr>source_file = [], source_path = []\<rparr>, pol_category = ''proxy'',
      pol_default_severity = ''error'', pol_id = name, pol_message = ''no'', pol_suggestion = [],
      pol_evaluators = [sample_proxy_spec direction],
      pol_principle_ids = [''p'']\<rparr>"

theorem new_evaluator_order_independent_witness:
  "let validate = (\<lambda>_ _. None); a = sample_proxy_policy ''a'' ''both''; b = sample_proxy_policy ''b'' ''outbound''
   in \<exists>ev. new_evaluator validate [a, b] = Inr ev \<and> new_evaluator validate [b, a] = Inr ev \<and>
        length (pev_outbound ev) = 2"
proof -
  let ?a = "sample_proxy_policy ''a'' ''both''" and ?b = "sample_proxy_policy ''b'' ''outbound''"
  obtain ev where ev: "new_evaluator (\<lambda>_ _. None) [?a, ?b] = Inr ev" "length (pev_outbound ev) = 2"
    by (simp add: new_evaluator_Inr acceptable_policy_def proxy_evaluator_def sample_proxy_policy_def sample_proxy_spec_def
        string_option_def outbound_direction_def sort_policies_def)
  have "new_evaluator (\<lambda>_ _. None) [?b, ?a] = Inr ev"
    by (rule new_evaluator_order_independent [OF ev(1)])
      (simp_all add: add_mset_commute sample_proxy_policy_def)
  with ev show ?thesis by (simp add: Let_def)
qed

section \<open>The verdict\<close>

definition denies :: "cel_evaluator \<Rightarrow> proxy_decision_input \<Rightarrow> selected_policy \<Rightarrow> bool" where
  "denies cel i s =
     (case cel (sel_policy s) (eval_options (sel_evaluator s)) (to_cel_proxy_input i) of
        Inl err \<Rightarrow> False
      | Inr ds \<Rightarrow> list_ex (\<lambda>d. is_denial (dec_decision d)) ds)"

definition passes :: "cel_evaluator \<Rightarrow> proxy_decision_input \<Rightarrow> selected_policy \<Rightarrow> bool" where
  "passes cel i s =
     (case cel (sel_policy s) (eval_options (sel_evaluator s)) (to_cel_proxy_input i) of
        Inl err \<Rightarrow> False
      | Inr ds \<Rightarrow> list_all (\<lambda>d. \<not> is_denial (dec_decision d)) ds)"

lemma evaluate_selected_passed:
  assumes "list_all (passes cel i) ss" and "\<forall>j < length ss. \<not> cancelled (k + j)"
  shows "evaluate_selected cel cancelled i k (ss @ ts) =
    evaluate_selected cel cancelled i (k + length ss) ts"
  using assms
proof (induction ss arbitrary: k)
  case (Cons s ss)
  from Cons.prems have "\<not> cancelled k" "\<forall>j < length ss. \<not> cancelled (Suc k + j)"
    by (force dest: spec [of _ 0], force dest: spec [of _ "Suc _"])
  moreover obtain ds where "cel (sel_policy s) (eval_options (sel_evaluator s)) (to_cel_proxy_input i) = Inr ds"
    "find (\<lambda>d. is_denial (dec_decision d)) ds = None"
    using Cons.prems by (auto simp: passes_def list_all_iff find_None_iff split: sum.splits)
  ultimately show ?case using Cons.IH [of "Suc k"] Cons.prems by simp
qed simp

lemma evaluate_selected_allowed:
  assumes "evaluate_selected cel cancelled i k ss = Inr d" and "pd_allowed d"
  shows "list_all (passes cel i) ss \<and> (\<forall>j < length ss. \<not> cancelled (k + j))"
  using assms
proof (induction ss arbitrary: k)
  case (Cons s ss)
  then obtain ds where ds: "\<not> cancelled k"
    "cel (sel_policy s) (eval_options (sel_evaluator s)) (to_cel_proxy_input i) = Inr ds"
    by (auto split: if_splits sum.splits)
  have none: "find (\<lambda>d. is_denial (dec_decision d)) ds = None"
    using Cons.prems ds by (auto simp: denied_decision_def split: option.splits)
  then have "passes cel i s" using ds(2) by (simp add: passes_def list_all_iff find_None_iff)
  moreover have "list_all (passes cel i) ss \<and> (\<forall>j < length ss. \<not> cancelled (Suc k + j))"
    using Cons.IH [of "Suc k"] Cons.prems ds none by simp
  ultimately show ?case using ds(1) by (auto simp: less_Suc_eq_0_disj)
qed simp

text \<open>
  Property C24. The evaluator fails closed: it allows a request exactly when no check found the
  context cancelled and every selected policy was evaluated, without an error and without a denial.
\<close>

theorem evaluate_proxy_fails_closed:
  "(\<exists>d. evaluate_proxy cel cancelled i ss = Inr d \<and> pd_allowed d) \<longleftrightarrow>
     (\<forall>j \<le> length ss. \<not> cancelled j) \<and> list_all (passes cel i) ss"
proof
  assume "\<exists>d. evaluate_proxy cel cancelled i ss = Inr d \<and> pd_allowed d"
  then show "(\<forall>j \<le> length ss. \<not> cancelled j) \<and> list_all (passes cel i) ss"
    using evaluate_selected_allowed [of cel cancelled i 1 ss]
    by (auto simp: evaluate_proxy_def split: if_splits) (metis Suc_le_lessD not0_implies_Suc)
next
  assume "(\<forall>j \<le> length ss. \<not> cancelled j) \<and> list_all (passes cel i) ss"
  then show "\<exists>d. evaluate_proxy cel cancelled i ss = Inr d \<and> pd_allowed d"
    using evaluate_selected_passed [of cel i ss cancelled 1 "[]"]
    by (simp add: evaluate_proxy_def allow_decision_def)
qed

definition sample_decision :: "string \<Rightarrow> decision" where
  "sample_decision answer =
     \<lparr>dec_evidence = [], dec_decision = answer, dec_message = ''no'', dec_policy_id = ''a'',
      dec_severity = ''error'', dec_suggestion = [], dec_diagnostics = [], dec_principle_ids = []\<rparr>"

theorem evaluate_proxy_fails_closed_witness:
  "\<forall>i. \<exists>d. evaluate_proxy (\<lambda>p _ _. Inr [sample_decision ''warn'']) (\<lambda>k. 3 \<le> k) i
     [\<lparr>sel_evaluator = sample_proxy_spec ''both'', sel_policy = sample_proxy_policy ''a'' ''both''\<rparr>] = Inr d \<and> pd_allowed d"
  by (rule allI, subst evaluate_proxy_fails_closed) (simp add: passes_def is_denial_def sample_decision_def)

text \<open>
  Fact. The first denial wins: when the policies before one pass and that one denies, the
  verdict carries its id and the message of its first denying decision, whatever the rest say.
\<close>

theorem first_denial_wins:
  assumes "list_all (passes cel i) pre" and "\<forall>j \<le> Suc (length pre). \<not> cancelled j"
    and "cel (sel_policy s) (eval_options (sel_evaluator s)) (to_cel_proxy_input i) = Inr (ds @ d # rest)"
    and "list_all (\<lambda>d. \<not> is_denial (dec_decision d)) ds" and "is_denial (dec_decision d)"
  shows "evaluate_proxy cel cancelled i (pre @ s # post) = Inr (denied_decision (sel_policy s) d i)"
proof -
  have "find (\<lambda>d. is_denial (dec_decision d)) (ds @ d # rest) = Some d"
    using assms(4,5) by (induction ds) auto
  moreover have "evaluate_proxy cel cancelled i (pre @ s # post) =
      evaluate_selected cel cancelled i (1 + length pre) (s # post)"
    using evaluate_selected_passed [of cel i pre cancelled 1 "s # post"] assms(1,2)
    by (simp add: evaluate_proxy_def)
  ultimately show ?thesis using assms(2,3) by simp
qed

theorem first_denial_wins_witness:
  "let s = \<lparr>sel_evaluator = \<lparr>eval_options = [], eval_kind = [], eval_name = []\<rparr>,
            sel_policy = sample_proxy_policy ''b'' ''both''\<rparr>;
       cel = (\<lambda>p _ _. Inr (if pol_id p = ''b'' then [sample_decision ''warn'', sample_decision ''deny''] else []))
   in \<forall>i. evaluate_proxy cel (\<lambda>_. False) i
        ([s\<lparr>sel_policy := sample_proxy_policy ''a'' ''both''\<rparr>] @ s # [s]) =
      Inr (denied_decision (sample_proxy_policy ''b'' ''both'') (sample_decision ''deny'') i)"
  unfolding Let_def
  by (rule allI, subst first_denial_wins [where ds = "[sample_decision ''warn'']" and d = "sample_decision ''deny''" and rest = "[]"])
    (simp_all add: passes_def is_denial_def sample_decision_def sample_proxy_policy_def)

lemma outbound_selected:
  assumes "new_evaluator validate ps = Inr ev" and "p \<in> set ps" and "proxy_evaluator p = Some spec"
    and "string_option (eval_options spec) ''proxy_direction'' \<in> {''outbound'', ''both''}"
  shows "\<lparr>sel_evaluator = spec, sel_policy = p\<rparr> \<in> set (pev_outbound ev)"
proof -
  have "\<lparr>sel_evaluator = spec, sel_policy = p\<rparr> \<in> set (selection outbound_direction ps)"
    using assms(2-4) by (auto simp: selection_member outbound_direction_def)
  then show ?thesis using assms(1) by (auto simp: new_evaluator_Inr sort_policies_def)
qed

lemma selected_denial:
  assumes "s \<in> set (pev_outbound ev)" and "denies cel i s"
    and "EvaluateOutbound cel cancelled ev i = Inr d"
  shows "\<not> pd_allowed d"
proof
  assume "pd_allowed d"
  then have "list_all (passes cel i) (pev_outbound ev)"
    using assms(3) evaluate_selected_allowed [of cel cancelled i 1 "pev_outbound ev" d]
    by (auto simp: EvaluateOutbound_def evaluate_proxy_def split: if_splits)
  with assms(1,2) show False
    by (auto simp: passes_def denies_def list_ex_iff list_all_iff split: sum.splits)
qed

text \<open>
  Fact. No proxy policy is skipped: when the evaluator was built and a policy of the bundle,
  scoped to the proxy and directed outbound or both ways, denies a request, then no outcome of
  evaluating the request allows it.
\<close>

theorem outbound_denial_is_final:
  assumes "new_evaluator validate ps = Inr ev" and "p \<in> set ps"
    and "proxy_evaluator p = Some spec"
    and "string_option (eval_options spec) ''proxy_direction'' \<in> {''outbound'', ''both''}"
    and "denies cel i \<lparr>sel_evaluator = spec, sel_policy = p\<rparr>"
  shows "\<nexists>d. EvaluateOutbound cel cancelled ev i = Inr d \<and> pd_allowed d"
  using selected_denial [OF outbound_selected [OF assms(1-4)] assms(5)] by blast

theorem outbound_denial_is_final_witness:
  "\<exists>ev. new_evaluator (\<lambda>_ _. None) [sample_proxy_policy ''b'' ''both''] = Inr ev \<and>
     (\<forall>i. \<nexists>d. EvaluateOutbound (\<lambda>_ _ _. Inr [sample_decision ''block'']) (\<lambda>_. False) ev i = Inr d \<and> pd_allowed d)"
proof -
  let ?p = "sample_proxy_policy ''b'' ''both''"
  obtain ev where ev: "new_evaluator (\<lambda>_ _. None) [?p] = Inr ev"
    by (simp add: new_evaluator_Inr acceptable_policy_def proxy_evaluator_def sample_proxy_policy_def sample_proxy_spec_def
        string_option_def)
  have "\<nexists>d. EvaluateOutbound (\<lambda>_ _ _. Inr [sample_decision ''block'']) (\<lambda>_. False) ev i = Inr d \<and> pd_allowed d" for i
    by (rule outbound_denial_is_final [OF ev, of ?p "sample_proxy_spec ''both''"])
      (simp_all add: sample_proxy_spec_def sample_proxy_policy_def proxy_evaluator_def string_option_def denies_def
        is_denial_def sample_decision_def)
  with ev show ?thesis by blast
qed

end
