(* ===== verification/Intercept.thy ===== *)
theory Intercept
  imports ProxyPolicy "HOL-Library.Word"
begin

text \<open>
  The intercepting proxy of \<open>go/internal/agentproxy\<close> (\<open>intercept.go\<close>, \<open>intercept_connect.go\<close>,
  \<open>intercept_normalize.go\<close>, \<open>intercept_enforce.go\<close>, \<open>copyHeaders\<close> of \<open>passthrough.go\<close>). What
  a handler does is the list of its effects, in order: what it sends to the client, what it
  forwards to the upstream, which events it records. The counter of the proxy is threaded through. A body is
  what a reader yields until it ends, and whether it ends with an error. The clock, the hash, the
  decompressors, the HTTP client, the construction of an HTTP request and the certificate issuer
  come with the environment.
\<close>

section \<open>Reading bodies\<close>

type_synonym body = "string \<times> bool"

text \<open>\<open>limit + 1\<close> on a signed 64-bit integer.\<close>

definition int64_succ :: "int \<Rightarrow> int" where
  "int64_succ limit = (if limit = 2 ^ 63 - 1 then - (2 ^ 63) else limit + 1)"

text \<open>The buffer, the replaying reader, whether the body was truncated, whether reading failed.\<close>

definition read_bounded_with_error :: "body option \<Rightarrow> int \<Rightarrow> string \<times> body \<times> bool \<times> bool" where
  "read_bounded_with_error reader limit =
     (case reader of
        None \<Rightarrow> ([], ([], False), False, False)
      | Some (content, failed) \<Rightarrow>
          let n = nat (int64_succ limit);
              buffered = take n content
          in if failed \<and> length content < n then (buffered, (content, failed), False, True)
             else if limit < int (length buffered) then (buffered, (content, failed), True, False)
             else (buffered, (buffered, False), False, False))"

definition read_bounded :: "body option \<Rightarrow> int \<Rightarrow> string \<times> body \<times> bool" where
  "read_bounded reader limit =
     (case read_bounded_with_error reader limit of
        (buffered, replay, truncated, err) \<Rightarrow> (buffered, replay, truncated))"

definition read_decoded :: "body \<Rightarrow> string \<Rightarrow> int \<Rightarrow> string" where
  "read_decoded reader fallback limit =
     (case reader of
        (content, failed) \<Rightarrow>
          if failed \<and> length content < nat limit then fallback else take (nat limit) content)"

text \<open>
  \<open>gzip.NewReader\<close> and \<open>zlib.NewReader\<close> may reject the header, \<open>flate.NewReader\<close> answers a
  reader always.
\<close>

record decompressors =
  dc_gzip :: "string \<Rightarrow> body option"
  dc_zlib :: "string \<Rightarrow> body option"
  dc_flate :: "string \<Rightarrow> body"

definition decode_gzip :: "decompressors \<Rightarrow> string \<Rightarrow> int \<Rightarrow> string" where
  "decode_gzip dc raw limit =
     (case dc_gzip dc raw of None \<Rightarrow> raw | Some reader \<Rightarrow> read_decoded reader raw limit)"

definition decode_flate :: "decompressors \<Rightarrow> string \<Rightarrow> int \<Rightarrow> string" where
  "decode_flate dc raw limit = read_decoded (dc_flate dc raw) raw limit"

definition decode_deflate :: "decompressors \<Rightarrow> string \<Rightarrow> int \<Rightarrow> string" where
  "decode_deflate dc raw limit =
     (case dc_zlib dc raw of
        Some reader \<Rightarrow> read_decoded reader raw limit
      | None \<Rightarrow> decode_flate dc raw limit)"

definition decode_for_adapter :: "decompressors \<Rightarrow> string \<Rightarrow> string \<Rightarrow> int \<Rightarrow> string" where
  "decode_for_adapter dc raw content_encoding limit =
     (let encoding = to_lower (trim_space content_encoding)
      in if encoding = ''gzip'' then decode_gzip dc raw limit
         else if encoding = ''deflate'' then decode_deflate dc raw limit
         else raw)"

section \<open>Headers\<close>

text \<open>\<open>http.Header\<close>: the values of each key; the order of the keys is that of the list.\<close>

type_synonym headers = "(string \<times> string list) list"

definition token_char :: "char \<Rightarrow> bool" where
  "token_char c \<longleftrightarrow> alnum_char c \<or> c \<in> set ''!#$%&*+-.^_`|~'' \<or> c = CHR 0x27"

definition upper_byte :: "char \<Rightarrow> char" where
  "upper_byte c = (if in_range 97 122 c then char_of ((of_char c :: nat) - 32) else c)"

fun canonical_bytes :: "bool \<Rightarrow> string \<Rightarrow> string" where
  "canonical_bytes up [] = []"
| "canonical_bytes up (c # s) =
     (if up then upper_byte c else lower_byte c) # canonical_bytes (c = CHR ''-'') s"

text \<open>\<open>http.CanonicalHeaderKey\<close>.\<close>

definition canonical_header_key :: "string \<Rightarrow> string" where
  "canonical_header_key s = (if list_all token_char s then canonical_bytes True s else s)"

definition header_values :: "headers \<Rightarrow> string \<Rightarrow> string list" where
  "header_values h key =
     (case map_of h (canonical_header_key key) of None \<Rightarrow> [] | Some vs \<Rightarrow> vs)"

definition header_get :: "headers \<Rightarrow> string \<Rightarrow> string" where
  "header_get h key = (case header_values h key of [] \<Rightarrow> [] | v # _ \<Rightarrow> v)"

fun add_canonical :: "string \<Rightarrow> string \<Rightarrow> headers \<Rightarrow> headers" where
  "add_canonical key v [] = [(key, [v])]"
| "add_canonical key v ((k, vs) # h) =
     (if k = key then (k, vs @ [v]) # h else (k, vs) # add_canonical key v h)"

definition header_add :: "string \<Rightarrow> string \<Rightarrow> headers \<Rightarrow> headers" where
  "header_add key v h = add_canonical (canonical_header_key key) v h"

definition header_del :: "string \<Rightarrow> headers \<Rightarrow> headers" where
  "header_del key h = filter (\<lambda>(k, _). k \<noteq> canonical_header_key key) h"

definition default_hop_by_hop_headers :: "string list" where
  "default_hop_by_hop_headers =
     [''Connection'', ''Keep-Alive'', ''Proxy-Authenticate'', ''Proxy-Authorization'', ''Te'',
      ''Trailer'', ''Transfer-Encoding'', ''Upgrade'']"

definition hop_by_hop_header_set :: "headers \<Rightarrow> string list" where
  "hop_by_hop_header_set h =
     default_hop_by_hop_headers @
     filter (\<lambda>k. k \<noteq> [])
       (map (\<lambda>name. canonical_header_key (trim_space name))
         (concat (map (\<lambda>v. split_on (CHR '','') v) (header_values h ''Connection''))))"

definition copy_headers :: "headers \<Rightarrow> headers \<Rightarrow> headers" where
  "copy_headers target source =
     fold (\<lambda>(name, vs) h.
         if canonical_header_key name \<in> set (hop_by_hop_header_set source) then h
         else fold (header_add name) vs h)
       source target"

section \<open>The proxy\<close>

text \<open>The injected evaluator; \<open>None\<close> is an error.\<close>

record proxy_policy_evaluator =
  ppe_outbound :: "proxy_decision_input \<Rightarrow> proxy_decision option"
  ppe_inbound :: "proxy_decision_input \<Rightarrow> proxy_decision option"

record intercept_proxy =
  ip_recorder :: bool
  ip_registry :: "adapter list"
  ip_evaluator :: "proxy_policy_evaluator option"
  ip_allow_hosts :: "string list"
  ip_provider :: string
  ip_repo_root :: string
  ip_on_error :: string
  ip_max_normalize :: int
  ip_sequence :: "64 word"
  ip_enabled :: bool

record intercept_options =
  io_recorder :: bool
  io_registry :: "adapter list option"
  io_issuer :: bool
  io_evaluator :: "proxy_policy_evaluator option"
  io_provider :: string
  io_repo_root :: string
  io_on_error :: string
  io_allow_hosts :: "string list"
  io_max_normalize :: int
  io_enabled :: bool

record upstream_request =
  up_method :: string
  up_url :: string
  up_host :: string
  up_headers :: headers
  up_content_length :: int
  up_body :: body

record upstream_response =
  ur_status :: nat
  ur_headers :: headers
  ur_body :: body

record http_request =
  rq_method :: string
  rq_host :: string
  rq_path :: string
  rq_request_uri :: string
  rq_headers :: headers
  rq_content_length :: int
  rq_body :: "body option"

text \<open>
  The environment: the clock at the time of an identity, SHA-256 in hexadecimal digits, the
  decompressors, whether an HTTP request can be built from a method and a URL, the answer of the
  upstream, whether the client connection flushes, whether the context was cancelled when the
  inbound evaluation returned.
\<close>

record proxy_env =
  nv_now :: "64 word \<Rightarrow> string"
  nv_sha256_hex :: "string \<Rightarrow> string"
  nv_decompress :: decompressors
  nv_new_request :: "string \<Rightarrow> string \<Rightarrow> bool"
  nv_upstream :: "upstream_request \<Rightarrow> upstream_response option"
  nv_flusher :: bool
  nv_cancelled :: bool

datatype proxy_effect =
    HttpError nat
  | SendHeader nat headers
  | SendBytes string
  | FlushClient
  | ForwardUpstream upstream_request
  | RecordEvent provider_event

datatype intercept_error = IssuerRequired | EvaluatorRequired | RegistryRequired

definition build_allow_hosts :: "string list \<Rightarrow> string list" where
  "build_allow_hosts hosts = filter (\<lambda>h. h \<noteq> []) (map (\<lambda>h. to_lower (trim_space h)) hosts)"

definition NewInterceptProxy :: "intercept_options \<Rightarrow> intercept_error + intercept_proxy" where
  "NewInterceptProxy options =
     (if io_enabled options \<and> \<not> io_issuer options then Inl IssuerRequired
      else if io_enabled options \<and> io_evaluator options = None then Inl EvaluatorRequired
      else let max_normalize = (if io_max_normalize options \<le> 0 then 8 * 2 ^ 20 else io_max_normalize options);
               on_error0 = trim_space (io_on_error options);
               on_error = (if on_error0 = [] then ''fail_closed'' else on_error0)
           in case io_registry options of
                None \<Rightarrow> Inl RegistryRequired
              | Some registry \<Rightarrow>
                  Inr \<lparr>ip_recorder = io_recorder options, ip_registry = registry,
                       ip_evaluator = io_evaluator options,
                       ip_allow_hosts = build_allow_hosts (io_allow_hosts options),
                       ip_provider = trim_space (io_provider options),
                       ip_repo_root = trim_space (io_repo_root options), ip_on_error = on_error,
                       ip_max_normalize = max_normalize, ip_sequence = 0,
                       ip_enabled = io_enabled options\<rparr>)"

definition allowed_host :: "intercept_proxy \<Rightarrow> string \<Rightarrow> bool" where
  "allowed_host proxy host \<longleftrightarrow> host \<in> set (ip_allow_hosts proxy)"

definition intercept_event_id :: "proxy_env \<Rightarrow> string \<Rightarrow> string \<Rightarrow> 64 word \<Rightarrow> string" where
  "intercept_event_id nv recorded_at host sequence =
     ''agent-api-proxy-'' @
     take 24 (nv_sha256_hex nv
       (recorded_at @ [CHR 0x0A] @ host @ [CHR 0x0A] @ itoa (uint sequence)))"

text \<open>\<open>identity\<close> advances the counter. The time is read just before.\<close>

definition identity ::
  "proxy_env \<Rightarrow> intercept_proxy \<Rightarrow> string \<Rightarrow> string \<Rightarrow> string \<Rightarrow> event_identity \<times> intercept_proxy" where
  "identity nv proxy session host recorded_at =
     (let provider = (if ip_provider proxy = [] then host else ip_provider proxy);
          sequence = ip_sequence proxy + 1
      in (\<lparr>id_recorded_at = recorded_at, id_id = intercept_event_id nv recorded_at host sequence,
           id_session = session, id_provider = provider, id_repo_root = ip_repo_root proxy,
           id_work_dir = [], id_trace_id = [], id_tracking_id = []\<rparr>,
          proxy\<lparr>ip_sequence := sequence\<rparr>))"

definition clock :: "proxy_env \<Rightarrow> intercept_proxy \<Rightarrow> string" where
  "clock nv proxy = nv_now nv (ip_sequence proxy)"

definition record_event :: "intercept_proxy \<Rightarrow> provider_event \<Rightarrow> proxy_effect list" where
  "record_event proxy event = (if ip_recorder proxy then [RecordEvent event] else [])"

definition session_id :: "headers \<Rightarrow> string" where
  "session_id h =
     (let v = trim_space (header_get h ''X-Coding-Ethos-Session'')
      in if v = [] then ''agent-api-proxy'' else v)"

definition authority_matches :: "string \<Rightarrow> string \<Rightarrow> bool" where
  "authority_matches request_host pinned =
     (let h = trim_space request_host
      in if h = [] then True else equal_fold h (trim_space pinned))"

section \<open>Denial bodies\<close>

text \<open>The encoding of a string by \<open>encoding/json\<close>.\<close>

definition hex_digit :: "nat \<Rightarrow> char" where
  "hex_digit n = ''0123456789abcdef'' ! n"

definition json_ascii :: "char \<Rightarrow> string" where
  "json_ascii c =
     (if c = CHR 0x22 \<or> c = CHR 0x5C then [CHR 0x5C, c]
      else if c = CHR 0x08 then [CHR 0x5C, CHR ''b'']
      else if c = CHR 0x0C then [CHR 0x5C, CHR ''f'']
      else if c = CHR 0x0A then [CHR 0x5C, CHR ''n'']
      else if c = CHR 0x0D then [CHR 0x5C, CHR ''r'']
      else if c = CHR 0x09 then [CHR 0x5C, CHR ''t'']
      else if in_range 0 31 c \<or> c \<in> set ''<>&''
        then [CHR 0x5C] @ ''u00'' @ [hex_digit (of_char c div 16), hex_digit (of_char c mod 16)]
      else [c])"

function json_string :: "string \<Rightarrow> string" where
  "json_string s =
     (case s of
        [] \<Rightarrow> []
      | c # r \<Rightarrow>
          if in_range 0 127 c then json_ascii c @ json_string r
          else case decode_rune s of
                 (rune, w) \<Rightarrow>
                   if rune = rune_error \<and> w = 1 then [CHR 0x5C] @ ''ufffd'' @ json_string r
                   else (if rune = 0x2028 \<or> rune = 0x2029
                         then [CHR 0x5C] @ ''u202'' @ [hex_digit (rune mod 16)] else take w s) @
                        json_string (drop w s))"
  by pat_completeness auto
termination
proof (relation "measure length", goal_cases)
  case (4 s c r rune w)
  then have "1 \<le> w" using decode_rune_width [of s] by (metis list.simps(3) snd_conv)
  with 4 show ?case by simp
qed simp_all

declare json_string.simps [simp del]

definition json_quote :: "string \<Rightarrow> string" where
  "json_quote s = [CHR 0x22] @ json_string s @ [CHR 0x22]"

fun json_members :: "(string \<times> string) list \<Rightarrow> string" where
  "json_members [] = []"
| "json_members [(k, v)] = json_quote k @ '':'' @ json_quote v"
| "json_members ((k, v) # m) = json_quote k @ '':'' @ json_quote v @ '','' @ json_members m"

text \<open>A map is encoded in the order of its keys.\<close>

definition deny_body :: "string \<Rightarrow> string \<Rightarrow> string" where
  "deny_body policy_id reason =
     ''{'' @ json_members [(''error'', ''coding-ethos policy denial''), (''policy_id'', policy_id),
       (''reason'', reason)] @ ''}''"

definition write_deny_response :: "string \<Rightarrow> string \<Rightarrow> proxy_effect list" where
  "write_deny_response policy_id reason =
     [SendHeader 403 [(''Content-Type'', [''application/json''])], SendBytes (deny_body policy_id reason)]"

definition flush_client :: "proxy_env \<Rightarrow> proxy_effect list" where
  "flush_client nv = (if nv_flusher nv then [FlushClient] else [])"

definition write_stream_deny_surface :: "proxy_env \<Rightarrow> string \<Rightarrow> string \<Rightarrow> proxy_effect list" where
  "write_stream_deny_surface nv policy_id reason =
     [SendBytes ([CHR 0x0A] @ ''event: coding-ethos-denial'' @ [CHR 0x0A] @ ''data: '' @
        deny_body policy_id reason @ [CHR 0x0A, CHR 0x0A])] @ flush_client nv"

section \<open>Evidence\<close>

text \<open>The event of a routing failure, of an authority mismatch and of a blind tunnel.\<close>

definition intercept_event :: "event_identity \<Rightarrow> string \<Rightarrow> metadata \<Rightarrow> provider_event" where
  "intercept_event idn answer m = empty_provider_event
     \<lparr>ev_recorded_at := id_recorded_at idn, ev_metadata := m, ev_kind := ''provider_call'',
      ev_repo_root := id_repo_root idn, ev_id := id_id idn, ev_provider := id_provider idn,
      ev_policy_id := ''proxy.intercept'', ev_decision := answer, ev_session := id_session idn,
      ev_direction := ''outbound''\<rparr>"

definition record_failure ::
  "string \<Rightarrow> proxy_env \<Rightarrow> intercept_proxy \<Rightarrow> string \<Rightarrow> string \<Rightarrow> intercept_proxy \<times> proxy_effect list" where
  "record_failure error_class nv proxy host session =
     (case identity nv proxy session host (clock nv proxy) of
        (idn, proxy') \<Rightarrow>
          (proxy', record_event proxy' (intercept_event idn ''route_error''
             [''intercepted'' \<mapsto> ''true'', ''host'' \<mapsto> host, ''error'' \<mapsto> error_class,
              ''payload_body_retained'' \<mapsto> ''false''])))"

definition record_route_error ::
  "proxy_env \<Rightarrow> intercept_proxy \<Rightarrow> string \<Rightarrow> string \<Rightarrow> intercept_proxy \<times> proxy_effect list" where
  "record_route_error = record_failure ''proxy_route_failed''"

definition record_authority_mismatch ::
  "proxy_env \<Rightarrow> intercept_proxy \<Rightarrow> string \<Rightarrow> string \<Rightarrow> intercept_proxy \<times> proxy_effect list" where
  "record_authority_mismatch = record_failure ''authority_mismatch''"

record outbound_input =
  oi_host :: string
  oi_session :: string
  oi_req_bytes :: string
  oi_decoded :: string
  oi_encoding :: string
  oi_req_ctx :: request_context
  oi_adapter :: "adapter option"
  oi_truncated :: bool

definition large_outbound_event :: "event_identity \<Rightarrow> outbound_input \<Rightarrow> provider_event" where
  "large_outbound_event idn i = (intercept_event idn ''allow''
       [''intercepted'' \<mapsto> ''true'', ''host'' \<mapsto> oi_host i,
        ''payload_too_large_for_normalization'' \<mapsto> ''true'', ''payload_body_retained'' \<mapsto> ''false''])
     \<lparr>ev_payload_kind := ''prompt'', ev_dlp_facts := [dlp_fact_of ''large_payload'' [] [] [] 0 0],
      ev_payload := Measure (oi_req_bytes i)\<rparr>"

definition minimal_outbound_event :: "event_identity \<Rightarrow> outbound_input \<Rightarrow> bool \<Rightarrow> provider_event" where
  "minimal_outbound_event idn i intercepted = (intercept_event idn ''allow''
       [''intercepted'' \<mapsto> (if intercepted then ''true'' else ''false''), ''host'' \<mapsto> oi_host i,
        ''normalized'' \<mapsto> ''false'', ''payload_body_retained'' \<mapsto> ''false''])
     \<lparr>ev_payload_kind := ''prompt'', ev_payload := Measure (oi_req_bytes i)\<rparr>"

definition set_metadata :: "provider_event \<Rightarrow> string \<Rightarrow> string \<Rightarrow> provider_event" where
  "set_metadata e key v = e\<lparr>ev_metadata := (ev_metadata e)(key \<mapsto> v)\<rparr>"

definition record_outbound ::
  "proxy_env \<Rightarrow> intercept_proxy \<Rightarrow> outbound_input \<Rightarrow> intercept_proxy \<times> proxy_effect list" where
  "record_outbound nv proxy i =
     (case identity nv proxy (oi_session i) (oi_host i) (clock nv proxy) of
        (idn, proxy') \<Rightarrow>
          (proxy',
           if oi_truncated i then record_event proxy' (large_outbound_event idn i)
           else case oi_adapter i of
                  None \<Rightarrow> record_event proxy' (minimal_outbound_event idn i True)
                | Some a \<Rightarrow>
                    (case ad_normalize_request a (oi_decoded i) (oi_req_ctx i) of
                       None \<Rightarrow> record_event proxy' (set_metadata (minimal_outbound_event idn i True)
                                 ''normalization_error'' ''true'')
                     | Some norm \<Rightarrow>
                         let e = set_metadata (OutboundEvent idn norm) ''intercepted'' ''true''
                         in record_event proxy'
                              (if ev_input_hash e = []
                               then e\<lparr>ev_input_hash := nv_sha256_hex nv (oi_decoded i)\<rparr> else e))))"

section \<open>Outbound enforcement\<close>

definition outbound_decision_metadata :: "event_identity \<Rightarrow> metadata" where
  "outbound_decision_metadata idn =
     (let m0 = (if id_trace_id idn = [] then Map.empty else [''proxy_trace_id'' \<mapsto> id_trace_id idn])
      in if id_tracking_id idn = [] then m0 else m0(''proxy_tracking_id'' \<mapsto> id_tracking_id idn))"

definition outbound_decision_input ::
  "proxy_env \<Rightarrow> event_identity \<Rightarrow> outbound_input \<Rightarrow> string \<Rightarrow> dlp_fact list \<Rightarrow> proxy_decision_input" where
  "outbound_decision_input nv idn i target facts =
     \<lparr>pi_metadata = outbound_decision_metadata idn, pi_target_path = target,
      pi_direction = ''outbound'', pi_event_id = id_id idn, pi_session = id_session idn,
      pi_provider = id_provider idn, pi_model = [], pi_payload_kind = ''prompt'',
      pi_input_hash = nv_sha256_hex nv (oi_decoded i), pi_tool = [], pi_output_hash = [],
      pi_kind = ''provider_call'', pi_dlp_facts = facts, pi_tool_calls = [],
      pi_token_usage = zero_proxy_usage, pi_payload = Measure (oi_req_bytes i)\<rparr>"

definition proxy_correlation_metadata ::
  "event_identity \<Rightarrow> string \<Rightarrow> string \<Rightarrow> string \<Rightarrow> metadata" where
  "proxy_correlation_metadata idn kind direction payload_kind =
     (let m0 = [''proxy_event_id'' \<mapsto> id_id idn, ''proxy_session_id'' \<mapsto> id_session idn,
                ''proxy_event_kind'' \<mapsto> kind, ''proxy_provider'' \<mapsto> id_provider idn,
                ''proxy_direction'' \<mapsto> direction, ''proxy_payload_kind'' \<mapsto> payload_kind];
          m1 = (if id_trace_id idn = [] then m0 else m0(''proxy_trace_id'' \<mapsto> id_trace_id idn))
      in if id_tracking_id idn = [] then m1 else m1(''proxy_tracking_id'' \<mapsto> id_tracking_id idn))"

text \<open>The zero decision of a failed evaluation is not allowed.\<close>

definition zero_decision :: proxy_decision where
  "zero_decision = allow_decision\<lparr>pd_allowed := False\<rparr>"

record deny_outbound_input =
  do_identity :: event_identity
  do_host :: string
  do_policy_id :: string
  do_reason :: string
  do_dlp_facts :: "dlp_fact list"
  do_decision :: proxy_decision

definition deny_evidence_id :: "deny_outbound_input \<Rightarrow> string" where
  "deny_evidence_id i =
     (if pd_evidence_id (do_decision i) \<noteq> [] then pd_evidence_id (do_decision i)
      else id_id (do_identity i))"

definition deny_event_metadata :: "deny_outbound_input \<Rightarrow> metadata" where
  "deny_event_metadata i =
     (pd_metadata (do_decision i) ++
      proxy_correlation_metadata (do_identity i) ''provider_call'' ''outbound'' ''prompt'')
     (''intercepted'' \<mapsto> ''true'', ''host'' \<mapsto> do_host i, ''decision'' \<mapsto> ''deny'',
      ''payload_body_retained'' \<mapsto> ''false'')"

definition deny_outbound_event :: "deny_outbound_input \<Rightarrow> provider_event" where
  "deny_outbound_event i =
     (let idn = do_identity i
      in empty_provider_event
           \<lparr>ev_recorded_at := id_recorded_at idn, ev_metadata := deny_event_metadata i,
            ev_kind := ''provider_call'', ev_repo_root := id_repo_root idn, ev_id := id_id idn,
            ev_provider := id_provider idn, ev_policy_id := do_policy_id i, ev_decision := ''deny'',
            ev_session := id_session idn, ev_trace_id := id_trace_id idn,
            ev_tracking_id := id_tracking_id idn, ev_direction := ''outbound'',
            ev_payload_kind := ''prompt'',
            ev_policy := \<lparr>pe_policy_id = do_policy_id i, pe_skill_id = pd_skill_id (do_decision i),
              pe_decision = ''deny'', pe_reason = do_reason i, pe_evidence_id = deny_evidence_id i,
              pe_mcp_tool = [], pe_principle_ids = pd_principle_ids (do_decision i)\<rparr>,
            ev_dlp_facts := do_dlp_facts i\<rparr>)"

definition deny_outbound :: "intercept_proxy \<Rightarrow> deny_outbound_input \<Rightarrow> proxy_effect list" where
  "deny_outbound proxy i =
     write_deny_response (do_policy_id i) (do_reason i) @ record_event proxy (deny_outbound_event i)"

text \<open>\<open>outboundTargetPath\<close> is empty. The result tells whether the request may proceed.\<close>

definition outbound_target_path :: "outbound_input \<Rightarrow> string" where
  "outbound_target_path i = []"

definition enforce_outbound ::
  "proxy_env \<Rightarrow> intercept_proxy \<Rightarrow> outbound_input \<Rightarrow> bool \<times> intercept_proxy \<times> proxy_effect list" where
  "enforce_outbound nv proxy i =
     (case ip_evaluator proxy of
        None \<Rightarrow> (True, proxy, [])
      | Some evaluator \<Rightarrow>
          (case identity nv proxy (oi_session i) (oi_host i) (clock nv proxy) of
             (idn, proxy') \<Rightarrow>
               let target = outbound_target_path i;
                   facts = ScanRequest (oi_decoded i) target
               in case ppe_outbound evaluator (outbound_decision_input nv idn i target facts) of
                    None \<Rightarrow> (False, proxy', deny_outbound proxy'
                      \<lparr>do_identity = idn, do_host = oi_host i, do_policy_id = ''proxy.intercept'',
                       do_reason = ''proxy_eval_error'', do_dlp_facts = facts,
                       do_decision = zero_decision\<rparr>)
                  | Some d \<Rightarrow>
                      if \<not> pd_allowed d
                      then (False, proxy', deny_outbound proxy'
                        \<lparr>do_identity = idn, do_host = oi_host i, do_policy_id = pd_policy_id d,
                         do_reason = pd_reason d, do_dlp_facts = facts, do_decision = d\<rparr>)
                      else (True, proxy', [])))"

section \<open>Normalized responses\<close>

definition normalize_response ::
  "proxy_env \<Rightarrow> int \<Rightarrow> adapter option \<Rightarrow> string \<Rightarrow> string \<Rightarrow> response_context \<Rightarrow> bool \<Rightarrow>
   response_normalization" where
  "normalize_response nv limit adapter resp_bytes encoding resp_ctx truncated =
     (let m = [''intercepted'' \<mapsto> ''true'']
      in if truncated
         then empty_response_normalization
           \<lparr>sn_metadata := m(''payload_too_large_for_normalization'' \<mapsto> ''true''),
            sn_measurement := Measure resp_bytes\<rparr>
         else case adapter of
                None \<Rightarrow> empty_response_normalization
                  \<lparr>sn_metadata := m(''normalized'' \<mapsto> ''false''),
                   sn_body_hash := nv_sha256_hex nv resp_bytes, sn_measurement := Measure resp_bytes\<rparr>
              | Some a \<Rightarrow>
                  let decoded = decode_for_adapter (nv_decompress nv) resp_bytes encoding limit
                  in case ad_normalize_response a decoded resp_ctx of
                       None \<Rightarrow> empty_response_normalization
                         \<lparr>sn_metadata := m(''normalization_error'' \<mapsto> ''true''),
                          sn_body_hash := nv_sha256_hex nv decoded, sn_measurement := Measure decoded\<rparr>
                     | Some norm \<Rightarrow> norm
                         \<lparr>sn_metadata := (sn_metadata norm)(''intercepted'' \<mapsto> ''true''),
                          sn_body_hash := if sn_body_hash norm = [] then nv_sha256_hex nv decoded
                                          else sn_body_hash norm\<rparr>)"

definition normalize_streamed_response ::
  "proxy_env \<Rightarrow> int \<Rightarrow> adapter option \<Rightarrow> string \<Rightarrow> string \<Rightarrow> response_context \<Rightarrow> bool \<Rightarrow> bool \<Rightarrow>
   response_normalization" where
  "normalize_streamed_response nv limit adapter accumulated encoding resp_ctx truncated copy_failed =
     (let m = [''intercepted'' \<mapsto> ''true''];
          streamed = empty_response_normalization\<lparr>sn_streamed := True\<rparr>
      in if truncated
         then streamed\<lparr>sn_metadata := m(''payload_too_large_for_normalization'' \<mapsto> ''true''),
                       sn_measurement := Measure accumulated\<rparr>
         else if copy_failed
         then streamed\<lparr>sn_metadata := m(''error'' \<mapsto> ''proxy_route_failed''),
                       sn_measurement := Measure accumulated\<rparr>
         else case adapter of
                None \<Rightarrow> streamed\<lparr>sn_metadata := m\<rparr>
              | Some a \<Rightarrow>
                  let decoded = decode_for_adapter (nv_decompress nv) accumulated encoding limit
                  in case ad_normalize_response a decoded resp_ctx of
                       None \<Rightarrow> streamed
                         \<lparr>sn_metadata := m(''normalization_error'' \<mapsto> ''true''),
                          sn_body_hash := nv_sha256_hex nv decoded, sn_measurement := Measure decoded\<rparr>
                     | Some norm \<Rightarrow>
                         norm\<lparr>sn_metadata := (sn_metadata norm)(''intercepted'' \<mapsto> ''true'')\<rparr>)"

section \<open>Inbound enforcement\<close>

definition inbound_decision_input :: "event_identity \<Rightarrow> response_normalization \<Rightarrow> proxy_decision_input" where
  "inbound_decision_input idn norm =
     \<lparr>pi_metadata = outbound_decision_metadata idn, pi_target_path = [], pi_direction = ''inbound'',
      pi_event_id = id_id idn, pi_session = id_session idn, pi_provider = id_provider idn,
      pi_model = sn_model norm, pi_payload_kind = ''response'', pi_input_hash = [], pi_tool = [],
      pi_output_hash = sn_body_hash norm, pi_kind = ''provider_response'', pi_dlp_facts = [],
      pi_tool_calls = sn_tool_calls norm, pi_token_usage = sn_usage norm,
      pi_payload = sn_measurement norm\<rparr>"

definition record_inbound_eval_error :: "response_normalization \<Rightarrow> response_normalization" where
  "record_inbound_eval_error norm =
     norm\<lparr>sn_metadata := (sn_metadata norm)(''error'' \<mapsto> ''proxy_eval_error'', ''decision'' \<mapsto> ''allow'')\<rparr>"

text \<open>The decision, whether it allows, and the normalization, which an error annotates.\<close>

definition evaluate_inbound ::
  "proxy_env \<Rightarrow> intercept_proxy \<Rightarrow> event_identity \<Rightarrow> response_normalization \<Rightarrow>
   proxy_decision \<times> bool \<times> response_normalization" where
  "evaluate_inbound nv proxy idn norm =
     (case ip_evaluator proxy of
        None \<Rightarrow> (allow_decision, True, norm)
      | Some evaluator \<Rightarrow>
          (case ppe_inbound evaluator (inbound_decision_input idn norm) of
             None \<Rightarrow> (allow_decision, True, if nv_cancelled nv then norm else record_inbound_eval_error norm)
           | Some d \<Rightarrow> (d, pd_allowed d, norm)))"

record deny_inbound_input =
  di_identity :: event_identity
  di_norm :: response_normalization
  di_decision :: proxy_decision
  di_host :: string
  di_policy_id :: string
  di_reason :: string
  di_streamed :: bool

definition deny_inbound_evidence_id :: "deny_inbound_input \<Rightarrow> string" where
  "deny_inbound_evidence_id i =
     (if pd_evidence_id (di_decision i) \<noteq> [] then pd_evidence_id (di_decision i)
      else id_id (di_identity i))"

definition deny_inbound_event :: "deny_inbound_input \<Rightarrow> provider_event" where
  "deny_inbound_event i =
     (let e = InboundEvent (di_identity i) (di_norm i);
          m = (ev_metadata e ++ pd_metadata (di_decision i) ++
               proxy_correlation_metadata (di_identity i) ''provider_response'' ''inbound'' ''response'')
              (''intercepted'' \<mapsto> ''true'', ''host'' \<mapsto> di_host i, ''decision'' \<mapsto> ''deny'',
               ''payload_body_retained'' \<mapsto> ''false'')
      in e\<lparr>ev_policy_id := di_policy_id i, ev_decision := ''deny'',
           ev_policy := \<lparr>pe_policy_id = di_policy_id i, pe_skill_id = pd_skill_id (di_decision i),
             pe_decision = ''deny'', pe_reason = di_reason i,
             pe_evidence_id = deny_inbound_evidence_id i, pe_mcp_tool = [],
             pe_principle_ids = pd_principle_ids (di_decision i)\<rparr>,
           ev_metadata := if di_streamed i then m(''stream_denial_surface'' \<mapsto> ''true'') else m\<rparr>)"

definition deny_buffered_inbound :: "intercept_proxy \<Rightarrow> deny_inbound_input \<Rightarrow> proxy_effect list" where
  "deny_buffered_inbound proxy i =
     write_deny_response (di_policy_id i) (di_reason i) @ record_event proxy (deny_inbound_event i)"

definition surface_streamed_inbound_denial ::
  "proxy_env \<Rightarrow> intercept_proxy \<Rightarrow> deny_inbound_input \<Rightarrow> proxy_effect list" where
  "surface_streamed_inbound_denial nv proxy i =
     write_stream_deny_surface nv (di_policy_id i) (di_reason i) @
     record_event proxy (deny_inbound_event i)"

section \<open>Responses\<close>

record branch_input =
  bi_host :: string
  bi_session :: string
  bi_adapter :: "adapter option"

definition response_context_of :: "upstream_response \<Rightarrow> response_context" where
  "response_context_of r =
     \<lparr>rs_content_type = header_get (ur_headers r) ''Content-Type'', rs_status_code = ur_status r\<rparr>"

definition stream_sse ::
  "proxy_env \<Rightarrow> intercept_proxy \<Rightarrow> upstream_response \<Rightarrow> branch_input \<Rightarrow>
   intercept_proxy \<times> proxy_effect list" where
  "stream_sse nv proxy response i =
     (case read_bounded_with_error (Some (ur_body response)) (ip_max_normalize proxy) of
        (resp_bytes, resp_body, truncated, copy_failed) \<Rightarrow>
          let norm0 = normalize_streamed_response nv (ip_max_normalize proxy) (bi_adapter i) resp_bytes
                        (header_get (ur_headers response) ''Content-Encoding'')
                        (response_context_of response) truncated copy_failed
          in case identity nv proxy (bi_session i) (bi_host i) (clock nv proxy) of
               (idn, proxy') \<Rightarrow>
                 (case evaluate_inbound nv proxy' idn norm0 of
                    (d, allowed, norm) \<Rightarrow>
                      let h = header_del ''Content-Length'' (copy_headers [] (ur_headers response))
                      in if \<not> allowed
                         then (proxy',
                           [SendHeader (ur_status response) (header_del ''Content-Encoding'' h)] @
                           surface_streamed_inbound_denial nv proxy'
                             \<lparr>di_identity = idn, di_norm = norm, di_decision = d, di_host = bi_host i,
                              di_policy_id = pd_policy_id d, di_reason = pd_reason d,
                              di_streamed = True\<rparr>)
                         else (proxy',
                           [SendHeader (ur_status response) h,
                            SendBytes (if truncated \<or> copy_failed then fst resp_body else resp_bytes)] @
                           flush_client nv @ record_event proxy' (InboundEvent idn norm))))"

definition buffer_and_forward ::
  "proxy_env \<Rightarrow> intercept_proxy \<Rightarrow> upstream_response \<Rightarrow> branch_input \<Rightarrow>
   intercept_proxy \<times> proxy_effect list" where
  "buffer_and_forward nv proxy response i =
     (case read_bounded (Some (ur_body response)) (ip_max_normalize proxy) of
        (resp_bytes, resp_body, truncated) \<Rightarrow>
          let norm0 = normalize_response nv (ip_max_normalize proxy) (bi_adapter i) resp_bytes
                        (header_get (ur_headers response) ''Content-Encoding'')
                        (response_context_of response) truncated
          in case identity nv proxy (bi_session i) (bi_host i) (clock nv proxy) of
               (idn, proxy') \<Rightarrow>
                 (case evaluate_inbound nv proxy' idn norm0 of
                    (d, allowed, norm) \<Rightarrow>
                      if \<not> allowed
                      then (proxy', deny_buffered_inbound proxy'
                             \<lparr>di_identity = idn, di_norm = norm, di_decision = d, di_host = bi_host i,
                              di_policy_id = pd_policy_id d, di_reason = pd_reason d,
                              di_streamed = False\<rparr>)
                      else (proxy',
                        [SendHeader (ur_status response) (copy_headers [] (ur_headers response)),
                         SendBytes (if truncated then fst resp_body else resp_bytes)] @
                        record_event proxy' (InboundEvent idn norm))))"

definition branch_response ::
  "proxy_env \<Rightarrow> intercept_proxy \<Rightarrow> upstream_response \<Rightarrow> branch_input \<Rightarrow>
   intercept_proxy \<times> proxy_effect list" where
  "branch_response nv proxy response i =
     (if str_contains (header_get (ur_headers response) ''Content-Type'') ''text/event-stream''
      then stream_sse nv proxy response i
      else buffer_and_forward nv proxy response i)"

section \<open>Requests\<close>

definition build_upstream_request ::
  "proxy_env \<Rightarrow> http_request \<Rightarrow> body \<Rightarrow> string \<Rightarrow> upstream_request option" where
  "build_upstream_request nv request content authority =
     (let url = ''https://'' @ authority @ rq_request_uri request
      in if \<not> nv_new_request nv (rq_method request) url then None
         else Some \<lparr>up_method = rq_method request, up_url = url, up_host = authority,
                    up_headers = copy_headers [] (rq_headers request),
                    up_content_length = rq_content_length request, up_body = content\<rparr>)"

definition request_context_of :: "http_request \<Rightarrow> string \<Rightarrow> request_context" where
  "request_context_of request host =
     \<lparr>rc_method = rq_method request, rc_host = host, rc_path = rq_path request,
      rc_content_type = header_get (rq_headers request) ''Content-Type''\<rparr>"

definition outbound_of ::
  "proxy_env \<Rightarrow> intercept_proxy \<Rightarrow> http_request \<Rightarrow> string \<Rightarrow> outbound_input" where
  "outbound_of nv proxy request host =
     (case read_bounded (rq_body request) (ip_max_normalize proxy) of
        (req_bytes, req_body, truncated) \<Rightarrow>
          let ctx = request_context_of request host;
              encoding = header_get (rq_headers request) ''Content-Encoding''
          in \<lparr>oi_host = host, oi_session = session_id (rq_headers request), oi_req_bytes = req_bytes,
              oi_decoded = decode_for_adapter (nv_decompress nv) req_bytes encoding (ip_max_normalize proxy),
              oi_encoding = encoding, oi_req_ctx = ctx,
              oi_adapter = registry_match (ip_registry proxy) ctx, oi_truncated = truncated\<rparr>)"

definition serve_request ::
  "proxy_env \<Rightarrow> intercept_proxy \<Rightarrow> http_request \<Rightarrow> string \<Rightarrow> string \<Rightarrow>
   intercept_proxy \<times> proxy_effect list" where
  "serve_request nv proxy request host authority =
     (let session = session_id (rq_headers request)
      in if \<not> authority_matches (rq_host request) authority
         then case record_authority_mismatch nv proxy host session of
                (proxy', recorded) \<Rightarrow> (proxy', HttpError 421 # recorded)
         else case build_upstream_request nv request
                     (fst (snd (read_bounded (rq_body request) (ip_max_normalize proxy)))) authority of
                None \<Rightarrow>
                  (case record_route_error nv proxy host session of
                     (proxy', recorded) \<Rightarrow> (proxy', HttpError 502 # recorded))
              | Some upstream \<Rightarrow>
                  let i = outbound_of nv proxy request host
                  in case enforce_outbound nv proxy i of
                       (proceed, proxy1, denied) \<Rightarrow>
                         if \<not> proceed then (proxy1, denied)
                         else case record_outbound nv proxy1 i of
                                (proxy2, recorded) \<Rightarrow>
                                  (case nv_upstream nv upstream of
                                     None \<Rightarrow>
                                       (case record_route_error nv proxy2 host session of
                                          (proxy3, failure) \<Rightarrow>
                                            (proxy3, recorded @ [ForwardUpstream upstream, HttpError 502] @ failure))
                                   | Some response \<Rightarrow>
                                       (case branch_response nv proxy2 response
                                               \<lparr>bi_host = host, bi_session = session, bi_adapter = oi_adapter i\<rparr> of
                                          (proxy3, answered) \<Rightarrow>
                                            (proxy3, recorded @ [ForwardUpstream upstream] @ answered))))"

end
