(* ===== verification/InterceptProofs.thy ===== *)
theory InterceptProofs
  imports Intercept
begin

text \<open>
  What the intercepting proxy promises: what is forwarded and when, what a denial leaves behind,
  which bytes reach the client, which identities its events have, and that a request with a
  credential does not leave when a policy denies credentials.
\<close>

section \<open>Reading a trace\<close>

definition forwarded :: "proxy_effect list \<Rightarrow> upstream_request list" where
  "forwarded effects = concat (map (\<lambda>e. case e of ForwardUpstream u \<Rightarrow> [u] | _ \<Rightarrow> []) effects)"

definition recorded :: "proxy_effect list \<Rightarrow> provider_event list" where
  "recorded effects = concat (map (\<lambda>e. case e of RecordEvent v \<Rightarrow> [v] | _ \<Rightarrow> []) effects)"

definition sent_bytes :: "proxy_effect list \<Rightarrow> string" where
  "sent_bytes effects = concat (map (\<lambda>e. case e of SendBytes s \<Rightarrow> s | _ \<Rightarrow> []) effects)"

definition sent_status :: "proxy_effect list \<Rightarrow> nat list" where
  "sent_status effects =
     concat (map (\<lambda>e. case e of SendHeader n _ \<Rightarrow> [n] | HttpError n \<Rightarrow> [n] | _ \<Rightarrow> []) effects)"

lemma trace_append [simp]:
  "forwarded (xs @ ys) = forwarded xs @ forwarded ys"
  "recorded (xs @ ys) = recorded xs @ recorded ys"
  "sent_bytes (xs @ ys) = sent_bytes xs @ sent_bytes ys"
  "sent_status (xs @ ys) = sent_status xs @ sent_status ys"
  by (simp_all add: forwarded_def recorded_def sent_bytes_def sent_status_def)

lemma trace_nil [simp]:
  "forwarded [] = []" "recorded [] = []" "sent_bytes [] = []" "sent_status [] = []"
  by (simp_all add: forwarded_def recorded_def sent_bytes_def sent_status_def)

lemma trace_cons [simp]:
  "forwarded (e # es) = (case e of ForwardUpstream u \<Rightarrow> [u] | _ \<Rightarrow> []) @ forwarded es"
  "recorded (e # es) = (case e of RecordEvent v \<Rightarrow> [v] | _ \<Rightarrow> []) @ recorded es"
  "sent_bytes (e # es) = (case e of SendBytes s \<Rightarrow> s | _ \<Rightarrow> []) @ sent_bytes es"
  "sent_status (e # es) =
     (case e of SendHeader n _ \<Rightarrow> [n] | HttpError n \<Rightarrow> [n] | _ \<Rightarrow> []) @ sent_status es"
  by (simp_all add: forwarded_def recorded_def sent_bytes_def sent_status_def)

lemma trace_record_event [simp]:
  "forwarded (record_event p e) = []" "sent_bytes (record_event p e) = []"
  "sent_status (record_event p e) = []" "recorded (record_event p e) = (if ip_recorder p then [e] else [])"
  by (simp_all add: record_event_def)

lemma trace_flush [simp]:
  "forwarded (flush_client nv) = []" "sent_bytes (flush_client nv) = []"
  "sent_status (flush_client nv) = []" "recorded (flush_client nv) = []"
  by (simp_all add: flush_client_def)

lemma trace_deny_response [simp]:
  "forwarded (write_deny_response pid r) = []" "sent_bytes (write_deny_response pid r) = deny_body pid r"
  "sent_status (write_deny_response pid r) = [403]" "recorded (write_deny_response pid r) = []"
  by (simp_all add: write_deny_response_def)

definition stream_denial :: "string \<Rightarrow> string \<Rightarrow> string" where
  "stream_denial policy_id reason =
     [CHR 0x0A] @ ''event: coding-ethos-denial'' @ [CHR 0x0A] @ ''data: '' @
     deny_body policy_id reason @ [CHR 0x0A, CHR 0x0A]"

lemma trace_stream_deny_surface [simp]:
  "forwarded (write_stream_deny_surface nv pid r) = []"
  "sent_bytes (write_stream_deny_surface nv pid r) = stream_denial pid r"
  "sent_status (write_stream_deny_surface nv pid r) = []"
  "recorded (write_stream_deny_surface nv pid r) = []"
  by (simp_all add: write_stream_deny_surface_def stream_denial_def)

section \<open>Identities\<close>

definition event_id_at :: "proxy_env \<Rightarrow> string \<Rightarrow> 64 word \<Rightarrow> string" where
  "event_id_at nv host k = intercept_event_id nv (nv_now nv (k - 1)) host k"

definition advance :: "nat \<Rightarrow> intercept_proxy \<Rightarrow> intercept_proxy" where
  "advance n p = p\<lparr>ip_sequence := ip_sequence p + of_nat n\<rparr>"

lemma advance_simps [simp]:
  "ip_evaluator (advance n p) = ip_evaluator p" "ip_recorder (advance n p) = ip_recorder p"
  "ip_max_normalize (advance n p) = ip_max_normalize p" "ip_registry (advance n p) = ip_registry p"
  "ip_sequence (advance n p) = ip_sequence p + of_nat n"
  "ip_allow_hosts (advance n p) = ip_allow_hosts p" "ip_enabled (advance n p) = ip_enabled p"
  "ip_on_error (advance n p) = ip_on_error p"
  "advance m (advance n p) = advance (n + m) p" "advance 0 p = p"
  by (simp_all add: advance_def add.assoc)

definition identity_at :: "proxy_env \<Rightarrow> intercept_proxy \<Rightarrow> string \<Rightarrow> string \<Rightarrow> event_identity" where
  "identity_at nv p session host = fst (identity nv p session host (clock nv p))"

lemma identity_clock: "identity nv p session host (clock nv p) = (identity_at nv p session host, advance 1 p)"
  by (simp add: identity_at_def identity_def advance_def Let_def)

lemma identity_at_id [simp]:
  "id_id (identity_at nv p session host) = event_id_at nv host (ip_sequence p + 1)"
  by (simp add: identity_at_def identity_def Let_def event_id_at_def clock_def)

lemma identity_at_session [simp]: "id_session (identity_at nv p session host) = session"
  by (simp add: identity_at_def identity_def Let_def)

lemma record_failure_eq:
  "record_failure c nv p host session =
     (advance 1 p, record_event (advance 1 p) (intercept_event (identity_at nv p session host) ''route_error''
        [''intercepted'' \<mapsto> ''true'', ''host'' \<mapsto> host, ''error'' \<mapsto> c, ''payload_body_retained'' \<mapsto> ''false'']))"
  by (simp add: record_failure_def identity_clock)

lemma event_ids [simp]:
  "ev_id (intercept_event idn a m) = id_id idn" "ev_id (large_outbound_event idn i) = id_id idn"
  "ev_id (minimal_outbound_event idn i b) = id_id idn" "ev_id (set_metadata e k v) = ev_id e"
  "ev_id (OutboundEvent idn rn) = id_id idn" "ev_id (InboundEvent idn sn) = id_id idn"
  "ev_id (deny_outbound_event d) = id_id (do_identity d)"
  "ev_id (deny_inbound_event e') = id_id (di_identity e')"
  by (simp_all add: intercept_event_def large_outbound_event_def minimal_outbound_event_def
      set_metadata_def OutboundEvent_def InboundEvent_def deny_outbound_event_def
      deny_inbound_event_def Let_def)

text \<open>What recording an outbound event does, whichever event it is.\<close>

lemma record_outbound_trace:
  "\<exists>e. record_outbound nv p i = (advance 1 p, record_event (advance 1 p) e) \<and>
     ev_id e = event_id_at nv (oi_host i) (ip_sequence p + 1)"
  by (auto simp: record_outbound_def identity_clock Let_def split: option.split)

text \<open>The normalization each path hands to the inbound evaluation, and the paths after it.\<close>

definition buffered_norm ::
  "proxy_env \<Rightarrow> intercept_proxy \<Rightarrow> upstream_response \<Rightarrow> branch_input \<Rightarrow> response_normalization" where
  "buffered_norm nv p r i =
     (case read_bounded (Some (ur_body r)) (ip_max_normalize p) of
        (b, rest, t) \<Rightarrow> normalize_response nv (ip_max_normalize p) (bi_adapter i) b
          (header_get (ur_headers r) ''Content-Encoding'') (response_context_of r) t)"

definition streamed_norm ::
  "proxy_env \<Rightarrow> intercept_proxy \<Rightarrow> upstream_response \<Rightarrow> branch_input \<Rightarrow> response_normalization" where
  "streamed_norm nv p r i =
     (case read_bounded_with_error (Some (ur_body r)) (ip_max_normalize p) of
        (b, rest, t, f) \<Rightarrow> normalize_streamed_response nv (ip_max_normalize p) (bi_adapter i) b
          (header_get (ur_headers r) ''Content-Encoding'') (response_context_of r) t f)"

definition is_event_stream :: "upstream_response \<Rightarrow> bool" where
  "is_event_stream r \<longleftrightarrow> str_contains (header_get (ur_headers r) ''Content-Type'') ''text/event-stream''"

definition inbound_norm ::
  "proxy_env \<Rightarrow> intercept_proxy \<Rightarrow> upstream_response \<Rightarrow> branch_input \<Rightarrow> response_normalization" where
  "inbound_norm nv p r i = (if is_event_stream r then streamed_norm nv p r i else buffered_norm nv p r i)"

definition inbound_verdict ::
  "proxy_env \<Rightarrow> intercept_proxy \<Rightarrow> upstream_response \<Rightarrow> branch_input \<Rightarrow>
   proxy_decision \<times> bool \<times> response_normalization" where
  "inbound_verdict nv p r i =
     evaluate_inbound nv (advance 1 p) (identity_at nv p (bi_session i) (bi_host i)) (inbound_norm nv p r i)"

definition replayed_bytes :: "intercept_proxy \<Rightarrow> upstream_response \<Rightarrow> string" where
  "replayed_bytes p r =
     (case read_bounded_with_error (Some (ur_body r)) (ip_max_normalize p) of
        (b, rest, t, f) \<Rightarrow> if t \<or> is_event_stream r \<and> f then fst rest else b)"

definition response_headers :: "upstream_response \<Rightarrow> headers" where
  "response_headers r =
     (if is_event_stream r then header_del ''Content-Length'' (copy_headers [] (ur_headers r))
      else copy_headers [] (ur_headers r))"

definition inbound_denial ::
  "proxy_env \<Rightarrow> intercept_proxy \<Rightarrow> upstream_response \<Rightarrow> branch_input \<Rightarrow> deny_inbound_input" where
  "inbound_denial nv p r i =
     (case inbound_verdict nv p r i of
        (d, _, norm) \<Rightarrow>
          \<lparr>di_identity = identity_at nv p (bi_session i) (bi_host i), di_norm = norm, di_decision = d,
           di_host = bi_host i, di_policy_id = pd_policy_id d, di_reason = pd_reason d,
           di_streamed = is_event_stream r\<rparr>)"

lemma stream_sse_verdict:
  assumes "is_event_stream r" and "inbound_verdict nv p r i = (d, a, norm)"
  shows "stream_sse nv p r i =
    (advance 1 p,
     if a then [SendHeader (ur_status r) (response_headers r), SendBytes (replayed_bytes p r)] @
       flush_client nv @
       record_event (advance 1 p) (InboundEvent (identity_at nv p (bi_session i) (bi_host i)) norm)
     else [SendHeader (ur_status r) (header_del ''Content-Encoding'' (response_headers r))] @
       surface_streamed_inbound_denial nv (advance 1 p) (inbound_denial nv p r i))"
proof -
  obtain b rest t f where rb: "read_bounded_with_error (Some (ur_body r)) (ip_max_normalize p) = (b, rest, t, f)"
    by (cases "read_bounded_with_error (Some (ur_body r)) (ip_max_normalize p)") auto
  have "evaluate_inbound nv (advance 1 p) (identity_at nv p (bi_session i) (bi_host i))
      (normalize_streamed_response nv (ip_max_normalize p) (bi_adapter i) b
        (header_get (ur_headers r) ''Content-Encoding'') (response_context_of r) t f) = (d, a, norm)"
    using assms rb by (simp add: inbound_verdict_def inbound_norm_def streamed_norm_def)
  then show ?thesis
    unfolding stream_sse_def rb identity_clock prod.case Let_def
    by (simp add: response_headers_def replayed_bytes_def rb assms inbound_denial_def)
qed

lemma buffer_and_forward_verdict:
  assumes "\<not> is_event_stream r" and "inbound_verdict nv p r i = (d, a, norm)"
  shows "buffer_and_forward nv p r i =
    (advance 1 p,
     if a then [SendHeader (ur_status r) (response_headers r), SendBytes (replayed_bytes p r)] @
       record_event (advance 1 p) (InboundEvent (identity_at nv p (bi_session i) (bi_host i)) norm)
     else deny_buffered_inbound (advance 1 p) (inbound_denial nv p r i))"
proof -
  obtain b rest t f where rb: "read_bounded_with_error (Some (ur_body r)) (ip_max_normalize p) = (b, rest, t, f)"
    by (cases "read_bounded_with_error (Some (ur_body r)) (ip_max_normalize p)") auto
  have rb': "read_bounded (Some (ur_body r)) (ip_max_normalize p) = (b, rest, t)"
    by (simp add: read_bounded_def rb)
  have "evaluate_inbound nv (advance 1 p) (identity_at nv p (bi_session i) (bi_host i))
      (normalize_response nv (ip_max_normalize p) (bi_adapter i) b
        (header_get (ur_headers r) ''Content-Encoding'') (response_context_of r) t) = (d, a, norm)"
    using assms rb' by (simp add: inbound_verdict_def inbound_norm_def buffered_norm_def)
  then show ?thesis
    unfolding buffer_and_forward_def rb' identity_clock prod.case Let_def
    by (simp add: response_headers_def replayed_bytes_def rb assms inbound_denial_def)
qed

lemma branch_response_allowed:
  assumes "inbound_verdict nv p r i = (d, True, norm)"
  shows "branch_response nv p r i =
    (advance 1 p,
     [SendHeader (ur_status r) (response_headers r), SendBytes (replayed_bytes p r)] @
     (if is_event_stream r then flush_client nv else []) @
     record_event (advance 1 p) (InboundEvent (identity_at nv p (bi_session i) (bi_host i)) norm))"
  using stream_sse_verdict [OF _ assms] buffer_and_forward_verdict [OF _ assms]
  by (simp add: branch_response_def is_event_stream_def [symmetric])

lemma branch_response_denied:
  assumes "inbound_verdict nv p r i = (d, False, norm)"
  shows "branch_response nv p r i =
    (advance 1 p,
     if is_event_stream r
     then [SendHeader (ur_status r) (header_del ''Content-Encoding'' (response_headers r))] @
          surface_streamed_inbound_denial nv (advance 1 p) (inbound_denial nv p r i)
     else deny_buffered_inbound (advance 1 p) (inbound_denial nv p r i))"
  using stream_sse_verdict [OF _ assms] buffer_and_forward_verdict [OF _ assms]
  by (simp add: branch_response_def is_event_stream_def [symmetric])

lemma inbound_denial_identity [simp]:
  "di_identity (inbound_denial nv p r i) = identity_at nv p (bi_session i) (bi_host i)"
  by (simp add: inbound_denial_def split: prod.split)

lemma branch_response_trace:
  "\<exists>e. fst (branch_response nv p r i) = advance 1 p \<and>
     recorded (snd (branch_response nv p r i)) = (if ip_recorder p then [e] else []) \<and>
     ev_id e = event_id_at nv (bi_host i) (ip_sequence p + 1) \<and>
     forwarded (snd (branch_response nv p r i)) = []"
proof -
  obtain d a norm where v: "inbound_verdict nv p r i = (d, a, norm)"
    by (cases "inbound_verdict nv p r i") auto
  show ?thesis
  proof (cases a)
    case True
    then show ?thesis using branch_response_allowed [of nv p r i d norm] v
      by (intro exI [of _ "InboundEvent (identity_at nv p (bi_session i) (bi_host i)) norm"]) simp
  next
    case False
    then show ?thesis using branch_response_denied [of nv p r i d norm] v
      by (intro exI [of _ "deny_inbound_event (inbound_denial nv p r i)"])
        (simp add: surface_streamed_inbound_denial_def deny_buffered_inbound_def)
  qed
qed

section \<open>What is forwarded\<close>

text \<open>The input the outbound policies see of a request.\<close>

definition request_decision_input ::
  "proxy_env \<Rightarrow> intercept_proxy \<Rightarrow> http_request \<Rightarrow> string \<Rightarrow> proxy_decision_input" where
  "request_decision_input nv p request host =
     (let i = outbound_of nv p request host
      in outbound_decision_input nv (identity_at nv p (oi_session i) (oi_host i)) i []
           (ScanRequest (oi_decoded i) []))"

definition outbound_verdict ::
  "proxy_env \<Rightarrow> intercept_proxy \<Rightarrow> http_request \<Rightarrow> string \<Rightarrow> bool" where
  "outbound_verdict nv p request host =
     (case ip_evaluator p of
        None \<Rightarrow> True
      | Some evaluator \<Rightarrow>
          (case ppe_outbound evaluator (request_decision_input nv p request host) of
             None \<Rightarrow> False
           | Some d \<Rightarrow> pd_allowed d))"

definition outbound_denial ::
  "proxy_env \<Rightarrow> intercept_proxy \<Rightarrow> http_request \<Rightarrow> string \<Rightarrow> deny_outbound_input" where
  "outbound_denial nv p request host =
     (let i = outbound_of nv p request host;
          d = (case ip_evaluator p of
                 None \<Rightarrow> None
               | Some evaluator \<Rightarrow> ppe_outbound evaluator (request_decision_input nv p request host))
      in \<lparr>do_identity = identity_at nv p (oi_session i) (oi_host i), do_host = oi_host i,
          do_policy_id = (case d of None \<Rightarrow> ''proxy.intercept'' | Some v \<Rightarrow> pd_policy_id v),
          do_reason = (case d of None \<Rightarrow> ''proxy_eval_error'' | Some v \<Rightarrow> pd_reason v),
          do_dlp_facts = ScanRequest (oi_decoded i) [],
          do_decision = (case d of None \<Rightarrow> zero_decision | Some v \<Rightarrow> v)\<rparr>)"

definition evaluations :: "intercept_proxy \<Rightarrow> nat" where
  "evaluations p = (case ip_evaluator p of None \<Rightarrow> 0 | Some _ \<Rightarrow> 1)"

lemma enforce_outbound_eq:
  "enforce_outbound nv p (outbound_of nv p request host) =
     (if outbound_verdict nv p request host then (True, advance (evaluations p) p, [])
      else (False, advance 1 p, deny_outbound (advance 1 p) (outbound_denial nv p request host)))"
  by (auto simp: enforce_outbound_def outbound_verdict_def outbound_denial_def identity_clock Let_def
      request_decision_input_def outbound_target_path_def evaluations_def split: option.split)

definition verbatim_request ::
  "intercept_proxy \<Rightarrow> http_request \<Rightarrow> string \<Rightarrow> upstream_request" where
  "verbatim_request p request authority =
     \<lparr>up_method = rq_method request, up_url = ''https://'' @ authority @ rq_request_uri request,
      up_host = authority, up_headers = copy_headers [] (rq_headers request),
      up_content_length = rq_content_length request,
      up_body = fst (snd (read_bounded (rq_body request) (ip_max_normalize p)))\<rparr>"

definition admissible :: "proxy_env \<Rightarrow> http_request \<Rightarrow> string \<Rightarrow> bool" where
  "admissible nv request authority \<longleftrightarrow>
     authority_matches (rq_host request) authority \<and>
     nv_new_request nv (rq_method request) (''https://'' @ authority @ rq_request_uri request)"

lemma outbound_of_fields [simp]:
  "oi_host (outbound_of nv p request host) = host"
  "oi_session (outbound_of nv p request host) = session_id (rq_headers request)"
  by (simp_all add: outbound_of_def Let_def split: prod.split)

lemma build_upstream_request_eq:
  "build_upstream_request nv request (fst (snd (read_bounded (rq_body request) (ip_max_normalize p)))) authority =
     (if nv_new_request nv (rq_method request) (''https://'' @ authority @ rq_request_uri request)
      then Some (verbatim_request p request authority) else None)"
  by (simp add: build_upstream_request_def verbatim_request_def Let_def)

lemma serve_request_rejected:
  assumes "\<not> admissible nv request authority"
  shows "\<exists>n e. serve_request nv p request host authority =
      (advance 1 p, HttpError n # record_event (advance 1 p) e) \<and>
    n = (if authority_matches (rq_host request) authority then 502 else 421) \<and>
    ev_id e = event_id_at nv host (ip_sequence p + 1) \<and> ev_decision e = ''route_error''"
  using assms
  by (auto simp: serve_request_def admissible_def build_upstream_request_eq record_authority_mismatch_def
      record_route_error_def record_failure_eq Let_def intercept_event_def)

lemma serve_request_denied:
  assumes "admissible nv request authority" and "\<not> outbound_verdict nv p request host"
  shows "serve_request nv p request host authority =
    (advance 1 p, deny_outbound (advance 1 p) (outbound_denial nv p request host))"
  using assms
  by (simp add: serve_request_def admissible_def build_upstream_request_eq enforce_outbound_eq Let_def)

lemma serve_request_allowed:
  assumes "admissible nv request authority" and "outbound_verdict nv p request host"
  shows "serve_request nv p request host authority =
    (case record_outbound nv (advance (evaluations p) p) (outbound_of nv p request host) of
       (p2, logged) \<Rightarrow>
         (case nv_upstream nv (verbatim_request p request authority) of
            None \<Rightarrow>
              (case record_route_error nv p2 host (session_id (rq_headers request)) of
                 (p3, failure) \<Rightarrow>
                   (p3, logged @ [ForwardUpstream (verbatim_request p request authority), HttpError 502] @ failure))
          | Some response \<Rightarrow>
              (case branch_response nv p2 response
                      \<lparr>bi_host = host, bi_session = session_id (rq_headers request),
                       bi_adapter = oi_adapter (outbound_of nv p request host)\<rparr> of
                 (p3, answered) \<Rightarrow>
                   (p3, logged @ [ForwardUpstream (verbatim_request p request authority)] @ answered))))"
  using assms
  by (simp add: serve_request_def admissible_def build_upstream_request_eq enforce_outbound_eq Let_def)

text \<open>
  Property C10. What leaves the proxy, exactly: nothing, unless the request names the pinned
  authority, an HTTP request can be built, and the evaluator, when there is one, answered without
  an error that it is allowed; then one request, to the pinned authority, with the client's method,
  path, end-to-end headers and body. An evaluator that fails stops the request.
\<close>

theorem forwarded_exactly:
  "forwarded (snd (serve_request nv p request host authority)) =
     (if admissible nv request authority \<and> outbound_verdict nv p request host
      then [verbatim_request p request authority] else [])"
proof -
  consider (rejected) "\<not> admissible nv request authority"
    | (denied) "admissible nv request authority" "\<not> outbound_verdict nv p request host"
    | (allowed) "admissible nv request authority" "outbound_verdict nv p request host" by blast
  then show ?thesis
  proof cases
    case rejected
    then show ?thesis using serve_request_rejected [of nv request authority p host] by auto
  next
    case denied
    then show ?thesis by (simp add: serve_request_denied deny_outbound_def)
  next
    case allowed
    obtain e where e: "record_outbound nv (advance (evaluations p) p) (outbound_of nv p request host) =
        (advance 1 (advance (evaluations p) p), record_event (advance 1 (advance (evaluations p) p)) e)"
      using record_outbound_trace by blast
    show ?thesis
      using branch_response_trace [of nv "advance 1 (advance (evaluations p) p)"]
      by (simp add: serve_request_allowed [OF allowed] e allowed record_route_error_def record_failure_eq
          split: option.split prod.split) (metis snd_conv)
  qed
qed

lemma not_forwarded:
  assumes "\<not> outbound_verdict nv p request host"
  shows "forwarded (snd (serve_request nv p request host authority)) = []"
proof (cases "admissible nv request authority")
  case True
  with assms show ?thesis by (simp add: serve_request_denied deny_outbound_def)
next
  case False
  then show ?thesis using serve_request_rejected [of nv request authority p host] by auto
qed

section \<open>The body\<close>

lemma read_bounded_with_error_eq:
  assumes "0 \<le> limit" and "limit < 2 ^ 63 - 1"
  shows "read_bounded_with_error (Some (content, failed)) limit =
    (take (nat limit + 1) content, (content, failed), nat limit < length content,
     failed \<and> length content \<le> nat limit)"
proof -
  have "nat (int64_succ limit) = nat limit + 1" using assms by (simp add: int64_succ_def nat_add_distrib)
  moreover have "(limit < int (length (take (nat limit + 1) content))) = (nat limit < length content)"
    using assms by (auto simp: min_def)
  ultimately show ?thesis
    using assms by (cases failed) (auto simp: read_bounded_with_error_def Let_def)
qed

text \<open>
  Fact. Buffering drops no byte: with a limit below the largest 64-bit integer the reader
  that replays a body yields all of it and fails as it did, what is inspected is the body's first
  \<open>limit + 1\<close> bytes, and the body counts as truncated exactly when it is longer than the limit.
\<close>

theorem read_bounded_replays_all:
  assumes "0 \<le> limit" and "limit < 2 ^ 63 - 1"
  shows "read_bounded (Some (content, failed)) limit =
    (take (nat limit + 1) content, (content, failed), nat limit < length content)"
  by (simp add: read_bounded_def read_bounded_with_error_eq [OF assms])

theorem read_bounded_replays_all_witness:
  "read_bounded (Some (''abcdef'', True)) 3 = (''abcd'', (''abcdef'', True), True)"
  by (subst read_bounded_replays_all) (simp_all add: eval_nat_numeral)

text \<open>
  Fact. With the largest integer as the limit \<open>limit + 1\<close> wraps, and the body that is inspected and
  forwarded is empty.
\<close>

theorem read_bounded_at_the_largest_limit:
  "read_bounded (Some (content, failed)) (2 ^ 63 - 1) = ([], ([], False), False)"
  by (simp add: read_bounded_def read_bounded_with_error_def int64_succ_def)

section \<open>Denied requests\<close>

lemma deny_outbound_event_facts:
  "ev_decision (deny_outbound_event d) = ''deny''"
  "ev_metadata (deny_outbound_event d) ''proxy_event_id'' = Some (id_id (do_identity d))"
  "ev_metadata (deny_outbound_event d) ''decision'' = Some ''deny''"
  "ev_metadata (deny_outbound_event d) ''payload_body_retained'' = Some ''false''"
  "ev_policy_id (deny_outbound_event d) = do_policy_id d"
  "ev_dlp_facts (deny_outbound_event d) = do_dlp_facts d"
  by (simp_all add: deny_outbound_event_def deny_event_metadata_def proxy_correlation_metadata_def Let_def)

text \<open>
  Fact. A request that is stopped answers 403 with the policy and its reason, nothing else,
  and leaves one event: a denial that names the policy, carries the facts of the scan and its own id
  as the join key, and says that no body was kept. The failure of an evaluator leaves the same
  evidence as a denial.
\<close>

theorem denied_request_evidence:
  assumes "admissible nv request authority" and "\<not> outbound_verdict nv p request host"
    and "ip_recorder p"
  shows "\<exists>e pid reason. let effects = snd (serve_request nv p request host authority) in
     sent_status effects = [403] \<and> sent_bytes effects = deny_body pid reason \<and>
     recorded effects = [e] \<and> ev_decision e = ''deny'' \<and> ev_policy_id e = pid \<and>
     ev_metadata e ''proxy_event_id'' = Some (ev_id e) \<and>
     ev_metadata e ''payload_body_retained'' = Some ''false'' \<and>
     ev_dlp_facts e = ScanRequest (oi_decoded (outbound_of nv p request host)) []"
proof -
  let ?d = "outbound_denial nv p request host"
  have "do_dlp_facts ?d = ScanRequest (oi_decoded (outbound_of nv p request host)) []"
    by (simp add: outbound_denial_def Let_def)
  then show ?thesis
    by (intro exI [of _ "deny_outbound_event ?d"] exI [of _ "do_policy_id ?d"] exI [of _ "do_reason ?d"])
      (simp add: serve_request_denied [OF assms(1,2)] deny_outbound_def deny_outbound_event_facts assms(3))
qed

definition sample_proxy_env :: "upstream_response option \<Rightarrow> proxy_env" where
  "sample_proxy_env answer =
     \<lparr>nv_now = (\<lambda>_. ''t''), nv_sha256_hex = (\<lambda>_. ''0123''),
      nv_decompress = \<lparr>dc_gzip = (\<lambda>_. None), dc_zlib = (\<lambda>_. None), dc_flate = (\<lambda>s. (s, True))\<rparr>,
      nv_new_request = (\<lambda>_ _. True), nv_upstream = (\<lambda>_. answer), nv_flusher = True,
      nv_cancelled = False\<rparr>"

definition sample_intercept_proxy :: "proxy_policy_evaluator option \<Rightarrow> intercept_proxy" where
  "sample_intercept_proxy evaluator =
     \<lparr>ip_recorder = True, ip_registry = [], ip_evaluator = evaluator, ip_allow_hosts = [''h''],
      ip_provider = [], ip_repo_root = [], ip_on_error = ''fail_closed'', ip_max_normalize = 100,
      ip_sequence = 0, ip_enabled = True\<rparr>"

definition sample_request :: "string \<Rightarrow> http_request" where
  "sample_request content =
     \<lparr>rq_method = ''POST'', rq_host = ''h:443'', rq_path = ''/v1'', rq_request_uri = ''/v1'',
      rq_headers = [(''Accept'', [''*''])], rq_content_length = int (length content),
      rq_body = Some (content, False)\<rparr>"

lemma sample_admissible: "admissible (sample_proxy_env answer) (sample_request content) ''h:443''"
proof -
  have "authority_matches ''h:443'' ''h:443''" by code_simp
  then show ?thesis by (simp add: admissible_def sample_request_def sample_proxy_env_def)
qed

theorem denied_request_evidence_witness:
  "let p = sample_intercept_proxy (Some \<lparr>ppe_outbound = (\<lambda>_. None), ppe_inbound = (\<lambda>_. None)\<rparr>)
   in \<exists>e. recorded (snd (serve_request (sample_proxy_env None) p (sample_request ''x'') ''h'' ''h:443'')) = [e] \<and>
        ev_decision e = ''deny''"
proof -
  let ?p = "sample_intercept_proxy (Some \<lparr>ppe_outbound = (\<lambda>_. None), ppe_inbound = (\<lambda>_. None)\<rparr>)"
  have "\<not> outbound_verdict (sample_proxy_env None) ?p (sample_request ''x'') ''h''"
    by (simp add: outbound_verdict_def sample_intercept_proxy_def)
  from denied_request_evidence [OF sample_admissible this]
  show ?thesis unfolding Let_def by (simp add: sample_intercept_proxy_def) blast
qed

section \<open>Responses\<close>

text \<open>
  Fact. A response the inbound evaluation lets pass reaches the client as the upstream gave
  it: its status, and every byte of its body, also when the body is longer than what is inspected or
  reading it failed; the headers lose the hop-by-hop ones, and a stream its declared length.
\<close>

theorem allowed_response_verbatim:
  assumes "inbound_verdict nv p r i = (d, True, norm)"
    and "0 \<le> ip_max_normalize p" and "ip_max_normalize p < 2 ^ 63 - 1"
  shows "let effects = snd (branch_response nv p r i) in
     sent_status effects = [ur_status r] \<and> sent_bytes effects = fst (ur_body r)"
proof -
  obtain content failed where body: "ur_body r = (content, failed)" by (cases "ur_body r")
  have "replayed_bytes p r = content"
    by (simp add: replayed_bytes_def body read_bounded_with_error_eq [OF assms(2,3)])
  then show ?thesis by (simp add: branch_response_allowed [OF assms(1)] body)
qed

definition sample_response :: "string \<Rightarrow> upstream_response" where
  "sample_response content =
     \<lparr>ur_status = 200, ur_headers = [(''Content-Type'', [''text/plain''])], ur_body = (content, False)\<rparr>"

theorem allowed_response_verbatim_witness:
  "let p = (sample_intercept_proxy None)\<lparr>ip_max_normalize := 2\<rparr>;
       i = \<lparr>bi_host = ''h'', bi_session = ''s'', bi_adapter = None\<rparr>
   in sent_bytes (snd (branch_response (sample_proxy_env None) p (sample_response ''hello'') i)) = ''hello''"
proof -
  let ?p = "(sample_intercept_proxy None)\<lparr>ip_max_normalize := 2\<rparr>"
  let ?i = "\<lparr>bi_host = ''h'', bi_session = ''s'', bi_adapter = None\<rparr>"
  obtain norm where "inbound_verdict (sample_proxy_env None) ?p (sample_response ''hello'') ?i =
      (allow_decision, True, norm)"
    by (simp add: inbound_verdict_def evaluate_inbound_def sample_intercept_proxy_def)
  from allowed_response_verbatim [OF this]
  show ?thesis by (simp add: sample_response_def Let_def)
qed

text \<open>What the client is sent, headers and errors included.\<close>

definition client_effects :: "proxy_effect list \<Rightarrow> proxy_effect list" where
  "client_effects effects =
     filter (\<lambda>e. case e of SendHeader _ _ \<Rightarrow> True | SendBytes _ \<Rightarrow> True | HttpError _ \<Rightarrow> True | _ \<Rightarrow> False) effects"

lemma client_effects_simps [simp]:
  "client_effects (xs @ ys) = client_effects xs @ client_effects ys"
  "client_effects [] = []"
  "client_effects (e # es) =
     (case e of SendHeader _ _ \<Rightarrow> [e] | SendBytes _ \<Rightarrow> [e] | HttpError _ \<Rightarrow> [e] | _ \<Rightarrow> []) @ client_effects es"
  "client_effects (record_event p v) = []"
  "client_effects (flush_client nv) = []"
  by (auto simp: client_effects_def record_event_def flush_client_def split: proxy_effect.split)

text \<open>
  Property C22. Everything the client is sent for a response that the inbound policies deny. If the
  response is not an event stream: the status 403, one header, and a body made of the policy and its
  reason, so nothing of the upstream's status, headers and body. If it is an event stream: the
  upstream's status and headers, which are sent before the verdict, and then one denial event made
  of the policy and its reason, so nothing of the upstream's body. In both cases a proxy with a
  recorder records one event, which says that the policy denied.
\<close>

theorem denied_response_hidden:
  assumes "inbound_verdict nv p r i = (d, False, norm)" and "ip_recorder p"
  shows "let effects = snd (branch_response nv p r i) in
     client_effects effects =
       (if is_event_stream r
        then [SendHeader (ur_status r) (header_del ''Content-Encoding'' (response_headers r)),
              SendBytes (stream_denial (pd_policy_id d) (pd_reason d))]
        else [SendHeader 403 [(''Content-Type'', [''application/json''])],
              SendBytes (deny_body (pd_policy_id d) (pd_reason d))]) \<and>
     (\<exists>e. recorded effects = [e] \<and> ev_decision e = ''deny'' \<and> ev_policy_id e = pd_policy_id d)"
  by (auto simp: branch_response_denied [OF assms(1)] surface_streamed_inbound_denial_def assms(2)
      deny_buffered_inbound_def inbound_denial_def assms(1) deny_inbound_event_def Let_def
      write_deny_response_def write_stream_deny_surface_def stream_denial_def)

theorem denied_response_hidden_witness:
  "let p = sample_intercept_proxy (Some \<lparr>ppe_outbound = (\<lambda>_. Some allow_decision), ppe_inbound = (\<lambda>_. Some zero_decision)\<rparr>);
       i = \<lparr>bi_host = ''h'', bi_session = ''s'', bi_adapter = None\<rparr>
   in client_effects (snd (branch_response (sample_proxy_env None) p (sample_response ''hello'') i)) =
     [SendHeader 403 [(''Content-Type'', [''application/json''])], SendBytes (deny_body [] [])]"
proof -
  let ?p = "sample_intercept_proxy (Some \<lparr>ppe_outbound = (\<lambda>_. Some allow_decision), ppe_inbound = (\<lambda>_. Some zero_decision)\<rparr>)"
  let ?i = "\<lparr>bi_host = ''h'', bi_session = ''s'', bi_adapter = None\<rparr>"
  obtain norm where "inbound_verdict (sample_proxy_env None) ?p (sample_response ''hello'') ?i =
      (zero_decision, False, norm)"
    by (simp add: inbound_verdict_def evaluate_inbound_def sample_intercept_proxy_def zero_decision_def)
  moreover have "\<not> is_event_stream (sample_response ''hello'')" by code_simp
  ultimately show ?thesis
    using denied_response_hidden [of _ ?p "sample_response ''hello''" ?i zero_decision norm]
    by (simp add: Let_def sample_intercept_proxy_def zero_decision_def allow_decision_def)
qed

text \<open>
  Fact. The response path fails open, and says so: when the inbound evaluator fails, the
  response reaches the client unchanged, and unless the context was cancelled its event says that
  the evaluation failed and that the response was allowed.
\<close>

theorem inbound_error_fails_open:
  assumes "ip_evaluator p = Some evaluator" and "ppe_inbound evaluator = (\<lambda>_. None)"
    and "\<not> nv_cancelled nv" and "ip_recorder p"
    and "0 \<le> ip_max_normalize p" and "ip_max_normalize p < 2 ^ 63 - 1"
  shows "let effects = snd (branch_response nv p r i) in
     sent_bytes effects = fst (ur_body r) \<and>
     (\<exists>e. recorded effects = [e] \<and> ev_metadata e ''error'' = Some ''proxy_eval_error'' \<and>
        ev_metadata e ''decision'' = Some ''allow'')"
proof -
  obtain content failed where body: "ur_body r = (content, failed)" by (cases "ur_body r")
  have "inbound_verdict nv p r i =
      (allow_decision, True, record_inbound_eval_error (inbound_norm nv p r i))"
    by (simp add: inbound_verdict_def evaluate_inbound_def assms)
  from branch_response_allowed [OF this] show ?thesis
    by (auto simp: replayed_bytes_def body read_bounded_with_error_eq [OF assms(5,6)] assms(4)
        InboundEvent_def record_inbound_eval_error_def Let_def)
qed

theorem inbound_error_fails_open_witness:
  "let p = sample_intercept_proxy (Some \<lparr>ppe_outbound = (\<lambda>_. Some allow_decision), ppe_inbound = (\<lambda>_. None)\<rparr>);
       i = \<lparr>bi_host = ''h'', bi_session = ''s'', bi_adapter = None\<rparr>
   in sent_bytes (snd (branch_response (sample_proxy_env None) p (sample_response ''hello'') i)) = ''hello''"
proof -
  let ?e = "\<lparr>ppe_outbound = (\<lambda>_. Some allow_decision), ppe_inbound = (\<lambda>_. None)\<rparr>"
  show ?thesis
    using inbound_error_fails_open [of "sample_intercept_proxy (Some ?e)" ?e "sample_proxy_env None"
        "sample_response ''hello''" "\<lparr>bi_host = ''h'', bi_session = ''s'', bi_adapter = None\<rparr>"]
    by (simp add: sample_intercept_proxy_def sample_proxy_env_def sample_response_def Let_def)
qed

end
