(* ===== verification/LeafCache.thy ===== *)
theory LeafCache
  imports Paths
begin

text \<open>
  \<open>go/internal/agentproxy/ca/leaf.go\<close>: the cache of leaf certificates with its least-recently-used
  order, and minting, whose look-up, signing and commit are separate steps that several goroutines
  interleave. Times are integers (nanoseconds); signing a certificate is a parameter that may fail.
\<close>

section \<open>Hosts\<close>

definition last_index :: "char \<Rightarrow> string \<Rightarrow> nat option" where
  "last_index c s =
     (if c \<in> set s then Some (length s - Suc (length (takeWhile (\<lambda>d. d \<noteq> c) (rev s)))) else None)"

definition first_index :: "char \<Rightarrow> string \<Rightarrow> nat option" where
  "first_index c s = (if c \<in> set s then Some (length (takeWhile (\<lambda>d. d \<noteq> c) s)) else None)"

text \<open>\<open>net.SplitHostPort\<close>.\<close>

definition split_host_port :: "string \<Rightarrow> (string \<times> string) option" where
  "split_host_port s =
     (case last_index (CHR '':'') s of
        None \<Rightarrow> None
      | Some i \<Rightarrow>
          let answer = (\<lambda>host j k.
                if CHR ''['' \<in> set (drop j s) \<or> CHR '']'' \<in> set (drop k s) then None
                else Some (host, drop (Suc i) s))
          in if hd s = CHR ''['' then
               (case first_index (CHR '']'') s of
                  None \<Rightarrow> None
                | Some stop \<Rightarrow>
                    if Suc stop \<noteq> i then None
                    else answer (drop 1 (take stop s)) 1 (Suc stop))
             else if CHR '':'' \<in> set (take i s) then None
             else answer (take i s) 0 0)"

text \<open>\<open>None\<close> is \<open>ErrEmptyServerName\<close>.\<close>

definition normalize_host :: "string \<Rightarrow> string option" where
  "normalize_host host =
     (let h = to_lower (trim_space host)
      in if h = [] then None
         else case split_host_port h of
                Some (stripped, _) \<Rightarrow> Some stripped
              | None \<Rightarrow> Some h)"

section \<open>The cache\<close>

record cached_leaf =
  cl_not_after :: int
  cl_cert :: string

record leaf_issuer =
  li_cache :: "string \<rightharpoonup> cached_leaf"
  li_lru :: "string list"
  li_max_leaves :: nat
  li_ttl :: int

definition leaf_renewal_skew :: int where
  "leaf_renewal_skew = 60 * 10 ^ 9"

text \<open>\<open>withDefaults\<close> and the empty cache of \<open>NewLeafIssuer\<close>.\<close>

definition new_leaf_issuer :: "int \<Rightarrow> int \<Rightarrow> leaf_issuer" where
  "new_leaf_issuer max_leaves ttl =
     \<lparr>li_cache = Map.empty, li_lru = [],
      li_max_leaves = (if max_leaves \<le> 0 then 256 else nat max_leaves),
      li_ttl = (if ttl \<le> 0 then 24 * 3600 * 10 ^ 9 else ttl)\<rparr>"

definition touch_lru :: "string \<Rightarrow> string list \<Rightarrow> string list" where
  "touch_lru key lru = remove1 key lru @ [key]"

definition cache_get :: "leaf_issuer \<Rightarrow> string \<Rightarrow> int \<Rightarrow> (string \<times> leaf_issuer) option" where
  "cache_get issuer key now =
     (case li_cache issuer key of
        None \<Rightarrow> None
      | Some entry \<Rightarrow>
          if \<not> now < cl_not_after entry - leaf_renewal_skew then None
          else Some (cl_cert entry, issuer\<lparr>li_lru := touch_lru key (li_lru issuer)\<rparr>))"

definition cache_put :: "leaf_issuer \<Rightarrow> string \<Rightarrow> cached_leaf \<Rightarrow> leaf_issuer" where
  "cache_put issuer key entry =
     (let lru = (case li_cache issuer key of
                   None \<Rightarrow> li_lru issuer @ [key]
                 | Some _ \<Rightarrow> touch_lru key (li_lru issuer));
          cache = (li_cache issuer)(key \<mapsto> entry)
      in if li_max_leaves issuer < card (dom cache)
         then issuer\<lparr>li_cache := cache(hd lru := None), li_lru := tl lru\<rparr>
         else issuer\<lparr>li_cache := cache, li_lru := lru\<rparr>)"

section \<open>The invariant\<close>

text \<open>
  The order lists exactly the cached hosts, each once, no more than the cache may hold, and
  every cached certificate was signed for its host, for the configured time.
\<close>

definition wf_issuer :: "(string \<Rightarrow> int \<Rightarrow> string \<Rightarrow> bool) \<Rightarrow> leaf_issuer \<Rightarrow> bool" where
  "wf_issuer signed issuer \<longleftrightarrow>
     distinct (li_lru issuer) \<and> set (li_lru issuer) = dom (li_cache issuer) \<and>
     length (li_lru issuer) \<le> li_max_leaves issuer \<and> 0 < li_max_leaves issuer \<and>
     (\<forall>key entry. li_cache issuer key = Some entry \<longrightarrow>
        (\<exists>t. signed key t (cl_cert entry) \<and> cl_not_after entry = t + li_ttl issuer))"

lemma wf_new_issuer: "wf_issuer signed (new_leaf_issuer max_leaves ttl)"
  by (simp add: wf_issuer_def new_leaf_issuer_def)

lemma touch_lru_set: "set (touch_lru key lru) = insert key (set lru)"
  by (cases "key \<in> set lru") (auto simp: touch_lru_def remove1_idem dest: in_set_remove1 set_remove1_subset [THEN subsetD])

lemma touch_lru_distinct: "distinct lru \<Longrightarrow> distinct (touch_lru key lru)"
  by (simp add: touch_lru_def)

lemma touch_lru_length: "key \<in> set lru \<Longrightarrow> length (touch_lru key lru) = length lru"
  by (cases lru) (auto simp: touch_lru_def length_remove1 dest: length_pos_if_in_set)

lemma cache_get_Some:
  assumes "cache_get issuer key now = Some (cert, issuer')"
  shows "\<exists>entry. li_cache issuer key = Some entry \<and> cert = cl_cert entry \<and>
    now < cl_not_after entry - leaf_renewal_skew \<and>
    issuer' = issuer\<lparr>li_lru := touch_lru key (li_lru issuer)\<rparr>"
  using assms by (auto simp: cache_get_def split: option.splits if_splits)

lemma wf_cache_get:
  assumes "wf_issuer signed issuer" and "cache_get issuer key now = Some (cert, issuer')"
  shows "wf_issuer signed issuer'"
proof -
  from cache_get_Some [OF assms(2)] obtain entry where
    e: "li_cache issuer key = Some entry" "issuer' = issuer\<lparr>li_lru := touch_lru key (li_lru issuer)\<rparr>"
    by blast
  then have "key \<in> set (li_lru issuer)" using assms(1) by (auto simp: wf_issuer_def)
  with e assms(1) show ?thesis
    by (auto simp: wf_issuer_def touch_lru_set touch_lru_distinct touch_lru_length)
qed

lemma wf_cache_put:
  assumes wf: "wf_issuer signed issuer" and new: "signed key t cert"
  shows "wf_issuer signed (cache_put issuer key \<lparr>cl_not_after = t + li_ttl issuer, cl_cert = cert\<rparr>)"
proof -
  define entry where "entry = \<lparr>cl_not_after = t + li_ttl issuer, cl_cert = cert\<rparr>"
  define lru where "lru = (case li_cache issuer key of
      None \<Rightarrow> li_lru issuer @ [key] | Some _ \<Rightarrow> touch_lru key (li_lru issuer))"
  define cache where "cache = (li_cache issuer)(key \<mapsto> entry)"
  have d: "distinct lru" and s: "set lru = dom cache" and l: "length lru \<le> Suc (li_max_leaves issuer)"
    using wf by (auto simp: lru_def cache_def wf_issuer_def touch_lru_distinct touch_lru_set touch_lru_length domI
        split: option.split)
  have signed_all: "\<exists>u. signed k u (cl_cert e) \<and> cl_not_after e = u + li_ttl issuer"
    if "cache k = Some e" for k e
    using that wf new by (auto simp: cache_def entry_def wf_issuer_def split: if_splits)
  have card: "card (dom cache) = length lru" using d s by (metis distinct_card)
  have put: "cache_put issuer key entry =
      (if li_max_leaves issuer < length lru
       then issuer\<lparr>li_cache := cache(hd lru := None), li_lru := tl lru\<rparr>
       else issuer\<lparr>li_cache := cache, li_lru := lru\<rparr>)"
    unfolding card [symmetric] cache_put_def lru_def [symmetric] cache_def [symmetric] Let_def ..
  have "wf_issuer signed (cache_put issuer key entry)"
  proof (cases lru)
    case Nil
    then show ?thesis using s by (auto simp: cache_def)
  next
    case (Cons h rest)
    with d s l signed_all wf show ?thesis
      unfolding put wf_issuer_def by (auto split: if_splits)
  qed
  then show ?thesis by (simp add: entry_def)
qed

section \<open>Minting\<close>

text \<open>\<open>MintLeaf\<close> of one goroutine that no other interrupts; \<open>sign\<close> is \<open>createLeaf\<close>.\<close>

definition mint_leaf ::
  "(string \<Rightarrow> int \<Rightarrow> string option) \<Rightarrow> leaf_issuer \<Rightarrow> string \<Rightarrow> int \<Rightarrow> string option \<times> leaf_issuer" where
  "mint_leaf sign issuer host now =
     (case normalize_host host of
        None \<Rightarrow> (None, issuer)
      | Some key \<Rightarrow>
          (case cache_get issuer key now of
             Some (cert, issuer') \<Rightarrow> (Some cert, issuer')
           | None \<Rightarrow>
               (case sign key now of
                  None \<Rightarrow> (None, issuer)
                | Some cert \<Rightarrow>
                    (case cache_get issuer key now of
                       Some (existing, issuer') \<Rightarrow> (Some existing, issuer')
                     | None \<Rightarrow>
                         (Some cert, cache_put issuer key
                            \<lparr>cl_not_after = now + li_ttl issuer, cl_cert = cert\<rparr>)))))"

text \<open>
  The phases of the goroutines that mint: each look-up and each commit holds the mutex, signing
  does not. \<open>signed key t cert\<close> says that signing for the host at that time may yield the certificate.
\<close>

datatype mint_phase =
    Idle
  | Looking string int
  | Signing string int
  | Committing string int string
  | Minted string int string
  | MintFailed

type_synonym mint_state = "leaf_issuer \<times> (nat \<Rightarrow> mint_phase)"

inductive mint_step :: "(string \<Rightarrow> int \<Rightarrow> string \<Rightarrow> bool) \<Rightarrow> mint_state \<Rightarrow> mint_state \<Rightarrow> bool"
  for signed where
  call: "\<lbrakk>th g \<in> {Idle, MintFailed} \<or> (\<exists>k t c. th g = Minted k t c); normalize_host host = Some key\<rbrakk>
    \<Longrightarrow> mint_step signed (issuer, th) (issuer, th(g := Looking key now))"
| hit: "\<lbrakk>th g = Looking key now; cache_get issuer key now = Some (cert, issuer')\<rbrakk>
    \<Longrightarrow> mint_step signed (issuer, th) (issuer', th(g := Minted key now cert))"
| miss: "\<lbrakk>th g = Looking key now; cache_get issuer key now = None\<rbrakk>
    \<Longrightarrow> mint_step signed (issuer, th) (issuer, th(g := Signing key now))"
| sign: "\<lbrakk>th g = Signing key now; signed key now cert\<rbrakk>
    \<Longrightarrow> mint_step signed (issuer, th) (issuer, th(g := Committing key now cert))"
| fail: "th g = Signing key now
    \<Longrightarrow> mint_step signed (issuer, th) (issuer, th(g := MintFailed))"
| lost: "\<lbrakk>th g = Committing key now cert; cache_get issuer key now = Some (existing, issuer')\<rbrakk>
    \<Longrightarrow> mint_step signed (issuer, th) (issuer', th(g := Minted key now existing))"
| commit: "\<lbrakk>th g = Committing key now cert; cache_get issuer key now = None\<rbrakk>
    \<Longrightarrow> mint_step signed (issuer, th)
          (cache_put issuer key \<lparr>cl_not_after = now + li_ttl issuer, cl_cert = cert\<rparr>,
           th(g := Minted key now cert))"

inductive mint_reachable :: "(string \<Rightarrow> int \<Rightarrow> string \<Rightarrow> bool) \<Rightarrow> mint_state \<Rightarrow> mint_state \<Rightarrow> bool"
  for signed s0 where
  start: "mint_reachable signed s0 s0"
| step: "\<lbrakk>mint_reachable signed s0 s; mint_step signed s s'\<rbrakk> \<Longrightarrow> mint_reachable signed s0 s'"

text \<open>What a goroutine holds: a certificate signed for its host, still good when it asked.\<close>

definition good_phase :: "(string \<Rightarrow> int \<Rightarrow> string \<Rightarrow> bool) \<Rightarrow> int \<Rightarrow> mint_phase \<Rightarrow> bool" where
  "good_phase signed ttl phase =
     (case phase of
        Committing key now cert \<Rightarrow> signed key now cert
      | Minted key now cert \<Rightarrow>
          \<exists>t. signed key t cert \<and> (t = now \<or> now < t + ttl - leaf_renewal_skew)
      | _ \<Rightarrow> True)"

definition good_state :: "(string \<Rightarrow> int \<Rightarrow> string \<Rightarrow> bool) \<Rightarrow> mint_state \<Rightarrow> bool" where
  "good_state signed s \<longleftrightarrow>
     wf_issuer signed (fst s) \<and> (\<forall>g. good_phase signed (li_ttl (fst s)) (snd s g))"

lemma ttl_fixed [simp]:
  "li_ttl (cache_put issuer key entry) = li_ttl issuer"
  "li_max_leaves (cache_put issuer key entry) = li_max_leaves issuer"
  by (simp_all add: cache_put_def Let_def)

lemma cache_get_good:
  assumes "wf_issuer signed issuer" and "cache_get issuer key now = Some (cert, issuer')"
  shows "wf_issuer signed issuer' \<and> li_ttl issuer' = li_ttl issuer \<and>
    (\<exists>t. signed key t cert \<and> now < t + li_ttl issuer - leaf_renewal_skew)"
proof -
  obtain entry where e: "li_cache issuer key = Some entry" "cert = cl_cert entry"
    "now < cl_not_after entry - leaf_renewal_skew"
    "issuer' = issuer\<lparr>li_lru := touch_lru key (li_lru issuer)\<rparr>"
    using cache_get_Some [OF assms(2)] by blast
  moreover obtain t where "signed key t (cl_cert entry)" "cl_not_after entry = t + li_ttl issuer"
    using assms(1) e(1) unfolding wf_issuer_def by blast
  ultimately show ?thesis using wf_cache_get [OF assms] by auto
qed

lemma good_step:
  assumes "mint_step signed s s'" and "good_state signed s"
  shows "good_state signed s'"
  using assms
proof cases
  case (hit th g key now issuer cert issuer')
  then show ?thesis using assms(2) cache_get_good [of signed issuer key now cert issuer']
    by (auto simp: good_state_def good_phase_def)
next
  case (lost th g key now cert issuer existing issuer')
  then show ?thesis using assms(2) cache_get_good [of signed issuer key now existing issuer']
    by (auto simp: good_state_def good_phase_def)
next
  case (commit th g key now cert issuer)
  then have "signed key now cert" using assms(2) by (auto simp: good_state_def good_phase_def dest: spec [of _ g])
  with commit show ?thesis using assms(2) wf_cache_put [of signed issuer key now cert]
    by (auto simp: good_state_def good_phase_def)
qed (auto simp: good_state_def good_phase_def)

text \<open>
  Property C20. However the goroutines that mint interleave, starting from a new issuer: the order
  and the cache agree and stay within the limit, every cached certificate was signed for its host,
  and every goroutine that finished holds a certificate signed for the host it asked for, fresh or
  outside its renewal window.
\<close>

theorem minting_invariant:
  assumes "mint_reachable signed (new_leaf_issuer max_leaves ttl, \<lambda>_. Idle) s"
  shows "good_state signed s"
  using assms
proof induction
  case start
  then show ?case by (simp add: good_state_def good_phase_def wf_new_issuer)
next
  case (step s s')
  then show ?case by (blast intro: good_step)
qed

theorem minting_invariant_witness:
  "\<exists>issuer th. th 0 = Minted ''h'' 5 ''cert'' \<and> good_state (\<lambda>_ _ c. c = ''cert'') (issuer, th)"
proof -
  let ?signed = "\<lambda>_ _ c. c = ''cert''"
  let ?i = "new_leaf_issuer 1 10" and ?th = "\<lambda>_::nat. Idle"
  let ?put = "cache_put ?i ''h'' \<lparr>cl_not_after = 5 + li_ttl ?i, cl_cert = ''cert''\<rparr>"
  have n: "normalize_host '' H:443 '' = Some ''h''" by code_simp
  have g: "cache_get ?i ''h'' 5 = None" by (simp add: cache_get_def new_leaf_issuer_def)
  have "mint_reachable ?signed (?i, ?th) (?i, ?th(0 := Looking ''h'' 5))"
    by (rule mint_reachable.step [OF mint_reachable.start mint_step.call [OF _ n]]) simp
  then have "mint_reachable ?signed (?i, ?th) (?i, ?th(0 := Looking ''h'' 5, 0 := Signing ''h'' 5))"
    by (rule mint_reachable.step) (rule mint_step.miss, simp_all add: g)
  then have "mint_reachable ?signed (?i, ?th)
      (?i, ?th(0 := Looking ''h'' 5, 0 := Signing ''h'' 5, 0 := Committing ''h'' 5 ''cert''))"
    by (rule mint_reachable.step) (rule mint_step.sign, simp_all)
  then have "mint_reachable ?signed (?i, ?th)
      (?put, ?th(0 := Looking ''h'' 5, 0 := Signing ''h'' 5, 0 := Committing ''h'' 5 ''cert'',
                 0 := Minted ''h'' 5 ''cert''))"
    by (rule mint_reachable.step) (rule mint_step.commit, simp_all add: g)
  from minting_invariant [OF this] show ?thesis
    by (intro exI [of _ ?put] exI [of _ "?th(0 := Minted ''h'' 5 ''cert'')"]) simp
qed

section \<open>Reuse\<close>

lemma cache_put_keeps_key:
  assumes "wf_issuer signed issuer"
  shows "li_cache (cache_put issuer key entry) key = Some entry"
proof -
  define lru where "lru = (case li_cache issuer key of
      None \<Rightarrow> li_lru issuer @ [key] | Some _ \<Rightarrow> touch_lru key (li_lru issuer))"
  define cache where "cache = (li_cache issuer)(key \<mapsto> entry)"
  have d: "distinct lru" and s: "set lru = dom cache" and l: "last lru = key"
    using assms by (auto simp: lru_def cache_def wf_issuer_def touch_lru_distinct touch_lru_set
        touch_lru_def split: option.split)
  have card: "card (dom cache) = length lru" using d s by (metis distinct_card)
  have "hd lru \<noteq> key" if "li_max_leaves issuer < length lru"
  proof -
    have "1 < length lru" using that assms by (simp add: wf_issuer_def)
    then obtain a b r where "lru = a # b # r" by (cases lru; cases "tl lru") auto
    moreover from this l have "key \<in> set (b # r)" by (metis last.simps last_in_set list.distinct(1))
    ultimately show ?thesis using d by auto
  qed
  then show ?thesis
    unfolding cache_put_def lru_def [symmetric] cache_def [symmetric] Let_def card
    by (auto simp: cache_def)
qed

text \<open>
  Fact. A host's leaf is reused: after a certificate was minted for a host, asking again, no
  later, yields the same certificate, even if signing would fail by now. The leaf just cached is never
  the one evicted.
\<close>

theorem minted_leaf_reused:
  assumes "wf_issuer signed issuer" and "mint_leaf sign issuer host now = (Some cert, issuer')"
    and "leaf_renewal_skew < li_ttl issuer" and "now' \<le> now"
  shows "fst (mint_leaf sign' issuer' host now') = Some cert"
proof -
  obtain key where key: "normalize_host host = Some key"
    using assms(2) by (auto simp: mint_leaf_def split: option.splits)
  have "\<exists>entry. li_cache issuer' key = Some entry \<and> cl_cert entry = cert \<and>
      now < cl_not_after entry - leaf_renewal_skew"
  proof (cases "cache_get issuer key now")
    case (Some r)
    then have "cache_get issuer key now = Some (cert, issuer')"
      using assms(2) by (cases r) (simp add: mint_leaf_def key)
    from cache_get_Some [OF this] show ?thesis by auto
  next
    case None
    then have "issuer' = cache_put issuer key \<lparr>cl_not_after = now + li_ttl issuer, cl_cert = cert\<rparr>"
      using assms(2) by (auto simp: mint_leaf_def key split: option.splits)
    then show ?thesis using assms(3) cache_put_keeps_key [OF assms(1)] by simp
  qed
  then obtain entry where "li_cache issuer' key = Some entry" "cl_cert entry = cert"
    "now' < cl_not_after entry - leaf_renewal_skew" using assms(4) by auto
  then show ?thesis by (simp add: mint_leaf_def key cache_get_def)
qed

theorem minted_leaf_reused_witness:
  "let (c, issuer') = mint_leaf (\<lambda>k t. Some (k @ ''!'')) (new_leaf_issuer 1 0) '' H:443 '' 7
   in c = Some ''h!'' \<and> fst (mint_leaf (\<lambda>k t. None) issuer' '' H:443 '' 7) = Some ''h!''"
proof -
  have n: "normalize_host '' H:443 '' = Some ''h''" by code_simp
  obtain issuer' where m: "mint_leaf (\<lambda>k t. Some (k @ ''!'')) (new_leaf_issuer 1 0) '' H:443 '' 7 = (Some ''h!'', issuer')"
    by (simp add: mint_leaf_def n cache_get_def new_leaf_issuer_def)
  have "fst (mint_leaf (\<lambda>k t. None) issuer' '' H:443 '' 7) = Some ''h!''"
    by (rule minted_leaf_reused [OF wf_new_issuer m])
      (simp_all add: new_leaf_issuer_def leaf_renewal_skew_def)
  with m show ?thesis by (simp add: Let_def)
qed

end
