(* ===== verification/InterceptConnect.thy ===== *)
theory InterceptConnect
  imports InterceptProofs LeafCache
begin

text \<open>
  The CONNECT side of the intercepting proxy (\<open>intercept_connect.go\<close>, \<open>ServeHTTP\<close> of
  \<open>intercept.go\<close>): which tunnels are decrypted, which are relayed blindly and which are dropped;
  and the gate that enables interception (\<open>ca/gate.go\<close>). Hijacking the connection, acknowledging it,
  minting a leaf and dialling the target succeed or fail as the arguments say.
\<close>

section \<open>Tunnels\<close>

definition host_only :: "string \<Rightarrow> string" where
  "host_only authority =
     (let a = trim_space authority
      in case split_host_port a of None \<Rightarrow> to_lower a | Some (host, _) \<Rightarrow> to_lower host)"

definition reason_for :: "intercept_proxy \<Rightarrow> string \<Rightarrow> string" where
  "reason_for proxy host =
     (if \<not> ip_enabled proxy then ''interception_disabled''
      else if \<not> allowed_host proxy host then ''host_not_in_allow_list''
      else [])"

datatype connect_effect =
    RejectConnect nat
  | Established
  | InterceptTLS string string
  | RelayBlindly string
  | ConnectEvent provider_event

record connection =
  cn_hijack :: bool
  cn_acknowledged :: bool
  cn_mint :: "string \<Rightarrow> bool"
  cn_dial :: "string \<Rightarrow> bool"

definition record_blind ::
  "proxy_env \<Rightarrow> intercept_proxy \<Rightarrow> string \<Rightarrow> string \<Rightarrow> bool \<Rightarrow> intercept_proxy \<times> connect_effect list" where
  "record_blind nv proxy host reason route_error =
     (let m0 = [''intercepted'' \<mapsto> ''false'', ''host'' \<mapsto> host, ''reason'' \<mapsto> reason,
                ''payload_body_retained'' \<mapsto> ''false''];
          m = (if route_error then m0(''error'' \<mapsto> ''proxy_route_failed'') else m0)
      in case identity nv proxy ''agent-api-proxy'' host (clock nv proxy) of
           (idn, proxy') \<Rightarrow>
             (proxy', if ip_recorder proxy'
                      then [ConnectEvent (intercept_event idn
                              (if route_error then ''route_error'' else ''allow'') m)]
                      else []))"

definition blind_tunnel ::
  "proxy_env \<Rightarrow> connection \<Rightarrow> intercept_proxy \<Rightarrow> string \<Rightarrow> string \<Rightarrow> string \<Rightarrow>
   intercept_proxy \<times> connect_effect list" where
  "blind_tunnel nv cn proxy target host reason =
     (if \<not> cn_dial cn target then record_blind nv proxy host reason True
      else case record_blind nv proxy host reason False of
             (proxy', effects) \<Rightarrow> (proxy', effects @ [RelayBlindly target]))"

definition handle_connect ::
  "proxy_env \<Rightarrow> connection \<Rightarrow> intercept_proxy \<Rightarrow> string \<Rightarrow> intercept_proxy \<times> connect_effect list" where
  "handle_connect nv cn proxy request_host =
     (let host = host_only request_host;
          intercept = (ip_enabled proxy \<and> allowed_host proxy host)
      in if \<not> cn_hijack cn then (proxy, [RejectConnect 500])
         else if \<not> cn_acknowledged cn then (proxy, [])
         else if intercept \<and> cn_mint cn host
           then (proxy, [Established, InterceptTLS host request_host])
         else if intercept \<and> ip_on_error proxy \<noteq> ''passthrough'' then (proxy, [Established])
         else let reason = (if intercept then ''intercept_unavailable'' else reason_for proxy host)
              in case blind_tunnel nv cn proxy request_host host reason of
                   (proxy', effects) \<Rightarrow> (proxy', Established # effects))"

definition serve_http ::
  "proxy_env \<Rightarrow> connection \<Rightarrow> intercept_proxy \<Rightarrow> string \<Rightarrow> string \<Rightarrow>
   intercept_proxy \<times> connect_effect list" where
  "serve_http nv cn proxy request_method request_host =
     (if request_method \<noteq> ''CONNECT'' then (proxy, [RejectConnect 405])
      else handle_connect nv cn proxy request_host)"

section \<open>The gate\<close>

record gate_input =
  gi_mode :: string
  gi_ca_approval :: string
  gi_env_opt_in :: bool

record interception_evidence =
  ie_mode :: string
  ie_reason :: string
  ie_ca_fingerprint :: string
  ie_ca_cert_path :: string
  ie_enabled :: bool
  ie_denied :: bool

definition disabled_evidence :: "string \<Rightarrow> interception_evidence" where
  "disabled_evidence mode =
     \<lparr>ie_mode = (if mode = [] then ''off'' else mode),
      ie_reason = ''interception disabled (mode not required)'', ie_ca_fingerprint = [],
      ie_ca_cert_path = [], ie_enabled = False, ie_denied = False\<rparr>"

definition stale_config_evidence :: interception_evidence where
  "stale_config_evidence =
     \<lparr>ie_mode = ''required'',
      ie_reason = ''mode=required but CODE_ETHOS_AGENT_PROXY_INTERCEPT not set (stale-config guard)'',
      ie_ca_fingerprint = [], ie_ca_cert_path = [], ie_enabled = False, ie_denied = True\<rparr>"

definition approval_mismatch :: "string \<Rightarrow> string \<Rightarrow> bool" where
  "approval_mismatch approval fingerprint \<longleftrightarrow> approval \<noteq> [] \<and> approval \<noteq> fingerprint"

definition approval_mismatch_evidence :: "string \<Rightarrow> string \<Rightarrow> interception_evidence" where
  "approval_mismatch_evidence fingerprint cert_path =
     \<lparr>ie_mode = ''required'', ie_reason = ''ca_approval does not match provisioned CA fingerprint'',
      ie_ca_fingerprint = fingerprint, ie_ca_cert_path = cert_path, ie_enabled = False,
      ie_denied = True\<rparr>"

text \<open>\<open>ensure_ca\<close> is \<open>EnsureCA\<close>: an error, or the fingerprint and the path of the certificate.\<close>

definition evaluate_gate ::
  "(string + string \<times> string) \<Rightarrow> gate_input \<Rightarrow> string + interception_evidence" where
  "evaluate_gate ensure_ca i =
     (if gi_mode i \<noteq> ''required'' then Inr (disabled_evidence (gi_mode i))
      else if \<not> gi_env_opt_in i then Inr stale_config_evidence
      else case ensure_ca of
             Inl err \<Rightarrow> Inl err
           | Inr (fingerprint, cert_path) \<Rightarrow>
               if approval_mismatch (gi_ca_approval i) fingerprint
               then Inr (approval_mismatch_evidence fingerprint cert_path)
               else Inr \<lparr>ie_mode = ''required'', ie_reason = ''interception enabled'',
                         ie_ca_fingerprint = fingerprint, ie_ca_cert_path = cert_path,
                         ie_enabled = True, ie_denied = False\<rparr>)"

section \<open>Guarantees\<close>

lemma blind_not_decrypted [simp]:
  "InterceptTLS a b \<notin> set (snd (blind_tunnel nv cn proxy target host reason))"
  by (simp add: blind_tunnel_def record_blind_def identity_clock Let_def)

lemma handle_connect_decrypts:
  "InterceptTLS host authority \<in> set (snd (handle_connect nv cn proxy request_host)) \<longleftrightarrow>
     cn_hijack cn \<and> cn_acknowledged cn \<and> ip_enabled proxy \<and>
     allowed_host proxy (host_only request_host) \<and> cn_mint cn (host_only request_host) \<and>
     host = host_only request_host \<and> authority = request_host"
  unfolding handle_connect_def Let_def by (auto simp add: case_prod_beta)

text \<open>
  Fact. Only allowed hosts are decrypted: a tunnel is terminated exactly when interception is
  enabled, the host of the CONNECT authority is on the list, and a leaf for it can be minted, and what it
  is then bound to is the authority the decision was made on.
\<close>

theorem intercepted_exactly:
  "InterceptTLS host authority \<in> set (snd (serve_http nv cn proxy m request_host)) \<longleftrightarrow>
     m = ''CONNECT'' \<and> cn_hijack cn \<and> cn_acknowledged cn \<and> ip_enabled proxy \<and>
     host = host_only request_host \<and> authority = request_host \<and>
     host \<in> set (ip_allow_hosts proxy) \<and> cn_mint cn host"
  using handle_connect_decrypts [of host authority nv cn proxy request_host]
  by (cases "m = ''CONNECT''") (auto simp: serve_http_def allowed_host_def)

text \<open>
  Fact. A tunnel to an allowed host for which no leaf can be minted fails closed: unless the
  configuration says passthrough, nothing is relayed and nothing is decrypted.
\<close>

theorem unmintable_fails_closed:
  assumes "ip_enabled proxy" and "host_only request_host \<in> set (ip_allow_hosts proxy)"
    and "\<not> cn_mint cn (host_only request_host)" and "ip_on_error proxy \<noteq> ''passthrough''"
  shows "set (snd (serve_http nv cn proxy m request_host)) \<subseteq> {Established} \<union> range RejectConnect"
  using assms by (auto simp: serve_http_def handle_connect_def Let_def allowed_host_def)

theorem unmintable_fails_closed_witness:
  "let cn = \<lparr>cn_hijack = True, cn_acknowledged = True, cn_mint = (\<lambda>_. False), cn_dial = (\<lambda>_. True)\<rparr>
   in set (snd (serve_http (sample_proxy_env None) cn (sample_intercept_proxy None) ''CONNECT'' ''H:443''))
        \<subseteq> {Established} \<union> range RejectConnect"
proof -
  have "host_only ''H:443'' = ''h''" by code_simp
  then show ?thesis unfolding Let_def
    by (intro unmintable_fails_closed) (simp_all add: sample_intercept_proxy_def)
qed

text \<open>
  Fact. The gate fails closed: interception is enabled only when the mode requires it, the
  environment opted in, a CA is provisioned, and its fingerprint is the approved one when one is
  approved.
\<close>

theorem gate_enabled_exactly:
  "(\<exists>e. evaluate_gate ensure_ca i = Inr e \<and> ie_enabled e) \<longleftrightarrow>
     gi_mode i = ''required'' \<and> gi_env_opt_in i \<and>
     (\<exists>fingerprint cert_path. ensure_ca = Inr (fingerprint, cert_path) \<and>
        gi_ca_approval i \<in> {[], fingerprint})"
  by (auto simp: evaluate_gate_def disabled_evidence_def stale_config_evidence_def
      approval_mismatch_def approval_mismatch_evidence_def split: sum.splits)

text \<open>
  A proxy built to intercept has an issuer, an evaluator and a positive limit, and refuses unless
  it is told otherwise.
\<close>

lemma new_intercept_proxy_enforces:
  assumes "NewInterceptProxy options = Inr proxy" and "ip_enabled proxy"
  shows "io_issuer options \<and> ip_evaluator proxy \<noteq> None \<and> 0 < ip_max_normalize proxy \<and>
    ip_sequence proxy = 0 \<and> ip_on_error proxy \<noteq> []"
  using assms by (auto simp: NewInterceptProxy_def Let_def split: if_splits option.splits)

end
