(* ===== verification/CommitMessage.thy ===== *)
theory CommitMessage
  imports Regexp Policy Shellparse
begin

text \<open>
  The evaluators of commit messages in \<open>go/internal/evaluators/git_safety.go\<close>: finding the messages
  of a \<open>git commit\<close> in its arguments and files, the lint of their form, and the attributions that are
  refused; with the option readers of \<open>options.go\<close>. Reading a file and Go's \<open>strconv.Quote\<close> come
  with the environment.
\<close>

section \<open>Options\<close>

definition int_option :: "any_map \<Rightarrow> string \<Rightarrow> int \<Rightarrow> int" where
  "int_option options key default_value =
     (case map_of options key of
        Some (AInt i) \<Rightarrow> i
      | Some (AFloat i) \<Rightarrow> i
      | _ \<Rightarrow> default_value)"

definition string_slice_option :: "any_map \<Rightarrow> string \<Rightarrow> string list \<Rightarrow> string list" where
  "string_slice_option options key defaults =
     (let answer = (\<lambda>items. if items = [] then defaults else items)
      in case map_of options key of
           Some (AStrings raw) \<Rightarrow> answer (filter (\<lambda>i. i \<noteq> []) raw)
         | Some (AList raw) \<Rightarrow> answer (filter (\<lambda>i. i \<noteq> []) (List.map_filter any_string raw))
         | _ \<Rightarrow> defaults)"

definition string_option_list :: "any \<Rightarrow> string list" where
  "string_option_list raw =
     (case raw of
        AStrings typed \<Rightarrow> typed
      | AList typed \<Rightarrow> filter (\<lambda>i. i \<noteq> []) (List.map_filter any_string typed)
      | _ \<Rightarrow> [])"

section \<open>Git arguments\<close>

definition is_shell_assignment :: "string \<Rightarrow> bool" where
  "is_shell_assignment arg =
     (case str_cut arg ''='' of
        (name, v, ok) \<Rightarrow> ok \<and> name \<noteq> [] \<and> v \<noteq> [] \<and> list_all word_char name)"

definition strip_leading_assignments :: "string list \<Rightarrow> string list" where
  "strip_leading_assignments argv = dropWhile is_shell_assignment argv"

definition skip_next_global_arg :: "string \<Rightarrow> bool" where
  "skip_next_global_arg arg \<longleftrightarrow>
     arg \<in> {''-C'', ''-c'', ''--git-dir'', ''--work-tree'', ''--namespace'', ''--exec-path'',
            ''--config-env''}"

definition is_git :: "string list \<Rightarrow> bool" where
  "is_git argv =
     (case strip_leading_assignments argv of [] \<Rightarrow> False | a # _ \<Rightarrow> a = ''git'')"

text \<open>The loop both scans share: the arguments from the subcommand on.\<close>

function from_subcommand :: "string list \<Rightarrow> string list" where
  "from_subcommand [] = []"
| "from_subcommand (arg # rest) =
     (if arg = ''--'' then []
      else if arg = [] then from_subcommand rest
      else if \<not> has_prefix arg ''-'' then arg # rest
      else if skip_next_global_arg arg \<and> rest \<noteq> [] then from_subcommand (tl rest)
      else from_subcommand rest)"
  by pat_completeness auto
termination by (relation "measure length") auto

definition git_subcommand :: "string list \<Rightarrow> string" where
  "git_subcommand argv =
     (case from_subcommand (drop 1 (strip_leading_assignments argv)) of [] \<Rightarrow> [] | arg # _ \<Rightarrow> arg)"

definition git_args_after_subcommand :: "string list \<Rightarrow> string list" where
  "git_args_after_subcommand argv =
     drop 1 (from_subcommand (drop 1 (strip_leading_assignments argv)))"

definition is_git_subcommand :: "string list \<Rightarrow> string \<Rightarrow> bool" where
  "is_git_subcommand argv subcommand \<longleftrightarrow> is_git argv \<and> git_subcommand argv = subcommand"

section \<open>Finding the messages\<close>

text \<open>\<open>ce_read_file\<close> answers \<open>None\<close> for an error, which names the path.\<close>

record 'n commit_env =
  ce_bash :: "'n bash"
  ce_read_file :: "string \<Rightarrow> string option"
  ce_quote :: "string \<Rightarrow> string"

definition normalize_commit_message_value :: "'n commit_env \<Rightarrow> string \<Rightarrow> string" where
  "normalize_commit_message_value E v =
     (case CatHeredocCommandSubstitution (ce_bash E) v of Some message \<Rightarrow> message | None \<Rightarrow> v)"

definition read_commit_message_file :: "'n commit_env \<Rightarrow> string \<Rightarrow> string \<Rightarrow> string \<Rightarrow> string + string" where
  "read_commit_message_file E path cwd stdin =
     (if path = [] then Inr []
      else if path = ''-'' then Inr (normalize_commit_message_value E stdin)
      else let full = (if \<not> path_is_abs path \<and> cwd \<noteq> [] then path_join [cwd, path] else path)
           in case ce_read_file E full of
                None \<Rightarrow> Inl full
              | Some content \<Rightarrow> Inr (normalize_commit_message_value E content))"

text \<open>
  Whether the next argument was consumed, and the message found. \<open>nextCommitMessageValue\<close> and
  \<open>nextCommitMessageFile\<close> read the next argument, the others the rest of this one.
\<close>

definition next_commit_message_value :: "'n commit_env \<Rightarrow> string list \<Rightarrow> bool \<times> string option" where
  "next_commit_message_value E rest =
     (case rest of
        [] \<Rightarrow> (False, None)
      | v # _ \<Rightarrow> (True, Some (normalize_commit_message_value E v)))"

definition commit_message_file_value ::
  "'n commit_env \<Rightarrow> string \<Rightarrow> string \<Rightarrow> string \<Rightarrow> string + bool \<times> string option" where
  "commit_message_file_value E path cwd stdin =
     (case read_commit_message_file E path cwd stdin of
        Inl err \<Rightarrow> Inl err
      | Inr message \<Rightarrow> Inr (False, Some message))"

definition next_commit_message_file ::
  "'n commit_env \<Rightarrow> string list \<Rightarrow> string \<Rightarrow> string \<Rightarrow> string + bool \<times> string option" where
  "next_commit_message_file E rest cwd stdin =
     (case rest of
        [] \<Rightarrow> Inr (False, None)
      | path # _ \<Rightarrow>
          (case read_commit_message_file E path cwd stdin of
             Inl err \<Rightarrow> Inl err
           | Inr message \<Rightarrow> Inr (True, Some message)))"

definition commit_message_arg ::
  "'n commit_env \<Rightarrow> string \<Rightarrow> string \<Rightarrow> string \<Rightarrow> string list \<Rightarrow> string + bool \<times> string option" where
  "commit_message_arg E cwd stdin arg rest =
     (if arg = ''-m'' \<or> arg = ''--message'' then Inr (next_commit_message_value E rest)
      else if has_prefix arg ''-m''
        then Inr (False, Some (normalize_commit_message_value E (drop 2 arg)))
      else case cut_prefix arg ''--message='' of
             Some v \<Rightarrow> Inr (False, Some (normalize_commit_message_value E v))
           | None \<Rightarrow>
               if arg = ''-F'' \<or> arg = ''--file'' then next_commit_message_file E rest cwd stdin
               else if has_prefix arg ''-F'' then commit_message_file_value E (drop 2 arg) cwd stdin
               else case cut_prefix arg ''--file='' of
                      Some v \<Rightarrow> commit_message_file_value E v cwd stdin
                    | None \<Rightarrow> Inr (False, None))"

function message_fragments ::
  "'n commit_env \<Rightarrow> string \<Rightarrow> string \<Rightarrow> string list \<Rightarrow> string + string list" where
  "message_fragments E cwd stdin [] = Inr []"
| "message_fragments E cwd stdin (arg # rest) =
     (case commit_message_arg E cwd stdin arg rest of
        Inl err \<Rightarrow> Inl err
      | Inr (consumed, found) \<Rightarrow>
          (case message_fragments E cwd stdin (if consumed then tl rest else rest) of
             Inl err \<Rightarrow> Inl err
           | Inr later \<Rightarrow> Inr ((case found of None \<Rightarrow> [] | Some m \<Rightarrow> [m]) @ later)))"
  by pat_completeness auto
termination by (relation "measure (\<lambda>(E, cwd, stdin, args). length args)") auto

definition commit_messages_from_argv ::
  "'n commit_env \<Rightarrow> string list \<Rightarrow> string \<Rightarrow> string \<Rightarrow> string + string list" where
  "commit_messages_from_argv E argv cwd stdin =
     (case message_fragments E cwd stdin (git_args_after_subcommand argv) of
        Inl err \<Rightarrow> Inl err
      | Inr [] \<Rightarrow> Inr []
      | Inr fragments \<Rightarrow> Inr [str_join [CHR 0x0A, CHR 0x0A] fragments])"

fun file_messages :: "'n commit_env \<Rightarrow> string \<Rightarrow> string list \<Rightarrow> string + string list" where
  "file_messages E cwd [] = Inr []"
| "file_messages E cwd (file # files) =
     (case read_commit_message_file E file cwd [] of
        Inl err \<Rightarrow> Inl err
      | Inr message \<Rightarrow>
          (case file_messages E cwd files of
             Inl err \<Rightarrow> Inl err
           | Inr later \<Rightarrow> Inr (if trim_space message \<noteq> [] then message # later else later)))"

definition commit_messages_from_context :: "'n commit_env \<Rightarrow> eval_context \<Rightarrow> string + string list" where
  "commit_messages_from_context E ctx =
     (case (if is_git_subcommand (ctx_argv ctx) ''commit''
            then commit_messages_from_argv E (ctx_argv ctx) (ctx_cwd ctx) (ctx_stdin ctx)
            else Inr []) of
        Inl err \<Rightarrow> Inl err
      | Inr from_argv \<Rightarrow>
          if ctx_scope ctx = ''commit-msg'' then
            (case file_messages E (ctx_cwd ctx) (ctx_files ctx) of
               Inl err \<Rightarrow> Inl err
             | Inr from_files \<Rightarrow> Inr (from_argv @ from_files))
          else Inr from_argv)"

section \<open>The lint\<close>

definition default_commit_types :: "string list" where
  "default_commit_types =
     [''chore'', ''docs'', ''feat'', ''fix'', ''perf'', ''refactor'', ''test'']"

definition default_ignored_commit_prefixes :: "string list" where
  "default_ignored_commit_prefixes = [''Merge '', ''Revert '', ''fixup! '', ''squash! '']"

definition trim_right_blanks :: "string \<Rightarrow> string" where
  "trim_right_blanks s = rev (dropWhile (\<lambda>c. c \<in> {CHR '' '', CHR 0x09, CHR 0x0D}) (rev s))"

definition commit_message_lines :: "string \<Rightarrow> string list" where
  "commit_message_lines message =
     dropWhile (\<lambda>l. trim_space l = [])
       (map trim_right_blanks
         (filter (\<lambda>l. \<not> has_prefix (dropWhile (\<lambda>c. c = CHR '' '' \<or> c = CHR 0x09) l) ''#'')
           (split_on (CHR 0x0A) message)))"

definition commit_has_body_or_footer :: "string list \<Rightarrow> bool" where
  "commit_has_body_or_footer lines = list_ex (\<lambda>l. trim_space l \<noteq> []) (drop 1 lines)"

definition scope_char :: "char \<Rightarrow> bool" where
  "scope_char c \<longleftrightarrow> alnum_char c \<or> c = CHR ''_'' \<or> c = CHR ''.'' \<or> c = CHR ''-''"

text \<open>
  The submatches of \<open>^([a-z]+)\(([A-Za-z0-9_.-]+)\)!?: (.+)$\<close> on a line: no class contains the character
  behind it, so that each part is as long as it can be.
\<close>

definition match_header :: "string \<Rightarrow> (string \<times> string \<times> string) option" where
  "match_header header =
     (let t = takeWhile lower_char header;
          rest = dropWhile lower_char header
      in case cut_prefix rest ''('' of
           None \<Rightarrow> None
         | Some r1 \<Rightarrow>
             let s = takeWhile scope_char r1
             in case cut_prefix (dropWhile scope_char r1) '')'' of
                  None \<Rightarrow> None
                | Some r2 \<Rightarrow>
                    (case cut_prefix (trim_prefix r2 ''!'') '': '' of
                       None \<Rightarrow> None
                     | Some subject \<Rightarrow>
                         if t = [] \<or> s = [] \<or> subject = [] then None else Some (t, s, subject)))"

definition validate_commit_message_text :: "string \<Rightarrow> any_map \<Rightarrow> string list" where
  "validate_commit_message_text message options =
     (case commit_message_lines message of
        [] \<Rightarrow> [''commit message is empty'']
      | header # body \<Rightarrow>
          if list_ex (has_prefix header)
               (string_slice_option options ''ignored_prefixes'' default_ignored_commit_prefixes)
          then []
          else
            let limit = int_option options ''max_header_length'' 150;
                errs = (if limit < int (length header)
                        then [''header must be <= '' @ itoa limit @ '' characters''] else [])
            in case match_header header of
                 None \<Rightarrow> errs @ [''header must match: type(scope): subject'']
               | Some (t, s, subject) \<Rightarrow>
                   let allowed = string_slice_option options ''allowed_types'' default_commit_types
                   in errs @
                      (if t \<notin> set allowed
                       then [''type must be one of: '' @ str_join '', '' (sort allowed)] else []) @
                      (if trim_space s = [] then [''scope is required''] else []) @
                      (if trim_space subject = [] then [''subject is required''] else []) @
                      (if commit_has_body_or_footer (header # body) \<and> body \<noteq> [] \<and> trim_space (hd body) \<noteq> []
                       then [''body/footer must be separated from header by a blank line''] else []))"

definition EvaluateGitCommitLint :: "'n commit_env \<Rightarrow> policy \<Rightarrow> eval_context \<Rightarrow> string + decision list" where
  "EvaluateGitCommitLint E pol ctx =
     (case commit_messages_from_context E ctx of
        Inl err \<Rightarrow> Inl err
      | Inr messages \<Rightarrow>
          (case find (\<lambda>errs. errs \<noteq> []) (map (\<lambda>m. validate_commit_message_text m (ctx_options ctx)) messages) of
             None \<Rightarrow> Inr []
           | Some errs \<Rightarrow>
               Inr [(NewDecision ''block'' pol)\<lparr>dec_evidence :=
                 [(''errors'', AStrings errs),
                  (''example'', AString ''fix(hooks): compile commit message checks'')]\<rparr>]))"

section \<open>Attributions\<close>

definition default_attribution_names :: "string list" where
  "default_attribution_names =
     [''claude'', ''anthropic'', ''gpt'', ''chatgpt'', ''openai'', ''copilot'', ''github copilot'',
      ''ai assistant'', ''ai agent'', ''llm'', ''large language model'', ''gemini'', ''bard'', ''cursor'']"

definition attribution_names :: "eval_context \<Rightarrow> string list" where
  "attribution_names ctx =
     (case map_of (ctx_options ctx) ''blocked_names'' of
        None \<Rightarrow> default_attribution_names
      | Some raw \<Rightarrow>
          (let names = string_option_list raw
           in if names = [] then default_attribution_names else names))"

text \<open>The UTF-8 encoding of U+1F916.\<close>

definition robot :: string where
  "robot = [CHR 0xF0, CHR 0x9F, CHR 0xA4, CHR 0x96]"

definition names_regex :: "string list \<Rightarrow> regex" where
  "names_regex names =
     (let quoted = filter (\<lambda>n. n \<noteq> []) names
      in re_alt (map re_fold (if quoted = [] then [''ai''] else quoted)))"

definition by_with_using :: regex where
  "by_with_using = re_alt [re_fold ''by'', re_fold ''with'', re_fold ''using'']"

definition attribution_patterns :: "string list \<Rightarrow> regex list" where
  "attribution_patterns names =
     (let N = names_regex names; spaces = re_some regexp_space; blanks = re_many regexp_space
      in [re_seq [re_fold ''co'', re_opt (re_fold ''-''), re_fold ''authored'', re_opt (re_fold ''-''),
            re_fold ''by:'', blanks, N],
          re_seq [re_fold ''signed'', re_opt (re_fold ''-''), re_fold ''off'', re_opt (re_fold ''-''),
            re_fold ''by:'', blanks, N],
          re_seq [re_fold ''generated'', spaces, by_with_using, spaces, N],
          re_seq [re_fold ''created'', spaces, by_with_using, spaces, N],
          re_seq [re_fold ''written'', spaces, by_with_using, spaces, N],
          re_seq [re_fold ''assisted'', spaces, re_fold ''by'', spaces, N],
          re_seq [re_literal robot, blanks, N],
          re_seq [N, blanks, re_literal robot],
          re_literal robot])"

text \<open>The first pattern with a match that is not empty.\<close>

fun first_match :: "regex list \<Rightarrow> string \<Rightarrow> string option" where
  "first_match [] line = None"
| "first_match (r # rs) line =
     (case find_string r line of
        None \<Rightarrow> first_match rs line
      | Some m \<Rightarrow> if m = [] then first_match rs line else Some m)"

definition line_attribution :: "'n commit_env \<Rightarrow> regex list \<Rightarrow> nat \<Rightarrow> string \<Rightarrow> string list" where
  "line_attribution E patterns number line =
     (let trimmed = trim_space line
      in if trimmed = [] \<or> has_prefix trimmed ''#'' then []
         else case first_match patterns trimmed of
                None \<Rightarrow> []
              | Some m \<Rightarrow> [''line '' @ itoa (int number) @ '': '' @ ce_quote E m @ '' in '' @ trimmed])"

definition forbidden_attribution_matches :: "'n commit_env \<Rightarrow> string list \<Rightarrow> string list \<Rightarrow> string list" where
  "forbidden_attribution_matches E messages names =
     concat (map (\<lambda>message.
       (let lines = split_on (CHR 0x0A) message
        in concat (map (\<lambda>(number, line). line_attribution E (attribution_patterns names) number line)
             (zip [1..<Suc (length lines)] lines)))) messages)"

definition EvaluateGitCommitAttribution ::
  "'n commit_env \<Rightarrow> policy \<Rightarrow> eval_context \<Rightarrow> string + decision list" where
  "EvaluateGitCommitAttribution E pol ctx =
     (case commit_messages_from_context E ctx of
        Inl err \<Rightarrow> Inl err
      | Inr messages \<Rightarrow>
          if messages = [] then Inr []
          else let matches = forbidden_attribution_matches E messages (attribution_names ctx)
               in if matches = [] then Inr []
                  else Inr [(NewDecision ''block'' pol)\<lparr>dec_evidence :=
                    [(''matches'', AStrings matches)] @
                    (if ctx_argv ctx \<noteq> [] then [(''argv'', AStrings (ctx_argv ctx))] else []) @
                    (if ctx_files ctx \<noteq> [] then [(''files'', AStrings (ctx_files ctx))] else [])\<rparr>])"

section \<open>Every message is found\<close>

lemma message_fragments_m:
  "message_fragments E cwd stdin (concat (map (\<lambda>m. [''-m'', m]) ms)) =
     Inr (map (normalize_commit_message_value E) ms)"
  by (induction ms) (simp_all add: commit_message_arg_def next_commit_message_value_def)

text \<open>
  Fact. The messages given with \<open>-m\<close> are found, all of them and in their order: a
  \<open>git commit\<close>, with any assignments in front, is taken to have the one message that git makes of them, the
  paragraphs joined by blank lines.
\<close>

theorem commit_messages_found:
  assumes "list_all is_shell_assignment env" and "ms \<noteq> []"
  shows "commit_messages_from_argv E
      (env @ [''git'', ''commit''] @ concat (map (\<lambda>m. [''-m'', m]) ms)) cwd stdin =
    Inr [str_join [CHR 0x0A, CHR 0x0A] (map (normalize_commit_message_value E) ms)]"
proof -
  have "strip_leading_assignments (env @ [''git'', ''commit''] @ concat (map (\<lambda>m. [''-m'', m]) ms)) =
      [''git'', ''commit''] @ concat (map (\<lambda>m. [''-m'', m]) ms)"
    using assms(1)
    by (induction env) (simp_all add: strip_leading_assignments_def is_shell_assignment_def str_cut_def)
  then have "git_args_after_subcommand (env @ [''git'', ''commit''] @ concat (map (\<lambda>m. [''-m'', m]) ms)) =
      concat (map (\<lambda>m. [''-m'', m]) ms)"
    by (simp add: git_args_after_subcommand_def)
  moreover have "map (normalize_commit_message_value E) ms \<noteq> []" using assms(2) by simp
  ultimately show ?thesis
    by (simp add: commit_messages_from_argv_def message_fragments_m split: list.split)
qed

text \<open>
  Fact. A message given behind combined flags is not found: git reads \<open>commit -am message\<close> as
  \<open>-a -m message\<close>, and no evaluator sees the message.
\<close>

theorem combined_flags_hide_message:
  "commit_messages_from_argv E [''git'', ''commit'', ''-am'', message] cwd stdin = Inr []
   \<or> has_prefix message ''-''"
proof (cases "has_prefix message ''-''")
  case False
  then have "commit_message_arg E cwd stdin message [] = Inr (False, None)"
    by (auto simp: commit_message_arg_def cut_prefix_def has_prefix_iff)
  then show ?thesis
    by (simp add: commit_messages_from_argv_def git_args_after_subcommand_def strip_leading_assignments_def
        is_shell_assignment_def str_cut_def commit_message_arg_def cut_prefix_def)
qed simp

section \<open>What passes the lint\<close>

lemma takeWhile_stop: "list_all P u \<Longrightarrow> \<not> P c \<Longrightarrow> takeWhile P (u @ c # v) = u \<and> dropWhile P (u @ c # v) = c # v"
  by (induction u) auto

lemma match_header_iff:
  "match_header h = Some (t, s, subject) \<longleftrightarrow>
     (\<exists>b. h = t @ ''('' @ s @ '')'' @ b @ '': '' @ subject \<and> b \<in> {[], ''!''} \<and>
        t \<noteq> [] \<and> s \<noteq> [] \<and> subject \<noteq> [] \<and> list_all lower_char t \<and> list_all scope_char s)"
proof
  assume m: "match_header h = Some (t, s, subject)"
  then obtain r1 r2 where parts: "cut_prefix (dropWhile lower_char h) ''('' = Some r1"
    "cut_prefix (dropWhile scope_char r1) '')'' = Some r2"
    "cut_prefix (trim_prefix r2 ''!'') '': '' = Some subject"
    "t = takeWhile lower_char h" "s = takeWhile scope_char r1" "t \<noteq> []" "s \<noteq> []" "subject \<noteq> []"
    by (auto simp: match_header_def Let_def split: option.splits if_splits)
  have d: "dropWhile lower_char h = ''('' @ r1" "dropWhile scope_char r1 = '')'' @ r2"
    "trim_prefix r2 ''!'' = '': '' @ subject"
    using parts(1-3) by (auto simp: cut_prefix_def has_prefix_iff split: if_splits)
  have "h = t @ ''('' @ s @ '')'' @ r2"
    using d(1,2) parts(4,5) takeWhile_dropWhile_id [of lower_char h] takeWhile_dropWhile_id [of scope_char r1]
    by simp
  moreover have "r2 = '': '' @ subject \<or> r2 = ''!'' @ '': '' @ subject"
    using d(3) by (auto simp: trim_prefix_def has_prefix_iff split: if_splits)
  moreover have "list_all lower_char t" "list_all scope_char s"
    using parts(4,5) by (auto simp: list_all_iff dest: set_takeWhileD)
  ultimately show "\<exists>b. h = t @ ''('' @ s @ '')'' @ b @ '': '' @ subject \<and> b \<in> {[], ''!''} \<and>
        t \<noteq> [] \<and> s \<noteq> [] \<and> subject \<noteq> [] \<and> list_all lower_char t \<and> list_all scope_char s"
    using parts(6-8) by (elim disjE) (intro exI [of _ "[]"], simp, intro exI [of _ "''!''"], simp)
next
  assume "\<exists>b. h = t @ ''('' @ s @ '')'' @ b @ '': '' @ subject \<and> b \<in> {[], ''!''} \<and>
        t \<noteq> [] \<and> s \<noteq> [] \<and> subject \<noteq> [] \<and> list_all lower_char t \<and> list_all scope_char s"
  then obtain b where b: "h = t @ ''('' @ s @ '')'' @ b @ '': '' @ subject" "b \<in> {[], ''!''}"
    "t \<noteq> []" "s \<noteq> []" "subject \<noteq> []" "list_all lower_char t" "list_all scope_char s" by blast
  define rest where "rest = b @ '': '' @ subject"
  have h: "h = t @ CHR ''('' # s @ CHR '')'' # rest" by (simp add: b(1) rest_def)
  have "\<not> lower_char (CHR ''('')" "\<not> scope_char (CHR '')'')" by code_simp+
  then have w: "takeWhile lower_char h = t" "dropWhile lower_char h = CHR ''('' # s @ CHR '')'' # rest"
    "takeWhile scope_char (s @ CHR '')'' # rest) = s"
    "dropWhile scope_char (s @ CHR '')'' # rest) = CHR '')'' # rest"
    using takeWhile_stop [OF b(6)] takeWhile_stop [OF b(7)] by (simp_all add: h)
  have cut: "cut_prefix (c # r) [c] = Some r" for c :: char and r
    by (simp add: cut_prefix_def)
  have "trim_prefix rest ''!'' = '': '' @ subject"
    using b(2) by (auto simp: trim_prefix_def rest_def)
  then have "cut_prefix (trim_prefix rest ''!'') '': '' = Some subject" by (simp add: cut_prefix_def)
  then show "match_header h = Some (t, s, subject)"
    using b(3-5) by (simp add: match_header_def w cut Let_def)
qed

definition plain_char :: "char \<Rightarrow> bool" where
  "plain_char c \<longleftrightarrow> in_range 33 126 c"

lemma plain_not_space:
  assumes "plain_char c"
  shows "\<not> ascii_space c" "\<not> space2 c b" "\<not> space2 b c" "\<not> space3 c b d" "\<not> space3 b d c"
proof -
  have n: "33 \<le> (of_char c :: nat)" "(of_char c :: nat) \<le> 126"
    using assms by (simp_all add: plain_char_def in_range_def)
  show "\<not> ascii_space c" using n by (auto simp: ascii_space_def)
  show "\<not> space2 c b" "\<not> space2 b c" using n by (auto simp: space2_def)
  show "\<not> space3 c b d" "\<not> space3 b d c" using n by (auto simp: space3_def)
qed

lemma space_len_message: "plain_char c \<Longrightarrow> space_len (c # s) = 0 \<and> rspace_len (c # s) = 0"
  by (cases s rule: space_len.cases) (simp_all add: plain_not_space)

lemma trim_space_plain:
  assumes "list_all plain_char s"
  shows "trim_space s = s"
proof -
  have "trim_left_space s = s"
    using assms space_len_message by (cases s) (simp_all add: trim_left_space.simps)
  moreover have "list_all plain_char (rev s)" using assms by (simp add: list_all_iff)
  then have "trim_rspace (rev s) = rev s"
    using space_len_message by (cases "rev s") (simp_all add: trim_rspace.simps)
  ultimately show ?thesis by (simp add: trim_space_def)
qed

lemma scope_char_plain: "scope_char c \<Longrightarrow> plain_char c"
  by (auto simp: scope_char_def alnum_char_def digit_char_def upper_char_def plain_char_def in_range_def)

text \<open>What the lint asks of a header, as a specification.\<close>

definition conventional_header :: "any_map \<Rightarrow> string \<Rightarrow> bool" where
  "conventional_header options h \<longleftrightarrow>
     int (length h) \<le> int_option options ''max_header_length'' 150 \<and>
     (\<exists>t s b subject. h = t @ ''('' @ s @ '')'' @ b @ '': '' @ subject \<and> b \<in> {[], ''!''} \<and>
        t \<noteq> [] \<and> list_all lower_char t \<and>
        t \<in> set (string_slice_option options ''allowed_types'' default_commit_types) \<and>
        s \<noteq> [] \<and> list_all scope_char s \<and> trim_space subject \<noteq> [])"

text \<open>
  Property C26. What passes the lint, exactly: a message whose first line that is neither blank nor a
  comment starts with an ignored prefix, or is of the form \<open>type(scope): subject\<close>, possibly with a
  mark before the colon, with an allowed type, no longer than allowed, and followed by a blank line if
  anything follows.
\<close>

theorem commit_lint_exact:
  "validate_commit_message_text message options = [] \<longleftrightarrow>
     (\<exists>h rest. commit_message_lines message = h # rest \<and>
        (list_ex (has_prefix h) (string_slice_option options ''ignored_prefixes'' default_ignored_commit_prefixes) \<or>
         conventional_header options h \<and>
         (rest = [] \<or> trim_space (hd rest) = [] \<or> list_all (\<lambda>l. trim_space l = []) rest)))"
proof (cases "commit_message_lines message")
  case Nil
  then show ?thesis by (simp add: validate_commit_message_text_def)
next
  case (Cons h rest)
  show ?thesis
  proof (cases "match_header h")
    case None
    then have "\<not> conventional_header options h"
      using match_header_iff [of h] by (fastforce simp: conventional_header_def)
    with None Cons show ?thesis by (simp add: validate_commit_message_text_def Let_def)
  next
    case (Some m)
    then obtain t s subject where m: "match_header h = Some (t, s, subject)" by (cases m) auto
    then have parts: "s \<noteq> []" "list_all scope_char s" by (auto simp: match_header_iff)
    then have "trim_space s \<noteq> []"
      using trim_space_plain [of s] scope_char_plain by (auto simp: list_all_iff)
    moreover have "conventional_header options h \<longleftrightarrow>
        int (length h) \<le> int_option options ''max_header_length'' 150 \<and>
        t \<in> set (string_slice_option options ''allowed_types'' default_commit_types) \<and>
        trim_space subject \<noteq> []"
    proof
      assume "conventional_header options h"
      then obtain t' s' b' subject' where c: "int (length h) \<le> int_option options ''max_header_length'' 150"
        "h = t' @ ''('' @ s' @ '')'' @ b' @ '': '' @ subject'" "b' \<in> {[], ''!''}" "t' \<noteq> []"
        "list_all lower_char t'" "t' \<in> set (string_slice_option options ''allowed_types'' default_commit_types)"
        "s' \<noteq> []" "list_all scope_char s'" "trim_space subject' \<noteq> []"
        unfolding conventional_header_def by blast
      then have "match_header h = Some (t', s', subject')"
        unfolding match_header_iff by (intro exI [of _ b']) auto
      with m c show "int (length h) \<le> int_option options ''max_header_length'' 150 \<and>
        t \<in> set (string_slice_option options ''allowed_types'' default_commit_types) \<and>
        trim_space subject \<noteq> []" by simp
    next
      assume "int (length h) \<le> int_option options ''max_header_length'' 150 \<and>
        t \<in> set (string_slice_option options ''allowed_types'' default_commit_types) \<and>
        trim_space subject \<noteq> []"
      with m show "conventional_header options h"
        unfolding match_header_iff conventional_header_def by blast
    qed
    ultimately show ?thesis using Cons m
      by (auto simp: validate_commit_message_text_def Let_def commit_has_body_or_footer_def
          list_ex_iff list_all_iff)
  qed
qed

section \<open>Attributions are refused\<close>

lemma names_regex_consumes [simp]: "consumes (names_regex names)"
  by (auto simp: names_regex_def Let_def list_all_iff intro!: consumes_alt)

lemma by_with_using_consumes [simp]: "consumes by_with_using"
  by (simp add: by_with_using_def)

lemmas attribution_shrinks [simp] =
  consumes_shrinks [OF consumes_some] consumes_shrinks [OF names_regex_consumes]
  consumes_shrinks [OF by_with_using_consumes]

lemma attribution_patterns_consume: "r \<in> set (attribution_patterns names) \<Longrightarrow> consumes r"
  by (auto simp: attribution_patterns_def Let_def robot_def intro!: consumes_seq)

lemma first_match_found:
  assumes "r \<in> set rs" and "list_all consumes rs" and "r t \<noteq> []"
  shows "first_match rs (pre @ t) \<noteq> None"
  using assms(1,2)
proof (induction rs)
  case (Cons q qs)
  show ?case
  proof (cases "find_string q (pre @ t)")
    case None
    then have "q \<noteq> r" using find_string_found [of r t pre] assms(3) by auto
    with None Cons show ?thesis by auto
  next
    case (Some m)
    with Cons.prems find_string_nonempty [of q "pre @ t" m] show ?thesis by simp
  qed
qed simp

lemma names_regex_match:
  assumes "name \<in> set names" and "name \<noteq> []" and "to_lower x = to_lower name"
  shows "post \<in> set (names_regex names (x @ post))"
proof -
  have "name \<in> set (filter (\<lambda>n. n \<noteq> []) names)" using assms(1,2) by simp
  moreover from this have "filter (\<lambda>n. n \<noteq> []) names \<noteq> []" by (metis empty_iff list.set(1))
  ultimately show ?thesis
    unfolding names_regex_def re_alt_def Let_def using re_fold_match [OF assms(3), of post]
    by (auto intro!: bexI [of _ name])
qed

lemma re_fold_seq: "to_lower x = to_lower w \<Longrightarrow> u \<in> set (re_seq rs t) \<Longrightarrow> u \<in> set (re_seq (re_fold w # rs) (x @ t))"
  by (rule re_seq_Cons [of t]) (simp_all add: re_fold_match)

lemma to_lower_append: "to_lower s = u @ v \<Longrightarrow> \<exists>x y. s = x @ y \<and> to_lower x = u \<and> to_lower y = v"
  unfolding to_lower_def by (auto simp: map_eq_append_conv)

lemma re_opt_left: "t \<in> set (r s) \<Longrightarrow> t \<in> set (re_opt r s)"
  by (simp add: re_opt_def)

text \<open>The trailers of the first two patterns, in any case, and one blank.\<close>

definition trailers :: "string list" where
  "trailers = [''co-authored-by: '', ''signed-off-by: '']"

lemma trailer_matches:
  assumes "trailer \<in> set trailers" and "to_lower x = trailer @ to_lower name"
    and "name \<in> set names" and "name \<noteq> []"
  shows "\<exists>r \<in> set (attribution_patterns names). post \<in> set (r (x @ post))"
proof -
  have blank: "regexp_space c" if "lower_byte c = CHR '' ''" for c
  proof (cases "65 \<le> (of_char c :: nat) \<and> (of_char c :: nat) \<le> 90")
    case True
    have "(of_char (lower_byte c) :: nat) = 32" by (simp add: that)
    with True show ?thesis by (simp add: lower_byte_def)
  next
    case False
    with that show ?thesis by (auto simp: lower_byte_def regexp_space_def)
  qed
  have seq: "post \<in> set (re_seq [re_fold a, re_opt (re_fold ''-''), re_fold b, re_opt (re_fold ''-''),
        re_fold ''by:'', re_many regexp_space, names_regex names] (x @ post))"
    if x: "to_lower x = a @ ''-'' @ b @ ''-'' @ ''by:'' @ '' '' @ to_lower name"
      and low: "to_lower a = a" "to_lower b = b" for a b
  proof -
    obtain x1 r1 where 1: "x = x1 @ r1" "to_lower x1 = a" "to_lower r1 = ''-'' @ b @ ''-'' @ ''by:'' @ '' '' @ to_lower name"
      using to_lower_append [OF x] by blast
    obtain x2 r2 where 2: "r1 = x2 @ r2" "to_lower x2 = ''-''" "to_lower r2 = b @ ''-'' @ ''by:'' @ '' '' @ to_lower name"
      using to_lower_append [OF 1(3)] by blast
    obtain x3 r3 where 3: "r2 = x3 @ r3" "to_lower x3 = b" "to_lower r3 = ''-'' @ ''by:'' @ '' '' @ to_lower name"
      using to_lower_append [OF 2(3)] by blast
    obtain x4 r4 where 4: "r3 = x4 @ r4" "to_lower x4 = ''-''" "to_lower r4 = ''by:'' @ '' '' @ to_lower name"
      using to_lower_append [OF 3(3)] by blast
    obtain x5 r5 where 5: "r4 = x5 @ r5" "to_lower x5 = ''by:''" "to_lower r5 = '' '' @ to_lower name"
      using to_lower_append [OF 4(3)] by blast
    obtain x6 r6 where 6: "r5 = x6 @ r6" "to_lower x6 = '' ''" "to_lower r6 = to_lower name"
      using to_lower_append [OF 5(3)] by blast
    have dash: "to_lower ''-'' = ''-''" "to_lower ''by:'' = ''by:''" by code_simp+
    have "list_all regexp_space x6" using 6(2) blank by (auto simp: to_lower_def)
    then have "r6 @ post \<in> set (re_many regexp_space (x6 @ r6 @ post))" by (rule re_many_suffix)
    moreover have "post \<in> set (re_seq [names_regex names] (r6 @ post))"
      using names_regex_match [OF assms(3,4) 6(3), of post] by simp
    ultimately have "post \<in> set (re_seq [re_many regexp_space, names_regex names] (r5 @ post))"
      unfolding 6(1) append_assoc by (rule re_seq_Cons)
    then have "post \<in> set (re_seq [re_fold ''by:'', re_many regexp_space, names_regex names] (r4 @ post))"
      unfolding 5(1) append_assoc by (intro re_fold_seq) (simp add: 5(2) dash)
    then have "post \<in> set (re_seq [re_opt (re_fold ''-''), re_fold ''by:'', re_many regexp_space, names_regex names] (r3 @ post))"
      unfolding 4(1) append_assoc
      by (rule re_seq_Cons [rotated]) (simp add: re_opt_left re_fold_match 4(2) dash)
    then have "post \<in> set (re_seq [re_fold b, re_opt (re_fold ''-''), re_fold ''by:'', re_many regexp_space, names_regex names] (r2 @ post))"
      unfolding 3(1) append_assoc by (intro re_fold_seq) (simp add: 3(2) low)
    then have "post \<in> set (re_seq [re_opt (re_fold ''-''), re_fold b, re_opt (re_fold ''-''), re_fold ''by:'', re_many regexp_space, names_regex names] (r1 @ post))"
      unfolding 2(1) append_assoc
      by (rule re_seq_Cons [rotated]) (simp add: re_opt_left re_fold_match 2(2) dash)
    then show ?thesis
      unfolding 1(1) append_assoc by (intro re_fold_seq) (simp add: 1(2) low)
  qed
  have low: "to_lower ''co'' = ''co''" "to_lower ''authored'' = ''authored''"
    "to_lower ''signed'' = ''signed''" "to_lower ''off'' = ''off''" by code_simp+
  from assms(1) consider "trailer = ''co-authored-by: ''" | "trailer = ''signed-off-by: ''"
    by (auto simp: trailers_def)
  then show ?thesis
  proof cases
    case 1
    then show ?thesis using seq [of "''co''" "''authored''"] assms(2) low
      by (simp add: attribution_patterns_def Let_def del: re_seq.simps)
  next
    case 2
    then show ?thesis using seq [of "''signed''" "''off''"] assms(2) low
      by (simp add: attribution_patterns_def Let_def del: re_seq.simps)
  qed
qed

lemma concat_map_nonempty: "z \<in> set zs \<Longrightarrow> f z \<noteq> [] \<Longrightarrow> concat (map f zs) \<noteq> []"
  by auto

lemma forbidden_found:
  assumes "message \<in> set messages" and "line \<in> set (split_on (CHR 0x0A) message)"
    and "trim_space line = pre @ t" and "pre @ t \<noteq> []" and "\<not> has_prefix (pre @ t) ''#''"
    and "r \<in> set (attribution_patterns names)" and "r t \<noteq> []"
  shows "forbidden_attribution_matches E messages names \<noteq> []"
proof -
  let ?lines = "split_on (CHR 0x0A) message"
  have "list_all consumes (attribution_patterns names)"
    using attribution_patterns_consume by (simp add: list_all_iff)
  from first_match_found [OF assms(6) this assms(7), of pre]
  have found: "line_attribution E (attribution_patterns names) number line \<noteq> []" for number
    using assms(4,5) by (auto simp: line_attribution_def assms(3) Let_def)
  obtain i where i: "i < length ?lines" "?lines ! i = line"
    using assms(2) by (metis in_set_conv_nth)
  then have "([1..<Suc (length ?lines)] ! i, line) \<in> set (zip [1..<Suc (length ?lines)] ?lines)"
    unfolding set_zip using i by (auto simp del: upt_Suc intro!: exI [of _ i])
  then obtain k where k: "(k, line) \<in> set (zip [1..<Suc (length ?lines)] ?lines)" by blast
  have "concat (map (\<lambda>(number, line). line_attribution E (attribution_patterns names) number line)
      (zip [1..<Suc (length ?lines)] ?lines)) \<noteq> []"
    by (rule concat_map_nonempty [OF k]) (simp add: found)
  then show ?thesis
    unfolding forbidden_attribution_matches_def Let_def by (rule concat_map_nonempty [OF assms(1)])
qed

text \<open>
  Property C25. A co-author or sign-off trailer with a refused name is blocked, wherever it stands in a
  line and however it is cased: when a message of the commit, from its arguments or its file, has an
  uncommented line with such a trailer, the evaluator blocks.
\<close>

theorem attribution_blocked:
  assumes "commit_messages_from_context E ctx = Inr messages" and "message \<in> set messages"
    and "line \<in> set (split_on (CHR 0x0A) message)" and "trim_space line = pre @ x @ post"
    and "\<not> has_prefix (trim_space line) ''#''"
    and "trailer \<in> set trailers" and "to_lower x = trailer @ to_lower name"
    and "name \<in> set (attribution_names ctx)" and "name \<noteq> []"
  shows "\<exists>d. EvaluateGitCommitAttribution E pol ctx = Inr [d] \<and> decision_blocks d"
proof -
  obtain r where r: "r \<in> set (attribution_patterns (attribution_names ctx))" "r (x @ post) \<noteq> []"
    using trailer_matches [OF assms(6-9), of post] by force
  have "pre @ x @ post \<noteq> []"
    using assms(7) \<open>name \<noteq> []\<close> by (auto simp: to_lower_def)
  then have "forbidden_attribution_matches E messages (attribution_names ctx) \<noteq> []"
    using forbidden_found [OF assms(2,3) assms(4) _ _ r] assms(4,5) by simp
  then show ?thesis using assms(1,2)
    by (auto simp: EvaluateGitCommitAttribution_def NewDecision_def decision_blocks_def Let_def)
qed

definition sample_commit_env :: "'n commit_env" where
  "sample_commit_env =
     \<lparr>ce_bash = \<lparr>bash_parse = (\<lambda>_. Inr []), bash_print = (\<lambda>_. None), bash_walk = (\<lambda>_. []),
        bash_pos = (\<lambda>_. None)\<rparr>,
      ce_read_file = (\<lambda>_. None), ce_quote = (\<lambda>s. s)\<rparr>"

definition sample_commit_policy :: policy where
  "sample_commit_policy =
     \<lparr>pol_source = \<lparr>source_file = [], source_path = []\<rparr>, pol_category = ''git'',
      pol_default_severity = ''error'', pol_id = ''git.attribution'', pol_message = ''no'',
      pol_suggestion = [], pol_evaluators = [], pol_principle_ids = []\<rparr>"

definition sample_commit_context :: "string \<Rightarrow> eval_context" where
  "sample_commit_context message = empty_context\<lparr>ctx_argv := [''git'', ''commit'', ''-m'', message]\<rparr>"

lemma sample_commit_messages:
  "\<not> has_prefix (trim_space message) ''$('' \<Longrightarrow>
   commit_messages_from_context (sample_commit_env :: unit commit_env) (sample_commit_context message) =
     Inr [message]"
proof -
  assume plain: "\<not> has_prefix (trim_space message) ''$(''"
  have argv: "commit_messages_from_argv (sample_commit_env :: unit commit_env) ([] @ [''git'', ''commit''] @
      concat (map (\<lambda>m. [''-m'', m]) [message])) [] [] = Inr [message]"
    unfolding commit_messages_from_argv_def git_args_after_subcommand_def strip_leading_assignments_def
    using plain message_fragments_m [of "sample_commit_env :: unit commit_env" "[]" "[]" "[message]"]
    by (simp add: is_shell_assignment_def str_cut_def normalize_commit_message_value_def
        CatHeredocCommandSubstitution_def Let_def del: message_fragments.simps)
  have "is_git_subcommand [''git'', ''commit'', ''-m'', message] ''commit''"
    by (simp add: is_git_subcommand_def is_git_def git_subcommand_def strip_leading_assignments_def
        is_shell_assignment_def str_cut_def)
  then show ?thesis using argv
    by (simp add: commit_messages_from_context_def sample_commit_context_def empty_context_def)
qed

theorem attribution_blocked_witness:
  "\<exists>d. EvaluateGitCommitAttribution (sample_commit_env :: unit commit_env) sample_commit_policy
     (sample_commit_context ''Co-Authored-By: Claude'') = Inr [d] \<and> decision_blocks d"
proof -
  let ?m = "''Co-Authored-By: Claude''"
  have t: "trim_space ?m = [] @ ?m @ []" "\<not> has_prefix (trim_space ?m) ''#''" "\<not> has_prefix (trim_space ?m) ''$(''"
    "?m \<in> set (split_on (CHR 0x0A) ?m)" "to_lower ?m = ''co-authored-by: '' @ to_lower ''claude''"
    "''claude'' \<in> set (attribution_names (sample_commit_context ?m))"
    by code_simp+
  show ?thesis
    by (rule attribution_blocked [OF sample_commit_messages [OF t(3)] _ t(4,1,2) _ t(5,6)])
      (simp_all add: trailers_def)
qed

theorem commit_messages_found_witness:
  "commit_messages_from_argv (sample_commit_env :: unit commit_env)
     ([''A=b''] @ [''git'', ''commit''] @ concat (map (\<lambda>m. [''-m'', m]) [''x'', ''y''])) [] [] =
   Inr [str_join [CHR 0x0A, CHR 0x0A] (map (normalize_commit_message_value (sample_commit_env :: unit commit_env)) [''x'', ''y''])]"
proof (rule commit_messages_found)
  show "list_all is_shell_assignment [''A=b'']" by code_simp
qed simp

end
