(* ===== verification/CommitHead.thy ===== *)
theory CommitHead
  imports CommitMessage
begin

text \<open>
  \<open>go/internal/evaluators/git_commit_head.go\<close>: before a \<open>git commit\<close> runs, the head of the branch is
  recorded in a file of the work tree; afterwards the evaluator reads it back, removes it, and blocks when a
  commit that reported success did not move the head. What git answers comes with the world; the
  files are a map from paths to the recorded state, or to something that does not decode.
\<close>

section \<open>The world\<close>

record commit_head_state =
  chs_command :: string
  chs_cwd :: string
  chs_head :: string
  chs_argv :: "string list"

datatype state_file = Recorded commit_head_state | Undecodable

text \<open>
  \<open>cw_root\<close> and \<open>cw_head\<close> are the answers of \<open>git rev-parse\<close>, \<open>None\<close> when it fails; \<open>cw_unwritable\<close>
  are the paths that cannot be written.
\<close>

record commit_world =
  cw_root :: "string \<Rightarrow> string option"
  cw_head :: "string \<Rightarrow> string option"
  cw_unwritable :: "string list"
  cw_files :: "string \<rightharpoonup> state_file"

datatype commit_head_error = NoWorktree | WriteState string | DecodeState string

text \<open>Every failure of git is \<open>errNoHead\<close>, which the callers take for an empty head.\<close>

definition current_head :: "commit_world \<Rightarrow> string \<Rightarrow> string" where
  "current_head w cwd = (case cw_head w cwd of None \<Rightarrow> [] | Some h \<Rightarrow> trim_space h)"

definition commit_head_state_path :: "commit_world \<Rightarrow> string \<Rightarrow> string option" where
  "commit_head_state_path w cwd =
     map_option (\<lambda>root. path_join [trim_space root, ''.coding-ethos'', ''state'', ''commit-head.json''])
       (cw_root w cwd)"

definition read_commit_head_state_path ::
  "commit_world \<Rightarrow> string \<Rightarrow> commit_head_error + commit_head_state option" where
  "read_commit_head_state_path w path =
     (case cw_files w path of
        None \<Rightarrow> Inr None
      | Some Undecodable \<Rightarrow> Inl (DecodeState path)
      | Some (Recorded s) \<Rightarrow> Inr (Some s))"

definition ReadCommitHeadState :: "commit_world \<Rightarrow> string \<Rightarrow> commit_head_error + bool" where
  "ReadCommitHeadState w cwd =
     (case commit_head_state_path w cwd of
        None \<Rightarrow> Inl NoWorktree
      | Some path \<Rightarrow>
          (case read_commit_head_state_path w path of
             Inl err \<Rightarrow> Inl err
           | Inr s \<Rightarrow> Inr (s \<noteq> None)))"

section \<open>Decisions\<close>

definition commit_head_evidence :: "string \<Rightarrow> string \<Rightarrow> bool \<Rightarrow> any_map" where
  "commit_head_evidence pre_head post_head advanced =
     [(''phase'', AString ''post''), (''pre_head'', AString pre_head), (''advanced'', ABool advanced)] @
     (if post_head \<noteq> [] then [(''post_head'', AString post_head)] else [])"

definition commit_head_record_decision ::
  "policy \<Rightarrow> string \<Rightarrow> string \<Rightarrow> string \<Rightarrow> int \<Rightarrow> decision list" where
  "commit_head_record_decision pol pre_head post_head skipped return_code =
     [(NewDecision ''record'' pol)
        \<lparr>dec_severity := ''record'',
         dec_evidence := commit_head_evidence pre_head post_head False @
           [(''skipped'', AString skipped)] @
           (if return_code \<noteq> 0 then [(''return_code'', AInt return_code)] else [])\<rparr>]"

definition commit_head_advanced_decision :: "policy \<Rightarrow> string \<Rightarrow> string \<Rightarrow> decision list" where
  "commit_head_advanced_decision pol pre_head post_head =
     [(NewDecision ''record'' pol)
        \<lparr>dec_severity := ''record'', dec_evidence := commit_head_evidence pre_head post_head True\<rparr>]"

definition commit_head_blocked_decision :: "policy \<Rightarrow> string \<Rightarrow> string \<Rightarrow> decision list" where
  "commit_head_blocked_decision pol pre_head post_head =
     [(NewDecision ''block'' pol)
        \<lparr>dec_severity := ''block'',
         dec_evidence := commit_head_evidence pre_head post_head False @
           [(''skipped'', AString ''commit head did not advance'')]\<rparr>]"

section \<open>The two phases\<close>

definition record_commit_head ::
  "policy \<Rightarrow> eval_context \<Rightarrow> commit_world \<Rightarrow> (commit_head_error + decision list) \<times> commit_world" where
  "record_commit_head pol ctx w =
     (let head = current_head w (ctx_cwd ctx);
          s = \<lparr>chs_command = ctx_command ctx, chs_cwd = ctx_cwd ctx, chs_head = head,
               chs_argv = ctx_argv ctx\<rparr>
      in case commit_head_state_path w (ctx_cwd ctx) of
           None \<Rightarrow> (Inl NoWorktree, w)
         | Some path \<Rightarrow>
             if path \<in> set (cw_unwritable w) then (Inl (WriteState path), w)
             else (Inr [(NewDecision ''record'' pol)
                     \<lparr>dec_severity := ''record'',
                      dec_evidence := [(''phase'', AString ''pre''), (''pre_head'', AString head)]\<rparr>],
                   w\<lparr>cw_files := (cw_files w)(path \<mapsto> Recorded s)\<rparr>))"

definition verify_commit_head ::
  "policy \<Rightarrow> eval_context \<Rightarrow> commit_world \<Rightarrow> (commit_head_error + decision list) \<times> commit_world" where
  "verify_commit_head pol ctx w =
     (case commit_head_state_path w (ctx_cwd ctx) of
        None \<Rightarrow> (Inr [], w)
      | Some path \<Rightarrow>
          (case read_commit_head_state_path w path of
             Inl err \<Rightarrow> (Inl err, w)
           | Inr None \<Rightarrow> (Inr [], w)
           | Inr (Some s) \<Rightarrow>
               (let pre_head = chs_head s;
                    head = current_head w (ctx_cwd ctx)
                in (Inr (if \<not> ctx_has_tool_response ctx
                         then commit_head_record_decision pol pre_head [] ''missing tool response'' 0
                         else if \<not> ctx_has_return_code ctx
                         then commit_head_record_decision pol pre_head [] ''missing tool return code'' 0
                         else if ctx_return_code ctx \<noteq> 0
                         then commit_head_record_decision pol pre_head [] ''commit command failed''
                                (ctx_return_code ctx)
                         else if pre_head \<noteq> head then commit_head_advanced_decision pol pre_head head
                         else commit_head_blocked_decision pol pre_head head),
                    w\<lparr>cw_files := (cw_files w)(path := None)\<rparr>))))"

definition EvaluateGitCommitHeadAdvanced ::
  "policy \<Rightarrow> eval_context \<Rightarrow> commit_world \<Rightarrow> (commit_head_error + decision list) \<times> commit_world" where
  "EvaluateGitCommitHeadAdvanced pol ctx w =
     (if \<not> is_git_subcommand (ctx_argv ctx) ''commit'' then (Inr [], w)
      else if ctx_scope ctx = ''PreToolUse'' then record_commit_head pol ctx w
      else if ctx_scope ctx = ''PostToolUse'' then verify_commit_head pol ctx w
      else (Inr [], w))"

section \<open>Before and after\<close>

text \<open>What a tool call may do between the phases: move the head, and not touch the recorded state.\<close>

definition tool_ran :: "commit_world \<Rightarrow> commit_world \<Rightarrow> bool" where
  "tool_ran w w' \<longleftrightarrow> cw_root w' = cw_root w \<and> cw_files w' = cw_files w"

text \<open>
  Fact. A commit that claims success must move the head: when the state was recorded before a
  \<open>git commit\<close> and the tool call reports the return code 0, the evaluation afterwards blocks exactly
  when the head is the one recorded; in every case the recorded state is gone then, so that no other
  evaluation reads it.
\<close>

theorem unmoved_head_blocks:
  assumes "is_git_subcommand (ctx_argv pre) ''commit''" and "is_git_subcommand (ctx_argv post) ''commit''"
    and "ctx_scope pre = ''PreToolUse''" and "ctx_scope post = ''PostToolUse''"
    and "ctx_cwd post = ctx_cwd pre"
    and "EvaluateGitCommitHeadAdvanced pol pre w = (Inr ds, w1)" and "tool_ran w1 w2"
    and "ctx_has_tool_response post" and "ctx_has_return_code post" and "ctx_return_code post = 0"
  shows "\<exists>es w3. EvaluateGitCommitHeadAdvanced pol post w2 = (Inr es, w3) \<and>
    ((\<exists>d \<in> set es. decision_blocks d) \<longleftrightarrow> current_head w2 (ctx_cwd pre) = current_head w (ctx_cwd pre)) \<and>
    ReadCommitHeadState w3 (ctx_cwd pre) = Inr False"
proof -
  obtain path where path: "commit_head_state_path w (ctx_cwd pre) = Some path"
    and w1: "w1 = w\<lparr>cw_files := (cw_files w)(path \<mapsto> Recorded
      \<lparr>chs_command = ctx_command pre, chs_cwd = ctx_cwd pre, chs_head = current_head w (ctx_cwd pre),
       chs_argv = ctx_argv pre\<rparr>)\<rparr>"
    using assms(1,3,6)
    by (auto simp: EvaluateGitCommitHeadAdvanced_def record_commit_head_def Let_def
        split: option.splits if_splits)
  have path2: "commit_head_state_path w2 (ctx_cwd pre) = Some path"
    using path assms(7) by (simp add: commit_head_state_path_def tool_ran_def w1)
  have s: "read_commit_head_state_path w2 path = Inr (Some
      \<lparr>chs_command = ctx_command pre, chs_cwd = ctx_cwd pre, chs_head = current_head w (ctx_cwd pre),
       chs_argv = ctx_argv pre\<rparr>)"
    using assms(7) by (simp add: read_commit_head_state_path_def tool_ran_def w1)
  have "commit_head_state_path (w2\<lparr>cw_files := fs\<rparr>) (ctx_cwd pre) = Some path" for fs
    using path2 by (simp add: commit_head_state_path_def)
  with assms(2,4,5,8,9,10) path2 s show ?thesis
    by (auto simp: EvaluateGitCommitHeadAdvanced_def verify_commit_head_def Let_def ReadCommitHeadState_def
        read_commit_head_state_path_def commit_head_advanced_decision_def commit_head_blocked_decision_def
        decision_blocks_def NewDecision_def)
qed

definition sample_commit_world :: "string \<Rightarrow> commit_world" where
  "sample_commit_world head =
     \<lparr>cw_root = (\<lambda>_. Some ''/r''), cw_head = (\<lambda>_. Some head), cw_unwritable = [], cw_files = Map.empty\<rparr>"

theorem unmoved_head_blocks_witness:
  "let pre = (sample_commit_context ''x'')\<lparr>ctx_scope := ''PreToolUse''\<rparr>;
       post = (sample_commit_context ''x'')\<lparr>ctx_scope := ''PostToolUse'', ctx_has_tool_response := True,
                ctx_has_return_code := True\<rparr>;
       w1 = snd (EvaluateGitCommitHeadAdvanced sample_commit_policy pre (sample_commit_world ''abc''))
   in \<exists>es. fst (EvaluateGitCommitHeadAdvanced sample_commit_policy post w1) = Inr es \<and>
        (\<exists>d \<in> set es. decision_blocks d)"
proof -
  let ?pre = "(sample_commit_context ''x'')\<lparr>ctx_scope := ''PreToolUse''\<rparr>"
  let ?post = "(sample_commit_context ''x'')\<lparr>ctx_scope := ''PostToolUse'', ctx_has_tool_response := True,
                ctx_has_return_code := True\<rparr>"
  let ?w = "sample_commit_world ''abc''"
  have g: "is_git_subcommand (ctx_argv ?pre) ''commit''" "is_git_subcommand (ctx_argv ?post) ''commit''"
    by code_simp+
  obtain ds w1 where e: "EvaluateGitCommitHeadAdvanced sample_commit_policy ?pre ?w = (Inr ds, w1)"
    "w1 = snd (EvaluateGitCommitHeadAdvanced sample_commit_policy ?pre ?w)"
    using g(1) by (simp add: EvaluateGitCommitHeadAdvanced_def record_commit_head_def Let_def
        commit_head_state_path_def sample_commit_world_def)
  then have "current_head w1 (ctx_cwd ?pre) = current_head ?w (ctx_cwd ?pre)"
    using g(1) by (auto simp: EvaluateGitCommitHeadAdvanced_def record_commit_head_def Let_def current_head_def
        split: option.splits if_splits)
  with unmoved_head_blocks [OF g _ _ _ e(1), of w1] show ?thesis
    unfolding Let_def e(2) [symmetric]
    by (simp add: tool_ran_def sample_commit_context_def empty_context_def) force
qed

end
