(* ===== verification/Catalog.thy ===== *)
theory Catalog
  imports Diagnostics Paths "HOL-Library.Sublist"
begin

text \<open>
  \<open>go/toolcatalog\<close>: the table of the external tools (\<open>catalog.go\<close>) with the functions that look a
  tool up, and the arguments with which a tool is run so that its output can be parsed
  (\<open>capture.go\<close>). A slice is a list; the copies the code makes of its slices are the same lists.
\<close>

section \<open>The records\<close>

datatype runtime = RuntimeUnset | RuntimeBinary | RuntimeGo | RuntimeNPM | RuntimePython | RuntimeUV

record capability_spec =
  cap_sandbox_profile :: string
  cap_seccomp_profile_path :: string
  cap_seccomp_profile :: string
  cap_tags :: "string list"
  cap_read_paths :: "string list"
  cap_write_paths :: "string list"
  cap_cpu_quota_percent :: int
  cap_memory_mb :: int
  cap_timeout_seconds :: int
  cap_requires_network :: bool
  cap_requires_git :: bool
  cap_requires_env :: bool
  cap_requires_processes :: bool

definition no_capabilities :: capability_spec where
  "no_capabilities =
    \<lparr>cap_sandbox_profile = [], cap_seccomp_profile_path = [], cap_seccomp_profile = [],
     cap_tags = [], cap_read_paths = [], cap_write_paths = [], cap_cpu_quota_percent = 0,
     cap_memory_mb = 0, cap_timeout_seconds = 0, cap_requires_network = False,
     cap_requires_git = False, cap_requires_env = False, cap_requires_processes = False\<rparr>"

record catalog_tool =
  tool_fallback_bundle_config :: string
  tool_name :: string
  tool_managed_binary :: string
  tool_parser :: string
  tool_diagnostic_kind :: string
  tool_category :: string
  tool_output_format :: string
  tool_advice :: string
  tool_runtime :: runtime
  tool_repo_config :: string
  tool_capture_output_args :: "string list"
  tool_file_prefixes :: "string list"
  tool_base_name_prefixes :: "string list"
  tool_command :: "string list"
  tool_capture_after_first :: "string list"
  tool_capture_mutating_args :: "string list"
  tool_capture_mutating_first :: "string list"
  tool_config_flags :: "string list"
  tool_file_extensions :: "string list"
  tool_capture_strip_flags :: "string list"
  tool_capture_strip_args :: "string list"
  tool_parser_aliases :: "string list"
  tool_languages :: "string list"
  tool_post_config_args :: "string list"
  tool_capabilities :: capability_spec
  tool_pass_files_as_args :: bool
  tool_use_hook_project :: bool
  tool_fast :: bool
  tool_captured :: bool
  tool_enabled_by_default :: bool

text \<open>The zero value \<open>Tool{}\<close>, which a composite literal fills in.\<close>

definition no_tool :: catalog_tool where
  "no_tool =
    \<lparr>tool_fallback_bundle_config = [],
     tool_name = [],
     tool_managed_binary = [],
     tool_parser = [],
     tool_diagnostic_kind = [],
     tool_category = [],
     tool_output_format = [],
     tool_advice = [],
     tool_runtime = RuntimeUnset,
     tool_repo_config = [],
     tool_capture_output_args = [],
     tool_file_prefixes = [],
     tool_base_name_prefixes = [],
     tool_command = [],
     tool_capture_after_first = [],
     tool_capture_mutating_args = [],
     tool_capture_mutating_first = [],
     tool_config_flags = [],
     tool_file_extensions = [],
     tool_capture_strip_flags = [],
     tool_capture_strip_args = [],
     tool_parser_aliases = [],
     tool_languages = [],
     tool_post_config_args = [],
     tool_capabilities = no_capabilities,
     tool_pass_files_as_args = False,
     tool_use_hook_project = False,
     tool_fast = False,
     tool_captured = False,
     tool_enabled_by_default = False\<rparr>"

definition advice_text :: "string list \<Rightarrow> string" where
  "advice_text parts = str_join '' '' parts"

section \<open>The table\<close>

definition ruff_tool :: catalog_tool where
  "ruff_tool = no_tool\<lparr>tool_name := ''ruff'',
     tool_parser := ''ruff'',
     tool_parser_aliases := [''ruff-autofix'', ''ruff-format''],
     tool_captured := True,
     tool_category := ''python-static'',
     tool_output_format := ''json'',
     tool_advice := advice_text [''Fix Ruff diagnostics structurally; do not suppress unless the'',
        ''policy requires a documented exception.''],
     tool_runtime := RuntimePython,
     tool_command := [''ruff'', ''check'', ''--quiet'', ''--ignore-noqa'', ''--output-format'',
        ''json''],
     tool_capture_output_args := [''--output-format=json''],
     tool_capture_strip_args := [''--output-format''],
     tool_capture_after_first := [''check''],
     tool_capture_mutating_args := [''--fix'', ''--fix-only'', ''--unsafe-fixes''],
     tool_capture_mutating_first := [''format''],
     tool_config_flags := [''--config''],
     tool_languages := [''python''],
     tool_repo_config := ''ruff.toml'',
     tool_pass_files_as_args := True,
     tool_use_hook_project := True,
     tool_fast := True,
     tool_enabled_by_default := True\<rparr>"

definition pyright_tool :: catalog_tool where
  "pyright_tool = no_tool\<lparr>tool_name := ''pyright'',
     tool_parser := ''pyright'',
     tool_captured := True,
     tool_category := ''python-static'',
     tool_output_format := ''json'',
     tool_advice := advice_text [''Fix Pyright type diagnostics with precise interfaces and'',
        ''validated imports.''],
     tool_runtime := RuntimePython,
     tool_command := [''pyright'', ''--outputjson''],
     tool_capture_output_args := [''--outputjson''],
     tool_capture_strip_flags := [''--outputjson''],
     tool_config_flags := [''--project'', ''-p''],
     tool_languages := [''python''],
     tool_repo_config := ''pyrightconfig.json'',
     tool_fallback_bundle_config := ''hooks/pyproject.toml'',
     tool_pass_files_as_args := True,
     tool_use_hook_project := True,
     tool_enabled_by_default := True\<rparr>"

definition mypy_tool :: catalog_tool where
  "mypy_tool = no_tool\<lparr>tool_name := ''mypy'',
     tool_parser := ''mypy'',
     tool_captured := True,
     tool_category := ''python-static'',
     tool_output_format := ''json'',
     tool_advice := advice_text [''Fix mypy diagnostics with explicit types rather than weakening'',
        ''required behavior.''],
     tool_runtime := RuntimePython,
     tool_command := [''mypy'', ''--output'', ''json''],
     tool_capture_output_args := [''--output=json''],
     tool_capture_strip_args := [''--output'', ''-O''],
     tool_config_flags := [''--config-file''],
     tool_languages := [''python''],
     tool_repo_config := ''mypy.ini'',
     tool_fallback_bundle_config := ''hooks/pyproject.toml'',
     tool_pass_files_as_args := True,
     tool_use_hook_project := True,
     tool_enabled_by_default := True\<rparr>"

definition pylint_tool :: catalog_tool where
  "pylint_tool = no_tool\<lparr>tool_name := ''pylint'',
     tool_parser := ''pylint'',
     tool_captured := True,
     tool_category := ''python-static'',
     tool_output_format := ''json'',
     tool_advice := advice_text [''Fix Pylint findings by simplifying structure before'',
        ''considering local disables.''],
     tool_runtime := RuntimePython,
     tool_command := [''pylint'', ''--output-format=json''],
     tool_capture_output_args := [''--output-format=json''],
     tool_capture_strip_args := [''--output-format'', ''-f''],
     tool_config_flags := [''--rcfile''],
     tool_languages := [''python''],
     tool_repo_config := ''.pylintrc'',
     tool_pass_files_as_args := True,
     tool_use_hook_project := True,
     tool_enabled_by_default := False\<rparr>"

definition hadolint_tool :: catalog_tool where
  "hadolint_tool = no_tool\<lparr>tool_name := ''hadolint'',
     tool_parser := ''hadolint'',
     tool_captured := True,
     tool_category := ''docker'',
     tool_output_format := ''json'',
     tool_advice := advice_text [''Fix Dockerfile findings with explicit, reproducible image'',
        ''and package choices.''],
     tool_runtime := RuntimeBinary,
     tool_command := [''hadolint'', ''--format'', ''json''],
     tool_capture_output_args := [''--format'', ''json''],
     tool_capture_strip_args := [''--format'', ''-f''],
     tool_base_name_prefixes := [''Dockerfile''],
     tool_languages := [''dockerfile''],
     tool_pass_files_as_args := True,
     tool_fast := True,
     tool_enabled_by_default := True\<rparr>"

definition actionlint_tool :: catalog_tool where
  "actionlint_tool = no_tool\<lparr>tool_name := ''actionlint'',
     tool_parser := ''actionlint'',
     tool_captured := True,
     tool_category := ''workflow'',
     tool_output_format := ''json-lines'',
     tool_advice := advice_text [''Fix workflow syntax and action usage before relying on CI'',
        ''behavior.''],
     tool_runtime := RuntimeGo,
     tool_command := [''actionlint'', ''-format'', ''{{json .}}''],
     tool_capture_output_args := [''-format'', ''{{json .}}''],
     tool_capture_strip_args := [''-format''],
     tool_capture_mutating_args := [''-init-config''],
     tool_file_extensions := [''.yaml'', ''.yml''],
     tool_file_prefixes := [''.github/workflows/''],
     tool_languages := [''github-actions'', ''yaml''],
     tool_pass_files_as_args := False,
     tool_fast := True,
     tool_enabled_by_default := True\<rparr>"

definition shellcheck_tool :: catalog_tool where
  "shellcheck_tool = no_tool\<lparr>tool_name := ''shellcheck'',
     tool_parser := ''shellcheck'',
     tool_captured := True,
     tool_category := ''shell'',
     tool_output_format := ''json'',
     tool_advice := advice_text [''Fix shell diagnostics with quoted variables, explicit error'',
        ''handling, and portable constructs.''],
     tool_runtime := RuntimeBinary,
     tool_command := [''shellcheck'', ''--severity=warning'', ''-x'', ''--format=json''],
     tool_capture_output_args := [''--format=json''],
     tool_capture_strip_args := [''--format'', ''-f''],
     tool_file_extensions := [''.sh'', ''.bash'', ''.zsh'', ''.ksh''],
     tool_languages := [''shell''],
     tool_pass_files_as_args := True,
     tool_fast := True,
     tool_enabled_by_default := True\<rparr>"

definition shfmt_tool :: catalog_tool where
  "shfmt_tool = no_tool\<lparr>tool_name := ''shfmt'',
     tool_parser := ''shfmt'',
     tool_category := ''shell'',
     tool_output_format := ''diff'',
     tool_advice := advice_text [''Format shell scripts with shfmt so shell changes stay'',
        ''reviewable and deterministic.''],
     tool_runtime := RuntimeGo,
     tool_command := [''shfmt'', ''-d'', ''-i'', ''2'', ''-ci'', ''-sr''],
     tool_file_extensions := [''.sh'', ''.bash'', ''.zsh'', ''.ksh''],
     tool_languages := [''shell''],
     tool_pass_files_as_args := True,
     tool_fast := True,
     tool_enabled_by_default := True\<rparr>"

definition yamllint_tool :: catalog_tool where
  "yamllint_tool = no_tool\<lparr>tool_name := ''yamllint'',
     tool_parser := ''yamllint'',
     tool_captured := True,
     tool_category := ''syntax'',
     tool_output_format := ''parsable'',
     tool_advice := advice_text [''Fix YAML structure, indentation, and style before generated'',
        ''config consumers read it.''],
     tool_runtime := RuntimeUV,
     tool_command := [''yamllint''],
     tool_capture_output_args := [''-f'', ''parsable''],
     tool_capture_strip_args := [''--format'', ''-f''],
     tool_config_flags := [''-c''],
     tool_file_extensions := [''.yaml'', ''.yml''],
     tool_languages := [''yaml''],
     tool_repo_config := ''.yamllint.yml'',
     tool_post_config_args := [''--strict'', ''-f'', ''parsable''],
     tool_pass_files_as_args := True,
     tool_use_hook_project := True,
     tool_fast := True,
     tool_enabled_by_default := True\<rparr>"

definition bandit_tool :: catalog_tool where
  "bandit_tool = no_tool\<lparr>tool_name := ''bandit'',
     tool_parser := ''bandit'',
     tool_captured := True,
     tool_category := ''security'',
     tool_output_format := ''json'',
     tool_advice := advice_text [''Fix Python security findings with least-privilege,'',
        ''validated behavior.''],
     tool_runtime := RuntimeUV,
     tool_command := [''bandit'', ''-q'', ''-f'', ''json''],
     tool_capture_output_args := [''-f'', ''json''],
     tool_capture_strip_args := [''--format'', ''-f''],
     tool_config_flags := [''-c''],
     tool_file_extensions := [''.py''],
     tool_languages := [''python''],
     tool_repo_config := ''.bandit.yml'',
     tool_post_config_args := [''--severity-level'', ''medium'', ''--confidence-level'',
        ''medium''],
     tool_pass_files_as_args := True,
     tool_use_hook_project := True,
     tool_enabled_by_default := True\<rparr>"

definition sqlfluff_tool :: catalog_tool where
  "sqlfluff_tool = no_tool\<lparr>tool_name := ''sqlfluff'',
     tool_parser := ''sqlfluff'',
     tool_captured := True,
     tool_category := ''sql'',
     tool_output_format := ''json'',
     tool_advice := ''Fix SQL syntax and style with explicit dialect-aware queries.'',
     tool_runtime := RuntimeUV,
     tool_command := [''sqlfluff'', ''lint'', ''--format'', ''json''],
     tool_capture_output_args := [''--format'', ''json''],
     tool_capture_strip_args := [''--format'', ''-f''],
     tool_capture_after_first := [''lint''],
     tool_config_flags := [''--config''],
     tool_file_extensions := [''.sql''],
     tool_languages := [''sql''],
     tool_repo_config := ''.sqlfluff'',
     tool_pass_files_as_args := True,
     tool_use_hook_project := True,
     tool_enabled_by_default := True\<rparr>"

definition tombi_tool :: catalog_tool where
  "tombi_tool = no_tool\<lparr>tool_name := ''tombi'',
     tool_parser := ''tombi'',
     tool_captured := True,
     tool_category := ''syntax'',
     tool_output_format := ''text'',
     tool_advice := advice_text [''Fix TOML syntax and schema issues before tools consume'',
        ''configuration.''],
     tool_runtime := RuntimeUV,
     tool_command := [''tombi'', ''lint'', ''--quiet'', ''--error-on-warnings''],
     tool_capture_strip_args := [''--format'', ''-f''],
     tool_file_extensions := [''.toml''],
     tool_languages := [''toml''],
     tool_pass_files_as_args := True,
     tool_use_hook_project := True,
     tool_fast := True,
     tool_enabled_by_default := True\<rparr>"

definition dotenv_linter_tool :: catalog_tool where
  "dotenv_linter_tool = no_tool\<lparr>tool_name := ''dotenv-linter'',
     tool_parser := ''dotenv-linter'',
     tool_captured := True,
     tool_category := ''dotenv'',
     tool_output_format := ''text'',
     tool_advice := advice_text [''Fix dotenv files so local environment contracts stay'',
        ''explicit and safe.''],
     tool_runtime := RuntimeBinary,
     tool_command := [''dotenv-linter'', ''--plain'', ''--quiet'', ''check''],
     tool_capture_strip_args := [''--format'', ''-f''],
     tool_base_name_prefixes := [''.env''],
     tool_languages := [''dotenv''],
     tool_pass_files_as_args := True,
     tool_fast := True,
     tool_enabled_by_default := True\<rparr>"

definition eslint_tool :: catalog_tool where
  "eslint_tool = no_tool\<lparr>tool_name := ''eslint'',
     tool_parser := ''eslint'',
     tool_captured := True,
     tool_category := ''javascript-static'',
     tool_output_format := ''json'',
     tool_advice := advice_text [''Fix ESLint findings structurally and keep JavaScript and'',
        ''TypeScript checks inside the managed lint path.''],
     tool_runtime := RuntimeNPM,
     tool_command := [''eslint'', ''--format'', ''json''],
     tool_capture_output_args := [''--format'', ''json''],
     tool_capture_strip_args := [''--format'', ''-f''],
     tool_capture_mutating_args := [''--fix'', ''--fix-dry-run''],
     tool_file_extensions := [''.js'', ''.jsx'', ''.mjs'', ''.cjs'', ''.ts'', ''.tsx'', ''.mts'',
        ''.cts''],
     tool_languages := [''javascript'', ''typescript''],
     tool_pass_files_as_args := True,
     tool_fast := True,
     tool_enabled_by_default := False\<rparr>"

definition tsc_tool :: catalog_tool where
  "tsc_tool = no_tool\<lparr>tool_name := ''tsc'',
     tool_parser := ''tsc'',
     tool_captured := True,
     tool_category := ''typescript-static'',
     tool_output_format := ''text'',
     tool_advice := advice_text [''Fix TypeScript compiler diagnostics with explicit types and'',
        ''project-level configuration instead of relying on runtime checks.''],
     tool_runtime := RuntimeNPM,
     tool_command := [''tsc'', ''--noEmit'', ''--pretty'', ''false''],
     tool_capture_output_args := [''--noEmit'', ''--pretty'', ''false''],
     tool_capture_strip_args := [''--pretty'', ''--project'', ''-p''],
     tool_capture_strip_flags := [''--noEmit'', ''--watch'', ''-w'', ''--build'', ''-b''],
     tool_config_flags := [''--project'', ''-p''],
     tool_file_extensions := [''.ts'', ''.tsx'', ''.mts'', ''.cts''],
     tool_languages := [''typescript''],
     tool_repo_config := ''tsconfig.json'',
     tool_pass_files_as_args := False,
     tool_fast := False,
     tool_enabled_by_default := False\<rparr>"

definition kube_linter_tool :: catalog_tool where
  "kube_linter_tool = no_tool\<lparr>tool_name := ''kube-linter'',
     tool_parser := ''kube-linter'',
     tool_captured := True,
     tool_category := ''kubernetes-security'',
     tool_output_format := ''json'',
     tool_advice := advice_text [''Fix Kubernetes manifest findings with least-privilege pod'',
        ''security settings and explicit resource boundaries.''],
     tool_runtime := RuntimeGo,
     tool_command := [''kube-linter'', ''lint'', ''--format'', ''json''],
     tool_capture_output_args := [''--format'', ''json''],
     tool_capture_strip_args := [''--format''],
     tool_capture_after_first := [''lint''],
     tool_file_extensions := [''.yaml'', ''.yml''],
     tool_languages := [''kubernetes''],
     tool_pass_files_as_args := True,
     tool_fast := False,
     tool_enabled_by_default := False\<rparr>"

definition pyupgrade_tool :: catalog_tool where
  "pyupgrade_tool = no_tool\<lparr>tool_name := ''pyupgrade'',
     tool_parser := ''fallback'',
     tool_diagnostic_kind := ''formatter_changed_files'',
     tool_category := ''format'',
     tool_output_format := ''text'',
     tool_advice := ''Apply syntax upgrades for the configured Python version.'',
     tool_runtime := RuntimePython,
     tool_command := [''pyupgrade''],
     tool_file_extensions := [''.py'', ''.pyi''],
     tool_languages := [''python''],
     tool_pass_files_as_args := True,
     tool_use_hook_project := True,
     tool_fast := True,
     tool_enabled_by_default := True\<rparr>"

definition ruff_format_tool :: catalog_tool where
  "ruff_format_tool = no_tool\<lparr>tool_name := ''ruff-format'',
     tool_parser := ''ruff'',
     tool_category := ''format'',
     tool_output_format := ''text'',
     tool_advice := ''Run Ruff format before reviewing Python diffs.'',
     tool_runtime := RuntimePython,
     tool_command := [''ruff'', ''format'', ''--quiet''],
     tool_config_flags := [''--config''],
     tool_file_extensions := [''.py'', ''.pyi''],
     tool_languages := [''python''],
     tool_repo_config := ''ruff.toml'',
     tool_pass_files_as_args := True,
     tool_use_hook_project := True,
     tool_fast := True,
     tool_enabled_by_default := True\<rparr>"

definition ruff_autofix_tool :: catalog_tool where
  "ruff_autofix_tool = no_tool\<lparr>tool_name := ''ruff-autofix'',
     tool_parser := ''ruff'',
     tool_category := ''format'',
     tool_output_format := ''json'',
     tool_advice := advice_text [''Apply Ruff autofixes, then resolve remaining diagnostics'',
        ''structurally.''],
     tool_runtime := RuntimePython,
     tool_command := [''ruff'', ''check'', ''--fix'', ''--quiet'', ''--ignore-noqa'',
        ''--output-format'', ''json''],
     tool_config_flags := [''--config''],
     tool_file_extensions := [''.py'', ''.pyi''],
     tool_languages := [''python''],
     tool_repo_config := ''ruff.toml'',
     tool_pass_files_as_args := True,
     tool_use_hook_project := True,
     tool_fast := True,
     tool_enabled_by_default := True\<rparr>"

definition golangci_lint_autofix_tool :: catalog_tool where
  "golangci_lint_autofix_tool = no_tool\<lparr>tool_name := ''golangci-lint-autofix'',
     tool_managed_binary := ''golangci-lint'',
     tool_parser := ''golangci-lint'',
     tool_category := ''format'',
     tool_output_format := ''json'',
     tool_advice := advice_text [''Apply golangci-lint autofixes, then resolve remaining'',
        ''diagnostics structurally.''],
     tool_runtime := RuntimeGo,
     tool_command := [''golangci-lint'', ''run'', ''--fix''],
     tool_config_flags := [''--config''],
     tool_file_extensions := [''.go''],
     tool_languages := [''go''],
     tool_repo_config := ''.golangci.yml'',
     tool_pass_files_as_args := False,
     tool_fast := True,
     tool_enabled_by_default := True\<rparr>"

definition golangci_lint_format_tool :: catalog_tool where
  "golangci_lint_format_tool = no_tool\<lparr>tool_name := ''golangci-lint-format'',
     tool_managed_binary := ''golangci-lint'',
     tool_parser := ''fallback'',
     tool_diagnostic_kind := ''formatter_changed_files'',
     tool_category := ''format'',
     tool_output_format := ''text'',
     tool_advice := ''Run golangci-lint fmt before reviewing Go diffs.'',
     tool_runtime := RuntimeGo,
     tool_command := [''golangci-lint'', ''fmt''],
     tool_config_flags := [''--config''],
     tool_file_extensions := [''.go''],
     tool_languages := [''go''],
     tool_repo_config := ''.golangci.yml'',
     tool_pass_files_as_args := False,
     tool_fast := True,
     tool_enabled_by_default := True\<rparr>"

definition gofmt_tool :: catalog_tool where
  "gofmt_tool = no_tool\<lparr>tool_name := ''gofmt'',
     tool_parser := ''gofmt'',
     tool_parser_aliases := [''gofmt-check''],
     tool_category := ''go'',
     tool_output_format := ''text'',
     tool_advice := ''Run gofmt before reviewing Go diffs.'',
     tool_runtime := RuntimeGo,
     tool_command := [''gofmt'', ''-l'', ''.''],
     tool_file_extensions := [''.go''],
     tool_languages := [''go''],
     tool_pass_files_as_args := False,
     tool_fast := True,
     tool_enabled_by_default := True\<rparr>"

definition golines_tool :: catalog_tool where
  "golines_tool = no_tool\<lparr>tool_name := ''golines'',
     tool_parser := ''fallback'',
     tool_diagnostic_kind := ''formatter_changed_files'',
     tool_category := ''format'',
     tool_output_format := ''text'',
     tool_advice := advice_text [''Run golines to keep Go code within the shared line-length'',
        ''policy.''],
     tool_runtime := RuntimeGo,
     tool_command := [''golines'', ''-w'', ''-m'', ''88''],
     tool_file_extensions := [''.go''],
     tool_languages := [''go''],
     tool_pass_files_as_args := True,
     tool_fast := True,
     tool_enabled_by_default := True\<rparr>"

definition go_vet_tool :: catalog_tool where
  "go_vet_tool = no_tool\<lparr>tool_name := ''go-vet'',
     tool_parser := ''go-vet'',
     tool_category := ''go'',
     tool_output_format := ''text'',
     tool_advice := ''Fix go vet findings before relying on runtime behavior.'',
     tool_runtime := RuntimeGo,
     tool_command := [''go'', ''vet'', ''./...''],
     tool_file_extensions := [''.go''],
     tool_languages := [''go''],
     tool_pass_files_as_args := False,
     tool_enabled_by_default := True\<rparr>"

definition go_test_tool :: catalog_tool where
  "go_test_tool = no_tool\<lparr>tool_name := ''go-test'',
     tool_parser := ''go-test'',
     tool_category := ''test'',
     tool_output_format := ''json'',
     tool_advice := ''Fix Go test failures as executable behavioral contract failures.'',
     tool_runtime := RuntimeGo,
     tool_command := [''go'', ''test'', ''./...''],
     tool_file_extensions := [''.go''],
     tool_languages := [''go''],
     tool_capabilities := no_capabilities\<lparr>cap_requires_processes := True\<rparr>,
     tool_pass_files_as_args := False,
     tool_enabled_by_default := True\<rparr>"

definition radon_complexity_tool :: catalog_tool where
  "radon_complexity_tool = no_tool\<lparr>tool_name := ''python-complexity'',
     tool_parser := ''radon-complexity'',
     tool_category := ''python-quality'',
     tool_output_format := ''json'',
     tool_advice := advice_text [''Reduce cyclomatic complexity by splitting responsibilities'',
        ''and control flow.''],
     tool_runtime := RuntimePython,
     tool_command := [''radon'', ''cc'', ''-j'', ''-e'', ''.venv/*,node_modules/*''],
     tool_file_extensions := [''.py''],
     tool_languages := [''python''],
     tool_pass_files_as_args := True,
     tool_use_hook_project := True,
     tool_enabled_by_default := True\<rparr>"

definition radon_maintainability_tool :: catalog_tool where
  "radon_maintainability_tool = no_tool\<lparr>tool_name := ''python-maintainability'',
     tool_parser := ''radon-maintainability'',
     tool_category := ''python-quality'',
     tool_output_format := ''json'',
     tool_advice := ''Improve maintainability by simplifying dense modules.'',
     tool_runtime := RuntimePython,
     tool_command := [''radon'', ''mi'', ''.'', ''-j'', ''-e'', ''.venv/*,node_modules/*''],
     tool_file_extensions := [''.py''],
     tool_languages := [''python''],
     tool_pass_files_as_args := False,
     tool_use_hook_project := True,
     tool_enabled_by_default := True\<rparr>"

definition vulture_tool :: catalog_tool where
  "vulture_tool = no_tool\<lparr>tool_name := ''python-vulture'',
     tool_parser := ''vulture'',
     tool_category := ''python-quality'',
     tool_output_format := ''text'',
     tool_advice := advice_text [''Remove genuinely unused code or add a narrow whitelist entry'',
        ''for dynamic entry points.''],
     tool_runtime := RuntimePython,
     tool_command := [''vulture'', ''.''],
     tool_file_extensions := [''.py''],
     tool_languages := [''python''],
     tool_pass_files_as_args := False,
     tool_use_hook_project := True,
     tool_enabled_by_default := True\<rparr>"

definition pytest_gate_tool :: catalog_tool where
  "pytest_gate_tool = no_tool\<lparr>tool_name := ''pytest-gate'',
     tool_parser := ''pytest-gate'',
     tool_parser_aliases := [''pytest''],
     tool_category := ''test'',
     tool_output_format := ''text'',
     tool_advice := advice_text [''Fix pytest failures before committing; tests are executable'',
        ''specifications.''],
     tool_runtime := RuntimePython,
     tool_command := [''pytest''],
     tool_file_extensions := [''.py''],
     tool_languages := [''python''],
     tool_pass_files_as_args := False,
     tool_use_hook_project := True,
     tool_enabled_by_default := True\<rparr>"

definition gemini_check_tool :: catalog_tool where
  "gemini_check_tool = no_tool\<lparr>tool_name := ''gemini-check'',
     tool_parser := ''gemini'',
     tool_parser_aliases := [''gemini-check''],
     tool_category := ''ai'',
     tool_output_format := ''json'',
     tool_advice := advice_text [''Resolve Gemini critical findings or parser/API errors'',
        ''before committing.''],
     tool_runtime := RuntimeBinary,
     tool_command := [''gemini''],
     tool_capabilities := no_capabilities\<lparr>cap_requires_network := True,
     cap_sandbox_profile := ''agent-network''\<rparr>,
     tool_pass_files_as_args := False,
     tool_enabled_by_default := True\<rparr>"

definition golangci_lint_tool :: catalog_tool where
  "golangci_lint_tool = no_tool\<lparr>tool_name := ''golangci-lint'',
     tool_parser := ''golangci-lint'',
     tool_parser_aliases := [''golangci-lint-autofix'', ''golangci-lint-format''],
     tool_captured := True,
     tool_category := ''go-static'',
     tool_output_format := ''json'',
     tool_advice := advice_text [''Fix Go lint findings structurally; do not add exclusions or'',
        ''weaken the shared linter policy.''],
     tool_runtime := RuntimeGo,
     tool_command := [''golangci-lint'', ''run''],
     tool_capture_output_args := [''--allow-parallel-runners'', ''--output.json.path=stdout'',
        ''--output.text.path=stderr''],
     tool_capture_strip_args := [''--out-format'', ''--output.json.path'', ''--output.text.path''],
     tool_capture_after_first := [''run''],
     tool_config_flags := [''--config''],
     tool_file_extensions := [''.go''],
     tool_languages := [''go''],
     tool_repo_config := ''.golangci.yml'',
     tool_post_config_args := [''--output.json.path'', ''stdout'', ''--output.text.path'',
        ''/dev/null''],
     tool_pass_files_as_args := False,
     tool_enabled_by_default := True\<rparr>"

definition python_static_tool_definitions :: "catalog_tool list" where
  "python_static_tool_definitions = [ruff_tool, pyright_tool, mypy_tool, pylint_tool]"

definition toolchain_tool_definitions :: "catalog_tool list" where
  "toolchain_tool_definitions =
     [hadolint_tool, actionlint_tool, shellcheck_tool, shfmt_tool, yamllint_tool, bandit_tool,
        sqlfluff_tool, tombi_tool, dotenv_linter_tool, eslint_tool, tsc_tool, kube_linter_tool,
        golangci_lint_tool, golines_tool]"

definition hook_owned_tool_definitions :: "catalog_tool list" where
  "hook_owned_tool_definitions =
     [pyupgrade_tool, ruff_format_tool, ruff_autofix_tool, golangci_lint_format_tool,
        golangci_lint_autofix_tool, gofmt_tool, go_vet_tool, go_test_tool, radon_complexity_tool,
        radon_maintainability_tool, vulture_tool, pytest_gate_tool, gemini_check_tool]"


section \<open>Capabilities\<close>

definition default_string :: "string \<Rightarrow> string \<Rightarrow> string" where
  "default_string v fallback = (if v \<noteq> [] then v else fallback)"

definition default_int :: "int \<Rightarrow> int \<Rightarrow> int" where
  "default_int v fallback = (if v \<noteq> 0 then v else fallback)"

definition with_default_offline_capabilities :: "string \<Rightarrow> capability_spec \<Rightarrow> capability_spec" where
  "with_default_offline_capabilities name spec =
     (if name = ''gemini-check'' then spec
      else spec
        \<lparr>cap_sandbox_profile := default_string (cap_sandbox_profile spec) ''lint-offline'',
         cap_timeout_seconds := default_int (cap_timeout_seconds spec) 300,
         cap_memory_mb := default_int (cap_memory_mb spec) 2048,
         cap_cpu_quota_percent := default_int (cap_cpu_quota_percent spec) 100,
         cap_seccomp_profile := default_string (cap_seccomp_profile spec) ''deny-privilege'',
         cap_read_paths := ''.'' # cap_read_paths spec,
         cap_write_paths :=
           [''.coding-ethos/cache/'', ''.coding-ethos/lint-runs/''] @ cap_write_paths spec\<rparr>)"

definition network_capability_tag :: "string \<Rightarrow> string" where
  "network_capability_tag name = (if name = ''gemini-check'' then ''network'' else ''no-network'')"

definition git_capability_tag :: "bool \<Rightarrow> string" where
  "git_capability_tag requires_git = (if requires_git then ''git'' else ''no-git'')"

text \<open>The loop of \<open>appendCapabilityTags\<close>, with the tags seen so far.\<close>

fun merge_tags :: "string list \<Rightarrow> string list \<Rightarrow> string list" where
  "merge_tags seen [] = []"
| "merge_tags seen (t # ts) =
     (if t = [] \<or> t \<in> set seen then merge_tags seen ts else t # merge_tags (t # seen) ts)"

definition append_capability_tags :: "string list \<Rightarrow> string list \<Rightarrow> string list" where
  "append_capability_tags existing tags = merge_tags [] (existing @ tags)"

definition with_capability_tags :: "string \<Rightarrow> capability_spec \<Rightarrow> capability_spec" where
  "with_capability_tags name spec =
     (let tagged = append_capability_tags (cap_tags spec) [network_capability_tag name]
      in spec\<lparr>cap_tags :=
           append_capability_tags tagged [git_capability_tag (cap_requires_git spec)]\<rparr>)"

definition tool_capability_spec :: "catalog_tool \<Rightarrow> capability_spec" where
  "tool_capability_spec t =
     with_capability_tags (tool_name t)
       (with_default_offline_capabilities (tool_name t) (tool_capabilities t))"

text \<open>The fields of the view other than the name and the command are those of the specification.\<close>

record capability_view =
  view_name :: string
  view_command :: "string list"
  view_spec :: capability_spec

definition tool_capability_view :: "catalog_tool \<Rightarrow> capability_view" where
  "tool_capability_view t =
     \<lparr>view_name = tool_name t, view_command = tool_command t, view_spec = tool_capability_spec t\<rparr>"

section \<open>Looking tools up\<close>

definition clone_tool :: "catalog_tool \<Rightarrow> catalog_tool" where
  "clone_tool t = t\<lparr>tool_capabilities := tool_capability_spec t\<rparr>"

definition clone_tools :: "catalog_tool list \<Rightarrow> catalog_tool list" where
  "clone_tools ts = map clone_tool ts"

fun find_tool :: "string \<Rightarrow> catalog_tool list \<Rightarrow> catalog_tool option" where
  "find_tool name [] = None"
| "find_tool name (t # ts) = (if tool_name t = name then Some (clone_tool t) else find_tool name ts)"

definition PythonStaticTools :: "catalog_tool list" where
  "PythonStaticTools = clone_tools python_static_tool_definitions"

definition PythonStaticTool :: "string \<Rightarrow> catalog_tool option" where
  "PythonStaticTool name = find_tool name python_static_tool_definitions"

definition ToolchainTools :: "catalog_tool list" where
  "ToolchainTools = clone_tools toolchain_tool_definitions"

definition ToolchainTool :: "string \<Rightarrow> catalog_tool option" where
  "ToolchainTool name = find_tool name toolchain_tool_definitions"

definition HookOwnedTools :: "catalog_tool list" where
  "HookOwnedTools = clone_tools (PythonStaticTools @ ToolchainTools @ hook_owned_tool_definitions)"

definition HookOwnedTool :: "string \<Rightarrow> catalog_tool option" where
  "HookOwnedTool name = find_tool name HookOwnedTools"

definition ToolCapabilityViews :: "capability_view list" where
  "ToolCapabilityViews = map tool_capability_view HookOwnedTools"

text \<open>The keys of the map \<open>seen\<close> are the names collected so far.\<close>

definition add_diagnostic_parser_name :: "string list \<Rightarrow> string \<Rightarrow> string list" where
  "add_diagnostic_parser_name names n =
     (let name = trim_space n
      in if name = [] \<or> name \<in> set names then names else names @ [name])"

definition diagnostic_parser_names_of :: "catalog_tool list \<Rightarrow> string list" where
  "diagnostic_parser_names_of ts =
     foldl (\<lambda>names t. foldl add_diagnostic_parser_name
         (add_diagnostic_parser_name names (tool_parser t)) (tool_parser_aliases t)) [] ts"

definition DiagnosticParserNames :: "string list" where
  "DiagnosticParserNames = diagnostic_parser_names_of HookOwnedTools"

definition managed_binary_name :: "catalog_tool \<Rightarrow> string" where
  "managed_binary_name t =
     (if tool_managed_binary t \<noteq> [] then tool_managed_binary t else tool_name t)"

definition ManagedExecutablePath :: "catalog_tool \<Rightarrow> string \<Rightarrow> string" where
  "ManagedExecutablePath t ethos_root =
     (case tool_runtime t of
        RuntimeGo \<Rightarrow>
          path_join [ethos_root, ''build'', ''toolchain'', ''go-bin'', managed_binary_name t]
      | RuntimeBinary \<Rightarrow>
          path_join [ethos_root, ''build'', ''toolchain'', ''github-bin'', managed_binary_name t]
      | RuntimeNPM \<Rightarrow>
          path_join [ethos_root, ''build'', ''toolchain'', ''github-bin'', managed_binary_name t]
      | _ \<Rightarrow> [])"

section \<open>Captured tools\<close>

record captured_tool =
  captured_name :: string
  captured_description :: string
  captured_module_names :: "string list"
  captured_python_module :: bool

definition module_names_for_tool :: "catalog_tool \<Rightarrow> string list" where
  "module_names_for_tool t =
     (if tool_runtime t \<noteq> RuntimePython \<and> tool_runtime t \<noteq> RuntimeUV then []
      else case tool_command t of [] \<Rightarrow> [tool_name t] | c # _ \<Rightarrow> [c])"

definition tool_display_name_entries :: "(string \<times> string) list" where
  "tool_display_name_entries =
     [(''actionlint'', ''actionlint''), (''bandit'', ''Bandit''),
      (''dotenv-linter'', ''dotenv-linter''), (''eslint'', ''ESLint''),
      (''golangci-lint'', ''golangci-lint''),
      (''golangci-lint-autofix'', ''golangci-lint autofix''),
      (''golangci-lint-format'', ''golangci-lint format''), (''golines'', ''golines''),
      (''hadolint'', ''hadolint''), (''kube-linter'', ''kube-linter''), (''mypy'', ''mypy''),
      (''pylint'', ''Pylint''), (''pyright'', ''Pyright''), (''ruff'', ''Ruff''),
      (''shellcheck'', ''ShellCheck''), (''sqlfluff'', ''sqlfluff''), (''tombi'', ''Tombi''),
      (''yamllint'', ''yamllint'')]"

definition display_name_for_tool :: "string \<Rightarrow> string" where
  "display_name_for_tool name =
     (case map_of tool_display_name_entries name of Some d \<Rightarrow> d | None \<Rightarrow> name)"

definition captured_tool_from_tool :: "catalog_tool \<Rightarrow> captured_tool" where
  "captured_tool_from_tool t =
     \<lparr>captured_name = tool_name t, captured_description = display_name_for_tool (tool_name t),
      captured_module_names = module_names_for_tool t,
      captured_python_module = (tool_runtime t = RuntimePython \<or> tool_runtime t = RuntimeUV)\<rparr>"

definition captured_tools :: "catalog_tool list \<Rightarrow> catalog_tool list" where
  "captured_tools ts = filter tool_captured ts"

definition CapturedLintTools :: "captured_tool list" where
  "CapturedLintTools = map captured_tool_from_tool (captured_tools HookOwnedTools)"

definition CapturedLintTool :: "string \<Rightarrow> captured_tool option" where
  "CapturedLintTool name = find (\<lambda>t. captured_name t = name) CapturedLintTools"

definition CapturedLintShimSpecs :: "string \<Rightarrow> (string \<times> string list) list" where
  "CapturedLintShimSpecs runner =
     map (\<lambda>t. (captured_name t, [runner, ''policy-tool'', captured_name t])) CapturedLintTools"

definition IsLinter :: "string \<Rightarrow> bool" where
  "IsLinter n =
     (let name = trim_space n
      in if name = [] then False
         else list_ex (\<lambda>t. tool_captured t \<and> (tool_name t = name \<or> tool_parser t = name)) HookOwnedTools)"

section \<open>Arguments for a parseable run\<close>

definition capture_args_informational :: "string list \<Rightarrow> bool" where
  "capture_args_informational args =
     list_ex (\<lambda>a. a \<in> {''--help'', ''-h'', ''help'', ''--version'', ''-V'', ''version''}) args"

definition capture_args_mutate :: "catalog_tool \<Rightarrow> string list \<Rightarrow> bool" where
  "capture_args_mutate t args =
     (if list_ex (\<lambda>a. a \<in> set (tool_capture_mutating_args t)) args then True
      else args \<noteq> [] \<and> hd args \<in> set (tool_capture_mutating_first t))"

definition strip_args :: "string list \<Rightarrow> string list \<Rightarrow> string list" where
  "strip_args flags args = filter (\<lambda>a. a \<notin> set flags) args"

text \<open>
  The inner loop of \<open>stripArgsWithValues\<close>: whether the argument is one of the flags and, if so,
  whether its value is the next argument.
\<close>

fun matched_flag :: "string list \<Rightarrow> string \<Rightarrow> bool option" where
  "matched_flag [] a = None"
| "matched_flag (f # fs) a =
     (if a = f then Some True
      else if has_prefix a (f @ ''='') then Some False
      else matched_flag fs a)"

fun strip_args_with_values :: "string list \<Rightarrow> bool \<Rightarrow> string list \<Rightarrow> string list" where
  "strip_args_with_values flags skip_next [] = []"
| "strip_args_with_values flags skip_next (a # args) =
     (if skip_next then strip_args_with_values flags False args
      else case matched_flag flags a of
             Some takes_value \<Rightarrow> strip_args_with_values flags takes_value args
           | None \<Rightarrow> a # strip_args_with_values flags False args)"

definition strip_capture_output_args :: "catalog_tool \<Rightarrow> string list \<Rightarrow> string list" where
  "strip_capture_output_args t args =
     strip_args_with_values (tool_capture_strip_args t) False
       (strip_args (tool_capture_strip_flags t) args)"

definition CaptureArgs :: "catalog_tool \<Rightarrow> string list \<Rightarrow> string list \<times> bool" where
  "CaptureArgs t args =
     (if tool_capture_output_args t = [] \<or> capture_args_informational args \<or> capture_args_mutate t args
      then (args, False)
      else
        let stripped = strip_capture_output_args t args
        in if stripped \<noteq> [] \<and> hd stripped \<in> set (tool_capture_after_first t)
           then ([hd stripped] @ tool_capture_output_args t @ tl stripped, True)
           else (tool_capture_output_args t @ stripped, True))"

text \<open>\<open>capturedToolArgs\<close> of \<open>go/internal/managedcapture/capture.go\<close>, the caller.\<close>

definition captured_tool_args :: "string \<Rightarrow> string list \<Rightarrow> string list" where
  "captured_tool_args name args =
     (case HookOwnedTool name of
        None \<Rightarrow> args
      | Some t \<Rightarrow> (case CaptureArgs t args of (parseable, ok) \<Rightarrow> if ok then parseable else args))"

section \<open>What the lookups find\<close>

lemma clone_tool_fields [simp]:
  "tool_name (clone_tool t) = tool_name t" "tool_captured (clone_tool t) = tool_captured t"
  "tool_parser (clone_tool t) = tool_parser t" "tool_command (clone_tool t) = tool_command t"
  "tool_runtime (clone_tool t) = tool_runtime t"
  "CaptureArgs (clone_tool t) = CaptureArgs t"
  by (simp_all add: clone_tool_def CaptureArgs_def capture_args_mutate_def
      strip_capture_output_args_def fun_eq_iff Let_def)

definition all_tool_definitions :: "catalog_tool list" where
  "all_tool_definitions =
     python_static_tool_definitions @ toolchain_tool_definitions @ hook_owned_tool_definitions"

lemma hook_owned_names: "map tool_name HookOwnedTools = map tool_name all_tool_definitions"
  by (simp add: HookOwnedTools_def PythonStaticTools_def ToolchainTools_def clone_tools_def
      all_tool_definitions_def comp_def)

lemma tool_names:
  "map tool_name all_tool_definitions =
     [''ruff'', ''pyright'', ''mypy'', ''pylint'', ''hadolint'', ''actionlint'', ''shellcheck'',
      ''shfmt'', ''yamllint'', ''bandit'', ''sqlfluff'', ''tombi'', ''dotenv-linter'', ''eslint'',
      ''tsc'', ''kube-linter'', ''golangci-lint'', ''golines'', ''pyupgrade'', ''ruff-format'',
      ''ruff-autofix'', ''golangci-lint-format'', ''golangci-lint-autofix'', ''gofmt'', ''go-vet'',
      ''go-test'', ''python-complexity'', ''python-maintainability'', ''python-vulture'',
      ''pytest-gate'', ''gemini-check'']"
  by code_simp

lemma tool_names_distinct: "distinct (map tool_name HookOwnedTools)"
  unfolding hook_owned_names tool_names by simp

lemma find_tool_distinct:
  "distinct (map tool_name ts) \<Longrightarrow> t \<in> set ts \<Longrightarrow> find_tool (tool_name t) ts = Some (clone_tool t)"
  by (induction ts) (auto simp: image_iff)

lemma find_tool_SomeD:
  "find_tool name ts = Some u \<Longrightarrow> \<exists>t \<in> set ts. tool_name t = name \<and> u = clone_tool t"
  by (induction ts) (auto split: if_splits)

lemma captured_lint_tools_table [code]:
  "CapturedLintTools =
     [\<lparr>captured_name = ''ruff'', captured_description = ''Ruff'', captured_module_names = [''ruff''], captured_python_module = True\<rparr>,
      \<lparr>captured_name = ''pyright'', captured_description = ''Pyright'', captured_module_names = [''pyright''], captured_python_module = True\<rparr>,
      \<lparr>captured_name = ''mypy'', captured_description = ''mypy'', captured_module_names = [''mypy''], captured_python_module = True\<rparr>,
      \<lparr>captured_name = ''pylint'', captured_description = ''Pylint'', captured_module_names = [''pylint''], captured_python_module = True\<rparr>,
      \<lparr>captured_name = ''hadolint'', captured_description = ''hadolint'', captured_module_names = [], captured_python_module = False\<rparr>,
      \<lparr>captured_name = ''actionlint'', captured_description = ''actionlint'', captured_module_names = [], captured_python_module = False\<rparr>,
      \<lparr>captured_name = ''shellcheck'', captured_description = ''ShellCheck'', captured_module_names = [], captured_python_module = False\<rparr>,
      \<lparr>captured_name = ''yamllint'', captured_description = ''yamllint'', captured_module_names = [''yamllint''], captured_python_module = True\<rparr>,
      \<lparr>captured_name = ''bandit'', captured_description = ''Bandit'', captured_module_names = [''bandit''], captured_python_module = True\<rparr>,
      \<lparr>captured_name = ''sqlfluff'', captured_description = ''sqlfluff'', captured_module_names = [''sqlfluff''], captured_python_module = True\<rparr>,
      \<lparr>captured_name = ''tombi'', captured_description = ''Tombi'', captured_module_names = [''tombi''], captured_python_module = True\<rparr>,
      \<lparr>captured_name = ''dotenv-linter'', captured_description = ''dotenv-linter'', captured_module_names = [], captured_python_module = False\<rparr>,
      \<lparr>captured_name = ''eslint'', captured_description = ''ESLint'', captured_module_names = [], captured_python_module = False\<rparr>,
      \<lparr>captured_name = ''tsc'', captured_description = ''tsc'', captured_module_names = [], captured_python_module = False\<rparr>,
      \<lparr>captured_name = ''kube-linter'', captured_description = ''kube-linter'', captured_module_names = [], captured_python_module = False\<rparr>,
      \<lparr>captured_name = ''golangci-lint'', captured_description = ''golangci-lint'', captured_module_names = [], captured_python_module = False\<rparr>]"
  by code_simp

text \<open>Every tool of the table is found under its name and is the tool of the table.\<close>

lemma HookOwnedTool_iff:
  "HookOwnedTool name = Some u \<longleftrightarrow> (\<exists>t \<in> set HookOwnedTools. tool_name t = name \<and> u = clone_tool t)"
  unfolding HookOwnedTool_def
  using find_tool_distinct [OF tool_names_distinct] find_tool_SomeD [of name HookOwnedTools u] by metis

lemma merge_tags_set: "set (merge_tags seen ts) = set ts - {[]} - set seen"
  by (induction seen ts rule: merge_tags.induct) auto

lemma merge_tags_distinct: "distinct (merge_tags seen ts)"
  by (induction seen ts rule: merge_tags.induct) (auto simp: merge_tags_set)

text \<open>
  Fact. Specification of the tags: the nonempty ones, each once, and exactly one of
  \<open>network\<close> and \<open>no-network\<close> comes from the name of the tool.
\<close>

theorem capability_tags_exact:
  "distinct (cap_tags (tool_capability_spec t)) \<and>
   set (cap_tags (tool_capability_spec t)) =
     (set (cap_tags (tool_capabilities t)) - {[]}) \<union>
     {network_capability_tag (tool_name t), git_capability_tag (cap_requires_git (tool_capabilities t))}"
proof -
  have "network_capability_tag n \<noteq> []" "git_capability_tag b \<noteq> []" for n b
    by (auto simp: network_capability_tag_def git_capability_tag_def)
  then show ?thesis
    by (auto simp: tool_capability_spec_def with_capability_tags_def append_capability_tags_def
        with_default_offline_capabilities_def merge_tags_set merge_tags_distinct Let_def)
qed

text \<open>
  Fact. Filling in the defaults is not idempotent, and every copy of a tool fills them in
  again: in the view of a tool that may not use the network the directory \<open>.\<close> is listed once for
  each copy made on the way, two or three times, and so are the cache directories.
\<close>

theorem cloned_capabilities_repeat:
  assumes "tool_name t \<noteq> ''gemini-check''"
  shows "cap_read_paths (tool_capability_spec (clone_tool t)) =
      ''.'' # cap_read_paths (tool_capability_spec t)"
    and "\<exists>rest. cap_read_paths (tool_capability_spec (clone_tool (clone_tool t))) = ''.'' # ''.'' # ''.'' # rest"
  using assms
  by (simp_all add: tool_capability_spec_def clone_tool_def with_capability_tags_def
      with_default_offline_capabilities_def Let_def)

section \<open>What a parseable run is given\<close>

lemma matched_flag_None:
  "matched_flag fs a = None \<longleftrightarrow> (\<forall>f \<in> set fs. a \<noteq> f \<and> \<not> has_prefix a (f @ ''=''))"
  by (induction fs) auto

lemma strip_args_with_values_subseq: "subseq (strip_args_with_values fs skip args) args"
  by (induction fs skip args rule: strip_args_with_values.induct) (auto split: option.split)

lemma strip_args_with_values_kept:
  "a \<in> set (strip_args_with_values fs skip args) \<Longrightarrow> matched_flag fs a = None"
  by (induction fs skip args rule: strip_args_with_values.induct) (auto split: if_splits option.splits)

lemma strip_args_with_values_id:
  "list_all (\<lambda>a. matched_flag fs a = None) args \<Longrightarrow> strip_args_with_values fs False args = args"
  by (induction args) auto

lemma strip_capture_output_args_subseq: "subseq (strip_capture_output_args t args) args"
  unfolding strip_capture_output_args_def strip_args_def
  by (rule subseq_order.trans [OF strip_args_with_values_subseq]) (simp add: subseq_filter_left)

lemma strip_capture_output_args_kept:
  assumes "a \<in> set (strip_capture_output_args t args)"
  shows "a \<notin> set (tool_capture_strip_flags t) \<and>
    (\<forall>f \<in> set (tool_capture_strip_args t). a \<noteq> f \<and> \<not> has_prefix a (f @ ''='')) \<and> a \<in> set args"
proof -
  from assms have "matched_flag (tool_capture_strip_args t) a = None"
    unfolding strip_capture_output_args_def by (rule strip_args_with_values_kept)
  moreover from assms have "a \<in> set (strip_args (tool_capture_strip_flags t) args)"
    unfolding strip_capture_output_args_def
    using list_emb_set [OF strip_args_with_values_subseq] by blast
  ultimately show ?thesis by (auto simp: matched_flag_None strip_args_def)
qed

definition user_output_option :: "catalog_tool \<Rightarrow> string \<Rightarrow> bool" where
  "user_output_option t a \<longleftrightarrow> a \<in> set (tool_capture_strip_flags t) \<or>
     (\<exists>f \<in> set (tool_capture_strip_args t). a = f \<or> has_prefix a (f @ ''=''))"

text \<open>
  Fact. What a parseable run is given: the output options of the catalog stand together, at
  the front or directly after the subcommand; the other arguments are arguments of the call in
  their order, none of them is an option that would set the output, and none changes files or asks
  for help.
\<close>

theorem capture_args_exact:
  assumes "CaptureArgs t args = (result, True)"
  shows "\<exists>sub others. result = sub @ tool_capture_output_args t @ others \<and>
    (sub = [] \<or> (\<exists>c \<in> set (tool_capture_after_first t). sub = [c])) \<and>
    subseq (sub @ others) args \<and>
    (\<forall>a \<in> set (sub @ others). \<not> user_output_option t a \<and>
       a \<notin> set (tool_capture_mutating_args t) \<and> \<not> capture_args_informational [a])"
proof -
  let ?s = "strip_capture_output_args t args"
  have ok: "\<not> capture_args_informational args" "\<not> capture_args_mutate t args"
    using assms by (auto simp: CaptureArgs_def split: if_splits)
  have kept: "\<forall>a \<in> set ?s. \<not> user_output_option t a \<and>
      a \<notin> set (tool_capture_mutating_args t) \<and> \<not> capture_args_informational [a]"
    using ok strip_capture_output_args_kept [of _ t args]
    by (auto simp: user_output_option_def capture_args_informational_def capture_args_mutate_def
        list_ex_iff split: if_splits)
  show ?thesis
  proof (cases "?s \<noteq> [] \<and> hd ?s \<in> set (tool_capture_after_first t)")
    case True
    then have "result = [hd ?s] @ tool_capture_output_args t @ tl ?s" "[hd ?s] @ tl ?s = ?s"
      using assms by (auto simp: CaptureArgs_def Let_def split: if_splits)
    with True kept strip_capture_output_args_subseq [of t args] show ?thesis
      by (intro exI [of _ "[hd ?s]"] exI [of _ "tl ?s"]) simp
  next
    case False
    then have "result = [] @ tool_capture_output_args t @ ?s"
      using assms by (auto simp: CaptureArgs_def Let_def split: if_splits)
    with kept strip_capture_output_args_subseq [of t args] show ?thesis
      by (intro exI [of _ "[]"] exI [of _ ?s]) simp
  qed
qed


theorem capture_args_exact_witness:
  "\<exists>sub others. [''check'', ''--output-format=json'', ''src''] =
      sub @ tool_capture_output_args ruff_tool @ others \<and>
    (sub = [] \<or> (\<exists>c \<in> set (tool_capture_after_first ruff_tool). sub = [c])) \<and>
    subseq (sub @ others) [''--output-format'', ''text'', ''check'', ''src''] \<and>
    (\<forall>a \<in> set (sub @ others). \<not> user_output_option ruff_tool a \<and>
       a \<notin> set (tool_capture_mutating_args ruff_tool) \<and> \<not> capture_args_informational [a])"
  by (rule capture_args_exact) code_simp

text \<open>
  Fact. Only the first argument is compared with the subcommands that change files, before
  the output options are taken away: with a global option in front, \<open>ruff format\<close> counts as a run
  that can be parsed and is given the output option.
\<close>

theorem mutating_subcommand_behind_option:
  assumes "\<not> has_prefix f ''-''" and "f \<notin> {''help'', ''version''}"
  shows "CaptureArgs ruff_tool [''--quiet'', ''format'', f] =
      ([''--output-format=json'', ''--quiet'', ''format'', f], True) \<and>
    CaptureArgs ruff_tool [''format'', f] = ([''format'', f], False)"
proof -
  have tool: "tool_capture_output_args ruff_tool = [''--output-format=json'']"
    "tool_capture_strip_flags ruff_tool = []" "tool_capture_strip_args ruff_tool = [''--output-format'']"
    "tool_capture_after_first ruff_tool = [''check'']"
    "tool_capture_mutating_args ruff_tool = [''--fix'', ''--fix-only'', ''--unsafe-fixes'']"
    "tool_capture_mutating_first ruff_tool = [''format'']"
    by (simp_all add: ruff_tool_def no_tool_def)
  have f: "f \<noteq> CHR ''-'' # x" "\<not> has_prefix f (CHR ''-'' # x)" for x
    using assms(1) by (auto simp: has_prefix_iff)
  show ?thesis
    using assms(2) f
    by (auto simp: CaptureArgs_def tool capture_args_informational_def capture_args_mutate_def
        strip_capture_output_args_def strip_args_def Let_def)
qed

end
