(* ===== verification/LintRoute.thy ===== *)
theory LintRoute
  imports GitRoute Catalog
begin

text \<open>
  \<open>go/internal/hooks/lint_tool_capture.go\<close>: the hook route that sends the lint tools of the catalog
  through the managed capture wrapper. It groups the control fields of a command the way the Git
  route does, rewrites a segment that calls a captured tool in a form it knows, and refuses a
  segment in which such a tool appears anywhere else. The environment is an argument. The empty
  \<open>CapturedTool\<close>, which the code tests by its name, is \<open>None\<close>.
\<close>

section \<open>Captured tools in words\<close>

definition captured_tool_for_command :: "string \<Rightarrow> captured_tool option" where
  "captured_tool_for_command token =
     find (\<lambda>t. path_base token = captured_name t \<and>
         (token = captured_name t \<or> str_contains token ''/'')) CapturedLintTools"

definition captured_tool_for_module :: "string \<Rightarrow> captured_tool option" where
  "captured_tool_for_module m = find (\<lambda>t. m \<in> set (captured_module_names t)) CapturedLintTools"

definition captured_tool_name :: "string \<Rightarrow> bool" where
  "captured_tool_name name \<longleftrightarrow> CapturedLintTool name \<noteq> None"

definition managed_lint_tool_segment :: "environment \<Rightarrow> string list \<Rightarrow> bool" where
  "managed_lint_tool_segment env segment =
     (if length segment < 3 then False
      else path_base (segment ! 0) = ''coding-ethos-run'' \<and>
        is_trusted_runner_command env (segment ! 0) \<and> segment ! 1 = ''policy-tool'' \<and>
        captured_tool_name (segment ! 2))"

text \<open>The first word of the segment that is a captured tool.\<close>

fun segment_mentions_unmanaged_lint_tool :: "string list \<Rightarrow> captured_tool option" where
  "segment_mentions_unmanaged_lint_tool [] = None"
| "segment_mentions_unmanaged_lint_tool (t # ts) =
     (case captured_tool_for_command t of
        Some tool \<Rightarrow> Some tool
      | None \<Rightarrow> segment_mentions_unmanaged_lint_tool ts)"

definition segment_uses_path_override :: "string list \<Rightarrow> bool" where
  "segment_uses_path_override segment = list_ex (\<lambda>t. has_prefix t ''PATH='') segment"

section \<open>Calls of a tool\<close>

definition python_module_lint_tool_args :: "string list \<Rightarrow> (captured_tool \<times> string list) option" where
  "python_module_lint_tool_args segment =
     (if length segment < 3 \<or> \<not> is_python_command (segment ! 0) \<or> segment ! 1 \<noteq> ''-m'' then None
      else case captured_tool_for_module (segment ! 2) of
             None \<Rightarrow> None
           | Some tool \<Rightarrow>
               if captured_python_module tool then Some (tool, drop 3 segment) else None)"

text \<open>The loop of \<open>uvLintToolArgs\<close>.\<close>

fun first_tool_and_rest :: "string list \<Rightarrow> (captured_tool \<times> string list) option" where
  "first_tool_and_rest [] = None"
| "first_tool_and_rest (t # ts) =
     (case captured_tool_for_command t of
        Some tool \<Rightarrow> Some (tool, ts)
      | None \<Rightarrow> first_tool_and_rest ts)"

definition uv_lint_tool_args :: "string list \<Rightarrow> (captured_tool \<times> string list) option" where
  "uv_lint_tool_args segment =
     (if path_base (segment ! 0) \<noteq> ''uv'' then None else first_tool_and_rest segment)"

definition command_lint_tool_args :: "string list \<Rightarrow> (captured_tool \<times> string list) option" where
  "command_lint_tool_args segment =
     (if path_base (segment ! 0) \<noteq> ''command'' \<or> length segment \<le> 1 then None
      else case captured_tool_for_command (segment ! 1) of
             None \<Rightarrow> None
           | Some tool \<Rightarrow> Some (tool, drop 2 segment))"

text \<open>The loop of \<open>envLintToolArgs\<close>, which ends at the first word that is not an assignment or an option.\<close>

fun env_command_and_rest :: "string list \<Rightarrow> (captured_tool \<times> string list) option" where
  "env_command_and_rest [] = None"
| "env_command_and_rest (t # ts) =
     (if str_contains t ''='' \<or> has_prefix t ''-'' then env_command_and_rest ts
      else map_option (\<lambda>tool. (tool, ts)) (captured_tool_for_command t))"

definition env_lint_tool_args :: "string list \<Rightarrow> (captured_tool \<times> string list) option" where
  "env_lint_tool_args segment =
     (if path_base (segment ! 0) \<noteq> ''env'' then None else env_command_and_rest (tl segment))"

definition unmanaged_lint_tool_args :: "string list \<Rightarrow> (captured_tool \<times> string list) option" where
  "unmanaged_lint_tool_args segment =
     (if segment = [] then None
      else case captured_tool_for_command (hd segment) of
             Some tool \<Rightarrow> Some (tool, tl segment)
           | None \<Rightarrow>
         case python_module_lint_tool_args segment of
             Some r \<Rightarrow> Some r
           | None \<Rightarrow>
         case uv_lint_tool_args segment of
             Some r \<Rightarrow> Some r
           | None \<Rightarrow>
         case command_lint_tool_args segment of
             Some r \<Rightarrow> Some r
           | None \<Rightarrow> env_lint_tool_args segment)"

section \<open>Rewriting\<close>

definition lint_capture_command :: "environment \<Rightarrow> string \<Rightarrow> string list \<Rightarrow> string" where
  "lint_capture_command env name args =
     str_join '' '' (shell_quote (runner_command env) # ''policy-tool'' # name # map shell_quote args)"

text \<open>The rewritten text (empty when there is none), the tool, and whether the segment is acceptable.\<close>

definition rewrite_lint_tool_segment ::
  "environment \<Rightarrow> string list \<Rightarrow> string \<times> captured_tool option \<times> bool" where
  "rewrite_lint_tool_segment env segment =
     (if segment = [] then ([], None, True)
      else if managed_lint_tool_segment env segment then ([], None, True)
      else if segment_uses_path_override segment \<and>
              segment_mentions_unmanaged_lint_tool segment \<noteq> None
        then ([], segment_mentions_unmanaged_lint_tool segment, False)
      else
        case split_shell_redirections segment of
          (args, redirections) \<Rightarrow>
            (case unmanaged_lint_tool_args args of
               Some (tool, tool_args) \<Rightarrow>
                 (lint_capture_command env (captured_name tool) tool_args @
                    (if redirections \<noteq> [] then '' '' @ str_join '' '' redirections else []),
                  Some tool, True)
             | None \<Rightarrow>
                 (case segment_mentions_unmanaged_lint_tool segment of
                    Some tool \<Rightarrow> ([], Some tool, False)
                  | None \<Rightarrow> ([], None, True))))"

text \<open>The error is the tool of the segment that is not acceptable.\<close>

fun rewrite_lint_chunks ::
  "environment \<Rightarrow> chunk list \<Rightarrow> string list \<Rightarrow> captured_tool option \<Rightarrow> bool \<Rightarrow>
   captured_tool option + string list \<times> captured_tool option \<times> bool" where
  "rewrite_lint_chunks env [] rewritten routed rewrote = Inr (rewritten, routed, rewrote)"
| "rewrite_lint_chunks env (Control t # cs) rewritten routed rewrote =
     rewrite_lint_chunks env cs (rewritten @ [t]) routed rewrote"
| "rewrite_lint_chunks env (Segment segment # cs) rewritten routed rewrote =
     (case rewrite_lint_tool_segment env segment of
        (text, tool, ok) \<Rightarrow>
          if \<not> ok then Inl tool
          else if text \<noteq> [] then rewrite_lint_chunks env cs (rewritten @ [text]) tool True
          else rewrite_lint_chunks env cs (append_quoted_tokens rewritten segment) routed rewrote)"

definition rewrite_lint_tool_command_chain ::
  "'n bash \<Rightarrow> environment \<Rightarrow> string \<Rightarrow> string \<times> captured_tool option \<times> bool \<times> bool" where
  "rewrite_lint_tool_command_chain B env command =
     (case ControlFields B command of
        Inl e \<Rightarrow> ([], None, False, False)
      | Inr tokens \<Rightarrow>
          if tokens = [] then ([], None, False, True)
          else case rewrite_lint_chunks env (chunks tokens) [] None False of
                 Inl tool \<Rightarrow> ([], tool, False, False)
               | Inr (rewritten, routed, rewrote) \<Rightarrow> (str_join '' '' rewritten, routed, rewrote, True))"

definition managed_lint_tool_command_chain :: "'n bash \<Rightarrow> environment \<Rightarrow> string \<Rightarrow> bool" where
  "managed_lint_tool_command_chain B env command =
     (case ControlFields B command of
        Inl e \<Rightarrow> False
      | Inr tokens \<Rightarrow> list_ex (managed_lint_tool_segment env) (chunk_segments (chunks tokens)))"

fun first_mentioned :: "string list \<Rightarrow> captured_tool option" where
  "first_mentioned [] = None"
| "first_mentioned (t # ts) =
     (case captured_tool_for_command t of
        Some tool \<Rightarrow> Some tool
      | None \<Rightarrow>
          (case captured_tool_for_module t of Some tool \<Rightarrow> Some tool | None \<Rightarrow> first_mentioned ts))"

definition first_mentioned_captured_tool :: "'n bash \<Rightarrow> string \<Rightarrow> captured_tool option" where
  "first_mentioned_captured_tool B command =
     (case ControlFields B command of Inl e \<Rightarrow> None | Inr tokens \<Rightarrow> first_mentioned tokens)"

section \<open>Commands that hide a tool\<close>

definition command_string_mentions_captured_tool :: "string \<Rightarrow> bool" where
  "command_string_mentions_captured_tool v =
     list_ex (\<lambda>t. str_contains (to_lower v) (to_lower (captured_name t)) \<or>
         list_ex (\<lambda>m. str_contains (to_lower v) (to_lower m)) (captured_module_names t))
       CapturedLintTools"

definition shell_command_arg_mentions_captured_tool :: "shell_command \<Rightarrow> bool" where
  "shell_command_arg_mentions_captured_tool c =
     list_ex command_string_mentions_captured_tool (cmd_argv c)"

text \<open>Only the argument of the first \<open>-c\<close> that has one is looked at.\<close>

definition shell_exec_argument_mentions_captured_tool :: "shell_command \<Rightarrow> bool" where
  "shell_exec_argument_mentions_captured_tool c =
     (case exec_arguments (cmd_argv c) of
        [] \<Rightarrow> False
      | a # _ \<Rightarrow> command_string_mentions_captured_tool a)"

definition shell_command_is_lint_tool :: "shell_command \<Rightarrow> bool" where
  "shell_command_is_lint_tool c =
     (if captured_tool_for_command (shell_command_name c) \<noteq> None then True
      else list_ex (\<lambda>a. captured_tool_for_command a \<noteq> None \<or> captured_tool_for_module a \<noteq> None)
             (cmd_argv c))"

definition shell_command_uses_evasive_lint_feature :: "shell_command \<Rightarrow> bool" where
  "shell_command_uses_evasive_lint_feature c \<longleftrightarrow>
     cmd_command_substitution c \<or> cmd_process_substitution c \<or> cmd_heredoc c \<or> cmd_subshell c \<or>
     shell_command_uses_path_override c"

definition shell_python_command_mentions_captured_tool :: "shell_command \<Rightarrow> bool" where
  "shell_python_command_mentions_captured_tool c \<longleftrightarrow>
     is_python_command (shell_command_name c) \<and>
     (shell_command_arg_mentions c ''subprocess'' \<or> shell_command_arg_mentions_captured_tool c)"

definition shell_command_uses_lint_tool_indirection :: "shell_command \<Rightarrow> bool" where
  "shell_command_uses_lint_tool_indirection c =
     (let name = shell_command_name c
      in if name \<in> {''bash'', ''sh'', ''zsh'', ''dash''}
           then shell_exec_argument_mentions_captured_tool c
         else if name \<in> {''eval'', ''alias'', ''exec''}
           then shell_command_arg_mentions_captured_tool c
         else shell_python_command_mentions_captured_tool c)"

definition shell_command_is_evasive_lint_tool :: "shell_command \<Rightarrow> bool" where
  "shell_command_is_evasive_lint_tool c =
     (if shell_command_uses_lint_tool_indirection c then True
      else shell_command_is_lint_tool c \<and> shell_command_uses_evasive_lint_feature c)"

definition evasive_lint_tool_shell :: "'n bash \<Rightarrow> string \<Rightarrow> bool" where
  "evasive_lint_tool_shell B command =
     (case Commands B command of
        Inl e \<Rightarrow> True
      | Inr cs \<Rightarrow> list_ex shell_command_is_evasive_lint_tool cs)"

section \<open>The route\<close>

definition lint_capture_policy_id :: "string \<Rightarrow> string" where
  "lint_capture_policy_id name =
     (if name = [] then ''tool.lint_capture_required''
      else ''tool.'' @ replace_all ''-'' ''_'' name @ ''_capture_required'')"

fun first_capture_non_empty :: "string list \<Rightarrow> string" where
  "first_capture_non_empty [] = []"
| "first_capture_non_empty (v # vs) = (if trim_space v \<noteq> [] then v else first_capture_non_empty vs)"

definition name_of_tool :: "captured_tool option \<Rightarrow> string" where
  "name_of_tool tool = (case tool of None \<Rightarrow> [] | Some t \<Rightarrow> captured_name t)"

definition description_of_tool :: "captured_tool option \<Rightarrow> string" where
  "description_of_tool tool = (case tool of None \<Rightarrow> [] | Some t \<Rightarrow> captured_description t)"

definition lint_capture_required_message :: "captured_tool option \<Rightarrow> string" where
  "lint_capture_required_message tool =
     first_capture_non_empty [description_of_tool tool, name_of_tool tool, ''Lint tools''] @
     '' must run through the coding-ethos lint capture wrapper so '' @
     ''diagnostics are logged under .coding-ethos/lint-runs. Use the managed '' @
     ''tool wrapper from the hook PATH instead of absolute tool paths, '' @
     ''python -m, uv run, PATH edits, subprocesses, or shell bypasses.''"

definition lint_tool_route_for :: "'n bash \<Rightarrow> environment \<Rightarrow> event \<Rightarrow> inspection_route" where
  "lint_tool_route_for B env e =
     (if ev_hook_event_name e \<noteq> ''PreToolUse'' \<or> ev_tool_name e \<noteq> ''Bash'' then no_route
      else
        let command = trim_space (Command e)
        in if command = [] then no_route
           else case rewrite_lint_tool_command_chain B env command of
                  (rewritten, tool, rewrite, route_ok) \<Rightarrow>
                    if rewrite \<and> route_ok then
                      no_route
                        \<lparr>route_updated_input := Some (updated_bash_input (ev_tool_input e) rewritten),
                         route_reason := ''Routed '' @ name_of_tool tool @ '' through coding-ethos lint capture.'',
                         route_rewrite := True\<rparr>
                    else if route_ok \<and> managed_lint_tool_command_chain B env command then no_route
                    else if \<not> route_ok \<or> evasive_lint_tool_shell B command then
                      let block_tool =
                            (if name_of_tool tool = [] then first_mentioned_captured_tool B command else tool)
                      in no_route
                           \<lparr>route_block_policy_id := lint_capture_policy_id (name_of_tool block_tool),
                            route_reason := lint_capture_required_message block_tool,
                            route_block := True\<rparr>
                    else no_route)"


section \<open>Which segments are accepted\<close>

lemma find_SomeD: "find P xs = Some x \<Longrightarrow> x \<in> set xs \<and> P x"
  by (auto simp: find_Some_iff)

lemma captured_tool_for_commandD:
  "captured_tool_for_command w = Some t \<Longrightarrow> t \<in> set CapturedLintTools \<and> captured_name t = path_base w"
  unfolding captured_tool_for_command_def by (drule find_SomeD) simp

lemma captured_tool_for_moduleD:
  "captured_tool_for_module m = Some t \<Longrightarrow> t \<in> set CapturedLintTools \<and> m \<in> set (captured_module_names t)"
  unfolding captured_tool_for_module_def by (drule find_SomeD) simp

lemma segment_mentions_None:
  "segment_mentions_unmanaged_lint_tool ws = None \<longleftrightarrow> (\<forall>w \<in> set ws. captured_tool_for_command w = None)"
  by (induction ws) (auto split: option.split)

lemma first_tool_and_restD:
  "first_tool_and_rest ws = Some (t, args) \<Longrightarrow> t \<in> set CapturedLintTools \<and> suffix args ws"
  by (induction ws) (auto split: option.splits dest: captured_tool_for_commandD intro: suffix_ConsI)

lemma env_command_and_restD:
  "env_command_and_rest ws = Some (t, args) \<Longrightarrow> t \<in> set CapturedLintTools \<and> suffix args ws"
  by (induction ws) (auto split: option.splits if_splits dest: captured_tool_for_commandD intro: suffix_ConsI)

lemma suffix_tl_trans: "suffix xs (tl ys) \<Longrightarrow> suffix xs ys"
  using suffix_order.trans suffix_tl by blast

lemma unmanaged_lint_tool_argsD:
  assumes "unmanaged_lint_tool_args ws = Some (t, args)"
  shows "t \<in> set CapturedLintTools \<and> suffix args ws"
proof -
  have "ws \<noteq> []" using assms by (auto simp: unmanaged_lint_tool_args_def)
  then show ?thesis
    using assms
    by (auto simp: unmanaged_lint_tool_args_def python_module_lint_tool_args_def
        uv_lint_tool_args_def command_lint_tool_args_def env_lint_tool_args_def suffix_drop suffix_tl
        split: option.splits if_splits
        dest: captured_tool_for_commandD captured_tool_for_moduleD first_tool_and_restD
          env_command_and_restD suffix_tl_trans)
qed

lemma lint_capture_command_nonempty [simp]: "lint_capture_command env n args \<noteq> []"
  by (cases args) (simp_all add: lint_capture_command_def shell_quote_def)

lemma captured_names_are_commands:
  "list_all (\<lambda>t. captured_tool_for_command (captured_name t) = Some t \<and>
     captured_module_names t \<in> {[], [captured_name t]}) CapturedLintTools"
  by code_simp

lemma captured_tool_for_module_command:
  "captured_tool_for_module m = Some t \<Longrightarrow> captured_tool_for_command m = Some t"
  using captured_tool_for_moduleD [of m t] captured_names_are_commands
  by (fastforce simp: list_all_iff)

lemma first_tool_and_rest_mentions:
  "first_tool_and_rest ws = Some r \<Longrightarrow> \<exists>w \<in> set ws. captured_tool_for_command w \<noteq> None"
  by (induction ws) (auto split: option.splits)

lemma env_command_and_rest_mentions:
  "env_command_and_rest ws = Some r \<Longrightarrow> \<exists>w \<in> set ws. captured_tool_for_command w \<noteq> None"
  by (induction ws) (auto split: option.splits if_splits)

lemma unmanaged_lint_tool_args_mentions:
  assumes "unmanaged_lint_tool_args ws = Some r"
  shows "\<exists>w \<in> set ws. captured_tool_for_command w \<noteq> None"
proof -
  have nth: "i < length ws \<Longrightarrow> captured_tool_for_command (ws ! i) = Some t \<Longrightarrow>
      \<exists>w \<in> set ws. captured_tool_for_command w \<noteq> None" for i t
    by (metis nth_mem option.distinct(1))
  have "ws \<noteq> []" using assms by (auto simp: unmanaged_lint_tool_args_def)
  then consider t where "captured_tool_for_command (hd ws) = Some t"
    | t where "2 < length ws" "captured_tool_for_module (ws ! 2) = Some t"
    | "first_tool_and_rest ws = Some r"
    | t where "1 < length ws" "captured_tool_for_command (ws ! 1) = Some t"
    | "env_command_and_rest (tl ws) = Some r"
    using assms
    by (auto simp: unmanaged_lint_tool_args_def python_module_lint_tool_args_def
        uv_lint_tool_args_def command_lint_tool_args_def env_lint_tool_args_def
        split: option.splits if_splits)
  then show ?thesis
  proof cases
    case 1
    with \<open>ws \<noteq> []\<close> show ?thesis by (metis hd_in_set option.distinct(1))
  next
    case 2
    with nth captured_tool_for_module_command show ?thesis by blast
  next
    case 3
    then show ?thesis by (rule first_tool_and_rest_mentions)
  next
    case 4
    with nth show ?thesis by blast
  next
    case 5
    with \<open>ws \<noteq> []\<close> show ?thesis by (meson env_command_and_rest_mentions list.set_sel(2))
  qed
qed

lemma split_shell_redirections_subset: "set (fst (split_shell_redirections ws)) \<subseteq> set ws"
proof (induction ws rule: split_shell_redirections.induct)
  case (2 t ts)
  have "set (tl ts) \<subseteq> set ts" by (cases ts) auto
  with 2 show ?case by (auto split: prod.splits) blast+
qed simp

lemma accepted_call_mentions:
  assumes "unmanaged_lint_tool_args (fst (split_shell_redirections ws)) = Some r"
  shows "segment_mentions_unmanaged_lint_tool ws \<noteq> None"
proof -
  from unmanaged_lint_tool_args_mentions [OF assms] split_shell_redirections_subset [of ws]
  have "\<exists>w \<in> set ws. captured_tool_for_command w \<noteq> None" by blast
  then show ?thesis using segment_mentions_None [of ws] by simp
qed

text \<open>
  Fact. Which segments the route refuses and rewrites. A segment is accepted when it is a
  managed call, when none of its words is a captured tool, or when it calls a captured tool in a
  form the route knows and no word sets \<open>PATH\<close>; it is rewritten exactly when it is such a call
  and not managed.
\<close>

theorem lint_segment_decision_exact:
  "(snd (snd (rewrite_lint_tool_segment env ws)) \<longleftrightarrow>
     managed_lint_tool_segment env ws \<or>
     list_all (\<lambda>w. captured_tool_for_command w = None) ws \<or>
     (list_all (\<lambda>w. \<not> has_prefix w ''PATH='') ws \<and>
      (\<exists>call. unmanaged_lint_tool_args (fst (split_shell_redirections ws)) = Some call))) \<and>
   (fst (rewrite_lint_tool_segment env ws) \<noteq> [] \<longleftrightarrow>
     snd (snd (rewrite_lint_tool_segment env ws)) \<and> \<not> managed_lint_tool_segment env ws \<and>
     (\<exists>call. unmanaged_lint_tool_args (fst (split_shell_redirections ws)) = Some call))"
proof -
  obtain args redirs where s: "split_shell_redirections ws = (args, redirs)" by force
  have mention: "list_all (\<lambda>w. captured_tool_for_command w = None) ws \<longleftrightarrow>
      segment_mentions_unmanaged_lint_tool ws = None"
    by (simp add: segment_mentions_None list_all_iff)
  have path: "list_all (\<lambda>w. \<not> has_prefix w ''PATH='') ws \<longleftrightarrow> \<not> segment_uses_path_override ws"
    by (auto simp: segment_uses_path_override_def list_all_iff list_ex_iff)
  have empty: "ws = [] \<Longrightarrow> unmanaged_lint_tool_args args = None"
    using s by (auto simp: unmanaged_lint_tool_args_def)
  show ?thesis
    unfolding mention path
    using accepted_call_mentions [of ws] s empty
    by (cases "unmanaged_lint_tool_args args")
       (auto simp: rewrite_lint_tool_segment_def split: option.splits if_splits)
qed


section \<open>What a rewritten segment runs\<close>

lemma reads_as_captured_names:
  "t \<in> set CapturedLintTools \<Longrightarrow> reads_as (captured_name t) (captured_name t)"
  unfolding captured_lint_tools_table
  by (auto simp: reads_as_def sh_blank_def sh_active_first_def sh_active_def)

lemma reads_as_policy_tool: "reads_as ''policy-tool'' ''policy-tool''"
  by (simp add: reads_as_def sh_blank_def sh_active_first_def sh_active_def)

lemma lint_capture_command_reads_back:
  assumes "t \<in> set CapturedLintTools"
  shows "sh_words (lint_capture_command env (captured_name t) args) =
    Some (runner_command env # ''policy-tool'' # captured_name t # args)"
  unfolding lint_capture_command_def
  by (rule reads_as_join)
     (simp add: reads_as_shell_quote reads_as_policy_tool reads_as_captured_names [OF assms]
        list_all2_map1 list_all2_same)

text \<open>
  Fact. A call of a lint tool which the route rewrites, with no redirection, becomes the
  managed call of the same tool: the shell reads the new text as the runner, \<open>policy-tool\<close>, the
  name of a captured tool that was a word of the call, and the words behind it, none lost and none
  split.
\<close>

theorem rewritten_lint_segment_reads_back:
  assumes "rewrite_lint_tool_segment env ws = (out, Some tool, True)"
    and "\<And>w. w \<in> set ws \<Longrightarrow> \<not> is_shell_redirection_syntax w"
  shows "\<exists>args. suffix args ws \<and> unmanaged_lint_tool_args ws = Some (tool, args) \<and>
    sh_words out = Some (runner_command env # ''policy-tool'' # captured_name tool # args)"
proof -
  have "split_shell_redirections ws = (ws, [])"
    using assms(2) by (intro split_shell_redirections_plain) (simp add: list_all_iff)
  then obtain args where "unmanaged_lint_tool_args ws = Some (tool, args)"
    and out: "out = lint_capture_command env (captured_name tool) args"
    using assms(1) by (auto simp: rewrite_lint_tool_segment_def split: if_splits option.splits)
  with unmanaged_lint_tool_argsD [OF this(1)] lint_capture_command_reads_back [of tool env args]
  show ?thesis by auto
qed

theorem rewritten_lint_segment_reads_back_witness:
  "\<exists>args. suffix args [''python3'', ''-m'', ''mypy'', ''a b.py''] \<and>
    unmanaged_lint_tool_args [''python3'', ''-m'', ''mypy'', ''a b.py''] =
      Some (the (captured_tool_for_module ''mypy''), args) \<and>
    sh_words (fst (rewrite_lint_tool_segment (\<lambda>_. []) [''python3'', ''-m'', ''mypy'', ''a b.py''])) =
      Some (runner_command (\<lambda>_. []) # ''policy-tool'' #
        captured_name (the (captured_tool_for_module ''mypy'')) # args)"
proof (rule rewritten_lint_segment_reads_back)
  show "rewrite_lint_tool_segment (\<lambda>_. []) [''python3'', ''-m'', ''mypy'', ''a b.py''] =
    (fst (rewrite_lint_tool_segment (\<lambda>_. []) [''python3'', ''-m'', ''mypy'', ''a b.py'']),
     Some (the (captured_tool_for_module ''mypy'')), True)" by code_simp
  have "list_all (\<lambda>w. \<not> is_shell_redirection_syntax w) [''python3'', ''-m'', ''mypy'', ''a b.py'']"
    by code_simp
  then show "\<And>w. w \<in> set [''python3'', ''-m'', ''mypy'', ''a b.py''] \<Longrightarrow> \<not> is_shell_redirection_syntax w"
    by (simp only: list_all_iff) blast
qed

section \<open>What a command let through holds\<close>

lemma rewrite_lint_chunks_unchanged:
  assumes "rewrite_lint_chunks env cs pre routed r = Inr (out, tool, r')" and "\<not> r'"
    and "ws \<in> set (chunk_segments cs)"
  shows "fst (rewrite_lint_tool_segment env ws) = [] \<and> snd (snd (rewrite_lint_tool_segment env ws))"
  using assms
proof (induction env cs pre routed r rule: rewrite_lint_chunks.induct)
  case (3 env segment cs rewritten routed rewrote)
  have kept: "rewrite_lint_chunks env cs p q True = Inr (x, y, z) \<Longrightarrow> z" for p q x y z cs
  proof (induction cs arbitrary: p q)
    case (Cons c cs)
    then show ?case by (cases c) (auto split: prod.splits if_splits)
  qed simp
  from 3 kept show ?case
    by (auto simp: chunk_segments_def split: prod.splits if_splits)
qed (auto simp: chunk_segments_def)

lemma unrouted_command_names_no_lint_tool_aux:
  assumes "ev_hook_event_name e = ''PreToolUse''" and "ev_tool_name e = ''Bash''"
    and "trim_space (Command e) = command" and "command \<noteq> []"
    and "\<not> route_block (lint_tool_route_for B env e)"
    and "\<not> route_rewrite (lint_tool_route_for B env e)"
    and "\<not> managed_lint_tool_command_chain B env command"
  shows "\<exists>tokens. ControlFields B command = Inr tokens \<and>
    list_all (list_all (\<lambda>w. captured_tool_for_command w = None)) (chunk_segments (chunks tokens)) \<and>
    \<not> evasive_lint_tool_shell B command"
proof -
  obtain out tool rewrite ok where r: "rewrite_lint_tool_command_chain B env command = (out, tool, rewrite, ok)"
    by (metis prod_cases4)
  have ok: "ok" "\<not> rewrite" and quiet: "\<not> evasive_lint_tool_shell B command"
    using assms r by (auto simp: lint_tool_route_for_def Let_def split: if_splits)
  then obtain tokens where tokens: "ControlFields B command = Inr tokens"
    using r by (auto simp: rewrite_lint_tool_command_chain_def split: sum.splits)
  have "list_all (\<lambda>w. captured_tool_for_command w = None) ws"
    if seg: "ws \<in> set (chunk_segments (chunks tokens))" for ws
  proof -
    have "tokens \<noteq> []" using seg by (auto simp: chunk_segments_def)
    then obtain out where "rewrite_lint_chunks env (chunks tokens) [] None False = Inr (out, tool, False)"
      using r ok tokens by (auto simp: rewrite_lint_tool_command_chain_def split: sum.splits if_splits)
    from rewrite_lint_chunks_unchanged [OF this _ seg]
    have same: "fst (rewrite_lint_tool_segment env ws) = []" "snd (snd (rewrite_lint_tool_segment env ws))"
      by auto
    moreover have "\<not> managed_lint_tool_segment env ws"
      using assms(7) tokens seg by (auto simp: managed_lint_tool_command_chain_def list_ex_iff)
    ultimately have "segment_mentions_unmanaged_lint_tool ws = None"
      by (auto simp: rewrite_lint_tool_segment_def split: prod.splits option.splits if_splits)
    then show ?thesis by (simp add: segment_mentions_None list_all_iff)
  qed
  then show ?thesis using tokens quiet by (auto simp: list_all_iff)
qed

text \<open>
  Fact. A \<open>Bash\<close> command which the route neither blocks nor rewrites, and which holds no
  managed call, has no captured tool among the words of its segments: not as a program and not as
  an argument, under its name or under a path. No shell, \<open>eval\<close>, \<open>alias\<close>, \<open>exec\<close> or Python call of
  it hides one in the text it is given.
\<close>

theorem unrouted_command_names_no_lint_tool:
  assumes "ev_hook_event_name e = ''PreToolUse''" and "ev_tool_name e = ''Bash''"
    and "trim_space (Command e) = command" and "command \<noteq> []"
    and "\<not> route_block (lint_tool_route_for B env e)"
    and "\<not> route_rewrite (lint_tool_route_for B env e)"
    and "\<not> managed_lint_tool_command_chain B env command"
  shows "\<exists>tokens. ControlFields B command = Inr tokens \<and>
    list_all (list_all (\<lambda>w. captured_tool_for_command w = None)) (chunk_segments (chunks tokens)) \<and>
    \<not> evasive_lint_tool_shell B command"
  using assms by (rule unrouted_command_names_no_lint_tool_aux)

theorem unrouted_command_names_no_lint_tool_witness:
  "\<exists>tokens. ControlFields make_bash ''make check'' = Inr tokens \<and>
    list_all (list_all (\<lambda>w. captured_tool_for_command w = None)) (chunk_segments (chunks tokens)) \<and>
    \<not> evasive_lint_tool_shell make_bash ''make check''"
proof (rule unrouted_command_names_no_lint_tool
    [where e = "sample_event ''claude'' ''make check''" and env = "\<lambda>_. []"])
  show "trim_space (Command (sample_event ''claude'' ''make check'')) = ''make check''" by code_simp
  show "\<not> route_block (lint_tool_route_for make_bash (\<lambda>_. []) (sample_event ''claude'' ''make check''))"
    by code_simp
  show "\<not> route_rewrite (lint_tool_route_for make_bash (\<lambda>_. []) (sample_event ''claude'' ''make check''))"
    by code_simp
  show "\<not> managed_lint_tool_command_chain make_bash (\<lambda>_. []) ''make check''" by code_simp
qed (simp_all add: sample_event_def)

text \<open>
  Fact. Three consequences of the forms the route knows. A managed call anywhere in a chain exempts
  the whole chain from the search for hidden calls. A \<open>uv\<close> call that only names a tool is turned
  into a run of it, so \<open>uv pip install ruff\<close> runs Ruff without arguments. The assignments of an
  \<open>env\<close> call are lost.
\<close>

theorem managed_lint_call_exempts_chain:
  assumes "trim_space (Command e) = command"
    and "rewrite_lint_tool_command_chain B env command = (rewritten, tool, False, True)"
    and "ControlFields B command = Inr tokens"
    and "segment \<in> set (chunk_segments (chunks tokens))" and "managed_lint_tool_segment env segment"
  shows "lint_tool_route_for B env e = no_route"
  using assms
  by (auto simp: lint_tool_route_for_def managed_lint_tool_command_chain_def list_ex_iff Let_def)

theorem uv_install_becomes_run:
  "map_option sh_words (case rewrite_lint_tool_segment (\<lambda>_. []) [''uv'', ''pip'', ''install'', ''ruff''] of
      (text, tool, ok) \<Rightarrow> if ok then Some text else None) =
    Some (Some [''bin/coding-ethos-run'', ''policy-tool'', ''ruff''])"
  by code_simp

theorem env_assignments_lost:
  "map_option sh_words (case rewrite_lint_tool_segment (\<lambda>_. []) [''env'', ''MYPYPATH=stubs'', ''mypy'', ''src''] of
      (text, tool, ok) \<Rightarrow> if ok then Some text else None) =
    Some (Some [''bin/coding-ethos-run'', ''policy-tool'', ''mypy'', ''src''])"
  by code_simp

end
