(* ===== verification/PathWalk.thy ===== *)
theory PathWalk
  imports Paths "HOL-Library.Sublist" "HOL-Library.Monad_Syntax"
begin

text \<open>
  The loop \<open>for current := filepath.Clean(p); ; current = filepath.Dir(current)\<close>, which several
  components use to look for a marker on the way up from a directory. It ends for every path,
  relative or not: the directory of a path is the path itself or shorter.
\<close>

section \<open>The directory of a path is shorter\<close>

definition elements_length :: "string list \<Rightarrow> nat" where
  "elements_length es = sum_list (map (\<lambda>e. length e + 1) es)"

lemma elements_length_simps [simp]:
  "elements_length [] = 0" "elements_length (e # es) = length e + 1 + elements_length es"
  "elements_length (rev es) = elements_length es"
  "elements_length (es @ fs) = elements_length es + elements_length fs"
  by (simp_all add: elements_length_def rev_map [symmetric])

lemma clean_elements_length:
  "elements_length (clean_elements rooted out es) \<le> elements_length out + elements_length es"
proof (induction rooted out es rule: clean_elements.induct)
  case (2 rooted out e es)
  then show ?case by (auto split: list.splits if_splits)
qed simp

lemma str_join_length: "es \<noteq> [] \<Longrightarrow> length (str_join ''/'' es) + 1 = elements_length es"
proof (induction es rule: induct_list012)
  case (3 x y zs)
  then show ?case by (cases zs) auto
qed simp_all

lemma split_on_length: "elements_length (split_on d s) = length s + 1"
  by (induction s) (auto split: list.splits)

lemma path_clean_length: "p \<noteq> [] \<Longrightarrow> length (path_clean p) \<le> length p"
proof -
  assume p: "p \<noteq> []"
  show ?thesis
  proof (cases "hd p = CHR ''/''")
    case True
    then obtain s where s: "p = CHR ''/'' # s" using p by (cases p) auto
    let ?es = "clean_elements True [] (split_on CHR ''/'' p)"
    have "elements_length ?es \<le> length s + 1"
      using clean_elements_length [of True "[]" "split_on CHR ''/'' s"] by (simp add: s split_on_length)
    then have "length (str_join ''/'' ?es) \<le> length s"
      using str_join_length [of ?es] by (cases "?es = []") auto
    with True p s show ?thesis by (simp add: path_clean_def Let_def)
  next
    case False
    let ?es = "clean_elements False [] (split_on CHR ''/'' p)"
    have "elements_length ?es \<le> length p + 1"
      using clean_elements_length [of False "[]" "split_on CHR ''/'' p"] by (simp add: split_on_length)
    then have "?es \<noteq> [] \<Longrightarrow> length (str_join ''/'' ?es) \<le> length p"
      using str_join_length [of ?es] by simp
    moreover have "1 \<le> length p" using p by (cases p) auto
    ultimately show ?thesis using False p by (auto simp: path_clean_def Let_def)
  qed
qed

lemma clean_elements_trailing_slash:
  "clean_elements rooted out (es @ [[]]) = clean_elements rooted out es"
  by (induction rooted out es rule: clean_elements.induct) (auto split: list.split)

lemma split_on_trailing_sep: "split_on d (s @ [d]) = split_on d s @ [[]]"
  using split_on_append_last [of d "[]" s] by simp

lemma path_clean_trailing_slash:
  assumes "q \<noteq> []"
  shows "path_clean (q @ ''/'') = path_clean q"
proof -
  have "split_on CHR ''/'' (q @ ''/'') = split_on CHR ''/'' q @ [[]]" by (rule split_on_trailing_sep)
  with assms show ?thesis
    by (simp add: path_clean_def Let_def clean_elements_trailing_slash)
qed

lemma path_dir_cases:
  obtains "path_dir p = ''.''" | "path_dir p = ''/''" "p \<noteq> []"
  | q where "q \<noteq> []" "path_dir p = path_clean q" "length q < length p"
proof -
  let ?d = "rev (dropWhile (\<lambda>c. c \<noteq> CHR ''/'') (rev p))"
  have len: "length ?d \<le> length p" using length_dropWhile_le [of _ "rev p"] by simp
  show thesis
  proof (cases "dropWhile (\<lambda>c. c \<noteq> CHR ''/'') (rev p)")
    case Nil
    then show thesis using that(1) by (simp add: path_dir_def path_clean_def)
  next
    case (Cons c r)
    then have c: "c = CHR ''/''" by (simp add: dropWhile_eq_Cons_conv)
    show thesis
    proof (cases "r = []")
      case True
      with Cons c have "path_dir p = ''/''" by (simp add: path_dir_def path_clean_def)
      moreover have "p \<noteq> []" using Cons by auto
      ultimately show thesis using that(2) by blast
    next
      case False
      with Cons c have "path_dir p = path_clean (rev r)"
        using path_clean_trailing_slash [of "rev r"] by (simp add: path_dir_def)
      moreover have "length (rev r) < length p" using len Cons by simp
      ultimately show thesis using that(3) [of "rev r"] False by simp
    qed
  qed
qed

text \<open>A measure that goes down from a path to its directory.\<close>

definition path_height :: "string \<Rightarrow> nat" where
  "path_height p = (if p = ''.'' then 0 else if p = ''/'' then 1 else length p + 2)"

lemma path_dir_height: "path_dir p \<noteq> p \<Longrightarrow> path_height (path_dir p) < path_height p"
proof -
  assume p: "path_dir p \<noteq> p"
  show ?thesis
  proof (rule path_dir_cases [of p])
    assume "path_dir p = ''.''"
    with p show ?thesis by (auto simp: path_height_def)
  next
    assume d: "path_dir p = ''/''" "p \<noteq> []"
    have "path_dir ''.'' = ''.''" by code_simp
    with d have "p \<noteq> ''.''" by auto
    with d p show ?thesis by (auto simp: path_height_def)
  next
    fix q assume q: "q \<noteq> []" "path_dir p = path_clean q" "length q < length p"
    have "length (path_clean q) < length p" using path_clean_length [OF q(1)] q(3) by simp
    moreover have "path_dir ''.'' = ''.''" "path_dir ''/'' = ''/''" by code_simp+
    with p have "p \<noteq> ''.''" "p \<noteq> ''/''" by auto
    ultimately show ?thesis using q by (auto simp: path_height_def)
  qed
qed

section \<open>Cleaning twice\<close>

lemma clean_elements_parts:
  "x \<in> set (clean_elements rooted out es) \<Longrightarrow> x \<in> set out \<union> set es"
  by (induction rooted out es rule: clean_elements.induct) (auto split: list.splits if_splits)

lemma clean_elements_plain:
  "set ws \<inter> {[], ''.'', ''..''} = {} \<Longrightarrow> clean_elements rooted out ws = rev out @ ws"
  by (induction ws arbitrary: out) auto

lemma clean_elements_dots:
  "clean_elements False (replicate j ''..'') (replicate k ''..'' @ ws) =
   clean_elements False (replicate (j + k) ''..'') ws"
proof (induction k arbitrary: j)
  case (Suc k)
  have "clean_elements False (replicate j ''..'') (replicate (Suc k) ''..'' @ ws) =
      clean_elements False (replicate (Suc j) ''..'') (replicate k ''..'' @ ws)"
    by (cases j) simp_all
  with Suc [of "Suc j"] show ?case by simp
qed simp

lemma clean_elements_again:
  "clean_elements rooted [] (clean_elements rooted [] es) = clean_elements rooted [] es"
proof -
  obtain k ws where e: "clean_elements rooted [] es = replicate k ''..'' @ ws"
      "set ws \<inter> {[], ''.'', ''..''} = {}" "rooted \<longrightarrow> k = 0"
    using clean_elements_shape [of "[]" rooted es] by auto
  show ?thesis
  proof (cases rooted)
    case True
    with e show ?thesis by (simp add: clean_elements_plain)
  next
    case False
    with e clean_elements_dots [of 0 k ws] show ?thesis by (simp add: clean_elements_plain)
  qed
qed

lemma split_join_clean_elements:
  assumes "clean_elements rooted [] (split_on CHR ''/'' p) \<noteq> []"
  shows "split_on CHR ''/'' (str_join ''/'' (clean_elements rooted [] (split_on CHR ''/'' p))) =
    clean_elements rooted [] (split_on CHR ''/'' p)"
  using assms by (intro split_join_on) (auto dest!: clean_elements_parts split_on_parts)

lemma path_clean_abs_eq:
  "hd p = CHR ''/'' \<Longrightarrow> p \<noteq> [] \<Longrightarrow>
   path_clean p = CHR ''/'' # str_join ''/'' (clean_elements True [] (split_on CHR ''/'' p))"
  by (simp add: path_clean_def)

lemma path_clean_rel_eq:
  "hd p \<noteq> CHR ''/'' \<Longrightarrow> p \<noteq> [] \<Longrightarrow> clean_elements False [] (split_on CHR ''/'' p) \<noteq> [] \<Longrightarrow>
   path_clean p = str_join ''/'' (clean_elements False [] (split_on CHR ''/'' p))"
  by (simp add: path_clean_def)

lemma hd_split_on: "hd (split_on CHR ''/'' s) \<noteq> [] \<Longrightarrow> s \<noteq> [] \<and> hd s \<noteq> CHR ''/''"
  by (cases s) (auto split: list.splits if_splits)

lemma path_clean_idem [simp]: "path_clean (path_clean p) = path_clean p"
proof (cases "p = []")
  case True
  then show ?thesis by (simp add: path_clean_def)
next
  case p: False
  let ?es = "\<lambda>rooted. clean_elements rooted [] (split_on CHR ''/'' p)"
  show ?thesis
  proof (cases "hd p = CHR ''/''")
    case True
    then have c: "path_clean p = CHR ''/'' # str_join ''/'' (?es True)" using p by (rule path_clean_abs_eq)
    have "clean_elements True [] (split_on CHR ''/'' (path_clean p)) = ?es True"
      using split_join_clean_elements [of True p] clean_elements_again [of True "split_on CHR ''/'' p"]
      by (cases "?es True = []") (simp_all add: c)
    moreover have "path_clean (path_clean p) =
        CHR ''/'' # str_join ''/'' (clean_elements True [] (split_on CHR ''/'' (path_clean p)))"
      by (rule path_clean_abs_eq) (simp_all add: c)
    ultimately show ?thesis using c by simp
  next
    case False
    show ?thesis
    proof (cases "?es False = []")
      case True
      then have "path_clean p = ''.''" using p False by (simp add: path_clean_def)
      moreover have "path_clean ''.'' = ''.''" by code_simp
      ultimately show ?thesis by simp
    next
      case ne: False
      have c: "path_clean p = str_join ''/'' (?es False)" by (rule path_clean_rel_eq [OF False p ne])
      have split: "split_on CHR ''/'' (path_clean p) = ?es False"
        using split_join_clean_elements [OF ne] by (simp add: c)
      obtain k ws where e: "?es False = replicate k ''..'' @ ws" "set ws \<inter> {[], ''.'', ''..''} = {}"
        using clean_elements_shape [of "[]" False "split_on CHR ''/'' p"] by auto
      have hd_es: "hd (?es False) \<noteq> []" using e ne by (cases k; cases ws) auto
      have h: "path_clean p \<noteq> []" "hd (path_clean p) \<noteq> CHR ''/''"
        using hd_split_on [of "path_clean p"] hd_es unfolding split by auto
      have "path_clean (path_clean p) =
          str_join ''/'' (clean_elements False [] (split_on CHR ''/'' (path_clean p)))"
        using h ne by (intro path_clean_rel_eq) (simp_all add: split clean_elements_again)
      also have "\<dots> = path_clean p" unfolding split clean_elements_again by (rule c [symmetric])
      finally show ?thesis .
    qed
  qed
qed

lemma path_clean_join [simp]: "path_join es \<noteq> [] \<Longrightarrow> path_clean (path_join es) = path_join es"
  by (auto simp: path_join_def Let_def)

section \<open>Walking up\<close>

text \<open>What the first directory on the way up for which \<open>f\<close> has an answer answers.\<close>

function walk_up :: "(string \<Rightarrow> 'a option) \<Rightarrow> string \<Rightarrow> 'a option" where
  "walk_up f current =
     (case f current of
        Some r \<Rightarrow> Some r
      | None \<Rightarrow>
          let parent = path_dir current
          in if parent = current then None else walk_up f parent)"
  by pat_completeness auto
termination by (relation "measure (\<lambda>(f, p). path_height p)") (auto simp: path_dir_height)

declare walk_up.simps [simp del]

text \<open>The directories from a rooted path upwards, the path itself first.\<close>

definition directories_up :: "string list \<Rightarrow> string list" where
  "directories_up es = map rooted_path (rev (prefixes es))"

lemma walk_up_root: "walk_up f (rooted_path []) = f (rooted_path [])"
  by (simp add: walk_up.simps [of f "rooted_path []"] path_dir_root Let_def split: option.split)

lemma walk_up_rooted:
  "proper_names es \<Longrightarrow> walk_up f (rooted_path es) = List.find (\<lambda>x. x \<noteq> None) (map f (directories_up es)) \<bind> id"
proof (induction es rule: rev_induct)
  case Nil
  then show ?case by (cases "f (rooted_path [])") (simp_all add: walk_up_root directories_up_def)
next
  case (snoc e es)
  then have "proper_names es" by (simp add: proper_names_def)
  with snoc show ?case
    using path_dir_rooted [OF snoc.prems] rooted_path_shorter [OF snoc.prems]
    by (cases "f (rooted_path (es @ [e]))")
       (auto simp: walk_up.simps [of f "rooted_path (es @ [e])"] Let_def directories_up_def prefixes_snoc)
qed

lemma walk_upD: "walk_up f p = Some r \<Longrightarrow> \<exists>d. f d = Some r"
proof (induction f p rule: walk_up.induct)
  case (1 f current)
  then show ?case
    by (auto simp: walk_up.simps [of f current] Let_def split: option.splits if_splits)
qed

end
