(* ===== verification/PythonRoute.thy ===== *)
theory PythonRoute
  imports GitRoute PathWalk
begin

text \<open>
  \<open>go/internal/hooks/python_runtime_route.go\<close>: the hook route that sends Python calls through
  \<open>uv run\<close> of the repository they are made in. The file system, the TOML decoder, the question
  whether Git ignores a path, the environment and the working directory are the record
  \<open>python_world\<close>; the loops up the directory tree are \<open>walk_up\<close>.
\<close>

section \<open>The repository of a directory\<close>

record python_world =
  pw_file_exists :: "string \<Rightarrow> bool"
  pw_dir_exists :: "string \<Rightarrow> bool"
  pw_read :: "string \<Rightarrow> string option"
  pw_toml_tool_uv :: "string \<Rightarrow> bool option"
  pw_git_ignored :: "string \<Rightarrow> string \<Rightarrow> bool"
  pw_environ :: environment
  pw_getwd :: "string option"

text \<open>\<open>pw_toml_tool_uv\<close> is \<open>None\<close> when decoding fails, else whether \<open>tool.uv\<close> is set.\<close>

definition pyproject_declares_uv :: "python_world \<Rightarrow> string \<Rightarrow> bool" where
  "pyproject_declares_uv W root =
     (case pw_read W (path_join [root, ''pyproject.toml'']) of
        None \<Rightarrow> False
      | Some content \<Rightarrow> (case pw_toml_tool_uv W content of None \<Rightarrow> False | Some declared \<Rightarrow> declared))"

definition python_repo_uses_uv :: "python_world \<Rightarrow> string \<Rightarrow> bool" where
  "python_repo_uses_uv W root \<longleftrightarrow>
     pw_file_exists W (path_join [root, ''uv.lock'']) \<or>
     pw_file_exists W (path_join [root, ''uv.toml'']) \<or> pyproject_declares_uv W root"

definition python_runtime_available :: "python_world \<Rightarrow> string \<Rightarrow> bool" where
  "python_runtime_available W root = python_repo_uses_uv W root"

text \<open>The empty string, which the code returns when there is no root, is \<open>None\<close>.\<close>

definition git_root_from_path :: "python_world \<Rightarrow> string \<Rightarrow> string option" where
  "git_root_from_path W path =
     walk_up (\<lambda>current.
         if pw_file_exists W (path_join [current, ''.git'']) \<or>
            pw_dir_exists W (path_join [current, ''.git'']) then Some current else None)
       (path_clean path)"

definition normalized_python_runtime_cwd :: "python_world \<Rightarrow> string \<Rightarrow> string" where
  "normalized_python_runtime_cwd W cwd0 =
     (let cwd = (if cwd0 = [] then trim_space (pw_environ W ''CODE_ETHOS_CONSUMER_ROOT'') else cwd0)
      in if cwd = [] \<and> pw_getwd W = None then []
         else
           let cwd' = (if cwd = [] then the (pw_getwd W) else cwd)
           in if path_is_abs cwd' then cwd'
              else case path_abs (pw_getwd W) cwd' of None \<Rightarrow> cwd' | Some a \<Rightarrow> a)"

definition python_runtime_root :: "python_world \<Rightarrow> string \<Rightarrow> string option" where
  "python_runtime_root W cwd0 =
     (let cwd = normalized_python_runtime_cwd W cwd0
      in case git_root_from_path W cwd of
           Some root \<Rightarrow>
             if pw_git_ignored W root cwd then None
             else if python_runtime_available W root then Some root
             else None
         | None \<Rightarrow>
             walk_up (\<lambda>current. if python_runtime_available W current then Some current else None)
               (path_clean cwd))"

section \<open>Rewriting\<close>

definition shell_assignment_name_char :: "nat \<Rightarrow> char \<Rightarrow> bool" where
  "shell_assignment_name_char index c \<longleftrightarrow>
     c = CHR ''_'' \<or>
     (65 \<le> (of_char c :: nat) \<and> (of_char c :: nat) \<le> 90) \<or>
     (97 \<le> (of_char c :: nat) \<and> (of_char c :: nat) \<le> 122) \<or>
     (0 < index \<and> 48 \<le> (of_char c :: nat) \<and> (of_char c :: nat) \<le> 57)"

definition shell_assignment_name :: "string \<Rightarrow> bool" where
  "shell_assignment_name name =
     list_all (\<lambda>(i, c). shell_assignment_name_char i c) (enumerate 0 name)"

definition shell_assignment_for_command :: "string \<Rightarrow> bool" where
  "shell_assignment_for_command token =
     (case str_cut token ''='' of
        (name, _, found) \<Rightarrow> if \<not> found \<or> name = [] then False else shell_assignment_name name)"

definition split_shell_assignments :: "string list \<Rightarrow> string list \<times> string list" where
  "split_shell_assignments tokens =
     (takeWhile shell_assignment_for_command tokens, dropWhile shell_assignment_for_command tokens)"

definition shell_quote_assignment :: "string \<Rightarrow> string" where
  "shell_quote_assignment token =
     (case str_cut token ''='' of (name, v, _) \<Rightarrow> name @ ''='' @ shell_quote v)"

definition python_runtime_command :: "python_world \<Rightarrow> string \<Rightarrow> string list \<Rightarrow> string list option" where
  "python_runtime_command W cwd args =
     (case python_runtime_root W cwd of
        None \<Rightarrow> None
      | Some root \<Rightarrow>
          Some ([''uv'', ''run'', ''--project'', shell_quote root, ''python''] @ map shell_quote args))"

definition rewrite_python_runtime_segment :: "python_world \<Rightarrow> string list \<Rightarrow> string \<Rightarrow> string" where
  "rewrite_python_runtime_segment W segment cwd =
     (if segment = [] then []
      else if \<not> is_python_command (hd segment) \<and> \<not> shell_assignment_for_command (hd segment) then []
      else case split_shell_redirections segment of
             (args, redirections) \<Rightarrow>
               (case split_shell_assignments args of
                  (assignments, argv) \<Rightarrow>
                    if argv = [] \<or> \<not> is_python_command (hd argv) then []
                    else case python_runtime_command W cwd (tl argv) of
                           None \<Rightarrow> []
                         | Some runtime_command \<Rightarrow>
                             str_join '' '' (map shell_quote_assignment assignments @
                               runtime_command @ redirections)))"

fun rewrite_python_chunks ::
  "python_world \<Rightarrow> string \<Rightarrow> chunk list \<Rightarrow> string list \<Rightarrow> bool \<Rightarrow> string list \<times> bool" where
  "rewrite_python_chunks W cwd [] rewritten rewrote = (rewritten, rewrote)"
| "rewrite_python_chunks W cwd (Control t # cs) rewritten rewrote =
     rewrite_python_chunks W cwd cs (rewritten @ [t]) rewrote"
| "rewrite_python_chunks W cwd (Segment segment # cs) rewritten rewrote =
     (let out = rewrite_python_runtime_segment W segment cwd
      in if out \<noteq> [] then rewrite_python_chunks W cwd cs (rewritten @ [out]) True
         else rewrite_python_chunks W cwd cs (append_quoted_tokens rewritten segment) rewrote)"

definition rewrite_python_runtime_command_chain ::
  "'n bash \<Rightarrow> python_world \<Rightarrow> string \<Rightarrow> string \<Rightarrow> string \<times> bool" where
  "rewrite_python_runtime_command_chain B W command cwd =
     (case ControlFields B command of
        Inl e \<Rightarrow> ([], False)
      | Inr tokens \<Rightarrow>
          if tokens = [] then ([], False)
          else case rewrite_python_chunks W cwd (chunks tokens) [] False of
                 (rewritten, rewrote) \<Rightarrow> (str_join '' '' rewritten, rewrote))"

definition python_runtime_route_for :: "'n bash \<Rightarrow> python_world \<Rightarrow> event \<Rightarrow> inspection_route" where
  "python_runtime_route_for B W e =
     (if ev_hook_event_name e \<noteq> ''PreToolUse'' \<or> ev_tool_name e \<noteq> ''Bash'' then no_route
      else
        let command = trim_space (Command e)
        in if command = [] then no_route
           else case rewrite_python_runtime_command_chain B W command (ev_cwd e) of
                  (rewritten, rewrite) \<Rightarrow>
                    if \<not> rewrite then no_route
                    else no_route
                      \<lparr>route_updated_input := Some (updated_bash_input (ev_tool_input e) rewritten),
                       route_reason :=
                         ''Python commands must run through the consumer repo environment: '' @
                         ''`uv run --project <repo> python ...` when uv project evidence exists.'',
                       route_rewrite := True\<rparr>)"


section \<open>Which repository is used\<close>

text \<open>
  Fact. The root is a directory with evidence of \<open>uv\<close>. Inside a Git worktree it can only be the
  root of the nearest one, and only when Git does not ignore the directory of the call.
\<close>

theorem python_root_sound:
  assumes "python_runtime_root W cwd = Some root"
  shows "python_repo_uses_uv W root \<and>
    (\<forall>top. git_root_from_path W (normalized_python_runtime_cwd W cwd) = Some top \<longrightarrow>
       root = top \<and> \<not> pw_git_ignored W top (normalized_python_runtime_cwd W cwd))"
  using assms
  by (auto simp: python_runtime_root_def python_runtime_available_def Let_def
      split: option.splits if_splits dest!: walk_upD)

section \<open>What a rewritten call runs\<close>

lemma assignment_name_plain:
  assumes "shell_assignment_name_char i c"
  shows "\<not> sh_blank c \<and> c \<noteq> CHR 0x27 \<and> c \<noteq> CHR 0x5C \<and> \<not> sh_active c \<and> \<not> sh_active_first c"
  using assms by (auto simp: shell_assignment_name_char_def sh_blank_def sh_active_def sh_active_first_def)

lemma sh_scan_name:
  "(\<And>c. c \<in> set name \<Longrightarrow> \<exists>i. shell_assignment_name_char i c) \<Longrightarrow>
   sh_scan (In_word acc) (name @ s) = sh_scan (In_word (rev name @ acc)) s"
proof (induction name arbitrary: acc)
  case (Cons c name)
  then obtain i where "shell_assignment_name_char i c" by auto
  from assignment_name_plain [OF this] Cons show ?case by simp
qed simp

lemma sh_scan_shell_quote: "sh_scan (In_word acc) (shell_quote v @ s) = sh_scan (In_word (rev v @ acc)) s"
  using sh_scan_quoted [of acc v s] by (auto simp: shell_quote_def sh_blank_def)

lemma enumerate_all_member:
  "list_all (\<lambda>(i, c). P i c) (enumerate n xs) \<Longrightarrow> c \<in> set xs \<Longrightarrow> \<exists>j. P j c"
  by (induction xs arbitrary: n) auto

lemma shell_assignment_for_commandD:
  assumes "shell_assignment_for_command a"
  obtains name v where "a = name @ ''='' @ v" "name \<noteq> []" "shell_quote_assignment a = name @ ''='' @ shell_quote v"
    "\<And>c. c \<in> set name \<Longrightarrow> \<exists>i. shell_assignment_name_char i c"
proof -
  from assms obtain i where i: "str_index a ''='' = Some i" "take i a \<noteq> []" "shell_assignment_name (take i a)"
    by (auto simp: shell_assignment_for_command_def str_cut_def split: option.splits if_splits)
  from str_index_split [OF i(1)] have "a = take i a @ ''='' @ drop (i + 1) a" by simp
  moreover have "\<exists>j. shell_assignment_name_char j c" if "c \<in> set (take i a)" for c
    using enumerate_all_member [OF i(3) [unfolded shell_assignment_name_def] that] .
  ultimately show thesis
    using that [of "take i a" "drop (i + 1) a"] i by (simp add: shell_quote_assignment_def str_cut_def)
qed

lemma reads_as_shell_quote_assignment:
  assumes "shell_assignment_for_command a"
  shows "reads_as (shell_quote_assignment a) a"
proof -
  obtain name v where a: "a = name @ ''='' @ v" "name \<noteq> []"
      "shell_quote_assignment a = name @ ''='' @ shell_quote v"
    and plain: "\<And>c. c \<in> set name \<Longrightarrow> \<exists>i. shell_assignment_name_char i c"
    using shell_assignment_for_commandD [OF assms] by blast
  obtain c cs where name: "name = c # cs" using a(2) by (cases name) auto
  with plain obtain i where "shell_assignment_name_char i c" by auto
  note c = assignment_name_plain [OF this]
  have "sh_scan Between (shell_quote_assignment a @ s) = sh_scan (In_word (rev a)) s" for s
  proof -
    have "sh_scan Between (shell_quote_assignment a @ s) =
        sh_scan (In_word [c]) (cs @ ''='' @ shell_quote v @ s)"
      using c by (simp add: a(3) name)
    also have "\<dots> = sh_scan (In_word (rev name)) (''='' @ shell_quote v @ s)"
      using sh_scan_name [of cs "[c]" "''='' @ shell_quote v @ s"] plain by (simp add: name)
    also have "\<dots> = sh_scan (In_word (CHR ''='' # rev name)) (shell_quote v @ s)"
      by (simp add: sh_blank_def sh_active_def)
    finally show ?thesis by (simp add: sh_scan_shell_quote a(1))
  qed
  then show ?thesis by (simp add: reads_as_def)
qed

lemma reads_as_uv_words:
  "reads_as ''uv'' ''uv''" "reads_as ''run'' ''run''" "reads_as ''--project'' ''--project''"
  "reads_as ''python'' ''python''"
  by (simp_all add: reads_as_def sh_blank_def sh_active_first_def sh_active_def)

lemma rewritten_python_segment_shape:
  assumes "rewrite_python_runtime_segment W ws cwd \<noteq> []"
    and "list_all (\<lambda>w. \<not> is_shell_redirection_syntax w) ws"
  obtains env p args root where "ws = env @ p # args" "list_all shell_assignment_for_command env"
    "is_python_command p" "python_runtime_root W cwd = Some root"
    "rewrite_python_runtime_segment W ws cwd = str_join '' ''
       (map shell_quote_assignment env @ [''uv'', ''run'', ''--project'', shell_quote root, ''python''] @
        map shell_quote args)"
proof -
  let ?env = "takeWhile shell_assignment_for_command ws"
  let ?rest = "dropWhile shell_assignment_for_command ws"
  have s: "split_shell_redirections ws = (ws, [])" by (rule split_shell_redirections_plain [OF assms(2)])
  from assms(1) s obtain root where root: "python_runtime_root W cwd = Some root"
    and rest: "?rest \<noteq> []" "is_python_command (hd ?rest)"
    and out: "rewrite_python_runtime_segment W ws cwd = str_join '' ''
       (map shell_quote_assignment ?env @ [''uv'', ''run'', ''--project'', shell_quote root, ''python''] @
        map shell_quote (tl ?rest))"
    by (auto simp: rewrite_python_runtime_segment_def split_shell_assignments_def
        python_runtime_command_def split: if_splits option.splits)
  have "ws = ?env @ hd ?rest # tl ?rest" using rest(1) by simp
  moreover have "list_all shell_assignment_for_command ?env"
    by (auto simp: list_all_iff dest: set_takeWhileD)
  ultimately show thesis using that [of ?env "hd ?rest" "tl ?rest" root] rest(2) root out by blast
qed

text \<open>
  Fact. A rewritten Python call without redirections keeps what it does: the shell reads the
  new text as the assignments of the call, \<open>uv run --project\<close> with a repository that uses \<open>uv\<close>,
  \<open>python\<close>, and the arguments of the call, each as it was. Only the program itself is replaced. The
  new segment is not rewritten again.
\<close>

theorem rewritten_python_segment_reads_back:
  assumes "rewrite_python_runtime_segment W ws cwd \<noteq> []"
    and "\<And>w. w \<in> set ws \<Longrightarrow> \<not> is_shell_redirection_syntax w"
  shows "\<exists>env p args root. ws = env @ p # args \<and> is_python_command p \<and>
    python_repo_uses_uv W root \<and>
    sh_words (rewrite_python_runtime_segment W ws cwd) =
      Some (env @ [''uv'', ''run'', ''--project'', root, ''python''] @ args) \<and>
    rewrite_python_runtime_segment W (env @ [''uv'', ''run'', ''--project'', root, ''python''] @ args) cwd = []"
proof -
  obtain env p args root where ws: "ws = env @ p # args"
    and env: "list_all shell_assignment_for_command env"
    and p: "is_python_command p" and root: "python_runtime_root W cwd = Some root"
    and out: "rewrite_python_runtime_segment W ws cwd = str_join '' ''
       (map shell_quote_assignment env @ [''uv'', ''run'', ''--project'', shell_quote root, ''python''] @
        map shell_quote args)"
  proof (rule rewritten_python_segment_shape [OF assms(1)])
    show "list_all (\<lambda>w. \<not> is_shell_redirection_syntax w) ws" using assms(2) by (simp add: list_all_iff)
  qed
  have "list_all2 reads_as (map shell_quote_assignment env) env"
    using env by (induction env) (auto intro: reads_as_shell_quote_assignment)
  moreover have "list_all2 reads_as (map shell_quote args) args"
    by (induction args) (auto simp: reads_as_shell_quote)
  ultimately have "sh_words (rewrite_python_runtime_segment W ws cwd) =
      Some (env @ [''uv'', ''run'', ''--project'', root, ''python''] @ args)"
    unfolding out
    by (intro reads_as_join) (auto intro!: list_all2_appendI simp: reads_as_uv_words reads_as_shell_quote)
  moreover have "rewrite_python_runtime_segment W
      (env @ [''uv'', ''run'', ''--project'', root, ''python''] @ args) cwd = []"
  proof -
    have uv: "\<not> is_python_command ''uv''" "\<not> shell_assignment_for_command ''uv''"
      "\<not> is_shell_redirection_syntax ''uv''" by code_simp+
    have plain: "list_all (\<lambda>w. \<not> is_shell_redirection_syntax w) env"
      using assms(2) ws by (auto simp: list_all_iff)
    have split: "\<exists>as redirs. split_shell_redirections (env @ ''uv'' # r) = (env @ ''uv'' # as, redirs)" for r
      using plain
    proof (induction env)
      case Nil
      then show ?case using uv(3)
        by (cases "split_shell_redirections r") (simp add: is_shell_redirection_syntax_def)
    next
      case (Cons a env)
      then show ?case by (auto simp: is_shell_redirection_syntax_def)
    qed
    have "takeWhile shell_assignment_for_command (env @ ''uv'' # as) = env"
      "dropWhile shell_assignment_for_command (env @ ''uv'' # as) = ''uv'' # as" for as
      using env uv(2) by (simp_all add: list_all_iff)
    with split [of "[''run'', ''--project'', root, ''python''] @ args"] uv(1) show ?thesis
      by (auto simp: rewrite_python_runtime_segment_def split_shell_assignments_def)
  qed
  moreover have "python_repo_uses_uv W root" using python_root_sound [OF root] by blast
  ultimately show ?thesis using ws p by blast
qed

text \<open>A repository with a lock file at the root of its worktree, for the example.\<close>

definition sample_python_world :: python_world where
  "sample_python_world =
     \<lparr>pw_file_exists = (\<lambda>p. p = ''/w/uv.lock''), pw_dir_exists = (\<lambda>p. p = ''/w/.git''),
      pw_read = (\<lambda>_. None), pw_toml_tool_uv = (\<lambda>_. None), pw_git_ignored = (\<lambda>_ _. False),
      pw_environ = (\<lambda>_. []), pw_getwd = Some ''/w''\<rparr>"

declare walk_up.simps [code]

theorem rewritten_python_segment_reads_back_witness:
  "\<exists>env p args root. [''A=b c'', ''python3'', ''x y.py''] = env @ p # args \<and> is_python_command p \<and>
    python_repo_uses_uv sample_python_world root \<and>
    sh_words (rewrite_python_runtime_segment sample_python_world [''A=b c'', ''python3'', ''x y.py''] ''/w/s'') =
      Some (env @ [''uv'', ''run'', ''--project'', root, ''python''] @ args) \<and>
    rewrite_python_runtime_segment sample_python_world
      (env @ [''uv'', ''run'', ''--project'', root, ''python''] @ args) ''/w/s'' = []"
proof (rule rewritten_python_segment_reads_back)
  show "rewrite_python_runtime_segment sample_python_world [''A=b c'', ''python3'', ''x y.py''] ''/w/s'' \<noteq> []"
    by code_simp
  have "list_all (\<lambda>w. \<not> is_shell_redirection_syntax w) [''A=b c'', ''python3'', ''x y.py'']"
    by code_simp
  then show "\<And>w. w \<in> set [''A=b c'', ''python3'', ''x y.py''] \<Longrightarrow> \<not> is_shell_redirection_syntax w"
    by (simp only: list_all_iff) blast
qed

text \<open>
  Fact. A call outside every worktree and every \<open>uv\<close> repository is left alone, and the route
  refuses nothing.
\<close>

theorem python_route_only_rewrites:
  "\<not> route_block (python_runtime_route_for B W e) \<and>
   (python_runtime_root W (ev_cwd e) = None \<longrightarrow> python_runtime_route_for B W e = no_route)"
proof -
  have seg: "python_runtime_root W cwd = None \<Longrightarrow> rewrite_python_runtime_segment W ws cwd = []" for W cwd ws
    by (simp add: rewrite_python_runtime_segment_def python_runtime_command_def split: prod.split)
  have "python_runtime_root W cwd = None \<Longrightarrow> snd (rewrite_python_chunks W cwd cs pre r) = r" for cwd cs pre r
    by (induction W cwd cs pre r rule: rewrite_python_chunks.induct) (simp_all add: seg Let_def)
  then have "python_runtime_root W cwd = None \<Longrightarrow>
      \<not> snd (rewrite_python_runtime_command_chain B W command cwd)" for command cwd
    by (simp add: rewrite_python_runtime_command_chain_def case_prod_unfold split: sum.split)
  then show ?thesis
    by (simp add: python_runtime_route_for_def no_route_def Let_def case_prod_unfold)
qed

end
