(* ===== verification/Memory.thy ===== *)
theory Memory
  imports HookEvent Paths
begin

text \<open>
  \<open>go/internal/memories/memory.go\<close>, first part: the settings of the central memory and the
  question which paths are memory files of an agent provider. The working directory, the home
  directory, the files, the TOML decoder and \<open>fmt.Sprint\<close> on values other than strings, booleans
  and integers are the record \<open>memory_env\<close>. Paths are those of Linux, where \<open>ToSlash\<close> and
  \<open>FromSlash\<close> change nothing.
\<close>

section \<open>Settings\<close>

datatype toml_load = NotExist | LoadFailed | LoadedMap any_map

record memory_env =
  me_getwd :: "string option"
  me_home :: "string option"
  me_load_toml :: "string \<Rightarrow> toml_load"
  me_sprint :: "any \<Rightarrow> string"

definition central_dir :: string where
  "central_dir = ''.coding-ethos/memories''"

definition primary_file :: string where
  "primary_file = central_dir @ ''/MEMORY.md''"

definition denied_reason :: string where
  "denied_reason =
     ''Action denied: write memories to '' @ primary_file @ '' and '' @ central_dir @ ''/*.yaml''"

record memory_settings =
  ms_central_dir :: string
  ms_primary_file :: string
  ms_import_existing :: bool
  ms_enabled :: bool

definition default_settings :: memory_settings where
  "default_settings =
     \<lparr>ms_central_dir = central_dir, ms_primary_file = primary_file, ms_import_existing = True,
      ms_enabled = True\<rparr>"

definition go_sprint :: "memory_env \<Rightarrow> any \<Rightarrow> string" where
  "go_sprint E v =
     (case v of
        AString s \<Rightarrow> s
      | ABool b \<Rightarrow> if b then ''true'' else ''false''
      | AInt i \<Rightarrow> itoa i
      | _ \<Rightarrow> me_sprint E v)"

definition bool_value :: "memory_env \<Rightarrow> any \<Rightarrow> bool" where
  "bool_value E v =
     (case v of
        ABool b \<Rightarrow> b
      | _ \<Rightarrow> equal_fold (trim_space (go_sprint E v)) ''true'')"

definition clean_config_path :: "memory_env \<Rightarrow> any \<Rightarrow> string \<Rightarrow> string" where
  "clean_config_path E v fallback =
     (let t = trim_space (go_sprint E v) in if t = [] then fallback else path_clean t)"

datatype memory_error =
    SettingsRootError
  | SettingsLoadError string
  | UnknownMemoryConfig string string

text \<open>The loop over the entries of the table \<open>memories\<close>, in the order Go yields them.\<close>

fun apply_settings :: "memory_env \<Rightarrow> memory_settings \<Rightarrow> any_map \<Rightarrow> string \<Rightarrow> memory_error + memory_settings" where
  "apply_settings E s [] file = Inr s"
| "apply_settings E s ((key, v) # kvs) file =
     (if key = ''enabled'' then apply_settings E (s\<lparr>ms_enabled := bool_value E v\<rparr>) kvs file
      else if key = ''central_dir'' then
        apply_settings E (s\<lparr>ms_central_dir := clean_config_path E v (ms_central_dir s)\<rparr>) kvs file
      else if key = ''primary_file'' then
        apply_settings E (s\<lparr>ms_primary_file := clean_config_path E v (ms_primary_file s)\<rparr>) kvs file
      else if key = ''import_existing'' then
        apply_settings E (s\<lparr>ms_import_existing := bool_value E v\<rparr>) kvs file
      else Inl (UnknownMemoryConfig key file))"

definition apply_settings_map ::
  "memory_env \<Rightarrow> memory_settings \<Rightarrow> any_map \<Rightarrow> string \<Rightarrow> memory_error + memory_settings" where
  "apply_settings_map E s config file =
     (case map_of config ''memories'' of
        Some (AMap values) \<Rightarrow> apply_settings E s values file
      | _ \<Rightarrow> Inr s)"

fun load_settings_files ::
  "memory_env \<Rightarrow> string \<Rightarrow> memory_settings \<Rightarrow> string list \<Rightarrow> memory_error + memory_settings" where
  "load_settings_files E root s [] = Inr s"
| "load_settings_files E root s (name # names) =
     (case me_load_toml E (path_join [root, name]) of
        NotExist \<Rightarrow> load_settings_files E root s names
      | LoadFailed \<Rightarrow> Inl (SettingsLoadError name)
      | LoadedMap config \<Rightarrow>
          (case apply_settings_map E s config name of
             Inl e \<Rightarrow> Inl e
           | Inr s' \<Rightarrow> load_settings_files E root s' names))"

definition load_settings :: "memory_env \<Rightarrow> string \<Rightarrow> memory_error + memory_settings" where
  "load_settings E root =
     (case path_abs (me_getwd E) (trim_space root) of
        None \<Rightarrow> Inl SettingsRootError
      | Some clean_root \<Rightarrow>
          load_settings_files E clean_root default_settings [''config.toml'', ''repo_config.toml''])"

section \<open>Memory paths\<close>

definition root_or_dot :: "string \<Rightarrow> string" where
  "root_or_dot root = (if trim_space root = [] then ''.'' else root)"

definition normalized_memory_path :: "memory_env \<Rightarrow> string \<Rightarrow> string \<Rightarrow> string" where
  "normalized_memory_path E root path =
     (let clean = path_clean path
      in case cut_prefix clean (path_clean (root_or_dot root) @ ''/'') of
           Some repo_path \<Rightarrow> repo_path
         | None \<Rightarrow>
             (case me_home E of
                None \<Rightarrow> clean
              | Some home \<Rightarrow>
                  if home = [] then clean
                  else case cut_prefix clean (path_clean home @ ''/'') of
                         Some home_path \<Rightarrow> ''~/'' @ home_path
                       | None \<Rightarrow> clean))"

definition protected_provider_state_path :: "string \<Rightarrow> bool" where
  "protected_provider_state_path path \<longleftrightarrow>
     path \<in> {''.claude/settings.json'', ''.claude/settings.local.json'', ''.mcp.json'',
       ''.codex/config.toml'', ''.codex/hooks.json'', ''.gemini/settings.json''}"

definition central_memory_path :: "memory_settings \<Rightarrow> string \<Rightarrow> bool" where
  "central_memory_path s path =
     (let normalized = path_clean path; central = path_clean (ms_central_dir s)
      in normalized = path_clean (ms_primary_file s) \<or> normalized = central \<or>
         has_prefix normalized (central @ ''/''))"

definition provider_for_path :: "string \<Rightarrow> string" where
  "provider_for_path path =
     (if has_prefix path ''.claude/'' \<or> has_prefix path ''~/.claude/'' \<or> has_prefix path ''~/claude/''
        then claude
      else if has_prefix path ''.codex/'' \<or> has_prefix path ''~/.codex/'' then codex
      else if has_prefix path ''.gemini/'' \<or> has_prefix path ''~/.gemini/'' then gemini
      else [])"

definition memory_path :: "string \<Rightarrow> bool" where
  "memory_path path =
     (let lower = to_lower path; base = path_base lower
      in base = ''memory.md'' \<or> base = ''memory'' \<or>
         str_contains lower ''/memory/'' \<or> str_contains lower ''/memories/'')"

definition canonical_path_for_input :: "string \<Rightarrow> string \<Rightarrow> memory_settings \<Rightarrow> string" where
  "canonical_path_for_input root raw s =
     (if path_is_abs raw then path_join [root_or_dot root, ms_primary_file s] else ms_primary_file s)"

definition may_manage_path :: "memory_env \<Rightarrow> string \<Rightarrow> string \<Rightarrow> bool" where
  "may_manage_path E root raw =
     (let clean = path_clean (trim_space raw)
      in if clean = ''.'' \<or> clean = [] then False
         else
           let normalized = normalized_memory_path E root clean
           in provider_for_path normalized \<noteq> [] \<and> memory_path normalized)"

record classification =
  cl_provider :: string
  cl_path :: string
  cl_canonical_path :: string
  cl_kind :: string
  cl_managed :: bool
  cl_protected :: bool

definition plain_classification :: "string \<Rightarrow> classification" where
  "plain_classification raw =
     \<lparr>cl_provider = [], cl_path = raw, cl_canonical_path = [], cl_kind = [], cl_managed = False,
      cl_protected = False\<rparr>"

definition classify_with_settings ::
  "memory_env \<Rightarrow> string \<Rightarrow> string \<Rightarrow> memory_settings \<Rightarrow> classification" where
  "classify_with_settings E root raw s =
     (let clean = path_clean (trim_space raw)
      in if clean = ''.'' \<or> clean = [] then plain_classification raw
         else
           let normalized = normalized_memory_path E root clean
           in if central_memory_path s normalized then (plain_classification raw)\<lparr>cl_kind := ''central''\<rparr>
              else if protected_provider_state_path normalized then
                (plain_classification raw)\<lparr>cl_protected := True, cl_kind := ''protected''\<rparr>
              else if provider_for_path normalized = [] \<or> \<not> memory_path normalized
                then plain_classification raw
              else
                \<lparr>cl_provider = provider_for_path normalized, cl_path = raw,
                 cl_canonical_path = canonical_path_for_input root raw s, cl_kind = ''memory'',
                 cl_managed = True, cl_protected = False\<rparr>)"

definition classify :: "memory_env \<Rightarrow> string \<Rightarrow> string \<Rightarrow> classification" where
  "classify E root raw =
     (case load_settings E root of
        Inl e \<Rightarrow> plain_classification raw
      | Inr s \<Rightarrow> classify_with_settings E root raw s)"

end
