(* ===== verification/MemoryImport.thy ===== *)
theory MemoryImport
  imports Memory Dlp PathWalk
begin

text \<open>
  \<open>go/internal/memories/memory.go\<close>, second part: the central memory store, its index and the
  import of the memory files of the providers. The state is the record \<open>memory_store\<close> of the files
  and directories; the record \<open>import_env\<close> holds what the code is given: the I/O errors, the walk
  over a directory tree, the YAML codec of the index, the hash, the time, and the outcome of each
  attempt to create the lock file. A file written through a temporary file and a rename is written
  in one step. An error carries no store: what was written before it is not tracked.
\<close>

section \<open>The store\<close>

record memory_store =
  st_files :: "string \<Rightarrow> string option"
  st_dirs :: "string \<Rightarrow> bool"

record import_record =
  ir_id :: string
  ir_provider :: string
  ir_source_path :: string
  ir_imported_at_utc :: string
  ir_sha256 :: string

datatype lock_try = LockCreated | LockExists | LockFails

record import_env =
  ie_memory :: memory_env
  ie_fails :: "string \<Rightarrow> bool"
  ie_walk :: "string \<Rightarrow> string list option"
  ie_decode :: "string \<Rightarrow> import_record list option"
  ie_encode :: "import_record list \<Rightarrow> string"
  ie_sha256 :: "string \<Rightarrow> string"
  ie_now :: string
  ie_lock :: "nat \<Rightarrow> lock_try"

datatype import_error =
    SettingsError memory_error
  | MkdirFailed string
  | StatFailed string
  | ReadFailed string
  | WriteFailed string
  | DecodeFailed string
  | WalkFailed string
  | MissingSurface string
  | LockCreateFailed string
  | LockBusy string

text \<open>The result of an operation: an error, or a value and the new store.\<close>

type_synonym 'a memory_result = "import_error + 'a \<times> memory_store"

definition mkdir_all :: "import_env \<Rightarrow> string \<Rightarrow> memory_store \<Rightarrow> import_error + memory_store" where
  "mkdir_all IE dir st =
     (if ie_fails IE dir then Inl (MkdirFailed dir) else Inr (st\<lparr>st_dirs := (st_dirs st)(dir := True)\<rparr>))"

definition atomic_write_file ::
  "import_env \<Rightarrow> string \<Rightarrow> string \<Rightarrow> memory_store \<Rightarrow> import_error + memory_store" where
  "atomic_write_file IE path data st =
     (case mkdir_all IE (path_dir path) st of
        Inl e \<Rightarrow> Inl e
      | Inr st' \<Rightarrow>
          if ie_fails IE path then Inl (WriteFailed path)
          else Inr (st'\<lparr>st_files := (st_files st')(path := Some data)\<rparr>))"

section \<open>The index\<close>

definition index_path :: "string \<Rightarrow> memory_settings \<Rightarrow> string" where
  "index_path root s = path_join [root_or_dot root, ms_central_dir s, ''index.yaml'']"

definition primary_path :: "string \<Rightarrow> memory_settings \<Rightarrow> string" where
  "primary_path root s = path_join [root_or_dot root, ms_primary_file s]"

definition read_index_records ::
  "import_env \<Rightarrow> string \<Rightarrow> memory_store \<Rightarrow> import_error + import_record list" where
  "read_index_records IE path st =
     (if ie_fails IE (path_clean path) then Inl (ReadFailed path)
      else case st_files st (path_clean path) of
             None \<Rightarrow> Inr []
           | Some data \<Rightarrow>
               (case ie_decode IE data of None \<Rightarrow> Inl (DecodeFailed path) | Some rs \<Rightarrow> Inr rs))"

text \<open>
  \<open>mergeImportRecords\<close>: the records so far and the position under which each id was last put.
\<close>

fun merge_existing ::
  "import_record list \<Rightarrow> import_record list \<times> (string \<Rightarrow> nat option) \<Rightarrow>
   import_record list \<times> (string \<Rightarrow> nat option)" where
  "merge_existing [] acc = acc"
| "merge_existing (r # rs) (merged, seen) =
     (if trim_space (ir_id r) = [] then merge_existing rs (merged, seen)
      else merge_existing rs (merged @ [r], seen(ir_id r \<mapsto> length merged)))"

fun merge_imported ::
  "import_record list \<Rightarrow> import_record list \<times> (string \<Rightarrow> nat option) \<Rightarrow> import_record list" where
  "merge_imported [] (merged, seen) = merged"
| "merge_imported (r # rs) (merged, seen) =
     (if trim_space (ir_id r) = [] then merge_imported rs (merged, seen)
      else case seen (ir_id r) of
             Some i \<Rightarrow> merge_imported rs (merged[i := r], seen)
           | None \<Rightarrow> merge_imported rs (merged @ [r], seen(ir_id r \<mapsto> length merged)))"

definition merge_import_records :: "import_record list \<Rightarrow> import_record list \<Rightarrow> import_record list" where
  "merge_import_records existing imported = merge_imported imported (merge_existing existing ([], Map.empty))"

definition ensure_index ::
  "import_env \<Rightarrow> string \<Rightarrow> memory_settings \<Rightarrow> import_record list \<Rightarrow> memory_store \<Rightarrow>
   import_error + memory_store" where
  "ensure_index IE root s records st =
     (let path = index_path root s
      in case read_index_records IE path st of
           Inl e \<Rightarrow> Inl e
         | Inr existing \<Rightarrow>
             (case mkdir_all IE (path_dir path) st of
                Inl e \<Rightarrow> Inl e
              | Inr st' \<Rightarrow>
                  atomic_write_file IE path (ie_encode IE (merge_import_records existing records)) st'))"

section \<open>The skeleton\<close>

definition file_or_dir :: "memory_store \<Rightarrow> string \<Rightarrow> bool" where
  "file_or_dir st path \<longleftrightarrow> st_files st path \<noteq> None \<or> st_dirs st path"

definition ensure_with_settings ::
  "import_env \<Rightarrow> string \<Rightarrow> memory_settings \<Rightarrow> memory_store \<Rightarrow> import_error + memory_store" where
  "ensure_with_settings IE root s st =
     (if \<not> ms_enabled s then Inr st
      else
        let primary = primary_path root s
        in case mkdir_all IE (path_dir primary) st of
             Inl e \<Rightarrow> Inl e
           | Inr st1 \<Rightarrow>
               if ie_fails IE primary then Inl (StatFailed primary)
               else if file_or_dir st1 primary then ensure_index IE root s [] st1
               else ensure_index IE root s []
                      (st1\<lparr>st_files := (st_files st1)(primary := Some (''# Memory'' @ [CHR 0x0A, CHR 0x0A]))\<rparr>))"

definition Ensure :: "import_env \<Rightarrow> string \<Rightarrow> memory_store \<Rightarrow> import_error + memory_store" where
  "Ensure IE root st =
     (case load_settings (ie_memory IE) root of
        Inl e \<Rightarrow> Inl (SettingsError e)
      | Inr s \<Rightarrow> ensure_with_settings IE root s st)"

definition verify_with_settings ::
  "import_env \<Rightarrow> string \<Rightarrow> memory_settings \<Rightarrow> memory_store \<Rightarrow> import_error option" where
  "verify_with_settings IE root s st =
     (if \<not> ms_enabled s then None
      else map_option MissingSurface
        (find (\<lambda>p. ie_fails IE p \<or> \<not> file_or_dir st p)
          [path_join [root_or_dot root, ms_central_dir s], primary_path root s, index_path root s]))"

definition VerifyForRoots :: "import_env \<Rightarrow> string \<Rightarrow> string \<Rightarrow> memory_store \<Rightarrow> import_error option" where
  "VerifyForRoots IE settings_root state_root st =
     (case load_settings (ie_memory IE) settings_root of
        Inl e \<Rightarrow> Some (SettingsError e)
      | Inr s \<Rightarrow> verify_with_settings IE state_root s st)"

section \<open>Where the providers keep memory files\<close>

text \<open>The loop that shortens the prefix to valid UTF-8.\<close>

fun valid_cut :: "string \<Rightarrow> nat \<Rightarrow> nat" where
  "valid_cut key 0 = 0"
| "valid_cut key (Suc n) = (if valid_utf8 (take (Suc n) key) then Suc n else valid_cut key n)"

definition bounded_claude_project_key :: "import_env \<Rightarrow> string \<Rightarrow> string" where
  "bounded_claude_project_key IE key =
     (if length key \<le> 240 then key
      else
        let suffix = ''-'' @ take 32 (ie_sha256 IE key);
            cut = valid_cut key (240 - length suffix);
            prefix = rev (dropWhile (\<lambda>c. c = CHR ''-'') (rev (take cut key)))
        in (if prefix = [] then ''project'' else prefix) @ suffix)"

definition claude_project_key :: "import_env \<Rightarrow> string \<Rightarrow> string" where
  "claude_project_key IE root =
     (case path_abs (me_getwd (ie_memory IE)) (root_or_dot root) of
        None \<Rightarrow> []
      | Some absolute \<Rightarrow>
          let key = trim_space (path_clean absolute)
          in if key = [] \<or> key = ''.'' then []
             else bounded_claude_project_key IE
                    (map (\<lambda>c. if c \<in> set ''/_.'' then CHR ''-'' else c) key))"

definition home_memory_roots :: "import_env \<Rightarrow> string \<Rightarrow> string \<Rightarrow> string list" where
  "home_memory_roots IE home root =
     (let key = claude_project_key IE root
      in if key = [] then []
         else [path_join [home, ''.claude'', ''projects'', key, ''memory''],
               path_join [home, ''claude'', key, ''memories''],
               path_join [home, ''claude'', key, ''memory'']])"

text \<open>The files below a directory, none when it is missing.\<close>

definition walk_memory_files :: "import_env \<Rightarrow> string \<Rightarrow> import_error + string list" where
  "walk_memory_files IE base =
     (case ie_walk IE base of None \<Rightarrow> Inl (WalkFailed base) | Some files \<Rightarrow> Inr (filter memory_path files))"

fun walk_all :: "import_env \<Rightarrow> string list \<Rightarrow> import_error + string list" where
  "walk_all IE [] = Inr []"
| "walk_all IE (b # bs) =
     (case walk_memory_files IE b of
        Inl e \<Rightarrow> Inl e
      | Inr files \<Rightarrow> (case walk_all IE bs of Inl e \<Rightarrow> Inl e | Inr rest \<Rightarrow> Inr (files @ rest)))"

definition import_source_paths :: "import_env \<Rightarrow> string \<Rightarrow> import_error + string list" where
  "import_source_paths IE root =
     (let repo = map (\<lambda>d. path_join [root_or_dot root, d]) [''.claude'', ''.codex'', ''.gemini''];
          homes = (case me_home (ie_memory IE) of
                     None \<Rightarrow> [] | Some home \<Rightarrow> if home = [] then [] else home_memory_roots IE home root)
      in case walk_all IE (repo @ homes) of
           Inl e \<Rightarrow> Inl e
         | Inr candidates \<Rightarrow> Inr (remdups_adj (sort candidates)))"

section \<open>Import\<close>

definition import_id :: "import_env \<Rightarrow> string \<Rightarrow> string" where
  "import_id IE path = take 16 (ie_sha256 IE (path_clean path))"

definition import_marker :: "string \<Rightarrow> string" where
  "import_marker rid = ''<!-- coding-ethos-memory:'' @ rid @ '' -->''"

definition import_block :: "string \<Rightarrow> string \<Rightarrow> string \<Rightarrow> string" where
  "import_block rid source_id data =
     [CHR 0x0A] @ import_marker rid @ [CHR 0x0A] @
     ''## Imported from '' @ source_id @ [CHR 0x0A, CHR 0x0A] @
     trim_space data @ [CHR 0x0A] @
     ''<!-- /coding-ethos-memory:'' @ rid @ '' -->'' @ [CHR 0x0A]"

text \<open>\<open>None\<close> is the empty record, for a file with nothing to import.\<close>

definition import_one ::
  "import_env \<Rightarrow> string \<Rightarrow> string \<Rightarrow> string \<Rightarrow> memory_store \<Rightarrow>
   import_error + (import_record \<times> string) option" where
  "import_one IE root source existing st =
     (case (if ie_fails IE (path_clean source) then None else st_files st (path_clean source)) of
        None \<Rightarrow> Inl (ReadFailed source)
      | Some data \<Rightarrow>
          if trim_space data = [] then Inr None
          else
            let source_id = normalized_memory_path (ie_memory IE) root source;
                rid = import_id IE source_id
            in if str_contains existing (import_marker rid) then Inr None
               else Inr (Some
                 (\<lparr>ir_id = rid, ir_provider = provider_for_path source_id, ir_source_path = source_id,
                   ir_imported_at_utc = ie_now IE, ir_sha256 = ie_sha256 IE data\<rparr>,
                  import_block rid source_id data)))"

fun import_sources ::
  "import_env \<Rightarrow> string \<Rightarrow> string \<Rightarrow> memory_store \<Rightarrow> string list \<Rightarrow>
   import_error + import_record list \<times> string" where
  "import_sources IE root existing st [] = Inr ([], [])"
| "import_sources IE root existing st (source # sources) =
     (case import_one IE root source existing st of
        Inl e \<Rightarrow> Inl e
      | Inr item \<Rightarrow>
          (case import_sources IE root existing st sources of
             Inl e \<Rightarrow> Inl e
           | Inr (records, blocks) \<Rightarrow>
               (case item of
                  None \<Rightarrow> Inr (records, blocks)
                | Some (r, block) \<Rightarrow>
                    if ir_id r \<noteq> [] then Inr (r # records, block @ blocks) else Inr (records, blocks))))"

record import_report =
  rep_root :: string
  rep_records :: "import_record list"
  rep_changed :: bool

definition import_existing_locked ::
  "import_env \<Rightarrow> string \<Rightarrow> string \<Rightarrow> memory_settings \<Rightarrow> memory_store \<Rightarrow> import_report memory_result" where
  "import_existing_locked IE source_root state_root s st =
     (case ensure_with_settings IE state_root s st of
        Inl e \<Rightarrow> Inl e
      | Inr st1 \<Rightarrow>
     case import_source_paths IE source_root of
        Inl e \<Rightarrow> Inl e
      | Inr sources \<Rightarrow>
          let primary = primary_path state_root s
          in case (if ie_fails IE (path_clean primary) then None else st_files st1 (path_clean primary)) of
               None \<Rightarrow> Inl (ReadFailed primary)
             | Some existing \<Rightarrow>
                 (case import_sources IE source_root existing st1 sources of
                    Inl e \<Rightarrow> Inl e
                  | Inr (records, blocks) \<Rightarrow>
                 case (if blocks \<noteq> [] then atomic_write_file IE primary (existing @ blocks) st1 else Inr st1) of
                    Inl e \<Rightarrow> Inl e
                  | Inr st2 \<Rightarrow>
                 case ensure_index IE state_root s records st2 of
                    Inl e \<Rightarrow> Inl e
                  | Inr st3 \<Rightarrow>
                      Inr (\<lparr>rep_root = root_or_dot state_root, rep_records = records,
                            rep_changed = (records \<noteq> [])\<rparr>, st3)))"

section \<open>The lock\<close>

text \<open>The loop of \<open>withMemoryLock\<close> from an attempt on: the attempt that created the lock file.\<close>

fun lock_from :: "import_env \<Rightarrow> string \<Rightarrow> nat \<Rightarrow> nat \<Rightarrow> import_error + nat" where
  "lock_from IE path attempt 0 = Inl (LockBusy path)"
| "lock_from IE path attempt (Suc left) =
     (case ie_lock IE attempt of
        LockCreated \<Rightarrow> Inr attempt
      | LockFails \<Rightarrow> Inl (LockCreateFailed path)
      | LockExists \<Rightarrow> lock_from IE path (attempt + 1) left)"

definition with_memory_lock ::
  "import_env \<Rightarrow> string \<Rightarrow> memory_settings \<Rightarrow> (memory_store \<Rightarrow> 'a memory_result) \<Rightarrow> memory_store \<Rightarrow>
   'a memory_result" where
  "with_memory_lock IE root s operation st =
     (let path = path_join [root_or_dot root, ms_central_dir s, ''.lock'']
      in case mkdir_all IE (path_dir path) st of
           Inl e \<Rightarrow> Inl e
         | Inr st' \<Rightarrow>
             (case lock_from IE path 0 25 of Inl e \<Rightarrow> Inl e | Inr _ \<Rightarrow> operation st'))"

definition ImportExistingForRoots ::
  "import_env \<Rightarrow> string \<Rightarrow> string \<Rightarrow> memory_store \<Rightarrow> import_report memory_result" where
  "ImportExistingForRoots IE source_root state_root st =
     (case load_settings (ie_memory IE) source_root of
        Inl e \<Rightarrow> Inl (SettingsError e)
      | Inr s \<Rightarrow>
          if \<not> ms_enabled s \<or> \<not> ms_import_existing s then
            Inr (\<lparr>rep_root = root_or_dot state_root, rep_records = [], rep_changed = False\<rparr>, st)
          else with_memory_lock IE state_root s (import_existing_locked IE source_root state_root s) st)"

definition ImportExisting :: "import_env \<Rightarrow> string \<Rightarrow> memory_store \<Rightarrow> import_report memory_result" where
  "ImportExisting IE root st = ImportExistingForRoots IE root root st"


section \<open>Merging the index\<close>

definition index_of_records :: "import_record list \<Rightarrow> string \<Rightarrow> import_record option" where
  "index_of_records rs = map_of (map (\<lambda>r. (ir_id r, r)) (rev rs))"

definition real_records :: "import_record list \<Rightarrow> import_record list" where
  "real_records rs = filter (\<lambda>r. trim_space (ir_id r) \<noteq> []) rs"

text \<open>The positions are right: each id seen stands where the map says, and nowhere else.\<close>

definition positions_ok :: "import_record list \<times> (string \<Rightarrow> nat option) \<Rightarrow> bool" where
  "positions_ok = (\<lambda>(merged, seen).
     distinct (map ir_id merged) \<and> dom seen = ir_id ` set merged \<and>
     (\<forall>i k. seen i = Some k \<longrightarrow> k < length merged \<and> ir_id (merged ! k) = i))"

lemma merge_existing_fst: "fst (merge_existing rs acc) = fst acc @ real_records rs"
  by (induction rs acc rule: merge_existing.induct) (auto simp: real_records_def)

lemma positions_ok_snoc:
  assumes "positions_ok (merged, seen)" and "ir_id r \<notin> ir_id ` set merged"
  shows "positions_ok (merged @ [r], seen(ir_id r \<mapsto> length merged))"
  using assms by (auto simp: positions_ok_def nth_append less_Suc_eq split: if_splits)

lemma merge_existing_positions:
  assumes "positions_ok (merged, seen)"
    and "distinct (map ir_id (real_records rs))" and "ir_id ` set merged \<inter> ir_id ` set (real_records rs) = {}"
  shows "positions_ok (merge_existing rs (merged, seen))"
  using assms
proof (induction rs arbitrary: merged seen)
  case (Cons r rs)
  show ?case
  proof (cases "trim_space (ir_id r) = []")
    case True
    with Cons show ?thesis by (simp add: real_records_def)
  next
    case False
    then have rs: "real_records (r # rs) = r # real_records rs" by (simp add: real_records_def)
    have ok: "positions_ok (merged @ [r], seen(ir_id r \<mapsto> length merged))"
      using Cons.prems(1,3) by (intro positions_ok_snoc) (auto simp: rs)
    have "ir_id ` set (merged @ [r]) \<inter> ir_id ` set (real_records rs) = {}"
      using Cons.prems(2,3) by (auto simp: rs)
    moreover have "distinct (map ir_id (real_records rs))" using Cons.prems(2) by (simp add: rs)
    ultimately have "positions_ok (merge_existing rs (merged @ [r], seen(ir_id r \<mapsto> length merged)))"
      using ok by (intro Cons.IH)
    with False show ?thesis by simp
  qed
qed simp

lemma map_of_by_id:
  "distinct (map ir_id rs) \<Longrightarrow> map_of (map (\<lambda>r. (ir_id r, r)) rs) i = find (\<lambda>r. ir_id r = i) rs"
  by (induction rs) auto

lemma index_of_records_distinct:
  assumes "distinct (map ir_id rs)"
  shows "index_of_records rs i = Some r \<longleftrightarrow> r \<in> set rs \<and> ir_id r = i"
proof -
  have d: "distinct (map fst (map (\<lambda>r. (ir_id r, r)) (rev rs)))"
    using assms by (simp add: comp_def rev_map [symmetric])
  have "index_of_records rs i = Some r \<longleftrightarrow> (i, r) \<in> set (map (\<lambda>r. (ir_id r, r)) (rev rs))"
    unfolding index_of_records_def using map_of_eq_Some_iff [OF d] .
  then show ?thesis by auto
qed

lemma index_of_records_snoc: "index_of_records (rs @ [r]) = (index_of_records rs)(ir_id r \<mapsto> r)"
  by (simp add: index_of_records_def)

lemma index_of_records_update:
  assumes "positions_ok (merged, seen)" and "seen (ir_id r) = Some k"
  shows "index_of_records (merged[k := r]) = (index_of_records merged)(ir_id r \<mapsto> r)"
    and "positions_ok (merged[k := r], seen)"
proof -
  have k: "k < length merged" "ir_id (merged ! k) = ir_id r" and d: "distinct (map ir_id merged)"
    using assms by (auto simp: positions_ok_def)
  have ids: "map ir_id (merged[k := r]) = map ir_id merged"
    by (simp add: map_update) (metis k list_update_id nth_map)
  have other: "x \<in> set (merged[k := r]) \<longleftrightarrow> x \<in> set merged" if "ir_id x \<noteq> ir_id r" for x
    using k that by (auto simp: set_conv_nth nth_list_update split: if_splits)
  have here: "r \<in> set (merged[k := r])" using k(1) by (rule set_update_memI)
  show "index_of_records (merged[k := r]) = (index_of_records merged)(ir_id r \<mapsto> r)"
  proof (rule ext)
    fix i
    show "index_of_records (merged[k := r]) i = ((index_of_records merged)(ir_id r \<mapsto> r)) i"
    proof (cases "i = ir_id r")
      case True
      then show ?thesis using here d ids by (simp add: index_of_records_distinct)
    next
      case False
      then have "index_of_records (merged[k := r]) i = Some x \<longleftrightarrow> index_of_records merged i = Some x" for x
        using d ids other [of x] by (auto simp: index_of_records_distinct)
      with False show ?thesis by (metis fun_upd_other option.exhaust)
    qed
  qed
  show "positions_ok (merged[k := r], seen)"
  proof -
    have "ir_id ` set (merged[k := r]) = ir_id ` set merged" using arg_cong [OF ids, of set] by simp
    moreover have "ir_id (merged[k := r] ! j) = ir_id (merged ! j)" if "j < length merged" for j
      using that ids by (metis length_list_update nth_map)
    ultimately show ?thesis using assms(1) ids by (simp add: positions_ok_def)
  qed
qed

lemma merge_imported_spec:
  assumes "positions_ok (merged, seen)"
  shows "distinct (map ir_id (merge_imported rs (merged, seen))) \<and>
    index_of_records (merge_imported rs (merged, seen)) =
      index_of_records merged ++ index_of_records (real_records rs)"
  using assms
proof (induction rs arbitrary: merged seen)
  case Nil
  then show ?case by (simp add: positions_ok_def real_records_def index_of_records_def)
next
  case (Cons r rs)
  have step: "index_of_records (real_records (r # rs)) =
      [ir_id r \<mapsto> r] ++ index_of_records (real_records rs)" if "trim_space (ir_id r) \<noteq> []"
    using that by (simp add: real_records_def index_of_records_def map_add_def fun_eq_iff split: option.split)
  show ?case
  proof (cases "trim_space (ir_id r) = []")
    case True
    with Cons show ?thesis by (simp add: real_records_def)
  next
    case False
    show ?thesis
    proof (cases "seen (ir_id r)")
      case None
      then have "ir_id r \<notin> ir_id ` set merged" using Cons.prems by (auto simp: positions_ok_def)
      then have ok: "positions_ok (merged @ [r], seen(ir_id r \<mapsto> length merged))"
        by (rule positions_ok_snoc [OF Cons.prems])
      have m: "merge_imported (r # rs) (merged, seen) =
          merge_imported rs (merged @ [r], seen(ir_id r \<mapsto> length merged))"
        using False None by simp
      have "index_of_records merged ++ index_of_records (real_records (r # rs)) =
          index_of_records (merged @ [r]) ++ index_of_records (real_records rs)"
        by (rule ext) (simp add: step [OF False] index_of_records_snoc map_add_def split: option.split)
      with Cons.IH [OF ok] show ?thesis unfolding m by argo
    next
      case (Some k)
      have m: "merge_imported (r # rs) (merged, seen) = merge_imported rs (merged[k := r], seen)"
        using False Some by simp
      have "index_of_records merged ++ index_of_records (real_records (r # rs)) =
          index_of_records (merged[k := r]) ++ index_of_records (real_records rs)"
        by (rule ext) (simp add: step [OF False] index_of_records_update(1) [OF Cons.prems Some] map_add_def
            split: option.split)
      with Cons.IH [OF index_of_records_update(2) [OF Cons.prems Some]] show ?thesis unfolding m by argo
    qed
  qed
qed

lemma merge_import_records_spec:
  assumes "distinct (map ir_id (real_records existing))"
  shows "distinct (map ir_id (merge_import_records existing imported)) \<and>
    index_of_records (merge_import_records existing imported) =
      index_of_records (real_records existing) ++ index_of_records (real_records imported)"
proof -
  have ok: "positions_ok (merge_existing existing ([], Map.empty))"
    using assms by (intro merge_existing_positions) (auto simp: positions_ok_def)
  obtain merged seen where m: "merge_existing existing ([], Map.empty) = (merged, seen)" by force
  then have "merged = real_records existing" using merge_existing_fst [of existing "([], Map.empty)"] by simp
  with merge_imported_spec [of merged seen imported] ok m show ?thesis
    by (simp add: merge_import_records_def)
qed

text \<open>
  Fact. Merging the index is updating a map: whenever the ids of the index are all
  different, the merged index has all different ids again, and the record of each id is the last
  one imported under it or, when there is none, the one the index had. Records without an id are
  dropped.
\<close>

theorem merge_import_records_updates:
  assumes "distinct (map ir_id (real_records existing))"
  shows "distinct (map ir_id (merge_import_records existing imported)) \<and>
    index_of_records (merge_import_records existing imported) =
      index_of_records (real_records existing) ++ index_of_records (real_records imported)"
  using assms by (rule merge_import_records_spec)

definition sample_record :: "string \<Rightarrow> string \<Rightarrow> import_record" where
  "sample_record rid hash =
     \<lparr>ir_id = rid, ir_provider = ''claude'', ir_source_path = ''~/.claude/m'', ir_imported_at_utc = [],
      ir_sha256 = hash\<rparr>"

theorem merge_import_records_updates_witness:
  "distinct (map ir_id (merge_import_records [sample_record ''a'' ''1''] [sample_record ''b'' ''2'', sample_record ''a'' ''3''])) \<and>
   index_of_records (merge_import_records [sample_record ''a'' ''1''] [sample_record ''b'' ''2'', sample_record ''a'' ''3'']) =
     index_of_records (real_records [sample_record ''a'' ''1'']) ++
     index_of_records (real_records [sample_record ''b'' ''2'', sample_record ''a'' ''3''])"
  by (rule merge_import_records_updates) code_simp

end
