(* ===== verification/MemoryRoute.thy ===== *)
theory MemoryRoute
  imports HookRunner MemoryImport GoLines
begin

text \<open>
  \<open>go/internal/hooks/memory_route.go\<close>: the hook route that sends the file tools from the memory
  files of a provider to the central memory, and the provider that the inspection takes from such a
  path (\<open>eventMemoryProviderForInspection\<close> of \<open>inspection.go\<close>). The route may create the central
  store, so it yields the store as well. The texts of the errors are an argument.
\<close>

section \<open>The path of an event\<close>

fun all_strings :: "any list \<Rightarrow> string list option" where
  "all_strings [] = Some []"
| "all_strings (AString s # vs) = map_option ((#) s) (all_strings vs)"
| "all_strings (_ # vs) = None"

definition string_list_value :: "any option \<Rightarrow> string list option" where
  "string_list_value v =
     (case v of
        Some (AStrings xs) \<Rightarrow> Some xs
      | Some (AList vs) \<Rightarrow> all_strings vs
      | _ \<Rightarrow> None)"

fun single_path :: "any_map option \<Rightarrow> string list \<Rightarrow> (string \<times> string) option" where
  "single_path m [] = None"
| "single_path m (key # keys) =
     (case input_string m key of
        Some v \<Rightarrow> if v \<noteq> [] then Some (v, key) else single_path m keys
      | None \<Rightarrow> single_path m keys)"

fun listed_path :: "any_map option \<Rightarrow> string list \<Rightarrow> (string \<times> string) option" where
  "listed_path m [] = None"
| "listed_path m (key # keys) =
     (case string_list_value (Option.bind m (\<lambda>kvs. map_of kvs key)) of
        Some [v] \<Rightarrow> if v \<noteq> [] then Some (v, key) else listed_path m keys
      | _ \<Rightarrow> listed_path m keys)"

definition event_file_path :: "event \<Rightarrow> (string \<times> string) option" where
  "event_file_path e =
     (case single_path (ev_tool_input e) [''file_path'', ''path'', ''notebook_path''] of
        Some r \<Rightarrow> Some r
      | None \<Rightarrow> listed_path (ev_tool_input e) [''files'', ''paths''])"

section \<open>The route\<close>

definition memory_block :: "string \<Rightarrow> inspection_route" where
  "memory_block reason =
     no_route\<lparr>route_block := True, route_block_policy_id := ''memory.centralized'', route_reason := reason\<rparr>"

definition memory_updated_input :: "event \<Rightarrow> string \<Rightarrow> string \<Rightarrow> any_map" where
  "memory_updated_input e key canonical =
     map_set key (if key = ''files'' \<or> key = ''paths'' then AStrings [canonical] else AString canonical)
       (case ev_tool_input e of None \<Rightarrow> [] | Some m \<Rightarrow> m)"

definition memory_file_tool_route_for ::
  "import_env \<Rightarrow> (import_error \<Rightarrow> string) \<Rightarrow> environment \<Rightarrow> memory_store \<Rightarrow> event \<Rightarrow>
   inspection_route \<times> memory_store" where
  "memory_file_tool_route_for IE err_text env st e =
     (case event_file_path e of
        None \<Rightarrow> (no_route, st)
      | Some (path, key) \<Rightarrow>
          if \<not> may_manage_path (ie_memory IE) (ev_cwd e) path then (no_route, st)
          else case load_settings (ie_memory IE) (ev_cwd e) of
                 Inl err \<Rightarrow>
                   (memory_block (''Memory settings are unavailable: '' @ err_text (SettingsError err)), st)
               | Inr s \<Rightarrow>
                   let c = classify_with_settings (ie_memory IE) (ev_cwd e) path s
                   in if \<not> cl_managed c then (no_route, st)
                      else if \<not> provider_supports_updated_input (Provider env e) \<and>
                              \<not> provider_supports_updated_input (cl_provider c)
                        then (memory_block denied_reason, st)
                      else case Ensure IE (ev_cwd e) st of
                             Inl err \<Rightarrow>
                               (memory_block (''Memory central store is unavailable: '' @ err_text err), st)
                           | Inr st' \<Rightarrow>
                               (no_route
                                  \<lparr>route_updated_input := Some (memory_updated_input e key (cl_canonical_path c)),
                                   route_reason := ''Routed provider-specific memory access to '' @ primary_file @ ''.'',
                                   route_rewrite := True\<rparr>, st'))"

definition memory_route_for ::
  "import_env \<Rightarrow> (import_error \<Rightarrow> string) \<Rightarrow> environment \<Rightarrow> memory_store \<Rightarrow> event \<Rightarrow>
   inspection_route \<times> memory_store" where
  "memory_route_for IE err_text env st e =
     (if ev_hook_event_name e \<noteq> ''PreToolUse'' then (no_route, st)
      else if ev_tool_name e \<in> {''Read'', ''Write'', ''Edit'', ''MultiEdit''}
        then memory_file_tool_route_for IE err_text env st e
      else (no_route, st))"

definition event_memory_provider :: "memory_env \<Rightarrow> event \<Rightarrow> string" where
  "event_memory_provider E e =
     (if ev_hook_event_name e \<noteq> ''PreToolUse'' then []
      else case event_file_path e of
             None \<Rightarrow> []
           | Some (path, _) \<Rightarrow>
               if \<not> may_manage_path E (ev_cwd e) path then []
               else case load_settings E (ev_cwd e) of
                      Inl _ \<Rightarrow> []
                    | Inr s \<Rightarrow>
                        let c = classify_with_settings E (ev_cwd e) path s
                        in if cl_managed c then cl_provider c else [])"

text \<open>The hook runner with this route.\<close>

definition with_memory_route ::
  "'n hook_env \<Rightarrow> import_env \<Rightarrow> (import_error \<Rightarrow> string) \<Rightarrow> memory_store \<Rightarrow> 'n hook_env" where
  "with_memory_route H IE err_text st =
     H\<lparr>he_memory_route := (\<lambda>e. fst (memory_route_for IE err_text (he_environ H) st e)),
       he_memory_provider := event_memory_provider (ie_memory IE)\<rparr>"

section \<open>Which paths are managed\<close>




section \<open>The memory files of a provider\<close>











definition sample_memory_env :: memory_env where
  "sample_memory_env =
     \<lparr>me_getwd = Some ''/w'', me_home = Some ''/h'', me_load_toml = (\<lambda>_. NotExist), me_sprint = (\<lambda>_. [])\<rparr>"

definition memory_import_env :: import_env where
  "memory_import_env =
     \<lparr>ie_memory = sample_memory_env, ie_fails = (\<lambda>_. False), ie_walk = (\<lambda>_. Some []),
      ie_decode = (\<lambda>_. Some []), ie_encode = (\<lambda>_. []), ie_sha256 = id, ie_now = [],
      ie_lock = (\<lambda>_. LockCreated)\<rparr>"

definition empty_store :: memory_store where
  "empty_store = \<lparr>st_files = (\<lambda>_. None), st_dirs = (\<lambda>_. False)\<rparr>"

definition memory_event :: "string \<Rightarrow> string \<Rightarrow> string \<Rightarrow> event" where
  "memory_event provider cwd path =
     empty_event\<lparr>ev_hook_event_name := ''PreToolUse'', ev_tool_name := ''Write'', ev_cwd := cwd,
       ev_provider_hint := provider, ev_tool_input := Some [(''file_path'', AString path)]\<rparr>"


section \<open>Gaps of the route\<close>

text \<open>
  Fact. The setting that switches the central memory off is not asked: with it, a managed
  path is still rewritten, and the central file, which is then not created, need not exist.
\<close>

theorem disabled_memory_still_routed:
  assumes "ev_hook_event_name e = ''PreToolUse''"
    and "ev_tool_name e \<in> {''Read'', ''Write'', ''Edit'', ''MultiEdit''}"
    and "event_file_path e = Some (path, key)"
    and "may_manage_path (ie_memory IE) (ev_cwd e) path"
    and "load_settings (ie_memory IE) (ev_cwd e) = Inr s" and "\<not> ms_enabled s"
    and "cl_managed (classify_with_settings (ie_memory IE) (ev_cwd e) path s)"
    and "provider_supports_updated_input (Provider env e)"
  shows "route_rewrite (fst (memory_route_for IE err_text env st e)) \<and>
    snd (memory_route_for IE err_text env st e) = st"
  using assms
  by (auto simp: memory_route_for_def memory_file_tool_route_for_def Ensure_def
      ensure_with_settings_def no_route_def Let_def)

text \<open>
  Fact. A provider that cannot apply a rewritten input is not refused when the path belongs
  to one that can: the inspection takes the provider of the path for the provider of the event, so
  the merged decision allows the call with a rewrite in the schema of the other provider.
\<close>

theorem foreign_memory_not_refused:
  assumes "ev_hook_event_name e = ''PreToolUse''"
    and "ev_tool_name e \<in> {''Read'', ''Write'', ''Edit'', ''MultiEdit''}"
    and "event_file_path e = Some (path, key)"
    and "may_manage_path (ie_memory IE) (ev_cwd e) path"
    and "load_settings (ie_memory IE) (ev_cwd e) = Inr s"
    and "c = classify_with_settings (ie_memory IE) (ev_cwd e) path s" and "cl_managed c"
    and "provider_supports_updated_input (cl_provider c)"
    and "Ensure IE (ev_cwd e) st = Inr st'"
    and "H' = with_memory_route H IE err_text st"
  shows "ic_provider (CollectInspectionContext H' e) = cl_provider c \<and>
    route_rewrite (he_memory_route H' e) \<and>
    insp_status (DecideInspection bundle (CollectInspectionContext H' e) [] (he_memory_route H' e)) = ''allowed'' \<and>
    insp_route (DecideInspection bundle (CollectInspectionContext H' e) [] (he_memory_route H' e)) =
      he_memory_route H' e"
proof -
  have provider: "event_memory_provider (ie_memory IE) e = cl_provider c"
    using assms by (simp add: event_memory_provider_def Let_def)
  have ctx: "ic_provider (CollectInspectionContext H' e) = cl_provider c"
    using assms(8,10) provider by (simp add: CollectInspectionContext_def with_memory_route_def Let_def)
  have route: "route_rewrite (he_memory_route H' e) \<and> \<not> route_block (he_memory_route H' e)"
    using assms
    by (auto simp: with_memory_route_def memory_route_for_def memory_file_tool_route_for_def no_route_def Let_def)
  have "cl_provider c \<noteq> []" using assms(8) by (auto simp: provider_supports_updated_input_def)
  with ctx route assms(8) show ?thesis
    by (simp add: DecideInspection_def Let_def result_status_def)
qed

theorem foreign_memory_not_refused_witness:
  "let e = memory_event ''codex'' ''/w'' ''.claude/memory/x.md'';
       H = with_memory_route (sample_env [] []) memory_import_env (\<lambda>_. []) empty_store
   in Provider (\<lambda>_. []) e = ''codex'' \<and> ic_provider (CollectInspectionContext H e) = ''claude'' \<and>
      insp_status (DecideInspection (sample_bundle ''block'') (CollectInspectionContext H e) [] (he_memory_route H e)) =
        ''allowed''"
  by code_simp

text \<open>
  Fact. A path is compared with the working directory of the event and the home directory
  only: an absolute path outside both is never a memory file, so the memory files of the repository
  are reached from any of its subdirectories.
\<close>

theorem outside_paths_unmanaged:
  assumes "path_is_abs (path_clean (trim_space raw))"
    and "\<not> has_prefix (path_clean (trim_space raw)) (path_clean (root_or_dot root) @ ''/'')"
    and "\<And>home. me_home E = Some home \<Longrightarrow> \<not> has_prefix (path_clean (trim_space raw)) (path_clean home @ ''/'')"
  shows "\<not> may_manage_path E root raw"
proof -
  have "normalized_memory_path E root (path_clean (trim_space raw)) = path_clean (trim_space raw)"
    using assms(2,3) by (auto simp: normalized_memory_path_def cut_prefix_def Let_def split: option.split)
  moreover obtain q where "path_clean (trim_space raw) = CHR ''/'' # q"
    using assms(1) by (auto simp: path_is_abs_def has_prefix_iff)
  ultimately show ?thesis by (simp add: may_manage_path_def provider_for_path_def Let_def)
qed

theorem outside_paths_unmanaged_witness:
  "\<not> may_manage_path sample_memory_env ''/w/sub'' ''/w/.claude/memory/x.md'' \<and>
   may_manage_path sample_memory_env ''/w'' ''/w/.claude/memory/x.md''"
proof
  have c: "path_clean (trim_space ''/w/.claude/memory/x.md'') = ''/w/.claude/memory/x.md''"
    "path_clean (root_or_dot ''/w/sub'') = ''/w/sub''" "path_clean ''/h'' = ''/h''" by code_simp+
  show "\<not> may_manage_path sample_memory_env ''/w/sub'' ''/w/.claude/memory/x.md''"
    by (rule outside_paths_unmanaged) (auto simp: c path_is_abs_def sample_memory_env_def)
  show "may_manage_path sample_memory_env ''/w'' ''/w/.claude/memory/x.md''" by code_simp
qed

end
