(* ===== verification/HookRoutes.thy ===== *)
theory HookRoutes
  imports LintRoute PythonRoute MemoryRoute
begin

text \<open>
  The hook runner (\<open>go/internal/hooks/runner.go\<close>) with the routes of the other theories put in for
  its arguments: the memory, Git, lint and Python routes, in the order \<open>route_tool_use\<close> asks them.
\<close>

section \<open>The runner with its routes\<close>

definition with_routes ::
  "'n hook_env \<Rightarrow> (string \<Rightarrow> string) \<Rightarrow> python_world \<Rightarrow> import_env \<Rightarrow> (import_error \<Rightarrow> string) \<Rightarrow>
   memory_store \<Rightarrow> 'n hook_env" where
  "with_routes H cerun W IE err_text st =
     (with_memory_route H IE err_text st)
       \<lparr>he_git_route := git_wrapper_route_for (he_bash H) (he_environ H) cerun,
        he_lint_route := lint_tool_route_for (he_bash H) (he_environ H),
        he_python_route := python_runtime_route_for (he_bash H) W\<rparr>"

lemma with_routes_fields [simp]:
  "he_git_route (with_routes H cerun W IE err_text st) = git_wrapper_route_for (he_bash H) (he_environ H) cerun"
  "he_lint_route (with_routes H cerun W IE err_text st) = lint_tool_route_for (he_bash H) (he_environ H)"
  "he_python_route (with_routes H cerun W IE err_text st) = python_runtime_route_for (he_bash H) W"
  "he_memory_route (with_routes H cerun W IE err_text st) =
     (\<lambda>e. fst (memory_route_for IE err_text (he_environ H) st e))"
  "he_bash (with_routes H cerun W IE err_text st) = he_bash H"
  "he_environ (with_routes H cerun W IE err_text st) = he_environ H"
  by (simp_all add: with_routes_def with_memory_route_def)

lemma first_route_blocked:
  assumes "r \<in> set rs" and "route_block (r e)"
    and "list_all (\<lambda>q. \<not> route_rewrite (q e)) (takeWhile (\<lambda>q. \<not> route_block (q e)) rs)"
  shows "route_block (first_route rs e)"
  using assms by (induction rs) (auto split: if_splits)


lemma leading_routes_no_rewrite:
  "\<not> route_rewrite (parallel_tool_batch_route_for e)" "\<not> route_rewrite (malformed_shell_route_for B e)"
  by (auto simp: parallel_tool_batch_route_for_def malformed_shell_route_for_def no_route_def Let_def
      split: sum.split option.split any.split)


section \<open>What a run lets through\<close>








end
