(* ===== verification/MemoryImportProofs.thy ===== *)
theory MemoryImportProofs
  imports MemoryImport
begin

text \<open>
  The import of provider memory runs once: a second pass over the same files changes nothing. The
  bounds of the names and of the lock. The codec of the index is assumed to read back what it
  wrote.
\<close>

section \<open>A settled store\<close>

lemma path_join_clean [simp]: "path_clean (primary_path root s) = primary_path root s"
  "path_clean (index_path root s) = index_path root s"
proof -
  have "trim_space [] = []" by code_simp
  then have "root_or_dot root \<noteq> []" by (auto simp: root_or_dot_def)
  then show "path_clean (primary_path root s) = primary_path root s"
    "path_clean (index_path root s) = index_path root s"
    by (simp_all add: primary_path_def index_path_def path_join_def Let_def)
qed

definition settled :: "import_env \<Rightarrow> string \<Rightarrow> memory_settings \<Rightarrow> memory_store \<Rightarrow> bool" where
  "settled IE root s st \<longleftrightarrow>
     st_dirs st (path_dir (primary_path root s)) \<and> st_dirs st (path_dir (index_path root s)) \<and>
     \<not> ie_fails IE (primary_path root s) \<and> \<not> ie_fails IE (index_path root s) \<and>
     \<not> ie_fails IE (path_dir (primary_path root s)) \<and> \<not> ie_fails IE (path_dir (index_path root s)) \<and>
     st_files st (primary_path root s) \<noteq> None \<and>
     (\<exists>rs. st_files st (index_path root s) = Some (ie_encode IE rs) \<and> real_records rs = rs)"

definition codec_ok :: "import_env \<Rightarrow> bool" where
  "codec_ok IE \<longleftrightarrow> (\<forall>rs. ie_decode IE (ie_encode IE rs) = Some rs)"

lemma merge_nothing: "merge_import_records rs [] = real_records rs"
proof -
  obtain merged seen where m: "merge_existing rs ([], Map.empty) = (merged, seen)" by force
  then have "merged = real_records rs" using merge_existing_fst [of rs "([], Map.empty)"] by simp
  with m show ?thesis by (simp add: merge_import_records_def)
qed

lemma same_store:
  "st_dirs st d \<Longrightarrow> st\<lparr>st_dirs := (st_dirs st)(d := True)\<rparr> = st"
  "st_files st p = Some v \<Longrightarrow> st\<lparr>st_files := (st_files st)(p := Some v)\<rparr> = st"
  by (simp_all add: fun_upd_idem)

lemma settled_ensure_index:
  assumes "settled IE root s st" and "codec_ok IE"
  shows "ensure_index IE root s [] st = Inr st"
proof -
  obtain rs where "st_files st (index_path root s) = Some (ie_encode IE rs)" "real_records rs = rs"
    using assms(1) by (auto simp: settled_def)
  with assms show ?thesis
    by (simp add: ensure_index_def read_index_records_def codec_ok_def mkdir_all_def
        atomic_write_file_def settled_def merge_nothing same_store Let_def)
qed

lemma settled_ensure:
  assumes "settled IE root s st" and "codec_ok IE"
  shows "ensure_with_settings IE root s st = Inr st"
  using assms settled_ensure_index [OF assms]
  by (auto simp: ensure_with_settings_def mkdir_all_def file_or_dir_def settled_def same_store Let_def)

text \<open>What the operations leave alone.\<close>

lemma mkdir_allD:
  "mkdir_all IE d st = Inr st' \<Longrightarrow> st_files st' = st_files st \<and> st_dirs st' d \<and> \<not> ie_fails IE d \<and>
   (\<forall>p. st_dirs st p \<longrightarrow> st_dirs st' p)"
  by (auto simp: mkdir_all_def split: if_splits)

lemma atomic_write_fileD:
  "atomic_write_file IE path data st = Inr st' \<Longrightarrow>
   st_files st' = (st_files st)(path := Some data) \<and> st_dirs st' (path_dir path) \<and>
   \<not> ie_fails IE path \<and> \<not> ie_fails IE (path_dir path) \<and> (\<forall>p. st_dirs st p \<longrightarrow> st_dirs st' p)"
  by (auto simp: atomic_write_file_def split: sum.splits if_splits dest!: mkdir_allD)

lemma merge_imported_real:
  "real_records merged = merged \<Longrightarrow> real_records (merge_imported rs (merged, seen)) = merge_imported rs (merged, seen)"
proof (induction rs arbitrary: merged seen)
  case (Cons r rs)
  have real: "real_records xs = xs \<longleftrightarrow> (\<forall>x \<in> set xs. trim_space (ir_id x) \<noteq> [])" for xs
    by (simp add: real_records_def filter_id_conv)
  show ?case
  proof (cases "trim_space (ir_id r) = []")
    case True
    with Cons show ?thesis by simp
  next
    case False
    have upd: "real_records (merged[k := r]) = merged[k := r]" for k
      using Cons.prems False set_update_subset_insert [of merged k r] unfolding real by blast
    have snoc: "real_records (merged @ [r]) = merged @ [r]"
      using Cons.prems False unfolding real by auto
    show ?thesis
    proof (cases "seen (ir_id r)")
      case None
      with False Cons.IH [OF snoc, of "seen(ir_id r \<mapsto> length merged)"] show ?thesis
        by (simp del: fun_upd_apply)
    next
      case (Some k)
      with False Cons.IH [OF upd] show ?thesis by simp
    qed
  qed
qed simp

lemma merge_import_records_real: "real_records (merge_import_records ex im) = merge_import_records ex im"
proof -
  obtain merged seen where m: "merge_existing ex ([], Map.empty) = (merged, seen)" by force
  then have "merged = real_records ex" using merge_existing_fst [of ex "([], Map.empty)"] by simp
  then have "real_records merged = merged" by (simp add: real_records_def)
  from merge_imported_real [OF this] m show ?thesis by (simp add: merge_import_records_def)
qed

lemma ensure_indexD:
  assumes "ensure_index IE root s records st = Inr st'"
  obtains rs where "st_files st' = (st_files st)(index_path root s := Some (ie_encode IE rs))"
    "real_records rs = rs" "st_dirs st' (path_dir (index_path root s))"
    "\<not> ie_fails IE (index_path root s)" "\<not> ie_fails IE (path_dir (index_path root s))"
    "\<forall>p. st_dirs st p \<longrightarrow> st_dirs st' p"
  using assms
  by (auto simp: ensure_index_def Let_def merge_import_records_real split: sum.splits
      dest!: mkdir_allD atomic_write_fileD)

lemma ensure_with_settingsD:
  assumes "ensure_with_settings IE root s st = Inr st'" and "ms_enabled s"
  shows "st_dirs st' (path_dir (primary_path root s)) \<and> \<not> ie_fails IE (primary_path root s) \<and>
    \<not> ie_fails IE (path_dir (primary_path root s)) \<and> (\<forall>p. st_dirs st p \<longrightarrow> st_dirs st' p)"
  using assms
  by (auto simp: ensure_with_settings_def Let_def split: sum.splits if_splits
      dest!: mkdir_allD elim!: ensure_indexD)

section \<open>The second pass\<close>

lemma str_contains_append: "str_contains a x \<or> str_contains b x \<Longrightarrow> str_contains (a @ b) x"
  unfolding str_contains_iff by (metis append.assoc)

lemma str_contains_mid: "str_contains (u @ x @ v) x"
  unfolding str_contains_iff by blast

lemma import_block_marker: "str_contains (import_block rid src data) (import_marker rid)"
  unfolding import_block_def by (rule str_contains_mid)

lemma import_sources_again:
  assumes "import_sources IE root existing st sources = Inr (records, blocks)"
    and "\<And>x. str_contains existing x \<or> str_contains blocks x \<Longrightarrow> str_contains full x"
    and "\<And>p. p \<in> set sources \<Longrightarrow> st_files st' (path_clean p) = st_files st (path_clean p)"
  shows "import_sources IE root full st' sources = Inr ([], [])"
  using assms
proof (induction sources arbitrary: records blocks)
  case (Cons p sources)
  obtain item rs bs where item: "import_one IE root p existing st = Inr item"
    and rest: "import_sources IE root existing st sources = Inr (rs, bs)"
    using Cons.prems(1) by (auto split: sum.splits)
  have blocks: "blocks = (case item of None \<Rightarrow> bs | Some (r, b) \<Rightarrow> if ir_id r \<noteq> [] then b @ bs else bs)"
    using Cons.prems(1) item rest by (auto split: option.splits if_splits)
  have "import_sources IE root full st' sources = Inr ([], [])"
  proof (rule Cons.IH [OF rest])
    show "str_contains full x" if "str_contains existing x \<or> str_contains bs x" for x
      using that Cons.prems(2) [of x] str_contains_append by (auto simp: blocks split: option.split)
  qed (use Cons.prems(3) in simp)
  moreover have "\<exists>item'. import_one IE root p full st' = Inr item' \<and> (\<forall>r b. item' = Some (r, b) \<longrightarrow> ir_id r = [])"
  proof (cases item)
    case None
    then show ?thesis
      using item Cons.prems(2) Cons.prems(3) [of p]
      by (auto simp: import_one_def Let_def split: option.splits if_splits)
  next
    case (Some rb)
    obtain r b where rb: "rb = (r, b)" by force
    have f: "str_contains full (import_marker (ir_id r))" if "ir_id r \<noteq> []"
    proof -
      have "str_contains b (import_marker (ir_id r))"
        using item Some rb by (auto simp: import_one_def Let_def import_block_marker split: option.splits if_splits)
      with Cons.prems(2) [of "import_marker (ir_id r)"] that show ?thesis
        using str_contains_append by (auto simp: blocks Some rb)
    qed
    then have "ir_id r = [] \<or> str_contains full (import_marker (ir_id r))" by blast
    then show ?thesis
      using item Some rb Cons.prems(3) [of p]
      by (auto simp: import_one_def Let_def split: option.splits if_splits)
  qed
  ultimately show ?case by (auto split: option.split)
qed simp

definition disjoint_sources :: "import_env \<Rightarrow> string \<Rightarrow> string \<Rightarrow> memory_settings \<Rightarrow> bool" where
  "disjoint_sources IE source_root state_root s \<longleftrightarrow>
     (\<forall>sources. import_source_paths IE source_root = Inr sources \<longrightarrow>
        primary_path state_root s \<notin> path_clean ` set sources \<and>
        index_path state_root s \<notin> path_clean ` set sources)"

lemma import_existing_locked_twice:
  assumes "import_existing_locked IE source_root state_root s st = Inr (rep, st')"
    and "ms_enabled s" and "codec_ok IE" and "disjoint_sources IE source_root state_root s"
    and "primary_path state_root s \<noteq> index_path state_root s"
  shows "import_existing_locked IE source_root state_root s st' =
      Inr (\<lparr>rep_root = root_or_dot state_root, rep_records = [], rep_changed = False\<rparr>, st') \<and>
    (\<forall>p. st_dirs st p \<longrightarrow> st_dirs st' p)"
proof -
  let ?primary = "primary_path state_root s" and ?index = "index_path state_root s"
  obtain st1 sources existing records blocks st2 where
    ensure: "ensure_with_settings IE state_root s st = Inr st1"
    and sources: "import_source_paths IE source_root = Inr sources"
    and existing: "st_files st1 ?primary = Some existing"
    and imported: "import_sources IE source_root existing st1 sources = Inr (records, blocks)"
    and written: "(if blocks \<noteq> [] then atomic_write_file IE ?primary (existing @ blocks) st1 else Inr st1) = Inr st2"
    and indexed: "ensure_index IE state_root s records st2 = Inr st'"
    using assms(1)
    by (auto simp: import_existing_locked_def Let_def split: sum.splits option.splits if_splits)
  note e1 = ensure_with_settingsD [OF ensure assms(2)]
  have files2: "st_files st2 = (st_files st1)(?primary := Some (existing @ blocks))"
    and dirs2: "\<forall>p. st_dirs st1 p \<longrightarrow> st_dirs st2 p"
    using written existing by (auto split: if_splits dest: atomic_write_fileD simp: fun_upd_idem)
  obtain rs where files': "st_files st' = (st_files st2)(?index := Some (ie_encode IE rs))"
    and rs: "real_records rs = rs" and d: "st_dirs st' (path_dir ?index)" "\<not> ie_fails IE ?index"
      "\<not> ie_fails IE (path_dir ?index)" "\<forall>p. st_dirs st2 p \<longrightarrow> st_dirs st' p"
    using ensure_indexD [OF indexed] by metis
  have settled: "settled IE state_root s st'"
    using e1 dirs2 d rs files' files2 assms(5) by (auto simp: settled_def)
  have "import_sources IE source_root (existing @ blocks) st' sources = Inr ([], [])"
  proof (rule import_sources_again [OF imported])
    show "st_files st' (path_clean p) = st_files st1 (path_clean p)" if "p \<in> set sources" for p
    proof -
      have "path_clean p \<in> path_clean ` set sources" using that by (rule imageI)
      then have "path_clean p \<noteq> ?primary" "path_clean p \<noteq> ?index"
        using assms(4) sources by (auto simp: disjoint_sources_def)
      then show ?thesis by (simp add: files' files2)
    qed
  qed (rule str_contains_append)
  moreover have "st_files st' ?primary = Some (existing @ blocks)" using files' files2 assms(5) by simp
  ultimately have "import_existing_locked IE source_root state_root s st' =
      Inr (\<lparr>rep_root = root_or_dot state_root, rep_records = [], rep_changed = False\<rparr>, st')"
    using settled_ensure [OF settled assms(3)] settled_ensure_index [OF settled assms(3)] sources e1
    by (simp add: import_existing_locked_def Let_def)
  with e1 dirs2 d(4) show ?thesis by blast
qed

text \<open>
  Property C36. The import is idempotent: after a pass that succeeded, a second one imports nothing,
  reports no change and leaves the whole store as it is, whatever the first pass found. The central
  files must not themselves be among the provider files, and the index codec reads back what it
  wrote.
\<close>

theorem import_twice_is_once:
  assumes "ImportExistingForRoots IE source_root state_root st = Inr (rep, st')"
    and "load_settings (ie_memory IE) source_root = Inr s"
    and "codec_ok IE" and "disjoint_sources IE source_root state_root s"
    and "primary_path state_root s \<noteq> index_path state_root s"
  shows "ImportExistingForRoots IE source_root state_root st' =
    Inr (\<lparr>rep_root = root_or_dot state_root, rep_records = [], rep_changed = False\<rparr>, st')"
proof (cases "ms_enabled s \<and> ms_import_existing s")
  case False
  with assms(1,2) show ?thesis by (auto simp: ImportExistingForRoots_def)
next
  case True
  let ?lock = "path_join [root_or_dot state_root, ms_central_dir s, ''.lock'']"
  obtain st0 n where st0: "mkdir_all IE (path_dir ?lock) st = Inr st0"
    and n: "lock_from IE ?lock 0 25 = Inr n"
    and first: "import_existing_locked IE source_root state_root s st0 = Inr (rep, st')"
    using assms(1,2) True
    by (auto simp: ImportExistingForRoots_def with_memory_lock_def Let_def split: sum.splits)
  note twice = import_existing_locked_twice [OF first _ assms(3,4,5)]
  have "mkdir_all IE (path_dir ?lock) st' = Inr st'"
    using mkdir_allD [OF st0] twice True by (auto simp: mkdir_all_def same_store)
  with assms(2) True n twice show ?thesis
    by (simp add: ImportExistingForRoots_def with_memory_lock_def Let_def)
qed


text \<open>A codec and an environment with one provider file, for the example.\<close>

definition enc_string :: "string \<Rightarrow> string" where
  "enc_string s = concat (map (\<lambda>c. [CHR ''x'', c]) s) @ ''.''"

fun dec_string :: "string \<Rightarrow> (string \<times> string) option" where
  "dec_string [] = None"
| "dec_string [x] = (if x = CHR ''.'' then Some ([], []) else None)"
| "dec_string (x # c # rest) =
     (if x = CHR ''.'' then Some ([], c # rest)
      else map_option (\<lambda>(s, r). (c # s, r)) (dec_string rest))"

definition enc_record :: "import_record \<Rightarrow> string" where
  "enc_record r = enc_string (ir_id r) @ enc_string (ir_provider r) @ enc_string (ir_source_path r) @
     enc_string (ir_imported_at_utc r) @ enc_string (ir_sha256 r)"

definition dec_record :: "string \<Rightarrow> (import_record \<times> string) option" where
  "dec_record s =
     do { (a, s1) \<leftarrow> dec_string s; (b, s2) \<leftarrow> dec_string s1; (c, s3) \<leftarrow> dec_string s2;
          (d, s4) \<leftarrow> dec_string s3; (e, s5) \<leftarrow> dec_string s4;
          Some (\<lparr>ir_id = a, ir_provider = b, ir_source_path = c, ir_imported_at_utc = d, ir_sha256 = e\<rparr>, s5) }"

fun dec_records :: "nat \<Rightarrow> string \<Rightarrow> import_record list option" where
  "dec_records 0 s = (if s = [] then Some [] else None)"
| "dec_records (Suc n) s =
     (if s = [] then Some []
      else do { (r, rest) \<leftarrow> dec_record s; rs \<leftarrow> dec_records n rest; Some (r # rs) })"

lemma dec_string_enc: "dec_string (enc_string s @ rest) = Some (s, rest)"
proof (induction s)
  case Nil
  then show ?case by (cases rest) (simp_all add: enc_string_def)
qed (simp add: enc_string_def)

lemma dec_record_enc: "dec_record (enc_record r @ rest) = Some (r, rest)"
  by (simp add: dec_record_def enc_record_def dec_string_enc)

lemma enc_record_length: "0 < length (enc_record r)"
  by (simp add: enc_record_def enc_string_def)

lemma dec_records_enc: "length rs \<le> n \<Longrightarrow> dec_records n (concat (map enc_record rs)) = Some rs"
proof (induction rs arbitrary: n)
  case Nil
  then show ?case by (cases n) simp_all
next
  case (Cons r rs)
  then obtain m where "n = Suc m" "length rs \<le> m" by (cases n) auto
  with Cons.IH [of m] enc_record_length [of r] show ?case by (simp add: dec_record_enc)
qed

lemma length_records: "length rs \<le> length (concat (map enc_record rs))"
proof (induction rs)
  case (Cons r rs)
  then show ?case using enc_record_length [of r] by (simp del: length_greater_0_conv)
qed simp

definition sample_import_env :: import_env where
  "sample_import_env =
     \<lparr>ie_memory = \<lparr>me_getwd = Some ''/w'', me_home = None, me_load_toml = (\<lambda>_. NotExist), me_sprint = (\<lambda>_. [])\<rparr>,
      ie_fails = (\<lambda>_. False),
      ie_walk = (\<lambda>b. Some (if b = ''/w/.claude'' then [''/w/.claude/memory/a.md''] else [])),
      ie_decode = (\<lambda>s. dec_records (length s) s), ie_encode = (\<lambda>rs. concat (map enc_record rs)),
      ie_sha256 = (\<lambda>s. ''ab'' @ s), ie_now = ''t'', ie_lock = (\<lambda>_. LockCreated)\<rparr>"

definition sample_store :: memory_store where
  "sample_store =
     \<lparr>st_files = (\<lambda>p. if p = ''/w/.claude/memory/a.md'' then Some ''note'' else None), st_dirs = (\<lambda>_. False)\<rparr>"

theorem import_twice_is_once_witness:
  "case ImportExistingForRoots sample_import_env ''/w'' ''/w'' sample_store of
     Inl e \<Rightarrow> False
   | Inr (rep, st') \<Rightarrow> rep_changed rep \<and>
       ImportExistingForRoots sample_import_env ''/w'' ''/w'' st' =
         Inr (\<lparr>rep_root = ''/w'', rep_records = [], rep_changed = False\<rparr>, st')"
proof -
  have "case ImportExistingForRoots sample_import_env ''/w'' ''/w'' sample_store of
      Inl e \<Rightarrow> False | Inr (rep, st') \<Rightarrow> rep_changed rep" by code_simp
  then obtain rep st' where
    first: "ImportExistingForRoots sample_import_env ''/w'' ''/w'' sample_store = Inr (rep, st')" "rep_changed rep"
    by (auto split: sum.splits)
  have "ImportExistingForRoots sample_import_env ''/w'' ''/w'' st' =
      Inr (\<lparr>rep_root = root_or_dot ''/w'', rep_records = [], rep_changed = False\<rparr>, st')"
  proof (rule import_twice_is_once [OF first(1)])
    show "load_settings (ie_memory sample_import_env) ''/w'' = Inr default_settings" by code_simp
    show "codec_ok sample_import_env"
      by (simp add: codec_ok_def sample_import_env_def dec_records_enc length_records)
    have "import_source_paths sample_import_env ''/w'' = Inr [''/w/.claude/memory/a.md'']" by code_simp
    moreover have "path_clean ''/w/.claude/memory/a.md'' = ''/w/.claude/memory/a.md''" by code_simp
    moreover have paths: "primary_path ''/w'' default_settings = ''/w/.coding-ethos/memories/MEMORY.md''"
      "index_path ''/w'' default_settings = ''/w/.coding-ethos/memories/index.yaml''" by code_simp+
    ultimately show "disjoint_sources sample_import_env ''/w'' ''/w'' default_settings"
      by (simp add: disjoint_sources_def)
    show "primary_path ''/w'' default_settings \<noteq> index_path ''/w'' default_settings" by (simp add: paths)
  qed
  moreover have "root_or_dot ''/w'' = ''/w''" by code_simp
  ultimately show ?thesis using first by simp
qed

section \<open>Bounds\<close>

lemma valid_cut_le: "valid_cut key n \<le> n"
  by (induction n) auto

lemma bounded_name_length:
  fixes key suf :: string
  assumes "length suf \<le> 33" and "n \<le> 240 - length suf"
    and "pre = rev (dropWhile P (rev (take n key)))"
  shows "length ((if pre = [] then ''project'' else pre) @ suf) \<le> 240"
proof -
  have "length pre \<le> length (rev (take n key))"
    unfolding assms(3) length_rev by (rule order_trans [OF length_dropWhile_le]) simp
  with assms(1,2) show ?thesis by (auto split: if_splits)
qed

text \<open>
  Fact. The directory name Claude keeps a project under has at most 240 bytes, and a key of
  at most 240 bytes is kept as it is.
\<close>

theorem bounded_claude_project_key_length:
  "length (bounded_claude_project_key IE key) \<le> 240 \<and>
   (length key \<le> 240 \<longrightarrow> bounded_claude_project_key IE key = key)"
proof (cases "length key \<le> 240")
  case False
  have "length (''-'' @ take 32 (ie_sha256 IE key)) \<le> 33" by simp
  from bounded_name_length [OF this valid_cut_le refl] False show ?thesis
    unfolding bounded_claude_project_key_def Let_def by (simp only: if_False not_True_eq_False simp_thms)
qed (simp add: bounded_claude_project_key_def)

text \<open>
  Fact. The lock is tried at most 25 times, and it is taken at the first attempt that
  finds no lock file, if no earlier attempt failed for another reason.
\<close>

theorem lock_taken_when_free:
  assumes "n < 25" and "ie_lock IE n = LockCreated" and "\<And>i. i < n \<Longrightarrow> ie_lock IE i = LockExists"
  shows "lock_from IE path 0 25 = Inr n"
proof -
  have "lock_from IE path a (Suc (n - a) + r) = Inr n" if "a \<le> n" for a r
    using that
  proof (induction "n - a" arbitrary: a)
    case 0
    then show ?case using assms(2) by simp
  next
    case (Suc k)
    then have "a < n" "n - a = Suc (n - (a + 1))" "k = n - (a + 1)" by simp_all
    with Suc.hyps(1) [of "a + 1"] assms(3) [of a] show ?case by simp
  qed
  from this [of 0 "24 - n"] assms(1) show ?thesis by simp
qed

end
