(* ===== verification/MemoryRace.thy ===== *)
theory MemoryRace
  imports MemoryImportProofs
begin

text \<open>
  The central memory shared by processes (\<open>go/internal/memories/memory.go\<close>): imports, which hold
  the lock file while they work (\<open>withMemoryLock\<close>, \<open>importExistingLocked\<close>), and calls of \<open>Ensure\<close>,
  which the memory route makes without the lock; the memory is enabled. Every access to a file is one
  step, also \<open>os.WriteFile\<close>; the steps of the processes interleave in any order. Every access may
  fail, the removal of the lock without anybody noticing, and a process may die between any two
  steps. The index is kept decoded, a missing one is empty. What an import adds for a text of the
  central file is the argument \<open>work\<close>.
\<close>

section \<open>States and steps\<close>

text \<open>
  The phases of \<open>ensureWithSettings\<close> tell whether an import runs it, with the lock, or the memory
  route, without it.
\<close>

datatype phase =
    Waiting nat
  | EnsureStat bool
  | EnsureCreate bool
  | EnsureIndexRead bool
  | EnsureIndexWrite bool "import_record list"
  | Holding
  | PrimarySnapshot string
  | IndexPending "import_record list" string
  | IndexSnapshot "import_record list" string "import_record list"
  | Releasing "(import_record list \<times> string) option"
  | Imported "import_record list" string
  | LockTimeout
  | Failed
  | Ensured
  | Crashed

record race_state =
  rs_lock :: bool
  rs_primary :: "string option"
  rs_index :: "import_record list"
  rs_phase :: "nat \<Rightarrow> phase"

abbreviation go_to :: "nat \<Rightarrow> phase \<Rightarrow> race_state \<Rightarrow> race_state" where
  "go_to p ph s \<equiv> s\<lparr>rs_phase := (rs_phase s)(p := ph)\<rparr>"

definition final_phase :: "phase \<Rightarrow> bool" where
  "final_phase ph \<longleftrightarrow>
     (case ph of
        Imported _ _ \<Rightarrow> True | LockTimeout \<Rightarrow> True | Failed \<Rightarrow> True | Ensured \<Rightarrow> True | Crashed \<Rightarrow> True
      | _ \<Rightarrow> False)"

definition memory_skeleton :: string where
  "memory_skeleton = ''# Memory'' @ [CHR 0x0A, CHR 0x0A]"

text \<open>Where \<open>ensureWithSettings\<close> returns to, and where an error does: to the deferred removal of the lock.\<close>

definition after_ensure :: "bool \<Rightarrow> phase" where
  "after_ensure locked = (if locked then Holding else Ensured)"

definition after_error :: "bool \<Rightarrow> phase" where
  "after_error locked = (if locked then Releasing None else Failed)"

fun error_exit :: "phase \<Rightarrow> phase option" where
  "error_exit (Waiting _) = Some Failed"
| "error_exit (EnsureStat k) = Some (after_error k)"
| "error_exit (EnsureCreate k) = Some (after_error k)"
| "error_exit (EnsureIndexRead k) = Some (after_error k)"
| "error_exit (EnsureIndexWrite k _) = Some (after_error k)"
| "error_exit Holding = Some (Releasing None)"
| "error_exit (PrimarySnapshot _) = Some (Releasing None)"
| "error_exit (IndexPending _ _) = Some (Releasing None)"
| "error_exit (IndexSnapshot _ _ _) = Some (Releasing None)"
| "error_exit _ = None"

definition import_result :: "(import_record list \<times> string) option \<Rightarrow> phase" where
  "import_result r = (case r of None \<Rightarrow> Failed | Some (records, blocks) \<Rightarrow> Imported records blocks)"

inductive race_step ::
  "(nat \<Rightarrow> string \<Rightarrow> import_record list \<times> string) \<Rightarrow> nat \<Rightarrow> race_state \<Rightarrow> race_state \<Rightarrow> bool"
  for work where
  lock_busy: "rs_phase s p = Waiting n \<Longrightarrow> n < 25 \<Longrightarrow> rs_lock s \<Longrightarrow>
    race_step work p s (go_to p (Waiting (Suc n)) s)"
| lock_timeout: "rs_phase s p = Waiting n \<Longrightarrow> 25 \<le> n \<Longrightarrow> race_step work p s (go_to p LockTimeout s)"
| lock_taken: "rs_phase s p = Waiting n \<Longrightarrow> n < 25 \<Longrightarrow> \<not> rs_lock s \<Longrightarrow>
    race_step work p s (go_to p (EnsureStat True) (s\<lparr>rs_lock := True\<rparr>))"
| primary_found: "rs_phase s p = EnsureStat k \<Longrightarrow> rs_primary s \<noteq> None \<Longrightarrow>
    race_step work p s (go_to p (EnsureIndexRead k) s)"
| primary_missing: "rs_phase s p = EnsureStat k \<Longrightarrow> rs_primary s = None \<Longrightarrow>
    race_step work p s (go_to p (EnsureCreate k) s)"
| skeleton_written: "rs_phase s p = EnsureCreate k \<Longrightarrow>
    race_step work p s (go_to p (EnsureIndexRead k) (s\<lparr>rs_primary := Some memory_skeleton\<rparr>))"
| skeleton_cut: "rs_phase s p = EnsureCreate k \<Longrightarrow>
    race_step work p s (go_to p (after_error k) (s\<lparr>rs_primary := Some (take n memory_skeleton)\<rparr>))"
| ensure_index_read: "rs_phase s p = EnsureIndexRead k \<Longrightarrow>
    race_step work p s (go_to p (EnsureIndexWrite k (rs_index s)) s)"
| ensure_index_written: "rs_phase s p = EnsureIndexWrite k ix \<Longrightarrow>
    race_step work p s (go_to p (after_ensure k) (s\<lparr>rs_index := merge_import_records ix []\<rparr>))"
| primary_read: "rs_phase s p = Holding \<Longrightarrow> rs_primary s = Some t \<Longrightarrow>
    race_step work p s (go_to p (PrimarySnapshot t) s)"
| primary_write: "rs_phase s p = PrimarySnapshot existing \<Longrightarrow> work p existing = (records, blocks) \<Longrightarrow>
    race_step work p s
      (go_to p (IndexPending records blocks)
        (if blocks = [] then s else s\<lparr>rs_primary := Some (existing @ blocks)\<rparr>))"
| index_read: "rs_phase s p = IndexPending records blocks \<Longrightarrow>
    race_step work p s (go_to p (IndexSnapshot records blocks (rs_index s)) s)"
| index_write: "rs_phase s p = IndexSnapshot records blocks ix \<Longrightarrow>
    race_step work p s
      (go_to p (Releasing (Some (records, blocks))) (s\<lparr>rs_index := merge_import_records ix records\<rparr>))"
| lock_removed: "rs_phase s p = Releasing r \<Longrightarrow>
    race_step work p s (go_to p (import_result r) (s\<lparr>rs_lock := False\<rparr>))"
| lock_kept: "rs_phase s p = Releasing r \<Longrightarrow> race_step work p s (go_to p (import_result r) s)"
| access_fails: "error_exit (rs_phase s p) = Some ph \<Longrightarrow> race_step work p s (go_to p ph s)"
| crash: "\<not> final_phase (rs_phase s p) \<Longrightarrow> race_step work p s (go_to p Crashed s)"

lemma race_step_others: "race_step work p s s' \<Longrightarrow> rs_phase s' = (rs_phase s)(p := rs_phase s' p)"
  by (erule race_step.cases) simp_all

definition some_step ::
  "(nat \<Rightarrow> string \<Rightarrow> import_record list \<times> string) \<Rightarrow> race_state \<Rightarrow> race_state \<Rightarrow> bool" where
  "some_step work s s' \<longleftrightarrow> (\<exists>p. race_step work p s s')"

text \<open>A step of a process that does not die.\<close>

definition live_step ::
  "(nat \<Rightarrow> string \<Rightarrow> import_record list \<times> string) \<Rightarrow> race_state \<Rightarrow> race_state \<Rightarrow> bool" where
  "live_step work s s' \<longleftrightarrow> (\<exists>p. race_step work p s s' \<and> rs_phase s' p \<noteq> Crashed)"

section \<open>No import loses what another one wrote\<close>

text \<open>The phases in which a process relies on the lock.\<close>

fun critical :: "phase \<Rightarrow> bool" where
  "critical (EnsureStat k) = k"
| "critical (EnsureCreate k) = k"
| "critical (EnsureIndexRead k) = k"
| "critical (EnsureIndexWrite k _) = k"
| "critical Holding = True"
| "critical (PrimarySnapshot _) = True"
| "critical (IndexPending _ _) = True"
| "critical (IndexSnapshot _ _ _) = True"
| "critical (Releasing _) = True"
| "critical _ = False"

definition holds_blocks :: "race_state \<Rightarrow> string \<Rightarrow> bool" where
  "holds_blocks s blocks \<longleftrightarrow> (\<exists>t. rs_primary s = Some t \<and> str_contains t blocks)"

definition holds_records :: "race_state \<Rightarrow> import_record list \<Rightarrow> bool" where
  "holds_records s records \<longleftrightarrow> ir_id ` set (real_records records) \<subseteq> ir_id ` set (rs_index s)"

text \<open>What a process still relies on. No process runs \<open>ensureWithSettings\<close> without the lock.\<close>

fun phase_ok :: "race_state \<Rightarrow> phase \<Rightarrow> bool" where
  "phase_ok s (EnsureStat k) = k"
| "phase_ok s (EnsureCreate k) = (k \<and> rs_primary s = None)"
| "phase_ok s (EnsureIndexRead k) = k"
| "phase_ok s (EnsureIndexWrite k ix) = (k \<and> ix = rs_index s)"
| "phase_ok s (PrimarySnapshot existing) = (rs_primary s = Some existing)"
| "phase_ok s (IndexPending _ blocks) = holds_blocks s blocks"
| "phase_ok s (IndexSnapshot _ blocks ix) = (ix = rs_index s \<and> holds_blocks s blocks)"
| "phase_ok s (Releasing (Some (records, blocks))) = (holds_blocks s blocks \<and> holds_records s records)"
| "phase_ok s (Imported records blocks) = (holds_blocks s blocks \<and> holds_records s records)"
| "phase_ok s _ = True"

definition race_inv :: "race_state \<Rightarrow> bool" where
  "race_inv s \<longleftrightarrow>
     (\<forall>p q. critical (rs_phase s p) \<longrightarrow> critical (rs_phase s q) \<longrightarrow> p = q) \<and>
     (\<forall>p. critical (rs_phase s p) \<longrightarrow> rs_lock s) \<and>
     (\<forall>p. phase_ok s (rs_phase s p)) \<and>
     real_records (rs_index s) = rs_index s \<and> distinct (map ir_id (rs_index s))"

lemma dom_index_of_records: "dom (index_of_records rs) = ir_id ` set rs"
  by (auto simp: index_of_records_def dom_map_of_conv_image_fst image_image)

lemma merged_index:
  assumes "real_records ix = ix" and "distinct (map ir_id ix)"
  shows "real_records (merge_import_records ix rs) = merge_import_records ix rs"
    "distinct (map ir_id (merge_import_records ix rs))"
    "ir_id ` set (merge_import_records ix rs) = ir_id ` set ix \<union> ir_id ` set (real_records rs)"
proof -
  show "real_records (merge_import_records ix rs) = merge_import_records ix rs"
    by (rule merge_import_records_real)
  from assms have spec: "distinct (map ir_id (merge_import_records ix rs)) \<and>
      index_of_records (merge_import_records ix rs) = index_of_records ix ++ index_of_records (real_records rs)"
    using merge_import_records_spec [of ix rs] by simp
  then show "distinct (map ir_id (merge_import_records ix rs))" by simp
  from spec have "dom (index_of_records (merge_import_records ix rs)) =
      dom (index_of_records ix) \<union> dom (index_of_records (real_records rs))" by auto
  then show "ir_id ` set (merge_import_records ix rs) = ir_id ` set ix \<union> ir_id ` set (real_records rs)"
    by (simp add: dom_index_of_records)
qed

lemma merged_nothing: "real_records ix = ix \<Longrightarrow> merge_import_records ix [] = ix"
  by (simp add: merge_nothing)

lemma str_contains_refl: "str_contains (a @ b) b"
  unfolding str_contains_iff by (intro exI [of _ a] exI [of _ "[]"]) simp

lemma str_contains_Nil_right: "str_contains s []"
  unfolding str_contains_iff by (intro exI [of _ "[]"] exI [of _ s]) simp

text \<open>What another process sees of a step: files grow, and only a critical process writes them.\<close>

definition files_grow :: "race_state \<Rightarrow> race_state \<Rightarrow> bool" where
  "files_grow s s' \<longleftrightarrow> (\<forall>t. rs_primary s = Some t \<longrightarrow> (\<exists>b. rs_primary s' = Some (t @ b))) \<and>
     ir_id ` set (rs_index s) \<subseteq> ir_id ` set (rs_index s')"

lemma held_grows:
  assumes "files_grow s s'"
  shows "holds_blocks s blocks \<Longrightarrow> holds_blocks s' blocks" "holds_records s records \<Longrightarrow> holds_records s' records"
  using assms unfolding files_grow_def holds_blocks_def holds_records_def
  by (metis str_contains_append, blast)

lemma phase_ok_grows:
  assumes "phase_ok s ph" and "files_grow s s'"
    and "\<not> critical ph \<or> rs_primary s' = rs_primary s \<and> rs_index s' = rs_index s"
  shows "phase_ok s' ph"
proof (cases "critical ph")
  case True
  with assms(1,3) show ?thesis
    by (cases "(s, ph)" rule: phase_ok.cases) (simp_all add: holds_blocks_def holds_records_def)
next
  case False
  with assms(1) show ?thesis
    by (cases "(s, ph)" rule: phase_ok.cases) (simp_all add: held_grows [OF assms(2)])
qed

text \<open>
  A step of one process keeps the invariant when its new phase is right, the index stays well
  formed, and the lock and the files change only while no other process is critical.
\<close>

lemma race_inv_update:
  assumes "race_inv s"
    and "rs_phase s' = (rs_phase s)(p := ph)"
    and "critical ph \<Longrightarrow> rs_lock s' \<and> (critical (rs_phase s p) \<or> \<not> rs_lock s)"
    and "critical (rs_phase s p) \<or> \<not> rs_lock s \<or>
      rs_lock s' = rs_lock s \<and> rs_primary s' = rs_primary s \<and> rs_index s' = rs_index s"
    and "phase_ok s' ph" and "files_grow s s'"
    and "real_records (rs_index s') = rs_index s'" and "distinct (map ir_id (rs_index s'))"
  shows "race_inv s'"
proof -
  have one: "critical (rs_phase s q) \<Longrightarrow> critical (rs_phase s r) \<Longrightarrow> q = r"
    and lock: "critical (rs_phase s q) \<Longrightarrow> rs_lock s" and ok: "phase_ok s (rs_phase s q)" for q r
    using assms(1) by (auto simp: race_inv_def)
  have same: "rs_lock s' = rs_lock s \<and> rs_primary s' = rs_primary s \<and> rs_index s' = rs_index s"
    if "q \<noteq> p" "critical (rs_phase s q)" for q
    using assms(4) one [OF that(2), of p] lock [OF that(2)] that(1) by blast
  have "critical (rs_phase s' q) \<Longrightarrow> critical (rs_phase s' r) \<Longrightarrow> q = r" for q r
    using assms(2,3) one lock by (auto split: if_splits)
  moreover have "critical (rs_phase s' q) \<Longrightarrow> rs_lock s'" for q
    using assms(2,3) same lock by (cases "q = p") (auto split: if_splits)
  moreover have "phase_ok s' (rs_phase s' q)" for q
  proof (cases "q = p")
    case False
    then show ?thesis using phase_ok_grows [OF ok [of q] assms(6)] same [OF False] assms(2) by auto
  qed (simp add: assms(2,5))
  ultimately show ?thesis unfolding race_inv_def using assms(7,8) by blast
qed

lemma race_invD:
  assumes "race_inv s"
  shows "phase_ok s (rs_phase s p)" "critical (rs_phase s p) \<Longrightarrow> rs_lock s"
    "real_records (rs_index s) = rs_index s" "distinct (map ir_id (rs_index s))"
  using assms by (auto simp: race_inv_def)

text \<open>A step that writes no file, and one that writes with the lock held.\<close>

lemma race_inv_quiet:
  assumes "race_inv s" and "phase_ok s ph"
    and "critical ph \<Longrightarrow> l \<and> (critical (rs_phase s p) \<or> \<not> rs_lock s)"
    and "critical (rs_phase s p) \<or> \<not> rs_lock s \<or> l"
  shows "race_inv (go_to p ph (s\<lparr>rs_lock := l\<rparr>))"
proof (rule race_inv_update [OF assms(1), where p = p and ph = ph])
  show "phase_ok (go_to p ph (s\<lparr>rs_lock := l\<rparr>)) ph"
    by (rule phase_ok_grows [OF assms(2)]) (simp_all add: files_grow_def)
qed (use assms race_invD [OF assms(1)] in \<open>auto simp: files_grow_def\<close>)

lemma race_inv_stays:
  assumes "race_inv s" and "phase_ok s ph" and "critical ph \<Longrightarrow> critical (rs_phase s p)"
  shows "race_inv (go_to p ph s)"
  using race_inv_quiet [OF assms(1,2), where p = p and l = "rs_lock s"] assms(3) race_invD(2) [OF assms(1), of p] by auto

lemma race_inv_write:
  assumes "race_inv s" and "critical (rs_phase s p)" and "phase_ok s' ph" and "files_grow s s'"
    and "rs_phase s' = (rs_phase s)(p := ph)" and "rs_lock s' = rs_lock s"
    and "real_records (rs_index s') = rs_index s'" and "distinct (map ir_id (rs_index s'))"
  shows "race_inv s'"
  by (rule race_inv_update [OF assms(1,5)]) (use assms race_invD(2) [OF assms(1,2)] in auto)

lemma race_inv_step:
  assumes "race_step work p s s'" and "race_inv s"
  shows "race_inv s'"
  using assms
proof (induction rule: race_step.induct)
  case (lock_busy s p n)
  then show ?case by (intro race_inv_stays) auto
next
  case (lock_timeout s p n)
  then show ?case by (intro race_inv_stays) auto
next
  case (lock_taken s p n)
  then show ?case by (intro race_inv_quiet) auto
next
  case (primary_found s p k)
  with race_invD(1) [of s p] show ?case by (intro race_inv_stays) auto
next
  case (primary_missing s p k)
  with race_invD(1) [of s p] show ?case by (intro race_inv_stays) auto
next
  case (skeleton_written s p k)
  note inv = race_invD [OF skeleton_written.prems]
  have "k" "rs_primary s = None" using inv(1) [of p] skeleton_written.hyps by auto
  then show ?case using skeleton_written.hyps inv(3,4)
    by (intro race_inv_write [OF skeleton_written.prems]) (auto simp: files_grow_def)
next
  case (skeleton_cut s p k n)
  note inv = race_invD [OF skeleton_cut.prems]
  have "k" "rs_primary s = None" using inv(1) [of p] skeleton_cut.hyps by auto
  then show ?case using skeleton_cut.hyps inv(3,4)
    by (intro race_inv_write [OF skeleton_cut.prems]) (auto simp: files_grow_def after_error_def)
next
  case (ensure_index_read s p k)
  with race_invD(1) [of s p] show ?case by (intro race_inv_stays) auto
next
  case (ensure_index_written s p k ix)
  note inv = race_invD [OF ensure_index_written.prems]
  have "k" "merge_import_records ix [] = rs_index s"
    using inv(1) [of p] ensure_index_written.hyps merged_nothing [OF inv(3)] by auto
  then show ?case using ensure_index_written.hyps inv(3,4)
    by (intro race_inv_write [OF ensure_index_written.prems]) (auto simp: files_grow_def after_ensure_def)
next
  case (primary_read s p t)
  then show ?case by (intro race_inv_stays) auto
next
  case (primary_write s p existing records blocks)
  note inv = race_invD [OF primary_write.prems]
  have "rs_primary s = Some existing" using inv(1) [of p] primary_write.hyps by simp
  then show ?case using primary_write.hyps inv(3,4)
    by (intro race_inv_write [OF primary_write.prems, where p = p and ph = "IndexPending records blocks"])
      (auto simp: files_grow_def holds_blocks_def str_contains_refl str_contains_Nil_right)
next
  case (index_read s p records blocks)
  with race_invD(1) [of s p] show ?case by (intro race_inv_stays) auto
next
  case (index_write s p records blocks ix)
  note inv = race_invD [OF index_write.prems]
  have ix: "ix = rs_index s" "holds_blocks s blocks" using inv(1) [of p] index_write.hyps by simp_all
  note m = merged_index [OF inv(3,4), of records]
  show ?case using index_write.hyps ix m
    by (intro race_inv_write [OF index_write.prems])
      (auto simp: files_grow_def holds_blocks_def holds_records_def)
next
  case (lock_removed s p r)
  with race_invD(1) [of s p] show ?case
    by (intro race_inv_quiet) (cases r; auto simp: import_result_def)+
next
  case (lock_kept s p r)
  with race_invD(1) [of s p] show ?case
    by (intro race_inv_stays) (cases r; auto simp: import_result_def)+
next
  case (access_fails s p ph)
  with race_invD(1) [of s p] show ?case
    by (intro race_inv_stays) (cases "rs_phase s p"; auto simp: after_error_def split: if_splits)+
next
  case (crash s p)
  then show ?case by (intro race_inv_stays) auto
qed

text \<open>The start: nobody has begun, the lock is free, the index is well formed.\<close>

definition import_start :: "race_state \<Rightarrow> bool" where
  "import_start s \<longleftrightarrow> (\<forall>p. rs_phase s p = Waiting 0) \<and> \<not> rs_lock s \<and>
     real_records (rs_index s) = rs_index s \<and> distinct (map ir_id (rs_index s))"

lemma import_start_inv: "import_start s \<Longrightarrow> race_inv s"
  by (simp add: import_start_def race_inv_def)

lemma race_inv_reachable: "(some_step work)\<^sup>*\<^sup>* s s' \<Longrightarrow> race_inv s \<Longrightarrow> race_inv s'"
  by (induction rule: rtranclp_induct) (auto simp: some_step_def intro: race_inv_step)

text \<open>
  Property C6. Imports do not lose each other's work. Any number of processes import, and nothing
  else writes the memory: no call of \<open>Ensure\<close> outside of an import, for which it is false (below). In
  every interleaving, with failing accesses and processes that die, at most one process works on the
  files at a time, the index never has two records of one id, and the blocks of an import that has
  ended with success are in the central file, the ids of its records in the index, from then on.
\<close>

theorem imports_never_lost:
  assumes "import_start s0" and "(some_step work)\<^sup>*\<^sup>* s0 s"
  shows "(critical (rs_phase s p) \<longrightarrow> critical (rs_phase s q) \<longrightarrow> p = q) \<and>
    distinct (map ir_id (rs_index s)) \<and>
    (rs_phase s p = Imported records blocks \<longrightarrow>
       (\<exists>t. rs_primary s = Some t \<and> str_contains t blocks) \<and>
       ir_id ` set (real_records records) \<subseteq> ir_id ` set (rs_index s))"
proof -
  have inv: "race_inv s" using race_inv_reachable [OF assms(2) import_start_inv [OF assms(1)]] .
  have "rs_phase s p = Imported records blocks \<Longrightarrow> holds_blocks s blocks \<and> holds_records s records"
    using race_invD(1) [OF inv, of p] by simp
  with inv show ?thesis by (simp add: race_inv_def holds_blocks_def holds_records_def)
qed

section \<open>One import running alone\<close>

definition ensured_primary :: "race_state \<Rightarrow> string" where
  "ensured_primary s = (case rs_primary s of None \<Rightarrow> memory_skeleton | Some t \<Rightarrow> t)"

definition import_alone ::
  "(nat \<Rightarrow> string \<Rightarrow> import_record list \<times> string) \<Rightarrow> nat \<Rightarrow> race_state \<Rightarrow> race_state" where
  "import_alone work p s =
     (case work p (ensured_primary s) of
        (records, blocks) \<Rightarrow>
          s\<lparr>rs_lock := False, rs_primary := Some (ensured_primary s @ blocks),
            rs_index := merge_import_records (merge_import_records (rs_index s) []) records,
            rs_phase := (rs_phase s)(p := Imported records blocks)\<rparr>)"

lemma step_then: "race_step work p s s' \<Longrightarrow> (some_step work)\<^sup>*\<^sup>* s' s'' \<Longrightarrow> (some_step work)\<^sup>*\<^sup>* s s''"
  unfolding some_step_def by (rule converse_rtranclp_into_rtranclp) blast

lemma ensure_primary_reachable:
  assumes "rs_phase s p = EnsureStat k"
  shows "(some_step work)\<^sup>*\<^sup>* s (go_to p (EnsureIndexRead k) (s\<lparr>rs_primary := Some (ensured_primary s)\<rparr>))"
proof (cases "rs_primary s")
  case None
  let ?s1 = "go_to p (EnsureCreate k) s"
  have "race_step work p s ?s1" by (rule primary_missing [OF assms None])
  moreover have "race_step work p ?s1 (go_to p (EnsureIndexRead k) (s\<lparr>rs_primary := Some (ensured_primary s)\<rparr>))"
    using skeleton_written [of ?s1 p k work] None by (simp add: ensured_primary_def)
  ultimately show ?thesis by (meson step_then rtranclp.rtrancl_refl)
next
  case (Some t)
  then have "s\<lparr>rs_primary := Some (ensured_primary s)\<rparr> = s" by (cases s) (simp add: ensured_primary_def)
  moreover have "race_step work p s (go_to p (EnsureIndexRead k) s)" by (rule primary_found [OF assms]) (simp add: Some)
  ultimately show ?thesis by (metis step_then rtranclp.rtrancl_refl)
qed

lemma import_alone_reachable:
  assumes "rs_phase s p = Waiting n" and "n < 25" and "\<not> rs_lock s"
  shows "(some_step work)\<^sup>*\<^sup>* s (import_alone work p s)"
proof -
  obtain records blocks where w: "work p (ensured_primary s) = (records, blocks)" by force
  let ?ix = "merge_import_records (rs_index s) []" and ?t = "ensured_primary s"
  let ?s1 = "go_to p (EnsureStat True) (s\<lparr>rs_lock := True\<rparr>)"
  let ?s2 = "go_to p (EnsureIndexRead True) (?s1\<lparr>rs_primary := Some ?t\<rparr>)"
  let ?s3 = "go_to p (EnsureIndexWrite True (rs_index s)) ?s2"
  let ?s4 = "go_to p Holding (?s3\<lparr>rs_index := ?ix\<rparr>)"
  let ?s5 = "go_to p (PrimarySnapshot ?t) ?s4"
  let ?s6 = "go_to p (IndexPending records blocks) (?s5\<lparr>rs_primary := Some (?t @ blocks)\<rparr>)"
  let ?s7 = "go_to p (IndexSnapshot records blocks ?ix) ?s6"
  let ?s8 = "go_to p (Releasing (Some (records, blocks))) (?s7\<lparr>rs_index := merge_import_records ?ix records\<rparr>)"
  have "race_step work p s ?s1" by (rule lock_taken [OF assms])
  moreover have "(some_step work)\<^sup>*\<^sup>* ?s1 ?s2"
    using ensure_primary_reachable [of ?s1 p True work] by (simp add: ensured_primary_def)
  moreover have "race_step work p ?s2 ?s3" using ensure_index_read [of ?s2 p True work] by simp
  moreover have "race_step work p ?s3 ?s4"
    using ensure_index_written [of ?s3 p True "rs_index s" work] by (simp add: after_ensure_def)
  moreover have "race_step work p ?s4 ?s5" using primary_read [of ?s4 p ?t work] by simp
  moreover have "race_step work p ?s5 ?s6"
    using primary_write [of ?s5 p ?t work records blocks] w by (cases s; cases "blocks = []") simp_all
  moreover have "race_step work p ?s6 ?s7" using index_read [of ?s6 p records blocks work] by simp
  moreover have "race_step work p ?s7 ?s8" using index_write [of ?s7 p records blocks ?ix work] by simp
  moreover have "race_step work p ?s8 (import_alone work p s)"
    using lock_removed [of ?s8 p "Some (records, blocks)" work] w
    by (cases s) (simp add: import_alone_def import_result_def)
  ultimately show ?thesis by (meson step_then rtranclp_trans rtranclp.rtrancl_refl)
qed

text \<open>A process that adds one record and one block, and one that only makes sure the index exists.\<close>

definition sample_work :: "nat \<Rightarrow> string \<Rightarrow> import_record list \<times> string" where
  "sample_work p existing = ([sample_record ''a'' ''1''], ''block'')"

definition sample_race :: "(nat \<Rightarrow> phase) \<Rightarrow> race_state" where
  "sample_race phases = \<lparr>rs_lock = False, rs_primary = None, rs_index = [], rs_phase = phases\<rparr>"

theorem imports_never_lost_witness:
  "(\<exists>t. rs_primary (import_alone sample_work 0 (sample_race (\<lambda>_. Waiting 0))) = Some t \<and> str_contains t ''block'') \<and>
   ir_id ` set (real_records [sample_record ''a'' ''1'']) \<subseteq>
     ir_id ` set (rs_index (import_alone sample_work 0 (sample_race (\<lambda>_. Waiting 0))))"
proof -
  let ?s0 = "sample_race (\<lambda>_. Waiting 0)"
  have "import_start ?s0" by (simp add: import_start_def sample_race_def real_records_def)
  moreover have "(some_step sample_work)\<^sup>*\<^sup>* ?s0 (import_alone sample_work 0 ?s0)"
    by (rule import_alone_reachable [where n = 0]) (simp_all add: sample_race_def)
  moreover have "rs_phase (import_alone sample_work 0 ?s0) 0 = Imported [sample_record ''a'' ''1''] ''block''"
    by (simp add: import_alone_def sample_work_def)
  ultimately show ?thesis using imports_never_lost by metis
qed

section \<open>Where the lock does not help\<close>

text \<open>
  Fact. \<open>Ensure\<close> writes the index without the lock: when it has read the index before an
  import and writes it afterwards, the import has ended with success and its records are gone.
\<close>

theorem ensure_loses_import:
  assumes "rs_phase s p = Waiting n" and "n < 25" and "\<not> rs_lock s" and "p \<noteq> q"
    and "rs_phase s q = EnsureIndexWrite False ix" and "work p (ensured_primary s) = (records, blocks)"
  shows "\<exists>s'. (some_step work)\<^sup>*\<^sup>* s s' \<and> rs_phase s' p = Imported records blocks \<and>
    rs_phase s' q = Ensured \<and> rs_index s' = real_records ix"
proof (intro exI conjI)
  let ?s1 = "import_alone work p s"
  let ?s2 = "go_to q Ensured (?s1\<lparr>rs_index := merge_import_records ix []\<rparr>)"
  have phase: "rs_phase ?s1 q = EnsureIndexWrite False ix" using assms(4,5,6) by (simp add: import_alone_def)
  have "race_step work q ?s1 ?s2" using ensure_index_written [OF phase] by (simp add: after_ensure_def)
  then have "some_step work ?s1 ?s2" by (auto simp: some_step_def)
  with import_alone_reachable [OF assms(1-3)] show "(some_step work)\<^sup>*\<^sup>* s ?s2"
    by (rule rtranclp.rtrancl_into_rtrancl)
  show "rs_phase ?s2 p = Imported records blocks" using assms(4,6) by (simp add: import_alone_def)
qed (simp_all add: merge_nothing)

theorem ensure_loses_import_witness:
  "\<exists>s'. (some_step sample_work)\<^sup>*\<^sup>* (sample_race ((\<lambda>_. Waiting 0)(1 := EnsureIndexWrite False []))) s' \<and>
    rs_phase s' 0 = Imported [sample_record ''a'' ''1''] ''block'' \<and> rs_phase s' 1 = Ensured \<and>
    rs_index s' = real_records []"
  by (rule ensure_loses_import [where n = 0]) (simp_all add: sample_race_def sample_work_def)

text \<open>
  Fact. It also creates the central file without the lock: when it has found no file before
  an import that creates it, it overwrites the file with the skeleton, and the imported blocks are
  gone.
\<close>

theorem ensure_erases_memory:
  assumes "rs_phase s p = Waiting n" and "n < 25" and "\<not> rs_lock s" and "p \<noteq> q"
    and "rs_phase s q = EnsureCreate False" and "work p (ensured_primary s) = (records, blocks)"
  shows "\<exists>s'. (some_step work)\<^sup>*\<^sup>* s s' \<and> rs_phase s' p = Imported records blocks \<and>
    rs_primary s' = Some memory_skeleton"
proof (intro exI conjI)
  let ?s1 = "import_alone work p s"
  let ?s2 = "go_to q (EnsureIndexRead False) (?s1\<lparr>rs_primary := Some memory_skeleton\<rparr>)"
  have "rs_phase ?s1 q = EnsureCreate False" using assms(4,5,6) by (simp add: import_alone_def)
  then have "some_step work ?s1 ?s2" unfolding some_step_def by (blast intro: skeleton_written)
  with import_alone_reachable [OF assms(1-3)] show "(some_step work)\<^sup>*\<^sup>* s ?s2"
    by (rule rtranclp.rtrancl_into_rtrancl)
  show "rs_phase ?s2 p = Imported records blocks" using assms(4,6) by (simp add: import_alone_def)
qed simp

theorem ensure_erases_memory_witness:
  "\<exists>s'. (some_step sample_work)\<^sup>*\<^sup>* (sample_race ((\<lambda>_. Waiting 0)(1 := EnsureCreate False))) s' \<and>
    rs_phase s' 0 = Imported [sample_record ''a'' ''1''] ''block'' \<and> rs_primary s' = Some memory_skeleton"
  by (rule ensure_erases_memory [where n = 0]) (simp_all add: sample_race_def sample_work_def)

text \<open>
  Fact. The lock file of a process that died while it worked is never removed: from then on
  no import succeeds.
\<close>

lemma stuck_phase:
  assumes "race_step work p s s'" and "rs_lock s" and "\<not> critical (rs_phase s p)"
  shows "rs_lock s' \<and> \<not> critical (rs_phase s' p) \<and> (\<forall>r b. rs_phase s' p \<noteq> Imported r b)"
  using assms(1)
proof (cases rule: race_step.cases)
  case (access_fails ph)
  with assms(2,3) show ?thesis by (cases "rs_phase s p") (auto simp: after_error_def)
qed (use assms(2,3) in \<open>auto simp: after_ensure_def after_error_def\<close>)

lemma stuck_step:
  assumes "race_step work p s s'" and "rs_lock s" and "\<And>q. \<not> critical (rs_phase s q)"
  shows "rs_lock s' \<and> (\<forall>q. \<not> critical (rs_phase s' q)) \<and>
    (\<forall>q r b. rs_phase s' q = Imported r b \<longrightarrow> rs_phase s q = Imported r b)"
proof -
  have "rs_phase s' q = rs_phase s q" if "q \<noteq> p" for q using race_step_others [OF assms(1)] that by (metis fun_upd_other)
  then show ?thesis using stuck_phase [OF assms(1,2) assms(3)] assms(3) by metis
qed

theorem dead_import_blocks_all:
  assumes "race_inv s" and "critical (rs_phase s p)" and "(some_step work)\<^sup>*\<^sup>* (go_to p Crashed s) s'"
  shows "rs_lock s' \<and> (\<forall>q. \<not> critical (rs_phase s' q)) \<and>
    (\<forall>q r b. rs_phase s' q = Imported r b \<longrightarrow> rs_phase (go_to p Crashed s) q = Imported r b)"
  using assms(3)
proof (induction rule: rtranclp_induct)
  case base
  from assms(1,2) show ?case by (auto simp: race_inv_def)
next
  case (step s1 s2)
  then obtain q where q: "race_step work q s1 s2" by (auto simp: some_step_def)
  from step.IH stuck_step [OF q] show ?case by blast
qed


section \<open>Every run ends\<close>

fun phase_rank :: "phase \<Rightarrow> nat" where
  "phase_rank (Waiting n) = 12 + (26 - n)"
| "phase_rank (EnsureStat _) = 11"
| "phase_rank (EnsureCreate _) = 10"
| "phase_rank (EnsureIndexRead _) = 9"
| "phase_rank (EnsureIndexWrite _ _) = 8"
| "phase_rank Holding = 7"
| "phase_rank (PrimarySnapshot _) = 6"
| "phase_rank (IndexPending _ _) = 5"
| "phase_rank (IndexSnapshot _ _ _) = 4"
| "phase_rank (Releasing _) = 1"
| "phase_rank _ = 0"

definition active :: "race_state \<Rightarrow> nat set" where
  "active s = {p. \<not> final_phase (rs_phase s p)}"

definition run_rank :: "race_state \<Rightarrow> nat" where
  "run_rank s = (\<Sum>p \<in> active s. phase_rank (rs_phase s p))"

lemma phase_rank_final: "phase_rank ph = 0 \<longleftrightarrow> final_phase ph"
  by (cases ph) (simp_all add: final_phase_def)

lemma race_step_local:
  assumes "race_step work p s s'"
  shows "rs_phase s' = (rs_phase s)(p := rs_phase s' p) \<and>
    phase_rank (rs_phase s' p) < phase_rank (rs_phase s p)"
  using assms
proof (cases rule: race_step.cases)
  case crash
  then have "0 < phase_rank (rs_phase s p)" using phase_rank_final [of "rs_phase s p"] by simp
  with crash show ?thesis by simp
next
  case (access_fails ph)
  then show ?thesis by (cases "rs_phase s p") (auto simp: after_error_def)
next
  case (lock_removed r)
  then show ?thesis by (cases r; auto simp: import_result_def)+
next
  case (lock_kept r)
  then show ?thesis by (cases r) (auto simp: import_result_def)
qed (auto simp: after_ensure_def after_error_def)

lemma race_step_rank:
  assumes "race_step work p s s'" and "finite (active s)"
  shows "run_rank s' < run_rank s \<and> finite (active s')"
proof -
  obtain ph where ph: "rs_phase s' = (rs_phase s)(p := ph)" "phase_rank ph < phase_rank (rs_phase s p)"
    using race_step_local [OF assms(1)] by metis
  then have p: "p \<in> active s" using phase_rank_final [of "rs_phase s p"] by (auto simp: active_def)
  have sub: "active s' \<subseteq> active s" using ph(1) p by (auto simp: active_def)
  then have fin: "finite (active s')" using assms(2) by (rule finite_subset)
  have "run_rank s' = (\<Sum>q \<in> active s. phase_rank (rs_phase s' q))"
    unfolding run_rank_def
    by (rule sum.mono_neutral_left [OF assms(2) sub]) (auto simp: active_def phase_rank_final)
  also have "\<dots> < run_rank s"
    unfolding run_rank_def
  proof (rule sum_strict_mono_ex1 [OF assms(2)])
    show "\<forall>q \<in> active s. phase_rank (rs_phase s' q) \<le> phase_rank (rs_phase s q)"
      using ph by (auto intro: less_imp_le)
    show "\<exists>q \<in> active s. phase_rank (rs_phase s' q) < phase_rank (rs_phase s q)"
      using ph p by auto
  qed
  finally show ?thesis using fin by simp
qed

text \<open>A process that has not ended can always go on without dying.\<close>

lemma race_progress:
  assumes "\<not> final_phase (rs_phase s p)"
  shows "\<exists>s'. race_step work p s s' \<and> rs_phase s' p \<noteq> Crashed"
proof -
  have go: "race_step work p s (go_to p ph t) \<Longrightarrow> ph \<noteq> Crashed \<Longrightarrow> ?thesis" for ph t by fastforce
  show ?thesis
  proof (cases "error_exit (rs_phase s p)")
    case None
    with assms obtain r where "rs_phase s p = Releasing r" by (cases "rs_phase s p") (auto simp: final_phase_def)
    from go [OF lock_removed [OF this]] show ?thesis by (simp add: import_result_def split: option.split)
  next
    case (Some ph)
    then have "ph \<noteq> Crashed" by (cases "rs_phase s p") (auto simp: after_error_def split: if_splits)
    with go [OF access_fails [OF Some]] show ?thesis by blast
  qed
qed

text \<open>
  Property C7. Every run ends: when finitely many processes have not ended, no run of them goes on
  for ever, and the steps that are not deaths lead to a state in which every process has ended:
  imported, ensured, failed, or given up on the lock after 25 attempts, unless it died before.
\<close>

theorem runs_end:
  assumes "finite (active s)"
  shows "\<not> (\<exists>run. run 0 = s \<and> (\<forall>i. some_step work (run i) (run (Suc i)))) \<and>
    (\<exists>s'. (live_step work)\<^sup>*\<^sup>* s s' \<and> active s' = {})"
proof
  show "\<not> (\<exists>run. run 0 = s \<and> (\<forall>i. some_step work (run i) (run (Suc i))))"
  proof
    assume "\<exists>run. run 0 = s \<and> (\<forall>i. some_step work (run i) (run (Suc i)))"
    then obtain run where run: "run 0 = s" "\<And>i. some_step work (run i) (run (Suc i))" by blast
    have "finite (active (run i)) \<and> run_rank (run i) + i \<le> run_rank s" for i
    proof (induction i)
      case (Suc i)
      with run(2) [of i] race_step_rank [of work _ "run i" "run (Suc i)"] show ?case
        by (fastforce simp: some_step_def)
    qed (simp add: run(1) assms)
    from this [of "Suc (run_rank s)"] show False by simp
  qed
  show "\<exists>s'. (live_step work)\<^sup>*\<^sup>* s s' \<and> active s' = {}"
    using assms
  proof (induction "run_rank s" arbitrary: s rule: less_induct)
    case less
    show ?case
    proof (cases "active s = {}")
      case True
      then show ?thesis by blast
    next
      case False
      then obtain p where "\<not> final_phase (rs_phase s p)" by (auto simp: active_def)
      from race_progress [OF this, of work] obtain s1 where
        s1: "race_step work p s s1" "rs_phase s1 p \<noteq> Crashed" by blast
      with race_step_rank [OF s1(1) less.prems] less.hyps [of s1] obtain s2 where
        "(live_step work)\<^sup>*\<^sup>* s1 s2" "active s2 = {}"
        by blast
      moreover have "live_step work s s1" using s1 by (auto simp: live_step_def)
      ultimately show ?thesis using converse_rtranclp_into_rtranclp [of "live_step work" s s1 s2] by blast
    qed
  qed
qed

theorem runs_end_witness:
  "\<not> (\<exists>run. run 0 = sample_race ((\<lambda>_. Ensured)(0 := Waiting 0, 1 := EnsureStat False)) \<and>
      (\<forall>i. some_step sample_work (run i) (run (Suc i))))"
proof (rule runs_end [THEN conjunct1])
  have "active (sample_race ((\<lambda>_. Ensured)(0 := Waiting 0, 1 := EnsureStat False))) \<subseteq> {0, 1}"
    by (auto simp: active_def sample_race_def final_phase_def split: if_splits)
  then show "finite (active (sample_race ((\<lambda>_. Ensured)(0 := Waiting 0, 1 := EnsureStat False))))"
    by (rule finite_subset) simp
qed

end
