(* ===== verification/StagedAdmin.thy ===== *)
theory StagedAdmin
  imports CommitMessage Shellquote Paths GoLines
begin

text \<open>
  \<open>go/internal/evaluators/git_staged_admin.go\<close>: a commit whose staged files include files only an
  administrator may change is blocked, unless they are what the tool policy generates, what the
  parent of a merge has, or approved. The answers of git, the rendered artifacts of \<open>toolconfigs\<close>
  and the hash come with the environment.
\<close>

section \<open>Which files are administrative\<close>

definition string_option_default :: "any_map \<Rightarrow> string \<Rightarrow> string \<Rightarrow> string" where
  "string_option_default options key default_value =
     (case map_of options key of
        Some (AString v) \<Rightarrow> (if trim_space v = [] then default_value else trim_space v)
      | _ \<Rightarrow> default_value)"

definition default_admin_only_basenames :: "string list" where
  "default_admin_only_basenames =
     [''.pre-commit-config.yaml'', ''pre-commit-config.yaml'', ''.importlinter'', ''importlinter'',
      ''.pylintrc'', ''pylintrc'', ''pyproject.toml'']"

definition default_admin_only_dirs :: "string list" where
  "default_admin_only_dirs = [''.pre-commit'', ''pre-commit'', ''bin'']"

definition admin_file :: "any_map \<Rightarrow> string \<Rightarrow> bool" where
  "admin_file options file \<longleftrightarrow>
     file \<noteq> [] \<and>
     (path_base file \<in> set (string_slice_option options ''basenames'' default_admin_only_basenames) \<or>
      list_ex (\<lambda>dir. has_prefix file (dir @ ''/'') \<or> str_contains file (''/'' @ dir @ ''/''))
        (string_slice_option options ''dirs'' default_admin_only_dirs))"

definition BlockedAdminFiles :: "string list \<Rightarrow> any_map \<Rightarrow> string list" where
  "BlockedAdminFiles files options = filter (admin_file options) files"

section \<open>What git answers\<close>

text \<open>
  \<open>sw_staged\<close> is the output of \<open>git diff --cached --name-only\<close>, \<open>sw_show\<close> the staged content of a
  path, \<open>sw_merge_head\<close> the output of \<open>git rev-parse --verify\<close> on the head that is merged and
  \<open>sw_diff\<close> that of \<open>git diff --cached --name-only parent -- files\<close>; all are asked in a directory and
  \<open>None\<close> (or the left side, with the message) when git fails.
\<close>

record staged_world =
  sw_staged :: "string \<Rightarrow> string + string"
  sw_show :: "string \<Rightarrow> string \<Rightarrow> string option"
  sw_merge_head :: "string \<Rightarrow> string option"
  sw_diff :: "string \<Rightarrow> string \<Rightarrow> string list \<Rightarrow> string option"
  sw_artifacts :: "string \<Rightarrow> string \<Rightarrow> string + (string \<times> string) list"
  sw_sha256_hex :: "string \<Rightarrow> string"
  sw_exists :: "string \<Rightarrow> bool"

datatype staged_error = ListStagedFiles string | RenderAdminPolicy string

definition staged_files :: "staged_world \<Rightarrow> string \<Rightarrow> staged_error + string list" where
  "staged_files W cwd =
     (case sw_staged W cwd of
        Inl err \<Rightarrow> Inl (ListStagedFiles (trim_space err))
      | Inr output \<Rightarrow>
          (let trimmed = trim_space output
           in Inr (if trimmed = [] then [] else split_on (CHR 0x0A) trimmed)))"

definition trimmed_lines :: "string \<Rightarrow> string list" where
  "trimmed_lines output = filter (\<lambda>l. l \<noteq> []) (map trim_space (split_on (CHR 0x0A) output))"

definition current_merge_parent :: "staged_world \<Rightarrow> string \<Rightarrow> string option" where
  "current_merge_parent W cwd =
     (case sw_merge_head W cwd of
        None \<Rightarrow> None
      | Some output \<Rightarrow>
          (case trimmed_lines output of [parent] \<Rightarrow> Some parent | _ \<Rightarrow> None))"

text \<open>The parent, the files that are as there and the files that are not.\<close>

definition merge_parent_admin_files ::
  "staged_world \<Rightarrow> string \<Rightarrow> string list \<Rightarrow> string \<times> string list \<times> string list" where
  "merge_parent_admin_files W cwd files =
     (case current_merge_parent W cwd of
        None \<Rightarrow> ([], [], files)
      | Some parent \<Rightarrow>
          (case sw_diff W cwd parent files of
             None \<Rightarrow> ([], [], files)
           | Some output \<Rightarrow>
               (let changed = (\<lambda>f. f \<in> set (trimmed_lines output))
                in (parent, filter (\<lambda>f. \<not> changed f) files, filter changed files))))"

section \<open>What the tool policy generates\<close>

definition sha256_string :: "staged_world \<Rightarrow> string \<Rightarrow> string" where
  "sha256_string W content = ''sha256:'' @ sw_sha256_hex W content"

text \<open>The map from the paths of the artifacts to their hashes: a later artifact replaces an earlier.\<close>

definition expected_hashes :: "(string \<times> string) list \<Rightarrow> string \<rightharpoonup> string" where
  "expected_hashes artifacts = foldl (\<lambda>m (path, sha). m(path_clean path \<mapsto> sha)) Map.empty artifacts"

definition verified_file :: "staged_world \<Rightarrow> string \<Rightarrow> (string \<rightharpoonup> string) \<Rightarrow> string \<Rightarrow> bool" where
  "verified_file W cwd expected file =
     (case expected (path_clean file) of
        None \<Rightarrow> False
      | Some sha \<Rightarrow>
          (case sw_show W cwd (path_clean file) of
             None \<Rightarrow> False
           | Some staged \<Rightarrow> sha256_string W staged = sha))"

definition verified_generated_admin_files ::
  "staged_world \<Rightarrow> eval_context \<Rightarrow> string list \<Rightarrow> staged_error + string list \<times> string list" where
  "verified_generated_admin_files W ctx files =
     (let root = string_option_default (ctx_options ctx) ''ethos_root'' []
      in if root = [] \<or> ctx_cwd ctx = [] then Inr ([], files)
         else case sw_artifacts W root (ctx_cwd ctx) of
                Inl err \<Rightarrow> Inl (RenderAdminPolicy err)
              | Inr artifacts \<Rightarrow>
                  (let ok = verified_file W (ctx_cwd ctx) (expected_hashes artifacts)
                   in Inr (filter ok files, filter (\<lambda>f. \<not> ok f) files)))"

section \<open>The decisions\<close>

definition coding_ethos_checkout_markers :: "string list" where
  "coding_ethos_checkout_markers = [''coding_ethos.yml'', ''config.yaml'', ''go/cmd/coding-ethos-run'']"

definition is_coding_ethos_checkout :: "staged_world \<Rightarrow> string \<Rightarrow> bool" where
  "is_coding_ethos_checkout W cwd \<longleftrightarrow>
     trim_space cwd \<noteq> [] \<and>
     list_all (\<lambda>marker. sw_exists W (path_join [cwd, marker])) coding_ethos_checkout_markers"

definition staged_admin_handoff :: "staged_world \<Rightarrow> string \<Rightarrow> string list \<Rightarrow> string list \<Rightarrow> string" where
  "staged_admin_handoff W cwd argv files =
     (let command = (if argv \<noteq> [] then Command_line argv else ''git commit'')
      in str_join '' ''
           ([''Administrative staged files require a human/admin commit.'',
             ''Administrative staged files: '' @ str_join '', '' files @ ''.'',
             ''Agent action: stop trying to commit these files.'',
             (if cwd \<noteq> [] then ''Human/admin handoff: from '' @ cwd @ '', run: '' @ command @ ''.''
              else ''Human/admin handoff: run: '' @ command @ ''.'')] @
            (if is_coding_ethos_checkout W cwd then []
             else [''Note: --admin-approved is only valid inside the coding-ethos repo admin wrapper.''])))"

definition staged_admin_evidence :: "string list \<Rightarrow> string \<Rightarrow> any_map" where
  "staged_admin_evidence files cwd =
     [(''files'', AStrings files), (''staged_files'', AStrings files)] @
     (if cwd \<noteq> [] then [(''cwd'', AString cwd)] else [])"

definition merge_parent_evidence :: "string \<Rightarrow> string list \<Rightarrow> any_map" where
  "merge_parent_evidence parent files =
     (if parent = [] \<or> files = [] then []
      else [(''merge_parent'', AString parent), (''merge_parent_files'', AStrings files)])"

text \<open>The three lists of diagnostics differ in the message and the advice.\<close>

definition admin_diagnostics ::
  "string \<Rightarrow> string \<Rightarrow> policy \<Rightarrow> string list \<Rightarrow> decision \<Rightarrow> diagnostic list" where
  "admin_diagnostics message advice pol files d =
     map (\<lambda>file. empty_diagnostic
       \<lparr>diag_tool := ''git'', diag_file := file, diag_policy_id := pol_id pol,
        diag_severity := dec_severity d, diag_message := message, diag_advice := advice,
        diag_principle_ids := dec_principle_ids d\<rparr>) files"

definition staged_admin_diagnostics :: "policy \<Rightarrow> string list \<Rightarrow> decision \<Rightarrow> diagnostic list" where
  "staged_admin_diagnostics =
     admin_diagnostics ''Administrative staged file requires explicit handling.''
       ''Commit this administrative file through the human/admin handoff path.''"

definition inherited_admin_diagnostics :: "policy \<Rightarrow> string list \<Rightarrow> decision \<Rightarrow> diagnostic list" where
  "inherited_admin_diagnostics =
     admin_diagnostics ''Administrative staged file matches the current merge parent.''
       ''Preserve the merge-parent entry unchanged.''"

definition verified_generated_admin_diagnostics :: "policy \<Rightarrow> string list \<Rightarrow> decision \<Rightarrow> diagnostic list" where
  "verified_generated_admin_diagnostics =
     admin_diagnostics ''Administrative staged file matches generated tool policy.''
       ''Keep the generated tool configuration unchanged.''"

definition admin_record ::
  "policy \<Rightarrow> string \<Rightarrow> any_map \<Rightarrow> (policy \<Rightarrow> string list \<Rightarrow> decision \<Rightarrow> diagnostic list) \<Rightarrow> string list \<Rightarrow> decision" where
  "admin_record pol message evidence diags files =
     (let d = (NewDecision ''record'' pol)\<lparr>dec_severity := ''record'', dec_message := message,
                dec_evidence := evidence\<rparr>
      in d\<lparr>dec_diagnostics := diags pol files d\<rparr>)"

definition EvaluateGitStagedAdminFiles ::
  "staged_world \<Rightarrow> policy \<Rightarrow> eval_context \<Rightarrow> staged_error + decision list" where
  "EvaluateGitStagedAdminFiles W pol ctx =
     (if ctx_argv ctx \<noteq> [] \<and> \<not> is_git_subcommand (ctx_argv ctx) ''commit'' then Inr []
      else case staged_files W (ctx_cwd ctx) of
        Inl err \<Rightarrow> Inl err
      | Inr staged \<Rightarrow>
          (let candidates = BlockedAdminFiles staged (ctx_options ctx)
           in if candidates = [] then Inr []
              else case verified_generated_admin_files W ctx candidates of
                Inl err \<Rightarrow> Inl err
              | Inr (verified, blocked) \<Rightarrow>
                  if blocked = [] then
                    Inr [admin_record pol ''Administrative staged files match generated tool policy.''
                           (staged_admin_evidence verified (ctx_cwd ctx) @
                            [(''verified_generated_files'', AStrings verified)])
                           verified_generated_admin_diagnostics verified]
                  else
                    (case merge_parent_admin_files W (ctx_cwd ctx) blocked of
                       (parent, inherited, divergent) \<Rightarrow>
                         if length inherited = length blocked then
                           Inr [admin_record pol ''Administrative staged files match the current merge parent.''
                                  (staged_admin_evidence inherited (ctx_cwd ctx) @
                                   merge_parent_evidence parent inherited)
                                  inherited_admin_diagnostics inherited]
                         else if ctx_admin_approved ctx then
                           Inr [admin_record pol
                                  ''Administrative staged files approved by coding-ethos admin gate.''
                                  (staged_admin_evidence blocked (ctx_cwd ctx) @
                                   merge_parent_evidence parent inherited)
                                  staged_admin_diagnostics blocked]
                         else
                           (let d = (NewDecision ''block'' pol)
                                  \<lparr>dec_suggestion :=
                                     staged_admin_handoff W (ctx_cwd ctx) (ctx_argv ctx) divergent,
                                   dec_evidence := staged_admin_evidence divergent (ctx_cwd ctx) @
                                     merge_parent_evidence parent inherited\<rparr>
                            in Inr [d\<lparr>dec_diagnostics := staged_admin_diagnostics pol divergent d\<rparr>]))))"

section \<open>The files meant\<close>

text \<open>
  Fact. An administrative file is one with a listed name, or one below a listed directory, at
  whatever depth: the prefix and substring tests of the code find exactly the directories in the
  path of the file.
\<close>

theorem admin_file_by_component:
  assumes "file \<noteq> []"
    and "\<And>dir. dir \<in> set (string_slice_option options ''dirs'' default_admin_only_dirs) \<Longrightarrow> CHR ''/'' \<notin> set dir"
  shows "admin_file options file \<longleftrightarrow>
    path_base file \<in> set (string_slice_option options ''basenames'' default_admin_only_basenames) \<or>
    (\<exists>dir \<in> set (string_slice_option options ''dirs'' default_admin_only_dirs).
       dir \<in> set (butlast (split_on (CHR ''/'') file)))"
proof -
  have "has_prefix file (dir @ ''/'') \<or> str_contains file (''/'' @ dir @ ''/'') \<longleftrightarrow>
      dir \<in> set (butlast (split_on (CHR ''/'') file))"
    if "dir \<in> set (string_slice_option options ''dirs'' default_admin_only_dirs)" for dir
    using component_iff [OF assms(2) [OF that], where s = "file"] by simp
  then show ?thesis
    using assms(1) by (auto simp: admin_file_def list_ex_iff)
qed

theorem admin_file_by_component_witness:
  "admin_file [] ''tools/bin/run'' \<and> \<not> admin_file [] ''bin''"
proof -
  have dirs: "string_slice_option [] ''dirs'' default_admin_only_dirs = [''.pre-commit'', ''pre-commit'', ''bin'']"
    by code_simp
  then have free: "CHR ''/'' \<notin> set dir"
    if "dir \<in> set (string_slice_option [] ''dirs'' default_admin_only_dirs)" for dir
    using that by auto
  show ?thesis
    using admin_file_by_component [OF _ free, of "''tools/bin/run''"]
      admin_file_by_component [OF _ free, of "''bin''"]
    unfolding dirs by (simp, code_simp)
qed

section \<open>When a commit is blocked\<close>

definition generated_file :: "staged_world \<Rightarrow> eval_context \<Rightarrow> string \<Rightarrow> bool" where
  "generated_file W ctx file \<longleftrightarrow>
     string_option_default (ctx_options ctx) ''ethos_root'' [] \<noteq> [] \<and> ctx_cwd ctx \<noteq> [] \<and>
     (case sw_artifacts W (string_option_default (ctx_options ctx) ''ethos_root'' []) (ctx_cwd ctx) of
        Inl _ \<Rightarrow> False
      | Inr artifacts \<Rightarrow> verified_file W (ctx_cwd ctx) (expected_hashes artifacts) file)"

lemma verified_generated_split:
  assumes "verified_generated_admin_files W ctx files = Inr (verified, blocked)"
  shows "verified = filter (generated_file W ctx) files \<and> blocked = filter (\<lambda>f. \<not> generated_file W ctx f) files"
proof (cases "string_option_default (ctx_options ctx) ''ethos_root'' [] = [] \<or> ctx_cwd ctx = []")
  case True
  then show ?thesis
    using assms by (auto simp: verified_generated_admin_files_def generated_file_def)
next
  case False
  then obtain artifacts where a:
    "sw_artifacts W (string_option_default (ctx_options ctx) ''ethos_root'' []) (ctx_cwd ctx) = Inr artifacts"
    using assms by (auto simp: verified_generated_admin_files_def split: sum.splits)
  with False have "generated_file W ctx = verified_file W (ctx_cwd ctx) (expected_hashes artifacts)"
    by (auto simp: generated_file_def fun_eq_iff)
  then show ?thesis
    using assms False a by (simp add: verified_generated_admin_files_def Let_def)
qed

text \<open>Whether a file is as in the parent of the merge, given the files git is asked about.\<close>

definition inherited_file :: "staged_world \<Rightarrow> string \<Rightarrow> string list \<Rightarrow> string \<Rightarrow> bool" where
  "inherited_file W cwd asked file \<longleftrightarrow>
     (case current_merge_parent W cwd of
        None \<Rightarrow> False
      | Some parent \<Rightarrow>
          (case sw_diff W cwd parent asked of
             None \<Rightarrow> False
           | Some output \<Rightarrow> file \<notin> set (trimmed_lines output)))"

lemma merge_parent_split:
  assumes "merge_parent_admin_files W cwd files = (parent, inherited, divergent)"
  shows "inherited = filter (inherited_file W cwd files) files"
    and "divergent = filter (\<lambda>f. \<not> inherited_file W cwd files f) files"
proof -
  have "inherited = filter (inherited_file W cwd files) files \<and>
    divergent = filter (\<lambda>f. \<not> inherited_file W cwd files f) files"
  proof (cases "\<exists>p out. current_merge_parent W cwd = Some p \<and> sw_diff W cwd p files = Some out")
    case True
    then obtain p out where "current_merge_parent W cwd = Some p" "sw_diff W cwd p files = Some out"
      by blast
    moreover from this have "inherited_file W cwd files = (\<lambda>f. f \<notin> set (trimmed_lines out))"
      by (simp add: inherited_file_def fun_eq_iff)
    ultimately show ?thesis using assms by (auto simp: merge_parent_admin_files_def Let_def)
  next
    case False
    then have "inherited_file W cwd files = (\<lambda>f. False)"
      by (auto simp: inherited_file_def fun_eq_iff split: option.splits)
    with False show ?thesis
      using assms by (auto simp: merge_parent_admin_files_def split: option.splits)
  qed
  then show "inherited = filter (inherited_file W cwd files) files"
    and "divergent = filter (\<lambda>f. \<not> inherited_file W cwd files f) files" by blast+
qed

lemma length_filter_eq: "length (filter P xs) = length xs \<longleftrightarrow> list_all P xs"
  by (metis Ball_set filter_True length_filter_less less_irrefl)

lemma admin_record_passes [simp]: "\<not> decision_blocks (admin_record pol message evidence diags files)"
  by (simp add: admin_record_def decision_blocks_def NewDecision_def Let_def)

text \<open>The administrative files of a commit that the tool policy does not explain.\<close>

definition unexplained_files :: "staged_world \<Rightarrow> eval_context \<Rightarrow> string list" where
  "unexplained_files W ctx =
     (case staged_files W (ctx_cwd ctx) of
        Inl _ \<Rightarrow> []
      | Inr staged \<Rightarrow>
          filter (\<lambda>f. \<not> generated_file W ctx f) (BlockedAdminFiles staged (ctx_options ctx)))"

lemma staged_admin_blocks_spec:
  assumes "EvaluateGitStagedAdminFiles W pol ctx = Inr ds"
  shows "((\<exists>d \<in> set ds. decision_blocks d) \<longleftrightarrow>
      (ctx_argv ctx = [] \<or> is_git_subcommand (ctx_argv ctx) ''commit'') \<and> \<not> ctx_admin_approved ctx \<and>
      (\<exists>f \<in> set (unexplained_files W ctx). \<not> inherited_file W (ctx_cwd ctx) (unexplained_files W ctx) f)) \<and>
    (\<forall>d \<in> set ds. decision_blocks d \<longrightarrow>
      map_of (dec_evidence d) ''files'' = Some (AStrings
        (filter (\<lambda>f. \<not> inherited_file W (ctx_cwd ctx) (unexplained_files W ctx) f) (unexplained_files W ctx))))"
proof -
  let ?U = "unexplained_files W ctx"
  show ?thesis
  proof (cases "ctx_argv ctx \<noteq> [] \<and> \<not> is_git_subcommand (ctx_argv ctx) ''commit''")
    case True
    then show ?thesis using assms by (simp add: EvaluateGitStagedAdminFiles_def)
  next
    case commit: False
    obtain staged where staged: "staged_files W (ctx_cwd ctx) = Inr staged"
      using assms commit by (auto simp: EvaluateGitStagedAdminFiles_def split: sum.splits)
    define C where "C = BlockedAdminFiles staged (ctx_options ctx)"
    have U: "?U = filter (\<lambda>f. \<not> generated_file W ctx f) C"
      by (simp add: unexplained_files_def staged C_def)
    show ?thesis
    proof (cases "C = []")
      case True
      then show ?thesis
        using assms commit staged U by (auto simp: EvaluateGitStagedAdminFiles_def C_def)
    next
      case False
      obtain verified blocked where v: "verified_generated_admin_files W ctx C = Inr (verified, blocked)"
        using assms commit staged False
        by (auto simp: EvaluateGitStagedAdminFiles_def C_def Let_def split: sum.splits)
      have b: "blocked = ?U" using verified_generated_split [OF v] U by simp
      obtain parent inherited divergent where
        m: "merge_parent_admin_files W (ctx_cwd ctx) ?U = (parent, inherited, divergent)"
        by (metis prod_cases3)
      note i = merge_parent_split [OF m]
      have eval: "EvaluateGitStagedAdminFiles W pol ctx = Inr ds" by (rule assms)
      show ?thesis
      proof (cases "?U = [] \<or> list_all (inherited_file W (ctx_cwd ctx) ?U) ?U \<or> ctx_admin_approved ctx")
        case True
        then have "\<forall>d \<in> set ds. \<not> decision_blocks d"
          using eval commit staged False v m
          by (auto simp: EvaluateGitStagedAdminFiles_def C_def [symmetric] b Let_def i length_filter_eq
              split: if_splits)
        with True show ?thesis by (auto simp: list_all_iff)
      next
        case divergent: False
        then obtain d where "ds = [d]" "decision_blocks d" "map_of (dec_evidence d) ''files'' =
            Some (AStrings (filter (\<lambda>f. \<not> inherited_file W (ctx_cwd ctx) ?U f) ?U))"
          using eval commit staged False v m
          by (auto simp: EvaluateGitStagedAdminFiles_def C_def [symmetric] b Let_def i length_filter_eq
              decision_blocks_def NewDecision_def staged_admin_evidence_def)
        with divergent commit show ?thesis by (auto simp: list_all_iff)
      qed
    qed
  qed
qed

lemmas staged_admin_blocks_aux = staged_admin_blocks_spec [THEN conjunct1]

text \<open>
  Property C34. When a commit with administrative files is stopped: when the evaluation succeeds, it
  blocks exactly for a commit (or when no command is known) that is not approved and has a staged
  administrative file which neither is what the tool policy generates nor, by the answer of git, is
  as in the parent of the merge. The files it names are these and no others.
\<close>

theorem staged_admin_blocks_exactly:
  assumes "EvaluateGitStagedAdminFiles W pol ctx = Inr ds"
  shows "((\<exists>d \<in> set ds. decision_blocks d) \<longleftrightarrow>
      (ctx_argv ctx = [] \<or> is_git_subcommand (ctx_argv ctx) ''commit'') \<and> \<not> ctx_admin_approved ctx \<and>
      (\<exists>f \<in> set (unexplained_files W ctx). \<not> inherited_file W (ctx_cwd ctx) (unexplained_files W ctx) f)) \<and>
    (\<forall>d \<in> set ds. decision_blocks d \<longrightarrow>
      map_of (dec_evidence d) ''files'' = Some (AStrings
        (filter (\<lambda>f. \<not> inherited_file W (ctx_cwd ctx) (unexplained_files W ctx) f) (unexplained_files W ctx))))"
  using assms by (rule staged_admin_blocks_spec)

section \<open>Merges\<close>

text \<open>
  What git documents of \<open>git diff --name-only parent -- pathspecs\<close>: it prints the differing paths that
  are named by a pathspec or lie below it. The paths are printed from the root of the repository, the
  pathspecs are taken from the directory git is asked in, \<open>prefix\<close> below the root.
\<close>

definition path_below :: "string \<Rightarrow> string \<Rightarrow> bool" where
  "path_below spec path \<longleftrightarrow> path = spec \<or> has_prefix path (spec @ ''/'')"

definition diff_answers :: "staged_world \<Rightarrow> string \<Rightarrow> string \<Rightarrow> (string \<Rightarrow> string \<Rightarrow> bool) \<Rightarrow> bool" where
  "diff_answers W cwd prefix_dir differs \<longleftrightarrow>
     (\<forall>parent asked. \<exists>out. sw_diff W cwd parent asked = Some out \<and>
        set (trimmed_lines out) = {p. differs parent p \<and> (\<exists>f \<in> set asked. path_below (prefix_dir @ f) p)})"

lemma inherited_file_diff:
  assumes "diff_answers W cwd prefix_dir differs" and "current_merge_parent W cwd = Some parent"
  shows "inherited_file W cwd asked g \<longleftrightarrow>
    \<not> (differs parent g \<and> (\<exists>f \<in> set asked. path_below (prefix_dir @ f) g))"
proof -
  obtain out where "sw_diff W cwd parent asked = Some out"
    "set (trimmed_lines out) = {p. differs parent p \<and> (\<exists>f \<in> set asked. path_below (prefix_dir @ f) p)}"
    using assms(1) unfolding diff_answers_def by blast
  then show ?thesis using assms(2) by (simp add: inherited_file_def)
qed

text \<open>
  Fact. At the root of the repository the merge exception is exact: during a merge an
  unapproved commit is blocked if and only if an administrative file that the tool policy does not
  explain differs from the parent that is merged.
\<close>

theorem merge_at_root_exact:
  assumes "EvaluateGitStagedAdminFiles W pol ctx = Inr ds"
    and "ctx_argv ctx = [] \<or> is_git_subcommand (ctx_argv ctx) ''commit''" and "\<not> ctx_admin_approved ctx"
    and "diff_answers W (ctx_cwd ctx) [] differs" and "current_merge_parent W (ctx_cwd ctx) = Some parent"
  shows "(\<exists>d \<in> set ds. decision_blocks d) \<longleftrightarrow> (\<exists>f \<in> set (unexplained_files W ctx). differs parent f)"
  unfolding staged_admin_blocks_aux [OF assms(1)] inherited_file_diff [OF assms(4,5)]
  using assms(2,3) by (auto simp: path_below_def)

text \<open>
  Fact. In a subdirectory the merge exception hides every change: the files asked
  for are named from the root and looked for below the directory, git finds none of them, and all
  count as inherited. So during a merge an unapproved commit of changed administrative files passes
  when it is made in a subdirectory.
\<close>

theorem merge_in_subdirectory_passes:
  assumes "EvaluateGitStagedAdminFiles W pol ctx = Inr ds"
    and "diff_answers W (ctx_cwd ctx) prefix_dir differs" and "current_merge_parent W (ctx_cwd ctx) = Some parent"
    and "\<And>f g. f \<in> set (unexplained_files W ctx) \<Longrightarrow> g \<in> set (unexplained_files W ctx) \<Longrightarrow>
      \<not> path_below (prefix_dir @ f) g"
  shows "\<forall>d \<in> set ds. \<not> decision_blocks d"
  using staged_admin_blocks_aux [OF assms(1)] assms(4)
  by (auto simp: inherited_file_diff [OF assms(2,3)])

section \<open>An example\<close>

definition sample_staged_world :: "string \<Rightarrow> string option \<Rightarrow> staged_world" where
  "sample_staged_world prefix_dir merge_head =
     \<lparr>sw_staged = (\<lambda>_. Inr [CHR ''x'', CHR 0x0A, CHR ''.'', CHR ''p'', CHR ''y'', CHR ''l'', CHR ''i'', CHR ''n'',
        CHR ''t'', CHR ''r'', CHR ''c'', CHR 0x0A]),
      sw_show = (\<lambda>_ _. None), sw_merge_head = (\<lambda>_. merge_head),
      sw_diff = (\<lambda>_ _ asked. Some (if list_ex (\<lambda>f. path_below (prefix_dir @ f) ''.pylintrc'') asked
        then ''.pylintrc'' else [])),
      sw_artifacts = (\<lambda>_ _. Inr []), sw_sha256_hex = (\<lambda>s. s), sw_exists = (\<lambda>_. False)\<rparr>"

definition sample_staged_context :: eval_context where
  "sample_staged_context = empty_context\<lparr>ctx_argv := [''git'', ''commit''], ctx_cwd := ''/r/sub''\<rparr>"

lemma sample_staged_facts:
  "is_git_subcommand (ctx_argv sample_staged_context) ''commit'' \<and>
   unexplained_files (sample_staged_world prefix_dir head) sample_staged_context = [''.pylintrc'']"
proof -
  have s: "staged_files (sample_staged_world prefix_dir head) ''/r/sub'' = Inr [''x'', ''.pylintrc'']"
    unfolding staged_files_def sample_staged_world_def staged_world.simps by code_simp
  have a: "BlockedAdminFiles [''x'', ''.pylintrc''] [] = [''.pylintrc'']" by code_simp
  have c: "ctx_cwd sample_staged_context = ''/r/sub''" "ctx_options sample_staged_context = []"
    "is_git_subcommand (ctx_argv sample_staged_context) ''commit''"
    by code_simp+
  show ?thesis
    by (simp add: c unexplained_files_def s a generated_file_def string_option_default_def)
qed

lemma sample_diff_answers:
  "diff_answers (sample_staged_world prefix_dir head) cwd prefix_dir (\<lambda>_ p. p = ''.pylintrc'')"
proof -
  have "trimmed_lines ''.pylintrc'' = [''.pylintrc'']" "trimmed_lines [] = []" by code_simp+
  then show ?thesis
    by (auto simp: diff_answers_def sample_staged_world_def list_ex_iff)
qed

lemma sample_staged_evaluates:
  "\<exists>ds. EvaluateGitStagedAdminFiles (sample_staged_world prefix_dir head) sample_commit_policy
     sample_staged_context = Inr ds"
proof -
  have s: "staged_files (sample_staged_world prefix_dir head) ''/r/sub'' = Inr [''x'', ''.pylintrc'']"
    unfolding staged_files_def sample_staged_world_def staged_world.simps by code_simp
  have c: "ctx_cwd sample_staged_context = ''/r/sub''" "ctx_options sample_staged_context = []"
    by code_simp+
  show ?thesis
    using sample_staged_facts
    by (auto simp: EvaluateGitStagedAdminFiles_def c s Let_def verified_generated_admin_files_def
        string_option_default_def split: prod.splits)
qed

theorem staged_admin_blocks_exactly_witness:
  "\<exists>ds. EvaluateGitStagedAdminFiles (sample_staged_world [] None) sample_commit_policy sample_staged_context =
     Inr ds \<and> (\<exists>d \<in> set ds. decision_blocks d)"
proof -
  obtain ds where ds: "EvaluateGitStagedAdminFiles (sample_staged_world [] None) sample_commit_policy
    sample_staged_context = Inr ds" using sample_staged_evaluates by blast
  have "\<not> inherited_file (sample_staged_world [] None) cwd asked f" for cwd asked f
    by (simp add: inherited_file_def current_merge_parent_def sample_staged_world_def)
  moreover have "\<not> ctx_admin_approved sample_staged_context"
    by (simp add: sample_staged_context_def empty_context_def)
  ultimately show ?thesis
    using staged_admin_blocks_exactly [OF ds] sample_staged_facts [of "[]" None] ds by auto
qed

lemma sample_merge_parent:
  "current_merge_parent (sample_staged_world prefix_dir (Some ''abc'')) cwd = Some ''abc''"
proof -
  have "trimmed_lines ''abc'' = [''abc'']" by code_simp
  then show ?thesis by (simp add: current_merge_parent_def sample_staged_world_def)
qed

theorem merge_at_root_exact_witness:
  "\<exists>ds. EvaluateGitStagedAdminFiles (sample_staged_world [] (Some ''abc'')) sample_commit_policy
     sample_staged_context = Inr ds \<and> (\<exists>d \<in> set ds. decision_blocks d)"
proof -
  obtain ds where ds: "EvaluateGitStagedAdminFiles (sample_staged_world [] (Some ''abc'')) sample_commit_policy
    sample_staged_context = Inr ds" using sample_staged_evaluates by blast
  have "\<not> ctx_admin_approved sample_staged_context"
    by (simp add: sample_staged_context_def empty_context_def)
  with merge_at_root_exact [OF ds _ _ sample_diff_answers sample_merge_parent] ds show ?thesis
    using sample_staged_facts [of "[]" "Some ''abc''"] by auto
qed

theorem merge_in_subdirectory_passes_witness:
  "\<exists>ds. EvaluateGitStagedAdminFiles (sample_staged_world ''sub/'' (Some ''abc'')) sample_commit_policy
     sample_staged_context = Inr ds \<and> (\<forall>d \<in> set ds. \<not> decision_blocks d)"
proof -
  obtain ds where ds: "EvaluateGitStagedAdminFiles (sample_staged_world ''sub/'' (Some ''abc'')) sample_commit_policy
    sample_staged_context = Inr ds" using sample_staged_evaluates by blast
  have "\<not> path_below (''sub/'' @ ''.pylintrc'') ''.pylintrc''" by code_simp
  then show ?thesis
    using merge_in_subdirectory_passes [OF ds sample_diff_answers sample_merge_parent] ds
      sample_staged_facts [of "''sub/''" "Some ''abc''"] by auto
qed

end
