(* ===== verification/FileGuards.thy ===== *)
theory FileGuards
  imports StagedAdmin TokenLedger
begin

text \<open>
  \<open>go/internal/evaluators/file_guards.go\<close>: the evaluators that look into the files of an edit or a
  commit for merge conflict markers, private keys, shebangs that do not fit the mode, details of a
  local machine and missing licence headers. The file system and the compiled regular expressions
  come with the environment.
\<close>

section \<open>The world\<close>

datatype guard_stat = GuardMissing | GuardStatFails | GuardOther | GuardRegular bool
  \<comment> \<open>a regular file with or without an execute permission\<close>

datatype guard_read = GuardGone | GuardReadFails | GuardContent string

text \<open>A compiled expression: whether it matches a text, and the text without its matches.\<close>

record compiled_regex =
  rx_matches :: "string \<Rightarrow> bool"
  rx_remove :: "string \<Rightarrow> string"

record guard_world =
  gw_stat :: "string \<Rightarrow> guard_stat"
  gw_read :: "string \<Rightarrow> guard_read"
  gw_compile :: "string \<Rightarrow> compiled_regex option"
  gw_literal :: "string \<Rightarrow> compiled_regex"  \<comment> \<open>the expression \<open>regexp.QuoteMeta\<close> makes\<close>

datatype guard_error =
    GuardStat string
  | GuardReadFile string
  | GuardScan string
  | GuardPattern string string

section \<open>Reading files\<close>

definition resolve_guard_path :: "string \<Rightarrow> string \<Rightarrow> string" where
  "resolve_guard_path cwd path = (if path_is_abs path \<or> cwd = [] then path else path_join [cwd, path])"

definition is_regular_guard_file :: "guard_world \<Rightarrow> string \<Rightarrow> guard_error + bool" where
  "is_regular_guard_file W path =
     (case gw_stat W path of
        GuardMissing \<Rightarrow> Inr False
      | GuardStatFails \<Rightarrow> Inl (GuardStat path)
      | GuardOther \<Rightarrow> Inr False
      | GuardRegular _ \<Rightarrow> Inr True)"

text \<open>The text and whether the file is binary; the probe of the first kilobyte adds nothing to the whole.\<close>

definition read_guard_text :: "guard_world \<Rightarrow> string \<Rightarrow> guard_error + string \<times> bool" where
  "read_guard_text W path =
     (case is_regular_guard_file W path of
        Inl err \<Rightarrow> Inl err
      | Inr regular \<Rightarrow>
          if \<not> regular then Inr ([], False)
          else case gw_read W path of
                 GuardGone \<Rightarrow> Inr ([], False)
               | GuardReadFails \<Rightarrow> Inl (GuardReadFile path)
               | GuardContent content \<Rightarrow>
                   if CHR 0x00 \<in> set content then Inr ([], True) else Inr (content, False))"

definition maximum_guard_line :: nat where
  "maximum_guard_line = 10485760"

text \<open>The lines are visited with their numbers until one is decided, is too long or has a zero byte.\<close>

fun scan_lines ::
  "string \<Rightarrow> ('s \<Rightarrow> nat \<Rightarrow> string \<Rightarrow> 's \<times> decision list option) \<Rightarrow> nat \<Rightarrow> 's \<Rightarrow> string list \<Rightarrow>
   guard_error + 's \<times> decision list" where
  "scan_lines path visit n st [] = Inr (st, [])"
| "scan_lines path visit n st (l # ls) =
     (if maximum_guard_line \<le> length l then Inl (GuardScan path)
      else if CHR 0x00 \<in> set (drop_cr l) then Inr (st, [])
      else case visit st (Suc n) (drop_cr l) of
             (st', Some ds) \<Rightarrow> Inr (st', ds)
           | (st', None) \<Rightarrow> scan_lines path visit (Suc n) st' ls)"

definition scan_guard_lines ::
  "guard_world \<Rightarrow> string \<Rightarrow> ('s \<Rightarrow> nat \<Rightarrow> string \<Rightarrow> 's \<times> decision list option) \<Rightarrow> 's \<Rightarrow>
   guard_error + 's \<times> decision list" where
  "scan_guard_lines W path visit st =
     (case is_regular_guard_file W path of
        Inl err \<Rightarrow> Inl err
      | Inr regular \<Rightarrow>
          if \<not> regular then Inr (st, [])
          else case gw_read W path of
                 GuardGone \<Rightarrow> Inr (st, [])
               | GuardReadFails \<Rightarrow> Inl (GuardReadFile path)
               | GuardContent content \<Rightarrow> scan_lines path visit 0 st (raw_lines content))"

text \<open>The loop the evaluators share: the first file with an error or a decision ends it.\<close>

fun first_finding :: "(string \<Rightarrow> 'e + decision list) \<Rightarrow> string list \<Rightarrow> 'e + decision list" where
  "first_finding check [] = Inr []"
| "first_finding check (f # fs) =
     (case check f of
        Inl err \<Rightarrow> Inl err
      | Inr [] \<Rightarrow> first_finding check fs
      | Inr (d # ds) \<Rightarrow> Inr (d # ds))"

definition file_guard_decision ::
  "policy \<Rightarrow> string \<Rightarrow> string \<Rightarrow> nat \<Rightarrow> string \<Rightarrow> string \<Rightarrow> decision" where
  "file_guard_decision pol tool path line code message =
     (NewDecision ''block'' pol)
       \<lparr>dec_diagnostics := [empty_diagnostic
          \<lparr>diag_tool := tool, diag_file := path, diag_line := int line, diag_severity := ''block'',
           diag_code := code, diag_policy_id := pol_id pol, diag_message := message,
           diag_advice := pol_suggestion pol\<rparr>],
        dec_evidence := (''file'', AString path) # (if code \<noteq> [] then [(''code'', AString code)] else [])\<rparr>"

section \<open>Merge conflicts\<close>

record merge_scan =
  ms_first :: "decision option"
  ms_separator :: "decision option"
  ms_start :: bool
  ms_end :: bool

definition matching_merge_conflict_marker :: "string \<Rightarrow> string list \<Rightarrow> string" where
  "matching_merge_conflict_marker line markers =
     (case find (has_prefix line) markers of None \<Rightarrow> [] | Some marker \<Rightarrow> marker)"

definition visit_merge_line ::
  "policy \<Rightarrow> string \<Rightarrow> string list \<Rightarrow> merge_scan \<Rightarrow> nat \<Rightarrow> string \<Rightarrow> merge_scan \<times> decision list option" where
  "visit_merge_line pol path markers st number line =
     (let st1 = st\<lparr>ms_start := (ms_start st \<or> has_prefix line ''<<<<<<<''),
                   ms_end := (ms_end st \<or> has_prefix line ''>>>>>>>'')\<rparr>;
          marker = matching_merge_conflict_marker line markers
      in if marker = [] then (st1, None)
         else
           (let d = file_guard_decision pol ''merge_conflict'' path number marker
                      ''unresolved merge conflict marker''
            in if marker = ''======='' then (st1\<lparr>ms_separator := Some d\<rparr>, None)
               else if ms_first st1 = None then (st1\<lparr>ms_first := Some d\<rparr>, None)
               else (st1, None)))"

definition scan_merge_conflict_markers ::
  "guard_world \<Rightarrow> string \<Rightarrow> string \<Rightarrow> policy \<Rightarrow> string list \<Rightarrow> guard_error + decision list" where
  "scan_merge_conflict_markers W path name pol markers =
     (case scan_guard_lines W path (visit_merge_line pol name markers)
             \<lparr>ms_first = None, ms_separator = None, ms_start = False, ms_end = False\<rparr> of
        Inl err \<Rightarrow> Inl err
      | Inr (st, found) \<Rightarrow>
          if found \<noteq> [] then Inr found
          else case ms_separator st of
                 Some d \<Rightarrow>
                   if ms_start st \<and> ms_end st then Inr [d]
                   else (case ms_first st of Some f \<Rightarrow> Inr [f] | None \<Rightarrow> Inr [])
               | None \<Rightarrow> (case ms_first st of Some f \<Rightarrow> Inr [f] | None \<Rightarrow> Inr []))"

definition default_merge_markers :: "string list" where
  "default_merge_markers = [''<<<<<<<'', ''======='', ''>>>>>>>'', ''|||||||'']"

definition EvaluateFileMergeConflict ::
  "guard_world \<Rightarrow> policy \<Rightarrow> eval_context \<Rightarrow> guard_error + decision list" where
  "EvaluateFileMergeConflict W pol ctx =
     first_finding (\<lambda>f. scan_merge_conflict_markers W (resolve_guard_path (ctx_cwd ctx) f) f pol
       (string_slice_option (ctx_options ctx) ''markers'' default_merge_markers)) (ctx_files ctx)"

section \<open>Private keys and shebangs\<close>

definition default_private_key_pattern :: string where
  "default_private_key_pattern = ''-----BEGIN [A-Z0-9 ]*PRIVATE KEY-----''"

definition private_key_file ::
  "guard_world \<Rightarrow> compiled_regex \<Rightarrow> policy \<Rightarrow> string \<Rightarrow> string \<Rightarrow> guard_error + decision list" where
  "private_key_file W rx pol cwd name =
     (case is_regular_guard_file W (resolve_guard_path cwd name) of
        Inl err \<Rightarrow> Inl err
      | Inr regular \<Rightarrow>
          if \<not> regular then Inr []
          else case gw_read W (resolve_guard_path cwd name) of
                 GuardGone \<Rightarrow> Inr []
               | GuardReadFails \<Rightarrow> Inl (GuardReadFile name)
               | GuardContent data \<Rightarrow>
                   if rx_matches rx data
                   then Inr [file_guard_decision pol ''private_key'' name 0 [] ''possible private key detected'']
                   else Inr [])"

definition EvaluateFilePrivateKey ::
  "guard_world \<Rightarrow> policy \<Rightarrow> eval_context \<Rightarrow> guard_error + decision list" where
  "EvaluateFilePrivateKey W pol ctx =
     (let pattern = string_option_default (ctx_options ctx) ''pattern'' default_private_key_pattern
      in case gw_compile W pattern of
           None \<Rightarrow> Inl (GuardPattern ''private key'' pattern)
         | Some rx \<Rightarrow> first_finding (private_key_file W rx pol (ctx_cwd ctx)) (ctx_files ctx))"

definition shebang_file ::
  "guard_world \<Rightarrow> policy \<Rightarrow> string \<Rightarrow> string \<Rightarrow> guard_error + decision list" where
  "shebang_file W pol cwd name =
     (let path = resolve_guard_path cwd name
      in case is_regular_guard_file W path of
           Inl err \<Rightarrow> Inl err
         | Inr False \<Rightarrow> Inr []
         | Inr True \<Rightarrow>
             (case read_guard_text W path of
                Inl err \<Rightarrow> Inl err
              | Inr (_, True) \<Rightarrow> Inr []
              | Inr (text_of_file, False) \<Rightarrow>
                  (let executable = (gw_stat W path = GuardRegular True);
                       shebang = has_prefix text_of_file ''#!''
                   in if executable \<and> \<not> shebang
                        then Inr [file_guard_decision pol ''shebangs'' name 1 [] ''executable file has no shebang'']
                      else if shebang \<and> \<not> executable
                        then Inr [file_guard_decision pol ''shebangs'' name 1 [] ''shebang script is not executable'']
                      else Inr [])))"

definition EvaluateFileShebang ::
  "guard_world \<Rightarrow> policy \<Rightarrow> eval_context \<Rightarrow> guard_error + decision list" where
  "EvaluateFileShebang W pol ctx = first_finding (shebang_file W pol (ctx_cwd ctx)) (ctx_files ctx)"

section \<open>Details of a local machine\<close>

definition has_configured_prefix :: "string \<Rightarrow> string list \<Rightarrow> bool" where
  "has_configured_prefix path configured =
     list_ex (\<lambda>p. trim_prefix p ''./'' \<noteq> [] \<and> has_prefix (trim_prefix path ''./'') (trim_prefix p ''./'')) configured"

definition has_hidden_directory_component :: "string \<Rightarrow> bool" where
  "has_hidden_directory_component path =
     list_ex (\<lambda>part. part \<notin> {[], ''.'', ''..''} \<and> has_prefix part ''.'')
       (butlast (split_on (CHR ''/'') (trim_prefix path ''./'')))"

definition repo_relative_hidden_directory :: "string \<Rightarrow> bool" where
  "repo_relative_hidden_directory path \<longleftrightarrow> \<not> path_is_abs path \<and> has_hidden_directory_component path"

fun compile_all :: "guard_world \<Rightarrow> string \<Rightarrow> string list \<Rightarrow> guard_error + compiled_regex list" where
  "compile_all W label [] = Inr []"
| "compile_all W label (raw # raws) =
     (case gw_compile W raw of
        None \<Rightarrow> Inl (GuardPattern label raw)
      | Some rx \<Rightarrow> map_sum id (\<lambda>rxs. rx # rxs) (compile_all W label raws))"

definition compiled_patterns ::
  "guard_world \<Rightarrow> any_map \<Rightarrow> string \<Rightarrow> string list \<Rightarrow> string \<Rightarrow> guard_error + compiled_regex list" where
  "compiled_patterns W options key defaults label =
     compile_all W label (string_slice_option options key defaults)"

definition default_pii_patterns :: "string list" where
  "default_pii_patterns =
     [''/(home|Users)/[A-Za-z0-9._-]+/'', ''lbox-worktrees/[A-Za-z0-9._-]+'',
      ''/tmp/tmp'' @ [CHR 0x5C] @ ''.[A-Za-z0-9._-]+'']"

definition pii_patterns :: "guard_world \<Rightarrow> any_map \<Rightarrow> guard_error + compiled_regex list" where
  "pii_patterns W options =
     map_sum id (\<lambda>rxs. rxs @ map (gw_literal W) (string_slice_option options ''literals'' []))
       (compiled_patterns W options ''patterns'' default_pii_patterns ''PII'')"

definition pii_line :: "compiled_regex list \<Rightarrow> compiled_regex list \<Rightarrow> string \<Rightarrow> bool" where
  "pii_line patterns allowed line =
     list_ex (\<lambda>rx. rx_matches rx (foldl (\<lambda>candidate a. rx_remove a candidate) line allowed)) patterns"

definition pii_file ::
  "guard_world \<Rightarrow> compiled_regex list \<Rightarrow> compiled_regex list \<Rightarrow> string list \<Rightarrow> policy \<Rightarrow> string \<Rightarrow> string \<Rightarrow>
   guard_error + decision list" where
  "pii_file W patterns allowed exempt pol cwd name =
     (if has_configured_prefix name exempt \<or> repo_relative_hidden_directory name then Inr []
      else map_sum id snd
        (scan_guard_lines W (resolve_guard_path cwd name)
          (\<lambda>st number line. ((),
             if pii_line patterns allowed line
             then Some [file_guard_decision pol ''pii'' name number [] ''local machine detail detected'']
             else None)) ()))"

definition EvaluatePIIScrubber ::
  "guard_world \<Rightarrow> policy \<Rightarrow> eval_context \<Rightarrow> guard_error + decision list" where
  "EvaluatePIIScrubber W pol ctx =
     (case pii_patterns W (ctx_options ctx) of
        Inl err \<Rightarrow> Inl err
      | Inr patterns \<Rightarrow>
          (case compiled_patterns W (ctx_options ctx) ''allowed_patterns'' [''/home/agent/''] ''allowed PII'' of
             Inl err \<Rightarrow> Inl err
           | Inr allowed \<Rightarrow>
               first_finding
                 (pii_file W patterns allowed (string_slice_option (ctx_options ctx) ''exempt_prefixes'' [])
                    pol (ctx_cwd ctx)) (ctx_files ctx)))"

section \<open>Licences\<close>

definition license_text_option :: "any_map \<Rightarrow> string \<Rightarrow> string" where
  "license_text_option options key =
     (case map_of options key of Some (AString v) \<Rightarrow> (if trim_space v = [] then [] else v) | _ \<Rightarrow> [])"

text \<open>\<open>ReplaceAll(text, "\r\n", "\n")\<close>.\<close>

definition drop_crlf :: "string \<Rightarrow> string" where
  "drop_crlf content = replace_all [CHR 0x0D, CHR 0x0A] [CHR 0x0A] content"

fun license_paragraphs :: "string list \<Rightarrow> string list \<Rightarrow> string list" where
  "license_paragraphs current [] = (if current = [] then [] else [str_join '' '' current])"
| "license_paragraphs current (line # lines) =
     (if trim_space line = []
      then (if current = [] then [] else [str_join '' '' current]) @ license_paragraphs [] lines
      else license_paragraphs (current @ [str_join '' '' (str_fields (trim_space line))]) lines)"

definition normalize_guard_license_text :: "string \<Rightarrow> string" where
  "normalize_guard_license_text content =
     str_join [CHR 0x0A, CHR 0x0A] (license_paragraphs [] (split_on (CHR 0x0A) (drop_crlf content))) @ [CHR 0x0A]"

text \<open>A file that is missing is read as an empty text, which does not have the expected words either.\<close>

definition evaluate_license_file ::
  "guard_world \<Rightarrow> policy \<Rightarrow> eval_context \<Rightarrow> guard_error + decision list" where
  "evaluate_license_file W pol ctx =
     (let expected = license_text_option (ctx_options ctx) ''expected_license_text'';
          license_file = string_option_default (ctx_options ctx) ''license_file'' ''LICENSE''
      in if expected = [] then Inr []
         else case read_guard_text W (resolve_guard_path (ctx_cwd ctx) license_file) of
                Inl err \<Rightarrow> Inl err
              | Inr (content, binary) \<Rightarrow>
                  if binary \<or> normalize_guard_license_text content \<noteq> normalize_guard_license_text expected
                  then Inr [file_guard_decision pol ''license_file'' license_file 1
                         (string_option_default (ctx_options ctx) ''spdx_id'' [])
                         ''LICENSE does not match the configured SPDX license text'']
                  else Inr [])"

text \<open>\<open>filepath.Ext\<close>: from the last dot of the last element.\<close>

definition path_ext :: "string \<Rightarrow> string" where
  "path_ext p =
     (let element = last (split_on (CHR ''/'') p); parts = split_on (CHR ''.'') element
      in if length parts = 1 then [] else CHR ''.'' # last parts)"

definition normalized_suffixes :: "string list \<Rightarrow> string list" where
  "normalized_suffixes raw =
     map (\<lambda>v. if has_prefix v ''.'' then v else CHR ''.'' # v)
       (filter (\<lambda>v. v \<noteq> []) (map (\<lambda>s. to_lower (trim_space s)) raw))"

definition first_guard_lines :: "string \<Rightarrow> int \<Rightarrow> string" where
  "first_guard_lines content count =
     (if count \<le> 0 then [] else str_join [CHR 0x0A] (take (nat count) (split_on (CHR 0x0A) content)))"

definition license_header_file ::
  "guard_world \<Rightarrow> policy \<Rightarrow> eval_context \<Rightarrow> string \<Rightarrow> guard_error + decision list" where
  "license_header_file W pol ctx name =
     (let options = ctx_options ctx;
          extensions = normalized_suffixes (string_slice_option options ''extensions'' [''.go'', ''.py'', ''.sh''])
      in if to_lower (path_ext name) \<notin> set extensions \<or>
            has_configured_prefix name (string_slice_option options ''exempt_prefixes'' []) \<or>
            path_base name \<in> set (string_slice_option options ''exempt_basenames'' [])
         then Inr []
         else case read_guard_text W (resolve_guard_path (ctx_cwd ctx) name) of
                Inl err \<Rightarrow> Inl err
              | Inr (content, binary) \<Rightarrow>
                  if binary then Inr []
                  else
                    (let header = first_guard_lines content (int_option options ''scan_lines'' 5)
                     in case find (\<lambda>r. \<not> str_contains header r)
                               (string_slice_option options ''required''
                                  [''SPDX-FileCopyrightText:'', ''SPDX-License-Identifier:'']) of
                          None \<Rightarrow> Inr []
                        | Some missing \<Rightarrow>
                            Inr [file_guard_decision pol ''license_header'' name 1 missing
                                   ''missing required license header text'']))"

definition EvaluateLicenseHeader ::
  "guard_world \<Rightarrow> policy \<Rightarrow> eval_context \<Rightarrow> guard_error + decision list" where
  "EvaluateLicenseHeader W pol ctx =
     (case evaluate_license_file W pol ctx of
        Inl err \<Rightarrow> Inl err
      | Inr (d # ds) \<Rightarrow> Inr (d # ds)
      | Inr [] \<Rightarrow> first_finding (license_header_file W pol ctx) (ctx_files ctx))"

section \<open>No file is skipped\<close>

lemma first_finding_passes:
  "first_finding check fs = Inr [] \<longleftrightarrow> (\<forall>f \<in> set fs. check f = Inr [])"
  by (induction fs) (auto split: sum.splits list.splits)

lemma first_finding_Inr:
  "first_finding check fs = Inr ds \<Longrightarrow> ds \<noteq> [] \<Longrightarrow>
   \<exists>before f after. fs = before @ f # after \<and> (\<forall>g \<in> set before. check g = Inr []) \<and> check f = Inr ds"
proof (induction fs)
  case (Cons f fs)
  show ?case
  proof (cases "check f = Inr []")
    case True
    with Cons obtain before g after where "fs = before @ g # after" "\<forall>g \<in> set before. check g = Inr []"
      "check g = Inr ds" by auto
    with True show ?thesis by (intro exI [of _ "f # before"]) auto
  next
    case False
    with Cons.prems have "check f = Inr ds" by (auto split: sum.splits list.splits)
    then have "f # fs = [] @ f # fs \<and> (\<forall>g \<in> set []. check g = Inr []) \<and> check f = Inr ds" by simp
    then show ?thesis by blast
  qed
qed simp

section \<open>What passes\<close>

text \<open>The lines a scan visits: those before the first line with a zero byte.\<close>

definition visited_lines :: "string \<Rightarrow> string list" where
  "visited_lines content = takeWhile (\<lambda>l. CHR 0x00 \<notin> set l) (map drop_cr (raw_lines content))"

definition lines_fit :: "string \<Rightarrow> bool" where
  "lines_fit content \<longleftrightarrow> list_all (\<lambda>l. length l < maximum_guard_line) (raw_lines content)"

text \<open>A scan that never decides on a line folds its state over the lines it visits.\<close>

lemma scan_lines_fold:
  assumes "\<And>st n line. snd (visit st n line) = None" and "list_all (\<lambda>l. length l < maximum_guard_line) ls"
  shows "scan_lines path visit n st ls =
    Inr (fold (\<lambda>(k, l) s. fst (visit s k l))
      (zip [Suc n..<Suc (n + length ls)] (takeWhile (\<lambda>l. CHR 0x00 \<notin> set l) (map drop_cr ls))) st, [])"
  using assms(2)
proof (induction ls arbitrary: n st)
  case (Cons l ls)
  obtain st' where v: "visit st (Suc n) (drop_cr l) = (st', None)"
    using assms(1) [of st "Suc n" "drop_cr l"] by (metis prod.collapse)
  have "\<not> maximum_guard_line \<le> length l" using Cons.prems by simp
  moreover have "[Suc n..<Suc (n + length (l # ls))] = Suc n # [Suc (Suc n)..<Suc (Suc n + length ls)]"
    by (simp add: upt_rec)
  ultimately show ?case
    using Cons v by (simp del: upt_Suc)
qed simp

text \<open>A scan that decides on the lines with a property finds the first of them.\<close>

lemma scan_lines_none:
  assumes "list_all (\<lambda>l. length l < maximum_guard_line) ls"
  shows "scan_lines path (\<lambda>st n l. ((), if P l then Some [D n] else None)) n () ls = Inr ((), []) \<longleftrightarrow>
    list_all (\<lambda>l. \<not> P l) (takeWhile (\<lambda>l. CHR 0x00 \<notin> set l) (map drop_cr ls))"
  using assms by (induction ls arbitrary: n) auto

definition conflict_marker_line :: "string \<Rightarrow> bool" where
  "conflict_marker_line l \<longleftrightarrow>
     has_prefix l ''<<<<<<<'' \<or> has_prefix l ''>>>>>>>'' \<or> has_prefix l ''|||||||''"

lemma default_marker_of_line:
  "matching_merge_conflict_marker l default_merge_markers =
     (if has_prefix l ''<<<<<<<'' then ''<<<<<<<'' else if has_prefix l ''======='' then ''=======''
      else if has_prefix l ''>>>>>>>'' then ''>>>>>>>'' else if has_prefix l ''|||||||'' then ''|||||||'' else [])"
  by (simp add: matching_merge_conflict_marker_def default_merge_markers_def)

lemma markers_exclusive:
  "has_prefix l ''======='' \<Longrightarrow> \<not> conflict_marker_line l"
  by (cases l) (auto simp: conflict_marker_line_def)

lemma visit_merge_line_undecided: "snd (visit_merge_line pol name markers st n l) = None"
  by (simp add: visit_merge_line_def Let_def)

definition merge_scan_ok :: "merge_scan \<Rightarrow> bool \<Rightarrow> bool" where
  "merge_scan_ok st seen \<longleftrightarrow> (ms_first st \<noteq> None \<longleftrightarrow> seen) \<and> (ms_start st \<longrightarrow> seen)"

lemma visit_merge_line_ok:
  "merge_scan_ok st seen \<Longrightarrow>
   merge_scan_ok (fst (visit_merge_line pol name default_merge_markers st n l)) (seen \<or> conflict_marker_line l)"
  using markers_exclusive [of l]
  by (auto simp: merge_scan_ok_def visit_merge_line_def Let_def default_marker_of_line conflict_marker_line_def
      split: if_splits)

lemma fold_merge_lines_ok:
  "merge_scan_ok st seen \<Longrightarrow>
   merge_scan_ok (fold (\<lambda>(k, l) s. fst (visit_merge_line pol name default_merge_markers s k l)) kls st)
     (seen \<or> list_ex conflict_marker_line (map snd kls))"
proof (induction kls arbitrary: st seen)
  case (Cons kl kls)
  obtain k l where kl: "kl = (k, l)" by (cases kl)
  from Cons.IH [OF visit_merge_line_ok [OF Cons.prems, of pol name k l]] show ?case
    by (simp add: kl disj_ac)
qed simp

lemma map_snd_zip_take: "length ys \<le> length xs \<Longrightarrow> map snd (zip xs ys) = ys"
  by (induction xs ys rule: list_induct2') auto

lemma merge_conflict_file:
  assumes "gw_stat W path = GuardRegular x" and "gw_read W path = GuardContent content" and "lines_fit content"
  shows "scan_merge_conflict_markers W path name pol default_merge_markers = Inr [] \<longleftrightarrow>
    \<not> list_ex conflict_marker_line (visited_lines content)"
proof -
  let ?st = "\<lparr>ms_first = None, ms_separator = None, ms_start = False, ms_end = False\<rparr>"
  let ?kls = "zip [Suc 0..<Suc (length (raw_lines content))] (visited_lines content)"
  define final where "final = fold (\<lambda>(k, l) s. fst (visit_merge_line pol name default_merge_markers s k l)) ?kls ?st"
  have "length (visited_lines content) \<le> length (raw_lines content)"
    by (metis length_map length_takeWhile_le visited_lines_def)
  then have snd: "map snd ?kls = visited_lines content" by (intro map_snd_zip_take) (auto simp: Suc_le_eq)
  have ok: "merge_scan_ok final (list_ex conflict_marker_line (visited_lines content))"
    using fold_merge_lines_ok [of ?st False pol name ?kls] unfolding snd final_def [symmetric]
    by (simp only: simp_thms) (simp add: merge_scan_ok_def)
  have scan: "scan_guard_lines W path (visit_merge_line pol name default_merge_markers) ?st = Inr (final, [])"
    using scan_lines_fold [where visit = "visit_merge_line pol name default_merge_markers"
        and ls = "raw_lines content" and path = path and n = 0 and st = ?st,
        OF visit_merge_line_undecided] assms unfolding final_def
    by (simp add: scan_guard_lines_def is_regular_guard_file_def lines_fit_def visited_lines_def)
  show ?thesis
    using ok by (auto simp: scan_merge_conflict_markers_def scan merge_scan_ok_def split: option.split)
qed

text \<open>
  Fact. Which files pass the check for merge conflicts, exactly: with the default markers and
  files whose lines fit the scanner, the evaluation passes if and only if no line of any file, before
  the first zero byte, begins with a start, end or base marker. A line of equals signs alone, which
  Markdown uses below a heading, never blocks.
\<close>

theorem merge_conflict_exact:
  assumes "map_of (ctx_options ctx) ''markers'' = None"
    and "\<And>f. f \<in> set (ctx_files ctx) \<Longrightarrow>
      (\<exists>x. gw_stat W (resolve_guard_path (ctx_cwd ctx) f) = GuardRegular x) \<and>
      gw_read W (resolve_guard_path (ctx_cwd ctx) f) = GuardContent (content f) \<and> lines_fit (content f)"
  shows "EvaluateFileMergeConflict W pol ctx = Inr [] \<longleftrightarrow>
    (\<forall>f \<in> set (ctx_files ctx). \<not> list_ex conflict_marker_line (visited_lines (content f)))"
proof -
  have "string_slice_option (ctx_options ctx) ''markers'' default_merge_markers = default_merge_markers"
    by (simp add: string_slice_option_def assms(1) Let_def)
  moreover have "scan_merge_conflict_markers W (resolve_guard_path (ctx_cwd ctx) f) f pol default_merge_markers =
      Inr [] \<longleftrightarrow> \<not> list_ex conflict_marker_line (visited_lines (content f))"
    if "f \<in> set (ctx_files ctx)" for f
    using assms(2) [OF that] merge_conflict_file by blast
  ultimately show ?thesis
    by (auto simp: EvaluateFileMergeConflict_def first_finding_passes)
qed

definition sample_guard_world :: "string \<Rightarrow> guard_world" where
  "sample_guard_world content =
     \<lparr>gw_stat = (\<lambda>_. GuardRegular False), gw_read = (\<lambda>_. GuardContent content), gw_compile = (\<lambda>_. None),
      gw_literal = (\<lambda>_. \<lparr>rx_matches = (\<lambda>_. False), rx_remove = (\<lambda>s. s)\<rparr>)\<rparr>"

theorem merge_conflict_exact_witness:
  "EvaluateFileMergeConflict (sample_guard_world ''=======x'') sample_commit_policy (empty_context\<lparr>ctx_files := [''a'']\<rparr>) = Inr [] \<and>
   EvaluateFileMergeConflict (sample_guard_world ''<<<<<<< HEAD'') sample_commit_policy (empty_context\<lparr>ctx_files := [''a'']\<rparr>) \<noteq> Inr []"
proof -
  have c: "lines_fit ''=======x''" "lines_fit ''<<<<<<< HEAD''"
    by (simp_all add: lines_fit_def raw_lines_def Let_def maximum_guard_line_def)
  have l: "\<not> list_ex conflict_marker_line (visited_lines ''=======x'')"
    "list_ex conflict_marker_line (visited_lines ''<<<<<<< HEAD'')"
    by code_simp+
  have ex: "Ex Not" by (rule exI [of _ False]) simp
  have "EvaluateFileMergeConflict (sample_guard_world content) sample_commit_policy (empty_context\<lparr>ctx_files := [''a'']\<rparr>) = Inr [] \<longleftrightarrow>
      \<not> list_ex conflict_marker_line (visited_lines content)" if "lines_fit content" for content
    using merge_conflict_exact [of "empty_context\<lparr>ctx_files := [''a'']\<rparr>" "sample_guard_world content"
        "\<lambda>_. content" sample_commit_policy] that
    by (simp add: sample_guard_world_def empty_context_def ex)
  with c l show ?thesis by blast
qed

text \<open>The files the check of shebangs lets pass.\<close>

definition shebang_fits :: "guard_world \<Rightarrow> string \<Rightarrow> bool" where
  "shebang_fits W path \<longleftrightarrow>
     (case gw_stat W path of
        GuardMissing \<Rightarrow> True
      | GuardStatFails \<Rightarrow> False
      | GuardOther \<Rightarrow> True
      | GuardRegular executable \<Rightarrow>
          (case gw_read W path of
             GuardGone \<Rightarrow> \<not> executable
           | GuardReadFails \<Rightarrow> False
           | GuardContent content \<Rightarrow>
               CHR 0x00 \<in> set content \<or> (executable \<longleftrightarrow> has_prefix content ''#!'')))"

text \<open>
  Fact. The check of shebangs passes exactly when every file that is there, is a regular
  text file and can be read is executable if and only if it begins with \<open>#!\<close>.
\<close>

theorem shebang_exact:
  "EvaluateFileShebang W pol ctx = Inr [] \<longleftrightarrow>
   (\<forall>f \<in> set (ctx_files ctx). shebang_fits W (resolve_guard_path (ctx_cwd ctx) f))"
proof -
  have "shebang_file W pol cwd f = Inr [] \<longleftrightarrow> shebang_fits W (resolve_guard_path cwd f)" for cwd f
    by (auto simp: shebang_file_def shebang_fits_def is_regular_guard_file_def read_guard_text_def Let_def
        has_prefix_def split: guard_stat.split guard_read.split)
  then show ?thesis by (simp add: EvaluateFileShebang_def first_finding_passes)
qed

theorem shebang_exact_witness:
  "EvaluateFileShebang (sample_guard_world ''#!/bin/sh'') sample_commit_policy (empty_context\<lparr>ctx_files := [''a'']\<rparr>) \<noteq> Inr []"
  by (simp add: shebang_exact shebang_fits_def sample_guard_world_def empty_context_def)

text \<open>
  Fact. The check of local details passes exactly when no line before the first zero
  byte of a file that is not exempt matches, once the allowed details are taken out.
\<close>

theorem pii_exact:
  assumes "pii_patterns W (ctx_options ctx) = Inr patterns"
    and "compiled_patterns W (ctx_options ctx) ''allowed_patterns'' [''/home/agent/''] ''allowed PII'' = Inr allowed"
    and "\<And>f. f \<in> set (ctx_files ctx) \<Longrightarrow>
      (\<exists>x. gw_stat W (resolve_guard_path (ctx_cwd ctx) f) = GuardRegular x) \<and>
      gw_read W (resolve_guard_path (ctx_cwd ctx) f) = GuardContent (content f) \<and> lines_fit (content f)"
  shows "EvaluatePIIScrubber W pol ctx = Inr [] \<longleftrightarrow>
    (\<forall>f \<in> set (ctx_files ctx).
       has_configured_prefix f (string_slice_option (ctx_options ctx) ''exempt_prefixes'' []) \<or>
       repo_relative_hidden_directory f \<or>
       list_all (\<lambda>l. \<not> pii_line patterns allowed l) (visited_lines (content f)))"
proof -
  let ?exempt = "string_slice_option (ctx_options ctx) ''exempt_prefixes'' []"
  have "pii_file W patterns allowed ?exempt pol (ctx_cwd ctx) f = Inr [] \<longleftrightarrow>
      has_configured_prefix f ?exempt \<or> repo_relative_hidden_directory f \<or>
      list_all (\<lambda>l. \<not> pii_line patterns allowed l) (visited_lines (content f))"
    if "f \<in> set (ctx_files ctx)" for f
  proof -
    note h = assms(3) [OF that]
    then obtain x where w: "gw_stat W (resolve_guard_path (ctx_cwd ctx) f) = GuardRegular x"
      "gw_read W (resolve_guard_path (ctx_cwd ctx) f) = GuardContent (content f)" "lines_fit (content f)"
      by blast
    have m: "map_sum id snd r = Inr [] \<longleftrightarrow> r = Inr ((), [])" for r :: "guard_error + unit \<times> decision list"
      by (cases r) auto
    show ?thesis
      using w(3) scan_lines_none [of "raw_lines (content f)" "resolve_guard_path (ctx_cwd ctx) f"
          "pii_line patterns allowed" "\<lambda>n. file_guard_decision pol ''pii'' f n [] ''local machine detail detected''" 0]
      by (simp add: pii_file_def scan_guard_lines_def is_regular_guard_file_def w m lines_fit_def visited_lines_def
          cong: if_cong)
  qed
  then show ?thesis
    by (simp add: EvaluatePIIScrubber_def assms(1,2) first_finding_passes)
qed

text \<open>
  Fact. A missing licence file is reported as one that does not match: reading a missing
  file gives an empty text and no error, so that the message of the code for a missing file is never
  used.
\<close>

theorem missing_license_reported_as_mismatch:
  assumes "license_text_option (ctx_options ctx) ''expected_license_text'' = expected" "expected \<noteq> []"
    and "normalize_guard_license_text expected \<noteq> [CHR 0x0A]"
    and "gw_stat W (resolve_guard_path (ctx_cwd ctx)
      (string_option_default (ctx_options ctx) ''license_file'' ''LICENSE'')) = GuardMissing"
  shows "\<exists>d. EvaluateLicenseHeader W pol ctx = Inr [d] \<and> map diag_message (dec_diagnostics d) =
    [''LICENSE does not match the configured SPDX license text'']"
proof -
  have "normalize_guard_license_text [] = [CHR 0x0A]" by code_simp
  with assms show ?thesis
    by (simp add: EvaluateLicenseHeader_def evaluate_license_file_def read_guard_text_def
        is_regular_guard_file_def file_guard_decision_def Let_def)
qed

theorem missing_license_reported_as_mismatch_witness:
  "\<exists>d. EvaluateLicenseHeader ((sample_guard_world [])\<lparr>gw_stat := \<lambda>_. GuardMissing\<rparr>) sample_commit_policy
     (empty_context\<lparr>ctx_options := [(''expected_license_text'', AString ''MIT'')]\<rparr>) = Inr [d] \<and>
   map diag_message (dec_diagnostics d) = [''LICENSE does not match the configured SPDX license text'']"
proof (rule missing_license_reported_as_mismatch)
  show "license_text_option (ctx_options (empty_context\<lparr>ctx_options :=
      [(''expected_license_text'', AString ''MIT'')]\<rparr>)) ''expected_license_text'' = ''MIT''"
    "normalize_guard_license_text ''MIT'' \<noteq> [CHR 0x0A]"
    by code_simp+
qed (simp_all add: sample_guard_world_def)

end
