(* ===== verification/Runes.thy ===== *)
theory Runes
  imports Paths Shellparse
begin

text \<open>
  The characters of a Go string: what a \<open>range\<close> over it and the conversions between strings and
  runes see, with the facts that an ASCII character is itself and nothing else is.
\<close>

section \<open>The characters of a string\<close>

text \<open>The characters of a string, each as the string of its code point.\<close>

function runes :: "string \<Rightarrow> string list" where
  "runes s =
     (if s = [] then []
      else utf8_encode (fst (decode_rune s)) # runes (drop (snd (decode_rune s)) s))"
  by pat_completeness auto
termination
proof (relation "measure length", goal_cases)
  case (2 s)
  then show ?case using decode_rune_width [of s] by (cases s) auto
qed simp

declare runes.simps [simp del]

section \<open>Decoding\<close>

text \<open>The four forms of a character: one byte, or a lead byte with one to three continuation bytes.\<close>

lemma decode_rune_one:
  "\<not> in_range 194 223 a \<Longrightarrow> \<not> in_range 224 239 a \<Longrightarrow> \<not> in_range 240 244 a \<Longrightarrow>
   decode_rune (a # r) = (if in_range 0 127 a then of_char a else rune_error, 1)"
  by (simp add: decode_rune_def)

lemma decode_rune_two:
  "in_range 194 223 a \<Longrightarrow> decode_rune (a # r) =
     (case r of b # _ \<Rightarrow> if in_range 128 191 b
        then (((of_char a :: nat) mod 32) * 64 + cont_bits b, 2) else (rune_error, 1)
      | [] \<Rightarrow> (rune_error, 1))"
  by (simp add: decode_rune_def in_range_def)

lemma decode_rune_three:
  "in_range 224 239 a \<Longrightarrow> decode_rune (a # r) =
     (case r of b # c # _ \<Rightarrow>
        if in_range (if a = CHR 0xE0 then 160 else 128) (if a = CHR 0xED then 159 else 191) b \<and> in_range 128 191 c
        then (((of_char a :: nat) mod 16) * 4096 + cont_bits b * 64 + cont_bits c, 3) else (rune_error, 1)
      | _ \<Rightarrow> (rune_error, 1))"
  by (simp add: decode_rune_def in_range_def)

lemma decode_rune_four:
  "in_range 240 244 a \<Longrightarrow> decode_rune (a # r) =
     (case r of b # c # d # _ \<Rightarrow>
        if in_range (if a = CHR 0xF0 then 144 else 128) (if a = CHR 0xF4 then 143 else 191) b \<and>
           in_range 128 191 c \<and> in_range 128 191 d
        then (((of_char a :: nat) mod 8) * 262144 + cont_bits b * 4096 + cont_bits c * 64 + cont_bits d, 4)
        else (rune_error, 1)
      | _ \<Rightarrow> (rune_error, 1))"
  by (simp add: decode_rune_def in_range_def)

lemma lead_byte_cases:
  obtains (one) "\<not> in_range 194 223 a" "\<not> in_range 224 239 a" "\<not> in_range 240 244 a"
  | (two) "in_range 194 223 a" | (three) "in_range 224 239 a" | (four) "in_range 240 244 a"
  by blast

lemma decode_rune_cases:
  "snd (decode_rune s) \<le> 1 \<or>
   (\<exists>a b r. s = a # b # r \<and> snd (decode_rune s) = 2 \<and> in_range 128 191 b) \<or>
   (\<exists>a b c r. s = a # b # c # r \<and> snd (decode_rune s) = 3 \<and> in_range 128 191 b \<and> in_range 128 191 c) \<or>
   (\<exists>a b c d r. s = a # b # c # d # r \<and> snd (decode_rune s) = 4 \<and> in_range 128 191 b \<and>
      in_range 128 191 c \<and> in_range 128 191 d)"
proof (cases s)
  case Nil
  then show ?thesis by (simp add: decode_rune_def)
next
  case (Cons a r)
  show ?thesis
  proof (cases a rule: lead_byte_cases)
    case one
    then show ?thesis by (simp add: Cons decode_rune_one)
  next
    case two
    then show ?thesis by (simp add: Cons decode_rune_two split: list.split)
  next
    case three
    define lo hi where "lo = (if a = CHR 0xE0 then 160 else 128 :: nat)"
      and "hi = (if a = CHR 0xED then 159 else 191 :: nat)"
    have "in_range lo hi b \<Longrightarrow> in_range 128 191 b" for b
      by (auto simp: in_range_def lo_def hi_def split: if_splits)
    then show ?thesis
      by (auto simp: Cons decode_rune_three [OF three, folded lo_def hi_def] split: list.split)
  next
    case four
    define lo hi where "lo = (if a = CHR 0xF0 then 144 else 128 :: nat)"
      and "hi = (if a = CHR 0xF4 then 143 else 191 :: nat)"
    have "in_range lo hi b \<Longrightarrow> in_range 128 191 b" for b
      by (auto simp: in_range_def lo_def hi_def split: if_splits)
    then show ?thesis
      by (auto simp: Cons decode_rune_four [OF four, folded lo_def hi_def] split: list.split)
  qed
qed

lemma decode_rune_continuation:
  assumes "i < snd (decode_rune s)" and "0 < i"
  shows "i < length s \<and> 128 \<le> (of_char (s ! i) :: nat)"
  using decode_rune_cases [of s]
proof (elim disjE exE conjE)
  fix a b r
  assume "s = a # b # r" "snd (decode_rune s) = 2" "in_range 128 191 b"
  moreover from this assms have "i = 1" by simp
  ultimately show ?thesis by (simp add: in_range_def)
next
  fix a b c r
  assume "s = a # b # c # r" "snd (decode_rune s) = 3" "in_range 128 191 b" "in_range 128 191 c"
  moreover from this assms have "i = 1 \<or> i = 2" by auto
  ultimately show ?thesis by (auto simp: in_range_def)
next
  fix a b c d r
  assume "s = a # b # c # d # r" "snd (decode_rune s) = 4" "in_range 128 191 b" "in_range 128 191 c"
    "in_range 128 191 d"
  moreover from this assms have "i = 1 \<or> i = 2 \<or> i = 3" by auto
  ultimately show ?thesis by (auto simp: in_range_def)
qed (use assms in simp)

lemma mod_block:
  assumes "(m :: nat) \<le> x" "x < m + k" "k dvd m"
  shows "x mod k = x - m"
proof -
  obtain q where m: "m = k * q" using assms(3) by blast
  have "x mod k = (x - m + k * q) mod k" using assms(1) m by simp
  also have "\<dots> = (x - m) mod k" by simp
  finally show ?thesis using assms(1,2) by simp
qed

lemma two_byte_large:
  assumes "194 \<le> x" "x \<le> 223" shows "128 \<le> (x :: nat) mod 32 * 64 + y"
  using assms mod_block [of 192 x 32] by simp

lemma three_byte_large:
  assumes "224 \<le> x" "x \<le> 239" "x = 224 \<longrightarrow> 160 \<le> b" "b \<le> 191"
  shows "128 \<le> (x :: nat) mod 16 * 4096 + b mod 64 * 64 + y"
proof (cases "x = 224")
  case True
  then have "b mod 64 = b - 128" using assms by (intro mod_block) simp_all
  then show ?thesis using True assms by simp
next
  case False
  then have "x mod 16 = x - 224" using assms by (intro mod_block) simp_all
  then show ?thesis using False assms by linarith
qed

lemma four_byte_large:
  assumes "240 \<le> x" "x \<le> 244" "x = 240 \<longrightarrow> 144 \<le> b" "b \<le> 191"
  shows "128 \<le> (x :: nat) mod 8 * 262144 + b mod 64 * 4096 + y"
proof (cases "x = 240")
  case True
  then have "b mod 64 = b - 128" using assms by (intro mod_block) simp_all
  then show ?thesis using True assms by simp
next
  case False
  then have "x mod 8 = x - 240" using assms by (intro mod_block) simp_all
  then show ?thesis using False assms by linarith
qed

lemma of_char_eq_code: "(of_char a :: nat) = of_char c \<longleftrightarrow> a = c"
  by simp

lemma decode_rune_large:
  assumes "\<not> in_range 0 127 a"
  shows "128 \<le> fst (decode_rune (a # r))"
proof (cases a rule: lead_byte_cases)
  case one
  with assms show ?thesis by (simp add: decode_rune_one rune_error_def)
next
  case two
  then have "128 \<le> (of_char a :: nat) mod 32 * 64 + y" for y
    by (simp add: in_range_def two_byte_large)
  then show ?thesis
    by (simp add: decode_rune_two [OF two] rune_error_def split: list.split)
next
  case three
  define lo hi where "lo = (if a = CHR 0xE0 then 160 else 128 :: nat)"
    and "hi = (if a = CHR 0xED then 159 else 191 :: nat)"
  have "128 \<le> (of_char a :: nat) mod 16 * 4096 + cont_bits b * 64 + y"
    if "in_range lo hi b" for b y
  proof -
    have "(of_char a :: nat) = 224 \<longrightarrow> 160 \<le> (of_char b :: nat)"
      using that of_char_eq_code [of a "CHR 0xE0"] by (simp add: in_range_def lo_def split: if_splits)
    moreover have "(of_char b :: nat) \<le> 191" using that by (simp add: in_range_def hi_def split: if_splits)
    ultimately show ?thesis
      using three unfolding cont_bits_def by (simp add: in_range_def three_byte_large)
  qed
  then show ?thesis
    by (simp add: decode_rune_three [OF three, folded lo_def hi_def] rune_error_def split: list.split)
next
  case four
  define lo hi where "lo = (if a = CHR 0xF0 then 144 else 128 :: nat)"
    and "hi = (if a = CHR 0xF4 then 143 else 191 :: nat)"
  have "128 \<le> (of_char a :: nat) mod 8 * 262144 + cont_bits b * 4096 + y"
    if "in_range lo hi b" for b y
  proof -
    have "(of_char a :: nat) = 240 \<longrightarrow> 144 \<le> (of_char b :: nat)"
      using that of_char_eq_code [of a "CHR 0xF0"] by (simp add: in_range_def lo_def split: if_splits)
    moreover have "(of_char b :: nat) \<le> 191" using that by (simp add: in_range_def hi_def split: if_splits)
    ultimately show ?thesis
      using four unfolding cont_bits_def by (simp add: in_range_def four_byte_large)
  qed
  then show ?thesis
    by (simp add: decode_rune_four [OF four, folded lo_def hi_def] rune_error_def add.assoc split: list.split)
qed

section \<open>ASCII characters\<close>

lemma utf8_encode_ascii: "r < 128 \<Longrightarrow> utf8_encode r = [char_of r]"
  by (simp add: utf8_encode_def)

lemma utf8_encode_ascii_iff: "in_range 0 127 c \<Longrightarrow> utf8_encode r = [c] \<longleftrightarrow> r = of_char c"
  by (auto simp: utf8_encode_def in_range_def)

lemma ascii_in_runes:
  assumes "in_range 0 127 c"
  shows "[c] \<in> set (runes s) \<longleftrightarrow> c \<in> set s"
proof (induction s rule: runes.induct)
  case (1 s)
  show ?case
  proof (cases s)
    case Nil
    then show ?thesis by (simp add: runes.simps)
  next
    case (Cons a r)
    let ?w = "snd (decode_rune s)"
    have IH: "[c] \<in> set (runes (drop ?w s)) \<longleftrightarrow> c \<in> set (drop ?w s)"
      using 1 Cons by simp
    have head: "utf8_encode (fst (decode_rune s)) = [c] \<longleftrightarrow> a = c"
    proof (cases "in_range 0 127 a")
      case True
      then show ?thesis
        using assms by (simp add: Cons decode_rune_ascii utf8_encode_ascii_iff)
    next
      case False
      then have "fst (decode_rune s) \<noteq> of_char c"
        using decode_rune_large [OF False, of r] assms by (auto simp: Cons in_range_def)
      then show ?thesis
        using assms False by (auto simp: utf8_encode_ascii_iff)
    qed
    have w: "1 \<le> ?w" using decode_rune_width Cons by blast
    have "c \<in> set (take ?w s) \<longleftrightarrow> a = c"
    proof
      assume "c \<in> set (take ?w s)"
      then obtain i where i: "i < ?w" "i < length s" "s ! i = c" by (auto simp: in_set_conv_nth)
      then show "a = c"
        using decode_rune_continuation [of i s] assms by (cases i) (auto simp: Cons in_range_def)
    qed (use w Cons in \<open>auto simp: take_Cons'\<close>)
    moreover have "c \<in> set s \<longleftrightarrow> c \<in> set (take ?w s) \<or> c \<in> set (drop ?w s)"
      by (metis Un_iff append_take_drop_id set_append)
    moreover have "runes s = utf8_encode (fst (decode_rune s)) # runes (drop ?w s)"
      using Cons by (subst runes.simps) simp
    ultimately show ?thesis using head IH by auto
  qed
qed

lemma runes_ascii: "list_all (in_range 0 127) s \<Longrightarrow> runes s = map (\<lambda>c. [c]) s"
proof (induction s)
  case (Cons c s)
  then show ?case
    by (subst runes.simps) (simp add: decode_rune_ascii utf8_encode_ascii_iff [of c, THEN iffD2])
qed (simp add: runes.simps)

lemma runes_length: "w \<in> set (runes s) \<Longrightarrow> length w \<le> 4"
proof (induction s rule: runes.induct)
  case (1 s)
  then show ?case
    by (subst (asm) (2) runes.simps) (auto simp: utf8_encode_length split: if_splits)
qed

end
