(* ===== verification/CelGit.thy ===== *)
theory CelGit
  imports Runes
begin

text \<open>
  The Git facts of the expression policies: \<open>go/internal/celexpr/shell_git_inputs.go\<close> and
  \<open>gitCommandInput\<close> of \<open>inputs.go\<close> read an argument vector into the record \<open>git_command\<close> that the
  policies on destructive commands, history rewriting, force pushes and protected branches test.
\<close>

section \<open>Words and tools\<close>

text \<open>\<open>strings.Trim(token, "\"'")\<close>.\<close>

definition trim_quotes :: "string \<Rightarrow> string" where
  "trim_quotes s =
     rev (dropWhile (\<lambda>c. c = CHR 0x22 \<or> c = CHR 0x27)
       (rev (dropWhile (\<lambda>c. c = CHR 0x22 \<or> c = CHR 0x27) s)))"

definition command_token_matches_tool :: "string \<Rightarrow> string \<Rightarrow> bool" where
  "command_token_matches_tool token tool =
     (let trimmed = trim_quotes token
      in trimmed \<noteq> [] \<and> (trimmed = tool \<or> has_suffix trimmed (''/'' @ tool)))"

definition name_char :: "char \<Rightarrow> bool" where
  "name_char c \<longleftrightarrow> c = CHR ''_'' \<or> (CHR ''A'' \<le> c \<and> c \<le> CHR ''Z'') \<or> (CHR ''a'' \<le> c \<and> c \<le> CHR ''z'') \<or>
     (CHR ''0'' \<le> c \<and> c \<le> CHR ''9'')"

text \<open>Unlike the evaluators, this one takes an assignment of the empty string for an assignment.\<close>

definition cel_shell_assignment :: "string \<Rightarrow> bool" where
  "cel_shell_assignment arg =
     (case str_cut arg ''='' of (name, _, ok) \<Rightarrow> ok \<and> name \<noteq> [] \<and> list_all name_char name)"

definition cel_strip_assignments :: "string list \<Rightarrow> string list" where
  "cel_strip_assignments argv = dropWhile cel_shell_assignment argv"

section \<open>The parts of a git command\<close>

definition git_global_option_has_value :: "string \<Rightarrow> bool" where
  "git_global_option_has_value arg \<longleftrightarrow>
     \<not> str_contains arg ''='' \<and>
     arg \<in> {''-C'', ''-c'', ''--git-dir'', ''--work-tree'', ''--namespace'', ''--exec-path'', ''--config-env''}"

text \<open>The index counts from the word after \<open>git\<close>, which the code has at index 1.\<close>

function git_subcommand_from :: "nat \<Rightarrow> string list \<Rightarrow> nat option" where
  "git_subcommand_from idx [] = None"
| "git_subcommand_from idx (arg # rest) =
     (if arg = ''--'' then None
      else if arg = [] then git_subcommand_from (idx + 1) rest
      else if \<not> has_prefix arg ''-'' then Some idx
      else if git_global_option_has_value arg \<and> rest \<noteq> [] then git_subcommand_from (idx + 2) (tl rest)
      else git_subcommand_from (idx + 1) rest)"
  by pat_completeness auto
termination by (relation "measure (\<lambda>(idx, args). length args)") auto

definition git_subcommand_index :: "string list \<Rightarrow> nat option" where
  "git_subcommand_index argv = git_subcommand_from 1 (drop 1 argv)"

function git_global_options :: "string list \<Rightarrow> string list" where
  "git_global_options [] = []"
| "git_global_options (arg # rest) =
     (if arg = [] then git_global_options rest
      else if \<not> has_prefix arg ''-'' then []
      else if git_global_option_has_value arg \<and> rest \<noteq> []
        then arg # hd rest # git_global_options (tl rest)
      else arg # git_global_options rest)"
  by pat_completeness auto
termination by (relation "measure length") auto

fun unique_strings_from :: "string set \<Rightarrow> string list \<Rightarrow> string list" where
  "unique_strings_from seen [] = []"
| "unique_strings_from seen (v # vs) =
     (if v = [] \<or> v \<in> seen then unique_strings_from seen vs
      else v # unique_strings_from (insert v seen) vs)"

definition unique_strings :: "string list \<Rightarrow> string list" where
  "unique_strings values = unique_strings_from {} values"

text \<open>An option and, when it is short, each of the letters it bundles.\<close>

definition option_flags :: "string \<Rightarrow> string list" where
  "option_flags arg =
     (if \<not> has_prefix arg ''-'' then []
      else if has_prefix arg ''--'' then [arg]
      else arg # map (\<lambda>r. ''-'' @ r) (runes (trim_prefix arg ''-'')))"

definition git_flags :: "string list \<Rightarrow> string list" where
  "git_flags args = unique_strings (concat (map option_flags (takeWhile (\<lambda>a. a \<noteq> ''--'') args)))"

definition git_arg_option_has_value :: "string \<Rightarrow> bool" where
  "git_arg_option_has_value arg \<longleftrightarrow>
     \<not> str_contains arg ''='' \<and>
     arg \<in> {''-m'', ''-F'', ''-X'', ''-C'', ''-c'', ''-b'', ''-B'', ''--message'', ''--file'', ''--branch'',
            ''--orphan'', ''--strategy-option'', ''--strategy'', ''--pathspec-from-file''}"

fun git_targets :: "bool \<Rightarrow> string list \<Rightarrow> string list" where
  "git_targets skip [] = []"
| "git_targets True (arg # args) = git_targets False args"
| "git_targets False (arg # args) =
     (if arg = ''--'' then git_targets False args
      else if git_arg_option_has_value arg then git_targets True args
      else if has_prefix arg ''-'' then git_targets False args
      else arg # git_targets False args)"

text \<open>
  \<open>checkoutBranchTargets\<close> and \<open>switchBranchTargets\<close>. The start point behind the name of a new branch is
  appended there, and again as an argument of its own.
\<close>

definition start_point :: "string list \<Rightarrow> string list" where
  "start_point args = (case args of s # _ \<Rightarrow> if has_prefix s ''-'' then [] else [s] | [] \<Rightarrow> [])"

fun checkout_branch_targets :: "string list \<Rightarrow> string list" where
  "checkout_branch_targets [] = []"
| "checkout_branch_targets (arg # args) =
     (if arg = ''-b'' \<or> arg = ''-B'' then
        (case args of [] \<Rightarrow> [] | name # rest \<Rightarrow> name # start_point rest @ checkout_branch_targets rest)
      else if arg = ''--branch'' \<or> arg = ''--orphan'' then
        (case args of [] \<Rightarrow> [] | name # rest \<Rightarrow> name # checkout_branch_targets rest)
      else if has_prefix arg ''-'' then checkout_branch_targets args
      else arg # checkout_branch_targets args)"

fun switch_branch_targets :: "string list \<Rightarrow> string list" where
  "switch_branch_targets [] = []"
| "switch_branch_targets (arg # args) =
     (if arg \<in> {''-c'', ''-C'', ''--create'', ''--force-create''} then
        (case args of [] \<Rightarrow> [] | name # rest \<Rightarrow> name # start_point rest @ switch_branch_targets rest)
      else if has_prefix arg ''-'' then switch_branch_targets args
      else arg # switch_branch_targets args)"

definition git_command_targets :: "string \<Rightarrow> string list \<Rightarrow> string list" where
  "git_command_targets subcommand args =
     (if subcommand = ''checkout'' then checkout_branch_targets args
      else if subcommand = ''switch'' then switch_branch_targets args
      else git_targets False args)"

section \<open>Protected branches\<close>

definition protected_or_default :: "string list \<Rightarrow> string list" where
  "protected_or_default branches = (if branches = [] then [''main'', ''master''] else branches)"

definition git_protected_branch_ref :: "string \<Rightarrow> string list \<Rightarrow> bool" where
  "git_protected_branch_ref v branches \<longleftrightarrow>
     v \<noteq> [] \<and> list_ex (\<lambda>b. v = b \<or> v = ''origin/'' @ b \<or> v = ''remotes/origin/'' @ b) (protected_or_default branches)"

definition git_local_protected_branch_ref :: "string \<Rightarrow> string list \<Rightarrow> bool" where
  "git_local_protected_branch_ref v branches \<longleftrightarrow> v \<noteq> [] \<and> v \<in> set (protected_or_default branches)"

definition git_targets_contain_local_protected :: "string list \<Rightarrow> string list \<Rightarrow> bool" where
  "git_targets_contain_local_protected targets branches =
     list_ex (\<lambda>t. git_local_protected_branch_ref t branches) targets"

section \<open>What a command would destroy\<close>

definition git_clean_force_delete :: "string list \<Rightarrow> bool" where
  "git_clean_force_delete flags \<longleftrightarrow> (''--force'' \<in> set flags \<or> ''-f'' \<in> set flags) \<and> ''-d'' \<in> set flags"

fun git_reset_targets :: "bool \<Rightarrow> string list \<Rightarrow> string list" where
  "git_reset_targets skip [] = []"
| "git_reset_targets True (arg # args) = git_reset_targets False args"
| "git_reset_targets False (arg # args) =
     (if arg = [] \<or> arg = ''HEAD'' then git_reset_targets False args
      else if git_arg_option_has_value arg then git_reset_targets True args
      else if has_prefix arg ''-'' then git_reset_targets False args
      else arg # git_reset_targets False args)"

definition git_looks_like_sha :: "string \<Rightarrow> bool" where
  "git_looks_like_sha v \<longleftrightarrow>
     7 \<le> length v \<and> length v \<le> 40 \<and>
     list_all (\<lambda>c. (CHR ''0'' \<le> c \<and> c \<le> CHR ''9'') \<or> (CHR ''a'' \<le> c \<and> c \<le> CHR ''f'') \<or>
       (CHR ''A'' \<le> c \<and> c \<le> CHR ''F'')) v"

definition git_reset_target_looks_like_commit :: "string \<Rightarrow> bool" where
  "git_reset_target_looks_like_commit target \<longleftrightarrow>
     target \<noteq> [] \<and> target \<noteq> ''HEAD'' \<and> target \<noteq> ''@'' \<and>
     (contains_any target ''~^'' \<or> has_prefix target ''refs/'' \<or> git_looks_like_sha target)"

definition git_branch_rewrite_reset :: "string \<Rightarrow> string list \<Rightarrow> string list \<Rightarrow> bool" where
  "git_branch_rewrite_reset subcommand args branches \<longleftrightarrow>
     subcommand = ''reset'' \<and> ''--'' \<notin> set args \<and>
     (case git_reset_targets False args of
        [target] \<Rightarrow> git_reset_target_looks_like_commit target \<or> git_protected_branch_ref target branches
      | _ \<Rightarrow> False)"

definition git_forced_branch_move :: "string \<Rightarrow> string list \<Rightarrow> bool" where
  "git_forced_branch_move subcommand flags \<longleftrightarrow>
     subcommand = ''checkout'' \<and> ''-B'' \<in> set flags \<or>
     subcommand = ''branch'' \<and> (''-f'' \<in> set flags \<or> ''--force'' \<in> set flags)"

definition git_has_force_push :: "string list \<Rightarrow> bool" where
  "git_has_force_push flags \<longleftrightarrow>
     ''--force'' \<in> set flags \<or> ''--force-with-lease'' \<in> set flags \<or> ''-f'' \<in> set flags"

definition is_theirs_or_ours :: "string \<Rightarrow> bool" where
  "is_theirs_or_ours v \<longleftrightarrow> v = ''theirs'' \<or> v = ''ours''"

fun git_merge_strategy_shortcut :: "string list \<Rightarrow> bool" where
  "git_merge_strategy_shortcut [] = False"
| "git_merge_strategy_shortcut (arg # args) \<longleftrightarrow>
     arg = ''-X'' \<and> args \<noteq> [] \<and> is_theirs_or_ours (hd args) \<or>
     has_prefix arg ''-X'' \<and> is_theirs_or_ours (trim_prefix arg ''-X'') \<or>
     git_merge_strategy_shortcut args"

section \<open>The record of the policies\<close>

record git_command_input =
  gc_subcommand :: string
  gc_args :: "string list"
  gc_flags :: "string list"
  gc_global_options :: "string list"
  gc_targets :: "string list"
  gc_has_force_push :: bool
  gc_has_commit_amend :: bool
  gc_has_clean_force_delete :: bool
  gc_has_force_push_protected :: bool
  gc_has_branch_rewrite_reset :: bool
  gc_has_forced_branch_move :: bool
  gc_has_hard_reset :: bool
  gc_has_merge_strategy_shortcut :: bool
  gc_has_restore_pathspec :: bool
  gc_has_theirs_ours_checkout :: bool
  gc_is_git :: bool
  gc_has_checkout_protected_branch :: bool
  gc_has_change_dir :: bool

definition empty_git_command_input :: git_command_input where
  "empty_git_command_input =
     \<lparr>gc_subcommand = [], gc_args = [], gc_flags = [], gc_global_options = [], gc_targets = [],
      gc_has_force_push = False, gc_has_commit_amend = False, gc_has_clean_force_delete = False,
      gc_has_force_push_protected = False, gc_has_branch_rewrite_reset = False,
      gc_has_forced_branch_move = False, gc_has_hard_reset = False,
      gc_has_merge_strategy_shortcut = False, gc_has_restore_pathspec = False,
      gc_has_theirs_ours_checkout = False, gc_is_git = False,
      gc_has_checkout_protected_branch = False, gc_has_change_dir = False\<rparr>"

definition git_command_input_without_derived :: "string list \<Rightarrow> git_command_input" where
  "git_command_input_without_derived argv =
     (let normalized = cel_strip_assignments argv
      in if normalized = [] \<or> \<not> command_token_matches_tool (hd normalized) ''git''
         then empty_git_command_input
         else case git_subcommand_index normalized of
                None \<Rightarrow> empty_git_command_input
              | Some idx \<Rightarrow>
                  (let args = drop (idx + 1) normalized
                   in empty_git_command_input
                        \<lparr>gc_subcommand := normalized ! idx, gc_args := args, gc_flags := git_flags args,
                         gc_targets := git_command_targets (normalized ! idx) args, gc_is_git := True\<rparr>))"

definition git_force_push_protected_branch :: "string list \<Rightarrow> string list \<Rightarrow> bool" where
  "git_force_push_protected_branch argv branches =
     (let input = git_command_input_without_derived argv
      in gc_subcommand input = ''push'' \<and> git_has_force_push (gc_flags input) \<and>
         list_ex (\<lambda>a. git_protected_branch_ref a branches) (gc_args input))"

definition git_checkout_protected_branch :: "string list \<Rightarrow> string list \<Rightarrow> bool" where
  "git_checkout_protected_branch argv branches =
     (let input = git_command_input_without_derived argv
      in if gc_subcommand input = ''checkout''
           then git_targets_contain_local_protected (checkout_branch_targets (gc_args input)) branches
         else if gc_subcommand input = ''switch''
           then git_targets_contain_local_protected (switch_branch_targets (gc_args input)) branches
         else False)"

definition cel_git_command_input :: "string list \<Rightarrow> string list \<Rightarrow> git_command_input" where
  "cel_git_command_input argv branches =
     (let normalized = cel_strip_assignments argv
      in if normalized = [] \<or> \<not> command_token_matches_tool (hd normalized) ''git''
         then empty_git_command_input
         else case git_subcommand_index normalized of
                None \<Rightarrow> empty_git_command_input
                  \<lparr>gc_global_options := git_global_options (drop 1 normalized), gc_is_git := True,
                   gc_has_change_dir := ''-C'' \<in> set (drop 1 normalized)\<rparr>
              | Some idx \<Rightarrow>
                  (let sub = normalized ! idx;
                       args = drop (idx + 1) normalized;
                       flags = git_flags args;
                       globals = drop 1 (take idx normalized)
                   in \<lparr>gc_subcommand = sub, gc_args = args, gc_flags = flags,
                       gc_global_options = git_global_options globals,
                       gc_targets = git_command_targets sub args,
                       gc_has_force_push = (sub = ''push'' \<and> git_has_force_push flags),
                       gc_has_commit_amend = (sub = ''commit'' \<and> ''--amend'' \<in> set flags),
                       gc_has_clean_force_delete = git_clean_force_delete flags,
                       gc_has_force_push_protected = git_force_push_protected_branch normalized branches,
                       gc_has_branch_rewrite_reset = git_branch_rewrite_reset sub args branches,
                       gc_has_forced_branch_move = git_forced_branch_move sub flags,
                       gc_has_hard_reset = (sub = ''reset'' \<and> ''--hard'' \<in> set flags),
                       gc_has_merge_strategy_shortcut = git_merge_strategy_shortcut args,
                       gc_has_restore_pathspec = (sub = ''restore'' \<and> ''--'' \<in> set args),
                       gc_has_theirs_ours_checkout =
                         (sub = ''checkout'' \<and> (''--theirs'' \<in> set flags \<or> ''--ours'' \<in> set flags)),
                       gc_is_git = True,
                       gc_has_checkout_protected_branch = git_checkout_protected_branch normalized branches,
                       gc_has_change_dir = (''-C'' \<in> set globals)\<rparr>))"

section \<open>Finding the subcommand\<close>

text \<open>The global options git allows before the subcommand, as the code knows them.\<close>

inductive git_globals :: "string list \<Rightarrow> bool" where
  none: "git_globals []"
| plain: "git_globals gs \<Longrightarrow> has_prefix g ''-'' \<Longrightarrow> g \<noteq> ''--'' \<Longrightarrow> \<not> git_global_option_has_value g \<Longrightarrow>
    git_globals (g # gs)"
| valued: "git_globals gs \<Longrightarrow> git_global_option_has_value g \<Longrightarrow> git_globals (g # v # gs)"

lemma git_global_option_shape:
  "git_global_option_has_value g \<Longrightarrow> has_prefix g ''-'' \<and> g \<noteq> ''--'' \<and> g \<noteq> []"
  by (auto simp: git_global_option_has_value_def has_prefix_def)

lemma git_subcommand_after_globals:
  "git_globals gs \<Longrightarrow> sub \<noteq> [] \<Longrightarrow> \<not> has_prefix sub ''-'' \<Longrightarrow>
   git_subcommand_from i (gs @ sub # args) = Some (i + length gs)"
proof (induction arbitrary: i rule: git_globals.induct)
  case none
  then show ?case by (auto simp: has_prefix_def)
next
  case (plain gs g)
  then show ?case by (cases "g = []") simp_all
next
  case (valued gs g v)
  then show ?case using git_global_option_shape [OF valued(2)] by simp
qed

lemma cel_strip_assignments_append:
  "list_all cel_shell_assignment env \<Longrightarrow> \<not> cel_shell_assignment g \<Longrightarrow>
   cel_strip_assignments (env @ g # rest) = g # rest"
  by (induction env) (simp_all add: cel_strip_assignments_def)

text \<open>How a command line of git is laid out: assignments, the program, global options, subcommand.\<close>

definition git_line :: "string list \<Rightarrow> string \<Rightarrow> string list \<Rightarrow> string \<Rightarrow> bool" where
  "git_line env g globals sub \<longleftrightarrow>
     list_all cel_shell_assignment env \<and> \<not> cel_shell_assignment g \<and> command_token_matches_tool g ''git'' \<and>
     git_globals globals \<and> sub \<noteq> [] \<and> \<not> has_prefix sub ''-''"

lemma git_line_normalized:
  fixes args :: "string list"
  assumes "git_line env g globals sub"
  defines "normalized \<equiv> g # globals @ sub # args"
  shows "cel_strip_assignments (env @ normalized) = normalized" "cel_strip_assignments normalized = normalized"
    "command_token_matches_tool (hd normalized) ''git''"
    "git_subcommand_index normalized = Some (1 + length globals)"
    "normalized ! (1 + length globals) = sub" "drop (1 + length globals + 1) normalized = args"
  using assms cel_strip_assignments_append [of env g "globals @ sub # args"]
    cel_strip_assignments_append [of "[]" g "globals @ sub # args"]
  by (simp_all add: git_line_def git_subcommand_index_def git_subcommand_after_globals)

section \<open>Force pushes\<close>

lemma unique_strings_from_set: "set (unique_strings_from seen vs) = set vs - {[]} - seen"
  by (induction vs arbitrary: seen) auto

lemma unique_strings_set: "set (unique_strings vs) = set vs - {[]}"
  by (simp add: unique_strings_def unique_strings_from_set)

text \<open>The options that make a push a forced one for this code: the long ones by their name, the short
  ones with the letter in a bundle.\<close>

definition forcing :: "string \<Rightarrow> bool" where
  "forcing arg \<longleftrightarrow>
     arg = ''--force'' \<or> arg = ''--force-with-lease'' \<or>
     (has_prefix arg ''-'' \<and> \<not> has_prefix arg ''--'' \<and> CHR ''f'' \<in> set arg)"

lemma option_flags_forcing:
  "''--force'' \<in> set (option_flags arg) \<or> ''--force-with-lease'' \<in> set (option_flags arg) \<or>
   ''-f'' \<in> set (option_flags arg) \<longleftrightarrow> forcing arg"
proof (cases "has_prefix arg ''-'' \<and> \<not> has_prefix arg ''--''")
  case True
  then obtain rest where arg: "arg = CHR ''-'' # rest" by (auto simp: has_prefix_iff)
  have "[CHR ''f''] \<in> set (runes rest) \<longleftrightarrow> CHR ''f'' \<in> set rest"
    by (rule ascii_in_runes) (simp add: in_range_def)
  moreover have "''-force'' \<notin> set (runes rest)" "''-force-with-lease'' \<notin> set (runes rest)"
    using runes_length [of _ rest] by fastforce+
  ultimately show ?thesis
    using True by (auto simp: option_flags_def arg trim_prefix_def forcing_def image_iff)
next
  case False
  then show ?thesis by (auto simp: option_flags_def forcing_def has_prefix_def)
qed

lemma git_has_force_push_iff:
  "git_has_force_push (git_flags args) \<longleftrightarrow> list_ex forcing (takeWhile (\<lambda>a. a \<noteq> ''--'') args)"
proof -
  have "git_has_force_push (git_flags args) \<longleftrightarrow>
      (\<exists>a \<in> set (takeWhile (\<lambda>a. a \<noteq> ''--'') args). ''--force'' \<in> set (option_flags a) \<or>
        ''--force-with-lease'' \<in> set (option_flags a) \<or> ''-f'' \<in> set (option_flags a))"
    by (auto simp: git_has_force_push_def git_flags_def unique_strings_set)
  then show ?thesis by (simp add: option_flags_forcing list_ex_iff)
qed

lemma force_push_protected_spec:
  assumes "git_line env g globals ''push''"
  shows "gc_has_force_push_protected (cel_git_command_input (env @ g # globals @ ''push'' # args) branches) \<longleftrightarrow>
    list_ex forcing (takeWhile (\<lambda>a. a \<noteq> ''--'') args) \<and> list_ex (\<lambda>a. git_protected_branch_ref a branches) args"
  using git_line_normalized [OF assms, of args]
  by (simp add: cel_git_command_input_def git_force_push_protected_branch_def Let_def
      git_command_input_without_derived_def git_has_force_push_iff empty_git_command_input_def)

text \<open>
  Property C35. Which force pushes the policy on protected branches sees: whatever assignments
  stand in front, however the program is spelled and whatever global options precede the subcommand,
  a push is reported exactly when an option before \<open>--\<close> forces it, alone or in a bundle, and some
  argument is the bare name of a protected branch.
\<close>

theorem force_push_protected_exact:
  assumes "git_line env g globals ''push''"
  shows "gc_has_force_push_protected (cel_git_command_input (env @ g # globals @ ''push'' # args) branches) \<longleftrightarrow>
    list_ex forcing (takeWhile (\<lambda>a. a \<noteq> ''--'') args) \<and> list_ex (\<lambda>a. git_protected_branch_ref a branches) args"
  using assms by (rule force_push_protected_spec)

lemma sample_git_line: "git_line [''A=''] ''/usr/bin/git'' [''-C'', ''/r'', ''--no-pager''] ''push''"
proof -
  have "git_globals [''--no-pager'']"
    by (rule git_globals.plain [OF git_globals.none]) code_simp+
  then have "git_globals [''-C'', ''/r'', ''--no-pager'']"
    by (rule git_globals.valued) code_simp
  moreover have "list_all cel_shell_assignment [''A='']" "\<not> cel_shell_assignment ''/usr/bin/git''"
    "command_token_matches_tool ''/usr/bin/git'' ''git''"
    by code_simp+
  ultimately show ?thesis by (simp add: git_line_def)
qed

theorem force_push_protected_exact_witness:
  "gc_has_force_push_protected (cel_git_command_input
     ([''A=''] @ ''/usr/bin/git'' # [''-C'', ''/r'', ''--no-pager''] @ ''push'' # [''-uf'', ''origin'', ''main'']) [])"
  by (rule force_push_protected_exact [OF sample_git_line, THEN iffD2]) code_simp

lemma plain_line: "sub \<noteq> [] \<Longrightarrow> \<not> has_prefix sub ''-'' \<Longrightarrow> git_line [] ''git'' [] sub"
proof -
  assume "sub \<noteq> []" "\<not> has_prefix sub ''-''"
  moreover have "\<not> cel_shell_assignment ''git''" "command_token_matches_tool ''git'' ''git''"
    by code_simp+
  ultimately show ?thesis by (simp add: git_line_def git_globals.none)
qed

text \<open>
  Fact. Two documented ways to force a push escape the policies on force pushes and history
  rewriting: a refspec with a leading \<open>+\<close>, and the option \<open>--force-with-lease\<close> with the value
  that git recommends. Neither \<open>has_force_push\<close> nor \<open>has_force_push_protected\<close> is set, whatever
  the remote, the branches and the value.
\<close>

theorem forced_pushes_missed:
  assumes "\<not> has_prefix remote ''-''" and "\<not> has_prefix ref ''-''"
  shows "let by_refspec = cel_git_command_input [''git'', ''push'', remote, CHR ''+'' # ref] branches;
      by_lease = cel_git_command_input [''git'', ''push'', ''--force-with-lease='' @ lease, remote, ref] branches
    in \<not> gc_has_force_push by_refspec \<and> \<not> gc_has_force_push_protected by_refspec \<and>
       \<not> gc_has_force_push by_lease \<and> \<not> gc_has_force_push_protected by_lease"
proof -
  define by_refspec by_lease where
    "by_refspec = cel_git_command_input [''git'', ''push'', remote, CHR ''+'' # ref] branches" and
    "by_lease = cel_git_command_input [''git'', ''push'', ''--force-with-lease='' @ lease, remote, ref] branches"
  have line: "git_line [] ''git'' [] ''push''" by (rule plain_line) simp_all
  have free: "\<not> forcing remote" "\<not> forcing ref" "\<not> forcing (CHR ''+'' # ref)"
    "\<not> forcing (''--force-with-lease='' @ lease)"
    using assms(1,2) by (auto simp: forcing_def has_prefix_def)
  then have none: "\<not> list_ex forcing (takeWhile (\<lambda>a. a \<noteq> ''--'') [remote, CHR ''+'' # ref])"
    "\<not> list_ex forcing (takeWhile (\<lambda>a. a \<noteq> ''--'') [''--force-with-lease='' @ lease, remote, ref])"
    by (simp_all add: list_ex_iff) (metis set_takeWhileD)+
  note n = git_line_normalized [OF line]
  have "\<not> gc_has_force_push by_refspec" "\<not> gc_has_force_push by_lease"
    using none n [of "[remote, CHR ''+'' # ref]"] n [of "[''--force-with-lease='' @ lease, remote, ref]"]
    unfolding by_refspec_def by_lease_def
    by (simp_all add: cel_git_command_input_def Let_def git_has_force_push_iff)
  moreover have "\<not> gc_has_force_push_protected by_refspec" "\<not> gc_has_force_push_protected by_lease"
    using none force_push_protected_spec [OF line, of _ branches]
    unfolding by_refspec_def by_lease_def by simp_all
  ultimately show ?thesis unfolding by_refspec_def by_lease_def Let_def by blast
qed

theorem forced_pushes_missed_witness:
  "\<not> gc_has_force_push_protected (cel_git_command_input [''git'', ''push'', ''origin'', ''+main''] [])"
  using forced_pushes_missed [of "''origin''" "''main''" "[]" "[]"]
  by (simp add: has_prefix_def Let_def)

section \<open>Checkouts of protected branches\<close>

text \<open>
  What the two scans for targets share: an operand is a target, an option is skipped or takes the
  name of a branch, behind which a start point may follow.
\<close>

locale branch_scan =
  fixes targets :: "string list \<Rightarrow> string list"
  assumes targets_Nil: "targets [] = []"
    and targets_operand: "\<not> has_prefix arg ''-'' \<Longrightarrow> targets (arg # args) = arg # targets args"
    and targets_option: "has_prefix arg ''-'' \<Longrightarrow> targets (arg # args) = targets args \<or>
      (args = [] \<and> targets (arg # args) = []) \<or>
      (\<exists>name rest extra. args = name # rest \<and> targets (arg # args) = name # extra @ targets rest \<and>
         set extra \<subseteq> set rest)"
begin

lemma targets_subset: "set (targets args) \<subseteq> set args"
proof (induction args rule: length_induct)
  case (1 args)
  show ?case
  proof (cases args)
    case Nil
    then show ?thesis by (simp add: targets_Nil)
  next
    case (Cons arg rest)
    have IH: "set (targets xs) \<subseteq> set xs" if "length xs < length args" for xs using 1 that by blast
    show ?thesis
    proof (cases "has_prefix arg ''-''")
      case True
      from targets_option [OF True, of rest] show ?thesis
        using IH [of rest] IH [of "tl rest"] unfolding Cons by auto
    next
      case False
      then show ?thesis using IH [of rest] by (auto simp: Cons targets_operand)
    qed
  qed
qed

lemma targets_operands:
  assumes "\<not> has_prefix a ''-''"
  shows "a \<in> set args \<Longrightarrow> a \<in> set (targets args)"
proof (induction args rule: length_induct)
  case (1 args)
  then obtain arg rest where args: "args = arg # rest" by (cases args) auto
  have IH: "a \<in> set xs \<Longrightarrow> a \<in> set (targets xs)" if "length xs < length args" for xs using 1 that by blast
  show ?case
  proof (cases "has_prefix arg ''-''")
    case True
    then have "a \<in> set rest" using 1(2) assms by (auto simp: args)
    with targets_option [OF True, of rest] show ?thesis
      using IH [of rest] IH [of "tl rest"] unfolding args by auto
  next
    case False
    then show ?thesis using IH [of rest] 1(2) by (auto simp: args targets_operand)
  qed
qed

lemma targets_protected:
  assumes "\<And>b. b \<in> set (protected_or_default branches) \<Longrightarrow> \<not> has_prefix b ''-''"
  shows "git_targets_contain_local_protected (targets args) branches \<longleftrightarrow>
    (\<exists>b \<in> set (protected_or_default branches). b \<noteq> [] \<and> b \<in> set args)"
  using targets_subset [of args] targets_operands [of _ args] assms
  by (auto simp: git_targets_contain_local_protected_def list_ex_iff git_local_protected_branch_ref_def)

end

lemma start_point_subset: "set (start_point args) \<subseteq> set args"
  by (auto simp: start_point_def split: list.splits if_splits)

declare checkout_branch_targets.simps(2) [simp del] switch_branch_targets.simps(2) [simp del]

interpretation checkout: branch_scan checkout_branch_targets
proof (unfold_locales, goal_cases)
  case (2 arg args)
  then have "arg \<notin> {''-b'', ''-B'', ''--branch'', ''--orphan''}" by (auto simp: has_prefix_def)
  with 2 show ?case by (simp add: checkout_branch_targets.simps(2) [of arg])
next
  case (3 arg args)
  show ?case
  proof (cases "arg \<in> {''-b'', ''-B'', ''--branch'', ''--orphan''} \<and> args \<noteq> []")
    case True
    then obtain name rest where args: "args = name # rest" by (cases args) auto
    then have "checkout_branch_targets (arg # args) = name # (if arg = ''-b'' \<or> arg = ''-B'' then start_point rest else []) @ checkout_branch_targets rest"
      using True by (auto simp: checkout_branch_targets.simps(2) [of arg])
    moreover have "set (if arg = ''-b'' \<or> arg = ''-B'' then start_point rest else []) \<subseteq> set rest" using start_point_subset by auto
    ultimately show ?thesis using args by blast
  next
    case False
    with 3 show ?thesis by (auto simp: checkout_branch_targets.simps(2) [of arg])
  qed
qed simp

interpretation switch: branch_scan switch_branch_targets
proof (unfold_locales, goal_cases)
  case (2 arg args)
  then have "arg \<notin> {''-c'', ''-C'', ''--create'', ''--force-create''}" by (auto simp: has_prefix_def)
  with 2 show ?case by (simp add: switch_branch_targets.simps(2) [of arg])
next
  case (3 arg args)
  show ?case
  proof (cases "arg \<in> {''-c'', ''-C'', ''--create'', ''--force-create''} \<and> args \<noteq> []")
    case True
    then obtain name rest where args: "args = name # rest" by (cases args) auto
    then have "switch_branch_targets (arg # args) = name # (start_point rest) @ switch_branch_targets rest"
      using True by (auto simp: switch_branch_targets.simps(2) [of arg])
    moreover have "set (start_point rest) \<subseteq> set rest" using start_point_subset by auto
    ultimately show ?thesis using args by blast
  next
    case False
    with 3 show ?thesis by (auto simp: switch_branch_targets.simps(2) [of arg])
  qed
qed simp

text \<open>
  Fact. A checkout or switch is reported as one of a protected branch exactly when the
  name of a protected branch is one of its arguments, wherever it stands: as the branch to go to, as
  the name of a new branch, as its start point, or as a path. Remote names and revisions are not
  reported.
\<close>

theorem checkout_protected_exact:
  assumes "git_line env g globals sub" and "sub = ''checkout'' \<or> sub = ''switch''"
    and "\<And>b. b \<in> set (protected_or_default branches) \<Longrightarrow> \<not> has_prefix b ''-''"
  shows "gc_has_checkout_protected_branch (cel_git_command_input (env @ g # globals @ sub # args) branches) \<longleftrightarrow>
    (\<exists>b \<in> set (protected_or_default branches). b \<noteq> [] \<and> b \<in> set args)"
proof -
  have "gc_has_checkout_protected_branch (cel_git_command_input (env @ g # globals @ sub # args) branches) \<longleftrightarrow>
      git_targets_contain_local_protected
        (if sub = ''checkout'' then checkout_branch_targets args else switch_branch_targets args) branches"
    using git_line_normalized [OF assms(1), of args] assms(2)
    by (auto simp: cel_git_command_input_def git_checkout_protected_branch_def Let_def
        git_command_input_without_derived_def empty_git_command_input_def)
  moreover have "git_targets_contain_local_protected (checkout_branch_targets args) branches \<longleftrightarrow>
      (\<exists>b \<in> set (protected_or_default branches). b \<noteq> [] \<and> b \<in> set args)"
    by (rule checkout.targets_protected) (rule assms(3))
  moreover have "git_targets_contain_local_protected (switch_branch_targets args) branches \<longleftrightarrow>
      (\<exists>b \<in> set (protected_or_default branches). b \<noteq> [] \<and> b \<in> set args)"
    by (rule switch.targets_protected) (rule assms(3))
  ultimately show ?thesis by simp
qed

theorem checkout_protected_exact_witness:
  "gc_has_checkout_protected_branch (cel_git_command_input [''git'', ''checkout'', ''main''] []) \<and>
   \<not> gc_has_checkout_protected_branch (cel_git_command_input [''git'', ''checkout'', ''--track'', ''origin/main''] [])"
proof -
  have line: "git_line [] ''git'' [] ''checkout''" by (rule plain_line) simp_all
  have pod: "protected_or_default [] = [''main'', ''master'']" by (simp add: protected_or_default_def)
  have free: "b \<in> set (protected_or_default []) \<Longrightarrow> \<not> has_prefix b ''-''" for b
    by (auto simp: pod has_prefix_def)
  show ?thesis
    using checkout_protected_exact [of "[]" "''git''" "[]" "''checkout''" "[]" "[''main'']"]
      checkout_protected_exact [of "[]" "''git''" "[]" "''checkout''" "[]" "[''--track'', ''origin/main'']"]
      line free
    by (simp add: pod)
qed

end
