(* ===== verification/CelShell.thy ===== *)
theory CelShell
  imports CelGit Catalog PathWalk GoLines
begin

text \<open>
  The shell facts of the expression policies: \<open>go/internal/celexpr/shell_git_inputs.go\<close> turns every
  simple command into the record \<open>shell_commands\<close> with the files it would write, and \<open>helpers.go\<close> and
  \<open>file_repo_inputs.go\<close> hold the predicates on commands and paths that the policies call.
\<close>

section \<open>Paths\<close>

definition clean_input_file :: "string \<Rightarrow> string" where
  "clean_input_file file =
     (let cleaned = trim_prefix (path_clean (trim_space file)) ''./''
      in if cleaned = ''.'' \<or> cleaned = ''/'' then [] else cleaned)"

definition clean_string_slice :: "string list \<Rightarrow> string list" where
  "clean_string_slice values = filter (\<lambda>v. v \<noteq> []) (map clean_input_file values)"

definition clean_string_values :: "string list \<Rightarrow> string list" where
  "clean_string_values values = filter (\<lambda>v. v \<noteq> []) (map trim_space values)"

definition is_protected_path :: "string \<Rightarrow> string list \<Rightarrow> bool" where
  "is_protected_path file protected_paths =
     (let f = clean_input_file file
      in list_ex (\<lambda>p. let q = clean_input_file p
           in q \<noteq> [] \<and> (f = q \<or> has_prefix f (q @ ''/'') \<or> str_contains f (''/'' @ q))) protected_paths)"

definition protected_path_files :: "string list \<Rightarrow> string list \<Rightarrow> string list" where
  "protected_path_files files protected_paths =
     filter (\<lambda>f. is_protected_path f protected_paths) (map clean_input_file files)"

definition is_protected_branch :: "string \<Rightarrow> string list \<Rightarrow> bool" where
  "is_protected_branch branch branches \<longleftrightarrow>
     trim_space branch \<noteq> [] \<and> trim_space branch \<in> set (map trim_space branches)"

definition in_source_root :: "string \<Rightarrow> string list \<Rightarrow> bool" where
  "in_source_root file roots \<longleftrightarrow>
     file \<noteq> [] \<and> (list_ex (\<lambda>r. file = r \<or> has_prefix file (r @ ''/'')) roots \<or> roots = [])"

definition is_test_path :: "string \<Rightarrow> bool" where
  "is_test_path file \<longleftrightarrow>
     has_prefix (path_base file) ''test_'' \<or> has_suffix (path_base file) ''_test.go'' \<or>
     str_contains file ''/tests/'' \<or> has_prefix file ''tests/''"

definition is_generated_path :: "string \<Rightarrow> bool" where
  "is_generated_path file \<longleftrightarrow>
     has_prefix file ''generated/'' \<or> str_contains file ''/generated/'' \<or>
     has_prefix file ''.generated/'' \<or> str_contains file ''/.generated/'' \<or>
     str_contains (path_base file) ''.generated.'' \<or> has_suffix (path_base file) ''.pb.go''"

definition in_agent_workspace_path :: "string \<Rightarrow> bool" where
  "in_agent_workspace_path file \<longleftrightarrow>
     list_ex (\<lambda>d. str_contains file (''/'' @ d) \<or> has_prefix file d) [''.claude/'', ''.codex/'', ''.gemini/'']"

definition list_contains_clean_path :: "string list \<Rightarrow> string \<Rightarrow> bool" where
  "list_contains_clean_path files candidate \<longleftrightarrow> clean_input_file candidate \<in> set (map clean_input_file files)"

definition present_repo_configs :: "string list \<Rightarrow> string list \<Rightarrow> string list" where
  "present_repo_configs files candidates = filter (list_contains_clean_path files) candidates"

section \<open>The files a command writes\<close>

text \<open>The map of the assignments: a later one replaces an earlier one, a missing one is empty.\<close>

definition shell_assignment_map :: "string list \<Rightarrow> string \<Rightarrow> string" where
  "shell_assignment_map assignments =
     foldl (\<lambda>m a. case str_cut a ''='' of (name, v, ok) \<Rightarrow>
       if \<not> ok \<or> name = [] then m else m(name := trim_quotes v)) (\<lambda>_. []) assignments"

definition shell_variable_reference :: "string \<Rightarrow> string option" where
  "shell_variable_reference v =
     (if has_prefix v ''${'' \<and> has_suffix v ''}'' then Some (trim_suffix (trim_prefix v ''${'') ''}'')
      else if has_prefix v ''$'' \<and> 1 < length v then Some (trim_prefix v ''$'')
      else None)"

definition resolve_shell_target :: "string \<Rightarrow> (string \<Rightarrow> string) \<Rightarrow> string" where
  "resolve_shell_target target assignments =
     (let cleaned = trim_quotes target
      in case shell_variable_reference cleaned of
           None \<Rightarrow> cleaned
         | Some variable \<Rightarrow> if assignments variable \<noteq> [] then assignments variable else cleaned)"

text \<open>The redirect from its first operator that can write.\<close>

fun redirect_write_operator :: "string \<Rightarrow> string option" where
  "redirect_write_operator [] = None"
| "redirect_write_operator (c # s) =
     (if c = CHR ''>'' \<or> (c = CHR ''<'' \<and> has_prefix (c # s) ''<>'') then Some (c # s)
      else redirect_write_operator s)"

definition write_operators :: "string list" where
  "write_operators = [''>>|'', ''>|'', ''>>'', ''<>'', ''>'']"

definition redirect_write_target :: "string \<Rightarrow> (string \<Rightarrow> string) \<Rightarrow> string option" where
  "redirect_write_target redirect assignments =
     (case redirect_write_operator redirect of
        None \<Rightarrow> None
      | Some operator \<Rightarrow>
          (case find (has_prefix operator) write_operators of
             None \<Rightarrow> None
           | Some op \<Rightarrow>
               (let target = trim_space (drop (length op) operator)
                in if target = [] \<or> has_prefix target ''&'' then None
                   else Some (resolve_shell_target target assignments))))"

fun tee_write_targets :: "bool \<Rightarrow> string list \<Rightarrow> (string \<Rightarrow> string) \<Rightarrow> string list" where
  "tee_write_targets skip [] assignments = []"
| "tee_write_targets True (arg # args) assignments = tee_write_targets False args assignments"
| "tee_write_targets False (arg # args) assignments =
     (if arg \<in> {''--'', ''-a'', ''--append'', ''-i'', ''--ignore-interrupts''}
        then tee_write_targets False args assignments
      else if arg = ''-p'' \<or> arg = ''--output-error'' then tee_write_targets True args assignments
      else if has_prefix arg ''-'' then tee_write_targets False args assignments
      else resolve_shell_target arg assignments # tee_write_targets False args assignments)"

definition copy_move_option_has_value :: "string \<Rightarrow> bool" where
  "copy_move_option_has_value arg \<longleftrightarrow>
     has_prefix arg ''--target-directory'' \<or> has_prefix arg ''--backup'' \<or> has_prefix arg ''--suffix'' \<or>
     arg = ''-t'' \<or> arg = ''-S''"

fun copy_move_candidates :: "bool \<Rightarrow> string list \<Rightarrow> string list" where
  "copy_move_candidates skip [] = []"
| "copy_move_candidates True (arg # args) = copy_move_candidates False args"
| "copy_move_candidates False (arg # args) =
     (if arg = ''--'' then copy_move_candidates False args
      else if copy_move_option_has_value arg then copy_move_candidates (\<not> str_contains arg ''='') args
      else if has_prefix arg ''-'' then copy_move_candidates False args
      else arg # copy_move_candidates False args)"

definition copy_move_write_targets :: "string list \<Rightarrow> (string \<Rightarrow> string) \<Rightarrow> string list" where
  "copy_move_write_targets args assignments =
     (let candidates = copy_move_candidates False args
      in if candidates = [] then [] else [resolve_shell_target (last candidates) assignments])"

definition shell_command_name :: "shell_command \<Rightarrow> string" where
  "shell_command_name c =
     (if cmd_name c \<noteq> [] then path_base (cmd_name c)
      else case cmd_argv c of [] \<Rightarrow> [] | a # _ \<Rightarrow> path_base a)"

definition command_write_targets :: "shell_command \<Rightarrow> (string \<Rightarrow> string) \<Rightarrow> string list" where
  "command_write_targets c assignments =
     (if cmd_argv c = [] then []
      else if shell_command_name c = ''tee'' then tee_write_targets False (tl (cmd_argv c)) assignments
      else if shell_command_name c = ''cp'' \<or> shell_command_name c = ''mv''
        then copy_move_write_targets (tl (cmd_argv c)) assignments
      else [])"

definition shell_write_targets :: "shell_command \<Rightarrow> string list" where
  "shell_write_targets c =
     (let assignments = shell_assignment_map (cmd_assignments c)
      in clean_string_slice
           (List.map_filter (\<lambda>r. redirect_write_target r assignments) (cmd_redirects c) @
            command_write_targets c assignments))"

section \<open>What a command is\<close>

definition shell_command_wrapped_tool :: "shell_command \<Rightarrow> string \<Rightarrow> bool" where
  "shell_command_wrapped_tool c tool \<longleftrightarrow>
     2 \<le> length (cmd_argv c) \<and> shell_command_name c \<in> {''command'', ''env''} \<and>
     (case find (\<lambda>a. \<not> str_contains a ''='') (tl (cmd_argv c)) of
        None \<Rightarrow> False
      | Some a \<Rightarrow> command_token_matches_tool a tool)"

definition shell_command_is_git :: "shell_command \<Rightarrow> bool" where
  "shell_command_is_git c \<longleftrightarrow>
     command_token_matches_tool (shell_command_name c) ''git'' \<or> shell_command_wrapped_tool c ''git''"

definition shell_command_is_lint_tool :: "shell_command \<Rightarrow> bool" where
  "shell_command_is_lint_tool c \<longleftrightarrow>
     CapturedLintTool (shell_command_name c) \<noteq> None \<or>
     list_ex (\<lambda>a. CapturedLintTool (path_base a) \<noteq> None) (cmd_argv c)"

definition shell_interpreters :: "string list" where
  "shell_interpreters = [''bash'', ''sh'', ''zsh'', ''dash'']"

definition shell_command_is_shell_exec :: "shell_command \<Rightarrow> bool" where
  "shell_command_is_shell_exec c \<longleftrightarrow> shell_command_name c \<in> set shell_interpreters"

definition is_shell_interpreter :: "string \<Rightarrow> bool" where
  "is_shell_interpreter v \<longleftrightarrow> path_base v \<in> set shell_interpreters"

definition shell_command_uses_path_override :: "shell_command \<Rightarrow> bool" where
  "shell_command_uses_path_override c \<longleftrightarrow>
     list_ex (\<lambda>a. has_prefix a ''PATH='') (cmd_assignments c) \<or>
     (cmd_argv c \<noteq> [] \<and> shell_command_name c = ''env'' \<and>
      list_ex (\<lambda>a. has_prefix a ''PATH='') (tl (cmd_argv c)))"

definition shell_command_is_git_mutation :: "shell_command \<Rightarrow> bool" where
  "shell_command_is_git_mutation c \<longleftrightarrow>
     shell_command_is_git c \<and> (case cmd_argv c of _ # sub # _ \<Rightarrow> sub \<in> {''commit'', ''push''} | _ \<Rightarrow> False)"

fun git_followed_by_mutation :: "string list \<Rightarrow> bool" where
  "git_followed_by_mutation (a # b # rest) \<longleftrightarrow>
     path_base a = ''git'' \<and> b \<in> {''commit'', ''push''} \<or> git_followed_by_mutation (b # rest)"
| "git_followed_by_mutation _ = False"

definition shell_command_wraps_git_mutation :: "shell_command \<Rightarrow> bool" where
  "shell_command_wraps_git_mutation c \<longleftrightarrow>
     shell_command_name c = ''timeout'' \<and> git_followed_by_mutation (cmd_argv c)"

fun pipe_to_interpreter :: "string list \<Rightarrow> bool" where
  "pipe_to_interpreter (f # g # rest) =
     (if f = ''|'' \<and> is_shell_interpreter g then True
      else if f \<in> {''&&'', '';'', ''||''} then False
      else pipe_to_interpreter (g # rest))"
| "pipe_to_interpreter _ = False"

fun fields_pipe_to_shell :: "string \<Rightarrow> string list \<Rightarrow> bool" where
  "fields_pipe_to_shell name [] = False"
| "fields_pipe_to_shell name (f # rest) \<longleftrightarrow>
     path_base f = name \<and> pipe_to_interpreter rest \<or> fields_pipe_to_shell name rest"

definition shell_command_pipes_to_shell :: "shell_command \<Rightarrow> string list \<Rightarrow> bool" where
  "shell_command_pipes_to_shell c control \<longleftrightarrow>
     shell_command_name c \<in> {''curl'', ''wget''} \<and> fields_pipe_to_shell (shell_command_name c) control"

section \<open>The record of the policies\<close>

record shell_command_input =
  sci_command :: string
  sci_name :: string
  sci_argv :: "string list"
  sci_assignments :: "string list"
  sci_redirects :: "string list"
  sci_write_targets :: "string list"
  sci_column :: int
  sci_line :: int
  sci_has_inline_env :: bool
  sci_is_function_declaration :: bool
  sci_has_dynamic_expansion :: bool
  sci_has_heredoc :: bool
  sci_background :: bool
  sci_has_process_substitution :: bool
  sci_has_redirects :: bool
  sci_has_subshell :: bool
  sci_has_write_targets :: bool
  sci_has_command_substitution :: bool
  sci_is_git_mutation :: bool
  sci_is_git :: bool
  sci_is_lint_tool :: bool
  sci_pipes_to_shell :: bool
  sci_is_shell_exec :: bool
  sci_uses_path_override :: bool
  sci_wraps_git_mutation :: bool

definition shell_command_input_of :: "string list \<Rightarrow> shell_command \<Rightarrow> shell_command_input" where
  "shell_command_input_of control c =
     \<lparr>sci_command = cmd_command c, sci_name = shell_command_name c, sci_argv = cmd_argv c,
      sci_assignments = cmd_assignments c, sci_redirects = cmd_redirects c,
      sci_write_targets = shell_write_targets c, sci_column = int (cmd_column c),
      sci_line = int (cmd_line c), sci_has_inline_env = (cmd_assignments c \<noteq> []),
      sci_is_function_declaration = cmd_function_declaration c,
      sci_has_dynamic_expansion = cmd_dynamic_expansion c, sci_has_heredoc = cmd_heredoc c,
      sci_background = cmd_background c, sci_has_process_substitution = cmd_process_substitution c,
      sci_has_redirects = (cmd_redirects c \<noteq> []), sci_has_subshell = cmd_subshell c,
      sci_has_write_targets = (shell_write_targets c \<noteq> []),
      sci_has_command_substitution = cmd_command_substitution c,
      sci_is_git_mutation = shell_command_is_git_mutation c, sci_is_git = shell_command_is_git c,
      sci_is_lint_tool = shell_command_is_lint_tool c,
      sci_pipes_to_shell = shell_command_pipes_to_shell c control,
      sci_is_shell_exec = shell_command_is_shell_exec c,
      sci_uses_path_override = shell_command_uses_path_override c,
      sci_wraps_git_mutation = shell_command_wraps_git_mutation c\<rparr>"

definition shell_command_inputs :: "'n bash \<Rightarrow> string \<Rightarrow> shell_command_input list" where
  "shell_command_inputs B command =
     (case Commands B command of
        Inl _ \<Rightarrow> []
      | Inr parsed \<Rightarrow>
          (let control = (case ControlFields B command of Inl _ \<Rightarrow> [] | Inr fs \<Rightarrow> fs)
           in map (shell_command_input_of control) parsed))"

section \<open>Helpers of the expressions\<close>

definition command_invokes :: "string \<Rightarrow> string \<Rightarrow> bool" where
  "command_invokes command tool \<longleftrightarrow>
     trim_space tool \<noteq> [] \<and> list_ex (\<lambda>f. command_token_matches_tool f (trim_space tool)) (str_fields command)"

definition argv_invokes :: "string list \<Rightarrow> string \<Rightarrow> bool" where
  "argv_invokes argv tool \<longleftrightarrow>
     trim_space tool \<noteq> [] \<and> list_ex (\<lambda>a. command_token_matches_tool a (trim_space tool)) argv"

definition argv_command_is :: "string list \<Rightarrow> string \<Rightarrow> bool" where
  "argv_command_is argv tool \<longleftrightarrow>
     trim_space tool \<noteq> [] \<and>
     (case cel_strip_assignments argv of
        [] \<Rightarrow> False
      | a # _ \<Rightarrow> command_token_matches_tool a (trim_space tool))"

fun fields_inline_env :: "string list \<Rightarrow> string \<Rightarrow> bool" where
  "fields_inline_env [] name = False"
| "fields_inline_env (f # fs) name =
     (if \<not> str_contains f ''='' then False
      else if name = [] \<or> has_prefix f (name @ ''='') then True
      else fields_inline_env fs name)"

definition command_has_inline_env :: "string \<Rightarrow> string \<Rightarrow> bool" where
  "command_has_inline_env command name = fields_inline_env (str_fields command) name"

subsection \<open>Files written by sed\<close>

fun sed_has_in_place_option :: "string list \<Rightarrow> bool" where
  "sed_has_in_place_option [] = False"
| "sed_has_in_place_option (arg # args) =
     (if arg = ''--'' then False
      else if arg = ''-i'' \<or> arg = ''--in-place'' \<or> has_prefix arg ''-i'' \<or> has_prefix arg ''--in-place='' then True
      else if has_prefix arg ''--'' then sed_has_in_place_option args
      else if has_prefix arg ''-'' \<and> str_contains (drop 1 arg) ''i'' then True
      else if \<not> has_prefix arg ''-'' then False
      else sed_has_in_place_option args)"

record sed_collector =
  sed_scripts :: "string list"
  sed_expect_script :: bool
  sed_skip_next :: bool
  sed_script_from_operand :: bool

text \<open>The second component says that the collection is over.\<close>

definition sed_consume_option_or_operand :: "sed_collector \<Rightarrow> string \<Rightarrow> sed_collector \<times> bool" where
  "sed_consume_option_or_operand k arg =
     (case cut_prefix arg ''--expression='' of
        Some script \<Rightarrow> (k\<lparr>sed_scripts := sed_scripts k @ [script]\<rparr>, False)
      | None \<Rightarrow>
          if arg = ''-e'' \<or> arg = ''--expression'' then (k\<lparr>sed_expect_script := True\<rparr>, False)
          else if arg = ''-f'' \<or> arg = ''--file'' then (k\<lparr>sed_skip_next := True\<rparr>, False)
          else if has_prefix arg ''-e'' \<and> 2 < length arg
            then (k\<lparr>sed_scripts := sed_scripts k @ [trim_prefix arg ''-e'']\<rparr>, False)
          else if has_prefix arg ''-'' \<and> \<not> sed_script_from_operand k then (k, False)
          else (k\<lparr>sed_scripts := sed_scripts k @ [arg]\<rparr>, True))"

definition sed_consume :: "sed_collector \<Rightarrow> string \<Rightarrow> sed_collector \<times> bool" where
  "sed_consume k arg =
     (if sed_skip_next k then (k\<lparr>sed_skip_next := False\<rparr>, False)
      else if sed_expect_script k
        then (k\<lparr>sed_scripts := sed_scripts k @ [arg], sed_expect_script := False\<rparr>, False)
      else if arg = ''--'' then (k\<lparr>sed_script_from_operand := True\<rparr>, False)
      else sed_consume_option_or_operand k arg)"

fun sed_collect :: "sed_collector \<Rightarrow> string list \<Rightarrow> sed_collector" where
  "sed_collect k [] = k"
| "sed_collect k (arg # args) =
     (case sed_consume k arg of (k', finished) \<Rightarrow> if finished then k' else sed_collect k' args)"

definition sed_script_args :: "string list \<Rightarrow> string list" where
  "sed_script_args args =
     sed_scripts (sed_collect \<lparr>sed_scripts = [], sed_expect_script = False, sed_skip_next = False,
       sed_script_from_operand = False\<rparr> args)"

definition sed_script_separator :: "char \<Rightarrow> bool" where
  "sed_script_separator c \<longleftrightarrow> c = CHR '';'' \<or> c = CHR 0x0A \<or> c = CHR ''{'' \<or> c = CHR ''}''"

text \<open>\<open>strings.FieldsFunc\<close> with this separator.\<close>

fun fields_by :: "(char \<Rightarrow> bool) \<Rightarrow> string \<Rightarrow> string \<Rightarrow> string list" where
  "fields_by sep acc [] = (if acc = [] then [] else [rev acc])"
| "fields_by sep acc (c # s) =
     (if sep c then (if acc = [] then fields_by sep [] s else rev acc # fields_by sep [] s)
      else fields_by sep (c # acc) s)"

fun write_field_then_more :: "string list \<Rightarrow> bool" where
  "write_field_then_more [] = False"
| "write_field_then_more (f # fs) = (if f = ''w'' \<or> has_suffix f ''w'' then fs \<noteq> [] else write_field_then_more fs)"

definition sed_command_segment_writes_file :: "string \<Rightarrow> bool" where
  "sed_command_segment_writes_file segment = write_field_then_more (str_fields (trim_space segment))"

definition sed_script_writes_file :: "string \<Rightarrow> bool" where
  "sed_script_writes_file script =
     list_ex sed_command_segment_writes_file (fields_by sed_script_separator [] script)"

definition sed_has_write_command :: "string list \<Rightarrow> bool" where
  "sed_has_write_command args = list_ex sed_script_writes_file (sed_script_args args)"

definition sed_writes_files :: "string list \<Rightarrow> bool" where
  "sed_writes_files argv =
     (let stripped = cel_strip_assignments argv
      in argv_command_is stripped ''sed'' \<and>
         (sed_has_in_place_option (drop 1 stripped) \<or> sed_has_write_command (drop 1 stripped)))"

section \<open>Cleaned paths\<close>

lemma path_clean_no_dot: "\<not> has_prefix (path_clean p) ''./''"
proof
  assume "has_prefix (path_clean p) ''./''"
  then obtain y where y: "path_clean p = CHR ''.'' # CHR ''/'' # y" by (auto simp: has_prefix_iff)
  let ?c = "path_clean p"
  have split: "split_on CHR ''/'' ?c = ''.'' # split_on CHR ''/'' y" by (simp add: y)
  have again: "path_clean ?c = ?c" by simp
  show False
  proof (cases "clean_elements False [] (split_on CHR ''/'' ?c) = []")
    case True
    then have "path_clean (CHR ''.'' # CHR ''/'' # y) = ''.''" by (simp add: path_clean_def [of "CHR ''.'' # CHR ''/'' # y"] y)
    with again y show False by simp
  next
    case False
    have "path_clean ?c = str_join ''/'' (clean_elements False [] (split_on CHR ''/'' ?c))"
      by (rule path_clean_rel_eq) (use False in \<open>simp_all add: y\<close>)
    then have "split_on CHR ''/'' ?c = clean_elements False [] (split_on CHR ''/'' ?c)"
      using split_join_clean_elements [OF False] again by simp
    moreover obtain k ws where "clean_elements False [] (split_on CHR ''/'' ?c) = replicate k ''..'' @ ws"
      "set ws \<inter> {[], ''.'', ''..''} = {}"
      using clean_elements_shape [of "[]" False "split_on CHR ''/'' ?c"] by auto
    ultimately show False unfolding split by (cases k; cases ws) auto
  qed
qed

lemma trim_prefix_none: "\<not> has_prefix s p \<Longrightarrow> trim_prefix s p = s"
  by (simp add: trim_prefix_def)

lemma clean_input_file_again:
  assumes "trim_space (clean_input_file t) = clean_input_file t"
  shows "clean_input_file (clean_input_file t) = clean_input_file t"
proof (cases "clean_input_file t = []")
  case True
  have "clean_input_file [] = []" by code_simp
  with True show ?thesis by simp
next
  case False
  then have c: "clean_input_file t = path_clean (trim_space t)" "clean_input_file t \<noteq> ''.''"
    "clean_input_file t \<noteq> ''/''"
    by (auto simp: clean_input_file_def Let_def trim_prefix_none path_clean_no_dot split: if_splits)
  then have "path_clean (clean_input_file t) = clean_input_file t" by simp
  then show ?thesis
    unfolding clean_input_file_def [of "clean_input_file t"] assms Let_def
    using c by (simp add: trim_prefix_none path_clean_no_dot [of "trim_space t"])
qed

section \<open>Redirects\<close>

lemma redirect_write_operator_skip:
  "CHR ''<'' \<notin> set pre \<Longrightarrow> CHR ''>'' \<notin> set pre \<Longrightarrow>
   redirect_write_operator (pre @ s) = redirect_write_operator s"
  by (induction pre) auto

lemma redirect_write_target_found:
  assumes "CHR ''<'' \<notin> set pre" "CHR ''>'' \<notin> set pre" and "op \<in> set write_operators"
    and "trim_space target = target" "target \<noteq> []" "hd target \<notin> {CHR ''>'', CHR ''|'', CHR ''&''}"
  shows "redirect_write_target (pre @ op @ target) assignments = Some (resolve_shell_target target assignments)"
proof -
  obtain t ts where t: "target = t # ts" "t \<noteq> CHR ''>''" "t \<noteq> CHR ''|''" "t \<noteq> CHR ''&''"
    using assms(5,6) by (cases target) auto
  have op: "redirect_write_operator (op @ target) = Some (op @ target)"
    using assms(3) by (auto simp: write_operators_def)
  have find: "find (has_prefix (op @ target)) write_operators = Some op"
    using assms(3) t by (auto simp: write_operators_def has_prefix_def)
  have "\<not> has_prefix target ''&''" using t by simp
  then show ?thesis
    using assms(4,5)
    by (simp add: redirect_write_target_def redirect_write_operator_skip [OF assms(1,2)] op find)
qed

text \<open>What the policy on managed paths asks of a command.\<close>

definition writes_protected :: "shell_command \<Rightarrow> string list \<Rightarrow> bool" where
  "writes_protected c protected_paths = list_ex (\<lambda>t. is_protected_path t protected_paths) (shell_write_targets c)"

text \<open>
  Fact. No redirect hides a write to a protected path: when a command has a redirect with an
  operator that opens a file for writing, with or without a descriptor in front, to a file that is a
  protected path or lies below one, however the path is spelled, then the policy on protected paths
  finds it among the write targets.
\<close>

theorem redirect_to_protected_seen:
  assumes "pre @ op @ target \<in> set (cmd_redirects c)" and "CHR ''<'' \<notin> set pre" "CHR ''>'' \<notin> set pre"
    and "op \<in> set write_operators" and "trim_space target = target" "target \<noteq> []"
    and "hd target \<notin> {CHR ''>'', CHR ''|'', CHR ''&''}"
    and "trim_quotes target = target" "hd target \<noteq> CHR ''$''"
    and "trim_space (clean_input_file target) = clean_input_file target"
    and "p \<in> set protected_paths" "clean_input_file p \<noteq> []"
    and "clean_input_file target = clean_input_file p \<or>
      has_prefix (clean_input_file target) (clean_input_file p @ ''/'')"
  shows "writes_protected c protected_paths"
proof -
  let ?a = "shell_assignment_map (cmd_assignments c)" and ?f = "clean_input_file target"
  obtain t ts where t: "target = t # ts" "t \<noteq> CHR ''$''" using assms(6,9) by (cases target) auto
  then have "shell_variable_reference target = None" by (simp add: shell_variable_reference_def has_prefix_def)
  then have "resolve_shell_target target ?a = target" using assms(8) by (simp add: resolve_shell_target_def)
  then have r: "redirect_write_target (pre @ op @ target) ?a = Some target"
    using redirect_write_target_found [OF assms(2,3,4,5,6,7)] by simp
  have "target \<in> set (List.map_filter (\<lambda>r. redirect_write_target r ?a) (cmd_redirects c))"
    using assms(1) r by (force simp: List.map_filter_def)
  moreover have "?f \<noteq> []" using assms(12,13) by (auto simp: has_prefix_def)
  ultimately have "?f \<in> set (shell_write_targets c)"
    by (auto simp: shell_write_targets_def Let_def clean_string_slice_def)
  moreover have "is_protected_path ?f protected_paths"
    using assms(11,12,13) clean_input_file_again [OF assms(10)]
    by (auto simp: is_protected_path_def Let_def list_ex_iff)
  ultimately show ?thesis by (auto simp: writes_protected_def list_ex_iff)
qed

theorem redirect_to_protected_seen_witness:
  "writes_protected (empty_command\<lparr>cmd_redirects := [''1>>./bin/../.git/hooks/x'']\<rparr>) [''/ignored'', ''.git/hooks/'']"
proof (rule redirect_to_protected_seen [where pre = "''1''" and op = "''>>''" and p = "''.git/hooks/''"
    and target = "''./bin/../.git/hooks/x''"])
  show "trim_space ''./bin/../.git/hooks/x'' = ''./bin/../.git/hooks/x''"
    "trim_quotes ''./bin/../.git/hooks/x'' = ''./bin/../.git/hooks/x''"
    "trim_space (clean_input_file ''./bin/../.git/hooks/x'') = clean_input_file ''./bin/../.git/hooks/x''"
    "clean_input_file ''.git/hooks/'' \<noteq> []"
    "clean_input_file ''./bin/../.git/hooks/x'' = clean_input_file ''.git/hooks/'' \<or>
      has_prefix (clean_input_file ''./bin/../.git/hooks/x'') (clean_input_file ''.git/hooks/'' @ ''/'')"
    by code_simp+
qed (simp_all add: write_operators_def)

section \<open>What the facts miss\<close>

text \<open>
  Fact. Writes that the facts do not see: the destination of \<open>cp\<close> and \<open>mv\<close> when
  it is given with \<open>-t\<close> or \<open>--target-directory\<close>, in which case the last source is taken for it; the
  file behind \<open>tee -p\<close>, an option that takes no value; and the file of a redirect of both streams
  with \<open>>&\<close>. The destination does not occur in the write targets, so that no policy on them applies.
\<close>

theorem write_targets_missed:
  assumes "\<not> has_prefix file ''-''" and "\<not> has_prefix dir ''-''"
    and "cmd_redirects c = []" "cmd_name c = []" "cmd_assignments c = []"
  shows "shell_write_targets (c\<lparr>cmd_argv := [''cp'', ''-t'', dir, file]\<rparr>) = clean_string_slice [trim_quotes file] \<and>
    shell_write_targets (c\<lparr>cmd_argv := [''mv'', ''--target-directory='' @ dir, file]\<rparr>) =
      clean_string_slice [trim_quotes file] \<and>
    shell_write_targets (c\<lparr>cmd_argv := [''tee'', ''-p'', file]\<rparr>) = [] \<and>
    shell_write_targets (c\<lparr>cmd_argv := [''true''], cmd_redirects := [''>&'' @ file]\<rparr>) = []"
proof -
  have base: "path_base ''cp'' = ''cp''" "path_base ''mv'' = ''mv''" "path_base ''tee'' = ''tee''"
    "path_base ''true'' = ''true''"
    by code_simp+
  have m: "shell_assignment_map [] = (\<lambda>_. [])" by (simp add: shell_assignment_map_def)
  have src: "file \<noteq> ''--''" "\<not> copy_move_option_has_value file"
    using assms(1) by (auto simp: copy_move_option_has_value_def has_prefix_iff)
  have res: "resolve_shell_target file (\<lambda>_. []) = trim_quotes file"
    by (auto simp: resolve_shell_target_def Let_def split: option.split)
  have t: "copy_move_option_has_value ''-t''" "copy_move_option_has_value (''--target-directory='' @ dir)"
    "\<not> str_contains ''-t'' ''=''" "str_contains (''--target-directory='' @ dir) ''=''"
    by (simp_all add: copy_move_option_has_value_def str_contains_def)
  have 1: "shell_write_targets (c\<lparr>cmd_argv := [''cp'', ''-t'', dir, file]\<rparr>) = clean_string_slice [trim_quotes file]"
    using assms(1,3-5) src t
    by (simp add: shell_write_targets_def command_write_targets_def shell_command_name_def base m
        copy_move_write_targets_def res List.map_filter_def)
  have 2: "shell_write_targets (c\<lparr>cmd_argv := [''mv'', ''--target-directory='' @ dir, file]\<rparr>) =
      clean_string_slice [trim_quotes file]"
    using assms(1,3-5) src t
    by (simp add: shell_write_targets_def command_write_targets_def shell_command_name_def base m
        copy_move_write_targets_def res List.map_filter_def del: append.simps add: append_Nil)
  have 3: "shell_write_targets (c\<lparr>cmd_argv := [''tee'', ''-p'', file]\<rparr>) = []"
    using assms(3-5)
    by (simp add: shell_write_targets_def command_write_targets_def shell_command_name_def base m
        clean_string_slice_def List.map_filter_def)
  have "trim_space (''&'' @ file) = [] \<or> has_prefix (trim_space (''&'' @ file)) ''&''"
    using trim_space_head [of "CHR ''&''" "file"] by (cases "file" rule: space_len.cases)
      (auto simp: ascii_space_def space2_def space3_def)
  then have 4: "shell_write_targets (c\<lparr>cmd_argv := [''true''], cmd_redirects := [''>&'' @ file]\<rparr>) = []"
    using assms(4,5)
    by (auto simp: shell_write_targets_def command_write_targets_def shell_command_name_def base m
        clean_string_slice_def List.map_filter_def redirect_write_target_def write_operators_def Let_def)
  show ?thesis using 1 2 3 4 by blast
qed

theorem write_targets_missed_witness:
  "shell_write_targets (empty_command\<lparr>cmd_argv := [''cp'', ''-t'', ''.git/hooks'', ''evil'']\<rparr>) =
     clean_string_slice [trim_quotes ''evil'']"
  using write_targets_missed [of "''evil''" "''.git/hooks''" empty_command]
  by (simp add: empty_command_def)

text \<open>
  Fact. Rewriting a file with \<open>sed\<close> is not seen when the script comes first,
  which GNU sed allows, as it takes options anywhere. The search for
  \<open>-i\<close> ends at the first word that is no option, a script in front of it or the argument of \<open>-e\<close>, so
  that only a script that itself writes a file is reported.
\<close>

theorem sed_in_place_missed:
  assumes "\<not> has_prefix script ''-''"
  shows "sed_writes_files (''sed'' # script # ''-i'' # files) = sed_script_writes_file script \<and>
    sed_writes_files (''sed'' # ''-e'' # script # ''-i'' # files) =
      list_ex sed_script_writes_file (sed_script_args (''-e'' # script # ''-i'' # files))"
proof -
  have c: "\<not> cel_shell_assignment ''sed''" "command_token_matches_tool ''sed'' (trim_space ''sed'')"
    "trim_space ''sed'' \<noteq> []"
    by code_simp+
  have script: "script \<noteq> ''--''" "script \<noteq> ''-i''" "script \<noteq> ''--in-place''" "\<not> has_prefix script ''-i''"
    "\<not> has_prefix script ''--in-place=''" "\<not> has_prefix script ''--''" "\<not> has_prefix script ''-e''"
    "script \<noteq> ''-e''" "script \<noteq> ''--expression''" "script \<noteq> ''-f''" "script \<noteq> ''--file''"
    "cut_prefix script ''--expression='' = None"
    using assms by (auto simp: has_prefix_iff cut_prefix_def)
  have e: "\<not> has_prefix ''-e'' ''-i''" "\<not> has_prefix ''-e'' ''--in-place=''" "\<not> has_prefix ''-e'' ''--''"
    "\<not> str_contains (drop 1 ''-e'') ''i''" "has_prefix ''-e'' ''-''"
    by code_simp+
  have "sed_has_in_place_option (script # ''-i'' # files) = False"
    "sed_has_in_place_option (''-e'' # script # ''-i'' # files) = False"
    using assms script e by simp_all
  moreover have "sed_script_args (script # ''-i'' # files) = [script]"
    using assms script by (simp add: sed_script_args_def sed_consume_def sed_consume_option_or_operand_def)
  ultimately show ?thesis
    using c by (simp add: sed_writes_files_def argv_command_is_def cel_strip_assignments_def Let_def
        sed_has_write_command_def)
qed

theorem sed_in_place_missed_witness:
  "\<not> sed_writes_files [''sed'', ''s/a/b/'', ''-i'', ''main.go'']"
proof -
  have "\<not> sed_script_writes_file ''s/a/b/''" by code_simp
  then show ?thesis
    using sed_in_place_missed [of "''s/a/b/''" "[''main.go'']"] by (simp add: has_prefix_def)
qed

text \<open>
  Fact. A commit or push behind a global option, as in \<open>git -C dir push\<close>, is not a mutation
  of the shell facts, which look at the second word only: the policy on Git in the background does not
  apply to it.
\<close>

theorem mutation_behind_option_missed:
  "has_prefix option ''-'' \<Longrightarrow> \<not> shell_command_is_git_mutation (c\<lparr>cmd_argv := git # option # rest\<rparr>)"
  by (auto simp: shell_command_is_git_mutation_def has_prefix_def)

theorem mutation_behind_option_missed_witness:
  "\<not> shell_command_is_git_mutation (empty_command\<lparr>cmd_argv := [''git'', ''-C'', ''dir'', ''push'']\<rparr>)"
  by (rule mutation_behind_option_missed) simp

end
