(* ===== verification/SearchReplace.thy ===== *)
theory SearchReplace
  imports GoLines
begin

text \<open>
  \<open>go/internal/agentproxy/search_replace_patch.go\<close>: a patch is a list of blocks that are applied one
  after the other; each block has to name a text that occurs exactly once in the content as the
  blocks before it left it. The specification is the relation \<open>edits\<close>.
\<close>

section \<open>Data\<close>

record search_replace_block =
  srb_search :: string
  srb_replace :: string

record block_result =
  br_status :: string
  br_index :: nat
  br_match_count :: nat

record search_replace_request =
  srr_path :: string
  srr_current_content :: string
  srr_blocks :: "search_replace_block list"

record search_replace_result =
  srs_path :: string
  srs_current_content_hash :: string
  srs_applied_content_hash :: string
  srs_applied_content :: string
  srs_blocks :: "block_result list"

section \<open>Operations\<close>

text \<open>The loop over offsets, on the part of the content behind the offset.\<close>

function count_overlapping_matches :: "string \<Rightarrow> string \<Rightarrow> nat" where
  "count_overlapping_matches s search =
     (if s = [] then 0
      else case str_index s search of
             None \<Rightarrow> 0
           | Some i \<Rightarrow> Suc (count_overlapping_matches (drop (Suc i) s) search))"
  by pat_completeness auto
termination by (relation "measure (\<lambda>(s, search). length s)") auto

declare count_overlapping_matches.simps [simp del]

definition validate_search_replace_block ::
  "string \<Rightarrow> search_replace_block \<Rightarrow> nat \<Rightarrow> block_result" where
  "validate_search_replace_block content block index =
     (if srb_search block = [] then
        \<lparr>br_status = ''empty_search'', br_index = index, br_match_count = 0\<rparr>
      else
        let match_count = count_overlapping_matches content (srb_search block)
        in \<lparr>br_status = (if match_count = 0 then ''missing''
                        else if 1 < match_count then ''ambiguous'' else ''ok''),
            br_index = index, br_match_count = match_count\<rparr>)"

text \<open>The loop over the blocks: the results so far, the content, and whether a block stopped it at index 0.\<close>

fun apply_blocks ::
  "nat \<Rightarrow> string \<Rightarrow> search_replace_block list \<Rightarrow> block_result list \<times> string" where
  "apply_blocks index content [] = ([], content)"
| "apply_blocks index content (block # blocks) =
     (let r = validate_search_replace_block content block index
      in if br_status r \<noteq> ''ok'' then ([r], content)
         else let (rs, applied) =
                    apply_blocks (Suc index)
                      (replace_first content (srb_search block) (srb_replace block)) blocks
              in (r # rs, applied))"

definition ApplySearchReplacePatch ::
  "(string \<Rightarrow> string) \<Rightarrow> search_replace_request \<Rightarrow> search_replace_result" where
  "ApplySearchReplacePatch hash_text request =
     (let (blocks, applied) = apply_blocks 0 (srr_current_content request) (srr_blocks request)
      in \<lparr>srs_path = srr_path request,
          srs_current_content_hash = hash_text (srr_current_content request),
          srs_applied_content_hash = hash_text applied,
          srs_applied_content = applied,
          srs_blocks = blocks\<rparr>)"

section \<open>Counting\<close>

definition matches_at :: "string \<Rightarrow> string \<Rightarrow> nat set" where
  "matches_at s search = {j. j < length s \<and> has_prefix (drop j s) search}"

lemma matches_at_finite [simp]: "finite (matches_at s search)"
  by (simp add: matches_at_def)

lemma matches_at_Nil [simp]: "matches_at [] search = {}"
  by (simp add: matches_at_def)

lemma matches_at_split:
  assumes "str_index s search = Some i" and "s \<noteq> []" and "search \<noteq> []"
  shows "matches_at s search =
    insert i ((\<lambda>j. Suc i + j) ` matches_at (drop (Suc i) s) search)"
proof -
  have i: "i < length s" "has_prefix (drop i s) search"
    using str_index_bound [OF assms(1)] assms(3) str_index_Some_prefix [OF assms(1)]
    by (cases search; simp)+
  have "j \<in> matches_at s search \<longleftrightarrow> j = i \<or> (\<exists>k \<in> matches_at (drop (Suc i) s) search. j = Suc i + k)" for j
  proof (cases "i < j")
    case True
    then obtain k where k: "j = Suc i + k" using less_iff_Suc_add by auto
    then show ?thesis by (auto simp: matches_at_def add.commute)
  next
    case False
    then show ?thesis
      using i str_index_first [OF assms(1), of j]
      by (cases "j = i") (auto simp: matches_at_def not_less)
  qed
  then show ?thesis by blast
qed

lemma count_overlapping_matches_card:
  assumes "search \<noteq> []"
  shows "count_overlapping_matches s search = card (matches_at s search)"
  using assms
proof (induction s search rule: count_overlapping_matches.induct)
  case (1 s search)
  show ?case
  proof (cases "s = [] \<or> str_index s search = None")
    case True
    then have "matches_at s search = {}"
      by (auto simp: matches_at_def) (metis less_imp_le_nat str_index_None)
    then show ?thesis
      using True by (subst count_overlapping_matches.simps) auto
  next
    case False
    then obtain i where s: "s \<noteq> []" and i: "str_index s search = Some i" by auto
    have "card (matches_at s search) = Suc (card (matches_at (drop (Suc i) s) search))"
      unfolding matches_at_split [OF i s 1(2)]
      by (subst card_insert_disjoint) (auto simp: card_image inj_on_def)
    then show ?thesis
      using 1(1) [OF s i] 1(2) s i by (subst count_overlapping_matches.simps) simp
  qed
qed

lemma matches_at_iff:
  "search \<noteq> [] \<Longrightarrow> j \<in> matches_at s search \<longleftrightarrow> (\<exists>u v. s = u @ search @ v \<and> length u = j)"
proof
  assume "j \<in> matches_at s search"
  then obtain v where "drop j s = search @ v" "j < length s"
    by (auto simp: matches_at_def has_prefix_iff)
  then have "s = take j s @ search @ v" "length (take j s) = j"
    using append_take_drop_id [of j s] by simp_all
  then show "\<exists>u v. s = u @ search @ v \<and> length u = j" by blast
next
  assume "search \<noteq> []" and "\<exists>u v. s = u @ search @ v \<and> length u = j"
  then show "j \<in> matches_at s search" by (auto simp: matches_at_def)
qed

section \<open>The specification\<close>

text \<open>One block: the text occurs at one place only, and that place is replaced.\<close>

definition edits_once :: "string \<Rightarrow> search_replace_block \<Rightarrow> string \<Rightarrow> bool" where
  "edits_once content block content' \<longleftrightarrow>
     srb_search block \<noteq> [] \<and>
     (\<exists>u v. content = u @ srb_search block @ v \<and> content' = u @ srb_replace block @ v \<and>
       (\<forall>u' v'. content = u' @ srb_search block @ v' \<longrightarrow> u' = u))"

inductive edits :: "string \<Rightarrow> search_replace_block list \<Rightarrow> string \<Rightarrow> bool" where
  no_block: "edits content [] content"
| block: "edits_once content b content' \<Longrightarrow> edits content' bs final \<Longrightarrow> edits content (b # bs) final"

inductive_cases edits_ConsE: "edits content (b # bs) final"

inductive_simps edits_Nil [simp]: "edits content [] final"

lemma one_match_iff:
  assumes "search \<noteq> []"
  shows "card (matches_at s search) = 1 \<longleftrightarrow>
    (\<exists>u v. s = u @ search @ v \<and> (\<forall>u' v'. s = u' @ search @ v' \<longrightarrow> u' = u))"
proof
  assume "card (matches_at s search) = 1"
  then obtain j where j: "matches_at s search = {j}" by (auto simp: card_1_singleton_iff)
  then obtain u v where s: "s = u @ search @ v" "length u = j"
    using matches_at_iff [OF assms, of j s] by auto
  have "u' = u" if "s = u' @ search @ v'" for u' v'
  proof -
    have "length u' \<in> matches_at s search" using matches_at_iff [OF assms] that by blast
    then have "length u' = length u" using j s(2) by simp
    then show ?thesis using that s(1) by simp
  qed
  then show "\<exists>u v. s = u @ search @ v \<and> (\<forall>u' v'. s = u' @ search @ v' \<longrightarrow> u' = u)" using s(1) by blast
next
  assume "\<exists>u v. s = u @ search @ v \<and> (\<forall>u' v'. s = u' @ search @ v' \<longrightarrow> u' = u)"
  then obtain u v where s: "s = u @ search @ v"
    and once: "\<And>u' v'. s = u' @ search @ v' \<Longrightarrow> u' = u" by blast
  have "matches_at s search = {length u}"
    using s once unfolding set_eq_iff by (auto simp: matches_at_iff [OF assms])
  then show "card (matches_at s search) = 1" by simp
qed

lemma validate_ok_iff:
  "br_status (validate_search_replace_block content block index) = ''ok'' \<longleftrightarrow>
   (\<exists>content'. edits_once content block content')"
proof (cases "srb_search block = []")
  case False
  then have "br_status (validate_search_replace_block content block index) = ''ok'' \<longleftrightarrow>
    card (matches_at content (srb_search block)) = 1"
    by (simp add: validate_search_replace_block_def Let_def count_overlapping_matches_card
        less_Suc_eq_0_disj not_less le_Suc_eq del: card_0_eq)
  then show ?thesis using one_match_iff [OF False] False by (auto simp: edits_once_def)
qed (simp add: validate_search_replace_block_def edits_once_def)

lemma edits_once_replace_first:
  assumes "edits_once content block content'"
  shows "replace_first content (srb_search block) (srb_replace block) = content'"
proof -
  obtain u v where c: "content = u @ srb_search block @ v" "content' = u @ srb_replace block @ v"
    and once: "\<And>u' v'. content = u' @ srb_search block @ v' \<Longrightarrow> u' = u"
    using assms unfolding edits_once_def by blast
  have "str_contains content (srb_search block)" using c(1) by (auto simp: str_contains_iff)
  then obtain i where i: "str_index content (srb_search block) = Some i"
    by (auto simp: str_contains_def)
  have split: "content = take i content @ srb_search block @ drop (i + length (srb_search block)) content"
    by (rule str_index_split [OF i])
  have "take i content = u" by (rule once [OF split])
  then have "take i content = u" "drop (i + length (srb_search block)) content = v"
    using split c(1) by auto
  then show ?thesis by (simp add: replace_first_def i c(2))
qed

lemma edits_once_unique: "edits_once c b c1 \<Longrightarrow> edits_once c b c2 \<Longrightarrow> c1 = c2"
  using edits_once_replace_first by metis

lemma apply_blocks_all_ok:
  "list_all (\<lambda>r. br_status r = ''ok'') (fst (apply_blocks index content blocks)) \<Longrightarrow>
   edits content blocks (snd (apply_blocks index content blocks))"
proof (induction blocks arbitrary: index content)
  case (Cons b bs)
  then have "br_status (validate_search_replace_block content b index) = ''ok''"
    by (auto simp: Let_def split: if_splits prod.splits)
  then obtain content' where once: "edits_once content b content'"
    using validate_ok_iff by blast
  obtain rs applied where ap: "apply_blocks (Suc index) content' bs = (rs, applied)" by fastforce
  have "edits content' bs applied"
    using Cons.IH [of "Suc index" content'] Cons.prems ap edits_once_replace_first [OF once]
    by (auto simp: Let_def split: if_splits)
  then show ?case
    using once ap edits_once_replace_first [OF once] validate_ok_iff
    by (auto simp: Let_def intro: edits.block)
qed (simp add: edits.no_block)

lemma apply_blocks_edits:
  "edits content blocks final \<Longrightarrow>
   list_all (\<lambda>r. br_status r = ''ok'') (fst (apply_blocks index content blocks)) \<and>
   snd (apply_blocks index content blocks) = final"
proof (induction arbitrary: index rule: edits.induct)
  case (block content b content' bs final)
  have "br_status (validate_search_replace_block content b index) = ''ok''"
    using block.hyps(1) validate_ok_iff by blast
  then show ?case
    using block.IH [of "Suc index"] edits_once_replace_first [OF block.hyps(1)]
    by (cases "apply_blocks (Suc index) content' bs") (simp add: Let_def)
qed simp

lemma edits_iff_apply_blocks:
  "edits content blocks final \<longleftrightarrow>
   list_all (\<lambda>r. br_status r = ''ok'') (fst (apply_blocks index content blocks)) \<and>
   snd (apply_blocks index content blocks) = final"
  using apply_blocks_all_ok apply_blocks_edits by blast

lemma apply_blocks_failure:
  "\<not> list_all (\<lambda>r. br_status r = ''ok'') (fst (apply_blocks index content blocks)) \<Longrightarrow>
   \<exists>k < length blocks. length (fst (apply_blocks index content blocks)) = Suc k \<and>
     edits content (take k blocks) (snd (apply_blocks index content blocks)) \<and>
     (\<forall>i \<le> k. br_index (fst (apply_blocks index content blocks) ! i) = index + i \<and>
        (br_status (fst (apply_blocks index content blocks) ! i) = ''ok'' \<longleftrightarrow> i < k))"
proof (induction blocks arbitrary: index content)
  case (Cons b bs)
  let ?r = "validate_search_replace_block content b index"
  have idx: "br_index ?r = index" by (simp add: validate_search_replace_block_def Let_def)
  show ?case
  proof (cases "br_status ?r = ''ok''")
    case False
    then show ?thesis by (intro exI [of _ 0]) (simp add: idx edits.no_block Let_def)
  next
    case True
    then obtain content' where once: "edits_once content b content'" using validate_ok_iff by blast
    obtain rs applied where ap: "apply_blocks (Suc index) content' bs = (rs, applied)" by fastforce
    have step: "apply_blocks index content (b # bs) = (?r # rs, applied)"
      using True edits_once_replace_first [OF once] ap by (simp add: Let_def)
    have "\<not> list_all (\<lambda>r. br_status r = ''ok'') rs" using Cons.prems step True by simp
    then obtain k where k: "k < length bs" "length rs = Suc k" "edits content' (take k bs) applied"
      and each: "\<And>i. i \<le> k \<Longrightarrow> br_index (rs ! i) = Suc index + i \<and> (br_status (rs ! i) = ''ok'' \<longleftrightarrow> i < k)"
      using Cons.IH [of "Suc index" content'] ap by auto
    have "br_index ((?r # rs) ! i) = index + i \<and> (br_status ((?r # rs) ! i) = ''ok'' \<longleftrightarrow> i < Suc k)"
      if "i \<le> Suc k" for i
      using that True idx each by (cases i) auto
    then show ?thesis
      using k edits.block [OF once k(3)] step by (intro exI [of _ "Suc k"]) simp
  qed
qed simp

text \<open>
  Property C29. A patch does what its blocks say: all blocks are accepted exactly when each of them
  names a text that is not empty and occurs once, at overlapping places too, in the content the
  blocks before it leave, and then the applied content is the one the blocks lead to.
\<close>

theorem patch_refines_edits:
  "(\<forall>r \<in> set (srs_blocks (ApplySearchReplacePatch hash_text request)). br_status r = ''ok'') \<and>
   srs_applied_content (ApplySearchReplacePatch hash_text request) = final \<longleftrightarrow>
   edits (srr_current_content request) (srr_blocks request) final"
  using edits_iff_apply_blocks [of "srr_current_content request" "srr_blocks request" final 0]
  by (simp add: ApplySearchReplacePatch_def case_prod_beta list_all_iff)

theorem patch_refines_edits_witness:
  "edits ''f(x); g(x)'' [\<lparr>srb_search = ''f(x)'', srb_replace = ''g(y)''\<rparr>, \<lparr>srb_search = ''g(x)'', srb_replace = []\<rparr>]
     ''g(y); ''"
proof -
  let ?request = "\<lparr>srr_path = [], srr_current_content = ''f(x); g(x)'',
    srr_blocks = [\<lparr>srb_search = ''f(x)'', srb_replace = ''g(y)''\<rparr>, \<lparr>srb_search = ''g(x)'', srb_replace = []\<rparr>]\<rparr>"
  have "(\<forall>r \<in> set (srs_blocks (ApplySearchReplacePatch (\<lambda>s. s) ?request)). br_status r = ''ok'') \<and>
        srs_applied_content (ApplySearchReplacePatch (\<lambda>s. s) ?request) = ''g(y); ''"
    by code_simp
  then show ?thesis using patch_refines_edits [of "\<lambda>s. s" ?request "''g(y); ''"] by simp
qed

text \<open>
  Fact. A patch that fails stops at its first bad block: the results are those of the blocks up to
  it, and the applied content is what the blocks before it made, not the content before the patch.
\<close>

theorem failed_patch_stops:
  assumes "\<not> (\<forall>r \<in> set (srs_blocks (ApplySearchReplacePatch hash_text request)). br_status r = ''ok'')"
  shows "\<exists>k < length (srr_blocks request).
    length (srs_blocks (ApplySearchReplacePatch hash_text request)) = Suc k \<and>
    edits (srr_current_content request) (take k (srr_blocks request))
      (srs_applied_content (ApplySearchReplacePatch hash_text request))"
  using apply_blocks_failure [of 0 "srr_current_content request" "srr_blocks request"] assms
  by (auto simp: ApplySearchReplacePatch_def case_prod_beta list_all_iff)

end
