(* ===== verification/EditRoute.thy ===== *)
theory EditRoute
  imports SearchReplace HookRunner PathWalk
begin

text \<open>
  \<open>go/internal/hooks/proxy_search_replace.go\<close>: the decisions every file edit starts with. An existing
  text file is not rewritten by \<open>Write\<close>, and the blocks of \<open>Edit\<close> and \<open>MultiEdit\<close> have to form a patch
  of \<open>SearchReplace\<close>. The function is the argument \<open>he_edit_decisions\<close> of the hook runner; the last
  section puts both together. The file system and the hash come with the environment.
\<close>

section \<open>The world\<close>

datatype edit_stat = EditMissing | EditSymlink | EditRegular | EditOther

record edit_world =
  ew_lstat :: "string \<Rightarrow> edit_stat"            \<comment> \<open>an error counts as missing\<close>
  ew_read :: "string \<Rightarrow> string option"         \<comment> \<open>the file, \<open>None\<close> on an error\<close>
  ew_probe :: "string \<Rightarrow> string option"        \<comment> \<open>what the first read of the opened file returns\<close>
  ew_hash :: "string \<Rightarrow> string"

section \<open>Paths\<close>

text \<open>\<open>filepath.IsLocal\<close> on Unix.\<close>

definition is_local :: "string \<Rightarrow> bool" where
  "is_local p =
     (if path_is_abs p \<or> p = [] then False
      else
        let has_dots = list_ex (\<lambda>part. part = ''.'' \<or> part = ''..'') (split_on CHR ''/'' p);
            q = (if has_dots then path_clean p else p)
        in \<not> (q = ''..'' \<or> has_prefix q ''../''))"

definition invalid_search_replace_file :: "string \<Rightarrow> bool" where
  "invalid_search_replace_file f \<longleftrightarrow> f = ''.'' \<or> \<not> is_local f"

definition search_replace_path :: "string \<Rightarrow> string \<Rightarrow> string option" where
  "search_replace_path cwd f =
     (if cwd = [] \<or> f = [] then None
      else let clean = path_clean f
           in if invalid_search_replace_file clean then None else Some (path_join [cwd, clean]))"

text \<open>The path, and whether it exists, is a regular file, and is refused.\<close>

definition search_replace_file_path ::
  "edit_world \<Rightarrow> string \<Rightarrow> string \<Rightarrow> string \<times> bool \<times> bool \<times> bool" where
  "search_replace_file_path W cwd f =
     (case search_replace_path cwd f of
        None \<Rightarrow> ([], False, False, False)
      | Some path \<Rightarrow>
          (case ew_lstat W path of
             EditMissing \<Rightarrow> ([], False, False, False)
           | EditSymlink \<Rightarrow> (path, True, False, True)
           | EditRegular \<Rightarrow> (path, True, True, False)
           | EditOther \<Rightarrow> (path, True, False, False)))"

definition is_binary :: "string \<Rightarrow> bool" where
  "is_binary data \<longleftrightarrow> CHR 0x00 \<in> set data"

text \<open>The content, and whether the file exists, is binary, and is refused.\<close>

definition read_search_replace_file ::
  "edit_world \<Rightarrow> string \<Rightarrow> string \<Rightarrow> string \<times> bool \<times> bool \<times> bool" where
  "read_search_replace_file W cwd f =
     (case search_replace_file_path W cwd f of
        (path, exists, regular, rejected) \<Rightarrow>
          if rejected then ([], True, False, True)
          else if \<not> exists \<or> \<not> regular then ([], False, False, False)
          else case ew_read W path of
                 None \<Rightarrow> ([], False, False, False)
               | Some data \<Rightarrow>
                   if is_binary data then ([], True, True, False) else (data, True, False, False))"

definition read_search_replace_text_file ::
  "edit_world \<Rightarrow> string \<Rightarrow> string \<Rightarrow> string \<times> bool \<times> bool" where
  "read_search_replace_text_file W cwd f =
     (case read_search_replace_file W cwd f of
        (content, exists, binary, rejected) \<Rightarrow>
          if rejected then ([], False, True) else (content, exists \<and> \<not> binary, False))"

definition regular_text_file_exists :: "edit_world \<Rightarrow> string \<Rightarrow> string \<Rightarrow> bool" where
  "regular_text_file_exists W cwd f =
     (case search_replace_file_path W cwd f of
        (path, exists, regular, rejected) \<Rightarrow>
          if rejected then True
          else if \<not> exists \<or> \<not> regular then False
          else case ew_probe W path of None \<Rightarrow> True | Some buffer \<Rightarrow> \<not> is_binary buffer)"

section \<open>The event\<close>

definition single_event_file :: "event \<Rightarrow> string option" where
  "single_event_file e =
     (case Files e of
        [f] \<Rightarrow> let clean = path_clean f
               in if invalid_search_replace_file clean then None else Some clean
      | _ \<Rightarrow> None)"

fun edit_blocks :: "any list \<Rightarrow> search_replace_block list option" where
  "edit_blocks [] = Some []"
| "edit_blocks (item # items) =
     (case any_map_of item of
        None \<Rightarrow> None
      | Some edit \<Rightarrow>
          map_option ((#) \<lparr>srb_search = string_map_value edit ''old_string'',
                           srb_replace = string_map_value edit ''new_string''\<rparr>) (edit_blocks items))"

definition multi_edit_blocks :: "any option \<Rightarrow> search_replace_block list option" where
  "multi_edit_blocks raw =
     (case raw of
        Some (AList items) \<Rightarrow> if items = [] then None else edit_blocks items
      | _ \<Rightarrow> None)"

definition event_search_replace_blocks :: "event \<Rightarrow> search_replace_block list option" where
  "event_search_replace_blocks e =
     (if ev_tool_name e = ''MultiEdit''
      then multi_edit_blocks (Option.bind (ev_tool_input e) (\<lambda>m. map_of m ''edits''))
      else if OldContent e = [] \<and> Content e = [] then None
      else Some [\<lparr>srb_search = OldContent e, srb_replace = Content e\<rparr>])"

section \<open>The decisions\<close>

definition is_edit_tool :: "string \<Rightarrow> bool" where
  "is_edit_tool tool \<longleftrightarrow> tool \<in> {''Edit'', ''MultiEdit'', ''Write''}"

definition ProxySearchReplaceEditPolicy :: policy where
  "ProxySearchReplaceEditPolicy =
     \<lparr>pol_source = \<lparr>source_file = ''docs/AGENT_PROXY.md'', source_path = ''Search/Replace Edit Enforcement''\<rparr>,
      pol_category = ''proxy'', pol_default_severity = ''block'',
      pol_id = ''proxy.search_replace_edit'',
      pol_message = ''File edits must use exact SEARCH/REPLACE blocks that match '' @
        ''the current file content exactly once.'',
      pol_suggestion = ''Use Edit or MultiEdit with a non-empty old_string that '' @
        ''matches exactly one current file span; do not rewrite existing files '' @ ''with Write.'',
      pol_evaluators = [\<lparr>eval_options = [], eval_kind = ''text'', eval_name = ''proxy.search_replace_edit''\<rparr>],
      pol_principle_ids = [''one-path-for-critical-operations'', ''security-by-design'']\<rparr>"

definition proxy_search_replace_policy :: "policy_bundle \<Rightarrow> policy" where
  "proxy_search_replace_policy bundle =
     (case map_of (bundle_policies bundle) ''proxy.search_replace_edit'' of
        Some p \<Rightarrow> p
      | None \<Rightarrow> ProxySearchReplaceEditPolicy)"

definition proxy_search_replace_decision :: "policy \<Rightarrow> event \<Rightarrow> any_map \<Rightarrow> decision" where
  "proxy_search_replace_decision policy_def e evidence =
     (NewDecision ''block'' policy_def)
       \<lparr>dec_evidence := maps_copy [(''event'', AString (ev_hook_event_name e)),
          (''tool'', AString (ev_tool_name e))] evidence\<rparr>"

definition proxy_write_decisions :: "edit_world \<Rightarrow> event \<Rightarrow> policy \<Rightarrow> decision list" where
  "proxy_write_decisions W e policy_def =
     (case single_event_file e of
        None \<Rightarrow> []
      | Some f \<Rightarrow>
          if \<not> regular_text_file_exists W (ev_cwd e) f then []
          else [proxy_search_replace_decision policy_def e
                  [(''file'', AString f), (''reason'', AString ''write_existing_file'')]])"

definition failed_block :: "block_result list \<Rightarrow> block_result option" where
  "failed_block rs = find (\<lambda>r. br_status r \<noteq> ''ok'') rs"

definition proxy_edit_decisions :: "edit_world \<Rightarrow> event \<Rightarrow> policy \<Rightarrow> decision list" where
  "proxy_edit_decisions W e policy_def =
     (let decide = (\<lambda>evidence. [proxy_search_replace_decision policy_def e evidence])
      in if 1 < length (Files e) then
           decide [(''reason'', AString ''invalid_edit_target''),
                   (''file_count'', AInt (int (length (Files e))))]
         else case single_event_file e of
           None \<Rightarrow> []
         | Some f \<Rightarrow>
             (case read_search_replace_text_file W (ev_cwd e) f of
                (content, found_text, rejected) \<Rightarrow>
                  if rejected then
                    decide [(''file'', AString f), (''reason'', AString ''invalid_edit_target'')]
                  else if \<not> found_text then []
                  else case event_search_replace_blocks e of
                    None \<Rightarrow>
                      decide [(''file'', AString f),
                        (''reason'', AString (if ev_tool_name e = ''MultiEdit''
                                              then ''malformed_multiedit'' else ''missing'')),
                        (''current_content_hash'', AString (ew_hash W content))]
                  | Some blocks \<Rightarrow>
                      let result = ApplySearchReplacePatch (ew_hash W)
                            \<lparr>srr_path = f, srr_current_content = content, srr_blocks = blocks\<rparr>
                      in case failed_block (srs_blocks result) of
                           None \<Rightarrow> []
                         | Some r \<Rightarrow>
                             decide [(''file'', AString f), (''reason'', AString (br_status r)),
                               (''block_index'', AInt (int (br_index r))),
                               (''match_count'', AInt (int (br_match_count r))),
                               (''current_content_hash'', AString (srs_current_content_hash result))]))"

definition proxy_search_replace_edit_decisions ::
  "edit_world \<Rightarrow> policy_bundle \<Rightarrow> event \<Rightarrow> decision list" where
  "proxy_search_replace_edit_decisions W bundle e =
     (if ev_hook_event_name e \<noteq> ''PreToolUse'' \<or> \<not> is_edit_tool (ev_tool_name e) then []
      else let policy_def = proxy_search_replace_policy bundle
           in if ev_tool_name e = ''Write'' then proxy_write_decisions W e policy_def
              else proxy_edit_decisions W e policy_def)"

section \<open>What an edit without a decision does\<close>

lemma search_replace_decision_blocks:
  "result_status (proxy_search_replace_decision policy_def e evidence # ds) = ''blocked''"
  by (simp add: proxy_search_replace_decision_def NewDecision_def result_status_def)

lemma failed_block_None: "failed_block rs = None \<longleftrightarrow> (\<forall>r \<in> set rs. br_status r = ''ok'')"
  by (auto simp: failed_block_def find_None_iff)

lemma all_blocks_ok_iff:
  "(\<forall>r \<in> set (srs_blocks (ApplySearchReplacePatch h \<lparr>srr_path = f, srr_current_content = c, srr_blocks = bs\<rparr>)).
      br_status r = ''ok'') \<longleftrightarrow> (\<exists>final. edits c bs final)"
  using edits_iff_apply_blocks [of c bs _ 0]
  by (simp add: ApplySearchReplacePatch_def case_prod_beta list_all_iff)

text \<open>The single file of an edit, read as text.\<close>

definition edits_text_file :: "edit_world \<Rightarrow> event \<Rightarrow> string \<Rightarrow> bool" where
  "edits_text_file W e content \<longleftrightarrow>
     (\<exists>f. Files e = [f] \<and> ev_cwd e \<noteq> [] \<and>
        (let clean = path_clean f; path = path_join [ev_cwd e, clean]
         in \<not> path_is_abs clean \<and> clean \<noteq> ''.'' \<and> clean \<noteq> ''..'' \<and> \<not> has_prefix clean ''../'' \<and>
            ew_lstat W path = EditRegular \<and> ew_read W path = Some content \<and> \<not> is_binary content))"

lemma edits_text_file_found:
  assumes "edits_text_file W e content"
  obtains f path where "single_event_file e = Some f" "search_replace_path (ev_cwd e) f = Some path"
    "ew_lstat W path = EditRegular" "ew_read W path = Some content" "\<not> is_binary content"
proof -
  obtain f where f: "Files e = [f]" "ev_cwd e \<noteq> []" "\<not> path_is_abs (path_clean f)" "path_clean f \<noteq> ''.''"
      "path_clean f \<noteq> ''..''" "\<not> has_prefix (path_clean f) ''../''"
      "ew_lstat W (path_join [ev_cwd e, path_clean f]) = EditRegular"
      "ew_read W (path_join [ev_cwd e, path_clean f]) = Some content" "\<not> is_binary content"
    using assms by (auto simp: edits_text_file_def Let_def)
  have "path_clean [] = ''.''" by (simp add: path_clean_def)
  then have "path_clean f \<noteq> []" using path_clean_idem [of f] by (auto simp del: path_clean_idem)
  with f(3-6) have local: "\<not> invalid_search_replace_file (path_clean f)"
    by (simp add: invalid_search_replace_file_def is_local_def Let_def)
  then have "single_event_file e = Some (path_clean f)" using f(1) by (simp add: single_event_file_def Let_def)
  moreover have "search_replace_path (ev_cwd e) (path_clean f) = Some (path_join [ev_cwd e, path_clean f])"
    using local f(2) \<open>path_clean f \<noteq> []\<close> by (simp add: search_replace_path_def Let_def)
  ultimately show thesis using f(7-9) by (rule that)
qed

lemma single_event_file_Files: "single_event_file e = Some f \<Longrightarrow> length (Files e) = 1"
  by (auto simp: single_event_file_def split: list.splits)

lemma proxy_edit_decisions_text:
  assumes "edits_text_file W e content"
  shows "proxy_edit_decisions W e policy_def = [] \<longleftrightarrow>
    (\<exists>blocks final. event_search_replace_blocks e = Some blocks \<and> edits content blocks final)"
proof -
  obtain f path where f: "single_event_file e = Some f" "search_replace_path (ev_cwd e) f = Some path"
    "ew_lstat W path = EditRegular" "ew_read W path = Some content" "\<not> is_binary content"
    using edits_text_file_found [OF assms] by blast
  have read: "read_search_replace_text_file W (ev_cwd e) f = (content, True, False)"
    using f by (simp add: read_search_replace_text_file_def read_search_replace_file_def
        search_replace_file_path_def)
  have one: "\<not> 1 < length (Files e)" using single_event_file_Files [OF f(1)] by simp
  show ?thesis
  proof (cases "event_search_replace_blocks e")
    case None
    then show ?thesis using f one read by (simp add: proxy_edit_decisions_def Let_def)
  next
    case (Some blocks)
    have "proxy_edit_decisions W e policy_def = [] \<longleftrightarrow>
      failed_block (srs_blocks (ApplySearchReplacePatch (ew_hash W)
        \<lparr>srr_path = f, srr_current_content = content, srr_blocks = blocks\<rparr>)) = None"
      using Some f one read by (simp add: proxy_edit_decisions_def Let_def split: option.split)
    then show ?thesis using Some by (simp add: failed_block_None all_blocks_ok_iff)
  qed
qed

lemma edit_decisions_cases:
  "proxy_search_replace_edit_decisions W bundle e = [] \<or>
   result_status (proxy_search_replace_edit_decisions W bundle e) = ''blocked''"
proof -
  have "proxy_write_decisions W e p = [] \<or> result_status (proxy_write_decisions W e p) = ''blocked''" for p
    by (simp add: proxy_write_decisions_def search_replace_decision_blocks split: option.split)
  moreover have "proxy_edit_decisions W e p = [] \<or> result_status (proxy_edit_decisions W e p) = ''blocked''" for p
    by (simp add: proxy_edit_decisions_def search_replace_decision_blocks Let_def split: option.split prod.split)
  ultimately show ?thesis by (simp add: proxy_search_replace_edit_decisions_def Let_def)
qed

section \<open>With the hook runner\<close>

definition with_edit_policy :: "'n hook_env \<Rightarrow> edit_world \<Rightarrow> 'n hook_env" where
  "with_edit_policy H W = H\<lparr>he_edit_decisions := proxy_search_replace_edit_decisions W\<rparr>"

lemma unblocked_edit_decisions:
  assumes "RunWithRegistry H bundle original R = Inr r"
    and "event_without_debug_flag (he_bash H) original = (e, debug)"
    and "\<not> ic_read_only_inspection (CollectInspectionContext H e)"
    and "\<not> result_blocked r"
  shows "result_status (he_edit_decisions H bundle e) \<noteq> ''blocked''"
proof -
  let ?ctx = "CollectInspectionContext H e"
  have ev: "ic_event ?ctx = e" by (simp add: CollectInspectionContext_def Let_def)
  obtain ds where ds: "evaluate_dispatched_policies H R bundle ?ctx = Inr ds"
      "res_status r = insp_status (DecideInspection bundle ?ctx ds (route_tool_use H ?ctx))"
    using RunWithRegistry_cases [OF assms(1-3)] by metis
  obtain rest where "ds = he_edit_decisions H bundle e @ rest"
    using dispatch_loop_ok [OF ds(1) [unfolded evaluate_dispatched_policies_def]] ev by auto
  moreover have "result_status ds \<noteq> ''blocked''"
    using ds(2) assms(4) by (auto simp: result_blocked_def DecideInspection_status)
  ultimately show ?thesis by (auto simp: result_status_def split: if_splits)
qed

text \<open>
  Property C27. An edit of one regular text file that the event names by a relative path inside of the
  working directory (\<open>edits_text_file\<close>; a file named by an absolute path is not inspected, see
  \<open>absolute_path_not_inspected\<close>). When a run of the hook, outside of its read-only mode, does not block
  such an edit before it happens, then the tool is not \<open>Write\<close>, the event has blocks, and each of
  them occurs exactly once in the content the blocks before it make of the file. It supposes that the
  probe for binary files reads a prefix of the file.
\<close>

theorem unblocked_edit_is_exact:
  assumes "RunWithRegistry (with_edit_policy H W) bundle original R = Inr r"
    and "event_without_debug_flag (he_bash H) original = (e, debug)"
    and "\<not> ic_read_only_inspection (CollectInspectionContext (with_edit_policy H W) e)"
    and "ev_hook_event_name e = ''PreToolUse''" and "is_edit_tool (ev_tool_name e)"
    and "edits_text_file W e content"
    and "\<forall>path. ew_read W path = Some content \<longrightarrow> (\<exists>n. ew_probe W path = Some (take n content))"
    and "\<not> result_blocked r"
  shows "ev_tool_name e \<noteq> ''Write'' \<and>
    (\<exists>blocks final. event_search_replace_blocks e = Some blocks \<and> edits content blocks final)"
proof -
  let ?H = "with_edit_policy H W"
  have "result_status (proxy_search_replace_edit_decisions W bundle e) \<noteq> ''blocked''"
    using unblocked_edit_decisions [of ?H, OF assms(1) _ assms(3,8)] assms(2)
    by (simp add: with_edit_policy_def)
  then have none: "proxy_search_replace_edit_decisions W bundle e = []"
    using edit_decisions_cases by blast
  obtain f path where f: "single_event_file e = Some f" "search_replace_path (ev_cwd e) f = Some path"
    "ew_lstat W path = EditRegular" "ew_read W path = Some content" "\<not> is_binary content"
    using edits_text_file_found [OF assms(6)] by blast
  obtain n where n: "ew_probe W path = Some (take n content)" using assms(7) f(4) by blast
  have "\<not> is_binary (take n content)" using f(5) by (auto simp: is_binary_def dest: in_set_takeD)
  then have "regular_text_file_exists W (ev_cwd e) f"
    using f n by (simp add: regular_text_file_exists_def search_replace_file_path_def)
  then have tool: "ev_tool_name e \<noteq> ''Write''"
    using none f(1) assms(4,5)
    by (auto simp: proxy_search_replace_edit_decisions_def proxy_write_decisions_def)
  then have "proxy_edit_decisions W e (proxy_search_replace_policy bundle) = []"
    using none assms(4,5) by (simp add: proxy_search_replace_edit_decisions_def Let_def)
  then show ?thesis using tool proxy_edit_decisions_text [OF assms(6)] by simp
qed

section \<open>Instances\<close>

definition sample_edit_world :: "string \<Rightarrow> string \<Rightarrow> edit_world" where
  "sample_edit_world path content =
     \<lparr>ew_lstat = (\<lambda>p. if p = path then EditRegular else EditMissing),
      ew_read = (\<lambda>p. if p = path then Some content else None),
      ew_probe = (\<lambda>p. if p = path then Some (take 8192 content) else None), ew_hash = (\<lambda>s. s)\<rparr>"

definition sample_edit :: "string \<Rightarrow> string \<Rightarrow> string \<Rightarrow> string \<Rightarrow> event" where
  "sample_edit tool path old new =
     empty_event\<lparr>ev_hook_event_name := ''PreToolUse'', ev_tool_name := tool, ev_cwd := ''/repo'',
       ev_tool_input := Some [(''file_path'', AString path), (''old_string'', AString old),
         (''new_string'', AString new)]\<rparr>"

definition no_hooks_bundle :: policy_bundle where
  "no_hooks_bundle = (sample_bundle ''block'')\<lparr>bundle_hooks := []\<rparr>"

theorem unblocked_edit_is_exact_witness:
  "\<exists>blocks final. event_search_replace_blocks (sample_edit ''Edit'' ''a.py'' ''x = 1'' ''x = 2'') = Some blocks \<and>
     edits ''x = 1; y = 1'' blocks final"
proof -
  let ?W = "sample_edit_world ''/repo/a.py'' ''x = 1; y = 1''"
  let ?e = "sample_edit ''Edit'' ''a.py'' ''x = 1'' ''x = 2''"
  let ?H = "sample_env [] []"
  let ?run = "RunWithRegistry (with_edit_policy ?H ?W) no_hooks_bundle ?e sample_registry"
  have d: "event_without_debug_flag (he_bash ?H) ?e = (?e, False)" by code_simp
  have ro: "\<not> ic_read_only_inspection (CollectInspectionContext (with_edit_policy ?H ?W) ?e)" by code_simp
  have "evaluate_dispatched_policies (with_edit_policy ?H ?W) sample_registry no_hooks_bundle
      (CollectInspectionContext (with_edit_policy ?H ?W) ?e) = Inr []" by code_simp
  note ds = this
  have route: "\<not> route_rewrite (route_tool_use (with_edit_policy ?H ?W) (CollectInspectionContext (with_edit_policy ?H ?W) ?e)) \<and>
      \<not> route_block (route_tool_use (with_edit_policy ?H ?W) (CollectInspectionContext (with_edit_policy ?H ?W) ?e))" by code_simp
  have e: "event_without_debug_flag (he_bash (with_edit_policy ?H ?W)) ?e = (?e, False)" by code_simp
  obtain r where r: "?run = Inr r" "\<not> result_blocked r"
    by (rule run_of_dispatch [OF e ro ds]) (use route in \<open>simp add: DecideInspection_status result_status_def\<close>)
  have tool: "ev_hook_event_name ?e = ''PreToolUse''" "is_edit_tool (ev_tool_name ?e)" by code_simp+
  have "Files ?e = [''a.py'']" "path_clean ''a.py'' = ''a.py''" "path_join [''/repo'', ''a.py''] = ''/repo/a.py''"
    "ev_cwd ?e = ''/repo''" "\<not> is_binary ''x = 1; y = 1''" by code_simp+
  then have t: "edits_text_file ?W ?e ''x = 1; y = 1''"
    by (simp add: edits_text_file_def sample_edit_world_def path_is_abs_def)
  have probe: "\<forall>path. ew_read ?W path = Some ''x = 1; y = 1'' \<longrightarrow>
      (\<exists>n. ew_probe ?W path = Some (take n ''x = 1; y = 1''))"
    by (auto simp: sample_edit_world_def split: if_splits intro: exI [of _ 8192])
  show ?thesis using unblocked_edit_is_exact [OF r(1) d ro tool t probe r(2)] by blast
qed

text \<open>
  Fact. The policy is silent about absolute paths, the form in which some agents name
  every file: an existing text file is then rewritten as a whole.
\<close>

lemma absolute_path_not_inspected:
  assumes "Files e = [f]" and "path_is_abs f"
  shows "proxy_search_replace_edit_decisions W bundle e = []"
proof -
  have "path_is_abs (path_clean f)"
    using assms(2) by (cases f) (auto simp: path_is_abs_def path_clean_def Let_def has_prefix_def)
  then have "single_event_file e = None"
    using assms(1) by (simp add: single_event_file_def invalid_search_replace_file_def is_local_def)
  then show ?thesis
    using assms(1)
    by (simp add: proxy_search_replace_edit_decisions_def proxy_write_decisions_def
        proxy_edit_decisions_def Let_def)
qed

end
