(* ===== verification/Transforms.thy ===== *)
theory Transforms
  imports Runes GoLines GoNumbers Diagnostics
begin

text \<open>
  \<open>go/internal/agentproxy/transform.go\<close> and the lines of \<open>output_compression.go\<close>: the pipeline of
  content transforms, the two tokenizers, and the splitting and joining of output lines. A transform
  may touch the outside world, whose state \<open>'w\<close> it returns. Machine integers that are added or
  multiplied are kept in 64 bits.
\<close>

section \<open>Data\<close>

type_synonym metadata = "(string \<times> string) list"
type_synonym tokenizer = "string \<Rightarrow> int"

record transform_record =
  tr_metadata :: metadata
  tr_name :: string
  tr_input_hash :: string
  tr_output_hash :: string
  tr_reason :: string
  tr_policy_id :: string
  tr_decision :: string
  tr_evidence_path :: string
  tr_input_tokens :: int
  tr_output_tokens :: int
  tr_bytes_removed :: int
  tr_findings_count :: int

definition empty_record :: transform_record where
  "empty_record =
     \<lparr>tr_metadata = [], tr_name = [], tr_input_hash = [], tr_output_hash = [], tr_reason = [],
      tr_policy_id = [], tr_decision = [], tr_evidence_path = [], tr_input_tokens = 0,
      tr_output_tokens = 0, tr_bytes_removed = 0, tr_findings_count = 0\<rparr>"

record transform_input =
  ti_tokenizer :: "tokenizer option"
  ti_metadata :: metadata
  ti_text :: string

record transform_output =
  to_text :: string
  to_records :: "transform_record list"
  to_metadata :: metadata
  to_record :: transform_record

definition single_output :: "string \<Rightarrow> metadata \<Rightarrow> transform_record \<Rightarrow> transform_output" where
  "single_output txt m r = \<lparr>to_text = txt, to_records = [], to_metadata = m, to_record = r\<rparr>"

datatype transform_error =
    NilContentTransform
  | ApplyTransform string transform_error
  | EvidenceError string
  | SliceOutOfRange  \<comment> \<open>a panic of the runtime\<close>

record 'w content_transform =
  ct_name :: string
  ct_apply :: "'w \<Rightarrow> transform_input \<Rightarrow> 'w \<times> (transform_error + transform_output)"

section \<open>Tokenizers\<close>

definition whitespace_count :: tokenizer where
  "whitespace_count s = int (length (str_fields s))"

definition approximate_count :: tokenizer where
  "approximate_count s = (let n = length (runes s) in if n = 0 then 0 else (int n + 4 - 1) div 4)"

lemma approximate_count_Nil [simp]: "approximate_count [] = 0"
  by (simp add: approximate_count_def Let_def runes.simps [of "[]"])

lemma whitespace_count_Nil [simp]: "whitespace_count [] = 0"
  by (simp add: whitespace_count_def str_fields_def fields_acc.simps)

lemma approximate_count_nonneg: "0 \<le> approximate_count s"
  by (simp add: approximate_count_def Let_def pos_imp_zdiv_nonneg_iff)

section \<open>Pipeline\<close>

definition finish_record ::
  "(string \<Rightarrow> string) \<Rightarrow> tokenizer \<Rightarrow> string \<Rightarrow> string \<Rightarrow> string \<Rightarrow> transform_record \<Rightarrow> transform_record" where
  "finish_record hash_text count name before after r =
     r\<lparr>tr_name := name,
       tr_input_hash := (if tr_input_hash r = [] then hash_text before else tr_input_hash r),
       tr_output_hash := (if tr_output_hash r = [] then hash_text after else tr_output_hash r),
       tr_input_tokens := (if tr_input_tokens r = 0 then count before else tr_input_tokens r),
       tr_output_tokens := (if tr_output_tokens r = 0 then count after else tr_output_tokens r),
       tr_bytes_removed :=
         (if tr_bytes_removed r = 0 \<and> length after < length before
          then int (length before) - int (length after) else tr_bytes_removed r)\<rparr>"

fun pipeline_loop ::
  "(string \<Rightarrow> string) \<Rightarrow> tokenizer \<Rightarrow> 'w content_transform option list \<Rightarrow> 'w \<Rightarrow> transform_output \<Rightarrow>
   'w \<times> (transform_error + transform_output)" where
  "pipeline_loop hash_text count [] w out = (w, Inr out)"
| "pipeline_loop hash_text count (None # ts) w out = (w, Inl NilContentTransform)"
| "pipeline_loop hash_text count (Some t # ts) w out =
     (case ct_apply t w \<lparr>ti_tokenizer = Some count, ti_metadata = to_metadata out, ti_text = to_text out\<rparr> of
        (w', Inl err) \<Rightarrow> (w', Inl (ApplyTransform (ct_name t) err))
      | (w', Inr nxt) \<Rightarrow>
          let r = finish_record hash_text count (ct_name t) (to_text out) (to_text nxt) (to_record nxt)
          in pipeline_loop hash_text count ts w'
               \<lparr>to_text = to_text nxt, to_records = to_records out @ [r],
                to_metadata = to_metadata nxt, to_record = r\<rparr>)"

definition pipeline_apply ::
  "(string \<Rightarrow> string) \<Rightarrow> tokenizer option \<Rightarrow> 'w content_transform option list \<Rightarrow> 'w \<Rightarrow> transform_input \<Rightarrow>
   'w \<times> (transform_error + transform_output)" where
  "pipeline_apply hash_text tok ts w input =
     pipeline_loop hash_text (case tok of None \<Rightarrow> approximate_count | Some count \<Rightarrow> count) ts w
       (single_output (ti_text input) (ti_metadata input) empty_record)"

section \<open>Lines\<close>

text \<open>\<open>strings.Lines\<close> without the line ends: the last line need not be terminated.\<close>

definition split_output_lines :: "string \<Rightarrow> string list" where
  "split_output_lines txt =
     (let pieces = split_on CHR 0x0A txt
      in map (\<lambda>l. trim_suffix l [CHR 0x0D])
           (if last pieces = [] then butlast pieces else pieces))"

definition OutputLineCount :: "string \<Rightarrow> nat" where
  "OutputLineCount txt = length (split_output_lines txt)"

definition join_output_lines :: "string list \<Rightarrow> bool \<Rightarrow> string" where
  "join_output_lines lines trailing_newline =
     (if lines = [] then []
      else str_join [CHR 0x0A] lines @ (if trailing_newline then [CHR 0x0A] else []))"

lemma trim_suffix_set: "set (trim_suffix s p) \<subseteq> set s"
  by (auto simp: trim_suffix_def dest: in_set_takeD)

lemma split_output_lines_no_newline: "l \<in> set (split_output_lines txt) \<Longrightarrow> CHR 0x0A \<notin> set l"
  using trim_suffix_set split_on_parts
  by (fastforce simp: split_output_lines_def Let_def dest: in_set_butlastD split: if_splits)

lemma split_output_lines_Nil [simp]: "split_output_lines [] = []"
  by (simp add: split_output_lines_def)

lemma newline_count_join:
  assumes "\<forall>l \<in> set lines. CHR 0x0A \<notin> set l" and "lines \<noteq> []"
  shows "length (split_on CHR 0x0A (str_join [CHR 0x0A] lines)) = length lines"
  using split_join_on [of lines "CHR 0x0A"] assms by simp

lemma OutputLineCount_le: "OutputLineCount txt \<le> length (split_on CHR 0x0A txt)"
  by (simp add: OutputLineCount_def split_output_lines_def Let_def)

lemma OutputLineCount_join:
  assumes "\<forall>l \<in> set lines. CHR 0x0A \<notin> set l"
  shows "OutputLineCount (join_output_lines lines trailing) \<le> length lines"
proof (cases "lines = []")
  case False
  have n: "length (split_on CHR 0x0A (str_join [CHR 0x0A] lines)) = length lines"
    by (rule newline_count_join [OF assms False])
  show ?thesis
  proof (cases trailing)
    case True
    have "split_on CHR 0x0A (str_join [CHR 0x0A] lines @ [CHR 0x0A]) =
        split_on CHR 0x0A (str_join [CHR 0x0A] lines) @ [[]]"
      using split_on_append [of "CHR 0x0A" "str_join [CHR 0x0A] lines" "[]"] by simp
    then show ?thesis
      using n False True
      by (simp add: OutputLineCount_def split_output_lines_def join_output_lines_def)
  next
    case False
    then show ?thesis
      using n OutputLineCount_le [of "str_join [CHR 0x0A] lines"]
      by (simp add: join_output_lines_def OutputLineCount_def)
  qed
qed (simp add: join_output_lines_def OutputLineCount_def)

section \<open>The pipeline as a composition\<close>

lemma pipeline_loop_append:
  "pipeline_loop h count (ts @ us) w out =
     (case pipeline_loop h count ts w out of
        (w', Inl err) \<Rightarrow> (w', Inl err)
      | (w', Inr out') \<Rightarrow> pipeline_loop h count us w' out')"
  by (induction h count ts w out rule: pipeline_loop.induct)
     (auto simp: Let_def split: prod.split sum.split)

text \<open>What holds of every output of the last transform holds of the pipeline.\<close>

lemma pipeline_last:
  assumes "pipeline_apply h tok (ts @ [Some t]) w input = (w', Inr out)"
    and "\<And>v i v' o'. ct_apply t v i = (v', Inr o') \<Longrightarrow>
      ti_tokenizer i = Some (case tok of None \<Rightarrow> approximate_count | Some count \<Rightarrow> count) \<Longrightarrow> P (to_text o')"
  shows "P (to_text out)"
proof -
  let ?count = "case tok of None \<Rightarrow> approximate_count | Some count \<Rightarrow> count"
  let ?start = "single_output (ti_text input) (ti_metadata input) empty_record"
  obtain w1 out1 where 1: "pipeline_loop h ?count ts w ?start = (w1, Inr out1)"
    and 2: "pipeline_loop h ?count [Some t] w1 out1 = (w', Inr out)"
    using assms(1) by (auto simp: pipeline_apply_def pipeline_loop_append split: prod.splits sum.splits)
  let ?i = "\<lparr>ti_tokenizer = Some ?count, ti_metadata = to_metadata out1, ti_text = to_text out1\<rparr>"
  obtain o' where "ct_apply t w1 ?i = (w', Inr o')" "to_text out = to_text o'"
    using 2 by (auto simp: Let_def split: prod.splits sum.splits)
  then show ?thesis using assms(2) [of w1 ?i w' o'] by simp
qed

text \<open>
  Fact. A run that ends leaves one record for every transform, in their order and under their names.
\<close>

theorem pipeline_records_chain:
  assumes "pipeline_loop h count ts w out = (w', Inr out')"
  shows "\<exists>rs. to_records out' = to_records out @ rs \<and> map tr_name rs = map (ct_name \<circ> the) ts \<and>
    list_all (\<lambda>t. t \<noteq> None) ts"
  using assms
proof (induction h count ts w out rule: pipeline_loop.induct)
  case (3 h count t ts w out)
  obtain w1 nxt where nxt: "ct_apply t w
      \<lparr>ti_tokenizer = Some count, ti_metadata = to_metadata out, ti_text = to_text out\<rparr> = (w1, Inr nxt)"
    using 3(2) by (auto split: prod.splits sum.splits)
  let ?r = "finish_record h count (ct_name t) (to_text out) (to_text nxt) (to_record nxt)"
  have "tr_name ?r = ct_name t" by (simp add: finish_record_def)
  moreover obtain rs where "to_records out' = (to_records out @ [?r]) @ rs"
    "map tr_name rs = map (ct_name \<circ> the) ts" "list_all (\<lambda>t. t \<noteq> None) ts"
    using 3(1) [OF nxt [symmetric] refl refl] 3(2) nxt by (auto simp: Let_def)
  ultimately show ?case by (intro exI [of _ "?r # rs"]) simp
qed auto

end
