(* ===== verification/TokenBudget.thy ===== *)
theory TokenBudget
  imports Transforms
begin

text \<open>
  The hard token budget of \<open>go/internal/agentproxy/output_compression.go\<close>: the limits, the choice of
  the first and last lines, the loop that drops lines until the output fits, and the last resorts.
  The loop is recursive over the lines that are left, so it ends.
\<close>

type_synonym 'w evidence_writer = "int \<Rightarrow> int \<Rightarrow> string \<Rightarrow> 'w \<Rightarrow> 'w \<times> (string + string)"
  \<comment> \<open>\<open>writeFullOutputEvidence\<close> with the oldest age and the bytes to keep\<close>

abbreviation "metadata_full_output_path \<equiv> ''coding_ethos.full_output_path''"

section \<open>Limits\<close>

record token_budget =
  tb_max_tokens :: int
  tb_head_tokens :: int
  tb_tail_tokens :: int
  tb_evidence_max_age :: int
  tb_evidence_max_bytes :: int

definition positive_or :: "int \<Rightarrow> int \<Rightarrow> int" where
  "positive_or v fallback = (if v \<le> 0 then fallback else v)"

definition token_limits :: "token_budget \<Rightarrow> token_budget" where
  "token_limits t =
     (let max_tokens = max (positive_or (tb_max_tokens t) 2000) 32;
          head = positive_or (tb_head_tokens t) 900;
          tail = positive_or (tb_tail_tokens t) 900
      in if wrap64 (head + tail) \<ge> max_tokens then
           let preserved = max (max_tokens - 8) (32 div 2)
           in t\<lparr>tb_max_tokens := max_tokens, tb_head_tokens := preserved div 2,
                tb_tail_tokens := preserved - preserved div 2\<rparr>
         else t\<lparr>tb_max_tokens := max_tokens, tb_head_tokens := head, tb_tail_tokens := tail\<rparr>)"

section \<open>Choosing lines\<close>

definition line_fragment :: "int \<Rightarrow> nat" where
  "line_fragment tokens = nat (max 80 (wrap64 (tokens * 4)))"

definition token_budget_line_head :: "string \<Rightarrow> int \<Rightarrow> string" where
  "token_budget_line_head line tokens =
     (let rs = runes line
      in if length rs \<le> line_fragment tokens then line else concat (take (line_fragment tokens) rs))"

definition token_budget_line_tail :: "string \<Rightarrow> int \<Rightarrow> string" where
  "token_budget_line_tail line tokens =
     (let rs = runes line
      in if length rs \<le> line_fragment tokens then line
         else concat (drop (length rs - line_fragment tokens) rs))"

text \<open>
  The loop over the lines, from the front for the head and from the back for the tail, which differ
  in the cut of a long line.
\<close>

fun take_token_budget ::
  "(string \<Rightarrow> int \<Rightarrow> string) \<Rightarrow> tokenizer \<Rightarrow> int \<Rightarrow> int \<Rightarrow> string list \<Rightarrow> string list \<times> int" where
  "take_token_budget cut_line count budget used [] = ([], used)"
| "take_token_budget cut_line count budget used (line # lines) =
     (let line_tokens = max 1 (count line)
      in if 0 < used \<and> budget < used + line_tokens then ([], used)
         else
           let (chosen, used') = (if budget < line_tokens then (cut_line line budget, budget)
                                  else (line, used + line_tokens))
           in if budget \<le> used' then ([chosen], used')
              else let (rest, total) = take_token_budget cut_line count budget used' lines
                   in (chosen # rest, total))"

definition take_head_token_budget :: "string list \<Rightarrow> int \<Rightarrow> tokenizer \<Rightarrow> string list \<times> int" where
  "take_head_token_budget lines budget count =
     take_token_budget token_budget_line_head count budget 0 lines"

definition take_tail_token_budget :: "string list \<Rightarrow> int \<Rightarrow> tokenizer \<Rightarrow> string list \<times> int" where
  "take_tail_token_budget lines budget count =
     (case take_token_budget token_budget_line_tail count budget 0 (rev lines) of
        (chosen, used) \<Rightarrow> (rev chosen, used))"

section \<open>Fitting the budget\<close>

text \<open>The loop of \<open>tokenBudgetLineWithinBudget\<close> over the characters that are left.\<close>

function shrink_line :: "tokenizer \<Rightarrow> int \<Rightarrow> string list \<Rightarrow> string" where
  "shrink_line count tokens rs =
     (if rs = [] then []
      else let rs' = butlast rs; out = concat rs'
           in if count out \<le> tokens then out else shrink_line count tokens rs')"
  by pat_completeness auto
termination by (relation "measure (\<lambda>(count, tokens, rs). length rs)") auto

declare shrink_line.simps [simp del]

definition token_budget_line_within_budget :: "string \<Rightarrow> int \<Rightarrow> tokenizer \<Rightarrow> string" where
  "token_budget_line_within_budget line tokens count =
     (if count line \<le> tokens then line else shrink_line count tokens (runes line))"

definition compact_token_budget_output :: "string \<Rightarrow> int \<Rightarrow> tokenizer \<Rightarrow> bool \<Rightarrow> string" where
  "compact_token_budget_output marker max_tokens count trailing_newline =
     (case find (\<lambda>out. count out \<le> max_tokens)
             (map (\<lambda>line. join_output_lines [line] trailing_newline)
                [marker, ''token_budget: status=truncated full_output=ledger'']) of
        Some out \<Rightarrow> out
      | None \<Rightarrow> token_budget_line_within_budget ''token_budget: status=truncated'' max_tokens count)"

text \<open>The endless loop of \<open>budgetedOutput\<close>: the head loses its last line, then the tail its first.\<close>

function budget_loop ::
  "string \<Rightarrow> int \<Rightarrow> tokenizer \<Rightarrow> bool \<Rightarrow> string list \<Rightarrow> string list \<Rightarrow> string" where
  "budget_loop marker max_tokens count trailing_newline head tail =
     (let joined = join_output_lines (head @ [marker] @ tail) trailing_newline
      in if count joined \<le> max_tokens then joined
         else if head \<noteq> [] then
           budget_loop marker max_tokens count trailing_newline (butlast head) tail
         else case tail of
           _ # tail' \<Rightarrow> budget_loop marker max_tokens count trailing_newline head tail'
         | [] \<Rightarrow> compact_token_budget_output marker max_tokens count trailing_newline)"
  by pat_completeness auto
termination
  by (relation "measure (\<lambda>(marker, max_tokens, count, trailing, head, tail). length head + length tail)")
     auto

declare budget_loop.simps [simp del]

definition budget_marker :: "int \<Rightarrow> int \<Rightarrow> string \<Rightarrow> string" where
  "budget_marker max_tokens omitted evidence_path =
     ''token_budget: status=truncated max_tokens='' @ itoa max_tokens @ '' omitted_tokens='' @
     itoa omitted @ '' full_output='' @ evidence_path"

definition budgeted_output :: "string \<Rightarrow> token_budget \<Rightarrow> tokenizer \<Rightarrow> string \<Rightarrow> string" where
  "budgeted_output txt limits count evidence_path =
     (let lines = split_output_lines txt
      in if lines = [] then []
         else
           let (head, head_tokens) = take_head_token_budget lines (tb_head_tokens limits) count;
               (tail, tail_tokens) = take_tail_token_budget lines (tb_tail_tokens limits) count;
               omitted = max 0 (count txt - head_tokens - tail_tokens)
           in budget_loop (budget_marker (tb_max_tokens limits) omitted evidence_path)
                (tb_max_tokens limits) count (has_suffix txt [CHR 0x0A]) head tail)"

definition original_evidence_path ::
  "'w evidence_writer \<Rightarrow> int \<Rightarrow> int \<Rightarrow> transform_input \<Rightarrow> 'w \<Rightarrow> 'w \<times> (string + string)" where
  "original_evidence_path write max_age max_bytes i w =
     (case map_of (ti_metadata i) metadata_full_output_path of
        Some path \<Rightarrow> if path \<noteq> [] then (w, Inr path) else write max_age max_bytes (ti_text i) w
      | None \<Rightarrow> write max_age max_bytes (ti_text i) w)"

definition token_budget_apply ::
  "'w evidence_writer \<Rightarrow> token_budget \<Rightarrow> 'w \<Rightarrow> transform_input \<Rightarrow> 'w \<times> (transform_error + transform_output)" where
  "token_budget_apply write t w i =
     (let limits = token_limits t;
          count = (case ti_tokenizer i of None \<Rightarrow> approximate_count | Some c \<Rightarrow> c);
          tokens = count (ti_text i)
      in if tokens \<le> tb_max_tokens limits then
           (w, Inr (single_output (ti_text i) (ti_metadata i)
                 (empty_record\<lparr>tr_metadata := ti_metadata i, tr_policy_id := ''proxy.token_budget'',
                    tr_decision := ''allow'', tr_reason := ''tool output within token budget'',
                    tr_input_tokens := tokens, tr_output_tokens := tokens\<rparr>)))
         else case original_evidence_path write (tb_evidence_max_age t) (tb_evidence_max_bytes t) i w of
           (w', Inl err) \<Rightarrow> (w', Inl (EvidenceError err))
         | (w', Inr evidence_path) \<Rightarrow>
             let out = budgeted_output (ti_text i) limits count evidence_path;
                 m = map_set metadata_full_output_path evidence_path
                       (map_set ''coding_ethos.max_tokens'' (itoa (tb_max_tokens limits))
                         (map_set ''coding_ethos.input_tokens'' (itoa tokens)
                           (map_set ''coding_ethos.token_budget_exceeded'' ''true'' (ti_metadata i))))
             in (w', Inr (single_output out m
                   (empty_record\<lparr>tr_metadata := m, tr_policy_id := ''proxy.token_budget'',
                      tr_decision := ''truncate'', tr_reason := ''tool output exceeded token budget'',
                      tr_evidence_path := evidence_path, tr_input_tokens := tokens,
                      tr_output_tokens := count out\<rparr>))))"

definition token_budget_transform :: "'w evidence_writer \<Rightarrow> token_budget \<Rightarrow> 'w content_transform" where
  "token_budget_transform write t =
     \<lparr>ct_name = ''tool-output-token-budget'', ct_apply = token_budget_apply write t\<rparr>"

section \<open>The budget holds\<close>

lemma shrink_line_fits:
  assumes "count [] \<le> tokens"
  shows "count (shrink_line count tokens rs) \<le> tokens"
  using assms
proof (induction count tokens rs rule: shrink_line.induct)
  case (1 count tokens rs)
  then show ?case by (subst shrink_line.simps) (auto simp: Let_def)
qed

lemma compact_fits:
  assumes "count [] \<le> tokens"
  shows "count (compact_token_budget_output marker tokens count trailing) \<le> tokens"
  using shrink_line_fits [of count tokens] assms
  by (auto simp: compact_token_budget_output_def token_budget_line_within_budget_def Let_def)

lemma budget_loop_fits:
  assumes "count [] \<le> max_tokens"
  shows "count (budget_loop marker max_tokens count trailing head tail) \<le> max_tokens"
  using assms
proof (induction marker max_tokens count trailing head tail rule: budget_loop.induct)
  case (1 marker max_tokens count trailing head tail)
  let ?joined = "join_output_lines (head @ [marker] @ tail) trailing"
  consider "count ?joined \<le> max_tokens" | "\<not> count ?joined \<le> max_tokens" "head \<noteq> []"
    | t tail' where "\<not> count ?joined \<le> max_tokens" "head = []" "tail = t # tail'"
    | "\<not> count ?joined \<le> max_tokens" "head = []" "tail = []"
    by (cases "count ?joined \<le> max_tokens"; cases "head = []"; cases tail) blast+
  then show ?case
  proof cases
    case 2
    then show ?thesis using 1(1) [OF refl 2] 1(3) by (subst budget_loop.simps) (simp add: Let_def)
  next
    case 3
    then show ?thesis using 1(2) [OF refl 3(1) _ 3(3)] 1(3)
      by (subst budget_loop.simps) (simp add: Let_def)
  qed (use 1(3) in \<open>subst budget_loop.simps, simp add: Let_def compact_fits\<close>)+
qed

lemma token_limits_bounds:
  "32 \<le> tb_max_tokens (token_limits t)"
  "tb_max_tokens (token_limits t) = max (positive_or (tb_max_tokens t) 2000) 32"
  by (simp_all add: token_limits_def Let_def)

lemma token_budget_apply_fits:
  assumes "token_budget_apply write t w i = (w', Inr out)"
    and "ti_tokenizer i = Some count" and "count [] \<le> 32"
  shows "count (to_text out) \<le> tb_max_tokens (token_limits t)"
proof -
  have z: "count [] \<le> tb_max_tokens (token_limits t)"
    using assms(3) token_limits_bounds(1) [of t] by linarith
  have fits: "count (budgeted_output s (token_limits t) count p) \<le> tb_max_tokens (token_limits t)" for s p
    using budget_loop_fits [where count = count, OF z] z by (auto simp: budgeted_output_def Let_def split: prod.split)
  show ?thesis
    using assms(1,2) unfolding token_budget_apply_def
    by (auto simp: Let_def single_output_def fits split: if_splits prod.splits sum.splits)
qed

text \<open>
  Fact. Whatever the other transforms do, a pipeline that ends with the token budget hands
  out a text within the budget, for every tokenizer that counts at most 32 tokens in the empty text,
  or else an error: the loop that drops lines ends, and its last resorts fit too.
\<close>

theorem pipeline_within_token_budget:
  assumes "pipeline_apply hash_text tok (ts @ [Some (token_budget_transform write t)]) w input = (w', Inr out)"
    and "(case tok of None \<Rightarrow> approximate_count | Some count \<Rightarrow> count) [] \<le> 32"
  shows "(case tok of None \<Rightarrow> approximate_count | Some count \<Rightarrow> count) (to_text out) \<le>
    max (positive_or (tb_max_tokens t) 2000) 32"
proof (rule pipeline_last [OF assms(1)])
  fix v i v' o'
  assume "ct_apply (token_budget_transform write t) v i = (v', Inr o')"
    and "ti_tokenizer i = Some (case tok of None \<Rightarrow> approximate_count | Some count \<Rightarrow> count)"
  then show "(case tok of None \<Rightarrow> approximate_count | Some count \<Rightarrow> count) (to_text o') \<le>
      max (positive_or (tb_max_tokens t) 2000) 32"
    using token_budget_apply_fits [of "write" t v i v' o'] assms(2)
    by (simp add: token_budget_transform_def token_limits_bounds(2))
qed

section \<open>Totality\<close>

text \<open>A transform that always ends with an output, whatever comes in.\<close>

definition total_transform :: "'w content_transform \<Rightarrow> bool" where
  "total_transform t \<longleftrightarrow> (\<forall>w i. \<exists>w' o'. ct_apply t w i = (w', Inr o'))"

definition reliable_writer :: "'w evidence_writer \<Rightarrow> bool" where
  "reliable_writer write_evidence \<longleftrightarrow> (\<forall>a b s w. \<exists>w' path. write_evidence a b s w = (w', Inr path))"

lemma pipeline_total:
  assumes "\<forall>t \<in> set ts. \<exists>t'. t = Some t' \<and> total_transform t'"
  shows "\<exists>w' o'. pipeline_loop h count ts w out = (w', Inr o')"
  using assms
proof (induction ts arbitrary: w out)
  case (Cons t ts)
  obtain t' where t: "t = Some t'" "total_transform t'" using Cons.prems by auto
  obtain w1 o1 where "ct_apply t' w \<lparr>ti_tokenizer = Some count, ti_metadata = to_metadata out,
      ti_text = to_text out\<rparr> = (w1, Inr o1)"
    using t(2) unfolding total_transform_def by blast
  then show ?case using Cons.IH Cons.prems t(1) by (simp add: Let_def)
qed simp

lemma total_token_budget: "reliable_writer f \<Longrightarrow> total_transform (token_budget_transform f t)"
  unfolding total_transform_def reliable_writer_def token_budget_transform_def
proof (intro allI)
  fix w and i :: transform_input
  assume f: "\<forall>a b s w. \<exists>w' path. f a b s w = (w', Inr path)"
  obtain w' path where "original_evidence_path f (tb_evidence_max_age t) (tb_evidence_max_bytes t) i w = (w', Inr path)"
    using f unfolding original_evidence_path_def
    by (cases "map_of (ti_metadata i) metadata_full_output_path"; cases "the (map_of (ti_metadata i) metadata_full_output_path) = []") force+
  then show "\<exists>w' o'. ct_apply \<lparr>ct_name = ''tool-output-token-budget'', ct_apply = token_budget_apply f t\<rparr> w i =
      (w', Inr o')"
    by (simp add: token_budget_apply_def Let_def)
qed

definition no_store :: "unit evidence_writer" where
  "no_store max_age max_bytes txt w = (w, Inr ''/tmp/full.log.gz'')"

definition tight_budget :: token_budget where
  "tight_budget = \<lparr>tb_max_tokens = 8, tb_head_tokens = 0, tb_tail_tokens = 0,
     tb_evidence_max_age = 0, tb_evidence_max_bytes = 0\<rparr>"

definition long_output :: string where
  "long_output = concat (replicate 40 (''a b c'' @ [CHR 0x0A]))"

theorem pipeline_within_token_budget_witness:
  "\<exists>out. pipeline_apply id (Some whitespace_count) [Some (token_budget_transform no_store tight_budget)] ()
      \<lparr>ti_tokenizer = None, ti_metadata = [], ti_text = long_output\<rparr> = ((), Inr out) \<and>
    to_text out \<noteq> long_output \<and> whitespace_count (to_text out) \<le> 32"
proof -
  let ?run = "pipeline_apply id (Some whitespace_count) [Some (token_budget_transform no_store tight_budget)] ()
      \<lparr>ti_tokenizer = None, ti_metadata = [], ti_text = long_output\<rparr>"
  have "reliable_writer no_store" by (simp add: reliable_writer_def no_store_def)
  then obtain out where out: "?run = ((), Inr out)"
    using pipeline_total [of "[Some (token_budget_transform no_store tight_budget)]" id whitespace_count "()"
        "single_output long_output [] empty_record"] total_token_budget
    by (auto simp: pipeline_apply_def)
  have many: "32 < whitespace_count long_output" by code_simp
  have run: "pipeline_apply id (Some whitespace_count)
      ([] @ [Some (token_budget_transform no_store tight_budget)]) ()
      \<lparr>ti_tokenizer = None, ti_metadata = [], ti_text = long_output\<rparr> = ((), Inr out)"
    using out by simp
  have "whitespace_count (to_text out) \<le> 32"
    using pipeline_within_token_budget [OF run] by (simp add: tight_budget_def positive_or_def)
  with out many show ?thesis by auto
qed

section \<open>The limits\<close>

lemma token_limits_exact:
  assumes "tb_head_tokens t < 2 ^ 62" and "tb_tail_tokens t < 2 ^ 62"
  shows "0 < tb_head_tokens (token_limits t) \<and> 0 < tb_tail_tokens (token_limits t) \<and>
    tb_head_tokens (token_limits t) + tb_tail_tokens (token_limits t) < tb_max_tokens (token_limits t)"
proof -
  let ?h = "positive_or (tb_head_tokens t) 900" and ?t = "positive_or (tb_tail_tokens t) 900"
  have "0 < ?h" "?h < 2 ^ 62" "0 < ?t" "?t < 2 ^ 62" using assms by (simp_all add: positive_or_def)
  then have w: "wrap64 (?h + ?t) = ?h + ?t" by (intro wrap64_id) simp_all
  show ?thesis
    unfolding token_limits_def Let_def w using \<open>0 < ?h\<close> \<open>0 < ?t\<close> by (simp add: max_def) presburger
qed

end
