(* ===== verification/Compression.thy ===== *)
theory Compression
  imports TokenBudget Shellquote
begin

text \<open>
  The transforms that shorten a tool output by its lines: the collapsing of saved-output notices, the
  diagnostic summary and the line budget of \<open>go/internal/agentproxy/output_compression.go\<close>, and the
  pages of \<open>file_pagination.go\<close>. The parsers of diagnostics are an argument.
\<close>

definition pass_through :: "transform_input \<Rightarrow> string \<Rightarrow> string \<Rightarrow> string \<Rightarrow> transform_output" where
  "pass_through i policy_id decision reason =
     single_output (ti_text i) (ti_metadata i)
       (empty_record\<lparr>tr_policy_id := policy_id, tr_decision := decision, tr_reason := reason\<rparr>)"

section \<open>Saved-output notices\<close>

text \<open>The class \<open>\s\<close>, and the first match of an expression, tried at every position.\<close>

definition re_space :: "char \<Rightarrow> bool" where
  "re_space c \<longleftrightarrow> c \<in> {CHR 0x09, CHR 0x0A, CHR 0x0C, CHR 0x0D, CHR '' ''}"

fun first_match :: "(string \<Rightarrow> 'a option) \<Rightarrow> string \<Rightarrow> 'a option" where
  "first_match f [] = f []"
| "first_match f (c # s) = (case f (c # s) of Some v \<Rightarrow> Some v | None \<Rightarrow> first_match f s)"

definition saved_output_path_at :: "string \<Rightarrow> string option" where
  "saved_output_path_at s =
     (case cut_prefix s ''Output has been saved to'' of
        None \<Rightarrow> None
      | Some rest \<Rightarrow>
          let path = takeWhile (\<lambda>c. \<not> re_space c) (dropWhile re_space rest)
          in if takeWhile re_space rest = [] \<or> path = [] then None else Some path)"

definition saved_output_counts_at :: "string \<Rightarrow> string option" where
  "saved_output_counts_at s =
     (case cut_prefix s ''result ('' of
        None \<Rightarrow> None
      | Some rest \<Rightarrow>
          let counts = takeWhile (\<lambda>c. c \<noteq> CHR '')'') rest
          in if counts = [] \<or>
                \<not> has_prefix (drop (length counts) rest) '') exceeds maximum allowed tokens'' then None
             else Some counts)"

definition concise_saved_output_notice :: "string \<Rightarrow> string option" where
  "concise_saved_output_notice s =
     (if \<not> str_contains s ''exceeds maximum allowed tokens'' \<or>
         \<not> str_contains s ''Output has been saved to'' then None
      else case first_match saved_output_path_at s of
        None \<Rightarrow> None
      | Some matched \<Rightarrow>
          let path = trim_suffix matched ''.''
          in Some (case first_match saved_output_counts_at s of
               Some counts \<Rightarrow> ''Error: result ('' @ trim_space counts @
                 '') exceeds maximum allowed tokens; full output saved to '' @ path @ ''.''
             | None \<Rightarrow> ''Error: result exceeds maximum allowed tokens; full output saved to '' @ path @ ''.''))"

definition saved_output_notice_path :: "string \<Rightarrow> string" where
  "saved_output_notice_path s =
     (case first_match saved_output_path_at s of None \<Rightarrow> [] | Some p \<Rightarrow> trim_suffix p ''.'')"

definition saved_output_apply ::
  "'w \<Rightarrow> transform_input \<Rightarrow> 'w \<times> (transform_error + transform_output)" where
  "saved_output_apply w i =
     (case concise_saved_output_notice (ti_text i) of
        None \<Rightarrow> (w, Inr (pass_through i [] ''allow'' ''tool output is not a saved-output notice''))
      | Some summary \<Rightarrow>
          let path = saved_output_notice_path (ti_text i)
          in (w, Inr (single_output summary
               (map_set metadata_full_output_path path
                 (map_set ''coding_ethos.saved_output_notice'' ''true'' (ti_metadata i)))
               (empty_record\<lparr>tr_policy_id := ''proxy.saved_output_notice'', tr_decision := ''summarize'',
                  tr_evidence_path := path, tr_reason := ''provider saved-output notice collapsed''\<rparr>))))"

section \<open>Diagnostic summary\<close>

record diagnostic_summary =
  ds_tool :: string
  ds_max_findings :: int
  ds_evidence_max_age :: int
  ds_evidence_max_bytes :: int

definition finding_limit :: "diagnostic_summary \<Rightarrow> int" where
  "finding_limit t = positive_or (ds_max_findings t) 12"

definition summary_cell :: "string \<Rightarrow> string" where
  "summary_cell v =
     replace_all '','' (CHR 0x5C # '','')
       (replace_all [CHR 0x0D] '' '' (replace_all [CHR 0x0A] '' '' (trim_space v)))"

definition diagnostic_summary_line :: "diagnostic \<Rightarrow> string" where
  "diagnostic_summary_line d =
     str_join '',''
       [summary_cell (if trim_space (diag_tool d) \<noteq> [] then diag_tool d else ''unknown''),
        summary_cell (diag_file d), itoa (diag_line d), itoa (diag_column d),
        summary_cell (diag_severity d), summary_cell (diag_code d), summary_cell (diag_message d)]"

definition diagnostic_summary_output :: "string \<Rightarrow> diagnostic list \<Rightarrow> int \<Rightarrow> string \<Rightarrow> string" where
  "diagnostic_summary_output tool items limit evidence_path =
     (let count = min (int (length items)) limit
      in str_join [CHR 0x0A]
           ([''[coding-ethos: diagnostic summary; '' @ itoa (int (length items)) @
               '' findings parsed from '' @ tool @ ''; full output: '' @ evidence_path @ '']'',
             ''findings['' @ itoa count @ '']{tool,file,line,column,severity,code,message}:''] @
            map (\<lambda>d. ''  '' @ diagnostic_summary_line d) (take (nat count) items) @
            (if int (length items) > count
             then [''  '' @ itoa (int (length items) - count) @ '' additional findings omitted; '' @
                   ''use full output evidence for complete diagnostics'']
             else [])))"

definition diagnostic_summary_apply ::
  "(string \<Rightarrow> string \<Rightarrow> diagnostic list) \<Rightarrow> 'w evidence_writer \<Rightarrow> diagnostic_summary \<Rightarrow>
   'w \<Rightarrow> transform_input \<Rightarrow> 'w \<times> (transform_error + transform_output)" where
  "diagnostic_summary_apply parse_diagnostics write_evidence t w i =
     (let tool = trim_space (ds_tool t)
      in if tool = [] \<or> trim_space (ti_text i) = [] then
           (w, Inr (pass_through i ''proxy.diagnostic_summary'' ''allow'' ''tool output has no diagnostic parser''))
         else
           let items = parse_diagnostics tool (ti_text i)
           in if items = [] then
                (w, Inr (pass_through i ''proxy.diagnostic_summary'' ''allow''
                           ''tool output had no parseable diagnostics''))
              else case write_evidence (ds_evidence_max_age t) (ds_evidence_max_bytes t) (ti_text i) w of
                (w', Inl err) \<Rightarrow> (w', Inl (EvidenceError err))
              | (w', Inr path) \<Rightarrow>
                  (w', Inr (single_output (diagnostic_summary_output tool items (finding_limit t) path)
                     (map_set metadata_full_output_path path
                       (map_set ''coding_ethos.diagnostic_count'' (itoa (int (length items)))
                         (map_set ''coding_ethos.diagnostic_summary'' ''true'' (ti_metadata i))))
                     (empty_record\<lparr>tr_policy_id := ''proxy.diagnostic_summary'',
                        tr_decision := ''summarize'',
                        tr_reason := ''tool output converted to diagnostic summary'',
                        tr_evidence_path := path, tr_findings_count := int (length items)\<rparr>))))"

section \<open>The line budget\<close>

record line_budget =
  lb_max_lines :: int
  lb_head :: int
  lb_tail :: int
  lb_evidence_max_age :: int
  lb_evidence_max_bytes :: int

definition line_limits :: "line_budget \<Rightarrow> line_budget" where
  "line_limits t =
     (let max_lines = max (positive_or (lb_max_lines t) 80) 3;
          head0 = positive_or (lb_head t) 32;
          tail0 = positive_or (lb_tail t) 32
      in if wrap64 (head0 + tail0) \<ge> max_lines then
           let budget = max (max_lines - 1) 2;
               (head1, tail1) = (budget div 2, budget - budget div 2);
               (head2, tail2) = (if head0 < head1 then (head0, budget - head0) else (head1, tail1));
               (head3, tail3) = (if tail0 < tail2 then (budget - tail0, tail0) else (head2, tail2))
           in t\<lparr>lb_max_lines := max_lines, lb_head := head3, lb_tail := tail3\<rparr>
         else t\<lparr>lb_max_lines := max_lines, lb_head := head0, lb_tail := tail0\<rparr>)"

text \<open>\<open>xs[:n]\<close> and \<open>xs[n:]\<close>, which panic outside the slice (its capacity is its length).\<close>

definition slice_to :: "'a list \<Rightarrow> int \<Rightarrow> 'a list option" where
  "slice_to xs n = (if 0 \<le> n \<and> n \<le> int (length xs) then Some (take (nat n) xs) else None)"

definition slice_from :: "'a list \<Rightarrow> int \<Rightarrow> 'a list option" where
  "slice_from xs n = (if 0 \<le> n \<and> n \<le> int (length xs) then Some (drop (nat n) xs) else None)"

definition compressed_marker :: "int \<Rightarrow> int \<Rightarrow> string \<Rightarrow> string" where
  "compressed_marker omitted line_total evidence_path =
     ''[coding-ethos: compressed tool output; '' @ itoa omitted @ '' of '' @ itoa line_total @
     '' lines omitted to save tokens; full output: '' @ evidence_path @ '']''"

definition compression_apply ::
  "'w evidence_writer \<Rightarrow> line_budget \<Rightarrow> 'w \<Rightarrow> transform_input \<Rightarrow> 'w \<times> (transform_error + transform_output)" where
  "compression_apply write_evidence t w i =
     (let limits = line_limits t;
          lines = split_output_lines (ti_text i);
          line_total = int (length lines)
      in if line_total \<le> lb_max_lines limits then
           (w, Inr (pass_through i [] [] ''tool output within line budget''))
         else case write_evidence (lb_evidence_max_age t) (lb_evidence_max_bytes t) (ti_text i) w of
           (w', Inl err) \<Rightarrow> (w', Inl (EvidenceError err))
         | (w', Inr path) \<Rightarrow>
             let omitted = wrap64 (wrap64 (line_total - lb_head limits) - lb_tail limits)
             in case (slice_to lines (lb_head limits), slice_from lines (line_total - lb_tail limits)) of
                  (Some head, Some tail) \<Rightarrow>
                    (w', Inr (single_output
                       (join_output_lines (head @ [compressed_marker omitted line_total path] @ tail)
                          (has_suffix (ti_text i) [CHR 0x0A]))
                       (map_set metadata_full_output_path path
                         (map_set ''coding_ethos.compressed_lines_omitted'' (itoa omitted)
                           (map_set ''coding_ethos.compressed'' ''true'' (ti_metadata i))))
                       (empty_record\<lparr>tr_policy_id := ''proxy.token_budget'', tr_decision := ''truncate'',
                          tr_reason := ''tool output exceeded line budget'', tr_evidence_path := path\<rparr>)))
                | _ \<Rightarrow> (w', Inl SliceOutOfRange))"

section \<open>Pages\<close>

record page_request =
  pg_path :: string
  pg_start :: int
  pg_end :: int
  pg_evidence_max_age :: int
  pg_evidence_max_bytes :: int

definition left_pad_int :: "int \<Rightarrow> nat \<Rightarrow> string" where
  "left_pad_int v width = replicate (width - length (itoa v)) CHR '' '' @ itoa v"

definition file_read_numbered_line :: "int \<Rightarrow> nat \<Rightarrow> string \<Rightarrow> string" where
  "file_read_numbered_line number width line = left_pad_int number width @ '' | '' @ line"

definition file_read_page_output ::
  "string list \<Rightarrow> int \<Rightarrow> int \<Rightarrow> string \<Rightarrow> string \<Rightarrow> string" where
  "file_read_page_output lines page_start page_end path evidence_path =
     (let line_total = int (length lines); width = length (itoa line_total)
      in str_join [CHR 0x0A]
           ([''[coding-ethos: paginated file read; showing lines '' @ itoa page_start @ ''-'' @ itoa page_end @
               '' of '' @ itoa line_total @ '' for '' @ path @ ''; full output: '' @ evidence_path @ '']''] @
            map (\<lambda>index. file_read_numbered_line index width (lines ! nat (index - 1)))
              [page_start..page_end] @
            (if page_end < line_total
             then [''[coding-ethos: next page: sed -n '' @ [CHR 0x27] @ itoa (page_end + 1) @ '','' @
                   itoa (min (page_end + (page_end - page_start) + 1) line_total) @
                   ''p'' @ [CHR 0x27] @ '' '' @ Arg path @ '']'']
             else [])) @ [CHR 0x0A])"

definition pagination_apply ::
  "'w evidence_writer \<Rightarrow> page_request \<Rightarrow> 'w \<Rightarrow> transform_input \<Rightarrow> 'w \<times> (transform_error + transform_output)" where
  "pagination_apply write_evidence t w i =
     (let lines = split_output_lines (ti_text i); line_total = int (length lines)
      in if line_total \<le> pg_end t \<or> pg_end t \<le> 0 then
           (w, Inr (pass_through i ''proxy.file_pagination'' ''allow'' ''file read output within page budget''))
         else case write_evidence (pg_evidence_max_age t) (pg_evidence_max_bytes t) (ti_text i) w of
           (w', Inl err) \<Rightarrow> (w', Inl (EvidenceError err))
         | (w', Inr path) \<Rightarrow>
             let page_start = positive_or (pg_start t) 1; page_end = min (pg_end t) line_total
             in (w', Inr (single_output (file_read_page_output lines page_start page_end (pg_path t) path)
                  (map_set metadata_full_output_path path
                    (map_set ''coding_ethos.file_total_lines'' (itoa line_total)
                      (map_set ''coding_ethos.file_page_end'' (itoa page_end)
                        (map_set ''coding_ethos.file_page_start'' (itoa page_start)
                          (map_set ''coding_ethos.file_paginated'' ''true'' (ti_metadata i))))))
                  (empty_record\<lparr>tr_policy_id := ''proxy.file_pagination'', tr_decision := ''truncate'',
                     tr_reason := ''file read output paginated by line budget'', tr_evidence_path := path\<rparr>))))"

section \<open>The line budget holds\<close>

lemma line_limits_exact:
  assumes "lb_head t < 2 ^ 62" and "lb_tail t < 2 ^ 62"
  shows "0 < lb_head (line_limits t)" "0 < lb_tail (line_limits t)"
    "lb_head (line_limits t) + lb_tail (line_limits t) < lb_max_lines (line_limits t)"
    "lb_max_lines (line_limits t) = max (positive_or (lb_max_lines t) 80) 3"
proof -
  let ?h = "positive_or (lb_head t) 32" and ?t = "positive_or (lb_tail t) 32"
  have "0 < ?h" "?h < 2 ^ 62" "0 < ?t" "?t < 2 ^ 62" using assms by (simp_all add: positive_or_def)
  then have w: "wrap64 (?h + ?t) = ?h + ?t" by (intro wrap64_id) simp_all
  show "0 < lb_head (line_limits t)" "0 < lb_tail (line_limits t)"
    "lb_head (line_limits t) + lb_tail (line_limits t) < lb_max_lines (line_limits t)"
    "lb_max_lines (line_limits t) = max (positive_or (lb_max_lines t) 80) 3"
    unfolding line_limits_def Let_def w using \<open>0 < ?h\<close> \<open>0 < ?t\<close> by (auto simp: max_def)
qed

lemma marker_no_newline:
  "CHR 0x0A \<notin> set path \<Longrightarrow> CHR 0x0A \<notin> set (compressed_marker omitted n path)"
  by (simp add: compressed_marker_def itoa_no_newline)

text \<open>
  Fact. An output that is too long keeps its first and last lines, as many as the limits say,
  with one marker between them, and has at most the allowed number of lines: the limits that the
  configuration leaves inconsistent are repaired so that head and tail never overlap. Limits below
  two to the 62 are assumed, and a path of the evidence without line feeds.
\<close>

theorem compressed_output_lines:
  assumes "compression_apply write_evidence t w i = (w', r)"
    and "lb_head t < 2 ^ 62" and "lb_tail t < 2 ^ 62"
    and "max (positive_or (lb_max_lines t) 80) 3 < int (OutputLineCount (ti_text i))"
    and "write_evidence (lb_evidence_max_age t) (lb_evidence_max_bytes t) (ti_text i) w = (w', Inr path)"
    and "CHR 0x0A \<notin> set path" and "int (OutputLineCount (ti_text i)) < 2 ^ 63"
  shows "\<exists>out marker head tail middle. r = Inr out \<and>
    split_output_lines (ti_text i) = head @ middle @ tail \<and> head \<noteq> [] \<and> tail \<noteq> [] \<and>
    to_text out = join_output_lines (head @ [marker] @ tail) (has_suffix (ti_text i) [CHR 0x0A]) \<and>
    marker = compressed_marker (int (length middle)) (int (OutputLineCount (ti_text i))) path \<and>
    int (OutputLineCount (to_text out)) \<le> max (positive_or (lb_max_lines t) 80) 3"
proof -
  let ?L = "line_limits t" and ?lines = "split_output_lines (ti_text i)"
  let ?n = "int (length ?lines)"
  note L = line_limits_exact [OF assms(2,3)]
  have n: "lb_max_lines ?L < ?n" using assms(4) L(4) by (simp add: OutputLineCount_def)
  define h k where "h = nat (lb_head ?L)" and "k = nat (lb_tail ?L)"
  have hk: "int h = lb_head ?L" "int k = lb_tail ?L" "0 < h" "0 < k" "h + k < length ?lines"
    using L n by (auto simp: h_def k_def)
  let ?head = "take h ?lines" and ?tail = "drop (length ?lines - k) ?lines"
  let ?middle = "take (length ?lines - h - k) (drop h ?lines)"
  have split: "?lines = ?head @ ?middle @ ?tail"
  proof -
    have "drop h ?lines = ?middle @ drop (length ?lines - h - k) (drop h ?lines)"
      by (rule append_take_drop_id [symmetric])
    moreover have "drop (length ?lines - h - k) (drop h ?lines) = ?tail"
      using hk by (simp add: drop_drop add.commute)
    ultimately show ?thesis using append_take_drop_id [of h ?lines] by metis
  qed
  have omitted: "wrap64 (wrap64 (?n - int h) - int k) = int (length ?middle)"
    using hk assms(7) by (simp add: wrap64_id OutputLineCount_def min_def)
  have slices: "slice_to ?lines (int h) = Some ?head" "slice_from ?lines (?n - int k) = Some ?tail"
    using hk(5) by (auto simp: slice_to_def slice_from_def nat_diff_distrib)
  let ?marker = "compressed_marker (int (length ?middle)) ?n path"
  let ?text = "join_output_lines (?head @ [?marker] @ ?tail) (has_suffix (ti_text i) [CHR 0x0A])"
  obtain out where out: "r = Inr out" "to_text out = ?text"
    using assms(1,5) n slices omitted
    by (auto simp: compression_apply_def Let_def hk(1,2) [symmetric] single_output_def
        split: if_splits)
  have "\<forall>l \<in> set (?head @ [?marker] @ ?tail). CHR 0x0A \<notin> set l"
    using split_output_lines_no_newline marker_no_newline [OF assms(6)]
    by (auto dest: in_set_takeD in_set_dropD)
  then have "OutputLineCount ?text \<le> length (?head @ [?marker] @ ?tail)" by (rule OutputLineCount_join)
  also have "\<dots> = Suc (h + k)" using hk by simp
  finally have "int (OutputLineCount ?text) \<le> lb_max_lines ?L" using L hk by simp
  then have bound: "int (OutputLineCount (to_text out)) \<le> max (positive_or (lb_max_lines t) 80) 3"
    using out(2) L(4) by simp
  have ends: "?head \<noteq> []" "?tail \<noteq> []" using hk by auto
  have marker: "?marker = compressed_marker (int (length ?middle)) (int (OutputLineCount (ti_text i))) path"
    by (simp add: OutputLineCount_def)
  show ?thesis using out(1) split ends out(2) marker bound by blast
qed

definition keep_path :: "unit evidence_writer" where
  "keep_path max_age max_bytes s w = (w, Inr ''/tmp/out.log.gz'')"

definition small_budget :: line_budget where
  "small_budget = \<lparr>lb_max_lines = 1, lb_head = 7, lb_tail = 0, lb_evidence_max_age = 0, lb_evidence_max_bytes = 0\<rparr>"

definition five_lines :: string where
  "five_lines = str_join [CHR 0x0A] [''one'', ''two'', ''three'', ''four'', ''five''] @ [CHR 0x0A]"

definition five_lines_input :: transform_input where
  "five_lines_input = \<lparr>ti_tokenizer = None, ti_metadata = [], ti_text = five_lines\<rparr>"

theorem compressed_output_lines_witness:
  "\<exists>out. compression_apply keep_path small_budget () five_lines_input = ((), Inr out) \<and>
     int (OutputLineCount (to_text out)) \<le> 3"
proof -
  have n: "OutputLineCount (ti_text five_lines_input) = 5" by code_simp
  obtain r where r: "compression_apply keep_path small_budget () five_lines_input = ((), r)"
    by (cases "compression_apply keep_path small_budget () five_lines_input") simp
  show ?thesis
    using compressed_output_lines [OF r, of "''/tmp/out.log.gz''"] r n
    by (auto simp: small_budget_def positive_or_def keep_path_def)
qed

text \<open>
  Fact. Limits whose sum leaves the 64 bits pass the repair and the slice of the first lines
  then panics: nothing bounds the numbers of the configuration.
\<close>

theorem huge_limits_panic:
  "compression_apply keep_path (small_budget\<lparr>lb_head := 2 ^ 62, lb_tail := 2 ^ 62\<rparr>) () five_lines_input =
     ((), Inl SliceOutOfRange)"
proof -
  have n: "length (split_output_lines five_lines) = 5" by code_simp
  have w: "wrap64 (2 ^ 62 + 2 ^ 62) = - (2 ^ 63)" by (simp add: wrap64_def)
  have L: "line_limits (small_budget\<lparr>lb_head := 2 ^ 62, lb_tail := 2 ^ 62\<rparr>) =
      small_budget\<lparr>lb_max_lines := 3, lb_head := 2 ^ 62, lb_tail := 2 ^ 62\<rparr>"
    using w by (simp add: line_limits_def positive_or_def small_budget_def Let_def)
  show ?thesis
    unfolding compression_apply_def Let_def L
    by (simp add: five_lines_input_def n small_budget_def keep_path_def slice_to_def)
qed

end
