(* ===== verification/EvidenceStore.thy ===== *)
theory EvidenceStore
  imports Compression
begin

text \<open>
  The store of full tool outputs of \<open>go/internal/agentproxy/output_compression.go\<close>: files of the
  temporary directory named after the hash of what they hold, compressed, reused when they are there
  already and pruned by age and total size. The directory is the state; the errors of the operating
  system, the hash and the compressed size are arguments. Sums of file sizes are not bounded here.
\<close>

section \<open>The directory\<close>

datatype entry_kind = RegularEntry | SymlinkEntry | OtherEntry  \<comment> \<open>what \<open>Lstat\<close> says\<close>

record evidence_entry =
  ee_kind :: entry_kind
  ee_stat_ok :: bool      \<comment> \<open>\<open>Stat\<close>, which follows links, gives a file that is no directory\<close>
  ee_size :: int
  ee_modified :: int
  ee_content :: "string option"  \<comment> \<open>what the file decompresses to\<close>
  ee_removable :: bool

type_synonym evidence_dir = "(string \<times> evidence_entry) list"  \<comment> \<open>by name, one entry each\<close>

record evidence_env =
  een_now :: int
  een_hash :: "string \<Rightarrow> string"
  een_temp_dir :: string
  een_compressed_size :: "string \<Rightarrow> int"
  een_lstat_error :: "string \<Rightarrow> string option"
  een_touch_error :: "string \<Rightarrow> string option"
  een_publish_error :: "string \<Rightarrow> string option"

definition remove_entry :: "string \<Rightarrow> evidence_dir \<Rightarrow> evidence_dir" where
  "remove_entry name d = filter (\<lambda>(n, e). n \<noteq> name) d"

definition evidence_prefix :: string where
  "evidence_prefix = ''coding-ethos-tool-output-''"

definition is_full_output_evidence_path :: "string \<Rightarrow> bool" where
  "is_full_output_evidence_path name \<longleftrightarrow>
     has_prefix name evidence_prefix \<and> (has_suffix name ''.log.gz'' \<or> has_suffix name ''.log'')"

section \<open>Pruning\<close>

text \<open>
  The first loop removes what is too old and collects the rest. What is removed and cannot be
  removed is not counted either way.
\<close>

definition evidence_file :: "string \<times> evidence_entry \<Rightarrow> bool" where
  "evidence_file f \<longleftrightarrow> ee_stat_ok (snd f) \<and> is_full_output_evidence_path (fst f)"

definition too_old :: "int \<Rightarrow> int \<Rightarrow> string \<times> evidence_entry \<Rightarrow> bool" where
  "too_old now max_age f \<longleftrightarrow> max_age < now - ee_modified (snd f)"

definition prune_by_age :: "int \<Rightarrow> int \<Rightarrow> evidence_dir \<Rightarrow> evidence_dir" where
  "prune_by_age now max_age d =
     filter (\<lambda>f. \<not> (evidence_file f \<and> too_old now max_age f \<and> ee_removable (snd f))) d"

definition counted_files :: "int \<Rightarrow> int \<Rightarrow> evidence_dir \<Rightarrow> evidence_dir" where
  "counted_files now max_age d = filter (\<lambda>f. evidence_file f \<and> \<not> too_old now max_age f) d"

definition evidence_bytes :: "evidence_dir \<Rightarrow> int" where
  "evidence_bytes fs = sum_list (map (\<lambda>f. ee_size (snd f)) fs)"

text \<open>The second loop removes the oldest files until the rest fits.\<close>

fun prune_oldest :: "int \<Rightarrow> evidence_dir \<Rightarrow> int \<Rightarrow> evidence_dir \<Rightarrow> evidence_dir" where
  "prune_oldest max_bytes [] bytes d = d"
| "prune_oldest max_bytes (f # fs) bytes d =
     (if bytes \<le> max_bytes then d
      else if ee_removable (snd f)
      then prune_oldest max_bytes fs (bytes - ee_size (snd f)) (remove_entry (fst f) d)
      else prune_oldest max_bytes fs bytes d)"

definition prune_full_output_evidence_files ::
  "int \<Rightarrow> int \<Rightarrow> int \<Rightarrow> evidence_dir \<Rightarrow> evidence_dir" where
  "prune_full_output_evidence_files now max_age max_bytes d =
     (let files = counted_files now max_age d; bytes = evidence_bytes files; d' = prune_by_age now max_age d
      in if max_bytes \<le> 0 \<or> bytes \<le> max_bytes then d'
         else prune_oldest max_bytes (sort_key (\<lambda>f. ee_modified (snd f)) files) bytes d')"

section \<open>Writing\<close>

definition validate_full_output_evidence ::
  "(string \<Rightarrow> string) \<Rightarrow> evidence_dir \<Rightarrow> string \<Rightarrow> string \<Rightarrow> string option" where
  "validate_full_output_evidence hash_text d name expected =
     (case map_of d name of
        None \<Rightarrow> Some ''stat tool output evidence''
      | Some e \<Rightarrow>
          if ee_kind e \<noteq> RegularEntry then Some ''tool output evidence is not a regular file''
          else case ee_content e of
            None \<Rightarrow> Some ''open compressed tool output evidence''
          | Some content \<Rightarrow>
              let copied = take (length expected + 1) content
              in if length copied \<noteq> length expected \<or> hash_text copied \<noteq> hash_text expected
                 then Some ''tool output evidence does not match its content address'' else None)"

definition reuse_full_output_evidence ::
  "evidence_env \<Rightarrow> evidence_dir \<Rightarrow> string \<Rightarrow> string \<Rightarrow> evidence_dir \<times> (string + bool)" where
  "reuse_full_output_evidence E d name expected =
     (case een_lstat_error E name of
        Some err \<Rightarrow> (d, Inl err)
      | None \<Rightarrow>
          (case map_of d name of
             None \<Rightarrow> (d, Inr False)
           | Some e \<Rightarrow>
               (case validate_full_output_evidence (een_hash E) d name expected of
                  Some err \<Rightarrow> (d, Inl err)
                | None \<Rightarrow>
                    (case een_touch_error E name of
                       Some err \<Rightarrow> (d, Inl err)
                     | None \<Rightarrow> (map_set name (e\<lparr>ee_modified := een_now E\<rparr>) d, Inr True)))))"

text \<open>The temporary file is linked to its name unless the name is taken; either way it is checked.\<close>

definition publish_full_output_evidence ::
  "evidence_env \<Rightarrow> evidence_dir \<Rightarrow> string \<Rightarrow> string \<Rightarrow> evidence_dir \<times> string option" where
  "publish_full_output_evidence E d name expected =
     (case een_publish_error E expected of
        Some err \<Rightarrow> (d, Some err)
      | None \<Rightarrow>
          let d' = (case map_of d name of
                      Some _ \<Rightarrow> d
                    | None \<Rightarrow> map_set name
                        \<lparr>ee_kind = RegularEntry, ee_stat_ok = True, ee_size = een_compressed_size E expected,
                         ee_modified = een_now E, ee_content = Some expected, ee_removable = True\<rparr> d)
          in (d', validate_full_output_evidence (een_hash E) d' name expected))"

definition evidence_name :: "evidence_env \<Rightarrow> string \<Rightarrow> string" where
  "evidence_name E s = evidence_prefix @ een_hash E s @ ''.log.gz''"

definition write_full_output_evidence :: "evidence_env \<Rightarrow> evidence_dir evidence_writer" where
  "write_full_output_evidence E max_age max_bytes s d =
     (let age = positive_or max_age 86400000000000;
          d1 = prune_full_output_evidence_files (een_now E) age max_bytes d;
          name = evidence_name E s;
          path = een_temp_dir E @ ''/'' @ name
      in case reuse_full_output_evidence E d1 name s of
           (d2, Inl err) \<Rightarrow> (d2, Inl err)
         | (d2, Inr True) \<Rightarrow> (d2, Inr path)
         | (d2, Inr False) \<Rightarrow>
             (case publish_full_output_evidence E d2 name s of
                (d3, Some err) \<Rightarrow> (d3, Inl err)
              | (d3, None) \<Rightarrow> (d3, Inr path)))"

section \<open>What pruning leaves\<close>

text \<open>
  The loop stops when the bytes that are left fit, or when every file was tried: what it removed is
  a prefix of the list without the files that cannot be removed.
\<close>

lemma prune_oldest_result:
  "\<exists>k \<le> length fs.
     prune_oldest b fs n d = foldl (\<lambda>d f. remove_entry (fst f) d) d (filter (\<lambda>f. ee_removable (snd f)) (take k fs)) \<and>
     (n - evidence_bytes (filter (\<lambda>f. ee_removable (snd f)) (take k fs)) \<le> b \<or> k = length fs)"
proof (induction b fs n d rule: prune_oldest.induct)
  case (2 b f fs n d)
  show ?case
  proof (cases "n \<le> b")
    case True
    then show ?thesis by (intro exI [of _ 0]) (simp add: evidence_bytes_def)
  next
    case False
    show ?thesis
    proof (cases "ee_removable (snd f)")
      case True
      from 2(1) [OF False True] obtain k where "k \<le> length fs"
        "prune_oldest b fs (n - ee_size (snd f)) (remove_entry (fst f) d) =
           foldl (\<lambda>d f. remove_entry (fst f) d) (remove_entry (fst f) d)
             (filter (\<lambda>f. ee_removable (snd f)) (take k fs))"
        "n - ee_size (snd f) - evidence_bytes (filter (\<lambda>f. ee_removable (snd f)) (take k fs)) \<le> b \<or>
           k = length fs"
        by blast
      then show ?thesis
        using False True by (intro exI [of _ "Suc k"]) (auto simp: evidence_bytes_def)
    next
      case not_removable: False
      from 2(2) [OF False not_removable] obtain k where "k \<le> length fs"
        "prune_oldest b fs n d = foldl (\<lambda>d f. remove_entry (fst f) d) d
             (filter (\<lambda>f. ee_removable (snd f)) (take k fs))"
        "n - evidence_bytes (filter (\<lambda>f. ee_removable (snd f)) (take k fs)) \<le> b \<or> k = length fs"
        by blast
      then show ?thesis
        using False not_removable by (intro exI [of _ "Suc k"]) auto
    qed
  qed
qed (simp add: evidence_bytes_def)

lemma foldl_remove_entry:
  "foldl (\<lambda>d f. remove_entry (fst f) d) d fs = filter (\<lambda>f. fst f \<notin> fst ` set fs) d"
proof (induction fs arbitrary: d)
  case (Cons f fs)
  show ?case unfolding foldl_Cons Cons.IH by (auto simp: remove_entry_def intro!: filter_cong)
qed simp

text \<open>
  Property C30. What pruning leaves, exactly: a file is gone only if it is evidence that can be
  removed, and was too old, or the bytes did not fit and every file that was counted and is older
  than it is gone too or cannot be removed. No other file is touched.
\<close>

theorem pruning_removes_oldest_evidence:
  assumes "distinct (map fst d)" and "f \<in> set d"
    and "f \<notin> set (prune_full_output_evidence_files now max_age max_bytes d)"
  shows "evidence_file f \<and> ee_removable (snd f) \<and>
    (too_old now max_age f \<or>
     0 < max_bytes \<and> max_bytes < evidence_bytes (counted_files now max_age d) \<and>
     (\<forall>g \<in> set (prune_full_output_evidence_files now max_age max_bytes d).
        evidence_file g \<and> \<not> too_old now max_age g \<and> ee_removable (snd g) \<longrightarrow>
        ee_modified (snd f) \<le> ee_modified (snd g)))"
proof (cases "f \<in> set (prune_by_age now max_age d)")
  case False
  then show ?thesis using assms(2) by (auto simp: prune_by_age_def)
next
  case True
  let ?files = "counted_files now max_age d"
  let ?sorted = "sort_key (\<lambda>f. ee_modified (snd f)) ?files"
  have over: "0 < max_bytes" "max_bytes < evidence_bytes ?files"
    using assms(3) True by (auto simp: prune_full_output_evidence_files_def Let_def split: if_splits)
  obtain k where k: "prune_oldest max_bytes ?sorted (evidence_bytes ?files) (prune_by_age now max_age d) =
      filter (\<lambda>f. fst f \<notin> fst ` set (filter (\<lambda>f. ee_removable (snd f)) (take k ?sorted)))
        (prune_by_age now max_age d)"
    using prune_oldest_result [of ?sorted max_bytes "evidence_bytes ?files" "prune_by_age now max_age d"]
    unfolding foldl_remove_entry by blast
  have left: "set (prune_full_output_evidence_files now max_age max_bytes d) =
      {g \<in> set (prune_by_age now max_age d).
         fst g \<notin> fst ` set (filter (\<lambda>f. ee_removable (snd f)) (take k ?sorted))}"
    using over k by (auto simp: prune_full_output_evidence_files_def Let_def)
  have unique: "g = g'" if "g \<in> set d" "g' \<in> set d" "fst g = fst g'" for g g'
    using eq_key_imp_eq_value [OF assms(1), of "fst g" "snd g" "snd g'"] that by (metis prod.collapse)
  have in_d: "g \<in> set d \<and> evidence_file g \<and> \<not> too_old now max_age g" if "g \<in> set ?sorted" for g
    using that by (simp add: counted_files_def)
  obtain g where g: "g \<in> set (take k ?sorted)" "ee_removable (snd g)" "fst f = fst g"
    using assms(3) True left by auto
  then have f: "f \<in> set (take k ?sorted)" "ee_removable (snd f)" "f \<in> set ?sorted"
    using unique [OF assms(2), of g] in_d [of g] in_set_takeD [OF g(1)] by auto
  have "ee_modified (snd f) \<le> ee_modified (snd h)"
    if h: "h \<in> set (prune_full_output_evidence_files now max_age max_bytes d)"
      "evidence_file h" "\<not> too_old now max_age h" "ee_removable (snd h)" for h
  proof -
    have "h \<in> set d" using h(1) left by (auto simp: prune_by_age_def)
    then have "h \<in> set ?sorted" using h(2,3) by (simp add: counted_files_def)
    moreover have "h \<notin> set (take k ?sorted)" using h(1,4) left by auto
    ultimately have "h \<in> set (drop k ?sorted)"
      using set_append [of "take k ?sorted" "drop k ?sorted"] by auto
    moreover have "sorted (map (\<lambda>f. ee_modified (snd f)) (take k ?sorted @ drop k ?sorted))"
      by (simp del: set_sort)
    ultimately show ?thesis using f(1) unfolding map_append sorted_append by auto
  qed
  then show ?thesis using in_d [OF f(3)] f(2) over by blast
qed

section \<open>What a path is worth\<close>

lemma validate_ok:
  assumes "validate_full_output_evidence hash_text d name expected = None"
  shows "\<exists>e content. map_of d name = Some e \<and> ee_kind e = RegularEntry \<and> ee_content e = Some content \<and>
    length content = length expected \<and> hash_text content = hash_text expected"
proof -
  obtain e content where e: "map_of d name = Some e" "ee_kind e = RegularEntry" "ee_content e = Some content"
    "length (take (length expected + 1) content) = length expected"
    "hash_text (take (length expected + 1) content) = hash_text expected"
    using assms by (auto simp: validate_full_output_evidence_def Let_def split: option.splits if_splits)
  then have "length content = length expected" by (simp add: min_def split: if_splits)
  then show ?thesis using e by simp
qed

lemma validate_touched:
  "map_of d name = Some e \<Longrightarrow>
   validate_full_output_evidence h (map_set name (e\<lparr>ee_modified := now\<rparr>) d) name s =
     validate_full_output_evidence h d name s"
  by (simp add: validate_full_output_evidence_def)

text \<open>
  Property C31. A path that the store hands out is worth its name: it is named after the hash of the
  output, and the file is a regular one whose content has the length and the hash of the output,
  also when the name was taken before by another writer.
\<close>

theorem evidence_path_holds_output:
  assumes "write_full_output_evidence E max_age max_bytes s d = (d', Inr path)"
  shows "path = een_temp_dir E @ ''/'' @ evidence_name E s \<and>
    (\<exists>e content. map_of d' (evidence_name E s) = Some e \<and> ee_kind e = RegularEntry \<and>
       ee_content e = Some content \<and> length content = length s \<and> een_hash E content = een_hash E s)"
proof -
  let ?d1 = "prune_full_output_evidence_files (een_now E) (positive_or max_age 86400000000000) max_bytes d"
  let ?name = "evidence_name E s"
  obtain d2 reused where r: "reuse_full_output_evidence E ?d1 ?name s = (d2, Inr reused)"
    using assms by (auto simp: write_full_output_evidence_def Let_def split: prod.splits sum.splits)
  have "validate_full_output_evidence (een_hash E) d' ?name s = None"
  proof (cases reused)
    case True
    then have "d' = d2" using assms r by (simp add: write_full_output_evidence_def Let_def)
    then show ?thesis
      using r True by (auto simp: reuse_full_output_evidence_def validate_touched split: option.splits)
  next
    case False
    then have "publish_full_output_evidence E d2 ?name s = (d', None)"
      using assms r
      by (auto simp: write_full_output_evidence_def Let_def split: prod.splits option.splits)
    then show ?thesis by (auto simp: publish_full_output_evidence_def Let_def split: option.splits)
  qed
  then show ?thesis
    using assms validate_ok
    by (fastforce simp: write_full_output_evidence_def Let_def
        split: prod.splits sum.splits bool.splits option.splits)
qed

section \<open>Instances\<close>

definition sample_entry_of :: "int \<Rightarrow> int \<Rightarrow> string \<Rightarrow> evidence_entry" where
  "sample_entry_of modified bytes content =
     \<lparr>ee_kind = RegularEntry, ee_stat_ok = True, ee_size = bytes, ee_modified = modified,
      ee_content = Some content, ee_removable = True\<rparr>"

definition sample_dir :: evidence_dir where
  "sample_dir =
     [(''coding-ethos-tool-output-b.log.gz'', sample_entry_of 20 60 ''b''),
      (''coding-ethos-tool-output-a.log.gz'', sample_entry_of 10 50 ''a''),
      (''notes.log'', sample_entry_of 1 900 [])]"

definition sample_evidence_env :: evidence_env where
  "sample_evidence_env =
     \<lparr>een_now = 100, een_hash = (\<lambda>s. s), een_temp_dir = ''/tmp'', een_compressed_size = (\<lambda>s. int (length s)),
      een_lstat_error = (\<lambda>_. None), een_touch_error = (\<lambda>_. None), een_publish_error = (\<lambda>_. None)\<rparr>"

theorem pruning_removes_oldest_evidence_witness:
  "(''coding-ethos-tool-output-a.log.gz'', sample_entry_of 10 50 ''a'') \<notin>
     set (prune_full_output_evidence_files 100 1000 80 sample_dir) \<and>
   evidence_file (''coding-ethos-tool-output-a.log.gz'', sample_entry_of 10 50 ''a'')"
proof -
  have d: "distinct (map fst sample_dir)" by code_simp
  have f: "(''coding-ethos-tool-output-a.log.gz'', sample_entry_of 10 50 ''a'') \<in> set sample_dir"
    by (simp add: sample_dir_def)
  have gone: "(''coding-ethos-tool-output-a.log.gz'', sample_entry_of 10 50 ''a'') \<notin>
      set (prune_full_output_evidence_files 100 1000 80 sample_dir)"
    by code_simp
  show ?thesis using pruning_removes_oldest_evidence [OF d f gone] gone by blast
qed

theorem evidence_path_holds_output_witness:
  "\<exists>d'. write_full_output_evidence sample_evidence_env 0 0 ''a'' sample_dir =
      (d', Inr ''/tmp/coding-ethos-tool-output-a.log.gz'') \<and>
    (\<exists>e. map_of d' ''coding-ethos-tool-output-a.log.gz'' = Some e \<and> ee_content e = Some ''a'')"
proof -
  let ?w = "write_full_output_evidence sample_evidence_env 0 0 ''a'' sample_dir"
  have "snd ?w = Inr ''/tmp/coding-ethos-tool-output-a.log.gz''" by code_simp
  then obtain d' where w: "?w = (d', Inr ''/tmp/coding-ethos-tool-output-a.log.gz'')"
    by (cases ?w) auto
  have name: "evidence_name sample_evidence_env ''a'' = ''coding-ethos-tool-output-a.log.gz''" by code_simp
  have hash: "een_hash sample_evidence_env x = x" for x by (simp add: sample_evidence_env_def)
  show ?thesis using evidence_path_holds_output [OF w] w unfolding name hash by blast
qed

end
