(* ===== verification/Invocations.thy ===== *)
theory Invocations
  imports Runes AdminApproval
begin

text \<open>
  \<open>go/internal/agentproxy/file_read.go\<close> and \<open>directory_listing.go\<close>: which commands are plain file
  reads and directory listings, so that their output can be paged or enriched.
\<close>

section \<open>File reads\<close>

text \<open>The loop over the arguments of \<open>cat\<close>: the targets, or \<open>None\<close> when an option or the standard input appears.\<close>

fun cat_targets :: "bool \<Rightarrow> string list \<Rightarrow> string list option" where
  "cat_targets end_options [] = Some []"
| "cat_targets end_options (arg # args) =
     (if end_options then map_option ((#) arg) (cat_targets end_options args)
      else if arg = ''--'' then cat_targets True args
      else if arg = ''-'' then None
      else if has_prefix arg ''-'' then None
      else map_option ((#) arg) (cat_targets end_options args))"

definition detect_cat_file_read_invocation :: "string list \<Rightarrow> string option" where
  "detect_cat_file_read_invocation args =
     (case cat_targets False args of
        Some [target] \<Rightarrow> if target = ''-'' then None else Some target
      | _ \<Rightarrow> None)"

definition DetectFileReadInvocation :: "string list \<Rightarrow> string option" where
  "DetectFileReadInvocation argv =
     (case argv of
        [] \<Rightarrow> None
      | name # args \<Rightarrow>
          if path_base (trim_space name) = ''cat'' then detect_cat_file_read_invocation args else None)"

definition static_command :: "shell_command \<Rightarrow> bool" where
  "static_command c \<longleftrightarrow>
     \<not> (cmd_command_substitution c \<or> cmd_dynamic_expansion c \<or> cmd_process_substitution c \<or> cmd_subshell c)"

definition DetectShellFileReadInvocation :: "shell_command \<Rightarrow> string option" where
  "DetectShellFileReadInvocation c =
     (if \<not> static_command c then None else DetectFileReadInvocation (cmd_argv c))"

section \<open>Directory listings\<close>

record listing_invocation =
  li_tool :: string
  li_path :: string
  li_recursive :: bool
  li_max_depth :: int

definition ls_options_with_value :: "string list" where
  "ls_options_with_value =
     [''--block-size'', ''--format'', ''--hide'', ''--indicator'', ''--quoting'', ''--sort'', ''--time'',
      ''--width'', ''-I'', ''-T'', ''-w'']"

definition ls_unsupported_listing_options :: "string list" where
  "ls_unsupported_listing_options = [''--directory'', ''-d'']"

definition tree_options_with_value :: "string list" where
  "tree_options_with_value =
     [''--charset'', ''--filelimit'', ''--fromfile'', ''--gitfile'', ''--infofile'', ''--timefmt'',
      ''-H'', ''-I'', ''-L'', ''-o'', ''-P'']"

definition long_option_unsupported :: "string \<Rightarrow> string list \<Rightarrow> bool" where
  "long_option_unsupported arg unsupported \<longleftrightarrow> fst (str_cut arg ''='') \<in> set unsupported"

definition short_option_unsupported :: "string \<Rightarrow> string list \<Rightarrow> bool" where
  "short_option_unsupported arg unsupported \<longleftrightarrow>
     unsupported \<noteq> [] \<and> list_ex (\<lambda>c. (''-'' @ c) \<in> set unsupported) (runes (trim_prefix arg ''-''))"

definition long_option_consumes_next :: "string \<Rightarrow> string list \<Rightarrow> bool" where
  "long_option_consumes_next arg with_value =
     (case str_cut arg ''='' of (name, _, inline_value) \<Rightarrow> \<not> inline_value \<and> name \<in> set with_value)"

definition short_option_consumes_next :: "string \<Rightarrow> string list \<Rightarrow> bool" where
  "short_option_consumes_next arg with_value \<longleftrightarrow> length arg = 2 \<and> arg \<in> set with_value"

fun listing_positionals ::
  "string list \<Rightarrow> string list \<Rightarrow> bool \<Rightarrow> bool \<Rightarrow> string list \<Rightarrow> string list option" where
  "listing_positionals with_value unsupported end_options skip_next [] = Some []"
| "listing_positionals with_value unsupported end_options skip_next (arg # args) =
     (if skip_next then listing_positionals with_value unsupported end_options False args
      else if end_options then
        map_option ((#) arg) (listing_positionals with_value unsupported end_options False args)
      else if arg = ''--'' then listing_positionals with_value unsupported True False args
      else if has_prefix arg ''--'' then
        (if long_option_unsupported arg unsupported then None
         else listing_positionals with_value unsupported end_options
                (long_option_consumes_next arg with_value) args)
      else if has_prefix arg ''-'' \<and> arg \<noteq> ''-'' then
        (if short_option_unsupported arg unsupported then None
         else listing_positionals with_value unsupported end_options
                (short_option_consumes_next arg with_value) args)
      else map_option ((#) arg) (listing_positionals with_value unsupported end_options False args))"

definition directory_listing_positionals :: "string list \<Rightarrow> string list \<Rightarrow> string list \<Rightarrow> string list option" where
  "directory_listing_positionals args with_value unsupported =
     listing_positionals with_value unsupported False False args"

definition first_directory_listing_target :: "string list \<Rightarrow> string" where
  "first_directory_listing_target targets =
     (case targets of [] \<Rightarrow> ''.'' | t # _ \<Rightarrow> if trim_space t = [] then ''.'' else t)"

definition detect_ls_invocation :: "string list \<Rightarrow> listing_invocation option" where
  "detect_ls_invocation args =
     (case directory_listing_positionals args ls_options_with_value ls_unsupported_listing_options of
        None \<Rightarrow> None
      | Some targets \<Rightarrow>
          if 1 < length targets then None
          else Some \<lparr>li_tool = ''ls'', li_path = first_directory_listing_target targets,
                     li_recursive = False, li_max_depth = 0\<rparr>)"

definition parse_tree_max_depth :: "string \<Rightarrow> int option" where
  "parse_tree_max_depth v =
     (case atoi (trim_space v) of None \<Rightarrow> None | Some depth \<Rightarrow> if depth \<le> 0 then None else Some depth)"

text \<open>The first \<open>-L\<close> counts, wherever it stands.\<close>

fun tree_max_depth :: "string list \<Rightarrow> int option" where
  "tree_max_depth [] = Some 0"
| "tree_max_depth (arg # args) =
     (if arg = ''-L'' then (case args of [] \<Rightarrow> None | v # _ \<Rightarrow> parse_tree_max_depth v)
      else if has_prefix arg ''-L'' then parse_tree_max_depth (trim_prefix arg ''-L'')
      else tree_max_depth args)"

definition detect_tree_invocation :: "string list \<Rightarrow> listing_invocation option" where
  "detect_tree_invocation args =
     (case tree_max_depth args of
        None \<Rightarrow> None
      | Some max_depth \<Rightarrow>
          (case directory_listing_positionals args tree_options_with_value [] of
             None \<Rightarrow> None
           | Some targets \<Rightarrow>
               if 1 < length targets then None
               else Some \<lparr>li_tool = ''tree'', li_path = first_directory_listing_target targets,
                          li_recursive = True, li_max_depth = max_depth\<rparr>))"

definition DetectDirectoryListingInvocation :: "string list \<Rightarrow> listing_invocation option" where
  "DetectDirectoryListingInvocation argv =
     (case argv of
        [] \<Rightarrow> None
      | name # args \<Rightarrow>
          let tool = path_base (trim_space name)
          in if tool = ''ls'' then detect_ls_invocation args
             else if tool = ''tree'' then detect_tree_invocation args else None)"

definition DetectShellDirectoryListingInvocation :: "shell_command \<Rightarrow> listing_invocation option" where
  "DetectShellDirectoryListingInvocation c =
     (if \<not> static_command c then None else DetectDirectoryListingInvocation (cmd_argv c))"

section \<open>What is recognised\<close>

lemma cat_targets_behind_end: "cat_targets True args = Some args"
  by (induction args) auto

lemma cat_targets_iff:
  "cat_targets False args = Some ts \<longleftrightarrow>
   (\<exists>front rest. ts = front @ rest \<and> list_all (\<lambda>a. \<not> has_prefix a ''-'') front \<and>
      (args = front \<and> rest = [] \<or> args = front @ ''--'' # rest))"
proof (induction args arbitrary: ts)
  case (Cons arg args)
  have dash: "has_prefix ''--'' ''-''" "has_prefix ''-'' ''-''" by (simp_all add: has_prefix_def)
  show ?case
  proof (cases "has_prefix arg ''-''")
    case True
    then have "cat_targets False (arg # args) = Some ts \<longleftrightarrow> arg = ''--'' \<and> args = ts"
      by (auto simp: cat_targets_behind_end)
    moreover have "(\<exists>front rest. ts = front @ rest \<and> list_all (\<lambda>a. \<not> has_prefix a ''-'') front \<and>
        (arg # args = front \<and> rest = [] \<or> arg # args = front @ ''--'' # rest)) \<longleftrightarrow> arg = ''--'' \<and> args = ts"
      (is "?L \<longleftrightarrow> ?R")
    proof
      show "?L \<Longrightarrow> ?R" using True by (auto simp: Cons_eq_append_conv)
      show "?R \<Longrightarrow> ?L" by (intro exI [of _ "[]"] exI [of _ ts]) simp
    qed
    ultimately show ?thesis by simp
  next
    case False
    then have step: "cat_targets False (arg # args) = Some ts \<longleftrightarrow>
        (\<exists>ts'. ts = arg # ts' \<and> cat_targets False args = Some ts')"
      using dash by auto
    have "arg \<noteq> ''--''" using False dash by auto
    show ?thesis (is "_ \<longleftrightarrow> ?R")
    proof
      assume "cat_targets False (arg # args) = Some ts"
      then obtain front rest where f: "ts = arg # front @ rest" "list_all (\<lambda>a. \<not> has_prefix a ''-'') front"
        "args = front \<and> rest = [] \<or> args = front @ ''--'' # rest"
        unfolding step Cons.IH by blast
      then show ?R using False by (intro exI [of _ "arg # front"] exI [of _ rest]) auto
    next
      assume ?R
      then obtain front rest where f: "ts = front @ rest" "list_all (\<lambda>a. \<not> has_prefix a ''-'') front"
        "arg # args = front \<and> rest = [] \<or> arg # args = front @ ''--'' # rest" by blast
      obtain front' where "front = arg # front'"
        using f(3) \<open>arg \<noteq> ''--''\<close> by (cases front) auto
      then show "cat_targets False (arg # args) = Some ts" unfolding step Cons.IH using f by auto
    qed
  qed
qed auto

text \<open>
  Fact. A \<open>cat\<close> is taken for the read of one file exactly when that file is its only
  operand and no option is given, except a \<open>--\<close> in front of it or behind it.
\<close>

theorem cat_invocation_exact:
  "detect_cat_file_read_invocation args = Some path \<longleftrightarrow>
   path \<noteq> ''-'' \<and>
   (args = [path] \<and> \<not> has_prefix path ''-'' \<or> args = [''--'', path] \<or>
    args = [path, ''--''] \<and> \<not> has_prefix path ''-'')"
proof -
  have "cat_targets False args = Some [path] \<longleftrightarrow>
      (args = [path] \<and> \<not> has_prefix path ''-'' \<or> args = [''--'', path] \<or>
       args = [path, ''--''] \<and> \<not> has_prefix path ''-'')"
    (is "_ = ?R")
  proof
    show "cat_targets False args = Some [path] \<Longrightarrow> ?R"
      unfolding cat_targets_iff by (auto simp: Cons_eq_append_conv)
    show "?R \<Longrightarrow> cat_targets False args = Some [path]"
      by (auto simp: has_prefix_def)
  qed
  moreover have "detect_cat_file_read_invocation args = Some path \<longleftrightarrow>
      path \<noteq> ''-'' \<and> cat_targets False args = Some [path]"
    by (auto simp: detect_cat_file_read_invocation_def split: option.splits list.splits if_splits)
  ultimately show ?thesis by blast
qed

end
