(* ===== verification/PathRel.thy ===== *)
theory PathRel
  imports Paths
begin

text \<open>
  \<open>filepath.Rel\<close>, for the paths that are kept relative to a repository.
\<close>

text \<open>\<open>filepath.Rel\<close> on the elements of clean paths, \<open>None\<close> for its error.\<close>

fun rel_elements :: "string list \<Rightarrow> string list \<Rightarrow> string list option" where
  "rel_elements [] targ = Some targ"
| "rel_elements base [] = Some (map (\<lambda>_. ''..'') base)"
| "rel_elements (b # base) (t # targ) =
     (if b = t then rel_elements base targ
      else if b = ''..'' then None
      else Some (map (\<lambda>_. ''..'') (b # base) @ t # targ))"

definition path_elements :: "string \<Rightarrow> string list" where
  "path_elements p = filter (\<lambda>x. x \<noteq> [] \<and> x \<noteq> ''.'') (split_on CHR ''/'' p)"

definition path_rel :: "string \<Rightarrow> string \<Rightarrow> string option" where
  "path_rel basepath targpath =
     (let base = path_clean basepath; targ = path_clean targpath
      in if base = targ then Some ''.''
         else if path_is_abs base \<noteq> path_is_abs targ then None
         else map_option (str_join ''/'') (rel_elements (path_elements base) (path_elements targ)))"

end
