(* ===== verification/ToolOutput.thy ===== *)
theory ToolOutput
  imports EvidenceStore Invocations HookEvent PathRel
begin

text \<open>
  \<open>go/internal/hooks/proxy_output.go\<close> and \<open>proxy_token_budget.go\<close>: what becomes of the output of a
  \<open>Bash\<close> command before the agent sees it. The output of a plain file read is paged, other outputs
  are shortened, both end within the token budget of the model. The code index, the parsers of
  diagnostics, the configuration files and the enrichment of directory listings are arguments. The
  events for the trace are not modelled.
\<close>

section \<open>Options\<close>









section \<open>The environment\<close>

record code_chunk =
  ch_symbol_path :: string
  ch_start_line :: int
  ch_end_line :: int




section \<open>The token budget of a model\<close>






section \<open>The end of a page\<close>

record page_candidate =
  pc_best_end :: int
  pc_fallback :: int

definition is_crossing_semantic_chunk :: "int \<Rightarrow> code_chunk \<Rightarrow> bool" where
  "is_crossing_semantic_chunk target c \<longleftrightarrow>
     ch_start_line c > 0 \<and> ch_end_line c > target \<and> ch_symbol_path c \<noteq> []"

definition with_best_end :: "page_candidate \<Rightarrow> int \<Rightarrow> page_candidate" where
  "with_best_end p end_line =
     (if pc_best_end p = 0 \<or> end_line < pc_best_end p then p\<lparr>pc_best_end := end_line\<rparr> else p)"

definition with_chunk :: "int \<Rightarrow> int \<Rightarrow> page_candidate \<Rightarrow> code_chunk \<Rightarrow> page_candidate" where
  "with_chunk target total_lines p c =
     (if \<not> is_crossing_semantic_chunk target c then p
      else if ch_end_line c \<le> min (target + 50) total_lines then with_best_end p (ch_end_line c)
      else
        let start_floor = max (target - 50) 1; backup_floor = max (target div 2) 1;
            backup_end = ch_start_line c - 1
        in if ch_start_line c \<ge> start_floor \<and> backup_end \<ge> backup_floor
           then p\<lparr>pc_fallback := min (pc_fallback p) backup_end\<rparr> else p)"

fun semantic_page_loop :: "int \<Rightarrow> int \<Rightarrow> page_candidate \<Rightarrow> code_chunk list \<Rightarrow> page_candidate" where
  "semantic_page_loop target total_lines p [] = p"
| "semantic_page_loop target total_lines p (c # cs) =
     (if ch_start_line c > target then p
      else semantic_page_loop target total_lines (with_chunk target total_lines p c) cs)"

definition semantic_page_end :: "int \<Rightarrow> int \<Rightarrow> code_chunk list \<Rightarrow> int" where
  "semantic_page_end target total_lines chunks =
     (let p = semantic_page_loop target total_lines \<lparr>pc_best_end = 0, pc_fallback = target\<rparr> chunks
      in if pc_best_end p > 0 then pc_best_end p else pc_fallback p)"


section \<open>Paths in the repository\<close>

definition repo_relative_listing_path :: "string option \<Rightarrow> string \<Rightarrow> string \<Rightarrow> string \<Rightarrow> string option" where
  "repo_relative_listing_path wd root0 cwd0 path0 =
     (let root = trim_space root0; cwd = trim_space cwd0; path1 = trim_space path0
      in if root = [] \<or> cwd = [] then None
         else
           let path = (if path1 = [] then ''.'' else path1);
               joined = (if path_is_abs path then path else path_join [cwd, path])
           in case (path_abs wd root, path_abs wd joined) of
                (Some absolute_root, Some absolute_path) \<Rightarrow>
                  (case path_rel absolute_root absolute_path of
                     None \<Rightarrow> None
                   | Some relative \<Rightarrow>
                       if relative = ''..'' \<or> has_prefix relative ''../'' then None else Some relative)
              | _ \<Rightarrow> None)"


section \<open>The transforms\<close>







definition is_file_pagination_transform :: "transform_record \<Rightarrow> bool" where
  "is_file_pagination_transform r \<longleftrightarrow> tr_name r = ''file-read-pagination''"





section \<open>The decision of an event\<close>

definition proxy_tool_output_decision :: "transform_record list \<Rightarrow> string" where
  "proxy_tool_output_decision rs =
     (if list_ex (\<lambda>r. tr_decision r = ''truncate'') rs then ''truncate''
      else fold (\<lambda>r d. if tr_decision r = ''summarize'' then ''summarize''
                       else if tr_decision r = ''inject'' \<and> d = ''allow'' then ''inject'' else d) rs ''allow'')"

definition proxy_tool_output_policy_id :: "transform_record list \<Rightarrow> string" where
  "proxy_tool_output_policy_id rs =
     (if list_ex (\<lambda>r. tr_name r = ''directory-anatomy-map'' \<and> tr_decision r = ''inject'') rs
      then ''proxy.directory_anatomy''
      else if list_ex (\<lambda>r. is_file_pagination_transform r \<and> tr_decision r = ''truncate'') rs
      then ''proxy.file_pagination''
      else let d = proxy_tool_output_decision rs
           in if d = ''summarize'' then ''proxy.diagnostic_summary''
              else if d = ''inject'' then ''proxy.directory_anatomy''
              else if d = ''truncate'' then ''proxy.token_budget'' else [])"

section \<open>Every output is within the budget\<close>
















section \<open>Where a page ends\<close>

definition page_candidate_ok :: "int \<Rightarrow> int \<Rightarrow> page_candidate \<Rightarrow> bool" where
  "page_candidate_ok target total_lines p \<longleftrightarrow>
     (pc_best_end p = 0 \<or> target < pc_best_end p \<and> pc_best_end p \<le> min (target + 50) total_lines) \<and>
     max (target div 2) 1 \<le> pc_fallback p \<and> pc_fallback p \<le> target"

lemma semantic_page_loop_ok:
  "0 < target \<Longrightarrow> page_candidate_ok target total_lines p \<Longrightarrow>
   page_candidate_ok target total_lines (semantic_page_loop target total_lines p chunks)"
proof (induction target total_lines p chunks rule: semantic_page_loop.induct)
  case (2 target total_lines p c cs)
  have "page_candidate_ok target total_lines (with_chunk target total_lines p c)"
    using 2(2,3)
    by (auto simp: page_candidate_ok_def with_chunk_def with_best_end_def is_crossing_semantic_chunk_def Let_def)
  then show ?case using 2 by simp
qed simp

text \<open>
  Fact. The end of a page that is moved to the end of a symbol stays near its target: it is
  never before half of the target, at most fifty lines behind it, never behind the last line,
  whatever the index says about the file.
\<close>

theorem semantic_page_end_bounds:
  assumes "0 < target" and "target \<le> total_lines"
  shows "max (target div 2) 1 \<le> semantic_page_end target total_lines chunks \<and>
    semantic_page_end target total_lines chunks \<le> min (target + 50) total_lines"
proof -
  have "page_candidate_ok target total_lines \<lparr>pc_best_end = 0, pc_fallback = target\<rparr>"
    using assms by (auto simp: page_candidate_ok_def)
  from semantic_page_loop_ok [OF assms(1) this, of chunks] show ?thesis
    using assms by (auto simp: page_candidate_ok_def semantic_page_end_def Let_def)
qed

theorem semantic_page_end_bounds_witness:
  "semantic_page_end 100 400 [\<lparr>ch_symbol_path = ''f'', ch_start_line = 90, ch_end_line = 200\<rparr>] = 89 \<and>
   (50::int) \<le> 89"
proof -
  have "max (100 div 2) (1::int) \<le>
      semantic_page_end 100 400 [\<lparr>ch_symbol_path = ''f'', ch_start_line = 90, ch_end_line = 200\<rparr>]"
    using semantic_page_end_bounds [of 100 400] by simp
  moreover have "semantic_page_end 100 400 [\<lparr>ch_symbol_path = ''f'', ch_start_line = 90, ch_end_line = 200\<rparr>] = 89"
    by code_simp
  ultimately show ?thesis by simp
qed

text \<open>
  Fact. The command that a page names for the next one is wrong in a subdirectory: it has
  the path from the root of the repository, and is run where the file was read.
\<close>

theorem next_page_from_subdirectory:
  "repo_relative_listing_path None ''/repo'' ''/repo/sub'' ''a.py'' = Some ''sub/a.py'' \<and>
   path_join [''/repo/sub'', ''sub/a.py''] \<noteq> path_join [''/repo/sub'', ''a.py'']"
  by code_simp

end
