(* ===== verification/MinHash.thy ===== *)
theory MinHash
  imports Complex_Main GoStrings "HOL-Library.Word"
begin

text \<open>
  \<open>go/internal/minhash/minhash.go\<close>: signatures of token lists whose agreement estimates how much two
  functions have in common. The hash of a shingle (the first eight bytes of SHA-256) is an argument;
  the permutation of the hashes is the code's, on 64-bit words, and is proved to be one.
\<close>

unbundle bit_operations_syntax

section \<open>Shingles\<close>

record minhash_config =
  mc_signature_size :: nat
  mc_shingle_size :: nat
  mc_bands :: nat
  mc_rows_per_band :: nat

definition DefaultConfig :: minhash_config where
  "DefaultConfig = \<lparr>mc_signature_size = 128, mc_shingle_size = 5, mc_bands = 16, mc_rows_per_band = 8\<rparr>"

definition join_tokens :: "string list \<Rightarrow> string" where
  "join_tokens tokens = str_join '' '' tokens"

definition Shingle :: "string list \<Rightarrow> nat \<Rightarrow> string list" where
  "Shingle tokens size0 =
     (if length tokens < size0 then (if tokens = [] then [] else [join_tokens tokens])
      else map (\<lambda>offset. join_tokens (take size0 (drop offset tokens))) [0..<length tokens - size0 + 1])"

section \<open>Permuting\<close>

definition permute_hash :: "64 word \<Rightarrow> 64 word \<Rightarrow> 64 word" where
  "permute_hash hash seed =
     (let m1 = hash XOR (seed * 0x9e3779b97f4a7c15);
          m2 = (m1 XOR drop_bit 30 m1) * 0xbf58476d1ce4e5b9;
          m3 = (m2 XOR drop_bit 27 m2) * 0x94d049bb133111eb
      in m3 XOR drop_bit 31 m3)"

section \<open>Signatures\<close>

definition update_signature :: "64 word list \<Rightarrow> 64 word \<Rightarrow> 64 word list" where
  "update_signature sig hash =
     map (\<lambda>i. let permuted = permute_hash hash (of_nat i)
              in if permuted < sig ! i then permuted else sig ! i) [0..<length sig]"

definition ComputeSignature ::
  "(string \<Rightarrow> 64 word) \<Rightarrow> string list \<Rightarrow> minhash_config \<Rightarrow> 64 word list" where
  "ComputeSignature hash_shingle tokens config =
     foldl (\<lambda>sig shingle. update_signature sig (hash_shingle shingle))
       (replicate (mc_signature_size config) (- 1)) (Shingle tokens (mc_shingle_size config))"

text \<open>\<open>EstimateJaccard\<close> as the fraction it is, before the division rounds it.\<close>

definition agreeing :: "64 word list \<Rightarrow> 64 word list \<Rightarrow> nat" where
  "agreeing a b = length (filter (\<lambda>(x, y). x = y) (zip a b))"

definition EstimateJaccard :: "64 word list \<Rightarrow> 64 word list \<Rightarrow> rat" where
  "EstimateJaccard a b =
     (if length a \<noteq> length b \<or> length a = 0 then 0 else of_nat (agreeing a b) / of_nat (length a))"

text \<open>The bands, whose little-endian bytes are hashed; \<open>None\<close> is the panic of a division by zero.\<close>

definition BandHashes :: "(64 word list \<Rightarrow> string) \<Rightarrow> 64 word list \<Rightarrow> minhash_config \<Rightarrow> string list option" where
  "BandHashes hash_band sig config =
     (let rows = mc_rows_per_band config;
          slices = (\<lambda>bands. map (\<lambda>b. hash_band (take rows (drop (b * rows) sig))) [0..<bands])
      in if length sig < mc_bands config * rows
         then (if rows = 0 then None else Some (slices (length sig div rows)))
         else Some (slices (mc_bands config)))"

section \<open>The permutation is one\<close>

lemma xor_shift_30: "z XOR drop_bit 30 z XOR drop_bit 60 z = w" if "z = w XOR drop_bit 30 w" for w z :: "64 word"
  unfolding that by (rule bit_word_eqI) (auto simp: bit_xor_iff bit_drop_bit_eq add.commute dest: bit_imp_le_length)

lemma xor_shift_27: "z XOR drop_bit 27 z XOR drop_bit 54 z = w" if "z = w XOR drop_bit 27 w" for w z :: "64 word"
  unfolding that by (rule bit_word_eqI) (auto simp: bit_xor_iff bit_drop_bit_eq add.commute dest: bit_imp_le_length)

lemma xor_shift_31: "z XOR drop_bit 31 z XOR drop_bit 62 z = w" if "z = w XOR drop_bit 31 w" for w z :: "64 word"
  unfolding that by (rule bit_word_eqI) (auto simp: bit_xor_iff bit_drop_bit_eq add.commute dest: bit_imp_le_length)

lemma odd_factor_cancel:
  fixes c d :: "64 word"
  assumes "c * d = 1" and "x * c = y * c"
  shows "x = y"
proof -
  have "x * (c * d) = y * (c * d)" using assms(2) by (simp only: mult.assoc [symmetric])
  then show ?thesis by (simp only: assms(1) mult_1_right)
qed

lemma permute_hash_injective:
  assumes "permute_hash h seed = permute_hash k seed"
  shows "h = k"
proof -
  let ?m1 = "\<lambda>x. x XOR (seed * 0x9e3779b97f4a7c15) :: 64 word"
  let ?m2 = "\<lambda>x. (?m1 x XOR drop_bit 30 (?m1 x)) * (0xbf58476d1ce4e5b9 :: 64 word)"
  let ?m3 = "\<lambda>x. (?m2 x XOR drop_bit 27 (?m2 x)) * (0x94d049bb133111eb :: 64 word)"
  have "?m3 h XOR drop_bit 31 (?m3 h) = ?m3 k XOR drop_bit 31 (?m3 k)"
    using assms by (simp only: permute_hash_def Let_def)
  then have "?m3 h = ?m3 k" using xor_shift_31 [OF refl, of "?m3 h"] xor_shift_31 [OF refl, of "?m3 k"] by metis
  then have "?m2 h XOR drop_bit 27 (?m2 h) = ?m2 k XOR drop_bit 27 (?m2 k)"
    by (rule odd_factor_cancel [where d = "0x319642b2d24d8ec3", rotated]) simp
  then have "?m2 h = ?m2 k" using xor_shift_27 [OF refl, of "?m2 h"] xor_shift_27 [OF refl, of "?m2 k"] by metis
  then have "?m1 h XOR drop_bit 30 (?m1 h) = ?m1 k XOR drop_bit 30 (?m1 k)"
    by (rule odd_factor_cancel [where d = "0x96de1b173f119089", rotated]) simp
  then have "?m1 h = ?m1 k" using xor_shift_30 [OF refl, of "?m1 h"] xor_shift_30 [OF refl, of "?m1 k"] by metis
  then have "(h XOR seed * 0x9e3779b97f4a7c15) XOR (seed * 0x9e3779b97f4a7c15) =
      (k XOR seed * 0x9e3779b97f4a7c15) XOR (seed * 0x9e3779b97f4a7c15)"
    by simp
  then show ?thesis by (simp only: xor.assoc xor_self_eq xor.right_neutral)
qed

section \<open>Signatures are minima\<close>

lemma update_signature_length [simp]: "length (update_signature sig h) = length sig"
  by (simp add: update_signature_def)

lemma foldl_update_length [simp]: "length (foldl update_signature sig hs) = length sig"
  by (induction hs arbitrary: sig) simp_all

lemma foldl_update_nth:
  "i < length sig \<Longrightarrow>
   foldl update_signature sig hs ! i = Min (insert (sig ! i) ((\<lambda>h. permute_hash h (of_nat i)) ` set hs))"
proof (induction hs arbitrary: sig)
  case (Cons h hs)
  let ?P = "(\<lambda>h. permute_hash h (of_nat i)) ` set hs"
  have "update_signature sig h ! i = min (permute_hash h (of_nat i)) (sig ! i)"
    using Cons.prems by (simp add: update_signature_def Let_def min_def del: upt_Suc) (metis less_le_not_le linorder_not_less)
  then have "foldl update_signature sig (h # hs) ! i =
      Min (insert (min (permute_hash h (of_nat i)) (sig ! i)) ?P)"
    using Cons by simp
  also have "\<dots> = Min (insert (permute_hash h (of_nat i)) (insert (sig ! i) ?P))"
    by (cases "?P = {}") (simp_all add: min.assoc)
  finally show ?case by (simp add: insert_commute)
qed simp

lemma ComputeSignature_foldl:
  "ComputeSignature f tokens config =
   foldl update_signature (replicate (mc_signature_size config) (- 1)) (map f (Shingle tokens (mc_shingle_size config)))"
  unfolding ComputeSignature_def by (simp add: foldl_map)

definition shingle_hashes :: "(string \<Rightarrow> 64 word) \<Rightarrow> string list \<Rightarrow> minhash_config \<Rightarrow> 64 word set" where
  "shingle_hashes f tokens config = f ` set (Shingle tokens (mc_shingle_size config))"

lemma ComputeSignature_length [simp]: "length (ComputeSignature f tokens config) = mc_signature_size config"
  by (simp add: ComputeSignature_foldl)

lemma ComputeSignature_nth:
  assumes "i < mc_signature_size config"
  shows "ComputeSignature f tokens config ! i =
    Min (insert (- 1) ((\<lambda>h. permute_hash h (of_nat i)) ` shingle_hashes f tokens config))"
  using assms
  by (simp add: ComputeSignature_foldl foldl_update_nth shingle_hashes_def image_image)

lemma Shingle_not_Nil: "tokens \<noteq> [] \<Longrightarrow> Shingle tokens n \<noteq> []"
  by (auto simp: Shingle_def)

lemma ComputeSignature_hit:
  assumes "tokens \<noteq> []" and "i < mc_signature_size config"
  shows "\<exists>h \<in> shingle_hashes f tokens config. ComputeSignature f tokens config ! i = permute_hash h (of_nat i)"
proof -
  let ?P = "(\<lambda>h. permute_hash h (of_nat i)) ` shingle_hashes f tokens config"
  have fin: "finite ?P" and ne: "?P \<noteq> {}"
    using Shingle_not_Nil [OF assms(1)] by (simp_all add: shingle_hashes_def)
  have "Min (insert (- 1) ?P) = Min ?P"
    using fin ne by (simp add: min_def word_order.extremum_unique)
  then show ?thesis using ComputeSignature_nth [OF assms(2)] Min_in [OF fin ne] by auto
qed

lemma agreeing_bound: "length a = length b \<Longrightarrow> agreeing a b \<le> length a"
  using length_filter_le [of "\<lambda>(x, y). x = y" "zip a b"] by (simp add: agreeing_def)

lemma agreeing_same: "agreeing a a = length a"
  by (induction a) (simp_all add: agreeing_def)

lemma agreeing_pos:
  assumes "agreeing a b \<noteq> 0"
  shows "\<exists>i < length a. i < length b \<and> a ! i = b ! i"
  using assms by (auto simp: agreeing_def filter_empty_conv in_set_zip) metis

text \<open>
  Property C32. What the estimate of two signatures means: it lies between 0 and 1, it is 1 when both
  token lists have the same shingles, whatever their order and repetition, and 0 when no two shingles
  of them have the same hash. The last part rests on the mixing of the hashes being injective on
  64-bit words, so that a common minimum can only come from a common hash.
\<close>

theorem estimate_means_common_shingles:
  assumes "ts \<noteq> []" and "us \<noteq> []" and "0 < mc_signature_size config"
  shows "0 \<le> EstimateJaccard (ComputeSignature f ts config) (ComputeSignature f us config) \<and>
    EstimateJaccard (ComputeSignature f ts config) (ComputeSignature f us config) \<le> 1 \<and>
    (set (Shingle ts (mc_shingle_size config)) = set (Shingle us (mc_shingle_size config)) \<longrightarrow>
       EstimateJaccard (ComputeSignature f ts config) (ComputeSignature f us config) = 1) \<and>
    (shingle_hashes f ts config \<inter> shingle_hashes f us config = {} \<longrightarrow>
       EstimateJaccard (ComputeSignature f ts config) (ComputeSignature f us config) = 0)"
proof (intro conjI impI)
  let ?A = "ComputeSignature f ts config" and ?B = "ComputeSignature f us config"
  have "agreeing ?A ?B \<le> mc_signature_size config" using agreeing_bound [of ?A ?B] by simp
  then show "0 \<le> EstimateJaccard ?A ?B" "EstimateJaccard ?A ?B \<le> 1"
    using assms(3) by (simp_all add: EstimateJaccard_def)
  show "EstimateJaccard ?A ?B = 1"
    if "set (Shingle ts (mc_shingle_size config)) = set (Shingle us (mc_shingle_size config))"
  proof -
    have "?A = ?B"
      by (rule nth_equalityI) (simp_all add: ComputeSignature_nth shingle_hashes_def that)
    then show ?thesis using assms(3) by (simp add: EstimateJaccard_def agreeing_same)
  qed
  show "EstimateJaccard ?A ?B = 0"
    if disjoint: "shingle_hashes f ts config \<inter> shingle_hashes f us config = {}"
  proof -
    have "agreeing ?A ?B = 0"
    proof (rule ccontr)
      assume "agreeing ?A ?B \<noteq> 0"
      then obtain i where i: "i < mc_signature_size config" "?A ! i = ?B ! i"
        using agreeing_pos by fastforce
      then obtain h k where "h \<in> shingle_hashes f ts config" "k \<in> shingle_hashes f us config"
        "permute_hash h (of_nat i) = permute_hash k (of_nat i)"
        using ComputeSignature_hit [OF assms(1) i(1)] ComputeSignature_hit [OF assms(2) i(1)] by metis
      then show False using disjoint permute_hash_injective by blast
    qed
    then show ?thesis by (simp add: EstimateJaccard_def)
  qed
qed

definition short_config :: minhash_config where
  "short_config = \<lparr>mc_signature_size = 2, mc_shingle_size = 1, mc_bands = 1, mc_rows_per_band = 2\<rparr>"

definition length_hash :: "string \<Rightarrow> 64 word" where
  "length_hash s = of_nat (length s)"

theorem estimate_means_common_shingles_witness:
  "EstimateJaccard (ComputeSignature length_hash [''a'', ''bb'', ''a''] short_config)
     (ComputeSignature length_hash [''bb'', ''a''] short_config) = 1 \<and>
   EstimateJaccard (ComputeSignature length_hash [''a'', ''bb''] short_config)
     (ComputeSignature length_hash [''ccc''] short_config) = 0"
proof -
  have same: "set (Shingle [''a'', ''bb'', ''a''] 1) = set (Shingle [''bb'', ''a''] 1)"
    by (auto simp: Shingle_def join_tokens_def numeral_eq_Suc)
  have "set (Shingle [''a'', ''bb''] 1) = {''a'', ''bb''}" "set (Shingle [''ccc''] 1) = {''ccc''}"
    by (auto simp: Shingle_def join_tokens_def numeral_eq_Suc)
  then have diff: "shingle_hashes length_hash [''a'', ''bb''] short_config \<inter>
      shingle_hashes length_hash [''ccc''] short_config = {}"
    by (simp add: shingle_hashes_def short_config_def length_hash_def)
  show ?thesis
    using estimate_means_common_shingles [of "[''a'', ''bb'', ''a'']" "[''bb'', ''a'']" short_config length_hash]
      estimate_means_common_shingles [of "[''a'', ''bb'']" "[''ccc'']" short_config length_hash] same diff
    by (simp add: short_config_def)
qed

text \<open>
  Fact. The bands of a signature are as many as configured when it is long enough, and as many
  as fit otherwise, so that every band has all its rows.
\<close>

theorem band_count:
  assumes "0 < mc_rows_per_band config"
  shows "\<exists>hs. BandHashes hash_band sig config = Some hs \<and>
    length hs = min (mc_bands config) (length sig div mc_rows_per_band config)"
proof (cases "length sig < mc_bands config * mc_rows_per_band config")
  case True
  then have "length sig div mc_rows_per_band config < mc_bands config"
    by (simp add: less_mult_imp_div_less)
  then show ?thesis using True assms by (simp add: BandHashes_def Let_def)
next
  case False
  then have "mc_bands config \<le> length sig div mc_rows_per_band config"
    using assms by (simp add: less_eq_div_iff_mult_less_eq not_less)
  then show ?thesis using False by (simp add: BandHashes_def Let_def)
qed

end
