(* ===== verification/Normalize.thy ===== *)
theory Normalize
  imports Runes MinHash
begin

text \<open>
  \<open>go/internal/minhash/normalize.go\<close>: the tokens of a piece of code with identifiers, strings and
  numbers replaced, from which signatures are computed. A rune is the string of its code point. The
  letters and digits outside ASCII are those of Go's \<open>unicode\<close> tables, which are an argument. The
  loop over positions runs over the runes that are left; that every token takes some of them is what
  ends it.
\<close>

section \<open>Characters\<close>

record unicode_tables =
  ut_letter :: "string \<Rightarrow> bool"
  ut_digit :: "string \<Rightarrow> bool"

definition ascii_rune :: "string \<Rightarrow> bool" where
  "ascii_rune r \<longleftrightarrow> length r = 1 \<and> in_range 0 127 (hd r)"

definition is_space_rune :: "string \<Rightarrow> bool" where
  "is_space_rune r \<longleftrightarrow> 0 < space_len r"

definition is_digit_rune :: "unicode_tables \<Rightarrow> string \<Rightarrow> bool" where
  "is_digit_rune U r \<longleftrightarrow> (if ascii_rune r then in_range 48 57 (hd r) else ut_digit U r)"

definition is_letter_rune :: "unicode_tables \<Rightarrow> string \<Rightarrow> bool" where
  "is_letter_rune U r \<longleftrightarrow>
     (if ascii_rune r then in_range 65 90 (hd r) \<or> in_range 97 122 (hd r) else ut_letter U r)"

definition is_ident_rune :: "unicode_tables \<Rightarrow> string \<Rightarrow> bool" where
  "is_ident_rune U r \<longleftrightarrow> is_letter_rune U r \<or> is_digit_rune U r \<or> r = ''_''"

definition is_hex_letter :: "string \<Rightarrow> bool" where
  "is_hex_letter r \<longleftrightarrow> r \<in> {''a'', ''b'', ''c'', ''d'', ''e'', ''f'', ''A'', ''B'', ''C'', ''D'', ''E'', ''F''}"

definition is_quote :: "string \<Rightarrow> bool" where
  "is_quote r \<longleftrightarrow> r \<in> {[CHR 0x22], [CHR 0x27], [CHR 0x60]}"

section \<open>Keywords and operators\<close>

definition operators :: "string list" where
  "operators =
     [''('', '')'', ''{'', ''}'', ''['', '']'', ''.'', '','', '';'', '':'', ''::'',
      ''+'', ''-'', ''*'', ''/'', ''%'', ''='', ''=='', ''!='', ''<'', ''>'', ''<='', ''>='',
      ''&&'', ''||'', ''!'', ''&'', ''|'', ''^'', ''~'', ''<<'', ''>>'',
      ''+='', ''-='', ''*='', ''/='', ''%='', ''&='', ''|='', ''^='', ''<<='', ''>>='',
      ''++'', ''--'', ''->'', ''=>'', ''...'', ''..'', ''?'', ''??'', ''?.'', '':='']"

definition is_operator_or_punctuation :: "string \<Rightarrow> bool" where
  "is_operator_or_punctuation token \<longleftrightarrow> token \<in> set operators"

definition go_keywords :: "string list" where
  "go_keywords =
     [''break'', ''case'', ''chan'', ''const'', ''continue'', ''default'', ''defer'', ''else'',
      ''fallthrough'', ''for'', ''func'', ''go'', ''goto'', ''if'', ''import'', ''interface'', ''map'',
      ''package'', ''range'', ''return'', ''select'', ''struct'', ''switch'', ''type'', ''var'',
      ''true'', ''false'', ''nil'', ''bool'', ''byte'', ''int'', ''int8'', ''int16'', ''int32'', ''int64'',
      ''uint'', ''uint8'', ''uint16'', ''uint32'', ''uint64'', ''float32'', ''float64'', ''complex64'',
      ''complex128'', ''string'', ''error'', ''rune'', ''uintptr'', ''append'', ''cap'', ''close'',
      ''copy'', ''delete'', ''len'', ''make'', ''new'', ''panic'', ''print'', ''println'', ''recover'']"

definition python_keywords :: "string list" where
  "python_keywords =
     [''False'', ''None'', ''True'', ''and'', ''as'', ''assert'', ''async'', ''await'', ''break'', ''class'',
      ''continue'', ''def'', ''del'', ''elif'', ''else'', ''except'', ''finally'', ''for'', ''from'',
      ''global'', ''if'', ''import'', ''in'', ''is'', ''lambda'', ''nonlocal'', ''not'', ''or'', ''pass'',
      ''raise'', ''return'', ''try'', ''while'', ''with'', ''yield'', ''self'', ''cls'', ''int'', ''str'',
      ''float'', ''bool'', ''list'', ''dict'', ''set'', ''tuple'', ''len'', ''range'', ''print'', ''type'',
      ''isinstance'', ''super'', ''property'', ''staticmethod'', ''classmethod'']"

definition javascript_keywords :: "string list" where
  "javascript_keywords =
     [''break'', ''case'', ''catch'', ''class'', ''const'', ''continue'', ''debugger'', ''default'',
      ''delete'', ''do'', ''else'', ''export'', ''extends'', ''false'', ''finally'', ''for'', ''function'',
      ''if'', ''import'', ''in'', ''instanceof'', ''let'', ''new'', ''null'', ''of'', ''return'', ''super'',
      ''switch'', ''this'', ''throw'', ''true'', ''try'', ''typeof'', ''undefined'', ''var'', ''void'',
      ''while'', ''with'', ''yield'', ''async'', ''await'', ''console'', ''require'', ''module'', ''exports'']"

definition shell_keywords :: "string list" where
  "shell_keywords =
     [''if'', ''then'', ''else'', ''elif'', ''fi'', ''case'', ''esac'', ''for'', ''while'', ''until'',
      ''do'', ''done'', ''in'', ''function'', ''return'', ''exit'', ''break'', ''continue'', ''local'',
      ''export'', ''readonly'', ''declare'', ''echo'', ''printf'', ''read'', ''set'', ''unset'', ''true'',
      ''false'', ''test'']"

definition keywords_of :: "string \<Rightarrow> string list" where
  "keywords_of language =
     (if language = ''go'' then go_keywords
      else if language = ''python'' then python_keywords
      else if language = ''javascript'' then javascript_keywords
      else if language = ''shell'' then shell_keywords else [])"

definition is_line_comment_language :: "string \<Rightarrow> bool" where
  "is_line_comment_language language \<longleftrightarrow> language = ''python'' \<or> language = ''shell''"

section \<open>Scanning\<close>

definition skip_to_end_of_line :: "string list \<Rightarrow> string list" where
  "skip_to_end_of_line rs = dropWhile (\<lambda>r. r \<noteq> [CHR 0x0A]) rs"

text \<open>Behind the opening of the comment.\<close>

fun skip_block_comment :: "string list \<Rightarrow> string list" where
  "skip_block_comment (x # y # rs) =
     (if x = ''*'' \<and> y = ''/'' then rs else skip_block_comment (y # rs))"
| "skip_block_comment _ = []"

definition skip_comment :: "string list \<Rightarrow> string \<Rightarrow> string list option" where
  "skip_comment rs language =
     (case rs of
        [] \<Rightarrow> None
      | c # rest \<Rightarrow>
          if c = ''/'' \<and> rest \<noteq> [] \<and> hd rest = ''/'' then Some (skip_to_end_of_line rs)
          else if c = ''/'' \<and> rest \<noteq> [] \<and> hd rest = ''*'' then Some (skip_block_comment (tl rest))
          else if c = ''#'' \<and> is_line_comment_language language then Some (skip_to_end_of_line rs)
          else None)"

text \<open>Behind the opening quote: what belongs to the string, and the rest.\<close>

fun scan_string :: "string \<Rightarrow> string list \<Rightarrow> string list \<times> string list" where
  "scan_string quote [] = ([], [])"
| "scan_string quote [c] = ([c], [])"
| "scan_string quote (c # d # rs) =
     (if c = [CHR 0x5C] then (case scan_string quote rs of (t, rest) \<Rightarrow> (c # d # t, rest))
      else if c = quote then ([c], d # rs)
      else case scan_string quote (d # rs) of (t, rest) \<Rightarrow> (c # t, rest))"

definition scan_prefixed_number :: "unicode_tables \<Rightarrow> string list \<Rightarrow> (string list \<times> string list) option" where
  "scan_prefixed_number U rs =
     (case rs of
        z # n # rest \<Rightarrow>
          if z = ''0'' \<and> n \<in> {''x'', ''o'', ''b'', ''X'', ''O'', ''B''} then
            let part = (\<lambda>r. is_digit_rune U r \<or> is_hex_letter r \<or> r = ''_'')
            in Some (z # n # takeWhile part rest, dropWhile part rest)
          else None
      | _ \<Rightarrow> None)"

fun scan_decimal_number :: "unicode_tables \<Rightarrow> bool \<Rightarrow> string list \<Rightarrow> string list \<times> string list" where
  "scan_decimal_number U has_dot [] = ([], [])"
| "scan_decimal_number U has_dot [c] =
     (if is_digit_rune U c \<or> c = ''_'' \<or> c = ''.'' \<and> \<not> has_dot \<or> c \<in> {''e'', ''E''} then ([c], []) else ([], [c]))"
| "scan_decimal_number U has_dot (c # d # rs) =
     (if is_digit_rune U c \<or> c = ''_'' then
        (case scan_decimal_number U has_dot (d # rs) of (t, rest) \<Rightarrow> (c # t, rest))
      else if c = ''.'' \<and> \<not> has_dot then
        (case scan_decimal_number U True (d # rs) of (t, rest) \<Rightarrow> (c # t, rest))
      else if c \<in> {''e'', ''E''} then
        (if d \<in> {''+'', ''-''}
         then (case scan_decimal_number U has_dot rs of (t, rest) \<Rightarrow> (c # d # t, rest))
         else (case scan_decimal_number U has_dot (d # rs) of (t, rest) \<Rightarrow> (c # t, rest)))
      else ([], c # d # rs))"

definition scan_number :: "unicode_tables \<Rightarrow> string list \<Rightarrow> string list \<times> string list" where
  "scan_number U rs =
     (case scan_prefixed_number U rs of Some r \<Rightarrow> r | None \<Rightarrow> scan_decimal_number U False rs)"

definition scan_identifier :: "unicode_tables \<Rightarrow> string list \<Rightarrow> string list \<times> string list" where
  "scan_identifier U rs = (takeWhile (is_ident_rune U) rs, dropWhile (is_ident_rune U) rs)"

definition scan_operator :: "string list \<Rightarrow> string list \<times> string list" where
  "scan_operator rs =
     (if 3 \<le> length rs \<and> is_operator_or_punctuation (concat (take 3 rs)) then (take 3 rs, drop 3 rs)
      else if 2 \<le> length rs \<and> is_operator_or_punctuation (concat (take 2 rs)) then (take 2 rs, drop 2 rs)
      else (take 1 rs, drop 1 rs))"

definition tokenize_value :: "unicode_tables \<Rightarrow> string list \<Rightarrow> string list \<times> string list" where
  "tokenize_value U rs =
     (let c = hd rs
      in if is_quote c then (case scan_string c (tl rs) of (t, rest) \<Rightarrow> (c # t, rest))
         else if is_digit_rune U c \<or> c = ''.'' \<and> tl rs \<noteq> [] \<and> is_digit_rune U (hd (tl rs))
         then scan_number U rs
         else if is_letter_rune U c \<or> c = ''_'' then scan_identifier U rs
         else scan_operator rs)"

text \<open>One step: the runes of the token, none for white space and comments, and the rest.\<close>

definition tokenize_one :: "unicode_tables \<Rightarrow> string \<Rightarrow> string list \<Rightarrow> string list \<times> string list" where
  "tokenize_one U language rs =
     (if is_space_rune (hd rs) then ([], tl rs)
      else case skip_comment rs language of
             Some rest \<Rightarrow> ([], rest)
           | None \<Rightarrow> tokenize_value U rs)"

section \<open>Every step takes a rune\<close>

lemma skip_block_comment_length: "length (skip_block_comment rs) \<le> length rs"
  by (induction rs rule: skip_block_comment.induct) auto

lemma scan_string_split: "scan_string q rs = (t, rest) \<Longrightarrow> rs = t @ rest"
  by (induction q rs arbitrary: t rest rule: scan_string.induct) (auto split: if_splits prod.splits)

lemma scan_decimal_split: "scan_decimal_number U d rs = (t, rest) \<Longrightarrow> rs = t @ rest"
  by (induction U d rs arbitrary: t rest rule: scan_decimal_number.induct) (auto split: if_splits prod.splits)

lemma scan_number_split: "scan_number U rs = (t, rest) \<Longrightarrow> rs = t @ rest"
  using scan_decimal_split
  by (auto simp: scan_number_def scan_prefixed_number_def Let_def split: option.splits list.splits if_splits)

lemma scan_decimal_takes:
  "is_digit_rune U c \<or> c = ''.'' \<and> \<not> d \<Longrightarrow> fst (scan_decimal_number U d (c # rs)) \<noteq> []"
  by (cases rs) (auto split: prod.split)

lemma scan_number_takes:
  "is_digit_rune U c \<or> c = ''.'' \<Longrightarrow> fst (scan_number U (c # rs)) \<noteq> []"
  using scan_decimal_takes [of U c False rs]
  by (auto simp: scan_number_def scan_prefixed_number_def Let_def split: option.splits list.splits if_splits)

lemma tokenize_value_split:
  assumes "rs \<noteq> []" and "tokenize_value U rs = (t, rest)"
  shows "rs = t @ rest" "t \<noteq> []"
proof -
  obtain c cs where rs: "rs = c # cs" using assms(1) by (cases rs) auto
  have "rs = t @ rest \<and> t \<noteq> []"
  proof (cases "is_quote c")
    case True
    then show ?thesis
      using assms(2) scan_string_split [of c cs] by (auto simp: rs tokenize_value_def Let_def split: prod.splits)
  next
    case not_quote: False
    show ?thesis
    proof (cases "is_digit_rune U c \<or> c = ''.'' \<and> cs \<noteq> [] \<and> is_digit_rune U (hd cs)")
      case True
      then have "scan_number U rs = (t, rest)"
        using assms(2) not_quote by (simp add: rs tokenize_value_def Let_def)
      then show ?thesis
        using scan_number_split [of U rs t rest] scan_number_takes [of U c cs] True by (auto simp: rs)
    next
      case False
      then show ?thesis
        using assms(2) not_quote
        by (auto simp: rs tokenize_value_def Let_def scan_identifier_def scan_operator_def is_ident_rune_def
            split: if_splits)
    qed
  qed
  then show "rs = t @ rest" "t \<noteq> []" by simp_all
qed

lemma tokenize_one_shorter:
  assumes "rs \<noteq> []"
  shows "length (snd (tokenize_one U language rs)) < length rs"
proof -
  obtain c cs where rs: "rs = c # cs" using assms by (cases rs) auto
  have eol: "length (skip_to_end_of_line rs) < length rs" if "c \<noteq> [CHR 0x0A]"
    using that length_dropWhile_le [of "\<lambda>r. r \<noteq> [CHR 0x0A]" cs]
    by (simp add: rs skip_to_end_of_line_def le_imp_less_Suc)
  have "length rest < length rs" if "skip_comment rs language = Some rest" for rest
    using that eol skip_block_comment_length [of "tl cs"]
    by (auto simp: rs skip_comment_def split: if_splits)
  moreover have "length (snd (tokenize_value U rs)) < length rs"
    using tokenize_value_split [OF assms, of U] by (cases "tokenize_value U rs") force
  ultimately show ?thesis by (auto simp: tokenize_one_def rs split: option.split)
qed

section \<open>Tokens\<close>

function tokenize :: "unicode_tables \<Rightarrow> string \<Rightarrow> string list \<Rightarrow> string list" where
  "tokenize U language rs =
     (if rs = [] then []
      else
        let t = fst (tokenize_one U language rs); tokens = tokenize U language (snd (tokenize_one U language rs))
        in if concat t = [] then tokens else concat t # tokens)"
  by pat_completeness auto
termination
  by (relation "measure (\<lambda>(U, language, rs). length rs)") (simp_all add: tokenize_one_shorter)

declare tokenize.simps [simp del]

definition classify_literal :: "unicode_tables \<Rightarrow> string \<Rightarrow> string" where
  "classify_literal U token =
     (let c = hd (runes token)
      in if is_quote c then ''$STR''
         else if is_digit_rune U c \<or> c = ''.'' \<and> 1 < length token then ''$NUM''
         else if is_letter_rune U c \<or> c = ''_'' then ''$ID''
         else token)"

definition normalize_token :: "unicode_tables \<Rightarrow> string \<Rightarrow> string \<Rightarrow> string" where
  "normalize_token U token language =
     (if token \<in> set (keywords_of language) then token
      else if is_operator_or_punctuation token then token
      else if token = [] then token
      else classify_literal U token)"

definition NormalizeTokens :: "unicode_tables \<Rightarrow> string \<Rightarrow> string \<Rightarrow> string list" where
  "NormalizeTokens U raw_text language =
     filter (\<lambda>t. t \<noteq> []) (map (\<lambda>t. normalize_token U t language) (tokenize U language (runes raw_text)))"

definition NormalizedHash :: "(string \<Rightarrow> string) \<Rightarrow> string list \<Rightarrow> string" where
  "NormalizedHash hash_text tokens = hash_text (str_join '' '' tokens)"

section \<open>The alphabet of normalized tokens\<close>

definition ascii_runes :: "string list \<Rightarrow> bool" where
  "ascii_runes rs \<longleftrightarrow> (\<forall>r \<in> set rs. \<exists>c. r = [c] \<and> in_range 0 127 c)"

lemma runes_concat: "ascii_runes rs \<Longrightarrow> runes (concat rs) = rs"
proof (induction rs)
  case Nil
  then show ?case by (simp add: runes.simps [of "[]"])
next
  case (Cons r rs)
  then obtain c where c: "r = [c]" "in_range 0 127 c" by (auto simp: ascii_runes_def)
  have all: "list_all (in_range 0 127) (concat rs)"
    using Cons.prems by (fastforce simp: ascii_runes_def list_all_iff)
  have "runes (concat (r # rs)) = [c] # map (\<lambda>c. [c]) (concat rs)"
    using runes_ascii [of "c # concat rs"] c all by simp
  also have "map (\<lambda>c. [c]) (concat rs) = runes (concat rs)" using runes_ascii [OF all] by simp
  finally show ?case using Cons by (simp add: ascii_runes_def c)
qed

lemma skip_block_comment_set: "set (skip_block_comment rs) \<subseteq> set rs"
  by (induction rs rule: skip_block_comment.induct) auto

lemma set_tl_subset: "x \<in> set (tl xs) \<Longrightarrow> x \<in> set xs"
  by (cases xs) auto

lemma tokenize_one_set:
  assumes "rs \<noteq> []"
  shows "set (fst (tokenize_one U language rs)) \<subseteq> set rs" "set (snd (tokenize_one U language rs)) \<subseteq> set rs"
proof -
  obtain c cs where rs: "rs = c # cs" using assms by (cases rs) auto
  have "set rest \<subseteq> set rs" if "skip_comment rs language = Some rest" for rest
    using that subset_trans [OF skip_block_comment_set [of "tl cs"] subsetI [OF set_tl_subset]]
    by (auto simp: rs skip_comment_def skip_to_end_of_line_def split: if_splits dest!: set_dropWhileD)
  moreover obtain t rest where v: "tokenize_value U rs = (t, rest)" by fastforce
  moreover have "set t \<subseteq> set rs" "set rest \<subseteq> set rs"
    using tokenize_value_split(1) [OF assms v] by auto
  ultimately show "set (fst (tokenize_one U language rs)) \<subseteq> set rs" "set (snd (tokenize_one U language rs)) \<subseteq> set rs"
    by (auto simp: tokenize_one_def rs split: option.split)
qed

text \<open>A token is a keyword, an operator, a placeholder or one character that is none of the others.\<close>

definition normal_token :: "unicode_tables \<Rightarrow> string \<Rightarrow> string \<Rightarrow> bool" where
  "normal_token U language t \<longleftrightarrow>
     t \<in> set (keywords_of language) \<or> t \<in> set operators \<or> t \<in> {''$ID'', ''$STR'', ''$NUM''} \<or>
     length t = 1 \<and> \<not> is_quote t \<and> \<not> is_ident_rune U t"

lemma classified_normal:
  assumes "hd (runes s) = h" and "s \<noteq> []" and "length s = 1 \<longrightarrow> s = h"
    and "is_quote h \<or> is_digit_rune U h \<or> h = ''.'' \<and> 1 < length s \<or> is_letter_rune U h \<or> h = ''_'' \<or>
      is_operator_or_punctuation s \<or> length s = 1"
  shows "normal_token U language (normalize_token U s language)"
proof (cases "s \<in> set (keywords_of language) \<or> is_operator_or_punctuation s")
  case True
  then show ?thesis by (auto simp: normal_token_def normalize_token_def is_operator_or_punctuation_def)
next
  case False
  then have n: "normalize_token U s language = classify_literal U s"
    using assms(2) by (simp add: normalize_token_def)
  show ?thesis
    unfolding n classify_literal_def Let_def assms(1) normal_token_def is_ident_rune_def
    using assms(3,4) False by auto
qed

lemma normalize_token_cases:
  assumes "ascii_runes t" and "t \<noteq> []"
    and "is_quote (hd t) \<or> is_digit_rune U (hd t) \<or> hd t = ''.'' \<and> 1 < length t \<or>
      is_letter_rune U (hd t) \<or> hd t = ''_'' \<or> is_operator_or_punctuation (concat t) \<or> length t = 1"
  shows "normal_token U language (normalize_token U (concat t) language)"
proof (rule classified_normal [where h = "hd t"])
  have len: "length (concat t) = length t"
    using assms(1) by (induction t) (auto simp: ascii_runes_def)
  show "hd (runes (concat t)) = hd t" using runes_concat [OF assms(1)] by simp
  show "concat t \<noteq> []" using len assms(2) by (metis length_0_conv)
  show "length (concat t) = 1 \<longrightarrow> concat t = hd t" unfolding len by (cases t) auto
  show "is_quote (hd t) \<or> is_digit_rune U (hd t) \<or> hd t = ''.'' \<and> 1 < length (concat t) \<or>
      is_letter_rune U (hd t) \<or> hd t = ''_'' \<or> is_operator_or_punctuation (concat t) \<or> length (concat t) = 1"
    unfolding len by (rule assms(3))
qed

lemma scan_number_dot:
  assumes "is_digit_rune U d" and "scan_number U (''.'' # d # rs) = (t, rest)"
  shows "1 < length t"
proof -
  have "scan_decimal_number U False (''.'' # d # rs) = (t, rest)"
    using assms(2) by (simp add: scan_number_def scan_prefixed_number_def)
  then obtain u where "t = ''.'' # u" "scan_decimal_number U True (d # rs) = (u, rest)"
    by (auto split: if_splits prod.splits simp: is_digit_rune_def ascii_rune_def in_range_def)
  then show ?thesis using scan_decimal_takes [of U d True rs] assms(1) by (cases u) auto
qed

lemma tokenize_value_hd:
  assumes "rs \<noteq> []" and "tokenize_value U rs = (t, rest)"
  shows "is_quote (hd t) \<or> is_digit_rune U (hd t) \<or> hd t = ''.'' \<and> 1 < length t \<or>
      is_letter_rune U (hd t) \<or> hd t = ''_'' \<or> is_operator_or_punctuation (concat t) \<or> length t = 1"
proof -
  obtain c cs where rs: "rs = c # cs" using assms(1) by (cases rs) auto
  have t: "hd t = c" using tokenize_value_split [OF assms] rs by (cases t) auto
  show ?thesis
  proof (cases "is_quote c \<or> is_digit_rune U c \<or> is_letter_rune U c \<or> c = ''_''")
    case True
    then show ?thesis using t by blast
  next
    case none: False
    show ?thesis
    proof (cases "c = ''.'' \<and> cs \<noteq> [] \<and> is_digit_rune U (hd cs)")
      case True
      then have "scan_number U rs = (t, rest)" using assms(2) none by (simp add: rs tokenize_value_def)
      then have "1 < length t" using scan_number_dot [of U "hd cs" "tl cs" t rest] True by (simp add: rs)
      then show ?thesis using True t by simp
    next
      case False
      then have "scan_operator rs = (t, rest)"
        using assms(2) none by (auto simp: rs tokenize_value_def Let_def)
      then show ?thesis by (auto simp: scan_operator_def rs split: if_splits)
    qed
  qed
qed

lemma tokenize_normal:
  "ascii_runes rs \<Longrightarrow> t \<in> set (tokenize U language rs) \<Longrightarrow> normal_token U language (normalize_token U t language)"
proof (induction U language rs rule: tokenize.induct)
  case (1 U language rs)
  show ?case
  proof (cases "rs = []")
    case False
    let ?t = "fst (tokenize_one U language rs)" and ?rest = "snd (tokenize_one U language rs)"
    have ascii: "ascii_runes ?t" "ascii_runes ?rest"
      using 1(2) tokenize_one_set [OF False, of U language] by (auto simp: ascii_runes_def)
    from 1(3) False consider "t \<in> set (tokenize U language ?rest)" | "t = concat ?t" "concat ?t \<noteq> []"
      by (subst (asm) tokenize.simps) (auto simp: Let_def split: if_splits)
    then show ?thesis
    proof cases
      case 1
      then show ?thesis using "1.IH" [OF False refl] ascii(2) by blast
    next
      case 2
      then have "tokenize_one U language rs = tokenize_value U rs"
        by (auto simp: tokenize_one_def split: if_splits option.splits)
      then have "tokenize_value U rs = (?t, ?rest)" by simp
      from tokenize_value_hd [OF False this] show ?thesis
        unfolding 2(1) using normalize_token_cases [OF ascii(1)] 2(2) by (cases ?t) auto
    qed
  qed (use 1(3) in \<open>simp add: tokenize.simps\<close>)
qed

text \<open>
  Fact. The tokens signatures are computed from are words of a small alphabet: whatever the
  code, each of them is a keyword of the language, an operator, one of the three placeholders, or one
  character that is neither a quote nor part of an identifier. No name, string or number of the code
  is left.
\<close>

theorem normalized_tokens_alphabet:
  assumes "list_all (in_range 0 127) raw" and "t \<in> set (NormalizeTokens U raw language)"
  shows "normal_token U language t"
proof -
  have "ascii_runes (runes raw)"
    using assms(1) by (auto simp: runes_ascii ascii_runes_def list_all_iff)
  then show ?thesis using assms(2) tokenize_normal by (auto simp: NormalizeTokens_def)
qed

section \<open>What can be told apart\<close>

definition no_tables :: unicode_tables where
  "no_tables = \<lparr>ut_letter = (\<lambda>_. False), ut_digit = (\<lambda>_. False)\<rparr>"

text \<open>
  Fact. In Python code the operator \<open>//\<close> is taken for a comment, so functions that
  differ in what they divide by have the same tokens and the same hash.
\<close>

theorem floor_division_is_comment:
  "NormalizeTokens no_tables ''return a // 2 + b'' ''python'' = NormalizeTokens no_tables ''return a'' ''python''"
  by code_simp

theorem normalized_tokens_alphabet_witness:
  "NormalizeTokens no_tables ''if x1 >= 0x1F: # big'' ''python'' = [''if'', ''$ID'', ''>='', ''$NUM'', '':''] \<and>
   normal_token no_tables ''python'' ''$NUM''"
proof -
  have ts: "NormalizeTokens no_tables ''if x1 >= 0x1F: # big'' ''python'' = [''if'', ''$ID'', ''>='', ''$NUM'', '':'']"
    by code_simp
  have "list_all (in_range 0 127) ''if x1 >= 0x1F: # big''" by code_simp
  then have "normal_token no_tables ''python'' ''$NUM''"
    by (rule normalized_tokens_alphabet) (simp add: ts)
  then show ?thesis using ts by blast
qed

end
