(* ===== verification/RepoIgnore.thy ===== *)
theory RepoIgnore
  imports GoLines
begin

text \<open>
  \<open>go/internal/repoignore/repair.go\<close>: the repair of the \<open>.gitignore\<close> of a repository, on its
  content; reading and writing the file is left to the caller.
\<close>

section \<open>Lines of .gitignore\<close>

definition RuntimePaths :: "string list" where
  "RuntimePaths =
     [''.claude/settings.local.json'', ''.coding-ethos/cache/'', ''.coding-ethos/code-intel-v2/'',
      ''.coding-ethos/code-intel.duckdb'', ''.coding-ethos/code-intel.duckdb.wal'',
      ''.coding-ethos/events/'', ''.coding-ethos/hook-runs/'', ''.coding-ethos/lint-runs/'',
      ''.coding-ethos/prune-runs/'', ''.coding-ethos/state/'', ''.gemini/settings.json'', ''.mcp.json'']"

definition section_header :: string where
  "section_header = ''# coding-ethos generated runtime output''"

definition normalize_gitignore_line :: "string \<Rightarrow> string" where
  "normalize_gitignore_line line =
     (let trimmed = trim_space line
      in if trimmed = [] \<or> has_prefix trimmed ''#'' \<or> has_prefix trimmed ''!'' then []
         else trim_prefix trimmed ''/'')"

definition blocked_memory_ignore :: "string \<Rightarrow> bool" where
  "blocked_memory_ignore normalized \<longleftrightarrow>
     normalized \<in> {''.coding-ethos'', ''.coding-ethos/'', ''**/.coding-ethos'', ''**/.coding-ethos/'',
       ''.coding-ethos/*'', ''.coding-ethos/**'', ''**/.coding-ethos/*'', ''**/.coding-ethos/**''}"

definition missing_runtime_ignores :: "string set \<Rightarrow> string list" where
  "missing_runtime_ignores present = filter (\<lambda>p. p \<notin> present) RuntimePaths"

section \<open>The repair\<close>

text \<open>The lines of the file, the last one without a line feed or not.\<close>

definition gitignore_lines :: "string \<Rightarrow> string list" where
  "gitignore_lines payload =
     (let lines = split_on CHR 0x0A (replace_all [CHR 0x0D, CHR 0x0A] [CHR 0x0A] payload)
      in if last lines = [] then butlast lines else lines)"

definition kept_lines :: "string list \<Rightarrow> string list" where
  "kept_lines lines = filter (\<lambda>l. \<not> blocked_memory_ignore (normalize_gitignore_line l)) lines"

definition present_entries :: "string list \<Rightarrow> string set" where
  "present_entries lines = set (filter (\<lambda>n. n \<noteq> []) (map normalize_gitignore_line lines))"

definition join_payload :: "string list \<Rightarrow> string" where
  "join_payload lines = str_join [CHR 0x0A] lines @ [CHR 0x0A]"

definition repaired_lines :: "string list \<Rightarrow> string list" where
  "repaired_lines lines =
     (let filtered = kept_lines lines;
          missing = missing_runtime_ignores (present_entries filtered)
      in if missing = [] then filtered
         else
           let spaced = (if filtered \<noteq> [] \<and> trim_space (last filtered) \<noteq> [] then filtered @ [[]] else filtered)
           in (if section_header \<in> set spaced then spaced else spaced @ [section_header]) @ missing)"

definition repair_gitignore_payload :: "string \<Rightarrow> string" where
  "repair_gitignore_payload payload = join_payload (repaired_lines (gitignore_lines payload))"

text \<open>\<open>ContainsPath\<close>, on the content that was read; \<open>None\<close> when reading failed.\<close>

definition trim_slashes :: "string \<Rightarrow> string" where
  "trim_slashes p = rev (dropWhile (\<lambda>c. c = CHR ''/'') (rev (dropWhile (\<lambda>c. c = CHR ''/'') p)))"

definition ContainsPath :: "string option \<Rightarrow> string \<Rightarrow> bool" where
  "ContainsPath payload path =
     (case payload of
        None \<Rightarrow> False
      | Some content \<Rightarrow>
          let normalized = trim_slashes path
          in list_ex (\<lambda>line.
               let entry = trim_slashes (trim_space line)
               in entry \<noteq> [] \<and> \<not> has_prefix entry ''#'' \<and>
                  (entry = normalized \<or> has_prefix (normalized @ ''/'') (entry @ ''/'')))
             (split_on CHR 0x0A content))"

section \<open>The repair repairs\<close>

lemma runtime_paths_normal:
  "p \<in> set RuntimePaths \<Longrightarrow> normalize_gitignore_line p = p \<and> p \<noteq> [] \<and> \<not> blocked_memory_ignore p"
proof -
  have "list_all (\<lambda>p. normalize_gitignore_line p = p \<and> p \<noteq> [] \<and> \<not> blocked_memory_ignore p) RuntimePaths"
    by code_simp
  then show "p \<in> set RuntimePaths \<Longrightarrow> normalize_gitignore_line p = p \<and> p \<noteq> [] \<and> \<not> blocked_memory_ignore p"
    by (simp add: list_all_iff)
qed

lemma header_normal: "normalize_gitignore_line section_header = []"
  by code_simp

lemma empty_normal [simp]: "normalize_gitignore_line [] = []" "\<not> blocked_memory_ignore []"
  by (simp_all add: normalize_gitignore_line_def blocked_memory_ignore_def)

definition repaired :: "string list \<Rightarrow> bool" where
  "repaired lines \<longleftrightarrow>
     (\<forall>l \<in> set lines. \<not> blocked_memory_ignore (normalize_gitignore_line l)) \<and>
     (\<forall>p \<in> set RuntimePaths. \<exists>l \<in> set lines. normalize_gitignore_line l = p)"

lemma repaired_fixed: "repaired lines \<Longrightarrow> repaired_lines lines = lines"
proof -
  assume r: "repaired lines"
  then have k: "kept_lines lines = lines" by (simp add: kept_lines_def repaired_def)
  have "p \<in> present_entries lines" if "p \<in> set RuntimePaths" for p
    using r that runtime_paths_normal [OF that] by (auto simp: repaired_def present_entries_def)
  then have "missing_runtime_ignores (present_entries lines) = []"
    by (simp add: missing_runtime_ignores_def filter_empty_conv)
  then show ?thesis by (simp add: repaired_lines_def k Let_def)
qed

lemma repaired_lines_repaired: "repaired (repaired_lines lines)"
proof -
  let ?f = "kept_lines lines" and ?m = "missing_runtime_ignores (present_entries (kept_lines lines))"
  have sup: "set ?f \<union> set ?m \<subseteq> set (repaired_lines lines)"
    and sub: "set (repaired_lines lines) \<subseteq> set ?f \<union> {[], section_header} \<union> set ?m"
    by (auto simp: repaired_lines_def Let_def split: if_splits)
  have m: "p \<in> set RuntimePaths" if "p \<in> set ?m" for p
    using that by (simp add: missing_runtime_ignores_def)
  have "\<not> blocked_memory_ignore (normalize_gitignore_line l)" if l: "l \<in> set (repaired_lines lines)" for l
  proof -
    consider "l \<in> set ?f" | "l = []" | "l = section_header" | "l \<in> set ?m" using l sub by blast
    then show ?thesis
    proof cases
      case 4
      then show ?thesis using runtime_paths_normal [OF m] by simp
    qed (simp_all add: kept_lines_def header_normal)
  qed
  moreover have "\<exists>l \<in> set (repaired_lines lines). normalize_gitignore_line l = p"
    if p: "p \<in> set RuntimePaths" for p
  proof (cases "p \<in> present_entries ?f")
    case True
    then show ?thesis using sup by (auto simp: present_entries_def)
  next
    case False
    then have "p \<in> set ?m" using p by (simp add: missing_runtime_ignores_def)
    then show ?thesis using sup runtime_paths_normal [OF p] by blast
  qed
  ultimately show ?thesis by (simp add: repaired_def)
qed

lemma no_crlf_replace: "CHR 0x0D \<notin> set s \<Longrightarrow> replace_all [CHR 0x0D, CHR 0x0A] new s = s"
proof -
  assume "CHR 0x0D \<notin> set s"
  then have "\<not> str_contains s [CHR 0x0D, CHR 0x0A]" by (auto simp: str_contains_iff)
  then show ?thesis by (simp add: replace_all.simps str_contains_def)
qed

lemma repaired_lines_prefix: "prefix (kept_lines lines) (repaired_lines lines)"
  by (auto simp: repaired_lines_def Let_def)

lemma gitignore_lines_join:
  assumes "lines \<noteq> []" and "\<forall>l \<in> set lines. CHR 0x0A \<notin> set l \<and> CHR 0x0D \<notin> set l"
  shows "gitignore_lines (join_payload lines) = lines"
proof -
  have "CHR 0x0D \<notin> set (str_join [CHR 0x0A] ls)" if "\<forall>l \<in> set ls. CHR 0x0D \<notin> set l" for ls
    using that by (induction "[CHR 0x0A :: char]" ls rule: str_join.induct) auto
  then have "CHR 0x0D \<notin> set (join_payload lines)" using assms(2) by (simp add: join_payload_def)
  moreover have "split_on CHR 0x0A (join_payload lines) = lines @ [[]]"
    using split_on_append [of "CHR 0x0A" "str_join [CHR 0x0A] lines" "[]"] split_join_on [of lines "CHR 0x0A"] assms
    by (simp add: join_payload_def)
  ultimately show ?thesis by (simp add: gitignore_lines_def no_crlf_replace)
qed

definition plain_lines :: "string \<Rightarrow> bool" where
  "plain_lines payload \<longleftrightarrow> CHR 0x0D \<notin> set (replace_all [CHR 0x0D, CHR 0x0A] [CHR 0x0A] payload)"

lemma str_join_superset: "w \<in> set ws \<Longrightarrow> set w \<subseteq> set (str_join sep ws)"
  by (induction sep ws rule: str_join.induct) auto

lemma gitignore_lines_plain:
  assumes "plain_lines payload" and "l \<in> set (gitignore_lines payload)"
  shows "CHR 0x0A \<notin> set l" "CHR 0x0D \<notin> set l"
proof -
  let ?s = "replace_all [CHR 0x0D, CHR 0x0A] [CHR 0x0A] payload"
  have l: "l \<in> set (split_on CHR 0x0A ?s)"
    using assms(2) by (auto simp: gitignore_lines_def Let_def dest: in_set_butlastD split: if_splits)
  then show "CHR 0x0A \<notin> set l" by (rule split_on_parts)
  have "set l \<subseteq> set ?s" if "l \<in> set (split_on d s)" "s = ?s" for d s
    using str_join_superset [OF that(1), of "[d]"] that(2) by simp
  then show "CHR 0x0D \<notin> set l" using l assms(1) by (auto simp: plain_lines_def)
qed

text \<open>
  Fact. The repair of a \<open>.gitignore\<close> repairs it and then leaves it alone: afterwards no entry
  hides the whole directory of the project, every generated path is ignored, the other lines stand
  as before in front of what was added, and a second repair changes nothing. Carriage returns may
  only stand at the ends of lines.
\<close>

theorem repair_settles:
  assumes "plain_lines payload"
  shows "repaired (gitignore_lines (repair_gitignore_payload payload)) \<and>
    prefix (kept_lines (gitignore_lines payload)) (gitignore_lines (repair_gitignore_payload payload)) \<and>
    repair_gitignore_payload (repair_gitignore_payload payload) = repair_gitignore_payload payload"
proof -
  let ?lines = "gitignore_lines payload"
  let ?new = "repaired_lines ?lines"
  have r: "repaired ?new" by (rule repaired_lines_repaired)
  then have ne: "?new \<noteq> []" by (auto simp: repaired_def RuntimePaths_def)
  have added: "CHR 0x0A \<notin> set l \<and> CHR 0x0D \<notin> set l" if "l \<in> set ([] # section_header # RuntimePaths)" for l
  proof -
    have "list_all (\<lambda>l. CHR 0x0A \<notin> set l \<and> CHR 0x0D \<notin> set l) ([] # section_header # RuntimePaths)"
      by code_simp
    then show ?thesis using that unfolding list_all_iff by blast
  qed
  have "set ?new \<subseteq> set ?lines \<union> set ([] # section_header # RuntimePaths)"
    by (auto simp: repaired_lines_def kept_lines_def missing_runtime_ignores_def Let_def split: if_splits)
  then have "\<forall>l \<in> set ?new. CHR 0x0A \<notin> set l \<and> CHR 0x0D \<notin> set l"
    using gitignore_lines_plain [OF assms] added by blast
  then have new: "gitignore_lines (repair_gitignore_payload payload) = ?new"
    unfolding repair_gitignore_payload_def by (rule gitignore_lines_join [OF ne])
  then have "repair_gitignore_payload (repair_gitignore_payload payload) = join_payload (repaired_lines ?new)"
    unfolding repair_gitignore_payload_def by simp
  then show ?thesis
    using new r repaired_lines_prefix repaired_fixed [OF r] by (simp add: repair_gitignore_payload_def)
qed

definition sample_gitignore :: string where
  "sample_gitignore = ''.coding-ethos/'' @ [CHR 0x0D, CHR 0x0A] @ ''*.log'' @ [CHR 0x0A]"

theorem repair_settles_witness:
  "repair_gitignore_payload sample_gitignore \<noteq> sample_gitignore \<and>
   repair_gitignore_payload (repair_gitignore_payload sample_gitignore) = repair_gitignore_payload sample_gitignore"
proof -
  have "plain_lines sample_gitignore" by code_simp
  moreover have "repair_gitignore_payload sample_gitignore \<noteq> sample_gitignore" by code_simp
  ultimately show ?thesis using repair_settles by blast
qed

end
