(* ===== verification/ExecGuard.thy ===== *)
theory ExecGuard
  imports GoLines CommitMessage
begin

text \<open>
  \<open>go/internal/execguard/guard.go\<close>: the guard against programs of the project that start each other
  without end. The names of the programs that were entered are kept in an environment variable,
  which a process hands on to its children.
\<close>

section \<open>The stack of entered programs\<close>

abbreviation "max_stack_entries \<equiv> (32 :: nat)"





section \<open>The guard ends every chain\<close>











end
