(* ===== verification/Feedback.thy ===== *)
theory Feedback
  imports GoLines Diagnostics
begin

text \<open>
  \<open>go/internal/feedback/feedback.go\<close>: the payloads the programs report with and the formats they are
  rendered in. Rows are written in cells that escape what separates them; the indented JSON encoder
  is an argument.
\<close>

section \<open>Payloads\<close>

record scalar =
  sc_key :: string
  sc_value :: string

record feedback_table =
  ft_name :: string
  ft_columns :: "string list"
  ft_rows :: "string list list"

record feedback_message =
  fm_scalars :: "scalar list"
  fm_tables :: "feedback_table list"

datatype payload = Text string | Error string | Message feedback_message

datatype feedback_value = FString string | FRows "(string \<times> string) list list" | FCount nat

record sarif_rule =
  srl_id :: string
  srl_name :: string
  srl_short_description :: string

record sarif_result =
  srs_rule_id :: string
  srs_level :: string
  srs_message :: string

record sarif_run =
  srn_driver_name :: string
  srn_rules :: "sarif_rule list"
  srn_results :: "sarif_result list"

record sarif_log =
  sl_version :: string
  sl_schema :: string
  sl_runs :: "sarif_run list"

section \<open>Cells and tables\<close>

text \<open>A replacer of single bytes looks at every byte once.\<close>

definition cell_byte :: "char \<Rightarrow> string" where
  "cell_byte c =
     (if c = CHR 0x5C then [CHR 0x5C, CHR 0x5C]
      else if c = CHR 0x0A then CHR 0x5C # ''n''
      else if c = CHR 0x0D then CHR 0x5C # ''r''
      else if c = CHR '','' then CHR 0x5C # '',''
      else [c])"

definition Cell :: "string \<Rightarrow> string" where
  "Cell v = concat (map cell_byte v)"

definition cell_row :: "string list \<Rightarrow> string" where
  "cell_row row = str_join '','' (map Cell row)"

definition table_header :: "feedback_table \<Rightarrow> string" where
  "table_header t =
     (let columns0 = cell_row (ft_columns t);
          columns = (if columns0 = [] then ''value'' else columns0)
      in ft_name t @ ''['' @ itoa (int (length (ft_rows t))) @ '']{'' @ columns @ ''}:'')"

definition column_key :: "string list \<Rightarrow> nat \<Rightarrow> string" where
  "column_key columns i =
     (if i < length columns \<and> columns ! i \<noteq> [] then columns ! i else ''column_'' @ itoa (int i + 1))"

definition table_rows :: "feedback_table \<Rightarrow> (string \<times> string) list list" where
  "table_rows t =
     map (\<lambda>row. foldl (\<lambda>m (i, v). map_set (column_key (ft_columns t) i) v m) [] (enumerate 0 row)) (ft_rows t)"

definition scalar_value :: "scalar list \<Rightarrow> string \<Rightarrow> string" where
  "scalar_value scalars key =
     (case List.find (\<lambda>s. sc_key s = key) scalars of None \<Rightarrow> [] | Some s \<Rightarrow> sc_value s)"

definition human_label :: "string \<Rightarrow> string" where
  "human_label key = replace_all ''_'' '' '' key"

section \<open>Messages\<close>

definition named_scalars :: "feedback_message \<Rightarrow> scalar list" where
  "named_scalars m = filter (\<lambda>s. trim_space (sc_key s) \<noteq> []) (fm_scalars m)"

definition named_tables :: "feedback_message \<Rightarrow> feedback_table list" where
  "named_tables m = filter (\<lambda>t. trim_space (ft_name t) \<noteq> []) (fm_tables m)"

definition message_json :: "feedback_message \<Rightarrow> (string \<times> feedback_value) list" where
  "message_json m =
     foldl (\<lambda>v t. map_set (ft_name t) (FRows (table_rows t)) v)
       (foldl (\<lambda>v s. map_set (sc_key s) (FString (sc_value s)) v) [] (named_scalars m)) (named_tables m)"

definition message_log_fields :: "feedback_message \<Rightarrow> (string \<times> feedback_value) list" where
  "message_log_fields m =
     foldl (\<lambda>v t. map_set (ft_name t @ ''_count'') (FCount (length (ft_rows t))) v)
       (foldl (\<lambda>v s. map_set (sc_key s) (FString (sc_value s)) v) [] (named_scalars m)) (named_tables m)"

definition message_toon_lines :: "feedback_message \<Rightarrow> string list" where
  "message_toon_lines m =
     map (\<lambda>s. sc_key s @ '': '' @ Cell (sc_value s)) (named_scalars m) @
     concat (map (\<lambda>t. table_header t # map (\<lambda>row. ''  '' @ cell_row row) (ft_rows t)) (named_tables m))"

definition message_toon :: "feedback_message \<Rightarrow> string" where
  "message_toon m = str_join [CHR 0x0A] (message_toon_lines m)"

definition message_human :: "feedback_message \<Rightarrow> string" where
  "message_human m = str_join [CHR 0x0A]
     (map (\<lambda>s. human_label (sc_key s) @ '': '' @ sc_value s) (named_scalars m) @
      concat (map (\<lambda>t. (human_label (ft_name t) @ '':'') #
        map (\<lambda>row. ''  - '' @ str_join '', '' row) (ft_rows t)) (named_tables m)))"

definition sarif_level :: "string \<Rightarrow> string" where
  "sarif_level v =
     (let level = to_lower (trim_space v)
      in if level \<in> {''fatal'', ''fail'', ''failed'', ''error'', ''blocked'', ''denied''} then ''error''
         else if level \<in> {''warn'', ''warning''} then ''warning''
         else ''note'')"

definition sarif_log_of :: "string \<Rightarrow> string \<Rightarrow> string \<Rightarrow> string \<Rightarrow> sarif_log" where
  "sarif_log_of rule_id summary level txt1 =
     \<lparr>sl_version = ''2.1.0'', sl_schema = ''https://json.schemastore.org/sarif-2.1.0.json'',
      sl_runs = [\<lparr>srn_driver_name = ''coding-ethos'',
        srn_rules = [\<lparr>srl_id = rule_id, srl_name = rule_id, srl_short_description = summary\<rparr>],
        srn_results = [\<lparr>srs_rule_id = rule_id, srs_level = level, srs_message = txt1\<rparr>]\<rparr>]\<rparr>"

definition message_sarif_log :: "string \<Rightarrow> string \<Rightarrow> sarif_log" where
  "message_sarif_log rule_id txt1 = sarif_log_of rule_id txt1 ''note'' txt1"

definition message_sarif :: "feedback_message \<Rightarrow> sarif_log" where
  "message_sarif m =
     (let rule0 = scalar_value (fm_scalars m) ''rule_id'';
          rule_id = (if rule0 = [] then ''coding-ethos.feedback'' else rule0);
          severity = scalar_value (fm_scalars m) ''severity'';
          level = (if severity = [] then scalar_value (fm_scalars m) ''status'' else severity)
      in sarif_log_of rule_id (scalar_value (fm_scalars m) ''summary'') (sarif_level level) (message_human m))"

section \<open>Rendering\<close>

fun MarshalFeedbackJSON :: "payload \<Rightarrow> (string \<times> feedback_value) list" where
  "MarshalFeedbackJSON (Text t) = [(''text'', FString t)]"
| "MarshalFeedbackJSON (Error e) = [(''error'', FString e)]"
| "MarshalFeedbackJSON (Message m) = message_json m"

fun MarshalFeedbackTOON :: "payload \<Rightarrow> string" where
  "MarshalFeedbackTOON (Text t) = t"
| "MarshalFeedbackTOON (Error e) = ''error: '' @ Cell e"
| "MarshalFeedbackTOON (Message m) = message_toon m"

fun MarshalFeedbackHuman :: "payload \<Rightarrow> string" where
  "MarshalFeedbackHuman (Text t) = t"
| "MarshalFeedbackHuman (Error e) = ''Error: '' @ e"
| "MarshalFeedbackHuman (Message m) = message_human m"

fun MarshalFeedbackSARIF :: "payload \<Rightarrow> sarif_log" where
  "MarshalFeedbackSARIF (Text t) = message_sarif_log ''feedback.text'' t"
| "MarshalFeedbackSARIF (Error e) = message_sarif_log ''feedback.error'' e"
| "MarshalFeedbackSARIF (Message m) = message_sarif m"

fun FeedbackLogFields :: "payload \<Rightarrow> (string \<times> feedback_value) list" where
  "FeedbackLogFields (Text t) = [(''text'', FString t)]"
| "FeedbackLogFields (Error e) = [(''error'', FString e)]"
| "FeedbackLogFields (Message m) = message_log_fields m"

datatype render_error = UnsupportedFeedbackFormat string | EncodeFails

datatype json_document = FeedbackObject "(string \<times> feedback_value) list" | FeedbackSARIF sarif_log

definition marshal_indented :: "(json_document \<Rightarrow> string option) \<Rightarrow> json_document \<Rightarrow> render_error + string" where
  "marshal_indented encode v =
     (case encode v of None \<Rightarrow> Inl EncodeFails | Some s \<Rightarrow> Inr (trim_suffix s [CHR 0x0A]))"

definition Render :: "(json_document \<Rightarrow> string option) \<Rightarrow> payload \<Rightarrow> string \<Rightarrow> render_error + string" where
  "Render encode p format =
     (let f = to_lower (trim_space format)
      in if f = ''json'' then marshal_indented encode (FeedbackObject (MarshalFeedbackJSON p))
         else if f = ''sarif'' then marshal_indented encode (FeedbackSARIF (MarshalFeedbackSARIF p))
         else if f = [] \<or> f = ''toon'' then Inr (MarshalFeedbackTOON p)
         else if f = ''human'' then Inr (MarshalFeedbackHuman p)
         else Inl (UnsupportedFeedbackFormat format))"

section \<open>A row can be read back\<close>

definition unescape_byte :: "char \<Rightarrow> char" where
  "unescape_byte c = (if c = CHR ''n'' then CHR 0x0A else if c = CHR ''r'' then CHR 0x0D else c)"

definition push_byte :: "char \<Rightarrow> string list \<Rightarrow> string list" where
  "push_byte c cells = (c # hd cells) # tl cells"

fun parse_cells :: "string \<Rightarrow> string list" where
  "parse_cells [] = [[]]"
| "parse_cells [c] = (if c = CHR '','' then [[], []] else [[c]])"
| "parse_cells (c # d # s) =
     (if c = CHR '','' then [] # parse_cells (d # s)
      else if c = CHR 0x5C then push_byte (unescape_byte d) (parse_cells s)
      else push_byte c (parse_cells (d # s)))"

lemma Cell_simps [simp]: "Cell [] = []" "Cell (c # v) = cell_byte c @ Cell v"
  by (simp_all add: Cell_def)

lemma parse_cells_comma: "parse_cells (CHR '','' # s) = [] # parse_cells s"
  by (cases s) simp_all

lemma parse_cells_not_Nil: "parse_cells s \<noteq> []"
  by (induction s rule: parse_cells.induct) (simp_all add: push_byte_def)

lemma parse_cells_plain:
  "c \<noteq> CHR '','' \<Longrightarrow> c \<noteq> CHR 0x5C \<Longrightarrow> parse_cells (c # s) = push_byte c (parse_cells s)"
  by (cases s) (simp_all add: push_byte_def)

lemma parse_cells_byte: "parse_cells (cell_byte c @ s) = push_byte c (parse_cells s)"
  by (simp add: cell_byte_def unescape_byte_def parse_cells_plain)

lemma parse_cells_Cell:
  "parse_cells (Cell v @ s) = (v @ hd (parse_cells s)) # tl (parse_cells s)"
  by (induction v) (simp_all add: parse_cells_byte push_byte_def parse_cells_not_Nil)

lemma parse_cell_row: "row \<noteq> [] \<Longrightarrow> parse_cells (cell_row row) = row"
proof (induction row rule: induct_list012)
  case (2 v)
  then show ?case using parse_cells_Cell [of v "[]"] by (simp add: cell_row_def)
next
  case (3 v w row)
  then show ?case
    using parse_cells_Cell [of v "CHR '','' # cell_row (w # row)"]
    by (simp add: cell_row_def parse_cells_comma)
qed simp

text \<open>Property C39. The cells of a row are escaped so that nothing is lost: a reader that splits a row
  at its unescaped commas and undoes the escapes gets the values back, whatever bytes they hold, so
  two different rows are never written the same way; and the written row is free of line ends.\<close>

theorem row_round_trip:
  assumes "row \<noteq> []"
  shows "parse_cells (cell_row row) = row \<and>
    (\<forall>row'. row' \<noteq> [] \<longrightarrow> cell_row row' = cell_row row \<longrightarrow> row' = row)"
proof -
  have "row' = row" if "row' \<noteq> []" "cell_row row' = cell_row row" for row'
    using parse_cell_row [OF assms] parse_cell_row [OF that(1)] that(2) by simp
  then show ?thesis using parse_cell_row [OF assms] by blast
qed

theorem row_round_trip_witness:
  "parse_cells (cell_row [''a,b'', [CHR 0x5C], [CHR 0x0A], []]) = [''a,b'', [CHR 0x5C], [CHR 0x0A], []]"
  using row_round_trip [of "[''a,b'', [CHR 0x5C], [CHR 0x0A], []]"] by simp

section \<open>A message keeps its lines\<close>

lemma Cell_line_free: "CHR 0x0A \<notin> set (Cell v) \<and> CHR 0x0D \<notin> set (Cell v)"
  by (induction v) (auto simp: cell_byte_def)

lemma str_join_set: "set (str_join sep ws) \<subseteq> set sep \<union> (\<Union>w \<in> set ws. set w)"
  by (induction sep ws rule: str_join.induct) auto

lemma cell_row_line_free: "CHR 0x0A \<notin> set (cell_row row)"
  using str_join_set [of "'',''" "map Cell row"] Cell_line_free by (fastforce simp: cell_row_def)

lemma table_header_line_free: "CHR 0x0A \<notin> set (ft_name t) \<Longrightarrow> CHR 0x0A \<notin> set (table_header t)"
  using cell_row_line_free [of "ft_columns t"] by (simp add: table_header_def Let_def itoa_no_newline)

text \<open>Fact. No value of a message can forge a line of the report: as long as the keys and the
  table names are free of line ends, the lines of the rendered text are the fields and rows the
  message was built from, one each and in order, whatever the values and cells hold.\<close>

theorem message_lines_kept:
  assumes "\<forall>s \<in> set (fm_scalars m). CHR 0x0A \<notin> set (sc_key s)"
    and "\<forall>t \<in> set (fm_tables m). CHR 0x0A \<notin> set (ft_name t)"
    and "message_toon_lines m \<noteq> []"
  shows "split_on CHR 0x0A (message_toon m) = message_toon_lines m"
proof -
  have "CHR 0x0A \<notin> set w" if w: "w \<in> set (message_toon_lines m)" for w
    using w assms Cell_line_free cell_row_line_free table_header_line_free
    by (auto simp: message_toon_lines_def named_scalars_def named_tables_def)
  then show ?thesis using assms(3) unfolding message_toon_def by (intro split_join_on) auto
qed

end
