(* ===== verification/SyncState.thy ===== *)
theory SyncState
  imports PathRel Feedback
begin

text \<open>
  \<open>go/internal/syncstate/state.go\<close>: the record of what an installation has written into a repository,
  and the reports that compare it with the files. The file system is a map from clean paths to
  contents; the hash, the JSON codec of the record and what is read of the version and the commit
  are arguments.
\<close>

section \<open>Data\<close>

record source_hash =
  sh_path :: string
  sh_sha256 :: string

record provider_target =
  pt_provider :: string
  pt_root :: string

record artifact =
  af_path :: string
  af_provider :: string
  af_surface :: string
  af_ownership :: string
  af_expected_sha256 :: string
  af_verification_command :: string
  af_last_written_utc :: string

record sync_state =
  ss_target_repo_root :: string
  ss_requested_action :: string
  ss_runtime_version :: string
  ss_runtime_commit :: string
  ss_last_validation_utc :: string
  ss_source_hashes :: "source_hash list"
  ss_provider_targets :: "provider_target list"
  ss_artifacts :: "artifact list"
  ss_schema_version :: nat

record artifact_input =
  ai_relative_path :: string
  ai_content :: string
  ai_provider :: string
  ai_surface :: string
  ai_ownership :: string
  ai_verification_command :: string

record artifact_report =
  ar_artifact :: artifact
  ar_status :: string
  ar_plan :: string
  ar_actual_sha256 :: string

record source_report =
  sr_source :: source_hash
  sr_status :: string
  sr_actual_sha256 :: string

record sync_report =
  rp_tool :: string
  rp_status :: string
  rp_state_path :: string
  rp_target_repo_root :: string
  rp_requested_action :: string
  rp_runtime_version :: string
  rp_runtime_commit :: string
  rp_last_validation_utc :: string
  rp_provider_targets :: "provider_target list"
  rp_artifacts :: "artifact_report list"
  rp_sources :: "source_report list"
  rp_planned_write_count :: nat

type_synonym sync_files = "string \<rightharpoonup> string"

datatype sync_error = ReadState string | ParseState string | WriteState string | ArtifactOutsideRepo string

record sync_env =
  sy_hash_bytes :: "string \<Rightarrow> string"
  sy_encode :: "sync_state \<Rightarrow> string"
  sy_decode :: "string \<Rightarrow> sync_state option"
  sy_read_error :: "string \<Rightarrow> bool"   \<comment> \<open>an error other than a missing file\<close>
  sy_write_error :: "string \<Rightarrow> bool"
  sy_commit :: "string \<Rightarrow> string"

section \<open>Hashes and paths\<close>

definition file_sha256 :: "sync_env \<Rightarrow> sync_files \<Rightarrow> string \<Rightarrow> string option" where
  "file_sha256 E fs path =
     (if sy_read_error E (path_clean path) then None
      else map_option (sy_hash_bytes E) (fs (path_clean path)))"

definition path_escapes_root :: "string \<Rightarrow> bool" where
  "path_escapes_root p \<longleftrightarrow> p = ''..'' \<or> has_prefix p ''../''"

definition repo_relative_path :: "string \<Rightarrow> string \<Rightarrow> sync_error + string" where
  "repo_relative_path repo_root path =
     (let cleaned0 = path_clean path; root = path_clean repo_root;
          cleaned = (if path_is_abs cleaned0 then cleaned0 else path_join [root, cleaned0])
      in case path_rel root cleaned of
           None \<Rightarrow> Inl (ArtifactOutsideRepo path)
         | Some relative \<Rightarrow>
             if path_escapes_root relative then Inl (ArtifactOutsideRepo path) else Inr relative)"

definition state_file_path :: "string \<Rightarrow> string" where
  "state_file_path repo_root = path_join [path_clean repo_root, ''.coding-ethos/state/install-sync.json'']"

text \<open>
  Sorting by two keys: both sorts are stable, so the second one is the first key.
\<close>

definition sort_artifacts :: "artifact list \<Rightarrow> artifact list" where
  "sort_artifacts xs = sort_key af_provider (sort_key af_path xs)"

fun artifacts_of :: "sync_env \<Rightarrow> string \<Rightarrow> artifact_input list \<Rightarrow> sync_error + artifact list" where
  "artifacts_of E repo_root [] = Inr []"
| "artifacts_of E repo_root (i # is) =
     (case repo_relative_path repo_root (ai_relative_path i) of
        Inl err \<Rightarrow> Inl err
      | Inr relative \<Rightarrow>
          (case artifacts_of E repo_root is of
             Inl err \<Rightarrow> Inl err
           | Inr rest \<Rightarrow>
               let ownership = trim_space (ai_ownership i)
               in Inr (\<lparr>af_path = relative, af_provider = trim_space (ai_provider i),
                        af_surface = trim_space (ai_surface i),
                        af_ownership = (if ownership = [] then ''coding-ethos-managed'' else ownership),
                        af_expected_sha256 = sy_hash_bytes E (ai_content i),
                        af_verification_command = trim_space (ai_verification_command i),
                        af_last_written_utc = []\<rparr> # rest)))"

definition Artifacts :: "sync_env \<Rightarrow> string \<Rightarrow> artifact_input list \<Rightarrow> sync_error + artifact list" where
  "Artifacts E repo_root inputs = map_sum id sort_artifacts (artifacts_of E repo_root inputs)"

section \<open>Merging\<close>

text \<open>The entries of a Go map that is filled from both lists, by key; the order does not matter.\<close>

definition merged_entries :: "('a \<Rightarrow> 'k) \<Rightarrow> 'a list \<Rightarrow> 'a list \<Rightarrow> 'a list" where
  "merged_entries key existing incoming =
     map snd (foldl (\<lambda>m x. map_set (key x) x m) [] (existing @ incoming))"

definition merge_sources :: "source_hash list \<Rightarrow> source_hash list \<Rightarrow> source_hash list" where
  "merge_sources existing incoming = sort_key sh_path (merged_entries sh_path existing incoming)"

definition merge_provider_targets :: "provider_target list \<Rightarrow> provider_target list \<Rightarrow> provider_target list" where
  "merge_provider_targets existing incoming =
     sort_key pt_provider (sort_key pt_root
       (merged_entries (\<lambda>t. pt_provider t @ CHR 0x00 # pt_root t) existing incoming))"

definition artifact_key :: "artifact \<Rightarrow> string" where
  "artifact_key a = af_provider a @ CHR 0x00 # af_path a"

definition merge_artifacts :: "artifact list \<Rightarrow> artifact list \<Rightarrow> artifact list" where
  "merge_artifacts existing incoming = sort_artifacts (merged_entries artifact_key existing incoming)"

definition timestamp_artifacts :: "artifact list \<Rightarrow> string \<Rightarrow> artifact list" where
  "timestamp_artifacts xs now = map (\<lambda>a. a\<lparr>af_last_written_utc := now\<rparr>) xs"

definition normalized_provider_targets :: "string \<Rightarrow> provider_target list \<Rightarrow> provider_target list" where
  "normalized_provider_targets repo_root targets =
     map (\<lambda>t. let root = trim_space (pt_root t)
              in \<lparr>pt_provider = trim_space (pt_provider t),
                  pt_root = path_clean (if root = [] then repo_root else root)\<rparr>) targets"

definition hash_sources :: "sync_env \<Rightarrow> sync_files \<Rightarrow> string list \<Rightarrow> source_hash list" where
  "hash_sources E fs paths =
     sort_key sh_path
       (List.map_filter (\<lambda>p.
          let cleaned = path_clean p
          in if trim_space cleaned = [] \<or> cleaned = ''.'' then None
             else map_option (\<lambda>sum. \<lparr>sh_path = cleaned, sh_sha256 = sum\<rparr>) (file_sha256 E fs cleaned)) paths)"

section \<open>The version\<close>

fun version_line :: "bool \<Rightarrow> string list \<Rightarrow> string" where
  "version_line in_project [] = []"
| "version_line in_project (line # lines) =
     (let trimmed = trim_space line
      in if trimmed = ''[project]'' then version_line True lines
         else if has_prefix trimmed ''['' then version_line False lines
         else if \<not> in_project then version_line in_project lines
         else if \<not> has_prefix trimmed ''version = '' then version_line in_project lines
         else rev (dropWhile (\<lambda>c. c = CHR 0x22) (rev
                (dropWhile (\<lambda>c. c = CHR 0x22) (trim_prefix trimmed ''version = '')))))"

definition runtime_version :: "sync_env \<Rightarrow> sync_files \<Rightarrow> string \<Rightarrow> string" where
  "runtime_version E fs ethos_root =
     (let path = path_join [ethos_root, ''pyproject.toml'']
      in if sy_read_error E path then []
         else case fs path of None \<Rightarrow> [] | Some payload \<Rightarrow> version_line False (split_on CHR 0x0A payload))"

section \<open>Reading and updating the record\<close>

datatype state_read = StateMissing | StateFails | StateInvalid | StateRead sync_state

definition read_state_file :: "sync_env \<Rightarrow> sync_files \<Rightarrow> string \<Rightarrow> state_read" where
  "read_state_file E fs path =
     (if sy_read_error E (path_clean path) then StateFails
      else case fs (path_clean path) of
             None \<Rightarrow> StateMissing
           | Some payload \<Rightarrow> (case sy_decode E payload of None \<Rightarrow> StateInvalid | Some s \<Rightarrow> StateRead s))"

definition empty_state :: sync_state where
  "empty_state =
     \<lparr>ss_target_repo_root = [], ss_requested_action = [], ss_runtime_version = [], ss_runtime_commit = [],
      ss_last_validation_utc = [], ss_source_hashes = [], ss_provider_targets = [], ss_artifacts = [],
      ss_schema_version = 1\<rparr>"

record upsert_options =
  uo_now :: string
  uo_repo_root :: string
  uo_ethos_root :: string
  uo_requested_action :: string
  uo_source_paths :: "string list"
  uo_provider_targets :: "provider_target list"
  uo_artifacts :: "artifact list"

definition updated_state :: "sync_env \<Rightarrow> sync_files \<Rightarrow> upsert_options \<Rightarrow> sync_state \<Rightarrow> sync_state" where
  "updated_state E fs o1 s =
     \<lparr>ss_target_repo_root = path_clean (uo_repo_root o1),
      ss_requested_action = trim_space (uo_requested_action o1),
      ss_runtime_version = runtime_version E fs (uo_ethos_root o1),
      ss_runtime_commit = sy_commit E (uo_ethos_root o1),
      ss_last_validation_utc = uo_now o1,
      ss_source_hashes = merge_sources (ss_source_hashes s) (hash_sources E fs (uo_source_paths o1)),
      ss_provider_targets = merge_provider_targets (ss_provider_targets s)
        (normalized_provider_targets (uo_repo_root o1) (uo_provider_targets o1)),
      ss_artifacts = merge_artifacts (ss_artifacts s) (timestamp_artifacts (uo_artifacts o1) (uo_now o1)),
      ss_schema_version = 1\<rparr>"

definition Upsert :: "sync_env \<Rightarrow> sync_files \<Rightarrow> upsert_options \<Rightarrow> sync_files \<times> (sync_error + sync_state)" where
  "Upsert E fs o1 =
     (let path = state_file_path (uo_repo_root o1);
          write_state = (\<lambda>s. let s' = updated_state E fs o1 s
            in if sy_write_error E path then (fs, Inl (WriteState path))
               else (fs(path_clean path \<mapsto> sy_encode E s' @ [CHR 0x0A]), Inr s'))
      in case read_state_file E fs path of
           StateFails \<Rightarrow> (fs, Inl (ReadState path))
         | StateRead s \<Rightarrow> write_state s
         | _ \<Rightarrow> write_state empty_state)"

section \<open>Reports\<close>

definition artifact_report_of :: "sync_env \<Rightarrow> sync_files \<Rightarrow> string \<Rightarrow> bool \<Rightarrow> artifact \<Rightarrow> artifact_report" where
  "artifact_report_of E fs repo_root dry_run a =
     (case file_sha256 E fs (path_join [repo_root, af_path a]) of
        None \<Rightarrow> \<lparr>ar_artifact = a, ar_status = ''missing'', ar_plan = ''write'', ar_actual_sha256 = []\<rparr>
      | Some actual \<Rightarrow>
          if actual = af_expected_sha256 a
          then \<lparr>ar_artifact = a, ar_status = ''unchanged'', ar_plan = ''none'', ar_actual_sha256 = actual\<rparr>
          else if dry_run
          then \<lparr>ar_artifact = a, ar_status = ''would_update'', ar_plan = ''write'', ar_actual_sha256 = actual\<rparr>
          else \<lparr>ar_artifact = a, ar_status = ''drifted'', ar_plan = ''repair'', ar_actual_sha256 = actual\<rparr>)"

definition artifact_reports ::
  "sync_env \<Rightarrow> sync_files \<Rightarrow> string \<Rightarrow> artifact list \<Rightarrow> bool \<Rightarrow> artifact_report list" where
  "artifact_reports E fs repo_root xs dry_run =
     sort_key (\<lambda>r. af_path (ar_artifact r)) (map (artifact_report_of E fs repo_root dry_run) xs)"

definition source_report_of :: "sync_env \<Rightarrow> sync_files \<Rightarrow> source_hash \<Rightarrow> source_report" where
  "source_report_of E fs s =
     (case file_sha256 E fs (sh_path s) of
        None \<Rightarrow> \<lparr>sr_source = s, sr_status = ''missing'', sr_actual_sha256 = []\<rparr>
      | Some actual \<Rightarrow>
          \<lparr>sr_source = s, sr_status = (if actual = sh_sha256 s then ''current'' else ''stale''),
           sr_actual_sha256 = actual\<rparr>)"

definition source_reports :: "sync_env \<Rightarrow> sync_files \<Rightarrow> source_hash list \<Rightarrow> source_report list" where
  "source_reports E fs xs = sort_key (\<lambda>r. sh_path (sr_source r)) (map (source_report_of E fs) xs)"

definition planned_write_count :: "artifact_report list \<Rightarrow> nat" where
  "planned_write_count rs = length (filter (\<lambda>r. ar_plan r = ''write'' \<or> ar_plan r = ''repair'') rs)"

definition doctor_status :: "source_report list \<Rightarrow> artifact_report list \<Rightarrow> string" where
  "doctor_status sources artifacts =
     (if list_ex (\<lambda>s. sr_status s \<noteq> ''current'') sources then ''fail''
      else if list_ex (\<lambda>a. ar_status a \<noteq> ''unchanged'') artifacts then ''fail'' else ''pass'')"

definition base_report :: "string \<Rightarrow> string \<Rightarrow> sync_report" where
  "base_report tool repo_root =
     \<lparr>rp_tool = tool, rp_status = [], rp_state_path = state_file_path repo_root,
      rp_target_repo_root = path_clean repo_root, rp_requested_action = [], rp_runtime_version = [],
      rp_runtime_commit = [], rp_last_validation_utc = [], rp_provider_targets = [], rp_artifacts = [],
      rp_sources = [], rp_planned_write_count = 0\<rparr>"

definition report_from_state :: "string \<Rightarrow> string \<Rightarrow> sync_state \<Rightarrow> sync_report" where
  "report_from_state tool repo_root s =
     (base_report tool repo_root)
       \<lparr>rp_requested_action := ss_requested_action s, rp_runtime_version := ss_runtime_version s,
        rp_runtime_commit := ss_runtime_commit s, rp_last_validation_utc := ss_last_validation_utc s,
        rp_provider_targets := ss_provider_targets s\<rparr>"

definition planned_status :: "artifact_report list \<Rightarrow> string" where
  "planned_status rs = (if planned_write_count rs = 0 then ''pass'' else ''planned'')"

definition Plan :: "sync_env \<Rightarrow> sync_files \<Rightarrow> string \<Rightarrow> string \<Rightarrow> artifact list \<Rightarrow> sync_report" where
  "Plan E fs repo_root action artifacts =
     (let rs = artifact_reports E fs repo_root artifacts True
      in (base_report ''install-sync-plan'' repo_root)
           \<lparr>rp_requested_action := action, rp_artifacts := rs,
            rp_planned_write_count := planned_write_count rs, rp_status := planned_status rs\<rparr>)"

definition Doctor :: "sync_env \<Rightarrow> sync_files \<Rightarrow> string \<Rightarrow> sync_report option" where
  "Doctor E fs repo_root =
     (case read_state_file E fs (state_file_path repo_root) of
        StateRead s \<Rightarrow>
          let rs = artifact_reports E fs repo_root (ss_artifacts s) False;
              sources = source_reports E fs (ss_source_hashes s)
          in Some ((report_from_state ''install-sync-doctor'' repo_root s)
               \<lparr>rp_artifacts := rs, rp_sources := sources,
                rp_planned_write_count := planned_write_count rs, rp_status := doctor_status sources rs\<rparr>)
      | _ \<Rightarrow> None)"

definition RepairPlan :: "sync_env \<Rightarrow> sync_files \<Rightarrow> string \<Rightarrow> sync_report option" where
  "RepairPlan E fs repo_root =
     (case read_state_file E fs (state_file_path repo_root) of
        StateRead s \<Rightarrow>
          let owned = filter (\<lambda>a. af_ownership a = ''coding-ethos-managed'') (ss_artifacts s);
              rs = artifact_reports E fs repo_root owned True
          in Some ((report_from_state ''install-sync-repair-plan'' repo_root s)
               \<lparr>rp_artifacts := rs, rp_sources := source_reports E fs (ss_source_hashes s),
                rp_planned_write_count := planned_write_count rs, rp_status := planned_status rs\<rparr>)
      | _ \<Rightarrow> None)"

text \<open>The text form of a report; \<open>Cell\<close> and the rows are those of \<open>internal/feedback\<close>.\<close>

definition optional_line :: "string \<Rightarrow> string \<Rightarrow> string list" where
  "optional_line label v = (if v = [] then [] else [label @ '': '' @ Cell v])"

definition provider_target_toon_lines :: "provider_target list \<Rightarrow> string list" where
  "provider_target_toon_lines targets =
     (''provider_targets['' @ itoa (int (length targets)) @ '']{provider,root}:'') #
     map (\<lambda>t. ''  '' @ cell_row [pt_provider t, pt_root t]) targets"

definition source_toon_lines :: "source_report list \<Rightarrow> string list" where
  "source_toon_lines sources =
     (''sources['' @ itoa (int (length sources)) @ '']{path,status,expected_sha256,actual_sha256}:'') #
     map (\<lambda>s. ''  '' @ cell_row [sh_path (sr_source s), sr_status s, sh_sha256 (sr_source s),
                              sr_actual_sha256 s]) sources"

definition artifact_toon_lines :: "artifact_report list \<Rightarrow> string list" where
  "artifact_toon_lines rs =
     (''artifacts['' @ itoa (int (length rs)) @ '']{path,provider,surface,status,ownership,plan,'' @
        ''expected_sha256,actual_sha256,verification_command}:'') #
     map (\<lambda>r. let a = ar_artifact r in ''  '' @ cell_row [af_path a, af_provider a, af_surface a,
        ar_status r, af_ownership a, ar_plan r, af_expected_sha256 a, ar_actual_sha256 r,
        af_verification_command a]) rs"

definition report_toon :: "sync_report \<Rightarrow> string" where
  "report_toon r = str_join [CHR 0x0A]
     ([''tool: '' @ Cell (rp_tool r), ''status: '' @ Cell (rp_status r),
       ''state_path: '' @ Cell (rp_state_path r),
       ''target_repo_root: '' @ Cell (rp_target_repo_root r)] @
      optional_line ''requested_action'' (rp_requested_action r) @
      optional_line ''runtime_version'' (rp_runtime_version r) @
      optional_line ''runtime_commit'' (rp_runtime_commit r) @
      optional_line ''last_validation_utc'' (rp_last_validation_utc r) @
      provider_target_toon_lines (rp_provider_targets r) @ source_toon_lines (rp_sources r) @
      artifact_toon_lines (rp_artifacts r) @
      [''planned_write_count: '' @ itoa (int (rp_planned_write_count r))])"

section \<open>Merging is updating a map\<close>

lemma map_set_fold:
  "map_of (foldl (\<lambda>m x. map_set (key x) x m) m xs) = map_of m ++ map_of (rev (map (\<lambda>x. (key x, x)) xs))"
  by (induction xs arbitrary: m) (simp_all add: map_add_def fun_eq_iff split: option.split)

lemma map_set_keys: "set (map fst (map_set k v m)) = insert k (set (map fst m))"
  by (induction k v m rule: map_set.induct) auto

lemma map_set_entries: "set (map_set k v m) \<subseteq> insert (k, v) (set m)"
  by (induction k v m rule: map_set.induct) auto

lemma map_set_distinct: "distinct (map fst m) \<Longrightarrow> distinct (map fst (map_set k v m))"
proof (induction k v m rule: map_set.induct)
  case (2 k v k' v' m)
  then show ?case using map_set_keys [of k v m] by auto
qed simp

definition keyed :: "('a \<Rightarrow> 'k) \<Rightarrow> ('k \<times> 'a) list \<Rightarrow> bool" where
  "keyed key m \<longleftrightarrow> distinct (map fst m) \<and> list_all (\<lambda>(k, x). key x = k) m"

lemma keyed_map_set: "keyed key m \<Longrightarrow> keyed key (map_set (key y) y m)"
  unfolding keyed_def list_all_iff using map_set_entries [of "key y" y m] map_set_distinct [of m "key y" y]
  by blast

lemma keyed_fold: "keyed key m \<Longrightarrow> keyed key (foldl (\<lambda>m x. map_set (key x) x m) m xs)"
  by (induction xs arbitrary: m) (simp_all add: keyed_map_set)

lemma keyed_keys: "keyed key m \<Longrightarrow> map key (map snd m) = map fst m"
  by (auto simp: keyed_def list_all_iff)

text \<open>The last entry of both lists with a key.\<close>

definition last_entry :: "('a \<Rightarrow> 'k) \<Rightarrow> 'a list \<Rightarrow> 'k \<Rightarrow> 'a option" where
  "last_entry key xs k = map_of (rev (map (\<lambda>x. (key x, x)) xs)) k"

lemma last_entry_append:
  "last_entry key (xs @ ys) k = (case last_entry key ys k of None \<Rightarrow> last_entry key xs k | Some x \<Rightarrow> Some x)"
  by (simp add: last_entry_def map_add_def split: option.splits)

lemma last_entry_key: "last_entry key xs k = Some x \<Longrightarrow> x \<in> set xs \<and> key x = k"
  by (auto simp: last_entry_def dest!: map_of_SomeD)

lemma merged_entries_set:
  "x \<in> set (merged_entries key existing incoming) \<longleftrightarrow> last_entry key (existing @ incoming) (key x) = Some x"
proof -
  define m where "m = foldl (\<lambda>m x. map_set (key x) x m) [] (existing @ incoming)"
  have "keyed key []" by (simp add: keyed_def)
  from keyed_fold [OF this, of "existing @ incoming"] have ok: "keyed key m" unfolding m_def .
  have lookup: "map_of m k = last_entry key (existing @ incoming) k" for k
    unfolding m_def map_set_fold last_entry_def by simp
  have "x \<in> snd ` set m \<longleftrightarrow> (key x, x) \<in> set m"
  proof
    assume "x \<in> snd ` set m"
    then obtain k where k: "(k, x) \<in> set m" by auto
    then have "key x = k" using ok by (auto simp: keyed_def list_all_iff)
    with k show "(key x, x) \<in> set m" by simp
  qed force
  also have "\<dots> \<longleftrightarrow> map_of m (key x) = Some x"
    using ok unfolding keyed_def by (simp add: map_of_eq_Some_iff)
  finally show ?thesis unfolding lookup merged_entries_def m_def [symmetric] by simp
qed

lemma merged_entries_distinct: "distinct (map key (merged_entries key existing incoming))"
proof -
  define m where "m = foldl (\<lambda>m x. map_set (key x) x m) [] (existing @ incoming)"
  have "keyed key []" by (simp add: keyed_def)
  from keyed_fold [OF this, of "existing @ incoming"] have ok: "keyed key m" unfolding m_def .
  then show ?thesis using keyed_keys [OF ok] unfolding merged_entries_def m_def [symmetric] keyed_def by metis
qed

section \<open>The record after an update\<close>

text \<open>Fact. An update of the installation record is an update of a map: after it, every source,
  artifact and provider target has one entry, the sources are in order of their paths, and the entry
  of a source is the hash computed by this update when its file could be hashed, and the one of the
  record before it otherwise.\<close>

theorem merged_sources_exact:
  "sorted (map sh_path (ss_source_hashes (updated_state E fs o1 s))) \<and>
   distinct (map sh_path (ss_source_hashes (updated_state E fs o1 s))) \<and>
   distinct (map artifact_key (ss_artifacts (updated_state E fs o1 s))) \<and>
   (\<forall>h. h \<in> set (ss_source_hashes (updated_state E fs o1 s)) \<longleftrightarrow>
      (case last_entry sh_path (hash_sources E fs (uo_source_paths o1)) (sh_path h) of
         Some h' \<Rightarrow> h = h'
       | None \<Rightarrow> last_entry sh_path (ss_source_hashes s) (sh_path h) = Some h))"
proof -
  have "distinct (map sh_path (merge_sources xs ys))" for xs ys
    using merged_entries_distinct [of sh_path xs ys] by (simp add: merge_sources_def distinct_map)
  moreover have "distinct (map artifact_key (merge_artifacts xs ys))" for xs ys
    using merged_entries_distinct [of artifact_key xs ys]
    by (simp add: merge_artifacts_def sort_artifacts_def distinct_map)
  moreover have "sorted (map sh_path (merge_sources xs ys))" for xs ys
    by (simp add: merge_sources_def)
  moreover have "h \<in> set (merge_sources xs ys) \<longleftrightarrow>
      (case last_entry sh_path ys (sh_path h) of Some h' \<Rightarrow> h = h'
       | None \<Rightarrow> last_entry sh_path xs (sh_path h) = Some h)" for h xs ys
    by (auto simp: merge_sources_def merged_entries_set last_entry_append split: option.split)
  ultimately show ?thesis by (simp add: updated_state_def)
qed

lemma last_entry_none: "last_entry key xs k = None \<longleftrightarrow> k \<notin> key ` set xs"
  by (simp add: last_entry_def map_of_eq_None_iff image_image)

lemma hash_sources_current:
  "h \<in> set (hash_sources E fs paths) \<Longrightarrow> file_sha256 E fs (sh_path h) = Some (sh_sha256 h)"
  by (auto simp: hash_sources_def List.map_filter_def Let_def split: if_splits)

lemma doctor_pass_iff:
  "Doctor E fs repo_root = Some r \<Longrightarrow>
   rp_status r = ''pass'' \<longleftrightarrow>
   (\<exists>s. read_state_file E fs (state_file_path repo_root) = StateRead s \<and>
     (\<forall>h \<in> set (ss_source_hashes s). file_sha256 E fs (sh_path h) = Some (sh_sha256 h)) \<and>
     (\<forall>a \<in> set (ss_artifacts s).
        file_sha256 E fs (path_join [repo_root, af_path a]) = Some (af_expected_sha256 a)))"
  by (auto simp: Doctor_def doctor_status_def source_reports_def artifact_reports_def Let_def
      source_report_of_def artifact_report_of_def list_ex_iff report_from_state_def base_report_def
      split: state_read.splits option.splits if_splits)

text \<open>What an update leaves in the file system.\<close>

lemma Upsert_writes:
  assumes "Upsert E fs o1 = (fs', Inr s')"
  shows "\<exists>s. s' = updated_state E fs o1 s \<and>
      (read_state_file E fs (state_file_path (uo_repo_root o1)) = StateRead s \<or> s = empty_state) \<and>
      fs' = fs(path_clean (state_file_path (uo_repo_root o1)) \<mapsto> sy_encode E s' @ [CHR 0x0A])"
    and "\<not> sy_read_error E (path_clean (state_file_path (uo_repo_root o1)))"
  using assms by (auto simp: Upsert_def Let_def read_state_file_def split: if_splits option.splits)

lemma file_sha256_other:
  "path_clean p \<noteq> q \<Longrightarrow> file_sha256 E (fs(q \<mapsto> x)) p = file_sha256 E fs p"
  by (simp add: file_sha256_def)

lemma read_written_state:
  assumes "Upsert E fs o1 = (fs', Inr s')" "sy_decode E (sy_encode E s' @ [CHR 0x0A]) = Some s'"
  shows "read_state_file E fs' (state_file_path (uo_repo_root o1)) = StateRead s'"
  using Upsert_writes [OF assms(1)] assms(2) by (auto simp: read_state_file_def)

text \<open>Property C38. What an installation has just recorded is what the doctor accepts: when there was no
  record, and every artifact is on disk with the hash it was recorded with, and neither an artifact nor
  a source is the record itself, then the doctor run after the update reads the record back and passes.
  The codec of the record is assumed to read what it wrote.\<close>

theorem doctor_passes_after_install:
  assumes "Upsert E fs o1 = (fs', Inr s')"
    and "sy_decode E (sy_encode E s' @ [CHR 0x0A]) = Some s'"
    and "fs (path_clean (state_file_path (uo_repo_root o1))) = None"
    and "\<forall>a \<in> set (uo_artifacts o1).
      file_sha256 E fs (path_join [uo_repo_root o1, af_path a]) = Some (af_expected_sha256 a)"
  shows "\<exists>r. Doctor E fs' (uo_repo_root o1) = Some r \<and> rp_status r = ''pass''"
proof -
  let ?q = "path_clean (state_file_path (uo_repo_root o1))"
  have fs': "fs' = fs(?q \<mapsto> sy_encode E s' @ [CHR 0x0A])" and s': "s' = updated_state E fs o1 empty_state"
    using Upsert_writes [OF assms(1)] assms(3) by (auto simp: read_state_file_def split: if_splits)
  have same: "file_sha256 E fs' p = file_sha256 E fs p" if "file_sha256 E fs p \<noteq> None" for p
  proof -
    have "path_clean p \<noteq> ?q" using that assms(3) by (auto simp: file_sha256_def split: if_splits)
    then show ?thesis by (simp add: fs' file_sha256_other)
  qed
  have srcs: "file_sha256 E fs' (sh_path h) = Some (sh_sha256 h)" if "h \<in> set (ss_source_hashes s')" for h
  proof -
    have "h \<in> set (hash_sources E fs (uo_source_paths o1))"
      using that last_entry_key [of sh_path "hash_sources E fs (uo_source_paths o1)" "sh_path h"]
      by (auto simp: s' updated_state_def empty_state_def merge_sources_def merged_entries_set)
    then show ?thesis using hash_sources_current same by fastforce
  qed
  have arts: "file_sha256 E fs' (path_join [uo_repo_root o1, af_path a]) = Some (af_expected_sha256 a)"
    if "a \<in> set (ss_artifacts s')" for a
  proof -
    have "a \<in> set (timestamp_artifacts (uo_artifacts o1) (uo_now o1))"
      using that last_entry_key [of artifact_key "timestamp_artifacts (uo_artifacts o1) (uo_now o1)" "artifact_key a"]
      by (auto simp: s' updated_state_def empty_state_def merge_artifacts_def sort_artifacts_def merged_entries_set)
    then obtain b where "b \<in> set (uo_artifacts o1)" "a = b\<lparr>af_last_written_utc := uo_now o1\<rparr>"
      by (auto simp: timestamp_artifacts_def)
    then show ?thesis using assms(4) same by fastforce
  qed
  obtain r where r: "Doctor E fs' (uo_repo_root o1) = Some r"
    using read_written_state [OF assms(1,2)] by (simp add: Doctor_def Let_def)
  moreover have "rp_status r = ''pass''"
    using doctor_pass_iff [OF r] read_written_state [OF assms(1,2)] srcs arts by blast
  ultimately show ?thesis by blast
qed

text \<open>Fact. The record never forgets: a source that an earlier update recorded and whose file is
  gone is skipped by the hashing of a later update but kept by the merge, so the doctor fails after
  every further update.\<close>

theorem removed_source_fails_doctor:
  assumes "Upsert E fs o1 = (fs', Inr s')"
    and "sy_decode E (sy_encode E s' @ [CHR 0x0A]) = Some s'"
    and "read_state_file E fs (state_file_path (uo_repo_root o1)) = StateRead s"
    and "distinct (map sh_path (ss_source_hashes s))"
    and "h \<in> set (ss_source_hashes s)" and "file_sha256 E fs (sh_path h) = None"
  shows "\<exists>r. Doctor E fs' (uo_repo_root o1) = Some r \<and> rp_status r = ''fail'' \<and>
    h \<in> set (ss_source_hashes s')"
proof -
  let ?q = "path_clean (state_file_path (uo_repo_root o1))"
  have fs': "fs' = fs(?q \<mapsto> sy_encode E s' @ [CHR 0x0A])" and s': "s' = updated_state E fs o1 s"
    using assms(1,3) by (auto simp: Upsert_def Let_def split: if_splits)
  have "fs ?q \<noteq> None" "\<not> sy_read_error E ?q"
    using assms(3) by (auto simp: read_state_file_def split: if_splits option.splits)
  then have "path_clean (sh_path h) \<noteq> ?q" using assms(6) by (auto simp: file_sha256_def split: if_splits)
  then have gone: "file_sha256 E fs' (sh_path h) = None" using assms(6) by (simp add: fs' file_sha256_other)
  have "last_entry sh_path (hash_sources E fs (uo_source_paths o1)) (sh_path h) = None"
  proof (rule ccontr)
    assume "last_entry sh_path (hash_sources E fs (uo_source_paths o1)) (sh_path h) \<noteq> None"
    then obtain k where "k \<in> set (hash_sources E fs (uo_source_paths o1))" "sh_path k = sh_path h"
      using last_entry_key by fastforce
    then show False using hash_sources_current [of k E fs "uo_source_paths o1"] assms(6) by simp
  qed
  moreover have "last_entry sh_path (ss_source_hashes s) (sh_path h) = Some h"
    using assms(4,5) unfolding last_entry_def
    by (intro map_of_is_SomeI) (auto simp: rev_map [symmetric] comp_def)
  ultimately have kept: "h \<in> set (ss_source_hashes s')"
    by (simp add: s' updated_state_def merge_sources_def merged_entries_set last_entry_append)
  obtain r where r: "Doctor E fs' (uo_repo_root o1) = Some r"
    using read_written_state [OF assms(1,2)] by (simp add: Doctor_def Let_def)
  have "rp_status r \<noteq> ''pass''"
    using doctor_pass_iff [OF r] read_written_state [OF assms(1,2)] gone kept by (auto dest!: bspec)
  moreover have "rp_status r = ''pass'' \<or> rp_status r = ''fail''"
    using r by (auto simp: Doctor_def Let_def doctor_status_def split: state_read.splits if_splits)
  ultimately show ?thesis using r kept by blast
qed

definition sample_artifact :: artifact where
  "sample_artifact =
     \<lparr>af_path = ''ruff.toml'', af_provider = ''tool-configs'', af_surface = ''config'',
      af_ownership = ''coding-ethos-managed'', af_expected_sha256 = ''h:x'', af_verification_command = [],
      af_last_written_utc = []\<rparr>"

definition sample_options :: upsert_options where
  "sample_options =
     \<lparr>uo_now = ''t1'', uo_repo_root = ''/r'', uo_ethos_root = ''/e'', uo_requested_action = ''sync'',
      uo_source_paths = [''/e/c'', ''/e/gone''], uo_provider_targets = [], uo_artifacts = [sample_artifact]\<rparr>"

definition sample_installed :: "source_hash list \<Rightarrow> sync_state" where
  "sample_installed sources =
     \<lparr>ss_target_repo_root = ''/r'', ss_requested_action = ''sync'', ss_runtime_version = [], ss_runtime_commit = [],
      ss_last_validation_utc = ''t1'', ss_source_hashes = sources,
      ss_provider_targets = [], ss_artifacts = [sample_artifact\<lparr>af_last_written_utc := ''t1''\<rparr>],
      ss_schema_version = 1\<rparr>"

definition sample_current :: source_hash where "sample_current = \<lparr>sh_path = ''/e/c'', sh_sha256 = ''h:y''\<rparr>"
definition sample_gone :: source_hash where "sample_gone = \<lparr>sh_path = ''/e/gone'', sh_sha256 = ''h:z''\<rparr>"

definition sample_sync_env :: sync_env where
  "sample_sync_env =
     \<lparr>sy_hash_bytes = (\<lambda>p. ''h:'' @ p),
      sy_encode = (\<lambda>s. if length (ss_source_hashes s) = 1 then ''one'' else ''two''),
      sy_decode = (\<lambda>p. if p = ''one'' @ [CHR 0x0A] then Some (sample_installed [sample_current])
         else if p = ''two'' @ [CHR 0x0A] then Some (sample_installed [sample_current, sample_gone]) else None),
      sy_read_error = (\<lambda>_. False), sy_write_error = (\<lambda>_. False), sy_commit = (\<lambda>_. [])\<rparr>"

definition sample_files :: sync_files where
  "sample_files = [''/r/ruff.toml'' \<mapsto> ''x'', ''/e/c'' \<mapsto> ''y'']"

definition sample_state_path :: string where
  "sample_state_path = ''/r/.coding-ethos/state/install-sync.json''"

lemma sample_clean: "path_clean ''/e/c'' = ''/e/c''" "path_clean ''/e/gone'' = ''/e/gone''"
  "path_clean ''/r/ruff.toml'' = ''/r/ruff.toml''" "path_clean ''/e/pyproject.toml'' = ''/e/pyproject.toml''"
  "path_join [''/e'', ''pyproject.toml''] = ''/e/pyproject.toml''"
  "path_join [''/r'', ''ruff.toml''] = ''/r/ruff.toml''" "path_clean ''/r'' = ''/r''"
  "state_file_path ''/r'' = sample_state_path" "path_clean sample_state_path = sample_state_path"
  "trim_space ''/e/c'' = ''/e/c''" "trim_space ''/e/gone'' = ''/e/gone''" "trim_space ''sync'' = ''sync''"
  by code_simp+

lemma sample_update:
  assumes "ss_source_hashes s = [] \<and> ss_artifacts s = [] \<or>
      ss_source_hashes s = [sample_current, sample_gone] \<and> ss_artifacts s = [sample_artifact\<lparr>af_last_written_utc := ''t1''\<rparr>]"
    and "ss_provider_targets s = []" and "fs ''/e/c'' = Some ''y''" "fs ''/e/gone'' = None" "fs ''/e/pyproject.toml'' = None"
  shows "updated_state sample_sync_env fs sample_options s =
    sample_installed (if ss_source_hashes s = [] then [sample_current] else [sample_current, sample_gone])"
  using assms
  by (auto simp: updated_state_def sample_options_def sample_installed_def sample_sync_env_def sample_clean
      runtime_version_def merge_sources_def merged_entries_def hash_sources_def List.map_filter_def
      file_sha256_def Let_def sample_current_def sample_gone_def merge_provider_targets_def
      normalized_provider_targets_def merge_artifacts_def sort_artifacts_def timestamp_artifacts_def
      artifact_key_def sample_artifact_def)

theorem doctor_passes_after_install_witness:
  "\<exists>fs' r. Upsert sample_sync_env sample_files sample_options = (fs', Inr (sample_installed [sample_current])) \<and>
     Doctor sample_sync_env fs' ''/r'' = Some r \<and> rp_status r = ''pass''"
proof -
  have u: "updated_state sample_sync_env sample_files sample_options empty_state = sample_installed [sample_current]"
    by (subst sample_update) (simp_all add: empty_state_def sample_files_def)
  have none: "sample_files sample_state_path = None" by (simp add: sample_files_def sample_state_path_def)
  have up: "Upsert sample_sync_env sample_files sample_options =
      (sample_files(sample_state_path \<mapsto> ''one'' @ [CHR 0x0A]), Inr (sample_installed [sample_current]))"
    using u none
    by (simp add: Upsert_def Let_def sample_options_def read_state_file_def sample_clean)
      (simp add: sample_sync_env_def sample_installed_def)
  have "\<exists>r. Doctor sample_sync_env (sample_files(sample_state_path \<mapsto> ''one'' @ [CHR 0x0A])) (uo_repo_root sample_options) =
      Some r \<and> rp_status r = ''pass''"
  proof (rule doctor_passes_after_install [OF up])
    show "sy_decode sample_sync_env (sy_encode sample_sync_env (sample_installed [sample_current]) @ [CHR 0x0A]) =
        Some (sample_installed [sample_current])"
      by (simp add: sample_sync_env_def sample_installed_def)
    show "sample_files (path_clean (state_file_path (uo_repo_root sample_options))) = None"
      using none by (simp add: sample_options_def sample_clean)
    show "\<forall>a \<in> set (uo_artifacts sample_options).
        file_sha256 sample_sync_env sample_files (path_join [uo_repo_root sample_options, af_path a]) =
          Some (af_expected_sha256 a)"
      by (simp add: sample_options_def sample_artifact_def sample_clean file_sha256_def sample_sync_env_def sample_files_def)
  qed
  then show ?thesis using up by (simp add: sample_options_def)
qed

theorem removed_source_fails_doctor_witness:
  "\<exists>fs fs' r. Upsert sample_sync_env fs sample_options = (fs', Inr (sample_installed [sample_current, sample_gone])) \<and>
     Doctor sample_sync_env fs' ''/r'' = Some r \<and> rp_status r = ''fail''"
proof -
  define fs where "fs = sample_files(sample_state_path \<mapsto> ''two'' @ [CHR 0x0A])"
  let ?s = "sample_installed [sample_current, sample_gone]"
  have u: "updated_state sample_sync_env fs sample_options ?s = ?s"
    by (subst sample_update) (simp_all add: fs_def sample_files_def sample_state_path_def sample_installed_def)
  have rd: "read_state_file sample_sync_env fs (state_file_path (uo_repo_root sample_options)) = StateRead ?s"
    by (simp add: read_state_file_def sample_clean sample_options_def)
      (simp add: sample_sync_env_def fs_def)
  have up: "Upsert sample_sync_env fs sample_options = (fs(sample_state_path \<mapsto> ''two'' @ [CHR 0x0A]), Inr ?s)"
    using u rd by (simp add: Upsert_def Let_def sample_options_def sample_clean)
      (simp add: sample_sync_env_def sample_installed_def)
  have "\<exists>r. Doctor sample_sync_env (fs(sample_state_path \<mapsto> ''two'' @ [CHR 0x0A])) (uo_repo_root sample_options) = Some r \<and>
      rp_status r = ''fail'' \<and> sample_gone \<in> set (ss_source_hashes ?s)"
  proof (rule removed_source_fails_doctor [OF up _ rd])
    show "sy_decode sample_sync_env (sy_encode sample_sync_env ?s @ [CHR 0x0A]) = Some ?s"
      by (simp add: sample_sync_env_def sample_installed_def)
    show "distinct (map sh_path (ss_source_hashes ?s))" "sample_gone \<in> set (ss_source_hashes ?s)"
      by (simp_all add: sample_installed_def sample_current_def sample_gone_def)
    show "file_sha256 sample_sync_env fs (sh_path sample_gone) = None"
      by (simp add: sample_gone_def file_sha256_def sample_clean fs_def sample_files_def sample_state_path_def)
  qed
  then show ?thesis using up by (auto simp: sample_options_def)
qed

end
