(* ===== verification/ConfigData.thy ===== *)
theory ConfigData
  imports Diagnostics RepoIgnore GoNumbers
begin

text \<open>
  The configuration the policy compiler reads: \<open>go/internal/configdata/configdata.go\<close> (merging of
  maps, lookups), the profiles of \<open>go/internal/configprofiles/profiles.go\<close>, and the accessors of
  \<open>go/internal/policy/compiler_dispatch.go\<close> and \<open>validate.go\<close>. Decoding YAML is left to the caller:
  a configuration is a map of untyped values. Whether a repository has Python sources is an argument,
  and so is the printed form of a floating point number.
\<close>

section \<open>Printing a value\<close>

text \<open>\<open>fmt.Sprint\<close> on one operand: lists in brackets, maps with their keys in order.\<close>

definition sprint_map :: "(string \<times> string) list \<Rightarrow> string" where
  "sprint_map entries =
     ''map['' @ str_join '' '' (map (\<lambda>(k, v). k @ '':'' @ v) (sort_key fst entries)) @ '']''"

fun sprint :: "(int \<Rightarrow> string) \<Rightarrow> any \<Rightarrow> string"
  and sprint_list :: "(int \<Rightarrow> string) \<Rightarrow> any list \<Rightarrow> string list"
  and sprint_entries :: "(int \<Rightarrow> string) \<Rightarrow> (string \<times> any) list \<Rightarrow> (string \<times> string) list"
  and sprint_maps :: "(int \<Rightarrow> string) \<Rightarrow> (string \<times> any) list list \<Rightarrow> string list" where
  "sprint fl (AString s) = s"
| "sprint fl (AStrings ss) = ''['' @ str_join '' '' ss @ '']''"
| "sprint fl (AList vs) = ''['' @ str_join '' '' (sprint_list fl vs) @ '']''"
| "sprint fl (AMap m) = sprint_map (sprint_entries fl m)"
| "sprint fl (AMaps ms) = ''['' @ str_join '' '' (sprint_maps fl ms) @ '']''"
| "sprint fl (ABool b) = (if b then ''true'' else ''false'')"
| "sprint fl (AInt i) = itoa i"
| "sprint fl (AFloat f) = fl f"
| "sprint fl ANil = ''<nil>''"
| "sprint_list fl [] = []"
| "sprint_list fl (v # vs) = sprint fl v # sprint_list fl vs"
| "sprint_entries fl [] = []"
| "sprint_entries fl ((k, v) # m) = (k, sprint fl v) # sprint_entries fl m"
| "sprint_maps fl [] = []"
| "sprint_maps fl (m # ms) = sprint_map (sprint_entries fl m) # sprint_maps fl ms"

section \<open>Lookups and merging\<close>

text \<open>Indexing a Go map yields \<open>nil\<close> for a missing key.\<close>

definition any_at :: "any_map \<Rightarrow> string \<Rightarrow> any" where
  "any_at m k = (case map_of m k of None \<Rightarrow> ANil | Some v \<Rightarrow> v)"

fun value_at :: "any_map \<Rightarrow> string list \<Rightarrow> any option" where
  "value_at m [] = Some (AMap m)"
| "value_at m [k] = map_of m k"
| "value_at m (k # ks) = (case map_of m k of Some (AMap m') \<Rightarrow> value_at m' ks | _ \<Rightarrow> None)"

text \<open>
  The entries of the override are visited in any order: each takes what the base has for its key.
\<close>

fun deep_merge :: "any_map \<Rightarrow> any_map \<Rightarrow> any_map" where
  "deep_merge base [] = base"
| "deep_merge base ((k, v) # override) =
     map_set k
       (case v of
          AMap m \<Rightarrow> (case map_of base k of Some (AMap b) \<Rightarrow> AMap (deep_merge b m) | _ \<Rightarrow> v)
        | _ \<Rightarrow> v)
       (deep_merge base override)"

definition merge_value :: "any option \<Rightarrow> any \<Rightarrow> any" where
  "merge_value old v =
     (case v of AMap m \<Rightarrow> (case old of Some (AMap b) \<Rightarrow> AMap (deep_merge b m) | _ \<Rightarrow> v) | _ \<Rightarrow> v)"

lemma map_of_deep_merge:
  "map_of (deep_merge base override) k =
     (case map_of override k of None \<Rightarrow> map_of base k | Some v \<Rightarrow> Some (merge_value (map_of base k) v))"
proof (induction override)
  case (Cons e override)
  then show ?case by (cases e) (simp add: merge_value_def)
qed simp

text \<open>Merging adds no path that neither side has.\<close>

lemma value_at_deep_merge:
  "ks \<noteq> [] \<Longrightarrow> value_at (deep_merge base override) ks \<noteq> None \<Longrightarrow>
   value_at base ks \<noteq> None \<or> value_at override ks \<noteq> None"
proof (induction ks arbitrary: base override rule: induct_list012)
  case (2 k)
  then show ?case by (auto simp: map_of_deep_merge split: option.splits)
next
  case (3 k k' ks)
  show ?case
  proof (cases "map_of override k")
    case None
    with 3 show ?thesis by (simp add: map_of_deep_merge)
  next
    case (Some v)
    show ?thesis
    proof (cases "\<exists>b m. v = AMap m \<and> map_of base k = Some (AMap b)")
      case True
      then obtain b m where "v = AMap m" "map_of base k = Some (AMap b)" by blast
      with 3 Some show ?thesis by (simp add: map_of_deep_merge merge_value_def)
    next
      case False
      then have "merge_value (map_of base k) v = v"
        by (auto simp: merge_value_def split: any.split option.split)
      with 3(4) Some show ?thesis by (auto simp: map_of_deep_merge split: any.splits)
    qed
  qed
qed simp

section \<open>Accessors of \<open>configdata\<close>\<close>

definition GetPath :: "any_map \<Rightarrow> string \<Rightarrow> any \<Rightarrow> any" where
  "GetPath config path fallback =
     (case value_at config (split_on CHR ''.'' path) of None \<Rightarrow> fallback | Some v \<Rightarrow> v)"

definition config_string_list :: "(int \<Rightarrow> string) \<Rightarrow> any \<Rightarrow> string list" where
  "config_string_list fl v =
     (case v of
        ANil \<Rightarrow> []
      | AList vs \<Rightarrow> filter (\<lambda>t. t \<noteq> []) (map (\<lambda>i. trim_space (sprint fl i)) vs)
      | _ \<Rightarrow> let t = trim_space (sprint fl v) in if t = [] then [] else [t])"

definition config_string_at :: "(int \<Rightarrow> string) \<Rightarrow> any_map \<Rightarrow> string \<Rightarrow> string" where
  "config_string_at fl m key =
     (case any_at m key of ANil \<Rightarrow> [] | v \<Rightarrow> trim_space (sprint fl v))"

definition map_value :: "any \<Rightarrow> any_map" where
  "map_value v = (case v of AMap m \<Rightarrow> m | _ \<Rightarrow> [])"

section \<open>Accessors of the compiler\<close>

definition bool_value_of :: "any \<Rightarrow> bool" where
  "bool_value_of v = (case v of ABool b \<Rightarrow> b | _ \<Rightarrow> False)"

definition bool_at :: "any_map \<Rightarrow> string list \<Rightarrow> bool" where
  "bool_at m path = (case value_at m path of None \<Rightarrow> False | Some v \<Rightarrow> bool_value_of v)"

definition bool_option_from_map :: "any_map \<Rightarrow> string \<Rightarrow> bool \<Rightarrow> bool option" where
  "bool_option_from_map m key d =
     (case map_of m key of None \<Rightarrow> Some d | Some (ABool b) \<Rightarrow> Some b | _ \<Rightarrow> None)"

definition enabled_at :: "any_map \<Rightarrow> string list \<Rightarrow> bool" where
  "enabled_at m path =
     (case value_at m (path @ [''enabled'']) of Some (ABool b) \<Rightarrow> b | _ \<Rightarrow> True)"

definition policy_config_enabled :: "any_map \<Rightarrow> string \<Rightarrow> bool" where
  "policy_config_enabled m policy_id =
     (case value_at m (split_on CHR ''.'' policy_id @ [''enabled'']) of Some (ABool b) \<Rightarrow> b | _ \<Rightarrow> True)"

definition string_value :: "(int \<Rightarrow> string) \<Rightarrow> any \<Rightarrow> string" where
  "string_value fl v = (case v of ANil \<Rightarrow> [] | _ \<Rightarrow> sprint fl v)"

definition int_value :: "any \<Rightarrow> int" where
  "int_value v =
     (case v of
        AInt i \<Rightarrow> i
      | AFloat f \<Rightarrow> f
      | AString s \<Rightarrow> (case atoi s of None \<Rightarrow> 0 | Some i \<Rightarrow> i)
      | _ \<Rightarrow> 0)"

definition string_slice :: "(int \<Rightarrow> string) \<Rightarrow> any \<Rightarrow> string list" where
  "string_slice fl v =
     (case v of AStrings ss \<Rightarrow> ss | AList vs \<Rightarrow> map (string_value fl) vs | _ \<Rightarrow> [])"

definition string_map :: "(int \<Rightarrow> string) \<Rightarrow> any \<Rightarrow> (string \<times> string) list" where
  "string_map fl v = (case v of AMap m \<Rightarrow> map (\<lambda>(k, x). (k, string_value fl x)) m | _ \<Rightarrow> [])"

definition string_slice_at :: "(int \<Rightarrow> string) \<Rightarrow> any_map \<Rightarrow> string list \<Rightarrow> string list \<Rightarrow> string list" where
  "string_slice_at fl m path defaults =
     (case value_at m path of
        None \<Rightarrow> defaults
      | Some v \<Rightarrow> let items = string_slice fl v in if items = [] then defaults else items)"

definition int_at :: "any_map \<Rightarrow> string list \<Rightarrow> int \<Rightarrow> int" where
  "int_at m path d =
     (case value_at m path of Some (AInt i) \<Rightarrow> i | Some (AFloat f) \<Rightarrow> f | _ \<Rightarrow> d)"

definition string_at :: "any_map \<Rightarrow> string list \<Rightarrow> string" where
  "string_at m path = (case value_at m path of Some (AString s) \<Rightarrow> trim_space s | _ \<Rightarrow> [])"

definition string_option_from_map :: "(int \<Rightarrow> string) \<Rightarrow> any_map \<Rightarrow> string \<Rightarrow> string \<Rightarrow> string" where
  "string_option_from_map fl m key d =
     (case map_of m key of
        None \<Rightarrow> d
      | Some v \<Rightarrow>
          let t = trim_space (string_value fl v) in if t = [] \<or> t = ''<nil>'' then d else t)"

definition string_slice_value :: "(int \<Rightarrow> string) \<Rightarrow> any \<Rightarrow> string list \<Rightarrow> string list" where
  "string_slice_value fl v defaults =
     (let items = string_slice fl v in if items = [] then defaults else items)"

definition string_slice_value_allow_empty :: "(int \<Rightarrow> string) \<Rightarrow> any \<Rightarrow> string list \<Rightarrow> string list" where
  "string_slice_value_allow_empty fl v defaults = (if v = ANil then defaults else string_slice fl v)"

text \<open>The accessors of \<open>validate.go\<close>, which trim what they read.\<close>

definition string_values :: "(int \<Rightarrow> string) \<Rightarrow> any \<Rightarrow> string list" where
  "string_values fl v =
     (case v of
        AString s \<Rightarrow> let t = trim_space s in if t = [] then [] else [t]
      | AStrings ss \<Rightarrow> filter (\<lambda>t. t \<noteq> []) (map trim_space ss)
      | AList vs \<Rightarrow>
          filter (\<lambda>t. t \<noteq> [] \<and> t \<noteq> ''<nil>'') (map (\<lambda>i. trim_space (sprint fl i)) vs)
      | _ \<Rightarrow> [])"

section \<open>Profiles\<close>

fun dedupe_profiles_loop :: "string list \<Rightarrow> string list \<Rightarrow> string list" where
  "dedupe_profiles_loop seen [] = []"
| "dedupe_profiles_loop seen (v # vs) =
     (let profile = trim_space v
      in if profile = [] \<or> profile \<in> set seen then dedupe_profiles_loop seen vs
         else profile # dedupe_profiles_loop (profile # seen) vs)"

definition repo_profiles :: "(int \<Rightarrow> string) \<Rightarrow> any_map \<Rightarrow> string list" where
  "repo_profiles fl repo_config =
     (let kind = trim_space (config_string_at fl (map_value (any_at repo_config ''repo'')) ''kind'')
      in dedupe_profiles_loop []
           ((if kind = [] then [] else [kind]) @ config_string_list fl (any_at repo_config ''profiles'')))"

definition disabled_entry :: any where
  "disabled_entry = AMap [(''enabled'', ABool False)]"

definition non_python_overlay :: any_map where
  "non_python_overlay =
     [(''python'', AMap
        [(''pytest_gate'', disabled_entry), (''file_docstrings'', disabled_entry),
         (''docstring_coverage'', disabled_entry), (''type_check'', disabled_entry)])]"

definition go_profile_overlay :: "bool \<Rightarrow> any_map" where
  "go_profile_overlay has_python_sources =
     (let overlay = [(''go'', AMap [(''enabled'', ABool True)])]
      in if has_python_sources then overlay else deep_merge overlay non_python_overlay)"

definition generated_site_output_overlay :: any_map where
  "generated_site_output_overlay =
     [(''filesystem'', AMap [(''required_ignores'',
        AMap [(''paths'', AList (map AString (RuntimePaths @ [''site/'', ''dist/''])))])])]"

definition overlay_for_profile :: "bool \<Rightarrow> string \<Rightarrow> any_map" where
  "overlay_for_profile has_python_sources profile =
     (if profile \<in> {''go'', ''go-static-site''} then go_profile_overlay has_python_sources
      else if profile \<in> {''static-site'', ''generated-site-output''} then generated_site_output_overlay
      else [])"

definition overlay_for_repo_config :: "(int \<Rightarrow> string) \<Rightarrow> bool \<Rightarrow> any_map \<Rightarrow> any_map" where
  "overlay_for_repo_config fl has_python_sources repo_config =
     foldl (\<lambda>overlay p. deep_merge overlay (overlay_for_profile has_python_sources p)) []
       (repo_profiles fl repo_config)"

definition ApplyWithEthosRoot :: "(int \<Rightarrow> string) \<Rightarrow> bool \<Rightarrow> any_map \<Rightarrow> any_map \<Rightarrow> any_map" where
  "ApplyWithEthosRoot fl has_python_sources base repo_config =
     (let overlay = overlay_for_repo_config fl has_python_sources repo_config
      in if overlay = [] then deep_merge base repo_config
         else deep_merge (deep_merge base overlay) repo_config)"

section \<open>What a profile can set\<close>

definition profile_paths :: "string list list" where
  "profile_paths =
     [[''go'', ''enabled''], [''python'', ''pytest_gate'', ''enabled''],
      [''python'', ''file_docstrings'', ''enabled''], [''python'', ''docstring_coverage'', ''enabled''],
      [''python'', ''type_check'', ''enabled''], [''filesystem'', ''required_ignores'', ''paths'']]"

lemma overlay_for_profile_leaves:
  assumes "value_at (overlay_for_profile has_py p) [a, b, c] \<noteq> None"
  shows "[a, b, c] \<in> set profile_paths"
  using assms
  by (auto simp: overlay_for_profile_def go_profile_overlay_def non_python_overlay_def disabled_entry_def
      generated_site_output_overlay_def profile_paths_def Let_def split: if_splits)

lemma overlay_for_repo_config_leaves:
  assumes "value_at (overlay_for_repo_config fl has_py repo_config) [a, b, c] \<noteq> None"
  shows "[a, b, c] \<in> set profile_paths"
proof -
  have "[a, b, c] \<in> set profile_paths"
    if "value_at (foldl (\<lambda>overlay p. deep_merge overlay (overlay_for_profile has_py p)) m ps) [a, b, c] \<noteq> None"
      "value_at m [a, b, c] \<noteq> None \<Longrightarrow> [a, b, c] \<in> set profile_paths" for m ps
    using that
  proof (induction ps arbitrary: m)
    case (Cons p ps)
    let ?m = "deep_merge m (overlay_for_profile has_py p)"
    have "[a, b, c] \<in> set profile_paths" if "value_at ?m [a, b, c] \<noteq> None"
    proof -
      have "value_at m [a, b, c] \<noteq> None \<or> value_at (overlay_for_profile has_py p) [a, b, c] \<noteq> None"
        by (rule value_at_deep_merge [OF _ that]) simp
      then show ?thesis using Cons.prems(2) overlay_for_profile_leaves by metis
    qed
    then show ?case by (rule Cons.IH [of ?m, OF Cons.prems(1) [unfolded foldl.simps]])
  qed simp
  from this [of "[]"] assms show ?thesis by (simp add: overlay_for_repo_config_def)
qed

lemma merged_config_paths:
  assumes "value_at (ApplyWithEthosRoot fl has_py base repo_config) [a, b, c] \<noteq> None"
  shows "value_at base [a, b, c] \<noteq> None \<or> value_at repo_config [a, b, c] \<noteq> None \<or>
    [a, b, c] \<in> set profile_paths"
proof -
  let ?o = "overlay_for_repo_config fl has_py repo_config"
  from assms obtain base' where base': "base' = base \<or> base' = deep_merge base ?o"
    and v: "value_at (deep_merge base' repo_config) [a, b, c] \<noteq> None"
    by (simp only: ApplyWithEthosRoot_def Let_def split: if_splits) blast+
  have "value_at base' [a, b, c] \<noteq> None \<or> value_at repo_config [a, b, c] \<noteq> None"
    by (rule value_at_deep_merge [OF _ v]) simp
  moreover have "value_at base [a, b, c] \<noteq> None \<or> value_at ?o [a, b, c] \<noteq> None"
    if "value_at base' [a, b, c] \<noteq> None"
    using base' that value_at_deep_merge [of "[a, b, c]" base ?o] by blast
  ultimately show ?thesis using overlay_for_repo_config_leaves by blast
qed

end
