(* ===== verification/PolicyTables.thy ===== *)
theory PolicyTables
  imports ConfigData Policy
begin

text \<open>
  The policies the compiler knows by itself: \<open>go/internal/policy/compiler_policies.go\<close>,
  \<open>python_policies.go\<close>, \<open>compiler_python_pyproject.go\<close>, \<open>hook_route_policies.go\<close>,
  \<open>proxy_policies.go\<close>, \<open>git_wrapper_policy.go\<close>, \<open>defense.go\<close>. A compiled policy is the policy the runtimes
  read with what only the compiler and the explanations use. Downloading a license text is an argument.
\<close>

section \<open>Records\<close>

record applies_to =
  at_commands :: "string list"
  at_file_patterns :: "string list"
  at_languages :: "string list"
  at_paths :: "string list"
  at_tools :: "string list"

record defense_layers =
  dl_enforce :: string
  dl_intercept :: string
  dl_mediate :: string
  dl_detect :: string
  dl_notify :: string
  dl_verify :: string
  dl_persuade :: bool
  dl_record :: bool

record policy_definition = policy +
  pol_applies_to :: applies_to
  pol_defense_layers :: defense_layers
  pol_supported_modes :: "string list"

record principle =
  pr_agent_hints :: "(string \<times> string) list"
  pr_detail_path :: string
  pr_directive :: string
  pr_id :: string
  pr_summary :: string
  pr_title :: string
  pr_quick_ref :: "string list"
  pr_related :: "string list"
  pr_tags :: "string list"
  pr_order :: int

text \<open>A composite literal leaves the fields it does not name at their zero values.\<close>

definition empty_applies_to :: applies_to where
  "empty_applies_to =
     \<lparr>at_commands = [], at_file_patterns = [], at_languages = [], at_paths = [], at_tools = []\<rparr>"

definition empty_layers :: defense_layers where
  "empty_layers =
     \<lparr>dl_enforce = [], dl_intercept = [], dl_mediate = [], dl_detect = [], dl_notify = [], dl_verify = [],
      dl_persuade = False, dl_record = False\<rparr>"

definition empty_definition :: policy_definition where
  "empty_definition =
     \<lparr>pol_source = \<lparr>source_file = [], source_path = []\<rparr>, pol_category = [], pol_default_severity = [],
      pol_id = [], pol_message = [], pol_suggestion = [], pol_evaluators = [], pol_principle_ids = [],
      pol_applies_to = empty_applies_to, pol_defense_layers = empty_layers, pol_supported_modes = []\<rparr>"

type_synonym policies = "(string \<times> policy_definition) list"

definition sentence :: "string list \<Rightarrow> string" where
  "sentence parts = str_join '' '' parts"

definition principle_refs :: "(string \<times> principle) list \<Rightarrow> string list \<Rightarrow> string list" where
  "principle_refs principles ids = filter (\<lambda>i. map_of principles i \<noteq> None) ids"

section \<open>Defense layers\<close>

definition CodeDefenseLayers :: "defense_layers" where
  "CodeDefenseLayers =
     empty_layers\<lparr>dl_persuade := True, dl_intercept := ''advise'', dl_detect := ''block'', dl_enforce := ''pre_commit'', dl_notify := ''on_failure'', dl_record := True\<rparr>"

definition GeneratedConfigDefenseLayers :: "defense_layers" where
  "GeneratedConfigDefenseLayers =
     empty_layers\<lparr>dl_persuade := True, dl_intercept := ''ask'', dl_detect := ''block'', dl_enforce := ''pre_commit'', dl_notify := ''on_failure'', dl_record := True\<rparr>"

definition PytestDefenseLayers :: "defense_layers" where
  "PytestDefenseLayers =
     empty_layers\<lparr>dl_persuade := True, dl_intercept := ''prepare'', dl_detect := ''block'', dl_enforce := ''pre_commit'', dl_notify := ''on_failure'', dl_record := True\<rparr>"

definition GitDefenseLayers :: "string \<Rightarrow> string \<Rightarrow> string \<Rightarrow> string \<Rightarrow> string \<Rightarrow> defense_layers" where
  "GitDefenseLayers intercept mediate detect enforce verify =
     empty_layers\<lparr>dl_persuade := True, dl_intercept := intercept, dl_mediate := mediate, dl_detect := detect, dl_enforce := enforce, dl_verify := verify, dl_notify := ''on_block'', dl_record := True\<rparr>"

definition hook_route_defense_layers :: "defense_layers" where
  "hook_route_defense_layers =
     empty_layers\<lparr>dl_persuade := True, dl_intercept := ''block'', dl_detect := ''block'', dl_notify := ''on_block'', dl_record := True\<rparr>"

section \<open>Git policies\<close>

definition git_staged_admin_policy :: "(int \<Rightarrow> string) \<Rightarrow> any_map \<Rightarrow> (string \<times> principle) list \<Rightarrow> string \<Rightarrow> policy_definition" where
  "git_staged_admin_policy fl config principles config_source_root =
     empty_definition\<lparr>pol_id := ''git.staged_admin_files'',
      pol_category := ''git'',
      pol_source := \<lparr>source_file = ''config.yaml'', source_path = ''git.staged_admin_files''\<rparr>,
      pol_principle_ids := principle_refs principles [''one-path-for-critical-operations''],
      pol_default_severity := ''block'',
      pol_supported_modes := [''block'', ''ask'', ''record''],
      pol_message := ''Administrative staged files require explicit handling.'',
      pol_suggestion := ''Ask an admin to approve this coding-ethos session, then '' @ ''run the protected git command with --admin-approved.'',
      pol_defense_layers := GitDefenseLayers ''ask'' ''wrapper'' ''block'' ''pre_commit'' ''git_state'',
      pol_applies_to := empty_applies_to\<lparr>at_commands := [''git commit''], at_tools := [''Bash'']\<rparr>,
      pol_evaluators := [\<lparr>eval_options = [(''ethos_root'', AString config_source_root),
        (''basenames'', AStrings (string_slice_at fl config [''git'', ''staged_admin_files'', ''basenames''] [''.pre-commit-config.yaml'', ''pre-commit-config.yaml'', ''.importlinter'', ''importlinter'', ''.pylintrc'', ''pylintrc'', ''pyproject.toml''])),
        (''dirs'', AStrings (string_slice_at fl config [''git'', ''staged_admin_files'', ''dirs''] [''.pre-commit'', ''pre-commit'']))], eval_kind = ''git_state'', eval_name = ''git.staged_admin_files''\<rparr>]\<rparr>"

definition git_commit_head_policy :: "(string \<times> principle) list \<Rightarrow> policy_definition" where
  "git_commit_head_policy principles =
     empty_definition\<lparr>pol_id := ''git.commit_head_advanced'',
      pol_category := ''git'',
      pol_source := \<lparr>source_file = ''config.yaml'', source_path = ''git.commit_head_advanced''\<rparr>,
      pol_principle_ids := principle_refs principles [''evidence-based-engineering-and-decision-quality''],
      pol_default_severity := ''annotate'',
      pol_supported_modes := [''annotate'', ''record'', ''block''],
      pol_message := ''Commit success must be verified by checking that HEAD advanced.'',
      pol_suggestion := ''Compare pre-commit and post-commit HEAD before reporting success.'',
      pol_defense_layers := GitDefenseLayers [] ''wrapper'' ''record'' [] ''git_state'',
      pol_applies_to := empty_applies_to\<lparr>at_commands := [''git commit''], at_tools := [''Bash'']\<rparr>,
      pol_evaluators := [\<lparr>eval_options = [], eval_kind = ''git_state'', eval_name = ''git.commit_head_advanced''\<rparr>]\<rparr>"

definition git_commit_attribution_policy :: "(int \<Rightarrow> string) \<Rightarrow> any_map \<Rightarrow> (string \<times> principle) list \<Rightarrow> policy_definition" where
  "git_commit_attribution_policy fl config principles =
     empty_definition\<lparr>pol_id := ''git.commit_attribution'',
      pol_category := ''git'',
      pol_source := \<lparr>source_file = ''config.yaml'', source_path = ''go.commit_attribution.blocked_names''\<rparr>,
      pol_principle_ids := principle_refs principles [''no-self-promotion'', ''one-path-for-critical-operations''],
      pol_default_severity := ''block'',
      pol_supported_modes := [''block'', ''record''],
      pol_message := ''Commit messages must not contain AI attribution.'',
      pol_suggestion := sentence [''Remove AI co-author, generated-by, assisted-by, or bot'', ''attribution before committing.''],
      pol_defense_layers := GitDefenseLayers ''block'' ''wrapper'' ''block'' ''commit_msg'' [],
      pol_applies_to := empty_applies_to\<lparr>at_commands := [''git commit''], at_tools := [''Bash'']\<rparr>,
      pol_evaluators := [\<lparr>eval_options = [(''blocked_names'', AStrings (string_slice_at fl config [''go'', ''commit_attribution'', ''blocked_names''] [''claude'', ''anthropic'', ''gpt'', ''chatgpt'', ''openai'', ''copilot'', ''github copilot'', ''ai assistant'', ''ai agent'', ''llm'', ''large language model'', ''gemini'', ''bard'', ''cursor'']))], eval_kind = ''argv'', eval_name = ''git.commit_attribution''\<rparr>]\<rparr>"

definition git_commit_lint_policy :: "(int \<Rightarrow> string) \<Rightarrow> any_map \<Rightarrow> (string \<times> principle) list \<Rightarrow> policy_definition" where
  "git_commit_lint_policy fl config principles =
     empty_definition\<lparr>pol_id := ''git.commitlint'',
      pol_category := ''git'',
      pol_source := \<lparr>source_file = ''config.yaml'', source_path = ''go.commitlint''\<rparr>,
      pol_principle_ids := principle_refs principles [''one-path-for-critical-operations''],
      pol_default_severity := ''block'',
      pol_supported_modes := [''block'', ''record''],
      pol_message := ''Commit messages must follow the configured conventional format.'',
      pol_suggestion := sentence [''Use exactly: type(scope): concise subject,'', ''then a blank line before the body.''],
      pol_defense_layers := GitDefenseLayers ''block'' ''wrapper'' ''block'' ''commit_msg'' [],
      pol_applies_to := empty_applies_to\<lparr>at_commands := [''git commit''], at_tools := [''Bash'']\<rparr>,
      pol_evaluators := [\<lparr>eval_options = [(''allowed_types'', AStrings (string_slice_at fl config [''go'', ''commitlint'', ''allowed_types''] [''chore'', ''docs'', ''feat'', ''fix'', ''perf'', ''refactor'', ''test''])),
        (''ignored_prefixes'', AStrings (string_slice_at fl config [''go'', ''commitlint'', ''ignored_prefixes''] [''Merge '', ''Revert '', ''fixup! '', ''squash! ''])),
        (''max_header_length'', AInt (int_at config [''go'', ''commitlint'', ''max_header_length''] 150))], eval_kind = ''git_state'', eval_name = ''git.commitlint''\<rparr>]\<rparr>"

definition git_wrapper_required_policy :: "(string \<times> principle) list \<Rightarrow> policy_definition" where
  "git_wrapper_required_policy principles =
     empty_definition\<lparr>pol_id := ''git.wrapper_required'',
      pol_category := ''git'',
      pol_source := \<lparr>source_file = ''config.yaml'', source_path = ''git.wrapper_required''\<rparr>,
      pol_principle_ids := principle_refs principles [''one-path-for-critical-operations'', ''no-rationalized-shortcuts''],
      pol_default_severity := ''block'',
      pol_supported_modes := [''block'', ''record''],
      pol_message := ''Direct git execution must use the approved coding-ethos '' @ ''git route for this agent provider.'',
      pol_suggestion := ''Resubmit the command through the suggested cerun '' @ ''command so git operations stay inside the managed policy path.'',
      pol_defense_layers := GitDefenseLayers ''block'' ''wrapper'' ''block'' [] [],
      pol_applies_to := empty_applies_to\<lparr>at_commands := [''git''], at_tools := [''Bash'']\<rparr>,
      pol_evaluators := [\<lparr>eval_options = [], eval_kind = ''argv'', eval_name = ''git.wrapper_required''\<rparr>]\<rparr>"

section \<open>The policies of the hook routes\<close>

definition core_hook_route_policies :: "(string \<times> principle) list \<Rightarrow> policies" where
  "core_hook_route_policies principles =
     [(''shell.file_tool_emulation'', empty_definition\<lparr>pol_id := ''shell.file_tool_emulation'',
      pol_category := ''shell'',
      pol_source := \<lparr>source_file = ''config.yaml'', source_path = ''shell.file_tool_emulation''\<rparr>,
      pol_principle_ids := principle_refs principles [''one-path-for-critical-operations''],
      pol_default_severity := ''block'',
      pol_supported_modes := [''block'', ''record''],
      pol_defense_layers := hook_route_defense_layers,
      pol_message := ''Shell file access must use provider file tools instead '' @ ''of Bash file-tool emulation.'',
      pol_suggestion := ''Read and write files with the provider'' @ [CHR 0x27] @ ''s own file '' @ ''tools. This covers cat, sed, awk and tee reading a file '' @ ''operand, echo or printf redirected into one, and any command '' @ ''redirected from a file.'',
      pol_applies_to := empty_applies_to\<lparr>at_tools := [''Bash'']\<rparr>,
      pol_evaluators := [\<lparr>eval_options = [], eval_kind = ''external'', eval_name = ''shell.file_tool_emulation''\<rparr>]\<rparr>),
    (''memory.centralized'', empty_definition\<lparr>pol_id := ''memory.centralized'',
      pol_category := ''memory'',
      pol_source := \<lparr>source_file = ''config.yaml'', source_path = ''memory.centralized''\<rparr>,
      pol_principle_ids := principle_refs principles [''one-path-for-critical-operations''],
      pol_default_severity := ''block'',
      pol_supported_modes := [''block'', ''record''],
      pol_defense_layers := hook_route_defense_layers,
      pol_message := ''Memory access is routed to the central store.'',
      pol_suggestion := ''Use the central memory store rather than a '' @ ''provider-specific location, so one set of memories is shared '' @ ''rather than several that disagree.'',
      pol_evaluators := [\<lparr>eval_options = [], eval_kind = ''external'', eval_name = ''memory.centralized''\<rparr>]\<rparr>),
    (''hook.provider_required'', empty_definition\<lparr>pol_id := ''hook.provider_required'',
      pol_category := ''hook'',
      pol_source := \<lparr>source_file = ''config.yaml'', source_path = ''hook.provider_required''\<rparr>,
      pol_principle_ids := principle_refs principles [''one-path-for-critical-operations''],
      pol_default_severity := ''block'',
      pol_supported_modes := [''block'', ''record''],
      pol_defense_layers := hook_route_defense_layers,
      pol_message := ''Hook input must identify the agent provider.'',
      pol_suggestion := ''Send the provider with the hook payload. Policy '' @ ''depends on which provider is running, so an unnamed one '' @ ''cannot be evaluated and is refused rather than guessed at.'',
      pol_evaluators := [\<lparr>eval_options = [], eval_kind = ''external'', eval_name = ''hook.provider_required''\<rparr>]\<rparr>),
    (''hook.parallel_tool_batch_unsupported'', empty_definition\<lparr>pol_id := ''hook.parallel_tool_batch_unsupported'',
      pol_category := ''hook'',
      pol_source := \<lparr>source_file = ''config.yaml'', source_path = ''hook.parallel_tool_batch_unsupported''\<rparr>,
      pol_principle_ids := principle_refs principles [''one-path-for-critical-operations''],
      pol_default_severity := ''block'',
      pol_supported_modes := [''block'', ''record''],
      pol_defense_layers := hook_route_defense_layers,
      pol_message := ''Parallel tool batches with multiple actions are not '' @ ''supported.'',
      pol_suggestion := ''Send the actions one at a time. A batch is evaluated '' @ ''as a unit, so a batch that mixes permitted and refused '' @ ''actions cannot be answered precisely.'',
      pol_evaluators := [\<lparr>eval_options = [], eval_kind = ''external'', eval_name = ''hook.parallel_tool_batch_unsupported''\<rparr>]\<rparr>)]"

definition required_gate_exit_status_route_policy :: "(string \<times> principle) list \<Rightarrow> policy_definition" where
  "required_gate_exit_status_route_policy principles =
     empty_definition\<lparr>pol_id := ''shell.required_gate_exit_status'',
      pol_category := ''shell'',
      pol_source := \<lparr>source_file = ''config.yaml'', source_path = ''shell.required_gate_exit_status''\<rparr>,
      pol_principle_ids := principle_refs principles [''validation-at-the-gate'', ''evidence-based-engineering-and-decision-quality''],
      pol_default_severity := ''block'',
      pol_supported_modes := [''block'', ''record''],
      pol_defense_layers := hook_route_defense_layers,
      pol_message := ''Required repository gates must return their own exact '' @ ''terminal status.'',
      pol_suggestion := ''Run the gate directly. If output must be filtered or '' @ ''logged, enable pipefail or capture the gate status immediately '' @ ''and exit with that exact value.'',
      pol_applies_to := empty_applies_to\<lparr>at_tools := [''Bash'']\<rparr>,
      pol_evaluators := [\<lparr>eval_options = [], eval_kind = ''external'', eval_name = ''shell.required_gate_exit_status''\<rparr>]\<rparr>"

definition hook_route_policies :: "(string \<times> principle) list \<Rightarrow> policies" where
  "hook_route_policies principles =
     (let p = required_gate_exit_status_route_policy principles
      in map_set (pol_id p) p (core_hook_route_policies principles))"

definition ProxySearchReplaceEditPolicy :: "policy_definition" where
  "ProxySearchReplaceEditPolicy =
     empty_definition\<lparr>pol_id := ''proxy.search_replace_edit'',
      pol_category := ''proxy'',
      pol_source := \<lparr>source_file = ''docs/AGENT_PROXY.md'', source_path = ''Search/Replace Edit Enforcement''\<rparr>,
      pol_default_severity := ''block'',
      pol_supported_modes := [''block'', ''record'', ''advise''],
      pol_message := ''File edits must use exact SEARCH/REPLACE blocks that match '' @ ''the current file content exactly once.'',
      pol_suggestion := ''Use Edit or MultiEdit with a non-empty old_string that '' @ ''matches exactly one current file span; do not rewrite existing files '' @ ''with Write.'',
      pol_principle_ids := [''one-path-for-critical-operations'', ''security-by-design''],
      pol_defense_layers := CodeDefenseLayers,
      pol_applies_to := empty_applies_to\<lparr>at_tools := [''Write'', ''Edit'', ''MultiEdit'']\<rparr>,
      pol_evaluators := [\<lparr>eval_options = [], eval_kind = ''text'', eval_name = ''proxy.search_replace_edit''\<rparr>]\<rparr>"

section \<open>Python policies\<close>

definition python_policy_message :: "string \<Rightarrow> string" where
  "python_policy_message policy_id =
     (if policy_id = ''python.conditional_imports'' then sentence [''Required dependencies should fail immediately;'', ''conditional, nested, or dynamic imports create soft dependency paths.'']
      else if policy_id = ''python.functional_idioms'' then sentence [''Ad-hoc closures and assigned lambdas obscure reusable behavior;'', ''use Python'' @ [CHR 0x27] @ ''s functional helpers when they make intent clearer.'']
      else if policy_id = ''python.optional_returns'' then sentence [''Required values should not be modeled as optional'', ''returns unless explicitly exempted.'']
      else if policy_id = ''python.catch_and_silence'' then sentence [''Silent exception handling hides failures and violates'', ''fail-fast behavior.'']
      else if policy_id = ''python.structured_logging'' then sentence [''Logging should preserve structured context instead of'', ''formatting it away.'']
      else if policy_id = ''python.direct_imports'' then sentence [''Direct imports from protected packages bypass the'', ''intended public interface.'']
      else if policy_id = ''python.bare_except'' then ''Bare except clauses hide exception types and are forbidden.''
      else if policy_id = ''python.pyproject_ignores'' then ''pyproject.toml contains forbidden linter ignore configuration.''
      else if policy_id = ''python.uv_exclude_newer'' then ''uv dependency resolution must exclude newly uploaded packages.''
      else ''Unexplained type ignore suppressions are forbidden.'')"

definition python_policy_suggestion :: "string \<Rightarrow> string" where
  "python_policy_suggestion policy_id =
     (if policy_id = ''python.conditional_imports'' then ''Move required imports to module scope or repair the module '' @ ''boundary that made the import conditional.''
      else if policy_id = ''python.functional_idioms'' then ''Use functools.partial, operator helpers, itertools utilities, '' @ ''or a named helper instead of ad-hoc closure factories.''
      else if policy_id = ''python.optional_returns'' then ''Use a required return type or configure a narrow exemption.''
      else if policy_id = ''python.catch_and_silence'' then ''Handle the exception explicitly or let it fail with useful context.''
      else if policy_id = ''python.structured_logging'' then ''Use structured logging fields according to the repo policy.''
      else if policy_id = ''python.direct_imports'' then ''Import through the package public API or configure an exempt path.''
      else if policy_id = ''python.bare_except'' then ''Catch a precise exception type and handle it explicitly.''
      else if policy_id = ''python.pyproject_ignores'' then ''Move file-specific ignores into the target files with documented '' @ ''justification.''
      else if policy_id = ''python.uv_exclude_newer'' then ''Set [tool.uv].exclude-newer to the configured review window.''
      else ''Remove the suppression or document the narrow technical reason.'')"

record compiled_policy_spec =
  cps_policy :: policy_definition
  cps_id :: string
  cps_enabled_path :: "string list"

definition python_policy_spec :: "string \<Rightarrow> string list \<Rightarrow> string list \<Rightarrow> compiled_policy_spec" where
  "python_policy_spec policy_id enabled_path principle_ids =
     \<lparr>cps_policy = empty_definition\<lparr>pol_id := policy_id,
      pol_category := ''python'',
      pol_source := \<lparr>source_file = ''config.yaml'', source_path = policy_id\<rparr>,
      pol_principle_ids := principle_ids,
      pol_default_severity := ''block'',
      pol_supported_modes := [''block'', ''advise'', ''annotate'', ''record''],
      pol_message := python_policy_message policy_id,
      pol_suggestion := python_policy_suggestion policy_id,
      pol_defense_layers := CodeDefenseLayers,
      pol_applies_to := empty_applies_to\<lparr>at_languages := [''python''], at_file_patterns := [''**/*.py'']\<rparr>,
      pol_evaluators := [\<lparr>eval_options = [], eval_kind = ''ast'', eval_name = policy_id\<rparr>]\<rparr>,
      cps_id = policy_id, cps_enabled_path = enabled_path\<rparr>"

definition pyproject_ignores_policy_spec :: "(int \<Rightarrow> string) \<Rightarrow> any_map \<Rightarrow> (string \<times> principle) list \<Rightarrow> compiled_policy_spec" where
  "pyproject_ignores_policy_spec fl config principles =
     (let policy_id = ''python.pyproject_ignores'';
          options = [(''allowed_ignore_patterns'', AStrings (string_slice_at fl config [''python'', ''pyproject_ignores'', ''allowed_ignore_patterns''] [])),
        (''allowed_exclude_patterns'', AStrings (string_slice_at fl config [''python'', ''pyproject_ignores'', ''allowed_exclude_patterns''] [])),
        (''allowed_mypy_missing_imports'', AStrings (string_slice_at fl config [''python'', ''pyproject_ignores'', ''allowed_mypy_missing_imports''] []))]
      in \<lparr>cps_policy = empty_definition\<lparr>pol_id := policy_id,
      pol_category := ''python'',
      pol_source := \<lparr>source_file = ''config.yaml'', source_path = ''python.pyproject_ignores''\<rparr>,
      pol_principle_ids := principle_refs principles [''linting-as-code-quality-enforcement''],
      pol_default_severity := ''block'',
      pol_supported_modes := [''block'', ''record''],
      pol_message := python_policy_message policy_id,
      pol_suggestion := python_policy_suggestion policy_id,
      pol_defense_layers := CodeDefenseLayers,
      pol_applies_to := empty_applies_to\<lparr>at_file_patterns := [''pyproject.toml'', ''**/pyproject.toml'']\<rparr>,
      pol_evaluators := [\<lparr>eval_options = options, eval_kind = ''toml'', eval_name = policy_id\<rparr>]\<rparr>,
      cps_id = policy_id, cps_enabled_path = [''python'', ''pyproject_ignores'']\<rparr>)"

definition uv_exclude_newer_policy_spec :: "any_map \<Rightarrow> (string \<times> principle) list \<Rightarrow> compiled_policy_spec" where
  "uv_exclude_newer_policy_spec config principles =
     (let policy_id = ''python.uv_exclude_newer'';
          configured = string_at config [''python'', ''uv_exclude_newer'', ''expected_value''];
          expected_value = (if configured = [] then ''7 days'' else configured);
          options = [(''expected_value'', AString expected_value)]
      in \<lparr>cps_policy = empty_definition\<lparr>pol_id := policy_id,
      pol_category := ''python'',
      pol_source := \<lparr>source_file = ''config.yaml'', source_path = ''python.uv_exclude_newer''\<rparr>,
      pol_principle_ids := principle_refs principles [''security-by-design''],
      pol_default_severity := ''block'',
      pol_supported_modes := [''block'', ''record''],
      pol_message := python_policy_message policy_id,
      pol_suggestion := python_policy_suggestion policy_id,
      pol_defense_layers := CodeDefenseLayers,
      pol_applies_to := empty_applies_to\<lparr>at_file_patterns := [''pyproject.toml'', ''**/pyproject.toml'']\<rparr>,
      pol_evaluators := [\<lparr>eval_options = options, eval_kind = ''toml'', eval_name = policy_id\<rparr>]\<rparr>,
      cps_id = policy_id, cps_enabled_path = [''python'', ''uv_exclude_newer'']\<rparr>)"

definition pytest_gate_policy_spec :: "(int \<Rightarrow> string) \<Rightarrow> any_map \<Rightarrow> (string \<times> principle) list \<Rightarrow> compiled_policy_spec" where
  "pytest_gate_policy_spec fl config principles =
     (let command = string_slice_at fl config [''python'', ''pytest_gate'', ''test_command''] [''pytest'']
      in \<lparr>cps_policy = empty_definition\<lparr>pol_id := ''pytest.gate'',
      pol_category := ''pytest'',
      pol_source := \<lparr>source_file = ''config.yaml'', source_path = ''python.pytest_gate''\<rparr>,
      pol_principle_ids := principle_refs principles [''testing-as-specification''],
      pol_default_severity := ''block'',
      pol_supported_modes := [''block'', ''prepare'', ''annotate'', ''record''],
      pol_message := ''The configured pytest gate must pass before claiming readiness.'',
      pol_suggestion := ''Run the configured pytest gate and address failures.'',
      pol_defense_layers := PytestDefenseLayers,
      pol_applies_to := empty_applies_to\<lparr>at_commands := [''pytest''], at_tools := [''Bash'']\<rparr>,
      pol_evaluators := [\<lparr>eval_options = [(''command'', AStrings command)], eval_kind = ''external'', eval_name = ''pytest.gate''\<rparr>]\<rparr>,
      cps_id = ''pytest.gate'', cps_enabled_path = [''python'', ''pytest_gate'']\<rparr>)"

definition python_policy_specs :: "(int \<Rightarrow> string) \<Rightarrow> any_map \<Rightarrow> (string \<times> principle) list \<Rightarrow> compiled_policy_spec list" where
  "python_policy_specs fl config principles =
     [python_policy_spec ''python.conditional_imports'' [''python'', ''conditional_imports''] (principle_refs principles [''no-conditional-imports'']),
      python_policy_spec ''python.functional_idioms'' [''python'', ''functional_idioms''] (principle_refs principles [''functional-idioms'']),
      python_policy_spec ''python.optional_returns'' [''python'', ''optional_returns''] (principle_refs principles [''no-optional-types-for-required-dependencies'']),
      python_policy_spec ''python.catch_and_silence'' [''python'', ''catch_and_silence''] (principle_refs principles [''fail-fast-fail-hard-overview'', ''exception-hierarchy-and-error-messages'']),
      python_policy_spec ''python.structured_logging'' [''python'', ''structured_logging''] (principle_refs principles [''radical-visibility'']),
      python_policy_spec ''python.direct_imports'' [''python'', ''direct_imports''] (principle_refs principles [''protocol-first-design'']),
      python_policy_spec ''python.bare_except'' [''python'', ''catch_and_silence''] (principle_refs principles [''exception-hierarchy-and-error-messages'']),
      python_policy_spec ''python.unexplained_type_ignore'' [''python'', ''comment_suppressions''] (principle_refs principles [''linting-as-code-quality-enforcement'']),
      pyproject_ignores_policy_spec fl config principles,
      uv_exclude_newer_policy_spec config principles,
      pytest_gate_policy_spec fl config principles]"

section \<open>Shell, syntax and generated files\<close>

definition shell_policy :: "string \<Rightarrow> string list \<Rightarrow> string \<Rightarrow> string \<Rightarrow> policy_definition" where
  "shell_policy policy_id principle_ids message suggestion =
     empty_definition\<lparr>pol_id := policy_id,
      pol_category := ''shell'',
      pol_source := \<lparr>source_file = ''config.yaml'', source_path = policy_id\<rparr>,
      pol_principle_ids := principle_ids,
      pol_default_severity := ''block'',
      pol_supported_modes := [''block'', ''record''],
      pol_message := message,
      pol_suggestion := suggestion,
      pol_defense_layers := GitDefenseLayers ''block'' [] ''block'' [] [],
      pol_applies_to := empty_applies_to\<lparr>at_tools := [''Bash'']\<rparr>,
      pol_evaluators := [\<lparr>eval_options = [], eval_kind = ''shell'', eval_name = policy_id\<rparr>]\<rparr>"

definition shell_best_practices_policy :: "(int \<Rightarrow> string) \<Rightarrow> any_map \<Rightarrow> (string \<times> principle) list \<Rightarrow> policy_definition" where
  "shell_best_practices_policy fl config principles =
     (let require_common = string_slice_at fl config [''shell'', ''best_practices'', ''require_common_for_prefixes'']
        (string_slice_at fl config [''go'', ''shell'', ''require_common_for_prefixes''] [''scripts/''])
      in empty_definition\<lparr>pol_id := ''shell.best_practices'',
      pol_category := ''shell'',
      pol_source := \<lparr>source_file = ''config.yaml'', source_path = ''shell.best_practices''\<rparr>,
      pol_principle_ids := principle_refs principles [''static-analysis-is-the-first-line-of-defense''],
      pol_default_severity := ''block'',
      pol_supported_modes := [''block'', ''record''],
      pol_message := ''Shell scripts must follow repository shell safety practices.'',
      pol_suggestion := sentence [''Use a valid shell shebang, strict mode, and required common'', ''helpers.''],
      pol_defense_layers := CodeDefenseLayers,
      pol_applies_to := empty_applies_to\<lparr>at_file_patterns := [''**/*.sh'', ''**/*.bash'']\<rparr>,
      pol_evaluators := [\<lparr>eval_options = [(''require_common_for_prefixes'', AStrings require_common)], eval_kind = ''shell'', eval_name = ''shell.best_practices''\<rparr>]\<rparr>)"

definition file_syntax_policy :: "(int \<Rightarrow> string) \<Rightarrow> any_map \<Rightarrow> (string \<times> principle) list \<Rightarrow> policy_definition" where
  "file_syntax_policy fl config principles =
     (let extensions = string_slice_at fl config [''syntax'', ''file_syntax'', ''extensions''] [''.json'', ''.toml'', ''.yaml'', ''.yml'']
      in empty_definition\<lparr>pol_id := ''syntax.file_syntax'',
      pol_category := ''syntax'',
      pol_source := \<lparr>source_file = ''config.yaml'', source_path = ''syntax.file_syntax''\<rparr>,
      pol_principle_ids := principle_refs principles [''validation-at-the-gate''],
      pol_default_severity := ''block'',
      pol_supported_modes := [''block'', ''record''],
      pol_message := ''Structured data files must parse before they enter the repo.'',
      pol_suggestion := ''Fix invalid JSON, TOML, or YAML syntax before committing.'',
      pol_defense_layers := CodeDefenseLayers,
      pol_applies_to := empty_applies_to\<lparr>at_file_patterns := [''**/*.json'', ''**/*.toml'', ''**/*.yaml'', ''**/*.yml'']\<rparr>,
      pol_evaluators := [\<lparr>eval_options = [(''extensions'', AStrings extensions)], eval_kind = ''config'', eval_name = ''syntax.file_syntax''\<rparr>]\<rparr>)"

definition merge_conflict_policy :: "(int \<Rightarrow> string) \<Rightarrow> any_map \<Rightarrow> (string \<times> principle) list \<Rightarrow> policy_definition" where
  "merge_conflict_policy fl config principles =
     (let markers = string_slice_at fl config [''syntax'', ''merge_conflict'', ''markers''] [''<<<<<<<'', ''======='', ''>>>>>>>'', ''|||||||'']
      in empty_definition\<lparr>pol_id := ''syntax.merge_conflict'',
      pol_category := ''syntax'',
      pol_source := \<lparr>source_file = ''config.yaml'', source_path = ''syntax.merge_conflict''\<rparr>,
      pol_principle_ids := principle_refs principles [''validation-at-the-gate''],
      pol_default_severity := ''block'',
      pol_supported_modes := [''block'', ''record''],
      pol_message := ''Unresolved merge conflict markers are forbidden.'',
      pol_suggestion := ''Resolve the conflict and remove all conflict markers.'',
      pol_defense_layers := CodeDefenseLayers,
      pol_applies_to := empty_applies_to\<lparr>at_file_patterns := [''**/*'']\<rparr>,
      pol_evaluators := [\<lparr>eval_options = [(''markers'', AStrings markers)], eval_kind = ''text'', eval_name = ''syntax.merge_conflict''\<rparr>]\<rparr>)"

definition generated_config_freshness_options :: "string \<Rightarrow> any_map" where
  "generated_config_freshness_options config_source_root =
     [(''ethos_root'', AString config_source_root),
        (''repo'', AString ''.'')]"

definition generated_config_policy :: "(string \<times> principle) list \<Rightarrow> string \<Rightarrow> policy_definition" where
  "generated_config_policy principles config_source_root =
     empty_definition\<lparr>pol_id := ''generated_config.freshness'',
      pol_category := ''config'',
      pol_source := \<lparr>source_file = ''config.yaml'', source_path = ''generated_config.freshness''\<rparr>,
      pol_principle_ids := principle_refs principles [''static-analysis-is-the-first-line-of-defense''],
      pol_default_severity := ''block'',
      pol_supported_modes := [''block'', ''ask'', ''advise'', ''annotate'', ''record''],
      pol_message := ''Generated tool configuration must match source policy.'',
      pol_suggestion := ''Run the configured tool-config sync/check command.'',
      pol_defense_layers := GeneratedConfigDefenseLayers,
      pol_applies_to := empty_applies_to\<lparr>at_paths := [''ruff.toml'', ''mypy.ini'', ''pyrightconfig.json'', ''.yamllint.yml'', ''.bandit.yml'', ''.sqlfluff'', ''tombi.toml'']\<rparr>,
      pol_evaluators := [\<lparr>eval_options = generated_config_freshness_options config_source_root, eval_kind = ''config'', eval_name = ''generated_config.freshness''\<rparr>]\<rparr>"

definition generated_gemini_prompts_freshness_options :: "string \<Rightarrow> any_map" where
  "generated_gemini_prompts_freshness_options config_source_root =
     [(''ethos_root'', AString config_source_root),
        (''repo'', AString ''.'')]"

definition generated_gemini_prompts_policy :: "(string \<times> principle) list \<Rightarrow> string \<Rightarrow> policy_definition" where
  "generated_gemini_prompts_policy principles config_source_root =
     empty_definition\<lparr>pol_id := ''generated_gemini_prompts.freshness'',
      pol_category := ''config'',
      pol_source := \<lparr>source_file = ''config.yaml'', source_path = ''generated_gemini_prompts.freshness''\<rparr>,
      pol_principle_ids := principle_refs principles [''static-analysis-is-the-first-line-of-defense''],
      pol_default_severity := ''block'',
      pol_supported_modes := [''block'', ''ask'', ''advise'', ''annotate'', ''record''],
      pol_message := ''Generated Gemini prompt pack must match source policy.'',
      pol_suggestion := ''Run the configured Gemini prompt sync/check command.'',
      pol_defense_layers := GeneratedConfigDefenseLayers,
      pol_applies_to := empty_applies_to\<lparr>at_paths := [''.coding-ethos/gemini/prompt-pack.json'']\<rparr>,
      pol_evaluators := [\<lparr>eval_options = generated_gemini_prompts_freshness_options config_source_root, eval_kind = ''config'', eval_name = ''generated_gemini_prompts.freshness''\<rparr>]\<rparr>"

definition generated_agent_skills_freshness_options :: "string \<Rightarrow> any_map" where
  "generated_agent_skills_freshness_options config_source_root =
     [(''ethos_root'', AString config_source_root),
        (''repo'', AString ''.'')]"

definition generated_agent_skills_policy :: "(string \<times> principle) list \<Rightarrow> string \<Rightarrow> policy_definition" where
  "generated_agent_skills_policy principles config_source_root =
     empty_definition\<lparr>pol_id := ''generated_agent_skills.freshness'',
      pol_category := ''config'',
      pol_source := \<lparr>source_file = ''config.yaml'', source_path = ''generated_agent_skills.freshness''\<rparr>,
      pol_principle_ids := principle_refs principles [''static-analysis-is-the-first-line-of-defense'', ''generated-files-are-derived-artifacts''],
      pol_default_severity := ''block'',
      pol_supported_modes := [''block'', ''ask'', ''advise'', ''annotate'', ''record''],
      pol_message := ''Generated agent skill surfaces must match source policy.'',
      pol_suggestion := ''Run the configured agent skill sync/check command.'',
      pol_defense_layers := GeneratedConfigDefenseLayers,
      pol_applies_to := empty_applies_to\<lparr>at_paths := [''.agents/skills'', ''.claude/skills'', ''.codex/skills'', ''.gemini/extensions/coding-ethos/skills'', ''.gemini/extensions/coding-ethos/gemini-extension.json'']\<rparr>,
      pol_evaluators := [\<lparr>eval_options = generated_agent_skills_freshness_options config_source_root, eval_kind = ''config'', eval_name = ''generated_agent_skills.freshness''\<rparr>]\<rparr>"

section \<open>File guards\<close>

definition private_key_policy :: "any_map \<Rightarrow> (string \<times> principle) list \<Rightarrow> policy_definition" where
  "private_key_policy config principles =
     (let configured = string_at config [''security'', ''private_key'', ''pattern''];
          pattern = (if configured = [] then ''-----BEGIN [A-Z0-9 ]*PRIVATE KEY-----'' else configured)
      in empty_definition\<lparr>pol_id := ''security.private_key'',
      pol_category := ''security'',
      pol_source := \<lparr>source_file = ''config.yaml'', source_path = ''security.private_key''\<rparr>,
      pol_principle_ids := principle_refs principles [''security-by-design''],
      pol_default_severity := ''block'',
      pol_supported_modes := [''block'', ''record''],
      pol_message := ''Private keys must not be committed.'',
      pol_suggestion := ''Remove secrets from source and rotate exposed credentials.'',
      pol_defense_layers := CodeDefenseLayers,
      pol_applies_to := empty_applies_to\<lparr>at_file_patterns := [''**/*'']\<rparr>,
      pol_evaluators := [\<lparr>eval_options = [(''pattern'', AString pattern)], eval_kind = ''text'', eval_name = ''security.private_key''\<rparr>]\<rparr>)"

definition shebang_policy :: "(string \<times> principle) list \<Rightarrow> policy_definition" where
  "shebang_policy principles =
     empty_definition\<lparr>pol_id := ''filesystem.shebangs'',
      pol_category := ''filesystem'',
      pol_source := \<lparr>source_file = ''config.yaml'', source_path = ''filesystem.shebangs''\<rparr>,
      pol_principle_ids := principle_refs principles [''static-analysis-is-the-first-line-of-defense''],
      pol_default_severity := ''block'',
      pol_supported_modes := [''block'', ''record''],
      pol_message := ''Executable scripts and shebangs must agree.'',
      pol_suggestion := ''Add a valid shebang to executable scripts and mark shebang scripts executable.'',
      pol_defense_layers := CodeDefenseLayers,
      pol_applies_to := empty_applies_to\<lparr>at_file_patterns := [''**/*'']\<rparr>,
      pol_evaluators := [\<lparr>eval_options = [], eval_kind = ''text'', eval_name = ''filesystem.shebangs''\<rparr>]\<rparr>"

definition pii_scrubber_options :: "(int \<Rightarrow> string) \<Rightarrow> any_map \<Rightarrow> any_map" where
  "pii_scrubber_options fl config =
     [(''patterns'', AStrings (string_slice_at fl config [''filesystem'', ''pii_scrubber'', ''patterns''] [''/(home|Users)/[A-Za-z0-9._-]+/'', ''lbox-worktrees/[A-Za-z0-9._-]+'', ''/tmp/tmp'' @ [CHR 0x5C] @ ''.[A-Za-z0-9._-]+''])),
        (''literals'', AStrings (string_slice_at fl config [''filesystem'', ''pii_scrubber'', ''literals''] [])),
        (''allowed_patterns'', AStrings (string_slice_at fl config [''filesystem'', ''pii_scrubber'', ''allowed_patterns''] [''/home/agent/''])),
        (''exempt_prefixes'', AStrings (string_slice_at fl config [''filesystem'', ''pii_scrubber'', ''exempt_prefixes''] [''.git/'']))]"

definition pii_scrubber_policy :: "(int \<Rightarrow> string) \<Rightarrow> any_map \<Rightarrow> (string \<times> principle) list \<Rightarrow> policy_definition" where
  "pii_scrubber_policy fl config principles =
     empty_definition\<lparr>pol_id := ''repo.pii_scrubber'',
      pol_category := ''repo'',
      pol_source := \<lparr>source_file = ''config.yaml'', source_path = ''filesystem.pii_scrubber''\<rparr>,
      pol_principle_ids := principle_refs principles [''security-by-design'', ''radical-visibility''],
      pol_default_severity := ''block'',
      pol_supported_modes := [''block'', ''record''],
      pol_message := ''Local-machine PII must not be committed.'',
      pol_suggestion := ''Replace local paths, usernames, hostnames, and worktree names with generic placeholders.'',
      pol_defense_layers := CodeDefenseLayers,
      pol_applies_to := empty_applies_to\<lparr>at_file_patterns := [''**/*'']\<rparr>,
      pol_evaluators := [\<lparr>eval_options = pii_scrubber_options fl config, eval_kind = ''text'', eval_name = ''repo.pii_scrubber''\<rparr>]\<rparr>"

definition base_license_header_policy :: "(string \<times> principle) list \<Rightarrow> string \<Rightarrow> string \<Rightarrow> any_map \<Rightarrow> policy_definition" where
  "base_license_header_policy principles source_file1 source_path1 options =
     empty_definition\<lparr>pol_id := ''repo.license_header'',
      pol_category := ''repo'',
      pol_source := \<lparr>source_file = source_file1, source_path = source_path1\<rparr>,
      pol_principle_ids := principle_refs principles [''documentation-as-contract''],
      pol_default_severity := ''block'',
      pol_supported_modes := [''block'', ''record''],
      pol_message := sentence [''First-party source files must carry the configured SPDX'', ''license contract.''],
      pol_suggestion := ''Add the configured LICENSE file and matching SPDX source headers.'',
      pol_defense_layers := CodeDefenseLayers,
      pol_applies_to := empty_applies_to\<lparr>at_file_patterns := [''**/*.go'', ''**/*.py'', ''**/*.sh'']\<rparr>,
      pol_evaluators := [\<lparr>eval_options = options, eval_kind = ''text'', eval_name = ''repo.license_header''\<rparr>]\<rparr>"

definition config_license_header_options :: "(int \<Rightarrow> string) \<Rightarrow> any_map \<Rightarrow> any_map" where
  "config_license_header_options fl config =
     [(''extensions'', AStrings (string_slice_at fl config [''filesystem'', ''license_header'', ''extensions''] [''.go'', ''.py'', ''.sh''])),
        (''exempt_prefixes'', AStrings (string_slice_at fl config [''filesystem'', ''license_header'', ''exempt_prefixes''] [''.git/''])),
        (''exempt_basenames'', AStrings (string_slice_at fl config [''filesystem'', ''license_header'', ''exempt_basenames''] [])),
        (''required'', AStrings (string_slice_at fl config [''filesystem'', ''license_header'', ''required''] [''SPDX-FileCopyrightText:'', ''SPDX-License-Identifier:''])),
        (''scan_lines'', AInt (int_at config [''filesystem'', ''license_header'', ''scan_lines''] 5))]"

definition repo_license_required_headers :: "string \<Rightarrow> string \<Rightarrow> string list" where
  "repo_license_required_headers spdx_id copyright_text =
     (if spdx_id = [] then [] else [''SPDX-License-Identifier: '' @ spdx_id]) @
     (if copyright_text = [] then [] else [''SPDX-FileCopyrightText: '' @ copyright_text])"

definition repo_license_scan_lines :: "any_map \<Rightarrow> int" where
  "repo_license_scan_lines config = int_at config [''repo'', ''license'', ''scan_lines''] 5"

definition repo_license_header_options :: "(int \<Rightarrow> string) \<Rightarrow> any_map \<Rightarrow> string \<Rightarrow> string \<Rightarrow> string \<Rightarrow> any_map" where
  "repo_license_header_options fl config spdx_id copyright_text license_file =
     [(''extensions'', AStrings (string_slice_at fl config [''repo'', ''license'', ''extensions''] [''.go'', ''.py'', ''.sh''])),
        (''exempt_prefixes'', AStrings (string_slice_at fl config [''repo'', ''license'', ''exempt_prefixes''] [''.git/''])),
        (''exempt_basenames'', AStrings (string_slice_at fl config [''repo'', ''license'', ''exempt_basenames''] [])),
        (''required'', AStrings (repo_license_required_headers spdx_id copyright_text)),
        (''scan_lines'', AInt (repo_license_scan_lines config)),
        (''license_file'', AString license_file),
        (''spdx_id'', AString spdx_id)]"

fun repo_license_string :: "any_map \<Rightarrow> string list \<Rightarrow> string" where
  "repo_license_string config [] = []"
| "repo_license_string config (key # keys) =
     (let v = string_at config [''repo'', ''license'', key]
      in if v \<noteq> [] then v else repo_license_string config keys)"

definition repo_license_configured :: "any_map \<Rightarrow> bool" where
  "repo_license_configured repo_config \<longleftrightarrow>
     enabled_at repo_config [''repo'', ''license''] \<and>
     (repo_license_string repo_config [''spdx_identifier'', ''spdx''] \<noteq> [] \<or>
      repo_license_string repo_config [''copyright''] \<noteq> [])"

definition repo_license_text_string :: "any_map \<Rightarrow> string" where
  "repo_license_text_string config =
     (case value_at config [''repo'', ''license'', ''text''] of
        Some (AString s) \<Rightarrow> if trim_space s = [] then [] else s
      | _ \<Rightarrow> [])"

text \<open>The replacer takes, at every position, the first of its patterns that matches there.\<close>

function replace_patterns :: "(string \<times> string) list \<Rightarrow> string \<Rightarrow> string" where
  "replace_patterns ps [] = []"
| "replace_patterns ps (c # s) =
     (case List.find (\<lambda>(old, new). old \<noteq> [] \<and> has_prefix (c # s) old) ps of
        None \<Rightarrow> c # replace_patterns ps s
      | Some (old, new) \<Rightarrow> new @ replace_patterns ps (drop (length old - 1) s))"
  by pat_completeness auto
termination by (relation "measure (length \<circ> snd)") auto

definition fill_license_template :: "string \<Rightarrow> string \<Rightarrow> string" where
  "fill_license_template license copyright_text =
     (if copyright_text = [] then license
      else replace_patterns
             [(''<year> <copyright holders>'', copyright_text),
              (''[yyyy] [name of copyright owner]'', copyright_text),
              (''[year] [fullname]'', copyright_text)] license)"

definition normalize_license_text :: "string \<Rightarrow> string" where
  "normalize_license_text license =
     str_join [CHR 0x0A]
       (rev (dropWhile (\<lambda>l. trim_space l = [])
          (rev (split_on CHR 0x0A (replace_all [CHR 0x0D, CHR 0x0A] [CHR 0x0A] license))))) @ [CHR 0x0A]"

definition alphanumeric :: "char \<Rightarrow> bool" where
  "alphanumeric c \<longleftrightarrow>
     (let n = (of_char c :: nat) in 48 \<le> n \<and> n \<le> 57 \<or> 65 \<le> n \<and> n \<le> 90 \<or> 97 \<le> n \<and> n \<le> 122)"

definition valid_spdx_license_id :: "string \<Rightarrow> bool" where
  "valid_spdx_license_id spdx_id \<longleftrightarrow>
     (case spdx_id of
        [] \<Rightarrow> False
      | c # s \<Rightarrow> alphanumeric c \<and> list_all (\<lambda>d. alphanumeric d \<or> d \<in> set ''.+-'') s) \<and>
     \<not> str_contains spdx_id ''..''"

definition spdx_license_text_url :: "string \<Rightarrow> string" where
  "spdx_license_text_url spdx_id =
     ''https://raw.githubusercontent.com/spdx/license-list-data/v3.28.0/text/'' @ spdx_id @ ''.txt''"

datatype (plugins only: code size) compile_error =
    InvalidSPDXIdentifier string
  | LicenseDownload string
  | ExpressionsNotList string
  | ExpressionNotMapping string string nat
  | OverrideWithoutPolicy string string nat string
  | MissingExpressionField string string string nat
  | InvalidExpressionEnabled string string nat
  | ProtectedExpressionDisabled string string nat string
  | GovernanceNotBoolean string string nat
  | ExpressionInvalid string
  | UnknownExpressionPrinciple string string string
  | InvalidProxyDirection string string nat string
  | ConflictsWithExistingPolicy string nat string
  | OverrideReasonRequired string nat string
  | CannotOverrideProtected string nat string string
  | WeakensSeverity string nat string string string
  | RemovedConfigPath string "string list"
  | ReadSource string
  | NoPrinciples string
  | NoPolicies string
  | BundleInvalid

definition repo_license_text ::
  "(string \<Rightarrow> string option) \<Rightarrow> any_map \<Rightarrow> string \<Rightarrow> string \<Rightarrow> compile_error + string" where
  "repo_license_text download config spdx_id copyright_text =
     (let license = repo_license_text_string config
      in if license \<noteq> [] then Inr (normalize_license_text (fill_license_template license copyright_text))
         else
           let configured = string_at config [''repo'', ''license'', ''url'']
           in if configured = [] \<and> \<not> valid_spdx_license_id spdx_id then Inl (InvalidSPDXIdentifier spdx_id)
              else case download (if configured = [] then spdx_license_text_url spdx_id else configured) of
                None \<Rightarrow> Inl (LicenseDownload spdx_id)
              | Some body \<Rightarrow> Inr (normalize_license_text (fill_license_template body copyright_text)))"

definition license_header_policy ::
  "(int \<Rightarrow> string) \<Rightarrow> (string \<Rightarrow> string option) \<Rightarrow> any_map \<Rightarrow> any_map \<Rightarrow> (string \<times> principle) list \<Rightarrow>
   compile_error + policy_definition option" where
  "license_header_policy fl download config repo_config principles =
     (if repo_config = [] then
        (if \<not> enabled_at config [''filesystem'', ''license_header''] then Inr None
         else Inr (Some (base_license_header_policy principles ''config.yaml'' ''filesystem.license_header''
                           (config_license_header_options fl config))))
      else if \<not> repo_license_configured repo_config then Inr None
      else
        let spdx_id = repo_license_string config [''spdx_identifier'', ''spdx''];
            copyright_text = repo_license_string config [''copyright''];
            configured_file = repo_license_string config [''license_file''];
            license_file = (if configured_file = [] then ''LICENSE'' else configured_file);
            options = repo_license_header_options fl config spdx_id copyright_text license_file
        in if spdx_id = [] then
             Inr (Some (base_license_header_policy principles ''repo_config.yaml'' ''repo.license'' options))
           else case repo_license_text download config spdx_id copyright_text of
             Inl err \<Rightarrow> Inl err
           | Inr license \<Rightarrow>
               Inr (Some (base_license_header_policy principles ''repo_config.yaml'' ''repo.license''
                 (map_set ''expected_license_text'' (AString license) options))))"

section \<open>Collecting the policies\<close>

definition add_policy :: "policies \<Rightarrow> policy_definition \<Rightarrow> policies" where
  "add_policy policies p = map_set (pol_id p) p policies"

definition add_policies :: "policies \<Rightarrow> policy_definition list \<Rightarrow> policies" where
  "add_policies policies ps = foldl add_policy policies ps"

definition configured_python_policies ::
  "(int \<Rightarrow> string) \<Rightarrow> any_map \<Rightarrow> (string \<times> principle) list \<Rightarrow> policies \<Rightarrow> policies" where
  "configured_python_policies fl config principles policies =
     foldl (\<lambda>ps spec. if bool_at config (cps_enabled_path spec @ [''enabled''])
                      then map_set (cps_id spec) (cps_policy spec) ps else ps)
       policies (python_policy_specs fl config principles)"

definition add_git_policies ::
  "(int \<Rightarrow> string) \<Rightarrow> any_map \<Rightarrow> (string \<times> principle) list \<Rightarrow> string \<Rightarrow> policies \<Rightarrow> policies" where
  "add_git_policies fl config principles config_source_root policies =
     (let ps1 = add_policies policies
            [git_staged_admin_policy fl config principles config_source_root, git_commit_head_policy principles];
          ps2 = map_set ''git.wrapper_required'' (git_wrapper_required_policy principles) ps1;
          ps3 = foldl (\<lambda>ps (k, p). map_set k p ps) ps2 (hook_route_policies principles);
          ps4 = (if enabled_at config [''go'', ''commit_attribution'']
                 then map_set ''git.commit_attribution'' (git_commit_attribution_policy fl config principles) ps3
                 else ps3)
      in if enabled_at config [''go'', ''commitlint'']
         then map_set ''git.commitlint'' (git_commit_lint_policy fl config principles) ps4 else ps4)"

definition add_syntax_policies ::
  "(int \<Rightarrow> string) \<Rightarrow> any_map \<Rightarrow> (string \<times> principle) list \<Rightarrow> policies \<Rightarrow> policies" where
  "add_syntax_policies fl config principles policies =
     (let ps1 = (if policy_config_enabled config ''syntax.file_syntax''
                 then map_set ''syntax.file_syntax'' (file_syntax_policy fl config principles) policies
                 else policies)
      in if policy_config_enabled config ''syntax.merge_conflict''
         then map_set ''syntax.merge_conflict'' (merge_conflict_policy fl config principles) ps1 else ps1)"

definition add_shell_policies ::
  "(int \<Rightarrow> string) \<Rightarrow> any_map \<Rightarrow> (string \<times> principle) list \<Rightarrow> policies \<Rightarrow> policies" where
  "add_shell_policies fl config principles policies =
     foldl (\<lambda>ps p. if policy_config_enabled config (pol_id p) then add_policy ps p else ps) policies
       [shell_policy ''shell.malformed_command''
          (principle_refs principles [''validation-at-the-gate'', ''one-path-for-critical-operations''])
          ''Malformed shell command text is forbidden.''
          ''Rewrite the command as valid shell syntax before continuing.'',
        shell_best_practices_policy fl config principles]"

definition add_proxy_policies :: "any_map \<Rightarrow> policies \<Rightarrow> policies" where
  "add_proxy_policies config policies =
     (if policy_config_enabled config (pol_id ProxySearchReplaceEditPolicy)
      then add_policy policies ProxySearchReplaceEditPolicy else policies)"

definition add_file_guard_policies ::
  "(int \<Rightarrow> string) \<Rightarrow> (string \<Rightarrow> string option) \<Rightarrow> any_map \<Rightarrow> any_map \<Rightarrow> (string \<times> principle) list \<Rightarrow>
   policies \<Rightarrow> compile_error + policies" where
  "add_file_guard_policies fl download config repo_config principles policies =
     (let ps1 = (if policy_config_enabled config ''security.private_key''
                 then map_set ''security.private_key'' (private_key_policy config principles) policies
                 else policies);
          ps2 = (if policy_config_enabled config ''filesystem.shebangs''
                 then map_set ''filesystem.shebangs'' (shebang_policy principles) ps1 else ps1);
          ps3 = (if enabled_at config [''filesystem'', ''pii_scrubber'']
                 then map_set ''repo.pii_scrubber'' (pii_scrubber_policy fl config principles) ps2 else ps2)
      in case license_header_policy fl download config repo_config principles of
           Inl err \<Rightarrow> Inl err
         | Inr None \<Rightarrow> Inr ps3
         | Inr (Some p) \<Rightarrow> Inr (map_set (pol_id p) p ps3))"

definition add_generated_policies :: "(string \<times> principle) list \<Rightarrow> string \<Rightarrow> policies \<Rightarrow> policies" where
  "add_generated_policies principles config_source_root policies =
     map_set ''generated_agent_skills.freshness'' (generated_agent_skills_policy principles config_source_root)
       (map_set ''generated_gemini_prompts.freshness''
          (generated_gemini_prompts_policy principles config_source_root)
          (map_set ''generated_config.freshness'' (generated_config_policy principles config_source_root)
             policies))"

definition builtin_policies ::
  "(int \<Rightarrow> string) \<Rightarrow> (string \<Rightarrow> string option) \<Rightarrow> any_map \<Rightarrow> any_map \<Rightarrow> (string \<times> principle) list \<Rightarrow> string \<Rightarrow>
   compile_error + policies" where
  "builtin_policies fl download config repo_config principles config_source_root =
     map_sum id (add_generated_policies principles config_source_root)
       (add_file_guard_policies fl download config repo_config principles
          (add_proxy_policies config
             (add_shell_policies fl config principles
                (add_syntax_policies fl config principles
                   (add_git_policies fl config principles config_source_root
                      (configured_python_policies fl config principles []))))))"

end
