(* ===== verification/ExpressionPolicy.thy ===== *)
theory ExpressionPolicy
  imports PolicyTables
begin

text \<open>
  \<open>go/internal/policy/expression_policy.go\<close>: the policies that configuration files, principles and
  repositories declare as expressions, and the governance that decides which of them may replace
  which. The validation of an expression is that of the expression library and an argument.
\<close>

section \<open>Sources\<close>

record expression_policy_source =
  xs_file :: string
  xs_path_prefix :: string
  xs_expressions :: "any list"

record governance =
  gv_override_reason :: string
  gv_override :: bool
  gv_allow_override :: bool
  gv_allow_severity_weaken :: bool
  gv_protected :: bool

definition expression_policy_source_from_config ::
  "any_map \<Rightarrow> string \<Rightarrow> compile_error + expression_policy_source option" where
  "expression_policy_source_from_config config file1 =
     (case value_at config [''policy'', ''expressions''] of
        None \<Rightarrow> Inr None
      | Some (AList expressions) \<Rightarrow>
          Inr (Some \<lparr>xs_file = file1, xs_path_prefix = ''policy.expressions'', xs_expressions = expressions\<rparr>)
      | Some _ \<Rightarrow> Inl (ExpressionsNotList file1))"

definition principle_expression_defaults :: "any list \<Rightarrow> string \<Rightarrow> any list" where
  "principle_expression_defaults expressions principle_id =
     map (\<lambda>raw. case raw of
            AMap e \<Rightarrow>
              if map_of e ''principle_ids'' = None \<and> principle_id \<noteq> []
              then AMap (map_set ''principle_ids'' (AList [AString principle_id]) e) else AMap e
          | _ \<Rightarrow> raw) expressions"

definition expression_policy_sources_from_principles ::
  "(int \<Rightarrow> string) \<Rightarrow> any_map \<Rightarrow> string \<Rightarrow> expression_policy_source list" where
  "expression_policy_sources_from_principles fl ethos file1 =
     (case any_at ethos ''principles'' of
        AList raws \<Rightarrow>
          List.map_filter (\<lambda>(index, raw).
            case raw of
              AMap principle \<Rightarrow>
                (case value_at principle [''policy'', ''expressions''] of
                   None \<Rightarrow> None
                 | Some (AList expressions) \<Rightarrow>
                     let principle_id = trim_space (sprint fl (any_at principle ''id''))
                     in Some \<lparr>xs_file = file1,
                          xs_path_prefix = ''principles['' @ principle_id @ ''].policy.expressions'',
                          xs_expressions = principle_expression_defaults expressions principle_id\<rparr>
                 | Some other \<Rightarrow>
                     Some \<lparr>xs_file = file1,
                       xs_path_prefix = ''principles['' @ itoa (int index) @ ''].policy.expressions'',
                       xs_expressions = [other]\<rparr>)
            | _ \<Rightarrow> None) (enumerate 0 raws)
      | _ \<Rightarrow> [])"

text \<open>The overrides of a repository are a map; its order is that of the list.\<close>

definition expression_policy_sources_from_repo_ethos ::
  "any_map \<Rightarrow> string \<Rightarrow> expression_policy_source list" where
  "expression_policy_sources_from_repo_ethos ethos file1 =
     (case value_at ethos [''principles'', ''overrides''] of
        None \<Rightarrow> []
      | Some (AMap overrides) \<Rightarrow>
          List.map_filter (\<lambda>(principle_id, raw).
            case raw of
              AMap override \<Rightarrow>
                (case value_at override [''policy'', ''expressions''] of
                   None \<Rightarrow> None
                 | Some v \<Rightarrow>
                     Some \<lparr>xs_file = file1,
                       xs_path_prefix = ''principles.overrides['' @ principle_id @ ''].policy.expressions'',
                       xs_expressions =
                         (case v of AList expressions \<Rightarrow> principle_expression_defaults expressions principle_id
                          | _ \<Rightarrow> [v])\<rparr>)
            | _ \<Rightarrow> None) overrides
      | Some other \<Rightarrow>
          [\<lparr>xs_file = file1, xs_path_prefix = ''principles.overrides'', xs_expressions = [other]\<rparr>])"

section \<open>Reading one expression\<close>

definition expression_required_string ::
  "(int \<Rightarrow> string) \<Rightarrow> any_map \<Rightarrow> string \<Rightarrow> string \<Rightarrow> string \<Rightarrow> nat \<Rightarrow> compile_error + string" where
  "expression_required_string fl e field file1 prefix1 index =
     (let v = trim_space (sprint fl (any_at e field))
      in if v = [] \<or> v = ''<nil>'' then Inl (MissingExpressionField field file1 prefix1 index) else Inr v)"

definition expression_governance ::
  "(int \<Rightarrow> string) \<Rightarrow> any_map \<Rightarrow> nat \<Rightarrow> string \<Rightarrow> compile_error + governance" where
  "expression_governance fl e index file1 =
     (case bool_option_from_map e ''protected'' True of
        None \<Rightarrow> Inl (GovernanceNotBoolean ''protected'' file1 index)
      | Some protected \<Rightarrow>
     (case bool_option_from_map e ''override'' False of
        None \<Rightarrow> Inl (GovernanceNotBoolean ''override'' file1 index)
      | Some override \<Rightarrow>
     (case bool_option_from_map e ''allow_override'' False of
        None \<Rightarrow> Inl (GovernanceNotBoolean ''allow_override'' file1 index)
      | Some allow_override \<Rightarrow>
     (case bool_option_from_map e ''allow_severity_weaken'' False of
        None \<Rightarrow> Inl (GovernanceNotBoolean ''allow_severity_weaken'' file1 index)
      | Some allow_weaken \<Rightarrow>
          Inr \<lparr>gv_override_reason = string_option_from_map fl e ''override_reason'' [],
               gv_override = override, gv_allow_override = allow_override,
               gv_allow_severity_weaken = allow_weaken, gv_protected = protected\<rparr>))))"

definition expression_policy_prelude ::
  "(int \<Rightarrow> string) \<Rightarrow> any_map \<Rightarrow> nat \<Rightarrow> string \<Rightarrow> string \<Rightarrow> compile_error + string \<times> governance \<times> bool" where
  "expression_policy_prelude fl e index file1 prefix1 =
     (case expression_required_string fl e ''id'' file1 prefix1 index of
        Inl err \<Rightarrow> Inl err
      | Inr policy_id \<Rightarrow>
     (case expression_governance fl e index file1 of
        Inl err \<Rightarrow> Inl err
      | Inr governance \<Rightarrow>
     (case bool_option_from_map e ''enabled'' True of
        None \<Rightarrow> Inl (InvalidExpressionEnabled file1 prefix1 index)
      | Some enabled \<Rightarrow>
          if \<not> enabled \<and> gv_protected governance
          then Inl (ProtectedExpressionDisabled file1 prefix1 index policy_id)
          else Inr (policy_id, governance, enabled))))"

record expression_content =
  xc_policy_id :: string
  xc_when :: string
  xc_message :: string
  xc_advice :: string
  xc_principle_ids :: "string list"

definition expression_policy_content ::
  "(int \<Rightarrow> string) \<Rightarrow> (string \<Rightarrow> string \<Rightarrow> bool) \<Rightarrow> any_map \<Rightarrow> nat \<Rightarrow> string \<Rightarrow> string \<Rightarrow> string \<Rightarrow>
   (string \<times> principle) list \<Rightarrow> compile_error + expression_content" where
  "expression_policy_content fl valid_expression e index file1 prefix1 policy_id principles =
     (case expression_required_string fl e ''when'' file1 prefix1 index of
        Inl err \<Rightarrow> Inl err
      | Inr when_text \<Rightarrow>
          if \<not> valid_expression policy_id when_text then Inl (ExpressionInvalid policy_id)
          else
            let principle_ids = string_slice_value fl (any_at e ''principle_ids'') []
            in if principle_ids = [] then Inl (MissingExpressionField ''principle_ids'' file1 prefix1 index)
               else case List.find (\<lambda>i. map_of principles i = None) principle_ids of
                 Some unknown \<Rightarrow> Inl (UnknownExpressionPrinciple file1 policy_id unknown)
               | None \<Rightarrow>
     (case expression_required_string fl e ''message'' file1 prefix1 index of
        Inl err \<Rightarrow> Inl err
      | Inr message \<Rightarrow>
     (case expression_required_string fl e ''advice'' file1 prefix1 index of
        Inl err \<Rightarrow> Inl err
      | Inr advice \<Rightarrow>
          Inr \<lparr>xc_policy_id = policy_id, xc_when = when_text, xc_message = message, xc_advice = advice,
               xc_principle_ids = principle_ids\<rparr>)))"

definition normalize_proxy_direction :: "string \<Rightarrow> string \<Rightarrow> string \<Rightarrow> nat \<Rightarrow> compile_error + string" where
  "normalize_proxy_direction direction file1 prefix1 index =
     (let d = to_lower (trim_space direction)
      in if d = [] then Inr ''both''
         else if d \<in> {''inbound'', ''outbound'', ''both''} then Inr d
         else Inl (InvalidProxyDirection file1 prefix1 index direction))"

definition expression_hook_tools :: "string \<Rightarrow> string list" where
  "expression_hook_tools scope =
     (if scope = ''proxy'' then []
      else if scope \<in> {''path'', ''file'', ''files''} then [''Bash'', ''Write'', ''Edit'', ''MultiEdit'']
      else [''Bash''])"

definition default_expression_dispatch_scopes :: "string \<Rightarrow> string list" where
  "default_expression_dispatch_scopes scope =
     (if scope = ''commit-msg'' then [''commit-msg'']
      else if scope \<in> {''smoke'', ''full'', ''cutover''} then [scope]
      else [''files'', ''staged''])"

fun first_present_value :: "any_map \<Rightarrow> string list \<Rightarrow> any" where
  "first_present_value m [] = ANil"
| "first_present_value m (k # ks) = (case map_of m k of Some v \<Rightarrow> v | None \<Rightarrow> first_present_value m ks)"

record expression_parts =
  xp_expression :: any_map
  xp_config :: any_map
  xp_governance :: governance
  xp_policy_id :: string
  xp_source_file :: string
  xp_source_path :: string
  xp_severity :: string
  xp_message :: string
  xp_advice :: string
  xp_scope :: string
  xp_mode :: string
  xp_proxy_direction :: string
  xp_when :: string
  xp_principle_ids :: "string list"
  xp_tools :: "string list"
  xp_command_patterns :: "string list"
  xp_dispatch_scopes :: "string list"
  xp_hook_events :: "string list"
  xp_path_patterns :: "string list"

definition expression_policy_parts_from_content ::
  "(int \<Rightarrow> string) \<Rightarrow> any_map \<Rightarrow> any_map \<Rightarrow> governance \<Rightarrow> string \<Rightarrow> string \<Rightarrow> nat \<Rightarrow> expression_content \<Rightarrow>
   compile_error + expression_parts" where
  "expression_policy_parts_from_content fl e config governance file1 prefix1 index content =
     (let scope = string_option_from_map fl e ''scope'' ''command'';
          severity = string_option_from_map fl e ''severity'' ''block'';
          mode = string_option_from_map fl e ''mode'' severity
      in case normalize_proxy_direction (string_option_from_map fl e ''proxy_direction'' ''both'')
                file1 prefix1 index of
           Inl err \<Rightarrow> Inl err
         | Inr direction \<Rightarrow>
             Inr \<lparr>xp_expression = e, xp_config = config, xp_governance = governance,
                  xp_policy_id = xc_policy_id content, xp_source_file = file1,
                  xp_source_path = prefix1 @ ''['' @ itoa (int index) @ '']'',
                  xp_severity = severity, xp_message = xc_message content, xp_advice = xc_advice content,
                  xp_scope = scope, xp_mode = mode, xp_proxy_direction = direction,
                  xp_when = xc_when content, xp_principle_ids = xc_principle_ids content,
                  xp_tools = string_slice_value fl (any_at e ''tools'') (expression_hook_tools scope),
                  xp_command_patterns = string_slice_value fl (any_at e ''command_patterns'') [],
                  xp_dispatch_scopes =
                    string_slice_value fl (first_present_value e [''lint_scopes'', ''dispatch_scopes''])
                      (default_expression_dispatch_scopes scope),
                  xp_hook_events =
                    string_slice_value_allow_empty fl (any_at e ''hook_events'') [''PreToolUse''],
                  xp_path_patterns = string_slice_value fl (any_at e ''path_patterns'') []\<rparr>)"

section \<open>Building the policy\<close>

definition expression_protected_paths :: "(int \<Rightarrow> string) \<Rightarrow> any_map \<Rightarrow> string list" where
  "expression_protected_paths fl config =
     string_slice_at fl config [''filesystem'', ''protected_path'', ''paths'']
       [''.bandit.yml'', ''.pylintrc'', ''.sqlfluff'', ''.yamllint.yml'',
        ''coding-ethos-hooks/coding-ethos-git-hook'', ''coding-ethos-hooks/bin/coding-ethos-agent-hooks'',
        ''coding-ethos-hooks/bin/coding-ethos-git'', ''coding-ethos-hooks/bin/coding-ethos-git-hook'',
        ''coding-ethos-hooks/bin/coding-ethos-hook'', ''coding-ethos-hooks/bin/coding-ethos-lint'',
        ''coding-ethos-hooks/bin/coding-ethos-policy'', ''coding-ethos-hooks/lefthook'', ''mypy.ini'',
        ''pyrightconfig.json'', ''ruff.toml'', ''tombi.toml'']"

definition expression_required_ignore_paths :: "(int \<Rightarrow> string) \<Rightarrow> string \<Rightarrow> any_map \<Rightarrow> string list" where
  "expression_required_ignore_paths fl policy_id config =
     (if policy_id \<noteq> ''repo.required_ignores'' then []
      else string_slice_at fl config [''filesystem'', ''required_ignores'', ''paths''] RuntimePaths)"

definition consumer_override_candidate_names :: "(int \<Rightarrow> string) \<Rightarrow> any_map \<Rightarrow> string list" where
  "consumer_override_candidate_names fl config =
     string_slice_at fl config [''bundle'', ''consumer_override_candidates'']
       [''repo_config.yaml'', ''repo_config.yml'', ''coding-ethos.repo.yaml'', ''coding-ethos.repo.yml'',
        ''coding-ethos.pre-commit.yaml'', ''coding-ethos.pre-commit.yml'']"

definition expression_defense_layers :: "string \<Rightarrow> defense_layers" where
  "expression_defense_layers policy_id =
     (if has_prefix policy_id ''git.''
      then GitDefenseLayers ''block'' ''wrapper'' ''block'' ''pre_commit'' ''git_state''
      else CodeDefenseLayers)"

definition thresholds_option :: "any_map \<Rightarrow> string \<Rightarrow> any_map" where
  "thresholds_option e key = (case any_at e key of AMap m \<Rightarrow> [(key, AMap m)] | _ \<Rightarrow> [])"

definition expression_evaluator_options :: "(int \<Rightarrow> string) \<Rightarrow> expression_parts \<Rightarrow> any_map" where
  "expression_evaluator_options fl p =
     (let g = xp_governance p; config = xp_config p
      in [(''command_patterns'', AStrings (xp_command_patterns p)),
          (''dispatch_scopes'', AStrings (xp_dispatch_scopes p)),
          (''hook_events'', AStrings (xp_hook_events p)),
          (''mode'', AString (xp_mode p)),
          (''override'', ABool (gv_override g)),
          (''override_reason'', AString (gv_override_reason g)),
          (''path_patterns'', AStrings (xp_path_patterns p)),
          (''proxy_direction'', AString (xp_proxy_direction p)),
          (''protected_branches'', AStrings (string_slice_at fl config
             [''filesystem'', ''protected_branch_write'', ''branches''] [''main'', ''master''])),
          (''protected_paths'', AStrings (expression_protected_paths fl config)),
          (''protected'', ABool (gv_protected g)),
          (''python_version'', AString (string_at config [''style'', ''python_version''])),
          (''config_candidates'', AStrings (consumer_override_candidate_names fl config)),
          (''required_ignore_paths'', AStrings (expression_required_ignore_paths fl (xp_policy_id p) config)),
          (''scope'', AString (xp_scope p)),
          (''skill_id'', AString (string_option_from_map fl (xp_expression p) ''skill_id'' [])),
          (''source_file'', AString (xp_source_file p)),
          (''source_roots'', AStrings (string_slice_at fl config [''python'', ''source_paths''] [])),
          (''tools'', AStrings (xp_tools p)),
          (''when'', AString (xp_when p)),
          (''allow_override'', ABool (gv_allow_override g)),
          (''allow_severity_weaken'', ABool (gv_allow_severity_weaken g))] @
         thresholds_option (xp_expression p) ''line_limit_thresholds'' @
         thresholds_option (xp_expression p) ''coverage_thresholds'')"

definition build_expression_policy :: "(int \<Rightarrow> string) \<Rightarrow> expression_parts \<Rightarrow> policy_definition" where
  "build_expression_policy fl p =
     empty_definition
       \<lparr>pol_id := xp_policy_id p, pol_category := ''expression'',
        pol_source := \<lparr>source_file = xp_source_file p, source_path = xp_source_path p\<rparr>,
        pol_principle_ids := xp_principle_ids p, pol_default_severity := xp_severity p,
        pol_supported_modes := [''block'', ''warn'', ''record'', ''advise''],
        pol_message := xp_message p, pol_suggestion := xp_advice p,
        pol_defense_layers := expression_defense_layers (xp_policy_id p),
        pol_applies_to := empty_applies_to\<lparr>at_tools := xp_tools p\<rparr>,
        pol_evaluators := [\<lparr>eval_options = expression_evaluator_options fl p, eval_kind = ''cel'',
                            eval_name = ''cel.expression''\<rparr>]\<rparr>"

text \<open>\<open>None\<close>: the expression is disabled.\<close>

definition expression_policy ::
  "(int \<Rightarrow> string) \<Rightarrow> (string \<Rightarrow> string \<Rightarrow> bool) \<Rightarrow> any_map \<Rightarrow> nat \<Rightarrow> string \<Rightarrow> string \<Rightarrow> any_map \<Rightarrow>
   (string \<times> principle) list \<Rightarrow> compile_error + (policy_definition \<times> governance) option" where
  "expression_policy fl valid_expression e index file1 prefix1 config principles =
     (case expression_policy_prelude fl e index file1 prefix1 of
        Inl err \<Rightarrow> Inl err
      | Inr (policy_id, governance, enabled) \<Rightarrow>
          if \<not> enabled then Inr None
          else case expression_policy_content fl valid_expression e index file1 prefix1 policy_id principles of
            Inl err \<Rightarrow> Inl err
          | Inr content \<Rightarrow>
              (case expression_policy_parts_from_content fl e config governance file1 prefix1 index content of
                 Inl err \<Rightarrow> Inl err
               | Inr parts \<Rightarrow> Inr (Some (build_expression_policy fl parts, governance))))"

section \<open>Governance\<close>

definition severity_rank :: "string \<Rightarrow> nat" where
  "severity_rank severity =
     (if severity = ''block'' then 50
      else if severity \<in> {''ask'', ''prepare''} then 40
      else if severity \<in> {''warn'', ''advise'', ''annotate''} then 30
      else if severity = ''record'' then 20
      else 0)"

definition is_cel_expression :: "evaluator_spec \<Rightarrow> bool" where
  "is_cel_expression ev \<longleftrightarrow> eval_kind ev = ''cel'' \<and> eval_name ev = ''cel.expression''"

definition governance_from_policy :: "(int \<Rightarrow> string) \<Rightarrow> policy_definition \<Rightarrow> governance option" where
  "governance_from_policy fl p =
     (if pol_category p \<noteq> ''expression'' then None
      else case List.find is_cel_expression (pol_evaluators p) of
        None \<Rightarrow> None
      | Some ev \<Rightarrow>
          let o1 = eval_options ev
          in Some \<lparr>gv_override_reason = string_option_from_map fl o1 ''override_reason'' [],
                  gv_override = bool_value_of (any_at o1 ''override''),
                  gv_allow_override = bool_value_of (any_at o1 ''allow_override''),
                  gv_allow_severity_weaken = bool_value_of (any_at o1 ''allow_severity_weaken''),
                  gv_protected = bool_value_of (any_at o1 ''protected'')\<rparr>)"

definition validate_expression_policy_override ::
  "(int \<Rightarrow> string) \<Rightarrow> string \<Rightarrow> nat \<Rightarrow> policy_definition \<Rightarrow> governance \<Rightarrow> policy_definition \<Rightarrow>
   compile_error option" where
  "validate_expression_policy_override fl file1 index replacement governance existing =
     (if \<not> gv_override governance then Some (ConflictsWithExistingPolicy file1 index (pol_id replacement))
      else if gv_override_reason governance = [] then
        Some (OverrideReasonRequired file1 index (pol_id replacement))
      else
        let cannot = CannotOverrideProtected file1 index (pol_id replacement) (source_file (pol_source existing))
        in case governance_from_policy fl existing of
             None \<Rightarrow> Some cannot
           | Some g \<Rightarrow>
               if \<not> gv_allow_override g then Some cannot
               else if severity_rank (pol_default_severity replacement) <
                       severity_rank (pol_default_severity existing) \<and> \<not> gv_allow_severity_weaken g
               then Some (WeakensSeverity file1 index (pol_id replacement)
                            (pol_default_severity existing) (pol_default_severity replacement))
               else None)"

definition add_expression ::
  "(int \<Rightarrow> string) \<Rightarrow> (string \<Rightarrow> string \<Rightarrow> bool) \<Rightarrow> any_map \<Rightarrow> (string \<times> principle) list \<Rightarrow>
   string \<Rightarrow> string \<Rightarrow> nat \<Rightarrow> any \<Rightarrow> policies \<Rightarrow> compile_error + policies" where
  "add_expression fl valid_expression config principles file1 prefix1 index raw policies =
     (case raw of
        AMap e \<Rightarrow>
          (case expression_policy fl valid_expression e index file1 prefix1 config principles of
             Inl err \<Rightarrow> Inl err
           | Inr None \<Rightarrow> Inr policies
           | Inr (Some (p, governance)) \<Rightarrow>
               (case map_of policies (pol_id p) of
                  Some existing \<Rightarrow>
                    (case validate_expression_policy_override fl file1 index p governance existing of
                       Some err \<Rightarrow> Inl err
                     | None \<Rightarrow> Inr (map_set (pol_id p) p policies))
                | None \<Rightarrow>
                    if gv_override governance
                    then Inl (OverrideWithoutPolicy file1 prefix1 index (pol_id p))
                    else Inr (map_set (pol_id p) p policies)))
      | _ \<Rightarrow> Inl (ExpressionNotMapping file1 prefix1 index))"

fun add_expressions_from ::
  "(int \<Rightarrow> string) \<Rightarrow> (string \<Rightarrow> string \<Rightarrow> bool) \<Rightarrow> any_map \<Rightarrow> (string \<times> principle) list \<Rightarrow>
   string \<Rightarrow> string \<Rightarrow> nat \<Rightarrow> any list \<Rightarrow> policies \<Rightarrow> compile_error + policies" where
  "add_expressions_from fl valid_expression config principles file1 prefix1 index [] policies = Inr policies"
| "add_expressions_from fl valid_expression config principles file1 prefix1 index (raw # raws) policies =
     (case add_expression fl valid_expression config principles file1 prefix1 index raw policies of
        Inl err \<Rightarrow> Inl err
      | Inr policies' \<Rightarrow>
          add_expressions_from fl valid_expression config principles file1 prefix1 (index + 1) raws policies')"

fun add_expression_policies ::
  "(int \<Rightarrow> string) \<Rightarrow> (string \<Rightarrow> string \<Rightarrow> bool) \<Rightarrow> any_map \<Rightarrow> (string \<times> principle) list \<Rightarrow>
   expression_policy_source list \<Rightarrow> policies \<Rightarrow> compile_error + policies" where
  "add_expression_policies fl valid_expression config principles [] policies = Inr policies"
| "add_expression_policies fl valid_expression config principles (s # sources) policies =
     (case add_expressions_from fl valid_expression config principles (xs_file s) (xs_path_prefix s) 0
             (xs_expressions s) policies of
        Inl err \<Rightarrow> Inl err
      | Inr policies' \<Rightarrow> add_expression_policies fl valid_expression config principles sources policies')"

end
