(* ===== verification/CompileDispatch.thy ===== *)
theory CompileDispatch
  imports ExpressionPolicy
begin

text \<open>
  \<open>go/internal/policy/compiler_dispatch.go\<close>: from the compiled policies to the tables that say which
  policy runs on which hook event and tool, in which scope of the linter and before and after which
  Git operation. The policies are a map; the loops over it follow the order of the list.
\<close>

section \<open>Hook tables\<close>

type_synonym hook_table = "(string \<times> (string \<times> hook_dispatch_entry list) list) list"

definition entries_of :: "(string \<times> 'a list) list \<Rightarrow> string \<Rightarrow> 'a list" where
  "entries_of m k = (case map_of m k of None \<Rightarrow> [] | Some v \<Rightarrow> v)"

definition hook_entries :: "hook_table \<Rightarrow> string \<Rightarrow> string \<Rightarrow> hook_dispatch_entry list" where
  "hook_entries hooks event tool = entries_of (entries_of hooks event) tool"

definition ensure_hook_tool :: "hook_table \<Rightarrow> string \<Rightarrow> string \<Rightarrow> hook_table" where
  "ensure_hook_tool hooks event tool =
     map_set event (map_set tool (hook_entries hooks event tool) (entries_of hooks event)) hooks"

definition append_entry :: "hook_table \<Rightarrow> string \<Rightarrow> string \<Rightarrow> hook_dispatch_entry \<Rightarrow> hook_table" where
  "append_entry hooks event tool e =
     map_set event (map_set tool (hook_entries hooks event tool @ [e]) (entries_of hooks event)) hooks"

definition plain_entry :: "string \<Rightarrow> string \<Rightarrow> hook_dispatch_entry" where
  "plain_entry policy_id mode =
     \<lparr>entry_policy_id = policy_id, entry_mode = mode, entry_command_patterns = [], entry_path_patterns = []\<rparr>"

definition has_policy :: "policies \<Rightarrow> string \<Rightarrow> bool" where
  "has_policy policies policy_id \<longleftrightarrow> map_of policies policy_id \<noteq> None"

definition add_git_hook_bypass_dispatch :: "policies \<Rightarrow> hook_table \<Rightarrow> hook_table" where
  "add_git_hook_bypass_dispatch policies hooks =
     (if has_policy policies ''git.hook_bypass''
      then append_entry hooks ''PreToolUse'' ''Bash'' (plain_entry ''git.hook_bypass'' ''block'') else hooks)"

definition blocking_bash_policies :: "string list" where
  "blocking_bash_policies =
     [''git.destructive_command'', ''git.merge_strategy_shortcut'', ''git.history_rewrite_prevention'',
      ''git.force_push_protected_branch'', ''git.checkout_protected_branch'', ''git.destructive_worktree'',
      ''git.protected_submodule_update'', ''git.change_dir_flag'', ''git.stash_blocked'', ''git.commitlint'',
      ''git.commit_attribution'', ''shell.malformed_command'', ''shell.dangerous_command'',
      ''shell.background_git'', ''shell.github_admin'', ''shell.forbidden_strings'']"

definition add_blocking_bash_dispatch :: "policies \<Rightarrow> hook_table \<Rightarrow> hook_table" where
  "add_blocking_bash_dispatch policies hooks =
     foldl (\<lambda>h i. if has_policy policies i
                  then append_entry h ''PreToolUse'' ''Bash'' (plain_entry i ''block'') else h)
       hooks blocking_bash_policies"

definition mutating_tools :: "string list" where
  "mutating_tools = [''Bash'', ''Write'', ''Edit'', ''MultiEdit'']"

definition add_to_tools :: "hook_table \<Rightarrow> string \<Rightarrow> string list \<Rightarrow> hook_dispatch_entry \<Rightarrow> hook_table" where
  "add_to_tools hooks event tools e = foldl (\<lambda>h tool. append_entry h event tool e) hooks tools"

definition add_protected_path_dispatch :: "policies \<Rightarrow> hook_table \<Rightarrow> hook_table" where
  "add_protected_path_dispatch policies hooks =
     (if has_policy policies ''filesystem.protected_path''
      then add_to_tools hooks ''PreToolUse'' mutating_tools (plain_entry ''filesystem.protected_path'' ''block'')
      else hooks)"

definition add_protected_branch_write_dispatch :: "policies \<Rightarrow> hook_table \<Rightarrow> hook_table" where
  "add_protected_branch_write_dispatch policies hooks =
     (if has_policy policies ''filesystem.protected_branch_write''
      then add_to_tools hooks ''PreToolUse'' mutating_tools
             (plain_entry ''filesystem.protected_branch_write'' ''block'')
      else hooks)"

definition python_write_dispatch_mode :: "string \<Rightarrow> string" where
  "python_write_dispatch_mode policy_id =
     (if policy_id = ''python.conditional_imports'' then ''block'' else ''advise'')"

definition python_write_policies :: "string list" where
  "python_write_policies =
     [''python.conditional_imports'', ''python.functional_idioms'', ''python.optional_returns'',
      ''python.catch_and_silence'', ''python.structured_logging'', ''python.direct_imports'',
      ''python.bare_except'', ''python.unexplained_type_ignore'']"

definition add_python_write_dispatch :: "policies \<Rightarrow> hook_table \<Rightarrow> hook_table" where
  "add_python_write_dispatch policies hooks =
     foldl (\<lambda>h i. if has_policy policies i
                  then add_to_tools h ''PreToolUse'' [''Write'', ''Edit'', ''MultiEdit'']
                         ((plain_entry i (python_write_dispatch_mode i))\<lparr>entry_path_patterns := [''**/*.py'']\<rparr>)
                  else h)
       hooks python_write_policies"

definition add_commit_head_dispatch :: "policies \<Rightarrow> hook_table \<Rightarrow> hook_table" where
  "add_commit_head_dispatch policies hooks =
     (if has_policy policies ''git.commit_head_advanced''
      then append_entry
             (append_entry hooks ''PreToolUse'' ''Bash''
                ((plain_entry ''git.commit_head_advanced'' ''record'')
                   \<lparr>entry_command_patterns := [''git commit'']\<rparr>))
             ''PostToolUse'' ''Bash''
             ((plain_entry ''git.commit_head_advanced'' ''block'')\<lparr>entry_command_patterns := [''git commit'']\<rparr>)
      else hooks)"

definition expression_dispatch_mode :: "(int \<Rightarrow> string) \<Rightarrow> policy_definition \<Rightarrow> evaluator_spec \<Rightarrow> string" where
  "expression_dispatch_mode fl p ev =
     (let mode = string_option_from_map fl (eval_options ev) ''mode'' []
      in if mode \<noteq> [] then mode else pol_default_severity p)"

definition hook_dispatch_contains :: "hook_dispatch_entry list \<Rightarrow> string \<Rightarrow> bool" where
  "hook_dispatch_contains entries policy_id \<longleftrightarrow> list_ex (\<lambda>e. entry_policy_id e = policy_id) entries"

definition expression_entry :: "(int \<Rightarrow> string) \<Rightarrow> string \<Rightarrow> policy_definition \<Rightarrow> evaluator_spec \<Rightarrow> hook_dispatch_entry" where
  "expression_entry fl policy_id p ev =
     \<lparr>entry_policy_id = policy_id, entry_mode = expression_dispatch_mode fl p ev,
      entry_command_patterns = string_slice_value fl (any_at (eval_options ev) ''command_patterns'') [],
      entry_path_patterns = string_slice_value fl (any_at (eval_options ev) ''path_patterns'') []\<rparr>"

definition expression_scope :: "(int \<Rightarrow> string) \<Rightarrow> evaluator_spec \<Rightarrow> string" where
  "expression_scope fl ev = string_option_from_map fl (eval_options ev) ''scope'' ''command''"

definition expression_events :: "(int \<Rightarrow> string) \<Rightarrow> evaluator_spec \<Rightarrow> string list" where
  "expression_events fl ev =
     string_slice_value_allow_empty fl (any_at (eval_options ev) ''hook_events'') [''PreToolUse'']"

definition expression_tools :: "(int \<Rightarrow> string) \<Rightarrow> evaluator_spec \<Rightarrow> string list" where
  "expression_tools fl ev =
     string_slice_value fl (any_at (eval_options ev) ''tools'') (expression_hook_tools (expression_scope fl ev))"

definition add_evaluator_hook_dispatch ::
  "(int \<Rightarrow> string) \<Rightarrow> string \<Rightarrow> policy_definition \<Rightarrow> evaluator_spec \<Rightarrow> hook_table \<Rightarrow> hook_table" where
  "add_evaluator_hook_dispatch fl policy_id p ev hooks =
     foldl (\<lambda>h (event, tool).
              if hook_dispatch_contains (hook_entries h event tool) policy_id
              then ensure_hook_tool h event tool
              else append_entry h event tool (expression_entry fl policy_id p ev))
       hooks (List.product (expression_events fl ev) (expression_tools fl ev))"

definition dispatched_evaluator :: "(int \<Rightarrow> string) \<Rightarrow> evaluator_spec \<Rightarrow> bool" where
  "dispatched_evaluator fl ev \<longleftrightarrow> is_cel_expression ev \<and> expression_scope fl ev \<noteq> ''proxy''"

definition add_expression_policies_to_hook_dispatch ::
  "(int \<Rightarrow> string) \<Rightarrow> policies \<Rightarrow> hook_table \<Rightarrow> hook_table" where
  "add_expression_policies_to_hook_dispatch fl policies hooks =
     foldl (\<lambda>h (policy_id, p).
              foldl (\<lambda>h ev. if dispatched_evaluator fl ev
                            then add_evaluator_hook_dispatch fl policy_id p ev h else h)
                h (pol_evaluators p))
       hooks policies"

definition compile_hook_dispatch :: "(int \<Rightarrow> string) \<Rightarrow> policies \<Rightarrow> hook_table" where
  "compile_hook_dispatch fl policies =
     add_expression_policies_to_hook_dispatch fl policies
       (add_commit_head_dispatch policies
          (add_python_write_dispatch policies
             (add_protected_branch_write_dispatch policies
                (add_protected_path_dispatch policies
                   (add_blocking_bash_dispatch policies
                      (add_git_hook_bypass_dispatch policies []))))))"

section \<open>Linter and Git tables\<close>

definition existing_policy_ids :: "policies \<Rightarrow> string list \<Rightarrow> string list" where
  "existing_policy_ids policies ids = filter (has_policy policies) ids"

definition file_lint_policy_ids :: "string list" where
  "file_lint_policy_ids =
     [''syntax.file_syntax'', ''syntax.merge_conflict'', ''security.private_key'', ''filesystem.shebangs'',
      ''filesystem.large_files'', ''filesystem.line_limits'', ''repo.pii_scrubber'', ''repo.license_header'',
      ''shell.malformed_command'', ''shell.best_practices'', ''shell.forbidden_strings'',
      ''python.conditional_imports'', ''python.functional_idioms'', ''python.optional_returns'',
      ''python.catch_and_silence'', ''python.structured_logging'', ''python.direct_imports'',
      ''python.pyproject_ignores'', ''python.uv_exclude_newer'']"

definition staged_git_policy_ids :: "string list" where
  "staged_git_policy_ids =
     [''git.hook_bypass'', ''git.destructive_command'', ''git.merge_strategy_shortcut'',
      ''git.history_rewrite_prevention'', ''git.force_push_protected_branch'',
      ''git.checkout_protected_branch'', ''git.destructive_worktree'', ''git.protected_submodule_update'',
      ''git.change_dir_flag'', ''git.stash_blocked'']"

definition staged_shell_policy_ids :: "string list" where
  "staged_shell_policy_ids =
     [''shell.malformed_command'', ''shell.dangerous_command'', ''shell.background_git'',
      ''shell.github_admin'', ''shell.forbidden_strings'', ''shell.best_practices'',
      ''git.commit_attribution'', ''git.staged_admin_files'']"

definition staged_filesystem_policy_ids :: "string list" where
  "staged_filesystem_policy_ids =
     [''filesystem.protected_path'', ''filesystem.protected_branch_write'', ''repo.required_ignores'',
      ''syntax.file_syntax'', ''syntax.merge_conflict'', ''security.private_key'', ''filesystem.shebangs'',
      ''filesystem.large_files'', ''filesystem.line_limits'', ''repo.pii_scrubber'', ''repo.license_header'']"

definition staged_python_policy_ids :: "string list" where
  "staged_python_policy_ids =
     [''python.conditional_imports'', ''python.functional_idioms'', ''python.optional_returns'',
      ''python.catch_and_silence'', ''python.structured_logging'', ''python.direct_imports'',
      ''python.bare_except'', ''python.unexplained_type_ignore'', ''python.pyproject_ignores'',
      ''python.uv_exclude_newer'']"

definition staged_lint_policy_ids :: "string list" where
  "staged_lint_policy_ids =
     staged_git_policy_ids @ staged_shell_policy_ids @ staged_filesystem_policy_ids @ staged_python_policy_ids"

definition test_gate_policy_ids :: "string list" where
  "test_gate_policy_ids =
     [''repo.required_ignores'', ''generated_config.freshness'', ''generated_gemini_prompts.freshness'',
      ''generated_agent_skills.freshness'', ''pytest.gate'']"

definition add_linter_scope :: "(string \<times> string list) list \<Rightarrow> string \<Rightarrow> string \<Rightarrow> (string \<times> string list) list" where
  "add_linter_scope linter scope policy_id =
     (if policy_id \<in> set (entries_of linter scope) then linter
      else map_set scope (entries_of linter scope @ [policy_id]) linter)"

definition add_expression_policies_to_linter_dispatch ::
  "(int \<Rightarrow> string) \<Rightarrow> policies \<Rightarrow> (string \<times> string list) list \<Rightarrow> (string \<times> string list) list" where
  "add_expression_policies_to_linter_dispatch fl policies linter =
     foldl (\<lambda>l (policy_id, p).
              foldl (\<lambda>l ev.
                 if eval_name ev = ''cel.expression'' \<and> expression_scope fl ev \<noteq> ''proxy''
                 then foldl (\<lambda>l scope. add_linter_scope l scope policy_id) l
                        (string_slice_value fl (any_at (eval_options ev) ''dispatch_scopes'')
                           [''files'', ''staged''])
                 else l) l (pol_evaluators p))
       linter policies"

definition compile_linter_dispatch :: "(int \<Rightarrow> string) \<Rightarrow> policies \<Rightarrow> (string \<times> string list) list" where
  "compile_linter_dispatch fl policies =
     add_expression_policies_to_linter_dispatch fl policies
       [(''files'', existing_policy_ids policies file_lint_policy_ids),
        (''staged'', existing_policy_ids policies staged_lint_policy_ids),
        (''smoke'', existing_policy_ids policies test_gate_policy_ids),
        (''full'', existing_policy_ids policies test_gate_policy_ids),
        (''cutover'', existing_policy_ids policies [''repo.required_ignores'']),
        (''commit-msg'', existing_policy_ids policies [''git.commitlint'', ''git.commit_attribution''])]"

definition git_dispatch_row ::
  "policies \<Rightarrow> string list \<Rightarrow> string list \<Rightarrow> git_operation_dispatch" where
  "git_dispatch_row policies pre post =
     \<lparr>dispatch_pre = existing_policy_ids policies pre, dispatch_post = existing_policy_ids policies post\<rparr>"

definition compile_git_dispatch :: "policies \<Rightarrow> (string \<times> git_operation_dispatch) list" where
  "compile_git_dispatch policies =
     [(''*'', git_dispatch_row policies [''git.change_dir_flag'', ''git.history_rewrite_prevention''] []),
      (''commit'', git_dispatch_row policies
         [''git.hook_bypass'', ''git.commitlint'', ''git.commit_attribution'', ''git.staged_admin_files'']
         [''git.commit_head_advanced'']),
      (''push'', git_dispatch_row policies [''git.hook_bypass'', ''git.force_push_protected_branch''] []),
      (''reset'', git_dispatch_row policies [''git.destructive_command''] []),
      (''clean'', git_dispatch_row policies [''git.destructive_command''] []),
      (''restore'', git_dispatch_row policies [''git.destructive_command''] []),
      (''switch'', git_dispatch_row policies [''git.checkout_protected_branch''] []),
      (''merge'', git_dispatch_row policies [''git.merge_strategy_shortcut''] []),
      (''worktree'', git_dispatch_row policies [''git.destructive_worktree''] []),
      (''submodule'', git_dispatch_row policies [''git.protected_submodule_update''] []),
      (''stash'', git_dispatch_row policies [''git.stash_blocked''] []),
      (''checkout'', git_dispatch_row policies
         [''git.destructive_command'', ''git.checkout_protected_branch''] [])]"

record dispatch_tables =
  dt_hooks :: hook_table
  dt_linter :: "(string \<times> string list) list"
  dt_git :: "(string \<times> git_operation_dispatch) list"

definition compile_dispatch :: "(int \<Rightarrow> string) \<Rightarrow> policies \<Rightarrow> dispatch_tables" where
  "compile_dispatch fl policies =
     \<lparr>dt_hooks = compile_hook_dispatch fl policies, dt_linter = compile_linter_dispatch fl policies,
      dt_git = compile_git_dispatch policies\<rparr>"

section \<open>What is dispatched\<close>

lemma map_of_entries_set: "entries_of (map_set k v m) k' = (if k = k' then v else entries_of m k')"
  by (simp add: entries_of_def)

lemma hook_entries_append:
  "hook_entries (append_entry hooks event tool e) event' tool' =
     hook_entries hooks event' tool' @ (if event = event' \<and> tool = tool' then [e] else [])"
  by (auto simp: append_entry_def hook_entries_def map_of_entries_set)

lemma hook_entries_ensure: "hook_entries (ensure_hook_tool hooks event tool) event' tool' = hook_entries hooks event' tool'"
  by (auto simp: ensure_hook_tool_def hook_entries_def map_of_entries_set)

lemma hook_entries_Nil [simp]: "hook_entries [] event tool = []"
  by (simp add: hook_entries_def entries_of_def)

lemma hook_entries_add_to_tools:
  "hook_entries (add_to_tools hooks event tools e) event' tool' =
     hook_entries hooks event' tool' @
       (if event = event' then replicate (count_list tools tool') e else [])"
proof (induction tools arbitrary: hooks)
  case (Cons t tools)
  then show ?case
    by (simp add: add_to_tools_def hook_entries_append replicate_app_Cons_same)
qed (simp add: add_to_tools_def)

lemmas hook_entries_simps = hook_entries_append hook_entries_ensure hook_entries_add_to_tools

text \<open>What the expression policies add to a table comes behind what is there, and an id is added once.\<close>

definition extends_table :: "hook_table \<Rightarrow> hook_table \<Rightarrow> bool" where
  "extends_table h h' \<longleftrightarrow> (\<forall>event tool. \<exists>new. hook_entries h' event tool = hook_entries h event tool @ new \<and>
     (\<forall>e \<in> set new. \<not> hook_dispatch_contains (hook_entries h event tool) (entry_policy_id e)))"

lemma extends_table_refl: "extends_table h h"
  by (simp add: extends_table_def)

lemma extends_table_trans: "extends_table h h' \<Longrightarrow> extends_table h' h'' \<Longrightarrow> extends_table h h''"
  unfolding extends_table_def hook_dispatch_contains_def list_ex_iff
  by (metis Un_iff append_assoc set_append)

lemma extends_table_fold:
  assumes "\<And>x h. x \<in> set xs \<Longrightarrow> extends_table h (f h x)"
  shows "extends_table h (foldl f h xs)"
  using assms
proof (induction xs arbitrary: h)
  case (Cons x xs)
  then show ?case using extends_table_trans [of h "f h x"] by simp
qed (simp add: extends_table_refl)

lemma extends_table_evaluator: "extends_table h (add_evaluator_hook_dispatch fl policy_id p ev h)"
  unfolding add_evaluator_hook_dispatch_def
proof (rule extends_table_fold)
  fix x and h :: hook_table
  show "extends_table h ((\<lambda>(event, tool).
              if hook_dispatch_contains (hook_entries h event tool) policy_id
              then ensure_hook_tool h event tool
              else append_entry h event tool (expression_entry fl policy_id p ev)) x)"
    by (cases x) (auto simp: extends_table_def hook_entries_simps expression_entry_def)
qed

lemma extends_table_expressions: "extends_table h (add_expression_policies_to_hook_dispatch fl policies h)"
  unfolding add_expression_policies_to_hook_dispatch_def
  by (auto intro!: extends_table_fold extends_table_evaluator simp: extends_table_refl)

end
