(* ===== verification/EvidenceMaps.thy ===== *)
theory EvidenceMaps
  imports PolicyTables
begin

text \<open>
  From the findings of a tool to the policies they are evidence for: \<open>go/diagnostics/enrich.go\<close>, with the
  maps that \<open>go/internal/policy/compiler_policies.go\<close> knows by itself or takes from the configuration.
\<close>

section \<open>Maps\<close>

record evidence_advice =
  ea_summary :: string
  ea_steps :: "string list"
  ea_rerun :: "string list"

record evidence_map =
  em_source :: string
  em_codes :: "string list"
  em_message_substrings :: "string list"
  em_policy_id :: string
  em_skill_id :: string
  em_principle_ids :: "string list"
  em_confidence :: string
  em_meaning :: string
  em_advice :: evidence_advice

definition empty_evidence_advice :: evidence_advice where
  "empty_evidence_advice = \<lparr>ea_summary = [], ea_steps = [], ea_rerun = []\<rparr>"

definition empty_evidence_map :: evidence_map where
  "empty_evidence_map =
     \<lparr>em_source = [], em_codes = [], em_message_substrings = [], em_policy_id = [], em_skill_id = [],
      em_principle_ids = [], em_confidence = [], em_meaning = [], em_advice = empty_evidence_advice\<rparr>"

section \<open>Enriching diagnostics\<close>

definition diagnostic_code_matches :: "string \<Rightarrow> string \<Rightarrow> bool" where
  "diagnostic_code_matches pat code \<longleftrightarrow>
     (let p = to_lower (trim_space pat); c = to_lower (trim_space code)
      in if p = [] \<or> c = [] then False
         else if p = ''*'' then True
         else if has_suffix p ''*'' then has_prefix c (trim_suffix p ''*'')
         else p = c)"

definition evidence_codes_match :: "string list \<Rightarrow> string \<Rightarrow> bool" where
  "evidence_codes_match patterns code \<longleftrightarrow>
     patterns = [] \<or> list_ex (\<lambda>p. diagnostic_code_matches p code) patterns"

definition evidence_messages_match :: "string list \<Rightarrow> string \<Rightarrow> bool" where
  "evidence_messages_match patterns message \<longleftrightarrow>
     (let m = to_lower (trim_space message)
      in patterns = [] \<or>
         m \<noteq> [] \<and> list_ex (\<lambda>p. let q = to_lower (trim_space p) in q \<noteq> [] \<and> str_contains m q) patterns)"

definition evidence_map_applies :: "diagnostic \<Rightarrow> evidence_map \<Rightarrow> bool" where
  "evidence_map_applies item m \<longleftrightarrow>
     equal_fold (trim_space (em_source m)) (diag_tool item) \<and>
     \<not> (em_codes m = [] \<and> em_message_substrings m = []) \<and>
     evidence_codes_match (em_codes m) (diag_code item) \<and>
     evidence_messages_match (em_message_substrings m) (diag_message item)"

definition enrich_diagnostic :: "diagnostic \<Rightarrow> evidence_map \<Rightarrow> diagnostic" where
  "enrich_diagnostic item m =
     item\<lparr>diag_policy_id := em_policy_id m, diag_principle_ids := em_principle_ids m,
          diag_confidence := em_confidence m, diag_meaning := em_meaning m,
          diag_advice := ea_summary (em_advice m), diag_skill_id := em_skill_id m,
          diag_advice_steps := ea_steps (em_advice m), diag_rerun := ea_rerun (em_advice m)\<rparr>"

definition Enrich :: "diagnostic list \<Rightarrow> evidence_map list \<Rightarrow> diagnostic list" where
  "Enrich items maps =
     map (\<lambda>item. case List.find (evidence_map_applies item) maps of
                   None \<Rightarrow> item
                 | Some m \<Rightarrow> enrich_diagnostic item m) items"

section \<open>The maps of the compiler\<close>

definition import_cycle_evidence_map ::
  "string \<Rightarrow> string list \<Rightarrow> string list \<Rightarrow> (string \<times> principle) list \<Rightarrow> evidence_map" where
  "import_cycle_evidence_map source1 codes message_substrings principles =
     empty_evidence_map\<lparr>em_source := source1,
      em_codes := codes,
      em_message_substrings := message_substrings,
      em_policy_id := ''python.import_cycles'',
      em_skill_id := ''conditional-imports'',
      em_principle_ids := principle_refs principles [''protocol-first-design'', ''solid-is-law''],
      em_confidence := ''medium'',
      em_meaning := ''Concrete modules depend on each other strongly enough that '' @ ''the type checker or linter sees an import cycle.'',
      em_advice := empty_evidence_advice\<lparr>ea_summary := ''Break the concrete dependency cycle with an explicit interface.'', ea_steps := [''Identify the two modules that import each other.'', ''Move the shared contract into a neutral module.'', ''In Python, model that contract with a Protocol when behavior is required.'', sentence [''Depend on the Protocol or smaller interface instead'', ''of the concrete implementation.'']], ea_rerun := [''make pre-commit'', ''make check'']\<rparr>\<rparr>"

definition default_ruff_evidence_map :: "(string \<times> principle) list \<Rightarrow> evidence_map" where
  "default_ruff_evidence_map principles =
     empty_evidence_map\<lparr>em_source := ''ruff'',
      em_codes := [''PLC'' @ ''0415''],
      em_policy_id := ''python.conditional_imports'',
      em_skill_id := ''conditional-imports'',
      em_principle_ids := principle_refs principles [''no-conditional-imports'', ''fail-fast-fail-hard-overview''],
      em_confidence := ''high'',
      em_meaning := ''Import executes away from module scope, usually inside '' @ ''runtime control flow, hiding a required dependency or masking '' @ ''cyclic design pressure.'',
      em_advice := empty_evidence_advice\<lparr>ea_summary := ''Move required imports to module scope. If that exposes '' @ ''a cycle, fix the design instead of hiding the dependency.'', ea_steps := [''Declare the dependency as required.'', ''Import it at module scope.'', sentence [''Use SOLID boundaries to split responsibilities when'', ''modules depend on each other.''], sentence [''In Python, introduce a Protocol in a neutral module'', ''when two concrete implementations would otherwise'', ''import each other.''], sentence [''Replace lazy, conditional, or fallback import paths'', ''with explicit startup validation.'']], ea_rerun := [''make pre-commit'', ''make check'']\<rparr>\<rparr>"

definition default_ruff_import_order_evidence_map :: "(string \<times> principle) list \<Rightarrow> evidence_map" where
  "default_ruff_import_order_evidence_map principles =
     empty_evidence_map\<lparr>em_source := ''ruff'',
      em_codes := [''E402''],
      em_policy_id := ''python.import_order'',
      em_skill_id := ''lint-remediation'',
      em_principle_ids := principle_refs principles [''static-analysis-is-the-first-line-of-defense'', ''linting-as-code-quality-enforcement''],
      em_confidence := ''high'',
      em_meaning := ''Import ordering is hiding setup side effects or runtime '' @ ''dependency flow.'',
      em_advice := empty_evidence_advice\<lparr>ea_summary := ''Move imports to the top of the module or split setup into a helper.'', ea_steps := [''Put imports before executable statements.'', ''Move path or environment setup into test fixtures or helper modules.'', ''Keep dependency loading explicit and reviewable.''], ea_rerun := [''make pre-commit'']\<rparr>\<rparr>"

definition default_ruff_sql_safety_evidence_map :: "(string \<times> principle) list \<Rightarrow> evidence_map" where
  "default_ruff_sql_safety_evidence_map principles =
     empty_evidence_map\<lparr>em_source := ''ruff'',
      em_codes := [''S608''],
      em_policy_id := ''python.sql_safety'',
      em_skill_id := ''lint-remediation'',
      em_principle_ids := principle_refs principles [''security-by-design'', ''linting-as-code-quality-enforcement''],
      em_confidence := ''high'',
      em_meaning := ''SQL text is being assembled dynamically and may bypass '' @ ''parameterization.'',
      em_advice := empty_evidence_advice\<lparr>ea_summary := ''Use parameterized SQL or a reviewed central SQL helper.'', ea_steps := [''Replace string-built SQL with placeholders and bound parameters.'', ''If dynamic identifiers are required, validate them against an allowlist.'', ''Keep test-only SQL safety exceptions explicit and narrow.''], ea_rerun := [''make pre-commit'']\<rparr>\<rparr>"

definition default_ruff_security_evidence_map :: "(string \<times> principle) list \<Rightarrow> evidence_map" where
  "default_ruff_security_evidence_map principles =
     empty_evidence_map\<lparr>em_source := ''ruff'',
      em_codes := [''S*''],
      em_policy_id := ''python.security_patterns'',
      em_skill_id := ''lint-remediation'',
      em_principle_ids := principle_refs principles [''security-by-design'', ''static-analysis-is-the-first-line-of-defense''],
      em_confidence := ''high'',
      em_meaning := ''Ruff security rules found code that weakens safe defaults.'',
      em_advice := empty_evidence_advice\<lparr>ea_summary := ''Fix the security finding structurally instead of suppressing it.'', ea_steps := [''Prefer validated inputs and least-privilege behavior.'', ''Replace suspicious APIs or unsafe construction with reviewed helpers.'', ''Keep security exceptions narrow, documented, and reviewable.''], ea_rerun := [''make pre-commit'', ''make check'']\<rparr>\<rparr>"

definition default_ruff_suppression_evidence_map :: "(string \<times> principle) list \<Rightarrow> evidence_map" where
  "default_ruff_suppression_evidence_map principles =
     empty_evidence_map\<lparr>em_source := ''ruff'',
      em_codes := [''RUF100'', ''PGH003'', ''PGH004''],
      em_policy_id := ''python.comment_suppressions'',
      em_skill_id := ''lint-remediation'',
      em_principle_ids := principle_refs principles [''linting-as-code-quality-enforcement'', ''universal-responsibility''],
      em_confidence := ''high'',
      em_meaning := ''A lint suppression is stale, broad, or too weakly '' @ ''explained to satisfy the code-quality contract.'',
      em_advice := empty_evidence_advice\<lparr>ea_summary := sentence [''Remove the suppression or replace it with the narrowest'', ''documented exception.''], ea_steps := [''Try the structural fix first.'', ''Remove stale noqa/type-ignore comments.'', ''When an exception is genuinely required, make it narrow and document the reason.''], ea_rerun := [''make pre-commit'']\<rparr>\<rparr>"

definition default_mypy_suppression_evidence_map :: "(string \<times> principle) list \<Rightarrow> evidence_map" where
  "default_mypy_suppression_evidence_map principles =
     empty_evidence_map\<lparr>em_source := ''mypy'',
      em_codes := [''unused-ignore'', ''ignore-without-code''],
      em_policy_id := ''python.comment_suppressions'',
      em_skill_id := ''lint-remediation'',
      em_principle_ids := principle_refs principles [''linting-as-code-quality-enforcement'', ''universal-responsibility''],
      em_confidence := ''high'',
      em_meaning := ''A type-ignore suppression is stale or too broad.'',
      em_advice := empty_evidence_advice\<lparr>ea_summary := ''Remove broad type ignores and fix the type boundary directly.'', ea_steps := [''Delete stale type-ignore comments.'', ''Replace broad ignores with precise types, adapters, or Protocol boundaries.'', ''If an ignore remains necessary, include the exact code and a local reason.''], ea_rerun := [''make pre-commit'', ''make check'']\<rparr>\<rparr>"

definition default_pyright_suppression_evidence_map :: "(string \<times> principle) list \<Rightarrow> evidence_map" where
  "default_pyright_suppression_evidence_map principles =
     empty_evidence_map\<lparr>em_source := ''pyright'',
      em_codes := [''reportUnnecessaryTypeIgnoreComment'', ''reportIgnoreCommentWithoutRule''],
      em_policy_id := ''python.comment_suppressions'',
      em_skill_id := ''lint-remediation'',
      em_principle_ids := principle_refs principles [''linting-as-code-quality-enforcement'', ''universal-responsibility''],
      em_confidence := ''high'',
      em_meaning := ''A Pyright ignore comment is stale or missing a precise rule.'',
      em_advice := empty_evidence_advice\<lparr>ea_summary := sentence [''Remove unnecessary Pyright ignores or make the remaining'', ''exception explicit.''], ea_steps := [''Delete unnecessary ignore comments.'', ''Fix the underlying type issue when Pyright still reports one.'', ''Do not use broad ignore comments as a substitute for correct interfaces.''], ea_rerun := [''make pre-commit'', ''make check'']\<rparr>\<rparr>"

definition default_ruff_docstring_evidence_map :: "(string \<times> principle) list \<Rightarrow> evidence_map" where
  "default_ruff_docstring_evidence_map principles =
     empty_evidence_map\<lparr>em_source := ''ruff'',
      em_codes := [''D*''],
      em_policy_id := ''docs.public_contract'',
      em_skill_id := ''lint-remediation'',
      em_principle_ids := principle_refs principles [''documentation-as-contract''],
      em_confidence := ''medium'',
      em_meaning := ''A public module, class, or function is missing contract '' @ ''documentation.'',
      em_advice := empty_evidence_advice\<lparr>ea_summary := ''Document the public contract instead of leaving behavior implicit.'', ea_steps := [sentence [''Add a concise docstring that states purpose,'', ''arguments, returns, and raised errors where relevant.''], ''Keep implementation narration out of the docstring.'', ''Update tests when the documented behavior changes.''], ea_rerun := [''make pre-commit'']\<rparr>\<rparr>"

definition default_pylint_docstring_evidence_map :: "(string \<times> principle) list \<Rightarrow> evidence_map" where
  "default_pylint_docstring_evidence_map principles =
     empty_evidence_map\<lparr>em_source := ''pylint'',
      em_codes := [''missing-module-docstring'', ''missing-class-docstring'', ''missing-function-docstring'', ''C0114'', ''C0115'', ''C0116''],
      em_policy_id := ''docs.public_contract'',
      em_skill_id := ''lint-remediation'',
      em_principle_ids := principle_refs principles [''documentation-as-contract''],
      em_confidence := ''medium'',
      em_meaning := ''Pylint found an undocumented public Python contract.'',
      em_advice := empty_evidence_advice\<lparr>ea_summary := ''Document the public contract in the code surface that owns it.'', ea_steps := [''Add a useful docstring at the reported module, class, or function.'', ''Explain behavior and constraints, not obvious implementation details.'', sentence [''Keep generated or private surfaces excluded through'', ''policy, not ad hoc suppressions.'']], ea_rerun := [''make pre-commit'']\<rparr>\<rparr>"

definition default_mypy_optional_type_evidence_map :: "(string \<times> principle) list \<Rightarrow> evidence_map" where
  "default_mypy_optional_type_evidence_map principles =
     empty_evidence_map\<lparr>em_source := ''mypy'',
      em_codes := [''union-attr'', ''return-value'', ''assignment'', ''arg-type''],
      em_policy_id := ''python.optional_required_types'',
      em_skill_id := ''lint-remediation'',
      em_principle_ids := principle_refs principles [''no-optional-types-for-required-dependencies'', ''static-analysis-is-the-first-line-of-defense''],
      em_confidence := ''medium'',
      em_meaning := ''A value used as required is typed as optional or incompatible '' @ ''with the required interface.'',
      em_advice := empty_evidence_advice\<lparr>ea_summary := ''Make the required contract explicit instead of widening types.'', ea_steps := [''Identify whether the value is genuinely optional or required.'', sentence [''For required dependencies, remove None from the type'', ''and validate at construction/startup.''], sentence [''If variants are legitimate, introduce a Protocol or'', ''narrower interface instead of passing concrete'', ''optionals around.'']], ea_rerun := [''make pre-commit'', ''make check'']\<rparr>\<rparr>"

definition default_pyright_optional_type_evidence_map :: "(string \<times> principle) list \<Rightarrow> evidence_map" where
  "default_pyright_optional_type_evidence_map principles =
     empty_evidence_map\<lparr>em_source := ''pyright'',
      em_codes := [''reportOptionalCall'', ''reportOptionalIterable'', ''reportOptionalMemberAccess'', ''reportOptionalOperand'', ''reportOptionalSubscript''],
      em_policy_id := ''python.optional_required_types'',
      em_skill_id := ''lint-remediation'',
      em_principle_ids := principle_refs principles [''no-optional-types-for-required-dependencies'', ''static-analysis-is-the-first-line-of-defense''],
      em_confidence := ''high'',
      em_meaning := ''Pyright found code using a possibly-None value as if it were '' @ ''required.'',
      em_advice := empty_evidence_advice\<lparr>ea_summary := ''Convert required optionals into validated required dependencies.'', ea_steps := [''Move absence handling to bootstrap or construction.'', ''Keep runtime code on the full-strength required path.'', ''Use Protocols for dependency boundaries when concrete imports create cycles.''], ea_rerun := [''make pre-commit'', ''make check'']\<rparr>\<rparr>"

definition default_mypy_unknown_type_evidence_map :: "(string \<times> principle) list \<Rightarrow> evidence_map" where
  "default_mypy_unknown_type_evidence_map principles =
     empty_evidence_map\<lparr>em_source := ''mypy'',
      em_codes := [''no-untyped-def'', ''no-untyped-call'', ''var-annotated''],
      em_policy_id := ''python.unknown_types'',
      em_skill_id := ''lint-remediation'',
      em_principle_ids := principle_refs principles [''static-analysis-is-the-first-line-of-defense'', ''protocol-first-design''],
      em_confidence := ''medium'',
      em_meaning := ''Type information is missing at a boundary where static '' @ ''analysis should verify behavior.'',
      em_advice := empty_evidence_advice\<lparr>ea_summary := ''Add precise boundary types instead of letting Any spread.'', ea_steps := [''Annotate public functions and important locals.'', ''Add a typed adapter at untyped third-party boundaries.'', ''Prefer Protocols for behavior contracts instead of concrete catch-all types.''], ea_rerun := [''make pre-commit'', ''make check'']\<rparr>\<rparr>"

definition default_pyright_unknown_type_evidence_map :: "(string \<times> principle) list \<Rightarrow> evidence_map" where
  "default_pyright_unknown_type_evidence_map principles =
     empty_evidence_map\<lparr>em_source := ''pyright'',
      em_codes := [''reportUnknownArgumentType'', ''reportUnknownMemberType'', ''reportUnknownParameterType'', ''reportUnknownVariableType''],
      em_policy_id := ''python.unknown_types'',
      em_skill_id := ''lint-remediation'',
      em_principle_ids := principle_refs principles [''static-analysis-is-the-first-line-of-defense'', ''protocol-first-design''],
      em_confidence := ''medium'',
      em_meaning := ''Pyright cannot verify a type boundary because unknowns leaked in.'',
      em_advice := empty_evidence_advice\<lparr>ea_summary := ''Make the type boundary explicit and locally verifiable.'', ea_steps := [''Add annotations where the value enters the module.'', ''Use typed wrappers around dynamic data.'', ''Prefer Protocols when the code depends on behavior rather than a concrete class.''], ea_rerun := [''make pre-commit'', ''make check'']\<rparr>\<rparr>"

definition default_pylint_interface_evidence_map :: "(string \<times> principle) list \<Rightarrow> evidence_map" where
  "default_pylint_interface_evidence_map principles =
     empty_evidence_map\<lparr>em_source := ''pylint'',
      em_codes := [''no-member'', ''E1101'', ''undefined-variable'', ''E0602''],
      em_policy_id := ''python.interface_contracts'',
      em_skill_id := ''lint-remediation'',
      em_principle_ids := principle_refs principles [''protocol-first-design'', ''solid-is-law''],
      em_confidence := ''medium'',
      em_meaning := ''The code is relying on attributes or names that are not '' @ ''visible through a stable interface.'',
      em_advice := empty_evidence_advice\<lparr>ea_summary := ''Expose the required behavior through a real interface.'', ea_steps := [''Verify the referenced member or name exists.'', sentence [''If the object is dynamic, add a typed adapter or'', ''Protocol that states the contract.''], ''Do not hide the issue with a broad Pylint disable.''], ea_rerun := [''make pre-commit'', ''make check'']\<rparr>\<rparr>"

definition default_pyright_missing_import_evidence_map :: "(string \<times> principle) list \<Rightarrow> evidence_map" where
  "default_pyright_missing_import_evidence_map principles =
     empty_evidence_map\<lparr>em_source := ''pyright'',
      em_codes := [''reportMissingImports'', ''reportMissingModuleSource''],
      em_policy_id := ''python.required_imports'',
      em_skill_id := ''conditional-imports'',
      em_principle_ids := principle_refs principles [''no-conditional-imports'', ''fail-fast-fail-hard-overview''],
      em_confidence := ''high'',
      em_meaning := ''A required import cannot be resolved by the static analyzer.'',
      em_advice := empty_evidence_advice\<lparr>ea_summary := ''Make required dependencies importable and validated at the gate.'', ea_steps := [''Add the dependency to the environment or generated type-checker config.'', ''Remove fallback or conditional import paths that hide missing dependencies.'', ''Fail at startup/bootstrap when a required dependency is absent.''], ea_rerun := [''make pre-commit'', ''make check'']\<rparr>\<rparr>"

definition default_mypy_import_cycle_evidence_map :: "(string \<times> principle) list \<Rightarrow> evidence_map" where
  "default_mypy_import_cycle_evidence_map principles =
     import_cycle_evidence_map ''mypy'' [] [''Cannot resolve import cycle'', ''import cycle''] principles"

definition default_pyright_import_cycle_evidence_map :: "(string \<times> principle) list \<Rightarrow> evidence_map" where
  "default_pyright_import_cycle_evidence_map principles =
     import_cycle_evidence_map ''pyright'' [] [''Import cycle detected'', ''Import cycles detected''] principles"

definition default_pylint_import_cycle_evidence_map :: "(string \<times> principle) list \<Rightarrow> evidence_map" where
  "default_pylint_import_cycle_evidence_map principles =
     import_cycle_evidence_map ''pylint'' [''cyclic-import'', ''R0401''] [] principles"

definition default_mypy_evidence_map :: "(string \<times> principle) list \<Rightarrow> evidence_map" where
  "default_mypy_evidence_map principles =
     empty_evidence_map\<lparr>em_source := ''mypy'',
      em_codes := [''no-any-return''],
      em_policy_id := ''python.optional_returns'',
      em_skill_id := ''lint-remediation'',
      em_principle_ids := principle_refs principles [''no-optional-types-for-required-dependencies'', ''static-analysis-is-the-first-line-of-defense''],
      em_confidence := ''medium'',
      em_meaning := ''A required return path is leaking Any instead of a precise type.'',
      em_advice := empty_evidence_advice\<lparr>ea_summary := ''Replace Any return flow with an explicit required type.'', ea_steps := [''Identify the source of Any.'', ''Add the missing annotation or typed adapter at the boundary.'', ''Keep required dependencies non-optional.''], ea_rerun := [''make pre-commit'', ''make check'']\<rparr>\<rparr>"

definition default_shellcheck_evidence_map :: "(string \<times> principle) list \<Rightarrow> evidence_map" where
  "default_shellcheck_evidence_map principles =
     empty_evidence_map\<lparr>em_source := ''shellcheck'',
      em_codes := [''SC*''],
      em_policy_id := ''shell.static_analysis'',
      em_skill_id := ''lint-remediation'',
      em_principle_ids := principle_refs principles [''static-analysis-is-the-first-line-of-defense'', ''linting-as-code-quality-enforcement''],
      em_confidence := ''medium'',
      em_meaning := ''Shellcheck found fragile or ambiguous shell behavior.'',
      em_advice := empty_evidence_advice\<lparr>ea_summary := ''Fix the shell script structure instead of suppressing ShellCheck.'', ea_steps := [''Quote expansions and make data flow explicit.'', ''Prefer arrays and checked commands over stringly shell assembly.'', ''Keep shell behavior deterministic under strict mode.''], ea_rerun := [''make pre-commit'']\<rparr>\<rparr>"

definition default_yamllint_evidence_map :: "(string \<times> principle) list \<Rightarrow> evidence_map" where
  "default_yamllint_evidence_map principles =
     empty_evidence_map\<lparr>em_source := ''yamllint'',
      em_codes := [''indentation'', ''truthy''],
      em_policy_id := ''yaml.config_clarity'',
      em_skill_id := ''lint-remediation'',
      em_principle_ids := principle_refs principles [''validation-at-the-gate'', ''documentation-as-contract''],
      em_confidence := ''medium'',
      em_meaning := ''YAML structure or scalar spelling is ambiguous for '' @ ''configuration.'',
      em_advice := empty_evidence_advice\<lparr>ea_summary := ''Make YAML configuration explicit and parser-stable.'', ea_steps := [''Fix indentation to match the intended structure.'', ''Quote ambiguous scalars when the value is meant to be a string.'', ''Keep configuration readable enough to review in diffs.''], ea_rerun := [''make pre-commit'']\<rparr>\<rparr>"

definition default_bandit_evidence_map :: "(string \<times> principle) list \<Rightarrow> evidence_map" where
  "default_bandit_evidence_map principles =
     empty_evidence_map\<lparr>em_source := ''bandit'',
      em_codes := [''B*''],
      em_policy_id := ''python.security_patterns'',
      em_skill_id := ''lint-remediation'',
      em_principle_ids := principle_refs principles [''security-by-design'', ''static-analysis-is-the-first-line-of-defense''],
      em_confidence := ''high'',
      em_meaning := sentence [''Bandit found Python code that weakens safe defaults or input'', ''trust boundaries.''],
      em_advice := empty_evidence_advice\<lparr>ea_summary := ''Fix the security issue structurally; do not silence Bandit.'', ea_steps := [''Replace unsafe APIs with validated, least-privilege alternatives.'', ''Move risk acceptance into reviewed policy only when the behavior is intentional.'', ''Keep security-sensitive helpers centralized and covered by tests.''], ea_rerun := [''make pre-commit'', ''make check'']\<rparr>\<rparr>"

definition default_sqlfluff_evidence_map :: "(string \<times> principle) list \<Rightarrow> evidence_map" where
  "default_sqlfluff_evidence_map principles =
     empty_evidence_map\<lparr>em_source := ''sqlfluff'',
      em_codes := [''*''],
      em_policy_id := ''sql.static_analysis'',
      em_skill_id := ''lint-remediation'',
      em_principle_ids := principle_refs principles [''validation-at-the-gate'', ''static-analysis-is-the-first-line-of-defense''],
      em_confidence := ''medium'',
      em_meaning := sentence [''SQL linting found syntax, layout, or dialect ambiguity before'', ''database execution.''],
      em_advice := empty_evidence_advice\<lparr>ea_summary := ''Make SQL dialect and structure explicit before committing.'', ea_steps := [''Fix SQL syntax and layout under the configured dialect.'', ''Keep dynamic SQL in reviewed central helpers.'', ''Use parameterized values and validated identifier allowlists.''], ea_rerun := [''make pre-commit'']\<rparr>\<rparr>"

definition default_tombi_evidence_map :: "(string \<times> principle) list \<Rightarrow> evidence_map" where
  "default_tombi_evidence_map principles =
     empty_evidence_map\<lparr>em_source := ''tombi'',
      em_codes := [''*''],
      em_policy_id := ''toml.config_clarity'',
      em_skill_id := ''lint-remediation'',
      em_principle_ids := principle_refs principles [''validation-at-the-gate'', ''documentation-as-contract''],
      em_confidence := ''medium'',
      em_meaning := ''TOML configuration is invalid or ambiguous for downstream tools.'',
      em_advice := empty_evidence_advice\<lparr>ea_summary := ''Fix TOML configuration before tools consume it.'', ea_steps := [''Repair syntax or schema ordering issues in the reported TOML file.'', ''Keep generated tool configs synchronized from policy sources.'', ''Prefer explicit config over tool defaults.''], ea_rerun := [''make pre-commit'']\<rparr>\<rparr>"

definition default_dotenv_linter_evidence_map :: "(string \<times> principle) list \<Rightarrow> evidence_map" where
  "default_dotenv_linter_evidence_map principles =
     empty_evidence_map\<lparr>em_source := ''dotenv-linter'',
      em_codes := [''*''],
      em_policy_id := ''dotenv.config_clarity'',
      em_skill_id := ''lint-remediation'',
      em_principle_ids := principle_refs principles [''security-by-design'', ''validation-at-the-gate''],
      em_confidence := ''medium'',
      em_meaning := ''Dotenv files encode local runtime contracts and must stay unambiguous.'',
      em_advice := empty_evidence_advice\<lparr>ea_summary := ''Fix dotenv entries so environment contracts are explicit and safe.'', ea_steps := [''Use uppercase keys and remove duplicate or malformed entries.'', ''Keep real secrets out of committed dotenv files.'', ''Prefer example/template files with safe placeholder values.''], ea_rerun := [''make pre-commit'']\<rparr>\<rparr>"

definition default_hadolint_evidence_map :: "(string \<times> principle) list \<Rightarrow> evidence_map" where
  "default_hadolint_evidence_map principles =
     empty_evidence_map\<lparr>em_source := ''hadolint'',
      em_codes := [''DL*''],
      em_policy_id := ''docker.reproducible_builds'',
      em_skill_id := ''lint-remediation'',
      em_principle_ids := principle_refs principles [''security-by-design'', ''evidence-based-engineering-and-decision-quality''],
      em_confidence := ''medium'',
      em_meaning := ''Dockerfile instructions weaken reproducibility or '' @ ''container safety.'',
      em_advice := empty_evidence_advice\<lparr>ea_summary := ''Make the container build deterministic and least-privilege.'', ea_steps := [''Pin package versions where practical.'', ''Avoid broad shell pipelines that hide failures.'', ''Prefer explicit users, trusted sources, and minimal layers.''], ea_rerun := [''make pre-commit'']\<rparr>\<rparr>"

definition default_actionlint_evidence_map :: "(string \<times> principle) list \<Rightarrow> evidence_map" where
  "default_actionlint_evidence_map principles =
     empty_evidence_map\<lparr>em_source := ''actionlint'',
      em_codes := [''*''],
      em_policy_id := ''workflow.validation'',
      em_skill_id := ''lint-remediation'',
      em_principle_ids := principle_refs principles [''validation-at-the-gate'', ''testing-as-specification''],
      em_confidence := ''high'',
      em_meaning := ''GitHub Actions workflow syntax or expression behavior '' @ ''is invalid.'',
      em_advice := empty_evidence_advice\<lparr>ea_summary := ''Fix workflow definitions before relying on CI as a quality gate.'', ea_steps := [''Validate expressions, job wiring, and event-specific context.'', ''Keep workflow behavior explicit instead of runtime surprises.'', ''Re-run the workflow hook locally before pushing.''], ea_rerun := [''make pre-commit'']\<rparr>\<rparr>"

definition default_golangci_evidence_map :: "(string \<times> principle) list \<Rightarrow> evidence_map" where
  "default_golangci_evidence_map principles =
     empty_evidence_map\<lparr>em_source := ''golangci-lint'',
      em_codes := [''errcheck'', ''gosec'', ''staticcheck'', ''revive''],
      em_policy_id := ''go.static_analysis'',
      em_skill_id := ''lint-remediation'',
      em_principle_ids := principle_refs principles [''static-analysis-is-the-first-line-of-defense'', ''linting-as-code-quality-enforcement''],
      em_confidence := ''high'',
      em_meaning := ''Go static analysis found correctness, security, or '' @ ''maintainability risk.'',
      em_advice := empty_evidence_advice\<lparr>ea_summary := ''Fix the Go issue structurally and keep golangci-lint blocking.'', ea_steps := [''Handle errors explicitly.'', ''Remove suspicious or insecure constructs instead of suppressing them.'', ''Prefer a small refactor over weakening lint coverage.''], ea_rerun := [''make pre-commit'', ''make check'']\<rparr>\<rparr>"

definition default_evidence_maps :: "(string \<times> principle) list \<Rightarrow> evidence_map list" where
  "default_evidence_maps principles =
     [default_ruff_evidence_map principles,
      default_ruff_import_order_evidence_map principles,
      default_ruff_sql_safety_evidence_map principles,
      default_ruff_security_evidence_map principles,
      default_ruff_suppression_evidence_map principles,
      default_mypy_suppression_evidence_map principles,
      default_pyright_suppression_evidence_map principles,
      default_ruff_docstring_evidence_map principles,
      default_pylint_docstring_evidence_map principles,
      default_mypy_optional_type_evidence_map principles,
      default_pyright_optional_type_evidence_map principles,
      default_mypy_unknown_type_evidence_map principles,
      default_pyright_unknown_type_evidence_map principles,
      default_pylint_interface_evidence_map principles,
      default_pyright_missing_import_evidence_map principles,
      default_mypy_import_cycle_evidence_map principles,
      default_pyright_import_cycle_evidence_map principles,
      default_pylint_import_cycle_evidence_map principles,
      default_mypy_evidence_map principles,
      default_shellcheck_evidence_map principles,
      default_yamllint_evidence_map principles,
      default_bandit_evidence_map principles,
      default_sqlfluff_evidence_map principles,
      default_tombi_evidence_map principles,
      default_dotenv_linter_evidence_map principles,
      default_hadolint_evidence_map principles,
      default_actionlint_evidence_map principles,
      default_golangci_evidence_map principles]"

section \<open>Maps of the configuration\<close>

definition evidence_map_from_config :: "(int \<Rightarrow> string) \<Rightarrow> any_map \<Rightarrow> evidence_map" where
  "evidence_map_from_config fl item =
     \<lparr>em_source = string_at item [''source''], em_codes = string_slice_at fl item [''codes''] [],
      em_message_substrings = string_slice_at fl item [''message_substrings''] [],
      em_policy_id = string_at item [''policy_id''], em_skill_id = string_at item [''skill_id''],
      em_principle_ids = string_slice_at fl item [''principle_ids''] [],
      em_confidence = string_at item [''confidence''], em_meaning = string_at item [''meaning''],
      em_advice = \<lparr>ea_summary = string_at item [''advice'', ''summary''],
                   ea_steps = string_slice_at fl item [''advice'', ''steps''] [],
                   ea_rerun = string_slice_at fl item [''advice'', ''rerun''] []\<rparr>\<rparr>"

definition compile_evidence_maps ::
  "(int \<Rightarrow> string) \<Rightarrow> any_map \<Rightarrow> (string \<times> principle) list \<Rightarrow> evidence_map list" where
  "compile_evidence_maps fl config principles =
     (case value_at config [''policy'', ''evidence_maps''] of
        Some (AList items) \<Rightarrow>
          List.map_filter (\<lambda>v. case v of AMap item \<Rightarrow> Some (evidence_map_from_config fl item) | _ \<Rightarrow> None) items @
          default_evidence_maps principles
      | _ \<Rightarrow> default_evidence_maps principles)"

section \<open>Which map explains a finding\<close>

lemma find_append: "List.find P (xs @ ys) = (case List.find P xs of None \<Rightarrow> List.find P ys | Some x \<Rightarrow> Some x)"
  by (induction xs) auto

text \<open>Fact. The maps of a configuration come first: a finding that one of them applies to is explained by the
  first such map, and the maps of the compiler are used for every other finding.\<close>

theorem configured_evidence_first:
  assumes "value_at config [''policy'', ''evidence_maps''] = Some (AList items)"
  shows "Enrich [d] (compile_evidence_maps fl config principles) =
    [case List.find (evidence_map_applies d)
            (List.map_filter (\<lambda>v. case v of AMap item \<Rightarrow> Some (evidence_map_from_config fl item) | _ \<Rightarrow> None) items) of
       Some m \<Rightarrow> enrich_diagnostic d m
     | None \<Rightarrow> (case List.find (evidence_map_applies d) (default_evidence_maps principles) of
                  None \<Rightarrow> d | Some m \<Rightarrow> enrich_diagnostic d m)]"
  unfolding compile_evidence_maps_def assms by (simp add: Enrich_def find_append split: option.split)

text \<open>Fact. Enriching keeps what a tool found: number, order, tool, file, position, code, severity and message
  of the diagnostics are unchanged.\<close>

theorem enrich_keeps_findings:
  "map (\<lambda>d. (diag_tool d, diag_file d, diag_line d, diag_column d, diag_code d, diag_severity d, diag_message d))
     (Enrich items maps) =
   map (\<lambda>d. (diag_tool d, diag_file d, diag_line d, diag_column d, diag_code d, diag_severity d, diag_message d))
     items"
  by (simp add: Enrich_def enrich_diagnostic_def split: option.split)

end
