(* ===== verification/ValidateBundle.thy ===== *)
theory ValidateBundle
  imports CompileDispatch EvidenceMaps
begin

text \<open>
  The compiled bundle and its validation, \<open>go/internal/policy/bundle.go\<close> (the types) and
  \<open>validate.go\<close>. Errors are collected, in the order of the lists that stand for the maps; the
  validation of an expression is an argument.
\<close>

section \<open>The bundle\<close>

record skill =
  sk_source :: source_ref
  sk_id :: string
  sk_title :: string
  sk_description :: string
  sk_short_hint :: string
  sk_focus :: string
  sk_principle_ids :: "string list"
  sk_trigger_terms :: "string list"
  sk_remediation_steps :: "string list"

record ethos_reminder =
  er_principle_id :: string
  er_axiom :: string
  er_action :: string

record reminder_config =
  rc_items :: "ethos_reminder list"
  rc_ambient_frequency_percent :: int
  rc_quiet_frequency :: int

record source_pair =
  sp_primary :: string
  sp_repo :: string

record compiled_bundle =
  cb_version :: int
  cb_bundle_id :: string
  cb_generated_at :: string
  cb_ethos :: source_pair
  cb_enforcement :: source_pair
  cb_reminders :: reminder_config
  cb_principles :: "(string \<times> principle) list"
  cb_policies :: policies
  cb_skills :: "(string \<times> skill) list"
  cb_dispatch :: dispatch_tables
  cb_evidence_maps :: "evidence_map list"

text \<open>What the runtimes read of it.\<close>

definition runtime_bundle :: "compiled_bundle \<Rightarrow> policy_bundle" where
  "runtime_bundle b =
     \<lparr>bundle_hooks = dt_hooks (cb_dispatch b), bundle_linter = dt_linter (cb_dispatch b),
      bundle_git = dt_git (cb_dispatch b),
      bundle_policies = map (\<lambda>(i, p). (i, policy.truncate p)) (cb_policies b)\<rparr>"

section \<open>Errors\<close>

datatype (plugins only: code size) validation_error =
    InvalidBundleVersion
  | BundleIDRequired
  | EthosPrimaryRequired
  | EnforcementPrimaryRequired
  | PrincipleIDMismatch string string
  | PrincipleTitleRequired string
  | SkillIDMismatch string string
  | SkillTextRequired string
  | SkillUnknownPrinciple string string
  | PolicyIDMismatch string string
  | PolicyCategoryRequired string
  | PolicySourceRequired string
  | PolicyInvalidSeverity string string
  | PolicyNoModes string
  | PolicyInvalidMode string string
  | PolicySeverityUnsupported string string
  | PolicyMessageRequired string
  | PolicyNoDefenseLayer string
  | PolicyNoEvaluator string
  | EvaluatorWithoutName string
  | InvalidEvaluatorKind string string
  | ExpressionMissingWhen string
  | ExpressionFailsValidation string
  | ExpressionInvalidMode string string
  | ExpressionInvalidScope string string
  | ExpressionInvalidEvent string string
  | ExpressionToolsEmpty string
  | PolicyUnknownPrinciple string string
  | EmptyHookEvent
  | EmptyToolMatcher string
  | DispatchUnknownPolicy string string nat string
  | DispatchInvalidMode string string nat string
  | DispatchUnsupportedMode string string nat string
  | ListUnknownPolicy string string
  | GitUnknownPolicy string string

definition err_if :: "bool \<Rightarrow> 'e \<Rightarrow> 'e list" where
  "err_if c e = (if c then [e] else [])"

lemma err_if_Nil [simp]: "err_if c e = [] \<longleftrightarrow> \<not> c"
  by (simp add: err_if_def)

lemma set_err_if [simp]: "x \<in> set (err_if c e) \<longleftrightarrow> c \<and> x = e"
  by (auto simp: err_if_def)

section \<open>Checks\<close>

definition valid_mode :: "string \<Rightarrow> bool" where
  "valid_mode mode \<longleftrightarrow>
     mode \<in> {''off'', ''record'', ''warn'', ''advise'', ''prepare'', ''annotate'', ''ask'', ''block''}"

definition valid_evaluator_kind :: "string \<Rightarrow> bool" where
  "valid_evaluator_kind kind \<longleftrightarrow>
     kind \<in> {''argv'', ''shell'', ''path'', ''ast'', ''text'', ''toml'', ''config'', ''git_state'',
             ''external'', ''cel''}"

definition valid_expression_lint_scope :: "string \<Rightarrow> bool" where
  "valid_expression_lint_scope scope \<longleftrightarrow>
     scope \<in> {''files'', ''changed'', ''staged'', ''smoke'', ''full'', ''cutover'', ''commit-msg''}"

definition valid_hook_event :: "string \<Rightarrow> bool" where
  "valid_hook_event event \<longleftrightarrow>
     event \<in> {''PreToolUse'', ''PostToolUse'', ''UserPromptSubmit'', ''Stop''}"

definition has_defense_layer :: "defense_layers \<Rightarrow> bool" where
  "has_defense_layer l \<longleftrightarrow>
     dl_persuade l \<or> dl_record l \<or> dl_intercept l \<noteq> [] \<or> dl_mediate l \<noteq> [] \<or> dl_detect l \<noteq> [] \<or>
     dl_enforce l \<noteq> [] \<or> dl_verify l \<noteq> [] \<or> dl_notify l \<noteq> []"

definition validate_bundle_fields :: "compiled_bundle \<Rightarrow> validation_error list" where
  "validate_bundle_fields b =
     err_if (cb_version b \<le> 0) InvalidBundleVersion @
     err_if (cb_bundle_id b = []) BundleIDRequired @
     err_if (sp_primary (cb_ethos b) = []) EthosPrimaryRequired @
     err_if (sp_primary (cb_enforcement b) = []) EnforcementPrimaryRequired"

definition validate_principles :: "(string \<times> principle) list \<Rightarrow> validation_error list" where
  "validate_principles principles =
     concat (map (\<lambda>(i, p). err_if (pr_id p \<noteq> i) (PrincipleIDMismatch i (pr_id p)) @
                           err_if (pr_title p = []) (PrincipleTitleRequired i)) principles)"

definition validate_skills ::
  "(string \<times> skill) list \<Rightarrow> (string \<times> principle) list \<Rightarrow> validation_error list" where
  "validate_skills skills principles =
     concat (map (\<lambda>(i, s).
       err_if (sk_id s \<noteq> i) (SkillIDMismatch i (sk_id s)) @
       err_if (sk_title s = [] \<or> sk_description s = []) (SkillTextRequired i) @
       concat (map (\<lambda>q. err_if (map_of principles q = None) (SkillUnknownPrinciple i q)) (sk_principle_ids s)))
       skills)"

definition validate_policy_identity :: "string \<Rightarrow> policy_definition \<Rightarrow> validation_error list" where
  "validate_policy_identity i p =
     err_if (pol_id p \<noteq> i) (PolicyIDMismatch i (pol_id p)) @
     err_if (pol_category p = []) (PolicyCategoryRequired i) @
     err_if (source_file (pol_source p) = []) (PolicySourceRequired i)"

definition validate_policy_modes :: "string \<Rightarrow> policy_definition \<Rightarrow> validation_error list" where
  "validate_policy_modes i p =
     err_if (\<not> valid_mode (pol_default_severity p)) (PolicyInvalidSeverity i (pol_default_severity p)) @
     err_if (pol_supported_modes p = []) (PolicyNoModes i) @
     concat (map (\<lambda>m. err_if (\<not> valid_mode m) (PolicyInvalidMode i m)) (pol_supported_modes p)) @
     err_if (pol_default_severity p \<notin> set (pol_supported_modes p))
       (PolicySeverityUnsupported i (pol_default_severity p))"

definition validate_policy_body :: "string \<Rightarrow> policy_definition \<Rightarrow> validation_error list" where
  "validate_policy_body i p =
     err_if (pol_message p = []) (PolicyMessageRequired i) @
     err_if (\<not> has_defense_layer (pol_defense_layers p)) (PolicyNoDefenseLayer i)"

definition validate_expression_dispatch_options ::
  "(int \<Rightarrow> string) \<Rightarrow> string \<Rightarrow> evaluator_spec \<Rightarrow> validation_error list" where
  "validate_expression_dispatch_options fl i ev =
     (let o1 = eval_options ev
      in concat (map (\<lambda>m. err_if (\<not> valid_mode m) (ExpressionInvalidMode i m))
                   (string_values fl (any_at o1 ''mode''))) @
         concat (map (\<lambda>s. err_if (\<not> valid_expression_lint_scope s) (ExpressionInvalidScope i s))
                   (string_values fl (any_at o1 ''dispatch_scopes''))) @
         concat (map (\<lambda>e. err_if (\<not> valid_hook_event e) (ExpressionInvalidEvent i e))
                   (string_values fl (any_at o1 ''hook_events''))) @
         err_if (map_of o1 ''tools'' \<noteq> None \<and> string_option_from_map fl o1 ''scope'' ''command'' \<noteq> ''proxy'' \<and>
                 string_values fl (any_at o1 ''tools'') = []) (ExpressionToolsEmpty i))"

definition validate_expression_evaluator ::
  "(int \<Rightarrow> string) \<Rightarrow> (string \<Rightarrow> string \<Rightarrow> bool) \<Rightarrow> string \<Rightarrow> evaluator_spec \<Rightarrow> validation_error list" where
  "validate_expression_evaluator fl valid_expression i ev =
     (if \<not> is_cel_expression ev then []
      else
        let source1 = trim_space (sprint fl (any_at (eval_options ev) ''when''));
            missing = (source1 = [] \<or> source1 = ''<nil>'')
        in err_if missing (ExpressionMissingWhen i) @
           err_if (\<not> missing \<and> \<not> valid_expression i source1) (ExpressionFailsValidation i) @
           validate_expression_dispatch_options fl i ev)"

definition validate_policy_evaluators ::
  "(int \<Rightarrow> string) \<Rightarrow> (string \<Rightarrow> string \<Rightarrow> bool) \<Rightarrow> string \<Rightarrow> policy_definition \<Rightarrow> validation_error list" where
  "validate_policy_evaluators fl valid_expression i p =
     err_if (pol_evaluators p = []) (PolicyNoEvaluator i) @
     concat (map (\<lambda>ev.
       err_if (eval_name ev = []) (EvaluatorWithoutName i) @
       err_if (\<not> valid_evaluator_kind (eval_kind ev)) (InvalidEvaluatorKind i (eval_kind ev)) @
       validate_expression_evaluator fl valid_expression i ev) (pol_evaluators p))"

definition validate_policy_principles ::
  "string \<Rightarrow> policy_definition \<Rightarrow> (string \<times> principle) list \<Rightarrow> validation_error list" where
  "validate_policy_principles i p principles =
     concat (map (\<lambda>q. err_if (map_of principles q = None) (PolicyUnknownPrinciple i q)) (pol_principle_ids p))"

definition validate_policy ::
  "(int \<Rightarrow> string) \<Rightarrow> (string \<Rightarrow> string \<Rightarrow> bool) \<Rightarrow> (string \<times> principle) list \<Rightarrow>
   string \<Rightarrow> policy_definition \<Rightarrow> validation_error list" where
  "validate_policy fl valid_expression principles i p =
     validate_policy_identity i p @ validate_policy_modes i p @ validate_policy_body i p @
     validate_policy_evaluators fl valid_expression i p @ validate_policy_principles i p principles"

definition validate_dispatch_entry ::
  "string \<Rightarrow> string \<Rightarrow> nat \<Rightarrow> hook_dispatch_entry \<Rightarrow> policies \<Rightarrow> validation_error list" where
  "validate_dispatch_entry event tool idx e policies =
     (case map_of policies (entry_policy_id e) of
        None \<Rightarrow> [DispatchUnknownPolicy event tool idx (entry_policy_id e)]
      | Some p \<Rightarrow>
          err_if (\<not> valid_mode (entry_mode e)) (DispatchInvalidMode event tool idx (entry_mode e)) @
          err_if (entry_mode e \<notin> set (pol_supported_modes p))
            (DispatchUnsupportedMode event tool idx (entry_mode e)))"

definition validate_hook_dispatch :: "hook_table \<Rightarrow> policies \<Rightarrow> validation_error list" where
  "validate_hook_dispatch hooks policies =
     concat (map (\<lambda>(event, tools).
       err_if (event = []) EmptyHookEvent @
       concat (map (\<lambda>(tool, entries).
         err_if (tool = []) (EmptyToolMatcher event) @
         concat (map (\<lambda>(idx, e). validate_dispatch_entry event tool idx e policies) (enumerate 0 entries)))
         tools)) hooks)"

definition validate_policy_id_lists :: "(string \<times> string list) list \<Rightarrow> policies \<Rightarrow> validation_error list" where
  "validate_policy_id_lists id_lists policies =
     concat (map (\<lambda>(name1, ids).
       concat (map (\<lambda>i. err_if (map_of policies i = None) (ListUnknownPolicy name1 i)) ids)) id_lists)"

definition validate_git_dispatch ::
  "(string \<times> git_operation_dispatch) list \<Rightarrow> policies \<Rightarrow> validation_error list" where
  "validate_git_dispatch git policies =
     concat (map (\<lambda>(operation, d).
       concat (map (\<lambda>i. err_if (map_of policies i = None) (GitUnknownPolicy operation i))
         (dispatch_pre d @ dispatch_post d))) git)"

definition Validate ::
  "(int \<Rightarrow> string) \<Rightarrow> (string \<Rightarrow> string \<Rightarrow> bool) \<Rightarrow> compiled_bundle \<Rightarrow> validation_error list" where
  "Validate fl valid_expression b =
     validate_bundle_fields b @ validate_principles (cb_principles b) @
     validate_skills (cb_skills b) (cb_principles b) @
     concat (map (\<lambda>(i, p). validate_policy fl valid_expression (cb_principles b) i p) (cb_policies b)) @
     validate_hook_dispatch (dt_hooks (cb_dispatch b)) (cb_policies b) @
     validate_policy_id_lists (dt_linter (cb_dispatch b)) (cb_policies b) @
     validate_git_dispatch (dt_git (cb_dispatch b)) (cb_policies b)"

section \<open>What a valid bundle guarantees\<close>

lemma valid_hook_entry:
  assumes "Validate fl valid_expression b = []"
    and "e \<in> set (hook_entries (dt_hooks (cb_dispatch b)) event tool)"
  shows "\<exists>p. map_of (cb_policies b) (entry_policy_id e) = Some p \<and> entry_mode e \<in> set (pol_supported_modes p) \<and>
    valid_mode (entry_mode e)"
proof -
  obtain tools entries where t: "map_of (dt_hooks (cb_dispatch b)) event = Some tools"
      "map_of tools tool = Some entries" "e \<in> set entries"
    using assms(2) unfolding hook_entries_def entries_of_def
    by (cases "map_of (dt_hooks (cb_dispatch b)) event"; cases "map_of (the (map_of (dt_hooks (cb_dispatch b)) event)) tool") auto
  then obtain idx where "idx < length entries" "entries ! idx = e" by (auto simp: in_set_conv_nth)
  then have "(idx, e) \<in> set (enumerate 0 entries)" by (simp add: in_set_enumerate_eq)
  then have "validate_dispatch_entry event tool idx e (cb_policies b) = []"
  proof -
    assume i: "(idx, e) \<in> set (enumerate 0 entries)"
    have "\<forall>(event, tools) \<in> set (dt_hooks (cb_dispatch b)). \<forall>(tool, entries) \<in> set tools.
        \<forall>(idx, e) \<in> set (enumerate 0 entries). validate_dispatch_entry event tool idx e (cb_policies b) = []"
      using assms(1) by (simp add: Validate_def validate_hook_dispatch_def split_beta)
    then show ?thesis using t(1,2) [THEN map_of_SomeD] i by fast
  qed
  then show ?thesis by (auto simp: validate_dispatch_entry_def split: option.splits)
qed

lemma valid_git_entry:
  assumes "Validate fl valid_expression b = []"
    and "map_of (dt_git (cb_dispatch b)) operation = Some d" "i \<in> set (dispatch_pre d @ dispatch_post d)"
  shows "map_of (cb_policies b) i \<noteq> None"
  using assms map_of_SomeD [OF assms(2)] by (auto simp: Validate_def validate_git_dispatch_def)

lemma runtime_bundle_policies:
  "map_of (bundle_policies (runtime_bundle b)) i = map_option policy.truncate (map_of (cb_policies b) i)"
  by (simp add: runtime_bundle_def map_of_map)

end
