(* ===== verification/CompileProofs.thy ===== *)
theory CompileProofs
  imports CompileDispatch
begin

text \<open>
  What governance and dispatch guarantee: a policy that does not allow it is never replaced, whatever
  sources declare, and the critical policies block on the shell whatever mode an expression asks for.
\<close>

section \<open>Replacing policies\<close>

text \<open>One replacement that governance accepts, and a sequence of them.\<close>

definition may_replace :: "(int \<Rightarrow> string) \<Rightarrow> policy_definition \<Rightarrow> policy_definition \<Rightarrow> bool" where
  "may_replace fl p p' \<longleftrightarrow>
     (\<exists>g. governance_from_policy fl p = Some g \<and> gv_allow_override g \<and>
       (severity_rank (pol_default_severity p) \<le> severity_rank (pol_default_severity p') \<or>
        gv_allow_severity_weaken g))"

inductive governed :: "(int \<Rightarrow> string) \<Rightarrow> policy_definition \<Rightarrow> policy_definition \<Rightarrow> bool" for fl where
  governed_same: "governed fl p p"
| governed_step: "governed fl p p' \<Longrightarrow> may_replace fl p' p'' \<Longrightarrow> governed fl p p''"

lemma governed_trans: "governed fl p' p'' \<Longrightarrow> governed fl p p' \<Longrightarrow> governed fl p p''"
  by (induction rule: governed.induct) (auto intro: governed.intros)

lemma governed_unreplaceable:
  "governed fl p p' \<Longrightarrow> (\<And>g. governance_from_policy fl p = Some g \<Longrightarrow> \<not> gv_allow_override g) \<Longrightarrow> p' = p"
  by (induction rule: governed.induct) (auto simp: may_replace_def)

definition policies_governed :: "(int \<Rightarrow> string) \<Rightarrow> policies \<Rightarrow> policies \<Rightarrow> bool" where
  "policies_governed fl ps ps' \<longleftrightarrow>
     (\<forall>i p. map_of ps i = Some p \<longrightarrow> (\<exists>p'. map_of ps' i = Some p' \<and> governed fl p p'))"

lemma policies_governed_refl: "policies_governed fl ps ps"
  by (auto simp: policies_governed_def intro: governed_same)

lemma policies_governed_trans:
  "policies_governed fl ps ps' \<Longrightarrow> policies_governed fl ps' ps'' \<Longrightarrow> policies_governed fl ps ps''"
  unfolding policies_governed_def by (meson governed_trans)

lemma governed_one: "may_replace fl p p' \<Longrightarrow> governed fl p p'"
  by (rule governed_step [OF governed_same])

lemma override_accepted:
  "validate_expression_policy_override fl file1 index p g existing = None \<Longrightarrow> may_replace fl existing p"
  by (auto simp: validate_expression_policy_override_def may_replace_def Let_def split: if_splits option.splits)

lemma add_expression_governed:
  "add_expression fl valid config principles file1 prefix1 index raw ps = Inr ps' \<Longrightarrow> policies_governed fl ps ps'"
  by (auto simp: add_expression_def policies_governed_def dest!: override_accepted
      split: any.splits sum.splits option.splits if_splits)
    (blast intro: governed_same governed_one)+

lemma add_expressions_from_governed:
  "add_expressions_from fl valid config principles file1 prefix1 index raws ps = Inr ps' \<Longrightarrow>
   policies_governed fl ps ps'"
proof (induction raws arbitrary: index ps)
  case (Cons raw raws)
  then show ?case
    by (auto split: sum.splits dest!: add_expression_governed intro: policies_governed_trans)
qed (simp add: policies_governed_refl)

lemma add_expression_policies_governed:
  "add_expression_policies fl valid config principles sources ps = Inr ps' \<Longrightarrow> policies_governed fl ps ps'"
proof (induction sources arbitrary: ps)
  case (Cons s sources)
  then show ?case
    by (auto split: sum.splits dest!: add_expressions_from_governed intro: policies_governed_trans)
qed (simp add: policies_governed_refl)

text \<open>Property C4. A policy that does not allow it cannot be replaced, weakened or removed by
  configuration: after any number of sources with any expressions were added without an error, every
  policy that is built in, or that an earlier source declared without \<open>allow_override\<close>, is still there
  unchanged.\<close>

theorem unreplaceable_policies_survive:
  assumes "add_expression_policies fl valid config principles sources policies = Inr policies'"
    and "map_of policies i = Some p"
    and "\<forall>g. governance_from_policy fl p = Some g \<longrightarrow> \<not> gv_allow_override g"
  shows "map_of policies' i = Some p"
  using add_expression_policies_governed [OF assms(1)] assms(2,3) governed_unreplaceable [of fl p]
  unfolding policies_governed_def by metis

section \<open>Examples\<close>

definition no_float :: "int \<Rightarrow> string" where "no_float f = []"
definition any_expression :: "string \<Rightarrow> string \<Rightarrow> bool" where "any_expression i w = True"

definition sample_principles :: "(string \<times> principle) list" where
  "sample_principles =
     [(''p'', \<lparr>pr_agent_hints = [], pr_detail_path = [], pr_directive = [], pr_id = ''p'', pr_summary = [],
               pr_title = ''P'', pr_quick_ref = [], pr_related = [], pr_tags = [], pr_order = 1\<rparr>)]"

definition sample_expression :: "(string \<times> any) list \<Rightarrow> any" where
  "sample_expression extra = AMap
     ([(''id'', AString ''a.b''), (''when'', AString ''true''), (''message'', AString ''m''),
       (''advice'', AString ''a''), (''principle_ids'', AList [AString ''p''])] @ extra)"

definition sample_add :: "any list \<Rightarrow> policies \<Rightarrow> compile_error + policies" where
  "sample_add raws = add_expressions_from no_float any_expression [] sample_principles ''f'' ''x'' 0 raws"

definition sample_source :: "any list \<Rightarrow> expression_policy_source" where
  "sample_source raws = \<lparr>xs_file = ''f'', xs_path_prefix = ''x'', xs_expressions = raws\<rparr>"

definition severities :: "compile_error + policies \<Rightarrow> compile_error + (string \<times> string \<times> string list) list" where
  "severities r = map_sum id (map (\<lambda>(i, p).
     (i, pol_default_severity p, map (expression_dispatch_mode no_float p) (pol_evaluators p)))) r"

definition overriding :: "(string \<times> any) list" where
  "overriding = [(''override'', ABool True), (''override_reason'', AString ''r'')]"

theorem unreplaceable_policies_survive_witness:
  "\<exists>p ps. add_expression_policies no_float any_expression [] sample_principles [sample_source []] [(''a.b'', p)] = Inr ps \<and>
     map_of ps ''a.b'' = Some p"
proof -
  have e: "add_expression_policies no_float any_expression [] sample_principles [sample_source []]
      [(''a.b'', empty_definition)] = Inr [(''a.b'', empty_definition)]"
    by (simp add: sample_source_def)
  have "map_of [(''a.b'', empty_definition)] ''a.b'' = Some empty_definition"
    by (rule unreplaceable_policies_survive [OF e])
      (simp_all add: governance_from_policy_def empty_definition_def)
  with e show ?thesis by blast
qed

text \<open>Fact. The ban on weakening a severity holds for one replacement only: a first replacement of the same
  severity that allows weakening for itself opens the way for a second one, although the direct
  replacement is refused.\<close>

theorem severity_weakened_in_two_steps:
  "severities (sample_add
     [sample_expression [(''allow_override'', ABool True)],
      sample_expression (overriding @ [(''severity'', AString ''record'')])] []) =
     Inl (WeakensSeverity ''f'' 1 ''a.b'' ''block'' ''record'') \<and>
   severities (sample_add
     [sample_expression [(''allow_override'', ABool True)],
      sample_expression (overriding @ [(''allow_override'', ABool True), (''allow_severity_weaken'', ABool True)]),
      sample_expression (overriding @ [(''severity'', AString ''record'')])] []) =
     Inr [(''a.b'', ''record'', [''record''])]"
  by code_simp

text \<open>Fact. Governance compares severities, but the mode a policy is dispatched with is an option of its own:
  a replacement that keeps the severity and sets the mode is accepted and only records.\<close>

theorem replacement_weakens_mode:
  "severities (sample_add
     [sample_expression [(''allow_override'', ABool True)],
      sample_expression (overriding @ [(''mode'', AString ''record'')])] []) =
     Inr [(''a.b'', ''block'', [''record''])]"
  by code_simp

section \<open>The critical policies\<close>

lemma hook_entries_fold_append:
  "hook_entries (foldl (\<lambda>h i. if P i then append_entry h event tool (f i) else h) hooks xs) event' tool' =
     hook_entries hooks event' tool' @ (if event = event' \<and> tool = tool' then map f (filter P xs) else [])"
  by (induction xs arbitrary: hooks) (auto simp: hook_entries_append)

lemma hook_entries_fold_tools:
  "tool' \<notin> set tools \<Longrightarrow>
   hook_entries (foldl (\<lambda>h i. if P i then add_to_tools h event tools (f i) else h) hooks xs) event' tool' =
     hook_entries hooks event' tool'"
  by (induction xs arbitrary: hooks) (auto simp: hook_entries_add_to_tools count_notin)

definition builtin_hook_table :: "policies \<Rightarrow> hook_table" where
  "builtin_hook_table policies =
     add_commit_head_dispatch policies
       (add_python_write_dispatch policies
          (add_protected_branch_write_dispatch policies
             (add_protected_path_dispatch policies
                (add_blocking_bash_dispatch policies
                   (add_git_hook_bypass_dispatch policies [])))))"

definition blocking_everywhere :: "string list" where
  "blocking_everywhere = [''filesystem.protected_path'', ''filesystem.protected_branch_write'']"

definition critical_policies :: "string list" where
  "critical_policies = ''git.hook_bypass'' # blocking_bash_policies @ blocking_everywhere"

lemma builtin_bash_entries:
  "hook_entries (builtin_hook_table policies) ''PreToolUse'' ''Bash'' =
     map (\<lambda>i. plain_entry i ''block'') (filter (has_policy policies) critical_policies) @
     (if has_policy policies ''git.commit_head_advanced''
      then [(plain_entry ''git.commit_head_advanced'' ''record'')\<lparr>entry_command_patterns := [''git commit'']\<rparr>]
      else [])"
  by (simp add: builtin_hook_table_def add_commit_head_dispatch_def add_python_write_dispatch_def
      add_protected_branch_write_dispatch_def add_protected_path_dispatch_def add_blocking_bash_dispatch_def
      add_git_hook_bypass_dispatch_def hook_entries_simps hook_entries_fold_append hook_entries_fold_tools
      critical_policies_def blocking_everywhere_def mutating_tools_def)

lemma critical_policies_distinct: "distinct critical_policies" "''git.commit_head_advanced'' \<notin> set critical_policies"
  by code_simp+

lemma filter_distinct_one: "distinct xs \<Longrightarrow> x \<in> set xs \<Longrightarrow> filter (\<lambda>y. y = x) xs = [x]"
  by (induction xs) (auto simp: filter_empty_conv)

lemma critical_builtin_entry:
  assumes "i \<in> set critical_policies" and "has_policy policies i"
  shows "filter (\<lambda>e. entry_policy_id e = i) (hook_entries (builtin_hook_table policies) ''PreToolUse'' ''Bash'') =
    [plain_entry i ''block'']"
proof -
  have "filter (\<lambda>e. entry_policy_id e = i) (map (\<lambda>i. plain_entry i ''block'') xs) =
      map (\<lambda>i. plain_entry i ''block'') (filter (\<lambda>y. y = i) xs)" for xs
    by (simp add: filter_map comp_def plain_entry_def)
  moreover have "filter (\<lambda>y. y = i) (filter (has_policy policies) critical_policies) = [i]"
    using assms critical_policies_distinct(1) by (intro filter_distinct_one) auto
  moreover have "i \<noteq> ''git.commit_head_advanced''" using assms(1) critical_policies_distinct(2) by blast
  ultimately show ?thesis by (simp add: builtin_bash_entries plain_entry_def)
qed

lemma critical_policy_blocks_bash_aux:
  assumes "i \<in> set critical_policies" and "has_policy policies i"
  shows "filter (\<lambda>e. entry_policy_id e = i)
      (hook_entries (dt_hooks (compile_dispatch fl policies)) ''PreToolUse'' ''Bash'') = [plain_entry i ''block'']"
proof -
  let ?old = "hook_entries (builtin_hook_table policies) ''PreToolUse'' ''Bash''"
  obtain new where new: "hook_entries (dt_hooks (compile_dispatch fl policies)) ''PreToolUse'' ''Bash'' = ?old @ new"
      "\<forall>e \<in> set new. \<not> hook_dispatch_contains ?old (entry_policy_id e)"
    using extends_table_expressions [of "builtin_hook_table policies" fl policies, unfolded extends_table_def]
    unfolding compile_dispatch_def compile_hook_dispatch_def builtin_hook_table_def [symmetric] dispatch_tables.simps
    by blast
  have "plain_entry i ''block'' \<in> set (filter (\<lambda>e. entry_policy_id e = i) ?old)"
    by (simp only: critical_builtin_entry [OF assms] list.set_intros)
  then have "hook_dispatch_contains ?old i" by (auto simp: hook_dispatch_contains_def list_ex_iff)
  then have "filter (\<lambda>e. entry_policy_id e = i) new = []" using new(2) by (auto simp: filter_empty_conv)
  then show ?thesis using new(1) critical_builtin_entry [OF assms] by simp
qed

text \<open>Property C14. A critical policy blocks on the shell in every compiled bundle: whatever policies there
  are, and whatever mode, tools or events an expression with the id of a critical policy asks for, a
  policy with that id is dispatched before a shell command exactly once, in the mode that blocks, and
  for every command.\<close>

theorem critical_policy_blocks_bash:
  assumes "i \<in> set critical_policies" and "has_policy policies i"
  shows "filter (\<lambda>e. entry_policy_id e = i)
      (hook_entries (dt_hooks (compile_dispatch fl policies)) ''PreToolUse'' ''Bash'') = [plain_entry i ''block'']"
  using assms by (rule critical_policy_blocks_bash_aux)

theorem critical_policy_blocks_bash_witness:
  "filter (\<lambda>e. entry_policy_id e = ''git.hook_bypass'')
     (hook_entries (dt_hooks (compile_dispatch no_float [(''git.hook_bypass'', empty_definition)])) ''PreToolUse'' ''Bash'') =
   [plain_entry ''git.hook_bypass'' ''block'']"
  by (rule critical_policy_blocks_bash) (simp_all add: critical_policies_def has_policy_def)

end
