(* ===== verification/CompileBundle.thy ===== *)
theory CompileBundle
  imports ValidateBundle CompileProofs Paths
begin

text \<open>
  \<open>go/internal/policy/compiler.go\<close>: from the configuration files to the bundle. The YAML decoder with
  the hash of a file, the existence of files, the working directory, the search for Python sources, the
  hash behind the identity of a bundle and the order in which the map of source hashes is visited are
  the record \<open>compile_world\<close>.
\<close>

section \<open>Options and inputs\<close>

record compile_options =
  co_generated_at :: string
  co_bundle_id :: string
  co_primary :: string
  co_repo_ethos :: string
  co_config :: string
  co_repo_config :: string

record compile_world =
  cw_load_yaml :: "string \<Rightarrow> (any_map \<times> string) option"
  cw_exists :: "string \<Rightarrow> bool"
  cw_getwd :: "string option"
  cw_has_python_sources :: "string \<Rightarrow> string \<Rightarrow> bool"
  cw_valid_expression :: "string \<Rightarrow> string \<Rightarrow> bool"
  cw_download :: "string \<Rightarrow> string option"
  cw_hash :: "string \<Rightarrow> string"
  cw_map_order :: "(string \<times> string) list \<Rightarrow> (string \<times> string) list"
  cw_sprint_float :: "int \<Rightarrow> string"
  cw_now :: string

record compile_payloads =
  cp_primary :: any_map
  cp_config :: any_map
  cp_source_hashes :: "(string \<times> string) list"
  cp_repo_config :: any_map
  cp_expression_sources :: "expression_policy_source list"

definition normalized_compile_options :: "compile_world \<Rightarrow> compile_options \<Rightarrow> compile_options" where
  "normalized_compile_options W o1 =
     o1\<lparr>co_primary := (if co_primary o1 = [] then ''coding_ethos.yml'' else co_primary o1),
        co_config := (if co_config o1 = [] then ''config.yaml'' else co_config o1),
        co_generated_at := (if co_generated_at o1 = [] then cw_now W else co_generated_at o1)\<rparr>"

definition source_root :: "compile_world \<Rightarrow> string \<Rightarrow> string" where
  "source_root W path =
     (if path_is_abs path then path_dir (path_clean path)
      else case cw_getwd W of None \<Rightarrow> path_dir path | Some wd \<Rightarrow> path_dir (path_join [wd, path]))"

definition source_file_name :: "string \<Rightarrow> string \<Rightarrow> string" where
  "source_file_name path fallback =
     (if path = [] then fallback
      else let name1 = path_base path in if name1 = ''.'' \<or> name1 = ''/'' then fallback else name1)"

definition removed_critical_enforcement_config_paths :: "string list list" where
  "removed_critical_enforcement_config_paths =
     [[''filesystem'', ''protected_branch_write'', ''enabled''],
      [''git'', ''change_dir_flag'', ''enabled''],
      [''git'', ''checkout_protected_branch'', ''enabled''],
      [''git'', ''commit_head_advanced'', ''enabled''],
      [''git'', ''destructive_command'', ''enabled''],
      [''git'', ''destructive_worktree'', ''enabled''],
      [''git'', ''force_push_protected_branch'', ''enabled''],
      [''git'', ''history_rewrite_prevention'', ''enabled''],
      [''git'', ''hook_bypass'', ''enabled''],
      [''git'', ''merge_strategy_shortcut'', ''enabled''],
      [''git'', ''protected_submodule_update'', ''enabled''],
      [''git'', ''signed_operations'', ''enabled''],
      [''git'', ''staged_admin_files'', ''enabled''],
      [''git'', ''stash_blocked'', ''enabled''],
      [''git'', ''wrapper_required'', ''enabled''],
      [''repo'', ''protected_branch_work'', ''enabled'']]"

definition validate_removed_paths :: "string \<Rightarrow> any_map \<Rightarrow> compile_error option" where
  "validate_removed_paths file1 values =
     map_option (RemovedConfigPath file1)
       (List.find (\<lambda>p. value_at values p \<noteq> None) removed_critical_enforcement_config_paths)"

definition load_compile_source ::
  "compile_world \<Rightarrow> string \<Rightarrow> bool \<Rightarrow> compile_error + any_map \<times> string" where
  "load_compile_source W path reject_removed_toggles =
     (case cw_load_yaml W path of
        None \<Rightarrow> Inl (ReadSource path)
      | Some (values, hash) \<Rightarrow>
          (case (if reject_removed_toggles then validate_removed_paths path values else None) of
             Some err \<Rightarrow> Inl err
           | None \<Rightarrow> Inr (values, hash)))"

definition merge_repo_config_input ::
  "compile_world \<Rightarrow> compile_options \<Rightarrow> (string \<times> string) list \<Rightarrow>
   compile_error + any_map \<times> (string \<times> string) list \<times> expression_policy_source list" where
  "merge_repo_config_input W o1 hashes =
     (case load_compile_source W (co_repo_config o1) True of
        Inl err \<Rightarrow> Inl err
      | Inr (values, hash) \<Rightarrow>
          (case expression_policy_source_from_config values
                  (source_file_name (co_repo_config o1) ''repo_config.yaml'') of
             Inl err \<Rightarrow> Inl err
           | Inr found \<Rightarrow>
               Inr (values, map_set (co_repo_config o1) hash hashes,
                    case found of None \<Rightarrow> [] | Some s \<Rightarrow> [s])))"

definition repo_ethos_input ::
  "compile_world \<Rightarrow> compile_options \<Rightarrow> (string \<times> string) list \<Rightarrow>
   compile_error + (string \<times> string) list \<times> expression_policy_source list" where
  "repo_ethos_input W o1 hashes =
     (if co_repo_ethos o1 = [] \<or> \<not> cw_exists W (co_repo_ethos o1) then Inr (hashes, [])
      else case cw_load_yaml W (co_repo_ethos o1) of
        None \<Rightarrow> Inl (ReadSource (co_repo_ethos o1))
      | Some (values, hash) \<Rightarrow>
          Inr (map_set (co_repo_ethos o1) hash hashes,
               expression_policy_sources_from_repo_ethos values
                 (source_file_name (co_repo_ethos o1) ''repo_ethos.yml'')))"

definition compile_inputs :: "compile_world \<Rightarrow> compile_options \<Rightarrow> compile_error + compile_payloads" where
  "compile_inputs W o1 =
     (case load_compile_source W (co_primary o1) False of
        Inl err \<Rightarrow> Inl err
      | Inr (primary, primary_hash) \<Rightarrow>
     (case load_compile_source W (co_config o1) True of
        Inl err \<Rightarrow> Inl err
      | Inr (config, config_hash) \<Rightarrow>
     (case expression_policy_source_from_config config (source_file_name (co_config o1) ''config.yaml'') of
        Inl err \<Rightarrow> Inl err
      | Inr found \<Rightarrow>
     (case repo_ethos_input W o1
             (map_set (co_config o1) config_hash (map_set (co_primary o1) primary_hash [])) of
        Inl err \<Rightarrow> Inl err
      | Inr (hashes, ethos_sources) \<Rightarrow>
          let sources = (case found of None \<Rightarrow> [] | Some s \<Rightarrow> [s]) @ ethos_sources @
                expression_policy_sources_from_principles (cw_sprint_float W) primary
                  (source_file_name (co_primary o1) ''coding_ethos.yml'')
          in if co_repo_config o1 = [] \<or> \<not> cw_exists W (co_repo_config o1) then
               Inr \<lparr>cp_primary = primary, cp_config = config, cp_source_hashes = hashes,
                    cp_repo_config = [], cp_expression_sources = sources\<rparr>
             else case merge_repo_config_input W o1 hashes of
               Inl err \<Rightarrow> Inl err
             | Inr (repo_config, hashes', repo_sources) \<Rightarrow>
                 Inr \<lparr>cp_primary = primary,
                      cp_config = ApplyWithEthosRoot (cw_sprint_float W)
                        (cw_has_python_sources W (path_dir (co_repo_config o1)) (path_dir (co_primary o1)))
                        config repo_config,
                      cp_source_hashes = hashes', cp_repo_config = repo_config,
                      cp_expression_sources = sources @ repo_sources\<rparr>))))"

section \<open>Principles, skills and reminders\<close>

definition compile_principle :: "(int \<Rightarrow> string) \<Rightarrow> any \<Rightarrow> principle option" where
  "compile_principle fl raw =
     (case raw of
        AMap item \<Rightarrow>
          let i = string_value fl (any_at item ''id'')
          in if i = [] then None
             else Some \<lparr>pr_agent_hints = string_map fl (any_at item ''agent_hints''),
                    pr_detail_path = path_join [''.agents'', ''ethos'', i @ ''.md''],
                    pr_directive = string_value fl (any_at item ''directive''), pr_id = i,
                    pr_summary = string_value fl (any_at item ''summary''),
                    pr_title = string_value fl (any_at item ''title''),
                    pr_quick_ref = string_slice fl (any_at item ''quick_ref''),
                    pr_related = string_slice fl (any_at item ''related''),
                    pr_tags = string_slice fl (any_at item ''tags''),
                    pr_order = int_value (any_at item ''order'')\<rparr>
      | _ \<Rightarrow> None)"

definition compile_principles :: "(int \<Rightarrow> string) \<Rightarrow> any_map \<Rightarrow> (string \<times> principle) list" where
  "compile_principles fl payload =
     (case any_at payload ''principles'' of
        AList raws \<Rightarrow>
          foldl (\<lambda>m p. map_set (pr_id p) p m) [] (List.map_filter (compile_principle fl) raws)
      | _ \<Rightarrow> [])"

definition compile_skill ::
  "(int \<Rightarrow> string) \<Rightarrow> (string \<times> principle) list \<Rightarrow> string \<Rightarrow> any \<Rightarrow> skill option" where
  "compile_skill fl principles source_file1 raw =
     (case raw of
        AMap item \<Rightarrow>
          let i = string_value fl (any_at item ''id'');
              s = \<lparr>sk_source = \<lparr>source_file = source_file1, source_path = ''skills.'' @ i\<rparr>, sk_id = i,
                   sk_title = string_value fl (any_at item ''title''),
                   sk_description = string_value fl (any_at item ''description''),
                   sk_short_hint = string_value fl (any_at item ''short_hint''),
                   sk_focus = string_value fl (any_at item ''focus''),
                   sk_principle_ids = principle_refs principles (string_slice fl (any_at item ''principle_ids'')),
                   sk_trigger_terms = string_slice fl (any_at item ''trigger_terms''),
                   sk_remediation_steps = string_slice fl (any_at item ''remediation_steps'')\<rparr>
          in if i = [] \<or> sk_title s = [] \<or> sk_description s = [] \<or> sk_principle_ids s = [] then None
             else Some s
      | _ \<Rightarrow> None)"

definition compile_skills ::
  "(int \<Rightarrow> string) \<Rightarrow> any_map \<Rightarrow> (string \<times> principle) list \<Rightarrow> string \<Rightarrow> (string \<times> skill) list" where
  "compile_skills fl payload principles source_file1 =
     (case any_at payload ''skills'' of
        AList raws \<Rightarrow>
          foldl (\<lambda>m s. map_set (sk_id s) s m) []
            (List.map_filter (compile_skill fl principles source_file1) raws)
      | _ \<Rightarrow> [])"

fun first_trimmed :: "string list \<Rightarrow> string" where
  "first_trimmed [] = []"
| "first_trimmed (v # vs) = (if trim_space v \<noteq> [] then trim_space v else first_trimmed vs)"

definition principle_reminder_action :: "principle \<Rightarrow> string" where
  "principle_reminder_action p = first_trimmed [pr_directive p, pr_summary p, pr_title p]"

definition ethos_axioms_from_explicit_items ::
  "(int \<Rightarrow> string) \<Rightarrow> any_map \<Rightarrow> principle \<Rightarrow> ethos_reminder list" where
  "ethos_axioms_from_explicit_items fl item p =
     (case any_at item ''axioms'' of
        AList raws \<Rightarrow>
          List.map_filter (\<lambda>raw. case raw of
              AMap axiom \<Rightarrow>
                let text1 = string_value fl (any_at axiom ''axiom'');
                    action = string_value fl (any_at axiom ''action'')
                in if text1 = [] then None
                   else Some \<lparr>er_principle_id = pr_id p, er_axiom = text1,
                          er_action = (if action = [] then principle_reminder_action p else action)\<rparr>
            | _ \<Rightarrow> None) raws
      | _ \<Rightarrow> [])"

definition ethos_axioms_from_principle_item ::
  "(int \<Rightarrow> string) \<Rightarrow> any_map \<Rightarrow> principle \<Rightarrow> ethos_reminder list" where
  "ethos_axioms_from_principle_item fl item p =
     (let reminder = (\<lambda>axiom. \<lparr>er_principle_id = pr_id p, er_axiom = trim_space axiom,
            er_action = principle_reminder_action p\<rparr>);
          explicit = ethos_axioms_from_explicit_items fl item p;
          quick = filter (\<lambda>r. er_axiom r \<noteq> []) (map reminder (pr_quick_ref p));
          axiom = trim_space (first_trimmed [pr_summary p, pr_directive p, pr_title p])
      in if explicit \<noteq> [] then explicit
         else if quick \<noteq> [] then quick
         else if axiom = [] then [] else [reminder axiom])"

definition derive_reminder_config_from_ethos ::
  "(int \<Rightarrow> string) \<Rightarrow> any_map \<Rightarrow> (string \<times> principle) list \<Rightarrow> reminder_config" where
  "derive_reminder_config_from_ethos fl ethos principles =
     (case any_at ethos ''principles'' of
        AList raws \<Rightarrow>
          \<lparr>rc_items = concat (map (\<lambda>raw. case raw of
               AMap item \<Rightarrow>
                 (case map_of principles (string_value fl (any_at item ''id'')) of
                    None \<Rightarrow> [] | Some p \<Rightarrow> ethos_axioms_from_principle_item fl item p)
             | _ \<Rightarrow> []) raws),
           rc_ambient_frequency_percent = 25, rc_quiet_frequency = 4\<rparr>
      | _ \<Rightarrow> \<lparr>rc_items = [], rc_ambient_frequency_percent = 0, rc_quiet_frequency = 0\<rparr>)"

definition default_reminder_config :: reminder_config where
  "default_reminder_config =
     \<lparr>rc_items =
        [\<lparr>er_principle_id = ''evidence-based-engineering-and-decision-quality'', er_axiom = ''Todo lists prevent partial work from masquerading as completion.'', er_action = sentence [''Keep the task list current, mark progress as it happens,'', ''and do not report done while planned work remains.'']\<rparr>,
         \<lparr>er_principle_id = ''no-rationalized-shortcuts'', er_axiom = ''Laziness only moves the cost downstream.'', er_action = sentence [''Stop, use the documented path,'', ''and do not trade correctness for completion.'']\<rparr>,
         \<lparr>er_principle_id = ''testing-as-specification'', er_axiom = ''A green process is not the same as a correct result.'', er_action = sentence [''Define success by user-visible behavior'', ''and inspect representative output.'']\<rparr>,
         \<lparr>er_principle_id = ''static-analysis-is-the-first-line-of-defense'', er_axiom = ''StaticError analysis is a gate, not background noise.'', er_action = ''Treat the finding as a structural signal and fix the cause.''\<rparr>,
         \<lparr>er_principle_id = ''no-conditional-imports'', er_axiom = ''Conditional imports are banned.'', er_action = sentence [''Use module-scope required imports; if that exposes a cycle,'', ''refactor with SOLID boundaries or a Python Protocol'', ''instead of hiding the dependency.'']\<rparr>,
         \<lparr>er_principle_id = ''linting-as-code-quality-enforcement'', er_axiom = ''A linter warning is review feedback in executable form.'', er_action = ''Resolve it structurally instead of weakening the rule.''\<rparr>,
         \<lparr>er_principle_id = ''forward-motion-only'', er_axiom = ''History is context, not an excuse.'', er_action = ''Fix the current state with evidence and move forward.''\<rparr>],
      rc_ambient_frequency_percent = 25, rc_quiet_frequency = 4\<rparr>"

definition clamp_percent :: "int \<Rightarrow> int" where
  "clamp_percent v = (if v < 0 then 0 else if v > 100 then 100 else v)"

definition frequency_to_percent :: "int \<Rightarrow> int" where
  "frequency_to_percent frequency = (if frequency \<le> 0 then 25 else 100 div frequency)"

definition compile_reminder_config ::
  "(int \<Rightarrow> string) \<Rightarrow> any_map \<Rightarrow> any_map \<Rightarrow> (string \<times> principle) list \<Rightarrow> reminder_config" where
  "compile_reminder_config fl ethos config principles =
     (let r0 = derive_reminder_config_from_ethos fl ethos principles;
          r1 = (if rc_items r0 = [] then default_reminder_config else r0);
          percent = int_at config [''agent_advice'', ''reminders'', ''ambient_frequency_percent''] 0;
          r2 = (if percent > 0 then r1\<lparr>rc_ambient_frequency_percent := clamp_percent percent\<rparr> else r1);
          frequency = int_at config [''agent_advice'', ''reminders'', ''quiet_frequency''] 0;
          r3 = (if frequency > 0 then r2\<lparr>rc_quiet_frequency := frequency\<rparr> else r2)
      in if frequency > 0 \<and> percent = 0
         then r3\<lparr>rc_ambient_frequency_percent := frequency_to_percent frequency\<rparr> else r3)"

section \<open>Compiling\<close>

definition default_bundle_id :: "compile_world \<Rightarrow> string \<Rightarrow> string \<Rightarrow> (string \<times> string) list \<Rightarrow> string" where
  "default_bundle_id W primary config hashes =
     ''policy-'' @ cw_hash W (str_join [CHR 0x0A]
       ([primary, config] @ map (\<lambda>(path, hash). path @ ''='' @ hash) (cw_map_order W hashes)))"

definition compile_policies ::
  "compile_world \<Rightarrow> any_map \<Rightarrow> any_map \<Rightarrow> expression_policy_source list \<Rightarrow> (string \<times> principle) list \<Rightarrow>
   string \<Rightarrow> compile_error + policies" where
  "compile_policies W config repo_config sources principles root1 =
     (case builtin_policies (cw_sprint_float W) (cw_download W) config repo_config principles root1 of
        Inl err \<Rightarrow> Inl err
      | Inr policies \<Rightarrow>
          add_expression_policies (cw_sprint_float W) (cw_valid_expression W) config principles sources policies)"

definition compiled_bundle_of ::
  "compile_world \<Rightarrow> compile_options \<Rightarrow> compile_payloads \<Rightarrow> (string \<times> principle) list \<Rightarrow> policies \<Rightarrow>
   compiled_bundle" where
  "compiled_bundle_of W o1 inputs principles policies =
     (let fl = cw_sprint_float W
      in \<lparr>cb_version = 1,
          cb_bundle_id = (if co_bundle_id o1 = []
             then default_bundle_id W (co_primary o1) (co_config o1) (cp_source_hashes inputs)
             else co_bundle_id o1),
          cb_generated_at = co_generated_at o1,
          cb_ethos = \<lparr>sp_primary = co_primary o1, sp_repo = co_repo_ethos o1\<rparr>,
          cb_enforcement = \<lparr>sp_primary = co_config o1, sp_repo = co_repo_config o1\<rparr>,
          cb_reminders = compile_reminder_config fl (cp_primary inputs) (cp_config inputs) principles,
          cb_principles = principles, cb_policies = policies,
          cb_skills = compile_skills fl (cp_primary inputs) principles (co_primary o1),
          cb_dispatch = compile_dispatch fl policies,
          cb_evidence_maps = compile_evidence_maps fl (cp_config inputs) principles\<rparr>)"

definition Compile :: "compile_world \<Rightarrow> compile_options \<Rightarrow> compile_error + compiled_bundle" where
  "Compile W options0 =
     (let o1 = normalized_compile_options W options0
      in case compile_inputs W o1 of
           Inl err \<Rightarrow> Inl err
         | Inr inputs \<Rightarrow>
             let principles = compile_principles (cw_sprint_float W) (cp_primary inputs)
             in if principles = [] then Inl (NoPrinciples (co_primary o1))
                else case compile_policies W (cp_config inputs) (cp_repo_config inputs)
                            (cp_expression_sources inputs) principles (source_root W (co_config o1)) of
                  Inl err \<Rightarrow> Inl err
                | Inr policies \<Rightarrow>
                    if policies = [] then Inl (NoPolicies (co_config o1))
                    else
                      let b = compiled_bundle_of W o1 inputs principles policies
                      in if Validate (cw_sprint_float W) (cw_valid_expression W) b = [] then Inr b
                         else Inl BundleInvalid)"

end
