(* ===== verification/ValidTables.thy ===== *)
theory ValidTables
  imports ValidateBundle
begin

text \<open>
  When the dispatch tables that the compiler builds pass the checks of the bundle: the tables of the
  linter and of Git always do, and the table of the hooks does when every policy supports the modes it
  is dispatched with.
\<close>

section \<open>Sound hook tables\<close>

definition entry_ok :: "policies \<Rightarrow> hook_dispatch_entry \<Rightarrow> bool" where
  "entry_ok ps e \<longleftrightarrow> (\<exists>p. map_of ps (entry_policy_id e) = Some p \<and> valid_mode (entry_mode e) \<and>
     entry_mode e \<in> set (pol_supported_modes p))"

definition tools_ok :: "policies \<Rightarrow> (string \<times> hook_dispatch_entry list) list \<Rightarrow> bool" where
  "tools_ok ps tools \<longleftrightarrow> (\<forall>(tool, es) \<in> set tools. tool \<noteq> [] \<and> (\<forall>e \<in> set es. entry_ok ps e))"

definition table_ok :: "policies \<Rightarrow> hook_table \<Rightarrow> bool" where
  "table_ok ps h \<longleftrightarrow> (\<forall>(event, tools) \<in> set h. event \<noteq> [] \<and> tools_ok ps tools)"

lemma validate_hook_dispatch_iff: "validate_hook_dispatch h ps = [] \<longleftrightarrow> table_ok ps h"
proof -
  have "validate_dispatch_entry event tool idx e ps = [] \<longleftrightarrow> entry_ok ps e" for event tool idx e
    by (simp add: validate_dispatch_entry_def entry_ok_def split: option.split)
  moreover have "(\<forall>(idx, e) \<in> set (enumerate 0 es). P e) \<longleftrightarrow> (\<forall>e \<in> set es. P e)" for es :: "hook_dispatch_entry list" and P
    by (metis (no_types, lifting) case_prod_beta enumerate_eq_zip imageE imageI map_snd_enumerate set_map)
  ultimately show ?thesis
    by (simp add: validate_hook_dispatch_def table_ok_def tools_ok_def split_beta)
qed

lemma set_map_set: "set (map_set k v m) \<subseteq> insert (k, v) (set m)"
  by (induction k v m rule: map_set.induct) auto

lemma tools_ok_entries: "table_ok ps h \<Longrightarrow> tools_ok ps (entries_of h event)"
  unfolding table_ok_def entries_of_def
  by (cases "map_of h event") (simp add: tools_ok_def, force dest: map_of_SomeD)

lemma entries_ok_hook: "table_ok ps h \<Longrightarrow> \<forall>e \<in> set (hook_entries h event tool). entry_ok ps e"
  using tools_ok_entries [of ps h event] unfolding hook_entries_def entries_of_def [of "entries_of h event"]
  by (cases "map_of (entries_of h event) tool") (auto simp: tools_ok_def dest!: map_of_SomeD)

lemma table_ok_set:
  assumes "table_ok ps h" "event \<noteq> []" "tool \<noteq> []" "\<forall>e \<in> set es. entry_ok ps e"
  shows "table_ok ps (map_set event (map_set tool es (entries_of h event)) h)"
proof -
  have "tools_ok ps (map_set tool es (entries_of h event))"
    using tools_ok_entries [OF assms(1), of event] assms(3,4) set_map_set [of tool es "entries_of h event"]
    unfolding tools_ok_def by blast
  with assms(1,2) set_map_set [of event "map_set tool es (entries_of h event)" h] show ?thesis
    unfolding table_ok_def by blast
qed

lemma table_ok_append:
  "table_ok ps h \<Longrightarrow> event \<noteq> [] \<Longrightarrow> tool \<noteq> [] \<Longrightarrow> entry_ok ps e \<Longrightarrow> table_ok ps (append_entry h event tool e)"
  unfolding append_entry_def by (rule table_ok_set) (auto dest: entries_ok_hook)

lemma table_ok_ensure:
  "table_ok ps h \<Longrightarrow> event \<noteq> [] \<Longrightarrow> tool \<noteq> [] \<Longrightarrow> table_ok ps (ensure_hook_tool h event tool)"
  unfolding ensure_hook_tool_def by (rule table_ok_set) (auto dest: entries_ok_hook)

lemma foldl_inv: "P a \<Longrightarrow> (\<And>a x. P a \<Longrightarrow> x \<in> set xs \<Longrightarrow> P (f a x)) \<Longrightarrow> P (foldl f a xs)"
  by (induction xs arbitrary: a) auto

lemmas table_ok_foldl = foldl_inv [where P = "table_ok ps" for ps]

lemma table_ok_tools:
  "table_ok ps h \<Longrightarrow> event \<noteq> [] \<Longrightarrow> [] \<notin> set tools \<Longrightarrow> entry_ok ps e \<Longrightarrow> table_ok ps (add_to_tools h event tools e)"
  unfolding add_to_tools_def by (rule table_ok_foldl) (auto intro: table_ok_append)

section \<open>The policies that support their dispatch\<close>

definition supports :: "policies \<Rightarrow> string \<Rightarrow> string list \<Rightarrow> bool" where
  "supports ps i modes \<longleftrightarrow>
     (case map_of ps i of None \<Rightarrow> True | Some p \<Rightarrow> list_all (\<lambda>m. m \<in> set (pol_supported_modes p)) modes)"

definition builtin_modes :: "(string \<times> string list) list" where
  "builtin_modes =
     (''git.hook_bypass'', [''block'']) # (''filesystem.protected_path'', [''block'']) #
     (''filesystem.protected_branch_write'', [''block'']) #
     (''git.commit_head_advanced'', [''record'', ''block'']) #
     map (\<lambda>i. (i, [''block''])) blocking_bash_policies @
     map (\<lambda>i. (i, [python_write_dispatch_mode i])) python_write_policies"

definition expressions_supported :: "(int \<Rightarrow> string) \<Rightarrow> policy_definition \<Rightarrow> bool" where
  "expressions_supported fl p \<longleftrightarrow>
     list_all (\<lambda>ev. dispatched_evaluator fl ev \<longrightarrow>
       valid_mode (expression_dispatch_mode fl p ev) \<and>
       expression_dispatch_mode fl p ev \<in> set (pol_supported_modes p) \<and>
       [] \<notin> set (expression_events fl ev) \<and> [] \<notin> set (expression_tools fl ev)) (pol_evaluators p)"

definition dispatch_supported :: "(int \<Rightarrow> string) \<Rightarrow> policies \<Rightarrow> bool" where
  "dispatch_supported fl ps \<longleftrightarrow>
     distinct (map fst ps) \<and> list_all (\<lambda>(i, modes). supports ps i modes) builtin_modes \<and>
     list_all (\<lambda>(i, p). expressions_supported fl p) ps"

lemma builtin_entry_ok:
  assumes "dispatch_supported fl ps" "has_policy ps i" "(i, modes) \<in> set builtin_modes" "mode \<in> set modes"
    "valid_mode mode" "entry_policy_id e = i" "entry_mode e = mode"
  shows "entry_ok ps e"
proof -
  have "supports ps i modes" using assms(1,3) by (auto simp: dispatch_supported_def list_all_iff)
  with assms(2,4-7) show ?thesis
    by (auto simp: supports_def entry_ok_def has_policy_def list_all_iff split: option.splits)
qed

lemma expression_table_ok:
  assumes "dispatch_supported fl ps" "table_ok ps h"
  shows "table_ok ps (add_expression_policies_to_hook_dispatch fl ps h)"
  unfolding add_expression_policies_to_hook_dispatch_def
proof (rule table_ok_foldl [OF assms(2)], clarsimp)
  fix h i p assume h: "table_ok ps h" and p: "(i, p) \<in> set ps"
  have i: "map_of ps i = Some p" using assms(1) p by (simp add: dispatch_supported_def)
  have s: "expressions_supported fl p" using assms(1) p by (auto simp: dispatch_supported_def list_all_iff)
  show "table_ok ps (foldl (\<lambda>h ev. if dispatched_evaluator fl ev then add_evaluator_hook_dispatch fl i p ev h else h)
      h (pol_evaluators p))"
  proof (rule table_ok_foldl [OF h])
    fix h ev assume h: "table_ok ps h" and ev: "ev \<in> set (pol_evaluators p)"
    show "table_ok ps (if dispatched_evaluator fl ev then add_evaluator_hook_dispatch fl i p ev h else h)"
    proof (cases "dispatched_evaluator fl ev")
      case True
      then have m: "entry_ok ps (expression_entry fl i p ev)" "[] \<notin> set (expression_events fl ev)"
          "[] \<notin> set (expression_tools fl ev)"
        using s ev i by (auto simp: expressions_supported_def list_all_iff entry_ok_def expression_entry_def)
      have "table_ok ps (add_evaluator_hook_dispatch fl i p ev h)"
        unfolding add_evaluator_hook_dispatch_def
        by (rule table_ok_foldl [OF h]) (use m in \<open>auto intro!: table_ok_append table_ok_ensure\<close>)
      with True show ?thesis by simp
    qed (simp add: h)
  qed
qed

lemma valid_mode_names: "valid_mode ''block''" "valid_mode ''advise''" "valid_mode ''record''"
  by (simp_all add: valid_mode_def)

lemma builtin_table_ok:
  assumes "dispatch_supported fl ps"
  shows "table_ok ps (add_commit_head_dispatch ps (add_python_write_dispatch ps
    (add_protected_branch_write_dispatch ps (add_protected_path_dispatch ps
      (add_blocking_bash_dispatch ps (add_git_hook_bypass_dispatch ps []))))))"
proof -
  note entry = builtin_entry_ok [OF assms]
  have in_table: "i \<in> set blocking_bash_policies \<Longrightarrow> (i, [''block'']) \<in> set builtin_modes"
    "i \<in> set python_write_policies \<Longrightarrow> (i, [python_write_dispatch_mode i]) \<in> set builtin_modes"
    "(''git.hook_bypass'', [''block'']) \<in> set builtin_modes"
    "(''filesystem.protected_path'', [''block'']) \<in> set builtin_modes"
    "(''filesystem.protected_branch_write'', [''block'']) \<in> set builtin_modes"
    "(''git.commit_head_advanced'', [''record'', ''block'']) \<in> set builtin_modes" for i
    unfolding builtin_modes_def by (simp_all add: image_iff)
  have empty: "table_ok ps []" by (simp add: table_ok_def)
  have s1: "table_ok ps (add_git_hook_bypass_dispatch ps h)" if "table_ok ps h" for h
    using that entry [OF _ in_table(3)] valid_mode_names
    by (simp add: add_git_hook_bypass_dispatch_def plain_entry_def table_ok_append)
  have s2: "table_ok ps (add_blocking_bash_dispatch ps h)" if "table_ok ps h" for h
    unfolding add_blocking_bash_dispatch_def
    by (rule table_ok_foldl [OF that])
      (simp add: table_ok_append entry [OF _ in_table(1)] plain_entry_def valid_mode_names)
  have s3: "table_ok ps (add_protected_path_dispatch ps h)" if "table_ok ps h" for h
    using that entry [OF _ in_table(4)] valid_mode_names
    by (simp add: add_protected_path_dispatch_def plain_entry_def table_ok_tools mutating_tools_def)
  have s4: "table_ok ps (add_protected_branch_write_dispatch ps h)" if "table_ok ps h" for h
    using that entry [OF _ in_table(5)] valid_mode_names
    by (simp add: add_protected_branch_write_dispatch_def plain_entry_def table_ok_tools mutating_tools_def)
  have s5: "table_ok ps (add_python_write_dispatch ps h)" if "table_ok ps h" for h
    unfolding add_python_write_dispatch_def
    by (rule table_ok_foldl [OF that])
      (simp add: table_ok_tools entry [OF _ in_table(2)] plain_entry_def python_write_dispatch_mode_def valid_mode_names)
  have s6: "table_ok ps (add_commit_head_dispatch ps h)" if "table_ok ps h" for h
    using that entry [OF _ in_table(6), of "''record''"] entry [OF _ in_table(6), of "''block''"] valid_mode_names
    by (simp add: add_commit_head_dispatch_def plain_entry_def table_ok_append)
  show ?thesis by (intro s1 s2 s3 s4 s5 s6 empty)
qed

section \<open>The other tables\<close>

lemma subset_ball_aux: "B \<subseteq> A \<Longrightarrow> \<forall>x \<in> A. P x \<Longrightarrow> \<forall>x \<in> B. P x"
  by blast

lemma linter_lists_known:
  "\<forall>(n, ids) \<in> set (compile_linter_dispatch fl ps). \<forall>i \<in> set ids. has_policy ps i"
proof -
  let ?ok' = "\<lambda>S :: (string \<times> string list) set. \<forall>(n, ids) \<in> S. \<forall>i \<in> set ids. has_policy ps i"
  let ?ok = "\<lambda>m :: (string \<times> string list) list. \<forall>(n, ids) \<in> set m. \<forall>i \<in> set ids. has_policy ps i"
  have scope: "?ok (add_linter_scope l s i)" if "?ok l" "has_policy ps i" for l s i
  proof -
    have "\<forall>j \<in> set (entries_of l s). has_policy ps j"
      using that(1) unfolding entries_of_def by (cases "map_of l s") (simp, force dest: map_of_SomeD)
    then have "?ok' (insert (s, entries_of l s @ [i]) (set l))" using that by auto
    then have "?ok (map_set s (entries_of l s @ [i]) l)"
      by (rule subset_ball_aux [OF set_map_set])
    with that(1) show ?thesis unfolding add_linter_scope_def by (cases "i \<in> set (entries_of l s)") simp_all
  qed
  note fold = foldl_inv [where P = "?ok"]
  have base: "?ok [(''files'', existing_policy_ids ps file_lint_policy_ids),
        (''staged'', existing_policy_ids ps staged_lint_policy_ids),
        (''smoke'', existing_policy_ids ps test_gate_policy_ids),
        (''full'', existing_policy_ids ps test_gate_policy_ids),
        (''cutover'', existing_policy_ids ps [''repo.required_ignores'']),
        (''commit-msg'', existing_policy_ids ps [''git.commitlint'', ''git.commit_attribution''])]"
    by (simp add: existing_policy_ids_def)
  show ?thesis
    unfolding compile_linter_dispatch_def add_expression_policies_to_linter_dispatch_def
  proof (rule fold [OF base])
    fix l :: "(string \<times> string list) list" and x assume l: "?ok l" and x: "x \<in> set ps"
    obtain i p where ip: "x = (i, p)" by force
    have hp: "has_policy ps i" using x ip by (force simp: has_policy_def map_of_eq_None_iff)
    show "?ok (case x of (i, p) \<Rightarrow> foldl (\<lambda>l ev. if eval_name ev = ''cel.expression'' \<and> expression_scope fl ev \<noteq> ''proxy''
        then foldl (\<lambda>l scope. add_linter_scope l scope i) l
          (string_slice_value fl (any_at (eval_options ev) ''dispatch_scopes'') [''files'', ''staged''])
        else l) l (pol_evaluators p))"
      unfolding ip prod.case
    proof (rule fold [OF l])
      fix l :: "(string \<times> string list) list" and ev assume l: "?ok l"
      have "?ok (foldl (\<lambda>l scope. add_linter_scope l scope i) l scopes)" for scopes
        by (rule fold [OF l]) (use scope hp in blast)
      with l show "?ok (if eval_name ev = ''cel.expression'' \<and> expression_scope fl ev \<noteq> ''proxy''
          then foldl (\<lambda>l scope. add_linter_scope l scope i) l
            (string_slice_value fl (any_at (eval_options ev) ''dispatch_scopes'') [''files'', ''staged''])
          else l)"
        by (intro if_split [where P = "?ok", THEN iffD2] conjI impI)
    qed
  qed
qed

theorem dispatch_tables_valid:
  assumes "dispatch_supported fl ps"
  shows "validate_hook_dispatch (dt_hooks (compile_dispatch fl ps)) ps = [] \<and>
    validate_policy_id_lists (dt_linter (compile_dispatch fl ps)) ps = [] \<and>
    validate_git_dispatch (dt_git (compile_dispatch fl ps)) ps = []"
proof (intro conjI)
  show "validate_hook_dispatch (dt_hooks (compile_dispatch fl ps)) ps = []"
    unfolding validate_hook_dispatch_iff compile_dispatch_def compile_hook_dispatch_def dispatch_tables.simps
    by (rule expression_table_ok [OF assms builtin_table_ok [OF assms]])
  show "validate_policy_id_lists (dt_linter (compile_dispatch fl ps)) ps = []"
    using linter_lists_known [of fl ps]
    by (simp add: validate_policy_id_lists_def compile_dispatch_def split_beta has_policy_def)
  have "concat (map (\<lambda>i. err_if (map_of ps i = None) (GitUnknownPolicy operation i))
      (dispatch_pre (git_dispatch_row ps a b) @ dispatch_post (git_dispatch_row ps a b))) = []" for operation a b
    by (simp add: git_dispatch_row_def existing_policy_ids_def has_policy_def)
  then show "validate_git_dispatch (dt_git (compile_dispatch fl ps)) ps = []"
    unfolding validate_git_dispatch_def compile_dispatch_def compile_git_dispatch_def dispatch_tables.simps
      list.map prod.case concat.simps by (simp only: append_Nil)
qed

end
