(* ===== verification/CompileRun.thy ===== *)
theory CompileRun
  imports CompileBundle ValidTables HookRunner
begin

text \<open>
  From configuration to verdict: what the compiler guarantees of a bundle, and what the hook runner
  does with such a bundle.
\<close>

section \<open>Enforcement that configuration cannot switch off\<close>

lemma validate_removed_paths_None:
  "validate_removed_paths file1 values = None \<longleftrightarrow>
   (\<forall>p \<in> set removed_critical_enforcement_config_paths. value_at values p = None)"
  by (auto simp: validate_removed_paths_def find_None_iff)

lemma load_checked:
  "load_compile_source W path True = Inr (values, hash) \<Longrightarrow> validate_removed_paths path values = None"
  by (auto simp: load_compile_source_def split: option.splits)

lemma compile_inputs_config:
  assumes "compile_inputs W o1 = Inr inputs"
  shows "\<exists>config hash. load_compile_source W (co_config o1) True = Inr (config, hash) \<and>
    (cp_config inputs = config \<or>
     (\<exists>repo_config hash' has_py. load_compile_source W (co_repo_config o1) True = Inr (repo_config, hash') \<and>
        cp_config inputs = ApplyWithEthosRoot (cw_sprint_float W) has_py config repo_config))"
  using assms
  by (auto simp: compile_inputs_def merge_repo_config_input_def Let_def split: sum.splits if_splits) blast+

lemma removed_paths_shape:
  "p \<in> set removed_critical_enforcement_config_paths \<Longrightarrow> \<exists>a b c. p = [a, b, c]"
  "p \<in> set removed_critical_enforcement_config_paths \<Longrightarrow> p \<notin> set profile_paths"
  by (auto simp: removed_critical_enforcement_config_paths_def profile_paths_def)

text \<open>Property C3. No configuration switches critical enforcement off: when the inputs of a compilation are
  accepted, the merged configuration, with the defaults, the profiles of the repository and its own
  file on top, has no entry at any of the removed paths, so nothing that reads one of them finds
  anything but its default.\<close>

theorem critical_toggles_absent:
  assumes "compile_inputs W o1 = Inr inputs"
  shows "\<forall>p \<in> set removed_critical_enforcement_config_paths. value_at (cp_config inputs) p = None"
proof
  fix p
  assume p: "p \<in> set removed_critical_enforcement_config_paths"
  obtain a b c where abc: "p = [a, b, c]" using removed_paths_shape(1) [OF p] by blast
  obtain config hash where c: "load_compile_source W (co_config o1) True = Inr (config, hash)"
    "cp_config inputs = config \<or>
     (\<exists>repo_config hash' has_py. load_compile_source W (co_repo_config o1) True = Inr (repo_config, hash') \<and>
        cp_config inputs = ApplyWithEthosRoot (cw_sprint_float W) has_py config repo_config)"
    using compile_inputs_config [OF assms] by blast
  have none: "value_at values p = None" if "load_compile_source W path True = Inr (values, hash)"
    for path "values" hash
    using load_checked [OF that] p by (simp add: validate_removed_paths_None)
  from c(2) show "value_at (cp_config inputs) p = None"
  proof (elim disjE exE conjE)
    assume "cp_config inputs = config"
    with none [OF c(1)] show ?thesis by simp
  next
    fix repo_config hash' has_py
    assume r: "load_compile_source W (co_repo_config o1) True = Inr (repo_config, hash')"
      and m: "cp_config inputs = ApplyWithEthosRoot (cw_sprint_float W) has_py config repo_config"
    show ?thesis
      using merged_config_paths [of "cw_sprint_float W" has_py config repo_config a b c]
        none [OF c(1)] none [OF r] removed_paths_shape(2) [OF p]
      unfolding m abc by blast
  qed
qed

section \<open>Dispatch of a compiled bundle\<close>

lemma CompileD:
  assumes "Compile W o1 = Inr b"
  shows "Validate (cw_sprint_float W) (cw_valid_expression W) b = []"
    and "cb_dispatch b = compile_dispatch (cw_sprint_float W) (cb_policies b)"
proof -
  obtain o2 inputs principles policies where "b = compiled_bundle_of W o2 inputs principles policies"
    and v: "Validate (cw_sprint_float W) (cw_valid_expression W) b = []"
    using assms by (auto simp: Compile_def Let_def split: sum.splits if_splits)
  then show "cb_dispatch b = compile_dispatch (cw_sprint_float W) (cb_policies b)"
    by (simp add: compiled_bundle_of_def Let_def)
  show "Validate (cw_sprint_float W) (cw_valid_expression W) b = []" by (rule v)
qed

lemma dispatch_entries_runtime:
  "dispatch_entries (runtime_bundle b) e =
     hook_entries (dt_hooks (cb_dispatch b)) (ev_hook_event_name e) (ev_tool_name e)"
  by (simp add: dispatch_entries_def runtime_bundle_def hook_entries_def entries_of_def split: option.split)

lemma evaluate_specs_error: "evaluate_specs R p ctx specs = Inl err \<Longrightarrow> err \<noteq> UnknownHookPolicy i"
  by (induction specs arbitrary: ctx) (auto split: option.splits sum.splits if_splits)

lemma entry_outcome_error:
  assumes "Compile W o1 = Inr b" and "entry \<in> set (dispatch_entries (runtime_bundle b) e)"
  shows "entry_outcome H R (runtime_bundle b) ctx entry \<noteq> Inl (UnknownHookPolicy i)"
  using valid_hook_entry [OF CompileD(1) [OF assms(1)] assms(2) [unfolded dispatch_entries_runtime]]
    evaluate_specs_error
  by (fastforce simp: entry_outcome_def runtime_bundle_policies evaluate_hook_policy_def Let_def
      split: sum.splits option.splits if_splits)

lemma dispatch_loop_error:
  "dispatch_loop H R bundle ctx entries ds = Inl err \<Longrightarrow>
   \<exists>entry \<in> set entries. entry_outcome H R bundle ctx entry = Inl err"
  by (induction entries arbitrary: ds) (auto simp: dispatch_loop_step simp del: dispatch_loop.simps(2) split: sum.splits if_splits)

text \<open>Property C13. The runner never meets a policy it does not know in a compiled bundle: evaluating the
  dispatched policies of any event fails only for an evaluator that is not registered or that fails,
  and every entry runs in a mode that its policy supports.\<close>

theorem compiled_dispatch_is_closed:
  assumes "Compile W o1 = Inr b"
  shows "evaluate_dispatched_policies H R (runtime_bundle b) ctx \<noteq> Inl (UnknownHookPolicy i) \<and>
    (\<forall>entry \<in> set (dispatch_entries (runtime_bundle b) e).
       \<exists>p. map_of (cb_policies b) (entry_policy_id entry) = Some p \<and>
         entry_mode entry \<in> set (pol_supported_modes p))"
  using dispatch_loop_error [of H R "runtime_bundle b" ctx] entry_outcome_error [OF assms]
    valid_hook_entry [OF CompileD(1) [OF assms]]
  unfolding evaluate_dispatched_policies_def dispatch_entries_runtime by blast

section \<open>A violation of a critical policy\<close>



section \<open>An example\<close>

definition named_principle :: "string \<Rightarrow> any" where
  "named_principle i = AMap [(''id'', AString i), (''title'', AString ''T'')]"

definition sample_ethos :: any_map where
  "sample_ethos =
     [(''principles'', AList (map named_principle [''one-path-for-critical-operations'', ''security-by-design'']))]"

definition bypass_expression :: any where
  "bypass_expression = AMap
     [(''id'', AString ''git.hook_bypass''), (''when'', AString ''true''), (''message'', AString ''m''),
      (''advice'', AString ''a''), (''principle_ids'', AList [AString ''security-by-design'']),
      (''mode'', AString ''record'')]"

definition switched_off :: "string list \<Rightarrow> any" where
  "switched_off names = AMap (map (\<lambda>n. (n, AMap [(''enabled'', ABool False)])) names)"

definition sample_config :: any_map where
  "sample_config =
     [(''go'', switched_off [''commit_attribution'', ''commitlint'']),
      (''syntax'', switched_off [''file_syntax'', ''merge_conflict'']),
      (''shell'', switched_off [''malformed_command'', ''best_practices'']),
      (''proxy'', switched_off [''search_replace_edit'']),
      (''security'', switched_off [''private_key'']),
      (''filesystem'', switched_off [''shebangs'', ''pii_scrubber'', ''license_header'']),
      (''policy'', AMap [(''expressions'', AList [bypass_expression])])]"

definition sample_world :: "any_map \<Rightarrow> ((string \<times> string) list \<Rightarrow> (string \<times> string) list) \<Rightarrow> compile_world" where
  "sample_world ethos order1 =
     \<lparr>cw_load_yaml = (\<lambda>p. if p = ''coding_ethos.yml'' then Some (ethos, ''h1'') else Some (sample_config, ''h2'')),
      cw_exists = (\<lambda>_. False), cw_getwd = Some ''/e'', cw_has_python_sources = (\<lambda>_ _. False),
      cw_valid_expression = any_expression, cw_download = (\<lambda>_. None), cw_hash = (\<lambda>s. s),
      cw_map_order = order1, cw_sprint_float = no_float, cw_now = ''now''\<rparr>"

definition sample_compile_options :: compile_options where
  "sample_compile_options =
     \<lparr>co_generated_at = ''t'', co_bundle_id = ''b'', co_primary = [], co_repo_ethos = [], co_config = [],
      co_repo_config = []\<rparr>"

definition sample_compile_world :: compile_world where
  "sample_compile_world = sample_world sample_ethos (\<lambda>m. m)"

definition sample_source_list :: "expression_policy_source list" where
  "sample_source_list = [\<lparr>xs_file = ''config.yaml'', xs_path_prefix = ''policy.expressions'', xs_expressions = [bypass_expression]\<rparr>]"

definition sample_compiled_principles :: "(string \<times> principle) list" where
  "sample_compiled_principles = compile_principles no_float sample_ethos"

lemma sample_inputs:
  "case compile_inputs sample_compile_world (normalized_compile_options sample_compile_world sample_compile_options) of
     Inl _ \<Rightarrow> False
   | Inr i \<Rightarrow> cp_config i = sample_config \<and> cp_primary i = sample_ethos \<and> cp_repo_config i = [] \<and>
       cp_expression_sources i = sample_source_list"
  by code_simp

lemma sample_policies:
  "case compile_policies sample_compile_world sample_config [] sample_source_list sample_compiled_principles ''/e'' of
     Inl _ \<Rightarrow> False
   | Inr ps \<Rightarrow> ps \<noteq> [] \<and> dispatch_supported no_float ps \<and>
       list_all (\<lambda>(i, p). validate_policy no_float any_expression sample_compiled_principles i p = []) ps \<and>
       (case map_of ps ''git.hook_bypass'' of
          None \<Rightarrow> False | Some p \<Rightarrow> map eval_name (pol_evaluators p) = [''cel.expression''])"
  by code_simp

lemma sample_rest:
  "sample_compiled_principles \<noteq> [] \<and> validate_principles sample_compiled_principles = [] \<and>
   validate_skills (compile_skills no_float sample_ethos sample_compiled_principles ''coding_ethos.yml'')
     sample_compiled_principles = [] \<and>
   source_root sample_compile_world ''config.yaml'' = ''/e''"
  by code_simp

lemma sample_compiles:
  "case Compile sample_compile_world sample_compile_options of
     Inl _ \<Rightarrow> False
   | Inr b \<Rightarrow>
       (case map_of (cb_policies b) ''git.hook_bypass'' of
          None \<Rightarrow> False | Some p \<Rightarrow> map eval_name (pol_evaluators p) = [''cel.expression''])"
proof -
  let ?W = "sample_compile_world"
  let ?o = "normalized_compile_options ?W sample_compile_options"
  have o: "co_primary ?o = ''coding_ethos.yml''" "co_config ?o = ''config.yaml''" "co_bundle_id ?o = ''b''"
    by (simp_all add: normalized_compile_options_def sample_compile_options_def)
  have W: "cw_sprint_float ?W = no_float" "cw_valid_expression ?W = any_expression"
    by (simp_all add: sample_compile_world_def sample_world_def)
  obtain i where i: "compile_inputs ?W ?o = Inr i" "cp_config i = sample_config" "cp_primary i = sample_ethos"
      "cp_repo_config i = []" "cp_expression_sources i = sample_source_list"
    using sample_inputs by (auto split: sum.splits)
  obtain ps where ps: "compile_policies ?W sample_config [] sample_source_list sample_compiled_principles ''/e'' = Inr ps"
      "ps \<noteq> []" "dispatch_supported no_float ps"
      "list_all (\<lambda>(i, p). validate_policy no_float any_expression sample_compiled_principles i p = []) ps"
      "case map_of ps ''git.hook_bypass'' of
          None \<Rightarrow> False | Some p \<Rightarrow> map eval_name (pol_evaluators p) = [''cel.expression'']"
    using sample_policies by (auto split: sum.splits)
  let ?b = "compiled_bundle_of ?W ?o i sample_compiled_principles ps"
  have b: "cb_policies ?b = ps" "cb_principles ?b = sample_compiled_principles" "cb_dispatch ?b = compile_dispatch no_float ps"
      "cb_skills ?b = compile_skills no_float sample_ethos sample_compiled_principles ''coding_ethos.yml''"
      "validate_bundle_fields ?b = []"
    by (simp_all add: compiled_bundle_of_def Let_def W i o validate_bundle_fields_def)
  have "Validate no_float any_expression ?b = []"
    using sample_rest dispatch_tables_valid [OF ps(3)] ps(4)
    by (simp add: Validate_def b list_all_iff split_beta)
  then have "Compile ?W sample_compile_options = Inr ?b"
    using sample_rest ps(1,2) unfolding Compile_def Let_def i(1) sum.case i(2-5) W o
      sample_compiled_principles_def [symmetric] by simp
  with ps(5) show ?thesis by (simp only: sum.case b(1))
qed

definition expression_registry :: registry where
  "expression_registry name1 =
     (if name1 = ''cel.expression'' then Some (\<lambda>p ctx. Inr [NewDecision ''block'' p]) else None)"



section \<open>Two weaknesses\<close>

lemma policies_governed_keep:
  "policies_governed fl ps ps' \<Longrightarrow> map_of ps i = Some p \<Longrightarrow>
   (\<And>g. governance_from_policy fl p = Some g \<Longrightarrow> \<not> gv_allow_override g) \<Longrightarrow> map_of ps' i = Some p"
  unfolding policies_governed_def using governed_unreplaceable by metis

text \<open>Fact. The identity of a bundle that is not given one depends on the order in which the map of the source
  hashes is visited: the same sources give two identities, although nothing has changed.\<close>

theorem bundle_id_depends_on_map_order:
  "default_bundle_id (sample_world sample_ethos (\<lambda>m. m)) ''p'' ''c'' [(''p'', ''1''), (''c'', ''2'')] \<noteq>
   default_bundle_id (sample_world sample_ethos rev) ''p'' ''c'' [(''p'', ''1''), (''c'', ''2'')]"
  by (simp add: default_bundle_id_def sample_world_def)

text \<open>Fact. Every policy that is built in refers only to principles that the ethos file declares, except the one
  for search and replace edits, whose principles are written out: a bundle that contains it compiles only
  with an ethos file that declares both of them.\<close>

theorem search_replace_needs_principles:
  assumes "Compile W o1 = Inr b"
    and "map_of (cb_policies b) ''proxy.search_replace_edit'' = Some ProxySearchReplaceEditPolicy"
  shows "map_of (cb_principles b) ''one-path-for-critical-operations'' \<noteq> None \<and>
    map_of (cb_principles b) ''security-by-design'' \<noteq> None"
proof -
  have "\<forall>(i, p) \<in> set (cb_policies b).
      validate_policy (cw_sprint_float W) (cw_valid_expression W) (cb_principles b) i p = []"
    using CompileD(1) [OF assms(1)] by (simp add: Validate_def split_beta)
  then have "validate_policy_principles ''proxy.search_replace_edit'' ProxySearchReplaceEditPolicy (cb_principles b) = []"
    using map_of_SomeD [OF assms(2)] by (auto simp: validate_policy_def)
  then show ?thesis
    by (auto simp: validate_policy_principles_def ProxySearchReplaceEditPolicy_def)
qed

section \<open>Witnesses\<close>

lemma sample_inputs_compile: "\<not> isl (compile_inputs sample_compile_world sample_compile_options)"
  by code_simp

theorem critical_toggles_absent_witness:
  "\<exists>inputs. compile_inputs sample_compile_world sample_compile_options = Inr inputs \<and>
     value_at (cp_config inputs) [''git'', ''hook_bypass'', ''enabled''] = None"
proof -
  obtain inputs where i: "compile_inputs sample_compile_world sample_compile_options = Inr inputs"
    using sample_inputs_compile by (cases "compile_inputs sample_compile_world sample_compile_options") auto
  moreover have "value_at (cp_config inputs) [''git'', ''hook_bypass'', ''enabled''] = None"
    by (rule bspec [OF critical_toggles_absent [OF i]]) (simp add: removed_critical_enforcement_config_paths_def)
  ultimately show ?thesis by blast
qed

theorem compiled_dispatch_is_closed_witness:
  "\<exists>b. Compile sample_compile_world sample_compile_options = Inr b \<and>
     evaluate_dispatched_policies (sample_env ls_stmts []) expression_registry (runtime_bundle b)
       (CollectInspectionContext (sample_env ls_stmts []) (sample_event ''claude'' ''touch x'')) \<noteq>
       Inl (UnknownHookPolicy ''git.hook_bypass'')"
proof -
  obtain b where b: "Compile sample_compile_world sample_compile_options = Inr b"
    using sample_compiles by (auto split: sum.splits)
  then show ?thesis using compiled_dispatch_is_closed [OF b] by blast
qed

end
