(* ===== verification/Spec2Isabelle.thy ===== *)
theory Spec2Isabelle
  imports GitRoute ProviderOutput GitWrap AdminApproval TokenLedger InterceptRun InterceptConnect
    CommitHead HookRoutes MemoryRace FileGuards CelShell
    EditRoute ToolOutput Normalize RepoIgnore ExecGuard SyncState CompileRun
begin

text \<open>
  A verification development of coding-ethos, the program that stands between coding agents
  (Claude Code, Codex, Gemini, Kimi) and a repository: it decides what an agent may run, rewrites
  what must go through a managed tool, watches the traffic between the agent and its model, and
  keeps the memory the agents share. The source is Go, under \<open>go/\<close>.

  \<^bold>\<open>The parts and how they interact.\<close> An agent sends an event to the hook runner before (and after)
  it uses a tool. The runner collects what the policies read, asks a list of routes whether the call
  is to be refused or rewritten, dispatches the policies bound to the event, merges all outputs into
  one verdict and encodes it in the form the agent understands. A Git command that gets through runs
  the managed Git wrapper, which evaluates the policies of its own operation, checks and forces
  signatures, and asks for administrator approval where a policy wants it. The agent's requests to
  its model go through the intercepting proxy, which decrypts the tunnels it has a policy for, runs
  the proxy policies with the data loss detectors over both directions and records one event for
  every decision.

  \<^bold>\<open>The theories.\<close> Names of records, constructors and functions are those of the code.

  \<^item> Foundations. \<open>GoStrings\<close>, \<open>GoLines\<close>, \<open>GoNumbers\<close>, \<open>Runes\<close>: the functions of \<open>strings\<close>,
    \<open>strconv\<close>, \<open>unicode/utf8\<close> and \<open>path\<close> that are called, on strings of bytes. \<open>Paths\<close>, \<open>PathRel\<close>:
    \<open>filepath.Clean\<close>, \<open>Dir\<close>, \<open>Match\<close> and \<open>Rel\<close>. \<open>PathWalk\<close>: the loop from a path to the root, with
    the measure that ends it. \<open>Regexp\<close>: the matchers the regular expressions are written with.
  \<^item> Shell. \<open>Shellparse\<close> (\<open>internal/shellparse\<close>): from a bash syntax tree to commands and control
    fields. \<open>Shellquote\<close> (\<open>internal/shellquote\<close>): quoting, with a specification of how a shell splits
    words that the rewriting routes are proved against. \<open>ShellReading\<close>: both against descriptions that do
    not follow their code, the calls that stand in a tree and a shell that reads a simple command.
  \<^item> Events and decisions. \<open>Diagnostics\<close> (\<open>go/diagnostics\<close>), \<open>Policy\<close> (\<open>internal/policy\<close>: decisions,
    the part of the bundle that is read at run time), \<open>HookEvent\<close> (\<open>internal/hooks/event.go\<close>).
  \<^item> The policy compiler (\<open>internal/policy\<close>, \<open>configdata\<close>, \<open>configprofiles\<close>). \<open>ConfigData\<close>: values of
    a configuration, merging, profiles. \<open>PolicyTables\<close>: the policies that are built in. \<open>EvidenceMaps\<close>:
    advice for diagnostics, with \<open>go/diagnostics/enrich.go\<close>. \<open>ExpressionPolicy\<close>: the policies a
    configuration adds, and which may replace which. \<open>CompileDispatch\<close>: which policy runs for which
    event. \<open>ValidateBundle\<close>, \<open>ValidTables\<close>, \<open>CompileBundle\<close>: the checks, when they pass, and \<open>Compile\<close>. \<open>CompileProofs\<close> and
    \<open>CompileRun\<close>: what a compiled bundle promises, up to a run of the hook runner on it.
  \<^item> Routes of the hook runner, all in \<open>internal/hooks\<close>. \<open>GateStatus\<close> (\<open>gate_exit_status.go\<close>),
    \<open>GitRoute\<close> (\<open>git_wrapper_enforcement.go\<close>), \<open>LintRoute\<close> (\<open>lint_tool_capture.go\<close>, over \<open>Catalog\<close>,
    which is \<open>go/toolcatalog\<close>), \<open>PythonRoute\<close> (\<open>python_runtime_route.go\<close>), \<open>MemoryRoute\<close>
    (\<open>memory_route.go\<close>), \<open>Routes\<close> (\<open>admin_readonly.go\<close>, \<open>parallel_tool_batch.go\<close>,
    \<open>malformed_shell.go\<close>, \<open>shell_file_tool_route.go\<close>).
  \<^item> The runner. \<open>DebugFlag\<close> (\<open>debug_flag.go\<close>), \<open>HookRunner\<close> (\<open>inspection.go\<close>, \<open>runner.go\<close>,
    \<open>result.go\<close>, \<open>tracking.go\<close>), \<open>ProviderOutput\<close> (\<open>provider_output.go\<close>, \<open>contract_v1.go\<close>),
    \<open>HookRoutes\<close>: the runner with the modelled routes put in for its arguments. \<open>Feedback\<close>
    (\<open>internal/feedback\<close>): how reports are written.
  \<^item> Evaluators (\<open>internal/evaluators\<close>). \<open>CommitMessage\<close>, \<open>CommitHead\<close>: commit messages, moved heads.
    \<open>StagedAdmin\<close>: administrative files in a commit. \<open>FileGuards\<close>: checks of file contents.
    \<open>CelGit\<close>, \<open>CelShell\<close> (\<open>internal/celexpr\<close>): the facts expressions read of a command.
  \<^item> Git. \<open>GitWrap\<close> (\<open>internal/gitwrap\<close>), \<open>AdminApproval\<close> (\<open>admin_approval.go\<close>).
  \<^item> Edits and tool output. \<open>SearchReplace\<close> (\<open>agentproxy/search_replace_patch.go\<close>), \<open>EditRoute\<close>
    (\<open>hooks/proxy_search_replace.go\<close>): edits as exact blocks. \<open>Transforms\<close>, \<open>TokenBudget\<close>,
    \<open>Compression\<close>, \<open>EvidenceStore\<close>, \<open>Invocations\<close> (\<open>internal/agentproxy\<close>): the transforms of a
    tool's output and the store of the full text. \<open>ToolOutput\<close> (\<open>hooks/proxy_output.go\<close>): their use.
  \<^item> Memory. \<open>Memory\<close>, \<open>MemoryImport\<close> (\<open>internal/memories\<close>), \<open>MemoryImportProofs\<close> (a second import
    changes nothing) and \<open>MemoryRace\<close> (the processes that share the store).
  \<^item> The agent proxy. \<open>Dlp\<close>, \<open>ProxyEvents\<close>, \<open>Intercept\<close>, \<open>InterceptConnect\<close>
    (\<open>internal/agentproxy\<close>), \<open>ProxyPolicy\<close> (\<open>internal/proxypolicy\<close>), \<open>LeafCache\<close>
    (\<open>internal/agentproxy/ca\<close>), with \<open>InterceptProofs\<close> and \<open>InterceptRun\<close> for what they promise.
  \<^item> \<open>TokenLedger\<close> (\<open>internal/tokeneconomy\<close>): the ledgers of the providers. \<open>MinHash\<close>, \<open>Normalize\<close>
    (\<open>internal/minhash\<close>): similarity of functions. \<open>RepoIgnore\<close> (\<open>internal/repoignore\<close>), \<open>ExecGuard\<close>
    (\<open>internal/execguard\<close>), \<open>SyncState\<close> (\<open>internal/syncstate\<close>): the repaired ignore file, the bound on
    programs that start each other, the record of an installation.

  \<^bold>\<open>State and effects.\<close> A handler is a function from the state it reads to the state and the list of
  effects it leaves, in the order of the code: the proxy answers with a list of sent requests,
  response bytes and recorded events; the memory store is a record with its directories, files and
  index; the leaf cache is a record with its order. What goroutines or processes interleave is a
  step relation over these operations (\<open>mint_step\<close> in \<open>LeafCache\<close>; \<open>race_step\<close> in \<open>MemoryRace\<close>, where every
  access to a file is a step that may fail), with invariants over its reachable states. Errors are the left side of a sum. A file system, a network,
  a clock, a hash, a decoder and a parser are arguments: records such as \<open>bash\<close> (mvdan.cc/sh) and
  \<open>hook_env\<close>, or functions.

  \<^bold>\<open>What the lemmas show.\<close> The routes: nothing that should be refused gets past (gates hidden by an
  operator, Git and lint tools outside of control statements, memory files of a provider), and what
  is rewritten reads back as the same words under the shell's rules. \<open>GateStatus\<close> has a small shell of its
  own (\<open>run_list\<close>: lists, pipes, \<open>pipefail\<close>, \<open>$?\<close>) that says what status an accepted list reports. The runner: a blocking policy or route reaches the verdict
  and the verdict reaches the provider, errors fail closed. The wrapper: what the checks
  before and after a command guarantee about signatures, and who is approved. The compiler: no configuration weakens the
  critical policies, replaces a policy that does not allow it, or dispatches what a bundle does not
  hold. Edits and output: an edit of a text file under a relative path changes what its blocks say, a
  tool's output stays within its budget, its full text is kept. The proxy: exactly which requests leave and
  which tunnels are decrypted, everything a client is sent for a denial and what is recorded. The
  stores: invariants under every interleaving, imports that lose nothing of each other and are
  idempotent, ledgers summed without wrap-around. Lemmas named after a behaviour that surprises
  (\<open>managed_segment_exempts_chain\<close>, \<open>hidden_git_passes\<close>, \<open>conditional_pipefail_accepted\<close>,
  \<open>ensure_loses_import\<close>, \<open>foreign_memory_not_refused\<close>, \<open>pushed_ref_not_checked\<close>) show by an instance what
  the code does there, and where the properties beside them end.

  \<^bold>\<open>Bounds.\<close> Recursions that are not structural have a measure or the bound of the code: nested
  scripts of a gate to depth 3, then refused; lines of a scanner to 65535 bytes, of a ledger to
  33554432; normalized bodies to 8 MiB; 256 leaves; 25 attempts at the lock; project keys of 240
  bytes; 32 programs that start each other; 50000 tokens of tool output. Counters that can overflow are 64-bit words (\<open>TokenLedger\<close>, the limits of \<open>Intercept\<close>)
  or integers wrapped to 64 bits (the limits of \<open>Compression\<close>, proved exact below half that range);
  lengths and offsets inside a string are natural numbers or integers, as they stay below its length.
  There is no fuel that the code does not have.

  \<^bold>\<open>Not modelled.\<close> Decoding and encoding JSON, YAML and TOML, regular expression search as an engine
  (each expression is written as a matcher of its own), cryptography, files, processes, sockets and
  clocks: they are arguments. Of the program: the command line front ends, the MCP server, the
  storage and queries of the code index (SQLite, tree-sitter), the CEL library and its bindings,
  sandboxing through the kernel, the generators of tool configuration, prompts and message texts:
  mostly glue over libraries and text. The remaining evaluators, the pruning of runtime output and the
  grouping of the code index are pure and would be the next parts.
\<close>


section \<open>A masked gate, from the event to the verdict\<close>





end
